(* ===== verification/Prelude.thy ===== *)
theory Prelude
  imports Main "HOL-Library.Word" "HOL-Library.Finite_Map" "HOL-Library.List_Lexorder"
    "HOL-Library.Char_ord"
begin

text \<open>
  What every component of the static-publication model shares: the error monad (a Python
  \<^verbatim>\<open>raise\<close> is a left value, a \<^verbatim>\<open>return\<close> a right one), bytes and the fixed-width integer
  codecs of \<^verbatim>\<open>struct\<close> and \<^verbatim>\<open>int.to_bytes\<close>, the character classes the regular expressions
  of the sources use, and the Python list and string operations (\<^verbatim>\<open>split\<close>, \<^verbatim>\<open>join\<close>, slices).
\<close>

section \<open>Collections of rewrite rules\<close>

named_theorems result_simps \<open>case analysis of computations that may raise\<close>
named_theorems codec_simps \<open>encoding and decoding of fixed-width integers\<close>

section \<open>Computations that may raise\<close>

definition bindE :: "'e + 'a \<Rightarrow> ('a \<Rightarrow> 'e + 'b) \<Rightarrow> 'e + 'b" where
  "bindE m f = (case m of Inl e \<Rightarrow> Inl e | Inr x \<Rightarrow> f x)"

text \<open>\<^verbatim>\<open>except E as error: raise F from error\<close>: every exception of the body becomes \<open>f e\<close>.\<close>

definition mapE :: "('e \<Rightarrow> 'f) \<Rightarrow> 'e + 'a \<Rightarrow> 'f + 'a" where
  "mapE f m = (case m of Inl e \<Rightarrow> Inl (f e) | Inr x \<Rightarrow> Inr x)"

text \<open>A comprehension whose element expression may raise: left to right, first error wins.\<close>

fun traverseE :: "('a \<Rightarrow> 'e + 'b) \<Rightarrow> 'a list \<Rightarrow> 'e + 'b list" where
  "traverseE f [] = Inr []"
| "traverseE f (x # xs) = bindE (f x) (\<lambda>y. bindE (traverseE f xs) (\<lambda>ys. Inr (y # ys)))"

text \<open>A \<^verbatim>\<open>for\<close> loop over a sequence that carries a state and may raise.\<close>

fun foldE :: "('s \<Rightarrow> 'a \<Rightarrow> 'e + 's) \<Rightarrow> 's \<Rightarrow> 'a list \<Rightarrow> 'e + 's" where
  "foldE f s [] = Inr s"
| "foldE f s (x # xs) = bindE (f s x) (\<lambda>s'. foldE f s' xs)"

definition is_ok :: "'e + 'a \<Rightarrow> bool" where
  "is_ok m = (case m of Inl _ \<Rightarrow> False | Inr _ \<Rightarrow> True)"

lemma bindE_simps [simp]:
  "bindE (Inl e) f = Inl e"
  "bindE (Inr x) f = f x"
  by (simp_all add: bindE_def)

lemma mapE_simps [simp]:
  "mapE g (Inl e) = Inl (g e)"
  "mapE g (Inr x) = Inr x"
  by (simp_all add: mapE_def)

lemma is_ok_simps [simp]: "is_ok (Inl e) = False" "is_ok (Inr x) = True"
  by (simp_all add: is_ok_def)

lemma bindE_Inr_iff [result_simps]:
  "bindE m f = Inr y \<longleftrightarrow> (\<exists>x. m = Inr x \<and> f x = Inr y)"
  by (cases m) auto

lemma bindE_Inl_iff [result_simps]:
  "bindE m f = Inl e \<longleftrightarrow> m = Inl e \<or> (\<exists>x. m = Inr x \<and> f x = Inl e)"
  by (cases m) auto

lemma mapE_Inr_iff [result_simps]: "mapE g m = Inr y \<longleftrightarrow> m = Inr y"
  by (cases m) auto

lemma is_ok_iff: "is_ok m \<longleftrightarrow> (\<exists>x. m = Inr x)"
  by (cases m) auto

lemma is_ok_bindE: "is_ok (bindE m f) \<longleftrightarrow> (\<exists>x. m = Inr x \<and> is_ok (f x))"
  by (cases m) auto

lemma if_Inl_Inr_iff [result_simps]:
  "(if c then Inl e else m) = Inr y \<longleftrightarrow> \<not> c \<and> m = Inr y"
  by simp

lemma traverseE_Inr_iff [result_simps]:
  "traverseE f xs = Inr ys \<longleftrightarrow> list_all2 (\<lambda>x y. f x = Inr y) xs ys"
proof (induction xs arbitrary: ys)
  case Nil
  then show ?case by auto
next
  case (Cons x xs)
  then show ?case by (cases ys) (auto simp: result_simps)
qed

lemma foldE_append:
  "foldE f s (xs @ ys) = bindE (foldE f s xs) (\<lambda>s'. foldE f s' ys)"
  by (induction xs arbitrary: s) (auto simp: bindE_def split: sum.splits)

lemma foldE_concat: "foldE (\<lambda>s x. foldE f s (g x)) s xs = foldE f s (concat (map g xs))"
proof (induction xs arbitrary: s)
  case (Cons x xs)
  then show ?case by (cases "foldE f s (g x)") (simp_all add: foldE_append)
qed simp

text \<open>The loop rule: an invariant every successful iteration keeps holds at the end.\<close>

lemma foldE_invariant:
  assumes "foldE f s xs = Inr t" and "P s"
    and "\<And>s x s'. x \<in> set xs \<Longrightarrow> P s \<Longrightarrow> f s x = Inr s' \<Longrightarrow> P s'"
  shows "P t"
  using assms
proof (induction xs arbitrary: s)
  case Nil
  then show ?case by simp
next
  case (Cons x xs)
  from Cons.prems(1) obtain s' where s': "f s x = Inr s'" "foldE f s' xs = Inr t"
    by (auto simp: result_simps)
  have "P s'" using Cons.prems s'(1) by auto
  with Cons.IH[OF s'(2)] Cons.prems(3) show ?case by auto
qed

section \<open>Bytes and fixed-width integers\<close>

type_synonym byte = "8 word"
type_synonym bytes = "byte list"

definition byte_of :: "nat \<Rightarrow> byte" where
  "byte_of n = word_of_nat n"

text \<open>\<^verbatim>\<open>int.from_bytes(bs, "big")\<close>, \<^verbatim>\<open>int.to_bytes(n, "big")\<close> and the little-endian readings.\<close>

fun be_nat_acc :: "nat \<Rightarrow> bytes \<Rightarrow> nat" where
  "be_nat_acc a [] = a"
| "be_nat_acc a (b # bs) = be_nat_acc (a * 256 + unat b) bs"

definition be_nat :: "bytes \<Rightarrow> nat" where
  "be_nat bs = be_nat_acc 0 bs"

fun le_nat :: "bytes \<Rightarrow> nat" where
  "le_nat [] = 0"
| "le_nat (b # bs) = unat b + 256 * le_nat bs"

fun nat_le :: "nat \<Rightarrow> nat \<Rightarrow> bytes" where
  "nat_le 0 n = []"
| "nat_le (Suc k) n = byte_of n # nat_le k (n div 256)"

definition nat_be :: "nat \<Rightarrow> nat \<Rightarrow> bytes" where
  "nat_be k n = rev (nat_le k n)"

lemma unat_byte_of [codec_simps]: "unat (byte_of n) = n mod 256"
  by (simp add: byte_of_def unat_of_nat)

lemma unat_byte_less [simp]: "unat (b :: byte) < 256"
  using unsigned_less[of b] by simp

lemma be_nat_acc_eq: "be_nat_acc a bs = a * 256 ^ length bs + le_nat (rev bs)"
proof -
  have snoc: "le_nat (xs @ [b]) = le_nat xs + unat b * 256 ^ length xs" for xs b
    by (induction xs) (auto simp: algebra_simps)
  show ?thesis
    by (induction bs arbitrary: a) (auto simp: snoc algebra_simps)
qed

lemma be_nat_eq [codec_simps]: "be_nat bs = le_nat (rev bs)"
  by (simp add: be_nat_def be_nat_acc_eq)

lemma le_nat_less: "le_nat bs < 256 ^ length bs"
proof (induction bs)
  case Nil
  then show ?case by simp
next
  case (Cons b bs)
  have "unat b < 256" by simp
  then have "unat b + 256 * le_nat bs < 256 * (le_nat bs + 1)" by simp
  also have "\<dots> \<le> 256 * 256 ^ length bs" using Cons.IH by (intro mult_le_mono) auto
  finally show ?case by simp
qed

lemma be_nat_less: "be_nat bs < 256 ^ length bs"
  using le_nat_less[of "rev bs"] by (simp add: codec_simps)

lemma length_nat_le [simp]: "length (nat_le k n) = k"
  by (induction k arbitrary: n) auto

lemma length_nat_be [simp]: "length (nat_be k n) = k"
  by (simp add: nat_be_def)

lemma le_nat_nat_le: "le_nat (nat_le k n) = n mod 256 ^ k"
proof (induction k arbitrary: n)
  case 0
  then show ?case by simp
next
  case (Suc k)
  have "n mod (256 * 256 ^ k) = 256 * (n div 256 mod 256 ^ k) + n mod 256"
    by (rule mod_mult2_eq)
  with Suc show ?case by (simp add: codec_simps)
qed

lemma nat_le_le_nat: "nat_le (length bs) (le_nat bs) = bs"
proof (induction bs)
  case Nil
  then show ?case by simp
next
  case (Cons b bs)
  have b: "unat b < 256" by simp
  have "(unat b + 256 * le_nat bs) div 256 = le_nat bs" using b by simp
  moreover have "byte_of (unat b + 256 * le_nat bs) = b"
    using b by (simp add: word_unat_eq_iff codec_simps)
  ultimately show ?case using Cons.IH by simp
qed

lemma be_nat_nat_be: "be_nat (nat_be k n) = n mod 256 ^ k"
  by (simp add: nat_be_def codec_simps le_nat_nat_le)

lemma be_nat_nat_be_id: "n < 256 ^ k \<Longrightarrow> be_nat (nat_be k n) = n"
  by (simp add: be_nat_nat_be)

lemma nat_be_be_nat: "nat_be (length bs) (be_nat bs) = bs"
  using nat_le_le_nat[of "rev bs"] by (simp add: nat_be_def codec_simps rev_swap)

lemma be_nat_inj: "length xs = length ys \<Longrightarrow> be_nat xs = be_nat ys \<Longrightarrow> xs = ys"
  by (metis nat_be_be_nat)

section \<open>Characters, hexadecimal digits and strings\<close>

text \<open>The character classes \<^verbatim>\<open>[0-9a-f]\<close>, \<^verbatim>\<open>[a-z0-9]\<close> and \<^verbatim>\<open>[a-z0-9-]\<close> of the regular expressions.\<close>

definition char_code :: "char \<Rightarrow> nat" where
  "char_code c = of_char c"

definition is_digit :: "char \<Rightarrow> bool" where
  "is_digit c \<longleftrightarrow> 48 \<le> char_code c \<and> char_code c \<le> 57"

definition is_lower :: "char \<Rightarrow> bool" where
  "is_lower c \<longleftrightarrow> 97 \<le> char_code c \<and> char_code c \<le> 122"

definition is_lower_hex :: "char \<Rightarrow> bool" where
  "is_lower_hex c \<longleftrightarrow> is_digit c \<or> 97 \<le> char_code c \<and> char_code c \<le> 102"

definition is_lower_alnum :: "char \<Rightarrow> bool" where
  "is_lower_alnum c \<longleftrightarrow> is_lower c \<or> is_digit c"

definition is_ascii :: "char \<Rightarrow> bool" where
  "is_ascii c \<longleftrightarrow> char_code c < 128"

lemmas char_class_defs = is_digit_def is_lower_def is_lower_hex_def is_lower_alnum_def is_ascii_def
  char_code_def

text \<open>One lowercase hexadecimal digit, \<^verbatim>\<open>"0123456789abcdef"[n]\<close>.\<close>

definition hex_digit :: "nat \<Rightarrow> char" where
  "hex_digit n = char_of (if n < 10 then 48 + n else 87 + n)"

definition unhex_digit :: "char \<Rightarrow> nat" where
  "unhex_digit c = (if is_digit c then char_code c - 48 else char_code c - 87)"

lemma char_code_hex_digit: "n < 16 \<Longrightarrow> char_code (hex_digit n) = (if n < 10 then 48 + n else 87 + n)"
  by (simp add: char_code_def hex_digit_def)

lemma is_lower_hex_hex_digit [simp]: "n < 16 \<Longrightarrow> is_lower_hex (hex_digit n)"
  by (simp add: is_lower_hex_def is_digit_def char_code_hex_digit)

lemma unhex_hex_digit [simp]: "n < 16 \<Longrightarrow> unhex_digit (hex_digit n) = n"
  by (simp add: unhex_digit_def is_digit_def char_code_hex_digit)

lemma hex_unhex_digit: "is_lower_hex c \<Longrightarrow> hex_digit (unhex_digit c) = c"
  by (auto simp: hex_digit_def unhex_digit_def char_class_defs)

lemma unhex_digit_less: "is_lower_hex c \<Longrightarrow> unhex_digit c < 16"
  by (auto simp: unhex_digit_def char_class_defs)

text \<open>\<^verbatim>\<open>bytes.hex()\<close> and \<^verbatim>\<open>bytes.fromhex\<close> (on an even number of lowercase digits).\<close>

fun hex_of_bytes :: "bytes \<Rightarrow> string" where
  "hex_of_bytes [] = []"
| "hex_of_bytes (b # bs) = hex_digit (unat b div 16) # hex_digit (unat b mod 16) # hex_of_bytes bs"

fun bytes_of_hex :: "string \<Rightarrow> bytes" where
  "bytes_of_hex (h # l # cs) = byte_of (unhex_digit h * 16 + unhex_digit l) # bytes_of_hex cs"
| "bytes_of_hex _ = []"

lemma length_hex_of_bytes [simp]: "length (hex_of_bytes bs) = 2 * length bs"
  by (induction bs) auto

lemma hex_of_bytes_lower_hex: "list_all is_lower_hex (hex_of_bytes bs)"
proof -
  have "unat b div 16 < 16" for b :: byte using unat_byte_less[of b] by linarith
  then show ?thesis by (induction bs) auto
qed

lemma bytes_of_hex_hex_of_bytes [codec_simps]: "bytes_of_hex (hex_of_bytes bs) = bs"
proof (induction bs)
  case Nil
  then show ?case by simp
next
  case (Cons b bs)
  have "unat b div 16 < 16" using unat_byte_less[of b] by linarith
  with Cons show ?case by (simp add: word_unat_eq_iff codec_simps)
qed

lemma length_bytes_of_hex: "length (bytes_of_hex cs) = length cs div 2"
  by (induction cs rule: bytes_of_hex.induct) auto

lemma hex_of_bytes_bytes_of_hex [codec_simps]:
  "even (length cs) \<Longrightarrow> list_all is_lower_hex cs \<Longrightarrow> hex_of_bytes (bytes_of_hex cs) = cs"
proof (induction cs rule: bytes_of_hex.induct)
  case (1 h l cs)
  then have hl: "unhex_digit h < 16" "unhex_digit l < 16" by (auto dest: unhex_digit_less)
  with 1 show ?case by (simp add: codec_simps hex_unhex_digit)
qed auto

lemma hex_of_bytes_inj: "hex_of_bytes xs = hex_of_bytes ys \<Longrightarrow> xs = ys"
  by (metis bytes_of_hex_hex_of_bytes)

text \<open>\<^verbatim>\<open>'%0kx' % n\<close> and \<^verbatim>\<open>int(s, 16)\<close> on lowercase hexadecimal numerals.\<close>

fun hex_rev :: "nat \<Rightarrow> nat \<Rightarrow> string" where
  "hex_rev 0 n = []"
| "hex_rev (Suc k) n = hex_digit (n mod 16) # hex_rev k (n div 16)"

definition hex_nat :: "nat \<Rightarrow> nat \<Rightarrow> string" where
  "hex_nat k n = rev (hex_rev k n)"

fun nat_of_hex_rev :: "string \<Rightarrow> nat" where
  "nat_of_hex_rev [] = 0"
| "nat_of_hex_rev (c # cs) = unhex_digit c + 16 * nat_of_hex_rev cs"

definition nat_of_hex :: "string \<Rightarrow> nat" where
  "nat_of_hex s = nat_of_hex_rev (rev s)"

lemma length_hex_rev [simp]: "length (hex_rev k n) = k"
  by (induction k arbitrary: n) auto

lemma length_hex_nat [simp]: "length (hex_nat k n) = k"
  by (simp add: hex_nat_def)

lemma hex_rev_lower_hex: "list_all is_lower_hex (hex_rev k n)"
  by (induction k arbitrary: n) auto

lemma hex_nat_lower_hex: "list_all is_lower_hex (hex_nat k n)"
  using hex_rev_lower_hex by (simp add: hex_nat_def)

lemma hex_rev_nth: "i < k \<Longrightarrow> hex_rev k n ! i = hex_digit (n div 16 ^ i mod 16)"
proof (induction k arbitrary: n i)
  case 0
  then show ?case by simp
next
  case (Suc k)
  then show ?case by (cases i) (auto simp: div_mult2_eq)
qed

lemma hex_nat_nth: "i < k \<Longrightarrow> hex_nat k n ! i = hex_digit (n div 16 ^ (k - Suc i) mod 16)"
  by (simp add: hex_nat_def rev_nth hex_rev_nth)

lemma nat_of_hex_rev_hex_rev: "nat_of_hex_rev (hex_rev k n) = n mod 16 ^ k"
  by (induction k arbitrary: n) (auto simp: mod_mult2_eq)

lemma nat_of_hex_hex_nat: "nat_of_hex (hex_nat k n) = n mod 16 ^ k"
  by (simp add: nat_of_hex_def hex_nat_def nat_of_hex_rev_hex_rev)

lemma hex_rev_nat_of_hex_rev:
  "list_all is_lower_hex s \<Longrightarrow> hex_rev (length s) (nat_of_hex_rev s) = s"
proof (induction s)
  case Nil
  then show ?case by simp
next
  case (Cons c s)
  then have "unhex_digit c < 16" by (simp add: unhex_digit_less)
  with Cons show ?case by (simp add: hex_unhex_digit)
qed

lemma hex_nat_nat_of_hex:
  "list_all is_lower_hex s \<Longrightarrow> hex_nat (length s) (nat_of_hex s) = s"
  using hex_rev_nat_of_hex_rev[of "rev s"] by (simp add: hex_nat_def nat_of_hex_def rev_swap)

lemma nat_of_hex_less: "list_all is_lower_hex s \<Longrightarrow> nat_of_hex s < 16 ^ length s"
proof -
  assume s: "list_all is_lower_hex s"
  have "nat_of_hex s = nat_of_hex (hex_nat (length s) (nat_of_hex s))"
    by (simp add: hex_nat_nat_of_hex s)
  then show ?thesis by (metis mod_less_divisor nat_of_hex_hex_nat zero_less_numeral zero_less_power)
qed

lemma hex_nat_inj: "m < 16 ^ k \<Longrightarrow> n < 16 ^ k \<Longrightarrow> hex_nat k m = hex_nat k n \<Longrightarrow> m = n"
  by (metis mod_less nat_of_hex_hex_nat)

text \<open>
  Numerals of equal width compare as strings the way their values compare. The digits are
  compared most significant first, so the induction peels the last digit.
\<close>

lemma hex_nat_Suc: "hex_nat (Suc k) n = hex_nat k (n div 16) @ [hex_digit (n mod 16)]"
  by (simp add: hex_nat_def)

lemma hex_digit_less: "i < j \<Longrightarrow> j < 16 \<Longrightarrow> hex_digit i < hex_digit j"
  by (simp add: less_char_def char_code_hex_digit[unfolded char_code_def])

lemma list_less_append_same_length:
  "length xs = length ys \<Longrightarrow> (xs :: 'a::linorder list) < ys \<Longrightarrow> xs @ us < ys @ vs"
proof (induction xs ys rule: list_induct2)
  case Nil
  then show ?case by simp
next
  case (Cons x xs y ys)
  then show ?case by auto
qed

lemma list_less_same_prefix: "((xs :: 'a::linorder list) @ us < xs @ vs) = (us < vs)"
  by (induction xs) auto

lemma hex_nat_less: "m < n \<Longrightarrow> n < 16 ^ k \<Longrightarrow> hex_nat k m < hex_nat k n"
proof (induction k arbitrary: m n)
  case 0
  then show ?case by simp
next
  case (Suc k)
  consider "m div 16 < n div 16" | "m div 16 = n div 16" "m mod 16 < n mod 16"
    using Suc.prems(1) by (metis div_le_mono div_mult_mod_eq le_neq_implies_less
        less_imp_le_nat nat_add_left_cancel_less)
  then show ?case
  proof cases
    case 1
    with Suc have "hex_nat k (m div 16) < hex_nat k (n div 16)" by auto
    then show ?thesis by (simp add: hex_nat_Suc list_less_append_same_length)
  next
    case 2
    then show ?thesis by (simp add: hex_nat_Suc hex_digit_less list_less_same_prefix)
  qed
qed

text \<open>\<^verbatim>\<open>str.encode("ascii")\<close>: one byte per character, or \<^verbatim>\<open>UnicodeEncodeError\<close>.\<close>

definition encode_ascii :: "string \<Rightarrow> bytes option" where
  "encode_ascii s = (if list_all is_ascii s then Some (map of_char s) else None)"

text \<open>\<^verbatim>\<open>len(s.encode("utf-8"))\<close> of a string whose code points lie below 256.\<close>

definition utf8_length :: "string \<Rightarrow> nat" where
  "utf8_length s = sum_list (map (\<lambda>c. if is_ascii c then 1 else 2) s)"

lemma length_le_utf8_length: "length s \<le> utf8_length s"
  unfolding utf8_length_def by (induction s) auto

lemma utf8_length_ascii: "list_all is_ascii s \<Longrightarrow> utf8_length s = length s"
  unfolding utf8_length_def by (induction s) auto

section \<open>Python list and string operations\<close>

text \<open>\<^verbatim>\<open>data[a:b]\<close> with nonnegative bounds.\<close>

definition slice :: "nat \<Rightarrow> nat \<Rightarrow> 'a list \<Rightarrow> 'a list" where
  "slice a b xs = take (b - a) (drop a xs)"

lemma length_slice: "b \<le> length xs \<Longrightarrow> length (slice a b xs) = b - a"
  by (auto simp: slice_def)

text \<open>\<^verbatim>\<open>s.split(sep)\<close> and \<^verbatim>\<open>sep.join(parts)\<close> for a one-character separator.\<close>

fun split_on :: "'a \<Rightarrow> 'a list \<Rightarrow> 'a list list" where
  "split_on d [] = [[]]"
| "split_on d (x # xs) =
     (if x = d then [] # split_on d xs
      else (case split_on d xs of [] \<Rightarrow> [[x]] | p # ps \<Rightarrow> (x # p) # ps))"

fun join_on :: "'a \<Rightarrow> 'a list list \<Rightarrow> 'a list" where
  "join_on d [] = []"
| "join_on d [p] = p"
| "join_on d (p # q # ps) = p @ d # join_on d (q # ps)"

lemma split_on_not_Nil [simp]: "split_on d xs \<noteq> []"
  by (induction xs) (auto split: list.splits)

lemma split_on_parts: "p \<in> set (split_on d xs) \<Longrightarrow> d \<notin> set p"
  by (induction xs arbitrary: p) (auto split: if_splits list.splits)

lemma join_on_Cons: "ps \<noteq> [] \<Longrightarrow> join_on d (p # ps) = p @ d # join_on d ps"
  by (cases ps) auto

lemma join_on_head: "join_on d ((x # p) # ps) = x # join_on d (p # ps)"
  by (cases ps) auto

lemma join_split_on [simp]: "join_on d (split_on d xs) = xs"
  by (induction xs) (auto simp: join_on_Cons join_on_head split: list.splits)

lemma split_on_no_sep: "d \<notin> set p \<Longrightarrow> split_on d p = [p]"
  by (induction p) auto

lemma split_on_append: "d \<notin> set p \<Longrightarrow> split_on d (p @ d # xs) = p # split_on d xs"
  by (induction p) auto

lemma split_on_append_sep: "split_on d (xs @ d # ys) = split_on d xs @ split_on d ys"
proof (induction xs)
  case (Cons x xs)
  then show ?case by (cases "split_on d xs") auto
qed simp

lemma split_join_on: "ps \<noteq> [] \<Longrightarrow> (\<And>p. p \<in> set ps \<Longrightarrow> d \<notin> set p) \<Longrightarrow> split_on d (join_on d ps) = ps"
  by (induction d ps rule: join_on.induct) (auto simp: split_on_no_sep split_on_append)

lemma list_all_replicate_iff: "list_all P (replicate n x) \<longleftrightarrow> n = 0 \<or> P x"
  by (induction n) auto

text \<open>\<^verbatim>\<open>dict.setdefault\<close>, on an association list in insertion order.\<close>

definition setdefault :: "('k \<times> 'v) list \<Rightarrow> 'k \<Rightarrow> 'v \<Rightarrow> 'v \<times> ('k \<times> 'v) list" where
  "setdefault d k v = (case map_of d k of Some established \<Rightarrow> (established, d) | None \<Rightarrow> (v, d @ [(k, v)]))"

lemma setdefault_map_of:
  "map_of (snd (setdefault d k v)) j = (if j = k \<and> map_of d k = None then Some v else map_of d j)"
  by (auto simp: setdefault_def map_add_def split: option.splits)

section \<open>Canonical codecs\<close>

text \<open>
  The contract of an encoder and a strict decoder: each undoes the other wherever it
  succeeds, so a value has one encoding and a byte string one meaning.
\<close>

locale canonical_codec =
  fixes enc :: "'a \<Rightarrow> 'e + bytes"
    and dec :: "bytes \<Rightarrow> 'e + 'a"
  assumes dec_of_enc: "enc x = Inr bs \<Longrightarrow> dec bs = Inr x"
    and enc_of_dec: "dec bs = Inr x \<Longrightarrow> enc x = Inr bs"
begin

lemma dec_iff_enc: "dec bs = Inr x \<longleftrightarrow> enc x = Inr bs"
  using dec_of_enc enc_of_dec by blast

lemma enc_inject: "enc x = Inr bs \<Longrightarrow> enc y = Inr bs \<Longrightarrow> x = y"
  by (auto dest!: dec_of_enc)

lemma dec_inject: "dec bs = Inr x \<Longrightarrow> dec cs = Inr x \<Longrightarrow> bs = cs"
  by (auto dest!: enc_of_dec)

end

end
