(* ===== verification/Json.thy ===== *)
theory Json
  imports Prelude
begin

text \<open>
  The values a contract document is made of (what \<^verbatim>\<open>json.loads\<close> returns), the Python
  operations the sources use on them, and the exceptions they raise. A \<^verbatim>\<open>dict\<close> is a finite
  map, so equality of model values is Python's order-insensitive dictionary equality; a
  float is its 64-bit pattern. The error codes are those of
  \<^verbatim>\<open>lowerduckpond_static_contracts/errors.py\<close>.
\<close>

section \<open>Error codes and exceptions\<close>

datatype ErrorCode =
    CANONICAL_TOO_LARGE
  | CALLER_SELECTED_IDENTITY
  | DUPLICATE_JSON_MEMBER
  | DUPLICATE_YAML_KEY
  | INVALID_CANONICAL_ORIGIN
  | INVALID_CLOCK
  | INVALID_ENTROPY
  | INVALID_IDENTIFIER
  | INVALID_JSON
  | INVALID_NAMESPACE
  | INVALID_SLUG
  | INVALID_UTF8
  | INVALID_YAML
  | LIFECYCLE_DENIED
  | RAW_REQUEST_TOO_LARGE
  | RESERVED_SLUG
  | SCHEMA_INVALID
  | STANDALONE_MANIFEST_FRAME
  | UNKNOWN_FIELD
  | UNKNOWN_KIND
  | UNSUPPORTED_VERSION

text \<open>
  The exceptions of the modelled code: the repository's own classes with their message, and
  the built-in ones a subscript, an attribute or an enumeration lookup raises.
\<close>

datatype exn =
    ContractError ErrorCode string
  | LifecyclePlanError string
  | AuditError string
  | AuditCapacityError string
  | BackupIdentityError string
  | AuditProtectionError string
  | AuditArchiveCapacityError string
  | CreateCommitError string
  | DeploymentCommitError string
  | RouteCommitError string
  | StateConflictError string
  | StateRecordError string
  | StatePathError string
  | StateAlreadyExistsError string
  | StateInventoryError string
  | StateAdmissionRejectedError string
  | HostCapacityError string
  | HostCapacityRejectedError string
  | CorrelationError string
  | CorrelationConflictError string
  | CorrelationRateLimitError string
  | StateBusy string
  | OverflowError string
  | FileNotFoundError
  | OSError string
  | CaddyStartupError string
  | KeyError string
  | TypeError
  | AttributeError
  | ValueError string
  | RuntimeError string

type_synonym 'a py = "exn + 'a"

section \<open>Documents\<close>

datatype json =
    JNull
  | JBool bool
  | JInt int
  | JFloat "64 word"
  | JStr string
  | JArr "json list"
  | JObj "(string, json) fmap"

definition obj :: "(string \<times> json) list \<Rightarrow> json" where
  "obj kvs = JObj (fmap_of_list kvs)"

fun is_dict :: "json \<Rightarrow> bool" where
  "is_dict (JObj _) = True"
| "is_dict _ = False"

fun is_str :: "json \<Rightarrow> bool" where
  "is_str (JStr _) = True"
| "is_str _ = False"

text \<open>\<^verbatim>\<open>value[key]\<close>, \<^verbatim>\<open>value.get(key)\<close>, \<^verbatim>\<open>key in value\<close> and \<^verbatim>\<open>value[key] = item\<close>.\<close>

fun getitem :: "json \<Rightarrow> string \<Rightarrow> json py" where
  "getitem (JObj m) k = (case fmlookup m k of None \<Rightarrow> Inl (KeyError k) | Some v \<Rightarrow> Inr v)"
| "getitem _ k = Inl TypeError"

fun dict_get :: "json \<Rightarrow> string \<Rightarrow> json py" where
  "dict_get (JObj m) k = Inr (case fmlookup m k of None \<Rightarrow> JNull | Some v \<Rightarrow> v)"
| "dict_get _ k = Inl AttributeError"

fun dict_has :: "json \<Rightarrow> string \<Rightarrow> bool" where
  "dict_has (JObj m) k = (fmlookup m k \<noteq> None)"
| "dict_has _ k = False"

fun setitem :: "json \<Rightarrow> string \<Rightarrow> json \<Rightarrow> json py" where
  "setitem (JObj m) k v = Inr (JObj (fmupd k v m))"
| "setitem _ k v = Inl TypeError"

text \<open>\<^verbatim>\<open>d[k1][k2] = v\<close> on a deep copy of \<open>d\<close>, whose two levels are both dictionaries.\<close>

definition setitem2 :: "json \<Rightarrow> string \<Rightarrow> string \<Rightarrow> json \<Rightarrow> json py" where
  "setitem2 d k1 k2 v =
     bindE (getitem d k1) (\<lambda>inner. bindE (setitem inner k2 v) (\<lambda>inner'. setitem d k1 inner'))"

text \<open>A value used where the sources \<^verbatim>\<open>cast(str, _)\<close> it and then need a string.\<close>

fun as_str :: "json \<Rightarrow> string py" where
  "as_str (JStr s) = Inr s"
| "as_str _ = Inl TypeError"

fun as_list :: "json \<Rightarrow> json list py" where
  "as_list (JArr xs) = Inr xs"
| "as_list _ = Inl TypeError"

definition strs :: "string list \<Rightarrow> json" where
  "strs xs = JArr (map JStr xs)"

text \<open>The lookup \<^verbatim>\<open>Enum(value)\<close> of a string enumeration with the given members.\<close>

definition enum_of :: "('a \<Rightarrow> string) \<Rightarrow> 'a list \<Rightarrow> json \<Rightarrow> 'a py" where
  "enum_of val members v =
     (case v of
        JStr s \<Rightarrow> (case List.find (\<lambda>m. val m = s) members of
                     None \<Rightarrow> Inl (ValueError ''not a valid enumeration member'')
                   | Some m \<Rightarrow> Inr m)
      | _ \<Rightarrow> Inl (ValueError ''not a valid enumeration member''))"

section \<open>Rewriting\<close>

lemma obj_inject:
  "obj xs = obj ys \<longleftrightarrow> (\<forall>k \<in> set (map fst xs) \<union> set (map fst ys). map_of xs k = map_of ys k)"
proof
  assume "obj xs = obj ys"
  then have "map_of xs = map_of ys" by (metis fmlookup_of_list json.inject(6) obj_def)
  then show "\<forall>k \<in> set (map fst xs) \<union> set (map fst ys). map_of xs k = map_of ys k" by simp
next
  assume *: "\<forall>k \<in> set (map fst xs) \<union> set (map fst ys). map_of xs k = map_of ys k"
  have "map_of xs k = map_of ys k" for k
  proof (cases "k \<in> set (map fst xs) \<union> set (map fst ys)")
    case True
    with * show ?thesis by blast
  next
    case False
    then have "map_of xs k = None" "map_of ys k = None" by (auto simp: map_of_eq_None_iff)
    then show ?thesis by simp
  qed
  then show "obj xs = obj ys" by (auto simp: obj_def fmlookup_of_list intro!: fmap_ext)
qed

lemma getitem_obj [simp]:
  "getitem (obj kvs) k = (case map_of kvs k of None \<Rightarrow> Inl (KeyError k) | Some v \<Rightarrow> Inr v)"
  by (simp add: obj_def fmlookup_of_list)

lemma dict_get_obj [simp]:
  "dict_get (obj kvs) k = Inr (case map_of kvs k of None \<Rightarrow> JNull | Some v \<Rightarrow> v)"
  by (simp add: obj_def fmlookup_of_list)

lemma dict_has_obj [simp]: "dict_has (obj kvs) k \<longleftrightarrow> map_of kvs k \<noteq> None"
  by (simp add: obj_def fmlookup_of_list)

lemma setitem_obj: "setitem (obj kvs) k v = Inr (obj ((k, v) # kvs))"
  by (simp add: obj_def)

lemma is_dict_obj [simp]: "is_dict (obj kvs)"
  by (simp add: obj_def)

lemma obj_neq [simp]:
  "obj kvs \<noteq> JNull" "JNull \<noteq> obj kvs" "obj kvs \<noteq> JStr s" "JStr s \<noteq> obj kvs"
  "obj kvs \<noteq> JBool b" "JBool b \<noteq> obj kvs"
  by (simp_all add: obj_def)

lemma getitem_Inr_iff: "getitem d k = Inr v \<longleftrightarrow> (\<exists>m. d = JObj m \<and> fmlookup m k = Some v)"
  by (cases d) (auto split: option.splits)

lemma setitem_Inr_iff: "setitem d k v = Inr d' \<longleftrightarrow> (\<exists>m. d = JObj m \<and> d' = JObj (fmupd k v m))"
  by (cases d) auto

lemma getitem_setitem:
  "setitem d k v = Inr d' \<Longrightarrow> getitem d' j = (if j = k then Inr v else getitem d j)"
  by (auto simp: setitem_Inr_iff)

lemma dict_get_setitem:
  "setitem d k v = Inr d' \<Longrightarrow> dict_get d' j = (if j = k then Inr v else dict_get d j)"
  by (auto simp: setitem_Inr_iff)

lemma getitem_dict_get: "getitem d k = Inr v \<Longrightarrow> dict_get d k = Inr v"
  by (auto simp: getitem_Inr_iff)

lemma getitem_is_dict: "getitem d k = Inr v \<Longrightarrow> is_dict d"
  by (auto simp: getitem_Inr_iff)

lemma getitem_dict_has: "getitem d k = Inr v \<Longrightarrow> dict_has d k"
  by (auto simp: getitem_Inr_iff)

lemma as_str_Inr_iff [result_simps]: "as_str v = Inr s \<longleftrightarrow> v = JStr s"
  by (cases v) auto

lemma is_dict_iff: "is_dict d \<longleftrightarrow> (\<exists>m. d = JObj m)"
  by (cases d) auto

lemma find_value:
  "inj val \<Longrightarrow> m \<in> set members \<Longrightarrow> List.find (\<lambda>x. val x = val m) members = Some m"
  by (induction members) (auto dest: injD)

lemma find_SomeD: "List.find P xs = Some x \<Longrightarrow> P x \<and> x \<in> set xs"
  by (induction xs) (auto split: if_splits)

lemma enum_of_iff:
  assumes "inj val" "\<And>m. m \<in> set members"
  shows "enum_of val members v = Inr m \<longleftrightarrow> v = JStr (val m)"
proof (cases v)
  case (JStr s)
  show ?thesis
    unfolding JStr enum_of_def
    using find_value[OF assms(1) assms(2), of m] by (auto dest: find_SomeD split: option.splits)
qed (auto simp: enum_of_def)

end
