(* ===== verification/Identifiers.thy ===== *)
theory Identifiers
  imports Json
begin

unbundle bit_operations_syntax

text \<open>
  Model of \<^verbatim>\<open>static_contracts/identifiers.py\<close> and \<^verbatim>\<open>static_contracts/values.py\<close>: canonical
  UUIDv7 strings, slugs, the derived canonical origin and the tenant-origin suffix, with the
  part of the standard library's \<^verbatim>\<open>uuid.UUID\<close> the validator uses. The lemmas show that the
  validator accepts exactly the strings of its pattern, that the origin is a function of the
  identity and is injective, and that no accepted slug can shadow a canonical origin.
\<close>

section \<open>The standard library's UUID\<close>

text \<open>\<^verbatim>\<open>uuid.UUID(text).int\<close> on a hyphenated hexadecimal string, \<^verbatim>\<open>str(uuid)\<close> and \<^verbatim>\<open>uuid.version\<close>.\<close>

definition uuid_int :: "string \<Rightarrow> nat" where
  "uuid_int s = nat_of_hex (filter (\<lambda>c. c \<noteq> CHR ''-'') s)"

definition uuid_str :: "nat \<Rightarrow> string" where
  "uuid_str n = (let h = hex_nat 32 n in
     slice 0 8 h @ ''-'' @ slice 8 12 h @ ''-'' @ slice 12 16 h @ ''-'' @ slice 16 20 h @ ''-''
       @ slice 20 32 h)"

definition uuid_version :: "nat \<Rightarrow> nat option" where
  "uuid_version n =
     (if drop_bit 62 n AND 3 = 2 then Some (drop_bit 76 n AND 15) else None)"

section \<open>Patterns\<close>

text \<open>A fixed-length regular expression is the list of its character classes.\<close>

definition fullmatch :: "(char \<Rightarrow> bool) list \<Rightarrow> string \<Rightarrow> bool" where
  "fullmatch ps s = list_all2 (\<lambda>p c. p c) ps s"

definition UUID7_PATTERN :: "(char \<Rightarrow> bool) list" where
  "UUID7_PATTERN =
     replicate 8 is_lower_hex @ [(\<lambda>c. c = CHR ''-'')] @ replicate 4 is_lower_hex
     @ [(\<lambda>c. c = CHR ''-'')] @ [(\<lambda>c. c = CHR ''7'')] @ replicate 3 is_lower_hex
     @ [(\<lambda>c. c = CHR ''-'')] @ [(\<lambda>c. c \<in> set ''89ab'')] @ replicate 3 is_lower_hex
     @ [(\<lambda>c. c = CHR ''-'')] @ replicate 12 is_lower_hex"

text \<open>\<^verbatim>\<open>[a-z0-9](?:[a-z0-9-]{0,61}[a-z0-9])?\<close>\<close>

definition SLUG_PATTERN :: "string \<Rightarrow> bool" where
  "SLUG_PATTERN s \<longleftrightarrow>
     s \<noteq> [] \<and> is_lower_alnum (hd s) \<and>
     (length s = 1 \<or>
      length s \<le> 63 \<and> is_lower_alnum (last s) \<and>
      list_all (\<lambda>c. is_lower_alnum c \<or> c = CHR ''-'') (butlast (tl s)))"

definition CANONICAL_ORIGIN_SLUG_PATTERN :: "(char \<Rightarrow> bool) list" where
  "CANONICAL_ORIGIN_SLUG_PATTERN =
     [(\<lambda>c. c = CHR ''t''), (\<lambda>c. c = CHR ''-'')] @ replicate 32 is_lower_hex"

definition RESERVED_SLUGS :: "string list" where
  "RESERVED_SLUGS = [''hosting'', ''secure'', ''www'']"

definition MAX_DNS_HOSTNAME_BYTES :: nat where "MAX_DNS_HOSTNAME_BYTES = 253"
definition MAX_DNS_LABEL_BYTES :: nat where "MAX_DNS_LABEL_BYTES = 63"
definition MINIMUM_SUFFIX_LABELS :: nat where "MINIMUM_SUFFIX_LABELS = 2"
definition TENANT_ORIGIN_PREFIX :: string where "TENANT_ORIGIN_PREFIX = ''t-''"
definition TENANT_ORIGIN_SUFFIX :: string where "TENANT_ORIGIN_SUFFIX = ''lowerduckpond.com''"

section \<open>Validators\<close>

definition validate_uuid7 :: "json \<Rightarrow> string py" where
  "validate_uuid7 v =
     (case v of
        JStr s \<Rightarrow>
          (if \<not> fullmatch UUID7_PATTERN s
           then Inl (ContractError INVALID_IDENTIFIER ''identifier is not a canonical UUIDv7'')
           else
             let parsed = uuid_int s in
             if uuid_version parsed \<noteq> Some 7 \<or> uuid_str parsed \<noteq> s
             then Inl (ContractError INVALID_IDENTIFIER ''identifier is not a canonical UUIDv7'')
             else Inr s)
      | _ \<Rightarrow> Inl (ContractError INVALID_IDENTIFIER ''identifier is not a canonical UUIDv7''))"

text \<open>\<^verbatim>\<open>f"t-{id.replace('-', '')}.{suffix}"\<close>\<close>

definition derived_origin :: "string \<Rightarrow> string \<Rightarrow> string" where
  "derived_origin tenant_id suffix =
     TENANT_ORIGIN_PREFIX @ filter (\<lambda>c. c \<noteq> CHR ''-'') tenant_id @ ''.'' @ suffix"

definition validate_canonical_origin :: "json \<Rightarrow> json \<Rightarrow> string py" where
  "validate_canonical_origin tenant_id v =
     bindE (validate_uuid7 tenant_id) (\<lambda>canonical_id.
     let expected = derived_origin canonical_id TENANT_ORIGIN_SUFFIX in
     if v \<noteq> JStr expected
     then Inl (ContractError INVALID_CANONICAL_ORIGIN
                 ''canonical origin does not match the tenant identity'')
     else Inr expected)"

definition validate_slug :: "json \<Rightarrow> string py" where
  "validate_slug v =
     (case v of
        JStr s \<Rightarrow>
          (case encode_ascii s of
             None \<Rightarrow> Inl (ContractError INVALID_SLUG ''slug must contain only ASCII'')
           | Some encoded \<Rightarrow>
               if \<not> (1 \<le> length encoded \<and> length encoded \<le> MAX_DNS_LABEL_BYTES) \<or> \<not> SLUG_PATTERN s
               then Inl (ContractError INVALID_SLUG ''slug is not one canonical DNS label'')
               else if s \<in> set RESERVED_SLUGS \<or> fullmatch CANONICAL_ORIGIN_SLUG_PATTERN s
               then Inl (ContractError RESERVED_SLUG ''slug is reserved by the platform'')
               else Inr s)
      | _ \<Rightarrow> Inl (ContractError INVALID_SLUG ''slug must be an ASCII string''))"

definition validate_tenant_origin_suffix :: "json \<Rightarrow> string py" where
  "validate_tenant_origin_suffix v =
     (case v of
        JStr s \<Rightarrow>
          (if utf8_length s > MAX_DNS_HOSTNAME_BYTES
           then Inl (ContractError INVALID_NAMESPACE ''tenant-origin suffix is invalid'')
           else
             let labels = split_on (CHR ''.'') s in
             if length labels < MINIMUM_SUFFIX_LABELS \<or> \<not> list_all SLUG_PATTERN labels
             then Inl (ContractError INVALID_NAMESPACE ''tenant-origin suffix is invalid'')
             else Inr s)
      | _ \<Rightarrow> Inl (ContractError INVALID_NAMESPACE ''tenant-origin suffix is invalid''))"

section \<open>Validated values\<close>

definition MINIMUM_QUOTA :: int where "MINIMUM_QUOTA = 1"
definition MAXIMUM_STORAGE_MIB :: int where "MAXIMUM_STORAGE_MIB = 100"
definition MAXIMUM_ENTRIES :: int where "MAXIMUM_ENTRIES = 5000"

record ValidatedCreateRequest =
  slug :: string
  storage_mib :: int
  entries :: int

record ValidatedPlatformNamespace =
  tenant_origin_suffix :: string

text \<open>The constructors with their \<^verbatim>\<open>__post_init__\<close> checks.\<close>

definition mk_ValidatedCreateRequest :: "json \<Rightarrow> json \<Rightarrow> json \<Rightarrow> ValidatedCreateRequest py" where
  "mk_ValidatedCreateRequest slug_v storage_v entries_v =
     bindE (validate_slug slug_v) (\<lambda>s.
     case storage_v of
       JInt storage \<Rightarrow>
         (if \<not> (MINIMUM_QUOTA \<le> storage \<and> storage \<le> MAXIMUM_STORAGE_MIB)
          then Inl (ContractError SCHEMA_INVALID ''storage quota is invalid'')
          else (case entries_v of
              JInt ents \<Rightarrow>
                (if \<not> (MINIMUM_QUOTA \<le> ents \<and> ents \<le> MAXIMUM_ENTRIES)
                 then Inl (ContractError SCHEMA_INVALID ''entry quota is invalid'')
                 else Inr \<lparr>slug = s, storage_mib = storage, entries = ents\<rparr>)
            | _ \<Rightarrow> Inl (ContractError SCHEMA_INVALID ''entry quota is invalid'')))
     | _ \<Rightarrow> Inl (ContractError SCHEMA_INVALID ''storage quota is invalid''))"

definition mk_ValidatedPlatformNamespace :: "json \<Rightarrow> ValidatedPlatformNamespace py" where
  "mk_ValidatedPlatformNamespace suffix =
     (if suffix \<noteq> JStr TENANT_ORIGIN_SUFFIX
      then Inl (ContractError INVALID_NAMESPACE ''tenant-origin suffix is not pinned'')
      else Inr \<lparr>tenant_origin_suffix = TENANT_ORIGIN_SUFFIX\<rparr>)"

section \<open>Canonical identifiers\<close>

lemma length_fullmatch: "fullmatch ps s \<Longrightarrow> length s = length ps"
  by (simp add: fullmatch_def list_all2_lengthD)

lemma fullmatch_append:
  "fullmatch (ps @ qs) s \<longleftrightarrow> (\<exists>u v. s = u @ v \<and> fullmatch ps u \<and> fullmatch qs v)"
  by (auto simp: fullmatch_def list_all2_append1) (metis list_all2_lengthD)

lemma fullmatch_replicate: "fullmatch (replicate n p) s \<longleftrightarrow> length s = n \<and> list_all p s"
  by (auto simp: fullmatch_def list_all2_conv_all_nth list_all_length)

lemma fullmatch_single: "fullmatch [p] s \<longleftrightarrow> (\<exists>c. s = [c] \<and> p c)"
  by (auto simp: fullmatch_def list_all2_Cons1)

lemma fullmatch_Cons: "fullmatch (p # ps) s \<longleftrightarrow> (\<exists>c t. s = c # t \<and> p c \<and> fullmatch ps t)"
  by (auto simp: fullmatch_def list_all2_Cons1)

lemma hex_no_hyphen: "list_all is_lower_hex s \<Longrightarrow> filter (\<lambda>c. c \<noteq> CHR ''-'') s = s"
  by (induction s) (auto simp: char_class_defs)

text \<open>The 32 hexadecimal digits of an identifier of the right shape, group by group.\<close>

lemma UUID7_PATTERN_cases:
  assumes "fullmatch UUID7_PATTERN s"
  obtains a b c v d e where
    "s = a @ ''-'' @ b @ ''-'' @ (CHR ''7'' # c) @ ''-'' @ (v # d) @ ''-'' @ e"
    "length a = 8" "length b = 4" "length c = 3" "length d = 3" "length e = 12"
    "v \<in> set ''89ab''"
    "list_all is_lower_hex (a @ b @ (CHR ''7'' # c) @ (v # d) @ e)"
proof -
  have hex7: "is_lower_hex (CHR ''7'')" by (simp add: char_class_defs)
  have hexv: "is_lower_hex x" if "x \<in> set ''89ab''" for x
    using that by (auto simp: char_class_defs)
  from assms show thesis
    unfolding UUID7_PATTERN_def fullmatch_append fullmatch_replicate fullmatch_single
    using that hex7 hexv by clarsimp
qed

lemma uuid_int_groups:
  assumes "list_all is_lower_hex (a @ b @ c @ d @ e)"
  shows "uuid_int (a @ ''-'' @ b @ ''-'' @ c @ ''-'' @ d @ ''-'' @ e) = nat_of_hex (a @ b @ c @ d @ e)"
  using assms by (simp add: uuid_int_def hex_no_hyphen)

lemma uuid_str_groups:
  assumes "length a = 8" "length b = 4" "length c = 4" "length d = 4" "length e = 12"
    and "hex_nat 32 n = a @ b @ c @ d @ e"
  shows "uuid_str n = a @ ''-'' @ b @ ''-'' @ c @ ''-'' @ d @ ''-'' @ e"
  using assms by (simp add: uuid_str_def slice_def Let_def)

text \<open>Reading the version nibble and the two variant bits back from the digits.\<close>

lemma uuid_version_digits:
  "uuid_version n =
     (if n div 2 ^ 62 mod 4 = 2 then Some (n div 2 ^ 76 mod 16) else None)"
proof -
  have "drop_bit 62 n AND 3 = drop_bit 62 n mod 4" for n :: nat
    using take_bit_eq_mask[of 2 "drop_bit 62 n"] by (simp add: take_bit_eq_mod mask_eq_exp_minus_1)
  moreover have "drop_bit 76 n AND 15 = drop_bit 76 n mod 16" for n :: nat
    using take_bit_eq_mask[of 4 "drop_bit 76 n"] by (simp add: take_bit_eq_mod mask_eq_exp_minus_1)
  ultimately show ?thesis by (simp add: uuid_version_def drop_bit_eq_div)
qed

lemma nat_of_hex_digit:
  assumes "list_all is_lower_hex s" "i < length s"
  shows "nat_of_hex s div 16 ^ (length s - Suc i) mod 16 = unhex_digit (s ! i)"
proof -
  have "s ! i = hex_digit (nat_of_hex s div 16 ^ (length s - Suc i) mod 16)"
    using hex_nat_nth[OF assms(2), of "nat_of_hex s"] hex_nat_nat_of_hex[OF assms(1)] by simp
  then show ?thesis by simp
qed

lemma hex_nat_slices:
  "hex_nat 32 n = slice 0 8 (hex_nat 32 n) @ slice 8 12 (hex_nat 32 n) @ slice 12 16 (hex_nat 32 n)
     @ slice 16 20 (hex_nat 32 n) @ slice 20 32 (hex_nat 32 n)"
  by (simp add: slice_def) (simp add: take_add[symmetric] flip: append_assoc take_add)

lemma uuid_int_uuid_str: "n < 16 ^ 32 \<Longrightarrow> uuid_int (uuid_str n) = n"
proof -
  assume n: "n < 16 ^ 32"
  let ?h = "hex_nat 32 n"
  have hex: "list_all is_lower_hex (slice i j ?h)" for i j
    using hex_nat_lower_hex[of 32 n] by (auto simp: slice_def list_all_iff dest: in_set_takeD in_set_dropD)
  have cat: "slice 0 8 ?h @ slice 8 12 ?h @ slice 12 16 ?h @ slice 16 20 ?h @ slice 20 32 ?h = ?h"
    by (simp add: slice_def) (simp add: take_add[symmetric] flip: append_assoc take_add)
  have "uuid_int (uuid_str n) = nat_of_hex ?h"
    unfolding uuid_str_def Let_def
    by (subst uuid_int_groups) (simp_all add: hex cat hex_nat_lower_hex)
  with n show ?thesis by (simp add: nat_of_hex_hex_nat)
qed

lemma quarter_nibble: "(m :: nat) mod 16 div 4 = m div 4 mod 4"
  using mod_mult2_eq[of m 4 4] by simp

lemma uuid7_pattern_version:
  assumes "fullmatch UUID7_PATTERN s"
  shows "uuid_version (uuid_int s) = Some 7" and "uuid_str (uuid_int s) = s"
proof -
  obtain a b c v d e where s: "s = a @ ''-'' @ b @ ''-'' @ (CHR ''7'' # c) @ ''-'' @ (v # d) @ ''-'' @ e"
    and len: "length a = 8" "length b = 4" "length c = 3" "length d = 3" "length e = 12"
    and v: "v \<in> set ''89ab''"
    and hex: "list_all is_lower_hex (a @ b @ (CHR ''7'' # c) @ (v # d) @ e)"
    by (rule UUID7_PATTERN_cases[OF assms])
  let ?h = "a @ b @ (CHR ''7'' # c) @ (v # d) @ e"
  let ?n = "nat_of_hex ?h"
  have lenh: "length ?h = 32" using len by simp
  have n: "uuid_int s = ?n" unfolding s by (rule uuid_int_groups[OF hex])
  have hexn: "hex_nat 32 ?n = ?h" using hex_nat_nat_of_hex[OF hex] lenh by simp
  show "uuid_str (uuid_int s) = s"
    unfolding n unfolding s by (rule uuid_str_groups[OF _ _ _ _ _ hexn]) (use len in auto)
  have "?n div 16 ^ 19 mod 16 = unhex_digit (?h ! 12)"
    using nat_of_hex_digit[OF hex, of 12] lenh by simp
  also have "?h ! 12 = CHR ''7''" using len by (simp add: nth_append)
  finally have ver: "?n div 16 ^ 19 mod 16 = 7" by (simp add: unhex_digit_def char_class_defs)
  have "?n div 16 ^ 15 mod 16 = unhex_digit (?h ! 16)"
    using nat_of_hex_digit[OF hex, of 16] lenh by simp
  also have "?h ! 16 = v" using len by (simp add: nth_append)
  finally have "?n div 16 ^ 15 mod 16 div 4 = 2"
    using v by (auto simp: unhex_digit_def char_class_defs)
  then have "?n div 2 ^ 62 mod 4 = 2"
    by (simp add: quarter_nibble) (simp flip: div_mult2_eq)
  with ver show "uuid_version (uuid_int s) = Some 7"
    unfolding n uuid_version_digits by simp
qed

lemma uuid7_iff: "validate_uuid7 v = Inr s \<longleftrightarrow> v = JStr s \<and> fullmatch UUID7_PATTERN s"
  by (cases v) (auto simp: validate_uuid7_def Let_def uuid7_pattern_version)

lemma uuid7_digits:
  assumes "fullmatch UUID7_PATTERN s"
  shows "length (filter (\<lambda>c. c \<noteq> CHR ''-'') s) = 32"
    and "list_all is_lower_hex (filter (\<lambda>c. c \<noteq> CHR ''-'') s)"
proof -
  obtain a b c v d e where s: "s = a @ ''-'' @ b @ ''-'' @ (CHR ''7'' # c) @ ''-'' @ (v # d) @ ''-'' @ e"
    and len: "length a = 8" "length b = 4" "length c = 3" "length d = 3" "length e = 12"
    and hex: "list_all is_lower_hex (a @ b @ (CHR ''7'' # c) @ (v # d) @ e)"
    by (rule UUID7_PATTERN_cases[OF assms])
  have "filter (\<lambda>c. c \<noteq> CHR ''-'') s = filter (\<lambda>c. c \<noteq> CHR ''-'') (a @ b @ (CHR ''7'' # c) @ (v # d) @ e)"
    unfolding s by simp
  also have "\<dots> = a @ b @ (CHR ''7'' # c) @ (v # d) @ e" using hex by (rule hex_no_hyphen)
  finally show "length (filter (\<lambda>c. c \<noteq> CHR ''-'') s) = 32"
    and "list_all is_lower_hex (filter (\<lambda>c. c \<noteq> CHR ''-'') s)"
    using len hex by simp_all
qed

lemma uuid7_eq_of_digits:
  assumes "fullmatch UUID7_PATTERN s" "fullmatch UUID7_PATTERN t"
    and "filter (\<lambda>c. c \<noteq> CHR ''-'') s = filter (\<lambda>c. c \<noteq> CHR ''-'') t"
  shows "s = t"
proof -
  have "uuid_int s = uuid_int t" using assms(3) by (simp add: uuid_int_def)
  then show ?thesis using uuid7_pattern_version(2) assms(1,2) by metis
qed

lemma derived_origin_label:
  assumes "fullmatch UUID7_PATTERN s"
  shows "fullmatch CANONICAL_ORIGIN_SLUG_PATTERN (''t-'' @ filter (\<lambda>c. c \<noteq> CHR ''-'') s)"
  using uuid7_digits[OF assms]
  by (simp add: CANONICAL_ORIGIN_SLUG_PATTERN_def fullmatch_Cons fullmatch_replicate)

lemma length_derived_origin:
  "fullmatch UUID7_PATTERN s \<Longrightarrow> length (derived_origin s suffix) = 35 + length suffix"
  by (simp add: derived_origin_def TENANT_ORIGIN_PREFIX_def uuid7_digits)

lemma derived_origin_inject:
  assumes "fullmatch UUID7_PATTERN s" "fullmatch UUID7_PATTERN t"
    and "derived_origin s suffix = derived_origin t suffix"
  shows "s = t"
proof (rule uuid7_eq_of_digits[OF assms(1,2)])
  show "filter (\<lambda>c. c \<noteq> CHR ''-'') s = filter (\<lambda>c. c \<noteq> CHR ''-'') t"
    using assms(3) by (simp add: derived_origin_def)
qed

lemma validate_canonical_origin_iff:
  "validate_canonical_origin i v = Inr x \<longleftrightarrow>
     (\<exists>t. i = JStr t \<and> fullmatch UUID7_PATTERN t \<and>
          x = derived_origin t TENANT_ORIGIN_SUFFIX \<and> v = JStr x)"
  by (auto simp: validate_canonical_origin_def uuid7_iff Let_def result_simps)

section \<open>Slugs\<close>

text \<open>What the documentation of a slug says: one canonical DNS label that is not reserved.\<close>

definition canonical_label :: "string \<Rightarrow> bool" where
  "canonical_label s \<longleftrightarrow>
     1 \<le> length s \<and> length s \<le> 63 \<and>
     (\<forall>c \<in> set s. is_lower_alnum c \<or> c = CHR ''-'') \<and> hd s \<noteq> CHR ''-'' \<and> last s \<noteq> CHR ''-''"

lemma SLUG_PATTERN_iff: "SLUG_PATTERN s \<longleftrightarrow> canonical_label s"
proof (cases s)
  case Nil
  then show ?thesis by (simp add: SLUG_PATTERN_def canonical_label_def)
next
  case (Cons c t)
  have hyphen: "\<not> is_lower_alnum (CHR ''-'')" by (simp add: char_class_defs)
  show ?thesis
  proof (cases t rule: rev_cases)
    case Nil
    with Cons hyphen show ?thesis by (auto simp: SLUG_PATTERN_def canonical_label_def)
  next
    case (snoc m l)
    with Cons hyphen show ?thesis
      by (auto simp: SLUG_PATTERN_def canonical_label_def list_all_iff)
  qed
qed

lemma canonical_label_ascii: "canonical_label s \<Longrightarrow> list_all is_ascii s"
  by (auto simp: canonical_label_def list_all_iff char_class_defs)

lemma slug_iff:
  "validate_slug v = Inr s \<longleftrightarrow>
     v = JStr s \<and> canonical_label s \<and> s \<notin> set RESERVED_SLUGS \<and>
     \<not> fullmatch CANONICAL_ORIGIN_SLUG_PATTERN s"
proof (cases v)
  case (JStr t)
  have "canonical_label t \<Longrightarrow> 1 \<le> length t \<and> length t \<le> 63" by (simp add: canonical_label_def)
  with JStr show ?thesis
    by (auto simp: validate_slug_def encode_ascii_def SLUG_PATTERN_iff MAX_DNS_LABEL_BYTES_def
        canonical_label_ascii split: option.splits if_splits)
qed (auto simp: validate_slug_def)

lemma slug_no_dot: "canonical_label s \<Longrightarrow> CHR ''.'' \<notin> set s"
  by (auto simp: canonical_label_def char_class_defs)

lemma validate_slug_no_dot: "validate_slug v = Inr s \<Longrightarrow> CHR ''.'' \<notin> set s"
  by (simp add: slug_iff slug_no_dot)

lemma derived_origin_split:
  assumes "fullmatch UUID7_PATTERN t"
  shows "split_on (CHR ''.'') (derived_origin t suffix)
         = (''t-'' @ filter (\<lambda>c. c \<noteq> CHR ''-'') t) # split_on (CHR ''.'') suffix"
proof -
  let ?l = "''t-'' @ filter (\<lambda>c. c \<noteq> CHR ''-'') t"
  have "CHR ''.'' \<notin> set ?l" using uuid7_digits(2)[OF assms] by (auto simp: list_all_iff char_class_defs)
  then show ?thesis
    using split_on_append[of "CHR ''.''" ?l suffix]
    by (simp add: derived_origin_def TENANT_ORIGIN_PREFIX_def)
qed

text \<open>\<^verbatim>\<open>f"{slug}.{domain}"\<close>: the human-readable alias of a tenant.\<close>

definition alias_hostname :: "string \<Rightarrow> string \<Rightarrow> string" where
  "alias_hostname s suffix = s @ ''.'' @ suffix"

lemma alias_hostname_split:
  "CHR ''.'' \<notin> set s \<Longrightarrow>
   split_on (CHR ''.'') (alias_hostname s suffix) = s # split_on (CHR ''.'') suffix"
  by (simp add: alias_hostname_def split_on_append)

lemma alias_not_origin:
  assumes "validate_slug v = Inr s" "fullmatch UUID7_PATTERN t"
  shows "alias_hostname s x \<noteq> derived_origin t y"
proof
  assume eq: "alias_hostname s x = derived_origin t y"
  have "s = ''t-'' @ filter (\<lambda>c. c \<noteq> CHR ''-'') t"
    using arg_cong[OF eq, of "split_on (CHR ''.'')"]
    by (simp add: derived_origin_split[OF assms(2)] alias_hostname_split validate_slug_no_dot[OF assms(1)])
  then show False using assms derived_origin_label[OF assms(2)] by (simp add: slug_iff)
qed

section \<open>The naming interface\<close>

text \<open>
  What the routing code relies on: origins are injective in the identity, aliases in the
  slug, and the two families of hostnames never meet. A table of tenants with distinct
  identities and distinct slugs then owns pairwise distinct hostnames.
\<close>

locale hostname_scheme =
  fixes valid_id :: "string \<Rightarrow> bool"
    and valid_slug :: "string \<Rightarrow> bool"
    and origin_of :: "string \<Rightarrow> string"
    and alias_of :: "string \<Rightarrow> string"
  assumes origin_inject: "valid_id i \<Longrightarrow> valid_id j \<Longrightarrow> origin_of i = origin_of j \<Longrightarrow> i = j"
    and alias_inject: "valid_slug s \<Longrightarrow> valid_slug t \<Longrightarrow> alias_of s = alias_of t \<Longrightarrow> s = t"
    and alias_origin_disjoint: "valid_slug s \<Longrightarrow> valid_id i \<Longrightarrow> alias_of s \<noteq> origin_of i"
begin

lemma distinct_origins:
  "distinct ids \<Longrightarrow> (\<And>i. i \<in> set ids \<Longrightarrow> valid_id i) \<Longrightarrow> distinct (map origin_of ids)"
  by (auto simp: distinct_map inj_on_def origin_inject)

lemma distinct_aliases:
  "distinct ss \<Longrightarrow> (\<And>s. s \<in> set ss \<Longrightarrow> valid_slug s) \<Longrightarrow> distinct (map alias_of ss)"
  by (auto simp: distinct_map inj_on_def alias_inject)

lemma distinct_hostnames:
  assumes "distinct ids" "distinct ss"
    and "\<And>i. i \<in> set ids \<Longrightarrow> valid_id i" "\<And>s. s \<in> set ss \<Longrightarrow> valid_slug s"
  shows "distinct (map origin_of ids @ map alias_of ss)"
  using assms distinct_origins[of "ids"] distinct_aliases[of ss]
  by (fastforce dest: alias_origin_disjoint)

end

interpretation names: hostname_scheme
  "\<lambda>i. validate_uuid7 (JStr i) = Inr i"
  "\<lambda>s. validate_slug (JStr s) = Inr s"
  "\<lambda>i. derived_origin i TENANT_ORIGIN_SUFFIX"
  "\<lambda>s. alias_hostname s TENANT_ORIGIN_SUFFIX"
proof unfold_locales
  show "i = j" if "validate_uuid7 (JStr i) = Inr i" "validate_uuid7 (JStr j) = Inr j"
    "derived_origin i TENANT_ORIGIN_SUFFIX = derived_origin j TENANT_ORIGIN_SUFFIX" for i j
    using that by (auto simp: uuid7_iff intro: derived_origin_inject)
  show "s = t" if "alias_hostname s TENANT_ORIGIN_SUFFIX = alias_hostname t TENANT_ORIGIN_SUFFIX" for s t
    using that by (simp add: alias_hostname_def)
  show "alias_hostname s TENANT_ORIGIN_SUFFIX \<noteq> derived_origin i TENANT_ORIGIN_SUFFIX"
    if "validate_slug (JStr s) = Inr s" "validate_uuid7 (JStr i) = Inr i" for s i
    using that alias_not_origin by (simp add: uuid7_iff)
qed

section \<open>Properties\<close>

text \<open>\<^verbatim>\<open>validate_uuid7\<close> accepts exactly the lowercase hyphenated strings of its pattern and
  returns its argument: the second test, on the parsed \<^verbatim>\<open>uuid.UUID\<close>, never rejects a string
  the pattern accepted.\<close>

theorem validate_uuid7_exact:
  "(validate_uuid7 v = Inr s) = (v = JStr s \<and> fullmatch UUID7_PATTERN s)"
  by (rule uuid7_iff)

text \<open>\<^verbatim>\<open>validate_slug\<close> accepts exactly the canonical DNS labels (1 to 63 characters of
  \<^verbatim>\<open>a-z0-9-\<close>, no hyphen at either end) that are neither reserved nor shaped like the label of a
  canonical origin.\<close>

theorem validate_slug_exact:
  "(validate_slug v = Inr s) =
     (v = JStr s \<and> canonical_label s \<and> s \<notin> {''hosting'', ''secure'', ''www''} \<and>
      \<not> (\<exists>d. s = ''t-'' @ d \<and> length d = 32 \<and> list_all is_lower_hex d))"
  unfolding slug_iff
  by (auto simp: RESERVED_SLUGS_def CANONICAL_ORIGIN_SLUG_PATTERN_def fullmatch_Cons fullmatch_replicate)

text \<open>C15. The alias hostname of an accepted slug is never the canonical origin of any tenant,
  and two tenants share a canonical origin only if they are the same tenant: hostnames cannot
  be squatted through slugs.\<close>

theorem tenant_hostnames_disjoint:
  assumes "validate_slug v = Inr s" "validate_uuid7 i = Inr t" "validate_uuid7 j = Inr u"
  shows "alias_hostname s TENANT_ORIGIN_SUFFIX \<noteq> derived_origin t TENANT_ORIGIN_SUFFIX \<and>
         (derived_origin t TENANT_ORIGIN_SUFFIX = derived_origin u TENANT_ORIGIN_SUFFIX) = (t = u)"
  using assms alias_not_origin derived_origin_inject by (auto simp: uuid7_iff)

theorem tenant_hostnames_disjoint_witness:
  "alias_hostname ''duck'' TENANT_ORIGIN_SUFFIX
     \<noteq> derived_origin ''01890a5d-ac96-774b-bcce-b302099a8057'' TENANT_ORIGIN_SUFFIX"
proof -
  have "validate_slug (JStr ''duck'') = Inr ''duck''" by code_simp
  moreover have "fullmatch UUID7_PATTERN ''01890a5d-ac96-774b-bcce-b302099a8057''" by code_simp
  ultimately show ?thesis using tenant_hostnames_disjoint by (simp add: uuid7_iff)
qed

end
