(* ===== verification/Domain.thy ===== *)
theory Domain
  imports Identifiers
begin

unbundle bit_operations_syntax

text \<open>
  Model of \<^verbatim>\<open>static_domain/identity.py\<close> and \<^verbatim>\<open>static_domain/create.py\<close>: UUIDv7 generation from
  one reading of the injected clock and entropy sources, and the desired manifest of a new
  tenant. The lemmas show the bit layout, that every generated identity passes the contract
  validator, that identities sort by their timestamp, and that the created manifest carries
  the origin the validator derives.
\<close>

section \<open>Identity generation\<close>

definition UUID_VERSION :: nat where "UUID_VERSION = 7"
definition UUID_VARIANT :: nat where "UUID_VARIANT = 2"
definition UUID_TIMESTAMP_BITS :: nat where "UUID_TIMESTAMP_BITS = 48"
definition UUID_RANDOM_BITS :: nat where "UUID_RANDOM_BITS = 74"
definition UUID_ENTROPY_BYTES :: nat where "UUID_ENTROPY_BYTES = 10"
definition MAX_TIMESTAMP_MILLISECONDS :: int where
  "MAX_TIMESTAMP_MILLISECONDS = push_bit UUID_TIMESTAMP_BITS 1 - 1"
definition RANDOM_MASK :: nat where "RANDOM_MASK = push_bit UUID_RANDOM_BITS 1 - 1"
definition RAND_B_MASK :: nat where "RAND_B_MASK = push_bit 62 1 - 1"

text \<open>One call of the clock and one of the entropy source: their two results.\<close>

type_synonym reading = "int \<times> bytes"

text \<open>The value assembled from the timestamp and the masked random bits.\<close>

definition uuid7_value :: "nat \<Rightarrow> nat \<Rightarrow> nat" where
  "uuid7_value timestamp random_bits =
     (let rand_a = drop_bit 62 random_bits;
          rand_b = random_bits AND RAND_B_MASK
      in push_bit 80 timestamp OR push_bit 76 UUID_VERSION OR push_bit 64 rand_a
         OR push_bit 62 UUID_VARIANT OR rand_b)"

definition generate_uuid7 :: "reading \<Rightarrow> string py" where
  "generate_uuid7 r = (case r of (timestamp, random_bytes) \<Rightarrow>
     if \<not> (0 \<le> timestamp \<and> timestamp \<le> MAX_TIMESTAMP_MILLISECONDS)
     then Inl (ContractError INVALID_CLOCK ''UUIDv7 clock value is outside its domain'')
     else if length random_bytes \<noteq> UUID_ENTROPY_BYTES
     then Inl (ContractError INVALID_ENTROPY ''UUIDv7 entropy length is invalid'')
     else
       let random_bits = be_nat random_bytes AND RANDOM_MASK
       in Inr (uuid_str (uuid7_value (nat timestamp) random_bits)))"

section \<open>The create operation\<close>

definition TENANT_ORIGIN_LABEL_PREFIX :: string where "TENANT_ORIGIN_LABEL_PREFIX = ''t-''"

record CreatedTenant =
  tenant_id :: string
  canonical_origin :: string
  manifest :: json

definition canonical_origin_for :: "string \<Rightarrow> string \<Rightarrow> string py" where
  "canonical_origin_for tid suffix =
     (let origin = TENANT_ORIGIN_LABEL_PREFIX @ filter (\<lambda>c. c \<noteq> CHR ''-'') tid @ ''.'' @ suffix in
      case encode_ascii origin of
        None \<Rightarrow> Inl (ContractError INVALID_CANONICAL_ORIGIN ''canonical origin is not ASCII'')
      | Some encoded \<Rightarrow>
          if length encoded > MAX_DNS_HOSTNAME_BYTES
          then Inl (ContractError INVALID_CANONICAL_ORIGIN
                      ''canonical origin exceeds the DNS hostname limit'')
          else Inr origin)"

definition construct_create_manifest ::
    "ValidatedCreateRequest \<Rightarrow> ValidatedPlatformNamespace \<Rightarrow> reading \<Rightarrow> CreatedTenant py" where
  "construct_create_manifest request namespace r =
     bindE (validate_tenant_origin_suffix (JStr (tenant_origin_suffix namespace))) (\<lambda>suffix.
     bindE (generate_uuid7 r) (\<lambda>tid.
     bindE (canonical_origin_for tid suffix) (\<lambda>origin.
     let quotas = obj [(''storageMiB'', JInt (storage_mib request)),
                       (''entries'', JInt (entries request))];
         man = obj
           [(''apiVersion'', JStr ''hosting.lowerduckpond.net/v1alpha1''),
            (''kind'', JStr ''Site''),
            (''metadata'', obj
               [(''id'', JStr tid), (''slug'', JStr (slug request)),
                (''canonicalOrigin'', JStr origin)]),
            (''spec'', obj
               [(''runtime'', JStr ''static''), (''desiredState'', JStr ''undeployed''),
                (''quotas'', quotas)])]
     in Inr \<lparr>tenant_id = tid, canonical_origin = origin, manifest = man\<rparr>)))"

section \<open>Layout of the generated value\<close>

lemma or_disjoint_nat:
  assumes "(b :: nat) < 2 ^ k"
  shows "push_bit k a OR b = a * 2 ^ k + b"
proof -
  have b: "take_bit k b = b" using assms by (simp add: take_bit_eq_mod)
  have "push_bit k a AND take_bit k b = 0" by (auto simp: bit_eq_iff bit_simps)
  with b have "push_bit k a AND b = 0" by simp
  then show ?thesis by (simp add: disjunctive_add_eq_or[symmetric] push_bit_eq_mult)
qed

lemma and_mask_nat: "(n :: nat) AND (push_bit k 1 - 1) = n mod 2 ^ k"
  using take_bit_eq_mask[of k n] by (simp add: take_bit_eq_mod mask_eq_exp_minus_1 push_bit_eq_mult)

lemma uuid7_value_eq:
  assumes "random_bits < 2 ^ 74"
  shows "uuid7_value t random_bits =
           t * 2 ^ 80 + 7 * 2 ^ 76 + (random_bits div 2 ^ 62) * 2 ^ 64 + 2 * 2 ^ 62
           + random_bits mod 2 ^ 62"
proof -
  let ?a = "random_bits div 2 ^ 62" and ?b = "random_bits mod 2 ^ 62"
  have b: "?b < 2 ^ 62" by simp
  have a: "?a < 2 ^ 12" using assms by (simp add: less_mult_imp_div_less)
  have s1: "push_bit 62 2 OR ?b = 2 * 2 ^ 62 + ?b" using b by (rule or_disjoint_nat)
  have l1: "2 * 2 ^ 62 + ?b < 2 ^ 64" using b by simp
  have s2: "push_bit 64 ?a OR (2 * 2 ^ 62 + ?b) = ?a * 2 ^ 64 + (2 * 2 ^ 62 + ?b)"
    using l1 by (rule or_disjoint_nat)
  have "?a * 2 ^ 64 \<le> (2 ^ 12 - 1) * 2 ^ 64" using a by (intro mult_le_mono1) simp
  then have l2: "?a * 2 ^ 64 + (2 * 2 ^ 62 + ?b) < 2 ^ 76" using l1 by simp
  have s3: "push_bit 76 7 OR (?a * 2 ^ 64 + (2 * 2 ^ 62 + ?b))
            = 7 * 2 ^ 76 + (?a * 2 ^ 64 + (2 * 2 ^ 62 + ?b))"
    using l2 by (rule or_disjoint_nat)
  have l3: "7 * 2 ^ 76 + (?a * 2 ^ 64 + (2 * 2 ^ 62 + ?b)) < 2 ^ 80" using l2 by simp
  have s4: "push_bit 80 t OR (7 * 2 ^ 76 + (?a * 2 ^ 64 + (2 * 2 ^ 62 + ?b)))
            = t * 2 ^ 80 + (7 * 2 ^ 76 + (?a * 2 ^ 64 + (2 * 2 ^ 62 + ?b)))"
    using l3 by (rule or_disjoint_nat)
  have defs: "uuid7_value t random_bits =
      (push_bit 80 t OR push_bit 76 7 OR push_bit 64 ?a OR push_bit 62 2 OR ?b)"
    by (simp only: uuid7_value_def Let_def UUID_VERSION_def UUID_VARIANT_def RAND_B_MASK_def
        and_mask_nat drop_bit_eq_div)
  show ?thesis unfolding defs s1 s2 s3 s4 by simp
qed

lemma quotient_remainder:
  fixes m :: nat
  assumes "n = q * m + b" "b < m"
  shows "n div m = q" and "n mod m = b"
  using assms by simp_all

text \<open>The three fields, read back from the assembled value.\<close>

lemma uuid7_value_fields:
  fixes t :: nat
  assumes "random_bits < 2 ^ 74"
  defines "n \<equiv> uuid7_value t random_bits"
  shows "n div 2 ^ 80 = t" and "n div 2 ^ 76 mod 16 = 7" and "n div 2 ^ 62 mod 4 = 2"
    and "n div 2 ^ 64 mod 2 ^ 12 = random_bits div 2 ^ 62" and "n mod 2 ^ 62 = random_bits mod 2 ^ 62"
proof -
  let ?a = "random_bits div 2 ^ 62" and ?b = "random_bits mod 2 ^ 62"
  have a: "?a < 2 ^ 12" using assms(1) by (simp add: less_mult_imp_div_less)
  have b: "?b < 2 ^ 62" by simp
  have n62: "n = (t * 2 ^ 18 + 7 * 2 ^ 14 + ?a * 2 ^ 2 + 2) * 2 ^ 62 + ?b"
    unfolding n_def uuid7_value_eq[OF assms(1)] by (simp add: algebra_simps)
  note d62 = quotient_remainder(1)[OF n62 b] and m62 = quotient_remainder(2)[OF n62 b]
  show "n mod 2 ^ 62 = ?b" by (rule m62)
  show "n div 2 ^ 62 mod 4 = 2" unfolding d62 by (simp add: mod_add_eq[symmetric] mod_mult_right_eq[symmetric])
  have d64: "n div 2 ^ 64 = t * 2 ^ 16 + 7 * 2 ^ 12 + ?a"
  proof -
    have "n div 2 ^ 64 = n div 2 ^ 62 div 4" by (simp flip: div_mult2_eq)
    also have "\<dots> = ((t * 2 ^ 16 + 7 * 2 ^ 12 + ?a) * 4 + 2) div 4" unfolding d62 by (simp add: algebra_simps)
    finally show ?thesis by simp
  qed
  show "n div 2 ^ 64 mod 2 ^ 12 = ?a"
  proof -
    have "n div 2 ^ 64 = (t * 2 ^ 4 + 7) * 2 ^ 12 + ?a" unfolding d64 by simp
    then show ?thesis using a by (rule quotient_remainder(2))
  qed
  have d76: "n div 2 ^ 76 = t * 2 ^ 4 + 7"
  proof -
    have "n div 2 ^ 64 = (t * 2 ^ 4 + 7) * 2 ^ 12 + ?a" unfolding d64 by simp
    then have "n div 2 ^ 64 div 2 ^ 12 = t * 2 ^ 4 + 7" using a by (rule quotient_remainder(1))
    then show ?thesis by (simp flip: div_mult2_eq)
  qed
  show "n div 2 ^ 76 mod 16 = 7" unfolding d76 by simp
  have "n div 2 ^ 80 = n div 2 ^ 76 div 16" by (simp flip: div_mult2_eq)
  then show "n div 2 ^ 80 = t" unfolding d76 by simp
qed

lemma hex_digit_values:
  "hex_digit 7 = CHR ''7''" "hex_digit 8 = CHR ''8''" "hex_digit 9 = CHR ''9''"
  "hex_digit 10 = CHR ''a''" "hex_digit 11 = CHR ''b''"
  by code_simp+

lemma nibble_quarter_two: "(m :: nat) div 4 = 2 \<Longrightarrow> m \<in> {8, 9, 10, 11}"
  by auto

lemma fullmatch_groups:
  "length u = length ps \<Longrightarrow> fullmatch (ps @ qs) (u @ v) \<longleftrightarrow> fullmatch ps u \<and> fullmatch qs v"
  "fullmatch (p # qs) (c # v) \<longleftrightarrow> p c \<and> fullmatch qs v"
  "fullmatch [] [] \<longleftrightarrow> True"
  by (auto simp: fullmatch_def list_all2_append)

lemma uuid_str_matches:
  assumes "n div 2 ^ 76 mod 16 = 7" and "n div 2 ^ 62 mod 4 = 2"
  shows "fullmatch UUID7_PATTERN (uuid_str n)"
proof -
  let ?h = "hex_nat 32 n"
  have hex: "list_all is_lower_hex ?h" by (rule hex_nat_lower_hex)
  have sub: "list_all is_lower_hex (slice i j ?h)" for i j
    using hex by (auto simp: slice_def list_all_iff dest: in_set_takeD in_set_dropD)
  have d12: "?h ! 12 = CHR ''7''"
    using hex_nat_nth[of 12 32 n] assms(1) by (simp add: hex_digit_values)
  have q: "n div 2 ^ 60 mod 16 div 4 = 2"
    using assms(2) by (simp add: quarter_nibble flip: div_mult2_eq)
  have "n div 2 ^ 60 mod 16 \<in> {8, 9, 10, 11}" using nibble_quarter_two[OF q] .
  then have d16: "?h ! 16 \<in> set ''89ab''"
    using hex_nat_nth[of 16 32 n] by (auto simp: hex_digit_values)
  have s12: "slice 12 16 ?h = ?h ! 12 # slice 13 16 ?h"
    by (simp add: slice_def Cons_nth_drop_Suc[symmetric] numeral_eq_Suc)
  have s16: "slice 16 20 ?h = ?h ! 16 # slice 17 20 ?h"
    by (simp add: slice_def Cons_nth_drop_Suc[symmetric] numeral_eq_Suc)
  have len: "length (slice i j ?h) = j - i" if "j \<le> 32" for i j using that by (simp add: length_slice)
  show ?thesis
    unfolding uuid_str_def Let_def s12 s16 d12 UUID7_PATTERN_def
    using d16 sub by (simp add: fullmatch_groups fullmatch_replicate len)
qed

section \<open>Generated identities\<close>

lemma MAX_TIMESTAMP_eq: "MAX_TIMESTAMP_MILLISECONDS = 2 ^ 48 - 1"
  by (simp add: MAX_TIMESTAMP_MILLISECONDS_def UUID_TIMESTAMP_BITS_def push_bit_eq_mult)

lemma and_RANDOM_MASK: "n AND RANDOM_MASK = n mod 2 ^ 74"
  by (simp only: RANDOM_MASK_def UUID_RANDOM_BITS_def and_mask_nat)

lemma generate_uuid7_iff:
  "generate_uuid7 (t, r) = Inr s \<longleftrightarrow>
     0 \<le> t \<and> t < 2 ^ 48 \<and> length r = 10 \<and> s = uuid_str (uuid7_value (nat t) (be_nat r mod 2 ^ 74))"
  by (auto simp: generate_uuid7_def MAX_TIMESTAMP_eq UUID_ENTROPY_BYTES_def and_RANDOM_MASK Let_def)

lemma uuid7_value_less:
  assumes "t < 2 ^ 48" "b < 2 ^ 74"
  shows "uuid7_value t b < 16 ^ 32"
proof -
  have "uuid7_value t b div 2 ^ 80 < 2 ^ 48" using uuid7_value_fields(1)[OF assms(2)] assms(1) by simp
  then have "uuid7_value t b < 2 ^ 48 * 2 ^ 80" by (metis div_less_iff_less_mult zero_less_numeral zero_less_power)
  then show ?thesis by simp
qed

lemma generated_matches:
  assumes "generate_uuid7 r = Inr s"
  shows "fullmatch UUID7_PATTERN s"
proof -
  obtain t b where r: "r = (t, b)" by (cases r)
  let ?m = "be_nat b mod 2 ^ 74"
  have "?m < 2 ^ 74" by simp
  from uuid7_value_fields(2,3)[OF this] have "fullmatch UUID7_PATTERN (uuid_str (uuid7_value (nat t) ?m))"
    by (rule uuid_str_matches)
  with assms r show ?thesis by (simp add: generate_uuid7_iff)
qed

lemma generated_int:
  assumes "generate_uuid7 (t, b) = Inr s"
  shows "uuid_int s = uuid7_value (nat t) (be_nat b mod 2 ^ 74)"
proof -
  have "uuid7_value (nat t) (be_nat b mod 2 ^ 74) < 16 ^ 32"
    using assms by (intro uuid7_value_less) (auto simp: generate_uuid7_iff nat_less_iff)
  then show ?thesis using assms by (auto simp: generate_uuid7_iff uuid_int_uuid_str)
qed

lemma generated_timestamp:
  assumes "generate_uuid7 (t, b) = Inr s"
  shows "uuid_int s div 2 ^ 80 = nat t"
  unfolding generated_int[OF assms] by (rule uuid7_value_fields(1)) simp

text \<open>Lexicographic comparison block by block.\<close>

lemma list_less_append_iff:
  fixes xs ys us vs :: "'a::linorder list"
  assumes "length xs = length ys"
  shows "xs @ us < ys @ vs \<longleftrightarrow> xs < ys \<or> xs = ys \<and> us < vs"
  using assms by (induction xs ys rule: list_induct2) auto

lemma list_less_insert_separator:
  fixes xs ys us vs :: "'a::linorder list"
  assumes "length xs = length ys"
  shows "xs @ d # us < ys @ d # vs \<longleftrightarrow> xs @ us < ys @ vs"
  using list_less_append_iff[OF assms] by simp

lemma uuid_str_less:
  assumes "m < n" "n < 16 ^ 32"
  shows "uuid_str m < uuid_str n"
proof -
  have len: "length (slice i j (hex_nat 32 x)) = j - i" if "j \<le> 32" for i j x
    using that by (simp add: length_slice)
  have "hex_nat 32 m < hex_nat 32 n" using assms by (rule hex_nat_less)
  then show ?thesis
    unfolding uuid_str_def Let_def
    by (subst (asm) hex_nat_slices[of m], subst (asm) hex_nat_slices[of n])
      (simp add: list_less_append_iff len)
qed

lemma generated_less:
  assumes "generate_uuid7 (t1, b1) = Inr s1" "generate_uuid7 (t2, b2) = Inr s2" "t1 < t2"
  shows "s1 < s2"
proof -
  let ?n1 = "uuid7_value (nat t1) (be_nat b1 mod 2 ^ 74)" and ?n2 = "uuid7_value (nat t2) (be_nat b2 mod 2 ^ 74)"
  have div: "?n1 div 2 ^ 80 = nat t1" "?n2 div 2 ^ 80 = nat t2" by (intro uuid7_value_fields(1), simp)+
  have "nat t1 < nat t2" using assms by (auto simp: generate_uuid7_iff)
  then have "?n1 < ?n2" using div by (metis div_le_mono linorder_not_le)
  moreover have "?n2 < 16 ^ 32"
    using assms(2) by (intro uuid7_value_less) (auto simp: generate_uuid7_iff nat_less_iff)
  ultimately show ?thesis using assms(1,2) by (auto simp: generate_uuid7_iff intro: uuid_str_less)
qed

section \<open>Created tenants\<close>

lemma pinned_suffix_valid:
  "validate_tenant_origin_suffix (JStr TENANT_ORIGIN_SUFFIX) = Inr TENANT_ORIGIN_SUFFIX"
  by code_simp

lemma canonical_origin_for_pinned:
  assumes "fullmatch UUID7_PATTERN tid"
  shows "canonical_origin_for tid TENANT_ORIGIN_SUFFIX = Inr (derived_origin tid TENANT_ORIGIN_SUFFIX)"
proof -
  have o: "TENANT_ORIGIN_LABEL_PREFIX @ filter (\<lambda>c. c \<noteq> CHR ''-'') tid @ ''.'' @ TENANT_ORIGIN_SUFFIX
           = derived_origin tid TENANT_ORIGIN_SUFFIX"
    by (simp add: derived_origin_def TENANT_ORIGIN_LABEL_PREFIX_def TENANT_ORIGIN_PREFIX_def)
  have "list_all is_ascii (derived_origin tid TENANT_ORIGIN_SUFFIX)"
    using uuid7_digits(2)[OF assms]
    by (auto simp: derived_origin_def TENANT_ORIGIN_PREFIX_def TENANT_ORIGIN_SUFFIX_def list_all_iff char_class_defs)
  moreover have "length (derived_origin tid TENANT_ORIGIN_SUFFIX) = 52"
    by (simp add: length_derived_origin[OF assms] TENANT_ORIGIN_SUFFIX_def)
  ultimately show ?thesis
    by (simp add: canonical_origin_for_def o[simplified] encode_ascii_def MAX_DNS_HOSTNAME_BYTES_def Let_def)
qed

section \<open>Properties\<close>

text \<open>\<^verbatim>\<open>generate_uuid7\<close> fails exactly outside its domain (a 48-bit millisecond clock and ten
  bytes of entropy); inside it, the identity passes \<^verbatim>\<open>validate_uuid7\<close> and carries the
  timestamp and the 74 random bits in the fields of RFC 9562.\<close>

theorem generate_uuid7_correct:
  "(\<exists>s. generate_uuid7 (t, b) = Inr s) = (0 \<le> t \<and> t < 2 ^ 48 \<and> length b = 10) \<and>
   (\<forall>s. generate_uuid7 (t, b) = Inr s \<longrightarrow>
      validate_uuid7 (JStr s) = Inr s \<and>
      uuid_int s div 2 ^ 80 = nat t \<and>
      uuid_int s div 2 ^ 64 mod 2 ^ 12 = be_nat b mod 2 ^ 74 div 2 ^ 62 \<and>
      uuid_int s mod 2 ^ 62 = be_nat b mod 2 ^ 74 mod 2 ^ 62)"
proof (intro conjI allI impI)
  show "(\<exists>s. generate_uuid7 (t, b) = Inr s) = (0 \<le> t \<and> t < 2 ^ 48 \<and> length b = 10)"
    by (auto simp: generate_uuid7_iff)
next
  fix s assume s: "generate_uuid7 (t, b) = Inr s"
  have m: "be_nat b mod 2 ^ 74 < 2 ^ 74" by simp
  show "validate_uuid7 (JStr s) = Inr s" using generated_matches[OF s] by (simp add: uuid7_iff)
  show "uuid_int s div 2 ^ 80 = nat t" by (rule generated_timestamp[OF s])
  show "uuid_int s div 2 ^ 64 mod 2 ^ 12 = be_nat b mod 2 ^ 74 div 2 ^ 62"
    unfolding generated_int[OF s] by (rule uuid7_value_fields(4)[OF m])
  show "uuid_int s mod 2 ^ 62 = be_nat b mod 2 ^ 74 mod 2 ^ 62"
    unfolding generated_int[OF s] by (rule uuid7_value_fields(5)[OF m])
qed

theorem generate_uuid7_correct_witness:
  "\<exists>s. generate_uuid7 (1760000000000, replicate 10 255) = Inr s \<and> validate_uuid7 (JStr s) = Inr s"
  using generate_uuid7_correct[of 1760000000000 "replicate 10 255"] by auto

text \<open>Identities generated at a later millisecond are greater as strings, whatever the
  entropy: this is the order \<^verbatim>\<open>deployment_id <= history_ids[-1]\<close> and the sorted histories rely on.\<close>

theorem generated_identities_chronological:
  assumes "generate_uuid7 (t1, b1) = Inr s1" "generate_uuid7 (t2, b2) = Inr s2" "t1 < t2"
  shows "s1 < s2"
  using assms by (rule generated_less)

theorem generated_identities_chronological_witness:
  "uuid_str (uuid7_value 5 (be_nat (replicate 10 255) mod 2 ^ 74))
     < uuid_str (uuid7_value 6 (be_nat (replicate 10 0) mod 2 ^ 74))"
  by (rule generated_identities_chronological[of 5 "replicate 10 255" _ 6 "replicate 10 0"])
    (simp_all add: generate_uuid7_iff)

text \<open>C25. Under the pinned namespace, the create constructor succeeds on every in-domain
  reading, and the manifest it builds is undeployed, keeps the request's slug and quotas, and
  binds the identity to the canonical origin that \<^verbatim>\<open>validate_canonical_origin\<close> demands.\<close>

theorem created_manifest_correct:
  assumes "mk_ValidatedPlatformNamespace suffix = Inr ns"
    and "generate_uuid7 r = Inr tid"
  shows "\<exists>c. construct_create_manifest req ns r = Inr c \<and> tenant_id c = tid \<and>
    validate_canonical_origin (JStr tid) (JStr (canonical_origin c)) = Inr (canonical_origin c) \<and>
    manifest c = obj
      [(''apiVersion'', JStr ''hosting.lowerduckpond.net/v1alpha1''), (''kind'', JStr ''Site''),
       (''metadata'', obj [(''id'', JStr tid), (''slug'', JStr (slug req)),
                            (''canonicalOrigin'', JStr (canonical_origin c))]),
       (''spec'', obj [(''runtime'', JStr ''static''), (''desiredState'', JStr ''undeployed''),
                        (''quotas'', obj [(''storageMiB'', JInt (storage_mib req)),
                                           (''entries'', JInt (entries req))])])]"
proof -
  have ns: "tenant_origin_suffix ns = TENANT_ORIGIN_SUFFIX"
    using assms(1) by (auto simp: mk_ValidatedPlatformNamespace_def split: if_splits)
  have "fullmatch UUID7_PATTERN tid" by (rule generated_matches[OF assms(2)])
  then show ?thesis
    by (auto simp: construct_create_manifest_def ns pinned_suffix_valid assms(2)
        canonical_origin_for_pinned validate_canonical_origin_iff Let_def)
qed

theorem created_manifest_correct_witness:
  "\<exists>c. construct_create_manifest \<lparr>slug = ''pond'', storage_mib = 10, entries = 20\<rparr>
         \<lparr>tenant_origin_suffix = TENANT_ORIGIN_SUFFIX\<rparr> (7, replicate 10 1) = Inr c"
  using created_manifest_correct[of "JStr TENANT_ORIGIN_SUFFIX" "\<lparr>tenant_origin_suffix = TENANT_ORIGIN_SUFFIX\<rparr>"
      "(7, replicate 10 1)"]
  by (auto simp: mk_ValidatedPlatformNamespace_def generate_uuid7_iff)

end
