(* ===== verification/Lifecycle.thy ===== *)
theory Lifecycle
  imports Json
begin

text \<open>
  Model of \<^verbatim>\<open>static_contracts/lifecycle.py\<close>: the lifecycle states and operations, the
  transition matrix, and the durable phases of a restart transaction with their allowed
  successors. The matrix and the phase table are the source's dictionaries, entry by entry.
  The lemmas treat both tables as state machines: what a tenant's history must contain, that
  no state is a dead end, and that phases only move forward.
\<close>

section \<open>States, operations, phases\<close>

datatype LifecycleState = ABSENT | UNDEPLOYED | ACTIVE | SUSPENDED | ARCHIVED

datatype Operation =
    CREATE | DEPLOY | ROLLBACK | SUSPEND | RESUME | RENAME | EXPORT | IMPORT | ARCHIVE | RESTORE
  | DELETE | RECONCILE

datatype TransactionPhase =
    PREPARED | RUNTIME_SELECTED | RESTART_REQUIRED | CANDIDATE_STARTING
  | ROLLBACK_RESTART_REQUIRED | RECOVERY_STARTING | STATE_COMMITTED

text \<open>The string value of each enumeration member.\<close>

fun state_value :: "LifecycleState \<Rightarrow> string" where
  "state_value ABSENT = ''absent''"
| "state_value UNDEPLOYED = ''undeployed''"
| "state_value ACTIVE = ''active''"
| "state_value SUSPENDED = ''suspended''"
| "state_value ARCHIVED = ''archived''"

fun operation_value :: "Operation \<Rightarrow> string" where
  "operation_value CREATE = ''create''"
| "operation_value DEPLOY = ''deploy''"
| "operation_value ROLLBACK = ''rollback''"
| "operation_value SUSPEND = ''suspend''"
| "operation_value RESUME = ''resume''"
| "operation_value RENAME = ''rename''"
| "operation_value EXPORT = ''export''"
| "operation_value IMPORT = ''import''"
| "operation_value ARCHIVE = ''archive''"
| "operation_value RESTORE = ''restore''"
| "operation_value DELETE = ''delete''"
| "operation_value RECONCILE = ''reconcile''"

fun phase_value :: "TransactionPhase \<Rightarrow> string" where
  "phase_value PREPARED = ''prepared''"
| "phase_value RUNTIME_SELECTED = ''runtime-selected''"
| "phase_value RESTART_REQUIRED = ''restart-required''"
| "phase_value CANDIDATE_STARTING = ''candidate-starting''"
| "phase_value ROLLBACK_RESTART_REQUIRED = ''rollback-restart-required''"
| "phase_value RECOVERY_STARTING = ''recovery-starting''"
| "phase_value STATE_COMMITTED = ''state-committed''"

definition all_states :: "LifecycleState list" where
  "all_states = [ABSENT, UNDEPLOYED, ACTIVE, SUSPENDED, ARCHIVED]"

definition all_operations :: "Operation list" where
  "all_operations = [CREATE, DEPLOY, ROLLBACK, SUSPEND, RESUME, RENAME, EXPORT, IMPORT, ARCHIVE,
     RESTORE, DELETE, RECONCILE]"

definition all_phases :: "TransactionPhase list" where
  "all_phases = [PREPARED, RUNTIME_SELECTED, RESTART_REQUIRED, CANDIDATE_STARTING,
     ROLLBACK_RESTART_REQUIRED, RECOVERY_STARTING, STATE_COMMITTED]"

definition LifecycleState_of :: "json \<Rightarrow> LifecycleState py" where
  "LifecycleState_of = enum_of state_value all_states"

definition Operation_of :: "json \<Rightarrow> Operation py" where
  "Operation_of = enum_of operation_value all_operations"

definition TransactionPhase_of :: "json \<Rightarrow> TransactionPhase py" where
  "TransactionPhase_of = enum_of phase_value all_phases"

section \<open>The transition tables\<close>

definition MATRIX :: "((Operation \<times> LifecycleState) \<times> LifecycleState) list" where
  "MATRIX =
   [((CREATE, ABSENT), UNDEPLOYED),
    ((DEPLOY, UNDEPLOYED), ACTIVE),
    ((DEPLOY, ACTIVE), ACTIVE),
    ((DEPLOY, SUSPENDED), SUSPENDED),
    ((ROLLBACK, ACTIVE), ACTIVE),
    ((ROLLBACK, SUSPENDED), SUSPENDED),
    ((SUSPEND, ACTIVE), SUSPENDED),
    ((SUSPEND, SUSPENDED), SUSPENDED),
    ((RESUME, SUSPENDED), ACTIVE),
    ((RESUME, ACTIVE), ACTIVE),
    ((RENAME, UNDEPLOYED), UNDEPLOYED),
    ((RENAME, ACTIVE), ACTIVE),
    ((RENAME, SUSPENDED), SUSPENDED),
    ((EXPORT, ACTIVE), ACTIVE),
    ((EXPORT, SUSPENDED), SUSPENDED),
    ((EXPORT, ARCHIVED), ARCHIVED),
    ((IMPORT, UNDEPLOYED), ACTIVE),
    ((ARCHIVE, ACTIVE), ARCHIVED),
    ((ARCHIVE, SUSPENDED), ARCHIVED),
    ((ARCHIVE, ARCHIVED), ARCHIVED),
    ((RESTORE, ARCHIVED), ACTIVE),
    ((DELETE, UNDEPLOYED), ABSENT),
    ((DELETE, ARCHIVED), ABSENT),
    ((RECONCILE, UNDEPLOYED), UNDEPLOYED),
    ((RECONCILE, ACTIVE), ACTIVE),
    ((RECONCILE, SUSPENDED), SUSPENDED),
    ((RECONCILE, ARCHIVED), ARCHIVED)]"

definition LIFECYCLE_MATRIX :: "Operation \<times> LifecycleState \<Rightarrow> LifecycleState option" where
  "LIFECYCLE_MATRIX = map_of MATRIX"

fun TRANSACTION_PHASE_TRANSITIONS :: "TransactionPhase \<Rightarrow> TransactionPhase list" where
  "TRANSACTION_PHASE_TRANSITIONS PREPARED = [RUNTIME_SELECTED, RESTART_REQUIRED, STATE_COMMITTED]"
| "TRANSACTION_PHASE_TRANSITIONS RUNTIME_SELECTED = [STATE_COMMITTED]"
| "TRANSACTION_PHASE_TRANSITIONS RESTART_REQUIRED = [CANDIDATE_STARTING]"
| "TRANSACTION_PHASE_TRANSITIONS CANDIDATE_STARTING =
     [CANDIDATE_STARTING, ROLLBACK_RESTART_REQUIRED, STATE_COMMITTED]"
| "TRANSACTION_PHASE_TRANSITIONS ROLLBACK_RESTART_REQUIRED = [RECOVERY_STARTING]"
| "TRANSACTION_PHASE_TRANSITIONS RECOVERY_STARTING = [RECOVERY_STARTING, STATE_COMMITTED]"
| "TRANSACTION_PHASE_TRANSITIONS STATE_COMMITTED = []"

section \<open>Enumeration lookups\<close>

lemma inj_values: "inj state_value" "inj operation_value" "inj phase_value"
proof -
  show "inj state_value"
  proof (rule injI)
    fix x y assume "state_value x = state_value y"
    then show "x = y" by (cases x; cases y) simp_all
  qed
  show "inj operation_value"
  proof (rule injI)
    fix x y assume "operation_value x = operation_value y"
    then show "x = y" by (cases x; cases y) simp_all
  qed
  show "inj phase_value"
  proof (rule injI)
    fix x y assume "phase_value x = phase_value y"
    then show "x = y" by (cases x; cases y) simp_all
  qed
qed

lemma all_members: "s \<in> set all_states" "o' \<in> set all_operations" "p \<in> set all_phases"
proof -
  show "s \<in> set all_states" by (cases s) (simp_all add: all_states_def)
  show "o' \<in> set all_operations" by (cases o') (simp_all add: all_operations_def)
  show "p \<in> set all_phases" by (cases p) (simp_all add: all_phases_def)
qed

lemma LifecycleState_of_iff [result_simps]: "LifecycleState_of v = Inr s \<longleftrightarrow> v = JStr (state_value s)"
  unfolding LifecycleState_of_def by (rule enum_of_iff[OF inj_values(1) all_members(1)])

lemma Operation_of_iff [result_simps]: "Operation_of v = Inr x \<longleftrightarrow> v = JStr (operation_value x)"
  unfolding Operation_of_def by (rule enum_of_iff[OF inj_values(2) all_members(2)])

lemma TransactionPhase_of_iff [result_simps]:
  "TransactionPhase_of v = Inr p \<longleftrightarrow> v = JStr (phase_value p)"
  unfolding TransactionPhase_of_def by (rule enum_of_iff[OF inj_values(3) all_members(3)])

lemma enum_round_trip [simp]:
  "LifecycleState_of (JStr (state_value s)) = Inr s"
  "Operation_of (JStr (operation_value x)) = Inr x"
  "TransactionPhase_of (JStr (phase_value p)) = Inr p"
  by (simp_all add: result_simps)

section \<open>The lifecycle as a state machine\<close>

text \<open>One accepted operation, and a whole history of them from one state to another.\<close>

inductive lifecycle_history :: "LifecycleState \<Rightarrow> Operation list \<Rightarrow> LifecycleState \<Rightarrow> bool" where
  start: "lifecycle_history s [] s"
| step: "lifecycle_history s ops t \<Longrightarrow> LIFECYCLE_MATRIX (op, t) = Some u \<Longrightarrow>
     lifecycle_history s (ops @ [op]) u"

inductive_cases lifecycle_history_NilE: "lifecycle_history s [] t"
inductive_cases lifecycle_history_snocE: "lifecycle_history s (ops @ [op]) t"

lemma matrix_iff: "LIFECYCLE_MATRIX (op, s) = Some t \<longleftrightarrow> ((op, s), t) \<in> set MATRIX"
  by (cases op; cases s; cases t) (simp_all add: LIFECYCLE_MATRIX_def MATRIX_def)

lemma matrix_cases:
  "LIFECYCLE_MATRIX (op, s) = Some t \<Longrightarrow> ((op, s), t) \<in> set MATRIX"
  by (simp add: matrix_iff)

text \<open>
  The operations since the tenant was last created. The ghost state of the invariant: while
  the tenant exists and has content, a deploy or an import lies in that suffix.
\<close>

fun since_create :: "Operation list \<Rightarrow> Operation list" where
  "since_create [] = []"
| "since_create (op # ops) =
     (if CREATE \<in> set ops then since_create ops else if op = CREATE then ops else op # ops)"

lemma since_create_snoc:
  "since_create (ops @ [op]) = (if op = CREATE then [] else since_create ops @ [op])"
  by (induction ops) auto

lemma content_needs_deployment:
  assumes "lifecycle_history ABSENT ops t" "t \<in> {ACTIVE, SUSPENDED, ARCHIVED}"
  shows "DEPLOY \<in> set (since_create ops) \<or> IMPORT \<in> set (since_create ops)"
  using assms
proof (induction ABSENT ops t rule: lifecycle_history.induct)
  case start
  then show ?case by simp
next
  case (step ops t op u)
  from step.hyps(3) have "((op, t), u) \<in> set MATRIX" by (rule matrix_cases)
  then show ?case using step.hyps(2) step.prems
    by (auto simp: MATRIX_def since_create_snoc)
qed

text \<open>Every state can reach absence, and absence can reach every state.\<close>

lemma history_single: "LIFECYCLE_MATRIX (op, s) = Some t \<Longrightarrow> lifecycle_history s [op] t"
  using lifecycle_history.step[OF lifecycle_history.start, of op s t] by simp

lemma history_append:
  assumes "lifecycle_history t ops' u" "lifecycle_history s ops t"
  shows "lifecycle_history s (ops @ ops') u"
  using assms
proof (induction rule: lifecycle_history.induct)
  case (start s)
  then show ?case by simp
next
  case (step t ops' u op v)
  then have "lifecycle_history s ((ops @ ops') @ [op]) v" by (intro lifecycle_history.step)
  then show ?case by simp
qed

lemma reach_absent: "\<exists>ops. lifecycle_history s ops ABSENT"
proof -
  have del: "lifecycle_history ARCHIVED [DELETE] ABSENT" "lifecycle_history UNDEPLOYED [DELETE] ABSENT"
    and arch: "lifecycle_history ACTIVE [ARCHIVE] ARCHIVED" "lifecycle_history SUSPENDED [ARCHIVE] ARCHIVED"
    by (rule history_single, simp add: LIFECYCLE_MATRIX_def MATRIX_def)+
  show ?thesis
    by (cases s) (use del history_append[OF del(1) arch(1)] history_append[OF del(1) arch(2)]
        lifecycle_history.start in blast)+
qed

lemma reach_from_absent: "\<exists>ops. lifecycle_history ABSENT ops s"
proof -
  have c: "lifecycle_history ABSENT [CREATE] UNDEPLOYED" and d: "lifecycle_history UNDEPLOYED [DEPLOY] ACTIVE"
    and s: "lifecycle_history ACTIVE [SUSPEND] SUSPENDED" and a: "lifecycle_history ACTIVE [ARCHIVE] ARCHIVED"
    by (rule history_single, simp add: LIFECYCLE_MATRIX_def MATRIX_def)+
  note act = history_append[OF d c]
  show ?thesis
    by (cases s) (use c act history_append[OF s act] history_append[OF a act]
        lifecycle_history.start in blast)+
qed

section \<open>Transaction phases\<close>

definition phase_step :: "TransactionPhase \<Rightarrow> TransactionPhase \<Rightarrow> bool" where
  "phase_step p q \<longleftrightarrow> q \<in> set (TRANSACTION_PHASE_TRANSITIONS p)"

text \<open>A rank every transition increases, but for the two retry loops of a starting phase.\<close>

fun phase_rank :: "TransactionPhase \<Rightarrow> nat" where
  "phase_rank PREPARED = 0"
| "phase_rank RUNTIME_SELECTED = 1"
| "phase_rank RESTART_REQUIRED = 1"
| "phase_rank CANDIDATE_STARTING = 2"
| "phase_rank ROLLBACK_RESTART_REQUIRED = 3"
| "phase_rank RECOVERY_STARTING = 4"
| "phase_rank STATE_COMMITTED = 5"

lemma phase_step_rank:
  "phase_step p q \<Longrightarrow> phase_rank p < phase_rank q \<or> p = q \<and> p \<in> {CANDIDATE_STARTING, RECOVERY_STARTING}"
  by (cases p) (auto simp: phase_step_def)

lemma phase_reaches_commit: "phase_step\<^sup>*\<^sup>* p STATE_COMMITTED"
proof -
  have s: "phase_step PREPARED STATE_COMMITTED" "phase_step RUNTIME_SELECTED STATE_COMMITTED"
    "phase_step RESTART_REQUIRED CANDIDATE_STARTING" "phase_step CANDIDATE_STARTING STATE_COMMITTED"
    "phase_step ROLLBACK_RESTART_REQUIRED RECOVERY_STARTING" "phase_step RECOVERY_STARTING STATE_COMMITTED"
    by (simp_all add: phase_step_def)
  show ?thesis
    by (cases p) (use s in \<open>blast intro: r_into_rtranclp rtranclp.rtrancl_into_rtrancl converse_rtranclp_into_rtranclp\<close>)+
qed

lemma phase_reach_rank: "phase_step\<^sup>*\<^sup>* p q \<Longrightarrow> phase_rank p \<le> phase_rank q"
  by (induction rule: rtranclp_induct) (auto dest!: phase_step_rank)

section \<open>Properties\<close>

text \<open>In every history the matrix admits from absence, a tenant that is active, suspended
  or archived was deployed or imported after it was last created; and only an undeployed or
  an archived tenant can be deleted, so ordinary deletion never removes served content.\<close>

theorem lifecycle_content_provenance:
  assumes "lifecycle_history ABSENT ops t"
  shows "(t \<in> {ACTIVE, SUSPENDED, ARCHIVED} \<longrightarrow>
            DEPLOY \<in> set (since_create ops) \<or> IMPORT \<in> set (since_create ops)) \<and>
         (LIFECYCLE_MATRIX (op, t) = Some ABSENT \<longrightarrow> op = DELETE \<and> t \<in> {UNDEPLOYED, ARCHIVED})"
proof (intro conjI impI)
  assume "t \<in> {ACTIVE, SUSPENDED, ARCHIVED}"
  with assms show "DEPLOY \<in> set (since_create ops) \<or> IMPORT \<in> set (since_create ops)"
    by (rule content_needs_deployment)
next
  assume "LIFECYCLE_MATRIX (op, t) = Some ABSENT"
  then have "((op, t), ABSENT) \<in> set MATRIX" by (rule matrix_cases)
  then show "op = DELETE" "t \<in> {UNDEPLOYED, ARCHIVED}" by (auto simp: MATRIX_def)
qed

theorem lifecycle_content_provenance_witness:
  "DEPLOY \<in> set (since_create [CREATE, DEPLOY]) \<or> IMPORT \<in> set (since_create [CREATE, DEPLOY])"
proof -
  have "lifecycle_history ABSENT ([CREATE] @ [DEPLOY]) ACTIVE"
    by (rule lifecycle_history.step[OF history_single[where t = UNDEPLOYED]])
      (simp_all add: LIFECYCLE_MATRIX_def MATRIX_def)
  from lifecycle_content_provenance[OF this] show ?thesis by simp
qed

text \<open>No lifecycle state is a trap: from every state some accepted sequence of ordinary
  operations deletes the tenant, and from absence every state can be reached.\<close>

theorem lifecycle_no_dead_end:
  "(\<exists>ops. lifecycle_history s ops ABSENT) \<and> (\<exists>ops. lifecycle_history ABSENT ops s)"
  using reach_absent reach_from_absent by blast

text \<open>The durable phases of a transaction only move forward: apart from retrying a
  starting phase, every step strictly increases the rank, the committed phase is terminal,
  and it can be reached from every phase.\<close>

theorem transaction_phases_progress:
  "(phase_step p q \<longrightarrow> p = q \<and> p \<in> {CANDIDATE_STARTING, RECOVERY_STARTING} \<or> \<not> phase_step\<^sup>*\<^sup>* q p) \<and>
   \<not> phase_step STATE_COMMITTED q \<and> phase_step\<^sup>*\<^sup>* p STATE_COMMITTED"
  using phase_step_rank[of p q] phase_reach_rank[of q p] phase_reaches_commit[of p]
  by (auto simp: phase_step_def)

theorem transaction_phases_progress_witness: "\<not> phase_step\<^sup>*\<^sup>* RECOVERY_STARTING ROLLBACK_RESTART_REQUIRED"
  using transaction_phases_progress[of ROLLBACK_RESTART_REQUIRED RECOVERY_STARTING]
  by (simp add: phase_step_def)

end
