(* ===== verification/Operator_Protocol.thy ===== *)
theory Operator_Protocol
  imports Identifiers
begin

unbundle bit_operations_syntax

text \<open>
  Model of \<^verbatim>\<open>static_contracts/operator_protocol.py\<close>: the 24-byte big-endian frame header
  \<^verbatim>\<open>!8sBBHIQ\<close> and the fixed export acknowledgement \<^verbatim>\<open>!16s32sQ\<close>. The lemmas show that the
  two codecs are inverse to each other on everything they accept, that the lengths stay
  within the protocol's bounds, and what each rejection means.
\<close>

section \<open>Constants\<close>

definition MAGIC :: bytes where "MAGIC = map of_char ''LDPSTAT'' @ [0]"
definition VERSION :: nat where "VERSION = 1"
definition HEADER_SIZE :: nat where "HEADER_SIZE = 24"
definition MAX_RAW_REQUEST_BYTES :: int where "MAX_RAW_REQUEST_BYTES = 32 * 1024"
definition MAX_CANONICAL_BYTES :: int where "MAX_CANONICAL_BYTES = 16 * 1024"
definition MAX_IMPORT_ARTIFACT_BYTES :: int where "MAX_IMPORT_ARTIFACT_BYTES = 120 * 1024 * 1024"
definition MAX_RESPONSE_BYTES :: int where "MAX_RESPONSE_BYTES = MAX_CANONICAL_BYTES"
definition MAX_EXPORT_BYTES :: int where "MAX_EXPORT_BYTES = 120 * 1024 * 1024"
definition ARTIFACT_PRESENT :: nat where "ARTIFACT_PRESENT = 1"
definition KNOWN_FLAGS :: nat where "KNOWN_FLAGS = ARTIFACT_PRESENT"
definition SHA256_HEX_LENGTH :: nat where "SHA256_HEX_LENGTH = 64"
definition ACKNOWLEDGEMENT_SIZE :: nat where "ACKNOWLEDGEMENT_SIZE = 56"

datatype FrameKind = REQUEST | RESPONSE | ACKNOWLEDGEMENT

fun kind_code :: "FrameKind \<Rightarrow> nat" where
  "kind_code REQUEST = 1"
| "kind_code RESPONSE = 2"
| "kind_code ACKNOWLEDGEMENT = 3"

text \<open>\<^verbatim>\<open>FrameKind(value)\<close>\<close>

definition FrameKind_of :: "nat \<Rightarrow> FrameKind option" where
  "FrameKind_of n = List.find (\<lambda>k. kind_code k = n) [REQUEST, RESPONSE, ACKNOWLEDGEMENT]"

text \<open>The exceptions: \<^verbatim>\<open>ProtocolError\<close> with its code, a contract error of a validator, and
  \<^verbatim>\<open>struct.error\<close> from packing a number that does not fit.\<close>

datatype protocol_exn =
    ProtocolError string
  | ProtocolContract exn
  | StructError

record FrameHeader =
  kind :: FrameKind
  document_length :: int
  payload_length :: "int option"

record ExportAcknowledgement =
  job_id :: string
  sha256 :: string
  ack_size :: int

section \<open>Headers\<close>

definition validate_lengths :: "FrameHeader \<Rightarrow> protocol_exn + unit" where
  "validate_lengths header =
     (if kind header = ACKNOWLEDGEMENT
      then (if document_length header \<noteq> int ACKNOWLEDGEMENT_SIZE \<or> payload_length header \<noteq> None
            then Inl (ProtocolError ''invalid_acknowledgement'') else Inr ())
      else if document_length header \<le> 0 then Inl (ProtocolError ''invalid_header'')
      else
        let maximum_document =
              (if kind header = REQUEST then MAX_RAW_REQUEST_BYTES else MAX_RESPONSE_BYTES)
        in if document_length header > maximum_document
           then Inl (ProtocolError ''document_too_large'')
           else (case payload_length header of
               None \<Rightarrow> Inr ()
             | Some payload \<Rightarrow>
                 (if payload \<le> 0 then Inl (ProtocolError ''invalid_header'')
                  else
                    let maximum_payload =
                          (if kind header = REQUEST then MAX_IMPORT_ARTIFACT_BYTES else MAX_EXPORT_BYTES)
                    in if payload > maximum_payload then Inl (ProtocolError ''payload_too_large'')
                       else Inr ())))"

text \<open>\<^verbatim>\<open>struct.Struct("!8sBBHIQ").pack\<close> and \<^verbatim>\<open>.unpack\<close>\<close>

definition pack_header :: "bytes \<Rightarrow> nat \<Rightarrow> nat \<Rightarrow> nat \<Rightarrow> int \<Rightarrow> int \<Rightarrow> protocol_exn + bytes" where
  "pack_header magic ver k flags doc payload =
     (if ver < 2 ^ 8 \<and> k < 2 ^ 8 \<and> flags < 2 ^ 16 \<and> 0 \<le> doc \<and> doc < 2 ^ 32
         \<and> 0 \<le> payload \<and> payload < 2 ^ 64
      then Inr (take 8 (magic @ replicate 8 0) @ nat_be 1 ver @ nat_be 1 k @ nat_be 2 flags
                @ nat_be 4 (nat doc) @ nat_be 8 (nat payload))
      else Inl StructError)"

definition unpack_header :: "bytes \<Rightarrow> bytes \<times> nat \<times> nat \<times> nat \<times> nat \<times> nat" where
  "unpack_header raw =
     (slice 0 8 raw, be_nat (slice 8 9 raw), be_nat (slice 9 10 raw), be_nat (slice 10 12 raw),
      be_nat (slice 12 16 raw), be_nat (slice 16 24 raw))"

definition encode_header :: "FrameHeader \<Rightarrow> protocol_exn + bytes" where
  "encode_header header =
     bindE (validate_lengths header) (\<lambda>_.
     let flags = (if payload_length header \<noteq> None then ARTIFACT_PRESENT else 0);
         payload = (case payload_length header of None \<Rightarrow> 0 | Some p \<Rightarrow> p)
     in pack_header MAGIC VERSION (kind_code (kind header)) flags (document_length header) payload)"

definition decode_header :: "bytes \<Rightarrow> FrameKind list \<Rightarrow> protocol_exn + FrameHeader" where
  "decode_header raw allowed =
     (if length raw \<noteq> HEADER_SIZE then Inl (ProtocolError ''invalid_header'')
      else case unpack_header raw of (magic, ver, kind_value, flags, doc_length, encoded_payload) \<Rightarrow>
        if magic \<noteq> MAGIC \<or> ver \<noteq> VERSION then Inl (ProtocolError ''unsupported_protocol'')
        else (case FrameKind_of kind_value of
            None \<Rightarrow> Inl (ProtocolError ''unsupported_protocol'')
          | Some k \<Rightarrow>
              if k \<notin> set allowed \<or> int flags AND NOT (int KNOWN_FLAGS) \<noteq> 0
              then Inl (ProtocolError ''invalid_header'')
              else
                let payload_present = (flags AND ARTIFACT_PRESENT \<noteq> 0)
                in if payload_present \<noteq> (encoded_payload \<noteq> 0)
                   then Inl (ProtocolError ''invalid_header'')
                   else
                     let header = \<lparr>kind = k, document_length = int doc_length,
                                   payload_length =
                                     (if payload_present then Some (int encoded_payload) else None)\<rparr>
                     in bindE (validate_lengths header) (\<lambda>_. Inr header)))"

section \<open>Export acknowledgements\<close>

definition ack_encode :: "ExportAcknowledgement \<Rightarrow> protocol_exn + bytes" where
  "ack_encode ack =
     bindE (mapE ProtocolContract (validate_uuid7 (JStr (job_id ack)))) (\<lambda>jid.
     if length (sha256 ack) \<noteq> SHA256_HEX_LENGTH
        \<or> \<not> list_all (\<lambda>c. c \<in> set ''0123456789abcdef'') (sha256 ack)
        \<or> \<not> (0 < ack_size ack \<and> ack_size ack \<le> MAX_EXPORT_BYTES)
     then Inl (ProtocolError ''invalid_acknowledgement'')
     else Inr (nat_be 16 (uuid_int jid) @ bytes_of_hex (sha256 ack) @ nat_be 8 (nat (ack_size ack))))"

definition ack_decode :: "bytes \<Rightarrow> protocol_exn + ExportAcknowledgement" where
  "ack_decode raw =
     (if length raw \<noteq> ACKNOWLEDGEMENT_SIZE then Inl (ProtocolError ''invalid_acknowledgement'')
      else
        let receipt = \<lparr>job_id = uuid_str (be_nat (slice 0 16 raw)),
                       sha256 = hex_of_bytes (slice 16 48 raw),
                       ack_size = int (be_nat (slice 48 56 raw))\<rparr>
        in bindE (ack_encode receipt) (\<lambda>_. Inr receipt))"

section \<open>Accepted headers\<close>

lemmas length_limits = MAX_RAW_REQUEST_BYTES_def MAX_CANONICAL_BYTES_def MAX_IMPORT_ARTIFACT_BYTES_def
  MAX_RESPONSE_BYTES_def MAX_EXPORT_BYTES_def ACKNOWLEDGEMENT_SIZE_def

definition header_ok :: "FrameHeader \<Rightarrow> bool" where
  "header_ok h \<longleftrightarrow>
     (case kind h of
        ACKNOWLEDGEMENT \<Rightarrow> document_length h = 56 \<and> payload_length h = None
      | REQUEST \<Rightarrow> 0 < document_length h \<and> document_length h \<le> 32 * 1024 \<and>
          (\<forall>p. payload_length h = Some p \<longrightarrow> 0 < p \<and> p \<le> 120 * 1024 * 1024)
      | RESPONSE \<Rightarrow> 0 < document_length h \<and> document_length h \<le> 16 * 1024 \<and>
          (\<forall>p. payload_length h = Some p \<longrightarrow> 0 < p \<and> p \<le> 120 * 1024 * 1024))"

lemma validate_lengths_iff: "validate_lengths h = Inr u \<longleftrightarrow> header_ok h"
  by (cases "kind h") (auto simp: validate_lengths_def header_ok_def length_limits Let_def split: option.splits)

lemma kind_code_inj: "kind_code a = kind_code b \<longleftrightarrow> a = b"
  by (cases a; cases b) simp_all

lemma FrameKind_of_kind_code [simp]: "FrameKind_of (kind_code k) = Some k"
  by (cases k) (simp_all add: FrameKind_of_def)

lemma FrameKind_of_iff: "FrameKind_of n = Some k \<longleftrightarrow> n = kind_code k"
  by (cases k) (auto simp: FrameKind_of_def split: if_splits)

lemma kind_code_less: "kind_code k < 256"
  by (cases k) simp_all

lemma length_MAGIC [simp]: "length MAGIC = 8"
  by (simp add: MAGIC_def)

lemma header_payload_less: "header_ok h \<Longrightarrow> payload_length h = Some p \<Longrightarrow> 0 < p \<and> p < 2 ^ 64"
  by (cases "kind h") (auto simp: header_ok_def)

lemma header_document_less: "header_ok h \<Longrightarrow> 0 < document_length h \<and> document_length h < 2 ^ 32"
  by (cases "kind h") (auto simp: header_ok_def)

definition frame_bytes :: "nat \<Rightarrow> nat \<Rightarrow> nat \<Rightarrow> nat \<Rightarrow> bytes" where
  "frame_bytes k flags doc payload =
     MAGIC @ nat_be 1 VERSION @ nat_be 1 k @ nat_be 2 flags @ nat_be 4 doc @ nat_be 8 payload"

lemma length_frame_bytes [simp]: "length (frame_bytes k flags doc payload) = 24"
  by (simp add: frame_bytes_def)

lemma unpack_frame_bytes:
  assumes "k < 2 ^ 8" "flags < 2 ^ 16" "doc < 2 ^ 32" "payload < 2 ^ 64"
  shows "unpack_header (frame_bytes k flags doc payload) = (MAGIC, VERSION, k, flags, doc, payload)"
  using assms
  by (simp add: unpack_header_def frame_bytes_def slice_def be_nat_nat_be VERSION_def)

lemma encode_header_iff:
  "encode_header h = Inr bs \<longleftrightarrow> header_ok h \<and>
     bs = frame_bytes (kind_code (kind h)) (if payload_length h = None then 0 else 1)
            (nat (document_length h)) (case payload_length h of None \<Rightarrow> 0 | Some p \<Rightarrow> nat p)"
proof (cases "header_ok h")
  case True
  have "validate_lengths h = Inr ()" using True by (simp add: validate_lengths_iff)
  then show ?thesis
    using True header_document_less[OF True] header_payload_less[OF True] kind_code_less[of "kind h"]
    by (auto simp: encode_header_def pack_header_def frame_bytes_def ARTIFACT_PRESENT_def VERSION_def
        Let_def split: option.splits)
next
  case False
  then show ?thesis
    by (cases "validate_lengths h") (auto simp: encode_header_def validate_lengths_iff)
qed

text \<open>Every 24-byte string is the frame of the six numbers read from it.\<close>

lemma frame_bytes_unpack:
  assumes "length raw = 24" "unpack_header raw = (MAGIC, VERSION, k, flags, doc, payload)"
  shows "raw = frame_bytes k flags doc payload"
proof -
  have cut: "nat_be (j - i) (be_nat (slice i j raw)) = slice i j raw" if "j \<le> 24" for i j
    using nat_be_be_nat[of "slice i j raw"] that assms(1) by (simp add: length_slice)
  have u: "slice 0 8 raw = MAGIC" "be_nat (slice 8 9 raw) = VERSION" "be_nat (slice 9 10 raw) = k"
    "be_nat (slice 10 12 raw) = flags" "be_nat (slice 12 16 raw) = doc" "be_nat (slice 16 24 raw) = payload"
    using assms(2) by (simp_all add: unpack_header_def)
  have "raw = slice 0 8 raw @ slice 8 9 raw @ slice 9 10 raw @ slice 10 12 raw @ slice 12 16 raw @ slice 16 24 raw"
    using assms(1) by (simp add: slice_def) (simp add: flip: append_assoc take_add)
  also have "\<dots> = frame_bytes k flags doc payload"
    using cut[of 9 8] cut[of 10 9] cut[of 12 10] cut[of 16 12] cut[of 24 16]
    by (simp add: frame_bytes_def u)
  finally show ?thesis .
qed

lemma and_not_one: "(x :: int) AND NOT 1 = 2 * (x div 2)"
  by (rule bit_eqI) (auto simp: bit_simps bit_double_iff bit_1_iff simp flip: bit_Suc)

lemma known_flags_iff: "int flags AND NOT (int KNOWN_FLAGS) = 0 \<longleftrightarrow> flags = 0 \<or> flags = 1"
proof -
  have "int flags AND NOT (int KNOWN_FLAGS) = 2 * (int flags div 2)"
    unfolding and_not_one[symmetric] by (simp add: KNOWN_FLAGS_def ARTIFACT_PRESENT_def)
  then show ?thesis by auto
qed

lemma decode_header_iff:
  "decode_header raw allowed = Inr h \<longleftrightarrow>
     kind h \<in> set allowed \<and> header_ok h \<and>
     raw = frame_bytes (kind_code (kind h)) (if payload_length h = None then 0 else 1)
             (nat (document_length h)) (case payload_length h of None \<Rightarrow> 0 | Some p \<Rightarrow> nat p)"
  (is "?dec \<longleftrightarrow> ?spec")
proof
  assume ?dec
  then obtain k flags doc payload where len: "length raw = 24"
    and un: "unpack_header raw = (MAGIC, VERSION, k, flags, doc, payload)"
    and rest: "k = kind_code (kind h)" "kind h \<in> set allowed" "flags = 0 \<or> flags = 1"
      "(flags AND 1 \<noteq> 0) = (payload \<noteq> 0)" "document_length h = int doc"
      "payload_length h = (if flags AND 1 \<noteq> 0 then Some (int payload) else None)" "header_ok h"
    by (auto simp: decode_header_def HEADER_SIZE_def FrameKind_of_iff known_flags_iff Let_def
        ARTIFACT_PRESENT_def validate_lengths_iff result_simps split: prod.splits if_splits option.splits)
  have "raw = frame_bytes k flags doc payload" using len un by (rule frame_bytes_unpack)
  then show ?spec using rest by auto
next
  assume spec: ?spec
  let ?flags = "if payload_length h = None then 0 else (1 :: nat)"
  let ?p = "case payload_length h of None \<Rightarrow> 0 | Some p \<Rightarrow> nat p"
  have hd: "0 < document_length h" "document_length h < 2 ^ 32" using spec header_document_less by auto
  have p: "?p < 2 ^ 64" "(?p \<noteq> 0) = (payload_length h \<noteq> None)"
    "payload_length h \<noteq> None \<longrightarrow> payload_length h = Some (int ?p)"
  proof (atomize (full), cases "payload_length h")
    case (Some q)
    with spec have "0 < q \<and> q < 2 ^ 64" by (intro header_payload_less) auto
    with Some show "?p < 2 ^ 64 \<and> (?p \<noteq> 0) = (payload_length h \<noteq> None) \<and>
        (payload_length h \<noteq> None \<longrightarrow> payload_length h = Some (int ?p))"
      by (simp add: nat_less_iff)
  qed simp
  have "unpack_header raw = (MAGIC, VERSION, kind_code (kind h), ?flags, nat (document_length h), ?p)"
    using spec hd p(1) kind_code_less[of "kind h"]
    by (auto intro!: unpack_frame_bytes simp: nat_less_iff)
  moreover have "validate_lengths h = Inr ()" using spec by (simp add: validate_lengths_iff)
  moreover have "length raw = 24" using spec by simp
  ultimately show ?dec
    using spec hd p
    by (cases h) (auto simp: decode_header_def HEADER_SIZE_def known_flags_iff Let_def ARTIFACT_PRESENT_def
        split: option.splits)
qed

interpretation header_codec: canonical_codec encode_header
  "\<lambda>raw. decode_header raw [REQUEST, RESPONSE, ACKNOWLEDGEMENT]"
proof unfold_locales
  have all: "k \<in> set [REQUEST, RESPONSE, ACKNOWLEDGEMENT]" for k by (cases k) simp_all
  show "decode_header bs [REQUEST, RESPONSE, ACKNOWLEDGEMENT] = Inr h" if "encode_header h = Inr bs" for h bs
    using that all[of "kind h"] unfolding encode_header_iff decode_header_iff by blast
  show "encode_header h = Inr bs" if "decode_header bs [REQUEST, RESPONSE, ACKNOWLEDGEMENT] = Inr h" for h bs
    using that unfolding encode_header_iff decode_header_iff by blast
qed

section \<open>Accepted acknowledgements\<close>

lemma hex_digits_iff: "c \<in> set ''0123456789abcdef'' \<longleftrightarrow> is_lower_hex c"
proof
  assume "is_lower_hex c"
  then have "hex_digit (unhex_digit c) = c" "unhex_digit c < 16"
    by (rule hex_unhex_digit, rule unhex_digit_less)
  moreover have "hex_digit n \<in> set ''0123456789abcdef''" if "n < 16" for n
  proof -
    have "list_all (\<lambda>n. hex_digit n \<in> set ''0123456789abcdef'') [0..<16]" by code_simp
    moreover have "n \<in> set [0..<16]" using that by simp
    ultimately show ?thesis unfolding list_all_iff by blast
  qed
  ultimately show "c \<in> set ''0123456789abcdef''" by metis
qed (auto simp: char_class_defs)

definition ack_ok :: "ExportAcknowledgement \<Rightarrow> bool" where
  "ack_ok a \<longleftrightarrow> fullmatch UUID7_PATTERN (job_id a) \<and> length (sha256 a) = 64 \<and>
     list_all is_lower_hex (sha256 a) \<and> 0 < ack_size a \<and> ack_size a \<le> 120 * 1024 * 1024"

lemma ack_encode_iff:
  "ack_encode a = Inr bs \<longleftrightarrow> ack_ok a \<and>
     bs = nat_be 16 (uuid_int (job_id a)) @ bytes_of_hex (sha256 a) @ nat_be 8 (nat (ack_size a))"
proof -
  have "list_all (\<lambda>c. c \<in> set ''0123456789abcdef'') s = list_all is_lower_hex s" for s
    unfolding hex_digits_iff ..
  then show ?thesis
    unfolding ack_encode_def ack_ok_def SHA256_HEX_LENGTH_def MAX_EXPORT_BYTES_def
    by (auto simp: result_simps uuid7_iff simp del: list.set)
qed

lemma uuid_int_less: "fullmatch UUID7_PATTERN s \<Longrightarrow> uuid_int s < 256 ^ 16"
  using nat_of_hex_less[OF uuid7_digits(2), of s] uuid7_digits(1)[of s] by (simp add: uuid_int_def)

lemma ack_slices:
  assumes "length a = 16" "length b = 32" "length c = 8"
  shows "slice 0 16 (a @ b @ c) = a" "slice 16 48 (a @ b @ c) = b" "slice 48 56 (a @ b @ c) = c"
  using assms by (simp_all add: slice_def)

lemma ack_ok_length: "ack_ok a \<Longrightarrow> length (bytes_of_hex (sha256 a)) = 32"
  by (simp add: ack_ok_def length_bytes_of_hex)

interpretation ack_codec: canonical_codec ack_encode ack_decode
proof unfold_locales
  fix a bs assume enc: "ack_encode a = Inr bs"
  then have ok: "ack_ok a" and bs: "bs = nat_be 16 (uuid_int (job_id a)) @ bytes_of_hex (sha256 a)
      @ nat_be 8 (nat (ack_size a))"
    by (simp_all add: ack_encode_iff)
  have size: "nat (ack_size a) < 256 ^ 8" using ok by (simp add: ack_ok_def nat_less_iff)
  have uuid: "fullmatch UUID7_PATTERN (job_id a)" using ok by (simp add: ack_ok_def)
  have uid: "uuid_int (job_id a) < 256 ^ 16" "uuid_str (uuid_int (job_id a)) = job_id a"
    using uuid_int_less[OF uuid] uuid7_pattern_version(2)[OF uuid] by blast+
  have "\<lparr>job_id = uuid_str (be_nat (slice 0 16 bs)), sha256 = hex_of_bytes (slice 16 48 bs),
         ack_size = int (be_nat (slice 48 56 bs))\<rparr> = a"
    unfolding bs ack_slices[OF length_nat_be ack_ok_length[OF ok] length_nat_be]
      be_nat_nat_be_id[OF uid(1)] be_nat_nat_be_id[OF size] uid(2)
    using ok by (cases a) (simp add: ack_ok_def codec_simps)
  moreover have "length bs = 56" unfolding bs by (simp add: ack_ok_length[OF ok])
  ultimately show "ack_decode bs = Inr a" using enc by (simp add: ack_decode_def ACKNOWLEDGEMENT_SIZE_def)
next
  fix a bs assume dec: "ack_decode bs = Inr a"
  then obtain cs where len: "length bs = 56"
    and a: "a = \<lparr>job_id = uuid_str (be_nat (slice 0 16 bs)), sha256 = hex_of_bytes (slice 16 48 bs),
                 ack_size = int (be_nat (slice 48 56 bs))\<rparr>"
    and enc: "ack_encode a = Inr cs"
    by (auto simp: ack_decode_def ACKNOWLEDGEMENT_SIZE_def Let_def result_simps split: if_splits)
  have cut: "length (slice i j bs) = j - i" if "j \<le> 56" for i j using that len by (simp add: length_slice)
  have n: "be_nat (slice 0 16 bs) < 16 ^ 32" using be_nat_less[of "slice 0 16 bs"] cut[of 16 0] by simp
  have "cs = slice 0 16 bs @ slice 16 48 bs @ slice 48 56 bs"
    using enc nat_be_be_nat[of "slice 0 16 bs"] nat_be_be_nat[of "slice 48 56 bs"] cut[of 16 0] cut[of 56 48]
    by (simp add: ack_encode_iff a uuid_int_uuid_str[OF n] codec_simps(3))
  also have "\<dots> = bs" using len by (simp add: slice_def) (simp add: flip: append_assoc take_add)
  finally show "ack_encode a = Inr bs" using enc by simp
qed

section \<open>Properties\<close>

text \<open>The frame header codec is exact: \<^verbatim>\<open>decode_header\<close> returns a header precisely when the
  24 bytes are its encoding and its kind is expected. Encoding and decoding are therefore
  inverse, and a header has only one byte representation.\<close>

theorem header_codec_exact:
  "(decode_header raw allowed = Inr h) = (encode_header h = Inr raw \<and> kind h \<in> set allowed)"
  unfolding decode_header_iff encode_header_iff by blast

text \<open>The export acknowledgement codec is exact: the 56 bytes \<^verbatim>\<open>decode\<close> accepts are the
  encoding of the receipt it returns, and every encoded receipt decodes to itself.\<close>

theorem acknowledgement_codec_exact: "(ack_decode raw = Inr a) = (ack_encode a = Inr raw)"
  by (rule ack_codec.dec_iff_enc)

text \<open>A decoded header never announces more than the protocol's bounds: a request carries
  at most 32 KiB of document and a response 16 KiB, a payload is absent or between one byte
  and 120 MiB, and an acknowledgement is exactly 56 bytes without payload.\<close>

theorem decoded_header_bounded:
  assumes "decode_header raw allowed = Inr h"
  shows "length raw = 24 \<and> 0 < document_length h \<and>
    document_length h \<le> (case kind h of REQUEST \<Rightarrow> 32768 | RESPONSE \<Rightarrow> 16384 | ACKNOWLEDGEMENT \<Rightarrow> 56) \<and>
    (\<forall>p. payload_length h = Some p \<longrightarrow> 0 < p \<and> p \<le> 125829120 \<and> kind h \<noteq> ACKNOWLEDGEMENT)"
proof -
  from assms have "header_ok h" "length raw = 24" by (simp_all add: decode_header_iff)
  then show ?thesis by (cases "kind h") (auto simp: header_ok_def)
qed

theorem decoded_header_bounded_witness:
  "\<exists>raw. decode_header raw [REQUEST] = Inr \<lparr>kind = REQUEST, document_length = 100, payload_length = Some 5\<rparr>
         \<and> length raw = 24"
proof -
  let ?h = "\<lparr>kind = REQUEST, document_length = 100, payload_length = Some 5\<rparr> :: FrameHeader"
  let ?raw = "frame_bytes 1 1 100 5"
  have "decode_header ?raw [REQUEST] = Inr ?h" by (simp add: decode_header_iff header_ok_def)
  with decoded_header_bounded[OF this] show ?thesis by blast
qed

end
