(* ===== verification/Sha256.thy ===== *)
theory Sha256
  imports Prelude
begin

unbundle bit_operations_syntax

text \<open>
  The standard library's \<^verbatim>\<open>hashlib.sha256\<close> (FIPS 180-4), which the digests, the audit chain and
  the archive commitments are built on: padding, the message schedule, the compression
  function on 32-bit words, and \<^verbatim>\<open>hexdigest\<close>. Nothing below assumes that the function is free
  of collisions; the properties of its users say what they bind and name the two distinct
  inputs a collision would need.
\<close>

type_synonym word32 = "32 word"

definition sha256_k :: "word32 list" where
  "sha256_k = [
     0x428A2F98, 0x71374491, 0xB5C0FBCF, 0xE9B5DBA5, 0x3956C25B, 0x59F111F1, 0x923F82A4, 0xAB1C5ED5,
     0xD807AA98, 0x12835B01, 0x243185BE, 0x550C7DC3, 0x72BE5D74, 0x80DEB1FE, 0x9BDC06A7, 0xC19BF174,
     0xE49B69C1, 0xEFBE4786, 0x0FC19DC6, 0x240CA1CC, 0x2DE92C6F, 0x4A7484AA, 0x5CB0A9DC, 0x76F988DA,
     0x983E5152, 0xA831C66D, 0xB00327C8, 0xBF597FC7, 0xC6E00BF3, 0xD5A79147, 0x06CA6351, 0x14292967,
     0x27B70A85, 0x2E1B2138, 0x4D2C6DFC, 0x53380D13, 0x650A7354, 0x766A0ABB, 0x81C2C92E, 0x92722C85,
     0xA2BFE8A1, 0xA81A664B, 0xC24B8B70, 0xC76C51A3, 0xD192E819, 0xD6990624, 0xF40E3585, 0x106AA070,
     0x19A4C116, 0x1E376C08, 0x2748774C, 0x34B0BCB5, 0x391C0CB3, 0x4ED8AA4A, 0x5B9CCA4F, 0x682E6FF3,
     0x748F82EE, 0x78A5636F, 0x84C87814, 0x8CC70208, 0x90BEFFFA, 0xA4506CEB, 0xBEF9A3F7, 0xC67178F2]"

definition sha256_iv :: "word32 list" where
  "sha256_iv = [
     0x6A09E667, 0xBB67AE85, 0x3C6EF372, 0xA54FF53A, 0x510E527F, 0x9B05688C, 0x1F83D9AB, 0x5BE0CD19]"

definition rotr :: "nat \<Rightarrow> word32 \<Rightarrow> word32" where
  "rotr n x = drop_bit n x OR push_bit (32 - n) x"

definition sched0 :: "word32 \<Rightarrow> word32" where
  "sched0 x = rotr 7 x XOR rotr 18 x XOR drop_bit 3 x"

definition sched1 :: "word32 \<Rightarrow> word32" where
  "sched1 x = rotr 17 x XOR rotr 19 x XOR drop_bit 10 x"

text \<open>The schedule is kept reversed: the newest word is the head.\<close>

fun schedule :: "nat \<Rightarrow> word32 list \<Rightarrow> word32 list" where
  "schedule 0 ws = ws"
| "schedule (Suc n) ws =
     schedule n ((sched1 (ws ! 1) + ws ! 6 + sched0 (ws ! 14) + ws ! 15) # ws)"

type_synonym sha_state =
  "word32 \<times> word32 \<times> word32 \<times> word32 \<times> word32 \<times> word32 \<times> word32 \<times> word32"

fun sha_round :: "sha_state \<Rightarrow> word32 \<times> word32 \<Rightarrow> sha_state" where
  "sha_round (a, b, c, d, e, f, g, h) (k, w) =
     (let s1 = rotr 6 e XOR rotr 11 e XOR rotr 25 e;
          ch = (e AND f) XOR (NOT e AND g);
          t1 = h + s1 + ch + k + w;
          s0 = rotr 2 a XOR rotr 13 a XOR rotr 22 a;
          maj = (a AND b) XOR (a AND c) XOR (b AND c);
          t2 = s0 + maj
      in (t1 + t2, a, b, c, d + t1, e, f, g))"

definition be_word :: "bytes \<Rightarrow> word32" where
  "be_word bs = of_nat (be_nat bs)"

fun chunks :: "nat \<Rightarrow> nat \<Rightarrow> 'a list \<Rightarrow> 'a list list" where
  "chunks 0 k xs = []"
| "chunks (Suc n) k xs = take k xs # chunks n k (drop k xs)"

fun sha_list :: "sha_state \<Rightarrow> word32 list" where
  "sha_list (a, b, c, d, e, f, g, h) = [a, b, c, d, e, f, g, h]"

definition sha_tuple :: "word32 list \<Rightarrow> sha_state" where
  "sha_tuple s = (s ! 0, s ! 1, s ! 2, s ! 3, s ! 4, s ! 5, s ! 6, s ! 7)"

definition compress :: "word32 list \<Rightarrow> bytes \<Rightarrow> word32 list" where
  "compress s block =
     (let ws = rev (schedule 48 (rev (map be_word (chunks 16 4 block))))
      in map2 (+) s (sha_list (foldl sha_round (sha_tuple s) (zip sha256_k ws))))"

definition sha_pad :: "bytes \<Rightarrow> bytes" where
  "sha_pad msg =
     msg @ [0x80] @ replicate ((119 - length msg mod 64) mod 64) 0 @ nat_be 8 (8 * length msg)"

definition sha256 :: "bytes \<Rightarrow> bytes" where
  "sha256 msg =
     (let padded = sha_pad msg
      in concat (map (\<lambda>w. nat_be 4 (unat w))
           (foldl compress sha256_iv (chunks (length padded div 64) 64 padded))))"

definition sha256_hex :: "bytes \<Rightarrow> string" where
  "sha256_hex msg = hex_of_bytes (sha256 msg)"

section \<open>Shape of the result\<close>

lemma length_chunks [simp]: "length (chunks n k xs) = n"
  by (induction n arbitrary: xs) simp_all

lemma length_sha_list [simp]: "length (sha_list st) = 8"
  by (cases st rule: sha_list.cases) simp

lemma length_compress: "length s = 8 \<Longrightarrow> length (compress s b) = 8"
  by (simp add: compress_def Let_def)

lemma length_compress_foldl: "length s = 8 \<Longrightarrow> length (foldl compress s bs) = 8"
  by (induction bs arbitrary: s) (simp_all add: length_compress)

lemma length_sha256 [simp]: "length (sha256 msg) = 32"
proof -
  have "length (foldl compress sha256_iv bs) = 8" for bs
    by (rule length_compress_foldl) (simp add: sha256_iv_def)
  then show ?thesis
    by (simp add: sha256_def Let_def length_concat o_def sum_list_triv)
qed

text \<open>The padded message is a whole number of blocks, so the last block ends with the length.\<close>

lemma sha_pad_blocks: "length (sha_pad msg) mod 64 = 0"
proof -
  have "(m + 1 + (119 - m mod 64) mod 64 + 8) mod 64 = 0" for m :: nat
  proof -
    define r where "r = m mod 64"
    have "r < 64" by (simp add: r_def)
    then have "(r + 1 + (119 - r) mod 64 + 8) mod 64 = 0"
      by (cases "r \<le> 55") (auto simp: mod_if)
    moreover have "(m + s) mod 64 = (r + s) mod 64" for s
      unfolding r_def by (simp add: mod_add_left_eq)
    ultimately show ?thesis by (simp only: add.assoc) (simp only: r_def)
  qed
  then show ?thesis by (simp add: sha_pad_def ac_simps)
qed

lemma sha256_hex_shape [simp]:
  "length (sha256_hex msg) = 64" "list_all is_lower_hex (sha256_hex msg)"
  by (simp_all add: sha256_hex_def hex_of_bytes_lower_hex)

end
