(* ===== verification/Digest.thy ===== *)
theory Digest
  imports Identifiers Sha256
begin

text \<open>
  Model of \<^verbatim>\<open>static_contracts/_digest.py\<close>, of \<^verbatim>\<open>_unique_object\<close> and \<^verbatim>\<open>canonical_json_bytes\<close> of
  \<^verbatim>\<open>static_contracts/canonical.py\<close>. The third-party serializer \<^verbatim>\<open>rfc8785.dumps\<close> is a parameter
  (\<^verbatim>\<open>None\<close> where it raises). The lemmas show that the framing in front of the hash is
  uniquely decodable, so a digest binds both the payload and its format.
\<close>

section \<open>Values\<close>

definition MANIFEST_DIGEST_FORMAT :: string where
  "MANIFEST_DIGEST_FORMAT = ''lowerduckpond-manifest-v1''"
definition REQUEST_DIGEST_FORMAT :: string where
  "REQUEST_DIGEST_FORMAT = ''lowerduckpond-request-v1''"
definition RESULT_DIGEST_FORMAT :: string where
  "RESULT_DIGEST_FORMAT = ''lowerduckpond-result-v1''"
definition AUDIT_ENTRY_DIGEST_FORMAT :: string where
  "AUDIT_ENTRY_DIGEST_FORMAT = ''lowerduckpond-audit-entry-v1''"
definition PLATFORM_STATE_DIGEST_FORMAT :: string where
  "PLATFORM_STATE_DIGEST_FORMAT = ''lowerduckpond-platform-state-v1''"
definition DEPLOYMENT_RECORD_DIGEST_FORMAT :: string where
  "DEPLOYMENT_RECORD_DIGEST_FORMAT = ''lowerduckpond-deployment-record-v1''"
definition ARCHIVE_RECORD_DIGEST_FORMAT :: string where
  "ARCHIVE_RECORD_DIGEST_FORMAT = ''lowerduckpond-archive-record-v1''"

definition MAX_U32 :: nat where "MAX_U32 = 2 ^ 32 - 1"

definition SHA256_PATTERN :: "(char \<Rightarrow> bool) list" where
  "SHA256_PATTERN = replicate 64 is_lower_hex"

text \<open>
  \<^verbatim>\<open>lowerduckpond-[a-z0-9]+(?:-[a-z0-9]+)*-v1\<close>: at least three hyphen-separated nonempty
  alphanumeric words, the first and last of them fixed.
\<close>

definition FORMAT_PATTERN :: "string \<Rightarrow> bool" where
  "FORMAT_PATTERN s \<longleftrightarrow>
     (let ws = split_on (CHR ''-'') s in
      3 \<le> length ws \<and> hd ws = ''lowerduckpond'' \<and> last ws = ''v1'' \<and>
      list_all (\<lambda>w. w \<noteq> [] \<and> list_all is_lower_alnum w) ws)"

record Digest =
  format :: string
  algorithm :: string
  digest_value :: string

definition mk_Digest :: "string \<Rightarrow> string \<Rightarrow> string \<Rightarrow> Digest py" where
  "mk_Digest fmt alg v =
     (if alg \<noteq> ''sha256'' \<or> \<not> fullmatch SHA256_PATTERN v
      then Inl (ContractError INVALID_IDENTIFIER ''digest is not canonical SHA-256'')
      else if \<not> FORMAT_PATTERN fmt
      then Inl (ContractError INVALID_IDENTIFIER ''digest format is not recognized'')
      else Inr \<lparr>format = fmt, algorithm = alg, digest_value = v\<rparr>)"

definition Digest_to_dict :: "Digest \<Rightarrow> json" where
  "Digest_to_dict d =
     obj [(''format'', JStr (format d)), (''algorithm'', JStr (algorithm d)),
          (''value'', JStr (digest_value d))]"

section \<open>Hashing\<close>

text \<open>\<^verbatim>\<open>format.encode("ascii") + b"\0" + len(payload).to_bytes(4, "big") + payload\<close>\<close>

definition framed :: "string \<Rightarrow> bytes \<Rightarrow> bytes" where
  "framed fmt payload = map (\<lambda>c. byte_of (char_code c)) fmt @ [0] @ nat_be 4 (length payload) @ payload"

definition digest_bytes :: "bytes \<Rightarrow> string \<Rightarrow> Digest py" where
  "digest_bytes payload format_identifier =
     bindE (mk_Digest format_identifier ''sha256'' (replicate 64 (CHR ''0''))) (\<lambda>digest.
     if length payload > MAX_U32
     then Inl (ContractError CANONICAL_TOO_LARGE ''digest payload length is unsupported'')
     else mk_Digest (format digest) ''sha256'' (sha256_hex (framed (format digest) payload)))"

section \<open>Canonical serialization\<close>

definition MAX_RAW_REQUEST_BYTES :: nat where "MAX_RAW_REQUEST_BYTES = 32 * 1024"
definition MAX_CANONICAL_BYTES :: nat where "MAX_CANONICAL_BYTES = 16 * 1024"

fun unique_member :: "(string, json) fmap \<Rightarrow> string \<times> json \<Rightarrow> (string, json) fmap py" where
  "unique_member result (key, v) =
     (if fmlookup result key \<noteq> None
      then Inl (ContractError DUPLICATE_JSON_MEMBER ''JSON contains a duplicate object member'')
      else Inr (fmupd key v result))"

definition unique_object :: "(string \<times> json) list \<Rightarrow> (string, json) fmap py" where
  "unique_object pairs = foldE unique_member fmempty pairs"

definition canonical_json_bytes :: "(json \<Rightarrow> bytes option) \<Rightarrow> json \<Rightarrow> nat \<Rightarrow> bytes py" where
  "canonical_json_bytes dumps v maximum_bytes =
     (case dumps v of
        None \<Rightarrow> Inl (ContractError SCHEMA_INVALID ''value is not canonicalizable JSON'')
      | Some text \<Rightarrow>
          let canonical = text @ [10] in
          if length canonical > maximum_bytes
          then Inl (ContractError CANONICAL_TOO_LARGE ''canonical JSON exceeds its limit'')
          else Inr canonical)"

section \<open>Accepted digests\<close>

lemma mk_Digest_iff [result_simps]:
  "mk_Digest fmt alg v = Inr d \<longleftrightarrow>
     alg = ''sha256'' \<and> fullmatch SHA256_PATTERN v \<and> FORMAT_PATTERN fmt \<and>
     d = \<lparr>format = fmt, algorithm = alg, digest_value = v\<rparr>"
  by (auto simp: mk_Digest_def)

lemma sha256_pattern_iff: "fullmatch SHA256_PATTERN v \<longleftrightarrow> length v = 64 \<and> list_all is_lower_hex v"
  by (simp add: SHA256_PATTERN_def fullmatch_replicate)

lemma sha256_pattern_hex [simp]: "fullmatch SHA256_PATTERN (sha256_hex msg)"
  by (simp add: sha256_pattern_iff)

lemma sha256_pattern_zero [simp]: "fullmatch SHA256_PATTERN (replicate 64 (CHR ''0''))"
  by (simp add: sha256_pattern_iff list_all_replicate_iff char_class_defs)

lemma digest_bytes_iff:
  "digest_bytes payload fmt = Inr d \<longleftrightarrow>
     FORMAT_PATTERN fmt \<and> length payload \<le> MAX_U32 \<and>
     d = \<lparr>format = fmt, algorithm = ''sha256'', digest_value = sha256_hex (framed fmt payload)\<rparr>"
  by (auto simp: digest_bytes_def result_simps)

text \<open>The contract formats of the repository are all recognized.\<close>

lemmas format_defs = MANIFEST_DIGEST_FORMAT_def REQUEST_DIGEST_FORMAT_def RESULT_DIGEST_FORMAT_def
  AUDIT_ENTRY_DIGEST_FORMAT_def PLATFORM_STATE_DIGEST_FORMAT_def DEPLOYMENT_RECORD_DIGEST_FORMAT_def
  ARCHIVE_RECORD_DIGEST_FORMAT_def

lemma contract_formats [simp]:
  "FORMAT_PATTERN MANIFEST_DIGEST_FORMAT" "FORMAT_PATTERN REQUEST_DIGEST_FORMAT"
  "FORMAT_PATTERN RESULT_DIGEST_FORMAT" "FORMAT_PATTERN AUDIT_ENTRY_DIGEST_FORMAT"
  "FORMAT_PATTERN PLATFORM_STATE_DIGEST_FORMAT" "FORMAT_PATTERN DEPLOYMENT_RECORD_DIGEST_FORMAT"
  "FORMAT_PATTERN ARCHIVE_RECORD_DIGEST_FORMAT"
  unfolding format_defs by code_simp+

lemma Digest_to_dict_inject: "Digest_to_dict d = Digest_to_dict e \<longleftrightarrow> d = e"
  by (cases d, cases e) (auto simp: Digest_to_dict_def obj_inject)

text \<open>Format words hold no zero byte, so the separator ends the format.\<close>

lemma format_chars:
  assumes "FORMAT_PATTERN fmt" "c \<in> set fmt"
  shows "0 < char_code c \<and> char_code c < 128"
proof -
  have "fmt = join_on (CHR ''-'') (split_on (CHR ''-'') fmt)" by simp
  moreover have "\<forall>c \<in> set (join_on (CHR ''-'') ws). c = CHR ''-'' \<or> (\<exists>w \<in> set ws. c \<in> set w)" for ws
    by (induction "CHR ''-''" ws rule: join_on.induct) auto
  ultimately have "c = CHR ''-'' \<or> (\<exists>w \<in> set (split_on (CHR ''-'') fmt). c \<in> set w)"
    using assms(2) by metis
  then have "c = CHR ''-'' \<or> is_lower_alnum c"
    using assms(1) by (auto simp: FORMAT_PATTERN_def Let_def list_all_iff)
  then show ?thesis by (auto simp: char_class_defs char_code_def)
qed

lemma append_separator_inject:
  assumes "xs @ s # us = ys @ s # vs" "s \<notin> set xs" "s \<notin> set ys"
  shows "xs = ys \<and> us = vs"
  using assms
proof (induction xs arbitrary: ys)
  case Nil
  then show ?case by (cases ys) auto
next
  case (Cons x xs)
  then show ?case by (cases ys) auto
qed

lemma byte_of_char_inject:
  assumes "char_code c < 128" "char_code d < 128" "byte_of (char_code c) = byte_of (char_code d)"
  shows "c = d"
proof -
  have "unat (byte_of (char_code c)) = unat (byte_of (char_code d))" using assms(3) by simp
  then have "char_code c = char_code d" using assms(1,2) by (simp add: unat_byte_of)
  then show ?thesis by (simp add: char_code_def)
qed

lemma format_bytes_inject:
  assumes "FORMAT_PATTERN f" "FORMAT_PATTERN g"
    and "map (\<lambda>c. byte_of (char_code c)) f = map (\<lambda>c. byte_of (char_code c)) g"
  shows "f = g"
proof (rule list.inj_map_strong[OF _ assms(3)])
  fix c d assume "c \<in> set f" "d \<in> set g" "byte_of (char_code c) = byte_of (char_code d)"
  then show "c = d" using format_chars[OF assms(1)] format_chars[OF assms(2)]
    by (intro byte_of_char_inject) auto
qed

lemma format_no_zero:
  assumes "FORMAT_PATTERN f"
  shows "0 \<notin> set (map (\<lambda>c. byte_of (char_code c)) f)"
proof
  assume "0 \<in> set (map (\<lambda>c. byte_of (char_code c)) f)"
  then obtain c where c: "c \<in> set f" "byte_of (char_code c) = 0" by auto
  then have "char_code c mod 256 = 0" using unat_byte_of[of "char_code c"] by simp
  then show False using format_chars[OF assms c(1)] by simp
qed

lemma framed_inject:
  assumes "FORMAT_PATTERN f" "FORMAT_PATTERN g" "framed f p = framed g q"
  shows "f = g \<and> p = q"
proof -
  have "map (\<lambda>c. byte_of (char_code c)) f = map (\<lambda>c. byte_of (char_code c)) g \<and>
      nat_be 4 (length p) @ p = nat_be 4 (length q) @ q"
    using assms(3) format_no_zero[OF assms(1)] format_no_zero[OF assms(2)]
    by (intro append_separator_inject[where s = 0]) (simp_all add: framed_def)
  then show ?thesis using format_bytes_inject[OF assms(1,2)] by simp
qed

section \<open>Properties\<close>

text \<open>C40. A digest binds its payload and its domain: if two digests made by \<^verbatim>\<open>digest_bytes\<close> are
  equal, then either both the format identifiers and the payloads are equal, or the two
  distinct framed byte strings that were hashed collide under SHA-256. In particular a
  manifest digest can never be reinterpreted as a request, result or audit digest.\<close>

theorem digest_binds_payload_and_format:
  assumes "digest_bytes p f = Inr d" "digest_bytes q g = Inr e" "digest_value d = digest_value e"
  shows "f = g \<and> p = q \<or>
    framed f p \<noteq> framed g q \<and> Sha256.sha256 (framed f p) = Sha256.sha256 (framed g q)"
proof -
  have "Sha256.sha256 (framed f p) = Sha256.sha256 (framed g q)"
    using assms by (auto simp: digest_bytes_iff sha256_hex_def dest: hex_of_bytes_inj)
  moreover have "FORMAT_PATTERN f" "FORMAT_PATTERN g" using assms by (auto simp: digest_bytes_iff)
  ultimately show ?thesis using framed_inject by blast
qed

theorem digest_binds_payload_and_format_witness:
  "\<exists>d. digest_bytes [1, 2, 3] MANIFEST_DIGEST_FORMAT = Inr d \<and>
     (MANIFEST_DIGEST_FORMAT = MANIFEST_DIGEST_FORMAT \<and> [1, 2, 3 :: byte] = [1, 2, 3] \<or>
      framed MANIFEST_DIGEST_FORMAT [1, 2, 3] \<noteq> framed MANIFEST_DIGEST_FORMAT [1, 2, 3] \<and>
      Sha256.sha256 (framed MANIFEST_DIGEST_FORMAT [1, 2, 3])
        = Sha256.sha256 (framed MANIFEST_DIGEST_FORMAT [1, 2, 3]))"
proof -
  have "digest_bytes [1, 2, 3] MANIFEST_DIGEST_FORMAT =
      Inr \<lparr>format = MANIFEST_DIGEST_FORMAT, algorithm = ''sha256'',
           digest_value = sha256_hex (framed MANIFEST_DIGEST_FORMAT [1, 2, 3])\<rparr>"
    by (simp add: digest_bytes_iff MAX_U32_def)
  then show ?thesis using digest_binds_payload_and_format by blast
qed

lemma unique_object_step:
  "foldE unique_member m pairs = Inr n \<longleftrightarrow>
   distinct (map fst pairs) \<and> (\<forall>k \<in> set (map fst pairs). fmlookup m k = None) \<and>
   fmlookup n = fmlookup m ++ map_of pairs"
proof (induction pairs arbitrary: m)
  case Nil
  then show ?case by (auto simp: fmlookup_inject)
next
  case (Cons kv pairs)
  obtain k v where kv: "kv = (k, v)" by fastforce
  have merge: "fmlookup (fmupd k v m) ++ map_of pairs = fmlookup m ++ map_of ((k, v) # pairs)"
    if "k \<notin> set (map fst pairs)"
  proof -
    have "map_of pairs k = None" using that by (simp add: map_of_eq_None_iff)
    then show ?thesis by (auto simp: fun_eq_iff map_add_def split: option.splits)
  qed
  have "(\<forall>j \<in> set (map fst pairs). fmlookup (fmupd k v m) j = None) \<longleftrightarrow>
      k \<notin> set (map fst pairs) \<and> (\<forall>j \<in> set (map fst pairs). fmlookup m j = None)"
    by (auto simp del: set_map)
  moreover have "foldE unique_member m ((k, v) # pairs) = Inr n \<longleftrightarrow>
      fmlookup m k = None \<and> foldE unique_member (fmupd k v m) pairs = Inr n"
    by auto
  ultimately show ?case unfolding kv Cons.IH list.map distinct.simps list.set prod.sel
    using merge by (metis insert_iff)
qed

lemma unique_object_iff:
  "unique_object pairs = Inr m \<longleftrightarrow> distinct (map fst pairs) \<and> fmlookup m = map_of pairs"
proof -
  have "fmlookup fmempty ++ map_of pairs = map_of pairs" by (simp add: map_add_def fun_eq_iff split: option.splits)
  then show ?thesis unfolding unique_object_def unique_object_step by simp
qed

text \<open>\<^verbatim>\<open>_unique_object\<close> accepts a member list exactly when no member name is repeated, and
  then the dictionary is that list: nothing is lost or overwritten, so two readers of the
  same document cannot disagree about a member.\<close>

theorem unique_object_correct:
  "(if distinct (map fst pairs)
    then \<exists>m. unique_object pairs = Inr m \<and> (\<forall>k. fmlookup m k = map_of pairs k)
    else \<not> is_ok (unique_object pairs))"
proof -
  have "unique_object pairs = Inr (fmap_of_list pairs) \<and> (\<forall>k. fmlookup (fmap_of_list pairs) k = map_of pairs k)"
    if "distinct (map fst pairs)"
    using that by (simp add: unique_object_iff fmlookup_of_list fun_eq_iff)
  then show ?thesis by (auto simp: is_ok_iff unique_object_iff)
qed

end
