(* ===== verification/Utf8.thy ===== *)
theory Utf8
  imports Prelude
begin

text \<open>
  The strict UTF-8 codec of the language: \<^verbatim>\<open>bytes.decode("utf-8", errors="strict")\<close> and
  \<^verbatim>\<open>str.encode("utf-8")\<close>, on text as a list of code points. Decoding rejects truncated and
  overlong sequences, surrogates and anything above U+10FFFF, so it is the partial inverse
  of encoding and no two byte strings decode to the same text.
\<close>

type_synonym code_point = nat
type_synonym utext = "code_point list"

definition scalar :: "code_point \<Rightarrow> bool" where
  "scalar c \<longleftrightarrow> c < 0xD800 \<or> 0xE000 \<le> c \<and> c < 0x110000"

definition utf8_char :: "code_point \<Rightarrow> bytes" where
  "utf8_char c =
     (if c < 0x80 then [byte_of c]
      else if c < 0x800 then [byte_of (0xC0 + c div 64), byte_of (0x80 + c mod 64)]
      else if c < 0x10000
        then [byte_of (0xE0 + c div 4096), byte_of (0x80 + c div 64 mod 64), byte_of (0x80 + c mod 64)]
      else [byte_of (0xF0 + c div 262144), byte_of (0x80 + c div 4096 mod 64),
            byte_of (0x80 + c div 64 mod 64), byte_of (0x80 + c mod 64)])"

definition utf8_encode :: "utext \<Rightarrow> bytes option" where
  "utf8_encode t = (if list_all scalar t then Some (concat (map utf8_char t)) else None)"

text \<open>The continuation bytes of a sequence, most significant first.\<close>

definition is_cont :: "byte \<Rightarrow> bool" where
  "is_cont b \<longleftrightarrow> 0x80 \<le> unat b \<and> unat b < 0xC0"

text \<open>One character and what follows it.\<close>

definition utf8_next :: "bytes \<Rightarrow> (code_point \<times> bytes) option" where
  "utf8_next bs =
     (case bs of
        [] \<Rightarrow> None
      | a # r \<Rightarrow>
          let x = unat a in
          if x < 0x80 then Some (x, r)
          else if 0xC2 \<le> x \<and> x < 0xE0 then
            (case r of
               b # r \<Rightarrow> if is_cont b then Some ((x - 0xC0) * 64 + (unat b - 0x80), r) else None
             | _ \<Rightarrow> None)
          else if 0xE0 \<le> x \<and> x < 0xF0 then
            (case r of
               b # c # r \<Rightarrow>
                 let n = (x - 0xE0) * 4096 + (unat b - 0x80) * 64 + (unat c - 0x80) in
                 if is_cont b \<and> is_cont c \<and> 0x800 \<le> n \<and> scalar n then Some (n, r) else None
             | _ \<Rightarrow> None)
          else if 0xF0 \<le> x \<and> x < 0xF5 then
            (case r of
               b # c # d # r \<Rightarrow>
                 let n = (x - 0xF0) * 262144 + (unat b - 0x80) * 4096 + (unat c - 0x80) * 64 + (unat d - 0x80) in
                 if is_cont b \<and> is_cont c \<and> is_cont d \<and> 0x10000 \<le> n \<and> n < 0x110000 then Some (n, r) else None
             | _ \<Rightarrow> None)
          else None)"

lemma utf8_next_shorter: "utf8_next bs = Some (c, r) \<Longrightarrow> length r < length bs"
  by (auto simp: utf8_next_def Let_def split: list.splits if_splits)

function utf8_decode :: "bytes \<Rightarrow> utext option" where
  "utf8_decode bs =
     (if bs = [] then Some []
      else case utf8_next bs of
          None \<Rightarrow> None
        | Some (c, r) \<Rightarrow> map_option ((#) c) (utf8_decode r))"
  by auto
termination by (relation "measure length") (auto dest: utf8_next_shorter)

declare utf8_decode.simps [simp del]

lemma unat_byte_small: "n < 256 \<Longrightarrow> unat (byte_of n) = n"
  by (simp add: unat_byte_of)

lemma digit64: "c mod 64 < (64 :: nat)" by simp

lemma base64_digits:
  fixes c :: nat
  shows "c div 64 * 64 + c mod 64 = c" "c div 4096 * 4096 + c div 64 mod 64 * 64 + c mod 64 = c"
    "c div 262144 * 262144 + c div 4096 mod 64 * 4096 + c div 64 mod 64 * 64 + c mod 64 = c"
proof -
  have 1: "d div 64 * 64 + d mod 64 = d" for d :: nat by simp
  have 2: "c div 4096 = c div 64 div 64" "c div 262144 = c div 64 div 64 div 64" by (simp_all add: div_mult2_eq[symmetric])
  show "c div 64 * 64 + c mod 64 = c" by (rule 1)
  show "c div 4096 * 4096 + c div 64 mod 64 * 64 + c mod 64 = c"
    using 1[of c] 1[of "c div 64"] unfolding 2 by linarith
  show "c div 262144 * 262144 + c div 4096 mod 64 * 4096 + c div 64 mod 64 * 64 + c mod 64 = c"
    using 1[of c] 1[of "c div 64"] 1[of "c div 64 div 64"] unfolding 2 by linarith
qed

lemma utf8_next_char:
  assumes "scalar c"
  shows "utf8_next (utf8_char c @ r) = Some (c, r)"
proof -
  have c: "c < 0x110000" using assms by (auto simp: scalar_def)
  have cont: "is_cont (byte_of (0x80 + d))" "unat (byte_of (0x80 + d)) - 0x80 = d" if "d < 64" for d
    using that by (simp_all add: is_cont_def unat_byte_small)
  consider "c < 0x80" | "0x80 \<le> c" "c < 0x800" | "0x800 \<le> c" "c < 0x10000" | "0x10000 \<le> c" by linarith
  then show ?thesis
  proof cases
    case 1
    then show ?thesis by (simp add: utf8_next_def utf8_char_def unat_byte_small)
  next
    case 2
    then have "unat (byte_of (0xC0 + c div 64)) = 0xC0 + c div 64" "2 \<le> c div 64" "c div 64 < 32"
      by (auto simp: unat_byte_small less_mult_imp_div_less)
    with 2 show ?thesis by (simp add: utf8_next_def utf8_char_def cont)
  next
    case 3
    then have "unat (byte_of (0xE0 + c div 4096)) = 0xE0 + c div 4096" "c div 4096 < 16"
      by (auto simp: unat_byte_small less_mult_imp_div_less)
    with 3 assms show ?thesis by (simp add: utf8_next_def utf8_char_def cont base64_digits(2))
  next
    case 4
    then have "unat (byte_of (0xF0 + c div 262144)) = 0xF0 + c div 262144" "c div 262144 < 5"
      using c by (auto simp: unat_byte_small less_mult_imp_div_less)
    with 4 c show ?thesis by (simp add: utf8_next_def utf8_char_def cont base64_digits(3))
  qed
qed

lemma utf8_char_not_Nil [simp]: "utf8_char c \<noteq> []"
  by (simp add: utf8_char_def)

lemma utf8_decode_chars: "list_all scalar t \<Longrightarrow> utf8_decode (concat (map utf8_char t)) = Some t"
proof (induction t)
  case (Cons c t)
  then show ?case by (subst utf8_decode.simps) (simp add: utf8_next_char)
qed (simp add: utf8_decode.simps)

lemma base64_div_mod:
  fixes x y z w :: nat
  assumes "z < 64"
  shows "(y * 64 + z) div 64 = y" "(y * 64 + z) mod 64 = z"
  using assms by simp_all

lemma cont_less: "is_cont b \<Longrightarrow> unat b - 0x80 < 64"
  by (simp add: is_cont_def less_diff_conv2)

lemma utf8_next_bytes:
  assumes "utf8_next bs = Some (c, r)"
  shows "scalar c \<and> bs = utf8_char c @ r"
proof (cases bs)
  case Nil
  then show ?thesis using assms by (simp add: utf8_next_def)
next
  case (Cons a t)
  have restore: "byte_of (unat b) = b" for b by (simp add: byte_of_def)
  have a: "unat a < 256" by simp
  consider "unat a < 0x80" | "0xC2 \<le> unat a" "unat a < 0xE0" | "0xE0 \<le> unat a" "unat a < 0xF0"
    | "0xF0 \<le> unat a" "unat a < 0xF5"
    using assms Cons by (auto simp: utf8_next_def Let_def split: if_splits)
  then show ?thesis
  proof cases
    case 1
    then show ?thesis using assms Cons by (auto simp: utf8_next_def utf8_char_def scalar_def restore)
  next
    case 2
    then obtain b where t: "t = b # r" and b: "is_cont b" and c: "c = (unat a - 0xC0) * 64 + (unat b - 0x80)"
      using assms Cons by (auto simp: utf8_next_def Let_def split: list.splits if_splits)
    have "c div 64 = unat a - 0xC0" "c mod 64 = unat b - 0x80"
      unfolding c by (rule base64_div_mod[OF cont_less[OF b]])+
    moreover have "0x80 \<le> c" "c < 0x800" using 2 b unfolding c is_cont_def by linarith+
    ultimately show ?thesis using 2 b Cons t by (simp add: utf8_char_def scalar_def is_cont_def restore)
  next
    case 3
    then obtain b d where t: "t = b # d # r" and b: "is_cont b" "is_cont d" "0x800 \<le> c" "scalar c"
      and c: "c = (unat a - 0xE0) * 4096 + (unat b - 0x80) * 64 + (unat d - 0x80)"
      using assms Cons by (auto simp: utf8_next_def Let_def split: list.splits if_splits)
    have c': "c = ((unat a - 0xE0) * 64 + (unat b - 0x80)) * 64 + (unat d - 0x80)" unfolding c by simp
    have q: "c div 64 = (unat a - 0xE0) * 64 + (unat b - 0x80)" "c mod 64 = unat d - 0x80"
      unfolding c' by (rule base64_div_mod[OF cont_less[OF b(2)]])+
    have "c div 64 div 64 = unat a - 0xE0" "c div 64 mod 64 = unat b - 0x80"
      unfolding q by (rule base64_div_mod[OF cont_less[OF b(1)]])+
    moreover have "c div 4096 = c div 64 div 64" by (simp add: div_mult2_eq[symmetric])
    moreover have "c < 0x10000" using 3 b unfolding c is_cont_def by linarith
    ultimately show ?thesis using 3 b q(2) Cons t by (simp add: utf8_char_def is_cont_def restore)
  next
    case 4
    then obtain b d e where t: "t = b # d # e # r" and b: "is_cont b" "is_cont d" "is_cont e" "0x10000 \<le> c" "c < 0x110000"
      and c: "c = (unat a - 0xF0) * 262144 + (unat b - 0x80) * 4096 + (unat d - 0x80) * 64 + (unat e - 0x80)"
      using assms Cons by (auto simp: utf8_next_def Let_def split: list.splits if_splits)
    have c': "c = (((unat a - 0xF0) * 64 + (unat b - 0x80)) * 64 + (unat d - 0x80)) * 64 + (unat e - 0x80)"
      unfolding c by simp
    have q: "c div 64 = ((unat a - 0xF0) * 64 + (unat b - 0x80)) * 64 + (unat d - 0x80)" "c mod 64 = unat e - 0x80"
      unfolding c' by (rule base64_div_mod[OF cont_less[OF b(3)]])+
    have q2: "c div 64 div 64 = (unat a - 0xF0) * 64 + (unat b - 0x80)" "c div 64 mod 64 = unat d - 0x80"
      unfolding q by (rule base64_div_mod[OF cont_less[OF b(2)]])+
    have q3: "c div 64 div 64 div 64 = unat a - 0xF0" "c div 64 div 64 mod 64 = unat b - 0x80"
      unfolding q2 by (rule base64_div_mod[OF cont_less[OF b(1)]])+
    have "c div 4096 = c div 64 div 64" "c div 262144 = c div 64 div 64 div 64" by (simp_all add: div_mult2_eq[symmetric])
    then have "c div 4096 mod 64 = unat b - 0x80" "c div 262144 = unat a - 0xF0" using q3 by simp_all
    then show ?thesis using 4 b q(2) q2(2) Cons t by (simp add: utf8_char_def scalar_def is_cont_def restore)
  qed
qed

lemma utf8_decode_bytes:
  "utf8_decode bs = Some t \<Longrightarrow> list_all scalar t \<and> bs = concat (map utf8_char t)"
proof (induction bs arbitrary: t rule: utf8_decode.induct)
  case (1 bs)
  show ?case
  proof (cases "bs = []")
    case True
    then show ?thesis using "1.prems" by (simp add: utf8_decode.simps)
  next
    case False
    then obtain c r t' where n: "utf8_next bs = Some (c, r)" and d: "utf8_decode r = Some t'" and t: "t = c # t'"
      using "1.prems" by (subst (asm) utf8_decode.simps) (auto split: option.splits)
    from "1.IH"[OF False n refl d] utf8_next_bytes[OF n] show ?thesis by (simp add: t)
  qed
qed

interpretation utf8: canonical_codec "\<lambda>t. case utf8_encode t of None \<Rightarrow> Inl () | Some bs \<Rightarrow> Inr bs"
  "\<lambda>bs. case utf8_decode bs of None \<Rightarrow> Inl () | Some t \<Rightarrow> Inr t"
proof unfold_locales
  show "(case utf8_decode bs of None \<Rightarrow> Inl () | Some t \<Rightarrow> Inr t) = Inr t"
    if "(case utf8_encode t of None \<Rightarrow> Inl () | Some bs \<Rightarrow> Inr bs) = Inr bs" for t bs
    using that by (auto simp: utf8_encode_def utf8_decode_chars split: option.splits if_splits)
  show "(case utf8_encode t of None \<Rightarrow> Inl () | Some bs \<Rightarrow> Inr bs) = Inr bs"
    if "(case utf8_decode bs of None \<Rightarrow> Inl () | Some t \<Rightarrow> Inr t) = Inr t" for t bs
    using that by (auto simp: utf8_encode_def dest!: utf8_decode_bytes split: option.splits)
qed

lemma utf8_decode_iff: "utf8_decode bs = Some t \<longleftrightarrow> utf8_encode t = Some bs"
  using utf8.dec_iff_enc[of bs t] by (auto split: option.splits)

lemma utf8_decode_inj: "utf8_decode bs = Some t \<Longrightarrow> utf8_decode cs = Some t \<Longrightarrow> bs = cs"
  by (simp add: utf8_decode_iff)

lemma utf8_decode_ascii: "list_all (\<lambda>b. unat b < 128) bs \<Longrightarrow> utf8_decode bs = Some (map unat bs)"
proof (induction bs)
  case (Cons b bs)
  then show ?case by (subst utf8_decode.simps) (simp add: utf8_next_def)
qed (simp add: utf8_decode.simps)

end
