(* ===== verification/Canonical.thy ===== *)
theory Canonical
  imports Digest Utf8
begin

text \<open>
  Model of \<^verbatim>\<open>decode_json_object\<close> of \<^verbatim>\<open>static_contracts/canonical.py\<close> and of the pairing of a
  decoder with the canonical serializer that every stored document goes through. The two
  functions outside the repository, \<^verbatim>\<open>rfc8785.dumps\<close> and the scanner behind \<^verbatim>\<open>json.loads\<close>, are
  the fields of a record; the scanner takes the two hooks the source passes to it.
\<close>

record json_codec =
  dumps :: "json \<Rightarrow> bytes option"
  loads :: "((string \<times> json) list \<Rightarrow> json py) \<Rightarrow> (string \<Rightarrow> json py) \<Rightarrow> utext \<Rightarrow> json py"

definition reject_constant :: "string \<Rightarrow> json py" where
  "reject_constant v = Inl (ContractError INVALID_JSON ''JSON contains a non-finite number'')"

definition object_hook :: "(string \<times> json) list \<Rightarrow> json py" where
  "object_hook pairs = bindE (unique_object pairs) (\<lambda>m. Inr (JObj m))"

definition decode_json_object :: "json_codec \<Rightarrow> bytes \<Rightarrow> nat \<Rightarrow> json py" where
  "decode_json_object codec raw maximum_bytes =
     (if length raw > maximum_bytes
      then Inl (ContractError RAW_REQUEST_TOO_LARGE ''raw JSON exceeds its limit'')
      else case utf8_decode raw of
          None \<Rightarrow> Inl (ContractError INVALID_UTF8 ''raw JSON is not valid UTF-8'')
        | Some chars \<Rightarrow>
            if take 1 chars = [0xFEFF]
            then Inl (ContractError INVALID_UTF8 ''raw JSON must not contain a byte-order mark'')
            else (case loads codec object_hook reject_constant chars of
                Inl (ContractError code msg) \<Rightarrow> Inl (ContractError code msg)
              | Inl _ \<Rightarrow> Inl (ContractError INVALID_JSON ''raw JSON is not one valid document'')
              | Inr v \<Rightarrow>
                  if \<not> is_dict v
                  then Inl (ContractError SCHEMA_INVALID ''contract document must be an object'')
                  else Inr v))"

text \<open>
  What the code relies on: canonical text is ASCII-compatible UTF-8 that scans back to the value
  it was made from.
\<close>

definition codec_ok :: "json_codec \<Rightarrow> bool" where
  "codec_ok codec \<longleftrightarrow> (\<forall>v bs. is_dict v \<longrightarrow> dumps codec v = Some bs \<longrightarrow>
     (\<exists>chars. utf8_decode (bs @ [10]) = Some chars \<and> take 1 chars \<noteq> [0xFEFF] \<and>
        loads codec object_hook reject_constant chars = Inr v))"

lemma canonical_json_bytes_iff [result_simps]:
  "canonical_json_bytes d v n = Inr bs \<longleftrightarrow> (\<exists>chars. d v = Some chars \<and> bs = chars @ [10] \<and> length bs \<le> n)"
  by (auto simp: canonical_json_bytes_def Let_def split: option.splits)

lemma decode_canonical:
  assumes "codec_ok codec" "is_dict v" "canonical_json_bytes (dumps codec) v n = Inr bs" "length bs \<le> m"
  shows "decode_json_object codec bs m = Inr v"
proof -
  obtain chars where d: "dumps codec v = Some chars" and bs: "bs = chars @ [10]" "length bs \<le> n"
    using assms(3) by (auto simp: canonical_json_bytes_iff)
  obtain u where "utf8_decode (chars @ [10]) = Some u" "take 1 u \<noteq> [0xFEFF]"
      "loads codec object_hook reject_constant u = Inr v"
    using assms(1,2) d unfolding codec_ok_def by blast
  then show ?thesis using assms(2,4) bs unfolding decode_json_object_def by simp
qed

lemma decode_json_object_is_dict:
  "decode_json_object codec raw n = Inr v \<Longrightarrow> is_dict v \<and> length raw \<le> n"
  by (auto simp: decode_json_object_def split: option.splits if_splits sum.splits exn.splits)

text \<open>
  A concrete instance of the two parameters, for witnesses: it serializes the documents of a
  table to the byte strings given there, refuses every other document and scans back.
\<close>

definition table_codec :: "(json \<times> bytes) list \<Rightarrow> json_codec" where
  "table_codec tbl =
     \<lparr>dumps = map_of tbl,
      loads = (\<lambda>hook constant chars.
        case find (\<lambda>(doc, bs). utf8_encode chars = Some (bs @ [10])) tbl of
          Some (doc, bs) \<Rightarrow> Inr doc
        | None \<Rightarrow> Inl (ValueError ''not JSON''))\<rparr>"

definition plain_table :: "(json \<times> bytes) list \<Rightarrow> bool" where
  "plain_table tbl \<longleftrightarrow> distinct (map snd tbl) \<and> list_all (\<lambda>bs. list_all (\<lambda>b. unat b < 128) bs) (map snd tbl)"

lemma find_unique:
  assumes "x \<in> set xs" "P x" "\<And>y. y \<in> set xs \<Longrightarrow> P y \<Longrightarrow> y = x"
  shows "find P xs = Some x"
  using assms
proof (induction xs)
  case (Cons y ys)
  show ?case
  proof (cases "P y")
    case True
    then have "y = x" using Cons.prems(3) by simp
    then show ?thesis using True by simp
  next
    case False
    then have "x \<in> set ys" using Cons.prems(1,2) by auto
    then have "find P ys = Some x"
      by (rule Cons.IH[OF _ Cons.prems(2)]) (rule Cons.prems(3)[OF list.set_intros(2)])
    then show ?thesis using False by simp
  qed
qed simp

lemma table_codec_ok:
  assumes "plain_table tbl"
  shows "codec_ok (table_codec tbl)"
  unfolding codec_ok_def
proof (intro allI impI)
  fix v bs assume "dumps (table_codec tbl) v = Some bs"
  then have mem: "(v, bs) \<in> set tbl" by (simp add: table_codec_def map_of_SomeD)
  then have "bs \<in> set (map snd tbl)" by force
  then have ascii: "list_all (\<lambda>b. unat b < 128) (bs @ [10])"
    using assms unfolding plain_table_def list_all_iff by auto
  let ?chars = "map unat (bs @ [10])"
  have u: "utf8_decode (bs @ [10]) = Some ?chars" using ascii by (rule utf8_decode_ascii)
  have "take 1 ?chars \<noteq> [0xFEFF]" using ascii by (cases bs) auto
  moreover have "find (\<lambda>(doc, b). utf8_encode ?chars = Some (b @ [10])) tbl = Some (v, bs)"
  proof (rule find_unique[OF mem])
    show "case (v, bs) of (doc, b) \<Rightarrow> utf8_encode ?chars = Some (b @ [10])" using u by (simp add: utf8_decode_iff)
    fix y assume y: "y \<in> set tbl" "case y of (doc, b) \<Rightarrow> utf8_encode ?chars = Some (b @ [10])"
    then have "snd y = snd (v, bs)" using u by (auto simp: utf8_decode_iff)
    moreover have "inj_on snd (set tbl)" using assms by (simp add: plain_table_def distinct_map)
    ultimately show "y = (v, bs)" using y(1) mem by (meson inj_onD)
  qed
  ultimately show "\<exists>chars. utf8_decode (bs @ [10]) = Some chars \<and> take 1 chars \<noteq> [0xFEFF] \<and>
      loads (table_codec tbl) object_hook reject_constant chars = Inr v"
    using u by (auto simp: table_codec_def)
qed

end
