(* ===== verification/Capacity.thy ===== *)
theory Capacity
  imports Digest "HOL-Library.Product_Lexorder"
begin

text \<open>
  Model of \<^verbatim>\<open>static_host_agent/capacity.py\<close> and of the measurement values of
  \<^verbatim>\<open>static_host_agent/release_tree.py\<close> it charges: the committed host limits, deduplicated
  physical usage, the filesystem view and the fail-closed admission of a worst-case
  reservation. What \<^verbatim>\<open>fstatvfs\<close> and \<^verbatim>\<open>fstat\<close> report is an argument. The lemmas characterize the
  aggregate as the sorted set of allocations and admission by exact arithmetic inequalities.
\<close>

datatype capacity_exn =
    CapacityError string
  | CapacityRejectedError string
  | CapacityValueError string

section \<open>Limits\<close>

definition GIBIBYTE :: int where "GIBIBYTE = 1024 * 1024 * 1024"
definition PERCENT_DENOMINATOR :: int where "PERCENT_DENOMINATOR = 100"
definition INITIAL_MAXIMUM_ALLOCATED_BYTES :: int where "INITIAL_MAXIMUM_ALLOCATED_BYTES = 10 * GIBIBYTE"
definition INITIAL_MAXIMUM_UNIQUE_INODES :: int where "INITIAL_MAXIMUM_UNIQUE_INODES = 500000"
definition INITIAL_MINIMUM_AVAILABLE_BYTES :: int where "INITIAL_MINIMUM_AVAILABLE_BYTES = 5 * GIBIBYTE"
definition INITIAL_MINIMUM_AVAILABLE_INODES :: int where "INITIAL_MINIMUM_AVAILABLE_INODES = 100000"
definition INITIAL_MINIMUM_AVAILABLE_PERCENT :: int where "INITIAL_MINIMUM_AVAILABLE_PERCENT = 10"

lemmas capacity_constants = GIBIBYTE_def PERCENT_DENOMINATOR_def INITIAL_MAXIMUM_ALLOCATED_BYTES_def
  INITIAL_MAXIMUM_UNIQUE_INODES_def INITIAL_MINIMUM_AVAILABLE_BYTES_def
  INITIAL_MINIMUM_AVAILABLE_INODES_def INITIAL_MINIMUM_AVAILABLE_PERCENT_def

record HostCapacityLimits =
  maximum_allocated_bytes :: int
  maximum_unique_inodes :: int
  minimum_available_bytes :: int
  minimum_available_inodes :: int
  minimum_available_percent :: int

definition HostCapacityLimits_post_init :: "HostCapacityLimits \<Rightarrow> capacity_exn + HostCapacityLimits" where
  "HostCapacityLimits_post_init self =
     (if \<exists>v \<in> set [maximum_allocated_bytes self, maximum_unique_inodes self,
                   minimum_available_bytes self, minimum_available_inodes self]. v < 0
      then Inl (CapacityValueError ''capacity limits must be nonnegative integers'')
      else if \<not> (0 \<le> minimum_available_percent self \<and>
                 minimum_available_percent self \<le> PERCENT_DENOMINATOR)
      then Inl (CapacityValueError ''capacity reserve percentage must be between zero and 100'')
      else if maximum_allocated_bytes self > INITIAL_MAXIMUM_ALLOCATED_BYTES
        \<or> maximum_unique_inodes self > INITIAL_MAXIMUM_UNIQUE_INODES
        \<or> minimum_available_bytes self < INITIAL_MINIMUM_AVAILABLE_BYTES
        \<or> minimum_available_inodes self < INITIAL_MINIMUM_AVAILABLE_INODES
        \<or> minimum_available_percent self < INITIAL_MINIMUM_AVAILABLE_PERCENT
      then Inl (CapacityValueError ''capacity limits cannot weaken the committed M3 boundaries'')
      else Inr self)"

definition DEFAULT_HOST_CAPACITY_LIMITS :: HostCapacityLimits where
  "DEFAULT_HOST_CAPACITY_LIMITS =
     \<lparr>maximum_allocated_bytes = INITIAL_MAXIMUM_ALLOCATED_BYTES,
      maximum_unique_inodes = INITIAL_MAXIMUM_UNIQUE_INODES,
      minimum_available_bytes = INITIAL_MINIMUM_AVAILABLE_BYTES,
      minimum_available_inodes = INITIAL_MINIMUM_AVAILABLE_INODES,
      minimum_available_percent = INITIAL_MINIMUM_AVAILABLE_PERCENT\<rparr>"

record CapacityReservation =
  reserved_bytes :: int
  reserved_inodes :: int

definition CapacityReservation_post_init :: "CapacityReservation \<Rightarrow> capacity_exn + CapacityReservation" where
  "CapacityReservation_post_init self =
     (if reserved_bytes self < 0 \<or> reserved_inodes self < 0
      then Inl (CapacityValueError ''capacity reservation must be nonnegative'')
      else Inr self)"

definition NO_CAPACITY_RESERVATION :: CapacityReservation where
  "NO_CAPACITY_RESERVATION = \<lparr>reserved_bytes = 0, reserved_inodes = 0\<rparr>"

section \<open>Measured usage\<close>

record InodeAllocation =
  alloc_device :: int
  alloc_inode :: int
  alloc_bytes :: int

abbreviation identity :: "InodeAllocation \<Rightarrow> int \<times> int" where
  "identity a \<equiv> (alloc_device a, alloc_inode a)"

definition mk_InodeAllocation :: "int \<Rightarrow> int \<Rightarrow> int \<Rightarrow> capacity_exn + InodeAllocation" where
  "mk_InodeAllocation device inode bytes =
     (if device < 0 \<or> inode \<le> 0 \<or> bytes < 0
      then Inl (CapacityValueError ''inode allocation values must be nonnegative and concrete'')
      else Inr \<lparr>alloc_device = device, alloc_inode = inode, alloc_bytes = bytes\<rparr>)"

definition RELEASE_TREE_FORMAT :: string where
  "RELEASE_TREE_FORMAT = ''lowerduckpond-release-tree-v1''"

record ReleaseTreeMeasurement =
  tree_digest :: Digest
  entry_count :: int
  logical_content_bytes :: int
  tree_allocations :: "InodeAllocation list"

definition ReleaseTreeMeasurement_post_init ::
  "ReleaseTreeMeasurement \<Rightarrow> capacity_exn + ReleaseTreeMeasurement" where
  "ReleaseTreeMeasurement_post_init self =
     (if format (tree_digest self) \<noteq> RELEASE_TREE_FORMAT \<or> algorithm (tree_digest self) \<noteq> ''sha256''
      then Inl (CapacityValueError ''release-tree measurement has the wrong digest format'')
      else if entry_count self < 0 \<or> logical_content_bytes self < 0
      then Inl (CapacityValueError ''release-tree measurement counts must be nonnegative'')
      else if card (set (map identity (tree_allocations self))) \<noteq> length (tree_allocations self)
      then Inl (CapacityValueError ''release-tree measurement contains duplicate inode allocations'')
      else Inr self)"

record ReleaseCapacityUsage =
  usage_allocations :: "InodeAllocation list"

definition mk_ReleaseCapacityUsage :: "InodeAllocation list \<Rightarrow> capacity_exn + ReleaseCapacityUsage" where
  "mk_ReleaseCapacityUsage allocations =
     (if card (set (map identity allocations)) \<noteq> length allocations
      then Inl (CapacityError ''release usage contains duplicate inode allocations'')
      else Inr \<lparr>usage_allocations = allocations\<rparr>)"

definition usage_allocated_bytes :: "ReleaseCapacityUsage \<Rightarrow> int" where
  "usage_allocated_bytes self = sum_list (map alloc_bytes (usage_allocations self))"

definition usage_unique_inodes :: "ReleaseCapacityUsage \<Rightarrow> int" where
  "usage_unique_inodes self = int (length (usage_allocations self))"

definition charge_allocation ::
  "((int \<times> int) \<times> int) list \<Rightarrow> InodeAllocation \<Rightarrow> capacity_exn + ((int \<times> int) \<times> int) list" where
  "charge_allocation allocations allocation =
     (let (established, allocations') = setdefault allocations (identity allocation) (alloc_bytes allocation)
      in if established \<noteq> alloc_bytes allocation
         then Inl (CapacityError ''one inode has inconsistent allocated-block accounting'')
         else Inr allocations')"

definition aggregate_release_usage :: "ReleaseTreeMeasurement list \<Rightarrow> capacity_exn + ReleaseCapacityUsage" where
  "aggregate_release_usage measurements =
     bindE (foldE (\<lambda>allocations measurement. foldE charge_allocation allocations (tree_allocations measurement))
              [] measurements) (\<lambda>allocations.
     bindE (traverseE (\<lambda>((device, inode), bytes). mk_InodeAllocation device inode bytes)
              (sort allocations)) (\<lambda>items.
     mk_ReleaseCapacityUsage items))"

section \<open>The filesystem\<close>

record FilesystemCapacity =
  fs_device :: int
  fragment_size :: int
  total_blocks :: int
  available_blocks :: int
  total_inodes :: int
  available_inodes :: int

definition FilesystemCapacity_post_init :: "FilesystemCapacity \<Rightarrow> capacity_exn + FilesystemCapacity" where
  "FilesystemCapacity_post_init self =
     (if \<exists>v \<in> set [fs_device self, fragment_size self, total_blocks self, available_blocks self,
                   total_inodes self, available_inodes self]. v < 0
      then Inl (CapacityError ''filesystem capacity values must be available and nonnegative'')
      else if fragment_size self = 0 \<or> available_blocks self > total_blocks self
      then Inl (CapacityError ''filesystem block capacity is inconsistent'')
      else if available_inodes self > total_inodes self
      then Inl (CapacityError ''filesystem inode capacity is inconsistent'')
      else Inr self)"

definition total_bytes :: "FilesystemCapacity \<Rightarrow> int" where
  "total_bytes self = fragment_size self * total_blocks self"

definition available_bytes :: "FilesystemCapacity \<Rightarrow> int" where
  "available_bytes self = fragment_size self * available_blocks self"

text \<open>The values the descriptor's \<^verbatim>\<open>fstatvfs\<close> and \<^verbatim>\<open>fstat\<close> report.\<close>

record StatVfs =
  f_bsize :: int
  f_frsize :: int
  f_blocks :: int
  f_bavail :: int
  f_files :: int
  f_favail :: int

definition measure_filesystem_capacity_descriptor ::
  "StatVfs \<Rightarrow> bool \<Rightarrow> int \<Rightarrow> capacity_exn + FilesystemCapacity" where
  "measure_filesystem_capacity_descriptor filesystem is_directory st_dev =
     (if \<not> is_directory
      then Inl (CapacityError ''filesystem-capacity descriptor is not a directory'')
      else FilesystemCapacity_post_init
        \<lparr>fs_device = st_dev,
         fragment_size = (if f_frsize filesystem \<noteq> 0 then f_frsize filesystem else f_bsize filesystem),
         total_blocks = f_blocks filesystem,
         available_blocks = f_bavail filesystem,
         total_inodes = f_files filesystem,
         available_inodes = f_favail filesystem\<rparr>)"

section \<open>Admission\<close>

record CapacityProjection =
  projected_allocated_bytes :: int
  projected_unique_inodes :: int
  remaining_available_bytes :: int
  remaining_available_inodes :: int
  required_available_bytes :: int
  required_available_inodes :: int

definition percentage_floor :: "int \<Rightarrow> int \<Rightarrow> int" where
  "percentage_floor total_units percentage =
     (total_units * percentage + PERCENT_DENOMINATOR - 1) div PERCENT_DENOMINATOR"

definition admit_release_capacity ::
  "ReleaseCapacityUsage \<Rightarrow> CapacityReservation \<Rightarrow> FilesystemCapacity \<Rightarrow> HostCapacityLimits
     \<Rightarrow> capacity_exn + CapacityProjection" where
  "admit_release_capacity usage reservation filesystem limits =
     (if \<exists>allocation \<in> set (usage_allocations usage). alloc_device allocation \<noteq> fs_device filesystem
      then Inl (CapacityError ''release usage spans a different filesystem'')
      else
        let projected_bytes = usage_allocated_bytes usage + reserved_bytes reservation;
            projected_inodes = usage_unique_inodes usage + reserved_inodes reservation in
        if projected_bytes > maximum_allocated_bytes limits
        then Inl (CapacityRejectedError ''release allocation would cross the host byte ceiling'')
        else if projected_inodes > maximum_unique_inodes limits
        then Inl (CapacityRejectedError ''release allocation would cross the host inode ceiling'')
        else if reserved_bytes reservation > available_bytes filesystem
        then Inl (CapacityRejectedError ''release reservation exceeds ordinarily available blocks'')
        else if reserved_inodes reservation > available_inodes filesystem
        then Inl (CapacityRejectedError ''release reservation exceeds ordinarily available inodes'')
        else
          let remaining_bytes = available_bytes filesystem - reserved_bytes reservation;
              remaining_inodes = available_inodes filesystem - reserved_inodes reservation;
              required_bytes = max (minimum_available_bytes limits)
                (percentage_floor (total_bytes filesystem) (minimum_available_percent limits));
              required_inodes = max (minimum_available_inodes limits)
                (percentage_floor (total_inodes filesystem) (minimum_available_percent limits)) in
          if remaining_bytes < required_bytes
          then Inl (CapacityRejectedError ''release reservation would cross the free-block floor'')
          else if remaining_inodes < required_inodes
          then Inl (CapacityRejectedError ''release reservation would cross the free-inode floor'')
          else Inr \<lparr>projected_allocated_bytes = projected_bytes,
                    projected_unique_inodes = projected_inodes,
                    remaining_available_bytes = remaining_bytes,
                    remaining_available_inodes = remaining_inodes,
                    required_available_bytes = required_bytes,
                    required_available_inodes = required_inodes\<rparr>)"

section \<open>Arithmetic of the floors\<close>

lemma percentage_floor_le: "percentage_floor t p \<le> r \<longleftrightarrow> t * p \<le> 100 * r"
proof -
  have "(n + 100 - 1) div 100 \<le> r \<longleftrightarrow> n \<le> 100 * r" for n :: int
    using mult_div_mod_eq[of 100 "n + 100 - 1"] pos_mod_bound[of 100 "n + 100 - 1"]
      pos_mod_sign[of 100 "n + 100 - 1"] by linarith
  then show ?thesis unfolding percentage_floor_def PERCENT_DENOMINATOR_def .
qed

definition required_free :: "int \<Rightarrow> int \<Rightarrow> int \<Rightarrow> int" where
  "required_free minimum capacity percentage = max minimum (percentage_floor capacity percentage)"

lemma required_free_le:
  "required_free minimum capacity percentage \<le> r \<longleftrightarrow> minimum \<le> r \<and> capacity * percentage \<le> 100 * r"
  by (simp add: required_free_def percentage_floor_le)

definition projection ::
  "ReleaseCapacityUsage \<Rightarrow> CapacityReservation \<Rightarrow> FilesystemCapacity \<Rightarrow> HostCapacityLimits \<Rightarrow> CapacityProjection" where
  "projection usage res fs limits =
     \<lparr>projected_allocated_bytes = usage_allocated_bytes usage + reserved_bytes res,
      projected_unique_inodes = usage_unique_inodes usage + reserved_inodes res,
      remaining_available_bytes = available_bytes fs - reserved_bytes res,
      remaining_available_inodes = available_inodes fs - reserved_inodes res,
      required_available_bytes =
        required_free (minimum_available_bytes limits) (total_bytes fs) (minimum_available_percent limits),
      required_available_inodes =
        required_free (minimum_available_inodes limits) (total_inodes fs) (minimum_available_percent limits)\<rparr>"

lemma admit_release_capacity_iff:
  "admit_release_capacity usage res fs limits = Inr p \<longleftrightarrow>
     (\<forall>a \<in> set (usage_allocations usage). alloc_device a = fs_device fs) \<and>
     usage_allocated_bytes usage + reserved_bytes res \<le> maximum_allocated_bytes limits \<and>
     usage_unique_inodes usage + reserved_inodes res \<le> maximum_unique_inodes limits \<and>
     reserved_bytes res \<le> available_bytes fs \<and> reserved_inodes res \<le> available_inodes fs \<and>
     required_available_bytes p \<le> remaining_available_bytes p \<and>
     required_available_inodes p \<le> remaining_available_inodes p \<and>
     p = projection usage res fs limits"
  unfolding admit_release_capacity_def Let_def if_Inl_Inr_iff required_free_def[symmetric] not_less
    projection_def[symmetric] sum.inject
  by (auto simp: projection_def)

lemma committed_limits:
  "HostCapacityLimits_post_init l = Inr l' \<longleftrightarrow> l' = l \<and>
     0 \<le> maximum_allocated_bytes l \<and> maximum_allocated_bytes l \<le> 10 * 2 ^ 30 \<and>
     0 \<le> maximum_unique_inodes l \<and> maximum_unique_inodes l \<le> 500000 \<and>
     5 * 2 ^ 30 \<le> minimum_available_bytes l \<and> 100000 \<le> minimum_available_inodes l \<and>
     10 \<le> minimum_available_percent l \<and> minimum_available_percent l \<le> 100"
  by (auto simp: HostCapacityLimits_post_init_def capacity_constants)

section \<open>The aggregate is a set of allocations\<close>

definition single_valued_items :: "((int \<times> int) \<times> int) set \<Rightarrow> bool" where
  "single_valued_items S \<longleftrightarrow> (\<forall>k v w. (k, v) \<in> S \<longrightarrow> (k, w) \<in> S \<longrightarrow> v = w)"

abbreviation item :: "InodeAllocation \<Rightarrow> (int \<times> int) \<times> int" where
  "item a \<equiv> (identity a, alloc_bytes a)"

lemma single_valued_items_assoc: "distinct (map fst d) \<Longrightarrow> single_valued_items (set d)"
  by (auto simp: single_valued_items_def eq_key_imp_eq_value)

lemma charge_allocation_cases:
  assumes "distinct (map fst d)"
  shows "(\<exists>d'. charge_allocation d a = Inr d' \<and> distinct (map fst d') \<and> set d' = insert (item a) (set d)
            \<and> single_valued_items (insert (item a) (set d)))
       \<or> \<not> is_ok (charge_allocation d a) \<and> \<not> single_valued_items (insert (item a) (set d))"
proof (cases "map_of d (identity a)")
  case None
  then have "identity a \<notin> set (map fst d)" by (simp add: map_of_eq_None_iff)
  then have "distinct (map fst (d @ [item a]))" using assms by simp
  moreover from single_valued_items_assoc[OF this]
  have "single_valued_items (insert (item a) (set d))" by simp
  ultimately show ?thesis using None by (auto simp: charge_allocation_def setdefault_def)
next
  case (Some v)
  then have "(identity a, v) \<in> set d" by (rule map_of_SomeD)
  then have "insert (item a) (set d) = set d" if "v = alloc_bytes a" using that by auto
  moreover have "\<not> single_valued_items (insert (item a) (set d))" if "v \<noteq> alloc_bytes a"
    using that \<open>(identity a, v) \<in> set d\<close> unfolding single_valued_items_def by blast
  ultimately show ?thesis using Some assms single_valued_items_assoc[OF assms]
    by (cases "v = alloc_bytes a") (auto simp: charge_allocation_def setdefault_def)
qed

lemma single_valued_items_mono: "single_valued_items T \<Longrightarrow> S \<subseteq> T \<Longrightarrow> single_valued_items S"
  unfolding single_valued_items_def by blast

lemma charge_all:
  assumes "distinct (map fst d)"
  shows "(\<exists>d'. foldE charge_allocation d xs = Inr d' \<and> distinct (map fst d') \<and> set d' = set d \<union> item ` set xs
            \<and> single_valued_items (set d \<union> item ` set xs))
       \<or> \<not> is_ok (foldE charge_allocation d xs) \<and> \<not> single_valued_items (set d \<union> item ` set xs)"
  using assms
proof (induction xs arbitrary: d)
  case Nil
  then show ?case using single_valued_items_assoc[OF Nil.prems] by simp
next
  case (Cons a xs)
  have eq: "set d \<union> item ` set (a # xs) = insert (item a) (set d) \<union> item ` set xs" by auto
  from charge_allocation_cases[OF Cons.prems, of a] show ?case
  proof (elim disjE exE conjE)
    fix d' assume "charge_allocation d a = Inr d'" "distinct (map fst d')" "set d' = insert (item a) (set d)"
    then show ?thesis using Cons.IH[of d'] unfolding eq by simp
  next
    assume "\<not> is_ok (charge_allocation d a)" "\<not> single_valued_items (insert (item a) (set d))"
    then show ?thesis
      using single_valued_items_mono[of "set d \<union> item ` set (a # xs)" "insert (item a) (set d)"]
      unfolding eq by (cases "charge_allocation d a") auto
  qed
qed

definition valid_allocation :: "InodeAllocation \<Rightarrow> bool" where
  "valid_allocation a \<longleftrightarrow> 0 \<le> alloc_device a \<and> 0 < alloc_inode a \<and> 0 \<le> alloc_bytes a"

abbreviation charged :: "ReleaseTreeMeasurement list \<Rightarrow> InodeAllocation set" where
  "charged ms \<equiv> (\<Union>m \<in> set ms. set (tree_allocations m))"

lemma item_inject: "item a = item b \<longleftrightarrow> a = b"
  by (cases a, cases b) auto

lemma identity_sorted_iff:
  "sorted_wrt (\<lambda>a b. identity a < identity b) ys \<longleftrightarrow> sorted (map identity ys) \<and> distinct (map identity ys)"
proof -
  have "sorted_wrt (\<lambda>a b. identity a < identity b) ys \<longleftrightarrow> sorted_wrt (<) (map identity ys)"
    unfolding sorted_wrt_map ..
  then show ?thesis unfolding strict_sorted_iff .
qed

lemma sort_items_iff:
  assumes d: "distinct (map fst d)" "set d = item ` S"
  shows "sort d = map item ys \<longleftrightarrow> set ys = S \<and> sorted_wrt (\<lambda>a b. identity a < identity b) ys"
proof
  assume eq: "sort d = map item ys"
  have fst_item: "map fst (map item ys) = map identity ys" by simp
  have "distinct (map fst (sort d))" using d(1) by (simp add: distinct_map)
  then have "distinct (map identity ys)" unfolding eq fst_item .
  moreover have "sorted (map item ys)" unfolding eq[symmetric] by simp
  then have "sorted (map identity ys)"
    unfolding sorted_map by (rule sorted_wrt_mono_rel[rotated]) (auto simp: less_eq_prod_def)
  moreover have "set ys = S"
  proof -
    have "item ` set ys = item ` S" using arg_cong[OF eq, of set] d(2) by simp
    then show ?thesis using item_inject by (metis (no_types, lifting) inj_image_eq_iff injI)
  qed
  ultimately show "set ys = S \<and> sorted_wrt (\<lambda>a b. identity a < identity b) ys"
    unfolding identity_sorted_iff by blast
next
  assume ys: "set ys = S \<and> sorted_wrt (\<lambda>a b. identity a < identity b) ys"
  then have "sorted_wrt (<) (map item ys)"
    unfolding sorted_wrt_map by (elim conjE sorted_wrt_mono_rel[rotated]) (simp only: less_prod_def prod.sel, blast)
  then have "sorted (map item ys)" "distinct (map item ys)" unfolding strict_sorted_iff by blast+
  moreover have "set (sort d) = set (map item ys)" using d(2) ys by simp
  moreover have "distinct (sort d)" using d(1) by (simp add: distinct_map)
  ultimately show "sort d = map item ys" by (intro sorted_distinct_set_unique) simp_all
qed

lemma mk_InodeAllocation_iff:
  "mk_InodeAllocation dev ino n = Inr a \<longleftrightarrow> ((dev, ino), n) = item a \<and> valid_allocation a"
  by (cases a) (auto simp: mk_InodeAllocation_def valid_allocation_def)

lemma traverse_mk_InodeAllocation:
  "traverseE (\<lambda>((device, inode), bytes). mk_InodeAllocation device inode bytes) d = Inr ys
     \<longleftrightarrow> d = map item ys \<and> (\<forall>a \<in> set ys. valid_allocation a)"
  unfolding traverseE_Inr_iff
proof (induction d arbitrary: ys)
  case (Cons x d)
  obtain dev ino n where x: "x = ((dev, ino), n)" by (metis surj_pair)
  show ?case
    by (cases ys) (use x in \<open>auto simp: Cons.IH mk_InodeAllocation_iff\<close>)
qed auto

lemma single_valued_charged:
  "single_valued_items (item ` S) \<longleftrightarrow> (\<forall>a \<in> S. \<forall>b \<in> S. identity a = identity b \<longrightarrow> a = b)"
proof -
  have "single_valued_items (item ` S) \<longleftrightarrow>
      (\<forall>a \<in> S. \<forall>b \<in> S. identity a = identity b \<longrightarrow> alloc_bytes a = alloc_bytes b)"
    (is "?L \<longleftrightarrow> ?R")
  proof
    assume L: ?L
    show ?R
    proof (intro ballI impI)
      fix a b assume a: "a \<in> S" and b: "b \<in> S" and eq: "identity a = identity b"
      have "item a \<in> item ` S" using a by (rule imageI)
      moreover have "(identity a, alloc_bytes b) \<in> item ` S" unfolding eq using b by (rule imageI)
      ultimately show "alloc_bytes a = alloc_bytes b" using L unfolding single_valued_items_def by blast
    qed
  next
    assume ?R
    then show ?L unfolding single_valued_items_def by fastforce
  qed
  also have "\<dots> \<longleftrightarrow> (\<forall>a \<in> S. \<forall>b \<in> S. identity a = identity b \<longrightarrow> item a = item b)"
    unfolding prod.inject by blast
  finally show ?thesis unfolding item_inject .
qed

lemma aggregate_release_usage_iff:
  "aggregate_release_usage ms = Inr u \<longleftrightarrow>
     (\<forall>a \<in> charged ms. valid_allocation a) \<and>
     (\<forall>a \<in> charged ms. \<forall>b \<in> charged ms. identity a = identity b \<longrightarrow> a = b) \<and>
     set (usage_allocations u) = charged ms \<and>
     sorted_wrt (\<lambda>a b. identity a < identity b) (usage_allocations u)"
  (is "?agg \<longleftrightarrow> ?spec")
proof -
  let ?xs = "concat (map tree_allocations ms)"
  have agg: "aggregate_release_usage ms =
      bindE (foldE charge_allocation [] ?xs) (\<lambda>d.
      bindE (traverseE (\<lambda>((device, inode), bytes). mk_InodeAllocation device inode bytes) (sort d))
        mk_ReleaseCapacityUsage)"
    by (simp add: aggregate_release_usage_def foldE_concat)
  have charged: "charged ms = set ?xs" by simp
  from charge_all[of "[]" ?xs] consider
      (ok) d where "foldE charge_allocation [] ?xs = Inr d" "distinct (map fst d)" "set d = item ` charged ms"
        "single_valued_items (item ` charged ms)"
    | (bad) "\<not> is_ok (foldE charge_allocation [] ?xs)" "\<not> single_valued_items (item ` charged ms)"
    unfolding charged by auto
  then show ?thesis
  proof cases
    case bad
    then have "\<not> ?agg" by (cases "foldE charge_allocation [] ?xs") (simp_all add: agg)
    with bad show ?thesis unfolding single_valued_charged by blast
  next
    case ok
    have mk: "mk_ReleaseCapacityUsage ys = Inr u \<longleftrightarrow> distinct (map identity ys) \<and> u = \<lparr>usage_allocations = ys\<rparr>" for ys
      unfolding mk_ReleaseCapacityUsage_def if_Inl_Inr_iff
      using card_distinct[of "map identity ys"] distinct_card[of "map identity ys"] by auto
    have "?agg \<longleftrightarrow> (\<exists>ys. (sort d = map item ys \<and> (\<forall>a \<in> set ys. valid_allocation a)) \<and>
        distinct (map identity ys) \<and> u = \<lparr>usage_allocations = ys\<rparr>)"
      unfolding agg ok(1) bindE_simps bindE_Inr_iff traverse_mk_InodeAllocation mk ..
    also have "\<dots> \<longleftrightarrow> (\<forall>a \<in> charged ms. valid_allocation a) \<and> set (usage_allocations u) = charged ms \<and>
        sorted_wrt (\<lambda>a b. identity a < identity b) (usage_allocations u)"
      unfolding sort_items_iff[OF ok(2,3)] unfolding identity_sorted_iff
      by (cases u) (auto simp del: less_eq_prod_simp)
    finally show ?thesis using ok(4) unfolding single_valued_charged by blast
  qed
qed

section \<open>Properties\<close>

text \<open>C39. Admission is exact: a reservation is admitted if and only if all measured usage is on
  the target filesystem, the projected use stays within both host ceilings, the reservation
  fits the available space, and what remains free keeps the absolute reserve and the
  percentage of the whole filesystem, measured without rounding.\<close>

theorem admission_exact:
  "is_ok (admit_release_capacity usage res fs limits) =
    ((\<forall>a \<in> set (usage_allocations usage). alloc_device a = fs_device fs) \<and>
     usage_allocated_bytes usage + reserved_bytes res \<le> maximum_allocated_bytes limits \<and>
     usage_unique_inodes usage + reserved_inodes res \<le> maximum_unique_inodes limits \<and>
     reserved_bytes res \<le> available_bytes fs \<and> reserved_inodes res \<le> available_inodes fs \<and>
     minimum_available_bytes limits \<le> available_bytes fs - reserved_bytes res \<and>
     minimum_available_inodes limits \<le> available_inodes fs - reserved_inodes res \<and>
     total_bytes fs * minimum_available_percent limits \<le> 100 * (available_bytes fs - reserved_bytes res) \<and>
     total_inodes fs * minimum_available_percent limits \<le> 100 * (available_inodes fs - reserved_inodes res))"
  unfolding is_ok_iff admit_release_capacity_iff
  by (auto simp: projection_def required_free_le)

theorem admission_exact_witness:
  "is_ok (admit_release_capacity \<lparr>usage_allocations = []\<rparr> NO_CAPACITY_RESERVATION
     \<lparr>fs_device = 1, fragment_size = 4096, total_blocks = 26214400, available_blocks = 13107200,
      total_inodes = 6000000, available_inodes = 5000000\<rparr> DEFAULT_HOST_CAPACITY_LIMITS)"
  unfolding admission_exact
  by (simp add: usage_allocated_bytes_def usage_unique_inodes_def NO_CAPACITY_RESERVATION_def
      DEFAULT_HOST_CAPACITY_LIMITS_def capacity_constants available_bytes_def total_bytes_def)

text \<open>Whatever limits the constructor accepts, no admitted reservation can leave the committed
  host boundaries: at most 10 GiB and 500,000 inodes of releases in use afterwards, at least
  5 GiB and 100,000 inodes still free, and at least a tenth of the filesystem.\<close>

theorem admission_keeps_committed_boundaries:
  assumes "HostCapacityLimits_post_init l = Inr limits"
    and "admit_release_capacity usage res fs limits = Inr p"
    and "0 \<le> fragment_size fs" "0 \<le> total_blocks fs" "0 \<le> total_inodes fs"
  shows "usage_allocated_bytes usage + reserved_bytes res \<le> 10 * 2 ^ 30 \<and>
    usage_unique_inodes usage + reserved_inodes res \<le> 500000 \<and>
    5 * 2 ^ 30 \<le> available_bytes fs - reserved_bytes res \<and>
    100000 \<le> available_inodes fs - reserved_inodes res \<and>
    total_bytes fs \<le> 10 * (available_bytes fs - reserved_bytes res) \<and>
    total_inodes fs \<le> 10 * (available_inodes fs - reserved_inodes res)"
proof -
  have pct: "10 * n \<le> n * minimum_available_percent limits" if "0 \<le> n" for n
    using that assms(1) mult_left_mono[of 10 "minimum_available_percent limits" n]
    by (simp add: committed_limits mult.commute)
  have "0 \<le> total_bytes fs" using assms(3,4) by (simp add: total_bytes_def)
  moreover have "required_available_bytes p \<le> remaining_available_bytes p"
    "required_available_inodes p \<le> remaining_available_inodes p" "p = projection usage res fs limits"
    using assms(2) unfolding admit_release_capacity_iff by blast+
  then have "minimum_available_bytes limits \<le> available_bytes fs - reserved_bytes res"
    "minimum_available_inodes limits \<le> available_inodes fs - reserved_inodes res"
    "total_bytes fs * minimum_available_percent limits \<le> 100 * (available_bytes fs - reserved_bytes res)"
    "total_inodes fs * minimum_available_percent limits \<le> 100 * (available_inodes fs - reserved_inodes res)"
    by (simp_all add: projection_def required_free_le)
  ultimately show ?thesis
    using pct[of "total_bytes fs"] pct[OF assms(5)] assms(1,2)
    unfolding committed_limits admit_release_capacity_iff by auto
qed

theorem admission_keeps_committed_boundaries_witness:
  "\<exists>p. HostCapacityLimits_post_init DEFAULT_HOST_CAPACITY_LIMITS = Inr DEFAULT_HOST_CAPACITY_LIMITS \<and>
     admit_release_capacity \<lparr>usage_allocations = [\<lparr>alloc_device = 1, alloc_inode = 7, alloc_bytes = 8192\<rparr>]\<rparr>
       \<lparr>reserved_bytes = 4096, reserved_inodes = 1\<rparr>
       \<lparr>fs_device = 1, fragment_size = 4096, total_blocks = 26214400, available_blocks = 13107200,
        total_inodes = 6000000, available_inodes = 5000000\<rparr> DEFAULT_HOST_CAPACITY_LIMITS = Inr p \<and>
     (8192 + 4096 :: int) \<le> 10 * 2 ^ 30"
proof -
  let ?u = "\<lparr>usage_allocations = [\<lparr>alloc_device = 1, alloc_inode = 7, alloc_bytes = 8192\<rparr>]\<rparr>"
  let ?r = "\<lparr>reserved_bytes = 4096, reserved_inodes = 1\<rparr>"
  let ?fs = "\<lparr>fs_device = 1, fragment_size = 4096, total_blocks = 26214400, available_blocks = 13107200,
        total_inodes = 6000000, available_inodes = 5000000\<rparr>"
  have l: "HostCapacityLimits_post_init DEFAULT_HOST_CAPACITY_LIMITS = Inr DEFAULT_HOST_CAPACITY_LIMITS"
    by code_simp
  have a: "admit_release_capacity ?u ?r ?fs DEFAULT_HOST_CAPACITY_LIMITS
      = Inr (projection ?u ?r ?fs DEFAULT_HOST_CAPACITY_LIMITS)"
    by code_simp
  from admission_keeps_committed_boundaries[OF l a] l a show ?thesis
    by (simp add: usage_allocated_bytes_def)
qed

text \<open>Hard links are charged once: the aggregate of any retained releases, when it exists, lists
  exactly the distinct allocations they contain, in the order of device and inode, whatever
  the order and number of measurements that reported them; it exists exactly when every
  report of one inode agrees on its size.\<close>

theorem aggregate_charges_each_inode_once:
  "(aggregate_release_usage ms = Inr u) =
     ((\<forall>m \<in> set ms. \<forall>a \<in> set (tree_allocations m). valid_allocation a) \<and>
      (\<forall>m \<in> set ms. \<forall>n \<in> set ms. \<forall>a \<in> set (tree_allocations m). \<forall>b \<in> set (tree_allocations n).
         identity a = identity b \<longrightarrow> a = b) \<and>
      set (usage_allocations u) = (\<Union>m \<in> set ms. set (tree_allocations m)) \<and>
      sorted_wrt (\<lambda>a b. identity a < identity b) (usage_allocations u))"
  unfolding aggregate_release_usage_iff by (intro arg_cong2[where f = "(\<and>)"]) blast+

theorem aggregate_charges_each_inode_once_witness:
  "\<exists>d. aggregate_release_usage
     [\<lparr>tree_digest = d, entry_count = 1, logical_content_bytes = 5,
       tree_allocations = [\<lparr>alloc_device = 1, alloc_inode = 9, alloc_bytes = 4096\<rparr>]\<rparr>,
      \<lparr>tree_digest = d, entry_count = 2, logical_content_bytes = 9,
       tree_allocations = [\<lparr>alloc_device = 1, alloc_inode = 9, alloc_bytes = 4096\<rparr>,
         \<lparr>alloc_device = 1, alloc_inode = 3, alloc_bytes = 8192\<rparr>]\<rparr>]
    = Inr \<lparr>usage_allocations = [\<lparr>alloc_device = 1, alloc_inode = 3, alloc_bytes = 8192\<rparr>,
        \<lparr>alloc_device = 1, alloc_inode = 9, alloc_bytes = 4096\<rparr>]\<rparr>"
  unfolding aggregate_charges_each_inode_once by (auto simp: valid_allocation_def)

end
