(* ===== verification/Locks.thy ===== *)
theory Locks
  imports Prelude
begin

text \<open>
  Model of \<^verbatim>\<open>static_host_agent/locks.py\<close>: the globally ordered host locks, a manager with its count
  of active acquisitions, and the stack of locks the current thread holds. A context manager
  is its entry and its exit. What the kernel answers (opening and verifying a lock inode,
  \<^verbatim>\<open>flock\<close>, \<^verbatim>\<open>fstat\<close>) is a parameter of the operations. The lemmas show that an acquisition is
  all or nothing, that nested use restores the manager and the stack exactly, and that no
  set of threads that use the manager can wait for one another in a circle.
\<close>

datatype lock_exn =
    StateBusyError string
  | LockOrderError string
  | LockRuntimeError string
  | StatePathError string
  | LockOSError

section \<open>Names and modes\<close>

datatype LockName = INTAKE | EXPORT | PUBLICATION | TENANT_STATE

fun lock_rank :: "LockName \<Rightarrow> int" where
  "lock_rank INTAKE = 0"
| "lock_rank EXPORT = 10"
| "lock_rank PUBLICATION = 20"
| "lock_rank TENANT_STATE = 30"

lemma lock_rank_inject: "lock_rank a = lock_rank b \<longleftrightarrow> a = b"
  by (cases a; cases b) simp_all

instantiation LockName :: linorder
begin

definition less_eq_LockName :: "LockName \<Rightarrow> LockName \<Rightarrow> bool" where
  "a \<le> b \<longleftrightarrow> lock_rank a \<le> lock_rank b"

definition less_LockName :: "LockName \<Rightarrow> LockName \<Rightarrow> bool" where
  "a < b \<longleftrightarrow> lock_rank a < lock_rank b"

instance
  by standard (auto simp: less_eq_LockName_def less_LockName_def lock_rank_inject)

end

fun lock_filename :: "LockName \<Rightarrow> string" where
  "lock_filename INTAKE = ''intake.lock''"
| "lock_filename EXPORT = ''export.lock''"
| "lock_filename PUBLICATION = ''publication.lock''"
| "lock_filename TENANT_STATE = ''tenant-state.lock''"

datatype LockMode = SHARED | EXCLUSIVE

fun mode_value :: "LockMode \<Rightarrow> string" where
  "mode_value SHARED = ''shared''"
| "mode_value EXCLUSIVE = ''exclusive''"

record LockRequest =
  request_name :: LockName
  request_mode :: LockMode

record HeldLock =
  manager_token :: nat
  lock_name :: LockName
  lock_mode :: LockMode
  lock_inode :: "int \<times> int"
  lock_descriptor :: int

record LockManager =
  directory_fd :: int
  token :: nat
  active_count :: int

section \<open>What the kernel answers\<close>

datatype flock_outcome = FlockGranted | FlockBusy | FlockFailed

record lock_kernel =
  open_verified_lock :: "LockName \<Rightarrow> lock_exn + int"
  flock :: "LockName \<Rightarrow> LockMode \<Rightarrow> flock_outcome"
  fstat_inode :: "int \<Rightarrow> int \<times> int"

section \<open>The manager\<close>

definition manager_close :: "LockManager \<Rightarrow> (lock_exn + unit) \<times> LockManager" where
  "manager_close m =
     (if directory_fd m \<ge> 0
      then if active_count m \<noteq> 0
           then (Inl (LockRuntimeError ''cannot close a lock manager while locks are held''), m)
           else (Inr (), m\<lparr>directory_fd := -1\<rparr>)
      else (Inr (), m))"

definition reserve_acquisition :: "LockManager \<Rightarrow> (lock_exn + unit) \<times> LockManager" where
  "reserve_acquisition m =
     (if directory_fd m < 0 then (Inl (LockRuntimeError ''lock manager is closed''), m)
      else (Inr (), m\<lparr>active_count := active_count m + 1\<rparr>))"

definition release_acquisition :: "LockManager \<Rightarrow> (lock_exn + unit) \<times> LockManager" where
  "release_acquisition m =
     (let m' = m\<lparr>active_count := active_count m - 1\<rparr> in
      if active_count m' < 0
      then (Inl (LockRuntimeError ''lock-manager acquisition count was corrupted''), m')
      else (Inr (), m'))"

definition assert_next :: "HeldLock list \<Rightarrow> LockName \<Rightarrow> lock_exn + unit" where
  "assert_next held name =
     (if \<exists>lock \<in> set held. lock_name lock = name
      then Inl (LockOrderError ''a host lock cannot be acquired recursively'')
      else if held \<noteq> [] \<and> name \<le> lock_name (last held)
      then Inl (LockOrderError ''host locks must follow intake, export, publication, tenant-state'')
      else Inr ())"

text \<open>The loop of \<^verbatim>\<open>_assert_sequence\<close>, with the names seen so far and the previous name.\<close>

fun assert_sequence_loop :: "LockName set \<Rightarrow> LockName option \<Rightarrow> LockRequest list \<Rightarrow> lock_exn + unit" where
  "assert_sequence_loop seen previous [] = Inr ()"
| "assert_sequence_loop seen previous (request # requests) =
     (if request_name request \<in> seen
         \<or> (case previous of None \<Rightarrow> False | Some name \<Rightarrow> request_name request \<le> name)
      then Inl (LockOrderError ''host locks must follow intake, export, publication, tenant-state'')
      else assert_sequence_loop (insert (request_name request) seen) (Some (request_name request)) requests)"

definition assert_sequence :: "HeldLock list \<Rightarrow> LockRequest list \<Rightarrow> lock_exn + unit" where
  "assert_sequence held requests =
     assert_sequence_loop {} (if held \<noteq> [] then Some (lock_name (last held)) else None) requests"

text \<open>
  Raising \<open>e\<close> through a \<^verbatim>\<open>finally\<close> that releases the acquisition: an exception of the
  \<^verbatim>\<open>finally\<close> block replaces the one in flight.
\<close>

definition release_then_raise :: "lock_exn \<Rightarrow> LockManager \<Rightarrow> (lock_exn + 'a) \<times> LockManager" where
  "release_then_raise e m =
     (case release_acquisition m of (Inl e', m') \<Rightarrow> (Inl e', m') | (Inr _, m') \<Rightarrow> (Inl e, m'))"

text \<open>\<^verbatim>\<open>acquire\<close>, up to its \<^verbatim>\<open>yield\<close>: the lock it registered, the manager and the thread's stack.\<close>

definition acquire_enter ::
  "lock_kernel \<Rightarrow> LockManager \<times> HeldLock list \<Rightarrow> LockName \<Rightarrow> LockMode
     \<Rightarrow> (lock_exn + HeldLock) \<times> (LockManager \<times> HeldLock list)" where
  "acquire_enter os s name mode =
     (let (m, held) = s in
      case assert_next held name of
        Inl e \<Rightarrow> (Inl e, s)
      | Inr _ \<Rightarrow>
          (case reserve_acquisition m of
             (Inl e, m1) \<Rightarrow> (Inl e, (m1, held))
           | (Inr _, m1) \<Rightarrow>
               (case open_verified_lock os name of
                  Inl e \<Rightarrow> (let (r, m2) = release_then_raise e m1 in (r, (m2, held)))
                | Inr lock_fd \<Rightarrow>
                    (case flock os name mode of
                       FlockBusy \<Rightarrow>
                         (let (r, m2) = release_then_raise (StateBusyError (lock_filename name @ '' is busy'')) m1
                          in (r, (m2, held)))
                     | FlockFailed \<Rightarrow> (let (r, m2) = release_then_raise LockOSError m1 in (r, (m2, held)))
                     | FlockGranted \<Rightarrow>
                         (let lock = \<lparr>manager_token = token m1, lock_name = name, lock_mode = mode,
                                      lock_inode = fstat_inode os lock_fd, lock_descriptor = lock_fd\<rparr>
                          in (Inr lock, (m1, held @ [lock])))))))"

text \<open>Leaving the context: the stack is popped, then the acquisition is released.\<close>

definition acquire_exit ::
  "LockManager \<times> HeldLock list \<Rightarrow> HeldLock \<Rightarrow> (lock_exn + unit) \<times> (LockManager \<times> HeldLock list)" where
  "acquire_exit s held_lock =
     (let (m, held) = s; popped = last held; held' = butlast held in
      if popped \<noteq> held_lock
      then (let (r, m') = release_then_raise (LockRuntimeError ''lock stack was corrupted'') m in (r, (m', held')))
      else (let (r, m') = release_acquisition m in (r, (m', held'))))"

text \<open>An \<^verbatim>\<open>ExitStack\<close> leaves its contexts in the reverse order; the last exception raised is in flight.\<close>

fun exit_stack ::
  "LockManager \<times> HeldLock list \<Rightarrow> HeldLock list \<Rightarrow> (lock_exn + unit) \<Rightarrow> (lock_exn + unit) \<times> (LockManager \<times> HeldLock list)" where
  "exit_stack s [] r = (r, s)"
| "exit_stack s (lock # locks) r =
     (let (r', s') = acquire_exit s lock
      in exit_stack s' locks (case r' of Inl e \<Rightarrow> Inl e | Inr _ \<Rightarrow> r))"

text \<open>The loop of \<^verbatim>\<open>acquire_many\<close>; \<open>entered\<close> is the \<^verbatim>\<open>ExitStack\<close>, newest context first.\<close>

fun enter_all ::
  "lock_kernel \<Rightarrow> HeldLock list \<Rightarrow> LockManager \<times> HeldLock list \<Rightarrow> LockRequest list
     \<Rightarrow> (lock_exn + HeldLock list) \<times> (LockManager \<times> HeldLock list)" where
  "enter_all os entered s [] = (Inr entered, s)"
| "enter_all os entered s (request # requests) =
     (case acquire_enter os s (request_name request) (request_mode request) of
        (Inl e, s') \<Rightarrow>
          (case exit_stack s' entered (Inl e) of
             (Inl e', s'') \<Rightarrow> (Inl e', s'')
           | (Inr _, s'') \<Rightarrow> (Inl e, s''))
      | (Inr lock, s') \<Rightarrow> enter_all os (lock # entered) s' requests)"

definition acquire_many_enter ::
  "lock_kernel \<Rightarrow> LockManager \<times> HeldLock list \<Rightarrow> LockRequest list
     \<Rightarrow> (lock_exn + HeldLock list) \<times> (LockManager \<times> HeldLock list)" where
  "acquire_many_enter os s requests =
     (case assert_sequence (snd s) requests of
        Inl e \<Rightarrow> (Inl e, s)
      | Inr _ \<Rightarrow> enter_all os [] s requests)"

definition acquire_many_exit ::
  "LockManager \<times> HeldLock list \<Rightarrow> HeldLock list \<Rightarrow> (lock_exn + unit) \<times> (LockManager \<times> HeldLock list)" where
  "acquire_many_exit s entered = exit_stack s entered (Inr ())"

section \<open>Proofs of possession\<close>

definition require_held ::
  "(int \<Rightarrow> int \<times> int) \<Rightarrow> LockManager \<Rightarrow> HeldLock list \<Rightarrow> LockName \<Rightarrow> LockMode option \<Rightarrow> int option \<Rightarrow> bool
     \<Rightarrow> lock_exn + unit" where
  "require_held fstat m held name mode descriptor innermost =
     (case find (\<lambda>lock. manager_token lock = token m \<and> lock_name lock = name
                        \<and> (mode = None \<or> Some (lock_mode lock) = mode)) held of
        None \<Rightarrow>
          (let requirement = (case mode of None \<Rightarrow> '''' | Some md \<Rightarrow> '' in '' @ mode_value md @ '' mode'')
           in Inl (LockOrderError (lock_filename name @ '' must already be held'' @ requirement)))
      | Some matching \<Rightarrow>
          if innermost \<and> last held \<noteq> matching
          then Inl (LockOrderError ''a remote lease cannot be lent while an inner host lock is held'')
          else (case descriptor of
              None \<Rightarrow> Inr ()
            | Some fd \<Rightarrow>
                if lock_inode matching \<noteq> fstat fd
                then Inl (LockOrderError (lock_filename name @ '' held inode does not match''))
                else Inr ()))"

definition duplicate_export_descriptor ::
  "(int \<Rightarrow> int \<times> int) \<Rightarrow> (int \<Rightarrow> lock_exn + int) \<Rightarrow> LockManager \<Rightarrow> HeldLock list \<Rightarrow> lock_exn + int" where
  "duplicate_export_descriptor fstat dup m held =
     bindE (require_held fstat m held EXPORT (Some EXCLUSIVE) None True) (\<lambda>_.
     case find (\<lambda>lock. manager_token lock = token m \<and> lock_name lock = EXPORT) held of
       None \<Rightarrow> Inl (LockRuntimeError ''StopIteration'')
     | Some lock \<Rightarrow> dup (lock_descriptor lock))"

section \<open>Entering and leaving one lock\<close>

lemma release_reserved:
  "0 \<le> active_count m \<Longrightarrow> release_acquisition (m\<lparr>active_count := active_count m + 1\<rparr>) = (Inr (), m)"
  by (cases m) (simp add: release_acquisition_def)

lemma acquire_enter_cases:
  assumes "0 \<le> active_count m"
  shows "(\<exists>e. acquire_enter os (m, held) name mode = (Inl e, (m, held))) \<or>
    (\<exists>lock. acquire_enter os (m, held) name mode =
        (Inr lock, (m\<lparr>active_count := active_count m + 1\<rparr>, held @ [lock])) \<and>
      assert_next held name = Inr () \<and> 0 \<le> directory_fd m \<and>
      lock_name lock = name \<and> lock_mode lock = mode \<and> manager_token lock = token m)"
  using release_reserved[OF assms]
  by (auto simp: acquire_enter_def reserve_acquisition_def release_then_raise_def Let_def
      split: sum.splits flock_outcome.splits)

lemma acquire_exit_last:
  assumes "0 \<le> active_count m"
  shows "acquire_exit (m\<lparr>active_count := active_count m + 1\<rparr>, held @ [lock]) lock = (Inr (), (m, held))"
  using release_reserved[OF assms] by (simp add: acquire_exit_def)

text \<open>The state after \<open>locks\<close> were pushed on top of \<open>held\<close>, oldest first.\<close>

definition pushed :: "LockManager \<Rightarrow> HeldLock list \<Rightarrow> HeldLock list \<Rightarrow> LockManager \<times> HeldLock list" where
  "pushed m held locks = (m\<lparr>active_count := active_count m + int (length locks)\<rparr>, held @ locks)"

lemma pushed_Nil [simp]: "pushed m held [] = (m, held)"
  by (simp add: pushed_def)

lemma exit_pushed:
  assumes "0 \<le> active_count m"
  shows "acquire_exit (pushed m held (locks @ [lock])) lock = (Inr (), pushed m held locks)"
  using acquire_exit_last[of "m\<lparr>active_count := active_count m + int (length locks)\<rparr>" "held @ locks" lock] assms
  by (simp add: pushed_def ac_simps)

lemma exit_stack_pushed:
  assumes "0 \<le> active_count m"
  shows "exit_stack (pushed m held locks) (rev locks) r = (r, (m, held))"
proof (induction locks rule: rev_induct)
  case (snoc lock locks)
  then show ?case by (simp add: exit_pushed[OF assms])
qed simp

lemma acquire_enter_pushed:
  assumes "0 \<le> active_count m"
  shows "(\<exists>e. acquire_enter os (pushed m held locks) name mode = (Inl e, pushed m held locks)) \<or>
    (\<exists>lock. acquire_enter os (pushed m held locks) name mode = (Inr lock, pushed m held (locks @ [lock])) \<and>
      assert_next (held @ locks) name = Inr () \<and> 0 \<le> directory_fd m \<and>
      lock_name lock = name \<and> lock_mode lock = mode \<and> manager_token lock = token m)"
  using acquire_enter_cases[of "m\<lparr>active_count := active_count m + int (length locks)\<rparr>" os "held @ locks" name mode]
    assms by (simp add: pushed_def ac_simps)

lemma enter_all_cases:
  assumes "0 \<le> active_count m"
  shows "(\<exists>e. enter_all os (rev locks) (pushed m held locks) requests = (Inl e, (m, held))) \<or>
    (\<exists>new. enter_all os (rev locks) (pushed m held locks) requests
        = (Inr (rev (locks @ new)), pushed m held (locks @ new)) \<and>
      map lock_name new = map request_name requests \<and> map lock_mode new = map request_mode requests \<and>
      (\<forall>lock \<in> set new. manager_token lock = token m))"
proof (induction requests arbitrary: locks)
  case (Cons request requests)
  from acquire_enter_pushed[OF assms, of os held locks "request_name request" "request_mode request"]
  show ?case
  proof (elim disjE exE conjE)
    fix e assume "acquire_enter os (pushed m held locks) (request_name request) (request_mode request)
        = (Inl e, pushed m held locks)"
    then show ?thesis by (simp add: exit_stack_pushed[OF assms])
  next
    fix lock
    assume enter: "acquire_enter os (pushed m held locks) (request_name request) (request_mode request)
        = (Inr lock, pushed m held (locks @ [lock]))"
      and lock: "lock_name lock = request_name request" "lock_mode lock = request_mode request"
        "manager_token lock = token m"
    from Cons.IH[of "locks @ [lock]"] show ?thesis
    proof (elim disjE exE conjE)
      fix e assume "enter_all os (rev (locks @ [lock])) (pushed m held (locks @ [lock])) requests = (Inl e, (m, held))"
      then show ?thesis using enter by simp
    next
      fix new assume "enter_all os (rev (locks @ [lock])) (pushed m held (locks @ [lock])) requests
          = (Inr (rev ((locks @ [lock]) @ new)), pushed m held ((locks @ [lock]) @ new))"
        "map lock_name new = map request_name requests" "map lock_mode new = map request_mode requests"
        "\<forall>lock \<in> set new. manager_token lock = token m"
      then show ?thesis using enter lock by (intro disjI2 exI[of _ "lock # new"]) simp
    qed
  qed
qed simp

section \<open>The order\<close>

definition ordered :: "HeldLock list \<Rightarrow> bool" where
  "ordered held \<longleftrightarrow> sorted_wrt (<) (map lock_name held)"

lemma assert_next_iff:
  assumes "ordered held"
  shows "assert_next held name = Inr () \<longleftrightarrow> (\<forall>lock \<in> set held. lock_name lock < name)"
proof (cases held rule: rev_cases)
  case (snoc ls l)
  then have "\<forall>lock \<in> set ls. lock_name lock < lock_name l"
    using assms by (auto simp: ordered_def sorted_wrt_append)
  then show ?thesis using snoc by (auto simp: assert_next_def not_le)
qed (simp add: assert_next_def)

lemma ordered_snoc: "ordered held \<Longrightarrow> assert_next held (lock_name lock) = Inr () \<Longrightarrow> ordered (held @ [lock])"
  by (simp add: assert_next_iff) (simp add: ordered_def sorted_wrt_append)

lemma ordered_butlast: "ordered held \<Longrightarrow> ordered (butlast held)"
  by (cases held rule: rev_cases) (simp_all add: ordered_def sorted_wrt_append)

lemma assert_sequence_loop_iff:
  "assert_sequence_loop seen previous requests = Inr () \<longleftrightarrow>
     (\<forall>r \<in> set requests. request_name r \<notin> seen) \<and>
     sorted_wrt (<) (case previous of None \<Rightarrow> map request_name requests
                     | Some p \<Rightarrow> p # map request_name requests)"
proof (induction requests arbitrary: seen previous)
  case (Cons r rs)
  show ?case by (cases previous) (auto simp: Cons.IH)
qed (simp split: option.splits)

section \<open>Concurrent threads\<close>

text \<open>
  A host with any number of processes, each with one manager, and threads that enter and leave
  locks in any interleaving; a thread is its process and its number. The kernel grants a lock
  only when no other thread holds the same lock in a conflicting mode.
\<close>

type_synonym thread = "nat \<times> nat"

record lock_host =
  managers :: "nat \<Rightarrow> LockManager"
  stacks :: "thread \<Rightarrow> HeldLock list"

definition conflicting :: "LockMode \<Rightarrow> LockMode \<Rightarrow> bool" where
  "conflicting a b \<longleftrightarrow> a = EXCLUSIVE \<or> b = EXCLUSIVE"

definition holds_conflicting :: "lock_host \<Rightarrow> thread \<Rightarrow> LockName \<Rightarrow> LockMode \<Rightarrow> bool" where
  "holds_conflicting h u name mode \<longleftrightarrow>
     (\<exists>lock \<in> set (stacks h u). lock_name lock = name \<and> conflicting (lock_mode lock) mode)"

inductive lock_step :: "lock_host \<Rightarrow> lock_host \<Rightarrow> bool" where
  enter: "acquire_enter os (managers h (fst t), stacks h t) name mode = (r, (m, held)) \<Longrightarrow>
    (flock os name mode = FlockGranted \<Longrightarrow> \<forall>u. u \<noteq> t \<longrightarrow> \<not> holds_conflicting h u name mode) \<Longrightarrow>
    lock_step h (h\<lparr>managers := (managers h)(fst t := m), stacks := (stacks h)(t := held)\<rparr>)"
| leave: "stacks h t = held @ [lock] \<Longrightarrow>
    acquire_exit (managers h (fst t), stacks h t) lock = (r, (m, held')) \<Longrightarrow>
    lock_step h (h\<lparr>managers := (managers h)(fst t := m), stacks := (stacks h)(t := held')\<rparr>)"
| shut: "manager_close (managers h p) = (r, m) \<Longrightarrow>
    lock_step h (h\<lparr>managers := (managers h)(p := m)\<rparr>)"

inductive lock_reachable :: "lock_host \<Rightarrow> bool" where
  initially: "(\<forall>p. active_count (managers h p) = 0) \<Longrightarrow> (\<forall>t. stacks h t = []) \<Longrightarrow> lock_reachable h"
| stepped: "lock_reachable h \<Longrightarrow> lock_step h h' \<Longrightarrow> lock_reachable h'"

text \<open>The invariant: stacks follow the order, and an open acquisition keeps its manager open.\<close>

definition exclusion :: "lock_host \<Rightarrow> bool" where
  "exclusion h \<longleftrightarrow> (\<forall>t u lock. t \<noteq> u \<longrightarrow> lock \<in> set (stacks h t) \<longrightarrow>
      \<not> holds_conflicting h u (lock_name lock) (lock_mode lock))"

definition counted :: "lock_host \<Rightarrow> bool" where
  "counted h \<longleftrightarrow> (\<forall>p. finite {i. stacks h (p, i) \<noteq> []} \<and>
     active_count (managers h p) = int (\<Sum>i | stacks h (p, i) \<noteq> []. length (stacks h (p, i))) \<and>
     (active_count (managers h p) \<noteq> 0 \<longrightarrow> 0 \<le> directory_fd (managers h p)))"

definition host_ok :: "lock_host \<Rightarrow> bool" where
  "host_ok h \<longleftrightarrow> (\<forall>t. ordered (stacks h t)) \<and> exclusion h \<and> counted h"

lemma stack_sum_update:
  fixes f :: "nat \<Rightarrow> 'a list"
  assumes "finite {i. f i \<noteq> []}"
  shows "finite {i. (f(j := xs)) i \<noteq> []}"
    "int (\<Sum>i | (f(j := xs)) i \<noteq> []. length ((f(j := xs)) i))
       = int (\<Sum>i | f i \<noteq> []. length (f i)) + int (length xs) - int (length (f j))"
proof -
  let ?g = "f(j := xs)" and ?A = "insert j {i. f i \<noteq> []}"
  have A: "finite ?A" using assms by simp
  have sub: "{i. ?g i \<noteq> []} \<subseteq> ?A" by auto
  then show "finite {i. ?g i \<noteq> []}" using A by (rule finite_subset)
  have "(\<Sum>i | ?g i \<noteq> []. length (?g i)) = (\<Sum>i \<in> ?A. length (?g i))"
    using sub A by (intro sum.mono_neutral_left) auto
  also have "\<dots> = length xs + (\<Sum>i \<in> ?A - {j}. length (f i))"
    using A by (subst sum.remove[of _ j]) auto
  finally have new: "(\<Sum>i | ?g i \<noteq> []. length (?g i)) = length xs + (\<Sum>i \<in> ?A - {j}. length (f i))" .
  have "(\<Sum>i | f i \<noteq> []. length (f i)) = (\<Sum>i \<in> ?A. length (f i))"
    using A by (intro sum.mono_neutral_left) auto
  also have "\<dots> = length (f j) + (\<Sum>i \<in> ?A - {j}. length (f i))"
    using A by (subst sum.remove[of _ j]) auto
  finally show "int (\<Sum>i | ?g i \<noteq> []. length (?g i))
      = int (\<Sum>i | f i \<noteq> []. length (f i)) + int (length xs) - int (length (f j))"
    using new by simp
qed

lemma counted_update:
  assumes "counted h"
    and "active_count m = active_count (managers h (fst t)) + int (length held) - int (length (stacks h t))"
    and "active_count m \<noteq> 0 \<longrightarrow> 0 \<le> directory_fd m"
  shows "counted (h\<lparr>managers := (managers h)(fst t := m), stacks := (stacks h)(t := held)\<rparr>)"
proof -
  obtain p j where t: "t = (p, j)" by fastforce
  have f: "(\<lambda>i. ((stacks h)(t := held)) (p, i)) = (\<lambda>i. stacks h (p, i))(j := held)" by (auto simp: t)
  have other: "((stacks h)(t := held)) (q, i) = stacks h (q, i)" if "q \<noteq> p" for q i using that by (simp add: t)
  have "finite {i. stacks h (p, i) \<noteq> []}" using assms(1) by (simp add: counted_def)
  note upd = stack_sum_update[OF this, of j held, folded f]
  show ?thesis unfolding counted_def
  proof
    fix q
    show "finite {i. stacks (h\<lparr>managers := (managers h)(fst t := m), stacks := (stacks h)(t := held)\<rparr>) (q, i) \<noteq> []} \<and>
      active_count (managers (h\<lparr>managers := (managers h)(fst t := m), stacks := (stacks h)(t := held)\<rparr>) q) =
      int (\<Sum>i | stacks (h\<lparr>managers := (managers h)(fst t := m), stacks := (stacks h)(t := held)\<rparr>) (q, i) \<noteq> [].
         length (stacks (h\<lparr>managers := (managers h)(fst t := m), stacks := (stacks h)(t := held)\<rparr>) (q, i))) \<and>
      (active_count (managers (h\<lparr>managers := (managers h)(fst t := m), stacks := (stacks h)(t := held)\<rparr>) q) \<noteq> 0 \<longrightarrow>
       0 \<le> directory_fd (managers (h\<lparr>managers := (managers h)(fst t := m), stacks := (stacks h)(t := held)\<rparr>) q))"
    proof (cases "q = p")
      case True
      then show ?thesis using upd assms by (simp add: t counted_def)
    next
      case False
      then show ?thesis using assms(1) other[OF False] by (simp add: t counted_def)
    qed
  qed
qed

lemma counted_nonneg: "counted h \<Longrightarrow> 0 \<le> active_count (managers h p)"
  unfolding counted_def using of_nat_0_le_iff by metis

lemma counted_pos:
  assumes "counted h" "stacks h (p, i) \<noteq> []"
  shows "0 < active_count (managers h p)"
proof -
  have "length (stacks h (p, i)) \<le> (\<Sum>i | stacks h (p, i) \<noteq> []. length (stacks h (p, i)))"
    using assms member_le_sum[of i "{i. stacks h (p, i) \<noteq> []}" "\<lambda>i. length (stacks h (p, i))"]
    by (simp add: counted_def)
  moreover have "0 < length (stacks h (p, i))" using assms(2) by simp
  moreover have "active_count (managers h p) = int (\<Sum>i | stacks h (p, i) \<noteq> []. length (stacks h (p, i)))"
    using assms(1) unfolding counted_def by blast
  ultimately show ?thesis by linarith
qed

lemma ordered_update:
  "\<forall>t. ordered (stacks h t) \<Longrightarrow> ordered held \<Longrightarrow> \<forall>u. ordered (stacks (h\<lparr>managers := ms, stacks := (stacks h)(t := held)\<rparr>) u)"
  by simp

lemma conflicting_sym: "conflicting a b = conflicting b a"
  by (auto simp: conflicting_def)

lemma exclusion_push:
  assumes "exclusion h" and free: "\<forall>u. u \<noteq> t \<longrightarrow> \<not> holds_conflicting h u (lock_name lock) (lock_mode lock)"
  shows "exclusion (h\<lparr>managers := ms, stacks := (stacks h)(t := stacks h t @ [lock])\<rparr>)"
  using assms unfolding exclusion_def holds_conflicting_def by (auto simp: conflicting_sym)

lemma exclusion_pop:
  assumes "exclusion h" "set held \<subseteq> set (stacks h t)"
  shows "exclusion (h\<lparr>managers := ms, stacks := (stacks h)(t := held)\<rparr>)"
  using assms unfolding exclusion_def holds_conflicting_def by (auto simp: subset_iff)

lemma lock_step_ok:
  assumes "lock_step h h'" "host_ok h"
  shows "host_ok h'"
  using assms
proof (cases rule: lock_step.cases)
  case (enter os t name mode r m held)
  have nn: "0 \<le> active_count (managers h (fst t))" using assms(2) by (simp add: host_ok_def counted_nonneg)
  from acquire_enter_cases[OF nn, of os "stacks h t" name mode] show ?thesis
  proof (elim disjE exE conjE)
    fix e assume "acquire_enter os (managers h (fst t), stacks h t) name mode = (Inl e, managers h (fst t), stacks h t)"
    then have "m = managers h (fst t)" "held = stacks h t" using enter(2) by simp_all
    then have "h' = h" using enter(1) by simp
    then show ?thesis using assms(2) by simp
  next
    fix lock
    assume acq: "acquire_enter os (managers h (fst t), stacks h t) name mode =
        (Inr lock, (managers h (fst t))\<lparr>active_count := active_count (managers h (fst t)) + 1\<rparr>, stacks h t @ [lock])"
      and nxt: "assert_next (stacks h t) name = Inr ()" and fd: "0 \<le> directory_fd (managers h (fst t))"
      and lock: "lock_name lock = name" "lock_mode lock = mode"
    have eqs: "m = (managers h (fst t))\<lparr>active_count := active_count (managers h (fst t)) + 1\<rparr>"
      "held = stacks h t @ [lock]" using acq enter(2) by simp_all
    have "flock os name mode = FlockGranted"
      using acq by (auto simp: acquire_enter_def release_then_raise_def Let_def split: sum.splits flock_outcome.splits prod.splits)
    then have "\<forall>u. u \<noteq> t \<longrightarrow> \<not> holds_conflicting h u (lock_name lock) (lock_mode lock)" using enter(3) lock by simp
    then have "exclusion h'" using assms(2) unfolding enter(1) eqs host_ok_def by (intro exclusion_push) blast+
    moreover have "ordered (stacks h t @ [lock])" using assms(2) nxt lock unfolding host_ok_def by (intro ordered_snoc) blast+
    then have "\<forall>u. ordered (stacks h' u)" using assms(2) unfolding enter(1) eqs host_ok_def by (intro ordered_update) blast+
    moreover have "counted h'" using assms(2) fd unfolding enter(1) host_ok_def
      by (intro counted_update) (simp_all add: eqs)
    ultimately show ?thesis by (simp add: host_ok_def)
  qed
next
  case (leave t held lock r m held')
  have pos: "0 < active_count (managers h (fst t))"
    using assms(2) leave(2) counted_pos[of h "fst t" "snd t"] by (simp add: host_ok_def)
  then have fd: "0 \<le> directory_fd (managers h (fst t))"
    using assms(2) unfolding host_ok_def counted_def by force
  have m: "held' = held" "m = (managers h (fst t))\<lparr>active_count := active_count (managers h (fst t)) - 1\<rparr>"
    using pos leave(2,3) by (auto simp: acquire_exit_def release_acquisition_def Let_def)
  have "ordered (stacks h t)" using assms(2) unfolding host_ok_def by blast
  from ordered_butlast[OF this] have "ordered held" using leave(2) by simp
  then have "\<forall>u. ordered (stacks h' u)" using assms(2) unfolding leave(1) m host_ok_def by (intro ordered_update) blast+
  moreover have "exclusion h'" using assms(2) leave(2) unfolding leave(1) m host_ok_def by (intro exclusion_pop) auto
  moreover have "counted h'" using assms(2) leave(2) unfolding leave(1) host_ok_def
    by (intro counted_update) (simp_all add: m fd)
  ultimately show ?thesis by (simp add: host_ok_def)
next
  case (shut p r m)
  then show ?thesis using assms(2)
    by (auto simp: host_ok_def exclusion_def holds_conflicting_def counted_def manager_close_def split: if_splits)
qed

lemma lock_reachable_ok: "lock_reachable h \<Longrightarrow> host_ok h"
proof (induction rule: lock_reachable.induct)
  case (initially h)
  then show ?case by (simp add: host_ok_def ordered_def exclusion_def holds_conflicting_def counted_def)
qed (rule lock_step_ok)

text \<open>Thread \<open>t\<close> is admitted to request \<open>name\<close> and thread \<open>u\<close> holds it: \<open>t\<close> may have to wait for \<open>u\<close>.\<close>

definition waits_for :: "lock_host \<Rightarrow> (thread \<Rightarrow> LockName) \<Rightarrow> (thread \<times> thread) set" where
  "waits_for h request = {(t, u). assert_next (stacks h t) (request t) = Inr () \<and>
      (\<exists>lock \<in> set (stacks h u). lock_name lock = request t)}"

lemma waits_for_increases:
  assumes "\<forall>t. ordered (stacks h t)" "(t, u) \<in> (waits_for h request)\<^sup>+"
    and "assert_next (stacks h u) (request u) = Inr ()"
  shows "request t < request u"
proof -
  have one: "request t < request u" if "(t, u) \<in> waits_for h request" "assert_next (stacks h u) (request u) = Inr ()" for t u
    using that assms(1) by (auto simp: waits_for_def assert_next_iff)
  show ?thesis using assms(2,3)
  proof (induction rule: trancl_induct)
    case (base u)
    then show ?case by (rule one)
  next
    case (step u v)
    have "assert_next (stacks h u) (request u) = Inr ()" using step(2) by (simp add: waits_for_def)
    then have "request t < request u" by (rule step.IH)
    also have "\<dots> < request v" using step(2) step.prems by (rule one)
    finally show ?case .
  qed
qed

section \<open>Properties\<close>

text \<open>\<^verbatim>\<open>acquire_many\<close> is atomic for its caller: either it raises and leaves the manager and the
  thread's stack exactly as they were, every lock it had taken released again, or it enters
  with precisely the requested locks, in the requested modes and order, on top of the stack
  and leaving the context restores both exactly.\<close>

theorem acquire_many_atomic:
  assumes "0 \<le> active_count m"
  shows "(\<exists>e. acquire_many_enter os (m, held) requests = (Inl e, (m, held))) \<or>
    (\<exists>entered m' new. acquire_many_enter os (m, held) requests = (Inr entered, (m', held @ new)) \<and>
      map lock_name new = map request_name requests \<and> map lock_mode new = map request_mode requests \<and>
      active_count m' = active_count m + int (length requests) \<and>
      acquire_many_exit (m', held @ new) entered = (Inr (), (m, held)))"
proof (cases "assert_sequence held requests")
  case (Inl e)
  then show ?thesis by (simp add: acquire_many_enter_def)
next
  case (Inr x)
  from enter_all_cases[OF assms, of os "[]" held requests] show ?thesis
  proof (elim disjE exE conjE)
    fix e assume "enter_all os (rev []) (pushed m held []) requests = (Inl e, (m, held))"
    then show ?thesis using Inr by (simp add: acquire_many_enter_def)
  next
    fix new assume enter: "enter_all os (rev []) (pushed m held []) requests
        = (Inr (rev ([] @ new)), pushed m held ([] @ new))"
      and new: "map lock_name new = map request_name requests" "map lock_mode new = map request_mode requests"
    have "length new = length requests" using map_eq_imp_length_eq[OF new(1)] .
    then show ?thesis
      using Inr enter new exit_stack_pushed[OF assms, of held new "Inr ()"]
      by (intro disjI2 exI conjI) (auto simp: acquire_many_enter_def acquire_many_exit_def pushed_def)
  qed
qed

theorem acquire_many_atomic_witness:
  "fst (acquire_many_enter \<lparr>open_verified_lock = (\<lambda>n. Inr 7), flock = (\<lambda>n md. if n = TENANT_STATE then FlockBusy else FlockGranted),
      fstat_inode = (\<lambda>fd. (1, fd))\<rparr> (\<lparr>directory_fd = 3, token = 0, active_count = 0\<rparr>, [])
      [\<lparr>request_name = PUBLICATION, request_mode = EXCLUSIVE\<rparr>, \<lparr>request_name = TENANT_STATE, request_mode = SHARED\<rparr>])
    = Inl (StateBusyError ''tenant-state.lock is busy'') \<and>
   snd (acquire_many_enter \<lparr>open_verified_lock = (\<lambda>n. Inr 7), flock = (\<lambda>n md. if n = TENANT_STATE then FlockBusy else FlockGranted),
      fstat_inode = (\<lambda>fd. (1, fd))\<rparr> (\<lparr>directory_fd = 3, token = 0, active_count = 0\<rparr>, [])
      [\<lparr>request_name = PUBLICATION, request_mode = EXCLUSIVE\<rparr>, \<lparr>request_name = TENANT_STATE, request_mode = SHARED\<rparr>])
    = (\<lparr>directory_fd = 3, token = 0, active_count = 0\<rparr>, [])"
proof -
  let ?os = "\<lparr>open_verified_lock = (\<lambda>n. Inr 7), flock = (\<lambda>n md. if n = TENANT_STATE then FlockBusy else FlockGranted),
      fstat_inode = (\<lambda>fd. (1, fd))\<rparr>"
  let ?m = "\<lparr>directory_fd = 3, token = 0, active_count = 0\<rparr>"
  let ?rs = "[\<lparr>request_name = PUBLICATION, request_mode = EXCLUSIVE\<rparr>, \<lparr>request_name = TENANT_STATE, request_mode = SHARED\<rparr>]"
  have busy: "fst (acquire_many_enter ?os (?m, []) ?rs) = Inl (StateBusyError ''tenant-state.lock is busy'')"
    by code_simp
  from acquire_many_atomic[of ?m ?os "[]" ?rs] busy show ?thesis by fastforce
qed

text \<open>C37. Threads that take host locks through the manager never deadlock: in every reachable state,
  whatever next lock each thread requests among those its order check admits, the relation
  \<^emph>\<open>waits for a lock held by\<close> has no cycle.\<close>

theorem lock_order_prevents_deadlock:
  assumes "lock_reachable h"
  shows "(t, t) \<notin> (waits_for h request)\<^sup>+"
proof
  assume cyc: "(t, t) \<in> (waits_for h request)\<^sup>+"
  then obtain u where "(t, u) \<in> waits_for h request" by (meson tranclD)
  then have "assert_next (stacks h t) (request t) = Inr ()" by (simp add: waits_for_def)
  moreover have "\<forall>t. ordered (stacks h t)" using lock_reachable_ok[OF assms] by (simp add: host_ok_def)
  ultimately have "request t < request t" using cyc waits_for_increases by blast
  then show False by simp
qed

definition idle_host :: lock_host where
  "idle_host = \<lparr>managers = (\<lambda>p. \<lparr>directory_fd = 3, token = p, active_count = 0\<rparr>), stacks = (\<lambda>t. [])\<rparr>"

text \<open>Thread 0 of process 0 has taken the publication lock.\<close>

definition publishing_host :: lock_host where
  "publishing_host = idle_host\<lparr>
     managers := (managers idle_host)(0 := \<lparr>directory_fd = 3, token = 0, active_count = 1\<rparr>),
     stacks := (stacks idle_host)((0, 0) := [\<lparr>manager_token = 0, lock_name = PUBLICATION,
       lock_mode = EXCLUSIVE, lock_inode = (1, 7), lock_descriptor = 7\<rparr>])\<rparr>"

lemma publishing_host_reachable: "lock_reachable publishing_host"
proof (rule lock_reachable.stepped)
  show "lock_reachable idle_host"
    by (rule lock_reachable.initially) (simp_all add: idle_host_def)
  let ?os = "\<lparr>open_verified_lock = (\<lambda>n. Inr 7), flock = (\<lambda>n md. FlockGranted), fstat_inode = (\<lambda>fd. (1, fd))\<rparr>"
  have "acquire_enter ?os (managers idle_host (fst (0, 0)), stacks idle_host (0, 0)) PUBLICATION EXCLUSIVE
      = (Inr \<lparr>manager_token = 0, lock_name = PUBLICATION, lock_mode = EXCLUSIVE, lock_inode = (1, 7), lock_descriptor = 7\<rparr>,
         \<lparr>directory_fd = 3, token = 0, active_count = 1\<rparr>, [\<lparr>manager_token = 0, lock_name = PUBLICATION,
           lock_mode = EXCLUSIVE, lock_inode = (1, 7), lock_descriptor = 7\<rparr>])"
    by (simp add: idle_host_def acquire_enter_def assert_next_def reserve_acquisition_def Let_def)
  from lock_step.enter[OF this] show "lock_step idle_host publishing_host"
    by (simp add: publishing_host_def holds_conflicting_def) (simp add: idle_host_def)
qed

theorem lock_order_prevents_deadlock_witness:
  "((0, 1), (0, 0)) \<in> waits_for publishing_host (\<lambda>t. PUBLICATION) \<and>
   ((0, 1), (0, 1)) \<notin> (waits_for publishing_host (\<lambda>t. PUBLICATION))\<^sup>+"
  by (rule conjI[OF _ lock_order_prevents_deadlock[OF publishing_host_reachable]])
    (simp add: waits_for_def publishing_host_def idle_host_def assert_next_def)



end
