(* ===== verification/Caddy_Startup.thy ===== *)
theory Caddy_Startup
  imports Canonical
begin

text \<open>
  Model of \<^verbatim>\<open>static_host_agent/caddy_startup.py\<close>: the durable startup intent, its byte codec and
  the store that moves it through its phases. The directory holds at most one file
  \<^verbatim>\<open>start.json\<close>, so the state is the file's bytes or nothing; an operation that raises leaves
  it unchanged. The lemmas show the byte round trip, that every stored intent satisfies the
  constructor's checks, and how attempts and rollback are bounded.
\<close>

section \<open>Intents\<close>

datatype CaddyStartMode = ORDINARY | TRANSACTIONAL | HOST_RESTORE

datatype CaddyStartPhase =
    CANDIDATE_PREPARED | RESTART_REQUIRED | ORDINARY_STARTING | CANDIDATE_STARTING
  | ROLLBACK_RESTART_REQUIRED | RECOVERY_STARTING

fun mode_value :: "CaddyStartMode \<Rightarrow> string" where
  "mode_value ORDINARY = ''ordinary''"
| "mode_value TRANSACTIONAL = ''transactional''"
| "mode_value HOST_RESTORE = ''host-restore''"

fun phase_value :: "CaddyStartPhase \<Rightarrow> string" where
  "phase_value CANDIDATE_PREPARED = ''candidate-prepared''"
| "phase_value RESTART_REQUIRED = ''restart-required''"
| "phase_value ORDINARY_STARTING = ''ordinary-starting''"
| "phase_value CANDIDATE_STARTING = ''candidate-starting''"
| "phase_value ROLLBACK_RESTART_REQUIRED = ''rollback-restart-required''"
| "phase_value RECOVERY_STARTING = ''recovery-starting''"

definition MAX_CADDY_START_INTENT_BYTES :: nat where "MAX_CADDY_START_INTENT_BYTES = 16 * 1024"
definition MAX_CADDY_START_ATTEMPTS :: nat where "MAX_CADDY_START_ATTEMPTS = 3"
definition SCHEMA :: string where "SCHEMA = ''lowerduckpond-caddy-start-intent-v1''"

definition INVOCATION_ID :: "(char \<Rightarrow> bool) list" where
  "INVOCATION_ID = replicate 32 is_lower_hex"

record CaddyStartTarget =
  generation_id :: string
  manifest_sha256 :: string

definition mk_CaddyStartTarget :: "string \<Rightarrow> string \<Rightarrow> CaddyStartTarget py" where
  "mk_CaddyStartTarget gid sha =
     (case validate_uuid7 (JStr gid) of
        Inl (ContractError c m) \<Rightarrow> Inl (CaddyStartupError ''startup target is not a UUIDv7 generation'')
      | Inl e \<Rightarrow> Inl e
      | Inr _ \<Rightarrow>
          if \<not> fullmatch SHA256_PATTERN sha
          then Inl (CaddyStartupError ''startup target manifest digest is invalid'')
          else Inr \<lparr>generation_id = gid, manifest_sha256 = sha\<rparr>)"

definition target_to_dict :: "CaddyStartTarget \<Rightarrow> json" where
  "target_to_dict self =
     obj [(''generationId'', JStr (generation_id self)), (''manifestSha256'', JStr (manifest_sha256 self))]"

record CaddyStartIntent =
  mode :: CaddyStartMode
  phase :: CaddyStartPhase
  candidate :: CaddyStartTarget
  previous :: "CaddyStartTarget option"
  candidate_invocations :: "string list"
  recovery_invocations :: "string list"
  invocation_id :: "string option"
  restore_id :: "string option"

text \<open>\<^verbatim>\<open>int | range\<close> in the table of expected shapes, and the table.\<close>

datatype expected_count = Exactly nat | Within nat nat

fun count_matches :: "nat \<Rightarrow> expected_count \<Rightarrow> bool" where
  "count_matches n (Exactly k) = (n = k)"
| "count_matches n (Within lo hi) = (lo \<le> n \<and> n < hi)"

datatype invocation_binding = CandidateBinding | RecoveryBinding | NoBinding

fun expected_shapes :: "CaddyStartPhase \<Rightarrow> (expected_count \<times> expected_count \<times> invocation_binding) option" where
  "expected_shapes CANDIDATE_PREPARED = Some (Exactly 0, Exactly 0, NoBinding)"
| "expected_shapes RESTART_REQUIRED = Some (Exactly 0, Exactly 0, NoBinding)"
| "expected_shapes CANDIDATE_STARTING =
     Some (Within 1 (MAX_CADDY_START_ATTEMPTS + 1), Exactly 0, CandidateBinding)"
| "expected_shapes ROLLBACK_RESTART_REQUIRED = Some (Exactly MAX_CADDY_START_ATTEMPTS, Exactly 0, NoBinding)"
| "expected_shapes RECOVERY_STARTING =
     Some (Exactly MAX_CADDY_START_ATTEMPTS, Within 1 (MAX_CADDY_START_ATTEMPTS + 1), RecoveryBinding)"
| "expected_shapes ORDINARY_STARTING = None"

definition opt_json :: "string option \<Rightarrow> json" where
  "opt_json v = (case v of None \<Rightarrow> JNull | Some s \<Rightarrow> JStr s)"

text \<open>The three disjoint shapes \<^verbatim>\<open>__post_init__\<close> distinguishes, then the checks common to them.\<close>

definition host_restore_checks :: "CaddyStartIntent \<Rightarrow> unit py" where
  "host_restore_checks self =
     bindE (validate_uuid7 (opt_json (restore_id self))) (\<lambda>_.
     if previous self \<noteq> None \<or> recovery_invocations self \<noteq> []
     then Inl (CaddyStartupError ''host restore has rollback authority'')
     else
       let candidate_count = length (candidate_invocations self);
           valid = (if phase self \<in> {CANDIDATE_PREPARED, RESTART_REQUIRED}
                    then candidate_count = 0 \<and> invocation_id self = None
                    else if phase self = CANDIDATE_STARTING
                    then 1 \<le> candidate_count \<and> candidate_count \<le> MAX_CADDY_START_ATTEMPTS
                         \<and> invocation_id self = Some (last (candidate_invocations self))
                    else False)
       in if \<not> valid then Inl (CaddyStartupError ''host restore startup phase is invalid'') else Inr ())"

definition ordinary_checks :: "CaddyStartIntent \<Rightarrow> unit py" where
  "ordinary_checks self =
     (let candidate_count = length (candidate_invocations self) in
      if previous self \<noteq> None \<or> phase self \<noteq> ORDINARY_STARTING
         \<or> \<not> (1 \<le> candidate_count \<and> candidate_count \<le> MAX_CADDY_START_ATTEMPTS)
         \<or> recovery_invocations self \<noteq> []
         \<or> invocation_id self \<noteq> Some (last (candidate_invocations self))
      then Inl (CaddyStartupError ''ordinary startup has transactional authority'')
      else Inr ())"

definition transactional_checks :: "CaddyStartIntent \<Rightarrow> unit py" where
  "transactional_checks self =
     (if previous self = None \<or> previous self = Some (candidate self)
      then Inl (CaddyStartupError ''transactional startup has no distinct predecessor'')
      else case expected_shapes (phase self) of
          None \<Rightarrow> Inl (CaddyStartupError ''transactional startup has an ordinary phase'')
        | Some (expected_candidate, expected_recovery, binding) \<Rightarrow>
            if \<not> count_matches (length (candidate_invocations self)) expected_candidate
            then Inl (CaddyStartupError ''transactional candidate attempts disagree with phase'')
            else if \<not> count_matches (length (recovery_invocations self)) expected_recovery
            then Inl (CaddyStartupError ''transactional recovery attempts disagree with phase'')
            else
              let expected_invocation = (case binding of
                     CandidateBinding \<Rightarrow> Some (last (candidate_invocations self))
                   | RecoveryBinding \<Rightarrow> Some (last (recovery_invocations self))
                   | NoBinding \<Rightarrow> None)
              in if invocation_id self \<noteq> expected_invocation
                 then Inl (CaddyStartupError ''transactional invocation disagrees with phase'')
                 else Inr ())"

definition intent_post_init :: "CaddyStartIntent \<Rightarrow> CaddyStartIntent py" where
  "intent_post_init self =
     (if mode self \<noteq> HOST_RESTORE \<and> restore_id self \<noteq> None
      then Inl (CaddyStartupError ''ordinary startup carries restore authority'')
      else
        bindE (case mode self of
                 HOST_RESTORE \<Rightarrow> host_restore_checks self
               | ORDINARY \<Rightarrow> ordinary_checks self
               | TRANSACTIONAL \<Rightarrow> transactional_checks self) (\<lambda>_.
        let all_invocations = candidate_invocations self @ recovery_invocations self in
        if \<exists>v \<in> set all_invocations. \<not> fullmatch INVOCATION_ID v
        then Inl (CaddyStartupError ''startup intent contains an invalid invocation ID'')
        else if card (set all_invocations) \<noteq> length all_invocations
        then Inl (CaddyStartupError ''startup intent reuses an invocation ID'')
        else Inr self))"

definition selected_target :: "CaddyStartIntent \<Rightarrow> CaddyStartTarget py" where
  "selected_target self =
     (if phase self \<in> {ROLLBACK_RESTART_REQUIRED, RECOVERY_STARTING}
      then (case previous self of
              None \<Rightarrow> Inl (CaddyStartupError ''recovery has no previous generation'')
            | Some t \<Rightarrow> Inr t)
      else Inr (candidate self))"

section \<open>Bytes\<close>

definition intent_document :: "CaddyStartIntent \<Rightarrow> json" where
  "intent_document self =
     obj ([(''candidate'', target_to_dict (candidate self)),
           (''candidateInvocations'', strs (candidate_invocations self)),
           (''invocationId'', opt_json (invocation_id self)),
           (''mode'', JStr (mode_value (mode self))),
           (''phase'', JStr (phase_value (phase self))),
           (''previous'', case previous self of None \<Rightarrow> JNull | Some t \<Rightarrow> target_to_dict t),
           (''recoveryInvocations'', strs (recovery_invocations self)),
           (''schema'', JStr SCHEMA)]
          @ (if mode self = HOST_RESTORE then [(''restoreId'', opt_json (restore_id self))] else []))"

definition intent_to_bytes :: "json_codec \<Rightarrow> CaddyStartIntent \<Rightarrow> bytes py" where
  "intent_to_bytes codec self =
     canonical_json_bytes (dumps codec) (intent_document self) MAX_CADDY_START_INTENT_BYTES"

fun keys_of :: "json \<Rightarrow> string set" where
  "keys_of (JObj m) = fmdom' m"
| "keys_of _ = {}"

definition decode_target :: "json \<Rightarrow> CaddyStartTarget py" where
  "decode_target v =
     (if \<not> is_dict v \<or> keys_of v \<noteq> {''generationId'', ''manifestSha256''}
      then Inl (CaddyStartupError ''startup target has unexpected members'')
      else
        bindE (getitem v ''generationId'') (\<lambda>gid.
        bindE (getitem v ''manifestSha256'') (\<lambda>digest.
        case (gid, digest) of
          (JStr g, JStr d) \<Rightarrow> mk_CaddyStartTarget g d
        | _ \<Rightarrow> Inl (CaddyStartupError ''startup target fields are invalid''))))"

definition decode_invocations :: "json \<Rightarrow> string list py" where
  "decode_invocations v =
     (case v of
        JArr items \<Rightarrow>
          (if list_all is_str items then traverseE as_str items
           else Inl (CaddyStartupError ''startup invocation evidence is invalid''))
      | _ \<Rightarrow> Inl (CaddyStartupError ''startup invocation evidence is invalid''))"

definition all_modes :: "CaddyStartMode list" where
  "all_modes = [ORDINARY, TRANSACTIONAL, HOST_RESTORE]"

definition all_start_phases :: "CaddyStartPhase list" where
  "all_start_phases = [CANDIDATE_PREPARED, RESTART_REQUIRED, ORDINARY_STARTING, CANDIDATE_STARTING,
     ROLLBACK_RESTART_REQUIRED, RECOVERY_STARTING]"

definition INTENT_MEMBERS :: "string list" where
  "INTENT_MEMBERS = [''candidate'', ''candidateInvocations'', ''invocationId'', ''mode'', ''phase'',
     ''previous'', ''recoveryInvocations'', ''schema'']"

text \<open>The body of the \<^verbatim>\<open>try\<close> block, then its handler.\<close>

definition decode_intent_document :: "json \<Rightarrow> CaddyStartIntent py" where
  "decode_intent_document document =
     bindE (dict_get document ''mode'') (\<lambda>mode_or_none.
     if keys_of document \<noteq> set INTENT_MEMBERS
          \<union> (if mode_or_none = JStr (mode_value HOST_RESTORE) then {''restoreId''} else {})
     then Inl (CaddyStartupError ''Caddy startup intent schema is not recognized'')
     else
     bindE (getitem document ''schema'') (\<lambda>schema.
     if schema \<noteq> JStr SCHEMA
     then Inl (CaddyStartupError ''Caddy startup intent schema is not recognized'')
     else
     bindE (getitem document ''mode'') (\<lambda>mode_v.
     bindE (getitem document ''phase'') (\<lambda>phase_v.
     bindE (getitem document ''invocationId'') (\<lambda>invocation_v.
     if \<not> is_str mode_v \<or> \<not> is_str phase_v \<or> (invocation_v \<noteq> JNull \<and> \<not> is_str invocation_v)
     then Inl (CaddyStartupError ''Caddy startup intent fields are invalid'')
     else
     bindE (enum_of mode_value all_modes mode_v) (\<lambda>m.
     bindE (enum_of phase_value all_start_phases phase_v) (\<lambda>p.
     bindE (bindE (getitem document ''candidate'') decode_target) (\<lambda>cand.
     bindE (bindE (getitem document ''previous'') (\<lambda>prev.
              if prev = JNull then Inr None else bindE (decode_target prev) (\<lambda>t. Inr (Some t)))) (\<lambda>prev.
     bindE (bindE (getitem document ''candidateInvocations'') decode_invocations) (\<lambda>cand_inv.
     bindE (bindE (getitem document ''recoveryInvocations'') decode_invocations) (\<lambda>rec_inv.
     bindE (if mode_v = JStr (mode_value HOST_RESTORE)
            then bindE (bindE (getitem document ''restoreId'') validate_uuid7) (\<lambda>r. Inr (Some r))
            else Inr None) (\<lambda>restore.
     intent_post_init
       \<lparr>mode = m, phase = p, candidate = cand, previous = prev, candidate_invocations = cand_inv,
        recovery_invocations = rec_inv,
        invocation_id = (case invocation_v of JStr s \<Rightarrow> Some s | _ \<Rightarrow> None),
        restore_id = restore\<rparr>))))))))))))"

definition decode_caddy_start_intent :: "json_codec \<Rightarrow> bytes \<Rightarrow> CaddyStartIntent py" where
  "decode_caddy_start_intent codec data =
     (case
        bindE (decode_json_object codec data MAX_CADDY_START_INTENT_BYTES) (\<lambda>document.
        bindE (canonical_json_bytes (dumps codec) document MAX_CANONICAL_BYTES) (\<lambda>canonical.
        if canonical \<noteq> data then Inl (CaddyStartupError ''Caddy startup intent is not canonical'')
        else decode_intent_document document))
      of
        Inl (CaddyStartupError m) \<Rightarrow> Inl (CaddyStartupError m)
      | Inl _ \<Rightarrow> Inl (CaddyStartupError ''Caddy startup intent is invalid'')
      | Inr intent \<Rightarrow> Inr intent)"

section \<open>The store\<close>

text \<open>The file's bytes or nothing; an operation returns its result and the new file.\<close>

type_synonym start_file = "bytes option"
type_synonym 'a stored = "('a \<times> start_file) py"

definition store_read :: "json_codec \<Rightarrow> start_file \<Rightarrow> CaddyStartIntent option py" where
  "store_read codec file =
     (case file of None \<Rightarrow> Inr None
      | Some data \<Rightarrow> bindE (decode_caddy_start_intent codec data) (\<lambda>intent. Inr (Some intent)))"

definition store_write :: "json_codec \<Rightarrow> CaddyStartIntent \<Rightarrow> start_file py" where
  "store_write codec intent = bindE (intent_to_bytes codec intent) (\<lambda>data. Inr (Some data))"

definition require_current :: "json_codec \<Rightarrow> start_file \<Rightarrow> CaddyStartIntent \<Rightarrow> CaddyStartIntent py" where
  "require_current codec file expected =
     bindE (store_read codec file) (\<lambda>current.
     if current \<noteq> Some expected
     then Inl (CaddyStartupError ''Caddy startup intent changed during transition'')
     else Inr expected)"

definition begin_transaction ::
  "json_codec \<Rightarrow> start_file \<Rightarrow> CaddyStartTarget \<Rightarrow> CaddyStartTarget \<Rightarrow> CaddyStartIntent stored" where
  "begin_transaction codec file cand prev =
     bindE (store_read codec file) (\<lambda>current.
     if current \<noteq> None then Inl (CaddyStartupError ''another Caddy startup intent is active'')
     else
       bindE (intent_post_init
         \<lparr>mode = TRANSACTIONAL, phase = CANDIDATE_PREPARED, candidate = cand, previous = Some prev,
          candidate_invocations = [], recovery_invocations = [], invocation_id = None, restore_id = None\<rparr>) (\<lambda>intent.
       bindE (store_write codec intent) (\<lambda>file'. Inr (intent, file'))))"

definition mark_restart_required ::
  "json_codec \<Rightarrow> start_file \<Rightarrow> CaddyStartIntent \<Rightarrow> CaddyStartIntent stored" where
  "mark_restart_required codec file intent =
     bindE (require_current codec file intent) (\<lambda>current.
     if phase current \<noteq> CANDIDATE_PREPARED
     then Inl (CaddyStartupError ''candidate is not awaiting selection'')
     else
       bindE (intent_post_init (current\<lparr>phase := RESTART_REQUIRED\<rparr>)) (\<lambda>updated.
       bindE (store_write codec updated) (\<lambda>file'. Inr (updated, file'))))"

definition begin_host_restore ::
  "json_codec \<Rightarrow> start_file \<Rightarrow> CaddyStartTarget \<Rightarrow> string \<Rightarrow> CaddyStartIntent stored" where
  "begin_host_restore codec file cand restore =
     bindE (validate_uuid7 (JStr restore)) (\<lambda>_.
     bindE (store_read codec file) (\<lambda>current.
     case current of
       Some current \<Rightarrow>
         if mode current \<noteq> HOST_RESTORE \<or> restore_id current \<noteq> Some restore \<or> candidate current \<noteq> cand
         then Inl (CaddyStartupError ''another Caddy startup intent is active'')
         else Inr (current, file)
     | None \<Rightarrow>
         bindE (intent_post_init
           \<lparr>mode = HOST_RESTORE, phase = CANDIDATE_PREPARED, candidate = cand, previous = None,
            candidate_invocations = [], recovery_invocations = [], invocation_id = None,
            restore_id = Some restore\<rparr>) (\<lambda>intent.
         bindE (store_write codec intent) (\<lambda>file'. Inr (intent, file')))))"

definition require_invocation :: "string \<Rightarrow> unit py" where
  "require_invocation invoc =
     (if \<not> fullmatch INVOCATION_ID invoc then Inl (CaddyStartupError ''systemd invocation ID is invalid'')
      else Inr ())"

text \<open>The intent \<^verbatim>\<open>prepare_start\<close> writes: one more attempt at the selected target.\<close>

definition next_attempt ::
  "CaddyStartIntent option \<Rightarrow> CaddyStartTarget \<Rightarrow> string \<Rightarrow> CaddyStartIntent py" where
  "next_attempt stored active invoc =
     (case stored of
        None \<Rightarrow>
          intent_post_init
            \<lparr>mode = ORDINARY, phase = ORDINARY_STARTING, candidate = active, previous = None,
             candidate_invocations = [invoc], recovery_invocations = [], invocation_id = Some invoc,
             restore_id = None\<rparr>
      | Some current \<Rightarrow>
          bindE (selected_target current) (\<lambda>selected.
          if selected \<noteq> active
          then Inl (CaddyStartupError ''active generation disagrees with startup intent'')
          else if phase current \<in> {RESTART_REQUIRED, CANDIDATE_STARTING, ORDINARY_STARTING}
          then
            if length (candidate_invocations current) \<ge> MAX_CADDY_START_ATTEMPTS
            then Inl (CaddyStartupError ''candidate startup attempts are exhausted'')
            else intent_post_init (current
              \<lparr>phase := (if mode current = ORDINARY then ORDINARY_STARTING else CANDIDATE_STARTING),
               candidate_invocations := candidate_invocations current @ [invoc],
               invocation_id := Some invoc\<rparr>)
          else if phase current \<in> {ROLLBACK_RESTART_REQUIRED, RECOVERY_STARTING}
          then
            if length (recovery_invocations current) \<ge> MAX_CADDY_START_ATTEMPTS
            then Inl (CaddyStartupError ''recovery startup attempts are exhausted'')
            else intent_post_init (current
              \<lparr>phase := RECOVERY_STARTING,
               recovery_invocations := recovery_invocations current @ [invoc],
               invocation_id := Some invoc\<rparr>)
          else Inl (CaddyStartupError ''startup intent phase is not recognized'')))"

definition prepare_start ::
  "json_codec \<Rightarrow> start_file \<Rightarrow> CaddyStartTarget \<Rightarrow> string \<Rightarrow> CaddyStartIntent stored" where
  "prepare_start codec file active invoc =
     bindE (require_invocation invoc) (\<lambda>_.
     bindE (store_read codec file) (\<lambda>stored.
     bindE (next_attempt stored active invoc) (\<lambda>current.
     bindE (store_write codec current) (\<lambda>file'. Inr (current, file')))))"

definition require_matching_success ::
  "json_codec \<Rightarrow> start_file \<Rightarrow> CaddyStartTarget \<Rightarrow> string \<Rightarrow> CaddyStartIntent py" where
  "require_matching_success codec file active invoc =
     bindE (store_read codec file) (\<lambda>stored.
     case stored of
       None \<Rightarrow> Inl (CaddyStartupError ''post-start callback is stale or mismatched'')
     | Some current \<Rightarrow>
         if invocation_id current \<noteq> Some invoc
         then Inl (CaddyStartupError ''post-start callback is stale or mismatched'')
         else
           bindE (selected_target current) (\<lambda>selected.
           if selected \<noteq> active \<or> phase current \<notin> {ORDINARY_STARTING, CANDIDATE_STARTING, RECOVERY_STARTING}
           then Inl (CaddyStartupError ''post-start callback is stale or mismatched'')
           else Inr current))"

definition commit_success :: "json_codec \<Rightarrow> start_file \<Rightarrow> CaddyStartIntent \<Rightarrow> unit stored" where
  "commit_success codec file intent =
     bindE (require_current codec file intent) (\<lambda>_.
     if mode intent = HOST_RESTORE then Inr ((), file) else Inr ((), None))"

definition complete_host_restore :: "json_codec \<Rightarrow> start_file \<Rightarrow> CaddyStartIntent \<Rightarrow> string \<Rightarrow> unit stored" where
  "complete_host_restore codec file intent restore =
     bindE (require_current codec file intent) (\<lambda>_.
     if mode intent \<noteq> HOST_RESTORE
     then Inl (CaddyStartupError ''host restore completion is mismatched'')
     else
       bindE (validate_uuid7 (JStr restore)) (\<lambda>r.
       if restore_id intent \<noteq> Some r \<or> phase intent \<noteq> CANDIDATE_STARTING
       then Inl (CaddyStartupError ''host restore completion is mismatched'')
       else Inr ((), None)))"

definition require_rollback_target :: "json_codec \<Rightarrow> start_file \<Rightarrow> CaddyStartIntent option py" where
  "require_rollback_target codec file =
     bindE (store_read codec file) (\<lambda>stored.
     case stored of
       None \<Rightarrow> Inr None
     | Some current \<Rightarrow>
         if mode current \<in> {ORDINARY, HOST_RESTORE} then Inr None
         else if phase current = ROLLBACK_RESTART_REQUIRED then Inr (Some current)
         else if phase current = RECOVERY_STARTING then Inr None
         else if phase current = CANDIDATE_STARTING
         then Inr (if length (candidate_invocations current) = MAX_CADDY_START_ATTEMPTS then Some current else None)
         else if phase current \<in> {CANDIDATE_PREPARED, RESTART_REQUIRED} then Inr None
         else Inl (CaddyStartupError ''candidate failure is not eligible for rollback''))"

definition clear_exhausted_ordinary_start :: "json_codec \<Rightarrow> start_file \<Rightarrow> bool stored" where
  "clear_exhausted_ordinary_start codec file =
     bindE (store_read codec file) (\<lambda>stored.
     case stored of
       None \<Rightarrow> Inr (False, file)
     | Some current \<Rightarrow>
         if mode current \<noteq> ORDINARY then Inr (False, file)
         else if phase current \<noteq> ORDINARY_STARTING
              \<or> length (candidate_invocations current) \<noteq> MAX_CADDY_START_ATTEMPTS
         then Inr (False, file)
         else Inr (True, None))"

definition mark_rollback_restart_required ::
  "json_codec \<Rightarrow> start_file \<Rightarrow> CaddyStartIntent \<Rightarrow> CaddyStartIntent stored" where
  "mark_rollback_restart_required codec file intent =
     bindE (require_current codec file intent) (\<lambda>current.
     if mode current \<noteq> TRANSACTIONAL then Inl (CaddyStartupError ''startup has no rollback authority'')
     else if phase current = ROLLBACK_RESTART_REQUIRED then Inr (current, file)
     else if phase current \<noteq> CANDIDATE_STARTING
          \<or> length (candidate_invocations current) \<noteq> MAX_CADDY_START_ATTEMPTS
     then Inl (CaddyStartupError ''candidate failure is not eligible for rollback'')
     else
       bindE (intent_post_init (current\<lparr>phase := ROLLBACK_RESTART_REQUIRED, invocation_id := None\<rparr>)) (\<lambda>updated.
       bindE (store_write codec updated) (\<lambda>file'. Inr (updated, file'))))"

definition start_target :: "string \<Rightarrow> bytes \<Rightarrow> CaddyStartTarget py" where
  "start_target gid manifest_bytes = mk_CaddyStartTarget gid (sha256_hex manifest_bytes)"

section \<open>Byte round trip\<close>

definition target_ok :: "CaddyStartTarget \<Rightarrow> bool" where
  "target_ok t \<longleftrightarrow> mk_CaddyStartTarget (generation_id t) (manifest_sha256 t) = Inr t"

definition intent_ok :: "CaddyStartIntent \<Rightarrow> bool" where
  "intent_ok i \<longleftrightarrow> intent_post_init i = Inr i \<and> target_ok (candidate i) \<and>
     (\<forall>t. previous i = Some t \<longrightarrow> target_ok t)"

lemma intent_post_init_eq: "intent_post_init i = Inr j \<Longrightarrow> j = i"
  by (auto simp: intent_post_init_def Let_def result_simps split: if_splits)

lemma inj_mode_value: "inj mode_value"
proof (rule injI)
  fix x y assume "mode_value x = mode_value y"
  then show "x = y" by (cases x; cases y) simp_all
qed

lemma inj_phase_value: "inj phase_value"
proof (rule injI)
  fix x y assume "phase_value x = phase_value y"
  then show "x = y" by (cases x; cases y) simp_all
qed

lemma mode_lookup: "enum_of mode_value all_modes v = Inr m \<longleftrightarrow> v = JStr (mode_value m)"
proof (rule enum_of_iff[OF inj_mode_value])
  fix m show "m \<in> set all_modes" by (cases m) (simp_all add: all_modes_def)
qed

lemma phase_lookup: "enum_of phase_value all_start_phases v = Inr m \<longleftrightarrow> v = JStr (phase_value m)"
proof (rule enum_of_iff[OF inj_phase_value])
  fix m show "m \<in> set all_start_phases" by (cases m) (simp_all add: all_start_phases_def)
qed

lemma keys_of_obj [simp]: "keys_of (obj kvs) = set (map fst kvs)"
  by (simp add: obj_def fmdom'_alt_def fset_of_list.rep_eq)

lemma decode_target_to_dict: "target_ok t \<Longrightarrow> decode_target (target_to_dict t) = Inr t"
  by (auto simp: decode_target_def target_to_dict_def target_ok_def)

lemma traverse_as_str [simp]: "traverseE as_str (map JStr xs) = Inr xs"
  by (induction xs) simp_all

lemma decode_invocations_strs: "decode_invocations (strs xs) = Inr xs"
  by (simp add: decode_invocations_def strs_def list_all_iff)

lemma target_to_dict_not_null [simp]: "target_to_dict t \<noteq> JNull"
  by (simp add: target_to_dict_def)

lemma intent_document_members:
  "getitem (intent_document i) ''candidate'' = Inr (target_to_dict (candidate i))"
  "getitem (intent_document i) ''candidateInvocations'' = Inr (strs (candidate_invocations i))"
  "getitem (intent_document i) ''invocationId'' = Inr (opt_json (invocation_id i))"
  "getitem (intent_document i) ''mode'' = Inr (JStr (mode_value (mode i)))"
  "dict_get (intent_document i) ''mode'' = Inr (JStr (mode_value (mode i)))"
  "getitem (intent_document i) ''phase'' = Inr (JStr (phase_value (phase i)))"
  "getitem (intent_document i) ''previous'' = Inr (case previous i of None \<Rightarrow> JNull | Some t \<Rightarrow> target_to_dict t)"
  "getitem (intent_document i) ''recoveryInvocations'' = Inr (strs (recovery_invocations i))"
  "getitem (intent_document i) ''schema'' = Inr (JStr SCHEMA)"
  "mode i = HOST_RESTORE \<Longrightarrow> getitem (intent_document i) ''restoreId'' = Inr (opt_json (restore_id i))"
  "keys_of (intent_document i) = set INTENT_MEMBERS \<union> (if mode i = HOST_RESTORE then {''restoreId''} else {})"
  by (simp_all add: intent_document_def INTENT_MEMBERS_def insert_commute)

lemma mode_value_eq: "JStr (mode_value m) = JStr (mode_value HOST_RESTORE) \<longleftrightarrow> m = HOST_RESTORE"
  by (cases m) simp_all

lemma mode_values: "enum_of mode_value all_modes (JStr (mode_value m)) = Inr m"
  "enum_of phase_value all_start_phases (JStr (phase_value p)) = Inr p"
  unfolding mode_lookup phase_lookup by (rule refl)+

lemma decode_intent_document_inverse:
  assumes "intent_ok i"
  shows "decode_intent_document (intent_document i) = Inr i"
proof -
  have ok: "intent_post_init i = Inr i" "target_ok (candidate i)" "\<And>t. previous i = Some t \<Longrightarrow> target_ok t"
    using assms by (simp_all add: intent_ok_def)
  have restore: "restore_id i = None" if "mode i \<noteq> HOST_RESTORE"
    using ok(1) that by (auto simp: intent_post_init_def split: if_splits)
  have "\<exists>r. restore_id i = Some r \<and> validate_uuid7 (JStr r) = Inr r" if "mode i = HOST_RESTORE"
  proof -
    have "is_ok (validate_uuid7 (opt_json (restore_id i)))"
      using ok(1) that by (auto simp: intent_post_init_def host_restore_checks_def is_ok_iff result_simps)
    then show ?thesis
      by (cases "restore_id i") (auto simp: opt_json_def validate_uuid7_def Let_def split: if_splits)
  qed
  then have restored: "(if mode i = HOST_RESTORE
      then bindE (bindE (getitem (intent_document i) ''restoreId'') validate_uuid7) (\<lambda>r. Inr (Some r))
      else Inr None) = Inr (restore_id i)"
    using restore by (auto simp: intent_document_members(10) opt_json_def)
  have prev: "(if (case previous i of None \<Rightarrow> JNull | Some t \<Rightarrow> target_to_dict t) = JNull then Inr None
      else bindE (decode_target (case previous i of None \<Rightarrow> JNull | Some t \<Rightarrow> target_to_dict t)) (\<lambda>t. Inr (Some t)))
      = Inr (previous i)"
    using ok(3) by (auto simp: decode_target_to_dict split: option.splits)
  have strings: "\<not> is_str (JStr s) \<longleftrightarrow> False" "(opt_json v \<noteq> JNull \<and> \<not> is_str (opt_json v)) \<longleftrightarrow> False"
    "(case opt_json v of JStr s \<Rightarrow> Some s | _ \<Rightarrow> None) = v" for s v
    by (cases v; simp add: opt_json_def)+
  have fields: "\<lparr>mode = mode i, phase = phase i, candidate = candidate i, previous = previous i,
      candidate_invocations = candidate_invocations i, recovery_invocations = recovery_invocations i,
      invocation_id = invocation_id i, restore_id = restore_id i\<rparr> = i"
    by simp
  show ?thesis
    unfolding decode_intent_document_def intent_document_members(1-9,11) bindE_simps mode_value_eq
      mode_values decode_target_to_dict[OF ok(2)] decode_invocations_strs prev restored strings fields
    by (simp add: ok(1))
qed

lemma is_dict_intent_document [simp]: "is_dict (intent_document i)"
  by (simp add: intent_document_def)

lemma read_write:
  assumes "codec_ok codec" "intent_ok i" "store_write codec i = Inr f"
  shows "store_read codec f = Inr (Some i)"
proof -
  obtain data where f: "f = Some data"
    and data: "canonical_json_bytes (dumps codec) (intent_document i) MAX_CADDY_START_INTENT_BYTES = Inr data"
    using assms(3) by (auto simp: store_write_def intent_to_bytes_def bindE_Inr_iff)
  have len: "length data \<le> MAX_CADDY_START_INTENT_BYTES" using data by (auto simp: canonical_json_bytes_iff)
  have "canonical_json_bytes (dumps codec) (intent_document i) MAX_CANONICAL_BYTES = Inr data"
    using data by (simp add: MAX_CANONICAL_BYTES_def MAX_CADDY_START_INTENT_BYTES_def)
  with decode_canonical[OF assms(1) is_dict_intent_document data len] decode_intent_document_inverse[OF assms(2)]
  show ?thesis by (simp add: f store_read_def decode_caddy_start_intent_def)
qed

lemma mk_target_ok: "mk_CaddyStartTarget g d = Inr t \<Longrightarrow> target_ok t"
  by (auto simp: target_ok_def mk_CaddyStartTarget_def split: sum.splits exn.splits if_splits)

lemma decode_target_ok:
  assumes "decode_target v = Inr t"
  shows "target_ok t"
proof -
  from assms obtain gid digest where
    "(case (gid, digest) of (JStr g, JStr d) \<Rightarrow> mk_CaddyStartTarget g d
      | _ \<Rightarrow> Inl (CaddyStartupError ''startup target fields are invalid'')) = Inr t"
    unfolding decode_target_def bindE_Inr_iff if_Inl_Inr_iff by blast
  then show ?thesis by (cases gid; cases digest) (auto intro: mk_target_ok)
qed

lemma decode_intent_document_ok:
  assumes "decode_intent_document d = Inr i"
  shows "intent_ok i"
proof -
  from assms obtain m p cand prev ci ri invoc r where
    init: "intent_post_init \<lparr>mode = m, phase = p, candidate = cand, previous = prev, candidate_invocations = ci,
        recovery_invocations = ri, invocation_id = invoc, restore_id = r\<rparr> = Inr i"
    and cand: "bindE (getitem d ''candidate'') decode_target = Inr cand"
    and prev: "bindE (getitem d ''previous'') (\<lambda>prev.
        if prev = JNull then Inr None else bindE (decode_target prev) (\<lambda>t. Inr (Some t))) = Inr prev"
    unfolding decode_intent_document_def bindE_Inr_iff[of _ _ i] if_Inl_Inr_iff
    by (elim exE conjE) (rule that; assumption)
  have "target_ok cand" using cand decode_target_ok by (auto simp: bindE_Inr_iff)
  moreover have "target_ok t" if "prev = Some t" for t
    using prev that decode_target_ok by (auto simp: bindE_Inr_iff split: if_splits)
  ultimately show ?thesis using init intent_post_init_eq[OF init] by (simp add: intent_ok_def)
qed

lemma decode_caddy_start_intent_ok:
  assumes "decode_caddy_start_intent codec data = Inr i"
  shows "intent_ok i"
proof -
  let ?body = "bindE (decode_json_object codec data MAX_CADDY_START_INTENT_BYTES) (\<lambda>document.
        bindE (canonical_json_bytes (dumps codec) document MAX_CANONICAL_BYTES) (\<lambda>canonical.
        if canonical \<noteq> data then Inl (CaddyStartupError ''Caddy startup intent is not canonical'')
        else decode_intent_document document))"
  have "?body = Inr i"
    using assms unfolding decode_caddy_start_intent_def by (cases ?body) (simp_all split: exn.splits)
  then obtain d where "decode_intent_document d = Inr i"
    unfolding bindE_Inr_iff if_Inl_Inr_iff by blast
  then show ?thesis by (rule decode_intent_document_ok)
qed

lemma store_read_ok: "store_read codec f = Inr (Some i) \<Longrightarrow> intent_ok i"
  by (cases f) (auto simp: store_read_def bindE_Inr_iff intro: decode_caddy_start_intent_ok)

section \<open>Shape of a stored intent\<close>

lemma intent_shape:
  assumes "intent_post_init i = Inr i"
  shows "distinct (candidate_invocations i @ recovery_invocations i)"
    "length (candidate_invocations i) \<le> 3" "length (recovery_invocations i) \<le> 3"
    "recovery_invocations i \<noteq> [] \<Longrightarrow> mode i = TRANSACTIONAL \<and> length (candidate_invocations i) = 3"
    "phase i \<in> {ROLLBACK_RESTART_REQUIRED, RECOVERY_STARTING} \<Longrightarrow>
       mode i = TRANSACTIONAL \<and> length (candidate_invocations i) = 3 \<and> (\<exists>t. previous i = Some t \<and> t \<noteq> candidate i)"
proof -
  have checks: "(case mode i of HOST_RESTORE \<Rightarrow> host_restore_checks i | ORDINARY \<Rightarrow> ordinary_checks i
      | TRANSACTIONAL \<Rightarrow> transactional_checks i) = Inr ()"
    and card: "card (set (candidate_invocations i @ recovery_invocations i))
      = length (candidate_invocations i @ recovery_invocations i)"
    using assms unfolding intent_post_init_def if_Inl_Inr_iff bindE_Inr_iff Let_def by auto
  show "distinct (candidate_invocations i @ recovery_invocations i)" using card by (rule card_distinct)
  show "length (candidate_invocations i) \<le> 3" "length (recovery_invocations i) \<le> 3"
    "recovery_invocations i \<noteq> [] \<Longrightarrow> mode i = TRANSACTIONAL \<and> length (candidate_invocations i) = 3"
    "phase i \<in> {ROLLBACK_RESTART_REQUIRED, RECOVERY_STARTING} \<Longrightarrow>
       mode i = TRANSACTIONAL \<and> length (candidate_invocations i) = 3 \<and> (\<exists>t. previous i = Some t \<and> t \<noteq> candidate i)"
    using checks
    by (cases "mode i"; cases "phase i";
        auto simp: host_restore_checks_def ordinary_checks_def transactional_checks_def Let_def
          MAX_CADDY_START_ATTEMPTS_def result_simps split: if_splits)+
qed

section \<open>The store as a state machine\<close>

text \<open>Any sequence of store operations, by any callers, that each return normally.\<close>

inductive start_step :: "json_codec \<Rightarrow> start_file \<Rightarrow> start_file \<Rightarrow> bool" for codec where
  begin_tx: "target_ok c \<Longrightarrow> target_ok p \<Longrightarrow> begin_transaction codec f c p = Inr (i, f') \<Longrightarrow> start_step codec f f'"
| select: "mark_restart_required codec f i = Inr (j, f') \<Longrightarrow> start_step codec f f'"
| begin_restore: "target_ok c \<Longrightarrow> begin_host_restore codec f c r = Inr (i, f') \<Longrightarrow> start_step codec f f'"
| prepare: "target_ok a \<Longrightarrow> prepare_start codec f a invoc = Inr (i, f') \<Longrightarrow> start_step codec f f'"
| commit: "commit_success codec f i = Inr (u, f') \<Longrightarrow> start_step codec f f'"
| complete: "complete_host_restore codec f i r = Inr (u, f') \<Longrightarrow> start_step codec f f'"
| clear: "clear_exhausted_ordinary_start codec f = Inr (b, f') \<Longrightarrow> start_step codec f f'"
| roll_back: "mark_rollback_restart_required codec f i = Inr (j, f') \<Longrightarrow> start_step codec f f'"

inductive start_reachable :: "json_codec \<Rightarrow> start_file \<Rightarrow> bool" for codec where
  empty: "start_reachable codec None"
| step: "start_reachable codec f \<Longrightarrow> start_step codec f f' \<Longrightarrow> start_reachable codec f'"

definition written :: "json_codec \<Rightarrow> start_file \<Rightarrow> bool" where
  "written codec f \<longleftrightarrow> (\<exists>i. intent_ok i \<and> store_write codec i = Inr f)"

lemma require_current_iff: "require_current codec f i = Inr j \<longleftrightarrow> j = i \<and> store_read codec f = Inr (Some i)"
  by (auto simp: require_current_def result_simps)

lemma intent_ok_update:
  assumes "intent_post_init j = Inr k" "target_ok (candidate j)" "\<And>t. previous j = Some t \<Longrightarrow> target_ok t"
  shows "intent_ok k"
  using assms intent_post_init_eq[OF assms(1)] by (simp add: intent_ok_def)

lemma next_attempt_ok:
  assumes "next_attempt stored a invoc = Inr k" "target_ok a" "\<And>i. stored = Some i \<Longrightarrow> intent_ok i"
  shows "intent_ok k"
proof (cases stored)
  case None
  then show ?thesis using assms by (auto simp: next_attempt_def intro!: intent_ok_update)
next
  case (Some i)
  then have "intent_ok i" using assms(3) by blast
  then show ?thesis using assms(1) Some
    by (auto simp: next_attempt_def bindE_Inr_iff intent_ok_def split: if_splits
        dest: intent_post_init_eq)
qed

lemma begin_transaction_iff:
  "begin_transaction codec f c p = Inr (i, f') \<longleftrightarrow> store_read codec f = Inr None \<and>
     intent_post_init \<lparr>mode = TRANSACTIONAL, phase = CANDIDATE_PREPARED, candidate = c, previous = Some p,
       candidate_invocations = [], recovery_invocations = [], invocation_id = None, restore_id = None\<rparr> = Inr i \<and>
     store_write codec i = Inr f'"
  by (auto simp: begin_transaction_def result_simps)

lemma mark_restart_required_iff:
  "mark_restart_required codec f i = Inr (j, f') \<longleftrightarrow> store_read codec f = Inr (Some i) \<and>
     phase i = CANDIDATE_PREPARED \<and> intent_post_init (i\<lparr>phase := RESTART_REQUIRED\<rparr>) = Inr j \<and>
     store_write codec j = Inr f'"
  by (auto simp: mark_restart_required_def require_current_iff result_simps)

lemma prepare_start_iff:
  "prepare_start codec f a invoc = Inr (i, f') \<longleftrightarrow> fullmatch INVOCATION_ID invoc \<and>
     (\<exists>stored. store_read codec f = Inr stored \<and> next_attempt stored a invoc = Inr i) \<and>
     store_write codec i = Inr f'"
  by (auto simp: prepare_start_def require_invocation_def result_simps)

lemma mark_rollback_iff:
  "mark_rollback_restart_required codec f i = Inr (j, f') \<longleftrightarrow> store_read codec f = Inr (Some i) \<and>
     mode i = TRANSACTIONAL \<and>
     (phase i = ROLLBACK_RESTART_REQUIRED \<and> j = i \<and> f' = f \<or>
      phase i = CANDIDATE_STARTING \<and> length (candidate_invocations i) = 3 \<and>
      intent_post_init (i\<lparr>phase := ROLLBACK_RESTART_REQUIRED, invocation_id := None\<rparr>) = Inr j \<and>
      store_write codec j = Inr f')"
  by (auto simp: mark_rollback_restart_required_def require_current_iff MAX_CADDY_START_ATTEMPTS_def result_simps
      split: if_splits)

lemma start_step_file:
  assumes "start_step codec f f'"
  shows "f' = f \<or> f' = None \<or> written codec f'"
  using assms
proof cases
  case (begin_tx c p i)
  then show ?thesis by (auto simp: begin_transaction_iff written_def intro!: intent_ok_update)
next
  case (select i j)
  then have "intent_ok i" by (auto simp: mark_restart_required_iff intro: store_read_ok)
  then have "intent_ok j" using select
    by (intro intent_ok_update[of "i\<lparr>phase := RESTART_REQUIRED\<rparr>"]) (simp_all add: mark_restart_required_iff intent_ok_def)
  with select show ?thesis unfolding mark_restart_required_iff written_def by blast
next
  case (begin_restore c r i)
  then show ?thesis
    by (auto simp: begin_host_restore_def written_def result_simps intro!: intent_ok_update split: option.splits if_splits)
next
  case (prepare a invoc i)
  then show ?thesis by (auto simp: prepare_start_iff written_def intro: next_attempt_ok store_read_ok)
next
  case (commit i u)
  then show ?thesis by (auto simp: commit_success_def result_simps split: if_splits)
next
  case (complete i r u)
  then show ?thesis by (auto simp: complete_host_restore_def result_simps)
next
  case (clear b)
  then show ?thesis by (auto simp: clear_exhausted_ordinary_start_def result_simps split: option.splits if_splits)
next
  case (roll_back i j)
  then have "intent_ok i" by (auto simp: mark_rollback_iff intro: store_read_ok)
  then have "f' = f \<or> intent_ok j \<and> store_write codec j = Inr f'" using roll_back
    intent_ok_update[of "i\<lparr>phase := ROLLBACK_RESTART_REQUIRED, invocation_id := None\<rparr>" j]
    by (auto simp: mark_rollback_iff intent_ok_def)
  then show ?thesis unfolding written_def by blast
qed

lemma reachable_written:
  assumes "start_reachable codec f"
  shows "f = None \<or> written codec f"
  using assms by (induction rule: start_reachable.induct) (auto dest: start_step_file)

lemma reachable_readable:
  assumes "codec_ok codec" "start_reachable codec f"
  obtains stored where "store_read codec f = Inr stored"
  using reachable_written[OF assms(2)] read_write[OF assms(1)]
  by (auto simp: written_def store_read_def)

text \<open>Attempts recorded since the intent was created; no operation but a removal lowers the count.\<close>

definition attempts :: "CaddyStartIntent \<Rightarrow> nat" where
  "attempts i = length (candidate_invocations i) + length (recovery_invocations i)"

lemma next_attempt_counts:
  assumes "next_attempt (Some i) a invoc = Inr k"
  shows "attempts k = Suc (attempts i)"
proof -
  have eq: "k = j" if "intent_post_init j = Inr k" for j using intent_post_init_eq[OF that] .
  show ?thesis using assms
    by (auto simp: next_attempt_def attempts_def bindE_Inr_iff split: if_splits dest!: eq)
qed

lemma next_attempt_invocation:
  assumes "next_attempt stored a invoc = Inr k"
  shows "invocation_id k = Some invoc \<and> selected_target k = Inr a \<and>
    phase k \<in> {ORDINARY_STARTING, CANDIDATE_STARTING, RECOVERY_STARTING}"
proof -
  have eq: "k = j" if "intent_post_init j = Inr k" for j using intent_post_init_eq[OF that] .
  show ?thesis using assms
    by (cases stored) (auto simp: next_attempt_def bindE_Inr_iff selected_target_def split: if_splits option.splits dest!: eq)
qed

text \<open>A run of \<open>n\<close> start attempts, with selection and rollback marks in between but no removal.\<close>

inductive attempt_run :: "json_codec \<Rightarrow> start_file \<Rightarrow> nat \<Rightarrow> start_file \<Rightarrow> bool" for codec f where
  none: "attempt_run codec f 0 f"
| attempt: "attempt_run codec f n g \<Longrightarrow> target_ok a \<Longrightarrow> prepare_start codec g a invoc = Inr (i, h) \<Longrightarrow>
    attempt_run codec f (Suc n) h"
| selected: "attempt_run codec f n g \<Longrightarrow> mark_restart_required codec g i = Inr (j, h) \<Longrightarrow> attempt_run codec f n h"
| rolled_back: "attempt_run codec f n g \<Longrightarrow> mark_rollback_restart_required codec g i = Inr (j, h) \<Longrightarrow>
    attempt_run codec f n h"

lemma attempts_le: "intent_ok i \<Longrightarrow> attempts i \<le> 6"
  using intent_shape(2,3)[of i] by (simp add: intent_ok_def attempts_def)

lemma update_read:
  assumes "codec_ok codec" "intent_ok i" "intent_post_init j = Inr k" "candidate j = candidate i" "previous j = previous i"
    "store_write codec k = Inr h"
  shows "store_read codec h = Inr (Some j)"
proof -
  have "intent_ok k" using assms by (intro intent_ok_update[OF assms(3)]) (simp_all add: intent_ok_def)
  then show ?thesis using read_write[OF assms(1) _ assms(6)] intent_post_init_eq[OF assms(3)] by simp
qed

lemma attempt_run_counts:
  assumes "codec_ok codec" "attempt_run codec f n g"
  shows "n = 0 \<or> (\<exists>i. store_read codec g = Inr (Some i) \<and> n \<le> attempts i)"
  using assms(2)
proof induction
  case (attempt n g a invoc i h)
  obtain stored where st: "store_read codec g = Inr stored" "next_attempt stored a invoc = Inr i"
    and w: "store_write codec i = Inr h"
    using attempt.hyps(3) by (auto simp: prepare_start_iff)
  have "intent_ok i" using next_attempt_ok[OF st(2) attempt.hyps(2)] store_read_ok st(1) by blast
  then have "store_read codec h = Inr (Some i)" using read_write[OF assms(1) _ w] by blast
  moreover have "Suc n \<le> attempts i"
  proof (cases stored)
    case None
    then have "n = 0" using attempt.IH st(1) by auto
    moreover have "1 \<le> attempts i"
      using st(2) None by (auto simp: next_attempt_def attempts_def dest!: intent_post_init_eq)
    ultimately show ?thesis by simp
  next
    case (Some k)
    then show ?thesis using next_attempt_counts[of k a invoc i] st attempt.IH by auto
  qed
  ultimately show ?case by blast
next
  case (selected n g i j h)
  then have i: "store_read codec g = Inr (Some i)" "intent_ok i" by (auto simp: mark_restart_required_iff intro: store_read_ok)
  then have "store_read codec h = Inr (Some (i\<lparr>phase := RESTART_REQUIRED\<rparr>))"
    using selected.hyps(2) unfolding mark_restart_required_iff by (auto intro: update_read[OF assms(1)])
  then show ?case using selected.IH i by (auto simp: attempts_def)
next
  case (rolled_back n g i j h)
  then have i: "store_read codec g = Inr (Some i)" "intent_ok i" by (auto simp: mark_rollback_iff intro: store_read_ok)
  have "h = g \<or> store_read codec h = Inr (Some (i\<lparr>phase := ROLLBACK_RESTART_REQUIRED, invocation_id := None\<rparr>))"
    using rolled_back.hyps(2) i(2) unfolding mark_rollback_iff by (auto intro: update_read[OF assms(1)])
  then show ?case using rolled_back.IH i by (auto simp: attempts_def)
qed simp

section \<open>Properties\<close>

text \<open>Sample values: two generations and the intents of a transaction whose candidate failed three times.\<close>

definition sample_target :: "char \<Rightarrow> CaddyStartTarget" where
  "sample_target c = \<lparr>generation_id = ''01890a5d-ac96-774b-bcce-b302099a8057'', manifest_sha256 = replicate 64 c\<rparr>"

definition sample_id :: "char \<Rightarrow> string" where
  "sample_id c = replicate 32 c"

definition exhausted_intent :: CaddyStartIntent where
  "exhausted_intent =
     \<lparr>mode = TRANSACTIONAL, phase = ROLLBACK_RESTART_REQUIRED, candidate = sample_target (CHR ''a''),
      previous = Some (sample_target (CHR ''b'')),
      candidate_invocations = [sample_id (CHR ''1''), sample_id (CHR ''2''), sample_id (CHR ''3'')],
      recovery_invocations = [], invocation_id = None, restore_id = None\<rparr>"

definition recovering_intent :: CaddyStartIntent where
  "recovering_intent = exhausted_intent
     \<lparr>phase := RECOVERY_STARTING, recovery_invocations := [sample_id (CHR ''4'')],
      invocation_id := Some (sample_id (CHR ''4''))\<rparr>"

definition prepared_intent :: CaddyStartIntent where
  "prepared_intent = exhausted_intent\<lparr>phase := CANDIDATE_PREPARED, candidate_invocations := []\<rparr>"

definition sample_codec :: json_codec where
  "sample_codec = table_codec
     [(intent_document exhausted_intent, [123, 125]), (intent_document recovering_intent, [123, 32, 125]),
      (intent_document prepared_intent, [123, 32, 32, 125])]"

lemma sample_codec_ok: "codec_ok sample_codec"
  unfolding sample_codec_def by (rule table_codec_ok) (simp add: plain_table_def)

lemma sample_targets_ok: "target_ok (sample_target (CHR ''a''))" "target_ok (sample_target (CHR ''b''))"
proof -
  have "fullmatch UUID7_PATTERN ''01890a5d-ac96-774b-bcce-b302099a8057''" by code_simp
  then have "validate_uuid7 (JStr ''01890a5d-ac96-774b-bcce-b302099a8057'') = Inr ''01890a5d-ac96-774b-bcce-b302099a8057''"
    by (simp add: uuid7_iff)
  moreover have "is_lower_hex (CHR ''a'')" "is_lower_hex (CHR ''b'')" by (simp_all add: char_class_defs)
  ultimately show "target_ok (sample_target (CHR ''a''))" "target_ok (sample_target (CHR ''b''))"
    unfolding target_ok_def mk_CaddyStartTarget_def sample_target_def
    by (simp_all add: sha256_pattern_iff list_all_replicate_iff)
qed

lemma sample_intents_init:
  "intent_post_init exhausted_intent = Inr exhausted_intent"
  "intent_post_init recovering_intent = Inr recovering_intent"
  "intent_post_init prepared_intent = Inr prepared_intent"
  by code_simp+

lemma sample_intents_ok: "intent_ok exhausted_intent" "intent_ok recovering_intent" "intent_ok prepared_intent"
  using sample_targets_ok sample_intents_init
  by (simp_all add: intent_ok_def recovering_intent_def prepared_intent_def exhausted_intent_def)

lemma sample_writes:
  "store_write sample_codec exhausted_intent = Inr (Some [123, 125, 10])"
  "store_write sample_codec recovering_intent = Inr (Some [123, 32, 125, 10])"
  "store_write sample_codec prepared_intent = Inr (Some [123, 32, 32, 125, 10])"
  by code_simp+

lemma sample_prepare:
  "prepare_start sample_codec (Some [123, 125, 10]) (sample_target (CHR ''b'')) (sample_id (CHR ''4''))
     = Inr (recovering_intent, Some [123, 32, 125, 10])"
proof -
  have "next_attempt (Some exhausted_intent) (sample_target (CHR ''b'')) (sample_id (CHR ''4'')) = Inr recovering_intent"
    by code_simp
  moreover have "fullmatch INVOCATION_ID (sample_id (CHR ''4''))" by code_simp
  ultimately show ?thesis
    unfolding prepare_start_iff
    using read_write[OF sample_codec_ok sample_intents_ok(1) sample_writes(1)] sample_writes(2) by blast
qed

lemma sample_reachable: "start_reachable sample_codec (Some [123, 32, 32, 125, 10])"
proof (rule start_reachable.step[OF start_reachable.empty])
  have "begin_transaction sample_codec None (sample_target (CHR ''a'')) (sample_target (CHR ''b''))
      = Inr (prepared_intent, Some [123, 32, 32, 125, 10])"
    unfolding begin_transaction_iff using sample_writes(3) sample_intents_init(3)
    by (simp add: store_read_def prepared_intent_def exhausted_intent_def)
  then show "start_step sample_codec None (Some [123, 32, 32, 125, 10])"
    by (rule start_step.begin_tx[OF sample_targets_ok])
qed

text \<open>A startup intent survives its file: whatever intent the store writes is read back equal, so
  no invocation, target or phase is lost or altered between two processes.\<close>

theorem startup_intent_round_trip:
  assumes "codec_ok codec" "intent_ok i" "store_write codec i = Inr f"
  shows "store_read codec f = Inr (Some i)"
  using assms by (rule read_write)

theorem startup_intent_round_trip_witness:
  "store_read sample_codec (Some [123, 125, 10]) = Inr (Some exhausted_intent)"
  by (rule startup_intent_round_trip[OF sample_codec_ok sample_intents_ok(1) sample_writes(1)])

text \<open>No sequence of store operations leaves an unreadable or malformed intent: the file always
  reads as nothing or as an intent with at most three candidate and three recovery attempts,
  all with different invocation identifiers, where recovery attempts exist only in a
  transaction whose three candidate attempts are spent.\<close>

theorem startup_store_well_formed:
  assumes "codec_ok codec" "start_reachable codec f"
  shows "store_read codec f = Inr None \<or>
    (\<exists>i. store_read codec f = Inr (Some i) \<and>
      distinct (candidate_invocations i @ recovery_invocations i) \<and>
      length (candidate_invocations i) \<le> 3 \<and> length (recovery_invocations i) \<le> 3 \<and>
      (recovery_invocations i \<noteq> [] \<longrightarrow> mode i = TRANSACTIONAL \<and> length (candidate_invocations i) = 3))"
proof -
  obtain stored where st: "store_read codec f = Inr stored" by (rule reachable_readable[OF assms])
  show ?thesis
  proof (cases stored)
    case (Some i)
    then have "intent_post_init i = Inr i" using store_read_ok[of codec f i] st by (simp add: intent_ok_def)
    then show ?thesis using intent_shape(1-4)[of i] st Some by blast
  qed (use st in simp)
qed

theorem startup_store_well_formed_witness:
  "\<exists>i. store_read sample_codec (Some [123, 32, 32, 125, 10]) = Inr (Some i) \<and> length (candidate_invocations i) \<le> 3"
proof -
  have "store_read sample_codec (Some [123, 32, 32, 125, 10]) \<noteq> Inr None"
    using read_write[OF sample_codec_ok sample_intents_ok(3) sample_writes(3)] by simp
  with startup_store_well_formed[OF sample_codec_ok sample_reachable] show ?thesis by blast
qed

text \<open>C35. Retrying always ends: between two removals of the intent at most six starts can be
  prepared, whatever failures, selections and rollbacks happen in between.\<close>

theorem startup_attempts_bounded:
  assumes "codec_ok codec" "attempt_run codec f n g"
  shows "n \<le> 6"
proof -
  from attempt_run_counts[OF assms] show ?thesis
  proof (elim disjE exE conjE)
    fix i assume "store_read codec g = Inr (Some i)" "n \<le> attempts i"
    then show ?thesis using attempts_le[OF store_read_ok] by fastforce
  qed simp
qed

theorem startup_attempts_bounded_witness:
  "attempt_run sample_codec (Some [123, 125, 10]) 1 (Some [123, 32, 125, 10]) \<and> (1 :: nat) \<le> 6"
proof -
  have "attempt_run sample_codec (Some [123, 125, 10]) (Suc 0) (Some [123, 32, 125, 10])"
    by (rule attempt_run.attempt[OF attempt_run.none sample_targets_ok(2) sample_prepare])
  with startup_attempts_bounded[OF sample_codec_ok this] show ?thesis by simp
qed

text \<open>C34. The predecessor is started only as a rollback of an exhausted transaction: when
  \<^verbatim>\<open>prepare_start\<close> prepares a recovery attempt, the intent is transactional, its three candidate
  attempts are recorded, and the active generation is the recorded predecessor, which differs
  from the candidate.\<close>

theorem recovery_only_after_exhaustion:
  assumes "prepare_start codec f active invoc = Inr (i, f')" "phase i = RECOVERY_STARTING"
  shows "mode i = TRANSACTIONAL \<and> length (candidate_invocations i) = 3 \<and>
    previous i = Some active \<and> active \<noteq> candidate i"
proof -
  obtain stored where st: "next_attempt stored active invoc = Inr i" using assms(1) by (auto simp: prepare_start_iff)
  then have "selected_target i = Inr active" using next_attempt_invocation by blast
  then have prev: "previous i = Some active"
    using assms(2) by (auto simp: selected_target_def split: option.splits)
  have "\<exists>j. intent_post_init j = Inr i"
    using st unfolding next_attempt_def by (auto simp: bindE_Inr_iff split: option.splits if_splits)
  then have "intent_post_init i = Inr i" using intent_post_init_eq by blast
  from intent_shape(5)[OF this] assms(2) prev show ?thesis by simp
qed

theorem recovery_only_after_exhaustion_witness:
  "mode recovering_intent = TRANSACTIONAL \<and> length (candidate_invocations recovering_intent) = 3 \<and>
   previous recovering_intent = Some (sample_target (CHR ''b'')) \<and>
   sample_target (CHR ''b'') \<noteq> candidate recovering_intent"
  by (rule recovery_only_after_exhaustion[OF sample_prepare]) (simp add: recovering_intent_def)

text \<open>Post-start callbacks are fenced: after \<^verbatim>\<open>prepare_start\<close> recorded an attempt, a success is
  accepted exactly for that invocation and that generation; a callback of any earlier
  attempt, or about another generation, is refused.\<close>

theorem success_callback_fenced:
  assumes "codec_ok codec" "target_ok active" "prepare_start codec f active invoc = Inr (i, f')"
  shows "(require_matching_success codec f' t invoc' = Inr j) = (invoc' = invoc \<and> t = active \<and> j = i)"
proof -
  obtain stored where st: "store_read codec f = Inr stored" "next_attempt stored active invoc = Inr i"
    and w: "store_write codec i = Inr f'"
    using assms(3) by (auto simp: prepare_start_iff)
  have "intent_ok i" using next_attempt_ok[OF st(2) assms(2)] store_read_ok st(1) by blast
  then have "store_read codec f' = Inr (Some i)" using read_write[OF assms(1) _ w] by blast
  then show ?thesis using next_attempt_invocation[OF st(2)]
    by (auto simp: require_matching_success_def)
qed

theorem success_callback_fenced_witness:
  "require_matching_success sample_codec (Some [123, 32, 125, 10]) (sample_target (CHR ''b'')) (sample_id (CHR ''4''))
     = Inr recovering_intent \<and>
   \<not> is_ok (require_matching_success sample_codec (Some [123, 32, 125, 10]) (sample_target (CHR ''b'')) (sample_id (CHR ''3'')))"
proof -
  note fenced = success_callback_fenced[OF sample_codec_ok sample_targets_ok(2) sample_prepare]
  have "sample_id (CHR ''3'') \<noteq> sample_id (CHR ''4'')" by code_simp
  then show ?thesis unfolding is_ok_iff fenced by simp
qed

text \<open>C36. The branch of \<^verbatim>\<open>prepare_start\<close> marked unreachable is reachable: a prepared candidate whose
  generation is already the active one reaches it and the start is refused.\<close>

theorem prepare_start_prepared_candidate_refused:
  assumes "store_read codec f = Inr (Some i)" "phase i = CANDIDATE_PREPARED" "candidate i = active"
    and "fullmatch INVOCATION_ID invoc"
  shows "prepare_start codec f active invoc = Inl (CaddyStartupError ''startup intent phase is not recognized'')"
  using assms by (simp add: prepare_start_def require_invocation_def next_attempt_def selected_target_def)

theorem prepare_start_prepared_candidate_refused_witness:
  "prepare_start sample_codec (Some [123, 32, 32, 125, 10]) (sample_target (CHR ''a'')) (sample_id (CHR ''4''))
     = Inl (CaddyStartupError ''startup intent phase is not recognized'')"
proof (rule prepare_start_prepared_candidate_refused)
  show "store_read sample_codec (Some [123, 32, 32, 125, 10]) = Inr (Some prepared_intent)"
    by (rule read_write[OF sample_codec_ok sample_intents_ok(3) sample_writes(3)])
  show "fullmatch INVOCATION_ID (sample_id (CHR ''4''))" by code_simp
qed (simp_all add: prepared_intent_def exhausted_intent_def)

end
