(* ===== verification/Zip_Entries.thy ===== *)
theory Zip_Entries
  imports Utf8
begin

unbundle bit_operations_syntax

text \<open>
  The first part of \<^verbatim>\<open>static_host_agent/zip_structure.py\<close>: limits, the fixed records of the ZIP
  format, extra fields, member names and the parser of the central directory. An archive is
  its bytes; text is a list of code points. The Unicode tables the source uses (NFC, case
  folding, the alphabetic property) are a record of functions. The lemmas say what an accepted
  name and an accepted central entry look like.
\<close>

section \<open>Limits and constants\<close>

definition MEBIBYTE :: int where "MEBIBYTE = 1024 * 1024"
definition MAXIMUM_ARCHIVE_BYTES :: int where "MAXIMUM_ARCHIVE_BYTES = 100 * MEBIBYTE"
definition MAXIMUM_CENTRAL_DIRECTORY_BYTES :: int where "MAXIMUM_CENTRAL_DIRECTORY_BYTES = 8 * MEBIBYTE"
definition MAXIMUM_ENTRIES :: int where "MAXIMUM_ENTRIES = 5000"
definition MAXIMUM_EXPANDED_BYTES :: int where "MAXIMUM_EXPANDED_BYTES = 100 * MEBIBYTE"
definition MAXIMUM_FILE_BYTES :: int where "MAXIMUM_FILE_BYTES = 25 * MEBIBYTE"
definition MAXIMUM_EXPANSION_RATIO :: int where "MAXIMUM_EXPANSION_RATIO = 100"
definition MAXIMUM_PATH_BYTES :: int where "MAXIMUM_PATH_BYTES = 1024"
definition MAXIMUM_COMPONENT_BYTES :: int where "MAXIMUM_COMPONENT_BYTES = 255"
definition MAXIMUM_PATH_DEPTH :: int where "MAXIMUM_PATH_DEPTH = 32"
definition MAXIMUM_EXTRA_BYTES :: int where "MAXIMUM_EXTRA_BYTES = 1024"

lemmas zip_constants = MEBIBYTE_def MAXIMUM_ARCHIVE_BYTES_def MAXIMUM_CENTRAL_DIRECTORY_BYTES_def
  MAXIMUM_ENTRIES_def MAXIMUM_EXPANDED_BYTES_def MAXIMUM_FILE_BYTES_def MAXIMUM_EXPANSION_RATIO_def
  MAXIMUM_PATH_BYTES_def MAXIMUM_COMPONENT_BYTES_def MAXIMUM_PATH_DEPTH_def MAXIMUM_EXTRA_BYTES_def

datatype zip_exn =
    ZipStructureError string
  | ZipExtractionError string
  | ZipValueError string

record ZipLimits =
  maximum_archive_bytes :: int
  maximum_central_directory_bytes :: int
  maximum_entries :: int
  maximum_expanded_bytes :: int
  maximum_file_bytes :: int
  maximum_expansion_ratio :: int
  maximum_path_bytes :: int
  maximum_component_bytes :: int
  maximum_path_depth :: int
  maximum_extra_bytes :: int

definition limit_values :: "ZipLimits \<Rightarrow> int list" where
  "limit_values self =
     [maximum_archive_bytes self, maximum_central_directory_bytes self, maximum_entries self,
      maximum_expanded_bytes self, maximum_file_bytes self, maximum_expansion_ratio self,
      maximum_path_bytes self, maximum_component_bytes self, maximum_path_depth self,
      maximum_extra_bytes self]"

definition DEFAULT_ZIP_LIMITS :: ZipLimits where
  "DEFAULT_ZIP_LIMITS =
     \<lparr>maximum_archive_bytes = MAXIMUM_ARCHIVE_BYTES,
      maximum_central_directory_bytes = MAXIMUM_CENTRAL_DIRECTORY_BYTES,
      maximum_entries = MAXIMUM_ENTRIES, maximum_expanded_bytes = MAXIMUM_EXPANDED_BYTES,
      maximum_file_bytes = MAXIMUM_FILE_BYTES, maximum_expansion_ratio = MAXIMUM_EXPANSION_RATIO,
      maximum_path_bytes = MAXIMUM_PATH_BYTES, maximum_component_bytes = MAXIMUM_COMPONENT_BYTES,
      maximum_path_depth = MAXIMUM_PATH_DEPTH, maximum_extra_bytes = MAXIMUM_EXTRA_BYTES\<rparr>"

definition ZipLimits_post_init :: "ZipLimits \<Rightarrow> zip_exn + ZipLimits" where
  "ZipLimits_post_init self =
     (if \<exists>v \<in> set (limit_values self). v < 0
      then Inl (ZipValueError ''ZIP limits must be nonnegative integers'')
      else if \<exists>(v, boundary) \<in> set (zip (limit_values self)
          [MAXIMUM_ARCHIVE_BYTES, MAXIMUM_CENTRAL_DIRECTORY_BYTES, MAXIMUM_ENTRIES,
           MAXIMUM_EXPANDED_BYTES, MAXIMUM_FILE_BYTES, MAXIMUM_EXPANSION_RATIO, MAXIMUM_PATH_BYTES,
           MAXIMUM_COMPONENT_BYTES, MAXIMUM_PATH_DEPTH, MAXIMUM_EXTRA_BYTES]). v > boundary
      then Inl (ZipValueError ''ZIP limits cannot weaken the committed M3 boundaries'')
      else Inr self)"

definition EOCD_SIGNATURE :: nat where "EOCD_SIGNATURE = 0x06054B50"
definition CENTRAL_SIGNATURE :: nat where "CENTRAL_SIGNATURE = 0x02014B50"
definition LOCAL_SIGNATURE :: nat where "LOCAL_SIGNATURE = 0x04034B50"
definition UTF8_FLAG :: nat where "UTF8_FLAG = 0x0800"
definition DEFLATE_OPTION_FLAGS :: nat where "DEFLATE_OPTION_FLAGS = 0x0006"
definition STORED_METHOD :: nat where "STORED_METHOD = 0"
definition DEFLATE_METHOD :: nat where "DEFLATE_METHOD = 8"
definition EXTENDED_TIMESTAMP_EXTRA :: nat where "EXTENDED_TIMESTAMP_EXTRA = 0x5455"
definition NTFS_TIMESTAMP_EXTRA :: nat where "NTFS_TIMESTAMP_EXTRA = 0x000A"
definition ZIP64_SENTINEL_16 :: nat where "ZIP64_SENTINEL_16 = 0xFFFF"
definition ZIP64_SENTINEL_32 :: nat where "ZIP64_SENTINEL_32 = 0xFFFFFFFF"
definition MAXIMUM_DECODER_VERSION :: nat where "MAXIMUM_DECODER_VERSION = 20"
definition DRIVE_PREFIX_BYTES :: nat where "DRIVE_PREFIX_BYTES = 2"
definition UNIX_MADE_BY_HOST :: nat where "UNIX_MADE_BY_HOST = 3"
definition NTFS_TIMESTAMP_VALUE_BYTES :: nat where "NTFS_TIMESTAMP_VALUE_BYTES = 32"

definition EOCD_SIZE :: nat where "EOCD_SIZE = 22"
definition CENTRAL_SIZE :: nat where "CENTRAL_SIZE = 46"
definition LOCAL_SIZE :: nat where "LOCAL_SIZE = 30"
definition EXTRA_HEADER_SIZE :: nat where "EXTRA_HEADER_SIZE = 4"

section \<open>Fixed records\<close>

text \<open>\<^verbatim>\<open>struct.Struct("<I6H3I5H2I")\<close>, \<^verbatim>\<open>"<I5H3I2H"\<close> and \<^verbatim>\<open>"<I4H2IH"\<close>: the unpacked fields in order.\<close>

definition le_field :: "bytes \<Rightarrow> nat \<Rightarrow> nat \<Rightarrow> nat" where
  "le_field bs i n = le_nat (slice i (i + n) bs)"

record central_fields =
  c_signature :: nat
  c_made_by :: nat
  c_version_needed :: nat
  c_flags :: nat
  c_method :: nat
  c_modified_time :: nat
  c_modified_date :: nat
  c_crc32 :: nat
  c_compressed_bytes :: nat
  c_expanded_bytes :: nat
  c_name_bytes :: nat
  c_extra_bytes :: nat
  c_comment_bytes :: nat
  c_disk_number :: nat
  c_internal_attributes :: nat
  c_external_attributes :: nat
  c_local_header_offset :: nat

definition unpack_central :: "bytes \<Rightarrow> central_fields" where
  "unpack_central b =
     \<lparr>c_signature = le_field b 0 4, c_made_by = le_field b 4 2, c_version_needed = le_field b 6 2,
      c_flags = le_field b 8 2, c_method = le_field b 10 2, c_modified_time = le_field b 12 2,
      c_modified_date = le_field b 14 2, c_crc32 = le_field b 16 4, c_compressed_bytes = le_field b 20 4,
      c_expanded_bytes = le_field b 24 4, c_name_bytes = le_field b 28 2, c_extra_bytes = le_field b 30 2,
      c_comment_bytes = le_field b 32 2, c_disk_number = le_field b 34 2,
      c_internal_attributes = le_field b 36 2, c_external_attributes = le_field b 38 4,
      c_local_header_offset = le_field b 42 4\<rparr>"

record local_fields =
  l_signature :: nat
  l_version_needed :: nat
  l_flags :: nat
  l_method :: nat
  l_modified_time :: nat
  l_modified_date :: nat
  l_crc32 :: nat
  l_compressed_bytes :: nat
  l_expanded_bytes :: nat
  l_name_bytes :: nat
  l_extra_bytes :: nat

definition unpack_local :: "bytes \<Rightarrow> local_fields" where
  "unpack_local b =
     \<lparr>l_signature = le_field b 0 4, l_version_needed = le_field b 4 2, l_flags = le_field b 6 2,
      l_method = le_field b 8 2, l_modified_time = le_field b 10 2, l_modified_date = le_field b 12 2,
      l_crc32 = le_field b 14 4, l_compressed_bytes = le_field b 18 4, l_expanded_bytes = le_field b 22 4,
      l_name_bytes = le_field b 26 2, l_extra_bytes = le_field b 28 2\<rparr>"

record eocd_fields =
  e_signature :: nat
  e_disk_number :: nat
  e_central_disk :: nat
  e_records_on_disk :: nat
  e_record_count :: nat
  e_central_bytes :: nat
  e_central_offset :: nat
  e_comment_bytes :: nat

definition unpack_eocd :: "bytes \<Rightarrow> eocd_fields" where
  "unpack_eocd b =
     \<lparr>e_signature = le_field b 0 4, e_disk_number = le_field b 4 2, e_central_disk = le_field b 6 2,
      e_records_on_disk = le_field b 8 2, e_record_count = le_field b 10 2, e_central_bytes = le_field b 12 4,
      e_central_offset = le_field b 16 4, e_comment_bytes = le_field b 20 2\<rparr>"

section \<open>Extra fields\<close>

definition bit_count :: "nat \<Rightarrow> nat" where
  "bit_count n = length (filter (\<lambda>i. bit n i) [0..<8])"

definition validate_extra_value :: "bool \<Rightarrow> nat \<Rightarrow> bytes \<Rightarrow> zip_exn + unit" where
  "validate_extra_value central identifier v =
     (if identifier = EXTENDED_TIMESTAMP_EXTRA
      then
        if v = [] \<or> int (unat (hd v)) AND NOT 0x07 \<noteq> 0
        then Inl (ZipStructureError ''ZIP extended-timestamp field is malformed'')
        else
          let expected_values = (if central then (if unat (hd v) AND 0x01 \<noteq> 0 then 1 else 0)
                                 else bit_count (unat (hd v)))
          in if length v \<noteq> 1 + 4 * expected_values
             then Inl (ZipStructureError ''ZIP extended-timestamp field is malformed'')
             else Inr ()
      else if identifier = NTFS_TIMESTAMP_EXTRA
      then
        if length v \<noteq> NTFS_TIMESTAMP_VALUE_BYTES \<or> take 4 v \<noteq> [0, 0, 0, 0]
           \<or> (le_field v 4 2, le_field v 6 2) \<noteq> (1, 24)
        then Inl (ZipStructureError ''ZIP NTFS-timestamp field is malformed'')
        else Inr ()
      else Inl (ZipStructureError ''ZIP extra-field identifier is not accepted''))"

text \<open>The loop of \<^verbatim>\<open>_validate_extra\<close> on the bytes that are left after its cursor.\<close>

function validate_extra_loop :: "bool \<Rightarrow> nat set \<Rightarrow> bytes \<Rightarrow> zip_exn + unit" where
  "validate_extra_loop central seen data =
     (if data = [] then Inr ()
      else if EXTRA_HEADER_SIZE > length data
      then Inl (ZipStructureError ''ZIP extra field ends inside its header'')
      else
        let identifier = le_field data 0 2; size = le_field data 2 2; rest = drop EXTRA_HEADER_SIZE data in
        if size > length rest
        then Inl (ZipStructureError ''ZIP extra field ends inside its value'')
        else if identifier \<in> seen
        then Inl (ZipStructureError ''ZIP repeats an extra-field identifier'')
        else bindE (validate_extra_value central identifier (take size rest)) (\<lambda>_.
          validate_extra_loop central (insert identifier seen) (drop size rest)))"
  by auto
termination by (relation "measure (\<lambda>(central, seen, data). length data)") (auto simp: EXTRA_HEADER_SIZE_def)

declare validate_extra_loop.simps [simp del]

definition validate_extra :: "bytes \<Rightarrow> bool \<Rightarrow> zip_exn + unit" where
  "validate_extra data central = validate_extra_loop central {} data"

section \<open>Names\<close>

text \<open>The Unicode data of the standard library's \<^verbatim>\<open>unicodedata\<close> and \<^verbatim>\<open>str\<close>.\<close>

record unicode =
  nfc :: "utext \<Rightarrow> utext"
  casefold :: "utext \<Rightarrow> utext"
  isalpha :: "code_point \<Rightarrow> bool"

definition is_control :: "code_point \<Rightarrow> bool" where
  "is_control c \<longleftrightarrow> c < 0x20 \<or> 0x7F \<le> c \<and> c < 0xA0"

definition ascii_decode :: "bytes \<Rightarrow> utext option" where
  "ascii_decode bs = (if list_all (\<lambda>b. unat b < 128) bs then Some (map unat bs) else None)"

definition utf8_bytes :: "utext \<Rightarrow> bytes" where
  "utf8_bytes t = concat (map utf8_char t)"

definition code_points :: "string \<Rightarrow> utext" where
  "code_points s = map char_code s"

abbreviation SLASH :: code_point where "SLASH \<equiv> 0x2F"
abbreviation BACKSLASH :: code_point where "BACKSLASH \<equiv> 0x5C"
abbreviation DOT :: code_point where "DOT \<equiv> 0x2E"

definition normalize_component :: "unicode \<Rightarrow> ZipLimits \<Rightarrow> utext \<Rightarrow> zip_exn + utext" where
  "normalize_component U limits component =
     (if component \<in> {[DOT], [DOT, DOT]}
      then Inl (ZipStructureError ''ZIP member path traverses a relative component'')
      else if \<exists>c \<in> set component. is_control c
      then Inl (ZipStructureError ''ZIP member path contains a control character'')
      else
        let normalized = nfc U component in
        if normalized = [] \<or> int (length (utf8_bytes normalized)) > maximum_component_bytes limits
        then Inl (ZipStructureError ''ZIP member component crosses its byte boundary'')
        else Inr normalized)"

text \<open>\<^verbatim>\<open>"//" in text\<close>: some empty component between two separators.\<close>

definition double_slash :: "utext \<Rightarrow> bool" where
  "double_slash t \<longleftrightarrow> (\<exists>i < length t - 1. t ! i = SLASH \<and> t ! Suc i = SLASH)"

definition decode_name :: "unicode \<Rightarrow> bytes \<Rightarrow> nat \<Rightarrow> ZipLimits \<Rightarrow> zip_exn + utext \<times> utext \<times> bool" where
  "decode_name U raw_name flags limits =
     (if raw_name = [] then Inl (ZipStructureError ''ZIP member name is empty'')
      else case (if flags AND UTF8_FLAG \<noteq> 0 then utf8_decode raw_name else ascii_decode raw_name) of
        None \<Rightarrow> Inl (ZipStructureError ''ZIP member name does not satisfy its encoding flag'')
      | Some decoded \<Rightarrow>
          if BACKSLASH \<in> set decoded
          then Inl (ZipStructureError ''ZIP member name has ambiguous separators'')
          else
            let marker_is_directory = (decoded \<noteq> [] \<and> last decoded = SLASH);
                source_path = (if marker_is_directory then butlast decoded else decoded) in
            if source_path = [] \<or> hd source_path = SLASH \<or> last source_path = SLASH \<or> double_slash source_path
            then Inl (ZipStructureError ''ZIP member path has an absolute or empty component'')
            else
              let components = split_on SLASH source_path in
              if int (length components) > maximum_path_depth limits
              then Inl (ZipStructureError ''ZIP member path crosses its depth boundary'')
              else if length (hd components) \<ge> DRIVE_PREFIX_BYTES \<and> isalpha U (hd components ! 0)
                   \<and> hd components ! 1 = 0x3A
              then Inl (ZipStructureError ''ZIP member path has a drive-qualified root'')
              else
                bindE (traverseE (normalize_component U limits) components) (\<lambda>normalized_components.
                let normalized_path = join_on SLASH normalized_components in
                if int (length (utf8_bytes normalized_path)) > maximum_path_bytes limits
                then Inl (ZipStructureError ''ZIP member path crosses its byte boundary'')
                else if casefold U (hd normalized_components) = code_points ''cdn-cgi''
                then Inl (ZipStructureError ''ZIP member uses Cloudflare's reserved first component'')
                else Inr (source_path, normalized_path, marker_is_directory)))"

section \<open>Central entries\<close>

datatype ZipEntryType = DIRECTORY | REGULAR_FILE

definition S_IFMT :: "nat \<Rightarrow> nat" where "S_IFMT md = md AND 0xF000"
definition S_IFDIR :: nat where "S_IFDIR = 0x4000"
definition S_IFREG :: nat where "S_IFREG = 0x8000"

definition entry_type_of :: "nat \<Rightarrow> nat \<Rightarrow> bool \<Rightarrow> zip_exn + ZipEntryType" where
  "entry_type_of made_by external_attributes marker_is_directory =
     (let host = drop_bit 8 made_by;
          unix_mode = drop_bit 16 external_attributes AND 0xFFFF;
          file_type = S_IFMT unix_mode;
          dos_volume_label = (external_attributes AND 0x08 \<noteq> 0);
          dos_directory = (external_attributes AND 0x10 \<noteq> 0) in
      if dos_volume_label
      then Inl (ZipStructureError ''ZIP entry has a DOS volume-label inode type'')
      else if host = UNIX_MADE_BY_HOST \<and> file_type \<noteq> 0
      then
        bindE (if S_IFMT unix_mode = S_IFDIR then Inr DIRECTORY
               else if S_IFMT unix_mode = S_IFREG then Inr REGULAR_FILE
               else Inl (ZipStructureError ''ZIP entry has a link or special Unix inode type'')) (\<lambda>attribute_type.
        if dos_directory \<and> attribute_type \<noteq> DIRECTORY
        then Inl (ZipStructureError ''ZIP DOS and Unix inode types disagree'')
        else if (attribute_type = DIRECTORY) \<noteq> marker_is_directory
        then Inl (ZipStructureError ''ZIP Unix inode type disagrees with its name marker'')
        else Inr attribute_type)
      else if dos_directory \<and> \<not> marker_is_directory
      then Inl (ZipStructureError ''ZIP DOS directory attribute disagrees with its name marker'')
      else Inr (if marker_is_directory then DIRECTORY else REGULAR_FILE))"

definition validate_flags_and_method :: "nat \<Rightarrow> nat \<Rightarrow> zip_exn + unit" where
  "validate_flags_and_method flags comp_method =
     bindE (if comp_method = STORED_METHOD then Inr UTF8_FLAG
            else if comp_method = DEFLATE_METHOD then Inr (UTF8_FLAG OR DEFLATE_OPTION_FLAGS)
            else Inl (ZipStructureError ''ZIP compression method is not stored or Deflate'')) (\<lambda>allowed.
     if int flags AND NOT (int allowed) \<noteq> 0
     then Inl (ZipStructureError ''ZIP general-purpose flags are not accepted'')
     else Inr ())"

record CentralEntry =
  made_by :: nat
  version_needed :: nat
  flags :: nat
  comp_method :: nat
  modified_time :: nat
  modified_date :: nat
  crc32 :: nat
  compressed_bytes :: nat
  expanded_bytes :: nat
  external_attributes :: nat
  local_header_offset :: nat
  raw_name :: bytes
  source_name :: utext
  normalized_path :: utext
  entry_type :: ZipEntryType

definition validate_entry_sizes :: "ZipLimits \<Rightarrow> ZipEntryType \<Rightarrow> nat \<Rightarrow> nat \<Rightarrow> nat \<Rightarrow> nat \<Rightarrow> zip_exn + unit" where
  "validate_entry_sizes limits type md crc compressed expanded =
     (if type = DIRECTORY
      then
        if md \<noteq> STORED_METHOD \<or> compressed \<noteq> 0 \<or> expanded \<noteq> 0 \<or> crc \<noteq> 0
        then Inl (ZipStructureError ''ZIP directory record carries file data'')
        else Inr ()
      else
        if int expanded > maximum_file_bytes limits
        then Inl (ZipStructureError ''ZIP regular file crosses its expanded-byte boundary'')
        else if md = STORED_METHOD \<and> compressed \<noteq> expanded
        then Inl (ZipStructureError ''stored ZIP entry has unequal compressed and expanded sizes'')
        else if expanded \<noteq> 0 \<and> (compressed = 0 \<or> int expanded > int compressed * maximum_expansion_ratio limits)
        then Inl (ZipStructureError ''ZIP entry crosses its declared expansion-ratio boundary'')
        else Inr ())"

definition central_entry :: "unicode \<Rightarrow> central_fields \<Rightarrow> bytes \<Rightarrow> ZipLimits \<Rightarrow> zip_exn + CentralEntry" where
  "central_entry U f name limits =
     (if c_version_needed f > MAXIMUM_DECODER_VERSION
      then Inl (ZipStructureError ''ZIP record requires an unsupported decoder version'')
      else
        bindE (validate_flags_and_method (c_flags f) (c_method f)) (\<lambda>_.
        if ZIP64_SENTINEL_32 \<in> {c_compressed_bytes f, c_expanded_bytes f}
        then Inl (ZipStructureError ''ZIP64 entry sizes are not accepted'')
        else
          bindE (decode_name U name (c_flags f) limits) (\<lambda>(source, normalized, marker_is_directory).
          bindE (entry_type_of (c_made_by f) (c_external_attributes f) marker_is_directory) (\<lambda>type.
          bindE (validate_entry_sizes limits type (c_method f) (c_crc32 f) (c_compressed_bytes f)
                   (c_expanded_bytes f)) (\<lambda>_.
          Inr \<lparr>made_by = c_made_by f, version_needed = c_version_needed f, flags = c_flags f,
               comp_method = c_method f, modified_time = c_modified_time f, modified_date = c_modified_date f,
               crc32 = c_crc32 f, compressed_bytes = c_compressed_bytes f, expanded_bytes = c_expanded_bytes f,
               external_attributes = c_external_attributes f, local_header_offset = c_local_header_offset f,
               raw_name = name, source_name = source, normalized_path = normalized, entry_type = type\<rparr>)))))"

text \<open>One iteration of the loop of \<^verbatim>\<open>_parse_central\<close>: the entry at the cursor and the next cursor.\<close>

definition parse_central_record ::
  "unicode \<Rightarrow> ZipLimits \<Rightarrow> bytes \<Rightarrow> nat \<Rightarrow> zip_exn + CentralEntry \<times> nat" where
  "parse_central_record U limits data cursor =
     (let fixed_end = cursor + CENTRAL_SIZE in
      if fixed_end > length data
      then Inl (ZipStructureError ''ZIP central directory ends inside a fixed record'')
      else
        let f = unpack_central (slice cursor fixed_end data) in
        if c_signature f \<noteq> CENTRAL_SIGNATURE
        then Inl (ZipStructureError ''ZIP central record has an invalid signature'')
        else
          let variable_end = fixed_end + c_name_bytes f + c_extra_bytes f + c_comment_bytes f in
          if variable_end > length data
          then Inl (ZipStructureError ''ZIP central variable fields cross their region'')
          else if int (c_extra_bytes f) > maximum_extra_bytes limits
          then Inl (ZipStructureError ''ZIP central extra field crosses its byte boundary'')
          else if c_comment_bytes f \<noteq> 0
          then Inl (ZipStructureError ''ZIP entry comments are not accepted'')
          else if c_disk_number f \<noteq> 0
          then Inl (ZipStructureError ''ZIP central record starts on another disk'')
          else
            let name = slice fixed_end (fixed_end + c_name_bytes f) data;
                extra = slice (fixed_end + c_name_bytes f) (fixed_end + c_name_bytes f + c_extra_bytes f) data in
            bindE (validate_extra extra True) (\<lambda>_.
            bindE (central_entry U f name limits) (\<lambda>entry. Inr (entry, variable_end))))"

fun parse_central_loop ::
  "unicode \<Rightarrow> ZipLimits \<Rightarrow> bytes \<Rightarrow> nat \<Rightarrow> nat \<Rightarrow> zip_exn + CentralEntry list \<times> nat" where
  "parse_central_loop U limits data 0 cursor = Inr ([], cursor)"
| "parse_central_loop U limits data (Suc n) cursor =
     bindE (parse_central_record U limits data cursor) (\<lambda>(entry, next_cursor).
     bindE (parse_central_loop U limits data n next_cursor) (\<lambda>(entries, final). Inr (entry # entries, final)))"

definition parse_central :: "unicode \<Rightarrow> bytes \<Rightarrow> nat \<Rightarrow> ZipLimits \<Rightarrow> zip_exn + CentralEntry list" where
  "parse_central U data expected_records limits =
     bindE (parse_central_loop U limits data expected_records 0) (\<lambda>(entries, cursor).
     if cursor \<noteq> length data
     then Inl (ZipStructureError ''ZIP central record count does not consume its directory'')
     else Inr entries)"

section \<open>What the Unicode functions promise\<close>

text \<open>
  Documented properties of NFC used below: it changes no ASCII text, creates no separator,
  backslash, dot name or control character that was not there, and yields scalar values.
\<close>

definition unicode_ok :: "unicode \<Rightarrow> bool" where
  "unicode_ok U \<longleftrightarrow>
     (\<forall>t. list_all (\<lambda>c. c < 128) t \<longrightarrow> nfc U t = t) \<and>
     (\<forall>t c. c < 160 \<longrightarrow> c \<in> set (nfc U t) \<longrightarrow> c \<in> set t \<or> \<not> (c = SLASH \<or> c = BACKSLASH \<or> is_control c)) \<and>
     (\<forall>t. nfc U t \<in> {[DOT], [DOT, DOT]} \<longrightarrow> t \<in> {[DOT], [DOT, DOT]}) \<and>
     (\<forall>t. list_all scalar t \<longrightarrow> list_all scalar (nfc U t))"

text \<open>The instance for plain ASCII text, where the three functions are elementary.\<close>

definition ascii_unicode :: unicode where
  "ascii_unicode =
     \<lparr>nfc = (\<lambda>t. t),
      casefold = map (\<lambda>c. if 0x41 \<le> c \<and> c \<le> 0x5A then c + 32 else c),
      isalpha = (\<lambda>c. 0x41 \<le> c \<and> c \<le> 0x5A \<or> 0x61 \<le> c \<and> c \<le> 0x7A)\<rparr>"

lemma ascii_unicode_ok: "unicode_ok ascii_unicode"
  by (simp add: unicode_ok_def ascii_unicode_def)

section \<open>Accepted names\<close>

text \<open>A component that names one directory entry: nonempty, no separator, no traversal, no control.\<close>

definition safe_component :: "utext \<Rightarrow> bool" where
  "safe_component c \<longleftrightarrow> c \<noteq> [] \<and> c \<noteq> [DOT] \<and> c \<noteq> [DOT, DOT] \<and>
     (\<forall>x \<in> set c. x \<noteq> SLASH \<and> x \<noteq> BACKSLASH \<and> \<not> is_control x \<and> x < 0x110000)"

lemma nfc_safe:
  assumes U: "unicode_ok U" and c: "c \<noteq> [DOT]" "c \<noteq> [DOT, DOT]" "SLASH \<notin> set c" "BACKSLASH \<notin> set c"
    "\<forall>x \<in> set c. \<not> is_control x" "list_all scalar c" "nfc U c \<noteq> []"
  shows "safe_component (nfc U c)"
proof -
  have no: "x \<notin> set (nfc U c)" if "x < 160" "x \<notin> set c" "x = SLASH \<or> x = BACKSLASH \<or> is_control x" for x
    using U that unfolding unicode_ok_def by blast
  have "SLASH \<notin> set (nfc U c)" "BACKSLASH \<notin> set (nfc U c)"
    using no[of SLASH] no[of BACKSLASH] c(3,4) by simp_all
  moreover have "\<not> is_control x" if "x \<in> set (nfc U c)" for x
  proof
    assume ctl: "is_control x"
    then have "x < 160" by (auto simp: is_control_def)
    moreover have "x \<notin> set c" using ctl c(5) by blast
    ultimately show False using no ctl that by blast
  qed
  moreover have "nfc U c \<noteq> [DOT]" "nfc U c \<noteq> [DOT, DOT]" using U c(1,2) unfolding unicode_ok_def by auto
  moreover have "list_all scalar (nfc U c)" using U c(6) unfolding unicode_ok_def by blast
  then have "x < 0x110000" if "x \<in> set (nfc U c)" for x using that by (auto simp: list_all_iff scalar_def)
  ultimately show ?thesis using c(7) unfolding safe_component_def by blast
qed

definition name_ok :: "unicode \<Rightarrow> ZipLimits \<Rightarrow> utext \<Rightarrow> utext \<Rightarrow> bool" where
  "name_ok U limits source normalized \<longleftrightarrow>
     normalized = join_on SLASH (map (nfc U) (split_on SLASH source)) \<and>
     list_all safe_component (map (nfc U) (split_on SLASH source)) \<and>
     list_all (\<lambda>c. int (length (utf8_bytes c)) \<le> maximum_component_bytes limits) (map (nfc U) (split_on SLASH source)) \<and>
     int (length (split_on SLASH source)) \<le> maximum_path_depth limits \<and>
     int (length (utf8_bytes normalized)) \<le> maximum_path_bytes limits"

lemma split_on_subset: "(\<Union>p \<in> set (split_on d xs). set p) \<subseteq> set xs"
  by (induction d xs rule: split_on.induct) (auto 0 4 split: list.splits)

lemma split_on_chars: "p \<in> set (split_on d xs) \<Longrightarrow> x \<in> set p \<Longrightarrow> x \<in> set xs"
  using split_on_subset by fastforce

lemma decoded_scalar:
  assumes "(if fl AND UTF8_FLAG \<noteq> 0 then utf8_decode raw else ascii_decode raw) = Some t"
  shows "list_all scalar t"
proof (cases "fl AND UTF8_FLAG \<noteq> 0")
  case True
  then show ?thesis using assms utf8_decode_bytes by simp
next
  case False
  then have "t = map unat raw" "list_all (\<lambda>b. unat b < 128) raw"
    using assms by (auto simp: ascii_decode_def split: if_splits)
  then show ?thesis by (auto simp: list_all_iff scalar_def)
qed

lemma normalize_component_iff:
  "normalize_component U limits c = Inr n \<longleftrightarrow> c \<noteq> [DOT] \<and> c \<noteq> [DOT, DOT] \<and> (\<forall>x \<in> set c. \<not> is_control x) \<and>
     n = nfc U c \<and> n \<noteq> [] \<and> int (length (utf8_bytes n)) \<le> maximum_component_bytes limits"
  unfolding normalize_component_def Let_def if_Inl_Inr_iff by auto

lemma traverse_normalize:
  "traverseE (normalize_component U limits) cs = Inr ns \<longleftrightarrow> ns = map (nfc U) cs \<and>
     (\<forall>c \<in> set cs. is_ok (normalize_component U limits c))"
  unfolding traverseE_Inr_iff
proof (induction cs arbitrary: ns)
  case (Cons c cs)
  show ?case
  proof (cases ns)
    case (Cons n ns')
    then show ?thesis using Cons.IH[of ns'] by (auto simp: is_ok_iff normalize_component_iff)
  qed simp
qed auto

lemma decode_name_ok:
  assumes "unicode_ok U" "decode_name U raw fl limits = Inr (src, norm, dir)"
  shows "name_ok U limits src norm"
proof -
  from assms(2) obtain decoded where
    dec: "(if fl AND UTF8_FLAG \<noteq> 0 then utf8_decode raw else ascii_decode raw) = Some decoded"
    and bs: "BACKSLASH \<notin> set decoded"
    and src: "src = (if decoded \<noteq> [] \<and> last decoded = SLASH then butlast decoded else decoded)"
    and depth: "int (length (split_on SLASH src)) \<le> maximum_path_depth limits"
    and comps: "\<forall>c \<in> set (split_on SLASH src). is_ok (normalize_component U limits c)"
    and norm: "norm = join_on SLASH (map (nfc U) (split_on SLASH src))"
      "int (length (utf8_bytes norm)) \<le> maximum_path_bytes limits"
    unfolding decode_name_def Let_def
    by (auto simp: bindE_Inr_iff traverse_normalize simp del: not_less split: option.splits if_splits)
  have sub: "set src \<subseteq> set decoded" using src by (auto dest: in_set_butlastD)
  have "safe_component (nfc U c) \<and> int (length (utf8_bytes (nfc U c))) \<le> maximum_component_bytes limits"
    if c: "c \<in> set (split_on SLASH src)" for c
  proof -
    have chars: "x \<in> set decoded" if "x \<in> set c" for x using split_on_chars[OF c that] sub by blast
    obtain n where n: "normalize_component U limits c = Inr n" using comps c by (auto simp: is_ok_iff)
    have "SLASH \<notin> set c" using split_on_parts[OF c] .
    moreover have "BACKSLASH \<notin> set c" using chars bs by blast
    moreover have "list_all scalar c" using chars decoded_scalar[OF dec] by (auto simp: list_all_iff)
    ultimately have "safe_component (nfc U c)" using n by (intro nfc_safe[OF assms(1)]) (auto simp: normalize_component_iff)
    then show ?thesis using n unfolding normalize_component_iff by blast
  qed
  then show ?thesis using norm depth by (auto simp: name_ok_def list_all_iff)
qed

section \<open>Accepted central entries\<close>

definition entry_ok :: "unicode \<Rightarrow> ZipLimits \<Rightarrow> CentralEntry \<Rightarrow> bool" where
  "entry_ok U limits e \<longleftrightarrow> name_ok U limits (source_name e) (normalized_path e) \<and>
     (comp_method e = 0 \<or> comp_method e = 8) \<and>
     (if entry_type e = DIRECTORY then compressed_bytes e = 0 \<and> expanded_bytes e = 0 \<and> crc32 e = 0
      else int (expanded_bytes e) \<le> maximum_file_bytes limits \<and>
        int (expanded_bytes e) \<le> int (compressed_bytes e) * maximum_expansion_ratio limits \<and>
        (comp_method e = 0 \<longrightarrow> compressed_bytes e = expanded_bytes e))"

lemma validate_flags_method: "validate_flags_and_method fl md = Inr u \<Longrightarrow> md = 0 \<or> md = 8"
  by (auto simp: validate_flags_and_method_def STORED_METHOD_def DEFLATE_METHOD_def bindE_Inr_iff split: if_splits)

lemma validate_entry_sizes_iff:
  "validate_entry_sizes limits type md crc cmpr expa = Inr u \<longleftrightarrow>
     (if type = DIRECTORY then md = 0 \<and> cmpr = 0 \<and> expa = 0 \<and> crc = 0
      else int expa \<le> maximum_file_bytes limits \<and> (md = 0 \<longrightarrow> cmpr = expa) \<and>
        (expa \<noteq> 0 \<longrightarrow> cmpr \<noteq> 0 \<and> int expa \<le> int cmpr * maximum_expansion_ratio limits))"
  by (auto simp: validate_entry_sizes_def STORED_METHOD_def)

lemma central_entry_ok:
  assumes "unicode_ok U" "0 \<le> maximum_expansion_ratio limits" "central_entry U f name limits = Inr e"
  shows "entry_ok U limits e"
proof -
  from assms(3) obtain u src norm dir type u' where
    flags: "validate_flags_and_method (c_flags f) (c_method f) = Inr u"
    and name: "decode_name U name (c_flags f) limits = Inr (src, norm, dir)"
    and sizes: "validate_entry_sizes limits type (c_method f) (c_crc32 f) (c_compressed_bytes f) (c_expanded_bytes f) = Inr u'"
    and e: "source_name e = src" "normalized_path e = norm" "comp_method e = c_method f" "crc32 e = c_crc32 f"
      "compressed_bytes e = c_compressed_bytes f" "expanded_bytes e = c_expanded_bytes f" "entry_type e = type"
    by (auto simp: central_entry_def bindE_Inr_iff split: if_splits)
  have "int (expanded_bytes e) \<le> int (compressed_bytes e) * maximum_expansion_ratio limits" if "type \<noteq> DIRECTORY"
    using sizes that assms(2) e by (cases "c_expanded_bytes f = 0") (auto simp: validate_entry_sizes_iff)
  then show ?thesis
    using decode_name_ok[OF assms(1) name] validate_flags_method[OF flags] sizes e
    by (auto simp: entry_ok_def validate_entry_sizes_iff split: if_splits)
qed

lemma parse_central_record_ok:
  assumes "unicode_ok U" "0 \<le> maximum_expansion_ratio limits" "parse_central_record U limits data cursor = Inr (e, c)"
  shows "entry_ok U limits e"
  using assms(3) central_entry_ok[OF assms(1,2)]
  by (auto simp: parse_central_record_def Let_def bindE_Inr_iff split: if_splits)

lemma parse_central_loop_ok:
  assumes "unicode_ok U" "0 \<le> maximum_expansion_ratio limits"
  shows "parse_central_loop U limits data n cursor = Inr (es, c) \<Longrightarrow> length es = n \<and> list_all (entry_ok U limits) es"
proof (induction n arbitrary: cursor es)
  case (Suc n)
  then show ?case using parse_central_record_ok[OF assms] by (auto simp: bindE_Inr_iff)
qed simp

lemma parse_central_ok:
  assumes "unicode_ok U" "0 \<le> maximum_expansion_ratio limits" "parse_central U data n limits = Inr es"
  shows "length es = n \<and> list_all (entry_ok U limits) es"
  using assms(3) parse_central_loop_ok[OF assms(1,2)] by (auto simp: parse_central_def bindE_Inr_iff split: if_splits)

end
