(* ===== verification/Zip_Paths.thy ===== *)
theory Zip_Paths
  imports Zip_Entries "HOL-Library.AList"
begin

text \<open>
  The namespace a deployment ZIP would create: \<^verbatim>\<open>_materialized_paths\<close> of \<^verbatim>\<open>zip_structure.py\<close>. Every
  entry claims its own path and, implicitly, each of its parent directories; the two
  dictionaries of the source are association lists. The lemmas turn acceptance into a
  statement about the claims alone: one source spelling, one type and at most one explicit
  member per path, no two paths that fold together, closed under parents.
\<close>

section \<open>Claims\<close>

record PathClaim =
  claim_source :: utext
  claim_path :: utext
  claim_type :: ZipEntryType
  claim_explicit :: bool

type_synonym claim_state = "(utext \<times> PathClaim list) list \<times> (utext \<times> PathClaim) list"

definition folded_path :: "unicode \<Rightarrow> utext \<Rightarrow> utext" where
  "folded_path U p = nfc U (casefold U p)"

definition add_claim :: "unicode \<Rightarrow> ZipLimits \<Rightarrow> claim_state \<Rightarrow> PathClaim \<Rightarrow> zip_exn + claim_state" where
  "add_claim U limits s claim =
     (let (claims, casefolded) = s;
          established = (case map_of claims (claim_path claim) of None \<Rightarrow> [] | Some l \<Rightarrow> l) in
      if \<exists>item \<in> set established. claim_source item \<noteq> claim_source claim
      then Inl (ZipStructureError ''ZIP member paths collide after NFC normalization'')
      else
        let folded = folded_path U (claim_path claim) in
        if (case map_of casefolded folded of
              None \<Rightarrow> False
            | Some e \<Rightarrow> claim_path e \<noteq> claim_path claim \<or> claim_source e \<noteq> claim_source claim)
        then Inl (ZipStructureError ''ZIP member paths have a case-folding collision'')
        else if \<exists>item \<in> set established. claim_type item \<noteq> claim_type claim
        then Inl (ZipStructureError ''ZIP member path is both a file and a directory'')
        else if \<not> claim_explicit claim \<and> established \<noteq> []
        then Inr s
        else if claim_explicit claim \<and> (\<exists>item \<in> set established. claim_explicit item)
        then Inl (ZipStructureError ''ZIP contains a duplicate explicit member'')
        else
          let claims' = AList.update (claim_path claim) (established @ [claim]) claims;
              casefolded' = snd (setdefault casefolded folded claim) in
          if int (length claims') > maximum_entries limits
          then Inl (ZipStructureError ''ZIP materialized tree crosses its entry boundary'')
          else Inr (claims', casefolded'))"

definition entry_claims :: "CentralEntry \<Rightarrow> PathClaim list" where
  "entry_claims e =
     (let source_components = split_on SLASH (source_name e);
          normalized_components = split_on SLASH (normalized_path e) in
      map (\<lambda>depth.
        \<lparr>claim_source = join_on SLASH (take depth source_components),
         claim_path = join_on SLASH (take depth normalized_components),
         claim_type = DIRECTORY, claim_explicit = False\<rparr>) [1..<length source_components]
      @ [\<lparr>claim_source = source_name e, claim_path = normalized_path e, claim_type = entry_type e,
          claim_explicit = True\<rparr>])"

definition materialized_paths :: "unicode \<Rightarrow> CentralEntry list \<Rightarrow> ZipLimits \<Rightarrow> zip_exn + utext list" where
  "materialized_paths U entries limits =
     bindE (foldE (\<lambda>s entry. foldE (add_claim U limits) s (entry_claims entry)) ([], []) entries) (\<lambda>(claims, casefolded).
     let index_claims = (case map_of claims (code_points ''index.html'') of None \<Rightarrow> [] | Some l \<Rightarrow> l) in
     if \<not> (\<exists>claim \<in> set index_claims. claim_explicit claim \<and> claim_type claim = REGULAR_FILE)
     then Inl (ZipStructureError ''deployment ZIP has no root-level index.html regular file'')
     else Inr (sort_key utf8_bytes (map fst claims)))"

section \<open>The invariant of the loop\<close>

definition agreeing :: "unicode \<Rightarrow> PathClaim set \<Rightarrow> bool" where
  "agreeing U cs \<longleftrightarrow>
     (\<forall>c \<in> cs. \<forall>d \<in> cs. claim_path c = claim_path d \<longrightarrow>
        claim_source c = claim_source d \<and> claim_type c = claim_type d) \<and>
     (\<forall>c \<in> cs. \<forall>d \<in> cs. folded_path U (claim_path c) = folded_path U (claim_path d) \<longrightarrow> claim_path c = claim_path d)"

definition claims_inv :: "unicode \<Rightarrow> ZipLimits \<Rightarrow> PathClaim list \<Rightarrow> claim_state \<Rightarrow> bool" where
  "claims_inv U limits cs s \<longleftrightarrow> (case s of (claims, casefolded) \<Rightarrow>
     distinct (map fst claims) \<and> set (map fst claims) = claim_path ` set cs \<and>
     (\<forall>k l. map_of claims k = Some l \<longrightarrow> l \<noteq> [] \<and> set l \<subseteq> {c \<in> set cs. claim_path c = k}) \<and>
     (\<forall>c \<in> set cs. claim_explicit c \<longrightarrow> (\<exists>l. map_of claims (claim_path c) = Some l \<and> c \<in> set l)) \<and>
     (\<forall>f e. map_of casefolded f = Some e \<longrightarrow> e \<in> set cs \<and> folded_path U (claim_path e) = f) \<and>
     (\<forall>c \<in> set cs. map_of casefolded (folded_path U (claim_path c)) \<noteq> None) \<and>
     agreeing U (set cs) \<and> distinct (map claim_path (filter claim_explicit cs)) \<and>
     (cs \<noteq> [] \<longrightarrow> int (length claims) \<le> maximum_entries limits))"

lemma agreeing_insert:
  assumes "agreeing U cs"
    and "\<And>d. d \<in> cs \<Longrightarrow> claim_path d = claim_path c \<Longrightarrow> claim_source d = claim_source c \<and> claim_type d = claim_type c"
    and "\<And>d. d \<in> cs \<Longrightarrow> folded_path U (claim_path d) = folded_path U (claim_path c) \<Longrightarrow> claim_path d = claim_path c"
  shows "agreeing U (insert c cs)"
  using assms unfolding agreeing_def by (metis insert_iff)

lemma add_claim_inv:
  assumes inv: "claims_inv U limits cs s" and add: "add_claim U limits s c = Inr s'"
  shows "claims_inv U limits (cs @ [c]) s'"
proof -
  obtain claims casefolded where s: "s = (claims, casefolded)" by fastforce
  define established where "established = (case map_of claims (claim_path c) of None \<Rightarrow> [] | Some l \<Rightarrow> l)"
  define folded where "folded = folded_path U (claim_path c)"
  note I = inv[unfolded claims_inv_def s prod.case]
  have keys: "distinct (map fst claims)" "set (map fst claims) = claim_path ` set cs"
    and lists: "\<And>k l. map_of claims k = Some l \<Longrightarrow> l \<noteq> [] \<and> set l \<subseteq> {d \<in> set cs. claim_path d = k}"
    and expl: "\<And>d. d \<in> set cs \<Longrightarrow> claim_explicit d \<Longrightarrow> \<exists>l. map_of claims (claim_path d) = Some l \<and> d \<in> set l"
    and fold1: "\<And>f e. map_of casefolded f = Some e \<Longrightarrow> e \<in> set cs \<and> folded_path U (claim_path e) = f"
    and fold2: "\<And>d. d \<in> set cs \<Longrightarrow> map_of casefolded (folded_path U (claim_path d)) \<noteq> None"
    and agr: "agreeing U (set cs)" and dist: "distinct (map claim_path (filter claim_explicit cs))"
    using I by blast+
  have src: "\<And>i. i \<in> set established \<Longrightarrow> claim_source i = claim_source c \<and> claim_type i = claim_type c"
    and nofold: "\<And>e. map_of casefolded folded = Some e \<Longrightarrow> claim_path e = claim_path c"
    using add by (auto simp: add_claim_def s Let_def established_def folded_def split: if_splits)
  have est: "established \<noteq> []" "set established \<subseteq> {d \<in> set cs. claim_path d = claim_path c}"
    if "d \<in> set cs" "claim_path d = claim_path c" for d
  proof -
    have "claim_path c \<in> set (map fst claims)" using keys(2) that by (metis imageI)
    then obtain l where l: "map_of claims (claim_path c) = Some l" by (metis map_of_eq_None_iff not_None_eq set_map)
    then show "established \<noteq> []" "set established \<subseteq> {d \<in> set cs. claim_path d = claim_path c}"
      using lists[OF l] by (simp_all add: established_def)
  qed
  have "agreeing U (insert c (set cs))"
  proof (rule agreeing_insert[OF agr])
    fix d assume d: "d \<in> set cs" "claim_path d = claim_path c"
    obtain i where i: "i \<in> set established" using est(1)[OF d] by (cases established) auto
    then have "i \<in> set cs" "claim_path i = claim_path c" using est(2)[OF d] by auto
    then show "claim_source d = claim_source c \<and> claim_type d = claim_type c"
      using agr d src[OF i] unfolding agreeing_def by metis
  next
    fix d assume d: "d \<in> set cs" "folded_path U (claim_path d) = folded_path U (claim_path c)"
    then obtain e where e: "map_of casefolded folded = Some e" using fold2[OF d(1)] unfolding folded_def by auto
    then have "e \<in> set cs" "folded_path U (claim_path e) = folded" "claim_path e = claim_path c"
      using fold1[OF e] nofold[OF e] by blast+
    then show "claim_path d = claim_path c" using agr d unfolding agreeing_def folded_def by metis
  qed
  then have agr': "agreeing U (set (cs @ [c]))" by simp
  have expl_est: "d \<in> set established" if "d \<in> set cs" "claim_explicit d" "claim_path d = claim_path c" for d
    using expl[OF that(1,2)] that(3) by (auto simp: established_def)
  have est_mem: "d \<in> set cs \<and> claim_path d = claim_path c" if "d \<in> set established" for d
    using that lists[of "claim_path c"] by (cases "map_of claims (claim_path c)") (auto simp: established_def)
  show ?thesis
  proof (cases "\<not> claim_explicit c \<and> established \<noteq> []")
    case True
    then obtain d where d: "d \<in> set cs" "claim_path d = claim_path c" using est_mem by (cases established) auto
    have s': "s' = s" using add True
      by (auto simp: add_claim_def s Let_def established_def[symmetric] folded_def[symmetric] split: if_splits)
    have "claim_path ` set (cs @ [c]) = claim_path ` set cs"
      using imageI[OF d(1), of claim_path] d(2) by auto
    moreover have "cs \<noteq> []" using d by auto
    moreover have "filter claim_explicit (cs @ [c]) = filter claim_explicit cs" using True by simp
    moreover have "map_of casefolded (folded_path U (claim_path c)) \<noteq> None" using fold2[OF d(1)] d(2) by simp
    moreover have "l \<noteq> [] \<and> set l \<subseteq> {d \<in> set (cs @ [c]). claim_path d = k}" if "map_of claims k = Some l" for k l
      using lists[OF that] by auto
    moreover have "\<exists>l. map_of claims (claim_path d) = Some l \<and> d \<in> set l" if "d \<in> set (cs @ [c])" "claim_explicit d" for d
      using that expl[of d] True by auto
    moreover have "e \<in> set (cs @ [c]) \<and> folded_path U (claim_path e) = f" if "map_of casefolded f = Some e" for f e
      using fold1[OF that] by simp
    moreover have "map_of casefolded (folded_path U (claim_path d)) \<noteq> None" if "d \<in> set (cs @ [c])" for d
      using that fold2[of d] calculation(4) by auto
    moreover have "set (map fst claims) = claim_path ` set (cs @ [c])" using keys(2) calculation(1) by simp
    moreover have "distinct (map claim_path (filter claim_explicit (cs @ [c])))" using dist calculation(3) by simp
    moreover have "int (length claims) \<le> maximum_entries limits" using I calculation(2) by blast
    ultimately show ?thesis using keys(1) agr' unfolding s' s claims_inv_def prod.case by blast
  next
    case False
    let ?claims = "AList.update (claim_path c) (established @ [c]) claims"
    let ?folded = "snd (setdefault casefolded folded c)"
    have s': "s' = (?claims, ?folded)" and new: "\<not> (claim_explicit c \<and> (\<exists>i \<in> set established. claim_explicit i))"
      and len: "int (length ?claims) \<le> maximum_entries limits"
      using add False
      by (auto simp: add_claim_def s Let_def established_def[symmetric] folded_def[symmetric] split: if_splits)
    have map': "map_of ?claims k = (if k = claim_path c then Some (established @ [c]) else map_of claims k)" for k
      by (simp add: update_conv')
    have fmap': "map_of ?folded f = (if f = folded \<and> map_of casefolded folded = None then Some c else map_of casefolded f)" for f
      by (rule setdefault_map_of)
    have "distinct (map fst ?claims)" using keys(1) by (rule distinct_update)
    moreover have "set (map fst ?claims) = claim_path ` set (cs @ [c])"
      using keys(2) dom_update[of "claim_path c" "established @ [c]" claims] by simp
    moreover have "l \<noteq> [] \<and> set l \<subseteq> {d \<in> set (cs @ [c]). claim_path d = k}" if "map_of ?claims k = Some l" for k l
      using that lists[of k l] est_mem by (auto simp: map' split: if_splits)
    moreover have "\<exists>l. map_of ?claims (claim_path d) = Some l \<and> d \<in> set l" if "d \<in> set (cs @ [c])" "claim_explicit d" for d
      using that expl[of d] expl_est[of d] by (auto simp: map')
    moreover have "e \<in> set (cs @ [c]) \<and> folded_path U (claim_path e) = f" if "map_of ?folded f = Some e" for f e
      using that fold1[of f e] unfolding fmap' by (auto simp: folded_def split: if_splits)
    moreover have "map_of ?folded (folded_path U (claim_path d)) \<noteq> None" if "d \<in> set (cs @ [c])" for d
      using that fold2[of d] unfolding fmap' by (auto simp: folded_def)
    moreover have "claim_path c \<notin> claim_path ` set (filter claim_explicit cs)" if "claim_explicit c"
      using that new expl_est by (auto simp: image_iff)
    then have "distinct (map claim_path (filter claim_explicit (cs @ [c])))" using dist by simp
    ultimately show ?thesis using agr' len unfolding s' claims_inv_def prod.case by blast
  qed
qed

lemma claims_inv_Nil: "claims_inv U limits [] ([], [])"
  by (simp add: claims_inv_def agreeing_def)

lemma foldE_claims_inv:
  "claims_inv U limits cs s \<Longrightarrow> foldE (add_claim U limits) s ds = Inr s' \<Longrightarrow> claims_inv U limits (cs @ ds) s'"
proof (induction ds arbitrary: cs s)
  case (Cons d ds)
  then obtain t where "add_claim U limits s d = Inr t" "foldE (add_claim U limits) t ds = Inr s'"
    by (auto simp: bindE_Inr_iff)
  then show ?case using Cons.IH[OF add_claim_inv[OF Cons.prems(1)]] by simp
qed simp

section \<open>Accepted namespaces\<close>

abbreviation all_claims :: "CentralEntry list \<Rightarrow> PathClaim list" where
  "all_claims es \<equiv> concat (map entry_claims es)"

lemma explicit_claims: "filter claim_explicit (entry_claims e) =
    [\<lparr>claim_source = source_name e, claim_path = normalized_path e, claim_type = entry_type e, claim_explicit = True\<rparr>]"
  by (simp add: entry_claims_def Let_def filter_empty_conv)

lemma explicit_paths: "map claim_path (filter claim_explicit (all_claims es)) = map normalized_path es"
  by (induction es) (simp_all add: explicit_claims)

lemma explicit_claim_entry:
  assumes "c \<in> set (all_claims es)" "claim_explicit c"
  obtains e where "e \<in> set es" "claim_path c = normalized_path e" "claim_type c = entry_type e"
  using assms by (auto simp: entry_claims_def Let_def)

lemma entry_claim: "e \<in> set es \<Longrightarrow> \<lparr>claim_source = source_name e, claim_path = normalized_path e,
    claim_type = entry_type e, claim_explicit = True\<rparr> \<in> set (all_claims es)"
  by (force simp: entry_claims_def Let_def)

lemma materialized_paths_ok:
  assumes "materialized_paths U es limits = Inr ps"
  shows "set ps = claim_path ` set (all_claims es)" "distinct ps" "sorted (map utf8_bytes ps)"
    "agreeing U (set (all_claims es))" "distinct (map normalized_path es)"
    "es \<noteq> [] \<Longrightarrow> int (length ps) \<le> maximum_entries limits"
    "\<exists>e \<in> set es. normalized_path e = code_points ''index.html'' \<and> entry_type e = REGULAR_FILE"
proof -
  from assms obtain claims casefolded where
    f: "foldE (add_claim U limits) ([], []) (all_claims es) = Inr (claims, casefolded)"
    and idx: "\<exists>claim \<in> set (case map_of claims (code_points ''index.html'') of None \<Rightarrow> [] | Some l \<Rightarrow> l).
        claim_explicit claim \<and> claim_type claim = REGULAR_FILE"
    and ps: "ps = sort_key utf8_bytes (map fst claims)"
    unfolding materialized_paths_def foldE_concat bindE_Inr_iff Let_def by (auto split: if_splits)
  from foldE_claims_inv[OF claims_inv_Nil f]
  have inv: "claims_inv U limits (all_claims es) (claims, casefolded)" by simp
  note I = inv[unfolded claims_inv_def prod.case]
  show "set ps = claim_path ` set (all_claims es)" using I ps by auto
  show "distinct ps" using I ps by simp
  show "sorted (map utf8_bytes ps)" using ps by simp
  show "agreeing U (set (all_claims es))" using I by blast
  show "distinct (map normalized_path es)" using I unfolding explicit_paths by blast
  have "all_claims es \<noteq> []" if "es \<noteq> []" using that by (cases es) (simp_all add: entry_claims_def Let_def)
  then show "es \<noteq> [] \<Longrightarrow> int (length ps) \<le> maximum_entries limits" using I ps by simp
  obtain l claim where l: "map_of claims (code_points ''index.html'') = Some l"
    and claim: "claim \<in> set l" "claim_explicit claim" "claim_type claim = REGULAR_FILE"
    using idx by (cases "map_of claims (code_points ''index.html'')") auto
  then have "claim \<in> set (all_claims es)" "claim_path claim = code_points ''index.html''" using I by blast+
  then show "\<exists>e \<in> set es. normalized_path e = code_points ''index.html'' \<and> entry_type e = REGULAR_FILE"
    using claim by (metis explicit_claim_entry)
qed

section \<open>Directories and files\<close>

lemma entry_components:
  assumes "name_ok U limits src norm"
  shows "split_on SLASH norm = map (nfc U) (split_on SLASH src)"
    "length (split_on SLASH norm) = length (split_on SLASH src)"
proof -
  have "SLASH \<notin> set c" if "c \<in> set (map (nfc U) (split_on SLASH src))" for c
    using assms that by (auto simp: name_ok_def list_all_iff safe_component_def)
  then show *: "split_on SLASH norm = map (nfc U) (split_on SLASH src)"
    using assms split_join_on[of "map (nfc U) (split_on SLASH src)" SLASH] by (auto simp: name_ok_def)
  show "length (split_on SLASH norm) = length (split_on SLASH src)" by (simp add: *)
qed

lemma entry_claim_paths:
  assumes "name_ok U limits (source_name e) (normalized_path e)"
  shows "claim_path ` set (entry_claims e) =
    {join_on SLASH (take d (split_on SLASH (normalized_path e))) |d. 1 \<le> d \<and> d \<le> length (split_on SLASH (normalized_path e))}"
proof -
  let ?n = "split_on SLASH (normalized_path e)"
  have len: "length (split_on SLASH (source_name e)) = length ?n" using entry_components(2)[OF assms] by simp
  have pos: "1 \<le> length ?n" by (simp add: Suc_leI)
  define f where "f = (\<lambda>d. join_on SLASH (take d ?n))"
  have "claim_path ` set (entry_claims e) = insert (normalized_path e) (f ` {1..<length ?n})"
    by (simp add: entry_claims_def Let_def len image_image image_Un f_def)
  also have "\<dots> = f ` insert (length ?n) {1..<length ?n}" by (simp add: f_def)
  also have "insert (length ?n) {1..<length ?n} = {1..length ?n}" using pos by auto
  finally show ?thesis unfolding f_def by auto
qed

text \<open>A strict prefix of an entry's path is claimed as a directory.\<close>

lemma directory_claim:
  assumes "name_ok U limits (source_name e) (normalized_path e)"
    "1 \<le> d" "d < length (split_on SLASH (normalized_path e))"
  shows "\<exists>c \<in> set (entry_claims e). claim_path c = join_on SLASH (take d (split_on SLASH (normalized_path e))) \<and>
    claim_type c = DIRECTORY"
proof -
  have "d \<in> set [1..<length (split_on SLASH (source_name e))]" using assms entry_components(2)[OF assms(1)] by simp
  then show ?thesis unfolding entry_claims_def Let_def by force
qed

end
