(* ===== verification/Zip_Structure.thy ===== *)
theory Zip_Structure
  imports Zip_Paths "HOL-Library.Product_Lexorder"
begin

text \<open>
  The rest of the structural inspection of \<^verbatim>\<open>static_host_agent/zip_structure.py\<close>: the local
  headers and their regions, and \<^verbatim>\<open>_inspect\<close> over the bytes of a snapshot. The properties say
  that an accepted archive has no byte outside its members, its directory and its end record,
  that the tree it would create is a tree below the staging root, and that every declared size
  is within the limits.
\<close>

section \<open>Members\<close>

record ZipMember =
  m_source_name :: utext
  m_normalized_path :: utext
  m_entry_type :: ZipEntryType
  m_compression_method :: nat
  m_crc32 :: nat
  m_compressed_bytes :: nat
  m_expanded_bytes :: nat
  m_local_header_offset :: nat
  m_data_offset :: nat

record ZipStructure =
  archive_bytes :: nat
  central_directory_offset :: nat
  central_directory_bytes :: nat
  members :: "ZipMember list"
  materialized :: "utext list"
  expanded_regular_file_bytes :: nat

definition source_read :: "bytes \<Rightarrow> nat \<Rightarrow> nat \<Rightarrow> zip_exn + bytes" where
  "source_read src offset len =
     (if offset + len > length src
      then Inl (ZipStructureError ''ZIP region lies outside the snapshot'')
      else Inr (slice offset (offset + len) src))"

text \<open>The body of the loop of \<^verbatim>\<open>_validate_local_regions\<close>: the member and its region.\<close>

definition validate_local_entry ::
  "bytes \<Rightarrow> nat \<Rightarrow> ZipLimits \<Rightarrow> CentralEntry \<Rightarrow> zip_exn + ZipMember \<times> (nat \<times> nat)" where
  "validate_local_entry src central_offset limits entry =
     bindE (source_read src (local_header_offset entry) LOCAL_SIZE) (\<lambda>header.
     let fixed = unpack_local header in
     if l_signature fixed \<noteq> LOCAL_SIGNATURE
     then Inl (ZipStructureError ''ZIP local header has an invalid signature'')
     else if int (l_extra_bytes fixed) > maximum_extra_bytes limits
     then Inl (ZipStructureError ''ZIP local extra field crosses its byte boundary'')
     else
       let variable_offset = local_header_offset entry + LOCAL_SIZE in
       bindE (source_read src variable_offset (l_name_bytes fixed)) (\<lambda>name.
       bindE (source_read src (variable_offset + l_name_bytes fixed) (l_extra_bytes fixed)) (\<lambda>extra.
       bindE (validate_extra extra False) (\<lambda>_.
       if (l_version_needed fixed, l_flags fixed, l_method fixed, l_modified_time fixed, l_modified_date fixed,
           l_crc32 fixed, l_compressed_bytes fixed, l_expanded_bytes fixed)
          \<noteq> (version_needed entry, flags entry, comp_method entry, modified_time entry, modified_date entry,
             crc32 entry, compressed_bytes entry, expanded_bytes entry)
          \<or> name \<noteq> raw_name entry
       then Inl (ZipStructureError ''ZIP local header disagrees with its central record'')
       else
         let data_offset = variable_offset + l_name_bytes fixed + l_extra_bytes fixed;
             data_end = data_offset + compressed_bytes entry in
         if data_end > central_offset
         then Inl (ZipStructureError ''ZIP local data region crosses into central metadata'')
         else Inr
           (\<lparr>m_source_name = source_name entry, m_normalized_path = normalized_path entry,
             m_entry_type = entry_type entry, m_compression_method = comp_method entry,
             m_crc32 = crc32 entry, m_compressed_bytes = compressed_bytes entry,
             m_expanded_bytes = expanded_bytes entry, m_local_header_offset = local_header_offset entry,
             m_data_offset = data_offset\<rparr>,
            (local_header_offset entry, data_end))))))"

fun tile :: "nat \<Rightarrow> (nat \<times> nat) list \<Rightarrow> zip_exn + nat" where
  "tile cursor [] = Inr cursor"
| "tile cursor ((start, stop) # regions) =
     (if start \<noteq> cursor \<or> stop < start
      then Inl (ZipStructureError ''ZIP local regions overlap, alias, or leave padding'')
      else tile stop regions)"

definition validate_local_regions ::
  "bytes \<Rightarrow> CentralEntry list \<Rightarrow> nat \<Rightarrow> ZipLimits \<Rightarrow> zip_exn + ZipMember list" where
  "validate_local_regions src es central_offset limits =
     (let local_offsets = map local_header_offset es in
      if card (set local_offsets) \<noteq> length local_offsets
      then Inl (ZipStructureError ''ZIP local regions overlap, alias, or leave padding'')
      else
        bindE (traverseE (validate_local_entry src central_offset limits) es) (\<lambda>results.
        bindE (tile 0 (sort (map snd results))) (\<lambda>cursor.
        if cursor \<noteq> central_offset
        then Inl (ZipStructureError ''ZIP local regions do not exactly cover the data area'')
        else Inr (map fst results))))"

definition inspect :: "unicode \<Rightarrow> bytes \<Rightarrow> ZipLimits \<Rightarrow> zip_exn + ZipStructure" where
  "inspect U src limits =
     (if length src < EOCD_SIZE \<or> int (length src) > maximum_archive_bytes limits
      then Inl (ZipStructureError ''ZIP snapshot crosses its compressed-byte boundary'')
      else
        let eocd_offset = length src - EOCD_SIZE in
        bindE (source_read src eocd_offset EOCD_SIZE) (\<lambda>raw.
        let eocd = unpack_eocd raw; record_count = e_record_count eocd;
            central_bytes = e_central_bytes eocd; central_offset = e_central_offset eocd in
        if e_signature eocd \<noteq> EOCD_SIGNATURE
        then Inl (ZipStructureError ''ZIP has no end record at its physical end'')
        else if e_disk_number eocd \<noteq> 0 \<or> e_central_disk eocd \<noteq> 0 \<or> e_records_on_disk eocd \<noteq> record_count
        then Inl (ZipStructureError ''multi-disk ZIPs are not accepted'')
        else if e_comment_bytes eocd \<noteq> 0
        then Inl (ZipStructureError ''ZIP archive comments are not accepted'')
        else if record_count \<in> {0, ZIP64_SENTINEL_16}
        then Inl (ZipStructureError ''ZIP entry count is empty or requires ZIP64'')
        else if int record_count > maximum_entries limits
        then Inl (ZipStructureError ''ZIP central record count crosses its boundary'')
        else if central_bytes = ZIP64_SENTINEL_32 \<or> central_offset = ZIP64_SENTINEL_32
        then Inl (ZipStructureError ''ZIP64 metadata is not accepted'')
        else if int central_bytes > maximum_central_directory_bytes limits
        then Inl (ZipStructureError ''ZIP central directory crosses its byte boundary'')
        else if central_offset + central_bytes \<noteq> eocd_offset
        then Inl (ZipStructureError ''ZIP central directory is not adjacent to its end record'')
        else
          bindE (source_read src central_offset central_bytes) (\<lambda>central_data.
          bindE (parse_central U central_data record_count limits) (\<lambda>es.
          bindE (materialized_paths U es limits) (\<lambda>paths.
          bindE (validate_local_regions src es central_offset limits) (\<lambda>ms.
          let expanded = sum_list (map m_expanded_bytes (filter (\<lambda>m. m_entry_type m = REGULAR_FILE) ms)) in
          if int expanded > maximum_expanded_bytes limits
          then Inl (ZipStructureError ''ZIP expanded bytes cross the tenant-tree boundary'')
          else Inr \<lparr>archive_bytes = length src, central_directory_offset = central_offset,
                    central_directory_bytes = central_bytes, members = ms, materialized = paths,
                    expanded_regular_file_bytes = expanded\<rparr>))))))"

section \<open>Regions\<close>

lemma tile_covers:
  "tile c rs = Inr d \<Longrightarrow> c \<le> d \<and> (\<forall>x. c \<le> x \<and> x < d \<longleftrightarrow> (\<exists>r \<in> set rs. fst r \<le> x \<and> x < snd r)) \<and>
     sorted_wrt (\<lambda>r r'. snd r \<le> fst r') rs \<and> (\<forall>r \<in> set rs. c \<le> fst r)"
proof (induction c rs rule: tile.induct)
  case (2 c s e rs)
  then have s: "s = c" "c \<le> e" and rs: "tile e rs = Inr d" by (auto split: if_splits)
  have IH: "e \<le> d" "\<And>x. e \<le> x \<and> x < d \<longleftrightarrow> (\<exists>r \<in> set rs. fst r \<le> x \<and> x < snd r)"
    "sorted_wrt (\<lambda>r r'. snd r \<le> fst r') rs" "\<forall>r \<in> set rs. e \<le> fst r"
    using "2.IH" s rs by auto
  have "c \<le> x \<and> x < d \<longleftrightarrow> (c \<le> x \<and> x < e) \<or> (e \<le> x \<and> x < d)" for x using s IH(1) by linarith
  then show ?case using s IH by auto
qed auto

text \<open>A member repeats its central entry, and its region starts with the 30-byte header.\<close>

definition member_of :: "CentralEntry \<Rightarrow> ZipMember \<Rightarrow> bool" where
  "member_of e m \<longleftrightarrow> m_source_name m = source_name e \<and> m_normalized_path m = normalized_path e \<and>
     m_entry_type m = entry_type e \<and> m_compression_method m = comp_method e \<and> m_crc32 m = crc32 e \<and>
     m_compressed_bytes m = compressed_bytes e \<and> m_expanded_bytes m = expanded_bytes e \<and>
     m_local_header_offset m = local_header_offset e"

lemma validate_local_entry_ok:
  assumes "validate_local_entry src co limits e = Inr (m, r)"
  shows "member_of e m \<and> r = (m_local_header_offset m, m_data_offset m + m_compressed_bytes m) \<and>
    m_local_header_offset m + 30 \<le> m_data_offset m \<and> snd r \<le> co"
  using assms unfolding validate_local_entry_def Let_def bindE_Inr_iff if_Inl_Inr_iff
  by (auto simp: member_of_def LOCAL_SIZE_def)

definition member_region :: "ZipMember \<Rightarrow> nat \<times> nat" where
  "member_region m = (m_local_header_offset m, m_data_offset m + m_compressed_bytes m)"

lemma validate_local_regions_ok:
  assumes "validate_local_regions src es co limits = Inr ms"
  shows "list_all2 member_of es ms" "distinct (map m_local_header_offset ms)"
    "\<forall>m \<in> set ms. m_local_header_offset m + 30 \<le> m_data_offset m"
    "tile 0 (sort (map member_region ms)) = Inr co"
proof -
  from assms obtain results where off: "card (set (map local_header_offset es)) = length (map local_header_offset es)"
    and tr: "list_all2 (\<lambda>e r. validate_local_entry src co limits e = Inr r) es results"
    and tl: "tile 0 (sort (map snd results)) = Inr co" and ms: "ms = map fst results"
    unfolding validate_local_regions_def Let_def bindE_Inr_iff if_Inl_Inr_iff traverseE_Inr_iff by auto
  have each: "list_all2 (\<lambda>e r. member_of e (fst r) \<and> snd r = member_region (fst r) \<and>
      m_local_header_offset (fst r) + 30 \<le> m_data_offset (fst r)) es results"
    using tr
  proof (rule list_all2_mono)
    fix e r assume "validate_local_entry src co limits e = Inr r"
    then show "member_of e (fst r) \<and> snd r = member_region (fst r) \<and>
        m_local_header_offset (fst r) + 30 \<le> m_data_offset (fst r)"
      using validate_local_entry_ok[of src co limits e "fst r" "snd r"] by (simp add: member_region_def)
  qed
  then show mem: "list_all2 member_of es ms" unfolding ms list_all2_map2 by (rule list_all2_mono) blast
  have "map m_local_header_offset ms = map local_header_offset es"
    using mem by (induction rule: list_all2_induct) (simp_all add: member_of_def)
  then show "distinct (map m_local_header_offset ms)" using card_distinct[OF off] by simp
  have rs: "\<forall>r \<in> set results. snd r = member_region (fst r) \<and> m_local_header_offset (fst r) + 30 \<le> m_data_offset (fst r)"
    using each unfolding list_all2_conv_all_nth by (metis in_set_conv_nth)
  then show "\<forall>m \<in> set ms. m_local_header_offset m + 30 \<le> m_data_offset m" unfolding ms by auto
  have "map snd results = map member_region ms" unfolding ms using rs by simp
  then show "tile 0 (sort (map member_region ms)) = Inr co" using tl by simp
qed

section \<open>What inspection establishes\<close>

lemma parse_central_length: "parse_central U data n limits = Inr es \<Longrightarrow> length es = n"
proof -
  have "length es = n" if "parse_central_loop U limits data n cursor = Inr (es, c)" for cursor c es n
    using that by (induction n arbitrary: cursor es) (auto simp: bindE_Inr_iff)
  then show "parse_central U data n limits = Inr es \<Longrightarrow> length es = n"
    by (auto simp: parse_central_def bindE_Inr_iff split: if_splits)
qed

lemma inspect_ok:
  assumes "inspect U src limits = Inr st"
  obtains es central where
    "parse_central U central (length es) limits = Inr es" "materialized_paths U es limits = Inr (materialized st)"
    "validate_local_regions src es (central_directory_offset st) limits = Inr (members st)"
    "es \<noteq> []" "int (length es) \<le> maximum_entries limits"
    "expanded_regular_file_bytes st = sum_list (map m_expanded_bytes (filter (\<lambda>m. m_entry_type m = REGULAR_FILE) (members st)))"
    "int (expanded_regular_file_bytes st) \<le> maximum_expanded_bytes limits"
    "archive_bytes st = length src" "int (length src) \<le> maximum_archive_bytes limits"
    "central_directory_offset st + central_directory_bytes st + 22 = length src"
    "int (central_directory_bytes st) \<le> maximum_central_directory_bytes limits"
proof -
  from assms obtain raw n central es where
    "length src \<ge> EOCD_SIZE" "int (length src) \<le> maximum_archive_bytes limits"
    "n \<noteq> 0" "int n \<le> maximum_entries limits"
    "int (central_directory_bytes st) \<le> maximum_central_directory_bytes limits"
    "central_directory_offset st + central_directory_bytes st = length src - EOCD_SIZE"
    "parse_central U central n limits = Inr es" "materialized_paths U es limits = Inr (materialized st)"
    "validate_local_regions src es (central_directory_offset st) limits = Inr (members st)"
    "expanded_regular_file_bytes st = sum_list (map m_expanded_bytes (filter (\<lambda>m. m_entry_type m = REGULAR_FILE) (members st)))"
    "int (expanded_regular_file_bytes st) \<le> maximum_expanded_bytes limits" "archive_bytes st = length src"
    unfolding inspect_def Let_def bindE_Inr_iff if_Inl_Inr_iff not_less de_Morgan_disj insert_iff
    by (elim exE conjE) (auto simp: not_less)
  moreover from this have "length es = n" using parse_central_length by blast
  ultimately show thesis using that[of central es] by (auto simp: EOCD_SIZE_def)
qed

lemma disjoint_regions:
  fixes x :: nat
  assumes "sorted_wrt (\<lambda>r r'. snd r \<le> fst r') rs" "r \<in> set rs" "r' \<in> set rs" "r \<noteq> r'"
    "fst r \<le> x" "x < snd r" "fst r' \<le> x" "x < snd r'"
  shows False
proof -
  obtain i j where ij: "i < length rs" "j < length rs" "r = rs ! i" "r' = rs ! j"
    using assms(2,3) by (metis in_set_conv_nth)
  then have "i \<noteq> j" using assms(4) by blast
  then have "snd r \<le> fst r' \<or> snd r' \<le> fst r"
    using assms(1) ij unfolding sorted_wrt_iff_nth_less by (metis nat_neq_iff)
  then show False using assms(5-8) by linarith
qed

lemma members_of_entries:
  assumes "list_all2 member_of es ms" "m \<in> set ms"
  obtains e where "e \<in> set es" "member_of e m"
  using assms by (metis in_set_conv_nth list_all2_conv_all_nth)

lemma entries_of_members:
  assumes "list_all2 member_of es ms" "e \<in> set es"
  obtains m where "m \<in> set ms" "member_of e m"
  using assms by (metis in_set_conv_nth list_all2_conv_all_nth)

lemma materialized_prefix:
  assumes "\<forall>e \<in> set es. name_ok U limits (source_name e) (normalized_path e)"
    and "p \<in> claim_path ` set (all_claims es)"
  obtains e d where "e \<in> set es" "1 \<le> d" "d \<le> length (split_on SLASH (normalized_path e))"
    "p = join_on SLASH (take d (split_on SLASH (normalized_path e)))"
    "split_on SLASH p = take d (split_on SLASH (normalized_path e))"
proof -
  from assms(2) obtain e where e: "e \<in> set es" "p \<in> claim_path ` set (entry_claims e)" by auto
  then have nm: "name_ok U limits (source_name e) (normalized_path e)" using assms(1) by blast
  then obtain d where d: "1 \<le> d" "d \<le> length (split_on SLASH (normalized_path e))"
      "p = join_on SLASH (take d (split_on SLASH (normalized_path e)))"
    using e(2) entry_claim_paths[OF nm] by auto
  have "split_on SLASH p = take d (split_on SLASH (normalized_path e))"
    unfolding d(3) using d(1) split_on_parts[of _ SLASH "normalized_path e"]
    by (intro split_join_on) (auto dest: in_set_takeD)
  then show thesis using that e(1) d by blast
qed

lemma claims_closed:
  assumes "\<forall>e \<in> set es. name_ok U limits (source_name e) (normalized_path e)"
    and "p \<in> claim_path ` set (all_claims es)" "1 \<le> k" "k \<le> length (split_on SLASH p)"
  shows "join_on SLASH (take k (split_on SLASH p)) \<in> claim_path ` set (all_claims es)"
proof -
  obtain e d where e: "e \<in> set es" "d \<le> length (split_on SLASH (normalized_path e))"
    "split_on SLASH p = take d (split_on SLASH (normalized_path e))"
    using materialized_prefix[OF assms(1,2)] by blast
  then have k: "k \<le> d" "take k (split_on SLASH p) = take k (split_on SLASH (normalized_path e))"
    using assms(4) by (simp_all add: min_absorb1)
  then have "join_on SLASH (take k (split_on SLASH p)) \<in> claim_path ` set (entry_claims e)"
    using entry_claim_paths[of U limits e] assms(1,3) e by auto
  then show ?thesis using e(1) by auto
qed

lemma file_is_leaf:
  assumes names: "\<forall>e \<in> set es. name_ok U limits (source_name e) (normalized_path e)"
    and agr: "agreeing U (set (all_claims es))"
    and f: "f \<in> set es" "entry_type f = REGULAR_FILE"
    and p: "p \<in> claim_path ` set (all_claims es)" "p = normalized_path f @ [SLASH] @ rest"
  shows False
proof -
  obtain e d where e: "e \<in> set es" "d \<le> length (split_on SLASH (normalized_path e))"
    "split_on SLASH p = take d (split_on SLASH (normalized_path e))"
    using materialized_prefix[OF names p(1)] by blast
  let ?k = "length (split_on SLASH (normalized_path f))"
  have sp: "split_on SLASH p = split_on SLASH (normalized_path f) @ split_on SLASH rest" unfolding p(2) by (simp add: split_on_append_sep)
  have "length (split_on SLASH p) \<le> d" unfolding e(3) by simp
  moreover have "0 < length (split_on SLASH rest)" "0 < ?k" by simp_all
  ultimately have k: "1 \<le> ?k" "?k < d" unfolding sp length_append by linarith+
  then have "?k < length (split_on SLASH (normalized_path e))" using e(2) by simp
  moreover have "take ?k (split_on SLASH (normalized_path e)) = split_on SLASH (normalized_path f)"
  proof -
    have "take ?k (split_on SLASH (normalized_path e)) = take ?k (split_on SLASH p)" unfolding e(3) using k(2) by (simp add: min_absorb1)
    then show ?thesis unfolding sp by simp
  qed
  ultimately obtain c where c: "c \<in> set (entry_claims e)" "claim_path c = normalized_path f" "claim_type c = DIRECTORY"
    using directory_claim[of U limits e ?k] names e(1) k(1) by auto
  then have "c \<in> set (all_claims es)" using e(1) by auto
  then have "claim_type c = entry_type f" using agr entry_claim[OF f(1)] c(2) unfolding agreeing_def by fastforce
  then show False using c(3) f(2) by simp
qed

section \<open>A sample archive\<close>

text \<open>One stored member \<^verbatim>\<open>index.html\<close> with the single byte \<^verbatim>\<open>A\<close>.\<close>

definition sample_local :: bytes where
  "sample_local =
     [80, 75, 3, 4, 20, 0, 0, 0, 0, 0, 0, 0, 0, 0, 139, 158, 217, 211, 1, 0, 0, 0, 1, 0,
      0, 0, 10, 0, 0, 0, 105, 110, 100, 101, 120, 46, 104, 116, 109, 108, 65]"

definition sample_central :: bytes where
  "sample_central =
     [80, 75, 1, 2, 20, 0, 20, 0, 0, 0, 0, 0, 0, 0, 0, 0, 139, 158, 217, 211, 1, 0, 0, 0,
      1, 0, 0, 0, 10, 0, 0, 0, 0, 0, 0, 0, 0, 0, 0, 0, 0, 0, 0, 0, 0, 0, 105, 110,
      100, 101, 120, 46, 104, 116, 109, 108]"

definition sample_eocd :: bytes where
  "sample_eocd =
     [80, 75, 5, 6, 0, 0, 0, 0, 1, 0, 1, 0, 56, 0, 0, 0, 41, 0, 0, 0, 0, 0]"

definition sample_zip :: bytes where
  "sample_zip = sample_local @ sample_central @ sample_eocd"

lemma sample_unpacked:
  "unpack_eocd sample_eocd = \<lparr>e_signature = EOCD_SIGNATURE, e_disk_number = 0, e_central_disk = 0,
     e_records_on_disk = 1, e_record_count = 1, e_central_bytes = 56, e_central_offset = 41, e_comment_bytes = 0\<rparr>"
  "unpack_central (take 46 sample_central) = \<lparr>c_signature = CENTRAL_SIGNATURE, c_made_by = 20, c_version_needed = 20,
     c_flags = 0, c_method = 0, c_modified_time = 0, c_modified_date = 0, c_crc32 = 3554254475, c_compressed_bytes = 1,
     c_expanded_bytes = 1, c_name_bytes = 10, c_extra_bytes = 0, c_comment_bytes = 0, c_disk_number = 0,
     c_internal_attributes = 0, c_external_attributes = 0, c_local_header_offset = 0\<rparr>"
  "unpack_local (take 30 sample_local) = \<lparr>l_signature = LOCAL_SIGNATURE, l_version_needed = 20, l_flags = 0,
     l_method = 0, l_modified_time = 0, l_modified_date = 0, l_crc32 = 3554254475, l_compressed_bytes = 1,
     l_expanded_bytes = 1, l_name_bytes = 10, l_extra_bytes = 0\<rparr>"
  by (simp_all add: unpack_eocd_def unpack_central_def unpack_local_def le_field_def slice_def sample_eocd_def
      sample_central_def sample_local_def EOCD_SIGNATURE_def CENTRAL_SIGNATURE_def LOCAL_SIGNATURE_def)

definition index_name :: utext where
  "index_name = [105, 110, 100, 101, 120, 46, 104, 116, 109, 108]"

definition sample_entry :: CentralEntry where
  "sample_entry = \<lparr>made_by = 20, version_needed = 20, flags = 0, comp_method = 0, modified_time = 0,
     modified_date = 0, crc32 = 3554254475, compressed_bytes = 1, expanded_bytes = 1, external_attributes = 0,
     local_header_offset = 0, raw_name = [105, 110, 100, 101, 120, 46, 104, 116, 109, 108],
     source_name = index_name, normalized_path = index_name, entry_type = REGULAR_FILE\<rparr>"

lemma index_name_code_points: "index_name = code_points ''index.html''"
  by (simp add: index_name_def code_points_def char_code_def)

lemma sample_name:
  "decode_name ascii_unicode [105, 110, 100, 101, 120, 46, 104, 116, 109, 108] 0 DEFAULT_ZIP_LIMITS
     = Inr (index_name, index_name, False)"
proof -
  have "SLASH \<notin> set index_name" by (simp add: index_name_def)
  then have "\<not> double_slash index_name" unfolding double_slash_def by (metis nth_mem less_diff_conv add_lessD1)
  then show ?thesis
    by (simp add: decode_name_def ascii_decode_def index_name_def normalize_component_def ascii_unicode_def is_control_def
        utf8_bytes_def utf8_char_def DEFAULT_ZIP_LIMITS_def zip_constants DRIVE_PREFIX_BYTES_def code_points_def
        char_code_def UTF8_FLAG_def Let_def)
qed

lemma sample_parse: "parse_central ascii_unicode sample_central 1 DEFAULT_ZIP_LIMITS = Inr [sample_entry]"
proof -
  have "length sample_central = 56" "slice 0 46 sample_central = take 46 sample_central" "slice 56 56 sample_central = []"
    "slice 46 56 sample_central = [105, 110, 100, 101, 120, 46, 104, 116, 109, 108]"
    by (simp_all add: sample_central_def slice_def)
  moreover have "validate_flags_and_method 0 0 = Inr ()"
    by (simp add: validate_flags_and_method_def STORED_METHOD_def)
  moreover have "entry_type_of 20 0 False = Inr REGULAR_FILE"
    by (simp add: entry_type_of_def UNIX_MADE_BY_HOST_def)
  moreover have "validate_entry_sizes DEFAULT_ZIP_LIMITS REGULAR_FILE 0 3554254475 1 1 = Inr ()"
    by (simp add: validate_entry_sizes_def DEFAULT_ZIP_LIMITS_def zip_constants)
  moreover have "validate_extra [] True = Inr ()" by (simp add: validate_extra_def validate_extra_loop.simps)
  moreover have "maximum_extra_bytes DEFAULT_ZIP_LIMITS = 1024" by (simp add: DEFAULT_ZIP_LIMITS_def zip_constants)
  ultimately show ?thesis
    using sample_unpacked(2)
    by (simp add: parse_central_def parse_central_record_def CENTRAL_SIZE_def central_entry_def sample_name
        sample_entry_def MAXIMUM_DECODER_VERSION_def ZIP64_SENTINEL_32_def Let_def)
qed

lemma sample_paths: "materialized_paths ascii_unicode [sample_entry] DEFAULT_ZIP_LIMITS = Inr [index_name]"
proof -
  have "split_on SLASH index_name = [index_name]" by (rule split_on_no_sep) (simp add: index_name_def)
  then have "entry_claims sample_entry = [\<lparr>claim_source = index_name, claim_path = index_name,
      claim_type = REGULAR_FILE, claim_explicit = True\<rparr>]"
    by (simp add: entry_claims_def sample_entry_def Let_def)
  moreover have "maximum_entries DEFAULT_ZIP_LIMITS = 5000" by (simp add: DEFAULT_ZIP_LIMITS_def zip_constants)
  ultimately show ?thesis
    by (simp add: materialized_paths_def add_claim_def setdefault_def Let_def index_name_code_points[symmetric])
qed

definition sample_member :: ZipMember where
  "sample_member = \<lparr>m_source_name = index_name, m_normalized_path = index_name, m_entry_type = REGULAR_FILE,
     m_compression_method = 0, m_crc32 = 3554254475, m_compressed_bytes = 1, m_expanded_bytes = 1,
     m_local_header_offset = 0, m_data_offset = 40\<rparr>"

lemma sample_regions: "validate_local_regions sample_zip [sample_entry] 41 DEFAULT_ZIP_LIMITS = Inr [sample_member]"
proof -
  have len: "length sample_zip = 119"
    by (simp add: sample_zip_def sample_local_def sample_central_def sample_eocd_def)
  have "slice 0 30 sample_zip = take 30 sample_local" "slice 30 40 sample_zip = [105, 110, 100, 101, 120, 46, 104, 116, 109, 108]"
    "slice 40 40 sample_zip = []"
    by (simp_all add: sample_zip_def slice_def sample_local_def)
  moreover have "maximum_extra_bytes DEFAULT_ZIP_LIMITS = 1024" by (simp add: DEFAULT_ZIP_LIMITS_def zip_constants)
  moreover have "validate_extra [] False = Inr ()" by (simp add: validate_extra_def validate_extra_loop.simps)
  ultimately have "validate_local_entry sample_zip 41 DEFAULT_ZIP_LIMITS sample_entry = Inr (sample_member, (0, 41))"
    using sample_unpacked(3) len
    by (simp add: validate_local_entry_def source_read_def LOCAL_SIZE_def Let_def sample_entry_def sample_member_def)
  then show ?thesis by (simp add: validate_local_regions_def)
qed

definition sample_structure :: ZipStructure where
  "sample_structure = \<lparr>archive_bytes = 119, central_directory_offset = 41, central_directory_bytes = 56,
     members = [sample_member], materialized = [index_name], expanded_regular_file_bytes = 1\<rparr>"

lemma sample_inspect: "inspect ascii_unicode sample_zip DEFAULT_ZIP_LIMITS = Inr sample_structure"
proof -
  have len: "length sample_zip = 119" and "slice 97 119 sample_zip = sample_eocd" "slice 41 97 sample_zip = sample_central"
    by (simp_all add: sample_zip_def slice_def sample_local_def sample_central_def sample_eocd_def)
  moreover have "maximum_archive_bytes DEFAULT_ZIP_LIMITS = 104857600" "maximum_entries DEFAULT_ZIP_LIMITS = 5000"
    "maximum_central_directory_bytes DEFAULT_ZIP_LIMITS = 8388608" "maximum_expanded_bytes DEFAULT_ZIP_LIMITS = 104857600"
    by (simp_all add: DEFAULT_ZIP_LIMITS_def zip_constants)
  ultimately show ?thesis
    using sample_unpacked(1) sample_parse sample_paths sample_regions
    by (simp add: inspect_def source_read_def EOCD_SIZE_def Let_def ZIP64_SENTINEL_16_def ZIP64_SENTINEL_32_def
        sample_structure_def sample_member_def)
qed

section \<open>Properties\<close>

text \<open>C31. An accepted archive has nothing hidden between its members: every byte before the central
  directory belongs to exactly one member's local header, name, extra field or data, and the
  directory is followed by the end record and the end of the file.\<close>

theorem zip_regions_tile_archive:
  assumes "inspect U src limits = Inr st"
  shows "(\<forall>x < central_directory_offset st. \<exists>!m. m \<in> set (members st) \<and>
      m_local_header_offset m \<le> x \<and> x < m_data_offset m + m_compressed_bytes m) \<and>
    (\<forall>m \<in> set (members st). m_data_offset m + m_compressed_bytes m \<le> central_directory_offset st) \<and>
    central_directory_offset st + central_directory_bytes st + 22 = length src"
proof -
  obtain es where v: "validate_local_regions src es (central_directory_offset st) limits = Inr (members st)"
    and sz: "central_directory_offset st + central_directory_bytes st + 22 = length src"
    by (rule inspect_ok[OF assms])
  note R = validate_local_regions_ok[OF v]
  note T = tile_covers[OF R(4)]
  have inj: "m = m'" if "m \<in> set (members st)" "m' \<in> set (members st)" "member_region m = member_region m'" for m m'
    using R(2) that by (auto simp: member_region_def distinct_map dest: inj_onD)
  have uniq: "\<exists>!m. m \<in> set (members st) \<and> m_local_header_offset m \<le> x \<and> x < m_data_offset m + m_compressed_bytes m"
    if "x < central_directory_offset st" for x
  proof (rule ex_ex1I)
    have "\<exists>r \<in> set (sort (map member_region (members st))). fst r \<le> x \<and> x < snd r" using T that by blast
    then show "\<exists>m. m \<in> set (members st) \<and> m_local_header_offset m \<le> x \<and> x < m_data_offset m + m_compressed_bytes m"
      by (auto simp: member_region_def)
    fix m m'
    assume m: "m \<in> set (members st) \<and> m_local_header_offset m \<le> x \<and> x < m_data_offset m + m_compressed_bytes m"
      and m': "m' \<in> set (members st) \<and> m_local_header_offset m' \<le> x \<and> x < m_data_offset m' + m_compressed_bytes m'"
    show "m = m'"
    proof (rule ccontr)
      assume "m \<noteq> m'"
      then have ne: "member_region m \<noteq> member_region m'" using inj m m' by blast
      show False
        by (rule disjoint_regions[of "sort (map member_region (members st))" "member_region m" "member_region m'" x])
          (use T m m' ne in \<open>auto simp: member_region_def\<close>)
    qed
  qed
  have "m_data_offset m + m_compressed_bytes m \<le> central_directory_offset st" if m: "m \<in> set (members st)" for m
  proof (rule ccontr)
    let ?x = "m_data_offset m + m_compressed_bytes m - 1"
    assume "\<not> ?thesis"
    moreover have "m_local_header_offset m + 30 \<le> m_data_offset m" using R(3) m by blast
    ultimately have "m_local_header_offset m \<le> ?x" "?x < m_data_offset m + m_compressed_bytes m"
      "\<not> ?x < central_directory_offset st" by linarith+
    then have "\<exists>r \<in> set (sort (map member_region (members st))). fst r \<le> ?x \<and> ?x < snd r"
      using m by (auto simp: member_region_def)
    then show False using T \<open>\<not> ?x < central_directory_offset st\<close> by blast
  qed
  then show ?thesis using uniq sz by blast
qed

theorem zip_regions_tile_archive_witness:
  "\<exists>!m. m \<in> set (members sample_structure) \<and> m_local_header_offset m \<le> 40 \<and> 40 < m_data_offset m + m_compressed_bytes m"
  using zip_regions_tile_archive[OF sample_inspect] by (simp add: sample_structure_def)

lemma limits_committed:
  assumes "ZipLimits_post_init l = Inr limits"
  shows "0 \<le> maximum_expansion_ratio limits" "maximum_expansion_ratio limits \<le> 100"
    "maximum_file_bytes limits \<le> 25 * 2 ^ 20" "maximum_expanded_bytes limits \<le> 100 * 2 ^ 20"
    "maximum_entries limits \<le> 5000" "maximum_path_depth limits \<le> 32" "maximum_path_bytes limits \<le> 1024"
  using assms unfolding ZipLimits_post_init_def if_Inl_Inr_iff
  by (auto simp: limit_values_def zip_constants)

lemma default_limits_ok: "ZipLimits_post_init DEFAULT_ZIP_LIMITS = Inr DEFAULT_ZIP_LIMITS"
  by (simp add: ZipLimits_post_init_def limit_values_def DEFAULT_ZIP_LIMITS_def zip_constants)

lemma inspect_entries:
  assumes "unicode_ok U" "ZipLimits_post_init l = Inr limits" "inspect U src limits = Inr st"
  obtains es where "\<forall>e \<in> set es. entry_ok U limits e" "materialized_paths U es limits = Inr (materialized st)"
    "list_all2 member_of es (members st)" "es \<noteq> []" "int (length es) \<le> maximum_entries limits"
proof -
  obtain es central where "parse_central U central (length es) limits = Inr es"
    and mat: "materialized_paths U es limits = Inr (materialized st)"
    and loc: "validate_local_regions src es (central_directory_offset st) limits = Inr (members st)"
    and ne: "es \<noteq> []" "int (length es) \<le> maximum_entries limits"
    by (rule inspect_ok[OF assms(3)])
  then have "list_all (entry_ok U limits) es"
    using parse_central_ok[OF assms(1) limits_committed(1)[OF assms(2)]] by blast
  then show thesis using that mat ne validate_local_regions_ok(1)[OF loc] by (simp add: list_all_iff)
qed

text \<open>C29. An accepted archive cannot escape its staging directory: every path it would create is a
  nonempty sequence of at most 32 components, none of them empty, \<^verbatim>\<open>.\<close> or \<^verbatim>\<open>..\<close>, none with a
  separator, a backslash or a control character, so no path is absolute or climbs upwards.\<close>

theorem zip_paths_stay_below_root:
  assumes "unicode_ok U" "ZipLimits_post_init l = Inr limits" "inspect U src limits = Inr st"
    and "p \<in> set (materialized st)"
  shows "list_all safe_component (split_on SLASH p) \<and> split_on SLASH p \<noteq> [] \<and> length (split_on SLASH p) \<le> 32"
proof -
  obtain es where es: "\<forall>e \<in> set es. entry_ok U limits e" and mat: "materialized_paths U es limits = Inr (materialized st)"
    by (rule inspect_entries[OF assms(1-3)])
  have names: "\<forall>e \<in> set es. name_ok U limits (source_name e) (normalized_path e)" using es by (simp add: entry_ok_def)
  have "p \<in> claim_path ` set (all_claims es)" using assms(4) materialized_paths_ok(1)[OF mat] by simp
  then obtain e d where e: "e \<in> set es" "d \<le> length (split_on SLASH (normalized_path e))"
    and sp: "split_on SLASH p = take d (split_on SLASH (normalized_path e))"
    using materialized_prefix[OF names] by blast
  have nm: "name_ok U limits (source_name e) (normalized_path e)" using names e(1) by blast
  have "list_all safe_component (split_on SLASH (normalized_path e))"
    using nm entry_components(1)[OF nm] by (simp add: name_ok_def)
  then have "list_all safe_component (split_on SLASH p)" unfolding sp by (auto simp: list_all_iff dest: in_set_takeD)
  moreover have "int (length (split_on SLASH (normalized_path e))) \<le> 32"
    using nm entry_components(2)[OF nm] limits_committed(6)[OF assms(2)] by (simp add: name_ok_def)
  then have "length (split_on SLASH p) \<le> 32" unfolding sp by simp
  ultimately show ?thesis by simp
qed

theorem zip_paths_stay_below_root_witness:
  "list_all safe_component (split_on SLASH index_name)"
  using zip_paths_stay_below_root[OF ascii_unicode_ok default_limits_ok sample_inspect, of index_name]
  by (simp add: sample_structure_def)

text \<open>C30. What an accepted archive would create is a tree without ambiguity: parents of a path are
  paths too, nothing lies below a regular file, no member path is repeated, no two paths
  fold to the same name on a case-insensitive reader, and there is a regular file
  \<^verbatim>\<open>index.html\<close> at the root.\<close>

theorem zip_tree_consistent:
  assumes "unicode_ok U" "ZipLimits_post_init l = Inr limits" "inspect U src limits = Inr st"
  shows "(\<forall>p \<in> set (materialized st). \<forall>k. 1 \<le> k \<and> k \<le> length (split_on SLASH p) \<longrightarrow>
      join_on SLASH (take k (split_on SLASH p)) \<in> set (materialized st)) \<and>
    (\<forall>m \<in> set (members st). m_entry_type m = REGULAR_FILE \<longrightarrow>
      (\<forall>rest. m_normalized_path m @ [SLASH] @ rest \<notin> set (materialized st))) \<and>
    distinct (map m_normalized_path (members st)) \<and>
    set (map m_normalized_path (members st)) \<subseteq> set (materialized st) \<and>
    (\<forall>p \<in> set (materialized st). \<forall>q \<in> set (materialized st). folded_path U p = folded_path U q \<longrightarrow> p = q) \<and>
    (\<exists>m \<in> set (members st). m_normalized_path m = code_points ''index.html'' \<and> m_entry_type m = REGULAR_FILE)"
proof -
  obtain es where es: "\<forall>e \<in> set es. entry_ok U limits e" and mat: "materialized_paths U es limits = Inr (materialized st)"
    and mem: "list_all2 member_of es (members st)"
    by (rule inspect_entries[OF assms])
  have names: "\<forall>e \<in> set es. name_ok U limits (source_name e) (normalized_path e)" using es by (simp add: entry_ok_def)
  note M = materialized_paths_ok[OF mat]
  have paths: "map m_normalized_path (members st) = map normalized_path es"
    using mem by (induction rule: list_all2_induct) (simp_all add: member_of_def)
  have closed: "join_on SLASH (take k (split_on SLASH p)) \<in> set (materialized st)"
    if "p \<in> set (materialized st)" "1 \<le> k" "k \<le> length (split_on SLASH p)" for p k
    using claims_closed[OF names _ that(2,3)] that(1) M(1) by simp
  have leaf: "m_normalized_path m @ [SLASH] @ rest \<notin> set (materialized st)"
    if m: "m \<in> set (members st)" "m_entry_type m = REGULAR_FILE" for m rest
  proof
    assume p: "m_normalized_path m @ [SLASH] @ rest \<in> set (materialized st)"
    obtain e where e: "e \<in> set es" "member_of e m" by (rule members_of_entries[OF mem m(1)])
    then have "entry_type e = REGULAR_FILE" "m_normalized_path m @ [SLASH] @ rest = normalized_path e @ [SLASH] @ rest"
      using m(2) by (simp_all add: member_of_def)
    from file_is_leaf[OF names M(4) e(1) this(1) p[unfolded M(1)] this(2)] show False .
  qed
  have sub: "set (map m_normalized_path (members st)) \<subseteq> set (materialized st)"
    unfolding paths M(1) using entry_claim by force
  have fold: "p = q" if "p \<in> set (materialized st)" "q \<in> set (materialized st)" "folded_path U p = folded_path U q" for p q
    using that M(1,4) unfolding agreeing_def by auto
  obtain e where e: "e \<in> set es" "normalized_path e = code_points ''index.html''" "entry_type e = REGULAR_FILE"
    using M(7) by blast
  obtain m where "m \<in> set (members st)" "member_of e m" by (rule entries_of_members[OF mem e(1)])
  then have "\<exists>m \<in> set (members st). m_normalized_path m = code_points ''index.html'' \<and> m_entry_type m = REGULAR_FILE"
    using e by (auto simp: member_of_def)
  then show ?thesis using closed leaf sub fold M(5) unfolding paths[symmetric] by blast
qed

theorem zip_tree_consistent_witness:
  "\<exists>m \<in> set (members sample_structure). m_normalized_path m = code_points ''index.html'' \<and> m_entry_type m = REGULAR_FILE"
  using zip_tree_consistent[OF ascii_unicode_ok default_limits_ok sample_inspect] by blast

text \<open>An accepted archive is no decompression bomb by its own declaration: at most 5,000 members and
  created paths, each file at most 25 MiB and at most a hundred times its compressed size,
  all files together at most 100 MiB, stored files as large as their data, and directories
  without data.\<close>

theorem zip_sizes_bounded:
  assumes "unicode_ok U" "ZipLimits_post_init l = Inr limits" "inspect U src limits = Inr st"
  shows "length (members st) \<le> 5000 \<and> length (materialized st) \<le> 5000 \<and>
    sum_list (map m_expanded_bytes (filter (\<lambda>m. m_entry_type m = REGULAR_FILE) (members st))) \<le> 100 * 2 ^ 20 \<and>
    (\<forall>m \<in> set (members st).
       if m_entry_type m = DIRECTORY then m_compressed_bytes m = 0 \<and> m_expanded_bytes m = 0
       else m_expanded_bytes m \<le> 25 * 2 ^ 20 \<and> m_expanded_bytes m \<le> 100 * m_compressed_bytes m \<and>
         (m_compression_method m = 0 \<longrightarrow> m_compressed_bytes m = m_expanded_bytes m))"
proof -
  obtain es where es: "\<forall>e \<in> set es. entry_ok U limits e" and mat: "materialized_paths U es limits = Inr (materialized st)"
    and mem: "list_all2 member_of es (members st)" and ne: "es \<noteq> []" "int (length es) \<le> maximum_entries limits"
    by (rule inspect_entries[OF assms])
  note L = limits_committed[OF assms(2)]
  have ratio: "int x * maximum_expansion_ratio limits \<le> 100 * int x" for x
    using L(2) mult_right_mono[of "maximum_expansion_ratio limits" 100 "int x"] by (simp add: mult.commute)
  have each: "if m_entry_type m = DIRECTORY then m_compressed_bytes m = 0 \<and> m_expanded_bytes m = 0
       else m_expanded_bytes m \<le> 25 * 2 ^ 20 \<and> m_expanded_bytes m \<le> 100 * m_compressed_bytes m \<and>
         (m_compression_method m = 0 \<longrightarrow> m_compressed_bytes m = m_expanded_bytes m)" if m: "m \<in> set (members st)" for m
  proof -
    obtain e where e: "e \<in> set es" "member_of e m" by (rule members_of_entries[OF mem m])
    then have "entry_ok U limits e" using es by blast
    moreover have "int (expanded_bytes e) \<le> 100 * int (compressed_bytes e)"
      if "int (expanded_bytes e) \<le> int (compressed_bytes e) * maximum_expansion_ratio limits"
      using that ratio[of "compressed_bytes e"] by linarith
    ultimately show ?thesis using e(2) L(3) by (auto simp: entry_ok_def member_of_def split: if_splits)
  qed
  have "length (members st) = length es" using mem by (simp add: list_all2_lengthD)
  moreover have "int (length (materialized st)) \<le> maximum_entries limits" using materialized_paths_ok(6)[OF mat ne(1)] .
  ultimately have counts: "length (members st) \<le> 5000" "length (materialized st) \<le> 5000"
    using ne(2) L(5) by linarith+
  define S where "S = sum_list (map m_expanded_bytes (filter (\<lambda>m. m_entry_type m = REGULAR_FILE) (members st)))"
  have "int S \<le> maximum_expanded_bytes limits" unfolding S_def by (rule inspect_ok[OF assms(3)]) simp
  then have "int S \<le> 100 * 2 ^ 20" using L(4) by (rule order_trans)
  then have "S \<le> 100 * 2 ^ 20" by simp
  then show ?thesis using counts each unfolding S_def by blast
qed

theorem zip_sizes_bounded_witness: "length (members sample_structure) \<le> 5000"
  using zip_sizes_bounded[OF ascii_unicode_ok default_limits_ok sample_inspect] by blast

end
