(* ===== verification/Zip_Extraction.thy ===== *)
theory Zip_Extraction
  imports Zip_Structure Capacity
begin

unbundle bit_operations_syntax

text \<open>
  The pure decisions of the extraction half of \<^verbatim>\<open>static_host_agent/zip_structure.py\<close>: the checks on
  the snapshot and staging inodes, the worst-case reservation, and the order in which
  directories and files are created. The inode metadata \<^verbatim>\<open>fstat\<close> returns is a record. Reading the
  Deflate streams and writing the files is not modelled.
\<close>

section \<open>Inode checks\<close>

record stat_result =
  st_mode :: nat
  st_ino :: int
  st_dev :: int
  st_nlink :: int
  st_uid :: int
  st_gid :: int
  st_size :: int
  st_blocks :: int
  st_mtime_ns :: int
  st_ctime_ns :: int

definition S_IMODE :: "nat \<Rightarrow> nat" where "S_IMODE md = md AND 0xFFF"

definition validate_snapshot :: "stat_result \<Rightarrow> int \<Rightarrow> nat \<Rightarrow> ZipLimits \<Rightarrow> zip_exn + stat_result" where
  "validate_snapshot metadata expected_owner expected_mode limits =
     (if S_IFMT (st_mode metadata) \<noteq> S_IFREG \<or> st_uid metadata \<noteq> expected_owner
         \<or> S_IMODE (st_mode metadata) \<noteq> expected_mode \<or> st_nlink metadata \<noteq> 1
      then Inl (ZipStructureError ''ZIP snapshot has an unsafe inode shape'')
      else if st_size metadata > maximum_archive_bytes limits
      then Inl (ZipStructureError ''ZIP snapshot crosses its compressed-byte boundary'')
      else Inr metadata)"

definition metadata_generation :: "stat_result \<Rightarrow> int list" where
  "metadata_generation metadata =
     [st_dev metadata, st_ino metadata, int (st_mode metadata), st_uid metadata, st_gid metadata,
      st_nlink metadata, st_size metadata, st_blocks metadata, st_mtime_ns metadata, st_ctime_ns metadata]"

definition STAGING_PARENT_MODE :: nat where "STAGING_PARENT_MODE = 0x1C0"

definition validate_staging_parent :: "stat_result \<Rightarrow> int \<Rightarrow> zip_exn + stat_result" where
  "validate_staging_parent metadata expected_owner =
     (if S_IFMT (st_mode metadata) \<noteq> S_IFDIR \<or> st_uid metadata \<noteq> expected_owner
         \<or> S_IMODE (st_mode metadata) \<noteq> STAGING_PARENT_MODE
      then Inl (ZipExtractionError ''ZIP staging parent has an unsafe inode shape'')
      else Inr metadata)"

definition validate_staging_name :: "unicode \<Rightarrow> utext \<Rightarrow> zip_exn + unit" where
  "validate_staging_name U name =
     (if name = [] \<or> name \<in> {[DOT], [DOT, DOT]} \<or> SLASH \<in> set name \<or> BACKSLASH \<in> set name \<or> 0 \<in> set name
         \<or> (name \<noteq> [] \<and> hd name = SLASH) \<or> nfc U name \<noteq> name \<or> (\<exists>c \<in> set name. is_control c)
      then Inl (ZipValueError ''ZIP staging name must be one canonical relative component'')
      else Inr ())"

section \<open>Reservation\<close>

definition extraction_reservation :: "ZipStructure \<Rightarrow> int \<Rightarrow> int \<Rightarrow> zip_exn + CapacityReservation" where
  "extraction_reservation structure frsize bsize =
     (let fragment = (if frsize \<noteq> 0 then frsize else bsize) in
      if fragment \<le> 0
      then Inl (ZipExtractionError ''ZIP staging filesystem has no allocation fragment'')
      else
        let file_allocation = sum_list (map (\<lambda>m. (int (m_expanded_bytes m) + fragment - 1) div fragment * fragment)
              (filter (\<lambda>m. m_entry_type m = REGULAR_FILE) (members structure)));
            namespace_allocation = fragment * (int (length (materialized structure)) + 1)
        in mapE (\<lambda>e. ZipValueError ''capacity reservation must be nonnegative'')
             (CapacityReservation_post_init
               \<lparr>reserved_bytes = file_allocation + namespace_allocation,
                reserved_inodes = int (length (materialized structure)) + 1\<rparr>))"

section \<open>Creation order\<close>

definition extracted_directories :: "ZipStructure \<Rightarrow> utext list" where
  "extracted_directories structure =
     (let regular = map m_normalized_path (filter (\<lambda>m. m_entry_type m = REGULAR_FILE) (members structure))
      in filter (\<lambda>p. p \<notin> set regular) (materialized structure))"

definition split_components :: "utext \<Rightarrow> utext list \<times> utext" where
  "split_components path = (let components = split_on SLASH path in (butlast components, last components))"

definition slash_count :: "utext \<Rightarrow> nat" where
  "slash_count path = length (filter (\<lambda>c. c = SLASH) path)"

definition directory_order :: "ZipStructure \<Rightarrow> utext list" where
  "directory_order structure = sort_key (\<lambda>p. (slash_count p, utf8_bytes p)) (extracted_directories structure)"

definition regular_order :: "ZipStructure \<Rightarrow> ZipMember list" where
  "regular_order structure =
     sort_key (\<lambda>m. utf8_bytes (m_normalized_path m)) (filter (\<lambda>m. m_entry_type m = REGULAR_FILE) (members structure))"

definition validate_expanded_chunk :: "nat \<Rightarrow> bytes \<Rightarrow> ZipMember \<Rightarrow> ZipLimits \<Rightarrow> zip_exn + nat" where
  "validate_expanded_chunk expanded data member limits =
     (let projected = expanded + length data in
      if projected > m_expanded_bytes member \<or> int projected > maximum_file_bytes limits
      then Inl (ZipExtractionError ''ZIP observed file bytes cross their declared boundary'')
      else Inr projected)"

section \<open>Parents first\<close>

lemma slash_count_split: "Suc (slash_count p) = length (split_on SLASH p)"
  unfolding slash_count_def
proof (induction p)
  case (Cons c p)
  then show ?case by (cases "split_on SLASH p") auto
qed simp

definition parent_path :: "utext \<Rightarrow> utext" where
  "parent_path p = join_on SLASH (fst (split_components p))"

lemma sorted_key_before:
  assumes "sorted (map k xs)" "a \<in> set xs" "b \<in> set xs" "k a < (k b :: 'b::linorder)"
  obtains us vs where "xs = us @ b # vs" "a \<in> set us"
proof -
  obtain us vs where xs: "xs = us @ b # vs" using assms(3) by (meson split_list)
  have "a \<in> set us"
  proof (rule ccontr)
    assume "a \<notin> set us"
    then have "a = b \<or> a \<in> set vs" using assms(2) xs by auto
    then have "k b \<le> k a" using assms(1) unfolding xs by (auto simp: sorted_append)
    then show False using assms(4) by simp
  qed
  then show thesis using that xs by blast
qed

lemma parent_is_directory:
  assumes "unicode_ok U" "ZipLimits_post_init l = Inr limits" "inspect U src limits = Inr st"
    and "p \<in> set (materialized st)" "1 < length (split_on SLASH p)"
  shows "parent_path p \<in> set (extracted_directories st)" "slash_count (parent_path p) < slash_count p"
proof -
  let ?k = "length (split_on SLASH p) - 1"
  have parent: "parent_path p = join_on SLASH (take ?k (split_on SLASH p))"
    by (simp add: parent_path_def split_components_def Let_def butlast_conv_take)
  have sp: "split_on SLASH (parent_path p) = take ?k (split_on SLASH p)"
    unfolding parent using assms(5) split_on_parts[of _ SLASH p] by (intro split_join_on) (auto dest: in_set_takeD)
  then have "length (split_on SLASH (parent_path p)) < length (split_on SLASH p)" using assms(5) by simp
  then show "slash_count (parent_path p) < slash_count p" using slash_count_split[of p] slash_count_split[of "parent_path p"] by simp
  obtain es where es: "\<forall>e \<in> set es. entry_ok U limits e" and mat: "materialized_paths U es limits = Inr (materialized st)"
    and mem: "list_all2 member_of es (members st)" by (rule inspect_entries[OF assms(1-3)])
  have names: "\<forall>e \<in> set es. name_ok U limits (source_name e) (normalized_path e)" using es by (simp add: entry_ok_def)
  note M = materialized_paths_ok[OF mat]
  have "parent_path p \<in> set (materialized st)"
    unfolding parent using claims_closed[OF names, of p ?k] assms(4,5) M(1) by simp
  moreover have "parent_path p \<noteq> m_normalized_path m" if m: "m \<in> set (members st)" "m_entry_type m = REGULAR_FILE" for m
  proof
    assume eq: "parent_path p = m_normalized_path m"
    obtain e where e: "e \<in> set es" "member_of e m" by (rule members_of_entries[OF mem m(1)])
    have "p = parent_path p @ [SLASH] @ last (split_on SLASH p)"
    proof -
      have "p = join_on SLASH (butlast (split_on SLASH p) @ [last (split_on SLASH p)])" by simp
      also have "\<dots> = join_on SLASH (butlast (split_on SLASH p)) @ SLASH # last (split_on SLASH p)"
      proof -
        have "join_on d (qs @ [q]) = join_on d qs @ d # q" if "qs \<noteq> []" for d q and qs :: "utext list"
          using that by (induction d qs rule: join_on.induct) simp_all
        moreover have "butlast (split_on SLASH p) \<noteq> []" using assms(5) by (cases "split_on SLASH p" rule: rev_cases) auto
        ultimately show ?thesis by blast
      qed
      finally show ?thesis by (simp add: parent_path_def split_components_def Let_def)
    qed
    then have "p = normalized_path e @ [SLASH] @ last (split_on SLASH p)" using eq e(2) by (simp add: member_of_def)
    moreover have "p \<in> claim_path ` set (all_claims es)" using assms(4) M(1) by simp
    moreover have "entry_type e = REGULAR_FILE" using e(2) m(2) by (simp add: member_of_def)
    ultimately show False using file_is_leaf[OF names M(4) e(1)] by blast
  qed
  ultimately show "parent_path p \<in> set (extracted_directories st)"
    by (auto simp: extracted_directories_def Let_def)
qed

lemma fragments_cover:
  assumes "0 < (fragment :: int)"
  shows "n \<le> (n + fragment - 1) div fragment * fragment" "(n + fragment - 1) div fragment * fragment < n + fragment"
proof -
  have "(n + fragment - 1) div fragment * fragment = n + fragment - 1 - (n + fragment - 1) mod fragment"
    by (simp add: minus_mod_eq_div_mult)
  moreover have "(n + fragment - 1) mod fragment < fragment" "0 \<le> (n + fragment - 1) mod fragment" using assms by simp_all
  ultimately show "n \<le> (n + fragment - 1) div fragment * fragment" "(n + fragment - 1) div fragment * fragment < n + fragment"
    by linarith+
qed

lemma sum_fragments:
  assumes "0 < (fragment :: int)"
  shows "int (sum_list (map f xs)) \<le> sum_list (map (\<lambda>x. (int (f x) + fragment - 1) div fragment * fragment) xs)"
proof (induction xs)
  case (Cons x xs)
  then show ?case using fragments_cover(1)[OF assms, of "int (f x)"] by simp
qed simp

section \<open>Properties\<close>

text \<open>Extraction never needs a directory that does not exist yet: in the order in which
  directories are made every parent comes before its children, and the parent of every
  regular file is one of those directories.\<close>

theorem zip_extraction_parents_first:
  assumes "unicode_ok U" "ZipLimits_post_init l = Inr limits" "inspect U src limits = Inr st"
  shows "(\<forall>p \<in> set (directory_order st). 1 < length (split_on SLASH p) \<longrightarrow>
      (\<exists>us vs. directory_order st = us @ p # vs \<and> parent_path p \<in> set us)) \<and>
    (\<forall>m \<in> set (regular_order st). 1 < length (split_on SLASH (m_normalized_path m)) \<longrightarrow>
      parent_path (m_normalized_path m) \<in> set (directory_order st))"
proof (intro conjI ballI impI)
  fix p assume p: "p \<in> set (directory_order st)" "1 < length (split_on SLASH p)"
  let ?k = "\<lambda>p. (slash_count p, utf8_bytes p)"
  have "p \<in> set (materialized st)" using p(1) by (simp add: directory_order_def extracted_directories_def Let_def)
  note parent = parent_is_directory[OF assms this p(2)]
  have sorted: "sorted (map ?k (directory_order st))" unfolding directory_order_def by (rule sorted_sort_key)
  have "parent_path p \<in> set (directory_order st)" using parent(1) by (simp add: directory_order_def)
  moreover have "?k (parent_path p) < ?k p" using parent(2) by simp
  ultimately obtain us vs where "directory_order st = us @ p # vs" "parent_path p \<in> set us"
    using sorted_key_before[OF sorted _ p(1)] by blast
  then show "\<exists>us vs. directory_order st = us @ p # vs \<and> parent_path p \<in> set us" by blast
next
  fix m assume m: "m \<in> set (regular_order st)" "1 < length (split_on SLASH (m_normalized_path m))"
  then have "m \<in> set (members st)" by (simp add: regular_order_def)
  then have "m_normalized_path m \<in> set (materialized st)"
  proof -
    obtain es where mat: "materialized_paths U es limits = Inr (materialized st)"
      and mem: "list_all2 member_of es (members st)" by (rule inspect_entries[OF assms])
    obtain e where "e \<in> set es" "member_of e m" by (rule members_of_entries[OF mem \<open>m \<in> set (members st)\<close>])
    then show ?thesis using materialized_paths_ok(1)[OF mat] entry_claim[of e es] by (force simp: member_of_def)
  qed
  then show "parent_path (m_normalized_path m) \<in> set (directory_order st)"
    using parent_is_directory(1)[OF assms _ m(2)] by (simp add: directory_order_def)
qed

theorem zip_extraction_parents_first_witness:
  "list_all (\<lambda>m. length (split_on SLASH (m_normalized_path m)) \<le> 1 \<or>
     parent_path (m_normalized_path m) \<in> set (directory_order sample_structure)) (regular_order sample_structure)"
  unfolding list_all_iff
  using zip_extraction_parents_first[OF ascii_unicode_ok default_limits_ok sample_inspect] not_le by blast

text \<open>The reservation made before extraction covers the tree: the bytes of all regular files
  rounded up to whole fragments and one fragment for every created path and the root, and
  one inode for each of them.\<close>

theorem extraction_reservation_covers_tree:
  assumes "extraction_reservation st frsize bsize = Inr r"
  shows "\<exists>fragment > 0. fragment = (if frsize \<noteq> 0 then frsize else bsize) \<and>
    int (sum_list (map m_expanded_bytes (filter (\<lambda>m. m_entry_type m = REGULAR_FILE) (members st))))
      + fragment * (int (length (materialized st)) + 1) \<le> reserved_bytes r \<and>
    reserved_inodes r = int (length (materialized st)) + 1"
proof -
  define f where "f = (if frsize \<noteq> 0 then frsize else bsize)"
  have f: "0 < f" using assms unfolding extraction_reservation_def Let_def if_Inl_Inr_iff f_def by simp
  have r: "r = \<lparr>reserved_bytes = sum_list (map (\<lambda>m. (int (m_expanded_bytes m) + f - 1) div f * f)
              (filter (\<lambda>m. m_entry_type m = REGULAR_FILE) (members st))) + f * (int (length (materialized st)) + 1),
      reserved_inodes = int (length (materialized st)) + 1\<rparr>"
    using assms
    unfolding extraction_reservation_def Let_def f_def[symmetric] if_Inl_Inr_iff mapE_Inr_iff CapacityReservation_post_init_def
    by blast
  show ?thesis
    unfolding f_def[symmetric]
    using f sum_fragments[OF f, of m_expanded_bytes "filter (\<lambda>m. m_entry_type m = REGULAR_FILE) (members st)"]
    by (intro exI[of _ f]) (simp add: r)
qed

theorem extraction_reservation_covers_tree_witness:
  "\<exists>r. extraction_reservation sample_structure 4096 4096 = Inr r \<and> 1 + 4096 * 2 \<le> reserved_bytes r"
proof -
  have e: "extraction_reservation sample_structure 4096 4096 = Inr \<lparr>reserved_bytes = 12288, reserved_inodes = 2\<rparr>"
    by (simp add: extraction_reservation_def CapacityReservation_post_init_def sample_structure_def sample_member_def Let_def)
  from extraction_reservation_covers_tree[OF e] e show ?thesis by (auto simp: sample_structure_def sample_member_def)
qed

end
