(* ===== verification/Schema_Base.thy ===== *)
theory Schema_Base
  imports Canonical Lifecycle
begin

text \<open>
  The first part of the model of \<^verbatim>\<open>static_contracts/schema.py\<close>: how a check on a document is
  written (Python's short-circuit conditions over subscripts that may raise), the contract
  kinds, the environment of the code outside the repository, digest bindings, and the semantic
  validators of the contracts that nest nothing but a manifest or an archive record.
\<close>

section \<open>Conditions over documents\<close>

text \<open>
  \<^verbatim>\<open>a == b\<close>, \<^verbatim>\<open>a != b\<close> and a test of one value, where evaluating an operand may raise;
  \<^verbatim>\<open>a and b\<close> and a chain of \<^verbatim>\<open>or\<close>, evaluated from the left and only as far as needed.
\<close>

definition eqE :: "json py \<Rightarrow> json py \<Rightarrow> bool py" where
  "eqE a b = bindE a (\<lambda>x. bindE b (\<lambda>y. Inr (x = y)))"

definition neqE :: "json py \<Rightarrow> json py \<Rightarrow> bool py" where
  "neqE a b = bindE a (\<lambda>x. bindE b (\<lambda>y. Inr (x \<noteq> y)))"

definition testE :: "('a \<Rightarrow> bool) \<Rightarrow> 'a py \<Rightarrow> bool py" where
  "testE p a = bindE a (\<lambda>x. Inr (p x))"

definition andE :: "bool py \<Rightarrow> bool py \<Rightarrow> bool py" where
  "andE a b = bindE a (\<lambda>x. if x then b else Inr False)"

fun anyE :: "bool py list \<Rightarrow> bool py" where
  "anyE [] = Inr False"
| "anyE (c # cs) = bindE c (\<lambda>x. if x then Inr True else anyE cs)"

text \<open>\<^verbatim>\<open>value in {...}\<close> for a set of strings: hashing a list or a dictionary raises.\<close>

fun in_strs :: "json \<Rightarrow> string list \<Rightarrow> bool py" where
  "in_strs (JStr s) xs = Inr (s \<in> set xs)"
| "in_strs (JArr _) xs = Inl TypeError"
| "in_strs (JObj _) xs = Inl TypeError"
| "in_strs _ xs = Inr False"

text \<open>
  \<^verbatim>\<open>value in range(lo, hi)\<close>. The schema has required an integer (and not a Boolean or a float)
  before any of these tests runs, so only an integer counts.
\<close>

fun in_range :: "json \<Rightarrow> int \<Rightarrow> int \<Rightarrow> bool" where
  "in_range (JInt n) lo hi = (lo \<le> n \<and> n < hi)"
| "in_range _ lo hi = False"

text \<open>\<^verbatim>\<open>if c: raise ContractError(SCHEMA_INVALID, msg)\<close>, and one statement after another.\<close>

definition refuse_if :: "bool py \<Rightarrow> string \<Rightarrow> unit py" where
  "refuse_if c msg = bindE c (\<lambda>bad. if bad then Inl (ContractError SCHEMA_INVALID msg) else Inr ())"

definition thenE :: "'a py \<Rightarrow> 'b py \<Rightarrow> 'b py" where
  "thenE a b = bindE a (\<lambda>_. b)"

abbreviation lit :: "string \<Rightarrow> json py" where
  "lit s \<equiv> Inr (JStr s)"

abbreviation none_lit :: "json py" where
  "none_lit \<equiv> Inr JNull"

declare anyE.simps [simp del]

named_theorems check_simps \<open>what a check that raised nothing says\<close>

lemma eqE_iff [check_simps]:
  "eqE a b = Inr t \<longleftrightarrow> (\<exists>x y. a = Inr x \<and> b = Inr y \<and> t = (x = y))"
  by (auto simp: eqE_def bindE_Inr_iff)

lemma neqE_False [check_simps]: "neqE a b = Inr False \<longleftrightarrow> (\<exists>x. a = Inr x \<and> b = Inr x)"
  by (auto simp: neqE_def bindE_Inr_iff)

lemma neqE_True [check_simps]: "neqE a b = Inr True \<longleftrightarrow> (\<exists>x y. a = Inr x \<and> b = Inr y \<and> x \<noteq> y)"
  by (auto simp: neqE_def bindE_Inr_iff)

lemma testE_iff [check_simps]: "testE p a = Inr t \<longleftrightarrow> (\<exists>x. a = Inr x \<and> t = p x)"
  by (auto simp: testE_def bindE_Inr_iff)

lemma andE_False [check_simps]: "andE a b = Inr False \<longleftrightarrow> a = Inr False \<or> a = Inr True \<and> b = Inr False"
  by (cases a) (auto simp: andE_def)

lemma andE_True [check_simps]: "andE a b = Inr True \<longleftrightarrow> a = Inr True \<and> b = Inr True"
  by (cases a) (auto simp: andE_def)

lemma anyE_False [check_simps]: "anyE cs = Inr False \<longleftrightarrow> list_all (\<lambda>c. c = Inr False) cs"
proof (induction cs)
  case (Cons c cs)
  then show ?case by (cases c) (auto simp: anyE.simps)
qed (simp add: anyE.simps)

lemma refuse_if_Inr [check_simps]: "refuse_if c msg = Inr u \<longleftrightarrow> c = Inr False"
  by (cases c) (auto simp: refuse_if_def)

lemma thenE_Inr [check_simps]: "thenE a b = Inr y \<longleftrightarrow> (\<exists>x. a = Inr x) \<and> b = Inr y"
  by (auto simp: thenE_def bindE_Inr_iff)

lemma in_strs_iff [check_simps]:
  "in_strs v xs = Inr True \<longleftrightarrow> (\<exists>s \<in> set xs. v = JStr s)"
  by (cases v) auto

lemma in_range_iff: "in_range v lo hi \<longleftrightarrow> (\<exists>n. v = JInt n \<and> lo \<le> n \<and> n < hi)"
  by (cases v) auto

text \<open>
  Congruence for recursive definitions through the two sequencing operations: the continuation
  is only reached with the value the first part returned.
\<close>

lemma bindE_cong [fundef_cong]:
  "m = n \<Longrightarrow> (\<And>x. n = Inr x \<Longrightarrow> f x = g x) \<Longrightarrow> bindE m f = bindE n g"
  by (cases n) auto

lemma thenE_cong [fundef_cong]:
  "m = n \<Longrightarrow> (\<And>x. n = Inr x \<Longrightarrow> f = g) \<Longrightarrow> thenE m f = thenE n g"
  by (auto simp: thenE_def intro: bindE_cong)

section \<open>Contract kinds and the code outside the repository\<close>

definition API_VERSION :: string where
  "API_VERSION = ''hosting.lowerduckpond.net/v1alpha1''"

datatype ContractKind =
    PLATFORM_NAMESPACE | LAUNCH_RECORD | SITE | TENANT_OBSERVED_STATE | DEPLOYMENT_RECORD
  | ARCHIVE_RECORD | ARCHIVE_CONSTRUCTION_INTENT | ARCHIVE_RETIREMENT_INTENT | OPERATION_REQUEST
  | AUTHORIZATION_JOB | TRANSACTION_INTENT | EMERGENCY_DELETION_INTENT | AUDIT_ENTRY
  | OPERATION_RESULT

fun kind_value :: "ContractKind \<Rightarrow> string" where
  "kind_value PLATFORM_NAMESPACE = ''PlatformNamespace''"
| "kind_value LAUNCH_RECORD = ''LaunchRecord''"
| "kind_value SITE = ''Site''"
| "kind_value TENANT_OBSERVED_STATE = ''TenantObservedState''"
| "kind_value DEPLOYMENT_RECORD = ''DeploymentRecord''"
| "kind_value ARCHIVE_RECORD = ''ArchiveRecord''"
| "kind_value ARCHIVE_CONSTRUCTION_INTENT = ''ArchiveConstructionIntent''"
| "kind_value ARCHIVE_RETIREMENT_INTENT = ''ArchiveRetirementIntent''"
| "kind_value OPERATION_REQUEST = ''OperationRequest''"
| "kind_value AUTHORIZATION_JOB = ''AuthorizationJob''"
| "kind_value TRANSACTION_INTENT = ''TransactionIntent''"
| "kind_value EMERGENCY_DELETION_INTENT = ''EmergencyDeletionIntent''"
| "kind_value AUDIT_ENTRY = ''AuditEntry''"
| "kind_value OPERATION_RESULT = ''OperationResult''"

definition all_kinds :: "ContractKind list" where
  "all_kinds = [PLATFORM_NAMESPACE, LAUNCH_RECORD, SITE, TENANT_OBSERVED_STATE, DEPLOYMENT_RECORD,
     ARCHIVE_RECORD, ARCHIVE_CONSTRUCTION_INTENT, ARCHIVE_RETIREMENT_INTENT, OPERATION_REQUEST,
     AUTHORIZATION_JOB, TRANSACTION_INTENT, EMERGENCY_DELETION_INTENT, AUDIT_ENTRY, OPERATION_RESULT]"

text \<open>
  One element of a validation error's path: a member name or an array index. Errors are sorted
  by their path; two paths of one document first differ either in two names or in two indices,
  and the order given here between a name and an index is never used.
\<close>

datatype path_element = Index nat | Member string

instantiation path_element :: linorder
begin

fun less_eq_path_element :: "path_element \<Rightarrow> path_element \<Rightarrow> bool" where
  "Index i \<le> Index j \<longleftrightarrow> i \<le> j"
| "Index i \<le> Member t \<longleftrightarrow> True"
| "Member s \<le> Index j \<longleftrightarrow> False"
| "Member s \<le> Member t \<longleftrightarrow> s \<le> t"

definition less_path_element :: "path_element \<Rightarrow> path_element \<Rightarrow> bool" where
  "p < q \<longleftrightarrow> p \<le> q \<and> \<not> q \<le> (p :: path_element)"

instance
proof
  fix p q r :: path_element
  show "p < q \<longleftrightarrow> p \<le> q \<and> \<not> q \<le> p" by (rule less_path_element_def)
  show "p \<le> p" by (cases p) auto
  show "p \<le> q \<Longrightarrow> q \<le> r \<Longrightarrow> p \<le> r" by (cases p; cases q; cases r) auto
  show "p \<le> q \<Longrightarrow> q \<le> p \<Longrightarrow> p = q" by (cases p; cases q) auto
  show "p \<le> q \<or> q \<le> p" by (cases p; cases q) auto
qed

end

record ValidationError =
  validator_keyword :: string
  error_path :: "path_element list"

text \<open>
  The JSON codec and \<^verbatim>\<open>Validator.iter_errors\<close> of the \<^verbatim>\<open>jsonschema\<close> package for the schema file of
  a kind. Nothing is assumed about the errors it reports.
\<close>

record contract_env =
  env_codec :: json_codec
  iter_errors :: "ContractKind \<Rightarrow> json \<Rightarrow> ValidationError list"

definition validation_error_code :: "ValidationError \<Rightarrow> ErrorCode" where
  "validation_error_code err =
     (if validator_keyword err = ''additionalProperties'' then UNKNOWN_FIELD else SCHEMA_INVALID)"

definition require_supported_identity :: "json \<Rightarrow> ContractKind py" where
  "require_supported_identity d =
     bindE (dict_get d ''apiVersion'') (\<lambda>version.
     if version \<noteq> JStr API_VERSION
     then Inl (ContractError UNSUPPORTED_VERSION ''contract version is not supported'')
     else bindE (dict_get d ''kind'') (\<lambda>kind.
     mapE (\<lambda>_. ContractError UNKNOWN_KIND ''contract kind is not supported'')
       (enum_of kind_value all_kinds kind)))"

text \<open>\<^verbatim>\<open>digest_bytes(canonical_json_bytes(value), format_identifier=...).to_dict()\<close>\<close>

definition document_binding :: "contract_env \<Rightarrow> json \<Rightarrow> string \<Rightarrow> json py" where
  "document_binding env v fmt =
     bindE (canonical_json_bytes (dumps (env_codec env)) v MAX_CANONICAL_BYTES) (\<lambda>raw.
     bindE (digest_bytes raw fmt) (\<lambda>digest. Inr (Digest_to_dict digest)))"

definition manifest_binding :: "contract_env \<Rightarrow> json \<Rightarrow> json py" where
  "manifest_binding env v = document_binding env v MANIFEST_DIGEST_FORMAT"

section \<open>Validators of flat contracts\<close>

definition validate_namespace :: "json \<Rightarrow> unit py" where
  "validate_namespace d =
     bindE (getitem d ''tenantOriginSuffix'') (\<lambda>suffix.
     if suffix \<noteq> JStr ''lowerduckpond.com''
     then Inl (ContractError INVALID_NAMESPACE ''tenant namespace is not accepted'') else Inr ())"

definition validate_site :: "json \<Rightarrow> unit py" where
  "validate_site d =
     bindE (getitem d ''metadata'') (\<lambda>metadata.
     bindE (bindE (getitem metadata ''id'') validate_uuid7) (\<lambda>tenant_id.
     thenE (bindE (getitem metadata ''slug'') validate_slug)
     (bindE (getitem metadata ''canonicalOrigin'') (\<lambda>origin.
      thenE (validate_canonical_origin (JStr tenant_id) origin) (Inr ())))))"

definition validate_request :: "json \<Rightarrow> unit py" where
  "validate_request d =
     thenE (bindE (getitem d ''correlationId'') validate_uuid7)
     (bindE (getitem d ''operation'') (\<lambda>operation.
      thenE (if operation = JStr ''create''
             then bindE (getitem d ''slug'') validate_slug
             else bindE (getitem d ''tenantId'') validate_uuid7)
      (thenE (if operation = JStr ''rename'' then bindE (getitem d ''slug'') validate_slug else Inr [])
      (thenE (if operation = JStr ''rollback''
              then bindE (getitem d ''deploymentId'') validate_uuid7 else Inr [])
       (Inr ())))))"

definition validate_import_manifest :: "json \<Rightarrow> unit py" where
  "validate_import_manifest manifest =
     thenE (validate_site manifest)
     (bindE (getitem manifest ''spec'') (\<lambda>spec.
      refuse_if (testE Not (bindE (getitem spec ''desiredState'') (\<lambda>state.
                   in_strs state [''active'', ''suspended'', ''archived''])))
        ''import source has no deployed content''))"

definition validate_deployment_record :: "contract_env \<Rightarrow> json \<Rightarrow> unit py" where
  "validate_deployment_record env d =
     bindE (dict_get d ''importProvenance'') (\<lambda>provenance.
     if is_dict provenance
     then bindE (getitem provenance ''manifest'') (\<lambda>manifest.
          thenE (validate_import_manifest manifest)
          (refuse_if (neqE (getitem provenance ''manifestDigest'') (manifest_binding env manifest))
             ''import provenance digest disagrees''))
     else Inr ())"

definition validate_audit_entry :: "json \<Rightarrow> unit py" where
  "validate_audit_entry d =
     bindE (dict_get d ''deletionEvidence'') (\<lambda>evidence.
     if evidence = JNull then Inr ()
     else bindE (bindE (getitem evidence ''releasedSlugs'') as_list) (\<lambda>slugs.
          thenE (traverseE validate_slug slugs) (Inr ())))"

definition validate_archive_construction_intent :: "json \<Rightarrow> unit py" where
  "validate_archive_construction_intent d =
     bindE (bindE (getitem d ''uploadAttemptId'') validate_uuid7) (\<lambda>upload_attempt_id.
     thenE (refuse_if (neqE (getitem d ''key'') (lit (''archives/'' @ upload_attempt_id @ ''.zip'')))
              ''archive key does not match its upload attempt identity'')
     (refuse_if (eqE (getitem d ''sourceManifestDigest'') (getitem d ''candidateManifestDigest''))
        ''archive construction did not change the manifest generation''))"

definition validate_archive_retirement_intent :: "contract_env \<Rightarrow> json \<Rightarrow> unit py" where
  "validate_archive_retirement_intent env d =
     bindE (dict_get d ''compatibilityVersion'') (\<lambda>version.
     if version \<noteq> JStr ''static-retirement-v2'' then Inr ()
     else bindE (getitem d ''archiveRecord'') (\<lambda>archive.
       bindE (document_binding env archive ARCHIVE_RECORD_DIGEST_FORMAT) (\<lambda>archive_digest.
       thenE (refuse_if (neqE (getitem d ''archiveRecordDigest'') (Inr archive_digest))
                ''archive retirement record digest binding is invalid'')
       (refuse_if (anyE
          [neqE (getitem d ''tenantId'') (getitem archive ''tenantId''),
           neqE (getitem d ''sourceManifestDigest'') (getitem archive ''manifestDigest''),
           neqE (getitem d ''bundleDigest'') (getitem archive ''bundleDigest''),
           neqE (getitem d ''bundleSize'') (getitem archive ''bundleSize''),
           neqE (getitem d ''bucket'') (getitem archive ''bucket''),
           neqE (getitem d ''key'') (getitem archive ''key''),
           neqE (getitem d ''versionId'') (getitem archive ''versionId'')])
          ''archive retirement object authority disagrees with its record''))))"

definition validate_result :: "contract_env \<Rightarrow> json \<Rightarrow> unit py" where
  "validate_result env d =
     bindE (dict_get d ''canonicalOrigin'') (\<lambda>origin.
     thenE (if origin \<noteq> JNull
            then bindE (getitem d ''tenantId'') (\<lambda>tenant_id. validate_canonical_origin tenant_id origin)
            else Inr [])
     (bindE (dict_get d ''manifest'') (\<lambda>raw_manifest.
      let manifest = (if is_dict raw_manifest then raw_manifest else JNull) in
      thenE (if is_dict raw_manifest
             then thenE (validate_site manifest)
               (bindE (getitem manifest ''metadata'') (\<lambda>metadata.
                thenE (refuse_if (neqE (getitem d ''tenantId'') (getitem metadata ''id''))
                         ''result tenant identity does not match'')
                (refuse_if (neqE (Inr origin) (getitem metadata ''canonicalOrigin''))
                   ''result tenant origin does not match'')))
             else Inr ())
      (bindE (getitem d ''operation'') (\<lambda>operation.
       if operation \<noteq> JStr ''archive'' then Inr ()
       else bindE (dict_get d ''archiveRecord'') (\<lambda>archive.
         thenE (refuse_if (andE (Inr (is_dict archive)) (anyE
                  [neqE (getitem archive ''tenantId'') (getitem d ''tenantId''),
                   andE (eqE (getitem d ''status'') (lit ''failed''))
                     (neqE (getitem archive ''correlationId'') (getitem d ''correlationId''))]))
                  ''archive record disagrees with its result'')
         (bindE (getitem d ''status'') (\<lambda>status.
          if status \<noteq> JStr ''succeeded'' then Inr ()
          else if manifest = JNull \<or> \<not> is_dict archive
          then Inl (ContractError SCHEMA_INVALID
                      ''successful archive result lacks durable archive authority'')
          else bindE (getitem manifest ''spec'') (\<lambda>spec.
            bindE (dict_get spec ''desiredDeployment'') (\<lambda>deployment.
            refuse_if (anyE
              [Inr (\<not> is_dict deployment),
               neqE (getitem archive ''manifestDigest'') (manifest_binding env manifest),
               neqE (getitem archive ''deploymentId'') (getitem deployment ''id'')])
              ''successful archive record disagrees with its result''))))))))))"

section \<open>What these validators establish\<close>

lemma inj_kind_value: "inj kind_value"
proof (rule injI)
  fix x y assume "kind_value x = kind_value y"
  then show "x = y" by (cases x; cases y) simp_all
qed

lemma all_kinds_member: "k \<in> set all_kinds"
  by (cases k) (simp_all add: all_kinds_def)

lemma kind_of_iff: "enum_of kind_value all_kinds v = Inr k \<longleftrightarrow> v = JStr (kind_value k)"
  by (rule enum_of_iff[OF inj_kind_value all_kinds_member])

lemma require_supported_identity_iff [check_simps]:
  "require_supported_identity d = Inr k \<longleftrightarrow>
     dict_get d ''apiVersion'' = lit API_VERSION \<and> dict_get d ''kind'' = lit (kind_value k)"
  by (auto simp: require_supported_identity_def bindE_Inr_iff if_Inl_Inr_iff mapE_Inr_iff kind_of_iff)

lemma document_binding_iff:
  "document_binding env v fmt = Inr b \<longleftrightarrow>
     (\<exists>raw digest. canonical_json_bytes (dumps (env_codec env)) v MAX_CANONICAL_BYTES = Inr raw \<and>
        digest_bytes raw fmt = Inr digest \<and> b = Digest_to_dict digest)"
  by (auto simp: document_binding_def bindE_Inr_iff)

text \<open>A manifest the validator accepts belongs to exactly one tenant, under its derived origin.\<close>

definition site_of :: "json \<Rightarrow> string \<Rightarrow> bool" where
  "site_of d tenant \<longleftrightarrow> (\<exists>metadata slug.
     getitem d ''metadata'' = Inr metadata \<and> getitem metadata ''id'' = lit tenant \<and>
     fullmatch UUID7_PATTERN tenant \<and> getitem metadata ''slug'' = lit slug \<and>
     validate_slug (JStr slug) = Inr slug \<and>
     getitem metadata ''canonicalOrigin'' = lit (derived_origin tenant TENANT_ORIGIN_SUFFIX))"

lemma validate_site_iff: "validate_site d = Inr u \<longleftrightarrow> (\<exists>tenant. site_of d tenant)"
  unfolding validate_site_def site_of_def
  by (auto simp: bindE_Inr_iff thenE_Inr uuid7_iff slug_iff validate_canonical_origin_iff)

lemma site_of_unique: "site_of d s \<Longrightarrow> site_of d t \<Longrightarrow> s = t"
  by (auto simp: site_of_def)

lemma validate_import_manifest_iff:
  "validate_import_manifest d = Inr u \<longleftrightarrow>
     (\<exists>tenant spec state. site_of d tenant \<and> getitem d ''spec'' = Inr spec \<and>
        getitem spec ''desiredState'' = lit state \<and> state \<in> {''active'', ''suspended'', ''archived''})"
  unfolding validate_import_manifest_def
  by (auto simp: bindE_Inr_iff check_simps validate_site_iff)

lemma validate_request_create:
  assumes "validate_request d = Inr u" "getitem d ''operation'' = lit ''create''"
  shows "\<exists>s. getitem d ''slug'' = lit s \<and> validate_slug (JStr s) = Inr s"
  using assms by (auto simp: validate_request_def bindE_Inr_iff thenE_Inr slug_iff)

section \<open>Sample documents\<close>

text \<open>
  Concrete values for the witnesses of the contract theories: a tenant, its manifest in a given
  lifecycle state, and an environment whose schema check reports nothing and whose serializer
  writes every document as the two bytes of an empty object.
\<close>

definition sample_tenant :: string where
  "sample_tenant = ''01890000-0000-7000-8000-000000000001''"

definition sample_identity :: string where
  "sample_identity = ''01890000-0000-7000-8000-000000000002''"

definition sample_env :: contract_env where
  "sample_env = \<lparr>env_codec = \<lparr>dumps = (\<lambda>_. Some [123, 125]),
      loads = (\<lambda>hook constant chars. hook [])\<rparr>, iter_errors = (\<lambda>_ _. [])\<rparr>"

definition sample_binding :: "string \<Rightarrow> json" where
  "sample_binding fmt = Digest_to_dict
     \<lparr>format = fmt, algorithm = ''sha256'', digest_value = sha256_hex (framed fmt [123, 125, 10])\<rparr>"

definition sample_site :: "string \<Rightarrow> string \<Rightarrow> json" where
  "sample_site released state = obj
     [(''apiVersion'', JStr API_VERSION), (''kind'', JStr ''Site''),
      (''metadata'', obj [(''id'', JStr sample_tenant), (''slug'', JStr released),
         (''canonicalOrigin'', JStr (derived_origin sample_tenant TENANT_ORIGIN_SUFFIX))]),
      (''spec'', obj [(''desiredState'', JStr state),
         (''desiredDeployment'', obj [(''id'', JStr sample_identity), (''archiveSha256'', JStr ''a'')])])]"

lemma sample_uuid_patterns [simp]:
  "fullmatch UUID7_PATTERN sample_tenant" "fullmatch UUID7_PATTERN sample_identity"
  unfolding sample_tenant_def sample_identity_def by code_simp+

lemma sample_uuids [simp]:
  "validate_uuid7 (JStr sample_tenant) = Inr sample_tenant"
  "validate_uuid7 (JStr sample_identity) = Inr sample_identity"
  by (simp_all add: uuid7_iff)

lemma sample_slugs [simp]: "validate_slug (JStr ''duck'') = Inr ''duck''" "validate_slug (JStr ''drake'') = Inr ''drake''"
  by code_simp+

lemma sample_document_binding [simp]:
  assumes "FORMAT_PATTERN fmt"
  shows "document_binding sample_env v fmt = Inr (sample_binding fmt)"
  using assms
  by (simp add: document_binding_def sample_env_def canonical_json_bytes_def MAX_CANONICAL_BYTES_def
      digest_bytes_def mk_Digest_def sample_binding_def MAX_U32_def)

lemma sample_manifest_binding [simp]: "manifest_binding sample_env v = Inr (sample_binding MANIFEST_DIGEST_FORMAT)"
  by (simp add: manifest_binding_def)

lemma sample_binding_neq [simp]: "sample_binding fmt \<noteq> JNull" "JNull \<noteq> sample_binding fmt"
  by (simp_all add: sample_binding_def Digest_to_dict_def)

lemma sample_site_valid [simp]:
  "released \<in> {''duck'', ''drake''} \<Longrightarrow> validate_site (sample_site released state) = Inr ()"
  unfolding validate_site_iff site_of_def sample_site_def
  by auto

end
