(* ===== verification/Schema_Jobs.thy ===== *)
theory Schema_Jobs
  imports Schema_Base
begin

text \<open>
  The authorization-job part of \<^verbatim>\<open>static_contracts/schema.py\<close>: a durable job binds the request it
  was issued for, the source state it was issued against, the authority that proves that state,
  and, for a deletion, the evidence that will be recorded. The lemmas say what an accepted job
  pins down.
\<close>

section \<open>Operations\<close>

definition validate_job_source_authority :: "contract_env \<Rightarrow> json \<Rightarrow> json \<Rightarrow> json \<Rightarrow> unit py" where
  "validate_job_source_authority env d request expected =
     bindE (getitem d ''compatibilityVersion'') (\<lambda>version.
     if version = JStr ''static-job-v1''
     then refuse_if (Inr (dict_has d ''sourceAuthority'')) ''legacy job carries current source authority''
     else
     bindE (getitem d ''sourceAuthority'') (\<lambda>authority.
     bindE (getitem request ''operation'') (\<lambda>operation.
     if operation = JStr ''create''
     then refuse_if (Inr (authority \<noteq> JNull)) ''create job carries tenant source authority''
     else
     thenE (refuse_if (Inr (\<not> is_dict authority)) ''tenant job source authority is absent'')
     (bindE (getitem authority ''manifest'') (\<lambda>manifest.
      bindE (getitem manifest ''metadata'') (\<lambda>metadata.
      bindE (getitem manifest ''spec'') (\<lambda>spec.
      bindE (manifest_binding env manifest) (\<lambda>binding.
      bindE (getitem authority ''archiveRecord'') (\<lambda>archive.
      thenE (refuse_if (anyE
               [neqE (getitem metadata ''id'') (getitem request ''tenantId''),
                neqE (getitem spec ''desiredState'') (getitem expected ''lifecycle''),
                neqE (Inr binding) (getitem expected ''manifestDigest'')])
               ''tenant job source authority disagrees'')
      (bindE (getitem expected ''lifecycle'') (\<lambda>lifecycle.
       if lifecycle \<noteq> JStr ''archived''
       then refuse_if (Inr (archive \<noteq> JNull)) ''non-archived job carries archive source authority''
       else
       bindE (getitem spec ''desiredDeployment'') (\<lambda>reference.
       thenE (refuse_if (Inr (\<not> is_dict archive)) ''archived job source authority is absent'')
       (bindE (document_binding env archive ARCHIVE_RECORD_DIGEST_FORMAT) (\<lambda>archive_binding.
        refuse_if (anyE
          [neqE (Inr archive_binding) (getitem expected ''archiveRecordDigest''),
           neqE (getitem archive ''tenantId'') (getitem request ''tenantId''),
           neqE (getitem archive ''deploymentId'') (getitem reference ''id''),
           neqE (getitem archive ''manifestDigest'') (Inr binding)])
          ''archived job source authority disagrees''))))))))))))))"

definition validate_legacy_job_deletion_authority :: "json \<Rightarrow> json \<Rightarrow> json \<Rightarrow> unit py" where
  "validate_legacy_job_deletion_authority deletion lifecycle archive_digest =
     thenE (refuse_if (andE (Inr (lifecycle = JStr ''undeployed''))
                            (neqE (getitem deletion ''mode'') (lit ''never-deployed'')))
              ''undeployed delete source evidence is invalid'')
     (refuse_if (andE (Inr (lifecycle = JStr ''archived''))
                      (anyE [neqE (getitem deletion ''mode'') (lit ''archived''),
                             neqE (getitem deletion ''archiveRecordDigest'') (Inr archive_digest)]))
        ''archived delete source evidence is invalid'')"

text \<open>The evidence a deletion must carry: what it releases and which archived object it retires.\<close>

definition deletion_evidence :: "string \<Rightarrow> json \<Rightarrow> json \<Rightarrow> json \<Rightarrow> json \<Rightarrow> json \<Rightarrow> json \<Rightarrow> json" where
  "deletion_evidence mode released archive_digest bucket key version reason = obj
     [(''mode'', JStr mode), (''releasedSlugs'', JArr [released]), (''archiveRecordDigest'', archive_digest),
      (''bucket'', bucket), (''key'', key), (''versionId'', version), (''emergencyReason'', reason)]"

definition current_job_deletion_authority :: "json \<Rightarrow> json \<Rightarrow> json \<Rightarrow> json py" where
  "current_job_deletion_authority source_authority lifecycle archive_digest =
     thenE (refuse_if (Inr (\<not> is_dict source_authority)) ''delete source authority is absent'')
     (bindE (getitem source_authority ''manifest'') (\<lambda>manifest.
      bindE (getitem manifest ''metadata'') (\<lambda>metadata.
      bindE (getitem metadata ''slug'') (\<lambda>released.
      if lifecycle \<noteq> JStr ''archived''
      then Inr (deletion_evidence ''never-deployed'' released JNull JNull JNull JNull JNull)
      else
      bindE (getitem source_authority ''archiveRecord'') (\<lambda>archive_record.
      thenE (refuse_if (Inr (\<not> is_dict archive_record)) ''archived delete source authority is absent'')
      (bindE (getitem archive_record ''bucket'') (\<lambda>bucket.
       bindE (getitem archive_record ''key'') (\<lambda>key.
       bindE (getitem archive_record ''versionId'') (\<lambda>version.
       Inr (deletion_evidence ''archived'' released archive_digest bucket key version JNull))))))))))"

definition validate_job_deletion_authority :: "json \<Rightarrow> json \<Rightarrow> json \<Rightarrow> json \<Rightarrow> json \<Rightarrow> unit py" where
  "validate_job_deletion_authority d request expected lifecycle archive_digest =
     bindE (getitem request ''operation'') (\<lambda>operation.
     if operation \<noteq> JStr ''delete''
     then refuse_if (Inr (dict_has expected ''deletionEvidence'')) ''non-delete job carries deletion evidence''
     else if \<not> dict_has expected ''deletionEvidence''
     then bindE (getitem d ''compatibilityVersion'') (\<lambda>version.
          if version = JStr ''static-job-v1'' then Inr ()
          else Inl (ContractError SCHEMA_INVALID ''delete job has no durable deletion authority''))
     else
     bindE (getitem expected ''deletionEvidence'') (\<lambda>deletion.
     bindE (in_strs lifecycle [''active'', ''suspended'']) (\<lambda>ineligible.
     if ineligible
     then refuse_if (Inr (deletion \<noteq> JNull)) ''ineligible delete source carries deletion evidence''
     else
     thenE (refuse_if (Inr (\<not> is_dict deletion)) ''delete source evidence is absent'')
     (bindE (getitem d ''compatibilityVersion'') (\<lambda>version.
      if version = JStr ''static-job-v1''
      then validate_legacy_job_deletion_authority deletion lifecycle archive_digest
      else
      bindE (dict_get d ''sourceAuthority'') (\<lambda>authority.
      bindE (current_job_deletion_authority authority lifecycle archive_digest) (\<lambda>expected_deletion.
      refuse_if (Inr (deletion \<noteq> expected_deletion))
        ''delete source evidence disagrees with its durable authority'')))))))"

text \<open>The export delivery and import provenance guards at the start of \<^verbatim>\<open>_validate_job\<close>.\<close>

definition validate_job_delivery :: "json \<Rightarrow> json \<Rightarrow> unit py" where
  "validate_job_delivery d request =
     thenE (refuse_if (andE (Inr (dict_has d ''exportDelivery'')) (anyE
              [neqE (getitem request ''operation'') (lit ''export''),
               neqE (getitem d ''compatibilityVersion'') (lit ''static-job-v2''),
               andE (neqE (getitem d ''exportDelivery'') (lit ''unacknowledged''))
                 (anyE [neqE (getitem d ''phase'') (lit ''completed''),
                        neqE (getitem d ''executionValidated'') (Inr (JBool True))])]))
              ''export delivery has no validated job'')
     (bindE (dict_get d ''dispatchImportManifest'') (\<lambda>imported.
      if is_dict imported
      then thenE (refuse_if (neqE (getitem request ''operation'') (lit ''import''))
                    ''non-import job retains import provenance'')
           (validate_import_manifest imported)
      else Inr ()))"

text \<open>The lifecycle of the expected source and the digests it must and must not carry.\<close>

definition validate_job_source_lifecycle :: "json \<Rightarrow> json \<Rightarrow> json \<Rightarrow> unit py" where
  "validate_job_source_lifecycle lifecycle deployment archive =
     thenE (refuse_if (testE Not (in_strs lifecycle [''undeployed'', ''active'', ''suspended'', ''archived'']))
              ''tenant source lifecycle is absent'')
     (thenE (refuse_if (andE (Inr (lifecycle = JStr ''undeployed''))
                             (Inr (deployment \<noteq> JNull \<or> archive \<noteq> JNull)))
               ''undeployed source binding is invalid'')
     (thenE (refuse_if (andE (in_strs lifecycle [''active'', ''suspended''])
                             (Inr (deployment = JNull \<or> archive \<noteq> JNull)))
               ''deployed source binding is invalid'')
     (refuse_if (andE (Inr (lifecycle = JStr ''archived''))
                      (Inr (deployment = JNull \<or> archive = JNull)))
        ''archived source binding is invalid'')))"

definition validate_job :: "contract_env \<Rightarrow> json \<Rightarrow> unit py" where
  "validate_job env d =
     bindE (getitem d ''request'') (\<lambda>request.
     thenE (validate_request request)
     (thenE (validate_job_delivery d request)
     (bindE (document_binding env request REQUEST_DIGEST_FORMAT) (\<lambda>expected_request_digest.
     (thenE (refuse_if (neqE (getitem d ''requestDigest'') (Inr expected_request_digest))
               ''job request digest binding does not match'')
     (thenE (refuse_if (neqE (getitem d ''artifact'') (dict_get request ''artifact''))
               ''job artifact binding does not match'')
     (bindE (getitem d ''expectedSource'') (\<lambda>expected.
      thenE (validate_job_source_authority env d request expected)
      (bindE (getitem request ''operation'') (\<lambda>operation.
       if operation = JStr ''create''
       then bindE (getitem expected ''platformStateDigest'') (\<lambda>platform.
            refuse_if (Inr (expected \<noteq> obj
              [(''expectsTenantAbsent'', JBool True), (''lifecycle'', JNull), (''manifestDigest'', JNull),
               (''deploymentDigest'', JNull), (''archiveRecordDigest'', JNull),
               (''platformStateDigest'', platform)]))
              ''create job source binding is invalid'')
       else
       thenE (refuse_if (anyE
                [neqE (getitem expected ''expectsTenantAbsent'') (Inr (JBool False)),
                 eqE (getitem expected ''manifestDigest'') none_lit])
                ''tenant job source binding is invalid'')
       (bindE (getitem expected ''lifecycle'') (\<lambda>lifecycle.
        bindE (getitem expected ''deploymentDigest'') (\<lambda>deployment.
        bindE (getitem expected ''archiveRecordDigest'') (\<lambda>archive.
        thenE (validate_job_source_lifecycle lifecycle deployment archive)
        (validate_job_deletion_authority d request expected lifecycle archive)))))))))))))))"

section \<open>What an accepted job pins down\<close>

text \<open>
  The authority of a current tenant job: a manifest of the requested tenant in the expected
  lifecycle state whose digest the job pins, with the archive record of an archived tenant and
  with none otherwise.
\<close>

definition pinned_source :: "contract_env \<Rightarrow> json \<Rightarrow> json \<Rightarrow> json \<Rightarrow> json \<Rightarrow> json \<Rightarrow> bool" where
  "pinned_source env request expected authority manifest archive \<longleftrightarrow>
     (\<exists>metadata spec tenant lifecycle binding.
        getitem authority ''manifest'' = Inr manifest \<and> getitem authority ''archiveRecord'' = Inr archive \<and>
        getitem manifest ''metadata'' = Inr metadata \<and> getitem manifest ''spec'' = Inr spec \<and>
        getitem metadata ''id'' = Inr tenant \<and> getitem request ''tenantId'' = Inr tenant \<and>
        getitem expected ''lifecycle'' = Inr lifecycle \<and> getitem spec ''desiredState'' = Inr lifecycle \<and>
        manifest_binding env manifest = Inr binding \<and> getitem expected ''manifestDigest'' = Inr binding \<and>
        (if lifecycle = JStr ''archived''
         then \<exists>reference. getitem spec ''desiredDeployment'' = Inr reference \<and>
           getitem expected ''archiveRecordDigest'' = document_binding env archive ARCHIVE_RECORD_DIGEST_FORMAT \<and>
           getitem archive ''tenantId'' = Inr tenant \<and> getitem archive ''manifestDigest'' = Inr binding \<and>
           getitem archive ''deploymentId'' = getitem reference ''id''
         else archive = JNull))"

lemma source_authority_pinned:
  assumes "validate_job_source_authority env d request expected = Inr u"
    and "getitem d ''compatibilityVersion'' = Inr version" "version \<noteq> JStr ''static-job-v1''"
    and "getitem request ''operation'' = Inr operation" "operation \<noteq> JStr ''create''"
  shows "\<exists>authority manifest archive. getitem d ''sourceAuthority'' = Inr authority \<and>
    pinned_source env request expected authority manifest archive"
  using assms unfolding validate_job_source_authority_def pinned_source_def
  by (auto simp: bindE_Inr_iff check_simps split: if_splits)

lemma current_deletion_authority_iff:
  "current_job_deletion_authority authority lifecycle digest = Inr evidence \<longleftrightarrow>
     (\<exists>manifest metadata released.
        getitem authority ''manifest'' = Inr manifest \<and> getitem manifest ''metadata'' = Inr metadata \<and>
        getitem metadata ''slug'' = Inr released \<and>
        (if lifecycle = JStr ''archived''
         then \<exists>archive bucket key version.
           getitem authority ''archiveRecord'' = Inr archive \<and> getitem archive ''bucket'' = Inr bucket \<and>
           getitem archive ''key'' = Inr key \<and> getitem archive ''versionId'' = Inr version \<and>
           evidence = deletion_evidence ''archived'' released digest bucket key version JNull
         else evidence = deletion_evidence ''never-deployed'' released JNull JNull JNull JNull JNull))"
proof (cases "lifecycle = JStr ''archived''")
  case True
  then show ?thesis unfolding current_job_deletion_authority_def
    by (auto simp: bindE_Inr_iff check_simps getitem_is_dict)
next
  case False
  then show ?thesis unfolding current_job_deletion_authority_def
    by (auto simp: bindE_Inr_iff check_simps getitem_is_dict)
qed

lemma validate_job_request_bound:
  assumes "validate_job env d = Inr u"
  shows "\<exists>request. getitem d ''request'' = Inr request \<and> validate_request request = Inr () \<and>
    getitem d ''requestDigest'' = document_binding env request REQUEST_DIGEST_FORMAT \<and>
    getitem d ''artifact'' = dict_get request ''artifact''"
  using assms unfolding validate_job_def by (auto simp: bindE_Inr_iff check_simps)

lemma validate_job_tenant_parts:
  assumes "validate_job env d = Inr u" "getitem d ''request'' = Inr request"
    and "getitem request ''operation'' = Inr operation" "operation \<noteq> JStr ''create''"
  shows "\<exists>expected lifecycle deployment archive.
    getitem d ''expectedSource'' = Inr expected \<and> getitem expected ''lifecycle'' = Inr lifecycle \<and>
    getitem expected ''deploymentDigest'' = Inr deployment \<and>
    getitem expected ''archiveRecordDigest'' = Inr archive \<and>
    validate_job_source_authority env d request expected = Inr () \<and>
    validate_job_source_lifecycle lifecycle deployment archive = Inr () \<and>
    validate_job_deletion_authority d request expected lifecycle archive = Inr ()"
  using assms unfolding validate_job_def by (auto simp: bindE_Inr_iff check_simps)

lemma current_deletion_evidence:
  assumes "validate_job_deletion_authority d request expected lifecycle digest = Inr u"
    and "getitem request ''operation'' = lit ''delete''"
    and "getitem d ''compatibilityVersion'' = Inr version" "version \<noteq> JStr ''static-job-v1''"
  shows "\<exists>evidence. getitem expected ''deletionEvidence'' = Inr evidence \<and>
    (if lifecycle \<in> {JStr ''active'', JStr ''suspended''} then evidence = JNull
     else \<exists>authority. dict_get d ''sourceAuthority'' = Inr authority \<and>
       current_job_deletion_authority authority lifecycle digest = Inr evidence)"
  using assms unfolding validate_job_deletion_authority_def
  by (auto simp: bindE_Inr_iff check_simps split: if_splits)

lemma source_lifecycle_cases:
  assumes "validate_job_source_lifecycle lifecycle deployment archive = Inr u"
  shows "lifecycle = JStr ''undeployed'' \<and> deployment = JNull \<and> archive = JNull \<or>
    lifecycle \<in> {JStr ''active'', JStr ''suspended''} \<and> deployment \<noteq> JNull \<and> archive = JNull \<or>
    lifecycle = JStr ''archived'' \<and> deployment \<noteq> JNull \<and> archive \<noteq> JNull"
proof -
  have "in_strs lifecycle [''undeployed'', ''active'', ''suspended'', ''archived''] = Inr True"
    using assms unfolding validate_job_source_lifecycle_def thenE_Inr refuse_if_Inr testE_iff by auto
  then obtain s where s: "lifecycle = JStr s" "s \<in> {''undeployed'', ''active'', ''suspended'', ''archived''}"
    by (auto simp: in_strs_iff)
  show ?thesis using s(2) assms unfolding s(1) validate_job_source_lifecycle_def
    by (elim insertE) (simp_all add: thenE_Inr refuse_if_Inr andE_False testE_iff)
qed

text \<open>
  The evidence that follows from the pinned manifest and archive record: the slug of the one and
  the object coordinates of the other.
\<close>

definition determined_evidence :: "json \<Rightarrow> json \<Rightarrow> json \<Rightarrow> string \<Rightarrow> json \<Rightarrow> bool" where
  "determined_evidence manifest archive digest lifecycle evidence \<longleftrightarrow>
     (if lifecycle = ''archived''
      then \<exists>metadata released bucket key version.
        getitem manifest ''metadata'' = Inr metadata \<and> getitem metadata ''slug'' = Inr released \<and>
        getitem archive ''bucket'' = Inr bucket \<and> getitem archive ''key'' = Inr key \<and>
        getitem archive ''versionId'' = Inr version \<and>
        evidence = deletion_evidence ''archived'' released digest bucket key version JNull
      else if lifecycle = ''undeployed''
      then \<exists>metadata released.
        getitem manifest ''metadata'' = Inr metadata \<and> getitem metadata ''slug'' = Inr released \<and>
        evidence = deletion_evidence ''never-deployed'' released JNull JNull JNull JNull JNull
      else lifecycle \<in> {''active'', ''suspended''} \<and> evidence = JNull)"

lemma determined_evidence_authority:
  assumes "current_job_deletion_authority authority (JStr lifecycle) digest = Inr evidence"
    and "getitem authority ''manifest'' = Inr manifest" "getitem authority ''archiveRecord'' = Inr archive"
    and "lifecycle = ''archived'' \<or> lifecycle = ''undeployed''"
  shows "determined_evidence manifest archive digest lifecycle evidence"
  using assms(4)
proof
  assume l: "lifecycle = ''archived''"
  show ?thesis using assms(1-3) unfolding l current_deletion_authority_iff determined_evidence_def by simp
next
  assume l: "lifecycle = ''undeployed''"
  show ?thesis using assms(1-3) unfolding l current_deletion_authority_iff determined_evidence_def by simp
qed

section \<open>Properties\<close>

text \<open>A current deletion job that is accepted pins, by digest, a manifest of exactly the tenant
  its request names (and the archive record of an archived tenant), and the evidence it carries
  is determined by them: the only released slug is the slug of that manifest, and for an
  archived tenant the retired object is the bucket, key and version of that record under the
  digest the job pins; a job on deployed content carries no evidence at all.\<close>

theorem deletion_job_evidence_bound:
  assumes "validate_job env d = Inr ()" "getitem d ''request'' = Inr request"
    and "getitem request ''operation'' = lit ''delete''"
    and "getitem d ''compatibilityVersion'' = lit ''static-job-v2''"
  shows "\<exists>expected authority manifest archive lifecycle digest evidence.
    getitem d ''requestDigest'' = document_binding env request REQUEST_DIGEST_FORMAT \<and>
    getitem d ''expectedSource'' = Inr expected \<and> getitem d ''sourceAuthority'' = Inr authority \<and>
    pinned_source env request expected authority manifest archive \<and>
    getitem expected ''lifecycle'' = lit lifecycle \<and>
    getitem expected ''archiveRecordDigest'' = Inr digest \<and>
    getitem expected ''deletionEvidence'' = Inr evidence \<and>
    determined_evidence manifest archive digest lifecycle evidence"
proof -
  note version = assms(4)
  obtain expected l deployment digest where
    expected: "getitem d ''expectedSource'' = Inr expected" "getitem expected ''lifecycle'' = Inr l"
      "getitem expected ''archiveRecordDigest'' = Inr digest"
    and authority: "validate_job_source_authority env d request expected = Inr ()"
    and states: "validate_job_source_lifecycle l deployment digest = Inr ()"
    and deletion: "validate_job_deletion_authority d request expected l digest = Inr ()"
    using validate_job_tenant_parts[OF assms(1-3)] by auto
  obtain source manifest archive where source: "getitem d ''sourceAuthority'' = Inr source"
    and pinned: "pinned_source env request expected source manifest archive"
    using source_authority_pinned[OF authority version _ assms(3)] by auto
  have parts: "getitem source ''manifest'' = Inr manifest" "getitem source ''archiveRecord'' = Inr archive"
    using pinned by (auto simp: pinned_source_def)
  obtain evidence where evidence: "getitem expected ''deletionEvidence'' = Inr evidence"
    and determined: "if l \<in> {JStr ''active'', JStr ''suspended''} then evidence = JNull
      else current_job_deletion_authority source l digest = Inr evidence"
    using current_deletion_evidence[OF deletion assms(3) version] getitem_dict_get[OF source]
    by (auto split: if_splits)
  have bound: "getitem d ''requestDigest'' = document_binding env request REQUEST_DIGEST_FORMAT"
    using validate_job_request_bound[OF assms(1)] assms(2) by auto
  obtain lifecycle where l: "l = JStr lifecycle"
    and "lifecycle \<in> {''undeployed'', ''active'', ''suspended'', ''archived''}"
    using source_lifecycle_cases[OF states] by blast
  then have "determined_evidence manifest archive digest lifecycle evidence"
    using determined determined_evidence_authority[OF _ parts, of lifecycle digest evidence]
    by (auto simp: determined_evidence_def[of _ _ _ "''active''"] determined_evidence_def[of _ _ _ "''suspended''"])
  with expected source pinned evidence bound l show ?thesis by blast
qed

definition sample_delete_request :: json where
  "sample_delete_request = obj
     [(''correlationId'', JStr sample_identity), (''operation'', JStr ''delete''),
      (''tenantId'', JStr sample_tenant)]"

definition sample_delete_job :: json where
  "sample_delete_job = (let archive_digest = sample_binding ARCHIVE_RECORD_DIGEST_FORMAT;
       manifest_digest = sample_binding MANIFEST_DIGEST_FORMAT in obj
     [(''compatibilityVersion'', JStr ''static-job-v2''), (''request'', sample_delete_request),
      (''requestDigest'', sample_binding REQUEST_DIGEST_FORMAT), (''artifact'', JNull),
      (''expectedSource'', obj
         [(''expectsTenantAbsent'', JBool False), (''lifecycle'', JStr ''archived''),
          (''manifestDigest'', manifest_digest), (''deploymentDigest'', JStr ''d''),
          (''archiveRecordDigest'', archive_digest),
          (''deletionEvidence'', deletion_evidence ''archived'' (JStr ''duck'') archive_digest
             (JStr ''b'') (JStr ''k'') (JStr ''v'') JNull)]),
      (''sourceAuthority'', obj
         [(''manifest'', sample_site ''duck'' ''archived''),
          (''archiveRecord'', obj
             [(''tenantId'', JStr sample_tenant), (''deploymentId'', JStr sample_identity),
              (''manifestDigest'', manifest_digest), (''bucket'', JStr ''b''), (''key'', JStr ''k''),
              (''versionId'', JStr ''v'')])])])"

lemma sample_delete_job_valid: "validate_job sample_env sample_delete_job = Inr ()"
  by (simp add: sample_delete_job_def sample_delete_request_def Let_def validate_job_def validate_request_def
      validate_job_delivery_def validate_job_source_authority_def validate_job_source_lifecycle_def
      validate_job_deletion_authority_def current_job_deletion_authority_def sample_site_def
      thenE_def refuse_if_def anyE.simps andE_def neqE_def eqE_def testE_def deletion_evidence_def)

theorem deletion_job_evidence_bound_witness:
  "\<exists>expected authority manifest archive lifecycle digest evidence.
    getitem sample_delete_job ''requestDigest''
      = document_binding sample_env sample_delete_request REQUEST_DIGEST_FORMAT \<and>
    getitem sample_delete_job ''expectedSource'' = Inr expected \<and>
    getitem sample_delete_job ''sourceAuthority'' = Inr authority \<and>
    pinned_source sample_env sample_delete_request expected authority manifest archive \<and>
    getitem expected ''lifecycle'' = lit lifecycle \<and>
    getitem expected ''archiveRecordDigest'' = Inr digest \<and>
    getitem expected ''deletionEvidence'' = Inr evidence \<and>
    determined_evidence manifest archive digest lifecycle evidence"
  by (rule deletion_job_evidence_bound[OF sample_delete_job_valid])
    (simp_all add: sample_delete_job_def sample_delete_request_def Let_def)

end
