(* ===== verification/Schema_Intents.thy ===== *)
theory Schema_Intents
  imports Schema_Base
begin

text \<open>
  The transaction-intent part of \<^verbatim>\<open>static_contracts/schema.py\<close>: the durable record of a lifecycle
  transition in progress. Its restart fence must match its phase, its source and candidate
  manifests must be bound by digest and differ only where the operation may change them, and
  the recovery states must follow the lifecycle matrix. A Python \<^verbatim>\<open>None\<close> in place of a
  manifest or observed state is \<^const>\<open>JNull\<close>.
\<close>

section \<open>Restart fences\<close>

definition restart_fence_matches :: "json \<Rightarrow> string \<Rightarrow> int \<times> int \<Rightarrow> int \<times> int \<Rightarrow> bool \<Rightarrow> bool py" where
  "restart_fence_matches fence target candidate_attempts recovery_attempts invocation_required =
     (if \<not> is_dict fence then Inr False
      else bindE (getitem fence ''candidateAttemptCount'') (\<lambda>candidate_count.
           bindE (getitem fence ''recoveryAttemptCount'') (\<lambda>recovery_count.
           bindE (getitem fence ''systemdInvocationId'') (\<lambda>invocation.
           bindE (getitem fence ''selectedTarget'') (\<lambda>selected.
           Inr (selected = JStr target \<and>
                in_range candidate_count (fst candidate_attempts) (snd candidate_attempts) \<and>
                in_range recovery_count (fst recovery_attempts) (snd recovery_attempts) \<and>
                (invocation \<noteq> JNull) = invocation_required))))))"

text \<open>\<^verbatim>\<open>a or b\<close> of two computed conditions.\<close>

definition orE :: "bool py \<Rightarrow> bool py \<Rightarrow> bool py" where
  "orE a b = bindE a (\<lambda>x. if x then Inr True else b)"

fun fence_valid :: "TransactionPhase \<Rightarrow> json \<Rightarrow> bool py" where
  "fence_valid PREPARED fence = Inr (fence = JNull)"
| "fence_valid RUNTIME_SELECTED fence = Inr (fence = JNull)"
| "fence_valid RESTART_REQUIRED fence = restart_fence_matches fence ''candidate'' (0, 1) (0, 1) False"
| "fence_valid CANDIDATE_STARTING fence = restart_fence_matches fence ''candidate'' (1, 4) (0, 1) True"
| "fence_valid ROLLBACK_RESTART_REQUIRED fence = restart_fence_matches fence ''previous'' (1, 4) (0, 1) False"
| "fence_valid RECOVERY_STARTING fence = restart_fence_matches fence ''previous'' (1, 4) (1, 4) True"
| "fence_valid STATE_COMMITTED fence =
     orE (Inr (fence = JNull))
       (orE (restart_fence_matches fence ''candidate'' (1, 4) (0, 1) True)
            (restart_fence_matches fence ''previous'' (1, 4) (1, 4) True))"

definition validate_restart_fence :: "json \<Rightarrow> unit py" where
  "validate_restart_fence d =
     bindE (bindE (getitem d ''phase'') TransactionPhase_of) (\<lambda>phase.
     bindE (getitem d ''restartFence'') (\<lambda>fence.
     refuse_if (testE Not (fence_valid phase fence))
       ''restart attempt fence does not match the durable transaction phase''))"

section \<open>Manifest bindings of a transaction\<close>

definition validated_transaction_candidate :: "contract_env \<Rightarrow> json \<Rightarrow> json \<Rightarrow> json py" where
  "validated_transaction_candidate env d operation =
     bindE (getitem d ''candidateManifest'') (\<lambda>candidate.
     if operation = JStr ''delete'' then Inr JNull
     else
     thenE (validate_site candidate)
     (bindE (getitem candidate ''metadata'') (\<lambda>metadata.
      thenE (refuse_if (neqE (getitem metadata ''id'') (getitem d ''tenantId''))
               ''transaction candidate tenant identity drifted'')
      (thenE (refuse_if (neqE (manifest_binding env candidate) (getitem d ''candidateManifestDigest''))
                ''transaction candidate manifest binding is invalid'')
       (Inr candidate)))))"

definition validated_transaction_source :: "contract_env \<Rightarrow> json \<Rightarrow> json \<Rightarrow> json py" where
  "validated_transaction_source env d operation =
     bindE (getitem d ''sourceManifest'') (\<lambda>source.
     if operation = JStr ''create'' then Inr JNull
     else
     thenE (validate_site source)
     (bindE (getitem source ''metadata'') (\<lambda>metadata.
      thenE (refuse_if (neqE (getitem metadata ''id'') (getitem d ''tenantId''))
               ''transaction source tenant identity drifted'')
      (thenE (refuse_if (neqE (manifest_binding env source) (getitem d ''sourceManifestDigest''))
                ''transaction source manifest binding is invalid'')
       (Inr source)))))"

definition validate_archive_source_manifest_binding :: "contract_env \<Rightarrow> json \<Rightarrow> json \<Rightarrow> unit py" where
  "validate_archive_source_manifest_binding env d source =
     refuse_if (neqE (manifest_binding env source) (getitem d ''sourceManifestDigest''))
       ''archive source manifest binding is invalid''"

text \<open>The deep copy of the source with the fields the operation may change taken from the candidate.\<close>

definition expected_candidate :: "json \<Rightarrow> json \<Rightarrow> json \<Rightarrow> json \<Rightarrow> json py" where
  "expected_candidate operation source candidate_metadata candidate_spec =
     (if operation = JStr ''rename''
      then bindE (getitem candidate_metadata ''slug'') (setitem2 source ''metadata'' ''slug'')
      else if operation \<in> {JStr ''suspend'', JStr ''resume''}
      then bindE (getitem candidate_spec ''desiredState'') (setitem2 source ''spec'' ''desiredState'')
      else if operation \<in> {JStr ''deploy'', JStr ''rollback'', JStr ''import'', JStr ''restore''}
      then bindE (getitem candidate_spec ''desiredState'') (\<lambda>state.
           bindE (setitem2 source ''spec'' ''desiredState'' state) (\<lambda>expected.
           bindE (getitem candidate_spec ''desiredDeployment'') (setitem2 expected ''spec'' ''desiredDeployment'')))
      else Inr source)"

definition validate_transaction_manifest_transform :: "json \<Rightarrow> json \<Rightarrow> json \<Rightarrow> unit py" where
  "validate_transaction_manifest_transform operation source candidate =
     bindE (in_strs operation [''create'', ''delete'', ''archive'']) (\<lambda>skip.
     if skip then Inr ()
     else
     bindE (getitem candidate ''metadata'') (\<lambda>candidate_metadata.
     bindE (getitem candidate ''spec'') (\<lambda>candidate_spec.
     thenE (getitem source ''metadata'')
     (thenE (getitem source ''spec'')
     (bindE (expected_candidate operation source candidate_metadata candidate_spec) (\<lambda>expected.
      refuse_if (Inr (candidate \<noteq> expected))
        ''transaction candidate changed fields outside its operation''))))))"

section \<open>Recovery states\<close>

definition validate_observed_manifest_binding :: "json \<Rightarrow> json \<Rightarrow> unit py" where
  "validate_observed_manifest_binding manifest observed =
     bindE (getitem manifest ''spec'') (\<lambda>spec.
     bindE (getitem observed ''observedState'') (\<lambda>state.
     bindE (dict_get spec ''desiredDeployment'') (\<lambda>deployment.
     bindE (in_strs state [''active'', ''suspended'']) (\<lambda>deployed.
     bindE (if deployed then getitem deployment ''id'' else none_lit) (\<lambda>deployment_id.
     refuse_if (anyE [neqE (getitem spec ''desiredState'') (Inr state),
                      neqE (getitem observed ''activeDeploymentId'') (Inr deployment_id)])
       ''observed recovery state disagrees with its manifest'')))))"

definition expected_routes :: "json \<Rightarrow> string" where
  "expected_routes state = (if state = JStr ''active'' then ''both'' else ''absent'')"

definition validate_observed_recovery_binding ::
    "json \<Rightarrow> json \<Rightarrow> string \<Rightarrow> json \<Rightarrow> json \<Rightarrow> unit py" where
  "validate_observed_recovery_binding d observed digest_field route_set runtime_generation =
     thenE (refuse_if (anyE
              [neqE (getitem observed ''tenantId'') (getitem d ''tenantId''),
               neqE (getitem observed ''desiredManifestDigest'') (getitem d digest_field)])
              ''observed recovery binding is invalid'')
     (bindE (getitem observed ''observedState'') (\<lambda>state.
      thenE (refuse_if (Inr (route_set \<noteq> JStr (expected_routes state))) ''observed route binding is invalid'')
      (refuse_if (andE (Inr (runtime_generation \<noteq> JNull \<and> state = JStr ''active''))
                       (neqE (getitem observed ''runtimeGenerationId'') (Inr runtime_generation)))
         ''observed runtime binding is invalid'')))"

definition validate_lifecycle_source_recovery ::
    "json \<Rightarrow> json \<Rightarrow> json \<Rightarrow> bool \<Rightarrow> (LifecycleState \<times> json) py" where
  "validate_lifecycle_source_recovery d recovery operation current =
     bindE (getitem recovery ''sourceObservedState'') (\<lambda>source.
     if source = JNull
     then thenE (refuse_if (neqE (getitem recovery ''sourceRouteSet'') (lit ''absent''))
                   ''absent source retained tenant routes'')
          (Inr (ABSENT, JNull))
     else if operation = JStr ''reconcile'' \<and> current
     then bindE (getitem d ''sourceManifest'') (\<lambda>source_manifest.
          bindE (getitem source_manifest ''spec'') (\<lambda>source_spec.
          thenE (refuse_if (neqE (getitem source ''tenantId'') (getitem d ''tenantId''))
                   ''reconcile source recovery tenant is invalid'')
          (bindE (bindE (getitem source_spec ''desiredState'') LifecycleState_of) (\<lambda>state.
           Inr (state, source)))))
     else
     bindE (bindE (getitem source ''observedState'') LifecycleState_of) (\<lambda>state.
     bindE (getitem recovery ''sourceRouteSet'') (\<lambda>route_set.
     thenE (validate_observed_recovery_binding d source ''sourceManifestDigest'' route_set JNull)
     (thenE (if current
             then bindE (getitem d ''sourceManifest'') (\<lambda>m. validate_observed_manifest_binding m source)
             else Inr ())
      (Inr (state, source))))))"

definition validate_lifecycle_candidate_recovery ::
    "json \<Rightarrow> json \<Rightarrow> json \<Rightarrow> bool \<Rightarrow> LifecycleState py" where
  "validate_lifecycle_candidate_recovery d recovery candidate current =
     (if candidate \<noteq> JNull
      then bindE (bindE (getitem candidate ''observedState'') LifecycleState_of) (\<lambda>state.
           bindE (getitem recovery ''candidateRouteSet'') (\<lambda>route_set.
           bindE (getitem recovery ''candidateRuntimeGenerationId'') (\<lambda>generation.
           thenE (validate_observed_recovery_binding d candidate ''candidateManifestDigest'' route_set generation)
           (thenE (if current
                   then bindE (getitem d ''candidateManifest'') (\<lambda>m. validate_observed_manifest_binding m candidate)
                   else Inr ())
            (Inr state)))))
      else thenE (refuse_if (neqE (getitem recovery ''candidateRouteSet'') (lit ''absent''))
                    ''absent candidate retained tenant routes'')
           (Inr ABSENT))"

definition validate_manifest_transition_binding ::
    "json \<Rightarrow> json \<Rightarrow> LifecycleState \<Rightarrow> LifecycleState \<Rightarrow> unit py" where
  "validate_manifest_transition_binding d operation source_state candidate_state =
     bindE (eqE (getitem d ''sourceManifestDigest'') (getitem d ''candidateManifestDigest'')) (\<lambda>same_digest.
     if source_state \<noteq> candidate_state
     then refuse_if (Inr same_digest) ''lifecycle transition did not change the manifest generation''
     else
     thenE (refuse_if (andE (in_strs operation [''suspend'', ''resume'']) (Inr (\<not> same_digest)))
              ''no-op route transition changed the manifest generation'')
     (refuse_if (Inr (operation = JStr ''rename'' \<and> same_digest))
        ''rename transition did not change the manifest generation''))"

definition validate_lifecycle_recovery :: "json \<Rightarrow> bool \<Rightarrow> unit py" where
  "validate_lifecycle_recovery d current =
     bindE (getitem d ''operation'') (\<lambda>operation.
     bindE (getitem d ''lifecycleRecovery'') (\<lambda>recovery.
     bindE (getitem recovery ''sourceObservedState'') (\<lambda>source.
     bindE (getitem recovery ''candidateObservedState'') (\<lambda>candidate.
     thenE (refuse_if (Inr ((operation = JStr ''create'') \<noteq> (source = JNull))) ''source recovery state is invalid'')
     (thenE (refuse_if (Inr ((operation = JStr ''delete'') \<noteq> (candidate = JNull)))
               ''candidate recovery state is invalid'')
     (bindE (validate_lifecycle_source_recovery d recovery operation current) (\<lambda>(source_state, source_observed).
      bindE (validate_lifecycle_candidate_recovery d recovery candidate current) (\<lambda>candidate_state.
      bindE (Operation_of operation) (\<lambda>op.
      thenE (refuse_if (Inr (LIFECYCLE_MATRIX (op, source_state) \<noteq> Some candidate_state))
               ''recovery states violate lifecycle matrix'')
      (thenE (validate_manifest_transition_binding d operation source_state candidate_state)
      (thenE (refuse_if (andE (in_strs operation
                  (if current then [''deploy'', ''rollback'', ''restore''] else [''deploy'', ''rollback'']))
                (anyE [Inr (source_observed = JNull), Inr (candidate = JNull),
                       eqE (getitem source_observed ''activeDeploymentId'') (getitem candidate ''activeDeploymentId''),
                       eqE (getitem d ''sourceManifestDigest'') (getitem d ''candidateManifestDigest'')]))
                ''deployment-selecting transition did not select a distinct generation'')
      (thenE (refuse_if (andE (in_strs operation [''suspend'', ''resume'', ''rename''])
                (anyE [Inr (source_observed = JNull), Inr (candidate = JNull),
                       neqE (getitem source_observed ''activeDeploymentId'') (getitem candidate ''activeDeploymentId'')]))
                ''route-only transition changed the remembered deployment'')
       (refuse_if (eqE (getitem recovery ''candidateRuntimeGenerationId'')
                       (getitem recovery ''sourceRuntimeGenerationId''))
          ''runtime generations are not distinct'')))))))))))))"

definition validate_nonarchive_transaction_intent :: "json \<Rightarrow> json \<Rightarrow> bool \<Rightarrow> unit py" where
  "validate_nonarchive_transaction_intent d operation current =
     (if operation = JStr ''export''
      then refuse_if (neqE (getitem d ''sourceManifestDigest'') (getitem d ''candidateManifestDigest''))
             ''export intent manifest generation drifted''
      else
      thenE (refuse_if (andE (Inr (operation = JStr ''reconcile''))
                             (neqE (getitem d ''sourceManifestDigest'') (getitem d ''candidateManifestDigest'')))
               ''reconcile intent manifest generation drifted'')
      (validate_lifecycle_recovery d current))"

section \<open>Archive recovery\<close>

text \<open>
  The archive branch of \<^verbatim>\<open>_validate_transaction_intent\<close>, in the order of its checks: manifests and
  their bindings, the candidate state, the observed state and routes, the archive record.
\<close>

definition validate_archive_manifests ::
    "contract_env \<Rightarrow> json \<Rightarrow> bool \<Rightarrow> json \<Rightarrow> json \<Rightarrow> json \<Rightarrow> json \<Rightarrow> unit py" where
  "validate_archive_manifests env d current source_manifest candidate_manifest source candidate =
     bindE (getitem d ''tenantId'') (\<lambda>tenant_id.
     bindE (getitem source ''metadata'') (\<lambda>source_metadata.
     bindE (getitem candidate ''metadata'') (\<lambda>candidate_metadata.
     thenE (refuse_if (anyE [neqE (getitem source_metadata ''id'') (Inr tenant_id),
                             Inr (candidate_metadata \<noteq> source_metadata)])
              ''archive intent tenant identity drifted'')
     (thenE (validate_archive_source_manifest_binding env d source)
     (thenE (refuse_if (Inr (current \<and> source \<noteq> source_manifest)) ''archive source manifest copies drifted'')
     (thenE (refuse_if (Inr (current \<and> candidate_manifest \<noteq> candidate))
               ''archive candidate manifest copies drifted'')
     (refuse_if (neqE (getitem d ''candidateManifestDigest'') (manifest_binding env candidate))
        ''archive candidate manifest binding is invalid'')))))))"

definition validate_archive_record_binding ::
    "json \<Rightarrow> json \<Rightarrow> json \<Rightarrow> json \<Rightarrow> json \<Rightarrow> json \<Rightarrow> bool \<Rightarrow> unit py" where
  "validate_archive_record_binding d recovery observed archive source_state source_deployment revalidation =
     thenE (refuse_if (anyE
              [neqE (getitem observed ''tenantId'') (getitem d ''tenantId''),
               neqE (getitem observed ''desiredManifestDigest'') (getitem d ''sourceManifestDigest''),
               neqE (getitem observed ''observedState'') (Inr source_state),
               neqE (getitem observed ''activeDeploymentId'')
                 (if revalidation then none_lit else getitem source_deployment ''id'')])
              ''archive observed-state binding is invalid'')
     (thenE (refuse_if (neqE (getitem recovery ''sourceRouteSet'') (lit (expected_routes source_state)))
               ''archive source route binding is invalid'')
     (thenE (refuse_if (anyE
               [neqE (getitem archive ''tenantId'') (getitem d ''tenantId''),
                neqE (getitem archive ''deploymentId'') (getitem source_deployment ''id''),
                neqE (getitem archive ''manifestDigest'') (getitem d ''candidateManifestDigest''),
                andE (Inr (\<not> revalidation)) (neqE (getitem archive ''correlationId'') (getitem d ''correlationId''))])
               ''archive record binding is invalid'')
     (refuse_if (testE (\<lambda>same. same \<noteq> revalidation)
                   (eqE (getitem recovery ''candidateRuntimeGenerationId'')
                        (getitem recovery ''sourceRuntimeGenerationId'')))
        ''archive runtime generations exceed lifecycle authority'')))"

definition validate_archive_recovery :: "contract_env \<Rightarrow> json \<Rightarrow> bool \<Rightarrow> json \<Rightarrow> json \<Rightarrow> unit py" where
  "validate_archive_recovery env d current source_manifest candidate_manifest =
     bindE (getitem d ''archiveRecovery'') (\<lambda>recovery.
     bindE (getitem recovery ''sourceManifest'') (\<lambda>source.
     bindE (getitem recovery ''candidateManifest'') (\<lambda>candidate.
     bindE (getitem recovery ''sourceObservedState'') (\<lambda>observed.
     bindE (getitem recovery ''candidateArchiveRecord'') (\<lambda>archive.
     thenE (validate_site source)
     (thenE (validate_site candidate)
     (thenE (validate_archive_manifests env d current source_manifest candidate_manifest source candidate)
     (bindE (getitem source ''spec'') (\<lambda>source_spec.
      bindE (getitem candidate ''spec'') (\<lambda>candidate_spec.
      bindE (getitem source_spec ''desiredState'') (\<lambda>source_state.
      bindE (setitem source_spec ''desiredState'' (JStr ''archived'')) (\<lambda>expected_candidate_spec.
      let revalidation = (source_state = JStr ''archived'') in
      thenE (refuse_if (anyE [testE Not (in_strs source_state [''active'', ''suspended'', ''archived'']),
                              Inr (candidate_spec \<noteq> expected_candidate_spec)])
               ''archive candidate state is invalid'')
      (bindE (getitem source_spec ''desiredDeployment'') (\<lambda>source_deployment.
       validate_archive_record_binding d recovery observed archive source_state source_deployment
         revalidation))))))))))))))"

definition validate_transaction_intent :: "contract_env \<Rightarrow> json \<Rightarrow> unit py" where
  "validate_transaction_intent env d =
     thenE (validate_restart_fence d)
     (bindE (getitem d ''operation'') (\<lambda>operation.
      bindE (dict_get d ''compatibilityVersion'') (\<lambda>version.
      let current = (version = JStr ''static-intent-v2'') in
      bindE (if current then validated_transaction_source env d operation else none_lit) (\<lambda>source_manifest.
      bindE (if current then validated_transaction_candidate env d operation else none_lit) (\<lambda>candidate_manifest.
      thenE (if current
             then validate_transaction_manifest_transform operation source_manifest candidate_manifest
             else Inr ())
      (if operation \<noteq> JStr ''archive''
       then validate_nonarchive_transaction_intent d operation current
       else validate_archive_recovery env d current source_manifest candidate_manifest))))))"

section \<open>What an accepted intent pins down\<close>

lemma orE_True: "orE a b = Inr True \<longleftrightarrow> a = Inr True \<or> a = Inr False \<and> b = Inr True"
  by (cases a) (auto simp: orE_def)

lemma fence_matches_True:
  "restart_fence_matches fence target (a, b) (c, e) required = Inr True \<longleftrightarrow>
     (\<exists>m n invocation. getitem fence ''candidateAttemptCount'' = Inr (JInt m) \<and> a \<le> m \<and> m < b \<and>
        getitem fence ''recoveryAttemptCount'' = Inr (JInt n) \<and> c \<le> n \<and> n < e \<and>
        getitem fence ''systemdInvocationId'' = Inr invocation \<and> (invocation \<noteq> JNull) = required \<and>
        getitem fence ''selectedTarget'' = lit target)"
  by (auto simp: restart_fence_matches_def bindE_Inr_iff in_range_iff getitem_is_dict)

lemma validate_restart_fence_iff:
  "validate_restart_fence d = Inr u \<longleftrightarrow>
     (\<exists>phase fence. getitem d ''phase'' = lit (phase_value phase) \<and>
        getitem d ''restartFence'' = Inr fence \<and> fence_valid phase fence = Inr True)"
  unfolding validate_restart_fence_def
  by (auto simp: bindE_Inr_iff check_simps TransactionPhase_of_iff)

lemma intent_current_parts:
  assumes "validate_transaction_intent env d = Inr u"
    and "dict_get d ''compatibilityVersion'' = lit ''static-intent-v2''"
    and "getitem d ''operation'' = Inr operation"
  shows "\<exists>source candidate. validated_transaction_source env d operation = Inr source \<and>
    validated_transaction_candidate env d operation = Inr candidate \<and>
    validate_transaction_manifest_transform operation source candidate = Inr () \<and>
    (if operation \<noteq> JStr ''archive'' then validate_nonarchive_transaction_intent d operation True = Inr ()
     else validate_archive_recovery env d True source candidate = Inr ())"
  using assms unfolding validate_transaction_intent_def
  by (cases "operation = JStr ''archive''") (auto simp: bindE_Inr_iff check_simps)

text \<open>A manifest of the transaction's tenant whose digest is the named field of the intent.\<close>

definition bound_manifest :: "contract_env \<Rightarrow> json \<Rightarrow> string \<Rightarrow> json \<Rightarrow> bool" where
  "bound_manifest env d digest_field manifest \<longleftrightarrow>
     (\<exists>tenant. site_of manifest tenant \<and> getitem d ''tenantId'' = lit tenant) \<and>
     (\<exists>binding. manifest_binding env manifest = Inr binding \<and> getitem d digest_field = Inr binding)"

lemma transaction_source_bound:
  assumes "validated_transaction_source env d operation = Inr source" "operation \<noteq> JStr ''create''"
  shows "getitem d ''sourceManifest'' = Inr source \<and> bound_manifest env d ''sourceManifestDigest'' source"
  using assms unfolding validated_transaction_source_def bound_manifest_def
  by (auto simp: bindE_Inr_iff check_simps validate_site_iff site_of_def)

lemma transaction_candidate_bound:
  assumes "validated_transaction_candidate env d operation = Inr candidate" "operation \<noteq> JStr ''delete''"
  shows "getitem d ''candidateManifest'' = Inr candidate \<and> bound_manifest env d ''candidateManifestDigest'' candidate"
  using assms unfolding validated_transaction_candidate_def bound_manifest_def
  by (auto simp: bindE_Inr_iff check_simps validate_site_iff site_of_def)

lemma bound_manifest_not_null: "bound_manifest env d f m \<Longrightarrow> m \<noteq> JNull"
  by (auto simp: bound_manifest_def site_of_def)

text \<open>The lifecycle state a manifest asks for; a manifest that does not exist is an absent tenant.\<close>

definition manifest_state :: "json \<Rightarrow> LifecycleState \<Rightarrow> bool" where
  "manifest_state m s \<longleftrightarrow>
     (if m = JNull then s = ABSENT
      else \<exists>spec. getitem m ''spec'' = Inr spec \<and> getitem spec ''desiredState'' = lit (state_value s))"

lemma observed_manifest_state:
  assumes "validate_observed_manifest_binding m observed = Inr u" "m \<noteq> JNull"
    and "getitem observed ''observedState'' = lit (state_value s)"
  shows "manifest_state m s"
  using assms unfolding validate_observed_manifest_binding_def manifest_state_def
  by (auto simp: bindE_Inr_iff check_simps)

lemma source_recovery_state:
  assumes "validate_lifecycle_source_recovery d recovery operation True = Inr (s, observed)"
    and "getitem recovery ''sourceObservedState'' = Inr source"
    and "source \<noteq> JNull \<Longrightarrow> getitem d ''sourceManifest'' = Inr m \<and> m \<noteq> JNull" "source = JNull \<Longrightarrow> m = JNull"
  shows "manifest_state m s"
proof (cases "source = JNull")
  case True
  then show ?thesis using assms unfolding validate_lifecycle_source_recovery_def
    by (auto simp: bindE_Inr_iff check_simps manifest_state_def)
next
  case False
  with assms(3) have m: "getitem d ''sourceManifest'' = Inr m" "m \<noteq> JNull" by auto
  show ?thesis
  proof (cases "operation = JStr ''reconcile''")
    case True
    then show ?thesis using assms(1,2) False m unfolding validate_lifecycle_source_recovery_def
      by (auto simp: bindE_Inr_iff check_simps manifest_state_def LifecycleState_of_iff)
  next
    case unreconciled: False
    have "getitem source ''observedState'' = lit (state_value s) \<and> (\<exists>u. validate_observed_manifest_binding m source = Inr u)"
      using assms(1,2) False unreconciled m unfolding validate_lifecycle_source_recovery_def
      by (auto simp: bindE_Inr_iff check_simps LifecycleState_of_iff)
    then show ?thesis using observed_manifest_state m(2) by blast
  qed
qed

lemma candidate_recovery_state:
  assumes "validate_lifecycle_candidate_recovery d recovery candidate True = Inr s"
    and "candidate \<noteq> JNull \<Longrightarrow> getitem d ''candidateManifest'' = Inr m \<and> m \<noteq> JNull" "candidate = JNull \<Longrightarrow> m = JNull"
  shows "manifest_state m s"
proof (cases "candidate = JNull")
  case True
  then show ?thesis using assms unfolding validate_lifecycle_candidate_recovery_def
    by (auto simp: bindE_Inr_iff check_simps manifest_state_def)
next
  case False
  with assms(2) have m: "getitem d ''candidateManifest'' = Inr m" "m \<noteq> JNull" by auto
  have "getitem candidate ''observedState'' = lit (state_value s) \<and>
      (\<exists>u. validate_observed_manifest_binding m candidate = Inr u)"
    using assms(1) False m unfolding validate_lifecycle_candidate_recovery_def
    by (auto simp: bindE_Inr_iff check_simps LifecycleState_of_iff)
  then show ?thesis using observed_manifest_state m(2) by blast
qed

lemma lifecycle_recovery_parts:
  assumes "validate_lifecycle_recovery d current = Inr u" "getitem d ''operation'' = lit (operation_value op)"
  shows "\<exists>recovery source candidate s observed t.
    getitem recovery ''sourceObservedState'' = Inr source \<and> (op = CREATE \<longleftrightarrow> source = JNull) \<and>
    (op = DELETE \<longleftrightarrow> candidate = JNull) \<and>
    validate_lifecycle_source_recovery d recovery (JStr (operation_value op)) current = Inr (s, observed) \<and>
    validate_lifecycle_candidate_recovery d recovery candidate current = Inr t \<and>
    LIFECYCLE_MATRIX (op, s) = Some t"
proof -
  have create: "operation_value op = ''create'' \<longleftrightarrow> op = CREATE" by (cases op; simp)
  have delete: "operation_value op = ''delete'' \<longleftrightarrow> op = DELETE" by (cases op; simp)
  from assms obtain recovery source candidate s observed t where
    "getitem recovery ''sourceObservedState'' = Inr source"
    "(operation_value op = ''create'') = (source = JNull)" "(operation_value op = ''delete'') = (candidate = JNull)"
    "validate_lifecycle_source_recovery d recovery (JStr (operation_value op)) current = Inr (s, observed)"
    "validate_lifecycle_candidate_recovery d recovery candidate current = Inr t"
    "LIFECYCLE_MATRIX (op, s) = Some t"
    unfolding validate_lifecycle_recovery_def
    by (clarsimp simp: bindE_Inr_iff thenE_Inr refuse_if_Inr)
  then show ?thesis unfolding create delete by blast
qed

text \<open>The members of a manifest, two levels deep, and those an operation may change.\<close>

definition nested :: "json \<Rightarrow> string \<Rightarrow> string \<Rightarrow> json py" where
  "nested d k j = bindE (getitem d k) (\<lambda>inner. getitem inner j)"

fun changeable :: "Operation \<Rightarrow> (string \<times> string) list" where
  "changeable RENAME = [(''metadata'', ''slug'')]"
| "changeable SUSPEND = [(''spec'', ''desiredState'')]"
| "changeable RESUME = [(''spec'', ''desiredState'')]"
| "changeable ARCHIVE = [(''spec'', ''desiredState'')]"
| "changeable EXPORT = []"
| "changeable RECONCILE = []"
| "changeable _ = [(''spec'', ''desiredState''), (''spec'', ''desiredDeployment'')]"

lemma nested_setitem2:
  assumes "setitem2 d k j v = Inr d'"
  shows "nested d' k' j' = (if k' = k \<and> j' = j then Inr v else nested d k' j')"
  using assms by (auto simp: setitem2_def bindE_Inr_iff nested_def getitem_setitem)

lemma expected_candidate_frame:
  assumes "expected_candidate (JStr (operation_value op)) source metadata spec = Inr expected"
    and "op \<notin> {CREATE, DELETE, ARCHIVE}" "(k, j) \<notin> set (changeable op)"
  shows "nested expected k j = nested source k j"
  using assms by (cases op) (auto simp: expected_candidate_def bindE_Inr_iff nested_setitem2)

lemma transform_frame:
  assumes "validate_transaction_manifest_transform (JStr (operation_value op)) source candidate = Inr u"
    and "op \<notin> {CREATE, DELETE, ARCHIVE}" "(k, j) \<notin> set (changeable op)"
  shows "nested candidate k j = nested source k j"
proof -
  have "in_strs (JStr (operation_value op)) [''create'', ''delete'', ''archive''] \<noteq> Inr True"
    using assms(2) by (cases op) auto
  then obtain metadata spec where "expected_candidate (JStr (operation_value op)) source metadata spec = Inr candidate"
    using assms(1) unfolding validate_transaction_manifest_transform_def
    by (auto simp: bindE_Inr_iff thenE_Inr refuse_if_Inr split: if_splits)
  then show ?thesis using assms(2,3) by (rule expected_candidate_frame)
qed

text \<open>An archive transition copies the metadata and replaces the desired state in the specification.\<close>

lemma archive_recovery_manifests:
  assumes "validate_archive_recovery env d True source candidate = Inr u"
  shows "\<exists>metadata spec spec' s. getitem source ''metadata'' = Inr metadata \<and> getitem candidate ''metadata'' = Inr metadata \<and>
    getitem source ''spec'' = Inr spec \<and> getitem candidate ''spec'' = Inr spec' \<and>
    setitem spec ''desiredState'' (JStr ''archived'') = Inr spec' \<and>
    getitem spec ''desiredState'' = lit s \<and> s \<in> {''active'', ''suspended'', ''archived''}"
  using assms unfolding validate_archive_recovery_def validate_archive_manifests_def Let_def
  by (clarsimp simp: bindE_Inr_iff check_simps) auto

lemma archive_frame:
  assumes "validate_archive_recovery env d True source candidate = Inr u"
    and "k \<in> {''metadata'', ''spec''}" "(k, j) \<notin> set (changeable ARCHIVE)"
  shows "nested candidate k j = nested source k j"
  using archive_recovery_manifests[OF assms(1)] assms(2,3)
  by (auto simp: nested_def getitem_setitem)

lemma archive_states:
  assumes "validate_archive_recovery env d True source candidate = Inr u"
  shows "\<exists>s t. manifest_state source s \<and> manifest_state candidate t \<and> LIFECYCLE_MATRIX (ARCHIVE, s) = Some t"
proof -
  obtain spec spec' x where spec: "getitem source ''spec'' = Inr spec" "getitem candidate ''spec'' = Inr spec'"
    "setitem spec ''desiredState'' (JStr ''archived'') = Inr spec'" "getitem spec ''desiredState'' = lit x"
    and x: "x \<in> {''active'', ''suspended'', ''archived''}"
    using archive_recovery_manifests[OF assms] by blast
  have state: "manifest_state source s" if "x = state_value s" for s
    using spec that by (auto simp: manifest_state_def)
  have "manifest_state candidate ARCHIVED"
    using spec by (auto simp: manifest_state_def getitem_setitem)
  moreover have "LIFECYCLE_MATRIX (ARCHIVE, s) = Some ARCHIVED" if "s \<in> {ACTIVE, SUSPENDED, ARCHIVED}" for s
    using that by (auto simp: LIFECYCLE_MATRIX_def MATRIX_def)
  ultimately show ?thesis using x state[of ACTIVE] state[of SUSPENDED] state[of ARCHIVED] by auto
qed

lemma recovery_states:
  assumes "validate_lifecycle_recovery d True = Inr u" "getitem d ''operation'' = lit (operation_value op)"
    and "if op = CREATE then source = JNull else getitem d ''sourceManifest'' = Inr source \<and> source \<noteq> JNull"
    and "if op = DELETE then candidate = JNull else getitem d ''candidateManifest'' = Inr candidate \<and> candidate \<noteq> JNull"
  shows "\<exists>s t. manifest_state source s \<and> manifest_state candidate t \<and> LIFECYCLE_MATRIX (op, s) = Some t"
proof -
  obtain recovery o1 o2 s observed t where
    r: "getitem recovery ''sourceObservedState'' = Inr o1" "op = CREATE \<longleftrightarrow> o1 = JNull" "op = DELETE \<longleftrightarrow> o2 = JNull"
      "validate_lifecycle_source_recovery d recovery (JStr (operation_value op)) True = Inr (s, observed)"
      "validate_lifecycle_candidate_recovery d recovery o2 True = Inr t" "LIFECYCLE_MATRIX (op, s) = Some t"
    using lifecycle_recovery_parts[OF assms(1,2)] by blast
  have "manifest_state source s" using r(2) assms(3) by (intro source_recovery_state[OF r(4,1)]) (auto split: if_splits)
  moreover have "manifest_state candidate t"
    using r(3) assms(4) by (intro candidate_recovery_state[OF r(5)]) (auto split: if_splits)
  ultimately show ?thesis using r(6) by blast
qed

text \<open>The two manifests of a current intent, with a missing one for the created or deleted tenant.\<close>

definition transaction_manifests :: "contract_env \<Rightarrow> json \<Rightarrow> Operation \<Rightarrow> json \<Rightarrow> json \<Rightarrow> bool" where
  "transaction_manifests env d op source candidate \<longleftrightarrow>
     (if op = CREATE then source = JNull
      else getitem d ''sourceManifest'' = Inr source \<and> bound_manifest env d ''sourceManifestDigest'' source) \<and>
     (if op = DELETE then candidate = JNull
      else getitem d ''candidateManifest'' = Inr candidate \<and> bound_manifest env d ''candidateManifestDigest'' candidate)"

lemma intent_manifests:
  assumes "validate_transaction_intent env d = Inr u"
    and "dict_get d ''compatibilityVersion'' = lit ''static-intent-v2''"
    and "getitem d ''operation'' = lit (operation_value op)"
  shows "\<exists>source candidate. transaction_manifests env d op source candidate \<and>
    validate_transaction_manifest_transform (JStr (operation_value op)) source candidate = Inr () \<and>
    (if op \<noteq> ARCHIVE then validate_nonarchive_transaction_intent d (JStr (operation_value op)) True = Inr ()
     else validate_archive_recovery env d True source candidate = Inr ())"
proof -
  have vals: "operation_value op = ''create'' \<longleftrightarrow> op = CREATE" "operation_value op = ''delete'' \<longleftrightarrow> op = DELETE"
    "operation_value op = ''archive'' \<longleftrightarrow> op = ARCHIVE" by (cases op; simp)+
  obtain source candidate where parts: "validated_transaction_source env d (JStr (operation_value op)) = Inr source"
    "validated_transaction_candidate env d (JStr (operation_value op)) = Inr candidate"
    and rest: "validate_transaction_manifest_transform (JStr (operation_value op)) source candidate = Inr ()"
    "if op \<noteq> ARCHIVE then validate_nonarchive_transaction_intent d (JStr (operation_value op)) True = Inr ()
     else validate_archive_recovery env d True source candidate = Inr ()"
    using intent_current_parts[OF assms] vals(3) by auto
  have "source = JNull" if "op = CREATE"
    using parts(1) that by (auto simp: validated_transaction_source_def bindE_Inr_iff)
  moreover have "candidate = JNull" if "op = DELETE"
    using parts(2) that by (auto simp: validated_transaction_candidate_def bindE_Inr_iff)
  ultimately have "transaction_manifests env d op source candidate"
    using transaction_source_bound[OF parts(1)] transaction_candidate_bound[OF parts(2)] vals
    unfolding transaction_manifests_def by auto
  with rest show ?thesis by blast
qed

lemma intent_states:
  assumes "transaction_manifests env d op source candidate"
    and "if op \<noteq> ARCHIVE then validate_nonarchive_transaction_intent d (JStr (operation_value op)) True = Inr ()
      else validate_archive_recovery env d True source candidate = Inr ()"
    and "getitem d ''operation'' = lit (operation_value op)" "op \<noteq> EXPORT"
  shows "\<exists>s t. manifest_state source s \<and> manifest_state candidate t \<and> LIFECYCLE_MATRIX (op, s) = Some t"
proof (cases "op = ARCHIVE")
  case True
  then show ?thesis using assms(2) archive_states by auto
next
  case False
  have "operation_value op \<noteq> ''export''" using assms(4) by (cases op) auto
  then have "validate_lifecycle_recovery d True = Inr ()"
    using assms(2) False unfolding validate_nonarchive_transaction_intent_def by (auto simp: thenE_Inr)
  then show ?thesis using assms(3)
  proof (rule recovery_states)
    show "if op = CREATE then source = JNull else getitem d ''sourceManifest'' = Inr source \<and> source \<noteq> JNull"
      using assms(1) by (auto simp: transaction_manifests_def dest: bound_manifest_not_null split: if_splits)
    show "if op = DELETE then candidate = JNull
        else getitem d ''candidateManifest'' = Inr candidate \<and> candidate \<noteq> JNull"
      using assms(1) by (auto simp: transaction_manifests_def dest: bound_manifest_not_null split: if_splits)
  qed
qed

section \<open>A sample intent\<close>

text \<open>Suspending a tenant that is suspended already, before and during a restart.\<close>

definition sample_observed :: json where
  "sample_observed = obj
     [(''tenantId'', JStr sample_tenant), (''desiredManifestDigest'', sample_binding MANIFEST_DIGEST_FORMAT),
      (''observedState'', JStr ''suspended''), (''activeDeploymentId'', JStr sample_identity),
      (''runtimeGenerationId'', JStr ''g2'')]"

definition sample_intent :: "string \<Rightarrow> json \<Rightarrow> json" where
  "sample_intent phase fence = obj
     [(''compatibilityVersion'', JStr ''static-intent-v2''), (''operation'', JStr ''suspend''),
      (''phase'', JStr phase), (''restartFence'', fence), (''tenantId'', JStr sample_tenant),
      (''sourceManifest'', sample_site ''duck'' ''suspended''),
      (''sourceManifestDigest'', sample_binding MANIFEST_DIGEST_FORMAT),
      (''candidateManifest'', sample_site ''duck'' ''suspended''),
      (''candidateManifestDigest'', sample_binding MANIFEST_DIGEST_FORMAT),
      (''lifecycleRecovery'', obj
         [(''sourceObservedState'', sample_observed), (''candidateObservedState'', sample_observed),
          (''sourceRouteSet'', JStr ''absent''), (''candidateRouteSet'', JStr ''absent''),
          (''sourceRuntimeGenerationId'', JStr ''g1''), (''candidateRuntimeGenerationId'', JStr ''g2'')])]"

definition sample_fence :: json where
  "sample_fence = obj
     [(''candidateAttemptCount'', JInt 3), (''recoveryAttemptCount'', JInt 1),
      (''selectedTarget'', JStr ''previous''), (''systemdInvocationId'', JStr ''i'')]"

lemma sample_enums [simp]:
  "TransactionPhase_of (JStr ''prepared'') = Inr PREPARED"
  "TransactionPhase_of (JStr ''recovery-starting'') = Inr RECOVERY_STARTING"
  "LifecycleState_of (JStr ''suspended'') = Inr SUSPENDED" "Operation_of (JStr ''suspend'') = Inr SUSPEND"
  by (simp_all add: TransactionPhase_of_iff LifecycleState_of_iff Operation_of_iff)

lemma sample_fence_valid: "validate_restart_fence (sample_intent ''recovery-starting'' sample_fence) = Inr ()"
  by (simp add: validate_restart_fence_def sample_intent_def sample_fence_def restart_fence_matches_def
      refuse_if_def testE_def)

lemmas sample_evaluation = thenE_def refuse_if_def anyE.simps andE_def neqE_def eqE_def testE_def

lemma sample_transform:
  "validate_transaction_manifest_transform (JStr ''suspend'') (sample_site ''duck'' ''suspended'')
     (sample_site ''duck'' ''suspended'') = Inr ()"
  by (simp add: validate_transaction_manifest_transform_def expected_candidate_def sample_site_def
      setitem2_def setitem_obj obj_inject sample_evaluation)

lemma sample_recovery: "validate_lifecycle_recovery (sample_intent phase fence) True = Inr ()"
  by (simp add: validate_lifecycle_recovery_def validate_lifecycle_source_recovery_def
      validate_lifecycle_candidate_recovery_def validate_observed_recovery_binding_def expected_routes_def
      validate_observed_manifest_binding_def validate_manifest_transition_binding_def sample_intent_def
      sample_observed_def sample_site_def LIFECYCLE_MATRIX_def MATRIX_def sample_evaluation)

lemma sample_intent_valid: "validate_transaction_intent sample_env (sample_intent ''prepared'' JNull) = Inr ()"
proof -
  let ?d = "sample_intent ''prepared'' JNull"
  have fence: "validate_restart_fence ?d = Inr ()"
    by (simp add: validate_restart_fence_def sample_intent_def sample_evaluation)
  have manifests: "validated_transaction_source sample_env ?d (JStr ''suspend'') = Inr (sample_site ''duck'' ''suspended'')"
    "validated_transaction_candidate sample_env ?d (JStr ''suspend'') = Inr (sample_site ''duck'' ''suspended'')"
    by (simp_all add: validated_transaction_source_def validated_transaction_candidate_def sample_intent_def
        sample_evaluation) (simp_all add: sample_site_def)
  have "dict_get ?d ''compatibilityVersion'' = lit ''static-intent-v2''" "getitem ?d ''operation'' = lit ''suspend''"
    by (simp_all add: sample_intent_def)
  then show ?thesis
    by (simp add: validate_transaction_intent_def fence manifests sample_transform Let_def
        validate_nonarchive_transaction_intent_def sample_recovery thenE_def refuse_if_def andE_def)
qed

lemma sample_intent_fields:
  "dict_get (sample_intent phase fence) ''compatibilityVersion'' = lit ''static-intent-v2''"
  "getitem (sample_intent phase fence) ''operation'' = lit (operation_value SUSPEND)"
  "getitem (sample_intent phase fence) ''restartFence'' = Inr fence"
  by (simp_all add: sample_intent_def)

section \<open>Properties\<close>



text \<open>C27. A transaction changes only what its operation may change: in an accepted current intent the
  candidate manifest agrees with the source manifest on every member of its metadata and
  specification except the slug for a rename, the desired state for a suspension, resumption or
  archival, and the desired state and deployment for an operation that selects content. In
  particular no transaction moves a tenant's identity, canonical origin or quotas.\<close>

theorem transaction_intent_frame:
  assumes "validate_transaction_intent env d = Inr ()"
    and "dict_get d ''compatibilityVersion'' = lit ''static-intent-v2''"
    and "getitem d ''operation'' = lit (operation_value op)" "op \<notin> {CREATE, DELETE}"
    and "k \<in> {''metadata'', ''spec''}" "(k, j) \<notin> set (changeable op)"
  shows "\<exists>source candidate. transaction_manifests env d op source candidate \<and>
    nested candidate k j = nested source k j"
proof -
  obtain source candidate where m: "transaction_manifests env d op source candidate"
    and t: "validate_transaction_manifest_transform (JStr (operation_value op)) source candidate = Inr ()"
    and v: "if op \<noteq> ARCHIVE then validate_nonarchive_transaction_intent d (JStr (operation_value op)) True = Inr ()
      else validate_archive_recovery env d True source candidate = Inr ()"
    using intent_manifests[OF assms(1-3)] by blast
  have "nested candidate k j = nested source k j"
  proof (cases "op = ARCHIVE")
    case True
    with v have "validate_archive_recovery env d True source candidate = Inr ()" by simp
    then show ?thesis using assms(5,6) unfolding True by (rule archive_frame)
  next
    case False
    with assms(4) have "op \<notin> {CREATE, DELETE, ARCHIVE}" by simp
    then show ?thesis using t assms(6) by (intro transform_frame)
  qed
  with m show ?thesis by blast
qed

theorem transaction_intent_frame_witness:
  "\<exists>source candidate. transaction_manifests sample_env (sample_intent ''prepared'' JNull) SUSPEND source candidate \<and>
    nested candidate ''metadata'' ''canonicalOrigin'' = nested source ''metadata'' ''canonicalOrigin''"
  by (rule transaction_intent_frame[OF sample_intent_valid sample_intent_fields(1,2)]) simp_all

text \<open>The restart fence of an accepted intent bounds and orders the restart attempts: before a
  restart is required there is no fence; a fence counts at most three candidate and three
  recovery attempts, recovery attempts exist only once the previous generation is selected and
  a candidate attempt was made, and an invocation is recorded exactly in the phases in which
  one has started.\<close>

theorem restart_fence_bounded:
  assumes "validate_restart_fence d = Inr ()" "getitem d ''restartFence'' = Inr fence"
  shows "\<exists>phase. getitem d ''phase'' = lit (phase_value phase) \<and>
    (phase \<in> {PREPARED, RUNTIME_SELECTED} \<longrightarrow> fence = JNull) \<and>
    (fence = JNull \<longrightarrow> phase \<in> {PREPARED, RUNTIME_SELECTED, STATE_COMMITTED}) \<and>
    (fence \<noteq> JNull \<longrightarrow> (\<exists>m n target invocation.
       getitem fence ''candidateAttemptCount'' = Inr (JInt m) \<and> getitem fence ''recoveryAttemptCount'' = Inr (JInt n) \<and>
       getitem fence ''selectedTarget'' = lit target \<and> getitem fence ''systemdInvocationId'' = Inr invocation \<and>
       0 \<le> m \<and> m \<le> 3 \<and> 0 \<le> n \<and> n \<le> 3 \<and> (0 < n \<longrightarrow> 0 < m \<and> target = ''previous'') \<and>
       (target = ''previous'' \<longrightarrow> 0 < m) \<and>
       (invocation \<noteq> JNull \<longleftrightarrow> phase \<in> {CANDIDATE_STARTING, RECOVERY_STARTING, STATE_COMMITTED})))"
proof -
  obtain phase where p: "getitem d ''phase'' = lit (phase_value phase)" and f: "fence_valid phase fence = Inr True"
    using assms by (auto simp: validate_restart_fence_iff)
  show ?thesis
    by (rule exI[of _ phase]) (use p f in \<open>cases phase; force simp: fence_matches_True orE_True\<close>)
qed

theorem restart_fence_bounded_witness:
  "\<exists>phase m n target invocation.
    getitem (sample_intent ''recovery-starting'' sample_fence) ''phase'' = lit (phase_value phase) \<and>
    getitem sample_fence ''candidateAttemptCount'' = Inr (JInt m) \<and>
    getitem sample_fence ''recoveryAttemptCount'' = Inr (JInt n) \<and>
    getitem sample_fence ''selectedTarget'' = lit target \<and> getitem sample_fence ''systemdInvocationId'' = Inr invocation \<and>
    m \<le> 3 \<and> n \<le> 3 \<and> 0 < m \<and> target = ''previous''"
proof -
  have "sample_fence \<noteq> JNull" "getitem sample_fence ''recoveryAttemptCount'' = Inr (JInt 1)"
    by (simp_all add: sample_fence_def)
  then show ?thesis using restart_fence_bounded[OF sample_fence_valid sample_intent_fields(3)] by force
qed

end
