(* ===== verification/Schema.thy ===== *)
theory Schema
  imports Schema_Jobs Schema_Intents
begin

text \<open>
  The entry points of \<^verbatim>\<open>static_contracts/schema.py\<close> and \<^verbatim>\<open>static_contracts/digest.py\<close>: the emergency
  deletion intent, which nests whole contracts, the dispatch to the semantic validators,
  validation, decoding, the projection of a create request and the digests of validated
  contracts. Validation recurses into the nested contracts; the recursion ends because a
  nested document is strictly less deep than the one that holds it.
\<close>

section \<open>Nesting depth\<close>

primrec depth :: "json \<Rightarrow> nat" where
  "depth JNull = 0"
| "depth (JBool b) = 0"
| "depth (JInt i) = 0"
| "depth (JFloat w) = 0"
| "depth (JStr s) = 0"
| "depth (JArr xs) = Suc (Max (set (0 # map depth xs)))"
| "depth (JObj m) = Suc (Max (insert 0 (fset (fmran (fmmap depth m)))))"

lemma depth_getitem: "getitem d k = Inr v \<Longrightarrow> depth v < depth d"
proof -
  assume "getitem d k = Inr v"
  then obtain m where m: "d = JObj m" "fmlookup m k = Some v" by (auto simp: getitem_Inr_iff)
  then have "depth v \<in> fset (fmran (fmmap depth m))" by (auto simp: fmranI)
  then show ?thesis using m by (simp add: less_Suc_eq_le)
qed

lemma depth_as_list: "as_list v = Inr xs \<Longrightarrow> x \<in> set xs \<Longrightarrow> depth x < depth v"
  by (cases v) (auto simp: less_Suc_eq_le)

lemma traverseE_cong [fundef_cong]:
  "xs = ys \<Longrightarrow> (\<And>x. x \<in> set ys \<Longrightarrow> f x = g x) \<Longrightarrow> traverseE f xs = traverseE g ys"
  by (induction ys arbitrary: xs) auto

section \<open>Emergency deletion\<close>

text \<open>\<^verbatim>\<open>str.strip\<close> leaves nothing of a string of white space.\<close>

definition is_py_space :: "char \<Rightarrow> bool" where
  "is_py_space c \<longleftrightarrow> (let n = char_code c in
     9 \<le> n \<and> n \<le> 13 \<or> 28 \<le> n \<and> n \<le> 32 \<or> n = 133 \<or> n = 160)"

fun is_blank :: "json \<Rightarrow> bool py" where
  "is_blank (JStr s) = Inr (list_all is_py_space s)"
| "is_blank _ = Inl AttributeError"

text \<open>
  \<^verbatim>\<open>sorted(set(ids))\<close>. The records have been validated, so an identifier is a string (or absent);
  strings sort by code point, and several values of other types cannot be compared.
\<close>

fun str_of :: "json \<Rightarrow> string" where
  "str_of (JStr s) = s"
| "str_of _ = []"

definition sorted_set :: "json list \<Rightarrow> json list py" where
  "sorted_set xs =
     (if list_all is_str xs then Inr (map JStr (sort (remdups (map str_of xs))))
      else if length (remdups xs) \<le> 1 then Inr (remdups xs)
      else Inl TypeError)"

definition emergency_evidence :: "contract_env \<Rightarrow> json \<Rightarrow> json \<Rightarrow> json \<Rightarrow> json py" where
  "emergency_evidence env metadata archive reason =
     bindE (getitem metadata ''slug'') (\<lambda>released.
     if archive = JNull
     then Inr (deletion_evidence ''emergency'' released JNull JNull JNull JNull reason)
     else
     bindE (document_binding env archive ARCHIVE_RECORD_DIGEST_FORMAT) (\<lambda>archive_digest.
     bindE (getitem archive ''bucket'') (\<lambda>bucket.
     bindE (getitem archive ''key'') (\<lambda>key.
     bindE (getitem archive ''versionId'') (\<lambda>version.
     Inr (deletion_evidence ''emergency-archived'' released archive_digest bucket key version reason))))))"

definition emergency_result :: "json \<Rightarrow> json \<Rightarrow> json \<Rightarrow> json \<Rightarrow> json \<Rightarrow> json" where
  "emergency_result operator_principal reason identity correlation origin = obj
     [(''apiVersion'', JStr API_VERSION), (''kind'', JStr ''OperationResult''),
      (''provenance'', obj [(''kind'', JStr ''emergency-administrator''),
         (''operatorPrincipal'', operator_principal), (''reason'', reason)]),
      (''operation'', JStr ''delete''), (''status'', JStr ''succeeded''), (''tenantId'', identity),
      (''correlationId'', correlation), (''canonicalOrigin'', origin)]"

text \<open>The one long condition of the source: the parts of the intent that must agree.\<close>

definition emergency_disagrees ::
    "contract_env \<Rightarrow> json \<Rightarrow> json \<Rightarrow> json \<Rightarrow> json \<Rightarrow> json \<Rightarrow> json list \<Rightarrow> json \<Rightarrow> json \<Rightarrow> json \<Rightarrow> bool py" where
  "emergency_disagrees env d source observed result audit records archive retirement evidence =
     bindE (getitem source ''metadata'') (\<lambda>metadata.
     bindE (getitem source ''spec'') (\<lambda>spec.
     bindE (getitem d ''operatorPrincipal'') (\<lambda>operator_principal.
     bindE (getitem d ''reason'') (\<lambda>reason.
     bindE (getitem d ''tenantId'') (\<lambda>identity.
     bindE (getitem d ''correlationId'') (\<lambda>correlation.
     bindE (dict_get spec ''desiredDeployment'') (\<lambda>desired.
     bindE (traverseE (\<lambda>record. getitem record ''id'') records) (\<lambda>ids.
     anyE
      [is_blank reason,
       neqE (getitem d ''intentId'') (Inr correlation),
       neqE (getitem metadata ''id'') (Inr identity),
       neqE (getitem observed ''tenantId'') (Inr identity),
       neqE (getitem observed ''desiredManifestDigest'') (manifest_binding env source),
       neqE (getitem observed ''observedState'') (getitem spec ''desiredState''),
       testE (\<lambda>sorted_ids. ids \<noteq> sorted_ids) (sorted_set ids),
       anyE (map (\<lambda>record. neqE (getitem record ''tenantId'') (Inr identity)) records),
       Inr (desired = JNull \<and> records \<noteq> []),
       andE (Inr (is_dict desired)) (testE (\<lambda>i. i \<notin> set ids) (getitem desired ''id'')),
       eqE (getitem d ''sourceRuntimeGenerationId'') (getitem d ''candidateRuntimeGenerationId''),
       testE (\<lambda>origin. result \<noteq> emergency_result operator_principal reason identity correlation origin)
         (getitem metadata ''canonicalOrigin''),
       neqE (getitem audit ''operation'') (lit ''delete''),
       neqE (getitem audit ''resultStatus'') (lit ''succeeded''),
       neqE (getitem audit ''tenantId'') (Inr identity),
       neqE (getitem audit ''correlationId'') (Inr correlation),
       neqE (getitem audit ''operatorPrincipal'') (Inr operator_principal),
       neqE (getitem audit ''timestamp'') (getitem d ''createdAt''),
       neqE (getitem audit ''resultDigest'') (document_binding env result RESULT_DIGEST_FORMAT),
       neqE (getitem audit ''deletionEvidence'') (Inr evidence),
       testE (\<lambda>state. (state = JStr ''archived'') \<noteq> (archive \<noteq> JNull)) (getitem spec ''desiredState''),
       Inr ((archive = JNull) \<noteq> (retirement = JNull))]))))))))"

definition emergency_retirement_disagrees :: "contract_env \<Rightarrow> json \<Rightarrow> json \<Rightarrow> json \<Rightarrow> json \<Rightarrow> bool py" where
  "emergency_retirement_disagrees env d source archive retirement =
     bindE (getitem source ''spec'') (\<lambda>spec.
     bindE (dict_get spec ''desiredDeployment'') (\<lambda>desired.
     bindE (getitem d ''operatorPrincipal'') (\<lambda>operator_principal.
     bindE (getitem d ''reason'') (\<lambda>reason.
     bindE (getitem d ''tenantId'') (\<lambda>identity.
     bindE (getitem d ''correlationId'') (\<lambda>correlation.
     andE (Inr (is_dict archive \<and> is_dict retirement)) (anyE
      [neqE (getitem archive ''tenantId'') (Inr identity),
       neqE (getitem archive ''manifestDigest'') (manifest_binding env source),
       Inr (\<not> is_dict desired),
       neqE (getitem archive ''deploymentId'') (getitem desired ''id''),
       neqE (getitem retirement ''archiveRecord'') (Inr archive),
       neqE (getitem retirement ''transition'') (lit ''delete''),
       neqE (getitem retirement ''compatibilityVersion'') (lit ''static-retirement-v2''),
       neqE (getitem retirement ''phase'') (lit ''prepared''),
       neqE (getitem retirement ''operatorPrincipal'') (Inr operator_principal),
       neqE (getitem retirement ''tenantId'') (Inr identity),
       neqE (getitem retirement ''correlationId'') (Inr correlation),
       eqE (getitem retirement ''intentId'') (getitem d ''intentId''),
       neqE (getitem retirement ''createdAt'') (getitem d ''createdAt''),
       neqE (getitem retirement ''sourceManifestDigest'') (manifest_binding env source),
       neqE (getitem retirement ''provenance'')
         (Inr (obj [(''kind'', JStr ''emergency-administrator''), (''reason'', reason)]))])))))))"

text \<open>The whole validator; \<open>vc\<close> is \<^verbatim>\<open>validate_contract\<close>, called on the nested contracts.\<close>

definition validate_emergency_deletion_intent ::
    "contract_env \<Rightarrow> (json \<Rightarrow> ContractKind option \<Rightarrow> ContractKind py) \<Rightarrow> json \<Rightarrow> unit py" where
  "validate_emergency_deletion_intent env vc d =
     bindE (getitem d ''sourceManifest'') (\<lambda>source.
     bindE (getitem d ''sourceObservedState'') (\<lambda>observed.
     bindE (getitem d ''result'') (\<lambda>result.
     bindE (getitem d ''auditEntry'') (\<lambda>audit.
     thenE (traverseE (\<lambda>v. vc v None) [source, observed, result, audit])
     (bindE (getitem source ''metadata'') (\<lambda>metadata.
     thenE (getitem source ''spec'')
     (bindE (getitem d ''deploymentRecords'') (\<lambda>deployment_records.
     bindE (as_list deployment_records) (\<lambda>records.
     thenE (traverseE (\<lambda>r. vc r (Some DEPLOYMENT_RECORD)) records)
     (bindE (getitem d ''archiveRecord'') (\<lambda>archive.
     bindE (getitem d ''retirementIntent'') (\<lambda>retirement.
     thenE (if is_dict archive then vc archive (Some ARCHIVE_RECORD) else Inr ARCHIVE_RECORD)
     (thenE (if is_dict retirement then vc retirement (Some ARCHIVE_RETIREMENT_INTENT)
             else Inr ARCHIVE_RETIREMENT_INTENT)
     (thenE (getitem d ''operatorPrincipal'')
     (bindE (getitem d ''reason'') (\<lambda>reason.
     thenE (getitem d ''tenantId'')
     (thenE (getitem d ''correlationId'')
     (bindE (emergency_evidence env metadata archive reason) (\<lambda>evidence.
     thenE (refuse_if (emergency_disagrees env d source observed result audit records archive retirement evidence)
              ''emergency deletion authority disagrees'')
     (refuse_if (emergency_retirement_disagrees env d source archive retirement)
        ''emergency retirement authority disagrees''))))))))))))))))))))"

lemma validate_emergency_cong [fundef_cong]:
  assumes "env = env'" "d = d'" "\<And>v k. depth v < depth d' \<Longrightarrow> vc v k = vc' v k"
  shows "validate_emergency_deletion_intent env vc d = validate_emergency_deletion_intent env' vc' d'"
  unfolding validate_emergency_deletion_intent_def assms(1,2)
  by (intro bindE_cong thenE_cong traverseE_cong refl if_cong assms(3))
    (auto dest: depth_getitem depth_as_list intro: less_trans)

section \<open>Validation\<close>

text \<open>The table \<^verbatim>\<open>_SEMANTIC_VALIDATORS\<close>; a kind without an entry has no further checks.\<close>

definition semantic_validator ::
    "contract_env \<Rightarrow> (json \<Rightarrow> ContractKind option \<Rightarrow> ContractKind py) \<Rightarrow> ContractKind \<Rightarrow> json \<Rightarrow> unit py" where
  "semantic_validator env vc kind d =
     (case kind of
        DEPLOYMENT_RECORD \<Rightarrow> validate_deployment_record env d
      | PLATFORM_NAMESPACE \<Rightarrow> validate_namespace d
      | SITE \<Rightarrow> validate_site d
      | OPERATION_REQUEST \<Rightarrow> validate_request d
      | AUTHORIZATION_JOB \<Rightarrow> validate_job env d
      | OPERATION_RESULT \<Rightarrow> validate_result env d
      | ARCHIVE_CONSTRUCTION_INTENT \<Rightarrow> validate_archive_construction_intent d
      | ARCHIVE_RETIREMENT_INTENT \<Rightarrow> validate_archive_retirement_intent env d
      | TRANSACTION_INTENT \<Rightarrow> validate_transaction_intent env d
      | EMERGENCY_DELETION_INTENT \<Rightarrow> validate_emergency_deletion_intent env vc d
      | AUDIT_ENTRY \<Rightarrow> validate_audit_entry d
      | LAUNCH_RECORD \<Rightarrow> Inr ()
      | TENANT_OBSERVED_STATE \<Rightarrow> Inr ()
      | ARCHIVE_RECORD \<Rightarrow> Inr ())"

definition IDENTITY_FIELDS :: "string list" where
  "IDENTITY_FIELDS = [''id'', ''tenantId'', ''deploymentId'', ''jobId'', ''intentId'', ''uploadAttemptId'',
     ''correlationId'']"

definition validate_identity_field :: "json \<Rightarrow> string \<Rightarrow> unit py" where
  "validate_identity_field d field =
     bindE (dict_get d field) (\<lambda>v. if v = JNull then Inr () else thenE (validate_uuid7 v) (Inr ()))"

definition semantic_validation ::
    "contract_env \<Rightarrow> (json \<Rightarrow> ContractKind option \<Rightarrow> ContractKind py) \<Rightarrow> json \<Rightarrow> ContractKind \<Rightarrow> unit py" where
  "semantic_validation env vc d kind =
     thenE (semantic_validator env vc kind d)
     (thenE (traverseE (validate_identity_field d) IDENTITY_FIELDS) (Inr ()))"

lemma semantic_validation_cong [fundef_cong]:
  assumes "env = env'" "d = d'" "kind = kind'" "\<And>v k. depth v < depth d' \<Longrightarrow> vc v k = vc' v k"
  shows "semantic_validation env vc d kind = semantic_validation env' vc' d' kind'"
proof -
  have "validate_emergency_deletion_intent env vc d = validate_emergency_deletion_intent env' vc' d'"
    using assms(1,2,4) by (rule validate_emergency_cong)
  then show ?thesis unfolding semantic_validation_def semantic_validator_def assms(1-3)
    by (simp split: ContractKind.splits)
qed

function validated_contract :: "contract_env \<Rightarrow> json \<Rightarrow> ContractKind option \<Rightarrow> (ContractKind \<times> bytes) py" where
  "validated_contract env d expected_kind =
     bindE (require_supported_identity d) (\<lambda>kind.
     if expected_kind \<noteq> None \<and> expected_kind \<noteq> Some kind
     then Inl (ContractError UNKNOWN_KIND ''contract kind is not the expected kind'')
     else case sort_key error_path (iter_errors env kind d) of
         err # _ \<Rightarrow> Inl (ContractError (validation_error_code err) ''contract does not match its schema'')
       | [] \<Rightarrow>
           thenE (semantic_validation env
                    (\<lambda>v k. bindE (validated_contract env v k) (\<lambda>r. Inr (fst r))) d kind)
           (bindE (canonical_json_bytes (dumps (env_codec env)) d MAX_CANONICAL_BYTES) (\<lambda>raw.
            Inr (kind, raw))))"
  by pat_completeness auto

termination by (relation "measure (\<lambda>(env, d, k). depth d)") auto

declare validated_contract.simps [simp del]

definition validate_contract :: "contract_env \<Rightarrow> json \<Rightarrow> ContractKind option \<Rightarrow> ContractKind py" where
  "validate_contract env d expected_kind = bindE (validated_contract env d expected_kind) (\<lambda>r. Inr (fst r))"

section \<open>Decoding and projection\<close>

definition reject_create_authority_fields :: "json \<Rightarrow> unit py" where
  "reject_create_authority_fields d =
     bindE (dict_get d ''operation'') (\<lambda>operation.
     if operation = JStr ''create'' \<and>
        list_ex (dict_has d) [''id'', ''tenantId'', ''canonicalOrigin'', ''manifest'']
     then Inl (ContractError CALLER_SELECTED_IDENTITY ''create cannot select identity, origin, or desired state'')
     else Inr ())"

definition materialize_create_request :: "contract_env \<Rightarrow> json \<Rightarrow> ValidatedCreateRequest py" where
  "materialize_create_request env d =
     thenE (reject_create_authority_fields d)
     (thenE (validate_contract env d (Some OPERATION_REQUEST))
     (bindE (getitem d ''operation'') (\<lambda>operation.
      if operation \<noteq> JStr ''create''
      then Inl (ContractError SCHEMA_INVALID ''request is not a create operation'')
      else
      bindE (getitem d ''quotas'') (\<lambda>quotas.
      bindE (getitem d ''slug'') (\<lambda>s.
      bindE (getitem quotas ''storageMiB'') (\<lambda>storage.
      bindE (getitem quotas ''entries'') (\<lambda>ents.
      mk_ValidatedCreateRequest s storage ents)))))))"

definition materialize_platform_namespace :: "contract_env \<Rightarrow> json \<Rightarrow> ValidatedPlatformNamespace py" where
  "materialize_platform_namespace env d =
     thenE (validate_contract env d (Some PLATFORM_NAMESPACE))
     (bindE (getitem d ''tenantOriginSuffix'') mk_ValidatedPlatformNamespace)"

definition decode_contract :: "contract_env \<Rightarrow> bytes \<Rightarrow> ContractKind option \<Rightarrow> nat \<Rightarrow> json py" where
  "decode_contract env raw expected_kind maximum_raw_bytes =
     bindE (decode_json_object (env_codec env) raw maximum_raw_bytes) (\<lambda>d.
     thenE (validate_contract env d expected_kind) (Inr d))"

definition decode_request :: "contract_env \<Rightarrow> bytes \<Rightarrow> json py" where
  "decode_request env raw =
     bindE (decode_json_object (env_codec env) raw MAX_RAW_REQUEST_BYTES) (\<lambda>d.
     bindE (dict_get d ''kind'') (\<lambda>kind.
     if kind = JStr (kind_value SITE)
     then Inl (ContractError STANDALONE_MANIFEST_FRAME ''a desired manifest is not an operation request'')
     else
     thenE (reject_create_authority_fields d)
     (thenE (validate_contract env d (Some OPERATION_REQUEST)) (Inr d))))"

definition decode_result :: "contract_env \<Rightarrow> bytes \<Rightarrow> json py" where
  "decode_result env raw = decode_contract env raw (Some OPERATION_RESULT) MAX_CANONICAL_BYTES"

section \<open>Digests of validated contracts\<close>

definition contract_digest :: "contract_env \<Rightarrow> json \<Rightarrow> ContractKind \<Rightarrow> string \<Rightarrow> string \<Rightarrow> Digest py" where
  "contract_digest env d kind format_identifier label =
     thenE (refuse_if (Inr (\<not> is_dict d)) (label @ '' must be a contract object''))
     (thenE (validate_contract env d (Some kind))
     (bindE (canonical_json_bytes (dumps (env_codec env)) d MAX_CANONICAL_BYTES) (\<lambda>raw.
      digest_bytes raw format_identifier)))"

definition platform_state_digest :: "contract_env \<Rightarrow> json \<Rightarrow> Digest py" where
  "platform_state_digest env d =
     contract_digest env d PLATFORM_NAMESPACE PLATFORM_STATE_DIGEST_FORMAT ''platform namespace''"

definition deployment_record_digest :: "contract_env \<Rightarrow> json \<Rightarrow> Digest py" where
  "deployment_record_digest env d =
     contract_digest env d DEPLOYMENT_RECORD DEPLOYMENT_RECORD_DIGEST_FORMAT ''deployment record''"

definition archive_record_digest :: "contract_env \<Rightarrow> json \<Rightarrow> Digest py" where
  "archive_record_digest env d =
     contract_digest env d ARCHIVE_RECORD ARCHIVE_RECORD_DIGEST_FORMAT ''archive record''"

definition canonical_audit_entry :: "contract_env \<Rightarrow> json \<Rightarrow> (bytes \<times> Digest) py" where
  "canonical_audit_entry env entry =
     thenE (refuse_if (Inr (\<not> is_dict entry)) ''audit entry must be a contract object'')
     (bindE (validated_contract env entry (Some AUDIT_ENTRY)) (\<lambda>(_, raw).
      bindE (digest_bytes raw AUDIT_ENTRY_DIGEST_FORMAT) (\<lambda>digest. Inr (raw, digest))))"

definition audit_entry_digest :: "contract_env \<Rightarrow> json \<Rightarrow> Digest py" where
  "audit_entry_digest env entry = bindE (canonical_audit_entry env entry) (\<lambda>r. Inr (snd r))"

definition manifest_digest :: "contract_env \<Rightarrow> json \<Rightarrow> Digest py" where
  "manifest_digest env d = contract_digest env d SITE MANIFEST_DIGEST_FORMAT ''manifest''"

definition request_digest :: "contract_env \<Rightarrow> json \<Rightarrow> Digest py" where
  "request_digest env d = contract_digest env d OPERATION_REQUEST REQUEST_DIGEST_FORMAT ''request''"

definition result_digest :: "contract_env \<Rightarrow> json \<Rightarrow> Digest py" where
  "result_digest env d = contract_digest env d OPERATION_RESULT RESULT_DIGEST_FORMAT ''result''"

section \<open>What validation establishes\<close>

lemma sort_key_Nil_iff: "sort_key f xs = [] \<longleftrightarrow> xs = []"
  by (metis length_0_conv length_sort)

lemma first_error_iff:
  "(case es of e # _ \<Rightarrow> Inl (f e) | [] \<Rightarrow> m) = Inr y \<longleftrightarrow> es = [] \<and> m = Inr y"
  by (cases es) auto

lemma validated_contract_iff:
  "validated_contract env d expected = Inr (kind, raw) \<longleftrightarrow>
     dict_get d ''apiVersion'' = lit API_VERSION \<and> dict_get d ''kind'' = lit (kind_value kind) \<and>
     expected \<in> {None, Some kind} \<and> iter_errors env kind d = [] \<and>
     semantic_validation env (validate_contract env) d kind = Inr () \<and>
     canonical_json_bytes (dumps (env_codec env)) d MAX_CANONICAL_BYTES = Inr raw"
proof -
  have vc: "(\<lambda>v k. bindE (validated_contract env v k) (\<lambda>r. Inr (fst r))) = validate_contract env"
    by (intro ext) (simp add: validate_contract_def)
  have "validated_contract env d expected = Inr (kind, raw) \<longleftrightarrow>
    require_supported_identity d = Inr kind \<and> expected \<in> {None, Some kind} \<and>
    sort_key error_path (iter_errors env kind d) = [] \<and>
    semantic_validation env (validate_contract env) d kind = Inr () \<and>
    canonical_json_bytes (dumps (env_codec env)) d MAX_CANONICAL_BYTES = Inr raw"
    unfolding validated_contract.simps[of env d] vc
    by (auto simp: bindE_Inr_iff thenE_Inr if_Inl_Inr_iff first_error_iff)
  then show ?thesis by (auto simp: require_supported_identity_iff sort_key_Nil_iff)
qed

lemma validate_contract_iff:
  "validate_contract env d expected = Inr kind \<longleftrightarrow> (\<exists>raw. validated_contract env d expected = Inr (kind, raw))"
  by (auto simp: validate_contract_def bindE_Inr_iff)

lemma as_list_iff: "as_list v = Inr xs \<longleftrightarrow> v = JArr xs"
  by (cases v) auto

lemma dict_get_is_dict: "dict_get d k = Inr v \<Longrightarrow> is_dict d"
  by (cases d) auto

lemma semantic_validation_iff:
  "semantic_validation env vc d kind = Inr () \<longleftrightarrow>
     semantic_validator env vc kind d = Inr () \<and>
     (\<forall>field \<in> set IDENTITY_FIELDS. validate_identity_field d field = Inr ())"
proof -
  have "(\<exists>us. traverseE (f :: string \<Rightarrow> unit py) xs = Inr us) \<longleftrightarrow> (\<forall>x \<in> set xs. f x = Inr ())" for f xs
    by (induction xs) (auto simp: bindE_Inr_iff)
  then show ?thesis by (auto simp: semantic_validation_def thenE_Inr)
qed

lemma validate_identity_field_iff:
  "validate_identity_field d field = Inr () \<longleftrightarrow>
     (\<exists>v. dict_get d field = Inr v \<and> (v = JNull \<or> (\<exists>i. v = JStr i \<and> fullmatch UUID7_PATTERN i)))"
  by (auto simp: validate_identity_field_def bindE_Inr_iff thenE_Inr uuid7_iff)

section \<open>Sample contracts\<close>

definition sample_contract :: "string \<Rightarrow> (string \<times> json) list \<Rightarrow> json" where
  "sample_contract kind kvs = obj ([(''apiVersion'', JStr API_VERSION), (''kind'', JStr kind)] @ kvs)"

text \<open>An environment that serializes one given document and scans it back.\<close>

definition table_env :: "json \<Rightarrow> contract_env" where
  "table_env d = \<lparr>env_codec = table_codec [(d, [123, 125])], iter_errors = (\<lambda>_ _. [])\<rparr>"

definition sample_create_request :: json where
  "sample_create_request = sample_contract ''OperationRequest''
     [(''operation'', JStr ''create''), (''slug'', JStr ''duck''), (''correlationId'', JStr sample_identity),
      (''quotas'', obj [(''storageMiB'', JInt 10), (''entries'', JInt 100)])]"

lemma table_env_codec_ok: "codec_ok (env_codec (table_env d))"
  by (simp add: table_env_def table_codec_ok plain_table_def)

lemma table_env_bytes:
  "canonical_json_bytes (dumps (env_codec (table_env d))) d MAX_CANONICAL_BYTES = Inr [123, 125, 10]"
  by (simp add: canonical_json_bytes_def table_env_def table_codec_def MAX_CANONICAL_BYTES_def)

lemma sample_request_valid:
  "validated_contract (table_env sample_create_request) sample_create_request (Some OPERATION_REQUEST)
     = Inr (OPERATION_REQUEST, [123, 125, 10])"
  unfolding validated_contract_iff semantic_validation_iff validate_identity_field_iff table_env_bytes
  by (simp add: semantic_validator_def validate_request_def sample_create_request_def sample_contract_def
      IDENTITY_FIELDS_def thenE_def) (simp add: table_env_def)

definition sample_evidence :: json where
  "sample_evidence = deletion_evidence ''emergency'' (JStr ''duck'') JNull JNull JNull JNull (JStr ''why'')"

definition sample_emergency_result :: json where
  "sample_emergency_result = emergency_result (JStr ''op'') (JStr ''why'') (JStr sample_tenant) (JStr sample_identity)
     (JStr (derived_origin sample_tenant TENANT_ORIGIN_SUFFIX))"

definition sample_emergency :: json where
  "sample_emergency = sample_contract ''EmergencyDeletionIntent''
     [(''sourceManifest'', sample_site ''duck'' ''active''),
      (''sourceObservedState'', sample_contract ''TenantObservedState''
         [(''tenantId'', JStr sample_tenant), (''desiredManifestDigest'', sample_binding MANIFEST_DIGEST_FORMAT),
          (''observedState'', JStr ''active'')]),
      (''result'', sample_emergency_result),
      (''auditEntry'', sample_contract ''AuditEntry''
         [(''operation'', JStr ''delete''), (''resultStatus'', JStr ''succeeded''), (''tenantId'', JStr sample_tenant),
          (''correlationId'', JStr sample_identity), (''operatorPrincipal'', JStr ''op''), (''timestamp'', JStr ''t''),
          (''resultDigest'', sample_binding RESULT_DIGEST_FORMAT), (''deletionEvidence'', sample_evidence)]),
      (''deploymentRecords'', JArr [sample_contract ''DeploymentRecord''
         [(''id'', JStr sample_identity), (''tenantId'', JStr sample_tenant)]]),
      (''archiveRecord'', JNull), (''retirementIntent'', JNull), (''operatorPrincipal'', JStr ''op''),
      (''reason'', JStr ''why''), (''tenantId'', JStr sample_tenant), (''correlationId'', JStr sample_identity),
      (''intentId'', JStr sample_identity), (''createdAt'', JStr ''t''),
      (''sourceRuntimeGenerationId'', JStr ''g1''), (''candidateRuntimeGenerationId'', JStr ''g2'')]"

lemma sample_env_bytes:
  "canonical_json_bytes (dumps (env_codec sample_env)) d MAX_CANONICAL_BYTES = Inr [123, 125, 10]"
  "iter_errors sample_env kind d = []"
  by (simp_all add: canonical_json_bytes_def sample_env_def MAX_CANONICAL_BYTES_def)

lemmas sample_contract_iff = validate_contract_iff validated_contract_iff semantic_validation_iff
  validate_identity_field_iff sample_env_bytes

lemma sample_nested_contracts:
  "validate_contract sample_env (sample_site ''duck'' ''active'') None = Inr SITE"
  "validate_contract sample_env (sample_contract ''TenantObservedState''
     [(''tenantId'', JStr sample_tenant), (''desiredManifestDigest'', sample_binding MANIFEST_DIGEST_FORMAT),
      (''observedState'', JStr ''active'')]) None = Inr TENANT_OBSERVED_STATE"
  "validate_contract sample_env (sample_contract ''DeploymentRecord''
     [(''id'', JStr sample_identity), (''tenantId'', JStr sample_tenant)]) (Some DEPLOYMENT_RECORD) = Inr DEPLOYMENT_RECORD"
  unfolding sample_contract_iff semantic_validator_def
  by (simp_all add: sample_contract_def IDENTITY_FIELDS_def validate_deployment_record_def)
    (simp add: sample_site_def)

lemma sample_nested_results:
  "validate_contract sample_env sample_emergency_result None = Inr OPERATION_RESULT"
  "validate_contract sample_env (sample_contract ''AuditEntry''
     [(''operation'', JStr ''delete''), (''resultStatus'', JStr ''succeeded''), (''tenantId'', JStr sample_tenant),
      (''correlationId'', JStr sample_identity), (''operatorPrincipal'', JStr ''op''), (''timestamp'', JStr ''t''),
      (''resultDigest'', sample_binding RESULT_DIGEST_FORMAT), (''deletionEvidence'', sample_evidence)]) None
   = Inr AUDIT_ENTRY"
  unfolding sample_contract_iff semantic_validator_def
  by (simp_all add: sample_contract_def sample_emergency_result_def emergency_result_def IDENTITY_FIELDS_def
      validate_result_def validate_audit_entry_def sample_evidence_def deletion_evidence_def thenE_def
      validate_canonical_origin_def)

lemma sample_emergency_agrees:
  "validate_emergency_deletion_intent sample_env (validate_contract sample_env) sample_emergency = Inr ()"
proof -
  have evidence: "emergency_evidence sample_env (obj [(''id'', JStr sample_tenant), (''slug'', JStr ''duck''),
      (''canonicalOrigin'', JStr (derived_origin sample_tenant TENANT_ORIGIN_SUFFIX))]) JNull (JStr ''why'')
    = Inr sample_evidence"
    by (simp add: emergency_evidence_def sample_evidence_def)
  have blank: "\<not> is_py_space (CHR ''h'')" by code_simp
  show ?thesis
    unfolding validate_emergency_deletion_intent_def sample_emergency_def
    by (simp add: sample_contract_def[of "''EmergencyDeletionIntent''"] thenE_def sample_nested_contracts
        sample_nested_results)
      (simp add: sample_site_def evidence emergency_disagrees_def emergency_retirement_disagrees_def
        sample_emergency_result_def[symmetric] sample_contract_def sample_evaluation blank sorted_set_def)
qed

section \<open>Properties\<close>

text \<open>C33. A document that validation accepts is of the supported version and of one known kind (the
  expected one when the caller names it), its schema check reported nothing, the returned
  bytes are its canonical serialization within 16 KiB, and each of its identity members is
  either absent or null or a canonical UUIDv7.\<close>

theorem accepted_contract_well_formed:
  assumes "validated_contract env d expected = Inr (kind, raw)"
  shows "getitem d ''apiVersion'' = lit API_VERSION \<and> getitem d ''kind'' = lit (kind_value kind) \<and>
    expected \<in> {None, Some kind} \<and> iter_errors env kind d = [] \<and>
    (\<exists>bs. dumps (env_codec env) d = Some bs \<and> raw = bs @ [10]) \<and> length raw \<le> 16384 \<and>
    (\<forall>field \<in> {''id'', ''tenantId'', ''deploymentId'', ''jobId'', ''intentId'', ''uploadAttemptId'', ''correlationId''}.
       dict_get d field = Inr JNull \<or> (\<exists>i. dict_get d field = lit i \<and> fullmatch UUID7_PATTERN i))"
proof -
  note a = assms[unfolded validated_contract_iff semantic_validation_iff validate_identity_field_iff]
  have get: "getitem d k = lit x" if "dict_get d k = lit x" for k x
    using that by (cases d) (auto split: option.splits)
  have "(\<exists>bs. dumps (env_codec env) d = Some bs \<and> raw = bs @ [10]) \<and> length raw \<le> 16384"
    using a by (auto simp: canonical_json_bytes_iff MAX_CANONICAL_BYTES_def)
  moreover have "\<forall>field \<in> set IDENTITY_FIELDS.
      dict_get d field = Inr JNull \<or> (\<exists>i. dict_get d field = lit i \<and> fullmatch UUID7_PATTERN i)"
    using a by blast
  ultimately show ?thesis using a get by (simp add: IDENTITY_FIELDS_def)
qed

theorem accepted_contract_well_formed_witness:
  "getitem sample_create_request ''kind'' = lit (kind_value OPERATION_REQUEST) \<and>
   length [123, 125, 10 :: byte] \<le> 16384 \<and>
   (dict_get sample_create_request ''correlationId'' = Inr JNull \<or>
    (\<exists>i. dict_get sample_create_request ''correlationId'' = lit i \<and> fullmatch UUID7_PATTERN i))"
proof -
  note wf = accepted_contract_well_formed[OF sample_request_valid]
  have kind: "getitem sample_create_request ''kind'' = lit (kind_value OPERATION_REQUEST)"
    using wf by (elim conjE)
  have "\<forall>field \<in> {''id'', ''tenantId'', ''deploymentId'', ''jobId'', ''intentId'', ''uploadAttemptId'', ''correlationId''}.
      dict_get sample_create_request field = Inr JNull \<or>
      (\<exists>i. dict_get sample_create_request field = lit i \<and> fullmatch UUID7_PATTERN i)"
    using wf by (elim conjE)
  from bspec[OF this, of "''correlationId''"] kind show ?thesis by simp
qed



text \<open>A request that decodes carries only caller choices: it fits the raw limit, it is an
  operation request and not a bare manifest, and when it creates a tenant it names no
  identity, origin or manifest, and its slug is one the platform accepts.\<close>

theorem decoded_request_selects_no_authority:
  assumes "decode_request env raw = Inr d"
  shows "length raw \<le> 32768 \<and> getitem d ''kind'' = lit ''OperationRequest'' \<and>
    (dict_get d ''operation'' = lit ''create'' \<longrightarrow>
       (\<forall>field \<in> {''id'', ''tenantId'', ''canonicalOrigin'', ''manifest''}. \<not> dict_has d field) \<and>
       (\<exists>s. getitem d ''slug'' = lit s \<and> validate_slug (JStr s) = Inr s))"
proof -
  have a: "decode_json_object (env_codec env) raw MAX_RAW_REQUEST_BYTES = Inr d"
    "reject_create_authority_fields d = Inr ()"
    and v: "\<exists>kind. validate_contract env d (Some OPERATION_REQUEST) = Inr kind"
    using assms by (auto simp: decode_request_def bindE_Inr_iff thenE_Inr split: if_splits)
  from v obtain bs where c: "validated_contract env d (Some OPERATION_REQUEST) = Inr (OPERATION_REQUEST, bs)"
    by (auto simp: validate_contract_iff validated_contract_iff)
  then have kind: "getitem d ''kind'' = lit ''OperationRequest''" and req: "validate_request d = Inr ()"
    by (cases d; auto simp: validated_contract_iff semantic_validation_iff semantic_validator_def split: option.splits)+
  have "\<exists>s. getitem d ''slug'' = lit s \<and> validate_slug (JStr s) = Inr s" if "dict_get d ''operation'' = lit ''create''"
  proof (rule validate_request_create[OF req])
    have "\<exists>operation. getitem d ''operation'' = Inr operation"
      using req by (auto simp: validate_request_def bindE_Inr_iff thenE_Inr)
    then show "getitem d ''operation'' = lit ''create''" using that getitem_dict_get by fastforce
  qed
  then show ?thesis using a kind decode_json_object_is_dict[OF a(1)]
    by (auto simp: reject_create_authority_fields_def MAX_RAW_REQUEST_BYTES_def bindE_Inr_iff split: if_splits)
qed

theorem decoded_request_selects_no_authority_witness:
  "\<not> dict_has sample_create_request ''id'' \<and> \<not> dict_has sample_create_request ''tenantId'' \<and>
   \<not> dict_has sample_create_request ''canonicalOrigin'' \<and> \<not> dict_has sample_create_request ''manifest'' \<and>
   (\<exists>s. getitem sample_create_request ''slug'' = lit s \<and> validate_slug (JStr s) = Inr s)"
proof -
  let ?env = "table_env sample_create_request"
  have "decode_json_object (env_codec ?env) [123, 125, 10] MAX_RAW_REQUEST_BYTES = Inr sample_create_request"
    by (rule decode_canonical[OF table_env_codec_ok _ table_env_bytes])
      (simp_all add: sample_create_request_def sample_contract_def MAX_RAW_REQUEST_BYTES_def)
  moreover have "dict_get sample_create_request ''kind'' = lit ''OperationRequest''"
    "reject_create_authority_fields sample_create_request = Inr ()"
    by (simp_all add: sample_create_request_def sample_contract_def reject_create_authority_fields_def)
  moreover have "validate_contract ?env sample_create_request (Some OPERATION_REQUEST) = Inr OPERATION_REQUEST"
    using sample_request_valid by (auto simp: validate_contract_iff)
  ultimately have "decode_request ?env [123, 125, 10] = Inr sample_create_request"
    by (simp add: decode_request_def thenE_def)
  from decoded_request_selects_no_authority[OF this] show ?thesis
    by (simp add: sample_create_request_def sample_contract_def)
qed

text \<open>C28. An accepted emergency deletion intent authorizes the removal of exactly one tenant and
  leaves a complete trace: the manifest, every deployment record, the result and the audit
  entry belong to the intent's tenant, the records are listed once each in order, the audit
  entry binds the digest of the exact result and carries the evidence derived from the
  manifest's slug and, when the tenant is archived, from the archive record that the
  prepared retirement intent will retire.\<close>

theorem emergency_deletion_bound:
  assumes "validated_contract env d expected = Inr (EMERGENCY_DELETION_INTENT, raw)"
  shows "\<exists>source metadata spec identity result audit records ids archive retirement reason evidence.
    getitem d ''sourceManifest'' = Inr source \<and> getitem source ''metadata'' = Inr metadata \<and>
    getitem source ''spec'' = Inr spec \<and> getitem d ''tenantId'' = Inr identity \<and> getitem metadata ''id'' = Inr identity \<and>
    getitem d ''result'' = Inr result \<and> getitem result ''tenantId'' = Inr identity \<and>
    getitem d ''deploymentRecords'' = Inr (JArr records) \<and>
    (\<forall>record \<in> set records. getitem record ''tenantId'' = Inr identity) \<and>
    traverseE (\<lambda>record. getitem record ''id'') records = Inr ids \<and> sorted_set ids = Inr ids \<and>
    getitem d ''archiveRecord'' = Inr archive \<and> getitem d ''retirementIntent'' = Inr retirement \<and>
    getitem d ''reason'' = Inr reason \<and> emergency_evidence env metadata archive reason = Inr evidence \<and>
    getitem d ''auditEntry'' = Inr audit \<and> getitem audit ''tenantId'' = Inr identity \<and>
    getitem audit ''resultDigest'' = document_binding env result RESULT_DIGEST_FORMAT \<and>
    getitem audit ''deletionEvidence'' = Inr evidence \<and>
    (getitem spec ''desiredState'' = lit ''archived'' \<longleftrightarrow> archive \<noteq> JNull) \<and> (archive = JNull \<longleftrightarrow> retirement = JNull) \<and>
    (is_dict archive \<and> is_dict retirement \<longrightarrow>
       getitem archive ''tenantId'' = Inr identity \<and> getitem archive ''manifestDigest'' = manifest_binding env source \<and>
       getitem retirement ''archiveRecord'' = Inr archive \<and> getitem retirement ''phase'' = lit ''prepared'')"
proof -
  have "validate_emergency_deletion_intent env (validate_contract env) d = Inr ()"
    using assms by (simp add: validated_contract_iff semantic_validation_iff semantic_validator_def)
  then obtain source observed result audit metadata spec records archive retirement reason evidence where
    parts: "getitem d ''sourceManifest'' = Inr source" "getitem source ''metadata'' = Inr metadata"
      "getitem source ''spec'' = Inr spec" "getitem d ''result'' = Inr result" "getitem d ''auditEntry'' = Inr audit"
      "getitem d ''deploymentRecords'' = Inr (JArr records)" "getitem d ''archiveRecord'' = Inr archive"
      "getitem d ''retirementIntent'' = Inr retirement" "getitem d ''reason'' = Inr reason"
      "emergency_evidence env metadata archive reason = Inr evidence"
    and main: "emergency_disagrees env d source observed result audit records archive retirement evidence = Inr False"
    and rest: "emergency_retirement_disagrees env d source archive retirement = Inr False"
    unfolding validate_emergency_deletion_intent_def
    by (clarsimp simp: bindE_Inr_iff thenE_Inr refuse_if_Inr as_list_iff)
  from main parts(2,3,9) obtain identity ids where
    "getitem d ''tenantId'' = Inr identity" "getitem metadata ''id'' = Inr identity"
    "getitem result ''tenantId'' = Inr identity" "\<forall>record \<in> set records. getitem record ''tenantId'' = Inr identity"
    "traverseE (\<lambda>record. getitem record ''id'') records = Inr ids" "sorted_set ids = Inr ids"
    "getitem audit ''tenantId'' = Inr identity"
    "getitem audit ''resultDigest'' = document_binding env result RESULT_DIGEST_FORMAT"
    "getitem audit ''deletionEvidence'' = Inr evidence"
    "getitem spec ''desiredState'' = lit ''archived'' \<longleftrightarrow> archive \<noteq> JNull" "archive = JNull \<longleftrightarrow> retirement = JNull"
    unfolding emergency_disagrees_def
    by (clarsimp simp: bindE_Inr_iff check_simps list_all_iff emergency_result_def)
  moreover from this(1) rest have "is_dict archive \<and> is_dict retirement \<longrightarrow>
       getitem archive ''tenantId'' = Inr identity \<and> getitem archive ''manifestDigest'' = manifest_binding env source \<and>
       getitem retirement ''archiveRecord'' = Inr archive \<and> getitem retirement ''phase'' = lit ''prepared''"
    unfolding emergency_retirement_disagrees_def by (auto simp: bindE_Inr_iff check_simps)
  ultimately show ?thesis using parts by blast
qed

theorem emergency_deletion_bound_witness:
  "\<exists>source metadata audit evidence.
    getitem sample_emergency ''sourceManifest'' = Inr source \<and> getitem source ''metadata'' = Inr metadata \<and>
    emergency_evidence sample_env metadata JNull (JStr ''why'') = Inr evidence \<and>
    getitem sample_emergency ''auditEntry'' = Inr audit \<and> getitem audit ''deletionEvidence'' = Inr evidence"
proof -
  have "validated_contract sample_env sample_emergency None = Inr (EMERGENCY_DELETION_INTENT, [123, 125, 10])"
    unfolding validated_contract_iff semantic_validation_iff validate_identity_field_iff sample_env_bytes
      semantic_validator_def
    by (simp add: sample_emergency_agrees) (simp add: sample_emergency_def sample_contract_def IDENTITY_FIELDS_def)
  moreover have "getitem sample_emergency ''archiveRecord'' = none_lit" "getitem sample_emergency ''reason'' = lit ''why''"
    by (simp_all add: sample_emergency_def sample_contract_def)
  ultimately show ?thesis using emergency_deletion_bound[of sample_env sample_emergency None "[123, 125, 10]"]
    by force
qed

end
