(* ===== verification/Lifecycle_Plan.thy ===== *)
theory Lifecycle_Plan
  imports Schema Domain
begin

text \<open>
  Model of \<^verbatim>\<open>static_host_agent/lifecycle_plan.py\<close>: the pure construction of every document a
  create, route, deployment or archive transaction will publish. A plan validates its inputs as
  contracts, checks that the authorization job pins exactly the supplied source, derives the
  candidate manifest, and returns the observed state, transaction intent, result and audit entry
  of the transition. A document that is Python's \<^verbatim>\<open>None\<close> is \<^const>\<open>JNull\<close>; the clock and entropy
  sources are the sequence of their readings, one for each generated identity.
\<close>

section \<open>Timestamps\<close>

text \<open>
  A \<^verbatim>\<open>datetime\<close>: the instant it denotes, in microseconds since the first day of year 1 in UTC,
  and whether it carries a time zone. The date is computed as the standard library does.
\<close>

record py_datetime =
  utc_microseconds :: int
  tz_aware :: bool

definition DAYS_BEFORE_MONTH :: "nat list" where
  "DAYS_BEFORE_MONTH = [0, 0, 31, 59, 90, 120, 151, 181, 212, 243, 273, 304, 334]"

definition DAYS_IN_MONTH :: "nat list" where
  "DAYS_IN_MONTH = [0, 31, 28, 31, 30, 31, 30, 31, 31, 30, 31, 30, 31]"

text \<open>Year, month and day of a day counted from zero at 0001-01-01.\<close>

definition civil_date :: "nat \<Rightarrow> nat \<times> nat \<times> nat" where
  "civil_date day =
     (let n400 = day div 146097; r400 = day mod 146097;
          n100 = r400 div 36524; r100 = r400 mod 36524;
          n4 = r100 div 1461; r4 = r100 mod 1461;
          n1 = r4 div 365; n = r4 mod 365;
          year = n400 * 400 + 1 + n100 * 100 + n4 * 4 + n1
      in if n1 = 4 \<or> n100 = 4 then (year - 1, 12, 31)
         else
           let leapyear = (n1 = 3 \<and> (n4 \<noteq> 24 \<or> n100 = 3));
               month = (n + 50) div 32;
               preceding = DAYS_BEFORE_MONTH ! month + (if month > 2 \<and> leapyear then 1 else 0);
               (month', preceding') =
                 (if preceding > n
                  then (month - 1, preceding - (DAYS_IN_MONTH ! (month - 1) + (if month - 1 = 2 \<and> leapyear then 1 else 0)))
                  else (month, preceding))
           in (year, month', n - preceding' + 1))"

definition padded :: "nat \<Rightarrow> nat \<Rightarrow> string" where
  "padded width n = map (\<lambda>i. char_of (48 + n div 10 ^ (width - 1 - i) mod 10)) [0..<width]"

text \<open>\<^verbatim>\<open>isoformat()\<close> without its UTC suffix: the fraction is written only when it is not zero.\<close>

definition isoformat :: "nat \<Rightarrow> string" where
  "isoformat microseconds =
     (let (year, month, day) = civil_date (microseconds div 86400000000);
          t = microseconds mod 86400000000; us = t mod 1000000; seconds = t div 1000000
      in padded 4 year @ ''-'' @ padded 2 month @ ''-'' @ padded 2 day @ ''T'' @
         padded 2 (seconds div 3600) @ '':'' @ padded 2 (seconds div 60 mod 60) @ '':'' @ padded 2 (seconds mod 60) @
         (if us = 0 then [] else ''.'' @ padded 6 us))"

definition canonical_timestamp :: "py_datetime \<Rightarrow> string py" where
  "canonical_timestamp v =
     (if \<not> tz_aware v then Inl (LifecyclePlanError ''lifecycle clock must be timezone-aware'')
      else if utc_microseconds v < 0 \<or> utc_microseconds v \<ge> 3652059 * 86400000000
      then Inl (OverflowError ''date value out of range'')
      else Inr (isoformat (nat (utc_microseconds v)) @ ''Z''))"

section \<open>Plans and their inputs\<close>

record AuditState =
  audit_entry_count :: int
  audit_segment_count :: int
  audit_allocated_bytes :: int
  audit_terminal_digest :: json

record TransitionPlan =
  plan_tenant_id :: string
  plan_intent_id :: string
  plan_manifest :: json
  plan_observed_state :: json
  plan_intent :: json
  plan_result :: json
  plan_audit_entry :: json

record DeploymentTransitionPlan = TransitionPlan +
  plan_deployment :: json
  plan_creates_deployment :: bool

record ArchiveTransitionPlan = TransitionPlan +
  plan_construction_intent_id :: json
  plan_archive_record :: json

text \<open>The keyword arguments every planner takes.\<close>

record plan_context =
  source_runtime_generation_id :: json
  candidate_runtime_generation_id :: json
  ctx_audit_state :: AuditState
  ctx_now :: py_datetime
  ctx_readings :: "nat \<Rightarrow> reading"

definition refuse_plan :: "bool py \<Rightarrow> string \<Rightarrow> unit py" where
  "refuse_plan c msg = bindE c (\<lambda>bad. if bad then Inl (LifecyclePlanError msg) else Inr ())"

lemma refuse_plan_Inr [check_simps]: "refuse_plan c msg = Inr u \<longleftrightarrow> c = Inr False"
  by (cases c) (auto simp: refuse_plan_def)

text \<open>\<^verbatim>\<open>..._digest(document).to_dict()\<close>\<close>

definition digest_dict :: "Digest py \<Rightarrow> json py" where
  "digest_dict d = bindE d (\<lambda>digest. Inr (Digest_to_dict digest))"

text \<open>A document that is validated only when it is not \<^verbatim>\<open>None\<close>.\<close>

definition validate_optional :: "contract_env \<Rightarrow> json \<Rightarrow> ContractKind \<Rightarrow> unit py" where
  "validate_optional env d kind =
     (if d = JNull then Inr () else thenE (validate_contract env d (Some kind)) (Inr ()))"

section \<open>The documents of a transition\<close>

definition state_routes :: "LifecycleState \<Rightarrow> json" where
  "state_routes s = JStr (if s = ACTIVE then ''both'' else ''absent'')"

definition observed_document :: "string \<Rightarrow> json \<Rightarrow> LifecycleState \<Rightarrow> json \<Rightarrow> json \<Rightarrow> string \<Rightarrow> json" where
  "observed_document tid digest state active generation timestamp = obj
     [(''apiVersion'', JStr API_VERSION), (''kind'', JStr ''TenantObservedState''), (''tenantId'', JStr tid),
      (''desiredManifestDigest'', digest), (''observedState'', JStr (state_value state)),
      (''activeDeploymentId'', active), (''runtimeGenerationId'', generation), (''reconciledAt'', JStr timestamp)]"

definition recovery_document :: "json \<Rightarrow> string \<Rightarrow> json \<Rightarrow> json \<Rightarrow> string \<Rightarrow> json \<Rightarrow> json" where
  "recovery_document source source_generation source_routes candidate candidate_generation candidate_routes = obj
     [(''sourceObservedState'', source), (''sourceRuntimeGenerationId'', JStr source_generation),
      (''sourceRouteSet'', source_routes), (''candidateObservedState'', candidate),
      (''candidateRuntimeGenerationId'', JStr candidate_generation), (''candidateRouteSet'', candidate_routes)]"

definition intent_document ::
    "string \<Rightarrow> string \<Rightarrow> json \<Rightarrow> Operation \<Rightarrow> json \<Rightarrow> json \<Rightarrow> json \<Rightarrow> json \<Rightarrow> json \<Rightarrow> json \<Rightarrow> string \<Rightarrow> json" where
  "intent_document intent_id tid correlation op archive_recovery recovery source source_digest candidate
     candidate_digest timestamp = obj
     [(''apiVersion'', JStr API_VERSION), (''kind'', JStr ''TransactionIntent''),
      (''compatibilityVersion'', JStr ''static-intent-v2''), (''intentId'', JStr intent_id), (''tenantId'', JStr tid),
      (''correlationId'', correlation), (''operation'', JStr (operation_value op)),
      (''archiveRecovery'', archive_recovery), (''lifecycleRecovery'', recovery),
      (''sourceManifest'', source), (''sourceManifestDigest'', source_digest),
      (''candidateManifest'', candidate), (''candidateManifestDigest'', candidate_digest),
      (''phase'', JStr ''prepared''), (''restartFence'', JNull), (''createdAt'', JStr timestamp)]"

definition result_members :: "json \<Rightarrow> json \<Rightarrow> Operation \<Rightarrow> string \<Rightarrow> json \<Rightarrow> json \<Rightarrow> (string \<times> json) list" where
  "result_members job_id correlation op tid origin candidate =
     [(''apiVersion'', JStr API_VERSION), (''kind'', JStr ''OperationResult''),
      (''provenance'', obj [(''kind'', JStr ''authorization-job''), (''jobId'', job_id)]),
      (''correlationId'', correlation), (''operation'', JStr (operation_value op)), (''status'', JStr ''succeeded''),
      (''tenantId'', JStr tid), (''canonicalOrigin'', origin), (''manifest'', candidate)]"

definition expected_source_document :: "json \<Rightarrow> json \<Rightarrow> json \<Rightarrow> json \<Rightarrow> json \<Rightarrow> json" where
  "expected_source_document lifecycle manifest_d deployment_d archive_d platform_d = obj
     [(''expectsTenantAbsent'', JBool False), (''lifecycle'', lifecycle), (''manifestDigest'', manifest_d),
      (''deploymentDigest'', deployment_d), (''archiveRecordDigest'', archive_d), (''platformStateDigest'', platform_d)]"

definition successful_audit_entry ::
    "contract_env \<Rightarrow> json \<Rightarrow> Operation \<Rightarrow> string \<Rightarrow> json \<Rightarrow> AuditState \<Rightarrow> string \<Rightarrow> json py" where
  "successful_audit_entry env job op tid result audit timestamp =
     bindE (getitem job ''request'') (\<lambda>request.
     bindE (getitem job ''operatorPrincipal'') (\<lambda>operator_principal.
     bindE (getitem request ''correlationId'') (\<lambda>correlation.
     bindE (digest_dict (result_digest env result)) (\<lambda>digest.
     let entry = obj
       [(''apiVersion'', JStr API_VERSION), (''kind'', JStr ''AuditEntry''), (''sequence'', JInt (audit_entry_count audit)),
        (''previousEntryDigest'', audit_terminal_digest audit), (''timestamp'', JStr timestamp),
        (''operatorPrincipal'', operator_principal), (''operation'', JStr (operation_value op)), (''tenantId'', JStr tid),
        (''correlationId'', correlation), (''resultDigest'', digest), (''resultStatus'', JStr ''succeeded'')]
     in thenE (validate_contract env entry (Some AUDIT_ENTRY)) (Inr entry)))))"

section \<open>Create\<close>

definition plan_create_transition :: "contract_env \<Rightarrow> json \<Rightarrow> json \<Rightarrow> plan_context \<Rightarrow> TransitionPlan py" where
  "plan_create_transition env job namespace ctx =
     thenE (validate_contract env job (Some AUTHORIZATION_JOB))
     (thenE (refuse_plan (neqE (getitem job ''phase'') (lit ''claimed''))
               ''create planning requires one claimed authorization job'')
     (bindE (getitem job ''request'') (\<lambda>request.
      bindE (materialize_create_request env request) (\<lambda>create_request.
      bindE (materialize_platform_namespace env namespace) (\<lambda>validated_namespace.
      bindE (getitem job ''expectedSource'') (\<lambda>expected_source.
      bindE (digest_dict (platform_state_digest env namespace)) (\<lambda>platform.
      thenE (refuse_plan (Inr (expected_source \<noteq> obj
                [(''expectsTenantAbsent'', JBool True), (''lifecycle'', JNull), (''manifestDigest'', JNull),
                 (''deploymentDigest'', JNull), (''archiveRecordDigest'', JNull), (''platformStateDigest'', platform)]))
               ''create authority is not bound to the supplied namespace'')
      (bindE (validate_uuid7 (source_runtime_generation_id ctx)) (\<lambda>source_generation.
       bindE (validate_uuid7 (candidate_runtime_generation_id ctx)) (\<lambda>candidate_generation.
       thenE (refuse_plan (Inr (source_generation = candidate_generation))
                ''create must select a distinct complete runtime generation'')
       (bindE (canonical_timestamp (ctx_now ctx)) (\<lambda>timestamp.
        bindE (construct_create_manifest create_request validated_namespace (ctx_readings ctx 0)) (\<lambda>created.
        bindE (digest_dict (manifest_digest env (manifest created))) (\<lambda>desired_digest.
        let observed = observed_document (tenant_id created) desired_digest UNDEPLOYED JNull JNull timestamp in
        thenE (validate_contract env observed (Some TENANT_OBSERVED_STATE))
        (bindE (generate_uuid7 (ctx_readings ctx 1)) (\<lambda>intent_id.
         thenE (refuse_plan (Inr (intent_id = tenant_id created))
                  ''create tenant and transaction identities collided'')
         (bindE (getitem request ''correlationId'') (\<lambda>correlation.
          let intent = intent_document intent_id (tenant_id created) correlation CREATE JNull
                (recovery_document JNull source_generation (JStr ''absent'') observed candidate_generation (JStr ''absent''))
                JNull JNull (manifest created) desired_digest timestamp in
          thenE (validate_contract env intent (Some TRANSACTION_INTENT))
          (bindE (getitem job ''jobId'') (\<lambda>job_id.
           let result = obj (result_members job_id correlation CREATE (tenant_id created)
                 (JStr (canonical_origin created)) (manifest created)) in
           thenE (validate_contract env result (Some OPERATION_RESULT))
           (bindE (successful_audit_entry env job CREATE (tenant_id created) result (ctx_audit_state ctx) timestamp) (\<lambda>entry.
            Inr \<lparr>plan_tenant_id = tenant_id created, plan_intent_id = intent_id, plan_manifest = manifest created,
                 plan_observed_state = observed, plan_intent = intent, plan_result = result,
                 plan_audit_entry = entry\<rparr>))))))))))))))))))))))"

section \<open>Suspend, resume, rename, reconcile\<close>

definition validate_route_source_observed :: "json \<Rightarrow> string \<Rightarrow> json \<Rightarrow> LifecycleState \<Rightarrow> json \<Rightarrow> unit py" where
  "validate_route_source_observed observed tid source_digest source_state active =
     refuse_plan (anyE
       [neqE (getitem observed ''tenantId'') (lit tid),
        neqE (getitem observed ''desiredManifestDigest'') (Inr source_digest),
        neqE (getitem observed ''observedState'') (lit (state_value source_state)),
        neqE (getitem observed ''activeDeploymentId'') (Inr active)])
       ''route source observed-state binding drifted''"

text \<open>The deployment and archive digests of the source and the deployment it remembers as active.\<close>

definition route_source_evidence ::
    "contract_env \<Rightarrow> string \<Rightarrow> json \<Rightarrow> LifecycleState \<Rightarrow> json \<Rightarrow> json \<Rightarrow> json \<Rightarrow> (json \<times> json \<times> json) py" where
  "route_source_evidence env tid spec source_state source_digest deployment archive =
     (if source_state = UNDEPLOYED
      then thenE (refuse_plan (Inr (deployment \<noteq> JNull \<or> archive \<noteq> JNull))
                    ''undeployed route source retained deployment evidence'')
           (Inr (JNull, JNull, JNull))
      else
      thenE (refuse_plan (Inr (deployment = JNull)) ''deployed route source omitted its deployment'')
      (bindE (getitem spec ''desiredDeployment'') (\<lambda>desired.
       bindE (getitem desired ''id'') (\<lambda>desired_id.
       thenE (refuse_plan (anyE
                [neqE (getitem deployment ''tenantId'') (lit tid),
                 neqE (getitem deployment ''id'') (Inr desired_id),
                 neqE (getitem deployment ''archiveSha256'') (getitem desired ''archiveSha256'')])
                ''route source deployment binding drifted'')
       (bindE (digest_dict (deployment_record_digest env deployment)) (\<lambda>deployment_digest.
        if source_state = ARCHIVED
        then thenE (refuse_plan (Inr (archive = JNull)) ''archived route source omitted its archive record'')
             (thenE (refuse_plan (anyE
                [neqE (getitem archive ''tenantId'') (lit tid),
                 neqE (getitem archive ''deploymentId'') (Inr desired_id),
                 neqE (getitem archive ''releaseTreeDigest'') (getitem deployment ''releaseTreeDigest''),
                 neqE (getitem archive ''manifestDigest'') (Inr source_digest)])
                ''route source archive binding drifted'')
             (bindE (digest_dict (archive_record_digest env archive)) (\<lambda>archive_digest.
              Inr (deployment_digest, archive_digest, JNull))))
        else thenE (refuse_plan (Inr (archive \<noteq> JNull)) ''live route source retained an archive record'')
             (Inr (deployment_digest, JNull, desired_id))))))))"

text \<open>The candidate manifest: a rename takes the requested slug, the others the target state.\<close>

definition route_candidate :: "json \<Rightarrow> json \<Rightarrow> Operation \<Rightarrow> LifecycleState \<Rightarrow> json py" where
  "route_candidate source request op target_state =
     thenE (getitem source ''metadata'')
     (thenE (getitem source ''spec'')
     (if op = RENAME
      then bindE (getitem request ''slug'') (setitem2 source ''metadata'' ''slug'')
      else setitem2 source ''spec'' ''desiredState'' (JStr (state_value target_state))))"

text \<open>From the derived candidate on: identities, documents, validation.\<close>

definition publish_route_plan ::
    "contract_env \<Rightarrow> json \<Rightarrow> json \<Rightarrow> Operation \<Rightarrow> string \<Rightarrow> json \<Rightarrow> json \<Rightarrow> json \<Rightarrow> json \<Rightarrow> json \<Rightarrow>
     LifecycleState \<Rightarrow> json \<Rightarrow> string \<Rightarrow> string \<Rightarrow> plan_context \<Rightarrow> TransitionPlan py" where
  "publish_route_plan env job request op tid source source_digest observed routes candidate
     target_state active source_generation candidate_generation ctx =
     thenE (validate_contract env candidate (Some SITE))
     (bindE (digest_dict (manifest_digest env candidate)) (\<lambda>candidate_digest.
      thenE (refuse_plan (Inr (op = RENAME \<and> candidate_digest = source_digest)) ''rename must select a different slug'')
      (bindE (canonical_timestamp (ctx_now ctx)) (\<lambda>timestamp.
       let candidate_observed = observed_document tid candidate_digest target_state active
             (if target_state = ACTIVE then JStr candidate_generation else JNull) timestamp in
       thenE (validate_contract env candidate_observed (Some TENANT_OBSERVED_STATE))
       (bindE (generate_uuid7 (ctx_readings ctx 0)) (\<lambda>intent_id.
        thenE (refuse_plan (Inr (intent_id = tid)) ''tenant and transaction identities collided'')
        (bindE (getitem request ''correlationId'') (\<lambda>correlation.
         let intent = intent_document intent_id tid correlation op JNull
               (recovery_document observed source_generation routes candidate_observed candidate_generation
                  (state_routes target_state))
               source source_digest candidate candidate_digest timestamp in
         thenE (validate_contract env intent (Some TRANSACTION_INTENT))
         (bindE (getitem job ''jobId'') (\<lambda>job_id.
          bindE (getitem source ''metadata'') (\<lambda>metadata.
          bindE (getitem metadata ''canonicalOrigin'') (\<lambda>origin.
          let result = obj (result_members job_id correlation op tid origin candidate) in
          thenE (validate_contract env result (Some OPERATION_RESULT))
          (bindE (successful_audit_entry env job op tid result (ctx_audit_state ctx) timestamp) (\<lambda>entry.
           Inr \<lparr>plan_tenant_id = tid, plan_intent_id = intent_id, plan_manifest = candidate,
                plan_observed_state = candidate_observed, plan_intent = intent, plan_result = result,
                plan_audit_entry = entry\<rparr>))))))))))))))"

definition plan_route_transition ::
    "contract_env \<Rightarrow> json \<Rightarrow> json \<Rightarrow> json \<Rightarrow> json \<Rightarrow> json \<Rightarrow> json \<Rightarrow> json \<Rightarrow> plan_context \<Rightarrow> TransitionPlan py" where
  "plan_route_transition env job namespace source observed deployment archive source_route_set ctx =
     thenE (validate_contract env job (Some AUTHORIZATION_JOB))
     (thenE (validate_contract env namespace (Some PLATFORM_NAMESPACE))
     (thenE (validate_contract env source (Some SITE))
     (thenE (validate_contract env observed (Some TENANT_OBSERVED_STATE))
     (thenE (validate_optional env deployment DEPLOYMENT_RECORD)
     (thenE (validate_optional env archive ARCHIVE_RECORD)
     (thenE (refuse_plan (neqE (getitem job ''phase'') (lit ''claimed''))
               ''route planning requires one claimed authorization job'')
     (bindE (getitem job ''request'') (\<lambda>request.
      bindE (getitem request ''operation'') (\<lambda>operation.
      bindE (mapE (\<lambda>_. LifecyclePlanError ''route planning received an unsupported operation'')
               (Operation_of operation)) (\<lambda>op.
      thenE (refuse_plan (Inr (op \<notin> {SUSPEND, RESUME, RENAME, RECONCILE}))
               ''route planning received an unsupported operation'')
      (bindE (getitem source ''metadata'') (\<lambda>metadata.
       bindE (getitem source ''spec'') (\<lambda>spec.
       bindE (bindE (getitem metadata ''id'') as_str) (\<lambda>tid.
       thenE (refuse_plan (neqE (getitem request ''tenantId'') (lit tid))
                ''route authority selected a different tenant'')
       (bindE (digest_dict (manifest_digest env source)) (\<lambda>source_digest.
        bindE (bindE (getitem spec ''desiredState'') LifecycleState_of) (\<lambda>source_state.
        thenE (refuse_plan (Inr (source_state \<notin> {UNDEPLOYED, ACTIVE, SUSPENDED, ARCHIVED}))
                 ''route planning does not accept this lifecycle state'')
        (case LIFECYCLE_MATRIX (op, source_state) of
           None \<Rightarrow> Inl (LifecyclePlanError ''route operation is not valid for the source lifecycle'')
         | Some target_state \<Rightarrow>
        bindE (route_source_evidence env tid spec source_state source_digest deployment archive)
          (\<lambda>(deployment_digest, archive_digest, active).
        bindE (getitem job ''expectedSource'') (\<lambda>expected_source.
        bindE (digest_dict (platform_state_digest env namespace)) (\<lambda>platform.
        thenE (refuse_plan (Inr (expected_source \<noteq> expected_source_document (JStr (state_value source_state))
                   source_digest deployment_digest archive_digest platform))
                 ''route authority is not bound to the supplied source'')
        (bindE (validate_uuid7 (source_runtime_generation_id ctx)) (\<lambda>source_generation.
         bindE (validate_uuid7 (candidate_runtime_generation_id ctx)) (\<lambda>candidate_generation.
         thenE (refuse_plan (Inr (source_generation = candidate_generation))
                  ''route transition must select a distinct runtime generation'')
         (thenE (refuse_plan (testE Not (in_strs source_route_set [''absent'', ''both'']))
                   ''route source has an invalid selected route set'')
         (thenE (if op = RECONCILE
                 then refuse_plan (neqE (getitem observed ''tenantId'') (lit tid))
                        ''route source observed-state tenant drifted''
                 else thenE (validate_route_source_observed observed tid source_digest source_state active)
                      (refuse_plan (Inr (source_route_set \<noteq> state_routes source_state))
                         ''route source selected routes disagree with authority''))
         (bindE (route_candidate source request op target_state) (\<lambda>candidate.
          publish_route_plan env job request op tid source source_digest observed source_route_set candidate
            target_state active source_generation candidate_generation ctx))))))))))))))))))))))))))))"

section \<open>Deploy, import, roll back\<close>

definition validate_deployment_source ::
    "contract_env \<Rightarrow> json \<Rightarrow> json \<Rightarrow> json \<Rightarrow> string \<Rightarrow> LifecycleState \<Rightarrow> json \<Rightarrow> json py" where
  "validate_deployment_source env source observed deployment tid source_state source_digest =
     bindE (if source_state = UNDEPLOYED
            then bindE (getitem source ''spec'') (\<lambda>spec.
                 thenE (refuse_plan (Inr (deployment \<noteq> JNull \<or> dict_has spec ''desiredDeployment''))
                          ''undeployed source retained deployment evidence'')
                 (Inr (JNull, JNull)))
            else if source_state \<in> {ACTIVE, SUSPENDED}
            then thenE (refuse_plan (Inr (deployment = JNull)) ''deployed source omitted its deployment'')
                 (bindE (getitem source ''spec'') (\<lambda>spec.
                  bindE (getitem spec ''desiredDeployment'') (\<lambda>selected.
                  thenE (refuse_plan (anyE
                           [neqE (getitem deployment ''tenantId'') (lit tid),
                            neqE (getitem deployment ''id'') (getitem selected ''id''),
                            neqE (getitem deployment ''archiveSha256'') (getitem selected ''archiveSha256'')])
                           ''source deployment binding drifted'')
                  (bindE (getitem deployment ''id'') (\<lambda>active.
                   bindE (digest_dict (deployment_record_digest env deployment)) (\<lambda>digest.
                   Inr (active, digest)))))))
            else Inl (LifecyclePlanError ''deployment planning does not accept this lifecycle state''))
       (\<lambda>(active, deployment_digest).
     thenE (refuse_plan (anyE
              [neqE (getitem observed ''tenantId'') (lit tid),
               neqE (getitem observed ''desiredManifestDigest'') (Inr source_digest),
               neqE (getitem observed ''observedState'') (lit (state_value source_state)),
               neqE (getitem observed ''activeDeploymentId'') (Inr active)])
              ''deployment source observed-state binding drifted'')
     (Inr deployment_digest))"

definition deployment_import_provenance :: "contract_env \<Rightarrow> json \<Rightarrow> json py" where
  "deployment_import_provenance env job =
     bindE (dict_get job ''dispatchImportManifest'') (\<lambda>manifest.
     thenE (refuse_plan (Inr (\<not> is_dict manifest)) ''import provenance authority is unavailable'')
     (thenE (validate_contract env manifest (Some SITE))
     (bindE (digest_dict (manifest_digest env manifest)) (\<lambda>digest.
      Inr (obj [(''manifest'', manifest), (''manifestDigest'', digest)])))))"

text \<open>The retained deployment identities the job authorizes: canonical, and ending in the selected source.\<close>

definition deployment_history :: "json \<Rightarrow> json \<Rightarrow> string list py" where
  "deployment_history job source =
     bindE (dict_get job ''dispatchDeploymentIds'') (\<lambda>history.
     case history of
       JArr values \<Rightarrow>
         (if list_ex (\<lambda>v. \<not> is_str v) values
          then Inl (LifecyclePlanError ''deployment history authority is unavailable'')
          else
          bindE (traverseE validate_uuid7 values) (\<lambda>ids.
          thenE (refuse_plan (Inr (ids \<noteq> sort (remdups ids))) ''deployment history authority is not canonical'')
          (thenE (if source = JNull
                  then refuse_plan (Inr (ids \<noteq> [])) ''undeployed source retained deployment history''
                  else refuse_plan (anyE [Inr (ids = []), neqE (getitem source ''id'') (lit (last ids))])
                         ''selected source does not terminate retained deployment history'')
           (Inr ids))))
     | _ \<Rightarrow> Inl (LifecyclePlanError ''deployment history authority is unavailable''))"

text \<open>A new deployment record, under an identity that follows the retained history.\<close>

definition new_deployment ::
    "contract_env \<Rightarrow> json \<Rightarrow> json \<Rightarrow> json \<Rightarrow> string list \<Rightarrow> json \<Rightarrow> string \<Rightarrow> string \<Rightarrow> reading \<Rightarrow> json py" where
  "new_deployment env job request operation history release_tree_digest tid timestamp r =
     bindE (dict_get job ''dispatchArtifactReleaseTreeDigest'') (\<lambda>bound_digest.
     thenE (refuse_plan (Inr (release_tree_digest = JNull \<or> bound_digest \<noteq> release_tree_digest))
              ''deploy release content exceeds dispatch authority'')
     (bindE (getitem request ''artifact'') (\<lambda>artifact.
      bindE (generate_uuid7 r) (\<lambda>deployment_id.
      thenE (refuse_plan (Inr (history \<noteq> [] \<and> deployment_id \<le> last history))
               ''deploy identity does not follow retained deployment history'')
      (bindE (getitem artifact ''sha256'') (\<lambda>sha.
       bindE (getitem request ''correlationId'') (\<lambda>correlation.
       let members = [(''apiVersion'', JStr API_VERSION), (''kind'', JStr ''DeploymentRecord''),
             (''id'', JStr deployment_id), (''tenantId'', JStr tid), (''archiveSha256'', sha),
             (''releaseTreeDigest'', release_tree_digest), (''createdAt'', JStr timestamp),
             (''correlationId'', correlation)] in
       bindE (if operation = JStr ''import''
              then bindE (deployment_import_provenance env job) (\<lambda>provenance.
                   Inr (obj (members @ [(''importProvenance'', provenance)])))
              else Inr (obj members)) (\<lambda>deployment.
       thenE (validate_contract env deployment (Some DEPLOYMENT_RECORD)) (Inr deployment)))))))))"

text \<open>The selected deployment, whether it is new, and the number of readings consumed.\<close>

definition select_deployment ::
    "contract_env \<Rightarrow> json \<Rightarrow> json \<Rightarrow> json \<Rightarrow> json \<Rightarrow> json \<Rightarrow> string \<Rightarrow> string \<Rightarrow> (nat \<Rightarrow> reading) \<Rightarrow> (json \<times> bool) py" where
  "select_deployment env job request source rollback release_tree_digest tid timestamp readings =
     bindE (deployment_history job source) (\<lambda>history.
     bindE (getitem request ''operation'') (\<lambda>operation.
     if operation = JStr ''rollback''
     then thenE (refuse_plan (Inr (release_tree_digest \<noteq> JNull \<or> rollback = JNull))
                   ''rollback selection authority is malformed'')
          (bindE (bindE (getitem request ''deploymentId'') validate_uuid7) (\<lambda>target_id.
           thenE (refuse_plan (andE (Inr (source \<noteq> JNull)) (eqE (lit target_id) (getitem source ''id'')))
                    ''rollback target is already selected'')
           (thenE (refuse_plan (anyE [Inr (target_id \<notin> set history),
                      neqE (getitem rollback ''id'') (lit target_id), neqE (getitem rollback ''tenantId'') (lit tid)])
                     ''rollback target is outside retained history'')
            (Inr (rollback, False)))))
     else
     thenE (refuse_plan (anyE [testE Not (in_strs operation [''deploy'', ''import'']), Inr (rollback \<noteq> JNull)])
              ''deploy selection authority is malformed'')
     (bindE (new_deployment env job request operation history release_tree_digest tid timestamp (readings 0)) (\<lambda>deployment.
      Inr (deployment, True)))))"

definition deployment_candidate :: "json \<Rightarrow> json \<Rightarrow> LifecycleState \<Rightarrow> json py" where
  "deployment_candidate source deployment target_state =
     bindE (setitem2 source ''spec'' ''desiredState'' (JStr (state_value target_state))) (\<lambda>candidate.
     bindE (getitem deployment ''id'') (\<lambda>i.
     bindE (getitem deployment ''archiveSha256'') (\<lambda>sha.
     setitem2 candidate ''spec'' ''desiredDeployment'' (obj [(''id'', i), (''archiveSha256'', sha)]))))"

definition publish_deployment_plan ::
    "contract_env \<Rightarrow> json \<Rightarrow> json \<Rightarrow> Operation \<Rightarrow> string \<Rightarrow> json \<Rightarrow> json \<Rightarrow> json \<Rightarrow> LifecycleState \<Rightarrow> json \<Rightarrow>
     LifecycleState \<Rightarrow> json \<times> bool \<Rightarrow> string \<Rightarrow> string \<Rightarrow> string \<Rightarrow> plan_context \<Rightarrow> DeploymentTransitionPlan py" where
  "publish_deployment_plan env job request op tid source source_digest observed source_state candidate
     target_state selection source_generation candidate_generation timestamp ctx =
     (case selection of (deployment, creates) \<Rightarrow>
     thenE (validate_contract env candidate (Some SITE))
     (bindE (digest_dict (manifest_digest env candidate)) (\<lambda>candidate_digest.
      bindE (getitem deployment ''id'') (\<lambda>deployment_id.
      let candidate_observed = observed_document tid candidate_digest target_state deployment_id
            (if target_state = ACTIVE then JStr candidate_generation else JNull) timestamp in
      thenE (validate_contract env candidate_observed (Some TENANT_OBSERVED_STATE))
      (bindE (generate_uuid7 (ctx_readings ctx (if creates then 1 else 0))) (\<lambda>intent_id.
       thenE (refuse_plan (Inr (JStr intent_id \<in> {JStr tid, deployment_id}))
                ''deployment and transaction identities collided'')
       (bindE (getitem request ''correlationId'') (\<lambda>correlation.
        let intent = intent_document intent_id tid correlation op JNull
              (recovery_document observed source_generation (state_routes source_state) candidate_observed
                 candidate_generation (state_routes target_state))
              source source_digest candidate candidate_digest timestamp in
        thenE (validate_contract env intent (Some TRANSACTION_INTENT))
        (bindE (getitem job ''jobId'') (\<lambda>job_id.
         bindE (getitem source ''metadata'') (\<lambda>metadata.
         bindE (getitem metadata ''canonicalOrigin'') (\<lambda>origin.
         let result = obj (result_members job_id correlation op tid origin candidate) in
         thenE (validate_contract env result (Some OPERATION_RESULT))
         (bindE (successful_audit_entry env job op tid result (ctx_audit_state ctx) timestamp) (\<lambda>entry.
          Inr \<lparr>plan_tenant_id = tid, plan_intent_id = intent_id, plan_manifest = candidate,
               plan_observed_state = candidate_observed, plan_intent = intent, plan_result = result,
               plan_audit_entry = entry, plan_deployment = deployment, plan_creates_deployment = creates\<rparr>))))))))))))))"

definition plan_deployment_transition ::
    "contract_env \<Rightarrow> json \<Rightarrow> json \<Rightarrow> json \<Rightarrow> json \<Rightarrow> json \<Rightarrow> json \<Rightarrow> json \<Rightarrow> plan_context \<Rightarrow> DeploymentTransitionPlan py" where
  "plan_deployment_transition env job namespace source observed selected_source rollback_target
     artifact_release_tree_digest ctx =
     thenE (validate_contract env job (Some AUTHORIZATION_JOB))
     (thenE (validate_contract env namespace (Some PLATFORM_NAMESPACE))
     (thenE (validate_contract env source (Some SITE))
     (thenE (validate_contract env observed (Some TENANT_OBSERVED_STATE))
     (thenE (validate_optional env selected_source DEPLOYMENT_RECORD)
     (thenE (validate_optional env rollback_target DEPLOYMENT_RECORD)
     (thenE (refuse_plan (neqE (getitem job ''phase'') (lit ''claimed''))
               ''deployment planning requires one claimed authorization job'')
     (bindE (getitem job ''request'') (\<lambda>request.
      bindE (getitem request ''operation'') (\<lambda>operation.
      bindE (mapE (\<lambda>_. LifecyclePlanError ''deployment planning received an unsupported operation'')
               (Operation_of operation)) (\<lambda>op.
      thenE (refuse_plan (Inr (op \<notin> {DEPLOY, IMPORT, ROLLBACK}))
               ''deployment planning received an unsupported operation'')
      (bindE (getitem source ''metadata'') (\<lambda>metadata.
       bindE (getitem source ''spec'') (\<lambda>spec.
       bindE (bindE (getitem metadata ''id'') validate_uuid7) (\<lambda>tid.
       thenE (refuse_plan (neqE (getitem request ''tenantId'') (lit tid))
                ''deployment authority selected a different tenant'')
       (bindE (bindE (getitem spec ''desiredState'') LifecycleState_of) (\<lambda>source_state.
        case LIFECYCLE_MATRIX (op, source_state) of
           None \<Rightarrow> Inl (LifecyclePlanError ''deployment operation is not valid for the source lifecycle'')
         | Some target_state \<Rightarrow>
        bindE (digest_dict (manifest_digest env source)) (\<lambda>source_digest.
        bindE (validate_deployment_source env source observed selected_source tid source_state source_digest)
          (\<lambda>deployment_digest.
        bindE (getitem job ''expectedSource'') (\<lambda>expected_source.
        bindE (digest_dict (platform_state_digest env namespace)) (\<lambda>platform.
        thenE (refuse_plan (Inr (expected_source \<noteq> expected_source_document (JStr (state_value source_state))
                   source_digest deployment_digest JNull platform))
                 ''deployment authority is not bound to the supplied source'')
        (bindE (validate_uuid7 (source_runtime_generation_id ctx)) (\<lambda>source_generation.
         bindE (validate_uuid7 (candidate_runtime_generation_id ctx)) (\<lambda>candidate_generation.
         thenE (refuse_plan (Inr (source_generation = candidate_generation))
                  ''deployment must select a distinct runtime generation'')
         (bindE (canonical_timestamp (ctx_now ctx)) (\<lambda>timestamp.
          bindE (select_deployment env job request selected_source rollback_target artifact_release_tree_digest
                   tid timestamp (ctx_readings ctx)) (\<lambda>selection.
          bindE (deployment_candidate source (fst selection) target_state) (\<lambda>candidate.
          publish_deployment_plan env job request op tid source source_digest observed source_state candidate
            target_state selection source_generation candidate_generation timestamp ctx)))))))))))))))))))))))))))"

section \<open>Archive\<close>

definition ARCHIVE_CONSTRUCTION_KEYS :: "string list" where
  "ARCHIVE_CONSTRUCTION_KEYS = [''tenantId'', ''correlationId'', ''createdAt'', ''bucket'', ''key'', ''versionId'',
     ''bundleSize'', ''bundleDigest'', ''releaseTreeDigest'']"

definition constructed_archive_record :: "json \<Rightarrow> json \<Rightarrow> json \<Rightarrow> json py" where
  "constructed_archive_record construction deployment candidate_digest =
     bindE (getitem construction ''apiVersion'') (\<lambda>version.
     bindE (getitem deployment ''id'') (\<lambda>deployment_id.
     bindE (traverseE (\<lambda>key. bindE (getitem construction key) (\<lambda>v. Inr (key, v))) ARCHIVE_CONSTRUCTION_KEYS) (\<lambda>kvs.
     Inr (obj ([(''apiVersion'', version), (''kind'', JStr ''ArchiveRecord''), (''deploymentId'', deployment_id),
                (''manifestDigest'', candidate_digest)] @ kvs)))))"

definition require_archive_construction ::
    "contract_env \<Rightarrow> json \<Rightarrow> json \<Rightarrow> json \<Rightarrow> json \<Rightarrow> json \<Rightarrow> json \<Rightarrow> unit py" where
  "require_archive_construction env construction archive job source_digest candidate_digest deployment =
     bindE (getitem job ''request'') (\<lambda>request.
     refuse_plan (anyE
       [neqE (getitem construction ''phase'') (lit ''uploaded''),
        bindE (getitem construction ''versionId'') (\<lambda>v. if v = JNull then Inr True else in_strs v [''null'']),
        neqE (getitem construction ''jobId'') (getitem job ''jobId''),
        neqE (getitem construction ''operatorPrincipal'') (getitem job ''operatorPrincipal''),
        neqE (getitem construction ''tenantId'') (getitem request ''tenantId''),
        neqE (getitem construction ''correlationId'') (getitem request ''correlationId''),
        neqE (getitem construction ''sourceManifestDigest'') (Inr source_digest),
        neqE (getitem construction ''candidateManifestDigest'') (Inr candidate_digest),
        neqE (getitem construction ''deploymentRecordDigest'') (digest_dict (deployment_record_digest env deployment)),
        neqE (getitem construction ''releaseTreeDigest'') (getitem deployment ''releaseTreeDigest''),
        neqE (getitem construction ''key'')
          (bindE (bindE (getitem construction ''uploadAttemptId'') as_str) (\<lambda>i. lit (''archives/'' @ i @ ''.zip''))),
        neqE (Inr archive) (constructed_archive_record construction deployment candidate_digest)])
       ''archive publication lacks its exact uploaded construction'')"

definition plan_archive_transition ::
    "contract_env \<Rightarrow> json \<Rightarrow> json \<Rightarrow> json \<Rightarrow> json \<Rightarrow> json \<Rightarrow> json \<Rightarrow> json \<Rightarrow> json \<Rightarrow> json \<Rightarrow> plan_context \<Rightarrow>
     ArchiveTransitionPlan py" where
  "plan_archive_transition env job namespace source observed deployment construction archive source_route_set
     given_intent_id ctx =
     thenE (traverseE (\<lambda>(d, kind). validate_contract env d (Some kind))
              [(job, AUTHORIZATION_JOB), (namespace, PLATFORM_NAMESPACE), (source, SITE),
               (observed, TENANT_OBSERVED_STATE), (deployment, DEPLOYMENT_RECORD),
               (construction, ARCHIVE_CONSTRUCTION_INTENT), (archive, ARCHIVE_RECORD)])
     (bindE (getitem job ''request'') (\<lambda>request.
      bindE (getitem source ''metadata'') (\<lambda>metadata.
      bindE (getitem source ''spec'') (\<lambda>spec.
      bindE (bindE (getitem metadata ''id'') as_str) (\<lambda>tid.
      thenE (refuse_plan (anyE
               [neqE (getitem job ''compatibilityVersion'') (lit ''static-job-v2''),
                neqE (getitem job ''phase'') (lit ''claimed''),
                neqE (getitem job ''artifact'') none_lit,
                neqE (getitem request ''operation'') (lit ''archive''),
                neqE (getitem request ''tenantId'') (lit tid),
                testE Not (bindE (getitem spec ''desiredState'') (\<lambda>state. in_strs state [''active'', ''suspended''])),
                neqE (getitem job ''sourceAuthority'') (Inr (obj [(''manifest'', source), (''archiveRecord'', JNull)]))])
               ''archive planning requires a current claimed live source'')
      (bindE (getitem spec ''desiredDeployment'') (\<lambda>desired.
       bindE (digest_dict (manifest_digest env source)) (\<lambda>source_digest.
       bindE (digest_dict (deployment_record_digest env deployment)) (\<lambda>deployment_digest.
       thenE (refuse_plan (anyE
                [neqE (getitem deployment ''tenantId'') (lit tid),
                 neqE (getitem deployment ''id'') (getitem desired ''id''),
                 neqE (getitem deployment ''archiveSha256'') (getitem desired ''archiveSha256''),
                 neqE (getitem job ''expectedSource'')
                   (bindE (getitem spec ''desiredState'') (\<lambda>state.
                    bindE (digest_dict (platform_state_digest env namespace)) (\<lambda>platform.
                    Inr (expected_source_document state source_digest deployment_digest JNull platform))))])
                (''archive source exceeds its job'' @ [CHR 0x27] @ ''s manifest or deployment authority''))
       (bindE (setitem2 source ''spec'' ''desiredState'' (JStr ''archived'')) (\<lambda>candidate.
        bindE (digest_dict (manifest_digest env candidate)) (\<lambda>candidate_digest.
        thenE (require_archive_construction env construction archive job source_digest candidate_digest deployment)
        (bindE (validate_uuid7 (source_runtime_generation_id ctx)) (\<lambda>source_generation.
         bindE (validate_uuid7 (candidate_runtime_generation_id ctx)) (\<lambda>candidate_generation.
         bindE (canonical_timestamp (ctx_now ctx)) (\<lambda>timestamp.
         bindE (if given_intent_id = JNull then generate_uuid7 (ctx_readings ctx 0)
                else validate_uuid7 given_intent_id) (\<lambda>intent_id.
         bindE (getitem construction ''intentId'') (\<lambda>construction_intent_id.
         thenE (refuse_plan (Inr (length (remdups [JStr intent_id, construction_intent_id, JStr tid]) \<noteq> 3))
                  ''archive transaction identities collided'')
         (bindE (getitem request ''correlationId'') (\<lambda>correlation.
          let candidate_observed = observed_document tid candidate_digest ARCHIVED JNull JNull timestamp;
              intent = intent_document intent_id tid correlation ARCHIVE (obj
                 [(''sourceManifest'', source), (''sourceObservedState'', observed),
                  (''sourceRuntimeGenerationId'', JStr source_generation), (''sourceRouteSet'', source_route_set),
                  (''candidateManifest'', candidate), (''candidateArchiveRecord'', archive),
                  (''candidateRuntimeGenerationId'', JStr candidate_generation), (''candidateRouteSet'', JStr ''absent'')])
                 JNull source source_digest candidate candidate_digest timestamp in
          bindE (getitem job ''jobId'') (\<lambda>job_id.
          bindE (getitem metadata ''canonicalOrigin'') (\<lambda>origin.
          let result = obj (result_members job_id correlation ARCHIVE tid origin candidate @ [(''archiveRecord'', archive)]) in
          thenE (traverseE (\<lambda>(d, kind). validate_contract env d (Some kind))
                   [(candidate_observed, TENANT_OBSERVED_STATE), (intent, TRANSACTION_INTENT), (result, OPERATION_RESULT)])
          (bindE (successful_audit_entry env job ARCHIVE tid result (ctx_audit_state ctx) timestamp) (\<lambda>entry.
           Inr \<lparr>plan_tenant_id = tid, plan_intent_id = intent_id, plan_manifest = candidate,
                plan_observed_state = candidate_observed, plan_intent = intent, plan_result = result,
                plan_audit_entry = entry, plan_construction_intent_id = construction_intent_id,
                plan_archive_record = archive\<rparr>))))))))))))))))))))))))"

end
