(* ===== verification/Plan_Coherence.thy ===== *)
theory Plan_Coherence
  imports Lifecycle_Plan
begin

text \<open>
  What the planners of \<^verbatim>\<open>static_host_agent/lifecycle_plan.py\<close> promise to the code that executes a
  plan: the documents of one plan are accepted contracts that agree with each other, the planned
  transition is one of the lifecycle matrix, and a selected deployment follows (or lies in) the
  retained history. The four planners are collected in one relation, so that the properties are
  stated once for all of them.
\<close>

section \<open>Digests of the documents a plan names\<close>

lemma digest_dict_iff: "digest_dict d = Inr b \<longleftrightarrow> (\<exists>x. d = Inr x \<and> b = Digest_to_dict x)"
  by (auto simp: digest_dict_def bindE_Inr_iff)

lemma validate_contract_kind: "validate_contract env d (Some kind) = Inr k \<Longrightarrow> k = kind"
  by (auto simp: validate_contract_iff validated_contract_iff)

lemma contract_digest_binding:
  assumes "digest_dict (contract_digest env d kind fmt label) = Inr b"
  shows "document_binding env d fmt = Inr b \<and> validate_contract env d (Some kind) = Inr kind"
  using assms validate_contract_kind
  by (fastforce simp: digest_dict_iff contract_digest_def document_binding_def bindE_Inr_iff thenE_Inr)

lemma manifest_digest_binding:
  "digest_dict (manifest_digest env d) = Inr b \<Longrightarrow>
     manifest_binding env d = Inr b \<and> validate_contract env d (Some SITE) = Inr SITE"
  unfolding manifest_digest_def manifest_binding_def by (rule contract_digest_binding)

lemma result_digest_binding:
  "digest_dict (result_digest env d) = Inr b \<Longrightarrow> document_binding env d RESULT_DIGEST_FORMAT = Inr b"
  unfolding result_digest_def using contract_digest_binding by blast

section \<open>Coherent plans\<close>

text \<open>The audit entry continues the chain at the supplied position and binds the exact result.\<close>

definition audit_entry_for :: "contract_env \<Rightarrow> AuditState \<Rightarrow> Operation \<Rightarrow> string \<Rightarrow> json \<Rightarrow> json \<Rightarrow> json \<Rightarrow> bool" where
  "audit_entry_for env audit op tid correlation result entry \<longleftrightarrow>
     validate_contract env entry (Some AUDIT_ENTRY) = Inr AUDIT_ENTRY \<and>
     getitem entry ''sequence'' = Inr (JInt (audit_entry_count audit)) \<and>
     getitem entry ''previousEntryDigest'' = Inr (audit_terminal_digest audit) \<and>
     getitem entry ''operation'' = lit (operation_value op) \<and> getitem entry ''tenantId'' = lit tid \<and>
     getitem entry ''correlationId'' = Inr correlation \<and>
     getitem entry ''resultDigest'' = document_binding env result RESULT_DIGEST_FORMAT"

lemma successful_audit_entry_for:
  assumes "successful_audit_entry env job op tid result audit timestamp = Inr entry"
    and "getitem job ''request'' = Inr request" "getitem request ''correlationId'' = Inr correlation"
  shows "audit_entry_for env audit op tid correlation result entry"
  using assms validate_contract_kind unfolding successful_audit_entry_def audit_entry_for_def Let_def
  by (auto simp: bindE_Inr_iff thenE_Inr dest: result_digest_binding)

definition coherent_plan :: "contract_env \<Rightarrow> plan_context \<Rightarrow> Operation \<Rightarrow> json \<Rightarrow> TransitionPlan \<Rightarrow> bool" where
  "coherent_plan env ctx op source p \<longleftrightarrow>
     (\<exists>digest correlation.
        validate_contract env (plan_manifest p) (Some SITE) = Inr SITE \<and>
        validate_contract env (plan_observed_state p) (Some TENANT_OBSERVED_STATE) = Inr TENANT_OBSERVED_STATE \<and>
        validate_contract env (plan_intent p) (Some TRANSACTION_INTENT) = Inr TRANSACTION_INTENT \<and>
        validate_contract env (plan_result p) (Some OPERATION_RESULT) = Inr OPERATION_RESULT \<and>
        manifest_binding env (plan_manifest p) = Inr digest \<and>
        getitem (plan_observed_state p) ''desiredManifestDigest'' = Inr digest \<and>
        getitem (plan_observed_state p) ''tenantId'' = lit (plan_tenant_id p) \<and>
        dict_get (plan_intent p) ''compatibilityVersion'' = lit ''static-intent-v2'' \<and>
        getitem (plan_intent p) ''operation'' = lit (operation_value op) \<and>
        getitem (plan_intent p) ''intentId'' = lit (plan_intent_id p) \<and>
        getitem (plan_intent p) ''tenantId'' = lit (plan_tenant_id p) \<and>
        getitem (plan_intent p) ''correlationId'' = Inr correlation \<and>
        getitem (plan_intent p) ''sourceManifest'' = Inr source \<and>
        getitem (plan_intent p) ''candidateManifest'' = Inr (plan_manifest p) \<and>
        getitem (plan_intent p) ''candidateManifestDigest'' = Inr digest \<and>
        getitem (plan_result p) ''tenantId'' = lit (plan_tenant_id p) \<and>
        getitem (plan_result p) ''correlationId'' = Inr correlation \<and>
        getitem (plan_result p) ''manifest'' = Inr (plan_manifest p) \<and>
        audit_entry_for env (ctx_audit_state ctx) op (plan_tenant_id p) correlation (plan_result p) (plan_audit_entry p) \<and>
        plan_intent_id p \<noteq> plan_tenant_id p)"

lemmas plan_unfold = bindE_Inr_iff thenE_Inr refuse_plan_Inr Let_def

lemma intent_document_items:
  "getitem (intent_document i t c op ar r s sd m md ts) ''operation'' = lit (operation_value op)"
  "getitem (intent_document i t c op ar r s sd m md ts) ''intentId'' = lit i"
  "getitem (intent_document i t c op ar r s sd m md ts) ''tenantId'' = lit t"
  "getitem (intent_document i t c op ar r s sd m md ts) ''correlationId'' = Inr c"
  "getitem (intent_document i t c op ar r s sd m md ts) ''sourceManifest'' = Inr s"
  "getitem (intent_document i t c op ar r s sd m md ts) ''candidateManifest'' = Inr m"
  "getitem (intent_document i t c op ar r s sd m md ts) ''candidateManifestDigest'' = Inr md"
  "dict_get (intent_document i t c op ar r s sd m md ts) ''compatibilityVersion'' = lit ''static-intent-v2''"
  by (simp_all add: intent_document_def)

lemma observed_document_items:
  "getitem (observed_document t d s a g ts) ''desiredManifestDigest'' = Inr d"
  "getitem (observed_document t d s a g ts) ''tenantId'' = lit t"
  "getitem (observed_document t d s a g ts) ''activeDeploymentId'' = Inr a"
  by (simp_all add: observed_document_def)

lemma result_document_items:
  "getitem (obj (result_members j c op t og m)) ''tenantId'' = lit t"
  "getitem (obj (result_members j c op t og m)) ''correlationId'' = Inr c"
  "getitem (obj (result_members j c op t og m)) ''manifest'' = Inr m"
  "getitem (obj (result_members j c op t og m @ kvs)) ''tenantId'' = lit t"
  "getitem (obj (result_members j c op t og m @ kvs)) ''correlationId'' = Inr c"
  "getitem (obj (result_members j c op t og m @ kvs)) ''manifest'' = Inr m"
  by (simp_all add: result_members_def)

lemmas document_items = intent_document_items observed_document_items result_document_items

lemma coherent_planI:
  assumes "digest_dict (manifest_digest env m) = Inr digest"
    and "validate_contract env (observed_document tid digest st active gen ts) (Some TENANT_OBSERVED_STATE) = Inr k1"
    and "validate_contract env (intent_document iid tid corr op ar rec source sd m digest ts) (Some TRANSACTION_INTENT) = Inr k2"
    and "validate_contract env result (Some OPERATION_RESULT) = Inr k3"
    and "getitem result ''tenantId'' = lit tid" "getitem result ''correlationId'' = Inr corr"
      "getitem result ''manifest'' = Inr m"
    and "getitem job ''request'' = Inr request" "getitem request ''correlationId'' = Inr corr"
    and "successful_audit_entry env job op tid result (ctx_audit_state ctx) ts = Inr entry" "iid \<noteq> tid"
  shows "coherent_plan env ctx op source
    \<lparr>plan_tenant_id = tid, plan_intent_id = iid, plan_manifest = m,
     plan_observed_state = observed_document tid digest st active gen ts,
     plan_intent = intent_document iid tid corr op ar rec source sd m digest ts,
     plan_result = result, plan_audit_entry = entry\<rparr>"
proof -
  have "validate_contract env m (Some SITE) = Inr SITE" "manifest_binding env m = Inr digest"
    using manifest_digest_binding[OF assms(1)] by blast+
  moreover have "k1 = TENANT_OBSERVED_STATE" "k2 = TRANSACTION_INTENT" "k3 = OPERATION_RESULT"
    using assms(2-4) by (auto dest: validate_contract_kind)
  moreover have "audit_entry_for env (ctx_audit_state ctx) op tid corr result entry"
    by (rule successful_audit_entry_for[OF assms(10,8,9)])
  ultimately show ?thesis using assms(2-7,11) unfolding coherent_plan_def by (simp add: document_items)
qed

lemma create_coherent:
  assumes "plan_create_transition env job namespace ctx = Inr p"
  shows "coherent_plan env ctx CREATE JNull p"
  using assms unfolding plan_create_transition_def
  by (clarsimp simp: plan_unfold split del: if_split) (rule coherent_planI; (assumption | simp add: result_members_def))

lemma publish_route_coherent:
  assumes "publish_route_plan env job request op tid source sd observed routes candidate target active g1 g2 ctx = Inr p"
    and "getitem job ''request'' = Inr request"
  shows "coherent_plan env ctx op source p"
  using assms unfolding publish_route_plan_def
  by (clarsimp simp: plan_unfold split del: if_split) (rule coherent_planI; (assumption | simp add: result_members_def))

lemma publish_deployment_coherent:
  assumes "publish_deployment_plan env job request op tid source sd observed st candidate target selection g1 g2 ts ctx = Inr p"
    and "getitem job ''request'' = Inr request"
  shows "coherent_plan env ctx op source (TransitionPlan.truncate p)"
  using assms unfolding publish_deployment_plan_def
  by (clarsimp simp: plan_unfold TransitionPlan.truncate_def split: prod.splits split del: if_split)
    (rule coherent_planI; (assumption | simp add: result_members_def))

lemma archive_coherent:
  assumes "plan_archive_transition env job namespace source observed deployment construction archive routes given ctx = Inr p"
  shows "coherent_plan env ctx ARCHIVE source (TransitionPlan.truncate p)"
  using assms unfolding plan_archive_transition_def
  by (clarsimp simp: plan_unfold TransitionPlan.truncate_def split del: if_split)
    (rule coherent_planI; (assumption | simp add: result_members_def split: if_splits))

section \<open>The planners as one relation\<close>

text \<open>
  A successful call of a planner: the environment, the keyword arguments, the operation of the
  request, the source manifest (none for a create) and the plan.
\<close>

inductive planned :: "contract_env \<Rightarrow> plan_context \<Rightarrow> Operation \<Rightarrow> json \<Rightarrow> TransitionPlan \<Rightarrow> bool" where
  create: "plan_create_transition env job namespace ctx = Inr p \<Longrightarrow> planned env ctx CREATE JNull p"
| route: "plan_route_transition env job namespace source observed deployment archive routes ctx = Inr p \<Longrightarrow>
    getitem job ''request'' = Inr request \<Longrightarrow> getitem request ''operation'' = lit (operation_value op) \<Longrightarrow>
    planned env ctx op source p"
| deployment: "plan_deployment_transition env job namespace source observed selected rollback tree ctx = Inr p \<Longrightarrow>
    getitem job ''request'' = Inr request \<Longrightarrow> getitem request ''operation'' = lit (operation_value op) \<Longrightarrow>
    planned env ctx op source (TransitionPlan.truncate p)"
| archive: "plan_archive_transition env job namespace source observed deployment construction published routes given ctx = Inr p \<Longrightarrow>
    planned env ctx ARCHIVE source (TransitionPlan.truncate p)"

lemma route_coherent:
  assumes "plan_route_transition env job namespace source observed deployment archive routes ctx = Inr p"
    and "getitem job ''request'' = Inr request" "getitem request ''operation'' = lit (operation_value op)"
  shows "coherent_plan env ctx op source p \<and> op \<in> {SUSPEND, RESUME, RENAME, RECONCILE}"
  using assms unfolding plan_route_transition_def
  by (clarsimp simp: plan_unfold split: option.splits prod.splits split del: if_split)
    (erule publish_route_coherent, assumption)

lemma plan_deployment_parts:
  assumes "plan_deployment_transition env job namespace source observed selected rollback tree ctx = Inr p"
    and "getitem job ''request'' = Inr request" "getitem request ''operation'' = lit (operation_value op)"
  shows "\<exists>tid source_digest source_state candidate target_state selection g1 g2 timestamp.
    op \<in> {DEPLOY, IMPORT, ROLLBACK} \<and>
    select_deployment env job request selected rollback tree tid timestamp (ctx_readings ctx) = Inr selection \<and>
    deployment_candidate source (fst selection) target_state = Inr candidate \<and>
    publish_deployment_plan env job request op tid source source_digest observed source_state candidate
      target_state selection g1 g2 timestamp ctx = Inr p"
  using assms unfolding plan_deployment_transition_def
  by (clarsimp simp: plan_unfold split: option.splits split del: if_split) blast

lemma planned_coherent:
  assumes "planned env ctx op source p"
  shows "coherent_plan env ctx op source p \<and> op \<notin> {EXPORT, DELETE} \<and> (op = CREATE \<longrightarrow> source = JNull)"
  using assms
proof cases
  case (create job namespace)
  then show ?thesis using create_coherent by auto
next
  case (route job namespace observed deployment archive routes request)
  then show ?thesis using route_coherent by fastforce
next
  case (deployment job namespace observed selected rollback tree q request)
  from plan_deployment_parts[OF deployment(2-4)] show ?thesis
    using publish_deployment_coherent[OF _ deployment(3)] deployment(1) by fastforce
next
  case (archive job namespace observed deployment construction published routes given q)
  then show ?thesis using archive_coherent by auto
qed

lemma coherent_transition:
  assumes "coherent_plan env ctx op source p" "op \<notin> {EXPORT, DELETE}" "op = CREATE \<longrightarrow> source = JNull"
  shows "\<exists>s t. manifest_state source s \<and> manifest_state (plan_manifest p) t \<and> LIFECYCLE_MATRIX (op, s) = Some t"
proof -
  let ?d = "plan_intent p"
  have i: "validate_transaction_intent env ?d = Inr ()"
      "dict_get ?d ''compatibilityVersion'' = lit ''static-intent-v2''" "getitem ?d ''operation'' = lit (operation_value op)"
    and m: "getitem ?d ''sourceManifest'' = Inr source" "getitem ?d ''candidateManifest'' = Inr (plan_manifest p)"
    using assms(1) unfolding coherent_plan_def
    by (auto simp: validate_contract_iff validated_contract_iff semantic_validation_iff semantic_validator_def)
  obtain source' candidate where t: "transaction_manifests env ?d op source' candidate"
    and v: "if op \<noteq> ARCHIVE then validate_nonarchive_transaction_intent ?d (JStr (operation_value op)) True = Inr ()
      else validate_archive_recovery env ?d True source' candidate = Inr ()"
    using intent_manifests[OF i] by blast
  have "source' = source" "candidate = plan_manifest p"
    using t m assms(2,3) by (auto simp: transaction_manifests_def split: if_splits)
  then show ?thesis using intent_states[OF t v i(3)] assms(2) by simp
qed

section \<open>Selected deployments\<close>

lemma traverse_uuid7:
  assumes "traverseE validate_uuid7 vs = Inr ids"
  shows "vs = map JStr ids"
proof -
  have "list_all2 (\<lambda>v s. validate_uuid7 v = Inr s) vs ids" using assms by (simp add: traverseE_Inr_iff)
  then show ?thesis by (induction rule: list_all2_induct) (auto simp: uuid7_iff)
qed

lemma canonical_list_iff: "xs = sort (remdups xs) \<longleftrightarrow> sorted xs \<and> distinct (xs :: 'a :: linorder list)"
  by (metis distinct_remdups distinct_remdups_id distinct_sort sorted_sort sorted_sort_id)

lemma deployment_historyD:
  assumes "deployment_history job source = Inr ids"
  shows "dict_get job ''dispatchDeploymentIds'' = Inr (JArr (map JStr ids)) \<and> sorted ids \<and> distinct ids"
    and "source = JNull \<Longrightarrow> ids = []"
    and "source \<noteq> JNull \<Longrightarrow> ids \<noteq> [] \<and> getitem source ''id'' = lit (last ids)"
proof -
  obtain history where h: "dict_get job ''dispatchDeploymentIds'' = Inr history"
    using assms by (auto simp: deployment_history_def bindE_Inr_iff)
  then obtain vs where vs: "history = JArr vs"
    using assms by (cases history) (auto simp: deployment_history_def)
  have d: "traverseE validate_uuid7 vs = Inr ids" "ids = sort (remdups ids)"
    and t: "if source = JNull then ids = [] else ids \<noteq> [] \<and> getitem source ''id'' = lit (last ids)"
    using assms h unfolding vs
    by (auto simp: deployment_history_def bindE_Inr_iff check_simps split: if_splits)
  show "dict_get job ''dispatchDeploymentIds'' = Inr (JArr (map JStr ids)) \<and> sorted ids \<and> distinct ids"
    using h traverse_uuid7[OF d(1)] d(2) unfolding vs canonical_list_iff by simp
  show "source = JNull \<Longrightarrow> ids = []" "source \<noteq> JNull \<Longrightarrow> ids \<noteq> [] \<and> getitem source ''id'' = lit (last ids)"
    using t by auto
qed

lemma sorted_le_last: "sorted xs \<Longrightarrow> x \<in> set xs \<Longrightarrow> x \<le> last xs"
  by (induction xs) auto

lemma new_deployment_follows:
  assumes "new_deployment env job request operation history tree tid ts r = Inr d" "sorted history"
  shows "\<exists>i. getitem d ''id'' = lit i \<and> (\<forall>h \<in> set history. h < i)"
proof -
  have "\<exists>i. getitem d ''id'' = lit i \<and> \<not> (history \<noteq> [] \<and> i \<le> last history)"
    using assms(1) unfolding new_deployment_def
    by (cases "operation = JStr ''import''") (clarsimp simp: plan_unfold; simp)+
  then obtain i where i: "getitem d ''id'' = lit i" "history = [] \<or> last history < i" by (auto simp: not_le)
  have "\<forall>h \<in> set history. h < i" using i(2) sorted_le_last[OF assms(2)] by fastforce
  with i(1) show ?thesis by blast
qed

lemma selection_follows:
  assumes "select_deployment env job request selected rollback tree tid ts readings = Inr (d, creates)"
    and "getitem request ''operation'' = lit (operation_value op)"
  shows "\<exists>history target. dict_get job ''dispatchDeploymentIds'' = Inr (JArr (map JStr history)) \<and>
    sorted history \<and> distinct history \<and> getitem d ''id'' = lit target \<and>
    (selected \<noteq> JNull \<longrightarrow> getitem selected ''id'' = lit (last history)) \<and>
    (if creates then op \<noteq> ROLLBACK \<and> (\<forall>h \<in> set history. h < target)
     else op = ROLLBACK \<and> target \<in> set history \<and> (selected \<noteq> JNull \<longrightarrow> target \<noteq> last history))"
proof -
  have op: "operation_value op = ''rollback'' \<longleftrightarrow> op = ROLLBACK" by (cases op) auto
  obtain history where h: "deployment_history job selected = Inr history"
    using assms(1) unfolding select_deployment_def by (auto simp: bindE_Inr_iff)
  note hist = deployment_historyD[OF h]
  show ?thesis
  proof (cases "op = ROLLBACK")
    case True
    then have rb: "getitem request ''operation'' = lit ''rollback''" using assms(2) by simp
    have "\<exists>target. d = rollback \<and> \<not> creates \<and> target \<in> set history \<and> getitem rollback ''id'' = lit target \<and>
        (selected = JNull \<or> getitem selected ''id'' \<noteq> lit target)"
      using assms(1) unfolding select_deployment_def h rb bindE_simps
      by (clarsimp simp: bindE_Inr_iff thenE_Inr refuse_plan_Inr anyE_False neqE_False andE_False eqE_iff)
    then obtain target where "d = rollback" "\<not> creates" "target \<in> set history" "getitem rollback ''id'' = lit target"
      "selected = JNull \<or> getitem selected ''id'' \<noteq> lit target" by blast
    then show ?thesis using hist True by (intro exI[of _ history] exI[of _ target]) auto
  next
    case False
    then have "JStr (operation_value op) \<noteq> JStr ''rollback''" using op by simp
    then have n: "creates" "new_deployment env job request (JStr (operation_value op)) history tree tid ts (readings 0) = Inr d"
      using assms(1) unfolding select_deployment_def h assms(2) bindE_simps
      by (simp_all only: if_False bindE_Inr_iff thenE_Inr) auto
    obtain target where "getitem d ''id'' = lit target" "\<forall>h \<in> set history. h < target"
      using new_deployment_follows[OF n(2)] hist(1) by blast
    then show ?thesis using hist(1,3) False n(1) by (intro exI[of _ history] exI[of _ target]) simp
  qed
qed

lemma publish_deployment_documents:
  assumes "publish_deployment_plan env job request op tid source sd observed st candidate target selection g1 g2 ts ctx = Inr p"
    and "getitem (fst selection) ''id'' = Inr i"
  shows "plan_deployment p = fst selection \<and> plan_creates_deployment p = snd selection \<and> plan_manifest p = candidate \<and>
    getitem (plan_observed_state p) ''activeDeploymentId'' = Inr i"
  using assms unfolding publish_deployment_plan_def
  by (cases selection) (clarsimp simp: plan_unfold observed_document_items split del: if_split)

lemma deployment_candidate_selects:
  assumes "deployment_candidate source d target = Inr candidate" "getitem d ''id'' = Inr i"
  shows "bindE (nested candidate ''spec'' ''desiredDeployment'') (\<lambda>x. getitem x ''id'') = Inr i"
  using assms unfolding deployment_candidate_def
  by (auto simp: bindE_Inr_iff nested_setitem2)

section \<open>A sample plan\<close>

text \<open>Suspending a tenant that is suspended already, planned at the first instant of the calendar.\<close>

definition sample_context :: plan_context where
  "sample_context =
     \<lparr>source_runtime_generation_id = JStr sample_tenant, candidate_runtime_generation_id = JStr sample_identity,
      ctx_audit_state = \<lparr>audit_entry_count = 7, audit_segment_count = 1, audit_allocated_bytes = 4096, audit_terminal_digest = JNull\<rparr>,
      ctx_now = \<lparr>utc_microseconds = 0, tz_aware = True\<rparr>, ctx_readings = (\<lambda>_. (0, replicate 10 0))\<rparr>"

definition sample_namespace :: json where
  "sample_namespace = sample_contract ''PlatformNamespace'' [(''tenantOriginSuffix'', JStr ''lowerduckpond.com'')]"

definition sample_deployment :: json where
  "sample_deployment = sample_contract ''DeploymentRecord''
     [(''id'', JStr sample_identity), (''tenantId'', JStr sample_tenant), (''archiveSha256'', JStr ''a'')]"

definition sample_observed_contract :: json where
  "sample_observed_contract = sample_contract ''TenantObservedState''
     [(''tenantId'', JStr sample_tenant), (''desiredManifestDigest'', sample_binding MANIFEST_DIGEST_FORMAT),
      (''observedState'', JStr ''suspended''), (''activeDeploymentId'', JStr sample_identity)]"

definition sample_route_request :: json where
  "sample_route_request = obj
     [(''correlationId'', JStr sample_identity), (''operation'', JStr ''suspend''), (''tenantId'', JStr sample_tenant)]"

definition sample_route_job :: json where
  "sample_route_job = sample_contract ''AuthorizationJob''
     [(''compatibilityVersion'', JStr ''static-job-v2''), (''phase'', JStr ''claimed''), (''jobId'', JStr sample_identity),
      (''operatorPrincipal'', JStr ''op''), (''request'', sample_route_request),
      (''requestDigest'', sample_binding REQUEST_DIGEST_FORMAT), (''artifact'', JNull),
      (''expectedSource'', expected_source_document (JStr ''suspended'') (sample_binding MANIFEST_DIGEST_FORMAT)
         (sample_binding DEPLOYMENT_RECORD_DIGEST_FORMAT) JNull (sample_binding PLATFORM_STATE_DIGEST_FORMAT)),
      (''sourceAuthority'', obj [(''manifest'', sample_site ''duck'' ''suspended''), (''archiveRecord'', JNull)])]"

lemma sample_validates:
  "validate_contract sample_env d (Some kind) = Inr kind \<longleftrightarrow>
     dict_get d ''apiVersion'' = lit API_VERSION \<and> dict_get d ''kind'' = lit (kind_value kind) \<and>
     semantic_validator sample_env (validate_contract sample_env) kind d = Inr () \<and>
     (\<forall>field \<in> set IDENTITY_FIELDS. validate_identity_field d field = Inr ())"
  by (simp add: validate_contract_iff validated_contract_iff semantic_validation_iff sample_env_bytes)

lemma sample_identities_ok:
  "validate_identity_field (obj kvs) field = Inr ()"
  if "case map_of kvs field of None \<Rightarrow> True | Some v \<Rightarrow> v \<in> {JNull, JStr sample_tenant, JStr sample_identity}"
  using that by (auto simp: validate_identity_field_def thenE_def split: option.splits)

lemma sample_contract_digest:
  assumes "validate_contract sample_env d (Some kind) = Inr kind" "is_dict d" "FORMAT_PATTERN fmt"
  shows "digest_dict (contract_digest sample_env d kind fmt label) = Inr (sample_binding fmt)"
  using assms by (simp add: contract_digest_def thenE_def refuse_if_def digest_dict_iff sample_env_bytes
      digest_bytes_iff MAX_U32_def sample_binding_def)

lemmas sample_document_defs = sample_namespace_def sample_deployment_def sample_observed_contract_def
  sample_route_job_def sample_contract_def

lemma sample_job_ok: "validate_job sample_env sample_route_job = Inr ()"
  by (simp add: sample_document_defs sample_route_request_def validate_job_def validate_request_def
      validate_job_delivery_def validate_job_source_authority_def validate_job_source_lifecycle_def
      validate_job_deletion_authority_def expected_source_document_def sample_site_def sample_evaluation)

lemma sample_inputs_valid:
  "validate_contract sample_env sample_route_job (Some AUTHORIZATION_JOB) = Inr AUTHORIZATION_JOB"
  "validate_contract sample_env sample_namespace (Some PLATFORM_NAMESPACE) = Inr PLATFORM_NAMESPACE"
  "validate_contract sample_env (sample_site ''duck'' ''suspended'') (Some SITE) = Inr SITE"
  "validate_contract sample_env sample_observed_contract (Some TENANT_OBSERVED_STATE) = Inr TENANT_OBSERVED_STATE"
  "validate_contract sample_env sample_deployment (Some DEPLOYMENT_RECORD) = Inr DEPLOYMENT_RECORD"
  unfolding sample_validates semantic_validator_def ContractKind.case sample_job_ok
  by (simp_all add: sample_document_defs IDENTITY_FIELDS_def sample_identities_ok validate_namespace_def
      validate_deployment_record_def)
    (simp add: sample_site_def sample_identities_ok)

lemma sample_digests:
  "digest_dict (manifest_digest sample_env (sample_site ''duck'' ''suspended'')) = Inr (sample_binding MANIFEST_DIGEST_FORMAT)"
  "digest_dict (deployment_record_digest sample_env sample_deployment) = Inr (sample_binding DEPLOYMENT_RECORD_DIGEST_FORMAT)"
  "digest_dict (platform_state_digest sample_env sample_namespace) = Inr (sample_binding PLATFORM_STATE_DIGEST_FORMAT)"
  unfolding manifest_digest_def deployment_record_digest_def platform_state_digest_def
  by (rule sample_contract_digest[OF sample_inputs_valid(3)]; simp add: sample_site_def)
    (rule sample_contract_digest[OF sample_inputs_valid(5)] sample_contract_digest[OF sample_inputs_valid(2)];
      simp add: sample_document_defs)+

lemma sample_tenant_int: "uuid_int sample_tenant div 2 ^ 80 \<noteq> 0"
  by (simp add: uuid_int_def nat_of_hex_def sample_tenant_def unhex_digit_def is_digit_def char_code_def)

definition sample_intent_id :: string where
  "sample_intent_id = uuid_str (uuid7_value 0 (be_nat (replicate 10 0) mod 2 ^ 74))"

lemma sample_intent_id:
  "generate_uuid7 (0, replicate 10 0) = Inr sample_intent_id"
  "validate_uuid7 (JStr sample_intent_id) = Inr sample_intent_id" "sample_intent_id \<noteq> sample_tenant"
proof -
  show g: "generate_uuid7 (0, replicate 10 0) = Inr sample_intent_id"
    by (simp add: generate_uuid7_iff sample_intent_id_def)
  show "validate_uuid7 (JStr sample_intent_id) = Inr sample_intent_id"
    using generated_matches[OF g] by (simp add: uuid7_iff)
  have "uuid_int sample_intent_id div 2 ^ 80 = 0" using generated_timestamp[OF g] by simp
  then show "sample_intent_id \<noteq> sample_tenant" using sample_tenant_int by auto
qed

lemma sample_timestamp: "\<exists>ts. canonical_timestamp (ctx_now sample_context) = Inr ts"
  by (simp add: canonical_timestamp_def sample_context_def)

lemma sample_candidate:
  "route_candidate (sample_site ''duck'' ''suspended'') sample_route_request SUSPEND SUSPENDED
     = Inr (sample_site ''duck'' ''suspended'')"
  by (simp add: route_candidate_def sample_site_def setitem2_def setitem_obj obj_inject thenE_def)

definition sample_planned_observed :: "string \<Rightarrow> json" where
  "sample_planned_observed ts = observed_document sample_tenant (sample_binding MANIFEST_DIGEST_FORMAT) SUSPENDED
     (JStr sample_identity) JNull ts"

definition sample_planned_intent :: "string \<Rightarrow> json" where
  "sample_planned_intent ts = intent_document sample_intent_id sample_tenant (JStr sample_identity) SUSPEND JNull
     (recovery_document sample_observed_contract sample_tenant (JStr ''absent'') (sample_planned_observed ts)
        sample_identity (JStr ''absent''))
     (sample_site ''duck'' ''suspended'') (sample_binding MANIFEST_DIGEST_FORMAT)
     (sample_site ''duck'' ''suspended'') (sample_binding MANIFEST_DIGEST_FORMAT) ts"

definition sample_planned_result :: json where
  "sample_planned_result = obj (result_members (JStr sample_identity) (JStr sample_identity) SUSPEND sample_tenant
     (JStr (derived_origin sample_tenant TENANT_ORIGIN_SUFFIX)) (sample_site ''duck'' ''suspended''))"

lemma sample_planned_identities:
  "\<forall>field \<in> set IDENTITY_FIELDS. validate_identity_field (sample_planned_intent ts) field = Inr ()"
  by (simp add: IDENTITY_FIELDS_def sample_planned_intent_def intent_document_def validate_identity_field_def
      sample_intent_id(2) thenE_def)

lemma sample_planned_recovery: "validate_lifecycle_recovery (sample_planned_intent ts) True = Inr ()"
  by (simp add: validate_lifecycle_recovery_def validate_lifecycle_source_recovery_def
      validate_lifecycle_candidate_recovery_def validate_observed_recovery_binding_def expected_routes_def
      validate_observed_manifest_binding_def validate_manifest_transition_binding_def sample_planned_intent_def
      intent_document_def recovery_document_def sample_planned_observed_def observed_document_def
      sample_observed_contract_def sample_contract_def
      sample_site_def LIFECYCLE_MATRIX_def MATRIX_def sample_evaluation)
    (simp add: sample_tenant_def sample_identity_def)

lemma sample_planned_transaction: "validate_transaction_intent sample_env (sample_planned_intent ts) = Inr ()"
proof -
  let ?d = "sample_planned_intent ts" and ?m = "sample_site ''duck'' ''suspended''"
  have fields: "dict_get ?d ''compatibilityVersion'' = lit ''static-intent-v2''" "getitem ?d ''operation'' = lit ''suspend''"
    by (simp_all add: sample_planned_intent_def intent_document_def)
  have "validate_restart_fence ?d = Inr ()"
    by (simp add: validate_restart_fence_def sample_planned_intent_def intent_document_def sample_evaluation)
  moreover have "validated_transaction_source sample_env ?d (JStr ''suspend'') = Inr ?m"
    "validated_transaction_candidate sample_env ?d (JStr ''suspend'') = Inr ?m"
    by (simp_all add: validated_transaction_source_def validated_transaction_candidate_def sample_planned_intent_def
        intent_document_def sample_evaluation) (simp_all add: sample_site_def)
  ultimately show ?thesis
    by (simp add: validate_transaction_intent_def fields sample_transform Let_def
        validate_nonarchive_transaction_intent_def sample_planned_recovery thenE_def refuse_if_def andE_def)
qed

lemma sample_outputs_valid:
  "validate_contract sample_env (sample_planned_observed ts) (Some TENANT_OBSERVED_STATE) = Inr TENANT_OBSERVED_STATE"
  "validate_contract sample_env (sample_planned_intent ts) (Some TRANSACTION_INTENT) = Inr TRANSACTION_INTENT"
  "validate_contract sample_env sample_planned_result (Some OPERATION_RESULT) = Inr OPERATION_RESULT"
proof -
  show "validate_contract sample_env (sample_planned_observed ts) (Some TENANT_OBSERVED_STATE) = Inr TENANT_OBSERVED_STATE"
    unfolding sample_validates semantic_validator_def ContractKind.case sample_planned_observed_def observed_document_def
    by (simp add: IDENTITY_FIELDS_def sample_identities_ok)
  show "validate_contract sample_env (sample_planned_intent ts) (Some TRANSACTION_INTENT) = Inr TRANSACTION_INTENT"
    unfolding sample_validates semantic_validator_def ContractKind.case sample_planned_transaction
    using sample_planned_identities[of ts] by (simp add: sample_planned_intent_def intent_document_def)
  have "validate_result sample_env sample_planned_result = Inr ()"
    by (simp add: validate_result_def sample_planned_result_def result_members_def validate_canonical_origin_def
        sample_evaluation Let_def) (simp add: sample_site_def)
  then show "validate_contract sample_env sample_planned_result (Some OPERATION_RESULT) = Inr OPERATION_RESULT"
    unfolding sample_validates semantic_validator_def ContractKind.case
    by (simp add: IDENTITY_FIELDS_def sample_identities_ok sample_planned_result_def result_members_def)
qed

lemma sample_audit: "\<exists>entry. successful_audit_entry sample_env sample_route_job SUSPEND sample_tenant sample_planned_result
    (ctx_audit_state sample_context) ts = Inr entry"
proof -
  have "digest_dict (result_digest sample_env sample_planned_result) = Inr (sample_binding RESULT_DIGEST_FORMAT)"
    unfolding result_digest_def
    by (rule sample_contract_digest[OF sample_outputs_valid(3)]) (simp_all add: sample_planned_result_def)
  moreover have "validate_contract sample_env (obj
       [(''apiVersion'', JStr API_VERSION), (''kind'', JStr ''AuditEntry''), (''sequence'', JInt q),
        (''previousEntryDigest'', t), (''timestamp'', JStr ts), (''operatorPrincipal'', JStr ''op''),
        (''operation'', JStr ''suspend''), (''tenantId'', JStr sample_tenant), (''correlationId'', JStr sample_identity),
        (''resultDigest'', r), (''resultStatus'', JStr ''succeeded'')]) (Some AUDIT_ENTRY) = Inr AUDIT_ENTRY" for q t r
    unfolding sample_validates semantic_validator_def ContractKind.case
    by (simp add: IDENTITY_FIELDS_def sample_identities_ok validate_audit_entry_def)
  ultimately show ?thesis
    by (simp add: successful_audit_entry_def sample_route_job_def sample_route_request_def sample_contract_def
        thenE_def Let_def)
qed

lemma sample_publish:
  "\<exists>p. publish_route_plan sample_env sample_route_job sample_route_request SUSPEND sample_tenant
     (sample_site ''duck'' ''suspended'') (sample_binding MANIFEST_DIGEST_FORMAT) sample_observed_contract
     (JStr ''absent'') (sample_site ''duck'' ''suspended'') SUSPENDED (JStr sample_identity) sample_tenant
     sample_identity sample_context = Inr p"
proof -
  obtain ts where ts: "canonical_timestamp (ctx_now sample_context) = Inr ts" using sample_timestamp by blast
  obtain entry where entry: "successful_audit_entry sample_env sample_route_job SUSPEND sample_tenant sample_planned_result
      (ctx_audit_state sample_context) ts = Inr entry" using sample_audit by blast
  have uuid: "generate_uuid7 (ctx_readings sample_context 0) = Inr sample_intent_id"
    using sample_intent_id(1) by (simp add: sample_context_def)
  have request: "getitem sample_route_request ''correlationId'' = lit sample_identity"
    "getitem sample_route_job ''jobId'' = lit sample_identity"
    by (simp_all add: sample_route_request_def sample_route_job_def sample_contract_def)
  obtain metadata where site: "getitem (sample_site ''duck'' ''suspended'') ''metadata'' = Inr metadata"
    "getitem metadata ''canonicalOrigin'' = lit (derived_origin sample_tenant TENANT_ORIGIN_SUFFIX)"
    by (simp add: sample_site_def)
  note docs = sample_outputs_valid[unfolded sample_planned_intent_def sample_planned_observed_def sample_planned_result_def]
  show ?thesis
    unfolding publish_route_plan_def
    by (simp add: sample_inputs_valid(3) sample_digests(1) ts uuid request site sample_intent_id(3) thenE_def
        refuse_plan_def Let_def docs state_routes_def entry[unfolded sample_planned_result_def])
qed

lemma sample_route_planned:
  "\<exists>p. plan_route_transition sample_env sample_route_job sample_namespace (sample_site ''duck'' ''suspended'')
     sample_observed_contract sample_deployment JNull (JStr ''absent'') sample_context = Inr p"
proof -
  have site: "getitem (sample_site ''duck'' ''suspended'') ''spec'' = Inr (obj [(''desiredState'', JStr ''suspended''),
      (''desiredDeployment'', obj [(''id'', JStr sample_identity), (''archiveSha256'', JStr ''a'')])])"
    "getitem (sample_site ''duck'' ''suspended'') ''metadata'' = Inr (obj [(''id'', JStr sample_tenant), (''slug'', JStr ''duck''),
      (''canonicalOrigin'', JStr (derived_origin sample_tenant TENANT_ORIGIN_SUFFIX))])"
    by (simp_all add: sample_site_def)
  have job: "getitem sample_route_job ''phase'' = lit ''claimed''" "getitem sample_route_job ''request'' = Inr sample_route_request"
    "getitem sample_route_job ''expectedSource'' = Inr (expected_source_document (JStr ''suspended'')
       (sample_binding MANIFEST_DIGEST_FORMAT) (sample_binding DEPLOYMENT_RECORD_DIGEST_FORMAT) JNull
       (sample_binding PLATFORM_STATE_DIGEST_FORMAT))"
    by (simp_all add: sample_route_job_def sample_contract_def)
  have request: "getitem sample_route_request ''operation'' = lit ''suspend''"
    "getitem sample_route_request ''tenantId'' = lit sample_tenant" by (simp_all add: sample_route_request_def)
  have evidence: "route_source_evidence sample_env sample_tenant (obj [(''desiredState'', JStr ''suspended''),
      (''desiredDeployment'', obj [(''id'', JStr sample_identity), (''archiveSha256'', JStr ''a'')])]) SUSPENDED
      (sample_binding MANIFEST_DIGEST_FORMAT) sample_deployment JNull
    = Inr (sample_binding DEPLOYMENT_RECORD_DIGEST_FORMAT, JNull, JStr sample_identity)"
    using sample_digests(2) by (simp add: route_source_evidence_def refuse_plan_def sample_deployment_def
        sample_contract_def sample_evaluation)
  have observed: "validate_route_source_observed sample_observed_contract sample_tenant (sample_binding MANIFEST_DIGEST_FORMAT)
      SUSPENDED (JStr sample_identity) = Inr ()"
    by (simp add: validate_route_source_observed_def sample_observed_contract_def sample_contract_def refuse_plan_def
        sample_evaluation)
  have ids: "validate_uuid7 (source_runtime_generation_id sample_context) = Inr sample_tenant"
    "validate_uuid7 (candidate_runtime_generation_id sample_context) = Inr sample_identity"
    by (simp_all add: sample_context_def)
  have distinct: "sample_tenant \<noteq> sample_identity" by (simp add: sample_tenant_def sample_identity_def)
  have deployment: "sample_deployment \<noteq> JNull" by (simp add: sample_deployment_def sample_contract_def)
  have target: "LIFECYCLE_MATRIX (SUSPEND, SUSPENDED) = Some SUSPENDED" by (simp add: LIFECYCLE_MATRIX_def MATRIX_def)
  show ?thesis
    unfolding plan_route_transition_def
    by (simp add: sample_inputs_valid validate_optional_def deployment job request site sample_digests evidence
        ids distinct target observed sample_candidate sample_publish sample_evaluation refuse_plan_def state_routes_def)
qed

section \<open>Properties\<close>

text \<open>C22. Every planner implements the lifecycle machine and leaves nothing to chance: whatever create,
  route, deployment or archive plan is returned, its manifest, observed state, intent and
  result are accepted contracts that agree on the tenant, the correlation and the digest of the
  planned manifest, the audit entry continues the supplied chain position and binds the digest
  of exactly that result, the intent's identity is not the tenant's, and the step from the
  source manifest to the planned one is a transition of the lifecycle matrix.\<close>

theorem planned_transition_sound:
  assumes "planned env ctx op source p"
  shows "coherent_plan env ctx op source p \<and>
    (\<exists>s t. manifest_state source s \<and> manifest_state (plan_manifest p) t \<and> LIFECYCLE_MATRIX (op, s) = Some t)"
  using planned_coherent[OF assms] coherent_transition by blast

theorem planned_transition_sound_witness:
  "\<exists>p. coherent_plan sample_env sample_context SUSPEND (sample_site ''duck'' ''suspended'') p \<and>
    (\<exists>s t. manifest_state (sample_site ''duck'' ''suspended'') s \<and> manifest_state (plan_manifest p) t \<and>
       LIFECYCLE_MATRIX (SUSPEND, s) = Some t)"
proof -
  obtain p where "plan_route_transition sample_env sample_route_job sample_namespace (sample_site ''duck'' ''suspended'')
      sample_observed_contract sample_deployment JNull (JStr ''absent'') sample_context = Inr p"
    using sample_route_planned by blast
  then have "planned sample_env sample_context SUSPEND (sample_site ''duck'' ''suspended'') p"
    by (rule planned.route[where request = sample_route_request])
      (simp_all add: sample_route_job_def sample_route_request_def sample_contract_def)
  from planned_transition_sound[OF this] show ?thesis by blast
qed

text \<open>A deployment plan keeps the retained history ordered: the history the job authorizes is
  sorted and without repetition and ends in the deployment selected now; a new deployment gets
  an identity above every retained one, and a rollback selects a retained deployment that is
  not the current one. The selected identity is the one the planned manifest and the planned
  observed state name.\<close>

lemma selected_deployment_follows_history:
  assumes "plan_deployment_transition env job namespace source observed selected rollback tree ctx = Inr p"
    and "getitem job ''request'' = Inr request" "getitem request ''operation'' = lit (operation_value op)"
  shows "\<exists>history target. dict_get job ''dispatchDeploymentIds'' = Inr (JArr (map JStr history)) \<and>
    sorted history \<and> distinct history \<and> getitem (plan_deployment p) ''id'' = lit target \<and>
    (selected \<noteq> JNull \<longrightarrow> getitem selected ''id'' = lit (last history)) \<and>
    bindE (nested (plan_manifest p) ''spec'' ''desiredDeployment'') (\<lambda>x. getitem x ''id'') = lit target \<and>
    getitem (plan_observed_state p) ''activeDeploymentId'' = lit target \<and>
    (if plan_creates_deployment p then op \<noteq> ROLLBACK \<and> (\<forall>h \<in> set history. h < target)
     else op = ROLLBACK \<and> target \<in> set history \<and> (selected \<noteq> JNull \<longrightarrow> target \<noteq> last history))"
proof -
  obtain tid sd st candidate target_state d creates g1 g2 ts where
    sel: "select_deployment env job request selected rollback tree tid ts (ctx_readings ctx) = Inr (d, creates)"
    and cand: "deployment_candidate source d target_state = Inr candidate"
    and pub: "publish_deployment_plan env job request op tid source sd observed st candidate target_state
      (d, creates) g1 g2 ts ctx = Inr p"
    using plan_deployment_parts[OF assms] by fastforce
  obtain history target where h: "dict_get job ''dispatchDeploymentIds'' = Inr (JArr (map JStr history))"
    "sorted history" "distinct history" "getitem d ''id'' = lit target"
    "selected \<noteq> JNull \<longrightarrow> getitem selected ''id'' = lit (last history)"
    "if creates then op \<noteq> ROLLBACK \<and> (\<forall>h \<in> set history. h < target)
     else op = ROLLBACK \<and> target \<in> set history \<and> (selected \<noteq> JNull \<longrightarrow> target \<noteq> last history)"
    using selection_follows[OF sel assms(3)] by blast
  have p: "plan_deployment p = d" "plan_creates_deployment p = creates" "plan_manifest p = candidate"
    "getitem (plan_observed_state p) ''activeDeploymentId'' = lit target"
    using publish_deployment_documents[OF pub, of "JStr target"] h(4) by auto
  show ?thesis using h deployment_candidate_selects[OF cand h(4)] unfolding p(1-3)
    by (intro exI[of _ history] exI[of _ target]) (simp add: p(4))
qed

end
