(* ===== verification/Audit_Formats.thy ===== *)
theory Audit_Formats
  imports Lifecycle_Plan
begin

text \<open>
  Model of \<^verbatim>\<open>static_host_agent/audit_archive_formats.py\<close> and of the digest helpers of
  \<^verbatim>\<open>backup_identity.py\<close>: the canonical descriptors of archived audit segments, the proof that the
  bytes of a segment are one canonical hash chain, and the compact witness a segment is archived
  as. The cache of recent proofs is explicit state; the functions without it are the reference
  the cached ones are compared with.
\<close>

section \<open>Formats and bounds\<close>

definition BINDING_FORMAT :: string where "BINDING_FORMAT = ''lowerduckpond-backup-repository-binding-v1''"
definition ROTATION_SCHEMA :: string where "ROTATION_SCHEMA = ''lowerduckpond-audit-rotation-v1''"
definition DESCRIPTOR_FORMAT :: string where "DESCRIPTOR_FORMAT = ''lowerduckpond-audit-descriptor-v1''"
definition WITNESS_FORMAT :: string where "WITNESS_FORMAT = ''lowerduckpond-audit-lookup-witness-v1''"
definition INDEX_SCHEMA :: string where "INDEX_SCHEMA = ''lowerduckpond-audit-index-v1''"
definition INDEX_FORMAT :: string where "INDEX_FORMAT = ''lowerduckpond-audit-index-v1''"
definition HEAD_SCHEMA :: string where "HEAD_SCHEMA = ''lowerduckpond-audit-index-head-v1''"
definition HEAD_FORMAT :: string where "HEAD_FORMAT = ''lowerduckpond-audit-index-head-v1''"
definition AUDIT_ENTRY_FORMAT :: string where "AUDIT_ENTRY_FORMAT = ''lowerduckpond-audit-entry-v1''"
definition ARCHIVE_TAG :: string where "ARCHIVE_TAG = ''lowerduckpond-audit-archive''"

definition MAX_DESCRIPTOR_BYTES :: nat where "MAX_DESCRIPTOR_BYTES = 16 * 1024"
definition MAX_INDEX_BYTES :: nat where "MAX_INDEX_BYTES = 32 * 1024"
definition MAX_SEGMENT_BYTES :: nat where "MAX_SEGMENT_BYTES = 8 * 1024 * 1024"
definition MAX_ARCHIVED_SEGMENTS :: int where "MAX_ARCHIVED_SEGMENTS = 4096"
definition MAX_WITNESSED_ENTRIES :: int where "MAX_WITNESSED_ENTRIES = 65536"
definition MAX_ARCHIVE_METADATA_BYTES :: int where "MAX_ARCHIVE_METADATA_BYTES = 32 * 1024 * 1024"
definition MAX_ARCHIVE_METADATA_INODES :: int where "MAX_ARCHIVE_METADATA_INODES = 8192"

definition ROW_FIELDS :: "string list" where
  "ROW_FIELDS = [''sequence'', ''previousEntryDigest'', ''timestamp'', ''operatorPrincipal'', ''operation'',
     ''tenantId'', ''correlationId'', ''resultDigest'', ''resultStatus'', ''deletionEvidence'']"

definition refuse_backup :: "bool py \<Rightarrow> string \<Rightarrow> unit py" where
  "refuse_backup c msg = bindE c (\<lambda>bad. if bad then Inl (BackupIdentityError msg) else Inr ())"

lemma refuse_backup_Inr [check_simps]: "refuse_backup c msg = Inr u \<longleftrightarrow> c = Inr False"
  by (cases c) (auto simp: refuse_backup_def)

text \<open>\<^verbatim>\<open>try: ... except ContractError as error: raise E(msg) from error\<close>\<close>

definition catch_contract :: "exn \<Rightarrow> 'a py \<Rightarrow> 'a py" where
  "catch_contract e m = (case m of Inl (ContractError code msg) \<Rightarrow> Inl e | _ \<Rightarrow> m)"

lemma catch_contract_Inr [check_simps]: "catch_contract e m = Inr x \<longleftrightarrow> m = Inr x"
  by (auto simp: catch_contract_def split: sum.splits exn.splits)

lemma catch_contract_ok [simp]: "catch_contract e (Inr x) = Inr x"
  by (simp add: catch_contract_def)

section \<open>Digests of the backup formats\<close>

text \<open>The payload length is written in eight bytes, which no byte string of the machine exceeds.\<close>

definition framed64 :: "string \<Rightarrow> bytes \<Rightarrow> bytes" where
  "framed64 fmt payload = map (\<lambda>c. byte_of (char_code c)) fmt @ [0] @ nat_be 8 (length payload) @ payload"

definition framed_digest :: "string \<Rightarrow> bytes \<Rightarrow> json py" where
  "framed_digest fmt payload =
     (if \<not> FORMAT_PATTERN fmt then Inl (BackupIdentityError ''unsupported backup digest format'')
      else Inr (obj [(''format'', JStr fmt), (''algorithm'', JStr ''sha256''),
                     (''value'', JStr (sha256_hex (framed64 fmt payload)))]))"

fun is_sha256_hex :: "json option \<Rightarrow> bool" where
  "is_sha256_hex (Some (JStr s)) = fullmatch SHA256_PATTERN s"
| "is_sha256_hex _ = False"

fun require_digest :: "json \<Rightarrow> string \<Rightarrow> json py" where
  "require_digest (JObj m) fmt =
     (if fmdom m \<noteq> {|''format'', ''algorithm'', ''value''|} \<or> fmlookup m ''format'' \<noteq> Some (JStr fmt)
         \<or> fmlookup m ''algorithm'' \<noteq> Some (JStr ''sha256'') \<or> \<not> is_sha256_hex (fmlookup m ''value'')
      then Inl (BackupIdentityError ''invalid backup digest'')
      else Inr (obj [(''format'', JStr fmt), (''algorithm'', JStr ''sha256''), (''value'', the (fmlookup m ''value''))]))"
| "require_digest _ fmt = Inl (BackupIdentityError ''invalid backup digest'')"

section \<open>Archive values\<close>

fun archive_object :: "json \<Rightarrow> string list \<Rightarrow> json py" where
  "archive_object (JObj m) keys =
     (if fmdom m \<noteq> fset_of_list keys then Inl (BackupIdentityError ''audit archive object has unexpected members'')
      else Inr (JObj m))"
| "archive_object _ keys = Inl (BackupIdentityError ''audit archive object has unexpected members'')"

fun archive_count :: "json \<Rightarrow> int \<Rightarrow> int py" where
  "archive_count (JInt n) maximum =
     (if 0 \<le> n \<and> n \<le> maximum then Inr n else Inl (BackupIdentityError ''audit archive count exceeds its bound''))"
| "archive_count _ maximum = Inl (BackupIdentityError ''audit archive count exceeds its bound'')"

fun full_snapshot_id :: "json \<Rightarrow> string py" where
  "full_snapshot_id (JStr s) =
     (if fullmatch SHA256_PATTERN s then Inr s
      else Inl (BackupIdentityError ''audit archive requires a full SHA-256 identity''))"
| "full_snapshot_id _ = Inl (BackupIdentityError ''audit archive requires a full SHA-256 identity'')"

text \<open>
  \<^verbatim>\<open>datetime.strptime(value, "%Y-%m-%dT%H:%M:%SZ")\<close>: the literals are matched without regard to
  case, every field but the year may have one digit, a day may be a blank and a digit, and the
  fields must name a day of the calendar and a second below 60. \<^verbatim>\<open>strftime\<close> pads every field.
\<close>

definition dec_nat :: "string \<Rightarrow> nat" where
  "dec_nat s = foldl (\<lambda>n c. 10 * n + (char_code c - 48)) 0 s"

definition numeral_field :: "nat \<Rightarrow> nat \<Rightarrow> string \<Rightarrow> nat option" where
  "numeral_field lo hi s =
     (if s \<noteq> [] \<and> length s \<le> 2 \<and> list_all is_digit s \<and> lo \<le> dec_nat s \<and> dec_nat s \<le> hi then Some (dec_nat s)
      else None)"

definition upper_tz :: "string \<Rightarrow> string" where
  "upper_tz s = map (\<lambda>c. if c = CHR ''t'' then CHR ''T'' else if c = CHR ''z'' then CHR ''Z'' else c) s"

definition is_leap :: "nat \<Rightarrow> bool" where
  "is_leap y \<longleftrightarrow> y mod 4 = 0 \<and> (y mod 100 \<noteq> 0 \<or> y mod 400 = 0)"

definition month_days :: "nat \<Rightarrow> nat \<Rightarrow> nat" where
  "month_days y m = (if m = 2 \<and> is_leap y then 29 else DAYS_IN_MONTH ! m)"

definition day_field :: "string \<Rightarrow> nat option" where
  "day_field s =
     (if length s = 2 \<and> hd s = CHR '' '' then numeral_field 1 9 (tl s) else numeral_field 1 31 s)"

definition strptime_parts :: "string \<Rightarrow> string list option" where
  "strptime_parts s =
     (case split_on (CHR ''-'') (upper_tz s) of
        [y, m, rest] \<Rightarrow>
          (case split_on (CHR '':'') rest of
             [dh, mi, sz] \<Rightarrow>
               (case split_on (CHR ''T'') dh of
                  [d, h] \<Rightarrow> if sz \<noteq> [] \<and> last sz = CHR ''Z'' then Some [y, m, d, h, mi, butlast sz] else None
                | _ \<Rightarrow> None)
           | _ \<Rightarrow> None)
      | _ \<Rightarrow> None)"

definition strptime :: "string \<Rightarrow> (nat \<times> nat \<times> nat \<times> nat \<times> nat \<times> nat) option" where
  "strptime s =
     (case strptime_parts s of
        Some [y, m, d, h, mi, sec] \<Rightarrow>
          (if length y \<noteq> 4 \<or> \<not> list_all is_digit y \<or> dec_nat y = 0 then None
           else case (numeral_field 1 12 m, day_field d, numeral_field 0 23 h, numeral_field 0 59 mi, numeral_field 0 61 sec) of
              (Some m', Some d', Some h', Some mi', Some s') \<Rightarrow>
                if d' \<le> month_days (dec_nat y) m' \<and> s' < 60 then Some (dec_nat y, m', d', h', mi', s') else None
            | _ \<Rightarrow> None)
      | _ \<Rightarrow> None)"

definition strftime :: "nat \<times> nat \<times> nat \<times> nat \<times> nat \<times> nat \<Rightarrow> string" where
  "strftime t =
     (case t of (y, m, d, h, mi, s) \<Rightarrow>
        padded 4 y @ ''-'' @ padded 2 m @ ''-'' @ padded 2 d @ ''T'' @ padded 2 h @ '':'' @ padded 2 mi @ '':'' @
        padded 2 s @ ''Z'')"

fun archive_timestamp :: "json \<Rightarrow> string py" where
  "archive_timestamp (JStr s) =
     (case strptime s of
        None \<Rightarrow> Inl (BackupIdentityError ''audit archive time is invalid'')
      | Some t \<Rightarrow> if strftime t \<noteq> s then Inl (BackupIdentityError ''audit archive time is not canonical'') else Inr s)"
| "archive_timestamp _ = Inl (BackupIdentityError ''audit archive time is invalid'')"

definition canonical_archive_object :: "contract_env \<Rightarrow> bytes \<Rightarrow> nat \<Rightarrow> json py" where
  "canonical_archive_object env raw maximum =
     catch_contract (BackupIdentityError ''audit archive JSON is invalid'')
     (bindE (decode_json_object (env_codec env) raw maximum) (\<lambda>v.
      bindE (canonical_json_bytes (dumps (env_codec env)) v maximum) (\<lambda>canonical.
      if canonical \<noteq> raw then Inl (BackupIdentityError ''audit archive bytes are not canonical'') else Inr v)))"

definition segment_name :: "int \<Rightarrow> string py" where
  "segment_name number =
     bindE (archive_count (JInt number) (MAX_ARCHIVED_SEGMENTS - 1)) (\<lambda>n.
     Inr (''segment-'' @ padded 20 (nat n) @ ''.jsonl''))"

definition position_digest :: "json \<Rightarrow> int \<Rightarrow> string \<Rightarrow> unit py" where
  "position_digest v position fmt =
     (if position = 0
      then refuse_backup (Inr (v \<noteq> JNull)) ''empty audit archive boundary has a digest''
      else thenE (require_digest v fmt) (Inr ()))"

section \<open>Rotation descriptors, indexes and heads\<close>

definition ROTATION_KEYS :: "string list" where
  "ROTATION_KEYS = [''schema'', ''rotationId'', ''lineageId'', ''repositoryBinding'', ''createdAt'', ''segmentNumber'',
     ''segmentName'', ''firstSequence'', ''lastSequence'', ''entryCount'', ''segmentBytes'', ''segmentSha256'',
     ''predecessorEntryDigest'', ''terminalEntryDigest'', ''previousDescriptorDigest'', ''witnessFormat'',
     ''witnessBytes'', ''witnessDigest'']"

text \<open>\<^verbatim>\<open>archive_count(document[key], maximum)\<close>\<close>

definition count_of :: "json \<Rightarrow> string \<Rightarrow> int \<Rightarrow> int py" where
  "count_of d key maximum = bindE (getitem d key) (\<lambda>v. archive_count v maximum)"

definition digest_of :: "json \<Rightarrow> string \<Rightarrow> string \<Rightarrow> json py" where
  "digest_of d key fmt = bindE (getitem d key) (\<lambda>v. require_digest v fmt)"

definition validate_rotation :: "contract_env \<Rightarrow> json \<Rightarrow> json py" where
  "validate_rotation env v =
     bindE (archive_object v ROTATION_KEYS) (\<lambda>d.
     thenE (refuse_backup (anyE [neqE (getitem d ''schema'') (lit ROTATION_SCHEMA),
                                 neqE (getitem d ''witnessFormat'') (lit WITNESS_FORMAT)])
              ''unsupported audit archive format'')
     (thenE (catch_contract (BackupIdentityError ''audit archive identity is invalid'')
              (thenE (bindE (getitem d ''rotationId'') validate_uuid7) (bindE (getitem d ''lineageId'') validate_uuid7)))
     (thenE (digest_of d ''repositoryBinding'' BINDING_FORMAT)
     (thenE (bindE (getitem d ''createdAt'') archive_timestamp)
     (bindE (count_of d ''segmentNumber'' (MAX_ARCHIVED_SEGMENTS - 1)) (\<lambda>number.
      bindE (count_of d ''firstSequence'' (MAX_WITNESSED_ENTRIES - 1)) (\<lambda>first.
      bindE (count_of d ''lastSequence'' (MAX_WITNESSED_ENTRIES - 1)) (\<lambda>final.
      bindE (count_of d ''entryCount'' MAX_WITNESSED_ENTRIES) (\<lambda>count.
      bindE (count_of d ''segmentBytes'' (int MAX_SEGMENT_BYTES)) (\<lambda>sz.
      bindE (count_of d ''witnessBytes'' (int MAX_SEGMENT_BYTES)) (\<lambda>witness_size.
      thenE (refuse_backup (anyE
               [neqE (getitem d ''segmentName'') (bindE (segment_name number) (\<lambda>s. lit s)),
                Inr ((number = 0) \<noteq> (first = 0)), Inr (count = 0), Inr (final - first + 1 \<noteq> count),
                Inr (sz = 0), Inr (\<not> (0 < witness_size \<and> witness_size \<le> sz))])
               ''audit archive segment boundary is invalid'')
      (thenE (bindE (getitem d ''segmentSha256'') full_snapshot_id)
      (thenE (bindE (getitem d ''predecessorEntryDigest'') (\<lambda>x. position_digest x first AUDIT_ENTRY_FORMAT))
      (thenE (digest_of d ''terminalEntryDigest'' AUDIT_ENTRY_FORMAT)
      (thenE (bindE (getitem d ''previousDescriptorDigest'') (\<lambda>x. position_digest x number DESCRIPTOR_FORMAT))
      (thenE (digest_of d ''witnessDigest'' WITNESS_FORMAT)
      (thenE (canonical_json_bytes (dumps (env_codec env)) d MAX_DESCRIPTOR_BYTES)
       (Inr d))))))))))))))))))"

definition decode_rotation :: "contract_env \<Rightarrow> bytes \<Rightarrow> json py" where
  "decode_rotation env raw = bindE (canonical_archive_object env raw MAX_DESCRIPTOR_BYTES) (validate_rotation env)"

definition required_archive_tags :: "contract_env \<Rightarrow> json \<Rightarrow> string list py" where
  "required_archive_tags env descriptor =
     thenE (validate_rotation env descriptor)
     (bindE (digest_of descriptor ''repositoryBinding'' BINDING_FORMAT) (\<lambda>binding.
      bindE (bindE (getitem descriptor ''lineageId'') as_str) (\<lambda>lineage.
      bindE (bindE (getitem descriptor ''rotationId'') as_str) (\<lambda>rotation.
      bindE (bindE (getitem binding ''value'') as_str) (\<lambda>v.
      Inr (sort [ARCHIVE_TAG, ''lineage-'' @ lineage, ''rotation-'' @ rotation, ''repository-'' @ v]))))))"

definition decode_index :: "contract_env \<Rightarrow> bytes \<Rightarrow> json py" where
  "decode_index env raw =
     bindE (bindE (canonical_archive_object env raw MAX_INDEX_BYTES) (\<lambda>v. archive_object v
        [''schema'', ''descriptor'', ''snapshotId'', ''requiredTags'', ''descriptorDigest'', ''witnessDigest'',
         ''previousIndexDigest''])) (\<lambda>d.
     thenE (refuse_backup (neqE (getitem d ''schema'') (lit INDEX_SCHEMA)) ''unsupported audit index format'')
     (bindE (bindE (getitem d ''descriptor'') (validate_rotation env)) (\<lambda>descriptor.
      thenE (bindE (getitem d ''snapshotId'') full_snapshot_id)
      (bindE (bindE (canonical_json_bytes (dumps (env_codec env)) descriptor MAX_CANONICAL_BYTES)
                (framed_digest DESCRIPTOR_FORMAT)) (\<lambda>expected.
       thenE (refuse_backup (anyE
                [neqE (getitem d ''requiredTags'') (bindE (required_archive_tags env descriptor) (\<lambda>tags. Inr (strs tags))),
                 neqE (getitem d ''descriptorDigest'') (Inr expected),
                 neqE (getitem d ''witnessDigest'') (getitem descriptor ''witnessDigest'')])
                ''audit index binding disagrees with its descriptor'')
       (bindE (getitem d ''previousIndexDigest'') (\<lambda>previous.
        bindE (count_of descriptor ''segmentNumber'' (MAX_ARCHIVED_SEGMENTS - 1)) (\<lambda>number.
        thenE (position_digest previous number INDEX_FORMAT) (Inr d)))))))))"

definition decode_head :: "contract_env \<Rightarrow> bytes \<Rightarrow> json py" where
  "decode_head env raw =
     bindE (bindE (canonical_archive_object env raw MAX_DESCRIPTOR_BYTES) (\<lambda>v. archive_object v
        [''schema'', ''lineageId'', ''repositoryBinding'', ''indexCount'', ''entryCount'', ''terminalEntryDigest'',
         ''lastIndexDigest'', ''lastDescriptorDigest''])) (\<lambda>d.
     thenE (refuse_backup (neqE (getitem d ''schema'') (lit HEAD_SCHEMA)) ''unsupported audit index head format'')
     (thenE (catch_contract (BackupIdentityError ''audit index head identity is invalid'')
              (bindE (getitem d ''lineageId'') validate_uuid7))
     (thenE (digest_of d ''repositoryBinding'' BINDING_FORMAT)
     (bindE (count_of d ''indexCount'' MAX_ARCHIVED_SEGMENTS) (\<lambda>count.
      bindE (count_of d ''entryCount'' MAX_WITNESSED_ENTRIES) (\<lambda>entry_count.
      thenE (refuse_backup (Inr ((count = 0) \<noteq> (entry_count = 0) \<or> count > entry_count))
               ''audit index head has an invalid chain boundary'')
      (thenE (traverseE (\<lambda>(key, fmt). bindE (getitem d key) (\<lambda>v. position_digest v count fmt))
                [(''terminalEntryDigest'', AUDIT_ENTRY_FORMAT), (''lastIndexDigest'', INDEX_FORMAT),
                 (''lastDescriptorDigest'', DESCRIPTOR_FORMAT)])
       (Inr d))))))))"

section \<open>Segments\<close>

record SegmentEvidence =
  ev_first_sequence :: int
  ev_entry_count :: int
  ev_predecessor :: json
  ev_terminal :: json
  ev_witness :: bytes

record SegmentChain =
  chain_count :: int
  chain_first :: int
  chain_predecessor :: json
  chain_terminal :: json
  chain_seen :: "string list"

definition empty_chain :: SegmentChain where
  "empty_chain = \<lparr>chain_count = 0, chain_first = 0, chain_predecessor = JNull, chain_terminal = JNull, chain_seen = []\<rparr>"

definition start_chain :: "SegmentChain \<Rightarrow> int \<Rightarrow> json \<Rightarrow> SegmentChain py" where
  "start_chain c sequence previous =
     (if chain_count c = 0
      then bindE (if previous = JNull then Inr JNull else require_digest previous AUDIT_ENTRY_FORMAT) (\<lambda>p.
           Inr (c\<lparr>chain_first := sequence, chain_predecessor := p, chain_terminal := p\<rparr>))
      else Inr c)"

definition chain_add :: "contract_env \<Rightarrow> SegmentChain \<Rightarrow> json \<Rightarrow> (bytes \<times> SegmentChain) py" where
  "chain_add env chain d =
     bindE (canonical_audit_entry env d) (\<lambda>(canonical, digest).
     bindE (count_of d ''sequence'' (MAX_WITNESSED_ENTRIES - 1)) (\<lambda>sequence.
     bindE (getitem d ''previousEntryDigest'') (\<lambda>previous.
     bindE (start_chain chain sequence previous) (\<lambda>c.
     thenE (refuse_backup (Inr (sequence \<noteq> chain_first c + chain_count c \<or> previous \<noteq> chain_terminal c))
              ''audit archive segment breaks its hash chain'')
     (bindE (bindE (getitem d ''correlationId'') validate_uuid7) (\<lambda>correlation.
      thenE (refuse_backup (Inr (correlation \<in> set (chain_seen c))) ''audit archive repeats a correlation'')
      (thenE (refuse_backup (Inr (chain_count c + 1 > MAX_WITNESSED_ENTRIES))
                ''audit archive witness exceeds its entry boundary'')
       (Inr (canonical, c\<lparr>chain_count := chain_count c + 1, chain_seen := correlation # chain_seen c,
                          chain_terminal := Digest_to_dict digest\<rparr>)))))))))"

definition chain_evidence :: "SegmentChain \<Rightarrow> bytes \<Rightarrow> SegmentEvidence" where
  "chain_evidence c witness =
     \<lparr>ev_first_sequence = chain_first c, ev_entry_count = chain_count c, ev_predecessor = chain_predecessor c,
      ev_terminal = chain_terminal c, ev_witness = witness\<rparr>"

text \<open>Iteration over \<^verbatim>\<open>io.BytesIO(raw)\<close>: pieces ending in a newline, except perhaps the last.\<close>

fun byte_lines :: "bytes \<Rightarrow> bytes list" where
  "byte_lines [] = []"
| "byte_lines (b # bs) =
     (if b = 10 then [b] # byte_lines bs
      else case byte_lines bs of [] \<Rightarrow> [[b]] | l # ls \<Rightarrow> (b # l) # ls)"

text \<open>The compact row of an entry: the fixed columns, \<^verbatim>\<open>None\<close> for an absent member.\<close>

definition entry_row :: "json \<Rightarrow> json py" where
  "entry_row d = bindE (traverseE (dict_get d) ROW_FIELDS) (\<lambda>vs. Inr (JArr vs))"

definition inspect_line :: "contract_env \<Rightarrow> SegmentChain \<times> bytes \<Rightarrow> bytes \<Rightarrow> (SegmentChain \<times> bytes) py" where
  "inspect_line env st line =
     (case st of (chain, rows) \<Rightarrow>
     bindE (decode_json_object (env_codec env) line MAX_CANONICAL_BYTES) (\<lambda>d.
     bindE (chain_add env chain d) (\<lambda>(canonical, chain').
     if canonical \<noteq> line then Inl (BackupIdentityError ''audit archive entry is not canonical'')
     else
     bindE (entry_row d) (\<lambda>row.
     bindE (canonical_json_bytes (dumps (env_codec env)) row MAX_CANONICAL_BYTES) (\<lambda>row_bytes.
     let rows' = rows @ (if chain_count chain' > 1 then [0x2C] else []) @ butlast row_bytes in
     if length rows' + 2 > MAX_SEGMENT_BYTES
     then Inl (BackupIdentityError ''audit archive witness exceeds its byte boundary'')
     else Inr (chain', rows'))))))"

definition inspect_segment :: "contract_env \<Rightarrow> bytes \<Rightarrow> SegmentEvidence py" where
  "inspect_segment env raw =
     (if raw = [] \<or> length raw > MAX_SEGMENT_BYTES \<or> last raw \<noteq> 10
      then Inl (BackupIdentityError ''audit archive segment exceeds its byte boundary'')
      else
      bindE (catch_contract (BackupIdentityError ''audit archive contains an invalid entry'')
               (foldE (inspect_line env) (empty_chain, [0x5B]) (byte_lines raw))) (\<lambda>(chain, rows).
      Inr (chain_evidence chain (rows @ [0x5D, 10]))))"

text \<open>The bytes \<^verbatim>\<open>{"rows":\<close> and \<^verbatim>\<open>}\<close> around a row array.\<close>

definition wrap_rows :: "bytes \<Rightarrow> bytes" where
  "wrap_rows raw = [0x7B, 0x22, 0x72, 0x6F, 0x77, 0x73, 0x22, 0x3A] @ raw @ [0x7D]"

text \<open>The entry a row stands for; deletion evidence is dropped where the column is null.\<close>

definition entry_members :: "json list \<Rightarrow> (string \<times> json) list" where
  "entry_members row =
     [(''apiVersion'', JStr ''hosting.lowerduckpond.net/v1alpha1''), (''kind'', JStr ''AuditEntry'')] @ zip ROW_FIELDS row"

fun row_entry :: "json \<Rightarrow> json py" where
  "row_entry (JArr row) =
     (if length row \<noteq> length ROW_FIELDS
      then Inl (BackupIdentityError ''audit archive witness row has unexpected members'')
      else if map_of (entry_members row) ''deletionEvidence'' = Some JNull
      then Inr (obj (filter (\<lambda>(k, _). k \<noteq> ''deletionEvidence'') (entry_members row)))
      else Inr (obj (entry_members row)))"
| "row_entry _ = Inl (BackupIdentityError ''audit archive witness row has unexpected members'')"

definition expand_row :: "contract_env \<Rightarrow> SegmentChain \<times> bytes \<Rightarrow> json \<Rightarrow> (SegmentChain \<times> bytes) py" where
  "expand_row env st row =
     (case st of (chain, result) \<Rightarrow>
     bindE (row_entry row) (\<lambda>d.
     bindE (chain_add env chain d) (\<lambda>(canonical, chain').
     if length (result @ canonical) > MAX_SEGMENT_BYTES
     then Inl (BackupIdentityError ''audit archive witness expands beyond one segment'')
     else Inr (chain', result @ canonical))))"

definition witness_rows :: "contract_env \<Rightarrow> bytes \<Rightarrow> json list py" where
  "witness_rows env raw =
     bindE (decode_json_object (env_codec env) (wrap_rows raw) (MAX_SEGMENT_BYTES + 16)) (\<lambda>wrapped.
     case wrapped of
       JObj m \<Rightarrow>
         (case fmlookup m ''rows'' of
            Some (JArr rows) \<Rightarrow>
              (if fmdom m \<noteq> {|''rows''|} \<or> rows = [] \<or> int (length rows) > MAX_WITNESSED_ENTRIES
               then Inl (BackupIdentityError ''audit archive witness is not a canonical row array'')
               else bindE (canonical_json_bytes (dumps (env_codec env)) (JArr rows) MAX_SEGMENT_BYTES) (\<lambda>canonical.
                 if canonical \<noteq> raw then Inl (BackupIdentityError ''audit archive witness is not a canonical row array'')
                 else Inr rows))
          | _ \<Rightarrow> Inl (BackupIdentityError ''audit archive witness is not a canonical row array''))
     | _ \<Rightarrow> Inl (BackupIdentityError ''audit archive witness is not a canonical row array''))"

definition expand_witness :: "contract_env \<Rightarrow> bytes \<Rightarrow> (SegmentChain \<times> bytes) py" where
  "expand_witness env raw =
     (if length raw > MAX_SEGMENT_BYTES
      then Inl (BackupIdentityError ''audit archive witness exceeds its byte boundary'')
      else catch_contract (BackupIdentityError ''audit archive witness contains an invalid entry'')
             (bindE (witness_rows env raw) (foldE (expand_row env) (empty_chain, []))))"

definition segment_from_witness :: "contract_env \<Rightarrow> bytes \<Rightarrow> bytes py" where
  "segment_from_witness env raw = bindE (expand_witness env raw) (\<lambda>(chain, segment). Inr segment)"

definition verify_segment :: "contract_env \<Rightarrow> json \<Rightarrow> bytes \<Rightarrow> SegmentEvidence py" where
  "verify_segment env descriptor raw =
     thenE (validate_rotation env descriptor)
     (bindE (inspect_segment env raw) (\<lambda>evidence.
      thenE (refuse_backup (anyE
               [neqE (Inr (JInt (int (length raw)))) (getitem descriptor ''segmentBytes''),
                neqE (lit (sha256_hex raw)) (getitem descriptor ''segmentSha256''),
                neqE (Inr (JInt (ev_first_sequence evidence))) (getitem descriptor ''firstSequence''),
                neqE (Inr (JInt (ev_entry_count evidence))) (getitem descriptor ''entryCount''),
                neqE (Inr (ev_predecessor evidence)) (getitem descriptor ''predecessorEntryDigest''),
                neqE (Inr (ev_terminal evidence)) (getitem descriptor ''terminalEntryDigest''),
                neqE (Inr (JInt (int (length (ev_witness evidence))))) (getitem descriptor ''witnessBytes''),
                neqE (framed_digest WITNESS_FORMAT (ev_witness evidence)) (getitem descriptor ''witnessDigest'')])
               ''restored audit segment disagrees with its descriptor'')
      (Inr evidence)))"

section \<open>The proof cache\<close>

text \<open>
  The two most recent pairs of a segment and its evidence. A hit moves its pair to the front; a
  new proof replaces a pair of the same segment and drops the oldest.
\<close>

type_synonym proof_cache = "(bytes \<times> SegmentEvidence) list"

definition cached_proof ::
    "proof_cache \<Rightarrow> (bytes \<times> SegmentEvidence \<Rightarrow> bytes) \<Rightarrow> bytes \<Rightarrow> ((bytes \<times> SegmentEvidence) \<times> proof_cache) option" where
  "cached_proof cache key raw =
     (case dropWhile (\<lambda>pair. key pair \<noteq> raw) cache of
        [] \<Rightarrow> None
      | pair # rest \<Rightarrow> Some (pair, pair # takeWhile (\<lambda>pair. key pair \<noteq> raw) cache @ rest))"

definition remember_proof :: "proof_cache \<Rightarrow> bytes \<Rightarrow> SegmentEvidence \<Rightarrow> proof_cache" where
  "remember_proof cache raw evidence = take 2 ((raw, evidence) # filter (\<lambda>pair. fst pair \<noteq> raw) cache)"

definition inspect_segment_cached :: "contract_env \<Rightarrow> proof_cache \<Rightarrow> bytes \<Rightarrow> SegmentEvidence py \<times> proof_cache" where
  "inspect_segment_cached env cache raw =
     (case cached_proof cache fst raw of
        Some (pair, cache') \<Rightarrow> (Inr (snd pair), cache')
      | None \<Rightarrow>
          (case inspect_segment env raw of
             Inl e \<Rightarrow> (Inl e, cache)
           | Inr evidence \<Rightarrow> (Inr evidence, remember_proof cache raw evidence)))"

definition segment_from_witness_cached :: "contract_env \<Rightarrow> proof_cache \<Rightarrow> bytes \<Rightarrow> bytes py \<times> proof_cache" where
  "segment_from_witness_cached env cache raw =
     (case cached_proof cache (\<lambda>pair. ev_witness (snd pair)) raw of
        Some (pair, cache') \<Rightarrow> (Inr (fst pair), cache')
      | None \<Rightarrow>
          (case expand_witness env raw of
             Inl e \<Rightarrow> (Inl e, cache)
           | Inr (chain, segment) \<Rightarrow> (Inr segment, remember_proof cache segment (chain_evidence chain raw))))"

end
