(* ===== verification/Audit_Witness.thy ===== *)
theory Audit_Witness
  imports Audit_Formats
begin

text \<open>
  The two serialized forms of an archived audit segment, its canonical lines and its compact
  witness, carry the same information; and the cache of recent proofs, which serves both
  directions from one entry, cannot be told apart from the uncached functions.
\<close>

section \<open>Laws of the serializer, the scanner and the schema\<close>

text \<open>
  What the archive relies on outside the repository. RFC 8785 text of an array of rows is the text
  of the rows between brackets, canonical text holds no line break, and an array wrapped as the
  only member of an object scans back. The schema file of audit entries closes the object,
  requires every column but the deletion evidence, never admits null there, has no member
  that is an array and types the operation and the correlation as strings; a row of some of
  the members of an entry is no longer than the entry.
\<close>

fun is_list :: "json \<Rightarrow> bool" where
  "is_list (JArr _) = True"
| "is_list _ = False"

fun is_row :: "json \<Rightarrow> bool" where
  "is_row (JArr vs) \<longleftrightarrow> length vs = length ROW_FIELDS \<and> list_all (\<lambda>v. \<not> is_list v) vs"
| "is_row _ \<longleftrightarrow> False"

definition join_bytes :: "bytes list \<Rightarrow> bytes" where
  "join_bytes bss = join_on 0x2C bss"

definition array_codec_ok :: "json_codec \<Rightarrow> bool" where
  "array_codec_ok codec \<longleftrightarrow>
     (\<forall>vs bs. vs \<noteq> [] \<longrightarrow> list_all is_row vs \<longrightarrow> (dumps codec (JArr vs) = Some bs \<longleftrightarrow>
        (\<exists>bss. list_all2 (\<lambda>v b. dumps codec v = Some b) vs bss \<and> bs = [0x5B] @ join_bytes bss @ [0x5D]))) \<and>
     (\<forall>vs bs. vs \<noteq> [] \<longrightarrow> list_all is_row vs \<longrightarrow> dumps codec (JArr vs) = Some bs \<longrightarrow>
        (\<exists>chars. utf8_decode (wrap_rows (bs @ [10])) = Some chars \<and> take 1 chars \<noteq> [0xFEFF] \<and>
           loads codec object_hook reject_constant chars = Inr (obj [(''rows'', JArr vs)])))"

fun entry_shape :: "json \<Rightarrow> bool" where
  "entry_shape (JObj m) \<longleftrightarrow>
     fset (fmdom m) \<subseteq> {''apiVersion'', ''kind''} \<union> set ROW_FIELDS \<and>
     set ROW_FIELDS - {''deletionEvidence''} \<subseteq> fset (fmdom m) \<and> fmlookup m ''deletionEvidence'' \<noteq> Some JNull \<and>
     (\<forall>k vs. fmlookup m k \<noteq> Some (JArr vs)) \<and>
     (\<exists>s. fmlookup m ''operation'' = Some (JStr s)) \<and> (\<exists>s. fmlookup m ''correlationId'' = Some (JStr s))"
| "entry_shape _ \<longleftrightarrow> False"

definition archive_laws :: "contract_env \<Rightarrow> bool" where
  "archive_laws env \<longleftrightarrow>
     codec_ok (env_codec env) \<and> array_codec_ok (env_codec env) \<and>
     (\<forall>d bs. is_dict d \<longrightarrow> dumps (env_codec env) d = Some bs \<longrightarrow> 10 \<notin> set bs \<and> 13 \<notin> set bs) \<and>
     (\<forall>d. iter_errors env AUDIT_ENTRY d = [] \<longrightarrow> entry_shape d) \<and>
     (\<forall>d row bs rb. entry_shape d \<longrightarrow> dumps (env_codec env) d = Some bs \<longrightarrow> entry_row d = Inr row \<longrightarrow>
        dumps (env_codec env) row = Some rb \<longrightarrow> length rb \<le> length bs)"

section \<open>Lines\<close>

definition is_line :: "bytes \<Rightarrow> bool" where
  "is_line l \<longleftrightarrow> l \<noteq> [] \<and> last l = 10 \<and> 10 \<notin> set (butlast l)"

lemma is_line_append: "is_line (bs @ [10]) \<longleftrightarrow> 10 \<notin> set bs"
  by (simp add: is_line_def)

lemma concat_byte_lines: "concat (byte_lines bs) = bs"
  by (induction bs) (auto split: list.splits)

lemma byte_lines_line:
  assumes "10 \<notin> set bs"
  shows "byte_lines (bs @ 10 # rest) = (bs @ [10]) # byte_lines rest"
  using assms by (induction bs) auto

lemma byte_lines_concat:
  assumes "list_all is_line ls"
  shows "byte_lines (concat ls) = ls"
  using assms
proof (induction ls)
  case (Cons l ls)
  then have "is_line l" by simp
  then obtain bs where l: "l = bs @ [10]" "10 \<notin> set bs" by (metis append_butlast_last_id is_line_def)
  with Cons show ?case by (simp add: byte_lines_line)
qed simp

lemma byte_lines_Nil_iff [simp]: "byte_lines bs = [] \<longleftrightarrow> bs = []"
  by (metis byte_lines.simps(1) concat.simps(1) concat_byte_lines)

section \<open>Rows and entries\<close>

lemma ROW_FIELDS_facts:
  "distinct ROW_FIELDS" "length ROW_FIELDS = 10" "''deletionEvidence'' \<in> set ROW_FIELDS"
  "''apiVersion'' \<notin> set ROW_FIELDS" "''kind'' \<notin> set ROW_FIELDS"
  by (simp_all add: ROW_FIELDS_def)

lemma traverse_dict_get: "traverseE (dict_get (JObj m)) ks = Inr (map (\<lambda>k. case fmlookup m k of None \<Rightarrow> JNull | Some v \<Rightarrow> v) ks)"
  by (induction ks) auto

lemma entry_row_obj:
  "entry_row (JObj m) = Inr (JArr (map (\<lambda>k. case fmlookup m k of None \<Rightarrow> JNull | Some v \<Rightarrow> v) ROW_FIELDS))"
  by (simp add: entry_row_def traverse_dict_get del: dict_get.simps)

lemma map_of_filter_key: "map_of (filter (\<lambda>(k, _). k \<noteq> a) kvs) = (map_of kvs)(a := None)"
  by (induction kvs) (auto simp: fun_eq_iff)

lemma map_of_entry_members:
  assumes "length row = 10"
  shows "map_of (entry_members row) k =
    (if k = ''apiVersion'' then Some (JStr API_VERSION) else if k = ''kind'' then Some (JStr ''AuditEntry'')
     else map_of (zip ROW_FIELDS row) k)"
  by (simp add: entry_members_def API_VERSION_def)

lemma map_of_zip_map_fields:
  "map_of (zip ROW_FIELDS (map f ROW_FIELDS)) k = (if k \<in> set ROW_FIELDS then Some (f k) else None)"
  by (simp add: map_of_zip_map)

lemma row_entry_of_entry_row:
  assumes "entry_shape d" "dict_get d ''apiVersion'' = lit API_VERSION" "dict_get d ''kind'' = lit ''AuditEntry''"
    and "entry_row d = Inr row"
  shows "row_entry row = Inr d"
proof -
  obtain m where d: "d = JObj m" using assms(1) by (cases d) auto
  let ?f = "\<lambda>k. case fmlookup m k of None \<Rightarrow> JNull | Some v \<Rightarrow> v"
  let ?row = "map ?f ROW_FIELDS"
  have row: "row = JArr ?row" using assms(4) unfolding d by (simp add: entry_row_obj)
  have len: "length ?row = 10" by (simp add: ROW_FIELDS_facts)
  have ids: "fmlookup m ''apiVersion'' = Some (JStr API_VERSION)" "fmlookup m ''kind'' = Some (JStr ''AuditEntry'')"
    using assms(2,3) unfolding d by (auto split: option.splits)
  have shape: "fset (fmdom m) \<subseteq> {''apiVersion'', ''kind''} \<union> set ROW_FIELDS"
    "set ROW_FIELDS - {''deletionEvidence''} \<subseteq> fset (fmdom m)" "fmlookup m ''deletionEvidence'' \<noteq> Some JNull"
    using assms(1) unfolding d by auto
  have lk: "map_of (entry_members ?row) k = fmlookup m k" if "k \<noteq> ''deletionEvidence'' \<or> fmlookup m k \<noteq> None" for k
  proof (cases "k \<in> set ROW_FIELDS")
    case True
    then have "fmlookup m k \<noteq> None" using that shape(2) by (auto simp: subset_iff fmdom_notI)
    then obtain v where v: "fmlookup m k = Some v" by blast
    have "k \<noteq> ''apiVersion''" "k \<noteq> ''kind''" using True ROW_FIELDS_facts(4,5) by metis+
    then show ?thesis using True v unfolding map_of_entry_members[OF len] map_of_zip_map_fields by simp
  next
    case False
    then have "k \<notin> {''apiVersion'', ''kind''} \<Longrightarrow> fmlookup m k = None" using shape(1) by (auto dest!: subsetD intro: fmdomI)
    then show ?thesis using False ids unfolding map_of_entry_members[OF len] map_of_zip_map_fields
      by (cases "k = ''apiVersion''"; cases "k = ''kind''") simp_all
  qed
  have del: "map_of (entry_members ?row) ''deletionEvidence'' = Some JNull \<longleftrightarrow> fmlookup m ''deletionEvidence'' = None"
    using shape(3) unfolding map_of_entry_members[OF len] map_of_zip_map_fields
    by (auto simp: ROW_FIELDS_facts split: option.splits)
  show ?thesis
  proof (cases "fmlookup m ''deletionEvidence'' = None")
    case True
    have "map_of (filter (\<lambda>(k, _). k \<noteq> ''deletionEvidence'') (entry_members ?row)) = fmlookup m"
      unfolding map_of_filter_key using lk True by (auto simp: fun_eq_iff)
    then show ?thesis unfolding row d using del True
      by (simp add: len ROW_FIELDS_facts(2) obj_def fmlookup_inject[symmetric] fmlookup_of_list)
  next
    case False
    then have "map_of (entry_members ?row) = fmlookup m" using lk by (auto simp: fun_eq_iff)
    then show ?thesis unfolding row d using del False
      by (simp add: len ROW_FIELDS_facts(2) obj_def fmlookup_inject[symmetric] fmlookup_of_list)
  qed
qed

lemma is_row_entry_row:
  assumes "entry_shape d" "entry_row d = Inr row"
  shows "is_row row"
proof -
  obtain m where d: "d = JObj m" using assms(1) by (cases d) auto
  have "\<not> is_list (case fmlookup m k of None \<Rightarrow> JNull | Some v \<Rightarrow> v)" for k
    using assms(1) unfolding d by (cases "fmlookup m k") (auto elim: is_list.elims)
  then show ?thesis using assms(2) unfolding d entry_row_obj by (auto simp: list_all_iff)
qed

lemma entry_row_of_row_entry:
  assumes "row_entry row = Inr d"
  shows "entry_row d = Inr row"
proof -
  obtain vs where row: "row = JArr vs" "length vs = 10"
    using assms by (cases row) (auto simp: ROW_FIELDS_facts split: if_splits)
  have zip: "map_of (zip ROW_FIELDS vs) (ROW_FIELDS ! i) = Some (vs ! i)" if "i < 10" for i
    using that row(2) by (simp add: map_of_zip_nth ROW_FIELDS_facts)
  have nth: "map_of (entry_members vs) (ROW_FIELDS ! i) = Some (vs ! i)" if "i < 10" for i
  proof -
    have "ROW_FIELDS ! i \<in> set ROW_FIELDS" using that by (simp add: ROW_FIELDS_facts)
    then have "ROW_FIELDS ! i \<noteq> ''apiVersion''" "ROW_FIELDS ! i \<noteq> ''kind''" using ROW_FIELDS_facts(4,5) by metis+
    then show ?thesis using zip[OF that] by (simp add: map_of_entry_members[OF row(2)])
  qed
  obtain m where d: "d = JObj m"
    and m: "\<And>k. (case fmlookup m k of None \<Rightarrow> JNull | Some v \<Rightarrow> v) = (case map_of (entry_members vs) k of None \<Rightarrow> JNull | Some v \<Rightarrow> v)"
    using assms row by (auto simp: obj_def fmlookup_of_list map_of_filter_key split: if_splits)
  have "map (\<lambda>k. case fmlookup m k of None \<Rightarrow> JNull | Some v \<Rightarrow> v) ROW_FIELDS = vs"
    using nth row(2) by (intro nth_equalityI) (simp_all add: ROW_FIELDS_facts m)
  then show ?thesis unfolding d row(1) entry_row_obj by simp
qed


section \<open>Segments and witnesses are two forms of one chain\<close>

lemma canonical_audit_entryD:
  assumes "canonical_audit_entry env d = Inr (raw, digest)"
  shows "is_dict d" "dict_get d ''apiVersion'' = lit API_VERSION" "dict_get d ''kind'' = lit ''AuditEntry''"
    "iter_errors env AUDIT_ENTRY d = []" "\<exists>bs. dumps (env_codec env) d = Some bs \<and> raw = bs @ [10]"
    "length raw \<le> MAX_CANONICAL_BYTES" "canonical_json_bytes (dumps (env_codec env)) d MAX_CANONICAL_BYTES = Inr raw"
proof -
  obtain kind where k: "validated_contract env d (Some AUDIT_ENTRY) = Inr (kind, raw)" and d: "is_dict d"
    using assms by (auto simp: canonical_audit_entry_def bindE_Inr_iff thenE_Inr refuse_if_Inr)
  then have kind: "kind = AUDIT_ENTRY" by (auto simp: validated_contract_iff)
  note v = k[unfolded kind validated_contract_iff]
  show "is_dict d" by (rule d)
  show "dict_get d ''apiVersion'' = lit API_VERSION" "dict_get d ''kind'' = lit ''AuditEntry''"
    "iter_errors env AUDIT_ENTRY d = []" using v by simp_all
  show c: "canonical_json_bytes (dumps (env_codec env)) d MAX_CANONICAL_BYTES = Inr raw" using v by simp
  show "\<exists>bs. dumps (env_codec env) d = Some bs \<and> raw = bs @ [10]" "length raw \<le> MAX_CANONICAL_BYTES"
    using c by (auto simp: canonical_json_bytes_iff)
qed

lemma start_chain_count: "start_chain c s p = Inr c1 \<Longrightarrow> chain_count c1 = chain_count c"
  by (auto simp: start_chain_def bindE_Inr_iff split: if_splits)

lemma chain_addD:
  assumes "chain_add env c d = Inr (line, c')"
  shows "\<exists>digest. canonical_audit_entry env d = Inr (line, digest)"
    and "chain_count c' = chain_count c + 1" "chain_count c' \<le> MAX_WITNESSED_ENTRIES"
  using assms unfolding chain_add_def
  by (auto simp: bindE_Inr_iff thenE_Inr refuse_backup_Inr dest: start_chain_count)

text \<open>An accepted entry, its row and its line determine one another.\<close>

lemma accepted_line:
  assumes "archive_laws env" "chain_add env c d = Inr (line, c')"
  shows "is_line line" "decode_json_object (env_codec env) line MAX_CANONICAL_BYTES = Inr d"
    "entry_row d = Inr row \<Longrightarrow> row_entry row = Inr d \<and> is_row row"
    "entry_row d = Inr row \<Longrightarrow> dumps (env_codec env) row = Some rb \<Longrightarrow> length rb + 1 \<le> MAX_CANONICAL_BYTES"
proof -
  obtain digest where e: "canonical_audit_entry env d = Inr (line, digest)" using chain_addD(1)[OF assms(2)] by blast
  note c = canonical_audit_entryD[OF e]
  obtain bs where bs: "dumps (env_codec env) d = Some bs" "line = bs @ [10]" using c(5) by blast
  have shape: "entry_shape d" using assms(1) c(4) by (simp add: archive_laws_def)
  show "is_line line" using assms(1) c(1) bs by (auto simp: archive_laws_def is_line_append)
  show "decode_json_object (env_codec env) line MAX_CANONICAL_BYTES = Inr d"
    using assms(1) by (intro decode_canonical[OF _ c(1) c(7) c(6)]) (simp add: archive_laws_def)
  show "entry_row d = Inr row \<Longrightarrow> row_entry row = Inr d \<and> is_row row"
    using row_entry_of_entry_row[OF shape c(2,3)] is_row_entry_row[OF shape] by blast
  show "length rb + 1 \<le> MAX_CANONICAL_BYTES" if "entry_row d = Inr row" "dumps (env_codec env) row = Some rb"
  proof -
    have "length rb \<le> length bs" using assms(1) shape bs(1) that unfolding archive_laws_def by blast
    then show ?thesis using c(6) bs(2) by simp
  qed
qed

definition row_suffix :: "int \<Rightarrow> bytes list \<Rightarrow> bytes" where
  "row_suffix n bss = (if n = 0 then join_bytes bss else concat (map (\<lambda>b. 0x2C # b) bss))"

lemma row_suffix_simps:
  "row_suffix n [] = []"
  "0 \<le> n \<Longrightarrow> row_suffix n (b # bss) = (if n + 1 > 1 then [0x2C] else []) @ b @ row_suffix (n + 1) bss"
proof -
  show "row_suffix n [] = []" by (simp add: row_suffix_def join_bytes_def)
  assume n: "0 \<le> n"
  have "join_on x (b # bss) = b @ concat (map ((#) x) bss)" for x :: byte
    by (induction bss arbitrary: b) auto
  then show "row_suffix n (b # bss) = (if n + 1 > 1 then [0x2C] else []) @ b @ row_suffix (n + 1) bss"
    using n by (auto simp: row_suffix_def join_bytes_def)
qed

lemma inspect_line_iff:
  "inspect_line env (c, rows) line = Inr (c', rows') \<longleftrightarrow>
     (\<exists>d row rb. decode_json_object (env_codec env) line MAX_CANONICAL_BYTES = Inr d \<and>
        chain_add env c d = Inr (line, c') \<and> entry_row d = Inr row \<and> dumps (env_codec env) row = Some rb \<and>
        length rb + 1 \<le> MAX_CANONICAL_BYTES \<and> rows' = rows @ (if chain_count c' > 1 then [0x2C] else []) @ rb \<and>
        length rows' + 2 \<le> MAX_SEGMENT_BYTES)"
  unfolding inspect_line_def
  by (auto simp: bindE_Inr_iff if_Inl_Inr_iff Let_def canonical_json_bytes_iff split: prod.splits)

lemma expand_row_iff:
  "expand_row env (c, res) row = Inr (c', res') \<longleftrightarrow>
     (\<exists>d line. row_entry row = Inr d \<and> chain_add env c d = Inr (line, c') \<and> res' = res @ line \<and>
        length res' \<le> MAX_SEGMENT_BYTES)"
  unfolding expand_row_def by (auto simp: bindE_Inr_iff if_Inl_Inr_iff split: prod.splits)

lemma inspect_then_expand:
  assumes "archive_laws env" "foldE (inspect_line env) (c, rows) lines = Inr (c', rows')" "0 \<le> chain_count c"
  shows "\<exists>rs bss. list_all2 (\<lambda>v b. dumps (env_codec env) v = Some b) rs bss \<and> list_all is_row rs \<and> length rs = length lines \<and>
    rows' = rows @ row_suffix (chain_count c) bss \<and> chain_count c' = chain_count c + int (length lines) \<and>
    (lines \<noteq> [] \<longrightarrow> length rows' + 2 \<le> MAX_SEGMENT_BYTES \<and> chain_count c' \<le> MAX_WITNESSED_ENTRIES) \<and>
    (\<forall>res. length (res @ concat lines) \<le> MAX_SEGMENT_BYTES \<longrightarrow>
       foldE (expand_row env) (c, res) rs = Inr (c', res @ concat lines))"
  using assms(2,3)
proof (induction lines arbitrary: c rows)
  case Nil
  then show ?case by (intro exI[of _ "[]"] exI[of _ "[]"]) (simp add: row_suffix_simps)
next
  case (Cons line lines)
  obtain c1 rows1 where s: "inspect_line env (c, rows) line = Inr (c1, rows1)"
    and rest: "foldE (inspect_line env) (c1, rows1) lines = Inr (c', rows')"
    using Cons.prems(1) by (auto simp: bindE_Inr_iff)
  obtain d row rb where d: "chain_add env c d = Inr (line, c1)" "entry_row d = Inr row"
    "dumps (env_codec env) row = Some rb" "rows1 = rows @ (if chain_count c1 > 1 then [0x2C] else []) @ rb"
    "length rows1 + 2 \<le> MAX_SEGMENT_BYTES"
    using s by (auto simp: inspect_line_iff)
  note count = chain_addD(2,3)[OF d(1)]
  have "0 \<le> chain_count c1" using count Cons.prems(2) by simp
  from Cons.IH[OF rest this] obtain rs bss where ih:
    "list_all2 (\<lambda>v b. dumps (env_codec env) v = Some b) rs bss" "length rs = length lines"
    "rows' = rows1 @ row_suffix (chain_count c1) bss" "chain_count c' = chain_count c1 + int (length lines)"
    "lines \<noteq> [] \<longrightarrow> length rows' + 2 \<le> MAX_SEGMENT_BYTES \<and> chain_count c' \<le> MAX_WITNESSED_ENTRIES"
    "\<And>res. length (res @ concat lines) \<le> MAX_SEGMENT_BYTES \<Longrightarrow>
       foldE (expand_row env) (c1, res) rs = Inr (c', res @ concat lines)" "list_all is_row rs" by blast
  have re: "row_entry row = Inr d" "is_row row" using accepted_line(3)[OF assms(1) d(1,2)] by auto
  have "foldE (expand_row env) (c, res) (row # rs) = Inr (c', res @ concat (line # lines))"
    if "length (res @ concat (line # lines)) \<le> MAX_SEGMENT_BYTES" for res
  proof -
    have "expand_row env (c, res) row = Inr (c1, res @ line)"
      using that re(1) d(1) by (auto simp: expand_row_iff)
    then show ?thesis using ih(6)[of "res @ line"] that by simp
  qed
  moreover have "rows' = rows @ row_suffix (chain_count c) (rb # bss)"
    using ih(3) d(4) count(1) Cons.prems(2) by (simp add: row_suffix_simps)
  moreover have "length rows' + 2 \<le> MAX_SEGMENT_BYTES \<and> chain_count c' \<le> MAX_WITNESSED_ENTRIES"
  proof (cases "lines = []")
    case True
    then have "bss = []" using ih(1,2) by simp
    then show ?thesis using ih(3,4) d(5) count(2) True by (simp add: row_suffix_simps)
  qed (use ih(5) in blast)
  ultimately show ?case using ih(1,2,4,7) d(3) count(1) re(2)
    by (intro exI[of _ "row # rs"] exI[of _ "rb # bss"]) auto
qed

lemma expanded_rows:
  assumes "archive_laws env" "foldE (expand_row env) (c, res) rs = Inr (c', res')"
  shows "list_all is_row rs"
  using assms(2)
proof (induction rs arbitrary: c res)
  case (Cons row rs)
  obtain c1 res1 where s: "expand_row env (c, res) row = Inr (c1, res1)"
    and rest: "foldE (expand_row env) (c1, res1) rs = Inr (c', res')"
    using Cons.prems by (auto simp: bindE_Inr_iff)
  obtain d line where d: "row_entry row = Inr d" "chain_add env c d = Inr (line, c1)" using s by (auto simp: expand_row_iff)
  have "is_row row" using accepted_line(3)[OF assms(1) d(2) entry_row_of_row_entry[OF d(1)]] by blast
  then show ?case using Cons.IH[OF rest] by simp
qed simp

lemma expand_then_inspect:
  assumes "archive_laws env" "foldE (expand_row env) (c, res) rs = Inr (c', res')" "0 \<le> chain_count c"
    and "list_all2 (\<lambda>v b. dumps (env_codec env) v = Some b) rs bss"
  shows "\<exists>lines. list_all is_line lines \<and> res' = res @ concat lines \<and> length lines = length rs \<and>
    (rs \<noteq> [] \<longrightarrow> length res' \<le> MAX_SEGMENT_BYTES) \<and>
    (\<forall>rows. length (rows @ row_suffix (chain_count c) bss) + 2 \<le> MAX_SEGMENT_BYTES \<longrightarrow>
       foldE (inspect_line env) (c, rows) lines = Inr (c', rows @ row_suffix (chain_count c) bss))"
  using assms(2-4)
proof (induction rs arbitrary: c res bss)
  case Nil
  then show ?case by (intro exI[of _ "[]"]) (simp add: row_suffix_simps)
next
  case (Cons row rs)
  obtain c1 res1 where s: "expand_row env (c, res) row = Inr (c1, res1)"
    and rest: "foldE (expand_row env) (c1, res1) rs = Inr (c', res')"
    using Cons.prems(1) by (auto simp: bindE_Inr_iff)
  obtain d line where d: "row_entry row = Inr d" "chain_add env c d = Inr (line, c1)" "res1 = res @ line"
    "length res1 \<le> MAX_SEGMENT_BYTES" using s by (auto simp: expand_row_iff)
  obtain rb bss1 where b: "bss = rb # bss1" "dumps (env_codec env) row = Some rb"
    "list_all2 (\<lambda>v b. dumps (env_codec env) v = Some b) rs bss1" using Cons.prems(3) by (auto simp: list_all2_Cons1)
  note count = chain_addD(2)[OF d(2)]
  have "0 \<le> chain_count c1" using count Cons.prems(2) by simp
  from Cons.IH[OF rest this b(3)] obtain lines where ih:
    "list_all is_line lines" "res' = res1 @ concat lines" "length lines = length rs"
    "rs \<noteq> [] \<longrightarrow> length res' \<le> MAX_SEGMENT_BYTES"
    "\<And>rows. length (rows @ row_suffix (chain_count c1) bss1) + 2 \<le> MAX_SEGMENT_BYTES \<Longrightarrow>
       foldE (inspect_line env) (c1, rows) lines = Inr (c', rows @ row_suffix (chain_count c1) bss1)" by blast
  have row: "entry_row d = Inr row" by (rule entry_row_of_row_entry[OF d(1)])
  note acc = accepted_line[OF assms(1) d(2)]
  have suffix: "row_suffix (chain_count c) bss =
      (if chain_count c1 > 1 then [0x2C] else []) @ rb @ row_suffix (chain_count c1) bss1"
    using Cons.prems(2) count by (simp add: b(1) row_suffix_simps)
  have "foldE (inspect_line env) (c, rows) (line # lines) = Inr (c', rows @ row_suffix (chain_count c) bss)"
    if "length (rows @ row_suffix (chain_count c) bss) + 2 \<le> MAX_SEGMENT_BYTES" for rows
  proof -
    let ?rows1 = "rows @ (if chain_count c1 > 1 then [0x2C] else []) @ rb"
    have "inspect_line env (c, rows) line = Inr (c1, ?rows1)"
      unfolding inspect_line_iff using acc(2) acc(4)[OF row b(2)] d(2) row b(2) that suffix
      by (intro exI[of _ d] exI[of _ row] exI[of _ rb]) auto
    then show ?thesis using ih(5)[of ?rows1] that unfolding suffix by simp
  qed
  then show ?case using ih acc(1) d(3,4) by (intro exI[of _ "line # lines"]) (cases rs; auto)
qed


text \<open>The only state in which a fold starts.\<close>

lemma empty_chain_count [simp]: "chain_count empty_chain = 0"
  by (simp add: empty_chain_def)

lemma row_array:
  assumes "array_codec_ok codec" "vs \<noteq> []" "list_all is_row vs"
  shows "dumps codec (JArr vs) = Some bs \<longleftrightarrow>
    (\<exists>bss. list_all2 (\<lambda>v b. dumps codec v = Some b) vs bss \<and> bs = [0x5B] @ row_suffix 0 bss @ [0x5D])"
  using assms unfolding array_codec_ok_def row_suffix_def by simp

lemma witness_rows_of_array:
  assumes "array_codec_ok (env_codec env)" "dumps (env_codec env) (JArr vs) = Some bs" "vs \<noteq> []" "list_all is_row vs"
    and "length bs + 1 \<le> MAX_SEGMENT_BYTES" "int (length vs) \<le> MAX_WITNESSED_ENTRIES"
  shows "witness_rows env (bs @ [10]) = Inr vs"
proof -
  obtain chars where c: "utf8_decode (wrap_rows (bs @ [10])) = Some chars" "take 1 chars \<noteq> [0xFEFF]"
    "loads (env_codec env) object_hook reject_constant chars = Inr (obj [(''rows'', JArr vs)])"
    using assms(1-4) unfolding array_codec_ok_def by blast
  have "length (wrap_rows (bs @ [10])) \<le> MAX_SEGMENT_BYTES + 16" using assms(5) by (simp add: wrap_rows_def)
  then have "decode_json_object (env_codec env) (wrap_rows (bs @ [10])) (MAX_SEGMENT_BYTES + 16) = Inr (obj [(''rows'', JArr vs)])"
    using c by (simp add: decode_json_object_def)
  moreover have "canonical_json_bytes (dumps (env_codec env)) (JArr vs) MAX_SEGMENT_BYTES = Inr (bs @ [10])"
    using assms(2,5) by (simp add: canonical_json_bytes_iff)
  ultimately show ?thesis using assms(3,6) by (simp add: witness_rows_def obj_def)
qed

lemma witness_rowsD:
  assumes "witness_rows env raw = Inr vs"
  shows "vs \<noteq> []" "int (length vs) \<le> MAX_WITNESSED_ENTRIES"
    "\<exists>bs. dumps (env_codec env) (JArr vs) = Some bs \<and> raw = bs @ [10] \<and> length raw \<le> MAX_SEGMENT_BYTES"
proof -
  obtain wrapped where w: "decode_json_object (env_codec env) (wrap_rows raw) (MAX_SEGMENT_BYTES + 16) = Inr wrapped"
    using assms unfolding witness_rows_def by (auto simp: bindE_Inr_iff)
  then obtain m where m: "wrapped = JObj m" by (metis decode_json_object_is_dict is_dict_iff)
  then obtain v where v: "fmlookup m ''rows'' = Some v" using assms w by (cases "fmlookup m ''rows''") (auto simp: witness_rows_def)
  then obtain rows where "v = JArr rows" using assms w m by (cases v) (auto simp: witness_rows_def)
  then show "vs \<noteq> []" "int (length vs) \<le> MAX_WITNESSED_ENTRIES"
    "\<exists>bs. dumps (env_codec env) (JArr vs) = Some bs \<and> raw = bs @ [10] \<and> length raw \<le> MAX_SEGMENT_BYTES"
    using assms w m v
    by (auto simp: witness_rows_def bindE_Inr_iff canonical_json_bytes_iff if_Inl_Inr_iff not_less)
qed

lemma expand_inspected:
  assumes "archive_laws env" "inspect_segment env raw = Inr ev"
  shows "\<exists>chain. expand_witness env (ev_witness ev) = Inr (chain, raw) \<and> chain_evidence chain (ev_witness ev) = ev"
proof -
  have laws: "array_codec_ok (env_codec env)" using assms(1) by (simp add: archive_laws_def)
  obtain chain rows where raw: "raw \<noteq> []" "length raw \<le> MAX_SEGMENT_BYTES"
    and fold: "foldE (inspect_line env) (empty_chain, [0x5B]) (byte_lines raw) = Inr (chain, rows)"
    and ev: "ev = chain_evidence chain (rows @ [0x5D, 10])"
    using assms(2) unfolding inspect_segment_def
    by (auto simp: bindE_Inr_iff if_Inl_Inr_iff catch_contract_Inr split: prod.splits)
  obtain rs bss where rows: "list_all is_row rs"
    and r: "list_all2 (\<lambda>v b. dumps (env_codec env) v = Some b) rs bss" "length rs = length (byte_lines raw)"
    "rows = [0x5B] @ row_suffix 0 bss" "chain_count chain = int (length (byte_lines raw))"
    "length rows + 2 \<le> MAX_SEGMENT_BYTES" "chain_count chain \<le> MAX_WITNESSED_ENTRIES"
    "foldE (expand_row env) (empty_chain, []) rs = Inr (chain, raw)"
    using inspect_then_expand[OF assms(1) fold] raw by (auto simp: concat_byte_lines)
  have ne: "rs \<noteq> []" using r(2) raw(1) by (metis byte_lines_Nil_iff length_0_conv)
  have "dumps (env_codec env) (JArr rs) = Some (rows @ [0x5D])"
    using row_array[OF laws ne rows] r(1,3) by auto
  then have "witness_rows env ((rows @ [0x5D]) @ [10]) = Inr rs"
    using r(2,4-6) ne rows by (intro witness_rows_of_array[OF laws]) auto
  then have "expand_witness env (rows @ [0x5D, 10]) = Inr (chain, raw)"
    using r(5,7) by (simp add: expand_witness_def)
  then show ?thesis unfolding ev by (simp add: chain_evidence_def)
qed

lemma inspect_expanded:
  assumes "archive_laws env" "expand_witness env w = Inr (chain, raw)"
  shows "inspect_segment env raw = Inr (chain_evidence chain w)"
proof -
  have laws: "array_codec_ok (env_codec env)" using assms(1) by (simp add: archive_laws_def)
  obtain vs where v: "witness_rows env w = Inr vs" "foldE (expand_row env) (empty_chain, []) vs = Inr (chain, raw)"
    using assms(2) unfolding expand_witness_def by (auto simp: if_Inl_Inr_iff catch_contract_Inr bindE_Inr_iff)
  note rows = witness_rowsD[OF v(1)]
  obtain bss where bss: "list_all2 (\<lambda>v b. dumps (env_codec env) v = Some b) vs bss"
    "w = [0x5B] @ row_suffix 0 bss @ [0x5D, 10]" "length w \<le> MAX_SEGMENT_BYTES"
    using rows(3) row_array[OF laws rows(1) expanded_rows[OF assms(1) v(2)]] by auto
  obtain lines where l: "list_all is_line lines" "raw = concat lines" "length lines = length vs"
    "length raw \<le> MAX_SEGMENT_BYTES"
    "foldE (inspect_line env) (empty_chain, [0x5B]) lines = Inr (chain, [0x5B] @ row_suffix 0 bss)"
    using expand_then_inspect[OF assms(1) v(2) _ bss(1)] rows(1) bss(2,3) by fastforce
  have "lines \<noteq> []" using l(3) rows(1) by auto
  then have ends: "raw \<noteq> []" "last raw = 10"
    using l(1) unfolding l(2) by (induction lines rule: rev_induct) (auto simp: is_line_def)
  show ?thesis unfolding inspect_segment_def l(2) byte_lines_concat[OF l(1)] l(5)
    using ends l(4) bss(2) by (simp add: l(2))
qed

section \<open>The cache is transparent\<close>

definition cache_sound :: "contract_env \<Rightarrow> proof_cache \<Rightarrow> bool" where
  "cache_sound env cache \<longleftrightarrow> length cache \<le> 2 \<and> (\<forall>(raw, ev) \<in> set cache. inspect_segment env raw = Inr ev)"

lemma cached_proof_Some:
  assumes "cached_proof cache key raw = Some (pair, cache')"
  shows "key pair = raw \<and> pair \<in> set cache \<and> set cache' = set cache \<and> length cache' = length cache"
proof -
  let ?p = "\<lambda>pair. key pair \<noteq> raw"
  obtain rest where d: "dropWhile ?p cache = pair # rest" "cache' = pair # takeWhile ?p cache @ rest"
    using assms by (auto simp: cached_proof_def split: list.splits)
  have "cache = takeWhile ?p cache @ pair # rest" using d(1) by (metis takeWhile_dropWhile_id)
  then have "set cache = set (takeWhile ?p cache @ pair # rest)" "length cache = length (takeWhile ?p cache @ pair # rest)"
    "pair \<in> set cache" by (metis, metis, metis in_set_conv_decomp)
  moreover have "key pair = raw" using d(1) hd_dropWhile[of ?p cache] by simp
  ultimately show ?thesis using d(2) by simp
qed

lemma cache_sound_hit:
  assumes "cache_sound env cache" "cached_proof cache key raw = Some (pair, cache')"
  shows "key pair = raw" "inspect_segment env (fst pair) = Inr (snd pair)" "cache_sound env cache'"
proof -
  note hit = cached_proof_Some[OF assms(2)]
  show "key pair = raw" using hit by blast
  show "inspect_segment env (fst pair) = Inr (snd pair)"
    using assms(1) hit unfolding cache_sound_def by (cases pair) auto
  show "cache_sound env cache'" using assms(1) hit unfolding cache_sound_def by simp
qed

lemma cache_sound_remember:
  assumes "cache_sound env cache" "inspect_segment env raw = Inr ev"
  shows "cache_sound env (remember_proof cache raw ev)"
  using assms unfolding cache_sound_def remember_proof_def by (auto dest!: in_set_takeD)

section \<open>A concrete log\<close>

text \<open>
  Two chained audit entries and an instance of the parameters that serializes them, their rows
  and every array of these rows, used by the witnesses.
\<close>

definition log_entry :: "int \<Rightarrow> json \<Rightarrow> string \<Rightarrow> string \<Rightarrow> json" where
  "log_entry sequence previous op correlation = obj
     [(''apiVersion'', JStr API_VERSION), (''kind'', JStr ''AuditEntry''), (''sequence'', JInt sequence),
      (''previousEntryDigest'', previous), (''timestamp'', JStr ''t''), (''operatorPrincipal'', JStr ''op''),
      (''operation'', JStr op), (''tenantId'', JStr sample_tenant), (''correlationId'', JStr correlation),
      (''resultDigest'', sample_binding RESULT_DIGEST_FORMAT), (''resultStatus'', JStr ''succeeded'')]"

definition log_digest :: json where
  "log_digest = Digest_to_dict \<lparr>format = AUDIT_ENTRY_DIGEST_FORMAT, algorithm = ''sha256'',
     digest_value = sha256_hex (framed AUDIT_ENTRY_DIGEST_FORMAT [123, 48, 125, 10])\<rparr>"

definition log_first :: json where "log_first = log_entry 0 JNull ''create'' sample_tenant"
definition log_second :: "string \<Rightarrow> json" where "log_second c = log_entry 1 log_digest ''deploy'' c"

definition log_row :: "int \<Rightarrow> json \<Rightarrow> string \<Rightarrow> string \<Rightarrow> json" where
  "log_row sequence previous op correlation = JArr
     [JInt sequence, previous, JStr ''t'', JStr ''op'', JStr op, JStr sample_tenant, JStr correlation,
      sample_binding RESULT_DIGEST_FORMAT, JStr ''succeeded'', JNull]"

definition log_first_row :: json where "log_first_row = log_row 0 JNull ''create'' sample_tenant"
definition log_second_row :: "string \<Rightarrow> json" where "log_second_row c = log_row 1 log_digest ''deploy'' c"

definition row_text :: "json \<Rightarrow> bytes" where
  "row_text row = (if row = log_first_row then [91, 48, 93] else [91, 49, 93])"

definition log_dumps :: "string \<Rightarrow> json \<Rightarrow> bytes option" where
  "log_dumps c d =
     (if d = log_first then Some [123, 48, 125] else if d = (log_second c) then Some [123, 49, 125]
      else if d = log_first_row \<or> d = (log_second_row c) then Some (row_text d)
      else case d of
          JArr vs \<Rightarrow> if vs \<noteq> [] \<and> set vs \<subseteq> {log_first_row, (log_second_row c)}
                     then Some ([91] @ join_bytes (map row_text vs) @ [93]) else None
        | _ \<Rightarrow> None)"

fun log_rows :: "string \<Rightarrow> utext \<Rightarrow> json list" where
  "log_rows c (b1 # x # b2 # b3 # rest) = (if x = 48 then log_first_row else (log_second_row c)) # (log_rows c) rest"
| "log_rows c _ = []"

definition log_env :: "string \<Rightarrow> contract_env" where
  "log_env c = \<lparr>env_codec = \<lparr>dumps = (log_dumps c),
     loads = (\<lambda>hook constant chars.
       if chars = [123, 48, 125, 10] then Inr log_first
       else if chars = [123, 49, 125, 10] then Inr (log_second c)
       else Inr (obj [(''rows'', JArr ((log_rows c) (drop 9 chars)))]))\<rparr>,
     iter_errors = (\<lambda>kind d. if kind = AUDIT_ENTRY \<and> d \<notin> {log_first, (log_second c)}
       then [\<lparr>validator_keyword = ''type'', error_path = []\<rparr>] else [])\<rparr>"

lemma log_values:
  "log_first_row \<noteq> (log_second_row c)" "log_first \<noteq> (log_second c)" "is_dict log_first" "is_dict (log_second c)"
  "\<not> is_dict log_first_row" "\<not> is_dict (log_second_row c)"
  "log_first \<noteq> log_first_row" "log_first \<noteq> (log_second_row c)" "(log_second c) \<noteq> log_first_row" "(log_second c) \<noteq> (log_second_row c)"
  by (auto simp: log_first_def log_second_def log_first_row_def log_second_row_def log_row_def log_entry_def obj_inject)
    (auto simp: obj_def)

lemma log_kinds [simp]:
  "JArr vs \<noteq> log_first" "JArr vs \<noteq> (log_second c)" "JObj m \<noteq> log_first_row" "JObj m \<noteq> (log_second_row c)"
  by (auto simp: log_first_def log_second_def log_entry_def obj_def log_first_row_def log_second_row_def log_row_def)

lemma log_row_shape: "is_row log_first_row" "is_row (log_second_row c)" "is_list log_first_row" "is_list (log_second_row c)"
  by (simp_all add: log_first_row_def log_second_row_def log_row_def ROW_FIELDS_def log_digest_def Digest_to_dict_def
      sample_binding_def obj_def)

lemma log_dumps_dict: "is_dict d \<Longrightarrow> (log_dumps c) d = Some bs \<longleftrightarrow>
    d = log_first \<and> bs = [123, 48, 125] \<or> d = (log_second c) \<and> bs = [123, 49, 125]"
  using log_values by (cases d) (auto simp: log_dumps_def)

lemma log_dumps_row: "is_row v \<Longrightarrow> (log_dumps c) v = Some b \<longleftrightarrow> v \<in> {log_first_row, (log_second_row c)} \<and> b = row_text v"
  using log_values log_row_shape by (cases v) (auto simp: log_dumps_def list_all_iff neq_Nil_conv)

lemma log_dumps_array:
  assumes "vs \<noteq> []" "list_all is_row vs"
  shows "(log_dumps c) (JArr vs) = (if set vs \<subseteq> {log_first_row, (log_second_row c)}
     then Some ([91] @ join_bytes (map row_text vs) @ [93]) else None)"
proof -
  obtain v ws where v: "vs = v # ws" using assms(1) by (cases vs) auto
  then obtain us where us: "v = JArr us" using assms(2) by (cases v) auto
  have "JArr vs \<noteq> log_first_row" "JArr vs \<noteq> (log_second_row c)"
    unfolding v us log_first_row_def log_second_row_def log_row_def by simp_all
  then show ?thesis using assms(1) by (simp add: log_dumps_def)
qed

lemma log_rows_text:
  assumes "set vs \<subseteq> {log_first_row, (log_second_row c)}" "vs \<noteq> []"
  shows "(log_rows c) (map unat (join_bytes (map row_text vs)) @ [93, 10, 125]) = vs"
  using assms
proof (induction vs rule: induct_list012)
  case (2 v)
  then show ?case using log_values(1) by (auto simp: join_bytes_def row_text_def)
next
  case (3 v w vs)
  then show ?case using log_values(1) by (auto simp: join_bytes_def row_text_def)
qed simp

lemma ascii_decode: "list_all (\<lambda>b. unat b < 128) bs \<Longrightarrow> utf8_decode bs = Some (map unat bs)"
  by (rule utf8_decode_ascii)

lemma row_text_ascii: "list_all (\<lambda>b. unat b < 128) (join_bytes (map row_text vs))"
  by (induction vs rule: induct_list012) (auto simp: join_bytes_def row_text_def)

lemma log_codec_ok: "codec_ok (env_codec (log_env c))"
  unfolding codec_ok_def
proof (intro allI impI)
  fix v bs assume "is_dict v" "dumps (env_codec (log_env c)) v = Some bs"
  then have v: "v = log_first \<and> bs = [123, 48, 125] \<or> v = (log_second c) \<and> bs = [123, 49, 125]"
    using log_dumps_dict by (simp add: log_env_def)
  have "utf8_decode (bs @ [10]) = Some (map unat (bs @ [10]))" using v by (intro ascii_decode) auto
  then show "\<exists>chars. utf8_decode (bs @ [10]) = Some chars \<and> take 1 chars \<noteq> [65279] \<and>
      loads (env_codec (log_env c)) object_hook reject_constant chars = Inr v"
    using v by (auto simp: log_env_def)
qed

lemma log_array_codec_ok: "array_codec_ok (env_codec (log_env c))"
proof -
  have d: "dumps (env_codec (log_env c)) = (log_dumps c)" by (simp add: log_env_def)
  have l2: "(list_all2 (\<lambda>v b. (log_dumps c) v = Some b) vs bss) \<longleftrightarrow>
      set vs \<subseteq> {log_first_row, (log_second_row c)} \<and> bss = map row_text vs" if "list_all is_row vs" for vs bss
    using that by (induction vs arbitrary: bss) (auto simp: list_all2_Cons1 log_dumps_row)
  have scan: "\<exists>chars. utf8_decode (wrap_rows (bs @ [10])) = Some chars \<and> take 1 chars \<noteq> [0xFEFF] \<and>
      loads (env_codec (log_env c)) object_hook reject_constant chars = Inr (obj [(''rows'', JArr vs)])"
    if vs: "vs \<noteq> []" "list_all is_row vs" "(log_dumps c) (JArr vs) = Some bs" for vs bs
  proof -
    have bs: "bs = [91] @ join_bytes (map row_text vs) @ [93]" "set vs \<subseteq> {log_first_row, (log_second_row c)}"
      using vs(3) unfolding log_dumps_array[OF vs(1,2)] by (auto split: if_splits)
    have "list_all (\<lambda>b. unat b < 128) (wrap_rows (bs @ [10]))"
      using row_text_ascii[of vs] unfolding bs(1) wrap_rows_def by simp
    note u = ascii_decode[OF this]
    have "loads (env_codec (log_env c)) object_hook reject_constant (map unat (wrap_rows (bs @ [10]))) =
        Inr (obj [(''rows'', JArr vs)])"
      using log_rows_text[OF bs(2) vs(1)] unfolding bs(1) by (simp add: log_env_def wrap_rows_def)
    then show ?thesis using u by (auto simp: wrap_rows_def)
  qed
  show ?thesis unfolding array_codec_ok_def d using l2 log_dumps_array scan[unfolded d] by (auto simp: d)
qed

lemma log_entry_rows: "entry_row log_first = Inr log_first_row" "entry_row (log_second c) = Inr (log_second_row c)"
  by (simp_all add: entry_row_def ROW_FIELDS_def log_first_def log_second_def log_entry_def log_first_row_def
      log_second_row_def log_row_def)

lemma log_entry_shapes: "entry_shape log_first" "entry_shape (log_second c)"
  by (auto simp: log_first_def log_second_def log_entry_def obj_def ROW_FIELDS_def log_digest_def Digest_to_dict_def
      sample_binding_def split: if_splits)

lemma log_laws: "archive_laws (log_env c)"
proof -
  have d: "dumps (env_codec (log_env c)) = (log_dumps c)" by (simp add: log_env_def)
  have shape: "entry_shape d" if "iter_errors (log_env c) AUDIT_ENTRY d = []" for d
    using that log_entry_shapes by (auto simp: log_env_def split: if_splits)
  have short: "length rb \<le> length bs" if "entry_shape e" "(log_dumps c) e = Some bs" "entry_row e = Inr row" "(log_dumps c) row = Some rb"
    for e row bs rb
  proof -
    have "is_dict e" using that(1) by (cases e) auto
    then have "e \<in> {log_first, (log_second c)}" "length bs = 3" using that(2) by (auto simp: log_dumps_dict)
    then have "row \<in> {log_first_row, (log_second_row c)}" using that(3) log_entry_rows by auto
    then show ?thesis using \<open>length bs = 3\<close> that(4) log_dumps_row log_row_shape by (auto simp: row_text_def)
  qed
  show ?thesis unfolding archive_laws_def d
    using log_codec_ok log_array_codec_ok shape short by (auto simp: log_dumps_dict)
qed


lemma log_canonical:
  assumes "fullmatch UUID7_PATTERN c"
  shows
  "canonical_audit_entry (log_env c) log_first = Inr ([123, 48, 125, 10], \<lparr>format = AUDIT_ENTRY_DIGEST_FORMAT,
     algorithm = ''sha256'', digest_value = sha256_hex (framed AUDIT_ENTRY_DIGEST_FORMAT [123, 48, 125, 10])\<rparr>)"
  "canonical_audit_entry (log_env c) (log_second c) = Inr ([123, 49, 125, 10], \<lparr>format = AUDIT_ENTRY_DIGEST_FORMAT,
     algorithm = ''sha256'', digest_value = sha256_hex (framed AUDIT_ENTRY_DIGEST_FORMAT [123, 49, 125, 10])\<rparr>)"
proof -
  have ids: "fullmatch UUID7_PATTERN sample_tenant" "fullmatch UUID7_PATTERN sample_identity"
    unfolding sample_tenant_def sample_identity_def by code_simp+
  have v: "validated_contract (log_env c) (log_entry q p op w) (Some AUDIT_ENTRY) = Inr (AUDIT_ENTRY, raw)"
    if "iter_errors (log_env c) AUDIT_ENTRY (log_entry q p op w) = []" "fullmatch UUID7_PATTERN w"
      "canonical_json_bytes (dumps (env_codec (log_env c))) (log_entry q p op w) MAX_CANONICAL_BYTES = Inr raw" for q p op w raw
    unfolding validated_contract_iff semantic_validation_iff semantic_validator_def validate_identity_field_iff
    using that ids by (simp add: log_entry_def IDENTITY_FIELDS_def validate_audit_entry_def)
  have no: "iter_errors (log_env c) AUDIT_ENTRY log_first = []" "iter_errors (log_env c) AUDIT_ENTRY (log_second c) = []"
    by (simp_all add: log_env_def)
  have bytes: "canonical_json_bytes (dumps (env_codec (log_env c))) log_first MAX_CANONICAL_BYTES = Inr [123, 48, 125, 10]"
    "canonical_json_bytes (dumps (env_codec (log_env c))) (log_second c) MAX_CANONICAL_BYTES = Inr [123, 49, 125, 10]"
    using log_values(2)[of c] by (simp_all add: canonical_json_bytes_def log_env_def log_dumps_def MAX_CANONICAL_BYTES_def)
  have "validated_contract (log_env c) log_first (Some AUDIT_ENTRY) = Inr (AUDIT_ENTRY, [123, 48, 125, 10])"
    "validated_contract (log_env c) (log_second c) (Some AUDIT_ENTRY) = Inr (AUDIT_ENTRY, [123, 49, 125, 10])"
    using no bytes ids assms unfolding log_first_def log_second_def by (auto intro: v)
  moreover have "digest_bytes bs AUDIT_ENTRY_DIGEST_FORMAT = Inr \<lparr>format = AUDIT_ENTRY_DIGEST_FORMAT,
     algorithm = ''sha256'', digest_value = sha256_hex (framed AUDIT_ENTRY_DIGEST_FORMAT bs)\<rparr>" if "length bs = 4" for bs
    using that by (simp add: digest_bytes_iff MAX_U32_def)
  ultimately show "canonical_audit_entry (log_env c) log_first = Inr ([123, 48, 125, 10], \<lparr>format = AUDIT_ENTRY_DIGEST_FORMAT,
       algorithm = ''sha256'', digest_value = sha256_hex (framed AUDIT_ENTRY_DIGEST_FORMAT [123, 48, 125, 10])\<rparr>)"
    "canonical_audit_entry (log_env c) (log_second c) = Inr ([123, 49, 125, 10], \<lparr>format = AUDIT_ENTRY_DIGEST_FORMAT,
       algorithm = ''sha256'', digest_value = sha256_hex (framed AUDIT_ENTRY_DIGEST_FORMAT [123, 49, 125, 10])\<rparr>)"
    using log_values(3,4) by (simp_all add: canonical_audit_entry_def thenE_def refuse_if_def)
qed

lemma log_decode:
  "n \<ge> 4 \<Longrightarrow> decode_json_object (env_codec (log_env c)) [123, 48, 125, 10] n = Inr log_first"
  "n \<ge> 4 \<Longrightarrow> decode_json_object (env_codec (log_env c)) [123, 49, 125, 10] n = Inr (log_second c)"
proof -
  have "canonical_json_bytes (dumps (env_codec (log_env c))) log_first 4 = Inr [123, 48, 125, 10]"
    "canonical_json_bytes (dumps (env_codec (log_env c))) (log_second c) 4 = Inr [123, 49, 125, 10]"
    using log_values(2)[of c] by (simp_all add: canonical_json_bytes_def log_env_def log_dumps_def)
  then show "n \<ge> 4 \<Longrightarrow> decode_json_object (env_codec (log_env c)) [123, 48, 125, 10] n = Inr log_first"
    "n \<ge> 4 \<Longrightarrow> decode_json_object (env_codec (log_env c)) [123, 49, 125, 10] n = Inr (log_second c)"
    using log_values(3,4) by (auto intro: decode_canonical[OF log_codec_ok])
qed

lemma log_items:
  "getitem log_first ''sequence'' = Inr (JInt 0)" "getitem log_first ''previousEntryDigest'' = Inr JNull"
  "getitem log_first ''correlationId'' = lit sample_tenant"
  "getitem (log_second c) ''sequence'' = Inr (JInt 1)" "getitem (log_second c) ''previousEntryDigest'' = Inr log_digest"
  "getitem (log_second c) ''correlationId'' = lit c"
  by (simp_all add: log_first_def log_second_def log_entry_def)

lemma log_identity: "fullmatch UUID7_PATTERN sample_identity" "sample_identity \<noteq> sample_tenant"
  unfolding sample_tenant_def sample_identity_def by (code_simp, simp)

text \<open>The segment of both entries, the evidence it gives and the witness it is archived as.\<close>

definition log_segment :: bytes where "log_segment = [123, 48, 125, 10, 123, 49, 125, 10]"

definition log_witness :: bytes where "log_witness = [91, 91, 48, 93, 44, 91, 49, 93, 93, 10]"

lemma log_chain_add:
  assumes "fullmatch UUID7_PATTERN c" "c \<noteq> sample_tenant"
  shows
  "\<exists>c1 c2. chain_add (log_env c) empty_chain log_first = Inr ([123, 48, 125, 10], c1) \<and>
     chain_add (log_env c) c1 (log_second c) = Inr ([123, 49, 125, 10], c2) \<and> chain_count c1 = 1 \<and> chain_count c2 = 2"
proof -
  have ids: "validate_uuid7 (JStr sample_tenant) = Inr sample_tenant" "validate_uuid7 (JStr c) = Inr c"
    using assms(1) unfolding uuid7_iff sample_tenant_def by (code_simp, simp)
  show ?thesis
    by (simp add: chain_add_def log_canonical[OF assms(1)] log_items count_of_def MAX_WITNESSED_ENTRIES_def start_chain_def
        empty_chain_def thenE_def refuse_backup_def ids assms(2) log_digest_def)
qed

lemma log_inspected:
  assumes "fullmatch UUID7_PATTERN c" "c \<noteq> sample_tenant"
  shows "\<exists>ev. inspect_segment (log_env c) log_segment = Inr ev \<and> ev_witness ev = log_witness"
proof -
  obtain c1 c2 where c: "chain_add (log_env c) empty_chain log_first = Inr ([123, 48, 125, 10], c1)"
    "chain_add (log_env c) c1 (log_second c) = Inr ([123, 49, 125, 10], c2)" "chain_count c1 = 1" "chain_count c2 = 2"
    using log_chain_add[OF assms] by blast
  have rows: "dumps (env_codec (log_env c)) log_first_row = Some [91, 48, 93]"
    "dumps (env_codec (log_env c)) (log_second_row c) = Some [91, 49, 93]"
    using log_values log_row_shape log_values(1)[of c, symmetric] by (simp_all add: log_env_def log_dumps_row row_text_def)
  have bounds: "4 \<le> MAX_CANONICAL_BYTES" "10 \<le> MAX_SEGMENT_BYTES" by (simp_all add: MAX_CANONICAL_BYTES_def MAX_SEGMENT_BYTES_def)
  have "inspect_line (log_env c) (empty_chain, [91]) [123, 48, 125, 10] = Inr (c1, [91, 91, 48, 93])"
    unfolding inspect_line_iff using log_decode(1)[OF bounds(1)] c log_entry_rows rows bounds
    by (intro exI[of _ log_first] exI[of _ log_first_row] exI[of _ "[91, 48, 93]"]) simp
  moreover have "inspect_line (log_env c) (c1, [91, 91, 48, 93]) [123, 49, 125, 10] = Inr (c2, [91, 91, 48, 93, 44, 91, 49, 93])"
    unfolding inspect_line_iff using log_decode(2)[OF bounds(1)] c log_entry_rows rows bounds
    by (intro exI[of _ "(log_second c)"] exI[of _ "(log_second_row c)"] exI[of _ "[91, 49, 93]"]) simp
  ultimately have "foldE (inspect_line (log_env c)) (empty_chain, [91]) (byte_lines log_segment) = Inr (c2, [91, 91, 48, 93, 44, 91, 49, 93])"
    by (simp add: log_segment_def)
  then have "inspect_segment (log_env c) log_segment = Inr (chain_evidence c2 log_witness)"
    by (simp add: inspect_segment_def log_witness_def) (simp add: log_segment_def MAX_SEGMENT_BYTES_def)
  then show ?thesis by (auto simp: chain_evidence_def)
qed


section \<open>Properties\<close>

text \<open>C20. Archiving loses nothing: the compact witness computed from the bytes of an audit segment
  expands to exactly those bytes, and the bytes a witness expands to have that witness, the same
  first sequence, entry count, predecessor and terminal digest. (The serializer, scanner and
  schema are parameters, under the laws of \<open>archive_laws\<close>.)\<close>

theorem witness_round_trip:
  assumes "archive_laws env"
  shows "(inspect_segment env raw = Inr ev \<longrightarrow> segment_from_witness env (ev_witness ev) = Inr raw) \<and>
    (segment_from_witness env w = Inr raw \<longrightarrow> (\<exists>ev. inspect_segment env raw = Inr ev \<and> ev_witness ev = w))"
proof (intro conjI impI)
  assume "inspect_segment env raw = Inr ev"
  from expand_inspected[OF assms this] show "segment_from_witness env (ev_witness ev) = Inr raw"
    by (auto simp: segment_from_witness_def)
next
  assume "segment_from_witness env w = Inr raw"
  then obtain chain where "expand_witness env w = Inr (chain, raw)"
    by (auto simp: segment_from_witness_def bindE_Inr_iff split: prod.splits)
  from inspect_expanded[OF assms this] show "\<exists>ev. inspect_segment env raw = Inr ev \<and> ev_witness ev = w"
    by (simp add: chain_evidence_def)
qed

theorem witness_round_trip_witness:
  "segment_from_witness (log_env sample_identity) log_witness = Inr log_segment"
  using witness_round_trip[OF log_laws] log_inspected[OF log_identity] by metis

text \<open>The calls the archive makes on its proofs, and the answers with and without the cache.\<close>

datatype proof_call = Inspect bytes | Expand bytes

fun reference_answer :: "contract_env \<Rightarrow> proof_call \<Rightarrow> SegmentEvidence py + bytes py" where
  "reference_answer env (Inspect raw) = Inl (inspect_segment env raw)"
| "reference_answer env (Expand w) = Inr (segment_from_witness env w)"

fun cached_answer :: "contract_env \<Rightarrow> proof_cache \<Rightarrow> proof_call \<Rightarrow> (SegmentEvidence py + bytes py) \<times> proof_cache" where
  "cached_answer env cache (Inspect raw) =
     (let (r, cache') = inspect_segment_cached env cache raw in (Inl r, cache'))"
| "cached_answer env cache (Expand w) =
     (let (r, cache') = segment_from_witness_cached env cache w in (Inr r, cache'))"

fun run_cached :: "contract_env \<Rightarrow> proof_cache \<Rightarrow> proof_call list \<Rightarrow> (SegmentEvidence py + bytes py) list" where
  "run_cached env cache [] = []"
| "run_cached env cache (call # calls) =
     (let (answer, cache') = cached_answer env cache call in answer # run_cached env cache' calls)"

lemma cached_answer_sound:
  assumes "archive_laws env" "cache_sound env cache" "cached_answer env cache call = (answer, cache')"
  shows "answer = reference_answer env call \<and> cache_sound env cache'"
proof (cases call)
  case (Inspect raw)
  show ?thesis
  proof (cases "cached_proof cache fst raw")
    case None
    then show ?thesis using assms cache_sound_remember[OF assms(2)] unfolding Inspect
      by (auto simp: inspect_segment_cached_def split: sum.splits)
  next
    case (Some hit)
    then obtain pair cache2 where h: "cached_proof cache fst raw = Some (pair, cache2)" by (cases hit) auto
    then show ?thesis using assms(3) cache_sound_hit[OF assms(2) h] unfolding Inspect
      by (auto simp: inspect_segment_cached_def)
  qed
next
  case (Expand w)
  let ?key = "\<lambda>pair. ev_witness (snd pair)"
  show ?thesis
  proof (cases "cached_proof cache ?key w")
    case None
    show ?thesis
    proof (cases "expand_witness env w")
      case (Inl e)
      then show ?thesis using assms None unfolding Expand
        by (auto simp: segment_from_witness_cached_def segment_from_witness_def)
    next
      case (Inr r)
      then obtain chain raw where r: "expand_witness env w = Inr (chain, raw)" by (cases r) auto
      then show ?thesis using assms None cache_sound_remember[OF assms(2) inspect_expanded[OF assms(1) r]] unfolding Expand
        by (auto simp: segment_from_witness_cached_def segment_from_witness_def)
    qed
  next
    case (Some hit)
    then obtain pair cache2 where h: "cached_proof cache ?key w = Some (pair, cache2)" by (cases hit) auto
    note s = cache_sound_hit[OF assms(2) h]
    from expand_inspected[OF assms(1) s(2)] s(1) obtain chain where "expand_witness env w = Inr (chain, fst pair)" by auto
    then show ?thesis using assms(3) h s(3) unfolding Expand
      by (auto simp: segment_from_witness_cached_def segment_from_witness_def)
  qed
qed

lemma run_cached_sound:
  assumes "archive_laws env" "cache_sound env cache"
  shows "run_cached env cache calls = map (reference_answer env) calls"
  using assms(2)
proof (induction calls arbitrary: cache)
  case (Cons call calls)
  obtain answer cache' where a: "cached_answer env cache call = (answer, cache')" by fastforce
  from cached_answer_sound[OF assms(1) Cons.prems a] Cons.IH a show ?case by simp
qed simp

text \<open>C21. The cache of recent segment proofs is only an optimisation: starting empty, whatever sequence
  of inspections and expansions is asked for, every answer (errors included) is the one the
  uncached functions give, although one entry serves both directions and only two entries are
  kept.\<close>

theorem proof_cache_transparent:
  assumes "archive_laws env"
  shows "run_cached env [] calls = map (reference_answer env) calls"
  using run_cached_sound[OF assms] by (simp add: cache_sound_def)

theorem proof_cache_transparent_witness:
  "run_cached (log_env sample_identity) [] [Expand log_witness, Inspect log_segment, Expand []] =
     [Inr (segment_from_witness (log_env sample_identity) log_witness), Inl (inspect_segment (log_env sample_identity) log_segment),
      Inr (segment_from_witness (log_env sample_identity) [])]"
  using proof_cache_transparent[OF log_laws[of sample_identity], of "[Expand log_witness, Inspect log_segment, Expand []]"]
  unfolding list.map reference_answer.simps .

end
