(* ===== verification/Audit_Chain.thy ===== *)
theory Audit_Chain
  imports Audit_Witness Zip_Extraction
begin

text \<open>
  Model of \<^verbatim>\<open>static_host_agent/audit.py\<close>: the bounded, hash-chained audit log in segments, its
  validation with the projections the callers ask for, the planning of an append and the
  append itself, together with the admission of \<^verbatim>\<open>audit_archive_admission.py\<close> and the archive prefix
  of \<^verbatim>\<open>audit_archive_store.py\<close>, which is an argument. What the directory holds is the list of
  its entries; a segment that is published is the segment a later read finds.
\<close>

section \<open>Limits\<close>

definition AUDIT_MEBIBYTE :: int where "AUDIT_MEBIBYTE = 1024 * 1024"
definition INITIAL_MAXIMUM_SEGMENT_BYTES :: int where "INITIAL_MAXIMUM_SEGMENT_BYTES = 8 * AUDIT_MEBIBYTE"
definition INITIAL_MAXIMUM_ORDINARY_BYTES :: int where "INITIAL_MAXIMUM_ORDINARY_BYTES = 128 * AUDIT_MEBIBYTE"
definition INITIAL_MAXIMUM_ADMINISTRATOR_RESERVE_BYTES :: int where
  "INITIAL_MAXIMUM_ADMINISTRATOR_RESERVE_BYTES = 8 * AUDIT_MEBIBYTE"
definition BLOCK_BYTES :: int where "BLOCK_BYTES = 512"

definition TENANT_STATE_TRANSITIONS :: "string list" where
  "TENANT_STATE_TRANSITIONS = [''create'', ''deploy'', ''rollback'', ''suspend'', ''resume'', ''rename'', ''import'',
     ''archive'', ''restore'', ''delete'', ''reconcile'']"

definition DEPLOYMENT_EVIDENCE_OPERATIONS :: "string list" where
  "DEPLOYMENT_EVIDENCE_OPERATIONS = [''deploy'', ''rollback'', ''suspend'', ''resume'', ''export'', ''import'', ''archive'',
     ''restore'']"

record AuditLimits =
  maximum_segment_bytes :: int
  maximum_ordinary_bytes :: int
  maximum_administrator_reserve_bytes :: int

definition AuditLimits_post_init :: "AuditLimits \<Rightarrow> AuditLimits py" where
  "AuditLimits_post_init l =
     (if list_ex (\<lambda>v. v < 0) [maximum_segment_bytes l, maximum_ordinary_bytes l, maximum_administrator_reserve_bytes l]
      then Inl (ValueError ''audit limits must be nonnegative integers'')
      else if maximum_segment_bytes l < int MAX_CANONICAL_BYTES
      then Inl (ValueError ''audit segments must admit one maximum canonical entry'')
      else if maximum_segment_bytes l > INITIAL_MAXIMUM_SEGMENT_BYTES
           \<or> maximum_ordinary_bytes l > INITIAL_MAXIMUM_ORDINARY_BYTES
           \<or> maximum_administrator_reserve_bytes l > INITIAL_MAXIMUM_ADMINISTRATOR_RESERVE_BYTES
      then Inl (ValueError ''audit limits cannot weaken the committed M3 boundaries'')
      else Inr l)"

definition maximum_administrator_bytes :: "AuditLimits \<Rightarrow> int" where
  "maximum_administrator_bytes l = maximum_ordinary_bytes l + maximum_administrator_reserve_bytes l"

definition maximum_segments :: "AuditLimits \<Rightarrow> int" where
  "maximum_segments l = maximum_administrator_bytes l div BLOCK_BYTES"

definition DEFAULT_AUDIT_LIMITS :: AuditLimits where
  "DEFAULT_AUDIT_LIMITS = \<lparr>maximum_segment_bytes = INITIAL_MAXIMUM_SEGMENT_BYTES,
     maximum_ordinary_bytes = INITIAL_MAXIMUM_ORDINARY_BYTES,
     maximum_administrator_reserve_bytes = INITIAL_MAXIMUM_ADMINISTRATOR_RESERVE_BYTES\<rparr>"

section \<open>Segments\<close>

record ArchivedSegment =
  archived_index :: json
  archived_witness :: bytes

definition archived_descriptor :: "contract_env \<Rightarrow> ArchivedSegment \<Rightarrow> json py" where
  "archived_descriptor env s = bindE (getitem (archived_index s) ''descriptor'') (validate_rotation env)"

record ArchivePrefix =
  prefix_head :: json
  prefix_segments :: "ArchivedSegment list"
  prefix_allocated_bytes :: int
  prefix_inodes :: int
  prefix_rotation_intent :: json
  prefix_protection_status :: json

definition no_archive :: ArchivePrefix where
  "no_archive = \<lparr>prefix_head = JNull, prefix_segments = [], prefix_allocated_bytes = 0, prefix_inodes = 0,
     prefix_rotation_intent = JNull, prefix_protection_status = JNull\<rparr>"

record Segment =
  seg_number :: nat
  seg_name :: string
  seg_payload :: bytes
  seg_allocated_bytes :: int
  seg_archived :: bool

definition segment_data :: "contract_env \<Rightarrow> Segment \<Rightarrow> bytes py" where
  "segment_data env s = (if seg_archived s then segment_from_witness env (seg_payload s) else Inr (seg_payload s))"

record Segments =
  archive_prefix :: ArchivePrefix
  segment_list :: "Segment list"

text \<open>\<^verbatim>\<open>bytes.splitlines(keepends=True)\<close>: a line ends in a newline, a carriage return or both.\<close>

fun split_lines :: "bytes \<Rightarrow> bytes list" where
  "split_lines [] = []"
| "split_lines (b # bs) =
     (if b = 10 then [b] # split_lines bs
      else if b = 13
      then (case bs of
              c # cs \<Rightarrow> if c = 10 then [b, c] # split_lines cs else [b] # split_lines bs
            | [] \<Rightarrow> [[b]])
      else case split_lines bs of [] \<Rightarrow> [[b]] | l # ls \<Rightarrow> (b # l) # ls)"

section \<open>Validation of the chain\<close>

text \<open>
  What a caller asks to be projected from the chain. The two parameters of the deployment-history
  projection are always given together: the candidates here, the matches in the state.
\<close>

record chain_query =
  query_correlation :: json
  query_history_tenant :: json
  query_candidates :: "string list option"

definition no_query :: chain_query where
  "no_query = \<lparr>query_correlation = JNull, query_history_tenant = JNull, query_candidates = None\<rparr>"

record chain_state =
  cs_sequence :: int
  cs_terminal :: json
  cs_allocated :: int
  cs_previous_segment_bytes :: "int option"
  cs_matching_entry :: json
  cs_has_later :: bool
  cs_has_tenant_history :: bool
  cs_has_deployment_history :: bool
  cs_archived_correlations :: "string list"
  cs_matches :: "string list"

definition is_later_tenant_state_transition :: "json \<Rightarrow> json \<Rightarrow> bool py" where
  "is_later_tenant_state_transition matching candidate =
     andE (Inr (matching \<noteq> JNull))
     (andE (neqE (getitem candidate ''sequence'') (getitem matching ''sequence''))
     (andE (neqE (getitem matching ''tenantId'') none_lit)
     (andE (eqE (getitem candidate ''tenantId'') (getitem matching ''tenantId''))
     (andE (eqE (getitem candidate ''resultStatus'') (lit ''succeeded''))
       (bindE (getitem candidate ''operation'') (\<lambda>operation. in_strs operation TENANT_STATE_TRANSITIONS))))))"

text \<open>The document of a line and, for a line that is not archived, its canonical bytes and digest.\<close>

definition read_entry :: "contract_env \<Rightarrow> bool \<Rightarrow> bytes \<Rightarrow> (json \<times> bytes \<times> json) py" where
  "read_entry env archived line =
     (if length line > MAX_CANONICAL_BYTES then Inl (AuditError ''audit entry exceeds its canonical byte ceiling'')
      else catch_contract (AuditError ''audit segment contains an invalid entry'')
        (bindE (decode_json_object (env_codec env) line MAX_CANONICAL_BYTES) (\<lambda>d.
         if archived then Inr (d, line, JNull)
         else bindE (canonical_audit_entry env d) (\<lambda>(canonical, digest). Inr (d, canonical, Digest_to_dict digest)))))"

definition refuse_audit :: "bool py \<Rightarrow> string \<Rightarrow> unit py" where
  "refuse_audit c msg = bindE c (\<lambda>bad. if bad then Inl (AuditError msg) else Inr ())"

lemma refuse_audit_Inr [check_simps]: "refuse_audit c msg = Inr u \<longleftrightarrow> c = Inr False"
  by (cases c) (auto simp: refuse_audit_def)

definition check_link :: "bool \<Rightarrow> chain_state \<Rightarrow> json \<Rightarrow> bytes \<Rightarrow> bytes \<Rightarrow> unit py" where
  "check_link archived st d canonical line =
     (if archived then Inr ()
      else
      thenE (refuse_audit (Inr (canonical \<noteq> line)) ''audit entry is not its exact canonical representation'')
      (thenE (refuse_audit (neqE (getitem d ''sequence'') (Inr (JInt (cs_sequence st)))) ''audit entry sequence is not contiguous'')
       (refuse_audit (neqE (getitem d ''previousEntryDigest'') (Inr (cs_terminal st))) ''audit entry predecessor breaks the chain'')))"

definition note_correlation :: "json \<Rightarrow> chain_state \<Rightarrow> json \<Rightarrow> chain_state py" where
  "note_correlation head st d =
     (if head = JNull then Inr st
      else bindE (bindE (getitem d ''correlationId'') validate_uuid7) (\<lambda>correlation.
           thenE (refuse_audit (Inr (correlation \<in> set (cs_archived_correlations st)))
                    ''audit correlation appears multiple times across archived/local history'')
           (Inr (st\<lparr>cs_archived_correlations := correlation # cs_archived_correlations st\<rparr>))))"

definition match_correlation :: "json \<Rightarrow> chain_state \<Rightarrow> json \<Rightarrow> chain_state py" where
  "match_correlation correlation st d =
     bindE (andE (Inr (correlation \<noteq> JNull)) (eqE (getitem d ''correlationId'') (Inr correlation))) (\<lambda>hit.
     if \<not> hit then Inr st
     else thenE (refuse_audit (Inr (cs_matching_entry st \<noteq> JNull)) ''audit correlation appears multiple times'')
          (Inr (st\<lparr>cs_matching_entry := d\<rparr>)))"

text \<open>\<^verbatim>\<open>document["resultStatus"] == "succeeded" and (...)\<close>\<close>

definition deployment_evidence :: "json \<Rightarrow> json \<Rightarrow> json \<Rightarrow> bool py" where
  "deployment_evidence d operation evidence =
     andE (eqE (getitem d ''resultStatus'') (lit ''succeeded''))
       (anyE [in_strs operation DEPLOYMENT_EVIDENCE_OPERATIONS,
              andE (Inr (operation = JStr ''delete''))
                (andE (Inr (is_dict evidence)) (neqE (dict_get evidence ''mode'') (lit ''never-deployed'')))])"

definition project_entry :: "chain_query \<Rightarrow> chain_state \<Rightarrow> json \<Rightarrow> chain_state py" where
  "project_entry q st d =
     bindE (if cs_has_later st then Inr True else is_later_tenant_state_transition (cs_matching_entry st) d) (\<lambda>later.
     bindE (getitem d ''tenantId'') (\<lambda>tenant.
     bindE (getitem d ''operation'') (\<lambda>operation.
     bindE (dict_get d ''deletionEvidence'') (\<lambda>evidence.
     bindE (andE (Inr (tenant = query_history_tenant q))
              (andE (eqE (getitem d ''resultStatus'') (lit ''succeeded'')) (in_strs operation TENANT_STATE_TRANSITIONS))) (\<lambda>seen.
     bindE (deployment_evidence d operation evidence) (\<lambda>deployed.
     bindE (case query_candidates q of
              None \<Rightarrow> Inr []
            | Some candidates \<Rightarrow> if deployed then bindE (in_strs tenant candidates) (\<lambda>hit.
                if hit then bindE (as_str tenant) (\<lambda>t. Inr [t]) else Inr []) else Inr []) (\<lambda>new.
     Inr (st\<lparr>cs_has_later := later, cs_has_tenant_history := cs_has_tenant_history st \<or> seen,
             cs_has_deployment_history := cs_has_deployment_history st \<or> (tenant = query_history_tenant q \<and> deployed),
             cs_matches := new @ cs_matches st\<rparr>))))))))"

definition chain_line :: "contract_env \<Rightarrow> chain_query \<Rightarrow> json \<Rightarrow> bool \<Rightarrow> chain_state \<Rightarrow> bytes \<Rightarrow> chain_state py" where
  "chain_line env q head archived st line =
     bindE (read_entry env archived line) (\<lambda>(d, canonical, digest).
     thenE (check_link archived st d canonical line)
     (bindE (note_correlation head st d) (\<lambda>st1.
      bindE (match_correlation (query_correlation q) st1 d) (\<lambda>st2.
      bindE (project_entry q st2 d) (\<lambda>st3.
      Inr (st3\<lparr>cs_terminal := (if archived then cs_terminal st3 else digest), cs_sequence := cs_sequence st3 + 1\<rparr>))))))"

text \<open>The sealed descriptor that stands for the lines of a segment, if it has one.\<close>

definition sealed_descriptor :: "contract_env \<Rightarrow> ArchivePrefix \<Rightarrow> nat \<Rightarrow> json py" where
  "sealed_descriptor env archive number =
     (if number < length (prefix_segments archive) then archived_descriptor env (prefix_segments archive ! number)
      else if prefix_rotation_intent archive = JNull then Inr JNull
      else bindE (bindE (getitem (prefix_rotation_intent archive) ''descriptor'') (validate_rotation env)) (\<lambda>pending.
           bindE (getitem pending ''segmentNumber'') (\<lambda>n.
           Inr (if n = JInt (int number) then pending else JNull))))"

definition chain_segment :: "contract_env \<Rightarrow> AuditLimits \<Rightarrow> chain_query \<Rightarrow> ArchivePrefix \<Rightarrow> chain_state \<Rightarrow> Segment \<Rightarrow> chain_state py" where
  "chain_segment env limits q archive st segment =
     bindE (segment_data env segment) (\<lambda>data.
     thenE (refuse_audit (Inr (data = [] \<or> last data \<noteq> 10)) ''audit segment is not nonempty canonical JSON lines'')
     (let lines = split_lines data in
      thenE (refuse_audit (Inr (case cs_previous_segment_bytes st of
                 None \<Rightarrow> False
               | Some previous \<Rightarrow> previous + int (length (hd lines)) \<le> maximum_segment_bytes limits))
               ''audit segment rotation is not canonically packed'')
      (bindE (sealed_descriptor env archive (seg_number segment)) (\<lambda>sealed.
       thenE (refuse_audit (andE (Inr (sealed \<noteq> JNull))
                (anyE [neqE (getitem sealed ''firstSequence'') (Inr (JInt (cs_sequence st))),
                       neqE (getitem sealed ''predecessorEntryDigest'') (Inr (cs_terminal st))]))
                ''archived audit segment breaks the complete chain'')
       (bindE (foldE (chain_line env q (prefix_head archive) (sealed \<noteq> JNull))
                 (st\<lparr>cs_allocated := cs_allocated st + seg_allocated_bytes segment\<rparr>) lines) (\<lambda>st'.
        bindE (if sealed = JNull then Inr (cs_terminal st')
               else digest_of sealed ''terminalEntryDigest'' AUDIT_ENTRY_FORMAT) (\<lambda>terminal.
        Inr (st'\<lparr>cs_terminal := terminal, cs_previous_segment_bytes := Some (int (length data))\<rparr>))))))))"

definition initial_chain :: "ArchivePrefix \<Rightarrow> chain_state" where
  "initial_chain archive = \<lparr>cs_sequence = 0, cs_terminal = JNull, cs_allocated = prefix_allocated_bytes archive,
     cs_previous_segment_bytes = None, cs_matching_entry = JNull, cs_has_later = False, cs_has_tenant_history = False,
     cs_has_deployment_history = False, cs_archived_correlations = [], cs_matches = []\<rparr>"

section \<open>Scans of a validated chain\<close>

text \<open>
  A loop over every line of every segment that decodes the line and either goes on with a new
  state or returns.
\<close>

fun scan_lines :: "contract_env \<Rightarrow> ('s \<Rightarrow> json \<Rightarrow> ('s + 'r) py) \<Rightarrow> 's \<Rightarrow> bytes list \<Rightarrow> ('s + 'r) py" where
  "scan_lines env step s [] = Inr (Inl s)"
| "scan_lines env step s (line # lines) =
     bindE (decode_json_object (env_codec env) line MAX_CANONICAL_BYTES) (\<lambda>d.
     bindE (step s d) (\<lambda>r. case r of Inl s' \<Rightarrow> scan_lines env step s' lines | Inr v \<Rightarrow> Inr (Inr v)))"

fun scan_segments :: "contract_env \<Rightarrow> ('s \<Rightarrow> json \<Rightarrow> ('s + 'r) py) \<Rightarrow> 's \<Rightarrow> Segment list \<Rightarrow> ('s + 'r) py" where
  "scan_segments env step s [] = Inr (Inl s)"
| "scan_segments env step s (segment # segments) =
     bindE (segment_data env segment) (\<lambda>data.
     bindE (scan_lines env step s (split_lines data)) (\<lambda>r.
     case r of Inl s' \<Rightarrow> scan_segments env step s' segments | Inr v \<Rightarrow> Inr (Inr v)))"

definition is_state_transition :: "json \<Rightarrow> json \<Rightarrow> bool py" where
  "is_state_transition d tenant =
     andE (eqE (getitem d ''tenantId'') (Inr tenant))
     (andE (eqE (getitem d ''resultStatus'') (lit ''succeeded''))
       (bindE (getitem d ''operation'') (\<lambda>operation. in_strs operation TENANT_STATE_TRANSITIONS)))"

definition previous_tenant_state_transition :: "contract_env \<Rightarrow> Segments \<Rightarrow> json \<Rightarrow> json py" where
  "previous_tenant_state_transition env segments matching =
     (if matching = JNull then Inr JNull
      else bindE (getitem matching ''tenantId'') (\<lambda>tenant.
        if \<not> is_str tenant then Inr JNull
        else bindE (getitem matching ''sequence'') (\<lambda>matching_sequence.
          bindE (scan_segments env (\<lambda>previous d.
             bindE (eqE (getitem d ''sequence'') (Inr matching_sequence)) (\<lambda>hit.
             if hit then Inr (Inr previous)
             else bindE (is_state_transition d tenant) (\<lambda>transition.
                  Inr (Inl (if transition then d else previous))))) JNull (segment_list segments)) (\<lambda>r.
          Inr (case r of Inl previous \<Rightarrow> previous | Inr previous \<Rightarrow> previous)))))"

record chain_report =
  report_state :: AuditState
  report_entry :: json
  report_previous :: json
  report_has_later :: bool
  report_has_tenant_history :: bool
  report_has_deployment_history :: bool
  report_matches :: "string list"

definition validate_chain_records :: "contract_env \<Rightarrow> AuditLimits \<Rightarrow> chain_query \<Rightarrow> Segments \<Rightarrow> chain_report py" where
  "validate_chain_records env limits q segments =
     bindE (foldE (chain_segment env limits q (archive_prefix segments)) (initial_chain (archive_prefix segments))
              (segment_list segments)) (\<lambda>st.
     if cs_allocated st > maximum_administrator_bytes limits
     then Inl (AuditCapacityError ''audit allocation exceeds its absolute ceiling'')
     else
     bindE (previous_tenant_state_transition env segments (cs_matching_entry st)) (\<lambda>previous.
     Inr \<lparr>report_state = \<lparr>audit_entry_count = cs_sequence st, audit_segment_count = int (length (segment_list segments)),
            audit_allocated_bytes = cs_allocated st, audit_terminal_digest = cs_terminal st\<rparr>,
          report_entry = cs_matching_entry st, report_previous = previous, report_has_later = cs_has_later st,
          report_has_tenant_history = cs_has_tenant_history st,
          report_has_deployment_history = cs_has_deployment_history st, report_matches = cs_matches st\<rparr>))"

definition validate_chain :: "contract_env \<Rightarrow> AuditLimits \<Rightarrow> Segments \<Rightarrow> AuditState py" where
  "validate_chain env limits segments =
     bindE (validate_chain_records env limits no_query segments) (\<lambda>report. Inr (report_state report))"

definition tenant_audit_history :: "contract_env \<Rightarrow> AuditLimits \<Rightarrow> Segments \<Rightarrow> string \<Rightarrow> (bool \<times> bool) py" where
  "tenant_audit_history env limits segments tenant =
     bindE (validate_chain_records env limits (no_query\<lparr>query_history_tenant := JStr tenant\<rparr>) segments) (\<lambda>report.
     Inr (report_has_tenant_history report, report_has_deployment_history report))"

definition tenant_has_deployment_audit_history :: "contract_env \<Rightarrow> AuditLimits \<Rightarrow> Segments \<Rightarrow> json \<Rightarrow> bool py" where
  "tenant_has_deployment_audit_history env limits segments tenant =
     bindE (validate_uuid7 tenant) (\<lambda>canonical.
     bindE (tenant_audit_history env limits segments canonical) (\<lambda>r. Inr (snd r)))"

definition tenant_has_identity_audit_history :: "contract_env \<Rightarrow> AuditLimits \<Rightarrow> Segments \<Rightarrow> json \<Rightarrow> bool py" where
  "tenant_has_identity_audit_history env limits segments tenant =
     bindE (validate_uuid7 tenant) (\<lambda>canonical.
     bindE (tenant_audit_history env limits segments canonical) (\<lambda>r. Inr (fst r)))"

definition MAXIMUM_TENANTS :: nat where "MAXIMUM_TENANTS = 25"
definition MAXIMUM_AUTHORIZATION_RECORDS :: int where "MAXIMUM_AUTHORIZATION_RECORDS = 10000"

definition deployment_audit_history_tenant_ids ::
    "contract_env \<Rightarrow> AuditLimits \<Rightarrow> Segments \<Rightarrow> string list \<Rightarrow> string set py" where
  "deployment_audit_history_tenant_ids env limits segments tenants =
     bindE (traverseE (\<lambda>t. validate_uuid7 (JStr t)) tenants) (\<lambda>ids.
     if ids \<noteq> sort (remdups ids) then Inl (ValueError ''deployment-history tenant IDs must be sorted and unique'')
     else if length ids > MAXIMUM_TENANTS
     then Inl (ValueError ''deployment-history tenant IDs exceed the tenant boundary'')
     else bindE (validate_chain_records env limits (no_query\<lparr>query_candidates := Some ids\<rparr>) segments) (\<lambda>report.
       Inr (set (report_matches report))))"

definition tenant_has_creation_audit_history :: "contract_env \<Rightarrow> AuditLimits \<Rightarrow> Segments \<Rightarrow> json \<Rightarrow> bool py" where
  "tenant_has_creation_audit_history env limits segments tenant =
     bindE (validate_uuid7 tenant) (\<lambda>canonical.
     thenE (validate_chain env limits segments)
     (bindE (scan_segments env (\<lambda>(creations, deleted) d.
         bindE (andE (eqE (getitem d ''tenantId'') (lit canonical)) (eqE (getitem d ''resultStatus'') (lit ''succeeded''))) (\<lambda>own.
         if \<not> own then Inr (Inl (creations, deleted))
         else bindE (getitem d ''operation'') (\<lambda>operation.
           Inr (Inl (creations + (if operation = JStr ''create'' then 1 else 0), deleted \<or> operation = JStr ''delete'')))))
         (0 :: nat, False) (segment_list segments)) (\<lambda>r.
      Inr (case r of Inl (creations, deleted) \<Rightarrow> creations = 1 \<and> \<not> deleted | Inr b \<Rightarrow> b))))"

record AuditCorrelationSnapshot =
  snapshot_state :: AuditState
  snapshot_entry :: json
  snapshot_previous :: json
  snapshot_has_later :: bool

definition inspect_audit_correlation ::
    "contract_env \<Rightarrow> AuditLimits \<Rightarrow> Segments \<Rightarrow> json \<Rightarrow> AuditCorrelationSnapshot py" where
  "inspect_audit_correlation env limits segments correlation =
     bindE (validate_uuid7 correlation) (\<lambda>canonical.
     bindE (validate_chain_records env limits (no_query\<lparr>query_correlation := JStr canonical\<rparr>) segments) (\<lambda>report.
     Inr \<lparr>snapshot_state = report_state report, snapshot_entry = report_entry report,
          snapshot_previous = report_previous report, snapshot_has_later = report_has_later report\<rparr>))"

record AuditTransition =
  transition_sequence :: int
  transition_correlation_id :: string
  transition_tenant_id :: string
  transition_operation :: string
  transition_result_digest :: json

definition dispatch_transition_start :: "contract_env \<Rightarrow> Segments \<Rightarrow> json \<Rightarrow> int \<Rightarrow> int py" where
  "dispatch_transition_start env segments boundary end_sequence =
     bindE (dict_get boundary ''entryCount'') (\<lambda>count.
     bindE (dict_get boundary ''terminalDigest'') (\<lambda>digest.
     case (boundary, count) of
       (JObj m, JInt n) \<Rightarrow>
         if fmdom m \<noteq> {|''entryCount'', ''terminalDigest''|} \<or> \<not> (0 \<le> n \<and> n \<le> end_sequence)
         then Inl (AuditError ''dispatch audit boundary is outside its rejection prefix'')
         else if n = 0
         then (if digest \<noteq> JNull then Inl (AuditError ''empty dispatch audit boundary has a terminal digest'') else Inr n)
         else bindE (scan_segments env (\<lambda>(_ :: unit) d.
                bindE (eqE (getitem d ''sequence'') (Inr (JInt (n - 1)))) (\<lambda>hit.
                if \<not> hit then Inr (Inl ())
                else bindE (digest_dict (audit_entry_digest env d)) (\<lambda>x.
                  if x \<noteq> digest then Inl (AuditError ''dispatch audit boundary digest disagrees with history'')
                  else Inr (Inr n)))) () (segment_list segments)) (\<lambda>r.
              case r of Inl _ \<Rightarrow> Inl (AuditError ''dispatch audit boundary is unavailable'') | Inr k \<Rightarrow> Inr k)
     | _ \<Rightarrow> Inl (AuditError ''dispatch audit boundary is outside its rejection prefix'')))"

definition later_transition_step ::
    "int \<Rightarrow> int \<Rightarrow> bool \<Rightarrow> int \<Rightarrow> AuditTransition list \<Rightarrow> json \<Rightarrow> (AuditTransition list + AuditTransition list) py" where
  "later_transition_step start matching_sequence bounded maximum_transitions transitions d =
     bindE (getitem d ''sequence'') (\<lambda>sequence.
     bindE (getitem d ''correlationId'') (\<lambda>correlation.
     case (sequence, correlation) of
       (JInt n, JStr c) \<Rightarrow>
         if n < start then Inr (Inl transitions)
         else if bounded \<and> n \<ge> matching_sequence then Inr (Inr transitions)
         else
         bindE (getitem d ''tenantId'') (\<lambda>tenant.
         bindE (getitem d ''operation'') (\<lambda>operation.
         bindE (anyE [Inr (\<not> is_str tenant), Inr (\<not> is_str operation), neqE (getitem d ''resultStatus'') (lit ''succeeded''),
                      testE Not (in_strs operation TENANT_STATE_TRANSITIONS)]) (\<lambda>skip.
         if skip then Inr (Inl transitions)
         else if c \<in> set (map transition_correlation_id transitions)
         then Inl (AuditError ''later audit transition correlation appears multiple times'')
         else if int (length transitions) \<ge> maximum_transitions
         then Inl (AuditCapacityError ''later audit transitions exceed their result bound'')
         else
         bindE (getitem d ''resultDigest'') (\<lambda>digest.
         if \<not> is_dict digest then Inl (AuditError ''audit result digest is malformed'')
         else
         bindE (as_str tenant) (\<lambda>t.
         bindE (as_str operation) (\<lambda>o'.
         Inr (Inl (transitions @ [\<lparr>transition_sequence = n, transition_correlation_id = c, transition_tenant_id = t,
                                   transition_operation = o', transition_result_digest = digest\<rparr>]))))))))
     | _ \<Rightarrow> Inl (AuditError ''audit transition identity is malformed'')))"

definition later_audit_transitions ::
    "contract_env \<Rightarrow> Segments \<Rightarrow> json \<Rightarrow> int \<Rightarrow> json \<Rightarrow> AuditTransition list py" where
  "later_audit_transitions env segments matching maximum_transitions boundary =
     (if matching = JNull
      then (if boundary \<noteq> JNull then Inl (AuditError ''dispatch audit projection has no rejection entry'') else Inr [])
      else
      bindE (getitem matching ''sequence'') (\<lambda>sequence.
      case sequence of
        JInt n \<Rightarrow>
          bindE (if boundary = JNull then Inr (n + 1) else dispatch_transition_start env segments boundary n) (\<lambda>start.
          bindE (scan_segments env (later_transition_step start n (boundary \<noteq> JNull) maximum_transitions) []
                   (segment_list segments)) (\<lambda>r.
          Inr (case r of Inl transitions \<Rightarrow> transitions | Inr transitions \<Rightarrow> transitions)))
      | _ \<Rightarrow> Inl (AuditError ''matching audit sequence is malformed'')))"

definition inspect_later_audit_transitions ::
    "contract_env \<Rightarrow> AuditLimits \<Rightarrow> Segments \<Rightarrow> json \<Rightarrow> int \<Rightarrow> json \<Rightarrow> AuditTransition list py" where
  "inspect_later_audit_transitions env limits segments correlation maximum_transitions boundary =
     (if maximum_transitions < 0 \<or> maximum_transitions > MAXIMUM_AUTHORIZATION_RECORDS
      then Inl (ValueError ''later audit transition limit is outside the committed boundary'')
      else
      bindE (validate_uuid7 correlation) (\<lambda>canonical.
      bindE (validate_chain_records env limits (no_query\<lparr>query_correlation := JStr canonical\<rparr>) segments) (\<lambda>report.
      later_audit_transitions env segments (report_entry report) maximum_transitions boundary)))"

definition audit_prefix_terminal :: "contract_env \<Rightarrow> AuditLimits \<Rightarrow> Segments \<Rightarrow> int \<Rightarrow> json py" where
  "audit_prefix_terminal env limits segments count =
     bindE (validate_chain env limits segments) (\<lambda>state.
     if \<not> (0 \<le> count \<and> count \<le> audit_entry_count state) then Inl (AuditError ''audit prefix lies outside the verified chain'')
     else if count = 0 then Inr JNull
     else bindE (scan_segments env (\<lambda>(_ :: unit) d.
            bindE (eqE (getitem d ''sequence'') (Inr (JInt (count - 1)))) (\<lambda>hit.
            if hit then bindE (digest_dict (audit_entry_digest env d)) (\<lambda>x. Inr (Inr x)) else Inr (Inl ()))) ()
            (segment_list segments)) (\<lambda>r.
          case r of Inl _ \<Rightarrow> Inl (AuditError ''audit prefix boundary is unavailable'') | Inr x \<Rightarrow> Inr x))"

section \<open>Admission and planning of an append\<close>

text \<open>The host a directory lives on: what \<^verbatim>\<open>fstatvfs\<close> reports, its device and the wall clock.\<close>

record audit_host =
  host_statvfs :: StatVfs
  host_device :: int
  host_now :: rat

definition allocation_upper_bound :: "audit_host \<Rightarrow> int \<Rightarrow> int py" where
  "allocation_upper_bound host byte_count =
     (if byte_count < 0 then Inl (ValueError ''allocation byte count must be a nonnegative integer'')
      else
        let fs = host_statvfs host; fragment = (if f_frsize fs \<noteq> 0 then f_frsize fs else f_bsize fs) in
        if fragment \<le> 0 then Inl (RuntimeError ''state filesystem has no valid allocation fragment'')
        else Inr ((byte_count + fragment - 1) div fragment * fragment))"

definition namespace_allocation_upper_bound :: "audit_host \<Rightarrow> int \<Rightarrow> int py" where
  "namespace_allocation_upper_bound host count =
     (if count < 0 then Inl (ValueError ''namespace entry count must be a nonnegative integer'')
      else
        let fs = host_statvfs host; block = max (f_frsize fs) (f_bsize fs) in
        if block \<le> 0 then Inl (RuntimeError ''state filesystem has no valid directory block size'')
        else Inr (count * 2 * block))"

definition MAX_JOURNAL_BYTES :: int where "MAX_JOURNAL_BYTES = 2 * 1024 * 1024"
definition MAX_STATUS_BYTES :: int where "MAX_STATUS_BYTES = 16 * 1024"
definition MAX_PROTECTION_AGE_SECONDS :: rat where "MAX_PROTECTION_AGE_SECONDS = 24 * 60 * 60"
definition ROTATION_INODES :: int where "ROTATION_INODES = 7"

text \<open>\<^verbatim>\<open>datetime.timestamp()\<close> of an aware UTC time: seconds since 1970-01-01.\<close>

definition days_before_year :: "nat \<Rightarrow> int" where
  "days_before_year y = (let p = int y - 1 in p * 365 + p div 4 - p div 100 + p div 400)"

definition epoch_seconds :: "nat \<times> nat \<times> nat \<times> nat \<times> nat \<times> nat \<Rightarrow> int" where
  "epoch_seconds t =
     (case t of (y, m, d, h, mi, s) \<Rightarrow>
        (days_before_year y + int (DAYS_BEFORE_MONTH ! m) + (if m > 2 \<and> is_leap y then 1 else 0) + int d - 719163) * 86400
        + int h * 3600 + int mi * 60 + int s)"

definition require_ordinary_protection :: "contract_env \<Rightarrow> audit_host \<Rightarrow> ArchivePrefix \<Rightarrow> unit py" where
  "require_ordinary_protection env host prefix =
     (if prefix_head prefix = JNull then Inr ()
      else
      let status = prefix_protection_status prefix; head = prefix_head prefix;
          stale = AuditProtectionError ''ordinary audit work requires protection for the current index head'' in
      bindE (anyE
        [Inr (status = JNull), neqE (getitem status ''category'') (lit ''verified''),
         neqE (getitem status ''lineageId'') (getitem head ''lineageId''),
         neqE (getitem status ''repositoryBinding'') (getitem head ''repositoryBinding''),
         neqE (getitem status ''headDigest'')
           (bindE (canonical_json_bytes (dumps (env_codec env)) head MAX_CANONICAL_BYTES) (framed_digest HEAD_FORMAT))]) (\<lambda>bad.
      if bad then Inl stale
      else
      bindE (bindE (getitem status ''verifiedAt'') archive_timestamp) (\<lambda>verified_at.
      case strptime verified_at of
        None \<Rightarrow> Inl (ValueError ''time data does not match format'')
      | Some t \<Rightarrow>
          let age = host_now host - of_int (epoch_seconds t) in
          if \<not> (0 \<le> age \<and> age \<le> MAX_PROTECTION_AGE_SECONDS)
          then Inl (AuditProtectionError ''ordinary audit work requires a fresh protected snapshot proof'')
          else Inr ())))"

definition rotation_reservation :: "audit_host \<Rightarrow> CapacityReservation py" where
  "rotation_reservation host =
     bindE (traverseE (allocation_upper_bound host)
       [int MAX_SEGMENT_BYTES, int MAX_INDEX_BYTES, MAX_JOURNAL_BYTES, MAX_JOURNAL_BYTES, MAX_JOURNAL_BYTES,
        int MAX_DESCRIPTOR_BYTES, MAX_STATUS_BYTES]) (\<lambda>sizes.
     bindE (namespace_allocation_upper_bound host ROTATION_INODES) (\<lambda>names.
     Inr \<lparr>reserved_bytes = sum_list sizes + names, reserved_inodes = ROTATION_INODES\<rparr>))"

definition admit_archive_append :: "contract_env \<Rightarrow> audit_host \<Rightarrow> ArchivePrefix \<Rightarrow> int \<Rightarrow> int \<Rightarrow> int py" where
  "admit_archive_append env host prefix append_allocation entries_now =
     (if prefix_head prefix = JNull then Inr 0
      else
      thenE (require_ordinary_protection env host prefix)
      (bindE (rotation_reservation host) (\<lambda>reservation.
       bindE (anyE
         [Inr (prefix_allocated_bytes prefix + reserved_bytes reservation > MAX_ARCHIVE_METADATA_BYTES),
          Inr (prefix_inodes prefix + reserved_inodes reservation > MAX_ARCHIVE_METADATA_INODES),
          eqE (getitem (prefix_head prefix) ''indexCount'') (Inr (JInt MAX_ARCHIVED_SEGMENTS)),
          Inr (entries_now \<ge> MAX_WITNESSED_ENTRIES)]) (\<lambda>full.
       if full then Inl (AuditArchiveCapacityError ''ordinary work cannot reserve bounded audit archive metadata'')
       else
       case bindE (measure_filesystem_capacity_descriptor (host_statvfs host) True (host_device host)) (\<lambda>fs.
              admit_release_capacity \<lparr>usage_allocations = []\<rparr>
                \<lparr>reserved_bytes = reserved_bytes reservation + append_allocation,
                 reserved_inodes = reserved_inodes reservation + 1\<rparr> fs DEFAULT_HOST_CAPACITY_LIMITS) of
         Inl (CapacityValueError msg) \<Rightarrow> Inl (ValueError msg)
       | Inl _ \<Rightarrow> Inl (AuditArchiveCapacityError ''ordinary audit work cannot preserve filesystem free floors'')
       | Inr _ \<Rightarrow> Inr (reserved_bytes reservation)))))"

definition admit_capacity :: "AuditLimits \<Rightarrow> int \<Rightarrow> bool \<Rightarrow> unit py" where
  "admit_capacity limits projected administrator =
     (if projected > (if administrator then maximum_administrator_bytes limits else maximum_ordinary_bytes limits)
      then Inl (AuditCapacityError ''audit append would consume protected capacity'')
      else Inr ())"

definition audit_segment_name :: "nat \<Rightarrow> string" where
  "audit_segment_name number = ''segment-'' @ padded 20 number @ ''.jsonl''"

record AuditAppendPlan =
  append_state :: AuditState
  append_target_name :: string
  append_payload :: bytes
  append_replace :: bool

definition canonical_candidate :: "contract_env \<Rightarrow> json \<Rightarrow> (json \<times> bytes) py" where
  "canonical_candidate env d =
     (if \<not> is_dict d then Inl TypeError
      else
      thenE (validate_contract env d (Some AUDIT_ENTRY))
      (bindE (canonical_json_bytes (dumps (env_codec env)) d MAX_CANONICAL_BYTES) (\<lambda>canonical. Inr (d, canonical))))"

text \<open>The errors of the archive admission, as the planner reports them.\<close>

definition catch_admission :: "'a py \<Rightarrow> 'a py" where
  "catch_admission m =
     (case m of
        Inl (AuditArchiveCapacityError msg) \<Rightarrow> Inl (AuditCapacityError msg)
      | Inl (AuditProtectionError msg) \<Rightarrow> Inl (AuditError msg)
      | _ \<Rightarrow> m)"

definition plan_target :: "contract_env \<Rightarrow> AuditLimits \<Rightarrow> Segments \<Rightarrow> bytes \<Rightarrow> (string \<times> bytes \<times> bool) py" where
  "plan_target env limits segments canonical =
     (let segs = segment_list segments;
          fresh = (if int (length segs) \<ge> maximum_segments limits
                   then Inl (AuditCapacityError ''audit segment count is exhausted'')
                   else Inr (audit_segment_name (length segs), canonical, False)) in
      if segs = [] then fresh
      else bindE (segment_data env (last segs)) (\<lambda>data.
        if int (length data) + int (length canonical) \<le> maximum_segment_bytes limits
        then Inr (seg_name (last segs), data @ canonical, True)
        else fresh))"

definition plan_audit_append ::
    "contract_env \<Rightarrow> audit_host \<Rightarrow> AuditLimits \<Rightarrow> bool \<Rightarrow> Segments \<Rightarrow> json \<Rightarrow> bytes \<Rightarrow> AuditAppendPlan py" where
  "plan_audit_append env host limits administrator segments candidate canonical =
     bindE (validate_chain env limits segments) (\<lambda>state.
     thenE (refuse_audit (neqE (getitem candidate ''sequence'') (Inr (JInt (audit_entry_count state))))
              ''audit sequence does not extend the verified chain'')
     (thenE (refuse_audit (neqE (getitem candidate ''previousEntryDigest'') (Inr (audit_terminal_digest state)))
              ''audit predecessor does not match the verified chain'')
     (bindE (plan_target env limits segments canonical) (\<lambda>(name, payload, replaces).
      bindE (allocation_upper_bound host (int (length payload))) (\<lambda>allocation.
      bindE (namespace_allocation_upper_bound host 1) (\<lambda>names.
      let projected = audit_allocated_bytes state + allocation + names in
      bindE (if administrator then Inr 0
             else catch_admission (admit_archive_append env host (archive_prefix segments)
                    (projected - audit_allocated_bytes state) (audit_entry_count state))) (\<lambda>extra.
      thenE (admit_capacity limits (projected + extra) administrator)
      (Inr \<lparr>append_state = state, append_target_name = name, append_payload = payload, append_replace = replaces\<rparr>))))))))"

definition admit_audit_append ::
    "contract_env \<Rightarrow> audit_host \<Rightarrow> AuditLimits \<Rightarrow> bool \<Rightarrow> Segments \<Rightarrow> json \<Rightarrow> AuditState py" where
  "admit_audit_append env host limits administrator segments d =
     bindE (canonical_candidate env d) (\<lambda>(candidate, canonical).
     bindE (plan_audit_append env host limits administrator segments candidate canonical) (\<lambda>plan.
     Inr (append_state plan)))"

section \<open>The append\<close>

text \<open>
  The segments found after the planned file was replaced or created, where the file system
  allocated the given number of bytes for it.
\<close>

definition published_segments :: "Segments \<Rightarrow> AuditAppendPlan \<Rightarrow> int \<Rightarrow> Segments" where
  "published_segments segments plan allocated =
     (let segs = segment_list segments;
          written = \<lparr>seg_number = (if append_replace plan then seg_number (last segs) else length segs),
                     seg_name = append_target_name plan, seg_payload = append_payload plan,
                     seg_allocated_bytes = allocated, seg_archived = False\<rparr> in
      segments\<lparr>segment_list := (if append_replace plan then butlast segs else segs) @ [written]\<rparr>)"

record AuditAppend =
  appended_entry_digest :: json
  appended_state :: AuditState

text \<open>The result of an append, with the segments it leaves: an error after the write leaves them too.\<close>

definition append_audit ::
    "contract_env \<Rightarrow> audit_host \<Rightarrow> AuditLimits \<Rightarrow> bool \<Rightarrow> int \<Rightarrow> Segments \<Rightarrow> json \<Rightarrow> AuditAppend py \<times> Segments" where
  "append_audit env host limits administrator allocated segments d =
     (case bindE (canonical_candidate env d) (\<lambda>(candidate, canonical).
             plan_audit_append env host limits administrator segments candidate canonical) of
        Inl e \<Rightarrow> (Inl e, segments)
      | Inr plan \<Rightarrow>
          let resulting = published_segments segments plan allocated in
          (bindE (validate_chain env limits resulting) (\<lambda>state.
           thenE (admit_capacity limits (audit_allocated_bytes state) administrator)
           (bindE (digest_dict (audit_entry_digest env d)) (\<lambda>digest.
            if audit_terminal_digest state \<noteq> digest
            then Inl (AuditError ''audit append did not produce the expected terminal digest'')
            else Inr \<lparr>appended_entry_digest = digest, appended_state = state\<rparr>))), resulting))"

section \<open>Reading the segments of a directory\<close>

text \<open>
  What the operating system reports while the audit directory is read: the names found at the
  first and at the last scan, the metadata of the directory before, between and after, the metadata
  of a file before and after its content is read, and the content. Abandoned temporary files have
  been removed, or are named when the directory is only read.
\<close>

record audit_listing =
  listed_archive :: "ArchivePrefix py"
  listed_temporaries :: "string list"
  first_names :: "string list"
  final_names :: "string list"
  directory_before :: "stat_result py"
  directory_between :: "stat_result py"
  directory_after :: "stat_result py"
  stat_before :: "string \<Rightarrow> stat_result py"
  stat_after :: "string \<Rightarrow> stat_result py"
  file_content :: "string \<Rightarrow> bytes py"

definition segment_names :: "string list \<Rightarrow> string list \<Rightarrow> int \<Rightarrow> string list py" where
  "segment_names found temporaries maximum =
     (let names = filter (\<lambda>name. name \<notin> set (''archive'' # temporaries)) found in
      if int (length names) > maximum then Inl (AuditCapacityError ''audit directory exceeds its segment ceiling'')
      else Inr (sort names))"

text \<open>\<^verbatim>\<open>segment-([0-9]{20})\.jsonl\<close>\<close>

definition segment_number :: "string \<Rightarrow> nat option" where
  "segment_number name =
     (if length name = 34 \<and> take 8 name = ''segment-'' \<and> list_all is_digit (take 20 (drop 8 name)) \<and> drop 28 name = ''.jsonl''
      then Some (dec_nat (take 20 (drop 8 name))) else None)"

definition validate_segment_metadata :: "stat_result \<Rightarrow> int \<Rightarrow> nat \<Rightarrow> int \<Rightarrow> unit py" where
  "validate_segment_metadata metadata expected_owner expected_mode maximum_bytes =
     (if S_IFMT (st_mode metadata) \<noteq> S_IFREG \<or> st_uid metadata \<noteq> expected_owner \<or> S_IMODE (st_mode metadata) \<noteq> expected_mode
         \<or> st_nlink metadata \<noteq> 1 \<or> st_size metadata > maximum_bytes \<or> st_blocks metadata \<le> 0
      then Inl (AuditError ''audit segment has an unsafe inode shape'')
      else Inr ())"

record inventory_state =
  inv_segments :: "Segment list"
  inv_logical :: int
  inv_allocated :: int
  inv_previous :: "nat option"

definition inventory_step ::
    "contract_env \<Rightarrow> AuditLimits \<Rightarrow> int \<Rightarrow> nat \<Rightarrow> audit_listing \<Rightarrow> ArchivePrefix \<Rightarrow> inventory_state \<Rightarrow> string \<Rightarrow> inventory_state py" where
  "inventory_step env limits expected_owner expected_mode listing archive st name =
     (case segment_number name of
        None \<Rightarrow> Inl (AuditError ''audit segment names are not one contiguous sequence'')
      | Some number \<Rightarrow>
     thenE (refuse_audit (Inr (number > length (inv_segments st) \<or>
               (case inv_previous st of None \<Rightarrow> False | Some previous \<Rightarrow> number \<noteq> previous + 1)))
              ''audit local suffix has a gap or an unindexed predecessor'')
     (bindE (stat_before listing name) (\<lambda>metadata.
      thenE (validate_segment_metadata metadata expected_owner expected_mode (maximum_segment_bytes limits))
      (let logical = inv_logical st + st_size metadata; allocated = inv_allocated st + st_blocks metadata * BLOCK_BYTES in
       if max logical allocated > maximum_administrator_bytes limits
       then Inl (AuditCapacityError ''audit inventory exceeds its absolute byte ceiling'')
       else
       bindE (file_content listing name) (\<lambda>data.
       bindE (stat_after listing name) (\<lambda>current.
       thenE (refuse_audit (Inr (metadata_generation metadata \<noteq> metadata_generation current))
                ''audit segment changed while it was read'')
       (let segment = \<lparr>seg_number = number, seg_name = name, seg_payload = data,
                       seg_allocated_bytes = st_blocks metadata * BLOCK_BYTES, seg_archived = False\<rparr> in
        if number < length (prefix_segments archive)
        then bindE (segment_data env (inv_segments st ! number)) (\<lambda>archived_data.
             if data \<noteq> archived_data then Inl (AuditError ''audit local overlap disagrees with its archived segment'')
             else Inr \<lparr>inv_segments = (inv_segments st)[number := segment], inv_logical = logical,
                       inv_allocated = allocated, inv_previous = Some number\<rparr>)
        else Inr \<lparr>inv_segments = inv_segments st @ [segment], inv_logical = logical,
                  inv_allocated = allocated, inv_previous = Some number\<rparr>)))))))"

definition require_pending_local_segment :: "contract_env \<Rightarrow> Segments \<Rightarrow> unit py" where
  "require_pending_local_segment env segments =
     (let archive = archive_prefix segments; intent = prefix_rotation_intent archive; segs = segment_list segments in
      if intent = JNull then Inr ()
      else
      bindE (bindE (getitem intent ''descriptor'') (validate_rotation env)) (\<lambda>descriptor.
      bindE (getitem descriptor ''segmentNumber'') (\<lambda>v.
      case v of
        JInt n \<Rightarrow>
          if nat n < length (prefix_segments archive) then Inr ()
          else if nat n + 1 \<ge> length segs \<or> seg_archived (segs ! nat n)
          then Inl (AuditError ''pending audit rotation lacks its closed local segment and successor'')
          else (case bindE (segment_data env (segs ! nat n)) (verify_segment env descriptor) of
                  Inl (BackupIdentityError msg) \<Rightarrow> Inl (AuditError ''pending audit rotation disagrees with its local authority'')
                | Inl e \<Rightarrow> Inl e
                | Inr _ \<Rightarrow> Inr ())
      | _ \<Rightarrow> Inl (RuntimeError ''AssertionError''))))"

definition archived_segment :: "nat \<times> ArchivedSegment \<Rightarrow> Segment" where
  "archived_segment p = (case p of (number, archived) \<Rightarrow>
     \<lparr>seg_number = number, seg_name = audit_segment_name number, seg_payload = archived_witness archived,
      seg_allocated_bytes = 0, seg_archived = True\<rparr>)"

definition catch_prefix :: "'a py \<Rightarrow> 'a py" where
  "catch_prefix m =
     (case m of
        Inl (BackupIdentityError msg) \<Rightarrow> Inl (AuditError ''audit archive prefix is invalid or incomplete'')
      | Inl FileNotFoundError \<Rightarrow> Inl (AuditError ''audit archive prefix is invalid or incomplete'')
      | _ \<Rightarrow> m)"

definition read_segments :: "contract_env \<Rightarrow> AuditLimits \<Rightarrow> int \<Rightarrow> nat \<Rightarrow> audit_listing \<Rightarrow> Segments py" where
  "read_segments env limits expected_owner expected_mode listing =
     bindE (catch_prefix (listed_archive listing)) (\<lambda>archive.
     bindE (directory_before listing) (\<lambda>before.
     bindE (segment_names (first_names listing) (listed_temporaries listing) (maximum_segments limits)) (\<lambda>names.
     bindE (directory_between listing) (\<lambda>between.
     thenE (refuse_audit (Inr (metadata_generation before \<noteq> metadata_generation between))
              ''audit directory changed while it was inventoried'')
     (let prefix = map archived_segment (enumerate 0 (prefix_segments archive)) in
      bindE (foldE (inventory_step env limits expected_owner expected_mode listing archive)
               \<lparr>inv_segments = prefix, inv_logical = prefix_allocated_bytes archive,
                inv_allocated = prefix_allocated_bytes archive, inv_previous = None\<rparr> names) (\<lambda>st.
      thenE (refuse_audit (Inr (prefix_segments archive \<noteq> [] \<and> length (inv_segments st) = length (prefix_segments archive)))
               ''audit archive prefix lacks its unarchived current tail'')
      (let segments = \<lparr>archive_prefix = archive, segment_list = inv_segments st\<rparr> in
       thenE (require_pending_local_segment env segments)
       (bindE (segment_names (final_names listing) (listed_temporaries listing) (maximum_segments limits)) (\<lambda>last_names.
        bindE (directory_after listing) (\<lambda>after.
        thenE (refuse_audit (Inr (last_names \<noteq> names \<or> metadata_generation between \<noteq> metadata_generation after))
                 ''audit directory changed while its segments were read'')
        (Inr segments)))))))))))"

definition inspect_audit :: "contract_env \<Rightarrow> AuditLimits \<Rightarrow> int \<Rightarrow> nat \<Rightarrow> audit_listing \<Rightarrow> AuditState py" where
  "inspect_audit env limits expected_owner expected_mode listing =
     bindE (read_segments env limits expected_owner expected_mode listing) (validate_chain env limits)"

end
