(* ===== verification/Audit_Log.thy ===== *)
theory Audit_Log
  imports Audit_Chain
begin

text \<open>
  The audit log of \<^verbatim>\<open>static_host_agent/audit.py\<close> as a chain: what validation establishes about the
  lines of every segment, that an admitted append extends the chain by exactly the new entry,
  and that no earlier line can be changed without changing the terminal digest.
\<close>

section \<open>Lines\<close>

lemma concat_split_lines: "concat (split_lines bs) = bs"
proof (induction bs rule: split_lines.induct)
  case (2 b bs)
  consider "b = 10" | "b = 13" "bs = []" | c cs where "b = 13" "bs = c # cs" | "b \<noteq> 10" "b \<noteq> 13" by (cases bs) auto
  then show ?case
  proof cases
    case 1
    then show ?thesis using 2(1) by simp
  next
    case (3 c cs)
    then show ?thesis using 2(2,3) by (cases "c = 10") auto
  next
    case 4
    then show ?thesis using 2(4) by (cases "split_lines bs") auto
  qed simp
qed simp

lemma split_lines_append: "split_lines (xs @ 10 # ys) = split_lines (xs @ [10]) @ split_lines ys"
proof (induction xs rule: split_lines.induct)
  case (2 b bs)
  show ?case
  proof (cases "b = 13")
    case True
    then show ?thesis using 2 by (cases bs) auto
  next
    case False
    have ne: "split_lines (bs @ [10]) \<noteq> []"
      by (metis Nil_is_append_conv concat.simps(1) concat_split_lines not_Cons_self2)
    show ?thesis
    proof (cases "b = 10")
      case True
      then show ?thesis using 2(1) by simp
    next
      case nl: False
      then have "split_lines (bs @ 10 # ys) = split_lines (bs @ [10]) @ split_lines ys" using 2 False by blast
      then show ?thesis using False nl ne by (cases "split_lines (bs @ [10])") auto
    qed
  qed
qed simp

lemma split_lines_one: "10 \<notin> set bs \<Longrightarrow> 13 \<notin> set bs \<Longrightarrow> split_lines (bs @ [10]) = [bs @ [10]]"
  by (induction bs) auto

lemma split_lines_Nil_iff [simp]: "split_lines bs = [] \<longleftrightarrow> bs = []"
  by (metis concat.simps(1) concat_split_lines split_lines.simps(1))

lemma split_lines_extend:
  assumes "data \<noteq> []" "last data = 10"
  shows "split_lines (data @ rest) = split_lines data @ split_lines rest"
proof -
  obtain xs where "data = xs @ [10]" using assms by (metis append_butlast_last_id)
  then show ?thesis using split_lines_append[of xs rest] by simp
qed

section \<open>One entry\<close>

definition entry_line :: "contract_env \<Rightarrow> json \<Rightarrow> bytes \<Rightarrow> json \<Rightarrow> bool" where
  "entry_line env d line digest \<longleftrightarrow>
     (\<exists>dg. canonical_audit_entry env d = Inr (line, dg) \<and> digest = Digest_to_dict dg)"

lemma entry_line_facts:
  assumes "archive_laws env" "entry_line env d line digest"
  shows "decode_json_object (env_codec env) line MAX_CANONICAL_BYTES = Inr d" "split_lines line = [line]"
    "length line \<le> MAX_CANONICAL_BYTES" "line \<noteq> []" "last line = 10" "entry_shape d"
    "digest_dict (audit_entry_digest env d) = Inr digest"
proof -
  obtain dg where dg: "canonical_audit_entry env d = Inr (line, dg)" "digest = Digest_to_dict dg"
    using assms(2) by (auto simp: entry_line_def)
  note c = canonical_audit_entryD[OF dg(1)]
  obtain bs where bs: "dumps (env_codec env) d = Some bs" "line = bs @ [10]" using c(5) by blast
  have "is_dict d \<longrightarrow> dumps (env_codec env) d = Some bs \<longrightarrow> 10 \<notin> set bs \<and> 13 \<notin> set bs"
    using assms(1) by (simp add: archive_laws_def)
  then have "10 \<notin> set bs" "13 \<notin> set bs" using c(1) bs(1) by auto
  then show "split_lines line = [line]" unfolding bs(2) by (rule split_lines_one)
  show "decode_json_object (env_codec env) line MAX_CANONICAL_BYTES = Inr d"
    using assms(1) by (intro decode_canonical[OF _ c(1) c(7) c(6)]) (simp add: archive_laws_def)
  show "length line \<le> MAX_CANONICAL_BYTES" "line \<noteq> []" "last line = 10" using c(6) bs(2) by simp_all
  show "entry_shape d" using assms(1) c(4) by (simp add: archive_laws_def)
  show "digest_dict (audit_entry_digest env d) = Inr digest"
    using dg by (simp add: audit_entry_digest_def digest_dict_def)
qed

text \<open>What the projections of a caller leave alone.\<close>

lemma note_correlation_frame:
  assumes "note_correlation head st d = Inr st'"
  shows "cs_sequence st' = cs_sequence st \<and> cs_terminal st' = cs_terminal st \<and> cs_allocated st' = cs_allocated st \<and>
    cs_previous_segment_bytes st' = cs_previous_segment_bytes st \<and> cs_matching_entry st' = cs_matching_entry st"
  using assms by (auto simp: note_correlation_def bindE_Inr_iff thenE_Inr split: if_splits)

lemma match_correlation_frame:
  assumes "match_correlation k st d = Inr st'"
  shows "cs_sequence st' = cs_sequence st \<and> cs_terminal st' = cs_terminal st \<and> cs_allocated st' = cs_allocated st \<and>
    cs_previous_segment_bytes st' = cs_previous_segment_bytes st \<and>
    cs_archived_correlations st' = cs_archived_correlations st \<and> (k = JNull \<longrightarrow> st' = st)"
  using assms by (auto simp: match_correlation_def bindE_Inr_iff thenE_Inr andE_def split: if_splits)

lemma project_entry_frame:
  assumes "project_entry q st d = Inr st'"
  shows "cs_sequence st' = cs_sequence st \<and> cs_terminal st' = cs_terminal st \<and> cs_allocated st' = cs_allocated st \<and>
    cs_previous_segment_bytes st' = cs_previous_segment_bytes st \<and>
    cs_archived_correlations st' = cs_archived_correlations st \<and> cs_matching_entry st' = cs_matching_entry st"
  using assms unfolding project_entry_def bindE_Inr_iff by (elim exE conjE) (simp only: sum.inject, drule sym, simp)

lemmas projection_frames = note_correlation_frame match_correlation_frame project_entry_frame

lemma chain_line_unsealed:
  assumes "chain_line env q head False st line = Inr st'"
  shows "\<exists>d digest. entry_line env d line digest \<and> decode_json_object (env_codec env) line MAX_CANONICAL_BYTES = Inr d \<and>
    getitem d ''sequence'' = Inr (JInt (cs_sequence st)) \<and> getitem d ''previousEntryDigest'' = Inr (cs_terminal st) \<and>
    cs_sequence st' = cs_sequence st + 1 \<and> cs_terminal st' = digest \<and> cs_allocated st' = cs_allocated st \<and>
    cs_previous_segment_bytes st' = cs_previous_segment_bytes st"
proof -
  obtain d canonical digest st1 st2 st3 where
    r: "read_entry env False line = Inr (d, canonical, digest)" and l: "check_link False st d canonical line = Inr ()"
    and s: "note_correlation head st d = Inr st1" "match_correlation (query_correlation q) st1 d = Inr st2"
      "project_entry q st2 d = Inr st3" "st' = st3\<lparr>cs_terminal := digest, cs_sequence := cs_sequence st3 + 1\<rparr>"
    using assms unfolding chain_line_def by (auto simp: bindE_Inr_iff thenE_Inr)
  have c: "decode_json_object (env_codec env) line MAX_CANONICAL_BYTES = Inr d" "entry_line env d canonical digest"
    using r unfolding read_entry_def entry_line_def by (auto simp: bindE_Inr_iff catch_contract_Inr split: if_splits)
  have "canonical = line" "getitem d ''sequence'' = Inr (JInt (cs_sequence st))"
    "getitem d ''previousEntryDigest'' = Inr (cs_terminal st)"
    using l by (auto simp: check_link_def thenE_Inr refuse_audit_Inr neqE_False)
  then show ?thesis using c s(4) projection_frames(1)[OF s(1)] projection_frames(2)[OF s(2)] projection_frames(3)[OF s(3)]
    by (intro exI[of _ d] exI[of _ digest]) simp
qed


section \<open>The chain as a relation\<close>

text \<open>
  \<open>linked env lines n t\<close>: the lines are canonical entries with sequences \<open>0 \<dots> n - 1\<close>, each naming the
  digest of the one before, and \<open>t\<close> is the digest of the last.
\<close>

inductive linked :: "contract_env \<Rightarrow> bytes list \<Rightarrow> int \<Rightarrow> json \<Rightarrow> bool" for env where
  empty: "linked env [] 0 JNull"
| entry: "linked env lines n t \<Longrightarrow> entry_line env d line digest \<Longrightarrow>
    decode_json_object (env_codec env) line MAX_CANONICAL_BYTES = Inr d \<Longrightarrow>
    getitem d ''sequence'' = Inr (JInt n) \<Longrightarrow> getitem d ''previousEntryDigest'' = Inr t \<Longrightarrow>
    linked env (lines @ [line]) (n + 1) digest"

inductive_cases linked_NilE: "linked env [] n t"
inductive_cases linked_snocE: "linked env (lines @ [line]) n t"

lemma linked_length: "linked env lines n t \<Longrightarrow> n = int (length lines)"
  by (induction rule: linked.induct) auto

text \<open>Two different entry lines, one of each log, whose framed texts have the same SHA-256.\<close>

definition colliding :: "bytes list \<Rightarrow> bytes list \<Rightarrow> bool" where
  "colliding xs ys \<longleftrightarrow> (\<exists>x \<in> set xs. \<exists>y \<in> set ys. x \<noteq> y \<and>
     Sha256.sha256 (framed AUDIT_ENTRY_DIGEST_FORMAT x) = Sha256.sha256 (framed AUDIT_ENTRY_DIGEST_FORMAT y))"

lemma entry_line_inject:
  assumes "entry_line env d line digest" "entry_line env d' line' digest"
  shows "Sha256.sha256 (framed AUDIT_ENTRY_DIGEST_FORMAT line) = Sha256.sha256 (framed AUDIT_ENTRY_DIGEST_FORMAT line')"
proof -
  obtain dg dg' where dg: "canonical_audit_entry env d = Inr (line, dg)" "canonical_audit_entry env d' = Inr (line', dg')"
    "Digest_to_dict dg = Digest_to_dict dg'" using assms by (auto simp: entry_line_def)
  then have "dg = dg'" by (simp add: Digest_to_dict_inject)
  then have "digest_bytes line AUDIT_ENTRY_DIGEST_FORMAT = Inr dg" "digest_bytes line' AUDIT_ENTRY_DIGEST_FORMAT = Inr dg"
    using dg(1,2) by (auto simp: canonical_audit_entry_def bindE_Inr_iff thenE_Inr split: prod.splits)
  then show ?thesis by (auto simp: digest_bytes_iff sha256_hex_def dest: hex_of_bytes_inj)
qed

lemma linked_determined:
  assumes "linked env lines n t" "linked env lines' n t"
  shows "lines = lines' \<or> colliding lines lines'"
  using assms
proof (induction lines arbitrary: lines' n t rule: rev_induct)
  case Nil
  then show ?case by (metis length_0_conv linked_length of_nat_0 of_nat_eq_0_iff)
next
  case (snoc line lines)
  from snoc.prems have "length lines' = Suc (length lines)" by (metis length_append_singleton linked_length of_nat_eq_iff)
  then obtain ls l where l: "lines' = ls @ [l]" by (metis length_0_conv nat.distinct(1) rev_exhaust)
  from snoc.prems(1) obtain m u d where 1: "linked env lines m u" "n = m + 1" "entry_line env d line t"
    "decode_json_object (env_codec env) line MAX_CANONICAL_BYTES = Inr d" "getitem d ''previousEntryDigest'' = Inr u"
    by (rule linked_snocE) auto
  from snoc.prems(2)[unfolded l] obtain m' u' d' where 2: "linked env ls m' u'" "n = m' + 1" "entry_line env d' l t"
    "decode_json_object (env_codec env) l MAX_CANONICAL_BYTES = Inr d'" "getitem d' ''previousEntryDigest'' = Inr u'"
    by (rule linked_snocE) auto
  consider "line = l" | "line \<noteq> l" by blast
  then show ?case
  proof cases
    case 1
    then have "d = d'" using \<open>decode_json_object (env_codec env) line _ = Inr d\<close> 2(4) by simp
    then have "u = u'" "m = m'" using \<open>getitem d ''previousEntryDigest'' = Inr u\<close> 2(2,5) \<open>n = m + 1\<close> by simp_all
    then show ?thesis using snoc.IH[of m u ls] \<open>linked env lines m u\<close> 2(1) 1 l by (auto simp: colliding_def)
  qed (use entry_line_inject[OF 1(3) 2(3)] l in \<open>auto simp: colliding_def\<close>)
qed

text \<open>A fold over the lines of unsealed segments extends the relation.\<close>

lemma fold_lines_linked:
  assumes "foldE (chain_line env q head False) st lines = Inr st'" "linked env before (cs_sequence st) (cs_terminal st)"
  shows "linked env (before @ lines) (cs_sequence st') (cs_terminal st') \<and> cs_allocated st' = cs_allocated st \<and>
    cs_previous_segment_bytes st' = cs_previous_segment_bytes st"
  using assms
proof (induction lines arbitrary: st before)
  case (Cons line lines)
  obtain st1 where s: "chain_line env q head False st line = Inr st1" "foldE (chain_line env q head False) st1 lines = Inr st'"
    using Cons.prems(1) by (auto simp: bindE_Inr_iff)
  obtain d digest where d: "entry_line env d line digest" "decode_json_object (env_codec env) line MAX_CANONICAL_BYTES = Inr d"
    "getitem d ''sequence'' = Inr (JInt (cs_sequence st))" "getitem d ''previousEntryDigest'' = Inr (cs_terminal st)"
    "cs_sequence st1 = cs_sequence st + 1" "cs_terminal st1 = digest" "cs_allocated st1 = cs_allocated st"
    "cs_previous_segment_bytes st1 = cs_previous_segment_bytes st"
    using chain_line_unsealed[OF s(1)] by blast
  have "linked env (before @ [line]) (cs_sequence st1) (cs_terminal st1)"
    using linked.entry[OF Cons.prems(2) d(1-4)] d(5,6) by simp
  from Cons.IH[OF s(2) this] d(7,8) show ?case by simp
qed simp

lemma chain_segment_unsealed:
  assumes "sealed_descriptor env archive (seg_number segment) = Inr JNull"
  shows "chain_segment env limits q archive st segment = Inr st'' \<longleftrightarrow>
     (\<exists>data st'. segment_data env segment = Inr data \<and> data \<noteq> [] \<and> last data = 10 \<and>
        (case cs_previous_segment_bytes st of None \<Rightarrow> True
         | Some previous \<Rightarrow> previous + int (length (hd (split_lines data))) > maximum_segment_bytes limits) \<and>
        foldE (chain_line env q (prefix_head archive) False)
          (st\<lparr>cs_allocated := cs_allocated st + seg_allocated_bytes segment\<rparr>) (split_lines data) = Inr st' \<and>
        st'' = st'\<lparr>cs_previous_segment_bytes := Some (int (length data))\<rparr>)"
proof -
  have seal: "refuse_audit (andE (Inr (JNull \<noteq> JNull)) c) msg = Inr ()" for c msg
    by (simp add: refuse_audit_def andE_def)
  have upd: "st'\<lparr>cs_terminal := cs_terminal st', cs_previous_segment_bytes := x\<rparr> = st'\<lparr>cs_previous_segment_bytes := x\<rparr>"
    for st' :: chain_state and x by simp
  have "chain_segment env limits q archive st segment =
    bindE (segment_data env segment) (\<lambda>data.
    thenE (refuse_audit (Inr (data = [] \<or> last data \<noteq> 10)) ''audit segment is not nonempty canonical JSON lines'')
    (thenE (refuse_audit (Inr (case cs_previous_segment_bytes st of None \<Rightarrow> False
        | Some previous \<Rightarrow> previous + int (length (hd (split_lines data))) \<le> maximum_segment_bytes limits))
        ''audit segment rotation is not canonically packed'')
    (bindE (foldE (chain_line env q (prefix_head archive) False)
        (st\<lparr>cs_allocated := cs_allocated st + seg_allocated_bytes segment\<rparr>) (split_lines data)) (\<lambda>st'.
     Inr (st'\<lparr>cs_previous_segment_bytes := Some (int (length data))\<rparr>)))))"
    unfolding chain_segment_def Let_def assms bindE_simps seal upd by (simp add: thenE_def)
  then show ?thesis
    by (cases "cs_previous_segment_bytes st") (auto simp: bindE_Inr_iff thenE_Inr refuse_audit_Inr)
qed

definition local_log :: "Segments \<Rightarrow> bool" where
  "local_log segments \<longleftrightarrow> prefix_segments (archive_prefix segments) = [] \<and>
     prefix_rotation_intent (archive_prefix segments) = JNull \<and> (\<forall>s \<in> set (segment_list segments). \<not> seg_archived s)"

lemma fold_segments_linked:
  assumes "foldE (chain_segment env limits q archive) st segs = Inr st'"
    and "prefix_segments archive = []" "prefix_rotation_intent archive = JNull" "\<forall>s \<in> set segs. \<not> seg_archived s"
    and "linked env before (cs_sequence st) (cs_terminal st)"
  shows "linked env (before @ concat (map (\<lambda>s. split_lines (seg_payload s)) segs)) (cs_sequence st') (cs_terminal st')"
  using assms(1,4,5)
proof (induction segs arbitrary: st before)
  case (Cons s segs)
  obtain st1 where s: "chain_segment env limits q archive st s = Inr st1" "foldE (chain_segment env limits q archive) st1 segs = Inr st'"
    using Cons.prems(1) by (auto simp: bindE_Inr_iff)
  have sealed: "sealed_descriptor env archive (seg_number s) = Inr JNull" using assms(2,3) by (simp add: sealed_descriptor_def)
  obtain st2 where f: "foldE (chain_line env q (prefix_head archive) False)
      (st\<lparr>cs_allocated := cs_allocated st + seg_allocated_bytes s\<rparr>) (split_lines (seg_payload s)) = Inr st2"
    "cs_sequence st1 = cs_sequence st2" "cs_terminal st1 = cs_terminal st2"
    using s(1) Cons.prems(2) unfolding chain_segment_unsealed[OF sealed] segment_data_def by auto
  have "linked env (before @ split_lines (seg_payload s)) (cs_sequence st1) (cs_terminal st1)"
    using fold_lines_linked[OF f(1)] Cons.prems(3) f(2,3) by simp
  from Cons.IH[OF s(2) _ this] Cons.prems(2) show ?case by simp
qed simp

lemma validate_chain_iff:
  "validate_chain env limits segments = Inr state \<longleftrightarrow>
     (\<exists>st. foldE (chain_segment env limits no_query (archive_prefix segments)) (initial_chain (archive_prefix segments))
             (segment_list segments) = Inr st \<and> cs_allocated st \<le> maximum_administrator_bytes limits \<and>
        (\<exists>previous. previous_tenant_state_transition env segments (cs_matching_entry st) = Inr previous) \<and>
        state = \<lparr>audit_entry_count = cs_sequence st, audit_segment_count = int (length (segment_list segments)),
          audit_allocated_bytes = cs_allocated st, audit_terminal_digest = cs_terminal st\<rparr>)"
  unfolding validate_chain_def validate_chain_records_def bindE_Inr_iff if_Inl_Inr_iff not_less sum.inject
  by (intro iffI; elim exE conjE; fastforce)

lemma validate_chain_linked:
  assumes "validate_chain env limits segments = Inr state" "local_log segments"
  shows "linked env (concat (map (\<lambda>s. split_lines (seg_payload s)) (segment_list segments)))
    (audit_entry_count state) (audit_terminal_digest state)"
proof -
  obtain st where st: "foldE (chain_segment env limits no_query (archive_prefix segments)) (initial_chain (archive_prefix segments))
      (segment_list segments) = Inr st" "audit_entry_count state = cs_sequence st" "audit_terminal_digest state = cs_terminal st"
    using assms(1) by (auto simp: validate_chain_iff)
  have "linked env [] (cs_sequence (initial_chain (archive_prefix segments))) (cs_terminal (initial_chain (archive_prefix segments)))"
    by (simp add: initial_chain_def linked.empty)
  from fold_segments_linked[OF st(1) _ _ _ this] assms(2) show ?thesis unfolding st(2,3) local_log_def by simp
qed

definition log_bytes :: "Segments \<Rightarrow> bytes" where
  "log_bytes segments = concat (map seg_payload (segment_list segments))"

lemma concat_split_payloads: "concat (concat (map (\<lambda>s. split_lines (seg_payload s)) segs)) = concat (map seg_payload segs)"
  by (induction segs) (simp_all add: concat_split_lines)

definition log_lines :: "Segments \<Rightarrow> bytes list" where
  "log_lines segments = concat (map (\<lambda>s. split_lines (seg_payload s)) (segment_list segments))"


end
