(* ===== verification/Audit_Append.thy ===== *)
theory Audit_Append
  imports Audit_Log
begin

text \<open>
  Appending to the audit log of \<^verbatim>\<open>static_host_agent/audit.py\<close>: the shape of the segments every
  reading of the directory guarantees, how validation depends on the archived correlations, and what
  an admitted append leaves behind.
\<close>

section \<open>Segments that were read\<close>

text \<open>What every reading of the directory guarantees of the shape of the segments.\<close>

definition wf_segments :: "contract_env \<Rightarrow> Segments \<Rightarrow> bool" where
  "wf_segments env segments \<longleftrightarrow>
     (let archive = archive_prefix segments; segs = segment_list segments in
      map seg_number segs = [0..<length segs] \<and>
      (prefix_segments archive \<noteq> [] \<longrightarrow> length (prefix_segments archive) < length segs) \<and>
      (segs \<noteq> [] \<longrightarrow> \<not> seg_archived (last segs) \<and> 0 \<le> seg_allocated_bytes (last segs)) \<and>
      (prefix_rotation_intent archive \<noteq> JNull \<longrightarrow>
         (\<exists>pending n. bindE (getitem (prefix_rotation_intent archive) ''descriptor'') (validate_rotation env) = Inr pending \<and>
            getitem pending ''segmentNumber'' = Inr (JInt n) \<and>
            (nat n < length (prefix_segments archive) \<or> nat n + 1 < length segs))))"

definition inventory_ok :: "nat \<Rightarrow> inventory_state \<Rightarrow> bool" where
  "inventory_ok k st \<longleftrightarrow>
     map seg_number (inv_segments st) = [0..<length (inv_segments st)] \<and>
     length (inv_segments st) = (case inv_previous st of None \<Rightarrow> k | Some p \<Rightarrow> max k (p + 1)) \<and>
     (\<forall>i. k \<le> i \<and> i < length (inv_segments st) \<longrightarrow>
        \<not> seg_archived (inv_segments st ! i) \<and> 0 \<le> seg_allocated_bytes (inv_segments st ! i))"

lemma map_number_update: "map seg_number (xs[i := s]) = (map seg_number xs)[i := seg_number s]"
  by (simp add: map_update)

lemma inventory_step_ok:
  assumes "inventory_step env limits owner md listing archive st name = Inr st'" "inventory_ok (length (prefix_segments archive)) st"
  shows "inventory_ok (length (prefix_segments archive)) st'"
proof -
  let ?k = "length (prefix_segments archive)"
  obtain number where number: "segment_number name = Some number"
    using assms(1) by (cases "segment_number name") (auto simp: inventory_step_def)
  obtain metadata data where
    guard: "number \<le> length (inv_segments st)" "case inv_previous st of None \<Rightarrow> True | Some p \<Rightarrow> number = p + 1"
    and meta: "validate_segment_metadata metadata owner md (maximum_segment_bytes limits) = Inr ()"
    and st': "if number < ?k
      then \<exists>logical allocated. st' = \<lparr>inv_segments = (inv_segments st)[number := \<lparr>seg_number = number, seg_name = name, seg_payload = data,
             seg_allocated_bytes = st_blocks metadata * BLOCK_BYTES, seg_archived = False\<rparr>],
             inv_logical = logical, inv_allocated = allocated, inv_previous = Some number\<rparr>
      else \<exists>logical allocated. st' = \<lparr>inv_segments = inv_segments st @ [\<lparr>seg_number = number, seg_name = name, seg_payload = data,
             seg_allocated_bytes = st_blocks metadata * BLOCK_BYTES, seg_archived = False\<rparr>],
             inv_logical = logical, inv_allocated = allocated, inv_previous = Some number\<rparr>"
    using assms(1) unfolding inventory_step_def number option.case Let_def bindE_Inr_iff thenE_Inr if_Inl_Inr_iff refuse_audit_Inr
    by (elim exE conjE) (cases "number < ?k"; auto simp: bindE_Inr_iff not_less split: option.splits if_splits)
  have blocks: "0 \<le> st_blocks metadata * BLOCK_BYTES"
    using meta by (auto simp: validate_segment_metadata_def BLOCK_BYTES_def split: if_splits)
  show ?thesis
  proof (cases "number < ?k")
    case True
    then obtain logical allocated where s: "st' = \<lparr>inv_segments = (inv_segments st)[number := \<lparr>seg_number = number,
        seg_name = name, seg_payload = data, seg_allocated_bytes = st_blocks metadata * BLOCK_BYTES, seg_archived = False\<rparr>],
        inv_logical = logical, inv_allocated = allocated, inv_previous = Some number\<rparr>" using st' by auto
    have len: "length (inv_segments st) = ?k"
      using assms(2) guard(2) True by (cases "inv_previous st") (auto simp: inventory_ok_def)
    have "(map seg_number (inv_segments st))[number := number] = map seg_number (inv_segments st)"
      using assms(2) True len by (simp add: inventory_ok_def list_update_id[symmetric])
        (metis list_update_id diff_zero length_upt nth_upt add_0)
    then show ?thesis using assms(2) True len unfolding s by (auto simp: inventory_ok_def map_number_update)
  next
    case False
    then obtain logical allocated where s: "st' = \<lparr>inv_segments = inv_segments st @ [\<lparr>seg_number = number,
        seg_name = name, seg_payload = data, seg_allocated_bytes = st_blocks metadata * BLOCK_BYTES, seg_archived = False\<rparr>],
        inv_logical = logical, inv_allocated = allocated, inv_previous = Some number\<rparr>" using st' by auto
    have "number = length (inv_segments st)"
      using assms(2) guard False by (cases "inv_previous st") (auto simp: inventory_ok_def)
    then show ?thesis using assms(2) False blocks unfolding s by (auto simp: inventory_ok_def nth_append less_Suc_eq)
  qed
qed

lemma read_segments_wf:
  assumes "read_segments env limits owner md listing = Inr segments"
  shows "wf_segments env segments"
proof -
  obtain archive names st where
    fold: "foldE (inventory_step env limits owner md listing archive)
        \<lparr>inv_segments = map archived_segment (enumerate 0 (prefix_segments archive)), inv_logical = prefix_allocated_bytes archive,
         inv_allocated = prefix_allocated_bytes archive, inv_previous = None\<rparr> names = Inr st"
    and tail: "\<not> (prefix_segments archive \<noteq> [] \<and> length (inv_segments st) = length (prefix_segments archive))"
    and pending: "require_pending_local_segment env \<lparr>archive_prefix = archive, segment_list = inv_segments st\<rparr> = Inr ()"
    and segments: "segments = \<lparr>archive_prefix = archive, segment_list = inv_segments st\<rparr>"
    using assms unfolding read_segments_def Let_def bindE_Inr_iff thenE_Inr refuse_audit_Inr sum.inject
    by (elim exE conjE) (rule that, assumption, simp, simp, simp)
  let ?k = "length (prefix_segments archive)"
  have "inventory_ok ?k \<lparr>inv_segments = map archived_segment (enumerate 0 (prefix_segments archive)),
      inv_logical = prefix_allocated_bytes archive, inv_allocated = prefix_allocated_bytes archive, inv_previous = None\<rparr>"
  proof -
    have "seg_number \<circ> archived_segment = fst" by (auto simp: archived_segment_def fun_eq_iff)
    then show ?thesis by (simp add: inventory_ok_def) (meson leD)
  qed
  then have ok: "inventory_ok ?k st" by (rule foldE_invariant[OF fold]) (rule inventory_step_ok)
  have local_tail: "?k < length (inv_segments st)" if "inv_segments st \<noteq> []"
    using ok tail that by (cases "prefix_segments archive"; cases "inv_previous st") (auto simp: inventory_ok_def max_def split: if_splits)
  have "\<not> seg_archived (last (inv_segments st)) \<and> 0 \<le> seg_allocated_bytes (last (inv_segments st))" if "inv_segments st \<noteq> []"
  proof -
    have "?k \<le> length (inv_segments st) - 1" "length (inv_segments st) - 1 < length (inv_segments st)"
      using local_tail[OF that] that by auto
    then show ?thesis using ok unfolding inventory_ok_def last_conv_nth[OF that] by blast
  qed
  moreover have "?k < length (inv_segments st)" if "prefix_segments archive \<noteq> []"
  proof -
    have "?k \<le> length (inv_segments st)" using ok by (cases "inv_previous st") (auto simp: inventory_ok_def)
    then show ?thesis using tail that by (simp add: le_less)
  qed
  moreover have "\<exists>descriptor n. bindE (getitem (prefix_rotation_intent archive) ''descriptor'') (validate_rotation env) = Inr descriptor \<and>
      getitem descriptor ''segmentNumber'' = Inr (JInt n) \<and> (nat n < ?k \<or> nat n + 1 < length (inv_segments st))"
    if intent: "prefix_rotation_intent archive \<noteq> JNull"
  proof -
    obtain descriptor v where d: "bindE (getitem (prefix_rotation_intent archive) ''descriptor'') (validate_rotation env) = Inr descriptor"
      "getitem descriptor ''segmentNumber'' = Inr v"
      and c: "(case v of JInt n \<Rightarrow>
          if nat n < ?k then Inr ()
          else if nat n + 1 \<ge> length (inv_segments st) \<or> seg_archived (inv_segments st ! nat n)
          then Inl (AuditError ''pending audit rotation lacks its closed local segment and successor'')
          else (case bindE (segment_data env (inv_segments st ! nat n)) (verify_segment env descriptor) of
                  Inl (BackupIdentityError msg) \<Rightarrow> Inl (AuditError ''pending audit rotation disagrees with its local authority'')
                | Inl e \<Rightarrow> Inl e | Inr _ \<Rightarrow> Inr ())
        | _ \<Rightarrow> Inl (RuntimeError ''AssertionError'')) = Inr ()"
      using pending intent unfolding require_pending_local_segment_def Let_def
      by (simp only: if_False bindE_Inr_iff ArchivePrefix.simps Segments.simps) blast
    obtain n where "v = JInt n" using c by (cases v) auto
    then show ?thesis using d c by (auto split: if_splits)
  qed
  ultimately show ?thesis using ok unfolding wf_segments_def segments Let_def by (simp add: inventory_ok_def)
qed

lemma wf_segments_unsealed:
  assumes "wf_segments env segments" "length (segment_list segments) \<le> k + 1" "k \<le> length (segment_list segments)"
  shows "sealed_descriptor env (archive_prefix segments) k = Inr JNull"
proof -
  let ?a = "archive_prefix segments"
  note wf = assms(1)[unfolded wf_segments_def Let_def]
  have k: "length (prefix_segments ?a) \<le> k" using wf assms(2) by (cases "prefix_segments ?a") auto
  show ?thesis
  proof (cases "prefix_rotation_intent ?a = JNull")
    case False
    then obtain pending n where p: "bindE (getitem (prefix_rotation_intent ?a) ''descriptor'') (validate_rotation env) = Inr pending"
      "getitem pending ''segmentNumber'' = Inr (JInt n)" "nat n < length (prefix_segments ?a) \<or> nat n + 1 < length (segment_list segments)"
      using wf by blast
    have "n \<noteq> int k" using p(3) k assms(2) by auto
    then show ?thesis using False k p(1,2) by (simp add: sealed_descriptor_def)
  qed (use k in \<open>simp add: sealed_descriptor_def\<close>)
qed


section \<open>Validation of an extended log\<close>

lemma bindE_assoc: "bindE (bindE m f) g = bindE m (\<lambda>x. bindE (f x) g)"
  by (cases m) auto

lemma chain_line_allocated:
  assumes "chain_line env q head sealed st line = Inr st'"
  shows "chain_line env q head sealed (st\<lparr>cs_allocated := a\<rparr>) line = Inr (st'\<lparr>cs_allocated := a\<rparr>)"
proof -
  obtain d canonical digest st1 st2 st3 where
    r: "read_entry env sealed line = Inr (d, canonical, digest)" and l: "check_link sealed st d canonical line = Inr ()"
    and s: "note_correlation head st d = Inr st1" "match_correlation (query_correlation q) st1 d = Inr st2"
      "project_entry q st2 d = Inr st3"
      "st' = st3\<lparr>cs_terminal := (if sealed then cs_terminal st3 else digest), cs_sequence := cs_sequence st3 + 1\<rparr>"
    using assms unfolding chain_line_def by (auto simp: bindE_Inr_iff thenE_Inr)
  have "check_link sealed (st\<lparr>cs_allocated := a\<rparr>) d canonical line = Inr ()"
    using l by (cases sealed) (simp_all add: check_link_def)
  moreover have "note_correlation head (st\<lparr>cs_allocated := a\<rparr>) d = Inr (st1\<lparr>cs_allocated := a\<rparr>)"
    using s(1) by (auto simp: note_correlation_def bindE_Inr_iff thenE_Inr split: if_splits)
  moreover have "match_correlation (query_correlation q) (st1\<lparr>cs_allocated := a\<rparr>) d = Inr (st2\<lparr>cs_allocated := a\<rparr>)"
  proof -
    obtain hit where h: "andE (Inr (query_correlation q \<noteq> JNull)) (eqE (getitem d ''correlationId'') (Inr (query_correlation q))) = Inr hit"
      using s(2) unfolding match_correlation_def bindE_Inr_iff by blast
    show ?thesis using s(2) unfolding match_correlation_def h bindE_simps
      by (cases hit; cases "cs_matching_entry st1 = JNull") (auto simp: thenE_def refuse_audit_def)
  qed
  moreover have "project_entry q (st2\<lparr>cs_allocated := a\<rparr>) d = Inr (st3\<lparr>cs_allocated := a\<rparr>)"
  proof -
    have commute: "st2\<lparr>cs_allocated := a, cs_has_later := l, cs_has_tenant_history := h, cs_has_deployment_history := e,
        cs_matches := m\<rparr> = st2\<lparr>cs_has_later := l, cs_has_tenant_history := h, cs_has_deployment_history := e,
        cs_matches := m, cs_allocated := a\<rparr>" for l h e m by simp
    have "project_entry q (st2\<lparr>cs_allocated := a\<rparr>) d = bindE (project_entry q st2 d) (\<lambda>s. Inr (s\<lparr>cs_allocated := a\<rparr>))"
      unfolding project_entry_def by (simp add: bindE_assoc commute)
    then show ?thesis using s(3) by simp
  qed
  ultimately show ?thesis using r s(4) by (simp add: chain_line_def thenE_def)
qed

lemma fold_lines_allocated:
  assumes "foldE (chain_line env q head sealed) st lines = Inr st'"
  shows "foldE (chain_line env q head sealed) (st\<lparr>cs_allocated := a\<rparr>) lines = Inr (st'\<lparr>cs_allocated := a\<rparr>)"
  using assms
proof (induction lines arbitrary: st)
  case (Cons line lines)
  then show ?case by (auto simp: bindE_Inr_iff dest: chain_line_allocated)
qed simp

text \<open>Whether a line records a correlation identity.\<close>

definition line_records :: "contract_env \<Rightarrow> string \<Rightarrow> bytes \<Rightarrow> bool" where
  "line_records env c line =
     (case decode_json_object (env_codec env) line MAX_CANONICAL_BYTES of
        Inl e \<Rightarrow> False
      | Inr d \<Rightarrow> getitem d ''correlationId'' = lit c)"

definition records_correlation :: "contract_env \<Rightarrow> Segment list \<Rightarrow> string \<Rightarrow> bool" where
  "records_correlation env segs c =
     list_ex (\<lambda>s. case segment_data env s of Inl e \<Rightarrow> False | Inr data \<Rightarrow> list_ex (line_records env c) (split_lines data)) segs"

text \<open>The facts every successful step keeps when no projection is asked for.\<close>

definition plain_step :: "contract_env \<Rightarrow> json \<Rightarrow> chain_state \<Rightarrow> bytes list \<Rightarrow> chain_state \<Rightarrow> bool" where
  "plain_step env head st lines st' \<longleftrightarrow>
     cs_matching_entry st' = cs_matching_entry st \<and>
     (head \<noteq> JNull \<longrightarrow> (\<forall>c. c \<in> set (cs_archived_correlations st') \<longleftrightarrow>
        c \<in> set (cs_archived_correlations st) \<or> list_ex (line_records env c) lines))"

lemma read_entry_decodes: "read_entry env sealed line = Inr (d, canonical, digest) \<Longrightarrow>
    decode_json_object (env_codec env) line MAX_CANONICAL_BYTES = Inr d"
  unfolding read_entry_def by (auto simp: bindE_Inr_iff catch_contract_Inr split: if_splits)

lemma chain_line_plain:
  assumes "chain_line env no_query head sealed st line = Inr st'"
  shows "plain_step env head st [line] st' \<and> cs_allocated st' = cs_allocated st"
proof -
  obtain d canonical digest st1 st2 st3 where
    r: "read_entry env sealed line = Inr (d, canonical, digest)"
    and s: "note_correlation head st d = Inr st1" "match_correlation (query_correlation no_query) st1 d = Inr st2"
      "project_entry no_query st2 d = Inr st3"
      "st' = st3\<lparr>cs_terminal := (if sealed then cs_terminal st3 else digest), cs_sequence := cs_sequence st3 + 1\<rparr>"
    using assms unfolding chain_line_def by (auto simp: bindE_Inr_iff thenE_Inr)
  note frames = projection_frames(1)[OF s(1)] projection_frames(2)[OF s(2)] projection_frames(3)[OF s(3)]
  have "\<forall>c. c \<in> set (cs_archived_correlations st1) \<longleftrightarrow>
      c \<in> set (cs_archived_correlations st) \<or> getitem d ''correlationId'' = lit c" if "head \<noteq> JNull"
    using s(1) that by (auto simp: note_correlation_def bindE_Inr_iff thenE_Inr uuid7_iff)
  then show ?thesis using frames s(4) read_entry_decodes[OF r]
    by (simp add: plain_step_def no_query_def line_records_def)
qed

lemma fold_lines_plain:
  assumes "foldE (chain_line env no_query head sealed) st lines = Inr st'"
  shows "plain_step env head st lines st' \<and> cs_allocated st' = cs_allocated st"
  using assms
proof (induction lines arbitrary: st)
  case (Cons line lines)
  then obtain st1 where "chain_line env no_query head sealed st line = Inr st1"
    "foldE (chain_line env no_query head sealed) st1 lines = Inr st'" by (auto simp: bindE_Inr_iff)
  from chain_line_plain[OF this(1)] Cons.IH[OF this(2)] show ?case by (auto simp: plain_step_def)
qed (simp add: plain_step_def)

lemma chain_segment_plain:
  assumes "chain_segment env limits no_query archive st segment = Inr st'"
  shows "\<exists>data. segment_data env segment = Inr data \<and> data \<noteq> [] \<and> last data = 10 \<and>
    plain_step env (prefix_head archive) st (split_lines data) st' \<and>
    cs_allocated st' = cs_allocated st + seg_allocated_bytes segment \<and>
    cs_previous_segment_bytes st' = Some (int (length data))"
proof -
  obtain data sealed st1 terminal where d: "segment_data env segment = Inr data" "data \<noteq> []" "last data = 10"
    and f: "foldE (chain_line env no_query (prefix_head archive) (sealed \<noteq> JNull))
      (st\<lparr>cs_allocated := cs_allocated st + seg_allocated_bytes segment\<rparr>) (split_lines data) = Inr st1"
    and st': "st' = st1\<lparr>cs_terminal := terminal, cs_previous_segment_bytes := Some (int (length data))\<rparr>"
    using assms unfolding chain_segment_def Let_def bindE_Inr_iff thenE_Inr refuse_audit_Inr sum.inject
    by (simp only: simp_thms de_Morgan_disj not_not) blast
  show ?thesis using d fold_lines_plain[OF f] unfolding st' by (auto simp: plain_step_def)
qed

lemma fold_segments_plain:
  assumes "foldE (chain_segment env limits no_query archive) st segs = Inr st'"
  shows "cs_matching_entry st' = cs_matching_entry st \<and>
    cs_allocated st' = cs_allocated st + sum_list (map seg_allocated_bytes segs) \<and>
    (segs \<noteq> [] \<longrightarrow> (\<exists>data. segment_data env (last segs) = Inr data \<and> data \<noteq> [] \<and> last data = 10 \<and>
       cs_previous_segment_bytes st' = Some (int (length data)))) \<and>
    (segs = [] \<longrightarrow> st' = st) \<and>
    (prefix_head archive \<noteq> JNull \<longrightarrow> (\<forall>c. c \<in> set (cs_archived_correlations st') \<longleftrightarrow>
       c \<in> set (cs_archived_correlations st) \<or> records_correlation env segs c))"
  using assms
proof (induction segs arbitrary: st)
  case (Cons s segs)
  then obtain st1 where s: "chain_segment env limits no_query archive st s = Inr st1"
    "foldE (chain_segment env limits no_query archive) st1 segs = Inr st'" by (auto simp: bindE_Inr_iff)
  obtain data where d: "segment_data env s = Inr data" "data \<noteq> []" "last data = 10"
    "plain_step env (prefix_head archive) st (split_lines data) st1"
    "cs_allocated st1 = cs_allocated st + seg_allocated_bytes s" "cs_previous_segment_bytes st1 = Some (int (length data))"
    using chain_segment_plain[OF s(1)] by blast
  from Cons.IH[OF s(2)] d show ?case
    by (cases "segs = []") (auto simp: plain_step_def records_correlation_def)
qed (simp add: records_correlation_def)

lemma canonical_entry_uuid:
  assumes "canonical_audit_entry env d = Inr (line, dg)" "getitem d ''correlationId'' = lit c"
  shows "validate_uuid7 (JStr c) = Inr c"
proof -
  obtain kind where "validated_contract env d (Some AUDIT_ENTRY) = Inr (kind, line)"
    using assms(1) by (auto simp: canonical_audit_entry_def bindE_Inr_iff thenE_Inr)
  then have "validate_identity_field d ''correlationId'' = Inr ()"
    by (auto simp: validated_contract_iff semantic_validation_iff IDENTITY_FIELDS_def)
  then show ?thesis using getitem_dict_get[OF assms(2)] by (auto simp: validate_identity_field_iff uuid7_iff)
qed

lemma entry_shapeD:
  assumes "entry_shape d"
  shows "\<exists>x. getitem d ''tenantId'' = Inr x" "\<exists>x. getitem d ''resultStatus'' = Inr x"
    "\<exists>s. getitem d ''operation'' = lit s" "\<exists>s. getitem d ''correlationId'' = lit s"
    "\<exists>x. dict_get d ''deletionEvidence'' = Inr x"
proof -
  obtain m where d: "d = JObj m" using assms by (cases d) auto
  have "''tenantId'' |\<in>| fmdom m" "''resultStatus'' |\<in>| fmdom m"
    using assms unfolding d by (auto simp: ROW_FIELDS_def)
  then show "\<exists>x. getitem d ''tenantId'' = Inr x" "\<exists>x. getitem d ''resultStatus'' = Inr x"
    unfolding d by (auto simp: fmdom_notI elim: fmdomE)
  show "\<exists>s. getitem d ''operation'' = lit s" "\<exists>s. getitem d ''correlationId'' = lit s"
    "\<exists>x. dict_get d ''deletionEvidence'' = Inr x" using assms unfolding d by auto
qed

lemma chain_line_accepts:
  assumes "archive_laws env" "entry_line env d line digest"
    and "getitem d ''sequence'' = Inr (JInt (cs_sequence st))" "getitem d ''previousEntryDigest'' = Inr (cs_terminal st)"
    and "cs_matching_entry st = JNull" "getitem d ''correlationId'' = lit c"
  shows "if head = JNull \<or> c \<notin> set (cs_archived_correlations st)
    then \<exists>st'. chain_line env no_query head False st line = Inr st' \<and> cs_sequence st' = cs_sequence st + 1 \<and>
      cs_terminal st' = digest
    else chain_line env no_query head False st line =
      Inl (AuditError ''audit correlation appears multiple times across archived/local history'')"
proof -
  note e = entry_line_facts[OF assms(1,2)]
  obtain dg where dg: "canonical_audit_entry env d = Inr (line, dg)" "digest = Digest_to_dict dg"
    using assms(2) by (auto simp: entry_line_def)
  have read: "read_entry env False line = Inr (d, line, digest)" using e(1,3) dg by (simp add: read_entry_def)
  have link: "check_link False st d line line = Inr ()"
    using assms(3,4) by (simp add: check_link_def refuse_audit_def neqE_def thenE_def)
  note uuid = canonical_entry_uuid[OF dg(1) assms(6)]
  show ?thesis
  proof (cases "head = JNull \<or> c \<notin> set (cs_archived_correlations st)")
    case True
    then obtain st1 where st1: "note_correlation head st d = Inr st1"
      using assms(6) uuid by (cases "head = JNull") (auto simp: note_correlation_def thenE_def refuse_audit_def)
    note f1 = projection_frames(1)[OF st1]
    have st2: "match_correlation (query_correlation no_query) st1 d = Inr st1"
      by (simp add: match_correlation_def no_query_def andE_def)
    obtain tenant status operation evidence where g: "getitem d ''tenantId'' = Inr tenant" "getitem d ''resultStatus'' = Inr status"
      "getitem d ''operation'' = lit operation" "dict_get d ''deletionEvidence'' = Inr evidence"
      using entry_shapeD[OF e(6)] by metis
    have later: "is_later_tenant_state_transition (cs_matching_entry st1) d = Inr False"
      using f1 assms(5) by (simp add: is_later_tenant_state_transition_def andE_def)
    have "\<exists>deployed. deployment_evidence d (JStr operation) evidence = Inr deployed"
      using g(2) by (cases evidence) (auto simp: deployment_evidence_def eqE_def andE_def anyE.simps neqE_def)
    moreover have "\<exists>seen. andE (Inr (tenant = JNull)) (andE (eqE (getitem d ''resultStatus'') (lit ''succeeded''))
        (in_strs (JStr operation) TENANT_STATE_TRANSITIONS)) = Inr seen"
      using g(2) by (auto simp: eqE_def andE_def)
    ultimately obtain st3 where st3: "project_entry no_query st1 d = Inr st3"
      using g later unfolding project_entry_def by (cases "cs_has_later st1") (auto simp: no_query_def)
    note f3 = projection_frames(3)[OF st3]
    show ?thesis using True read link st1 st2 st3 f1 f3 by (simp add: chain_line_def thenE_def)
  next
    case False
    then have "note_correlation head st d =
        Inl (AuditError ''audit correlation appears multiple times across archived/local history'')"
      using assms(6) uuid by (simp add: note_correlation_def thenE_def refuse_audit_def)
    then show ?thesis using False read link by (simp add: chain_line_def thenE_def)
  qed
qed


section \<open>Appending\<close>

lemma allocation_nonneg:
  "allocation_upper_bound host n = Inr a \<Longrightarrow> 0 \<le> a"
  "namespace_allocation_upper_bound host n = Inr a \<Longrightarrow> 0 \<le> a"
  by (auto simp: allocation_upper_bound_def namespace_allocation_upper_bound_def Let_def pos_imp_zdiv_nonneg_iff
      split: if_splits)

lemma admit_archive_nonneg:
  assumes "admit_archive_append env host prefix n k = Inr extra"
  shows "0 \<le> extra"
proof -
  have sum: "0 \<le> sum_list xs" if "list_all2 (\<lambda>n a. allocation_upper_bound host n = Inr a) ns xs" for ns xs
    using that by (induction rule: list_all2_induct) (auto dest: allocation_nonneg(1))
  have "0 \<le> reserved_bytes r" if r: "rotation_reservation host = Inr r" for r
  proof -
    obtain sizes names where "list_all2 (\<lambda>n a. allocation_upper_bound host n = Inr a)
        [int MAX_SEGMENT_BYTES, int MAX_INDEX_BYTES, MAX_JOURNAL_BYTES, MAX_JOURNAL_BYTES, MAX_JOURNAL_BYTES,
          int MAX_DESCRIPTOR_BYTES, MAX_STATUS_BYTES] sizes"
      "namespace_allocation_upper_bound host ROTATION_INODES = Inr names" "reserved_bytes r = sum_list sizes + names"
      using r unfolding rotation_reservation_def bindE_Inr_iff traverseE_Inr_iff by auto
    then show ?thesis using sum allocation_nonneg(2) by fastforce
  qed
  then show ?thesis using assms unfolding admit_archive_append_def
    by (auto simp: bindE_Inr_iff thenE_Inr split: if_splits sum.splits capacity_exn.splits)
qed

lemma catch_admission_Inr [simp]: "catch_admission m = Inr x \<longleftrightarrow> m = Inr x"
  by (auto simp: catch_admission_def split: sum.splits exn.splits)

lemma plan_targetD:
  assumes "plan_target env limits segments canonical = Inr (name, payload, replaces)"
  shows "if replaces
    then segment_list segments \<noteq> [] \<and> (\<exists>data. segment_data env (last (segment_list segments)) = Inr data \<and>
      int (length data) + int (length canonical) \<le> maximum_segment_bytes limits \<and> payload = data @ canonical)
    else payload = canonical \<and> (segment_list segments \<noteq> [] \<longrightarrow>
      (\<exists>data. segment_data env (last (segment_list segments)) = Inr data \<and>
        int (length data) + int (length canonical) > maximum_segment_bytes limits))"
  using assms unfolding plan_target_def Let_def by (auto simp: bindE_Inr_iff split: if_splits)

lemma plan_appendD:
  assumes "plan_audit_append env host limits administrator segments d canonical = Inr plan"
  shows "\<exists>state upper. validate_chain env limits segments = Inr state \<and> append_state plan = state \<and>
    getitem d ''sequence'' = Inr (JInt (audit_entry_count state)) \<and>
    getitem d ''previousEntryDigest'' = Inr (audit_terminal_digest state) \<and>
    plan_target env limits segments canonical = Inr (append_target_name plan, append_payload plan, append_replace plan) \<and>
    allocation_upper_bound host (int (length (append_payload plan))) = Inr upper \<and>
    audit_allocated_bytes state + upper \<le>
      (if administrator then maximum_administrator_bytes limits else maximum_ordinary_bytes limits)"
proof -
  obtain state name payload replaces upper names extra where
    p: "validate_chain env limits segments = Inr state" "getitem d ''sequence'' = Inr (JInt (audit_entry_count state))"
    "getitem d ''previousEntryDigest'' = Inr (audit_terminal_digest state)"
    "plan_target env limits segments canonical = Inr (name, payload, replaces)"
    "allocation_upper_bound host (int (length payload)) = Inr upper" "namespace_allocation_upper_bound host 1 = Inr names"
    "(if administrator then Inr 0
      else catch_admission (admit_archive_append env host (archive_prefix segments)
             (audit_allocated_bytes state + upper + names - audit_allocated_bytes state) (audit_entry_count state))) = Inr extra"
    "admit_capacity limits (audit_allocated_bytes state + upper + names + extra) administrator = Inr ()"
    "plan = \<lparr>append_state = state, append_target_name = name, append_payload = payload, append_replace = replaces\<rparr>"
    using assms unfolding plan_audit_append_def Let_def
    by (clarsimp simp: bindE_Inr_iff thenE_Inr refuse_audit_Inr neqE_False split del: if_split)
  have "0 \<le> names" "0 \<le> extra" using p(6,7) allocation_nonneg(2) admit_archive_nonneg by (auto split: if_splits)
  then show ?thesis using p by (auto simp: admit_capacity_def split: if_splits)
qed

lemma canonical_candidate_line:
  assumes "canonical_candidate env d = Inr (e, canonical)"
  shows "e = d \<and> (\<exists>dg. length canonical \<le> MAX_U32 \<longrightarrow> canonical_audit_entry env d = Inr (canonical, dg))"
proof -
  have c: "e = d" "is_dict d" "\<exists>kind. validate_contract env d (Some AUDIT_ENTRY) = Inr kind"
    "canonical_json_bytes (dumps (env_codec env)) d MAX_CANONICAL_BYTES = Inr canonical"
    using assms by (auto simp: canonical_candidate_def bindE_Inr_iff thenE_Inr split: if_splits)
  then obtain kind raw where v: "validated_contract env d (Some AUDIT_ENTRY) = Inr (kind, raw)"
    by (auto simp: validate_contract_iff)
  then have "raw = canonical" using c(4) by (auto simp: validated_contract_iff)
  then show ?thesis using c(1,2) v
    by (auto simp: canonical_audit_entry_def thenE_def refuse_if_def bindE_Inr_iff digest_bytes_iff)
qed

lemma candidate_entry_line:
  assumes "canonical_candidate env d = Inr (e, canonical)"
  shows "e = d \<and> (\<exists>digest. entry_line env d canonical digest)"
proof -
  have "length canonical \<le> MAX_CANONICAL_BYTES"
    using assms by (auto simp: canonical_candidate_def bindE_Inr_iff thenE_Inr canonical_json_bytes_iff split: if_splits)
  then have "length canonical \<le> MAX_U32" by (simp add: MAX_CANONICAL_BYTES_def MAX_U32_def)
  then show ?thesis using canonical_candidate_line[OF assms] by (auto simp: entry_line_def)
qed

lemma fold_snoc: "foldE f s (xs @ [x]) = bindE (foldE f s xs) (\<lambda>t. f t x)"
  by (simp add: foldE_append bindE_def split: sum.splits)

text \<open>Validation of the published segments comes down to the one new line.\<close>

lemma published_chain:
  fixes allocated :: int
  assumes "archive_laws env" "wf_segments env segments" "entry_line env d canonical digest"
    and "foldE (chain_segment env limits no_query (archive_prefix segments)) (initial_chain (archive_prefix segments))
      (segment_list segments) = Inr st"
    and "plan_target env limits segments canonical = Inr (append_target_name plan, append_payload plan, append_replace plan)"
    and after_def: "after = published_segments segments plan allocated"
  shows "\<exists>a st1. cs_sequence st1 = cs_sequence st \<and> cs_terminal st1 = cs_terminal st \<and>
    cs_archived_correlations st1 = cs_archived_correlations st \<and> cs_matching_entry st1 = cs_matching_entry st \<and>
    foldE (chain_segment env limits no_query (archive_prefix after)) (initial_chain (archive_prefix after)) (segment_list after) =
      bindE (chain_line env no_query (prefix_head (archive_prefix segments)) False st1 canonical)
        (\<lambda>st2. Inr (st2\<lparr>cs_previous_segment_bytes := a\<rparr>))"
proof -
  let ?a = "archive_prefix segments" and ?segs = "segment_list segments"
  note line = entry_line_facts[OF assms(1,3)]
  have same: "archive_prefix after = ?a" by (simp add: after_def published_segments_def Let_def)
  have wf: "map seg_number ?segs = [0..<length ?segs]" "?segs \<noteq> [] \<longrightarrow> \<not> seg_archived (last ?segs)"
    using assms(2) by (simp_all add: wf_segments_def Let_def)
  note target = plan_targetD[OF assms(5)]
  show ?thesis
  proof (cases "append_replace plan")
    case True
    obtain data where data: "?segs \<noteq> []" "segment_data env (last ?segs) = Inr data" "append_payload plan = data @ canonical"
      using target True by auto
    define final where "final = last ?segs"
    have segs: "?segs = butlast ?segs @ [final]" using data(1) by (simp add: final_def)
    have "map seg_number ?segs ! (length ?segs - 1) = length ?segs - 1" using data(1) unfolding wf(1) by simp
    then have number: "seg_number final = length ?segs - 1" using data(1) by (simp add: final_def last_conv_nth)
    have sealed: "sealed_descriptor env ?a (seg_number final) = Inr JNull"
      unfolding number using assms(2) data(1) by (intro wf_segments_unsealed) (auto simp: Suc_le_eq)
    obtain st0 where st0: "foldE (chain_segment env limits no_query ?a) (initial_chain ?a) (butlast ?segs) = Inr st0"
      "chain_segment env limits no_query ?a st0 final = Inr st"
    proof -
      have "foldE (chain_segment env limits no_query ?a) (initial_chain ?a) (butlast ?segs @ [final]) = Inr st"
        using assms(4) segs by simp
      then show ?thesis using that unfolding fold_snoc bindE_Inr_iff by blast
    qed
    obtain st1 where st1: "data \<noteq> []" "last data = 10"
      "case cs_previous_segment_bytes st0 of None \<Rightarrow> True
         | Some previous \<Rightarrow> previous + int (length (hd (split_lines data))) > maximum_segment_bytes limits"
      "foldE (chain_line env no_query (prefix_head ?a) False)
        (st0\<lparr>cs_allocated := cs_allocated st0 + seg_allocated_bytes final\<rparr>) (split_lines data) = Inr st1"
      "st = st1\<lparr>cs_previous_segment_bytes := Some (int (length data))\<rparr>"
      using st0(2) data(2)[folded final_def] by (auto simp: chain_segment_unsealed[OF sealed])
    let ?b = "cs_allocated st0 + allocated"
    have f: "foldE (chain_line env no_query (prefix_head ?a) False) (st0\<lparr>cs_allocated := ?b\<rparr>) (split_lines data)
        = Inr (st1\<lparr>cs_allocated := ?b\<rparr>)"
      using fold_lines_allocated[OF st1(4), of ?b] by simp
    define written where "written = \<lparr>seg_number = seg_number final, seg_name = append_target_name plan,
       seg_payload = data @ canonical, seg_allocated_bytes = allocated, seg_archived = False\<rparr>"
    have list: "segment_list after = butlast ?segs @ [written]"
      using True data(3) by (simp add: after_def published_segments_def Let_def written_def final_def)
    have sealed': "sealed_descriptor env ?a (seg_number written) = Inr JNull" using sealed by (simp add: written_def)
    have lines: "split_lines (data @ canonical) = split_lines data @ [canonical]"
      using split_lines_extend[OF st1(1,2)] line(2) by simp
    have head: "hd (split_lines (data @ canonical)) = hd (split_lines data)" unfolding lines using st1(1) by simp
    have "chain_segment env limits no_query ?a st0 written =
        bindE (chain_line env no_query (prefix_head ?a) False (st1\<lparr>cs_allocated := ?b\<rparr>) canonical)
          (\<lambda>st2. Inr (st2\<lparr>cs_previous_segment_bytes := Some (int (length (data @ canonical)))\<rparr>))"
    proof -
      have pack: "refuse_audit (Inr (case cs_previous_segment_bytes st0 of None \<Rightarrow> False
          | Some previous \<Rightarrow> previous + int (length (hd (split_lines (data @ canonical)))) \<le> maximum_segment_bytes limits)) msg = Inr ()" for msg
        using st1(3) unfolding head by (auto simp: refuse_audit_Inr split: option.splits)
      have "last (data @ canonical) = 10" using line(4,5) by simp
      then show ?thesis
        unfolding chain_segment_def Let_def sealed' bindE_simps
        using pack st1(1) f by (simp add: segment_data_def written_def thenE_def refuse_audit_def andE_def lines foldE_append bindE_assoc)
    qed
    then show ?thesis using st0(1) unfolding same list fold_snoc
      by (intro exI[of _ "Some (int (length (data @ canonical)))"] exI[of _ "st1\<lparr>cs_allocated := ?b\<rparr>"]) (simp add: st1(5))
  next
    case False
    define written where "written = \<lparr>seg_number = length ?segs, seg_name = append_target_name plan,
       seg_payload = canonical, seg_allocated_bytes = allocated, seg_archived = False\<rparr>"
    have list: "segment_list after = ?segs @ [written]"
      using False target by (simp add: after_def published_segments_def Let_def written_def)
    have sealed: "sealed_descriptor env ?a (seg_number written) = Inr JNull"
      using assms(2) by (simp add: written_def wf_segments_unsealed)
    have pack: "\<not> (case cs_previous_segment_bytes st of None \<Rightarrow> False
        | Some previous \<Rightarrow> previous + int (length (hd (split_lines canonical))) \<le> maximum_segment_bytes limits)"
    proof -
      have one: "hd (split_lines canonical) = canonical" using line(2) by simp
      show ?thesis unfolding one using fold_segments_plain[OF assms(4)] target False
        by (cases "?segs = []") (auto simp: initial_chain_def)
    qed
    let ?st1 = "st\<lparr>cs_allocated := cs_allocated st + allocated\<rparr>"
    have "chain_segment env limits no_query ?a st written =
        bindE (chain_line env no_query (prefix_head ?a) False ?st1 canonical)
          (\<lambda>st2. Inr (st2\<lparr>cs_previous_segment_bytes := Some (int (length canonical))\<rparr>))"
      unfolding chain_segment_def Let_def sealed bindE_simps
      using pack line(2,4,5) by (simp add: segment_data_def written_def thenE_def refuse_audit_def andE_def bindE_assoc)
    then show ?thesis using assms(4) unfolding same list fold_snoc
      by (intro exI[of _ "Some (int (length canonical))"] exI[of _ ?st1]) simp
  qed
qed

lemma map_last_split:
  "xs \<noteq> [] \<Longrightarrow> sum_list (map f xs) = sum_list (map f (butlast xs)) + (f (last xs) :: int)"
  "xs \<noteq> [] \<Longrightarrow> concat (map g xs) = concat (map g (butlast xs)) @ g (last xs)"
  by (induction xs rule: rev_induct) simp_all

text \<open>The chain a planned append leaves: its new line, and the allocation it charges.\<close>

lemma appended_chain:
  fixes allocated :: int
  assumes "archive_laws env" "AuditLimits_post_init limits = Inr limits" "wf_segments env segments"
    and "canonical_candidate env d = Inr (d, canonical)"
    and "plan_audit_append env host limits administrator segments d canonical = Inr plan"
    and "allocation_upper_bound host (int (length (append_payload plan))) = Inr upper" "allocated \<le> upper"
    and "getitem d ''correlationId'' = lit c"
    and after_def: "after = published_segments segments plan allocated"
  shows "if prefix_head (archive_prefix segments) = JNull \<or> \<not> records_correlation env (segment_list segments) c
    then \<exists>state digest. validate_chain env limits after = Inr state \<and>
        admit_capacity limits (audit_allocated_bytes state) administrator = Inr () \<and>
        digest_dict (audit_entry_digest env d) = Inr digest \<and> audit_terminal_digest state = digest \<and>
        audit_entry_count state = audit_entry_count (append_state plan) + 1
    else validate_chain env limits after =
        Inl (AuditError ''audit correlation appears multiple times across archived/local history'')"
proof -
  let ?a = "archive_prefix segments" and ?segs = "segment_list segments"
  obtain upper' where p: "validate_chain env limits segments = Inr (append_state plan)"
    "getitem d ''sequence'' = Inr (JInt (audit_entry_count (append_state plan)))"
    "getitem d ''previousEntryDigest'' = Inr (audit_terminal_digest (append_state plan))"
    "plan_target env limits segments canonical = Inr (append_target_name plan, append_payload plan, append_replace plan)"
    "allocation_upper_bound host (int (length (append_payload plan))) = Inr upper'"
    "audit_allocated_bytes (append_state plan) + upper' \<le>
      (if administrator then maximum_administrator_bytes limits else maximum_ordinary_bytes limits)"
    using plan_appendD[OF assms(5)] by blast
  obtain st where st: "foldE (chain_segment env limits no_query ?a) (initial_chain ?a) ?segs = Inr st"
    "append_state plan = \<lparr>audit_entry_count = cs_sequence st, audit_segment_count = int (length ?segs),
          audit_allocated_bytes = cs_allocated st, audit_terminal_digest = cs_terminal st\<rparr>"
    using p(1) unfolding validate_chain_iff by blast
  note before = fold_segments_plain[OF st(1)]
  obtain digest where line: "entry_line env d canonical digest" using candidate_entry_line[OF assms(4)] by blast
  obtain a st1 where st1: "cs_sequence st1 = cs_sequence st" "cs_terminal st1 = cs_terminal st"
    "cs_archived_correlations st1 = cs_archived_correlations st" "cs_matching_entry st1 = cs_matching_entry st"
    and chain: "foldE (chain_segment env limits no_query (archive_prefix after)) (initial_chain (archive_prefix after)) (segment_list after)
      = bindE (chain_line env no_query (prefix_head ?a) False st1 canonical) (\<lambda>st2. Inr (st2\<lparr>cs_previous_segment_bytes := a\<rparr>))"
    using published_chain[OF assms(1,3) line st(1) p(4) after_def] by blast
  have same: "archive_prefix after = ?a" by (simp add: after_def published_segments_def Let_def)
  have matching: "cs_matching_entry st1 = JNull" using st1(4) before by (simp add: initial_chain_def)
  have accepts: "if prefix_head ?a = JNull \<or> c \<notin> set (cs_archived_correlations st1)
    then \<exists>st'. chain_line env no_query (prefix_head ?a) False st1 canonical = Inr st' \<and> cs_sequence st' = cs_sequence st1 + 1 \<and>
      cs_terminal st' = digest
    else chain_line env no_query (prefix_head ?a) False st1 canonical =
      Inl (AuditError ''audit correlation appears multiple times across archived/local history'')"
    by (rule chain_line_accepts[OF assms(1) line _ _ matching assms(8)]) (use p(2,3) st(2) st1(1,2) in simp_all)
  have recorded: "prefix_head ?a \<noteq> JNull \<longrightarrow> (c \<in> set (cs_archived_correlations st1) \<longleftrightarrow> records_correlation env ?segs c)"
    using before st1(3) by (simp add: initial_chain_def)
  show ?thesis
  proof (cases "prefix_head ?a = JNull \<or> \<not> records_correlation env ?segs c")
    case True
    then obtain st2 where st2: "chain_line env no_query (prefix_head ?a) False st1 canonical = Inr st2"
      "cs_sequence st2 = cs_sequence st1 + 1" "cs_terminal st2 = digest" using accepts recorded by (auto split: if_splits)
    let ?st3 = "st2\<lparr>cs_previous_segment_bytes := a\<rparr>"
    have fold: "foldE (chain_segment env limits no_query (archive_prefix after)) (initial_chain (archive_prefix after)) (segment_list after)
        = Inr ?st3" unfolding chain st2(1) by simp
    have charged: "sum_list (map seg_allocated_bytes (segment_list after)) \<le> sum_list (map seg_allocated_bytes ?segs) + allocated"
    proof (cases "append_replace plan")
      case True
      then have "?segs \<noteq> []" using plan_targetD[OF p(4)] by simp
      then have "sum_list (map seg_allocated_bytes ?segs) =
          sum_list (map seg_allocated_bytes (butlast ?segs)) + seg_allocated_bytes (last ?segs)" "0 \<le> seg_allocated_bytes (last ?segs)"
        using assms(3) map_last_split(1)[of ?segs seg_allocated_bytes] by (simp_all add: wf_segments_def Let_def)
      then show ?thesis using True by (simp add: after_def published_segments_def Let_def)
    qed (simp add: after_def published_segments_def Let_def)
    have fit: "cs_allocated ?st3 \<le> (if administrator then maximum_administrator_bytes limits else maximum_ordinary_bytes limits)"
      using fold_segments_plain[OF fold] charged before p(5,6) assms(6,7) st(2) unfolding same by simp
    have "0 \<le> maximum_administrator_reserve_bytes limits"
      using assms(2) by (simp add: AuditLimits_post_init_def split: if_splits)
    then have "cs_allocated ?st3 \<le> maximum_administrator_bytes limits"
      using fit by (auto simp: maximum_administrator_bytes_def split: if_splits)
    moreover have "cs_matching_entry ?st3 = JNull" using fold_segments_plain[OF fold] by (simp add: initial_chain_def)
    ultimately have "validate_chain env limits after = Inr \<lparr>audit_entry_count = cs_sequence ?st3,
        audit_segment_count = int (length (segment_list after)), audit_allocated_bytes = cs_allocated ?st3,
        audit_terminal_digest = cs_terminal ?st3\<rparr>"
      using fold unfolding validate_chain_iff by (simp add: previous_tenant_state_transition_def)
    then show ?thesis using True st2 st1 st(2) fit entry_line_facts(7)[OF assms(1) line] by (simp add: admit_capacity_def)
  next
    case False
    then have "foldE (chain_segment env limits no_query (archive_prefix after)) (initial_chain (archive_prefix after)) (segment_list after)
        = Inl (AuditError ''audit correlation appears multiple times across archived/local history'')"
      using accepts recorded unfolding chain by simp
    then show ?thesis using False by (simp add: validate_chain_def validate_chain_records_def)
  qed
qed

lemma append_audit_planned:
  assumes "canonical_candidate env d = Inr (d, canonical)"
    and "plan_audit_append env host limits administrator segments d canonical = Inr plan"
  shows "append_audit env host limits administrator allocated segments d =
    (let resulting = published_segments segments plan allocated in
          (bindE (validate_chain env limits resulting) (\<lambda>state.
           thenE (admit_capacity limits (audit_allocated_bytes state) administrator)
           (bindE (digest_dict (audit_entry_digest env d)) (\<lambda>digest.
            if audit_terminal_digest state \<noteq> digest
            then Inl (AuditError ''audit append did not produce the expected terminal digest'')
            else Inr \<lparr>appended_entry_digest = digest, appended_state = state\<rparr>))), resulting))"
    and "admit_audit_append env host limits administrator segments d = Inr (append_state plan)"
  using assms by (simp_all add: append_audit_def admit_audit_append_def)

lemma published_bytes:
  assumes "wf_segments env segments" "plan_target env limits segments canonical = Inr (append_target_name plan, append_payload plan, append_replace plan)"
  shows "log_bytes (published_segments segments plan allocated) = log_bytes segments @ canonical"
proof (cases "append_replace plan")
  case True
  then obtain data where d: "segment_list segments \<noteq> []" "segment_data env (last (segment_list segments)) = Inr data"
    "append_payload plan = data @ canonical" using plan_targetD[OF assms(2)] by auto
  then have "data = seg_payload (last (segment_list segments))"
    using assms(1) by (simp add: wf_segments_def Let_def segment_data_def)
  moreover have "concat (map seg_payload (segment_list segments)) =
      concat (map seg_payload (butlast (segment_list segments))) @ seg_payload (last (segment_list segments))"
    by (rule map_last_split(2)[OF d(1)])
  ultimately show ?thesis using True d(3) by (simp add: log_bytes_def published_segments_def Let_def)
next
  case False
  then show ?thesis using plan_targetD[OF assms(2)] by (simp add: log_bytes_def published_segments_def Let_def)
qed


text \<open>C19. Once a segment has been archived, admission does not check that the correlation is new: an entry
  that repeats a recorded correlation is admitted, \<^verbatim>\<open>append_audit\<close> writes it and only then raises, and
  every later validation of the written log fails.\<close>

theorem append_repeated_correlation_breaks_chain:
  fixes allocated :: int
  assumes "archive_laws env" "AuditLimits_post_init limits = Inr limits"
    and "read_segments env limits owner md listing = Inr segments"
    and "canonical_candidate env d = Inr (d, canonical)"
    and "plan_audit_append env host limits administrator segments d canonical = Inr plan"
    and "allocation_upper_bound host (int (length (append_payload plan))) = Inr upper" "allocated \<le> upper"
    and "getitem d ''correlationId'' = lit c"
    and "prefix_head (archive_prefix segments) \<noteq> JNull" "records_correlation env (segment_list segments) c"
  shows "admit_audit_append env host limits administrator segments d = Inr (append_state plan) \<and>
    append_audit env host limits administrator allocated segments d =
      (Inl (AuditError ''audit correlation appears multiple times across archived/local history''),
       published_segments segments plan allocated) \<and>
    validate_chain env limits (published_segments segments plan allocated) =
      Inl (AuditError ''audit correlation appears multiple times across archived/local history'')"
  using appended_chain[OF assms(1,2) read_segments_wf[OF assms(3)] assms(4-8) refl] assms(9,10)
  by (simp add: append_audit_planned[OF assms(4,5)])

section \<open>A concrete directory\<close>

text \<open>One local segment holding the first entry of the sample log, behind an archive head.\<close>

definition append_archive :: ArchivePrefix where
  "append_archive = no_archive\<lparr>prefix_head := obj [(''indexCount'', JInt 0)]\<rparr>"

definition append_stat :: stat_result where
  "append_stat = \<lparr>st_mode = S_IFREG + 384, st_ino = 1, st_dev = 1, st_nlink = 1, st_uid = 0, st_gid = 0, st_size = 4,
     st_blocks = 1, st_mtime_ns = 0, st_ctime_ns = 0\<rparr>"

definition append_name :: string where "append_name = ''segment-00000000000000000000.jsonl''"

definition append_listing :: audit_listing where
  "append_listing = \<lparr>listed_archive = Inr append_archive, listed_temporaries = [], first_names = [append_name],
     final_names = [append_name], directory_before = Inr append_stat, directory_between = Inr append_stat,
     directory_after = Inr append_stat, stat_before = (\<lambda>_. Inr append_stat), stat_after = (\<lambda>_. Inr append_stat),
     file_content = (\<lambda>_. Inr [123, 48, 125, 10])\<rparr>"

definition append_segments :: Segments where
  "append_segments = \<lparr>archive_prefix = append_archive, segment_list =
     [\<lparr>seg_number = 0, seg_name = append_name, seg_payload = [123, 48, 125, 10], seg_allocated_bytes = 512, seg_archived = False\<rparr>]\<rparr>"

definition append_host :: audit_host where
  "append_host = \<lparr>host_statvfs = \<lparr>f_bsize = 4096, f_frsize = 4096, f_blocks = 1000, f_bavail = 1000, f_files = 1000,
     f_favail = 1000\<rparr>, host_device = 1, host_now = 0\<rparr>"

definition append_sample_plan :: AuditAppendPlan where
  "append_sample_plan = \<lparr>append_state = \<lparr>audit_entry_count = 1, audit_segment_count = 1, audit_allocated_bytes = 512,
       audit_terminal_digest = log_digest\<rparr>,
     append_target_name = append_name, append_payload = [123, 48, 125, 10, 123, 49, 125, 10], append_replace = True\<rparr>"

lemma append_listing_simps [simp]:
  "listed_archive append_listing = Inr append_archive" "listed_temporaries append_listing = []"
  "first_names append_listing = [append_name]" "final_names append_listing = [append_name]"
  "directory_before append_listing = Inr append_stat" "directory_between append_listing = Inr append_stat"
  "directory_after append_listing = Inr append_stat" "stat_before append_listing name = Inr append_stat"
  "stat_after append_listing name = Inr append_stat" "file_content append_listing name = Inr [123, 48, 125, 10]"
  "st_size append_stat = 4" "st_blocks append_stat = 1"
  by (simp_all add: append_listing_def append_stat_def)

lemma append_archive_simps [simp]:
  "prefix_segments append_archive = []" "prefix_allocated_bytes append_archive = 0"
  "prefix_rotation_intent append_archive = JNull"
  by (simp_all add: append_archive_def no_archive_def)

lemmas audit_limit_defs = DEFAULT_AUDIT_LIMITS_def INITIAL_MAXIMUM_SEGMENT_BYTES_def INITIAL_MAXIMUM_ORDINARY_BYTES_def
  INITIAL_MAXIMUM_ADMINISTRATOR_RESERVE_BYTES_def AUDIT_MEBIBYTE_def maximum_administrator_bytes_def maximum_segments_def
  BLOCK_BYTES_def

lemma append_limits: "AuditLimits_post_init DEFAULT_AUDIT_LIMITS = Inr DEFAULT_AUDIT_LIMITS"
  by (simp add: AuditLimits_post_init_def audit_limit_defs MAX_CANONICAL_BYTES_def)

lemma append_number: "segment_number append_name = Some 0"
  unfolding append_name_def by code_simp

lemma append_metadata: "validate_segment_metadata append_stat 0 384 (maximum_segment_bytes DEFAULT_AUDIT_LIMITS) = Inr ()"
proof -
  have "S_IFMT (st_mode append_stat) = S_IFREG" "S_IMODE (st_mode append_stat) = 384"
    by (simp_all add: append_stat_def S_IFMT_def S_IFREG_def S_IMODE_def)
  then show ?thesis by (simp add: validate_segment_metadata_def append_stat_def audit_limit_defs)
qed

lemma append_read: "read_segments env DEFAULT_AUDIT_LIMITS 0 384 append_listing = Inr append_segments"
proof -
  have names: "segment_names [append_name] [] (maximum_segments DEFAULT_AUDIT_LIMITS) = Inr [append_name]"
    by (simp add: segment_names_def append_name_def audit_limit_defs)
  have step: "inventory_step env DEFAULT_AUDIT_LIMITS 0 384 append_listing append_archive
      \<lparr>inv_segments = [], inv_logical = 0, inv_allocated = 0, inv_previous = None\<rparr> append_name =
      Inr \<lparr>inv_segments = segment_list append_segments, inv_logical = 4, inv_allocated = 512, inv_previous = Some 0\<rparr>"
    unfolding inventory_step_def append_number
    by (simp add: append_metadata thenE_def refuse_audit_def append_segments_def) (simp add: audit_limit_defs)
  show ?thesis
    by (simp add: read_segments_def step names catch_prefix_def thenE_def refuse_audit_def require_pending_local_segment_def append_segments_def)
qed

lemma append_line: "fullmatch UUID7_PATTERN c \<Longrightarrow> entry_line (log_env c) log_first [123, 48, 125, 10] log_digest"
  by (simp add: entry_line_def log_canonical log_digest_def)

definition one_segment :: "ArchivePrefix \<Rightarrow> int \<Rightarrow> Segments" where
  "one_segment archive allocated = \<lparr>archive_prefix = archive, segment_list =
     [\<lparr>seg_number = 0, seg_name = append_name, seg_payload = [123, 48, 125, 10], seg_allocated_bytes = allocated,
       seg_archived = False\<rparr>]\<rparr>"

lemma one_segment_chain:
  assumes "fullmatch UUID7_PATTERN c" "prefix_segments archive = []" "prefix_rotation_intent archive = JNull"
    and "prefix_allocated_bytes archive = 0" "allocated \<le> 4096"
  shows "validate_chain (log_env c) DEFAULT_AUDIT_LIMITS (one_segment archive allocated) =
    Inr \<lparr>audit_entry_count = 1, audit_segment_count = 1, audit_allocated_bytes = allocated, audit_terminal_digest = log_digest\<rparr>"
proof -
  define seg where "seg = hd (segment_list (one_segment archive allocated))"
  let ?st = "(initial_chain archive)\<lparr>cs_allocated := allocated\<rparr>"
  have segs: "segment_list (one_segment archive allocated) = [seg]" "archive_prefix (one_segment archive allocated) = archive"
    by (simp_all add: one_segment_def seg_def)
  have sealed: "sealed_descriptor (log_env c) archive (seg_number seg) = Inr JNull"
    by (simp add: sealed_descriptor_def assms(2,3))
  obtain st' where st': "chain_line (log_env c) no_query (prefix_head archive) False ?st [123, 48, 125, 10] = Inr st'"
    "cs_sequence st' = 1" "cs_terminal st' = log_digest"
    using chain_line_accepts[OF log_laws append_line[OF assms(1)], of ?st sample_tenant "prefix_head archive"] log_items
    by (auto simp: initial_chain_def)
  then have frame: "cs_matching_entry st' = JNull" "cs_allocated st' = allocated"
    using chain_line_plain[OF st'(1)] by (simp_all add: plain_step_def initial_chain_def)
  have "chain_segment (log_env c) DEFAULT_AUDIT_LIMITS no_query archive (initial_chain archive) seg
      = Inr (st'\<lparr>cs_previous_segment_bytes := Some 4\<rparr>)"
    unfolding chain_segment_unsealed[OF sealed] using st'
    by (simp add: segment_data_def seg_def one_segment_def initial_chain_def assms(4))
  moreover have "maximum_administrator_bytes DEFAULT_AUDIT_LIMITS = 142606336" by (simp add: audit_limit_defs)
  ultimately show ?thesis using frame st'(2,3) assms(5)
    by (simp add: validate_chain_iff segs previous_tenant_state_transition_def)
qed

lemma append_chain:
  assumes "fullmatch UUID7_PATTERN c"
  shows "validate_chain (log_env c) DEFAULT_AUDIT_LIMITS append_segments = Inr (append_state append_sample_plan)"
  using one_segment_chain[OF assms, of append_archive 512]
  by (simp add: one_segment_def append_segments_def append_sample_plan_def)

lemma append_candidate:
  assumes "fullmatch UUID7_PATTERN c"
  shows "canonical_candidate (log_env c) (log_second c) = Inr (log_second c, [123, 49, 125, 10])"
proof -
  obtain kind where "validated_contract (log_env c) (log_second c) (Some AUDIT_ENTRY) = Inr (kind, [123, 49, 125, 10])"
    using log_canonical(2)[OF assms] by (auto simp: canonical_audit_entry_def bindE_Inr_iff thenE_Inr)
  then have "validate_contract (log_env c) (log_second c) (Some AUDIT_ENTRY) = Inr kind"
    "canonical_json_bytes (dumps (env_codec (log_env c))) (log_second c) MAX_CANONICAL_BYTES = Inr [123, 49, 125, 10]"
    by (auto simp: validate_contract_iff validated_contract_iff)
  then show ?thesis using log_values(4) by (simp add: canonical_candidate_def thenE_def)
qed

lemma append_planned:
  assumes "fullmatch UUID7_PATTERN c"
  shows "plan_audit_append (log_env c) append_host DEFAULT_AUDIT_LIMITS True append_segments (log_second c) [123, 49, 125, 10]
     = Inr append_sample_plan"
proof -
  have "plan_target (log_env c) DEFAULT_AUDIT_LIMITS append_segments [123, 49, 125, 10] =
      Inr (append_name, append_payload append_sample_plan, True)"
    by (simp add: plan_target_def append_segments_def segment_data_def append_sample_plan_def audit_limit_defs)
  moreover have "maximum_administrator_bytes DEFAULT_AUDIT_LIMITS = 142606336" by (simp add: audit_limit_defs)
  ultimately show ?thesis
    by (simp add: plan_audit_append_def append_chain[OF assms] append_sample_plan_def log_items thenE_def refuse_audit_def
        neqE_def allocation_upper_bound_def namespace_allocation_upper_bound_def append_host_def admit_capacity_def)
qed

lemma append_bound: "allocation_upper_bound append_host (int (length (append_payload append_sample_plan))) = Inr 4096"
  by (simp add: allocation_upper_bound_def append_host_def append_sample_plan_def)

lemma append_head: "prefix_head (archive_prefix append_segments) \<noteq> JNull"
  by (simp add: append_segments_def append_archive_def obj_def)

lemma append_records: "records_correlation (log_env c) (segment_list append_segments) w \<longleftrightarrow> w = sample_tenant"
  using log_items(3) log_decode(1)[of MAX_CANONICAL_BYTES c]
  by (auto simp: records_correlation_def append_segments_def segment_data_def line_records_def MAX_CANONICAL_BYTES_def)

lemma sample_tenant_uuid: "fullmatch UUID7_PATTERN sample_tenant"
  unfolding sample_tenant_def by code_simp


theorem append_repeated_correlation_breaks_chain_witness:
  "admit_audit_append (log_env sample_tenant) append_host DEFAULT_AUDIT_LIMITS True append_segments (log_second sample_tenant)
     = Inr (append_state append_sample_plan) \<and>
   validate_chain (log_env sample_tenant) DEFAULT_AUDIT_LIMITS (published_segments append_segments append_sample_plan 512) =
     Inl (AuditError ''audit correlation appears multiple times across archived/local history'')"
  using append_repeated_correlation_breaks_chain[OF log_laws append_limits append_read append_candidate[OF sample_tenant_uuid]
      append_planned[OF sample_tenant_uuid] append_bound _ log_items(6) append_head, of 512] append_records[of sample_tenant sample_tenant]
  by simp



end
