(* ===== verification/Durable.thy ===== *)
theory Durable
  imports Audit_Chain "HOL-Library.Sublist"
begin

text \<open>
  Model of \<^verbatim>\<open>static_host_agent/durable.py\<close>: the state root as a tree of inodes addressed by fixed
  relative components, and the descriptor-relative operations on it. An inode carries the metadata
  \<^verbatim>\<open>fstat\<close> reports. A publication is atomic: after a crash the old or the new record is there, and
  perhaps a temporary the next scan removes. Because every caller holds the tenant-state lock, two
  readings of an inode within one operation agree, so the checks that an inode did not change while
  it was read always pass.
\<close>

section \<open>Computations over a state\<close>

text \<open>A computation that may raise and changes a state: what was changed before a raise remains.\<close>

type_synonym ('s, 'a) tx = "'s \<Rightarrow> 'a py \<times> 's"

definition liftT :: "'a py \<Rightarrow> ('s, 'a) tx" where
  "liftT m = (\<lambda>s. (m, s))"

definition readT :: "('s \<Rightarrow> 'a py) \<Rightarrow> ('s, 'a) tx" where
  "readT f = (\<lambda>s. (f s, s))"

definition bindT :: "('s, 'a) tx \<Rightarrow> ('a \<Rightarrow> ('s, 'b) tx) \<Rightarrow> ('s, 'b) tx" where
  "bindT m f = (\<lambda>s. case m s of (Inl e, s') \<Rightarrow> (Inl e, s') | (Inr x, s') \<Rightarrow> f x s')"

definition thenT :: "('s, 'a) tx \<Rightarrow> ('s, 'b) tx \<Rightarrow> ('s, 'b) tx" where
  "thenT m n = bindT m (\<lambda>_. n)"

text \<open>A loop over a sequence.\<close>

fun foldT :: "('a \<Rightarrow> 'b \<Rightarrow> ('s, 'a) tx) \<Rightarrow> 'a \<Rightarrow> 'b list \<Rightarrow> ('s, 'a) tx" where
  "foldT f a [] = liftT (Inr a)"
| "foldT f a (x # xs) = bindT (f a x) (\<lambda>b. foldT f b xs)"

named_theorems tx_simps \<open>what a computation over a state that raised nothing did\<close>

lemma liftT_iff [tx_simps]: "liftT m s = (Inr x, s') \<longleftrightarrow> m = Inr x \<and> s' = s"
  by (auto simp: liftT_def)

lemma readT_iff [tx_simps]: "readT f s = (Inr x, s') \<longleftrightarrow> f s = Inr x \<and> s' = s"
  by (auto simp: readT_def)

lemma bindT_iff [tx_simps]:
  "bindT m f s = (Inr y, s') \<longleftrightarrow> (\<exists>x t. m s = (Inr x, t) \<and> f x t = (Inr y, s'))"
  by (auto simp: bindT_def split: prod.splits sum.splits)

lemma thenT_iff [tx_simps]:
  "thenT m n s = (Inr y, s') \<longleftrightarrow> (\<exists>x t. m s = (Inr x, t) \<and> n t = (Inr y, s'))"
  by (simp add: thenT_def bindT_iff)

text \<open>The state a computation leaves, whether it raised or not.\<close>

definition leaves :: "('s \<Rightarrow> 's \<Rightarrow> bool) \<Rightarrow> ('s, 'a) tx \<Rightarrow> bool" where
  "leaves R m \<longleftrightarrow> (\<forall>s. R s (snd (m s)))"

lemma leaves_lift: "reflp R \<Longrightarrow> leaves R (liftT m)"
  by (simp add: leaves_def liftT_def reflp_def)

lemma leaves_read: "reflp R \<Longrightarrow> leaves R (readT f)"
  by (simp add: leaves_def readT_def reflp_def)

lemma leaves_bind:
  assumes "transp R" "leaves R m" "\<And>x. leaves R (f x)"
  shows "leaves R (bindT m f)"
  using assms unfolding leaves_def bindT_def
  by (auto split: prod.splits sum.splits) (metis snd_conv transpD)+

lemma leaves_then: "transp R \<Longrightarrow> leaves R m \<Longrightarrow> leaves R n \<Longrightarrow> leaves R (thenT m n)"
  by (simp add: thenT_def leaves_bind)

lemma leaves_fold:
  assumes "reflp R" "transp R" "\<And>a x. leaves R (f a x)"
  shows "leaves R (foldT f a xs)"
  by (induction xs arbitrary: a) (auto simp: leaves_lift[OF assms(1)] intro!: leaves_bind[OF assms(2)] assms(3))

section \<open>Inodes\<close>

definition S_IFLNK :: nat where "S_IFLNK = 0xA000"

datatype inode = Directory stat_result | Entry bytes stat_result

fun inode_stat :: "inode \<Rightarrow> stat_result" where
  "inode_stat (Directory st) = st"
| "inode_stat (Entry data st) = st"

text \<open>
  The tree, with the number of inodes created so far. The configuration names the expected owner
  and modes, the identity of the process, and the inode number, device, block count and times the
  system gives to the next inode created.
\<close>

record state_root =
  root_nodes :: "(string list, inode) fmap"
  root_created :: nat

record state_policy =
  expected_owner :: int
  expected_directory_mode :: nat
  expected_record_mode :: nat
  process_uid :: int
  fresh_stat :: "nat \<Rightarrow> stat_result"

definition TEMP_NAME_PREFIX :: string where "TEMP_NAME_PREFIX = ''.ldp-state-''"

definition temp_name_pattern :: "string \<Rightarrow> bool" where
  "temp_name_pattern name \<longleftrightarrow>
     length name = 43 \<and> take 11 name = TEMP_NAME_PREFIX \<and> list_all is_lower_hex (drop 11 name)"

definition validate_components :: "string list \<Rightarrow> unit py" where
  "validate_components components =
     (if components = [] then Inl (StatePathError ''a state path must contain at least one component'')
      else if list_ex (\<lambda>c. c = [] \<or> c = ''.'' \<or> c = ''..'' \<or> CHR ''/'' \<in> set c \<or> CHR 0x00 \<in> set c) components
      then Inl (StatePathError ''state paths must contain fixed relative components'')
      else Inr ())"

definition validate_regular_state_file :: "state_policy \<Rightarrow> stat_result \<Rightarrow> unit py" where
  "validate_regular_state_file policy metadata =
     (if S_IFMT (st_mode metadata) \<noteq> S_IFREG then Inl (StatePathError ''state object is not a regular file'')
      else if st_uid metadata \<noteq> expected_owner policy then Inl (StatePathError ''state object has an unexpected owner'')
      else if S_IMODE (st_mode metadata) \<noteq> expected_record_mode policy
      then Inl (StatePathError ''state object has an unexpected mode'')
      else if st_nlink metadata \<noteq> 1 then Inl (StatePathError ''state object must have exactly one link'')
      else Inr ())"

definition validate_state_directory :: "state_policy \<Rightarrow> stat_result \<Rightarrow> unit py" where
  "validate_state_directory policy metadata =
     (if S_IFMT (st_mode metadata) \<noteq> S_IFDIR then Inl (StatePathError ''state path component is not a directory'')
      else if st_uid metadata \<noteq> expected_owner policy then Inl (StatePathError ''state directory has an unexpected owner'')
      else if S_IMODE (st_mode metadata) \<noteq> expected_directory_mode policy
      then Inl (StatePathError ''state directory has an unexpected mode'')
      else Inr ())"

definition state_file_generation :: "stat_result \<Rightarrow> int list" where
  "state_file_generation metadata =
     [st_dev metadata, st_ino metadata, st_size metadata, st_mtime_ns metadata, st_ctime_ns metadata]"

section \<open>Opening\<close>

definition open_component :: "state_policy \<Rightarrow> state_root \<Rightarrow> string list \<Rightarrow> string \<Rightarrow> string list py" where
  "open_component policy root opened component =
     (case fmlookup (root_nodes root) (opened @ [component]) of
        None \<Rightarrow> Inl FileNotFoundError
      | Some (Entry data st) \<Rightarrow> Inl (StatePathError ''state path traverses a non-directory or link'')
      | Some (Directory st) \<Rightarrow> thenE (validate_state_directory policy st) (Inr (opened @ [component])))"

definition open_directory :: "state_policy \<Rightarrow> state_root \<Rightarrow> string list \<Rightarrow> string list py" where
  "open_directory policy root components =
     thenE (if components = [] then Inr () else validate_components components)
     (case fmlookup (root_nodes root) [] of
        Some (Directory st) \<Rightarrow>
          thenE (validate_state_directory policy st) (foldE (open_component policy root) [] components)
      | _ \<Rightarrow> Inl (StatePathError ''state path component is not a directory''))"

definition open_descendant :: "state_policy \<Rightarrow> state_root \<Rightarrow> string list \<Rightarrow> string list py" where
  "open_descendant policy root components =
     (if components = [] then Inl (StatePathError ''a descendant directory path must not be empty'')
      else open_directory policy root components)"

definition open_parent :: "state_policy \<Rightarrow> state_root \<Rightarrow> string list \<Rightarrow> unit py" where
  "open_parent policy root components =
     thenE (validate_components components) (thenE (open_directory policy root (butlast components)) (Inr ()))"

section \<open>Reading\<close>

definition open_regular :: "state_policy \<Rightarrow> state_root \<Rightarrow> string list \<Rightarrow> (bytes \<times> stat_result) py" where
  "open_regular policy root components =
     thenE (open_parent policy root components)
     (case fmlookup (root_nodes root) components of
        None \<Rightarrow> Inl FileNotFoundError
      | Some (Directory st) \<Rightarrow> thenE (validate_regular_state_file policy st) (Inr ([], st))
      | Some (Entry data st) \<Rightarrow>
          if S_IFMT (st_mode st) = S_IFLNK
          then Inl (StatePathError ''state path does not end in a no-follow regular file'')
          else thenE (validate_regular_state_file policy st) (Inr (data, st)))"

definition read_bounded :: "bytes \<Rightarrow> nat \<Rightarrow> int \<Rightarrow> bytes py" where
  "read_bounded data maximum_bytes expected_size =
     (if length data > maximum_bytes then Inl (StatePathError ''state object exceeds its read limit'')
      else if int (length data) \<noteq> expected_size then Inl (StatePathError ''state object size changed while it was read'')
      else Inr data)"

definition read_regular :: "state_policy \<Rightarrow> state_root \<Rightarrow> string list \<Rightarrow> nat \<Rightarrow> bytes py" where
  "read_regular policy root components maximum_bytes =
     bindE (open_regular policy root components) (\<lambda>(data, st).
     if st_size st > int maximum_bytes then Inl (StatePathError ''state object exceeds its read limit'')
     else read_bounded data maximum_bytes (st_size st))"

definition regular_allocation :: "state_policy \<Rightarrow> state_root \<Rightarrow> string list \<Rightarrow> int py" where
  "regular_allocation policy root components =
     bindE (open_regular policy root components) (\<lambda>(data, st). Inr (st_blocks st * BLOCK_BYTES))"

definition regular_metadata_generation :: "state_policy \<Rightarrow> state_root \<Rightarrow> string list \<Rightarrow> int list py" where
  "regular_metadata_generation policy root components =
     bindE (open_regular policy root components) (\<lambda>(data, st). Inr (state_file_generation st))"

section \<open>Publishing and removing\<close>

definition new_entry :: "state_policy \<Rightarrow> nat \<Rightarrow> bytes \<Rightarrow> inode" where
  "new_entry policy n data =
     Entry data ((fresh_stat policy n)\<lparr>st_mode := S_IFREG OR expected_record_mode policy, st_uid := process_uid policy,
       st_nlink := 1, st_size := int (length data)\<rparr>)"

definition publish :: "state_policy \<Rightarrow> state_root \<Rightarrow> string list \<Rightarrow> bytes \<Rightarrow> state_root" where
  "publish policy root components data =
     \<lparr>root_nodes = fmupd components (new_entry policy (root_created root) data) (root_nodes root),
      root_created = root_created root + 1\<rparr>"

definition durable_create_immutable :: "state_policy \<Rightarrow> string list \<Rightarrow> bytes \<Rightarrow> (state_root, unit) tx" where
  "durable_create_immutable policy components data = (\<lambda>root.
     case open_parent policy root components of
       Inl e \<Rightarrow> (Inl e, root)
     | Inr _ \<Rightarrow>
         if components |\<in>| fmdom (root_nodes root)
         then (Inl (StateAlreadyExistsError ''immutable state record already exists''), root)
         else (Inr (), publish policy root components data))"

definition durable_replace :: "state_policy \<Rightarrow> string list \<Rightarrow> bytes \<Rightarrow> (state_root, unit) tx" where
  "durable_replace policy components data = (\<lambda>root.
     case open_parent policy root components of
       Inl e \<Rightarrow> (Inl e, root)
     | Inr _ \<Rightarrow>
         case fmlookup (root_nodes root) components of
           Some (Directory st) \<Rightarrow> (Inl (OSError ''is a directory''), root)
         | _ \<Rightarrow> (Inr (), publish policy root components data))"

definition durable_remove :: "state_policy \<Rightarrow> string list \<Rightarrow> bool \<Rightarrow> (state_root, unit) tx" where
  "durable_remove policy components missing_ok = (\<lambda>root.
     case open_parent policy root components of
       Inl e \<Rightarrow> (Inl e, root)
     | Inr _ \<Rightarrow>
         case fmlookup (root_nodes root) components of
           None \<Rightarrow> (if missing_ok then Inr () else Inl FileNotFoundError, root)
         | Some (Directory st) \<Rightarrow> (Inl (OSError ''is a directory''), root)
         | Some (Entry data st) \<Rightarrow> (Inr (), root\<lparr>root_nodes := fmdrop components (root_nodes root)\<rparr>))"

section \<open>Directory scans\<close>

text \<open>\<^verbatim>\<open>os.scandir\<close>: the names directly below an opened directory, here in sorted order.\<close>

definition scandir :: "state_root \<Rightarrow> string list \<Rightarrow> string list" where
  "scandir root directory =
     sorted_list_of_fset (fimage last (ffilter (\<lambda>p. p \<noteq> [] \<and> butlast p = directory) (fmdom (root_nodes root))))"

definition stat_of :: "state_root \<Rightarrow> string list \<Rightarrow> stat_result py" where
  "stat_of root components =
     (case fmlookup (root_nodes root) components of None \<Rightarrow> Inl FileNotFoundError | Some n \<Rightarrow> Inr (inode_stat n))"

definition validate_temporary :: "state_policy \<Rightarrow> state_root \<Rightarrow> string list \<Rightarrow> string \<Rightarrow> unit py" where
  "validate_temporary policy root directory name =
     (if \<not> temp_name_pattern name then Inl (StatePathError ''reserved temporary name has an invalid shape'')
      else bindE (stat_of root (directory @ [name])) (\<lambda>metadata.
        if S_IFMT (st_mode metadata) \<noteq> S_IFREG \<or> st_uid metadata \<noteq> expected_owner policy
           \<or> S_IMODE (st_mode metadata) \<noteq> expected_record_mode policy \<or> st_nlink metadata \<noteq> 1
        then Inl (StatePathError ''reserved temporary has an unsafe inode shape'')
        else Inr ()))"

definition publication_temporaries :: "state_policy \<Rightarrow> state_root \<Rightarrow> string list \<Rightarrow> nat \<Rightarrow> string list py" where
  "publication_temporaries policy root directory maximum =
     (if length (scandir root directory) > maximum
      then Inl (StatePathError ''state directory exceeds its temporary recovery ceiling'')
      else
        let names = filter (\<lambda>name. take 11 name = TEMP_NAME_PREFIX) (scandir root directory) in
        thenE (traverseE (validate_temporary policy root directory) names) (Inr names))"

definition remove_abandoned_publication_temporaries ::
    "state_policy \<Rightarrow> string list \<Rightarrow> nat \<Rightarrow> (state_root, nat) tx" where
  "remove_abandoned_publication_temporaries policy directory maximum = (\<lambda>root.
     case publication_temporaries policy root directory maximum of
       Inl e \<Rightarrow> (Inl e, root)
     | Inr names \<Rightarrow> (Inr (length names),
         root\<lparr>root_nodes := fmdrop_set (set (map (\<lambda>name. directory @ [name]) names)) (root_nodes root)\<rparr>))"

section \<open>Laws of the tree\<close>

text \<open>A reading of a path depends on the inodes on the way to it only.\<close>

definition same_along :: "state_root \<Rightarrow> state_root \<Rightarrow> string list \<Rightarrow> bool" where
  "same_along root root' components \<longleftrightarrow>
     (\<forall>q. prefix q components \<longrightarrow> fmlookup (root_nodes root) q = fmlookup (root_nodes root') q)"

lemma same_alongD: "same_along root root' c \<Longrightarrow> prefix q c \<Longrightarrow> fmlookup (root_nodes root) q = fmlookup (root_nodes root') q"
  by (simp add: same_along_def)

lemma open_components_cong:
  assumes "same_along root root' (opened @ cs)"
  shows "foldE (open_component policy root) opened cs = foldE (open_component policy root') opened cs"
  using assms
proof (induction cs arbitrary: opened)
  case (Cons c cs)
  have "fmlookup (root_nodes root) (opened @ [c]) = fmlookup (root_nodes root') (opened @ [c])"
    by (rule same_alongD[OF Cons.prems]) simp
  then have step: "open_component policy root opened c = open_component policy root' opened c"
    by (simp add: open_component_def)
  have opened: "open_component policy root' opened c = Inr o' \<Longrightarrow> o' = opened @ [c]" for o'
    by (auto simp: open_component_def thenE_Inr split: option.splits inode.splits)
  have "foldE (open_component policy root) (opened @ [c]) cs = foldE (open_component policy root') (opened @ [c]) cs"
    using Cons.prems by (intro Cons.IH) simp
  then show ?case using step opened by (cases "open_component policy root' opened c") auto
qed simp

lemma open_directory_cong:
  assumes "same_along root root' c"
  shows "open_directory policy root c = open_directory policy root' c"
proof -
  have "fmlookup (root_nodes root) [] = fmlookup (root_nodes root') []" by (rule same_alongD[OF assms]) simp
  moreover have "foldE (open_component policy root) [] c = foldE (open_component policy root') [] c"
    using assms by (intro open_components_cong) simp
  ultimately show ?thesis unfolding open_directory_def by presburger
qed

lemma same_along_prefix: "same_along root root' c \<Longrightarrow> prefix q c \<Longrightarrow> same_along root root' q"
  by (meson prefix_order.trans same_along_def)

lemma prefix_butlast: "prefix (butlast c) c"
  by (metis append_butlast_last_id butlast.simps(1) prefixI prefix_order.refl)

lemma open_parent_cong: "same_along root root' c \<Longrightarrow> open_parent policy root c = open_parent policy root' c"
  by (simp add: open_parent_def open_directory_cong[OF same_along_prefix[OF _ prefix_butlast]])

lemma open_regular_cong: "same_along root root' c \<Longrightarrow> open_regular policy root c = open_regular policy root' c"
  by (simp add: open_regular_def open_parent_cong[of root root' c] same_alongD[of root root' c c])

lemma read_regular_cong: "same_along root root' c \<Longrightarrow> read_regular policy root c n = read_regular policy root' c n"
  by (simp add: read_regular_def open_regular_cong[of root root' c])

lemma same_along_refl [simp]: "same_along root root c"
  by (simp add: same_along_def)

lemma same_along_trans: "same_along a b c \<Longrightarrow> same_along b d c \<Longrightarrow> same_along a d c"
  by (simp add: same_along_def)

lemma same_along_sym: "same_along a b c \<Longrightarrow> same_along b a c"
  by (simp add: same_along_def)

text \<open>What publishing and removing change.\<close>

definition unlink :: "state_root \<Rightarrow> string list \<Rightarrow> state_root" where
  "unlink root components = root\<lparr>root_nodes := fmdrop components (root_nodes root)\<rparr>"

lemma same_along_publish: "\<not> prefix c q \<Longrightarrow> same_along root (publish policy root c data) q"
  by (auto simp: same_along_def publish_def)

lemma same_along_unlink: "\<not> prefix c q \<Longrightarrow> same_along root (unlink root c) q"
  by (auto simp: same_along_def unlink_def)

text \<open>A policy under which the process owns what it creates and its record mode is a permission.\<close>

definition policy_ok :: "state_policy \<Rightarrow> bool" where
  "policy_ok policy \<longleftrightarrow> process_uid policy = expected_owner policy \<and> expected_record_mode policy < 0x200
     \<and> expected_directory_mode policy < 0x200"

lemma mode_bits:
  fixes md :: nat
  assumes "md < 0x200"
  shows "S_IFMT (S_IFREG OR md) = S_IFREG" "S_IMODE (S_IFREG OR md) = md"
    "S_IFMT (S_IFDIR OR md) = S_IFDIR" "S_IMODE (S_IFDIR OR md) = md"
proof -
  have md: "take_bit 9 md = md" using assms by (simp add: take_bit_nat_eq_self)
  then have low: "bit md n \<Longrightarrow> n < 9" for n by (metis bit_take_bit_iff)
  have eqs: "(0xF000 :: nat) = push_bit 12 (mask 4)" "(0xFFF :: nat) = mask 12" "S_IFREG = 2 ^ 15" "S_IFDIR = 2 ^ 14"
    by (simp_all add: push_bit_eq_mult mask_eq_exp_minus_1 S_IFREG_def S_IFDIR_def)
  have positions: "bit (0xF000 :: nat) n \<longleftrightarrow> 12 \<le> n \<and> n < 16" "bit (0xFFF :: nat) n \<longleftrightarrow> n < 12"
    "bit S_IFREG n \<longleftrightarrow> n = 15" "bit S_IFDIR n \<longleftrightarrow> n = 14" for n
    unfolding eqs bit_push_bit_iff bit_mask_iff bit_exp_iff possible_bit_def by auto
  note bits = positions bit_or_iff bit_and_iff
  show "S_IFMT (S_IFREG OR md) = S_IFREG"
    unfolding S_IFMT_def by (rule bit_eqI) (auto simp: bits dest: low)
  show "S_IFMT (S_IFDIR OR md) = S_IFDIR"
    unfolding S_IFMT_def by (rule bit_eqI) (auto simp: bits dest: low)
  show "S_IMODE (S_IFREG OR md) = md"
    unfolding S_IMODE_def by (rule bit_eqI) (auto simp: bits dest: low)
  show "S_IMODE (S_IFDIR OR md) = md"
    unfolding S_IMODE_def by (rule bit_eqI) (auto simp: bits dest: low)
qed

lemma read_published:
  assumes policy: "policy_ok policy" and parent: "open_parent policy root c = Inr ()"
    and c: "c \<noteq> []" and size: "length data \<le> n"
  shows "read_regular policy (publish policy root c data) c n = Inr data"
proof -
  let ?r = "publish policy root c data"
  have "same_along root ?r (butlast c)"
    using c by (intro same_along_publish) (metis append_butlast_last_id not_Cons_self2 prefix_order.antisym prefixI same_append_eq append_Nil2 prefix_butlast)
  then have "open_parent policy ?r c = Inr ()"
    using parent by (simp add: open_parent_def open_directory_cong[of root ?r "butlast c"])
  moreover have "fmlookup (root_nodes ?r) c = Some (new_entry policy (root_created root) data)"
    by (simp add: publish_def)
  ultimately show ?thesis
    using policy size mode_bits[of "expected_record_mode policy"]
    by (simp add: read_regular_def open_regular_def new_entry_def validate_regular_state_file_def thenE_def policy_ok_def
        read_bounded_def S_IFLNK_def S_IFREG_def)
qed

lemma read_unlinked:
  assumes "open_parent policy root c = Inr ()" "c \<noteq> []"
  shows "read_regular policy (unlink root c) c n = Inl FileNotFoundError"
proof -
  let ?r = "unlink root c"
  have "same_along root ?r (butlast c)"
    using assms(2) by (intro same_along_unlink) (metis append_butlast_last_id not_Cons_self2 prefix_order.antisym prefixI same_append_eq append_Nil2 prefix_butlast)
  then have "open_parent policy ?r c = Inr ()"
    using assms by (simp add: open_parent_def open_directory_cong[of root ?r "butlast c"])
  then show ?thesis by (simp add: read_regular_def open_regular_def unlink_def thenE_def)
qed

lemma durable_replace_iff [tx_simps]:
  "durable_replace policy c data root = (Inr (), root') \<longleftrightarrow>
     open_parent policy root c = Inr () \<and> (\<forall>st. fmlookup (root_nodes root) c \<noteq> Some (Directory st)) \<and>
     root' = publish policy root c data"
  by (auto simp: durable_replace_def split: sum.splits option.splits inode.splits)

lemma durable_create_iff [tx_simps]:
  "durable_create_immutable policy c data root = (Inr (), root') \<longleftrightarrow>
     open_parent policy root c = Inr () \<and> fmlookup (root_nodes root) c = None \<and> root' = publish policy root c data"
  by (auto simp: durable_create_immutable_def fmdom_notI fmlookup_dom_iff split: sum.splits)

lemma durable_remove_iff [tx_simps]:
  "durable_remove policy c False root = (Inr (), root') \<longleftrightarrow>
     open_parent policy root c = Inr () \<and> (\<exists>data st. fmlookup (root_nodes root) c = Some (Entry data st)) \<and>
     root' = unlink root c"
  by (auto simp: durable_remove_def unlink_def split: sum.splits option.splits inode.splits)

lemma durable_error:
  "durable_replace policy c data root = (Inl e, root') \<Longrightarrow> root' = root"
  "durable_create_immutable policy c data root = (Inl e, root') \<Longrightarrow> root' = root"
  "durable_remove policy c missing root = (Inl e, root') \<Longrightarrow> root' = root"
  by (auto simp: durable_replace_def durable_create_immutable_def durable_remove_def
      split: sum.splits option.splits inode.splits if_splits)

lemma open_parent_nonempty: "open_parent policy root c = Inr () \<Longrightarrow> c \<noteq> []"
  by (auto simp: open_parent_def thenE_Inr validate_components_def)

end
