(* ===== verification/State_Inventory.thy ===== *)
theory State_Inventory
  imports Durable
begin

text \<open>
  Model of \<^verbatim>\<open>static_host_agent/state_inventory.py\<close>: the bounded inventories of tenants,
  authorization records and intents, measured from the fixed directories of the state root, and the
  admission of growth against the committed ceilings.
\<close>

section \<open>Limits, inventories and reservations\<close>

definition INITIAL_MAXIMUM_AUTHORIZATION_ALLOCATED_BYTES :: int where
  "INITIAL_MAXIMUM_AUTHORIZATION_ALLOCATED_BYTES = 64 * (1024 * 1024)"
definition INITIAL_MAXIMUM_INTENT_RECORDS :: int where "INITIAL_MAXIMUM_INTENT_RECORDS = 2"
definition AUTHORIZATION_DIRECTORIES :: "string list" where
  "AUTHORIZATION_DIRECTORIES = [''correlations'', ''jobs'', ''results'']"

record StateInventoryLimits =
  maximum_tenants :: int
  maximum_authorization_records :: int
  maximum_authorization_allocated_bytes :: int

definition StateInventoryLimits_post_init :: "StateInventoryLimits \<Rightarrow> StateInventoryLimits py" where
  "StateInventoryLimits_post_init l =
     (if list_ex (\<lambda>v. v < 0) [maximum_tenants l, maximum_authorization_records l, maximum_authorization_allocated_bytes l]
      then Inl (ValueError ''state-inventory limits must be nonnegative integers'')
      else if maximum_tenants l > int MAXIMUM_TENANTS
           \<or> maximum_authorization_records l > MAXIMUM_AUTHORIZATION_RECORDS
           \<or> maximum_authorization_allocated_bytes l > INITIAL_MAXIMUM_AUTHORIZATION_ALLOCATED_BYTES
      then Inl (ValueError ''state-inventory limits cannot weaken the committed M3 boundaries'')
      else Inr l)"

definition DEFAULT_STATE_INVENTORY_LIMITS :: StateInventoryLimits where
  "DEFAULT_STATE_INVENTORY_LIMITS = \<lparr>maximum_tenants = int MAXIMUM_TENANTS,
     maximum_authorization_records = MAXIMUM_AUTHORIZATION_RECORDS,
     maximum_authorization_allocated_bytes = INITIAL_MAXIMUM_AUTHORIZATION_ALLOCATED_BYTES\<rparr>"

definition require_sorted_unique :: "string list \<Rightarrow> string \<Rightarrow> unit py" where
  "require_sorted_unique identifiers msg =
     (if identifiers \<noteq> sort (remdups identifiers) then Inl (StateInventoryError msg) else Inr ())"

text \<open>\<^verbatim>\<open>any(validate_uuid7(value) != value for value in identifiers)\<close>; the validator returns what it accepts.\<close>

definition require_canonical_ids :: "string list \<Rightarrow> string \<Rightarrow> string \<Rightarrow> unit py" where
  "require_canonical_ids identifiers noncanonical invalid =
     catch_contract (StateInventoryError invalid)
       (bindE (anyE (map (\<lambda>v. testE (\<lambda>c. c \<noteq> v) (validate_uuid7 (JStr v))) identifiers)) (\<lambda>bad.
        if bad then Inl (StateInventoryError noncanonical) else Inr ()))"

record StateInventory =
  tenant_ids :: "string list"
  authorization_jobs :: int
  authorization_results :: int
  authorization_correlations :: int
  authorization_allocated_bytes :: int

definition StateInventory_post_init :: "StateInventory \<Rightarrow> StateInventory py" where
  "StateInventory_post_init i =
     thenE (require_sorted_unique (tenant_ids i) ''tenant inventory must contain sorted unique identities'')
     (thenE (require_canonical_ids (tenant_ids i) ''tenant inventory contains a noncanonical identity''
               ''tenant inventory contains an invalid identity'')
      (if list_ex (\<lambda>v. v < 0) [authorization_jobs i, authorization_results i, authorization_correlations i,
            authorization_allocated_bytes i]
       then Inl (StateInventoryError ''state inventory counts must be nonnegative integers'')
       else Inr i))"

definition tenant_count :: "StateInventory \<Rightarrow> int" where
  "tenant_count i = int (length (tenant_ids i))"

definition authorization_record_count :: "StateInventory \<Rightarrow> int" where
  "authorization_record_count i = authorization_jobs i + authorization_results i + authorization_correlations i"

record StateInventoryReservation =
  reserved_tenants :: int
  reserved_authorization_records :: int
  reserved_authorization_bytes :: int

definition StateInventoryReservation_post_init :: "StateInventoryReservation \<Rightarrow> StateInventoryReservation py" where
  "StateInventoryReservation_post_init r =
     (if list_ex (\<lambda>v. v < 0) [reserved_tenants r, reserved_authorization_records r, reserved_authorization_bytes r]
      then Inl (ValueError ''state-inventory reservation must be nonnegative'')
      else Inr r)"

record StateInventoryProjection =
  projected_tenants :: int
  projected_authorization_records :: int
  projected_authorization_bytes :: int

record AuthorizationRecordInventory =
  job_ids :: "string list"
  result_ids :: "string list"
  correlation_ids :: "string list"
  authorization_bytes :: int

definition AuthorizationRecordInventory_post_init :: "AuthorizationRecordInventory \<Rightarrow> AuthorizationRecordInventory py" where
  "AuthorizationRecordInventory_post_init i =
     thenE (traverseE (\<lambda>identifiers.
              thenE (require_sorted_unique identifiers ''authorization inventory must contain sorted unique identities'')
                (require_canonical_ids identifiers ''authorization inventory contains a noncanonical identity''
                   ''authorization inventory contains an invalid identity''))
            [job_ids i, result_ids i, correlation_ids i])
     (if authorization_bytes i < 0
      then Inl (StateInventoryError ''authorization inventory allocation must be a nonnegative integer'')
      else Inr i)"

definition authorization_inventory_count :: "AuthorizationRecordInventory \<Rightarrow> int" where
  "authorization_inventory_count i = int (length (job_ids i) + length (result_ids i) + length (correlation_ids i))"

record IntentInventoryLimits =
  maximum_intent_records :: int

definition IntentInventoryLimits_post_init :: "IntentInventoryLimits \<Rightarrow> IntentInventoryLimits py" where
  "IntentInventoryLimits_post_init l =
     (if maximum_intent_records l < 0 then Inl (ValueError ''intent inventory limit must be a nonnegative integer'')
      else if maximum_intent_records l > INITIAL_MAXIMUM_INTENT_RECORDS
      then Inl (ValueError ''intent inventory limit cannot weaken the committed M3 boundary'')
      else Inr l)"

definition DEFAULT_INTENT_INVENTORY_LIMITS :: IntentInventoryLimits where
  "DEFAULT_INTENT_INVENTORY_LIMITS = \<lparr>maximum_intent_records = INITIAL_MAXIMUM_INTENT_RECORDS\<rparr>"

record IntentRecordIdentity =
  identity_intent_id :: string
  identity_generation :: "int list"

definition IntentRecordIdentity_post_init :: "IntentRecordIdentity \<Rightarrow> IntentRecordIdentity py" where
  "IntentRecordIdentity_post_init i =
     thenE (require_canonical_ids [identity_intent_id i] ''intent identity is not canonical'' ''intent identity is invalid'')
     (if identity_generation i = [] then Inl (StateInventoryError ''intent metadata generation is invalid'') else Inr i)"

record IntentRecordInventory =
  intent_records :: "IntentRecordIdentity list"
  intent_allocated_bytes :: int

definition IntentRecordInventory_post_init :: "IntentRecordInventory \<Rightarrow> IntentRecordInventory py" where
  "IntentRecordInventory_post_init i =
     thenE (require_sorted_unique (map identity_intent_id (intent_records i))
              ''intent inventory must contain sorted unique identities'')
     (if intent_allocated_bytes i < 0 then Inl (StateInventoryError ''intent allocation must be a nonnegative integer'')
      else Inr i)"

section \<open>Admission\<close>

definition admit_state_inventory ::
    "StateInventory \<Rightarrow> StateInventoryReservation \<Rightarrow> StateInventoryLimits \<Rightarrow> StateInventoryProjection py" where
  "admit_state_inventory inventory reservation limits =
     (let tenants = tenant_count inventory + reserved_tenants reservation;
          records = authorization_record_count inventory + reserved_authorization_records reservation;
          size = authorization_allocated_bytes inventory + reserved_authorization_bytes reservation in
      if tenants > maximum_tenants limits
      then Inl (StateAdmissionRejectedError ''tenant reservation would cross the host ceiling'')
      else if records > maximum_authorization_records limits
      then Inl (StateAdmissionRejectedError ''authorization reservation would cross the record ceiling'')
      else if size > maximum_authorization_allocated_bytes limits
      then Inl (StateAdmissionRejectedError ''authorization reservation would cross the allocated-byte ceiling'')
      else Inr \<lparr>projected_tenants = tenants, projected_authorization_records = records,
                projected_authorization_bytes = size\<rparr>)"

section \<open>Measuring the directories\<close>

definition identifier_from_name :: "string \<Rightarrow> string \<Rightarrow> string py" where
  "identifier_from_name name ending =
     (if ending \<noteq> [] \<and> drop (length name - length ending) name \<noteq> ending
      then Inl (StateInventoryError ''state record name has an unexpected suffix'')
      else
        let identifier = (if ending = [] then name else take (length name - length ending) name) in
        bindE (catch_contract (StateInventoryError ''state entry name is not a canonical UUIDv7'')
                 (validate_uuid7 (JStr identifier))) (\<lambda>canonical.
        if canonical \<noteq> identifier then Inl (StateInventoryError ''state entry name is not canonical'')
        else Inr canonical))"

definition bounded_names :: "state_root \<Rightarrow> string list \<Rightarrow> nat \<Rightarrow> string list py" where
  "bounded_names root directory maximum =
     (if length (scandir root directory) > maximum
      then Inl (StateAdmissionRejectedError ''state directory exceeds its entry ceiling'')
      else Inr (scandir root directory))"

definition stable_directory_entries ::
    "state_policy \<Rightarrow> state_root \<Rightarrow> string list \<Rightarrow> nat \<Rightarrow> (string \<times> stat_result) list py" where
  "stable_directory_entries policy root directory maximum =
     thenE (bindE (stat_of root directory) (validate_state_directory policy))
     (bindE (bounded_names root directory maximum) (\<lambda>names.
      traverseE (\<lambda>name. bindE (stat_of root (directory @ [name])) (\<lambda>metadata. Inr (name, metadata))) names))"

definition validate_regular_metadata :: "state_policy \<Rightarrow> stat_result \<Rightarrow> unit py" where
  "validate_regular_metadata policy metadata =
     (if st_uid metadata \<noteq> expected_owner policy \<or> S_IMODE (st_mode metadata) \<noteq> expected_record_mode policy
         \<or> st_nlink metadata \<noteq> 1
      then Inl (StateInventoryError ''authorization record has unexpected ownership or mode'')
      else Inr ())"

definition validate_directory_metadata :: "state_policy \<Rightarrow> stat_result \<Rightarrow> unit py" where
  "validate_directory_metadata policy metadata =
     (if st_uid metadata \<noteq> expected_owner policy \<or> S_IMODE (st_mode metadata) \<noteq> expected_directory_mode policy
      then Inl (StateInventoryError ''state directory has unexpected ownership or mode'')
      else Inr ())"

definition validate_bounded_record :: "state_policy \<Rightarrow> string \<times> stat_result \<Rightarrow> unit py" where
  "validate_bounded_record policy e =
     (case e of (name, metadata) \<Rightarrow>
      thenE (identifier_from_name name ''.json'')
      (if S_IFMT (st_mode metadata) \<noteq> S_IFREG then Inl (StateInventoryError ''bounded state record is not a regular file'')
       else if st_size metadata > int MAX_CANONICAL_BYTES
       then Inl (StateInventoryError ''bounded state record exceeds its canonical byte ceiling'')
       else if st_blocks metadata < 0
       then Inl (StateInventoryError ''bounded state record has invalid block accounting'')
       else validate_regular_metadata policy metadata))"

definition entries_allocation :: "(string \<times> stat_result) list \<Rightarrow> int" where
  "entries_allocation listed = sum_list (map (\<lambda>(name, metadata). st_blocks metadata * BLOCK_BYTES) listed)"

definition measure_tenants :: "state_policy \<Rightarrow> state_root \<Rightarrow> nat \<Rightarrow> string list py" where
  "measure_tenants policy root maximum =
     bindE (open_descendant policy root [''tenants'']) (\<lambda>directory.
     bindE (stable_directory_entries policy root directory maximum) (\<lambda>listed.
     traverseE (\<lambda>(name, metadata).
       if S_IFMT (st_mode metadata) \<noteq> S_IFDIR then Inl (StateInventoryError ''tenant inventory entry is not a directory'')
       else thenE (validate_directory_metadata policy metadata) (identifier_from_name name [])) listed))"

text \<open>One authorization directory: the identities it holds, and what they allocate.\<close>

definition measure_record_directory ::
    "state_policy \<Rightarrow> string list \<Rightarrow> nat \<Rightarrow> nat \<Rightarrow> (state_root, string list \<times> int) tx" where
  "measure_record_directory policy components scan_maximum maximum =
     bindT (readT (\<lambda>root. open_descendant policy root components)) (\<lambda>directory.
     thenT (remove_abandoned_publication_temporaries policy directory scan_maximum)
     (readT (\<lambda>root.
        bindE (stable_directory_entries policy root directory maximum) (\<lambda>listed.
        thenE (traverseE (validate_bounded_record policy) listed)
        (bindE (traverseE (\<lambda>(name, _). identifier_from_name name ''.json'') listed) (\<lambda>ids.
         Inr (ids, entries_allocation listed)))))))"

definition measure_authorization_records ::
    "state_policy \<Rightarrow> StateInventoryLimits \<Rightarrow> (state_root, AuthorizationRecordInventory) tx" where
  "measure_authorization_records policy limits =
     thenT (readT (\<lambda>root.
        bindE (open_descendant policy root [''authorization'']) (\<lambda>directory.
        bindE (stable_directory_entries policy root directory (length AUTHORIZATION_DIRECTORIES)) (\<lambda>listed.
        if map fst listed \<noteq> AUTHORIZATION_DIRECTORIES
        then Inl (StateInventoryError ''authorization layout contains an unexpected entry'')
        else Inr ()))))
     (bindT (foldT (\<lambda>(found, allocated, remaining) name.
         bindT (measure_record_directory policy [''authorization'', name] (remaining + 1) remaining) (\<lambda>(ids, size).
         liftT (Inr (found @ [ids], allocated + size, remaining - length ids))))
         ([], 0, nat (maximum_authorization_records limits)) AUTHORIZATION_DIRECTORIES) (\<lambda>(found, allocated, _).
      liftT (AuthorizationRecordInventory_post_init
        \<lparr>job_ids = found ! 1, result_ids = found ! 2, correlation_ids = found ! 0, authorization_bytes = allocated\<rparr>)))"

definition measure_state_inventory :: "state_policy \<Rightarrow> StateInventoryLimits \<Rightarrow> (state_root, StateInventory) tx" where
  "measure_state_inventory policy limits =
     bindT (readT (\<lambda>root. measure_tenants policy root (nat (maximum_tenants limits)))) (\<lambda>tenants.
     bindT (measure_authorization_records policy limits) (\<lambda>a.
     bindT (liftT (StateInventory_post_init
        \<lparr>tenant_ids = tenants, authorization_jobs = int (length (job_ids a)),
         authorization_results = int (length (result_ids a)), authorization_correlations = int (length (correlation_ids a)),
         authorization_allocated_bytes = authorization_bytes a\<rparr>)) (\<lambda>inventory.
     thenT (liftT (admit_state_inventory inventory
        \<lparr>reserved_tenants = 0, reserved_authorization_records = 0, reserved_authorization_bytes = 0\<rparr> limits))
     (liftT (Inr inventory)))))"

definition measure_intent_records :: "state_policy \<Rightarrow> IntentInventoryLimits \<Rightarrow> (state_root, IntentRecordInventory) tx" where
  "measure_intent_records policy limits =
     bindT (readT (\<lambda>root. open_descendant policy root [''intents''])) (\<lambda>directory.
     thenT (remove_abandoned_publication_temporaries policy directory (nat (maximum_intent_records limits) + 1))
     (readT (\<lambda>root.
        bindE (stable_directory_entries policy root directory (nat (maximum_intent_records limits))) (\<lambda>listed.
        bindE (traverseE (\<lambda>(name, metadata).
            thenE (validate_bounded_record policy (name, metadata))
            (bindE (identifier_from_name name ''.json'') (\<lambda>i.
             IntentRecordIdentity_post_init
               \<lparr>identity_intent_id = i, identity_generation = metadata_generation metadata\<rparr>))) listed) (\<lambda>found.
        IntentRecordInventory_post_init \<lparr>intent_records = found, intent_allocated_bytes = entries_allocation listed\<rparr>)))))"

end
