(* ===== verification/State_Records.thy ===== *)
theory State_Records
  imports Durable
begin

text \<open>
  The first part of the model of \<^verbatim>\<open>static_host_agent/repository.py\<close>: the typed paths of the
  authoritative records, the binding of a record's identity to its path, the revision token of a
  stored generation, the strict reading and encoding of records, and the rules a replacement of an
  authorization job obeys. The last section shows what a record that reads, and a revision, say.
\<close>

section \<open>Paths\<close>

datatype StateRecordName =
    PLATFORM_NAMESPACE_PATH | PLATFORM_LAUNCH_PATH | TENANT_DESIRED_PATH | TENANT_OBSERVED_PATH
  | TENANT_DEPLOYMENT_PATH | TENANT_ARCHIVE_PATH | AUTHORIZATION_JOB_PATH | AUTHORIZATION_RESULT_PATH
  | EMERGENCY_RESULT_PATH | AUTHORIZATION_CORRELATION_PATH | TRANSACTION_INTENT_PATH
  | EMERGENCY_DELETION_INTENT_PATH | ARCHIVE_CONSTRUCTION_INTENT_PATH | ARCHIVE_RETIREMENT_INTENT_PATH

record StateRecordPath =
  path_name :: StateRecordName
  path_tenant_id :: "string option"
  path_deployment_id :: "string option"
  path_record_id :: "string option"

definition platform_namespace_path :: StateRecordPath where
  "platform_namespace_path = StateRecordPath.make PLATFORM_NAMESPACE_PATH None None None"

definition platform_launch_path :: StateRecordPath where
  "platform_launch_path = StateRecordPath.make PLATFORM_LAUNCH_PATH None None None"

definition tenant_path :: "StateRecordName \<Rightarrow> json \<Rightarrow> StateRecordPath py" where
  "tenant_path name tenant =
     bindE (validate_uuid7 tenant) (\<lambda>t. Inr (StateRecordPath.make name (Some t) None None))"

definition deployment_path :: "StateRecordName \<Rightarrow> json \<Rightarrow> json \<Rightarrow> StateRecordPath py" where
  "deployment_path name tenant deployment =
     bindE (validate_uuid7 tenant) (\<lambda>t. bindE (validate_uuid7 deployment) (\<lambda>d.
     Inr (StateRecordPath.make name (Some t) (Some d) None)))"

definition record_path :: "StateRecordName \<Rightarrow> json \<Rightarrow> StateRecordPath py" where
  "record_path name identifier =
     bindE (validate_uuid7 identifier) (\<lambda>r. Inr (StateRecordPath.make name None None (Some r)))"

definition tenant_desired_path :: "json \<Rightarrow> StateRecordPath py" where
  "tenant_desired_path = tenant_path TENANT_DESIRED_PATH"
definition tenant_observed_path :: "json \<Rightarrow> StateRecordPath py" where
  "tenant_observed_path = tenant_path TENANT_OBSERVED_PATH"
definition tenant_deployment_path :: "json \<Rightarrow> json \<Rightarrow> StateRecordPath py" where
  "tenant_deployment_path = deployment_path TENANT_DEPLOYMENT_PATH"
definition tenant_archive_path :: "json \<Rightarrow> json \<Rightarrow> StateRecordPath py" where
  "tenant_archive_path = deployment_path TENANT_ARCHIVE_PATH"
definition authorization_job_path :: "json \<Rightarrow> StateRecordPath py" where
  "authorization_job_path = record_path AUTHORIZATION_JOB_PATH"
definition authorization_result_path :: "json \<Rightarrow> StateRecordPath py" where
  "authorization_result_path = record_path AUTHORIZATION_RESULT_PATH"
definition emergency_result_path :: "json \<Rightarrow> StateRecordPath py" where
  "emergency_result_path = record_path EMERGENCY_RESULT_PATH"
definition authorization_correlation_path :: "json \<Rightarrow> StateRecordPath py" where
  "authorization_correlation_path = record_path AUTHORIZATION_CORRELATION_PATH"
definition emergency_deletion_intent_path :: "json \<Rightarrow> StateRecordPath py" where
  "emergency_deletion_intent_path = record_path EMERGENCY_DELETION_INTENT_PATH"
definition transaction_intent_path :: "json \<Rightarrow> StateRecordPath py" where
  "transaction_intent_path = record_path TRANSACTION_INTENT_PATH"
definition archive_construction_intent_path :: "json \<Rightarrow> StateRecordPath py" where
  "archive_construction_intent_path = record_path ARCHIVE_CONSTRUCTION_INTENT_PATH"
definition archive_retirement_intent_path :: "json \<Rightarrow> StateRecordPath py" where
  "archive_retirement_intent_path = record_path ARCHIVE_RETIREMENT_INTENT_PATH"

fun contract_kind :: "StateRecordName \<Rightarrow> ContractKind" where
  "contract_kind PLATFORM_NAMESPACE_PATH = PLATFORM_NAMESPACE"
| "contract_kind PLATFORM_LAUNCH_PATH = LAUNCH_RECORD"
| "contract_kind TENANT_DESIRED_PATH = SITE"
| "contract_kind TENANT_OBSERVED_PATH = TENANT_OBSERVED_STATE"
| "contract_kind TENANT_DEPLOYMENT_PATH = DEPLOYMENT_RECORD"
| "contract_kind TENANT_ARCHIVE_PATH = ARCHIVE_RECORD"
| "contract_kind AUTHORIZATION_JOB_PATH = AUTHORIZATION_JOB"
| "contract_kind AUTHORIZATION_RESULT_PATH = OPERATION_RESULT"
| "contract_kind EMERGENCY_RESULT_PATH = OPERATION_RESULT"
| "contract_kind AUTHORIZATION_CORRELATION_PATH = AUTHORIZATION_JOB"
| "contract_kind TRANSACTION_INTENT_PATH = TRANSACTION_INTENT"
| "contract_kind EMERGENCY_DELETION_INTENT_PATH = EMERGENCY_DELETION_INTENT"
| "contract_kind ARCHIVE_CONSTRUCTION_INTENT_PATH = ARCHIVE_CONSTRUCTION_INTENT"
| "contract_kind ARCHIVE_RETIREMENT_INTENT_PATH = ARCHIVE_RETIREMENT_INTENT"

definition require_record_id :: "StateRecordPath \<Rightarrow> string py" where
  "require_record_id p =
     (case path_record_id p of None \<Rightarrow> Inl (RuntimeError ''global state record has no identity'') | Some r \<Rightarrow> Inr r)"

definition global_components :: "StateRecordPath \<Rightarrow> string list \<Rightarrow> string list py" where
  "global_components p directory = bindE (require_record_id p) (\<lambda>r. Inr (directory @ [r @ ''.json'']))"

definition tenant_components :: "StateRecordPath \<Rightarrow> (string \<Rightarrow> string list py) \<Rightarrow> string list py" where
  "tenant_components p f =
     (case path_tenant_id p of None \<Rightarrow> Inl (RuntimeError ''tenant record path has no tenant identity'') | Some t \<Rightarrow> f t)"

definition deployment_components :: "StateRecordPath \<Rightarrow> string \<Rightarrow> string list py" where
  "deployment_components p directory =
     tenant_components p (\<lambda>t. case path_deployment_id p of
         None \<Rightarrow> Inl (RuntimeError ''deployment-bound record has no deployment identity'')
       | Some d \<Rightarrow> Inr [''tenants'', t, directory, d @ ''.json''])"

definition path_components :: "StateRecordPath \<Rightarrow> string list py" where
  "path_components p =
     (case path_name p of
        PLATFORM_NAMESPACE_PATH \<Rightarrow> Inr [''platform'', ''namespace.json'']
      | PLATFORM_LAUNCH_PATH \<Rightarrow> Inr [''platform'', ''launch.json'']
      | AUTHORIZATION_JOB_PATH \<Rightarrow> global_components p [''authorization'', ''jobs'']
      | AUTHORIZATION_RESULT_PATH \<Rightarrow> global_components p [''authorization'', ''results'']
      | EMERGENCY_RESULT_PATH \<Rightarrow> global_components p [''authorization'', ''results'']
      | AUTHORIZATION_CORRELATION_PATH \<Rightarrow> global_components p [''authorization'', ''correlations'']
      | EMERGENCY_DELETION_INTENT_PATH \<Rightarrow> global_components p [''intents'']
      | TRANSACTION_INTENT_PATH \<Rightarrow> global_components p [''intents'']
      | ARCHIVE_CONSTRUCTION_INTENT_PATH \<Rightarrow> global_components p [''intents'']
      | ARCHIVE_RETIREMENT_INTENT_PATH \<Rightarrow> global_components p [''intents'']
      | TENANT_DESIRED_PATH \<Rightarrow> tenant_components p (\<lambda>t. Inr [''tenants'', t, ''desired.json''])
      | TENANT_OBSERVED_PATH \<Rightarrow> tenant_components p (\<lambda>t. Inr [''tenants'', t, ''observed.json''])
      | TENANT_DEPLOYMENT_PATH \<Rightarrow> deployment_components p ''deployments''
      | TENANT_ARCHIVE_PATH \<Rightarrow> deployment_components p ''archives'')"

definition is_intent :: "StateRecordName \<Rightarrow> bool" where
  "is_intent name \<longleftrightarrow> name \<in> {EMERGENCY_DELETION_INTENT_PATH, TRANSACTION_INTENT_PATH,
     ARCHIVE_CONSTRUCTION_INTENT_PATH, ARCHIVE_RETIREMENT_INTENT_PATH}"

definition allows_replacement :: "StateRecordName \<Rightarrow> bool" where
  "allows_replacement name \<longleftrightarrow> name \<in> {PLATFORM_NAMESPACE_PATH, PLATFORM_LAUNCH_PATH,
     TENANT_DESIRED_PATH, TENANT_OBSERVED_PATH, AUTHORIZATION_JOB_PATH, TRANSACTION_INTENT_PATH,
     ARCHIVE_CONSTRUCTION_INTENT_PATH, ARCHIVE_RETIREMENT_INTENT_PATH}"

section \<open>Bindings\<close>

text \<open>\<^verbatim>\<open>None\<close> or a string, as a document holds it.\<close>

fun identity_json :: "string option \<Rightarrow> json" where
  "identity_json None = JNull"
| "identity_json (Some s) = JStr s"

definition refuse_record :: "bool py \<Rightarrow> string \<Rightarrow> unit py" where
  "refuse_record c msg = bindE c (\<lambda>bad. if bad then Inl (StateRecordError msg) else Inr ())"

definition validate_authorization_binding :: "StateRecordName \<Rightarrow> string option \<Rightarrow> json \<Rightarrow> unit py" where
  "validate_authorization_binding name identifier d =
     (if name = AUTHORIZATION_JOB_PATH
      then refuse_record (neqE (dict_get d ''jobId'') (Inr (identity_json identifier)))
             ''authorization-job identity does not match its path''
      else bindE (dict_get d ''request'') (\<lambda>request.
        refuse_record (anyE [Inr (\<not> is_dict request), neqE (dict_get request ''correlationId'') (Inr (identity_json identifier))])
          ''authorization-correlation identity does not match its path''))"

definition validate_result_binding :: "StateRecordName \<Rightarrow> string option \<Rightarrow> json \<Rightarrow> unit py" where
  "validate_result_binding name identifier d =
     bindE (dict_get d ''provenance'') (\<lambda>provenance.
     if \<not> is_dict provenance then Inl (StateRecordError ''operation-result provenance is not an object'')
     else if name = AUTHORIZATION_RESULT_PATH
     then refuse_record (anyE [neqE (dict_get provenance ''kind'') (lit ''authorization-job''),
                               neqE (dict_get provenance ''jobId'') (Inr (identity_json identifier))])
            ''authorization-result identity does not match its path''
     else refuse_record (anyE [neqE (dict_get provenance ''kind'') (lit ''emergency-administrator''),
                               neqE (dict_get d ''correlationId'') (Inr (identity_json identifier))])
            ''emergency-result identity does not match its path'')"

definition validate_binding :: "StateRecordPath \<Rightarrow> json \<Rightarrow> unit py" where
  "validate_binding p d =
     (let name = path_name p; tenant = Inr (identity_json (path_tenant_id p));
          deployment = Inr (identity_json (path_deployment_id p)) in
      if name = TENANT_DESIRED_PATH
      then bindE (dict_get d ''metadata'') (\<lambda>metadata.
             refuse_record (anyE [Inr (\<not> is_dict metadata), neqE (dict_get metadata ''id'') tenant])
               ''desired-state identity does not match its path'')
      else if name = TENANT_OBSERVED_PATH
      then refuse_record (neqE (dict_get d ''tenantId'') tenant) ''observed-state identity does not match its path''
      else if name = TENANT_DEPLOYMENT_PATH
      then refuse_record (anyE [neqE (dict_get d ''tenantId'') tenant, neqE (dict_get d ''id'') deployment])
             ''deployment identity does not match its path''
      else if name = TENANT_ARCHIVE_PATH
      then refuse_record (anyE [neqE (dict_get d ''tenantId'') tenant, neqE (dict_get d ''deploymentId'') deployment])
             ''archive identity does not match its path''
      else if name \<in> {AUTHORIZATION_JOB_PATH, AUTHORIZATION_CORRELATION_PATH}
      then validate_authorization_binding name (path_record_id p) d
      else if name \<in> {AUTHORIZATION_RESULT_PATH, EMERGENCY_RESULT_PATH}
      then validate_result_binding name (path_record_id p) d
      else if is_intent name
      then refuse_record (neqE (dict_get d ''intentId'') (Inr (identity_json (path_record_id p))))
             ''intent identity does not match its path''
      else Inr ())"

definition validate_new_result_shape :: "StateRecordName \<Rightarrow> json \<Rightarrow> unit py" where
  "validate_new_result_shape name d =
     (if name \<notin> {AUTHORIZATION_RESULT_PATH, EMERGENCY_RESULT_PATH} then Inr ()
      else
      thenE (refuse_record (andE (eqE (getitem d ''operation'') (lit ''archive'')) (Inr (\<not> dict_has d ''archiveRecord'')))
               ''new archive operation result requires archive authority'')
      (refuse_record (andE (eqE (getitem d ''status'') (lit ''succeeded''))
          (andE (neqE (getitem d ''operation'') (lit ''delete''))
             (testE (\<lambda>manifest. \<not> is_dict manifest) (dict_get d ''manifest''))))
        ''new successful operation result requires its exact manifest''))"

definition validate_new_archive_retirement_shape :: "StateRecordName \<Rightarrow> json \<Rightarrow> unit py" where
  "validate_new_archive_retirement_shape name d =
     refuse_record (andE (Inr (name = ARCHIVE_RETIREMENT_INTENT_PATH))
        (neqE (dict_get d ''compatibilityVersion'') (lit ''static-retirement-v2'')))
       ''new archive-retirement intent requires current authority''"

section \<open>Revisions and stored records\<close>

record StateRevision =
  revision_kind :: ContractKind
  byte_count :: int
  revision_sha256 :: string

definition StateRevision_post_init :: "StateRevision \<Rightarrow> StateRevision py" where
  "StateRevision_post_init r =
     (if byte_count r < 0 \<or> \<not> fullmatch SHA256_PATTERN (revision_sha256 r)
      then Inl (ValueError ''state revision is not a canonical SHA-256 token'') else Inr r)"

record RemovalToken =
  token_revision :: StateRevision
  token_generation :: "int list"

definition RemovalToken_post_init :: "string \<Rightarrow> RemovalToken \<Rightarrow> RemovalToken py" where
  "RemovalToken_post_init msg t = (if token_generation t = [] then Inl (ValueError msg) else Inr t)"

definition IntentRemovalToken :: "StateRevision \<Rightarrow> int list \<Rightarrow> RemovalToken py" where
  "IntentRemovalToken revision generation =
     RemovalToken_post_init ''intent removal metadata generation is invalid''
       \<lparr>token_revision = revision, token_generation = generation\<rparr>"

definition DeploymentRemovalToken :: "StateRevision \<Rightarrow> int list \<Rightarrow> RemovalToken py" where
  "DeploymentRemovalToken revision generation =
     RemovalToken_post_init ''deployment removal metadata generation is invalid''
       \<lparr>token_revision = revision, token_generation = generation\<rparr>"

record StoredContract =
  stored_document :: json
  stored_revision :: StateRevision

definition STATE_REVISION_FORMAT :: string where
  "STATE_REVISION_FORMAT = ''lowerduckpond-state-revision-v1''"

text \<open>\<^verbatim>\<open>str.encode("ascii")\<close> of a literal.\<close>

definition ascii_bytes :: "string \<Rightarrow> bytes" where
  "ascii_bytes s = map (\<lambda>c. byte_of (char_code c)) s"

text \<open>The hashed text. Canonical text has at most 16 KiB, so that its length fits the four bytes.\<close>

definition revision_frame :: "ContractKind \<Rightarrow> bytes \<Rightarrow> bytes" where
  "revision_frame kind canonical =
     ascii_bytes STATE_REVISION_FORMAT @ [0] @ nat_be 2 (length (kind_value kind)) @ ascii_bytes (kind_value kind)
     @ nat_be 4 (length canonical) @ canonical"

definition revision :: "ContractKind \<Rightarrow> bytes \<Rightarrow> StateRevision" where
  "revision kind canonical =
     \<lparr>revision_kind = kind, byte_count = int (length canonical),
      revision_sha256 = sha256_hex (revision_frame kind canonical)\<rparr>"

definition canonical_bytes :: "contract_env \<Rightarrow> json \<Rightarrow> bytes py" where
  "canonical_bytes env d = canonical_json_bytes (dumps (env_codec env)) d MAX_CANONICAL_BYTES"

section \<open>Reading and encoding\<close>

definition read_locked :: "contract_env \<Rightarrow> state_policy \<Rightarrow> state_root \<Rightarrow> StateRecordPath \<Rightarrow> StoredContract py" where
  "read_locked env policy root p =
     bindE (path_components p) (\<lambda>components.
     bindE (read_regular policy root components MAX_CANONICAL_BYTES) (\<lambda>raw.
     bindE (decode_contract env raw (Some (contract_kind (path_name p))) MAX_CANONICAL_BYTES) (\<lambda>d.
     bindE (canonical_bytes env d) (\<lambda>canonical.
     if raw \<noteq> canonical then Inl (StateRecordError ''state record is not its exact canonical representation'')
     else thenE (validate_binding p d)
       (Inr \<lparr>stored_document = d, stored_revision = revision (contract_kind (path_name p)) canonical\<rparr>)))))"

definition intent_path_of_kind :: "ContractKind \<Rightarrow> (json \<Rightarrow> StateRecordPath py) option" where
  "intent_path_of_kind kind =
     (case kind of
        TRANSACTION_INTENT \<Rightarrow> Some transaction_intent_path
      | EMERGENCY_DELETION_INTENT \<Rightarrow> Some emergency_deletion_intent_path
      | ARCHIVE_CONSTRUCTION_INTENT \<Rightarrow> Some archive_construction_intent_path
      | ARCHIVE_RETIREMENT_INTENT \<Rightarrow> Some archive_retirement_intent_path
      | _ \<Rightarrow> None)"

definition read_intent_locked ::
    "contract_env \<Rightarrow> state_policy \<Rightarrow> state_root \<Rightarrow> json \<Rightarrow> (StateRecordPath \<times> StoredContract) py" where
  "read_intent_locked env policy root intent =
     bindE (validate_uuid7 intent) (\<lambda>canonical_id.
     bindE (read_regular policy root [''intents'', canonical_id @ ''.json''] MAX_CANONICAL_BYTES) (\<lambda>raw.
     bindE (decode_contract env raw None MAX_CANONICAL_BYTES) (\<lambda>d.
     bindE (dict_get d ''kind'') (\<lambda>value.
     if \<not> is_str value then Inl (StateRecordError ''intent record has no contract kind'')
     else
     bindE (mapE (\<lambda>_. StateRecordError ''intent store contains an unknown contract kind'')
              (enum_of kind_value all_kinds value)) (\<lambda>kind.
     case intent_path_of_kind kind of
       None \<Rightarrow> Inl (StateRecordError ''intent store contains another contract kind'')
     | Some factory \<Rightarrow>
         bindE (factory (JStr canonical_id)) (\<lambda>p.
         bindE (canonical_bytes env d) (\<lambda>canonical.
         if raw \<noteq> canonical then Inl (StateRecordError ''intent record is not its exact canonical representation'')
         else thenE (validate_binding p d)
           (Inr (p, \<lparr>stored_document = d, stored_revision = revision kind canonical\<rparr>)))))))))"

definition encode_record :: "contract_env \<Rightarrow> StateRecordPath \<Rightarrow> json \<Rightarrow> bytes py" where
  "encode_record env p d =
     (if \<not> is_dict d then Inl TypeError
      else
      thenE (validate_contract env d (Some (contract_kind (path_name p))))
      (thenE (validate_binding p d) (canonical_bytes env d)))"

definition encode_new :: "contract_env \<Rightarrow> StateRecordPath \<Rightarrow> json \<Rightarrow> bytes py" where
  "encode_new env p d =
     bindE (encode_record env p d) (\<lambda>encoded.
     thenE (validate_new_result_shape (path_name p) d)
     (thenE (validate_new_archive_retirement_shape (path_name p) d) (Inr encoded)))"

section \<open>Replacing an authorization job\<close>

fun without :: "string list \<Rightarrow> json \<Rightarrow> json" where
  "without ks (JObj m) = JObj (fmdrop_set (set ks) m)"
| "without ks d = d"

text \<open>\<^verbatim>\<open>d.pop(k)\<close> raises where the member is absent; \<^verbatim>\<open>d.pop(k, None)\<close> does not.\<close>

definition pop :: "json \<Rightarrow> string \<Rightarrow> json py" where
  "pop d k = bindE (getitem d k) (\<lambda>_. Inr (without [k] d))"

definition DISPATCH_AUTHORITY_FIELDS :: "string list" where
  "DISPATCH_AUTHORITY_FIELDS = [''dispatchAuditBoundary'', ''dispatchArchiveDeploymentIds'',
     ''dispatchArtifactReleaseTreeDigest'', ''dispatchImportManifest'', ''dispatchSourceObservedState'',
     ''dispatchSourceReleaseTreeDigest'', ''dispatchSourceRouteSet'', ''dispatchSourceRuntimeGenerationId'',
     ''dispatchDeploymentIds'', ''dispatchTenantIds'', ''dispatchTenantRecordHistories'']"

definition validate_authorization_phase_replacement :: "json \<Rightarrow> json \<Rightarrow> unit py" where
  "validate_authorization_phase_replacement current candidate =
     bindE (pop current ''phase'') (\<lambda>before.
     bindE (pop candidate ''phase'') (\<lambda>after.
     if before \<noteq> after
     then Inl (StateRecordError ''ordinary authorization replacement changed executor-owned authority'')
     else Inr ()))"

definition validate_dispatch_authority_replacement :: "json \<Rightarrow> json \<Rightarrow> unit py" where
  "validate_dispatch_authority_replacement current candidate =
     thenE (refuse_record (anyE
        [testE Not (bindE (getitem current ''phase'') (\<lambda>v. in_strs v [''pending'', ''claimed'', ''completed'', ''failed''])),
         neqE (getitem candidate ''phase'') (getitem current ''phase'')])
       ''dispatch authority requires an unchanged dispatched job phase'')
     (thenE (refuse_record (anyE
        [neqE (getitem current ''executionValidated'') (Inr (JBool False)),
         neqE (getitem candidate ''executionValidated'') (Inr (JBool False))])
       ''dispatch authority cannot follow execution validation'')
     (thenE (traverseE (\<lambda>field.
        refuse_record (andE (neqE (dict_get current field) none_lit)
                            (neqE (dict_get current field) (dict_get candidate field)))
          ''bound dispatch authority cannot be replaced'') DISPATCH_AUTHORITY_FIELDS)
     (if without DISPATCH_AUTHORITY_FIELDS current \<noteq> without DISPATCH_AUTHORITY_FIELDS candidate
      then Inl (StateRecordError ''dispatch binding changed non-dispatch authority'')
      else Inr ())))"

definition ROUTE_SOURCE_FIELDS :: "string list" where
  "ROUTE_SOURCE_FIELDS = [''dispatchSourceRuntimeGenerationId'', ''dispatchSourceRouteSet'', ''dispatchSourceObservedState'']"

definition validate_route_source_authority_replacement :: "json \<Rightarrow> json \<Rightarrow> bool \<Rightarrow> unit py" where
  "validate_route_source_authority_replacement current candidate allow_reconcile_source_advance =
     thenE (refuse_record (anyE
        [neqE (getitem current ''phase'') (lit ''claimed''), neqE (getitem candidate ''phase'') (lit ''claimed''),
         neqE (getitem current ''executionValidated'') (Inr (JBool False)),
         neqE (getitem candidate ''executionValidated'') (Inr (JBool False))])
       ''route source rebind requires an unvalidated claimed job'')
     (bindE (dict_get current ''dispatchSourceRuntimeGenerationId'') (\<lambda>before_generation.
      bindE (dict_get candidate ''dispatchSourceRuntimeGenerationId'') (\<lambda>after_generation.
      bindE (dict_get current ''dispatchSourceRouteSet'') (\<lambda>before_route_set.
      bindE (dict_get candidate ''dispatchSourceRouteSet'') (\<lambda>after_route_set.
      bindE (dict_get current ''dispatchSourceObservedState'') (\<lambda>before_observed.
      bindE (dict_get candidate ''dispatchSourceObservedState'') (\<lambda>after_observed.
      bindE (dict_get candidate ''request'') (\<lambda>request.
      let target_unchanged = after_route_set = before_route_set \<and> (before_observed = JNull \<or> after_observed = before_observed) in
      refuse_record (anyE
        [Inr (without ROUTE_SOURCE_FIELDS current \<noteq> without ROUTE_SOURCE_FIELDS candidate),
         testE Not (in_strs before_route_set [''absent'', ''both'']),
         testE Not (in_strs after_route_set [''absent'', ''both'']),
         Inr (before_observed \<noteq> JNull \<and> \<not> is_dict before_observed),
         Inr (\<not> is_dict after_observed),
         Inr (before_generation = JNull), Inr (after_generation = JNull), Inr (before_generation = after_generation),
         andE (Inr (\<not> target_unchanged))
           (anyE [Inr (\<not> allow_reconcile_source_advance), Inr (\<not> is_dict request),
                  neqE (dict_get request ''operation'') (lit ''reconcile'')])])
        ''route source rebind changed authority outside its proof''))))))))"

definition validate_execution_validation_replacement :: "json \<Rightarrow> json \<Rightarrow> unit py" where
  "validate_execution_validation_replacement current candidate =
     thenE (refuse_record (anyE
        [neqE (getitem current ''executionValidated'') (Inr (JBool False)),
         neqE (getitem candidate ''executionValidated'') (Inr (JBool True)),
         testE Not (bindE (getitem current ''phase'') (\<lambda>v. in_strs v [''completed'', ''failed''])),
         neqE (getitem candidate ''phase'') (getitem current ''phase'')])
       ''execution validation marker transition is invalid'')
     (if without [''phase'', ''executionValidated''] current \<noteq> without [''phase'', ''executionValidated''] candidate
      then Inl (StateRecordError ''execution validation changed authorization authority'')
      else Inr ())"

end
