(* ===== verification/State_Repository.thy ===== *)
theory State_Repository
  imports Locks State_Inventory State_Records
begin

text \<open>
  The transaction of \<^verbatim>\<open>static_host_agent/repository.py\<close>: the operations permitted while the
  tenant-state lock is held, as computations over the state root. The failure hooks of the tests are
  absent. What the audit directory holds is an argument of the operations that inspect it (theory
  \<open>Audit_Chain\<close> models them), and \<^verbatim>\<open>fsync\<close> has no counterpart: the tree is what is durable.
\<close>

section \<open>Transactions\<close>

text \<open>
  What a transaction holds: the contract environment, the policy of its repository, the file system
  it writes to, its lock mode, whether it is open, and the locks its thread holds.
\<close>

record state_transaction =
  tx_env :: contract_env
  tx_policy :: state_policy
  tx_host :: audit_host
  tx_mode :: LockMode
  tx_active :: bool
  tx_locks :: "LockManager \<times> HeldLock list"

type_synonym 'a repo = "(state_root, 'a) tx"

definition require_active :: "state_transaction \<Rightarrow> unit py" where
  "require_active t = (if \<not> tx_active t then Inl (RuntimeError ''state transaction is no longer active'') else Inr ())"

definition require_exclusive :: "state_transaction \<Rightarrow> unit py" where
  "require_exclusive t =
     thenE (require_active t)
     (if tx_mode t \<noteq> EXCLUSIVE
      then Inl (RuntimeError ''state mutation requires an exclusive tenant-state lock'') else Inr ())"

text \<open>\<^verbatim>\<open>require_held\<close> with a mode and no descriptor; its error is a \<^verbatim>\<open>RuntimeError\<close>.\<close>

definition require_lock :: "state_transaction \<Rightarrow> LockName \<Rightarrow> LockMode \<Rightarrow> unit py" where
  "require_lock t name mode =
     mapE (\<lambda>e. RuntimeError (lock_filename name @ '' must already be held''))
       (require_held (\<lambda>_. (0, 0)) (fst (tx_locks t)) (snd (tx_locks t)) name (Some mode) None False)"

definition exclusive :: "state_transaction \<Rightarrow> 'a repo \<Rightarrow> 'a repo" where
  "exclusive t m = thenT (liftT (require_exclusive t)) m"

definition read_path :: "state_transaction \<Rightarrow> StateRecordPath \<Rightarrow> state_root \<Rightarrow> StoredContract py" where
  "read_path t p root = read_locked (tx_env t) (tx_policy t) root p"

definition read_at :: "state_transaction \<Rightarrow> StateRecordPath py \<Rightarrow> state_root \<Rightarrow> StoredContract py" where
  "read_at t p root = bindE p (\<lambda>path. read_path t path root)"

definition transaction_read :: "state_transaction \<Rightarrow> StateRecordPath \<Rightarrow> StoredContract repo" where
  "transaction_read t p = thenT (liftT (require_active t)) (readT (read_path t p))"

section \<open>Inventories and capacity\<close>

definition repo_measure_inventory :: "state_transaction \<Rightarrow> StateInventory repo" where
  "repo_measure_inventory t =
     exclusive t (measure_state_inventory (tx_policy t) DEFAULT_STATE_INVENTORY_LIMITS)"

definition repo_measure_authorization_records :: "state_transaction \<Rightarrow> AuthorizationRecordInventory repo" where
  "repo_measure_authorization_records t =
     exclusive t (measure_authorization_records (tx_policy t) DEFAULT_STATE_INVENTORY_LIMITS)"

definition repo_measure_intent_records :: "state_transaction \<Rightarrow> IntentRecordInventory repo" where
  "repo_measure_intent_records t =
     exclusive t (measure_intent_records (tx_policy t) DEFAULT_INTENT_INVENTORY_LIMITS)"

definition admit_inventory :: "state_transaction \<Rightarrow> StateInventoryReservation \<Rightarrow> StateInventoryProjection repo" where
  "admit_inventory t reservation =
     bindT (repo_measure_inventory t) (\<lambda>inventory.
     liftT (admit_state_inventory inventory reservation DEFAULT_STATE_INVENTORY_LIMITS))"

definition repo_allocation_upper_bound :: "state_transaction \<Rightarrow> int \<Rightarrow> int py" where
  "repo_allocation_upper_bound t n = thenE (require_exclusive t) (allocation_upper_bound (tx_host t) n)"

definition repo_namespace_allocation_upper_bound :: "state_transaction \<Rightarrow> int \<Rightarrow> int py" where
  "repo_namespace_allocation_upper_bound t n = thenE (require_exclusive t) (namespace_allocation_upper_bound (tx_host t) n)"

definition capacity_error :: "capacity_exn \<Rightarrow> exn" where
  "capacity_error e =
     (case e of CapacityError msg \<Rightarrow> HostCapacityError msg
      | CapacityRejectedError msg \<Rightarrow> HostCapacityRejectedError msg
      | CapacityValueError msg \<Rightarrow> ValueError msg)"

definition measure_filesystem_capacity :: "state_transaction \<Rightarrow> FilesystemCapacity py" where
  "measure_filesystem_capacity t =
     thenE (require_exclusive t)
       (mapE capacity_error (measure_filesystem_capacity_descriptor (host_statvfs (tx_host t)) True (host_device (tx_host t))))"

text \<open>\<^verbatim>\<open>admit_release_capacity(ReleaseCapacityUsage(()), CapacityReservation(...), ...)\<close>\<close>

definition admit_reservation :: "state_transaction \<Rightarrow> int \<Rightarrow> int \<Rightarrow> HostCapacityLimits \<Rightarrow> CapacityProjection py" where
  "admit_reservation t allocated inodes limits =
     bindE (mapE capacity_error (CapacityReservation_post_init \<lparr>reserved_bytes = allocated, reserved_inodes = inodes\<rparr>)) (\<lambda>reservation.
     bindE (measure_filesystem_capacity t) (\<lambda>filesystem.
     mapE capacity_error (admit_release_capacity \<lparr>usage_allocations = []\<rparr> reservation filesystem limits)))"

section \<open>Record identities of a tenant\<close>

definition MAX_RETAINED_DEPLOYMENT_RECORDS :: nat where "MAX_RETAINED_DEPLOYMENT_RECORDS = 3"

definition json_name :: "string \<Rightarrow> bool" where
  "json_name name \<longleftrightarrow> 5 \<le> length name \<and> drop (length name - 5) name = ''.json''"

definition json_stem :: "string \<Rightarrow> string" where
  "json_stem name = take (length name - 5) name"

text \<open>One directory of records bound to a tenant: its bounded listing, each record read.\<close>

definition bound_record_ids ::
    "state_transaction \<Rightarrow> (json \<Rightarrow> json \<Rightarrow> StateRecordPath py) \<Rightarrow> string \<Rightarrow> string \<Rightarrow> json \<Rightarrow> nat \<Rightarrow> string list repo" where
  "bound_record_ids t path_of directory kind tenant maximum_records =
     exclusive t
     (bindT (liftT (validate_uuid7 tenant)) (\<lambda>canonical_id.
      bindT (readT (\<lambda>root. open_descendant (tx_policy t) root [''tenants'', canonical_id, directory])) (\<lambda>opened.
      thenT (remove_abandoned_publication_temporaries (tx_policy t) opened (maximum_records + 1))
      (readT (\<lambda>root.
         let names = scandir root opened in
         if length names > maximum_records
         then Inl (StateRecordError (''tenant '' @ kind @ '' history exceeds its retention bound''))
         else traverseE (\<lambda>name.
           if \<not> json_name name then Inl (StateRecordError (''tenant '' @ kind @ '' history has an invalid record name''))
           else bindE (validate_uuid7 (JStr (json_stem name))) (\<lambda>identifier.
             thenE (read_at t (path_of (JStr canonical_id) (JStr identifier)) root) (Inr identifier))) names)))))"

definition bounded_tenant_deployment_ids :: "state_transaction \<Rightarrow> json \<Rightarrow> nat \<Rightarrow> string list repo" where
  "bounded_tenant_deployment_ids t = bound_record_ids t tenant_deployment_path ''deployments'' ''deployment''"

definition tenant_deployment_ids :: "state_transaction \<Rightarrow> json \<Rightarrow> string list repo" where
  "tenant_deployment_ids t tenant = bounded_tenant_deployment_ids t tenant MAX_RETAINED_DEPLOYMENT_RECORDS"

definition tenant_deployment_transition_ids :: "state_transaction \<Rightarrow> json \<Rightarrow> json \<Rightarrow> string list repo" where
  "tenant_deployment_transition_ids t tenant candidate =
     bindT (liftT (validate_uuid7 candidate)) (\<lambda>canonical_candidate_id.
     bindT (bounded_tenant_deployment_ids t tenant (MAX_RETAINED_DEPLOYMENT_RECORDS + 1)) (\<lambda>identities.
     liftT (if length identities > MAX_RETAINED_DEPLOYMENT_RECORDS \<and> last identities \<noteq> canonical_candidate_id
            then Inl (StateRecordError ''deployment transition exceeds its candidate authority'')
            else Inr identities)))"

definition tenant_archive_ids :: "state_transaction \<Rightarrow> json \<Rightarrow> string list repo" where
  "tenant_archive_ids t tenant =
     bound_record_ids t tenant_archive_path ''archives'' ''archive'' tenant MAX_RETAINED_DEPLOYMENT_RECORDS"

definition deployment_for_digest :: "state_transaction \<Rightarrow> json \<Rightarrow> json \<Rightarrow> json repo" where
  "deployment_for_digest t tenant expected_digest =
     exclusive t
     (bindT (liftT (validate_uuid7 tenant)) (\<lambda>canonical_id.
      bindT (tenant_deployment_ids t (JStr canonical_id)) (\<lambda>identities.
      readT (\<lambda>root.
        bindE (traverseE (\<lambda>identifier.
          bindE (read_at t (tenant_deployment_path (JStr canonical_id) (JStr identifier)) root) (\<lambda>found.
          bindE (deployment_record_digest (tx_env t) (stored_document found)) (\<lambda>digest.
          Inr (if Digest_to_dict digest = expected_digest then [stored_document found] else [])))) identities) (\<lambda>found.
        case concat found of
          [match] \<Rightarrow> Inr match
        | _ \<Rightarrow> Inl (StateRecordError ''authorization-bound deployment record is not unique''))))))"

text \<open>
  The histories of an identity. What \<^verbatim>\<open>lstat\<close> and \<^verbatim>\<open>scandir\<close> report of the release directory of a
  tenant is an argument: absent, not a directory, or a directory with its names.
\<close>

datatype release_listing = NoReleases | NotADirectory | Releases "string list"

definition tenant_has_release_history :: "(string \<Rightarrow> release_listing) \<Rightarrow> string \<Rightarrow> bool py" where
  "tenant_has_release_history releases tenant =
     (case releases tenant of
        NoReleases \<Rightarrow> Inr False
      | NotADirectory \<Rightarrow> Inl (StateRecordError ''tenant release history is not a directory'')
      | Releases names \<Rightarrow> Inr (names \<noteq> []))"

definition current_deployment_history :: "state_transaction \<Rightarrow> string \<Rightarrow> bool repo" where
  "current_deployment_history t canonical_id =
     bindT (tenant_deployment_ids t (JStr canonical_id)) (\<lambda>deployments.
     if deployments \<noteq> [] then liftT (Inr True)
     else bindT (tenant_archive_ids t (JStr canonical_id)) (\<lambda>archives. liftT (Inr (archives \<noteq> []))))"

definition repo_tenant_has_deployment_history ::
    "state_transaction \<Rightarrow> Segments py \<Rightarrow> (string \<Rightarrow> release_listing) \<Rightarrow> json \<Rightarrow> bool repo" where
  "repo_tenant_has_deployment_history t audit releases tenant =
     exclusive t
     (bindT (liftT (validate_uuid7 tenant)) (\<lambda>canonical_id.
      bindT (repo_measure_inventory t) (\<lambda>inventory.
      bindT (if canonical_id \<in> set (tenant_ids inventory) then current_deployment_history t canonical_id
             else liftT (Inr False)) (\<lambda>current.
      if current then liftT (Inr True)
      else liftT (bindE (tenant_has_release_history releases canonical_id) (\<lambda>released.
        if released then Inr True
        else bindE audit (\<lambda>segments.
          tenant_has_deployment_audit_history (tx_env t) DEFAULT_AUDIT_LIMITS segments (JStr canonical_id))))))))"

definition deployment_history_step ::
    "state_transaction \<Rightarrow> (string \<Rightarrow> release_listing) \<Rightarrow> string list \<Rightarrow> string list \<Rightarrow> string \<Rightarrow> string list repo" where
  "deployment_history_step t releases current_ids matches canonical_id =
     bindT (if canonical_id \<in> set current_ids then current_deployment_history t canonical_id
            else liftT (Inr False)) (\<lambda>current.
     if current then liftT (Inr (matches @ [canonical_id]))
     else bindT (liftT (tenant_has_release_history releases canonical_id)) (\<lambda>released.
       liftT (Inr (if released then matches @ [canonical_id] else matches))))"

definition deployment_history_tenant_ids ::
    "state_transaction \<Rightarrow> Segments py \<Rightarrow> (string \<Rightarrow> release_listing) \<Rightarrow> json list \<Rightarrow> string set repo" where
  "deployment_history_tenant_ids t audit releases tenants =
     exclusive t
     (bindT (liftT (traverseE validate_uuid7 tenants)) (\<lambda>canonical_ids.
      if canonical_ids \<noteq> sort (remdups canonical_ids)
      then liftT (Inl (ValueError ''deployment-history tenant IDs must be sorted and unique''))
      else if canonical_ids = [] then liftT (Inr {})
      else
      bindT (repo_measure_inventory t) (\<lambda>inventory.
      bindT (foldT (deployment_history_step t releases (tenant_ids inventory)) [] canonical_ids) (\<lambda>matches.
      let candidates = filter (\<lambda>i. i \<notin> set matches) canonical_ids in
      liftT (if candidates = [] then Inr (set matches)
        else bindE audit (\<lambda>segments.
          bindE (deployment_audit_history_tenant_ids (tx_env t) DEFAULT_AUDIT_LIMITS segments candidates) (\<lambda>audited.
          Inr (set matches \<union> audited))))))))"

definition repo_tenant_has_identity_history :: "state_transaction \<Rightarrow> Segments py \<Rightarrow> json \<Rightarrow> bool repo" where
  "repo_tenant_has_identity_history t audit tenant =
     exclusive t
     (bindT (liftT (validate_uuid7 tenant)) (\<lambda>canonical_id.
      bindT (repo_measure_inventory t) (\<lambda>inventory.
      if canonical_id \<in> set (tenant_ids inventory) then liftT (Inr True)
      else liftT (bindE audit (\<lambda>segments.
        tenant_has_identity_audit_history (tx_env t) DEFAULT_AUDIT_LIMITS segments (JStr canonical_id))))))"

section \<open>Creating and replacing records\<close>

definition create_immutable_bytes :: "state_transaction \<Rightarrow> StateRecordPath \<Rightarrow> bytes \<Rightarrow> StoredContract repo" where
  "create_immutable_bytes t p candidate =
     exclusive t
     (bindT (liftT (path_components p)) (\<lambda>components.
      thenT (durable_create_immutable (tx_policy t) components candidate) (readT (read_path t p))))"

definition create_immutable :: "state_transaction \<Rightarrow> StateRecordPath \<Rightarrow> json \<Rightarrow> StoredContract repo" where
  "create_immutable t p d =
     exclusive t (bindT (liftT (encode_new (tx_env t) p d)) (create_immutable_bytes t p))"

definition ensure_immutable_exact :: "state_transaction \<Rightarrow> StateRecordPath \<Rightarrow> json \<Rightarrow> StoredContract repo" where
  "ensure_immutable_exact t p d =
     bindT (liftT (encode_new (tx_env t) p d)) (\<lambda>candidate root.
     case read_path t p root of
       Inl FileNotFoundError \<Rightarrow> create_immutable_bytes t p candidate root
     | Inl e \<Rightarrow> (Inl e, root)
     | Inr current \<Rightarrow>
         (if stored_revision current \<noteq> revision (contract_kind (path_name p)) candidate
          then Inl (StateConflictError ''existing immutable state disagrees with create intent'')
          else Inr current, root))"

definition replace_record :: "state_transaction \<Rightarrow> StateRecordPath \<Rightarrow> bytes \<Rightarrow> StoredContract repo" where
  "replace_record t p candidate =
     bindT (liftT (path_components p)) (\<lambda>components.
     thenT (durable_replace (tx_policy t) components candidate) (readT (read_path t p)))"

definition check_revision :: "state_transaction \<Rightarrow> StateRecordPath \<Rightarrow> StateRevision \<Rightarrow> state_root \<Rightarrow> StoredContract py" where
  "check_revision t p expected_revision root =
     bindE (read_path t p root) (\<lambda>current.
     if stored_revision current \<noteq> expected_revision
     then Inl (StateConflictError ''authoritative state changed before commit'') else Inr current)"

definition check_replacement :: "state_transaction \<Rightarrow> StateRecordName \<Rightarrow> json \<Rightarrow> bytes \<Rightarrow> unit py" where
  "check_replacement t name current candidate =
     thenE
     (bindE (andE (Inr (name = ARCHIVE_RETIREMENT_INTENT_PATH))
               (eqE (dict_get current ''compatibilityVersion'') (lit ''static-retirement-v2''))) (\<lambda>retiring.
      if retiring
      then bindE (decode_contract (tx_env t) candidate (Some ARCHIVE_RETIREMENT_INTENT) MAX_CANONICAL_BYTES)
             (validate_new_archive_retirement_shape name)
      else Inr ()))
     (if name = AUTHORIZATION_JOB_PATH
      then bindE (decode_contract (tx_env t) candidate (Some AUTHORIZATION_JOB) MAX_CANONICAL_BYTES)
             (validate_authorization_phase_replacement current)
      else Inr ())"

definition compare_and_swap_bytes ::
    "state_transaction \<Rightarrow> StateRecordPath \<Rightarrow> StateRevision \<Rightarrow> bytes \<Rightarrow> StoredContract repo" where
  "compare_and_swap_bytes t p expected_revision candidate =
     exclusive t
     (if \<not> allows_replacement (path_name p)
      then liftT (Inl (StateRecordError ''immutable state-record path cannot be replaced''))
      else
      bindT (readT (check_revision t p expected_revision)) (\<lambda>current.
      thenT (liftT (check_replacement t (path_name p) (stored_document current) candidate))
      (replace_record t p candidate)))"

definition compare_and_swap :: "state_transaction \<Rightarrow> StateRecordPath \<Rightarrow> StateRevision \<Rightarrow> json \<Rightarrow> StoredContract repo" where
  "compare_and_swap t p expected_revision d =
     exclusive t (bindT (liftT (encode_record (tx_env t) p d)) (compare_and_swap_bytes t p expected_revision))"

section \<open>Executor-owned authority of a job\<close>

definition admit_atomic_authorization_replacement ::
    "state_transaction \<Rightarrow> StateRecordPath \<Rightarrow> bytes \<Rightarrow> HostCapacityLimits \<Rightarrow> unit repo" where
  "admit_atomic_authorization_replacement t p candidate limits =
     bindT (liftT (allocation_upper_bound (tx_host t) (int (length candidate)))) (\<lambda>candidate_allocation.
     bindT (readT (\<lambda>root. bindE (path_components p) (regular_allocation (tx_policy t) root))) (\<lambda>current_allocation.
     bindT (liftT (StateInventoryReservation_post_init
        \<lparr>reserved_tenants = 0, reserved_authorization_records = 0,
         reserved_authorization_bytes = max 0 (candidate_allocation - current_allocation)\<rparr>)) (\<lambda>reservation.
     thenT (admit_inventory t reservation)
     (bindT (liftT (repo_namespace_allocation_upper_bound t 1)) (\<lambda>namespace_allocation.
      thenT (liftT (admit_reservation t (candidate_allocation + namespace_allocation) 1 limits)) (liftT (Inr ())))))))"

text \<open>The common shape of the commits of executor-owned authority.\<close>

definition commit_authority ::
    "state_transaction \<Rightarrow> StateRecordPath \<Rightarrow> StateRevision \<Rightarrow> json \<Rightarrow> (json \<Rightarrow> unit py) \<Rightarrow> HostCapacityLimits
       \<Rightarrow> StoredContract repo" where
  "commit_authority t p expected_revision d validate limits =
     bindT (liftT (encode_record (tx_env t) p d)) (\<lambda>candidate.
     bindT (readT (check_revision t p expected_revision)) (\<lambda>current.
     thenT (liftT (validate (stored_document current)))
     (thenT (admit_atomic_authorization_replacement t p candidate limits)
     (replace_record t p candidate))))"

definition bind_dispatch_authority ::
    "state_transaction \<Rightarrow> StateRecordPath \<Rightarrow> StateRevision \<Rightarrow> json \<Rightarrow> HostCapacityLimits \<Rightarrow> StoredContract repo" where
  "bind_dispatch_authority t p expected_revision d limits =
     exclusive t
     (if path_name p \<noteq> AUTHORIZATION_JOB_PATH
      then liftT (Inl (StateRecordError ''dispatch authority belongs only to an authorization job''))
      else commit_authority t p expected_revision d (\<lambda>current. validate_dispatch_authority_replacement current d) limits)"

definition rebind_route_source_authority ::
    "state_transaction \<Rightarrow> StateRecordPath \<Rightarrow> StateRevision \<Rightarrow> json \<Rightarrow> bool \<Rightarrow> HostCapacityLimits \<Rightarrow> StoredContract repo" where
  "rebind_route_source_authority t p expected_revision d allow_reconcile_source_advance limits =
     exclusive t
     (if path_name p \<noteq> AUTHORIZATION_JOB_PATH
      then liftT (Inl (StateRecordError ''route source authority belongs only to an authorization job''))
      else
      bindT (repo_measure_intent_records t) (\<lambda>inventory.
      if intent_records inventory \<noteq> []
      then liftT (Inl (StateRecordError ''route source authority cannot advance after intent creation''))
      else commit_authority t p expected_revision d
        (\<lambda>current. validate_route_source_authority_replacement current d allow_reconcile_source_advance) limits))"

definition commit_execution_validation ::
    "state_transaction \<Rightarrow> StateRecordPath \<Rightarrow> StateRevision \<Rightarrow> json \<Rightarrow> HostCapacityLimits \<Rightarrow> StoredContract repo" where
  "commit_execution_validation t p expected_revision d limits =
     exclusive t
     (if path_name p \<noteq> AUTHORIZATION_JOB_PATH
      then liftT (Inl (StateRecordError ''execution validation belongs only to an authorization job''))
      else commit_authority t p expected_revision d (\<lambda>current. validate_execution_validation_replacement current d) limits)"

definition retirable_export :: "json \<Rightarrow> string \<Rightarrow> unit py" where
  "retirable_export d reason =
     bindE (getitem d ''request'') (\<lambda>request.
     refuse_record (anyE
       [Inr (reason \<notin> {''acknowledged'', ''expired''}), Inr (\<not> is_dict request),
        neqE (getitem request ''operation'') (lit ''export''),
        neqE (getitem d ''phase'') (lit ''completed''),
        neqE (dict_get d ''executionValidated'') (Inr (JBool True)),
        testE (\<lambda>v. v \<notin> {JNull, JStr ''unacknowledged''}) (dict_get d ''exportDelivery'')])
       ''export retirement requires a validated available export'')"

definition commit_export_retirement :: "state_transaction \<Rightarrow> json \<Rightarrow> string \<Rightarrow> StoredContract repo" where
  "commit_export_retirement t job reason =
     exclusive t
     (bindT (liftT (authorization_job_path job)) (\<lambda>p.
      bindT (transaction_read t p) (\<lambda>current.
      let d = stored_document current in
      thenT (liftT (retirable_export d reason))
      (bindT (liftT (authorization_result_path job)) (\<lambda>result_path.
       bindT (transaction_read t result_path) (\<lambda>result.
       thenT (liftT (refuse_record (anyE [neqE (getitem (stored_document result) ''status'') (lit ''succeeded''),
                 testE (\<lambda>v. \<not> is_dict v) (dict_get (stored_document result) ''exportBundle'')])
               ''export retirement has no successful bundle result''))
       (bindT (liftT (bindE (setitem d ''exportDelivery'' (JStr reason)) (encode_record (tx_env t) p))) (\<lambda>candidate.
        thenT (admit_atomic_authorization_replacement t p candidate DEFAULT_HOST_CAPACITY_LIMITS)
        (replace_record t p candidate)))))))))"

section \<open>Intents\<close>

definition repo_read_intent :: "state_transaction \<Rightarrow> json \<Rightarrow> (StateRecordPath \<times> StoredContract) repo" where
  "repo_read_intent t intent =
     exclusive t (readT (\<lambda>root. read_intent_locked (tx_env t) (tx_policy t) root intent))"

definition find_generation :: "IntentRecordInventory \<Rightarrow> string option \<Rightarrow> int list option" where
  "find_generation inventory identifier =
     map_option identity_generation (List.find (\<lambda>i. Some (identity_intent_id i) = identifier) (intent_records inventory))"

definition remove_reconciled_intent :: "state_transaction \<Rightarrow> StateRecordPath \<Rightarrow> RemovalToken \<Rightarrow> unit repo" where
  "remove_reconciled_intent t p expected =
     exclusive t
     (if \<not> is_intent (path_name p)
      then liftT (Inl (StateRecordError ''only an intent can cross the reconciliation removal boundary''))
      else
      bindT (readT (read_path t p)) (\<lambda>current.
      if stored_revision current \<noteq> token_revision expected
      then liftT (Inl (StateConflictError ''intent changed after it was reconciled''))
      else
      bindT (repo_measure_intent_records t) (\<lambda>inventory.
      if find_generation inventory (path_record_id p) \<noteq> Some (token_generation expected)
      then liftT (Inl (StateConflictError ''intent inode changed after it was reconciled''))
      else
      bindT (liftT (path_components p)) (\<lambda>components.
      durable_remove (tx_policy t) components False))))"

section \<open>Retained deployments and restored archives\<close>

definition deployment_removal_authority :: "state_transaction \<Rightarrow> StoredContract \<Rightarrow> (StateRecordPath \<times> bytes) py" where
  "deployment_removal_authority t expected =
     (let d = stored_document expected in
      bindE (case bindE (getitem d ''tenantId'') (\<lambda>tenant. bindE (getitem d ''id'') (tenant_deployment_path tenant)) of
               Inl (KeyError k) \<Rightarrow> Inl (StateRecordError ''deployment removal authority is malformed'')
             | m \<Rightarrow> m) (\<lambda>p.
      bindE (encode_record (tx_env t) p d) (\<lambda>candidate. Inr (p, candidate))))"

definition deployment_removal_token :: "state_transaction \<Rightarrow> StoredContract \<Rightarrow> RemovalToken repo" where
  "deployment_removal_token t expected =
     exclusive t (readT (\<lambda>root.
       bindE (deployment_removal_authority t expected) (\<lambda>(p, candidate).
       bindE (read_path t p root) (\<lambda>current.
       if stored_revision current \<noteq> stored_revision expected
          \<or> stored_revision current \<noteq> revision (contract_kind (path_name p)) candidate
       then Inl (StateConflictError ''deployment changed before removal authorization'')
       else
       bindE (path_components p) (\<lambda>components.
       bindE (regular_metadata_generation (tx_policy t) root components) (\<lambda>generation.
       bindE (read_path t p root) (\<lambda>again.
       if stored_revision again \<noteq> stored_revision current
       then Inl (StateConflictError ''deployment changed during removal authorization'')
       else DeploymentRemovalToken (stored_revision current) generation)))))))"

definition remove_exact_deployment :: "state_transaction \<Rightarrow> StoredContract \<Rightarrow> RemovalToken \<Rightarrow> unit repo" where
  "remove_exact_deployment t expected removal =
     exclusive t
     (bindT (readT (\<lambda>root.
        bindE (deployment_removal_authority t expected) (\<lambda>(p, candidate).
        bindE (read_path t p root) (\<lambda>current.
        bindE (path_components p) (\<lambda>components.
        bindE (regular_metadata_generation (tx_policy t) root components) (\<lambda>generation.
        if token_revision removal \<noteq> stored_revision expected \<or> stored_revision current \<noteq> stored_revision expected
           \<or> stored_revision current \<noteq> revision (contract_kind (path_name p)) candidate
           \<or> generation \<noteq> token_generation removal
        then Inl (StateConflictError ''deployment changed before exact removal'')
        else Inr components)))))) (\<lambda>components.
      durable_remove (tx_policy t) components False))"

text \<open>The two journals of a restore, and the state they must agree with before its archive is unbound.\<close>

definition restore_journals_disagree :: "json \<Rightarrow> json \<Rightarrow> bool py" where
  "restore_journals_disagree intent d =
     anyE (map (\<lambda>field. neqE (getitem intent field) (getitem d field)) [''tenantId'', ''correlationId'', ''sourceManifestDigest'']
       @ [neqE (getitem intent ''operation'') (lit ''restore'')])"

definition restore_incomplete :: "state_transaction \<Rightarrow> json \<Rightarrow> json \<Rightarrow> json \<Rightarrow> state_root \<Rightarrow> bool py" where
  "restore_incomplete t intent recovery tenant root =
     anyE [neqE (bindE (read_at t (tenant_desired_path tenant) root) (\<lambda>c. Inr (stored_document c)))
             (getitem intent ''candidateManifest''),
           neqE (bindE (read_at t (tenant_observed_path tenant) root) (\<lambda>c. Inr (stored_document c)))
             (getitem recovery ''candidateObservedState'')]"

definition remove_restored_archive :: "state_transaction \<Rightarrow> StoredContract \<Rightarrow> unit repo" where
  "remove_restored_archive t retirement =
     exclusive t
     (thenT (liftT (require_lock t PUBLICATION EXCLUSIVE))
     (let d = stored_document retirement in
      thenT (liftT (validate_contract (tx_env t) d (Some ARCHIVE_RETIREMENT_INTENT)))
      (bindT (readT (\<lambda>root. read_at t (bindE (getitem d ''intentId'') archive_retirement_intent_path) root)) (\<lambda>stored.
       bindT (liftT (if stored_revision stored \<noteq> stored_revision retirement then Inr True
                else neqE (getitem d ''transition'') (lit ''restore''))) (\<lambda>changed.
       if changed then liftT (Inl (StateConflictError ''restore retirement authority changed''))
       else
       bindT (repo_measure_intent_records t) (\<lambda>inventory.
       bindT (readT (\<lambda>root. traverseE (\<lambda>i.
          bindE (read_intent_locked (tx_env t) (tx_policy t) root (JStr (identity_intent_id i))) (\<lambda>r. Inr (snd r)))
          (intent_records inventory))) (\<lambda>journals.
       let local_journals = filter (\<lambda>r. revision_kind (stored_revision r) = TRANSACTION_INTENT) journals in
       if length journals \<noteq> 2 \<or> length local_journals \<noteq> 1
       then liftT (Inl (StateRecordError ''restore unbinding requires its two exact journals''))
       else
       let intent = stored_document (hd local_journals) in
       thenT (liftT (refuse_record (restore_journals_disagree intent d) ''restore journals disagree before archive unbinding''))
       (bindT (liftT (getitem intent ''lifecycleRecovery'')) (\<lambda>recovery.
        bindT (liftT (getitem d ''tenantId'')) (\<lambda>tenant.
        thenT (readT (\<lambda>root. refuse_record (restore_incomplete t intent recovery tenant root) ''archive unbinding precedes complete restored state''))
        (bindT (liftT (getitem d ''archiveRecord'')) (\<lambda>archive.
         bindT (liftT (bindE (getitem archive ''deploymentId'') (tenant_archive_path tenant))) (\<lambda>p.
         bindT (liftT (path_components p)) (\<lambda>components root.
         case read_path t p root of
           Inl FileNotFoundError \<Rightarrow> (thenE (open_descendant (tx_policy t) root (butlast components)) (Inr ()), root)
         | Inl e \<Rightarrow> (Inl e, root)
         | Inr current \<Rightarrow>
             if stored_document current \<noteq> archive
             then (Inl (StateConflictError ''archive record changed before retirement''), root)
             else durable_remove (tx_policy t) components False root))))))))))))))"

end
