(* ===== verification/State_Namespace.thy ===== *)
theory State_Namespace
  imports State_Repository
begin

text \<open>
  The rest of the transaction of \<^verbatim>\<open>static_host_agent/repository.py\<close>: the directory tree and the pair
  of states of a tenant being created, under its create intent, and the durable rotation of the
  recovery batches.
\<close>

section \<open>Directories\<close>

definition TENANT_CHILD_DIRECTORIES :: "string list" where
  "TENANT_CHILD_DIRECTORIES = [''archives'', ''deployments'']"

text \<open>\<^verbatim>\<open>os.mkdir\<close> followed by \<^verbatim>\<open>os.fchmod\<close>, where the name is free.\<close>

definition new_directory :: "state_policy \<Rightarrow> nat \<Rightarrow> inode" where
  "new_directory policy n =
     Directory ((fresh_stat policy n)\<lparr>st_mode := S_IFDIR OR expected_directory_mode policy, st_uid := process_uid policy\<rparr>)"

definition make_directory :: "state_policy \<Rightarrow> state_root \<Rightarrow> string list \<Rightarrow> state_root" where
  "make_directory policy root components =
     (if components |\<in>| fmdom (root_nodes root) then root
      else \<lparr>root_nodes = fmupd components (new_directory policy (root_created root)) (root_nodes root),
            root_created = root_created root + 1\<rparr>)"

definition open_child :: "state_policy \<Rightarrow> state_root \<Rightarrow> string list \<Rightarrow> unit py" where
  "open_child policy root components =
     (case fmlookup (root_nodes root) components of
        None \<Rightarrow> Inl FileNotFoundError
      | Some (Entry data st) \<Rightarrow> Inl (OSError ''not a directory'')
      | Some (Directory st) \<Rightarrow> validate_state_directory policy st)"

definition ensure_directory :: "state_policy \<Rightarrow> string list \<Rightarrow> (state_root, unit) tx" where
  "ensure_directory policy components = (\<lambda>root.
     let made = make_directory policy root components in (open_child policy made components, made))"

definition remove_directory :: "string list \<Rightarrow> (state_root, unit) tx" where
  "remove_directory components = (\<lambda>root.
     case fmlookup (root_nodes root) components of
       None \<Rightarrow> (Inl FileNotFoundError, root)
     | Some (Entry data st) \<Rightarrow> (Inl (OSError ''not a directory''), root)
     | Some (Directory st) \<Rightarrow>
         if scandir root components \<noteq> [] then (Inl (OSError ''directory not empty''), root)
         else (Inr (), unlink root components))"

section \<open>The create intent\<close>

definition is_create_intent :: "string \<Rightarrow> StateRecordPath \<times> StoredContract \<Rightarrow> bool py" where
  "is_create_intent tenant = (\<lambda>(p, r).
     andE (Inr (contract_kind (path_name p) = TRANSACTION_INTENT))
     (andE (eqE (getitem (stored_document r) ''operation'') (lit ''create''))
           (eqE (getitem (stored_document r) ''tenantId'') (lit tenant))))"

definition require_create_intent :: "state_transaction \<Rightarrow> string \<Rightarrow> StoredContract repo" where
  "require_create_intent t tenant =
     thenT (liftT (require_lock t PUBLICATION EXCLUSIVE))
     (bindT (repo_measure_intent_records t) (\<lambda>inventory.
      readT (\<lambda>root.
        bindE (traverseE (\<lambda>i.
          bindE (read_intent_locked (tx_env t) (tx_policy t) root (JStr (identity_intent_id i))) (\<lambda>r.
          bindE (is_create_intent tenant r) (\<lambda>matches. Inr (if matches then [snd r] else []))))
          (intent_records inventory)) (\<lambda>found.
        if length (concat found) \<noteq> 1 \<or> length (intent_records inventory) \<noteq> 1
        then Inl (StateRecordError ''create mutation requires one matching active create intent'')
        else thenE (open_descendant (tx_policy t) root [''intents'']) (Inr (hd (concat found)))))))"

definition admit_create_tenant_identity :: "state_transaction \<Rightarrow> string \<Rightarrow> unit repo" where
  "admit_create_tenant_identity t tenant =
     bindT (repo_measure_inventory t) (\<lambda>inventory.
     if tenant \<in> set (tenant_ids inventory) then liftT (Inr ())
     else thenT (liftT (admit_state_inventory inventory
        \<lparr>reserved_tenants = 1, reserved_authorization_records = 0, reserved_authorization_bytes = 0\<rparr>
        DEFAULT_STATE_INVENTORY_LIMITS)) (liftT (Inr ())))"

section \<open>The namespace of a tenant\<close>

definition ensure_create_tenant_namespace :: "state_transaction \<Rightarrow> json \<Rightarrow> unit repo" where
  "ensure_create_tenant_namespace t tenant =
     exclusive t
     (bindT (liftT (validate_uuid7 tenant)) (\<lambda>canonical_id.
      thenT (require_create_intent t canonical_id)
      (thenT (admit_create_tenant_identity t canonical_id)
      (thenT (readT (\<lambda>root. open_descendant (tx_policy t) root [''tenants'']))
      (thenT (ensure_directory (tx_policy t) [''tenants'', canonical_id])
      (foldT (\<lambda>_ name. ensure_directory (tx_policy t) [''tenants'', canonical_id, name]) ()
         TENANT_CHILD_DIRECTORIES))))))"

definition missing_child :: "state_policy \<Rightarrow> state_root \<Rightarrow> string list \<Rightarrow> nat py" where
  "missing_child policy root components =
     (case open_child policy root components of
        Inl FileNotFoundError \<Rightarrow> Inr 1
      | Inl e \<Rightarrow> Inl e
      | Inr _ \<Rightarrow> Inr 0)"

definition measure_create_tenant_namespace_growth :: "state_transaction \<Rightarrow> json \<Rightarrow> nat repo" where
  "measure_create_tenant_namespace_growth t tenant =
     exclusive t
     (bindT (liftT (validate_uuid7 tenant)) (\<lambda>canonical_id.
      thenT (require_create_intent t canonical_id)
      (thenT (readT (\<lambda>root. open_descendant (tx_policy t) root [''tenants'']))
      (readT (\<lambda>root.
        case open_child (tx_policy t) root [''tenants'', canonical_id] of
          Inl FileNotFoundError \<Rightarrow> Inr (1 + length TENANT_CHILD_DIRECTORIES)
        | Inl e \<Rightarrow> Inl e
        | Inr _ \<Rightarrow>
            bindE (traverseE (\<lambda>name. missing_child (tx_policy t) root [''tenants'', canonical_id, name])
                     TENANT_CHILD_DIRECTORIES) (\<lambda>missing. Inr (sum_list missing)))))))"

definition require_empty_child :: "state_policy \<Rightarrow> string \<Rightarrow> state_root \<Rightarrow> string list \<Rightarrow> unit py" where
  "require_empty_child policy msg root components =
     thenE (open_child policy root components)
     (if scandir root components \<noteq> [] then Inl (StateRecordError msg) else Inr ())"

text \<open>The names found in the tree of an uncommitted tenant, none of them a record.\<close>

definition uncommitted_names :: "state_policy \<Rightarrow> state_root \<Rightarrow> string list \<Rightarrow> string list py" where
  "uncommitted_names policy root tenant_directory =
     thenE (open_child policy root tenant_directory)
     (let names = scandir root tenant_directory in
      if length names > length TENANT_CHILD_DIRECTORIES \<or> list_ex (\<lambda>name. name \<notin> set TENANT_CHILD_DIRECTORIES) names
      then Inl (StateRecordError ''uncommitted tenant namespace contains state records'')
      else
      thenE (traverseE (\<lambda>name. require_empty_child policy ''uncommitted tenant child directory is not empty'' root
               (tenant_directory @ [name])) names)
      (Inr names))"

definition remove_empty_create_tenant_namespace :: "state_transaction \<Rightarrow> json \<Rightarrow> unit repo" where
  "remove_empty_create_tenant_namespace t tenant =
     exclusive t
     (bindT (liftT (validate_uuid7 tenant)) (\<lambda>canonical_id.
      thenT (require_create_intent t canonical_id)
      (thenT (readT (\<lambda>root. open_descendant (tx_policy t) root [''tenants'']))
      (\<lambda>root.
        if \<not> [''tenants'', canonical_id] |\<in>| fmdom (root_nodes root) then (Inr (), root)
        else
        bindT (readT (\<lambda>r. uncommitted_names (tx_policy t) r [''tenants'', canonical_id])) (\<lambda>names.
        thenT (foldT (\<lambda>_ name. remove_directory [''tenants'', canonical_id, name]) () names)
        (remove_directory [''tenants'', canonical_id])) root))))"

section \<open>The state of a tenant being created\<close>

definition require_empty_create_namespace :: "state_transaction \<Rightarrow> string \<Rightarrow> unit repo" where
  "require_empty_create_namespace t tenant =
     (let allowed = TENANT_CHILD_DIRECTORIES @ [''desired.json'', ''observed.json''] in
      bindT (readT (\<lambda>root. open_descendant (tx_policy t) root [''tenants'', tenant])) (\<lambda>opened.
      thenT (remove_abandoned_publication_temporaries (tx_policy t) opened (length allowed + 1))
      (readT (\<lambda>root.
        let names = scandir root opened in
        if length names > length allowed \<or> \<not> set TENANT_CHILD_DIRECTORIES \<subseteq> set names \<or> \<not> set names \<subseteq> set allowed
        then Inl (StateRecordError ''create tenant namespace contains unexpected state'')
        else thenE (traverseE (\<lambda>name. require_empty_child (tx_policy t) ''create tenant namespace contains release history''
               root (opened @ [name])) TENANT_CHILD_DIRECTORIES) (Inr ())))))"

definition create_state_disagrees :: "json \<Rightarrow> json \<Rightarrow> json \<Rightarrow> json \<Rightarrow> bool py" where
  "create_state_disagrees intent recovery digest observed =
     anyE [neqE (dict_get intent ''sourceManifest'') none_lit,
           neqE (getitem intent ''sourceManifestDigest'') none_lit,
           neqE (getitem intent ''candidateManifestDigest'') (Inr digest),
           neqE (getitem recovery ''sourceObservedState'') none_lit,
           neqE (getitem recovery ''sourceRouteSet'') (lit ''absent''),
           neqE (getitem recovery ''candidateObservedState'') (Inr observed),
           neqE (getitem recovery ''candidateRouteSet'') (lit ''absent'')]"

definition validate_create_state :: "contract_env \<Rightarrow> json \<Rightarrow> json \<Rightarrow> json \<Rightarrow> unit py" where
  "validate_create_state env intent candidate_manifest observed =
     bindE (getitem intent ''lifecycleRecovery'') (\<lambda>recovery.
     bindE (manifest_digest env candidate_manifest) (\<lambda>digest.
     if \<not> is_dict recovery then Inl (StateRecordError ''create intent lifecycle recovery is malformed'')
     else
     bindE (getitem candidate_manifest ''spec'') (\<lambda>spec.
     if \<not> is_dict spec then Inl (StateRecordError ''create candidate manifest spec is malformed'')
     else
     thenE (refuse_record (anyE [neqE (getitem spec ''desiredState'') (lit ''undeployed''),
              Inr (dict_has spec ''desiredDeployment'')]) ''create candidate manifest is not undeployed'')
     (refuse_record (create_state_disagrees intent recovery (Digest_to_dict digest) observed)
        ''create state disagrees with its active intent''))))"

definition ensure_create_tenant_state :: "state_transaction \<Rightarrow> json \<Rightarrow> json \<Rightarrow> json \<Rightarrow> unit repo" where
  "ensure_create_tenant_state t tenant candidate_manifest observed =
     exclusive t
     (bindT (liftT (validate_uuid7 tenant)) (\<lambda>canonical_id.
      bindT (require_create_intent t canonical_id) (\<lambda>intent.
      thenT (liftT (validate_create_state (tx_env t) (stored_document intent) candidate_manifest observed))
      (thenT (ensure_create_tenant_namespace t (JStr canonical_id))
      (thenT (require_empty_create_namespace t canonical_id)
      (bindT (liftT (tenant_desired_path (JStr canonical_id))) (\<lambda>desired.
       thenT (ensure_immutable_exact t desired candidate_manifest)
       (bindT (liftT (tenant_observed_path (JStr canonical_id))) (\<lambda>observed_path.
        thenT (ensure_immutable_exact t observed_path observed) (liftT (Inr ())))))))))))"

section \<open>Rotating the recovery batches\<close>

definition RECOVERY_CURSOR_COMPONENTS :: "string list" where
  "RECOVERY_CURSOR_COMPONENTS = [''locks'', ''authorization-recovery.cursor'']"
definition RECOVERY_CURSOR_MAXIMUM_BYTES :: nat where "RECOVERY_CURSOR_MAXIMUM_BYTES = 36"

definition decode_ascii :: "bytes \<Rightarrow> string option" where
  "decode_ascii bs = (if list_all (\<lambda>b. unat b < 128) bs then Some (map (\<lambda>b. char_of (unat b)) bs) else None)"

text \<open>\<^verbatim>\<open>bisect_right\<close> of a sorted sequence.\<close>

definition bisect_right :: "string list \<Rightarrow> string \<Rightarrow> nat" where
  "bisect_right xs x = length (filter (\<lambda>y. y \<le> x) xs)"

definition recovery_start :: "string list \<Rightarrow> string option \<Rightarrow> nat" where
  "recovery_start canonical cursor =
     (case cursor of None \<Rightarrow> 0 | Some c \<Rightarrow> bisect_right canonical c mod length canonical)"

definition recovery_batch :: "string list \<Rightarrow> string option \<Rightarrow> nat \<Rightarrow> string list" where
  "recovery_batch canonical cursor limit =
     map (\<lambda>offset. canonical ! ((recovery_start canonical cursor + offset) mod length canonical))
       [0..<min limit (length canonical)]"

definition read_recovery_cursor :: "state_policy \<Rightarrow> state_root \<Rightarrow> string option py" where
  "read_recovery_cursor policy root =
     (case read_regular policy root RECOVERY_CURSOR_COMPONENTS RECOVERY_CURSOR_MAXIMUM_BYTES of
        Inl FileNotFoundError \<Rightarrow> Inr None
      | Inl e \<Rightarrow> Inl e
      | Inr raw \<Rightarrow>
          (case decode_ascii raw of
             None \<Rightarrow> Inl (StateRecordError ''recovery cursor is invalid'')
           | Some s \<Rightarrow> catch_contract (StateRecordError ''recovery cursor is invalid'')
               (bindE (validate_uuid7 (JStr s)) (\<lambda>c. Inr (Some c)))))"

definition select_recovery_batch :: "state_transaction \<Rightarrow> json list \<Rightarrow> int \<Rightarrow> string list repo" where
  "select_recovery_batch t jobs limit =
     exclusive t
     (if limit \<le> 0 then liftT (Inl (ValueError ''recovery batch limit must be a positive integer''))
      else
      bindT (liftT (traverseE validate_uuid7 jobs)) (\<lambda>ids.
      let canonical = sort ids in
      if length canonical \<noteq> card (set canonical)
      then liftT (Inl (StateRecordError ''recovery inventory contains duplicate job IDs''))
      else if canonical = [] then liftT (Inr [])
      else
      bindT (readT (read_recovery_cursor (tx_policy t))) (\<lambda>cursor.
      let batch = recovery_batch canonical cursor (nat limit) in
      thenT (durable_replace (tx_policy t) RECOVERY_CURSOR_COMPONENTS (ascii_bytes (last batch))) (liftT (Inr batch)))))"

end
