(* ===== verification/Recovery_Fairness.thy ===== *)
theory Recovery_Fairness
  imports State_Namespace
begin

text \<open>
  The rotation of the recovery batches is fair: consecutive rounds select consecutive positions of the
  sorted inventory, cyclically, because the cursor they leave behind is the last job selected.
\<close>

section \<open>Positions\<close>

lemma sorted_filter_le:
  fixes xs :: "string list"
  assumes "sorted xs" "distinct xs" "i < length xs"
  shows "bisect_right xs (xs ! i) = Suc i"
proof -
  have "{j. j < length xs \<and> xs ! j \<le> xs ! i} = {..i}"
  proof (rule set_eqI)
    fix j show "j \<in> {j. j < length xs \<and> xs ! j \<le> xs ! i} \<longleftrightarrow> j \<in> {..i}"
      using assms sorted_nth_mono[OF assms(1)] nth_eq_iff_index_eq[OF assms(2)]
      by (metis (mono_tags, lifting) atMost_iff le_less_trans linorder_le_cases mem_Collect_eq order_antisym)
  qed
  then show ?thesis by (simp add: bisect_right_def length_filter_conv_card)
qed

lemma recovery_start_less: "xs \<noteq> [] \<Longrightarrow> recovery_start xs cursor < length xs"
  by (simp add: recovery_start_def split: option.splits)

lemma length_recovery_batch [simp]: "length (recovery_batch xs cursor k) = min k (length xs)"
  by (simp add: recovery_batch_def)

lemma recovery_batch_nth:
  "i < min k (length xs) \<Longrightarrow> recovery_batch xs cursor k ! i = xs ! ((recovery_start xs cursor + i) mod length xs)"
  by (simp add: recovery_batch_def)

lemma last_recovery_batch:
  assumes "xs \<noteq> []" "0 < k"
  shows "last (recovery_batch xs cursor k) = xs ! ((recovery_start xs cursor + min k (length xs) - 1) mod length xs)"
proof -
  have "0 < min k (length xs)" using assms by simp
  moreover then have "recovery_batch xs cursor k \<noteq> []" by (metis length_greater_0_conv length_recovery_batch)
  ultimately have "last (recovery_batch xs cursor k) = recovery_batch xs cursor k ! (min k (length xs) - 1)"
    by (simp add: last_conv_nth)
  also have "\<dots> = xs ! ((recovery_start xs cursor + (min k (length xs) - 1)) mod length xs)"
    using \<open>0 < min k (length xs)\<close> by (intro recovery_batch_nth) linarith
  also have "recovery_start xs cursor + (min k (length xs) - 1) = recovery_start xs cursor + min k (length xs) - 1"
    using \<open>0 < min k (length xs)\<close> by linarith
  finally show ?thesis .
qed

text \<open>The next round starts where this one ended.\<close>

lemma next_recovery_start:
  assumes "sorted xs" "distinct xs" "xs \<noteq> []" "0 < k"
  shows "recovery_start xs (Some (last (recovery_batch xs cursor k)))
    = (recovery_start xs cursor + min k (length xs)) mod length xs"
proof -
  let ?n = "length xs" and ?p = "recovery_start xs cursor + min k (length xs) - 1"
  have n: "0 < ?n" "0 < min k ?n" using assms by simp_all
  have "bisect_right xs (xs ! (?p mod ?n)) = Suc (?p mod ?n)"
    using assms(1,2) n(1) by (intro sorted_filter_le) simp_all
  then have "recovery_start xs (Some (last (recovery_batch xs cursor k))) = Suc (?p mod ?n) mod ?n"
    by (simp add: recovery_start_def last_recovery_batch[OF assms(3,4)])
  also have "\<dots> = Suc ?p mod ?n" by (simp add: mod_Suc_eq)
  also have "Suc ?p = recovery_start xs cursor + min k ?n" using n(2) by linarith
  finally show ?thesis .
qed

section \<open>Rounds\<close>

fun recovery_rounds :: "state_transaction \<Rightarrow> json list \<Rightarrow> int \<Rightarrow> nat \<Rightarrow> string list list repo" where
  "recovery_rounds t jobs limit 0 = liftT (Inr [])"
| "recovery_rounds t jobs limit (Suc m) =
     bindT (select_recovery_batch t jobs limit) (\<lambda>batch.
     bindT (recovery_rounds t jobs limit m) (\<lambda>batches. liftT (Inr (batch # batches))))"

lemma uuid7_length: "fullmatch UUID7_PATTERN s \<Longrightarrow> length s = 36"
  by (simp add: length_fullmatch UUID7_PATTERN_def)

lemma fullmatch_set: "fullmatch ps s \<Longrightarrow> c \<in> set s \<Longrightarrow> \<exists>p \<in> set ps. p c"
  by (metis fullmatch_def in_set_conv_nth list_all2_conv_all_nth)

lemma lower_hex_ascii: "is_lower_hex c \<Longrightarrow> char_code c < 128"
  by (auto simp: is_lower_hex_def is_digit_def)

lemma uuid7_ascii: "fullmatch UUID7_PATTERN s \<Longrightarrow> list_all (\<lambda>c. char_code c < 128) s"
  unfolding list_all_iff
proof
  fix c assume "fullmatch UUID7_PATTERN s" "c \<in> set s"
  then obtain p where "p \<in> set UUID7_PATTERN" "p c" using fullmatch_set by blast
  then have "is_lower_hex c \<or> c \<in> {CHR ''-'', CHR ''7'', CHR ''8'', CHR ''9'', CHR ''a'', CHR ''b''}"
    by (auto simp: UUID7_PATTERN_def)
  then show "char_code c < 128" using lower_hex_ascii by (auto simp: char_code_def)
qed

lemma decode_ascii_bytes:
  assumes "list_all (\<lambda>c. char_code c < 128) s"
  shows "decode_ascii (ascii_bytes s) = Some s"
proof -
  have "unat (byte_of (char_code c)) = char_code c" if "c \<in> set s" for c
    using that assms by (auto simp: codec_simps list_all_iff)
  then show ?thesis using assms
    by (auto simp: decode_ascii_def ascii_bytes_def list_all_iff char_code_def intro!: map_idI)
qed

lemma select_recovery_batch_iff:
  assumes "policy_ok (tx_policy t)" "select_recovery_batch t jobs limit root = (Inr batch, root')"
    and "traverseE validate_uuid7 jobs = Inr ids" "ids \<noteq> []"
  shows "0 < limit" "distinct ids"
    "\<exists>cursor. read_recovery_cursor (tx_policy t) root = Inr cursor \<and> batch = recovery_batch (sort ids) cursor (nat limit)"
    "read_recovery_cursor (tx_policy t) root' = Inr (Some (last batch))"
proof -
  have ids: "fullmatch UUID7_PATTERN i" if "i \<in> set ids" for i
    using assms(3) that by (auto simp: traverseE_Inr_iff list_all2_conv_all_nth in_set_conv_nth uuid7_iff)
  show limit: "0 < limit" and dist: "distinct ids"
    using assms(2-4) unfolding select_recovery_batch_def exclusive_def
    by (auto simp: tx_simps Let_def card_distinct split: if_splits)
  have run: "bindT (readT (read_recovery_cursor (tx_policy t))) (\<lambda>cursor.
      let batch = recovery_batch (sort ids) cursor (nat limit) in
      thenT (durable_replace (tx_policy t) RECOVERY_CURSOR_COMPONENTS (ascii_bytes (last batch))) (liftT (Inr batch))) root
    = (Inr batch, root')"
    using assms(2,3) limit assms(4) distinct_card[of "sort ids"] dist
    unfolding select_recovery_batch_def exclusive_def by (auto simp: tx_simps Let_def sort_key_Nil_iff)
  then obtain cursor where cursor: "read_recovery_cursor (tx_policy t) root = Inr cursor"
      "batch = recovery_batch (sort ids) cursor (nat limit)"
      "durable_replace (tx_policy t) RECOVERY_CURSOR_COMPONENTS (ascii_bytes (last batch)) root = (Inr (), root')"
    by (auto simp: tx_simps Let_def)
  then show "\<exists>cursor. read_recovery_cursor (tx_policy t) root = Inr cursor \<and> batch = recovery_batch (sort ids) cursor (nat limit)"
    by blast
  have "last batch \<in> set ids"
  proof -
    have xs: "sort ids \<noteq> []" "0 < nat limit" using assms(4) limit by (simp_all add: sort_key_Nil_iff)
    then have "last batch \<in> set (sort ids)"
      unfolding cursor(2) last_recovery_batch[OF xs] using assms(4) by (intro nth_mem) simp
    then show ?thesis by simp
  qed
  then have u: "fullmatch UUID7_PATTERN (last batch)" by (rule ids)
  have "read_regular (tx_policy t) root' RECOVERY_CURSOR_COMPONENTS RECOVERY_CURSOR_MAXIMUM_BYTES
      = Inr (ascii_bytes (last batch))"
    using cursor(3) read_published[OF assms(1)] uuid7_length[OF u]
    by (simp add: durable_replace_iff RECOVERY_CURSOR_COMPONENTS_def RECOVERY_CURSOR_MAXIMUM_BYTES_def ascii_bytes_def)
  moreover have "validate_uuid7 (JStr (last batch)) = Inr (last batch)" using u by (simp add: uuid7_iff)
  ultimately show "read_recovery_cursor (tx_policy t) root' = Inr (Some (last batch))"
    using decode_ascii_bytes[OF uuid7_ascii[OF u]] by (simp add: read_recovery_cursor_def)
qed

lemma recovery_rounds_cover:
  assumes "policy_ok (tx_policy t)" "traverseE validate_uuid7 jobs = Inr ids" "ids \<noteq> []"
    and "recovery_rounds t jobs limit m root = (Inr batches, root')" "read_recovery_cursor (tx_policy t) root = Inr cursor"
    and "i < m * min (nat limit) (length ids)"
  shows "sort ids ! ((recovery_start (sort ids) cursor + i) mod length ids) \<in> set (concat batches)"
  using assms(4-6)
proof (induction m arbitrary: root batches cursor i)
  case (Suc m)
  let ?xs = "sort ids" and ?k = "min (nat limit) (length ids)"
  obtain batch r bs where step: "select_recovery_batch t jobs limit root = (Inr batch, r)"
      "recovery_rounds t jobs limit m r = (Inr bs, root')" "batches = batch # bs"
    using Suc.prems(1) by (auto simp: tx_simps)
  note sel = select_recovery_batch_iff[OF assms(1) step(1) assms(2,3)]
  have batch: "batch = recovery_batch ?xs cursor (nat limit)" using sel(3) Suc.prems(2) by auto
  show ?case
  proof (cases "i < ?k")
    case True
    then have "batch ! i = ?xs ! ((recovery_start ?xs cursor + i) mod length ids)" "i < length batch"
      unfolding batch by (simp_all add: recovery_batch_nth)
    then show ?thesis unfolding step(3) by (metis Un_iff concat.simps(2) nth_mem set_append)
  next
    case False
    have "recovery_start ?xs (Some (last batch)) = (recovery_start ?xs cursor + ?k) mod length ids"
      unfolding batch using sel(1,2) assms(3) next_recovery_start[of ?xs "nat limit" cursor]
      by (simp add: sort_key_Nil_iff)
    moreover have "?xs ! ((recovery_start ?xs (Some (last batch)) + (i - ?k)) mod length ids) \<in> set (concat bs)"
      using False Suc.prems(3) unfolding mult_Suc by (intro Suc.IH[OF step(2) sel(4)]) linarith
    moreover have "((recovery_start ?xs cursor + ?k) mod length ids + (i - ?k)) mod length ids
        = (recovery_start ?xs cursor + i) mod length ids"
      using le_add_diff_inverse[of ?k i] False by (metis add.assoc mod_add_left_eq not_less)
    ultimately show ?thesis unfolding step(3) by simp
  qed
qed simp

section \<open>Success\<close>

text \<open>The directory of the cursor is sound, and the cursor is absent or valid.\<close>

definition cursor_ready :: "state_policy \<Rightarrow> state_root \<Rightarrow> bool" where
  "cursor_ready policy root \<longleftrightarrow>
     open_parent policy root RECOVERY_CURSOR_COMPONENTS = Inr () \<and> is_ok (read_recovery_cursor policy root) \<and>
     (case fmlookup (root_nodes root) RECOVERY_CURSOR_COMPONENTS of Some (Directory st) \<Rightarrow> False | _ \<Rightarrow> True)"

lemma cursor_ready_published:
  assumes "cursor_ready policy root" "is_ok (read_recovery_cursor policy (publish policy root RECOVERY_CURSOR_COMPONENTS data))"
  shows "cursor_ready policy (publish policy root RECOVERY_CURSOR_COMPONENTS data)"
proof -
  let ?c = RECOVERY_CURSOR_COMPONENTS
  have "\<not> prefix ?c (butlast ?c)" by (simp add: RECOVERY_CURSOR_COMPONENTS_def)
  then have "open_directory policy (publish policy root ?c data) (butlast ?c) = open_directory policy root (butlast ?c)"
    using open_directory_cong[OF same_along_publish] by metis
  then have "open_parent policy (publish policy root ?c data) ?c = Inr ()"
    using assms(1) by (simp add: cursor_ready_def open_parent_def)
  then show ?thesis using assms(2) by (simp add: cursor_ready_def publish_def new_entry_def)
qed

lemma select_recovery_batch_succeeds:
  assumes "policy_ok (tx_policy t)" "require_exclusive t = Inr ()" "0 < limit"
    and "traverseE validate_uuid7 jobs = Inr ids" "distinct ids" "cursor_ready (tx_policy t) root"
  shows "\<exists>batch root'. select_recovery_batch t jobs limit root = (Inr batch, root') \<and> cursor_ready (tx_policy t) root'"
proof (cases "ids = []")
  case True
  then have "select_recovery_batch t jobs limit root = (Inr [], root)"
    using assms(2-4) by (simp add: select_recovery_batch_def exclusive_def thenT_def bindT_def liftT_def)
  then show ?thesis using assms(6) by blast
next
  case False
  obtain cursor where cursor: "read_recovery_cursor (tx_policy t) root = Inr cursor"
    using assms(6) by (auto simp: cursor_ready_def is_ok_iff)
  let ?batch = "recovery_batch (sort ids) cursor (nat limit)"
  let ?root = "publish (tx_policy t) root RECOVERY_CURSOR_COMPONENTS (ascii_bytes (last ?batch))"
  have "durable_replace (tx_policy t) RECOVERY_CURSOR_COMPONENTS (ascii_bytes (last ?batch)) root = (Inr (), ?root)"
    using assms(6) by (auto simp: durable_replace_iff cursor_ready_def split: option.splits inode.splits)
  then have selected: "select_recovery_batch t jobs limit root = (Inr ?batch, ?root)"
    using assms(2-5) False cursor distinct_card[of "sort ids"]
    by (simp add: select_recovery_batch_def exclusive_def thenT_def bindT_def liftT_def readT_def Let_def sort_key_Nil_iff)
  have "is_ok (read_recovery_cursor (tx_policy t) ?root)"
    using select_recovery_batch_iff(4)[OF assms(1) selected assms(4) False] by simp
  then show ?thesis using selected cursor_ready_published[OF assms(6)] by blast
qed

lemma recovery_rounds_succeed:
  assumes "policy_ok (tx_policy t)" "require_exclusive t = Inr ()" "0 < limit"
    and "traverseE validate_uuid7 jobs = Inr ids" "distinct ids"
  shows "cursor_ready (tx_policy t) root \<Longrightarrow> \<exists>batches root'. recovery_rounds t jobs limit m root = (Inr batches, root')"
proof (induction m arbitrary: root)
  case (Suc m)
  obtain batch r where r: "select_recovery_batch t jobs limit root = (Inr batch, r)" "cursor_ready (tx_policy t) r"
    using select_recovery_batch_succeeds[OF assms Suc.prems] by blast
  obtain batches root' where "recovery_rounds t jobs limit m r = (Inr batches, root')" using Suc.IH[OF r(2)] by blast
  then show ?case using r(1) by (simp add: bindT_def liftT_def)
qed (simp add: liftT_def)

lemma recovery_rounds_exhaust:
  assumes "policy_ok (tx_policy t)" "traverseE validate_uuid7 jobs = Inr ids"
    and "recovery_rounds t jobs limit m root = (Inr batches, root')" "int (length ids) \<le> int m * limit"
  shows "set ids \<subseteq> set (concat batches)"
proof (cases "ids = [] \<or> m = 0")
  case True
  then show ?thesis using assms(4) by auto
next
  case False
  then have ids: "ids \<noteq> []" and "0 < m" by auto
  then obtain batch r where "select_recovery_batch t jobs limit root = (Inr batch, r)"
    using assms(3) by (cases m) (auto simp: tx_simps)
  note sel = select_recovery_batch_iff[OF assms(1) this assms(2) ids]
  then obtain cursor where cursor: "read_recovery_cursor (tx_policy t) root = Inr cursor" by blast
  let ?n = "length ids" and ?xs = "sort ids"
  have "int ?n \<le> int (m * nat limit)" using assms(4) sel(1) by simp
  then have n: "?n \<le> m * nat limit" by linarith
  moreover have "?n \<le> m * ?n" using \<open>0 < m\<close> by simp
  ultimately have bound: "?n \<le> m * min (nat limit) ?n" by (simp add: min_def)
  show ?thesis
  proof
    fix j assume "j \<in> set ids"
    then obtain q where q: "q < ?n" "?xs ! q = j" by (metis in_set_conv_nth length_sort set_sort)
    let ?s = "recovery_start ?xs cursor"
    have s: "?s < ?n" using recovery_start_less[of ?xs cursor] ids by (simp add: sort_key_Nil_iff)
    obtain i where i: "i < ?n" "(?s + i) mod ?n = q"
    proof (cases "?s \<le> q")
      case True
      then show thesis using q(1) that[of "q - ?s"] by simp
    next
      case False
      then have "(?s + (q + ?n - ?s)) mod ?n = q" using s q(1) by simp
      then show thesis using False q(1) that[of "q + ?n - ?s"] by simp
    qed
    have "?xs ! ((?s + i) mod ?n) \<in> set (concat batches)"
      using i(1) bound by (intro recovery_rounds_cover[OF assms(1,2) ids assms(3) cursor]) simp
    then show "j \<in> set (concat batches)" using i(2) q(2) by simp
  qed
qed

text \<open>C13. The rotation of recovery work always makes progress and starves no job: while the inventory of
  unfinished jobs stays the same, every round under an exclusive lock succeeds, and the rounds whose
  limits add up to the size of the inventory select every job of it, wherever the durable cursor
  stood before the first of them.\<close>

theorem recovery_rotation_fair:
  assumes "policy_ok (tx_policy t)" "require_exclusive t = Inr ()" "cursor_ready (tx_policy t) root"
    and "traverseE validate_uuid7 jobs = Inr ids" "distinct ids" "0 < limit" "int (length ids) \<le> int m * limit"
  shows "\<exists>batches root'. recovery_rounds t jobs limit m root = (Inr batches, root') \<and> set ids \<subseteq> set (concat batches)"
  using recovery_rounds_succeed[OF assms(1,2,6,4,5,3), of m] recovery_rounds_exhaust[OF assms(1,4) _ assms(7)] by blast

end
