(* ===== verification/Record_Store.thy ===== *)
theory Record_Store
  imports Recovery_Fairness
begin

text \<open>
  The abstract contract of the state repository: a partial map from record slots to documents, and the
  steps it may take. Every operation of a transaction implements a finite number of these steps, and
  keeps the tree of inodes well-formed.
\<close>

section \<open>Slots\<close>

definition is_uuid7 :: "string \<Rightarrow> bool" where
  "is_uuid7 s \<longleftrightarrow> fullmatch UUID7_PATTERN s"

definition uuid7_file :: "string \<Rightarrow> bool" where
  "uuid7_file s \<longleftrightarrow> json_name s \<and> is_uuid7 (json_stem s)"

text \<open>The places where an authoritative record may be.\<close>

definition record_slot :: "string list \<Rightarrow> bool" where
  "record_slot c =
     (case c of
        [a, f] \<Rightarrow> a = ''platform'' \<and> f \<in> {''namespace.json'', ''launch.json''} \<or> a = ''intents'' \<and> uuid7_file f
      | [a, b, f] \<Rightarrow>
          a = ''authorization'' \<and> b \<in> {''jobs'', ''results'', ''correlations''} \<and> uuid7_file f
          \<or> a = ''tenants'' \<and> is_uuid7 b \<and> f \<in> {''desired.json'', ''observed.json''}
      | [a, t, b, f] \<Rightarrow> a = ''tenants'' \<and> is_uuid7 t \<and> b \<in> {''deployments'', ''archives''} \<and> uuid7_file f
      | _ \<Rightarrow> False)"

text \<open>What the constructors of a path establish: the identities its name needs, in canonical form.\<close>

definition path_ok :: "StateRecordPath \<Rightarrow> bool" where
  "path_ok p =
     (let tenant = path_tenant_id p; deployment = path_deployment_id p; identifier = path_record_id p;
          given = (\<lambda>i. case i of Some s \<Rightarrow> is_uuid7 s | None \<Rightarrow> False) in
      if path_name p \<in> {PLATFORM_NAMESPACE_PATH, PLATFORM_LAUNCH_PATH}
      then tenant = None \<and> deployment = None \<and> identifier = None
      else if path_name p \<in> {TENANT_DESIRED_PATH, TENANT_OBSERVED_PATH}
      then given tenant \<and> deployment = None \<and> identifier = None
      else if path_name p \<in> {TENANT_DEPLOYMENT_PATH, TENANT_ARCHIVE_PATH}
      then given tenant \<and> given deployment \<and> identifier = None
      else tenant = None \<and> deployment = None \<and> given identifier)"

lemma json_stem_append [simp]: "json_stem (s @ ''.json'') = s" "json_name (s @ ''.json'')"
  by (simp_all add: json_stem_def json_name_def)

lemma is_uuid7_length: "is_uuid7 s \<Longrightarrow> length s = 36"
  by (simp add: is_uuid7_def uuid7_length)

lemma uuid7_file_length: "uuid7_file s \<Longrightarrow> length s = 41"
  using is_uuid7_length[of "json_stem s"] by (auto simp: uuid7_file_def json_name_def json_stem_def)

lemma uuid7_file_append [simp]: "uuid7_file (s @ ''.json'') \<longleftrightarrow> is_uuid7 s"
  by (simp add: uuid7_file_def)

lemma record_slot_cases [consumes 1]:
  assumes "record_slot c"
  obtains (platform) f where "c = [''platform'', f]" "f \<in> {''namespace.json'', ''launch.json''}"
  | (intent) f where "c = [''intents'', f]" "uuid7_file f"
  | (authorization) b f where "c = [''authorization'', b, f]" "b \<in> {''jobs'', ''results'', ''correlations''}" "uuid7_file f"
  | (tenant) t f where "c = [''tenants'', t, f]" "is_uuid7 t" "f \<in> {''desired.json'', ''observed.json''}"
  | (retained) t b f where "c = [''tenants'', t, b, f]" "is_uuid7 t" "b \<in> {''deployments'', ''archives''}" "uuid7_file f"
proof -
  consider a f where "c = [a, f]" | a b f where "c = [a, b, f]" | a t b f where "c = [a, t, b, f]"
    using assms by (auto simp: record_slot_def split: list.splits)
  then show thesis
    using assms that unfolding record_slot_def by cases (simp_all, blast+)
qed

lemma record_slot_apart:
  assumes "record_slot c" "record_slot q" "prefix c q"
  shows "c = q"
  using assms(1)
proof (cases rule: record_slot_cases)
  case (platform f)
  from assms(2) show ?thesis by (cases rule: record_slot_cases) (use assms(3) platform in auto)
next
  case (intent f)
  from assms(2) show ?thesis by (cases rule: record_slot_cases) (use assms(3) intent in auto)
next
  case (authorization b f)
  from assms(2) show ?thesis by (cases rule: record_slot_cases) (use assms(3) authorization in auto)
next
  case (tenant t f)
  from assms(2) show ?thesis by (cases rule: record_slot_cases) (use assms(3) tenant in auto)
next
  case (retained t b f)
  from assms(2) show ?thesis by (cases rule: record_slot_cases) (use assms(3) retained in auto)
qed

lemma record_slot_no_temporary:
  assumes "record_slot c" "x \<in> set c"
  shows "\<not> temp_name_pattern x"
proof -
  have "length x \<noteq> 43" using assms
    by (cases rule: record_slot_cases) (auto dest: is_uuid7_length uuid7_file_length)
  then show ?thesis by (auto simp: temp_name_pattern_def)
qed

lemma path_components_slot:
  assumes "path_ok p"
  obtains c where "path_components p = Inr c" "record_slot c"
proof -
  have "\<exists>c. path_components p = Inr c \<and> record_slot c"
    using assms
    by (cases "path_name p") (auto simp: path_ok_def path_components_def global_components_def require_record_id_def
        tenant_components_def deployment_components_def record_slot_def Let_def split: option.splits)
  then show thesis using that by blast
qed

lemma uuid7_validated: "validate_uuid7 v = Inr s \<Longrightarrow> is_uuid7 s"
  by (simp add: uuid7_iff is_uuid7_def)

lemmas path_constructor_defs = tenant_desired_path_def tenant_observed_path_def tenant_deployment_path_def
  tenant_archive_path_def authorization_job_path_def authorization_result_path_def emergency_result_path_def
  authorization_correlation_path_def emergency_deletion_intent_path_def transaction_intent_path_def
  archive_construction_intent_path_def archive_retirement_intent_path_def
  tenant_path_def deployment_path_def record_path_def StateRecordPath.defs

lemma constructed_path_ok:
  "path_ok platform_namespace_path" "path_ok platform_launch_path"
  "tenant_desired_path v = Inr p \<Longrightarrow> path_ok p" "tenant_observed_path v = Inr p \<Longrightarrow> path_ok p"
  "tenant_deployment_path v w = Inr p \<Longrightarrow> path_ok p" "tenant_archive_path v w = Inr p \<Longrightarrow> path_ok p"
  "authorization_job_path v = Inr p \<Longrightarrow> path_ok p" "authorization_result_path v = Inr p \<Longrightarrow> path_ok p"
  "emergency_result_path v = Inr p \<Longrightarrow> path_ok p" "authorization_correlation_path v = Inr p \<Longrightarrow> path_ok p"
  "emergency_deletion_intent_path v = Inr p \<Longrightarrow> path_ok p" "transaction_intent_path v = Inr p \<Longrightarrow> path_ok p"
  "archive_construction_intent_path v = Inr p \<Longrightarrow> path_ok p" "archive_retirement_intent_path v = Inr p \<Longrightarrow> path_ok p"
  by (auto simp: path_ok_def platform_namespace_path_def platform_launch_path_def path_constructor_defs
      bindE_Inr_iff dest: uuid7_validated)

lemma constructed_path_name:
  "tenant_desired_path v = Inr p \<Longrightarrow> path_name p = TENANT_DESIRED_PATH"
  "tenant_observed_path v = Inr p \<Longrightarrow> path_name p = TENANT_OBSERVED_PATH"
  "tenant_deployment_path v w = Inr p \<Longrightarrow> path_name p = TENANT_DEPLOYMENT_PATH"
  "tenant_archive_path v w = Inr p \<Longrightarrow> path_name p = TENANT_ARCHIVE_PATH"
  "authorization_job_path v = Inr p \<Longrightarrow> path_name p = AUTHORIZATION_JOB_PATH"
  "authorization_result_path v = Inr p \<Longrightarrow> path_name p = AUTHORIZATION_RESULT_PATH"
  "archive_retirement_intent_path v = Inr p \<Longrightarrow> path_name p = ARCHIVE_RETIREMENT_INTENT_PATH"
  by (auto simp: path_constructor_defs bindE_Inr_iff)

section \<open>The records of a tree\<close>

definition stored :: "contract_env \<Rightarrow> state_policy \<Rightarrow> state_root \<Rightarrow> string list \<Rightarrow> json option" where
  "stored env policy root c =
     (case read_regular policy root c MAX_CANONICAL_BYTES of
        Inl _ \<Rightarrow> None
      | Inr raw \<Rightarrow> (case decode_json_object (env_codec env) raw MAX_CANONICAL_BYTES of Inl _ \<Rightarrow> None | Inr d \<Rightarrow> Some d))"

type_synonym record_store = "string list \<Rightarrow> json option"

definition records :: "contract_env \<Rightarrow> state_policy \<Rightarrow> state_root \<Rightarrow> record_store" where
  "records env policy root c = (if record_slot c then stored env policy root c else None)"

definition well_typed :: "contract_env \<Rightarrow> StateRecordPath \<Rightarrow> json \<Rightarrow> bool" where
  "well_typed env p d \<longleftrightarrow>
     validate_contract env d (Some (contract_kind (path_name p))) = Inr (contract_kind (path_name p)) \<and>
     validate_binding p d = Inr ()"

lemma stored_cong: "same_along root root' c \<Longrightarrow> stored env policy root c = stored env policy root' c"
  by (simp add: stored_def read_regular_cong[of root root' c])

lemma validated_kind_member: "validate_contract env d (Some k) = Inr k' \<Longrightarrow> k' = k"
  by (auto simp: validate_contract_iff validated_contract_iff)

lemma read_locked_iff:
  "read_locked env policy root p = Inr r \<longleftrightarrow>
     (\<exists>c raw. path_components p = Inr c \<and> read_regular policy root c MAX_CANONICAL_BYTES = Inr raw \<and>
        decode_json_object (env_codec env) raw MAX_CANONICAL_BYTES = Inr (stored_document r) \<and>
        well_typed env p (stored_document r) \<and> canonical_bytes env (stored_document r) = Inr raw \<and>
        stored_revision r = revision (contract_kind (path_name p)) raw)"
  by (cases r) (auto simp: read_locked_def bindE_Inr_iff thenE_Inr decode_contract_def well_typed_def
      dest: validated_kind_member)

lemma read_locked_records:
  assumes "read_locked env policy root p = Inr r" "path_components p = Inr c" "record_slot c"
  shows "records env policy root c = Some (stored_document r)" "well_typed env p (stored_document r)"
  using assms by (auto simp: read_locked_iff records_def stored_def)

lemma encode_record_iff:
  "encode_record env p d = Inr raw \<longleftrightarrow> is_dict d \<and> well_typed env p d \<and> canonical_bytes env d = Inr raw"
  by (auto simp: encode_record_def thenE_Inr well_typed_def dest: validated_kind_member)

lemma encode_new_record: "encode_new env p d = Inr raw \<Longrightarrow> encode_record env p d = Inr raw"
  by (auto simp: encode_new_def bindE_Inr_iff thenE_Inr)

lemma encoded_decodes:
  assumes "codec_ok (env_codec env)" "encode_record env p d = Inr raw"
  shows "decode_json_object (env_codec env) raw MAX_CANONICAL_BYTES = Inr d" "length raw \<le> MAX_CANONICAL_BYTES"
proof -
  have d: "is_dict d" "canonical_json_bytes (dumps (env_codec env)) d MAX_CANONICAL_BYTES = Inr raw"
    using assms(2) by (auto simp: encode_record_iff canonical_bytes_def)
  show "length raw \<le> MAX_CANONICAL_BYTES" using d(2) by (auto simp: canonical_json_bytes_iff)
  then show "decode_json_object (env_codec env) raw MAX_CANONICAL_BYTES = Inr d"
    by (rule decode_canonical[OF assms(1) d])
qed

text \<open>Writing an encoded record changes its own slot only.\<close>

lemma records_publish:
  assumes "codec_ok (env_codec env)" "policy_ok policy" "encode_record env p d = Inr raw"
    and "open_parent policy root c = Inr ()" "record_slot c"
  shows "records env policy (publish policy root c raw) = (records env policy root)(c \<mapsto> d)"
proof
  fix q
  have "read_regular policy (publish policy root c raw) c MAX_CANONICAL_BYTES = Inr raw"
    using assms encoded_decodes(2)[OF assms(1,3)] by (intro read_published) (auto dest: open_parent_nonempty)
  then have "records env policy (publish policy root c raw) c = Some d"
    using assms(5) encoded_decodes(1)[OF assms(1,3)] by (simp add: records_def stored_def)
  moreover have "records env policy (publish policy root c raw) q = records env policy root q" if "q \<noteq> c"
  proof (cases "record_slot q")
    case True
    then have "\<not> prefix c q" using record_slot_apart[OF assms(5)] that by blast
    then show ?thesis
      using stored_cong[OF same_along_publish[of c q root policy raw], of env policy] by (simp add: records_def)
  qed (simp add: records_def)
  ultimately show "records env policy (publish policy root c raw) q = ((records env policy root)(c \<mapsto> d)) q"
    by auto
qed

lemma records_unlink:
  assumes "open_parent policy root c = Inr ()" "record_slot c"
  shows "records env policy (unlink root c) = (records env policy root)(c := None)"
proof
  fix q
  have "read_regular policy (unlink root c) c MAX_CANONICAL_BYTES = Inl FileNotFoundError"
    using assms(1) open_parent_nonempty[OF assms(1)] by (rule read_unlinked)
  then have "records env policy (unlink root c) c = None" by (simp add: records_def stored_def)
  moreover have "records env policy (unlink root c) q = records env policy root q" if "q \<noteq> c"
  proof (cases "record_slot q")
    case True
    then have "\<not> prefix c q" using record_slot_apart[OF assms(2)] that by blast
    then show ?thesis using stored_cong[OF same_along_unlink[of c q root], of env policy] by (simp add: records_def)
  qed (simp add: records_def)
  ultimately show "records env policy (unlink root c) q = ((records env policy root)(c := None)) q" by auto
qed

text \<open>Where no regular file is, no record is.\<close>

lemma stored_None:
  assumes "\<And>data st. fmlookup (root_nodes root) c = Some (Entry data st) \<Longrightarrow> False"
    and "\<And>st. fmlookup (root_nodes root) c = Some (Directory st) \<Longrightarrow> S_IFMT (st_mode st) \<noteq> S_IFREG"
  shows "stored env policy root c = None"
proof -
  have "\<not> is_ok (read_regular policy root c MAX_CANONICAL_BYTES)"
    using assms unfolding read_regular_def open_regular_def is_ok_bindE is_ok_iff
    by (auto simp: bindE_Inr_iff thenE_Inr validate_regular_state_file_def split: option.splits inode.splits if_splits)
  then show ?thesis by (simp add: stored_def is_ok_def split: sum.splits)
qed

section \<open>Well-formed trees\<close>

definition tree_ok :: "state_root \<Rightarrow> bool" where
  "tree_ok root \<longleftrightarrow>
     (\<forall>c n. fmlookup (root_nodes root) c = Some n \<longrightarrow> c \<noteq> [] \<longrightarrow>
        (\<exists>st. fmlookup (root_nodes root) (butlast c) = Some (Directory st))) \<and>
     (\<forall>c st. fmlookup (root_nodes root) c = Some (Directory st) \<longrightarrow> S_IFMT (st_mode st) = S_IFDIR) \<and>
     (\<forall>c data st. fmlookup (root_nodes root) c = Some (Entry data st) \<longrightarrow> S_IFMT (st_mode st) \<noteq> S_IFDIR)"

lemma tree_okD:
  assumes "tree_ok root"
  shows "fmlookup (root_nodes root) c = Some n \<Longrightarrow> c \<noteq> [] \<Longrightarrow> \<exists>st. fmlookup (root_nodes root) (butlast c) = Some (Directory st)"
    and "fmlookup (root_nodes root) c = Some (Directory st) \<Longrightarrow> S_IFMT (st_mode st) = S_IFDIR"
    and "fmlookup (root_nodes root) c = Some (Entry data st) \<Longrightarrow> S_IFMT (st_mode st) \<noteq> S_IFDIR"
  using assms unfolding tree_ok_def by blast+

text \<open>Below a directory without children, below a file and below a free name there is nothing.\<close>

lemma nothing_below:
  assumes "tree_ok root" "\<And>x. fmlookup (root_nodes root) (c @ [x]) = None"
  shows "xs \<noteq> [] \<Longrightarrow> fmlookup (root_nodes root) (c @ xs) = None"
proof (induction xs rule: rev_induct)
  case (snoc x xs)
  show ?case
  proof (cases "xs = []")
    case False
    then have "fmlookup (root_nodes root) (c @ xs) = None" by (rule snoc.IH)
    then show ?thesis using tree_okD(1)[OF assms(1), of "c @ xs @ [x]"]
      by (cases "fmlookup (root_nodes root) (c @ xs @ [x])") (auto simp: butlast_append)
  qed (use assms(2) in simp)
qed simp

lemma no_child_of_file:
  assumes "tree_ok root" "\<And>st. fmlookup (root_nodes root) c \<noteq> Some (Directory st)"
  shows "fmlookup (root_nodes root) (c @ [x]) = None"
  using tree_okD(1)[OF assms(1), of "c @ [x]"] assms(2) by (cases "fmlookup (root_nodes root) (c @ [x])") auto

lemma open_directory_found:
  assumes "open_directory policy root c = Inr opened"
  shows "opened = c" "\<exists>st. fmlookup (root_nodes root) c = Some (Directory st)"
proof -
  have "foldE (open_component policy root) o1 cs = Inr o2 \<Longrightarrow>
      \<exists>st. fmlookup (root_nodes root) o1 = Some (Directory st) \<Longrightarrow>
      o2 = o1 @ cs \<and> (\<exists>st. fmlookup (root_nodes root) o2 = Some (Directory st))" for o1 cs o2
  proof (induction cs arbitrary: o1)
    case (Cons x cs)
    from Cons.prems(1) obtain o' where o': "open_component policy root o1 x = Inr o'"
        "foldE (open_component policy root) o' cs = Inr o2"
      by (auto simp: bindE_Inr_iff)
    then obtain st where "fmlookup (root_nodes root) (o1 @ [x]) = Some (Directory st)" "o' = o1 @ [x]"
      by (auto simp: open_component_def thenE_Inr split: option.splits inode.splits)
    with o' have "fmlookup (root_nodes root) (o1 @ [x]) = Some (Directory st)"
        "foldE (open_component policy root) (o1 @ [x]) cs = Inr o2" by simp_all
    then show ?case using Cons.IH[of "o1 @ [x]"] by auto
  qed auto
  then have "opened = [] @ c \<and> (\<exists>st. fmlookup (root_nodes root) opened = Some (Directory st))"
    using assms by (auto simp: open_directory_def thenE_Inr split: option.splits inode.splits)
  then show "opened = c" "\<exists>st. fmlookup (root_nodes root) c = Some (Directory st)" by auto
qed

lemma open_parent_found: "open_parent policy root c = Inr () \<Longrightarrow> \<exists>st. fmlookup (root_nodes root) (butlast c) = Some (Directory st)"
  by (auto simp: open_parent_def thenE_Inr dest: open_directory_found)

text \<open>Publishing, unlinking and making a directory keep the tree well-formed.\<close>

lemma tree_ok_update:
  assumes root: "tree_ok root" and parent: "\<exists>st. fmlookup (root_nodes root) (butlast c) = Some (Directory st)" "c \<noteq> []"
    and "root_nodes root' = fmupd c n (root_nodes root)"
    and n: "\<And>st. n = Directory st \<Longrightarrow> S_IFMT (st_mode st) = S_IFDIR" "\<And>data st. n = Entry data st \<Longrightarrow> S_IFMT (st_mode st) \<noteq> S_IFDIR"
    and old: "\<And>st. fmlookup (root_nodes root) c \<noteq> Some (Directory st)"
  shows "tree_ok root'"
proof -
  have look: "fmlookup (root_nodes root') q = (if q = c then Some n else fmlookup (root_nodes root) q)" for q
    using assms(4) by simp
  have "\<exists>st. fmlookup (root_nodes root') (butlast q) = Some (Directory st)"
    if "fmlookup (root_nodes root') q = Some m" "q \<noteq> []" for q m
  proof -
    have "\<exists>st. fmlookup (root_nodes root) (butlast q) = Some (Directory st)"
      using that parent tree_okD(1)[OF root] by (auto simp: look split: if_splits)
    then show ?thesis using old by (auto simp: look)
  qed
  then show ?thesis using n tree_okD(2,3)[OF root] unfolding tree_ok_def by (auto simp: look split: if_splits)
qed

lemma new_entry_mode: "policy_ok policy \<Longrightarrow> new_entry policy k data = Entry data' st \<Longrightarrow> S_IFMT (st_mode st) = S_IFREG"
  using mode_bits[of "expected_record_mode policy"] by (auto simp: new_entry_def policy_ok_def)

lemma tree_ok_publish:
  assumes "tree_ok root" "policy_ok policy" "open_parent policy root c = Inr ()"
    and "\<And>st. fmlookup (root_nodes root) c \<noteq> Some (Directory st)"
  shows "tree_ok (publish policy root c data)"
proof (rule tree_ok_update[OF assms(1) open_parent_found[OF assms(3)] open_parent_nonempty[OF assms(3)]])
  show "root_nodes (publish policy root c data) = fmupd c (new_entry policy (root_created root) data) (root_nodes root)"
    by (simp add: publish_def)
  show "S_IFMT (st_mode st) \<noteq> S_IFDIR" if "new_entry policy (root_created root) data = Entry data' st" for data' st
    using new_entry_mode[OF assms(2) that] by (simp add: S_IFREG_def S_IFDIR_def)
qed (use assms(4) in \<open>auto simp: new_entry_def\<close>)

lemma tree_ok_drop:
  assumes root: "tree_ok root" and childless: "\<And>c x. c \<in> set dropped \<Longrightarrow> fmlookup (root_nodes root) (c @ [x]) = None"
    and "root_nodes root' = fmdrop_set (set dropped) (root_nodes root)"
  shows "tree_ok root'"
proof -
  have look: "fmlookup (root_nodes root') q = (if q \<in> set dropped then None else fmlookup (root_nodes root) q)" for q
    using assms(3) by simp
  have "\<exists>st. fmlookup (root_nodes root') (butlast q) = Some (Directory st)"
    if "fmlookup (root_nodes root') q = Some m" "q \<noteq> []" for q m
  proof -
    have q: "fmlookup (root_nodes root) q = Some m" using that by (auto simp: look split: if_splits)
    then have "butlast q \<notin> set dropped" using childless[of "butlast q" "last q"] that(2) by auto
    then show ?thesis using tree_okD(1)[OF root q that(2)] by (simp add: look)
  qed
  then show ?thesis using tree_okD(2,3)[OF root] unfolding tree_ok_def by (auto simp: look split: if_splits)
qed

lemma tree_ok_unlink:
  assumes "tree_ok root" "fmlookup (root_nodes root) c = Some (Entry data st)"
  shows "tree_ok (unlink root c)"
proof (rule tree_ok_drop[OF assms(1), of "[c]"])
  show "fmlookup (root_nodes root) (q @ [x]) = None" if "q \<in> set [c]" for q x
    using that assms(2) by (intro no_child_of_file[OF assms(1)]) simp
  show "root_nodes (unlink root c) = fmdrop_set (set [c]) (root_nodes root)"
    by (auto simp: unlink_def intro!: fmap_ext)
qed

end
