(* ===== verification/Repository_Steps.thy ===== *)
theory Repository_Steps
  imports Record_Store
begin

text \<open>
  The steps of the abstract record store, and the operations of a transaction that implement them. An
  authorization job moves along \<open>job_advances\<close> only: what its request was never changes, and the
  authority its execution was bound to and validated with is fixed once it is there.
\<close>

section \<open>How a job may advance\<close>

definition FIXED_DISPATCH_FIELDS :: "string list" where
  "FIXED_DISPATCH_FIELDS = filter (\<lambda>f. f \<notin> set ROUTE_SOURCE_FIELDS) DISPATCH_AUTHORITY_FIELDS"

definition JOB_PROGRESS_FIELDS :: "string list" where
  "JOB_PROGRESS_FIELDS = [''phase'', ''executionValidated'', ''exportDelivery''] @ DISPATCH_AUTHORITY_FIELDS"

definition job_validated :: "json \<Rightarrow> bool" where
  "job_validated d \<longleftrightarrow> dict_get d ''executionValidated'' = Inr (JBool True)"

definition export_retired :: "json \<Rightarrow> bool" where
  "export_retired d \<longleftrightarrow> dict_get d ''exportDelivery'' \<in> {lit ''acknowledged'', lit ''expired''}"

definition job_advances :: "json \<Rightarrow> json \<Rightarrow> bool" where
  "job_advances d d' \<longleftrightarrow>
     without JOB_PROGRESS_FIELDS d' = without JOB_PROGRESS_FIELDS d \<and>
     (job_validated d \<longrightarrow> job_validated d' \<and> (\<forall>f \<in> set DISPATCH_AUTHORITY_FIELDS. dict_get d' f = dict_get d f)) \<and>
     (export_retired d \<longrightarrow> dict_get d' ''exportDelivery'' = dict_get d ''exportDelivery'') \<and>
     (\<forall>f \<in> set FIXED_DISPATCH_FIELDS. dict_get d f \<noteq> none_lit \<longrightarrow> dict_get d' f = dict_get d f)"

lemma job_advances_refl: "job_advances d d"
  by (simp add: job_advances_def)

lemma fixed_dispatch_fields: "f \<in> set FIXED_DISPATCH_FIELDS \<Longrightarrow> f \<in> set DISPATCH_AUTHORITY_FIELDS"
  by (simp add: FIXED_DISPATCH_FIELDS_def)

lemma job_advances_trans:
  assumes "job_advances a b" "job_advances b c"
  shows "job_advances a c"
proof -
  have "export_retired b" if "export_retired a"
    using assms(1) that by (auto simp: job_advances_def export_retired_def)
  then show ?thesis using assms unfolding job_advances_def by (metis (no_types, lifting))
qed

text \<open>Two documents that agree without some members agree on all others.\<close>

lemma dict_get_without:
  assumes "f \<notin> set fs"
  shows "dict_get (without fs d) f = dict_get d f"
  using assms by (cases d) (auto split: option.splits)

lemma without_eq_dict_get: "without fs d = without fs d' \<Longrightarrow> f \<notin> set fs \<Longrightarrow> dict_get d f = dict_get d' f"
  by (metis dict_get_without)

lemma without_without: "without gs (without fs d) = without (gs @ fs) d"
  by (cases d) (auto intro!: fmap_ext)

lemma without_weaken:
  assumes "without fs d = without fs d'" "set fs \<subseteq> set gs"
  shows "without gs d = without gs d'"
proof -
  have "without gs (without fs x) = without gs x" for x
    using assms(2) by (cases x) (auto intro!: fmap_ext)
  then show ?thesis using assms(1) by metis
qed

lemma getitem_dict_get_eq: "getitem d k = getitem d' k' \<Longrightarrow> is_ok (getitem d k) \<Longrightarrow> dict_get d k = dict_get d' k'"
  by (auto simp: is_ok_iff getitem_dict_get)

lemma refuse_record_Inr [check_simps]: "refuse_record c msg = Inr u \<longleftrightarrow> c = Inr False"
  by (cases c) (auto simp: refuse_record_def)

lemma job_fields_distinct:
  "''phase'' \<notin> set DISPATCH_AUTHORITY_FIELDS" "''executionValidated'' \<notin> set DISPATCH_AUTHORITY_FIELDS"
  "''exportDelivery'' \<notin> set DISPATCH_AUTHORITY_FIELDS" "set ROUTE_SOURCE_FIELDS \<subseteq> set DISPATCH_AUTHORITY_FIELDS"
  "set DISPATCH_AUTHORITY_FIELDS \<subseteq> set JOB_PROGRESS_FIELDS"
  by (simp_all add: DISPATCH_AUTHORITY_FIELDS_def ROUTE_SOURCE_FIELDS_def JOB_PROGRESS_FIELDS_def)

lemma phase_replacement_advances:
  assumes "validate_authorization_phase_replacement d d' = Inr ()"
  shows "job_advances d d'"
proof -
  have e: "without [''phase''] d = without [''phase''] d'"
    using assms by (auto simp: validate_authorization_phase_replacement_def pop_def bindE_Inr_iff split: if_splits)
  then have other: "dict_get d' f = dict_get d f" if "f \<noteq> ''phase''" for f
    using without_eq_dict_get[OF e, of f] that by simp
  have dispatch: "dict_get d' f = dict_get d f" if "f \<in> set DISPATCH_AUTHORITY_FIELDS" for f
    using other[of f] job_fields_distinct(1) that by auto
  have "without JOB_PROGRESS_FIELDS d = without JOB_PROGRESS_FIELDS d'"
    using e by (rule without_weaken) (simp add: JOB_PROGRESS_FIELDS_def)
  moreover have "dict_get d' ''exportDelivery'' = dict_get d ''exportDelivery''"
      "dict_get d' ''executionValidated'' = dict_get d ''executionValidated''" by (rule other; simp)+
  ultimately show ?thesis using dispatch fixed_dispatch_fields
    unfolding job_advances_def job_validated_def by simp
qed

lemma not_validated:
  "getitem d ''executionValidated'' = Inr (JBool False) \<Longrightarrow> \<not> job_validated d"
  by (simp add: job_validated_def getitem_dict_get)

lemma dispatch_replacement_advances:
  assumes "validate_dispatch_authority_replacement d d' = Inr ()"
  shows "job_advances d d'"
proof -
  have parts: "getitem d ''executionValidated'' = Inr (JBool False)"
      "\<forall>f \<in> set DISPATCH_AUTHORITY_FIELDS. dict_get d f \<noteq> none_lit \<longrightarrow> dict_get d f = dict_get d' f"
      "without DISPATCH_AUTHORITY_FIELDS d = without DISPATCH_AUTHORITY_FIELDS d'"
    using assms unfolding validate_dispatch_authority_replacement_def thenE_Inr
    by (auto simp: check_simps traverseE_Inr_iff list_all2_conv_all_nth in_set_conv_nth split: if_splits)
       (metis (no_types, lifting))+
  have "without JOB_PROGRESS_FIELDS d = without JOB_PROGRESS_FIELDS d'"
    using parts(3) by (rule without_weaken) (rule job_fields_distinct(5))
  moreover have "dict_get d' ''exportDelivery'' = dict_get d ''exportDelivery''"
    using without_eq_dict_get[OF parts(3)] job_fields_distinct(3) by simp
  ultimately show ?thesis using parts(2) not_validated[OF parts(1)] fixed_dispatch_fields
    unfolding job_advances_def by metis
qed

lemma route_replacement_advances:
  assumes "validate_route_source_authority_replacement d d' allow = Inr ()"
  shows "job_advances d d'"
proof -
  have parts: "getitem d ''executionValidated'' = Inr (JBool False)"
      "without ROUTE_SOURCE_FIELDS d = without ROUTE_SOURCE_FIELDS d'"
    using assms unfolding validate_route_source_authority_replacement_def thenE_Inr
    by (auto simp: check_simps bindE_Inr_iff Let_def)
  have "dict_get d' f = dict_get d f" if "f \<notin> set ROUTE_SOURCE_FIELDS" for f
    using without_eq_dict_get[OF parts(2) that] by simp
  moreover have "without JOB_PROGRESS_FIELDS d = without JOB_PROGRESS_FIELDS d'"
    using parts(2) by (rule without_weaken) (use job_fields_distinct in blast)
  moreover have "''exportDelivery'' \<notin> set ROUTE_SOURCE_FIELDS" using job_fields_distinct(3,4) by blast
  ultimately show ?thesis using not_validated[OF parts(1)]
    unfolding job_advances_def by (auto simp: FIXED_DISPATCH_FIELDS_def)
qed

lemma execution_replacement_advances:
  assumes "validate_execution_validation_replacement d d' = Inr ()"
  shows "job_advances d d'"
proof -
  have parts: "getitem d ''executionValidated'' = Inr (JBool False)"
      "without [''phase'', ''executionValidated''] d = without [''phase'', ''executionValidated''] d'"
    using assms unfolding validate_execution_validation_replacement_def thenE_Inr
    by (auto simp: check_simps split: if_splits)
  have other: "dict_get d' f = dict_get d f" if "f \<noteq> ''phase''" "f \<noteq> ''executionValidated''" for f
    using without_eq_dict_get[OF parts(2), of f] that by simp
  have "without JOB_PROGRESS_FIELDS d = without JOB_PROGRESS_FIELDS d'"
    using parts(2) by (rule without_weaken) (simp add: JOB_PROGRESS_FIELDS_def)
  moreover have "dict_get d' f = dict_get d f" if "f \<in> set FIXED_DISPATCH_FIELDS" for f
    using other[of f] job_fields_distinct(1,2) fixed_dispatch_fields[OF that] by auto
  moreover have "dict_get d' ''exportDelivery'' = dict_get d ''exportDelivery''" by (rule other) simp_all
  ultimately show ?thesis using not_validated[OF parts(1)] unfolding job_advances_def by simp
qed

lemma retirement_advances:
  assumes "retirable_export d reason = Inr ()" "setitem d ''exportDelivery'' (JStr reason) = Inr d'"
  shows "job_advances d d'"
proof -
  have "dict_get d ''exportDelivery'' \<in> {none_lit, lit ''unacknowledged''}"
    using assms(1) unfolding retirable_export_def bindE_Inr_iff
    by (auto simp: check_simps)
  then have "\<not> export_retired d" by (auto simp: export_retired_def)
  moreover have "dict_get d' f = dict_get d f" if "f \<noteq> ''exportDelivery''" for f
    using dict_get_setitem[OF assms(2)] that by simp
  moreover have "without JOB_PROGRESS_FIELDS d' = without JOB_PROGRESS_FIELDS d"
    using assms(2) by (auto simp: setitem_Inr_iff JOB_PROGRESS_FIELDS_def intro!: fmap_ext)
  moreover have "\<forall>f \<in> set DISPATCH_AUTHORITY_FIELDS. f \<noteq> ''exportDelivery''" using job_fields_distinct(3) by blast
  ultimately show ?thesis unfolding job_advances_def job_validated_def using fixed_dispatch_fields by simp
qed

section \<open>Steps of the store\<close>

definition removable :: "StateRecordName \<Rightarrow> bool" where
  "removable name \<longleftrightarrow> is_intent name \<or> name \<in> {TENANT_DEPLOYMENT_PATH, TENANT_ARCHIVE_PATH}"

inductive store_step :: "contract_env \<Rightarrow> record_store \<Rightarrow> record_store \<Rightarrow> bool" for env where
  create: "path_ok p \<Longrightarrow> path_components p = Inr c \<Longrightarrow> s c = None \<Longrightarrow> well_typed env p d \<Longrightarrow>
    store_step env s (s(c \<mapsto> d))"
| replace: "path_ok p \<Longrightarrow> path_components p = Inr c \<Longrightarrow> s c = Some d0 \<Longrightarrow> well_typed env p d0 \<Longrightarrow>
    well_typed env p d \<Longrightarrow> allows_replacement (path_name p) \<Longrightarrow>
    (path_name p = AUTHORIZATION_JOB_PATH \<Longrightarrow> job_advances d0 d) \<Longrightarrow> store_step env s (s(c \<mapsto> d))"
| remove: "path_ok p \<Longrightarrow> path_components p = Inr c \<Longrightarrow> s c = Some d0 \<Longrightarrow> well_typed env p d0 \<Longrightarrow>
    removable (path_name p) \<Longrightarrow> store_step env s (s(c := None))"

text \<open>An inode-level change that leaves the records alone, and one that implements steps of the store.\<close>

definition same_records :: "contract_env \<Rightarrow> state_policy \<Rightarrow> state_root \<Rightarrow> state_root \<Rightarrow> bool" where
  "same_records env policy root root' \<longleftrightarrow>
     (tree_ok root \<longrightarrow> tree_ok root' \<and> records env policy root' = records env policy root)"

definition refines :: "contract_env \<Rightarrow> state_policy \<Rightarrow> state_root \<Rightarrow> state_root \<Rightarrow> bool" where
  "refines env policy root root' \<longleftrightarrow>
     (tree_ok root \<longrightarrow> tree_ok root' \<and> (store_step env)\<^sup>*\<^sup>* (records env policy root) (records env policy root'))"

lemma same_records_order: "reflp (same_records env policy)" "transp (same_records env policy)"
  by (auto simp: same_records_def intro!: reflpI transpI)

lemma refines_order: "reflp (refines env policy)" "transp (refines env policy)"
  by (auto simp: refines_def intro!: reflpI transpI dest: rtranclp_trans)

lemma same_records_refines: "same_records env policy root root' \<Longrightarrow> refines env policy root root'"
  by (simp add: same_records_def refines_def)

lemma leaves_refines: "leaves (same_records env policy) m \<Longrightarrow> leaves (refines env policy) m"
  by (simp add: leaves_def same_records_refines)

lemma refines_refl [simp]: "refines env policy root root"
  by (simp add: refines_def)

lemma refines_trans: "refines env policy a b \<Longrightarrow> refines env policy b c \<Longrightarrow> refines env policy a c"
  using refines_order(2) by (metis transpD)

lemma refines_step:
  assumes "tree_ok root \<Longrightarrow> tree_ok root'"
    and "tree_ok root \<Longrightarrow> store_step env (records env policy root) (records env policy root')"
  shows "refines env policy root root'"
  using assms by (simp add: refines_def r_into_rtranclp)

text \<open>A computation that starts with a part that leaves the records alone.\<close>

lemma refines_bind:
  assumes "leaves (same_records env policy) m"
    and "\<And>x root'. m root = (Inr x, root') \<Longrightarrow> tree_ok root \<Longrightarrow> same_records env policy root root' \<Longrightarrow>
      refines env policy root' (snd (f x root'))"
  shows "refines env policy root (snd (bindT m f root))"
proof (cases "m root")
  case (Pair r root')
  then have q: "same_records env policy root root'" using assms(1) by (metis leaves_def snd_conv)
  show ?thesis
  proof (cases "tree_ok root \<and> is_ok r")
    case True
    then obtain x where x: "r = Inr x" by (auto simp: is_ok_iff)
    then have "snd (bindT m f root) = snd (f x root')" using Pair by (simp add: bindT_def)
    then show ?thesis using x Pair True assms(2) q refines_trans[OF same_records_refines[OF q]] by auto
  next
    case False
    then show ?thesis using Pair same_records_refines[OF q]
      by (auto simp: bindT_def refines_def is_ok_def split: sum.splits)
  qed
qed

lemma refines_then:
  assumes "leaves (same_records env policy) m"
    and "\<And>x root'. tree_ok root \<Longrightarrow> same_records env policy root root' \<Longrightarrow> refines env policy root' (snd (n root'))"
  shows "refines env policy root (snd (thenT m n root))"
  unfolding thenT_def by (rule refines_bind[OF assms(1)]) (rule assms(2))

lemma refines_read:
  assumes "\<And>x. g root = Inr x \<Longrightarrow> refines env policy root (snd (f x root))"
  shows "refines env policy root (snd (bindT (readT g) f root))"
  using assms by (cases "g root") (simp_all add: bindT_def readT_def)

lemma refines_lift:
  assumes "\<And>x. m = Inr x \<Longrightarrow> refines env policy root (snd (f x root))"
  shows "refines env policy root (snd (bindT (liftT m) f root))"
  using assms by (cases m) (simp_all add: bindT_def liftT_def)

lemma refines_then_lift:
  "(\<And>x. m = Inr x \<Longrightarrow> refines env policy root (snd (n root))) \<Longrightarrow> refines env policy root (snd (thenT (liftT m) n root))"
  unfolding thenT_def by (rule refines_lift)

lemma refines_exclusive: "refines env policy root (snd (m root)) \<Longrightarrow> refines env policy root (snd (exclusive t m root))"
  unfolding exclusive_def by (rule refines_then_lift)

lemma refines_done: "refines env policy root (snd (liftT m root))" "refines env policy root (snd (readT g root))"
  by (simp_all add: liftT_def readT_def)

section \<open>What leaves the records alone\<close>

lemma traverseE_units: "traverseE f xs = Inr us \<Longrightarrow> x \<in> set xs \<Longrightarrow> f x = Inr ()"
  by (induction xs arbitrary: us) (auto simp: bindE_Inr_iff)

lemma quiet_remove_temporaries:
  "leaves (same_records env policy) (remove_abandoned_publication_temporaries policy directory n)"
  unfolding leaves_def
proof
  fix root
  let ?names = "filter (\<lambda>name. take 11 name = TEMP_NAME_PREFIX) (scandir root directory)"
  let ?dropped = "map (\<lambda>name. directory @ [name]) ?names"
  let ?root = "root\<lparr>root_nodes := fmdrop_set (set ?dropped) (root_nodes root)\<rparr>"
  show "same_records env policy root (snd (remove_abandoned_publication_temporaries policy directory n root))"
  proof (cases "publication_temporaries policy root directory n")
    case (Inl e)
    then show ?thesis by (simp add: remove_abandoned_publication_temporaries_def same_records_def)
  next
    case (Inr names)
    then have names: "names = ?names" and valid: "\<forall>name \<in> set ?names. validate_temporary policy root directory name = Inr ()"
      unfolding publication_temporaries_def Let_def thenE_Inr if_Inl_Inr_iff
      by (auto dest: traverseE_units)
    have result: "snd (remove_abandoned_publication_temporaries policy directory n root) = ?root"
      using Inr unfolding names by (simp add: remove_abandoned_publication_temporaries_def)
    have temporary: "temp_name_pattern name" if "name \<in> set ?names" for name
      using valid that by (auto simp: validate_temporary_def split: if_splits)
    have entry: "fmlookup (root_nodes root) (directory @ [name]) \<noteq> Some (Directory st)"
      if "tree_ok root" "name \<in> set ?names" for name st
    proof
      assume d: "fmlookup (root_nodes root) (directory @ [name]) = Some (Directory st)"
      have "validate_temporary policy root directory name = Inr ()" using valid that(2) by blast
      then have "S_IFMT (st_mode st) = S_IFREG"
        using d by (auto simp: validate_temporary_def stat_of_def split: if_splits)
      then show False using tree_okD(2)[OF that(1) d] by (simp add: S_IFREG_def S_IFDIR_def)
    qed
    show ?thesis
      unfolding result same_records_def
    proof (intro impI conjI ext)
      assume ok: "tree_ok root"
      show "tree_ok ?root"
        by (rule tree_ok_drop[OF ok, of ?dropped]) (use entry[OF ok] in \<open>auto intro!: no_child_of_file[OF ok]\<close>)
      fix c
      show "records env policy ?root c = records env policy root c"
      proof (cases "record_slot c")
        case True
        have "q \<notin> set ?dropped" if "prefix q c" for q
        proof
          assume "q \<in> set ?dropped"
          then obtain name where n: "name \<in> set ?names" "q = directory @ [name]" by auto
          then have "name \<in> set q" "temp_name_pattern name" using temporary[OF n(1)] by simp_all
          then show False using record_slot_no_temporary[OF True] that set_mono_prefix by blast
        qed
        then have "same_along ?root root c" unfolding same_along_def by simp
        then have "stored env policy ?root c = stored env policy root c" by (rule stored_cong)
        then show ?thesis using True by (simp only: records_def)
      qed (simp add: records_def)
    qed
  qed
qed

lemmas quiet_intros = leaves_lift[OF same_records_order(1)] leaves_read[OF same_records_order(1)]
  leaves_bind[OF same_records_order(2)] leaves_then[OF same_records_order(2)] leaves_fold[OF same_records_order]
  quiet_remove_temporaries

lemma quiet_measure_authorization: "leaves (same_records env policy) (measure_authorization_records policy limits)"
  unfolding measure_authorization_records_def measure_record_directory_def
  by (intro quiet_intros) (auto intro!: quiet_intros split: prod.splits)

lemma quiet_measure_state: "leaves (same_records env policy) (measure_state_inventory policy limits)"
  unfolding measure_state_inventory_def by (intro quiet_intros quiet_measure_authorization)

lemma quiet_measure_intents: "leaves (same_records env policy) (measure_intent_records policy limits)"
  unfolding measure_intent_records_def by (intro quiet_intros)

lemma quiet_exclusive: "leaves (same_records env policy) m \<Longrightarrow> leaves (same_records env policy) (exclusive t m)"
  unfolding exclusive_def by (intro quiet_intros)

lemma quiet_repo_measures:
  "leaves (same_records env (tx_policy t)) (repo_measure_inventory t)"
  "leaves (same_records env (tx_policy t)) (repo_measure_authorization_records t)"
  "leaves (same_records env (tx_policy t)) (repo_measure_intent_records t)"
  "leaves (same_records env (tx_policy t)) (admit_inventory t reservation)"
  unfolding repo_measure_inventory_def repo_measure_authorization_records_def repo_measure_intent_records_def
    admit_inventory_def
  by (intro quiet_exclusive quiet_measure_state quiet_measure_authorization quiet_measure_intents quiet_intros)+

lemma quiet_admit_replacement:
  "leaves (same_records env (tx_policy t)) (admit_atomic_authorization_replacement t p candidate limits)"
  unfolding admit_atomic_authorization_replacement_def by (intro quiet_intros quiet_repo_measures)

lemma quiet_bound_record_ids:
  "leaves (same_records env (tx_policy t)) (bound_record_ids t path_of directory kind tenant n)"
  unfolding bound_record_ids_def by (intro quiet_exclusive quiet_intros)

section \<open>Writes and removals\<close>

definition transaction_ok :: "state_transaction \<Rightarrow> bool" where
  "transaction_ok t \<longleftrightarrow> codec_ok (env_codec (tx_env t)) \<and> policy_ok (tx_policy t)"

abbreviation implements :: "state_transaction \<Rightarrow> state_root \<Rightarrow> state_root \<Rightarrow> bool" where
  "implements t \<equiv> refines (tx_env t) (tx_policy t)"

abbreviation slots :: "state_transaction \<Rightarrow> state_root \<Rightarrow> record_store" where
  "slots t \<equiv> records (tx_env t) (tx_policy t)"

text \<open>A successful durable write or removal of a slot, and a refused one.\<close>

lemma create_implements:
  assumes "transaction_ok t" "path_ok p" "path_components p = Inr c" "encode_record (tx_env t) p d = Inr raw"
  shows "implements t root (snd (durable_create_immutable (tx_policy t) c raw root))"
proof (cases "durable_create_immutable (tx_policy t) c raw root")
  case (Pair r root')
  show ?thesis
  proof (cases r)
    case (Inl e)
    then show ?thesis using Pair durable_error(2) by (metis refines_refl snd_conv)
  next
    case (Inr u)
    then have w: "open_parent (tx_policy t) root c = Inr ()" "fmlookup (root_nodes root) c = None"
        "root' = publish (tx_policy t) root c raw" using Pair by (auto simp: durable_create_iff)
    have slot: "record_slot c" using assms(2,3) by (auto elim: path_components_slot)
    have "slots t root c = None" using w(2) stored_None[of root c] by (simp add: records_def)
    then have "store_step (tx_env t) (slots t root) (slots t root')"
      using assms w slot unfolding w(3) transaction_ok_def
      by (simp add: records_publish[of "tx_env t" "tx_policy t" p d]) (auto simp: encode_record_iff intro: store_step.create)
    moreover have "tree_ok root \<Longrightarrow> tree_ok root'"
      using w assms(1) unfolding w(3) transaction_ok_def by (intro tree_ok_publish) auto
    ultimately show ?thesis using Pair by (auto intro: refines_step)
  qed
qed

lemma replace_implements:
  assumes "transaction_ok t" "path_ok p" "path_components p = Inr c" "encode_record (tx_env t) p d = Inr raw"
    and current: "slots t root c = Some d0" "well_typed (tx_env t) p d0" "allows_replacement (path_name p)"
    and job: "path_name p = AUTHORIZATION_JOB_PATH \<Longrightarrow> job_advances d0 d"
  shows "implements t root (snd (durable_replace (tx_policy t) c raw root))"
proof (cases "durable_replace (tx_policy t) c raw root")
  case (Pair r root')
  show ?thesis
  proof (cases r)
    case (Inl e)
    then show ?thesis using Pair durable_error(1) by (metis refines_refl snd_conv)
  next
    case (Inr u)
    then have w: "open_parent (tx_policy t) root c = Inr ()" "\<And>st. fmlookup (root_nodes root) c \<noteq> Some (Directory st)"
        "root' = publish (tx_policy t) root c raw" using Pair by (auto simp: durable_replace_iff)
    have slot: "record_slot c" using assms(2,3) by (auto elim: path_components_slot)
    have "slots t root' = (slots t root)(c \<mapsto> d)"
      unfolding w(3) using assms(1,4) w(1) slot by (intro records_publish) (auto simp: transaction_ok_def)
    moreover have "well_typed (tx_env t) p d" using assms(4) by (simp add: encode_record_iff)
    ultimately have "store_step (tx_env t) (slots t root) (slots t root')"
      using store_step.replace[where s = "slots t root" and c = c, OF assms(2,3) current(1,2) _ current(3) job] by simp
    moreover have "tree_ok root \<Longrightarrow> tree_ok root'"
      using w assms(1) unfolding w(3) transaction_ok_def by (intro tree_ok_publish) auto
    ultimately show ?thesis using Pair by (auto intro: refines_step)
  qed
qed

lemma remove_implements:
  assumes "path_ok p" "path_components p = Inr c"
    and current: "slots t root c = Some d0" "well_typed (tx_env t) p d0" "removable (path_name p)"
  shows "implements t root (snd (durable_remove (tx_policy t) c False root))"
proof (cases "durable_remove (tx_policy t) c False root")
  case (Pair r root')
  show ?thesis
  proof (cases r)
    case (Inl e)
    then show ?thesis using Pair durable_error(3) by (metis refines_refl snd_conv)
  next
    case (Inr u)
    then obtain data st where w: "open_parent (tx_policy t) root c = Inr ()"
        "fmlookup (root_nodes root) c = Some (Entry data st)" "root' = unlink root c"
      using Pair by (auto simp: durable_remove_iff)
    have slot: "record_slot c" using assms(1,2) by (auto elim: path_components_slot)
    have "slots t root' = (slots t root)(c := None)" unfolding w(3) using w(1) slot by (rule records_unlink)
    then have "store_step (tx_env t) (slots t root) (slots t root')"
      using store_step.remove[where s = "slots t root" and c = c, OF assms(1,2) current] by simp
    moreover have "tree_ok root \<Longrightarrow> tree_ok root'" unfolding w(3) using w(2) by (rule tree_ok_unlink[rotated])
    ultimately show ?thesis using Pair by (auto intro: refines_step)
  qed
qed

section \<open>Operations\<close>

lemma refines_then_done:
  "refines env policy root (snd (m root)) \<Longrightarrow> refines env policy root (snd (thenT m (readT g) root))"
  "refines env policy root (snd (m root)) \<Longrightarrow> refines env policy root (snd (thenT m (liftT v) root))"
  by (auto simp: thenT_def bindT_def readT_def liftT_def split: prod.splits sum.splits)

lemma create_bytes_implements:
  assumes "transaction_ok t" "path_ok p" "encode_record (tx_env t) p d = Inr raw"
  shows "implements t root (snd (create_immutable_bytes t p raw root))"
  unfolding create_immutable_bytes_def
  by (intro refines_exclusive refines_lift refines_then_done create_implements[OF assms(1,2) _ assms(3)])

lemma create_immutable_implements:
  assumes "transaction_ok t" "path_ok p"
  shows "implements t root (snd (create_immutable t p d root))"
  unfolding create_immutable_def
  by (intro refines_exclusive refines_lift create_bytes_implements[OF assms encode_new_record])

lemma ensure_immutable_exact_implements:
  assumes "transaction_ok t" "path_ok p"
  shows "implements t root (snd (ensure_immutable_exact t p d root))"
  unfolding ensure_immutable_exact_def
  by (rule refines_lift)
    (auto split: sum.splits exn.splits intro: create_bytes_implements[OF assms encode_new_record])

lemma read_path_slots:
  assumes "read_path t p root = Inr r" "path_ok p" "path_components p = Inr c"
  shows "slots t root c = Some (stored_document r)" "well_typed (tx_env t) p (stored_document r)"
  using assms read_locked_records[of "tx_env t" "tx_policy t" root p r c] path_components_slot[OF assms(2)]
  unfolding read_path_def by (metis sum.inject(2))+

lemma check_revision_read: "check_revision t p rvn root = Inr r \<Longrightarrow> read_path t p root = Inr r \<and> stored_revision r = rvn"
  by (auto simp: check_revision_def bindE_Inr_iff split: if_splits)

lemma replace_record_implements:
  assumes "transaction_ok t" "path_ok p" "encode_record (tx_env t) p d = Inr raw"
    and "read_path t p root0 = Inr r" "slots t root = slots t root0" "allows_replacement (path_name p)"
    and "path_name p = AUTHORIZATION_JOB_PATH \<Longrightarrow> job_advances (stored_document r) d"
  shows "implements t root (snd (replace_record t p raw root))"
  unfolding replace_record_def
proof (intro refines_lift refines_then_done)
  fix c assume c: "path_components p = Inr c"
  note r = read_path_slots[OF assms(4,2) c]
  show "implements t root (snd (durable_replace (tx_policy t) c raw root))"
    using r(1) unfolding assms(5)[symmetric]
    by (rule replace_implements[OF assms(1,2) c assms(3) _ r(2) assms(6,7)])
qed

lemma same_records_slots:
  "same_records (tx_env t) (tx_policy t) root root' \<Longrightarrow> tree_ok root \<Longrightarrow> slots t root' = slots t root"
  by (simp add: same_records_def)

lemma check_replacement_job:
  assumes "transaction_ok t" "encode_record (tx_env t) p d = Inr raw" "path_name p = AUTHORIZATION_JOB_PATH"
    and "check_replacement t (path_name p) d0 raw = Inr u"
  shows "job_advances d0 d"
proof -
  have "decode_json_object (env_codec (tx_env t)) raw MAX_CANONICAL_BYTES = Inr d"
    using assms(1,2) encoded_decodes by (auto simp: transaction_ok_def)
  then have "validate_authorization_phase_replacement d0 d = Inr ()"
    using assms(3,4) by (auto simp: check_replacement_def thenE_Inr bindE_Inr_iff decode_contract_def)
  then show ?thesis by (rule phase_replacement_advances)
qed

lemma compare_and_swap_implements:
  assumes "transaction_ok t" "path_ok p"
  shows "implements t root (snd (compare_and_swap t p rvn d root))"
  unfolding compare_and_swap_def
proof (intro refines_exclusive refines_lift)
  fix raw assume raw: "encode_record (tx_env t) p d = Inr raw"
  show "implements t root (snd (compare_and_swap_bytes t p rvn raw root))"
    unfolding compare_and_swap_bytes_def
  proof (rule refines_exclusive, cases "allows_replacement (path_name p)")
    case True
    have "implements t root (snd (replace_record t p raw root))"
      if r: "check_revision t p rvn root = Inr r" "check_replacement t (path_name p) (stored_document r) raw = Inr u" for r u
      using check_replacement_job[OF assms(1) raw _ r(2)] check_revision_read[OF r(1)]
      by (intro replace_record_implements[OF assms raw, of root r] True) auto
    then show "implements t root (snd ((if \<not> allows_replacement (path_name p)
        then liftT (Inl (StateRecordError ''immutable state-record path cannot be replaced''))
        else bindT (readT (check_revision t p rvn)) (\<lambda>current.
          thenT (liftT (check_replacement t (path_name p) (stored_document current) raw)) (replace_record t p raw))) root))"
      using True by (simp only: not_True_eq_False if_False) (intro refines_read refines_then_lift)
  qed (simp add: refines_done)
qed

lemma refines_if: "(b \<Longrightarrow> refines env policy root (snd (m root))) \<Longrightarrow> (\<not> b \<Longrightarrow> refines env policy root (snd (n root))) \<Longrightarrow>
    refines env policy root (snd ((if b then m else n) root))"
  by simp

text \<open>The executor-owned commits.\<close>

lemma commit_authority_implements:
  assumes "transaction_ok t" "path_ok p" "path_name p = AUTHORIZATION_JOB_PATH"
    and "\<And>d0. validate d0 = Inr () \<Longrightarrow> job_advances d0 d"
  shows "implements t root (snd (commit_authority t p rvn d validate limits root))"
  unfolding commit_authority_def
proof (intro refines_lift refines_read refines_then_lift refines_then[OF quiet_admit_replacement])
  fix raw r u root'
  assume raw: "encode_record (tx_env t) p d = Inr raw" and r: "check_revision t p rvn root = Inr r"
    and u: "validate (stored_document r) = Inr u"
    and q: "tree_ok root" "same_records (tx_env t) (tx_policy t) root root'"
  show "implements t root' (snd (replace_record t p raw root'))"
    using check_revision_read[OF r] same_records_slots[OF q(2,1)] assms(3,4) u
    by (intro replace_record_implements[OF assms(1,2) raw, of root r]) (simp_all add: allows_replacement_def)
qed

lemma bind_dispatch_implements:
  assumes "transaction_ok t" "path_ok p"
  shows "implements t root (snd (bind_dispatch_authority t p rvn d limits root))"
  unfolding bind_dispatch_authority_def
  by (intro refines_exclusive refines_if refines_done commit_authority_implements[OF assms] dispatch_replacement_advances) simp_all

lemma commit_execution_implements:
  assumes "transaction_ok t" "path_ok p"
  shows "implements t root (snd (commit_execution_validation t p rvn d limits root))"
  unfolding commit_execution_validation_def
  by (intro refines_exclusive refines_if refines_done commit_authority_implements[OF assms] execution_replacement_advances) simp_all

lemma rebind_route_implements:
  assumes "transaction_ok t" "path_ok p"
  shows "implements t root (snd (rebind_route_source_authority t p rvn d allow limits root))"
  unfolding rebind_route_source_authority_def
  by (intro refines_exclusive refines_if refines_done refines_bind[OF quiet_repo_measures(3)]
      commit_authority_implements[OF assms]) (auto intro: route_replacement_advances)

lemma transaction_read_iff:
  "transaction_read t p root = (Inr r, root') \<longleftrightarrow> require_active t = Inr () \<and> read_path t p root = Inr r \<and> root' = root"
  by (auto simp: transaction_read_def tx_simps)

lemma quiet_transaction_read: "leaves (same_records env policy) (transaction_read t p)"
  unfolding transaction_read_def by (intro quiet_intros)

lemma commit_export_implements:
  assumes "transaction_ok t"
  shows "implements t root (snd (commit_export_retirement t job reason root))"
  unfolding commit_export_retirement_def Let_def
proof (intro refines_exclusive refines_lift refines_then_lift refines_bind[OF quiet_transaction_read]
    refines_then[OF quiet_admit_replacement])
  fix p r root1 u result_path result root2 v raw root3
  assume p: "authorization_job_path job = Inr p" and r: "transaction_read t p root = (Inr r, root1)"
    and u: "retirable_export (stored_document r) reason = Inr u"
    and result: "transaction_read t result_path root1 = (Inr result, root2)"
    and raw: "bindE (setitem (stored_document r) ''exportDelivery'' (JStr reason)) (encode_record (tx_env t) p) = Inr raw"
    and q: "tree_ok root2" "same_records (tx_env t) (tx_policy t) root2 root3"
  obtain d where d: "setitem (stored_document r) ''exportDelivery'' (JStr reason) = Inr d" "encode_record (tx_env t) p d = Inr raw"
    using raw by (auto simp: bindE_Inr_iff)
  have same: "read_path t p root = Inr r" "root1 = root" "root2 = root"
    using r result by (simp_all add: transaction_read_iff)
  show "implements t root3 (snd (replace_record t p raw root3))"
    using same_records_slots[OF q(2,1)] u constructed_path_name(5)[OF p] retirement_advances[OF _ d(1)]
    unfolding same(3)
    by (intro replace_record_implements[OF assms constructed_path_ok(7)[OF p] d(2) same(1)])
       (simp_all add: allows_replacement_def)
qed

text \<open>Removals.\<close>

lemma remove_intent_implements:
  assumes "path_ok p"
  shows "implements t root (snd (remove_reconciled_intent t p expected root))"
  unfolding remove_reconciled_intent_def
proof (intro refines_exclusive refines_if refines_done refines_read refines_lift refines_bind[OF quiet_repo_measures(3)])
  fix r inventory root' c
  assume intent: "\<not> \<not> is_intent (path_name p)" and r: "read_path t p root = Inr r" and c: "path_components p = Inr c"
    and q: "tree_ok root" "same_records (tx_env t) (tx_policy t) root root'"
  show "implements t root' (snd (durable_remove (tx_policy t) c False root'))"
    using read_path_slots[OF r assms c] same_records_slots[OF q(2,1)] intent
    by (intro remove_implements[OF assms c]) (simp_all add: removable_def)
qed

lemma remove_deployment_implements:
  "implements t root (snd (remove_exact_deployment t expected removal root))"
  unfolding remove_exact_deployment_def
proof (intro refines_exclusive refines_read)
  fix c
  assume "bindE (deployment_removal_authority t expected) (\<lambda>(p, candidate).
      bindE (read_path t p root) (\<lambda>current. bindE (path_components p) (\<lambda>components.
      bindE (regular_metadata_generation (tx_policy t) root components) (\<lambda>generation.
      if token_revision removal \<noteq> stored_revision expected \<or> stored_revision current \<noteq> stored_revision expected
         \<or> stored_revision current \<noteq> revision (contract_kind (path_name p)) candidate
         \<or> generation \<noteq> token_generation removal
      then Inl (StateConflictError ''deployment changed before exact removal'') else Inr components)))) = Inr c"
  then obtain p candidate r where p: "deployment_removal_authority t expected = Inr (p, candidate)"
      "read_path t p root = Inr r" "path_components p = Inr c"
    by (auto simp: bindE_Inr_iff split: if_splits)
  then obtain v w where "tenant_deployment_path v w = Inr p"
    by (auto simp: deployment_removal_authority_def Let_def bindE_Inr_iff split: sum.splits exn.splits)
  note path = constructed_path_ok(5)[OF this] constructed_path_name(3)[OF this]
  show "implements t root (snd (durable_remove (tx_policy t) c False root))"
    using read_path_slots[OF p(2) path(1) p(3)] path(2)
    by (intro remove_implements[OF path(1) p(3)]) (simp_all add: removable_def)
qed

end
