(* ===== verification/Repository_Refinement.thy ===== *)
theory Repository_Refinement
  imports Repository_Steps
begin

text \<open>
  The operations of \<open>State_Repository\<close> and \<open>State_Namespace\<close> as one alphabet, the proof that each of
  them implements the abstract record store, and what follows for every history of transactions.
\<close>

section \<open>Directories\<close>

lemma scandir_Nil: "scandir root c = [] \<Longrightarrow> fmlookup (root_nodes root) (c @ [x]) = None"
proof (rule ccontr)
  assume "scandir root c = []" "fmlookup (root_nodes root) (c @ [x]) \<noteq> None"
  then have "c @ [x] |\<in>| ffilter (\<lambda>p. p \<noteq> [] \<and> butlast p = c) (fmdom (root_nodes root))"
    by (auto simp: fmdomI)
  then have "last (c @ [x]) |\<in>| fimage last (ffilter (\<lambda>p. p \<noteq> [] \<and> butlast p = c) (fmdom (root_nodes root)))"
    by (rule fimageI)
  then have "x \<in> set (scandir root c)" by (simp add: scandir_def)
  then show False using \<open>scandir root c = []\<close> by simp
qed

text \<open>A change at a path below which there is nothing, and which holds no record before or after.\<close>

lemma same_records_at:
  assumes "\<And>q. q \<noteq> c \<Longrightarrow> fmlookup (root_nodes root') q = fmlookup (root_nodes root) q"
    and "\<And>xs. xs \<noteq> [] \<Longrightarrow> fmlookup (root_nodes root) (c @ xs) = None"
    and "stored env policy root c = None" "stored env policy root' c = None"
  shows "records env policy root' = records env policy root"
proof
  fix q
  have "stored env policy root' q = stored env policy root q"
  proof (cases "prefix c q")
    case True
    then obtain xs where xs: "q = c @ xs" by (auto simp: prefix_def)
    show ?thesis
    proof (cases "xs = []")
      case False
      then have "fmlookup (root_nodes root) q = None" "fmlookup (root_nodes root') q = None"
        using assms(1)[of q] assms(2)[of xs] xs by auto
      then show ?thesis using stored_None[of root q] stored_None[of root' q] by simp
    qed (use assms(3,4) xs in simp)
  next
    case False
    have "fmlookup (root_nodes root') r = fmlookup (root_nodes root) r" if "prefix r q" for r
      using that False assms(1)[of r] by blast
    then have "same_along root' root q" by (simp add: same_along_def)
    then show ?thesis by (rule stored_cong)
  qed
  then show "records env policy root' q = records env policy root q" by (simp add: records_def)
qed

lemma directory_holds_nothing:
  "tree_ok root \<Longrightarrow> fmlookup (root_nodes root) c = Some (Directory st) \<Longrightarrow> stored env policy root c = None"
  using tree_okD(2)[of root c] by (intro stored_None) (auto simp: S_IFREG_def S_IFDIR_def)

lemma free_holds_nothing: "fmlookup (root_nodes root) c = None \<Longrightarrow> stored env policy root c = None"
  by (rule stored_None) simp_all

lemma make_directory_same:
  assumes "tree_ok root" "policy_ok policy" "\<exists>st. fmlookup (root_nodes root) (butlast c) = Some (Directory st)" "c \<noteq> []"
  shows "tree_ok (make_directory policy root c)" (is ?tree)
    and "records env policy (make_directory policy root c) = records env policy root" (is ?same)
    and "fmlookup (root_nodes root) q = Some n \<Longrightarrow> fmlookup (root_nodes (make_directory policy root c)) q = Some n"
proof -
  let ?r = "make_directory policy root c"
  have "?tree \<and> ?same \<and> (\<forall>n. fmlookup (root_nodes root) q = Some n \<longrightarrow> fmlookup (root_nodes ?r) q = Some n)"
  proof (cases "fmlookup (root_nodes root) c")
    case None
    obtain st where st: "new_directory policy (root_created root) = Directory st" "S_IFMT (st_mode st) = S_IFDIR"
      using assms(2) mode_bits[of "expected_directory_mode policy"] by (auto simp: new_directory_def policy_ok_def)
    have r: "root_nodes ?r = fmupd c (Directory st) (root_nodes root)"
      using None st(1) by (simp add: make_directory_def fmdom_notI fmlookup_dom_iff)
    have tree: ?tree by (rule tree_ok_update[OF assms(1,3,4) r]) (use st(2) None in auto)
    have "fmlookup (root_nodes root) (c @ xs) = None" if "xs \<noteq> []" for xs
      using that None by (intro nothing_below[OF assms(1) no_child_of_file[OF assms(1)]]) simp_all
    moreover have "stored env policy ?r c = None"
      by (rule directory_holds_nothing[OF tree, of c st]) (simp add: r)
    ultimately have ?same
      by (intro same_records_at[of c ?r root]) (simp_all add: r free_holds_nothing[OF None])
    then show ?thesis using tree None by (auto simp: r)
  qed (use assms(1) in \<open>simp add: make_directory_def fmdomI\<close>)
  then show ?tree ?same "fmlookup (root_nodes root) q = Some n \<Longrightarrow> fmlookup (root_nodes ?r) q = Some n" by blast+
qed

lemma quiet_remove_directory: "leaves (same_records env policy) (remove_directory c)"
  unfolding leaves_def
proof
  fix root
  show "same_records env policy root (snd (remove_directory c root))"
  proof (cases "\<exists>st. fmlookup (root_nodes root) c = Some (Directory st) \<and> scandir root c = []")
    case True
    then obtain st where st: "fmlookup (root_nodes root) c = Some (Directory st)" and empty: "scandir root c = []" by blast
    have result: "snd (remove_directory c root) = unlink root c" using st empty by (simp add: remove_directory_def)
    show ?thesis unfolding result same_records_def
    proof (intro impI conjI)
      assume ok: "tree_ok root"
      show "tree_ok (unlink root c)"
        by (rule tree_ok_drop[OF ok, of "[c]"]) (use scandir_Nil[OF empty] in \<open>auto simp: unlink_def intro!: fmap_ext\<close>)
      show "records env policy (unlink root c) = records env policy root"
        using directory_holds_nothing[OF ok st] nothing_below[OF ok scandir_Nil[OF empty]]
        by (intro same_records_at[of c]) (auto simp: unlink_def intro!: free_holds_nothing)
    qed
  next
    case False
    then show ?thesis
      by (auto simp: remove_directory_def same_records_def split: option.splits inode.splits)
  qed
qed

text \<open>Directories are made from the top, each in one that is there.\<close>

lemma ensure_directory_same:
  assumes "policy_ok policy" "c \<noteq> []" "\<exists>st. fmlookup (root_nodes root) (butlast c) = Some (Directory st)"
  shows "same_records env policy root (snd (ensure_directory policy c root))"
    and "ensure_directory policy c root = (Inr u, root') \<Longrightarrow> \<exists>st. fmlookup (root_nodes root') c = Some (Directory st)"
  using make_directory_same[OF _ assms(1,3,2)]
  by (auto simp: same_records_def ensure_directory_def Let_def open_child_def split: option.splits inode.splits)

lemma ensure_directory_keeps:
  assumes "ensure_directory policy c root = (Inr u, root')" "fmlookup (root_nodes root) q = Some n"
  shows "fmlookup (root_nodes root') q = Some n"
  using assms by (auto simp: ensure_directory_def Let_def make_directory_def fmlookup_dom_iff split: if_splits)

lemma refines_then_at:
  assumes "refines env policy root (snd (m root))"
    and "\<And>x root'. m root = (Inr x, root') \<Longrightarrow> refines env policy root' (snd (n root'))"
  shows "refines env policy root (snd (thenT m n root))"
  using assms refines_trans[of env policy root "snd (m root)"]
  by (cases "m root") (auto simp: thenT_def bindT_def split: sum.splits)

lemma quiet_at: "leaves (same_records env policy) m \<Longrightarrow> refines env policy root (snd (m root))"
  by (simp add: leaves_def same_records_refines)

lemma quiet_require_create_intent:
  "leaves (same_records env (tx_policy t)) (require_create_intent t tenant)"
  unfolding require_create_intent_def by (intro quiet_intros quiet_repo_measures)

lemma quiet_admit_identity: "leaves (same_records env (tx_policy t)) (admit_create_tenant_identity t tenant)"
  unfolding admit_create_tenant_identity_def
  by (intro leaves_bind[OF same_records_order(2)] quiet_repo_measures) (auto intro!: quiet_intros)

lemma quiet_bind_at:
  assumes "same_records env policy root (snd (m root))"
    and "\<And>x root'. m root = (Inr x, root') \<Longrightarrow> same_records env policy root' (snd (f x root'))"
  shows "same_records env policy root (snd (bindT m f root))"
proof (cases "m root")
  case (Pair r root')
  then show ?thesis
    using assms same_records_order(2)[of env policy, THEN transpD, of root root']
    by (cases r) (auto simp: bindT_def)
qed

lemma quiet_then_at:
  assumes "same_records env policy root (snd (m root))"
    and "\<And>x root'. m root = (Inr x, root') \<Longrightarrow> same_records env policy root' (snd (n root'))"
  shows "same_records env policy root (snd (thenT m n root))"
  unfolding thenT_def by (rule quiet_bind_at) (use assms in auto)

lemma leaves_at: "leaves (same_records env policy) m \<Longrightarrow> same_records env policy root (snd (m root))"
  by (simp add: leaves_def)

lemma ensure_namespace_same:
  assumes "transaction_ok t"
  shows "leaves (same_records (tx_env t) (tx_policy t)) (ensure_create_tenant_namespace t tenant)"
  unfolding ensure_create_tenant_namespace_def TENANT_CHILD_DIRECTORIES_def foldT.simps
proof (rule quiet_exclusive, rule leaves_bind[OF same_records_order(2) quiet_intros(1)],
    (rule leaves_then[OF same_records_order(2)], rule quiet_require_create_intent quiet_admit_identity)+, unfold leaves_def, rule allI)
  fix i root0
  let ?p = "tx_policy t"
  have policy: "policy_ok ?p" using assms by (simp add: transaction_ok_def)
  show "same_records (tx_env t) ?p root0 (snd (thenT (readT (\<lambda>root. open_descendant ?p root [''tenants'']))
      (thenT (ensure_directory ?p [''tenants'', i])
        (bindT (ensure_directory ?p [''tenants'', i, ''archives'']) (\<lambda>_.
         bindT (ensure_directory ?p [''tenants'', i, ''deployments'']) (\<lambda>a. liftT (Inr a))))) root0))"
    unfolding thenT_def[symmetric, of "ensure_directory ?p [''tenants'', i, ''archives'']"]
  proof (intro quiet_then_at, goal_cases)
    case 1
    then show ?case by (simp add: readT_def same_records_def)
  next
    case (2 x r)
    then have "\<exists>st. fmlookup (root_nodes r) [''tenants''] = Some (Directory st)"
      by (auto simp: tx_simps open_descendant_def dest: open_directory_found split: if_splits)
    then show ?case using ensure_directory_same(1)[OF policy, of "[''tenants'', i]" r] by auto
  next
    case (3 x r y r')
    then have "\<exists>st. fmlookup (root_nodes r) [''tenants''] = Some (Directory st)"
      by (auto simp: tx_simps open_descendant_def dest: open_directory_found split: if_splits)
    then have "\<exists>st. fmlookup (root_nodes r') [''tenants'', i] = Some (Directory st)"
      using ensure_directory_same(2)[OF policy, of "[''tenants'', i]" r] 3 by auto
    then show ?case using ensure_directory_same(1)[OF policy, of "[''tenants'', i, ''archives'']" r'] by auto
  next
    case (4 x r y r' z r'')
    then have "\<exists>st. fmlookup (root_nodes r) [''tenants''] = Some (Directory st)"
      by (auto simp: tx_simps open_descendant_def dest: open_directory_found split: if_splits)
    then have "\<exists>st. fmlookup (root_nodes r') [''tenants'', i] = Some (Directory st)"
      using ensure_directory_same(2)[OF policy, of "[''tenants'', i]" r] 4 by auto
    then have "\<exists>st. fmlookup (root_nodes r'') [''tenants'', i] = Some (Directory st)"
      using ensure_directory_keeps 4 by blast
    then have "same_records (tx_env t) ?p r'' (snd (ensure_directory ?p [''tenants'', i, ''deployments''] r''))"
      using ensure_directory_same(1)[OF policy, of "[''tenants'', i, ''deployments'']" r''] by auto
    then show ?case by (auto simp: bindT_def liftT_def split: prod.splits sum.splits)
  qed
qed

lemma ensure_namespace_implements:
  assumes "transaction_ok t"
  shows "implements t root (snd (ensure_create_tenant_namespace t tenant root))"
  by (rule same_records_refines[OF leaves_at[OF ensure_namespace_same[OF assms]]])

lemma quiet_unless:
  "leaves (same_records env policy) m \<Longrightarrow> leaves (same_records env policy) (\<lambda>root. if b root then (Inr u, root) else m root)"
  by (simp add: leaves_def same_records_def)

lemma quiet_remove_namespace:
  "leaves (same_records env (tx_policy t)) (remove_empty_create_tenant_namespace t tenant)"
  unfolding remove_empty_create_tenant_namespace_def
  by (intro quiet_exclusive quiet_unless quiet_intros quiet_require_create_intent quiet_remove_directory)

lemma quiet_growth: "leaves (same_records env (tx_policy t)) (measure_create_tenant_namespace_growth t tenant)"
  unfolding measure_create_tenant_namespace_growth_def
  by (intro quiet_exclusive quiet_intros quiet_require_create_intent)

lemma quiet_empty_namespace: "leaves (same_records env (tx_policy t)) (require_empty_create_namespace t tenant)"
  unfolding require_empty_create_namespace_def Let_def by (intro quiet_intros)

lemma ensure_state_implements:
  assumes "transaction_ok t"
  shows "implements t root (snd (ensure_create_tenant_state t tenant candidate observed root))"
  unfolding ensure_create_tenant_state_def
  by (intro refines_exclusive refines_lift refines_then_lift refines_bind[OF quiet_require_create_intent]
      refines_then_at ensure_namespace_implements[OF assms] refines_then[OF quiet_empty_namespace] refines_done
      ensure_immutable_exact_implements[OF assms]; (erule constructed_path_ok)?)

lemma select_batch_implements:
  assumes "transaction_ok t"
  shows "leaves (same_records (tx_env t) (tx_policy t)) (select_recovery_batch t jobs limit)"
proof -
  have "leaves (same_records (tx_env t) (tx_policy t)) (durable_replace (tx_policy t) RECOVERY_CURSOR_COMPONENTS data)" for data
    unfolding leaves_def
  proof
    fix root
    let ?c = RECOVERY_CURSOR_COMPONENTS and ?p = "tx_policy t"
    show "same_records (tx_env t) ?p root (snd (durable_replace ?p ?c data root))"
    proof (cases "durable_replace ?p ?c data root")
      case (Pair r root')
      show ?thesis
      proof (cases r)
        case (Inl e)
        then show ?thesis using Pair durable_error(1) by (metis same_records_order(1) reflpE snd_conv)
      next
        case (Inr u)
        then have w: "open_parent ?p root ?c = Inr ()" "\<And>st. fmlookup (root_nodes root) ?c \<noteq> Some (Directory st)"
            "root' = publish ?p root ?c data" using Pair by (auto simp: durable_replace_iff)
        have "records (tx_env t) ?p root' q = records (tx_env t) ?p root q" for q
        proof (cases "record_slot q")
          case True
          then have "\<not> prefix ?c q"
            by (cases rule: record_slot_cases) (auto simp: RECOVERY_CURSOR_COMPONENTS_def)
          then show ?thesis unfolding w(3) records_def
            using stored_cong[OF same_along_publish[of ?c q root ?p data], of "tx_env t" ?p] by simp
        qed (simp add: records_def)
        moreover have "tree_ok root \<Longrightarrow> tree_ok root'"
          unfolding w(3) using w(1,2) assms by (intro tree_ok_publish) (auto simp: transaction_ok_def)
        ultimately show ?thesis using Pair by (auto simp: same_records_def)
      qed
    qed
  qed
  then show ?thesis
    unfolding select_recovery_batch_def Let_def
    by (intro quiet_exclusive) (auto intro!: quiet_intros)
qed

lemma remove_archive_implements:
  shows "implements t root (snd (remove_restored_archive t retirement root))"
  unfolding remove_restored_archive_def Let_def
proof (intro refines_exclusive refines_then_lift refines_read refines_lift refines_if refines_done
    refines_bind[OF quiet_repo_measures(3)] refines_then[OF leaves_read[OF same_records_order(1)]])
  fix archive p c root2 tenant
  assume p: "bindE (getitem archive ''deploymentId'') (tenant_archive_path tenant) = Inr p"
    and c: "path_components p = Inr c"
  then obtain v where "tenant_archive_path tenant v = Inr p" by (auto simp: bindE_Inr_iff)
  note path = constructed_path_ok(6)[OF this] constructed_path_name(4)[OF this]
  show "implements t root2 (snd (case read_path t p root2 of
      Inl FileNotFoundError \<Rightarrow> (thenE (open_descendant (tx_policy t) root2 (butlast c)) (Inr ()), root2)
    | Inl e \<Rightarrow> (Inl e, root2)
    | Inr current \<Rightarrow>
        if stored_document current \<noteq> archive
        then (Inl (StateConflictError ''archive record changed before retirement''), root2)
        else durable_remove (tx_policy t) c False root2))"
  proof (cases "read_path t p root2")
    case (Inl e)
    then show ?thesis by (cases e) simp_all
  next
    case (Inr r)
    have "implements t root2 (snd (durable_remove (tx_policy t) c False root2))"
      using read_path_slots[OF Inr path(1) c] path(2)
      by (intro remove_implements[OF path(1) c]) (simp_all add: removable_def)
    then show ?thesis using Inr by simp
  qed
qed

end
