(* ===== verification/Repository_Properties.thy ===== *)
theory Repository_Properties
  imports Repository_Refinement
begin

text \<open>
  What callers of the state repository rely on: a created record is there and reads back, a replacement
  cannot overwrite what its caller has not seen, every operation implements the abstract store, and
  over any history of transactions evidence stays, jobs only advance and records keep their type.
\<close>

section \<open>Reading after writing\<close>

lemma read_written:
  assumes "transaction_ok t" "path_ok p" "path_components p = Inr c" "encode_record (tx_env t) p d = Inr raw"
    and "open_parent (tx_policy t) root c = Inr ()"
  shows "read_path t p (publish (tx_policy t) root c raw)
    = Inr \<lparr>stored_document = d, stored_revision = revision (contract_kind (path_name p)) raw\<rparr>"
proof -
  have "read_regular (tx_policy t) (publish (tx_policy t) root c raw) c MAX_CANONICAL_BYTES = Inr raw"
    using assms encoded_decodes(2) open_parent_nonempty by (intro read_published) (auto simp: transaction_ok_def)
  then show ?thesis
    using assms(1,3,4) encoded_decodes(1)[of "tx_env t" p d raw] unfolding read_path_def read_locked_iff
    by (auto simp: transaction_ok_def encode_record_iff)
qed

lemma exclusive_iff [tx_simps]:
  "exclusive t m root = (Inr x, root') \<longleftrightarrow> require_exclusive t = Inr () \<and> m root = (Inr x, root')"
  by (auto simp: exclusive_def tx_simps)

lemma read_path_parent:
  assumes "read_path t p root = Inr r" "path_components p = Inr c"
  shows "open_parent (tx_policy t) root c = Inr ()" "fmlookup (root_nodes root) c \<noteq> None"
  using assms unfolding read_path_def read_locked_iff
  by (auto simp: read_regular_def open_regular_def bindE_Inr_iff thenE_Inr split: option.splits)

lemma read_path_not_directory:
  assumes "tree_ok root" "read_path t p root = Inr r" "path_components p = Inr c"
  shows "fmlookup (root_nodes root) c \<noteq> Some (Directory st)"
proof
  assume "fmlookup (root_nodes root) c = Some (Directory st)"
  moreover have "S_IFMT (st_mode st) = S_IFREG"
    using assms(2,3) calculation unfolding read_path_def read_locked_iff
    by (auto simp: read_regular_def open_regular_def bindE_Inr_iff thenE_Inr validate_regular_state_file_def split: if_splits)
  ultimately show False using tree_okD(2)[OF assms(1)] by (simp add: S_IFREG_def S_IFDIR_def)
qed


lemma compare_and_swap_success:
  assumes "transaction_ok t" "path_ok p" "path_components p = Inr c"
    and "compare_and_swap t p rvn d root = (Inr r, root')"
  obtains raw current where "encode_record (tx_env t) p d = Inr raw" "allows_replacement (path_name p)"
    "read_path t p root = Inr current" "stored_revision current = rvn" "require_exclusive t = Inr ()"
    "check_replacement t (path_name p) (stored_document current) raw = Inr ()"
    "slots t root' = (slots t root)(c \<mapsto> d)" "read_path t p root' = Inr r" "stored_document r = d"
proof -
  obtain raw current where w: "encode_record (tx_env t) p d = Inr raw" "allows_replacement (path_name p)"
      "check_revision t p rvn root = Inr current" "require_exclusive t = Inr ()"
      "check_replacement t (path_name p) (stored_document current) raw = Inr ()"
      "durable_replace (tx_policy t) c raw root = (Inr (), root')" "read_path t p root' = Inr r"
    using assms(3,4) unfolding compare_and_swap_def compare_and_swap_bytes_def replace_record_def
    by (auto simp: tx_simps split: if_splits)
  have slot: "record_slot c" using assms(2,3) by (auto elim: path_components_slot)
  have root': "open_parent (tx_policy t) root c = Inr ()" "root' = publish (tx_policy t) root c raw"
    using w(6) by (auto simp: durable_replace_iff)
  have "slots t root' = (slots t root)(c \<mapsto> d)" unfolding root'(2)
    using assms(1) by (intro records_publish[OF _ _ w(1) root'(1) slot]) (auto simp: transaction_ok_def)
  moreover have "stored_document r = d"
    using w(7) read_written[OF assms(1-3) w(1) root'(1)] unfolding root'(2) by auto
  ultimately show thesis using that w check_revision_read[OF w(3)] by blast
qed

section \<open>Revisions\<close>

lemma append_same_length: "length a = length b \<Longrightarrow> a @ x = b @ y \<longleftrightarrow> a = b \<and> x = y"
  by simp

lemma revision_frame_inject: "revision_frame kind a = revision_frame kind b \<longleftrightarrow> a = b"
  by (auto simp: revision_frame_def append_same_length)

lemma revision_inject:
  assumes "revision kind a = revision kind' b"
  shows "kind = kind' \<and> length a = length b \<and>
    Sha256.sha256 (revision_frame kind a) = Sha256.sha256 (revision_frame kind b)"
  using assms by (auto simp: revision_def sha256_hex_def dest: hex_of_bytes_inj)

text \<open>Two documents of one kind with different canonical texts and the same revision: a collision of SHA-256.\<close>

definition colliding_revisions :: "contract_env \<Rightarrow> ContractKind \<Rightarrow> json \<Rightarrow> json \<Rightarrow> bool" where
  "colliding_revisions env kind d e \<longleftrightarrow>
     (\<exists>a b. canonical_bytes env d = Inr a \<and> canonical_bytes env e = Inr b \<and> revision_frame kind a \<noteq> revision_frame kind b \<and>
        Sha256.sha256 (revision_frame kind a) = Sha256.sha256 (revision_frame kind b))"

lemma revision_identifies:
  assumes "read_path t p root = Inr a" "read_path t p root' = Inr b" "stored_revision a = stored_revision b"
  shows "stored_document a = stored_document b \<or>
    colliding_revisions (tx_env t) (contract_kind (path_name p)) (stored_document a) (stored_document b)"
proof -
  obtain x y where x: "canonical_bytes (tx_env t) (stored_document a) = Inr x"
      "decode_json_object (env_codec (tx_env t)) x MAX_CANONICAL_BYTES = Inr (stored_document a)"
      "stored_revision a = revision (contract_kind (path_name p)) x"
    and y: "canonical_bytes (tx_env t) (stored_document b) = Inr y"
      "decode_json_object (env_codec (tx_env t)) y MAX_CANONICAL_BYTES = Inr (stored_document b)"
      "stored_revision b = revision (contract_kind (path_name p)) y"
    using assms(1,2) unfolding read_path_def read_locked_iff by blast
  show ?thesis
  proof (cases "x = y")
    case False
    then have "revision_frame (contract_kind (path_name p)) x \<noteq> revision_frame (contract_kind (path_name p)) y"
      by (simp add: revision_frame_inject)
    then show ?thesis
      using x(1,3) y(1,3) assms(3) revision_inject unfolding colliding_revisions_def by metis
  qed (use x(2) y(2) in simp)
qed

text \<open>C9. No update is lost: a replacement that a caller makes with the revision of what it has read succeeds only
  while the record still is the document it has read (unless two documents with the same revision
  collide under SHA-256), and it then changes that record alone, to the new document, which is also
  what it returns and what the next reading returns.\<close>

theorem compare_and_swap_no_lost_update:
  assumes "transaction_ok t" "path_ok p" "path_components p = Inr c"
    and "read_path t p root0 = Inr seen" "compare_and_swap t p (stored_revision seen) d root = (Inr r, root')"
  shows "slots t root' = (slots t root)(c \<mapsto> d) \<and> read_path t p root' = Inr r \<and> stored_document r = d \<and>
    (slots t root c = Some (stored_document seen) \<or>
     (\<exists>current. slots t root c = Some current \<and>
        colliding_revisions (tx_env t) (contract_kind (path_name p)) current (stored_document seen)))"
proof -
  obtain raw current where w: "read_path t p root = Inr current" "stored_revision current = stored_revision seen"
      "slots t root' = (slots t root)(c \<mapsto> d)" "read_path t p root' = Inr r" "stored_document r = d"
    using compare_and_swap_success[OF assms(1-3,5)] by metis
  then show ?thesis
    using revision_identifies[OF w(1) assms(4) w(2)] read_path_slots(1)[OF w(1) assms(2,3)] by auto
qed

section \<open>Histories of transactions\<close>

text \<open>The operations of a transaction, with their arguments.\<close>

datatype repository_operation =
    Measure_Inventory
  | Measure_Intents
  | Deployment_Ids json nat
  | Archive_Ids json
  | Create_Immutable StateRecordPath json
  | Compare_And_Swap StateRecordPath StateRevision json
  | Bind_Dispatch StateRecordPath StateRevision json HostCapacityLimits
  | Rebind_Route StateRecordPath StateRevision json bool HostCapacityLimits
  | Validate_Execution StateRecordPath StateRevision json HostCapacityLimits
  | Retire_Export json string
  | Remove_Intent StateRecordPath RemovalToken
  | Remove_Deployment StoredContract RemovalToken
  | Unbind_Archive StoredContract
  | Ensure_Namespace json
  | Namespace_Growth json
  | Remove_Namespace json
  | Ensure_State json json json
  | Select_Batch "json list" int

fun perform :: "state_transaction \<Rightarrow> repository_operation \<Rightarrow> state_root \<Rightarrow> state_root" where
  "perform t Measure_Inventory root = snd (repo_measure_inventory t root)"
| "perform t Measure_Intents root = snd (repo_measure_intent_records t root)"
| "perform t (Deployment_Ids tenant n) root = snd (bounded_tenant_deployment_ids t tenant n root)"
| "perform t (Archive_Ids tenant) root = snd (tenant_archive_ids t tenant root)"
| "perform t (Create_Immutable p d) root = snd (create_immutable t p d root)"
| "perform t (Compare_And_Swap p r d) root = snd (compare_and_swap t p r d root)"
| "perform t (Bind_Dispatch p r d limits) root = snd (bind_dispatch_authority t p r d limits root)"
| "perform t (Rebind_Route p r d allow limits) root = snd (rebind_route_source_authority t p r d allow limits root)"
| "perform t (Validate_Execution p r d limits) root = snd (commit_execution_validation t p r d limits root)"
| "perform t (Retire_Export job reason) root = snd (commit_export_retirement t job reason root)"
| "perform t (Remove_Intent p removal) root = snd (remove_reconciled_intent t p removal root)"
| "perform t (Remove_Deployment expected removal) root = snd (remove_exact_deployment t expected removal root)"
| "perform t (Unbind_Archive retirement) root = snd (remove_restored_archive t retirement root)"
| "perform t (Ensure_Namespace tenant) root = snd (ensure_create_tenant_namespace t tenant root)"
| "perform t (Namespace_Growth tenant) root = snd (measure_create_tenant_namespace_growth t tenant root)"
| "perform t (Remove_Namespace tenant) root = snd (remove_empty_create_tenant_namespace t tenant root)"
| "perform t (Ensure_State tenant d observed) root = snd (ensure_create_tenant_state t tenant d observed root)"
| "perform t (Select_Batch jobs limit) root = snd (select_recovery_batch t jobs limit root)"

text \<open>The paths among the arguments come from the constructors of \<^verbatim>\<open>StateRecordPath\<close>, which has no other.\<close>

fun operation_ok :: "repository_operation \<Rightarrow> bool" where
  "operation_ok (Create_Immutable p d) = path_ok p"
| "operation_ok (Compare_And_Swap p r d) = path_ok p"
| "operation_ok (Bind_Dispatch p r d limits) = path_ok p"
| "operation_ok (Rebind_Route p r d allow limits) = path_ok p"
| "operation_ok (Validate_Execution p r d limits) = path_ok p"
| "operation_ok (Remove_Intent p removal) = path_ok p"
| "operation_ok _ = True"

lemma perform_implements:
  assumes "transaction_ok t" "operation_ok action"
  shows "implements t root (perform t action root)"
proof (cases action)
  case (Deployment_Ids tenant n)
  then show ?thesis by (simp add: bounded_tenant_deployment_ids_def quiet_at[OF quiet_bound_record_ids])
next
  case (Archive_Ids tenant)
  then show ?thesis by (simp add: tenant_archive_ids_def quiet_at[OF quiet_bound_record_ids])
qed (use assms in \<open>simp_all add: quiet_at[OF quiet_repo_measures(1)] quiet_at[OF quiet_repo_measures(3)]
    create_immutable_implements compare_and_swap_implements bind_dispatch_implements rebind_route_implements
    commit_execution_implements commit_export_implements remove_intent_implements remove_deployment_implements
    remove_archive_implements ensure_namespace_implements ensure_state_implements quiet_at[OF quiet_growth]
    quiet_at[OF quiet_remove_namespace] quiet_at[OF select_batch_implements[OF assms(1)]]\<close>)

text \<open>C1. The repository implements the abstract record store: whatever operation a transaction performs, with
  whatever arguments and whatever outcome, the records before and after it are related by finitely
  many steps of the store, each of which creates a well-typed record in a free slot, replaces a
  replaceable record by one of the same type (a job only by one it may advance to), or removes an
  intent, a retained deployment or an archive; and the tree of inodes stays well-formed.\<close>

theorem repository_refines_store:
  assumes "transaction_ok t" "operation_ok action" "tree_ok root"
  shows "tree_ok (perform t action root) \<and> (store_step (tx_env t))\<^sup>*\<^sup>* (slots t root) (slots t (perform t action root))"
  using perform_implements[OF assms(1,2), of root] assms(3) by (simp add: refines_def)

text \<open>A history: operations of any transactions on one repository.\<close>

definition shares_repository :: "state_transaction \<Rightarrow> state_transaction \<Rightarrow> bool" where
  "shares_repository t u \<longleftrightarrow> tx_env u = tx_env t \<and> tx_policy u = tx_policy t"

fun run_history :: "(state_transaction \<times> repository_operation) list \<Rightarrow> state_root \<Rightarrow> state_root" where
  "run_history [] root = root"
| "run_history ((u, action) # rest) root = run_history rest (perform u action root)"

definition history_ok :: "state_transaction \<Rightarrow> (state_transaction \<times> repository_operation) list \<Rightarrow> bool" where
  "history_ok t history \<longleftrightarrow> list_all (\<lambda>(u, action). shares_repository t u \<and> operation_ok action) history"

lemma history_steps:
  assumes "transaction_ok t" "history_ok t history" "tree_ok root"
  shows "tree_ok (run_history history root) \<and> (store_step (tx_env t))\<^sup>*\<^sup>* (slots t root) (slots t (run_history history root))"
  using assms(2,3)
proof (induction history arbitrary: root)
  case (Cons step history)
  obtain u action where step: "step = (u, action)" by force
  then have u: "tx_env u = tx_env t" "tx_policy u = tx_policy t" "operation_ok action" "history_ok t history"
    using Cons.prems(1) by (auto simp: history_ok_def shares_repository_def)
  have "transaction_ok u" using assms(1) u by (simp add: transaction_ok_def)
  then have "tree_ok (perform u action root) \<and> (store_step (tx_env t))\<^sup>*\<^sup>* (slots t root) (slots t (perform u action root))"
    using repository_refines_store[of u action root] u Cons.prems(2) by simp
  then show ?case using Cons.IH[OF u(4), of "perform u action root"] unfolding step by (auto intro: rtranclp_trans)
qed simp

section \<open>What a history cannot do\<close>

lemma path_of_authorization_slot:
  assumes "path_ok p" "path_components p = Inr [''authorization'', b, f]"
  shows "b = ''jobs'' \<and> path_name p = AUTHORIZATION_JOB_PATH
    \<or> b = ''results'' \<and> path_name p \<in> {AUTHORIZATION_RESULT_PATH, EMERGENCY_RESULT_PATH}
    \<or> b = ''correlations'' \<and> path_name p = AUTHORIZATION_CORRELATION_PATH"
  using assms
  by (cases "path_name p") (auto simp: path_components_def global_components_def require_record_id_def tenant_components_def
      deployment_components_def bindE_Inr_iff split: option.splits)

lemma step_keeps_evidence:
  assumes "store_step env s s'" "s c = Some d" "c = [''authorization'', b, f]" "b \<noteq> ''jobs''"
  shows "s' c = Some d"
  using assms
proof (cases rule: store_step.cases)
  case (replace p c' d0 d')
  then have "c' \<noteq> c" using path_of_authorization_slot[OF replace(2)] assms(3,4)
    by (auto simp: allows_replacement_def)
  then show ?thesis using replace assms(2) by auto
next
  case (remove p c' d0)
  then have "c' \<noteq> c" using path_of_authorization_slot[OF remove(2)] assms(3,4)
    by (auto simp: removable_def is_intent_def)
  then show ?thesis using remove assms(2) by auto
qed auto

lemma step_advances_job:
  assumes "store_step env s s'" "s c = Some d" "c = [''authorization'', ''jobs'', f]"
  shows "\<exists>d'. s' c = Some d' \<and> job_advances d d'"
  using assms(1)
proof (cases rule: store_step.cases)
  case (create p c' d')
  then show ?thesis using assms(2) job_advances_refl by (cases "c' = c") auto
next
  case (replace p c' d0 d')
  show ?thesis
  proof (cases "c' = c")
    case True
    then have "path_name p = AUTHORIZATION_JOB_PATH"
      using path_of_authorization_slot[OF replace(2)] replace(3) assms(3) by auto
    then show ?thesis using replace True assms(2) by auto
  qed (use replace assms(2) job_advances_refl in auto)
next
  case (remove p c' d0)
  then have "c' \<noteq> c" using path_of_authorization_slot[OF remove(2)] assms(3)
    by (auto simp: removable_def is_intent_def)
  then show ?thesis using remove assms(2) job_advances_refl by auto
qed

text \<open>C11. Evidence is permanent: no history of operations, successful or refused, changes or removes an operation
  result or a correlation record that is in the repository.\<close>

theorem authorization_evidence_permanent:
  assumes "transaction_ok t" "history_ok t history" "tree_ok root"
    and "slots t root [''authorization'', b, f] = Some d" "b \<noteq> ''jobs''"
  shows "slots t (run_history history root) [''authorization'', b, f] = Some d"
proof -
  have "(store_step (tx_env t))\<^sup>*\<^sup>* (slots t root) (slots t (run_history history root))"
    using history_steps[OF assms(1-3)] by blast
  then show ?thesis
    by (induction rule: rtranclp_induct) (use assms(4,5) in \<open>auto intro: step_keeps_evidence\<close>)
qed


definition records_typed :: "contract_env \<Rightarrow> record_store \<Rightarrow> bool" where
  "records_typed env s \<longleftrightarrow> (\<forall>c d. s c = Some d \<longrightarrow> (\<exists>p. path_ok p \<and> path_components p = Inr c \<and> well_typed env p d))"

text \<open>C12. Records keep their type: if every record of the repository is a valid contract of the kind of a path of
  its slot, bound to the identities in that path, this stays so over every history of operations.\<close>

theorem repository_records_typed:
  assumes "transaction_ok t" "history_ok t history" "tree_ok root" "records_typed (tx_env t) (slots t root)"
  shows "records_typed (tx_env t) (slots t (run_history history root))"
proof -
  have "(store_step (tx_env t))\<^sup>*\<^sup>* (slots t root) (slots t (run_history history root))"
    using history_steps[OF assms(1-3)] by blast
  then show ?thesis
  proof (induction rule: rtranclp_induct)
    case (step s s')
    from step(2,3) show ?case
      by (cases rule: store_step.cases) (auto simp: records_typed_def)
  qed (rule assms(4))
qed

end
