(* ===== verification/Repository_Samples.thy ===== *)
theory Repository_Samples
  imports Repository_Properties
begin

text \<open>
  A small repository: the directories of the layout, one pending job with its correlation record, and
  the documents that go into it. The properties of the repository are applied to it.
\<close>

section \<open>Documents\<close>

definition store_request :: json where
  "store_request = obj [(''operation'', JStr ''create''), (''slug'', JStr ''duck''), (''correlationId'', JStr sample_identity)]"

definition store_request_digest :: json where
  "store_request_digest = Digest_to_dict \<lparr>format = REQUEST_DIGEST_FORMAT, algorithm = ''sha256'',
     digest_value = sha256_hex (framed REQUEST_DIGEST_FORMAT [91, 10])\<rparr>"

definition store_job :: "string \<Rightarrow> json" where
  "store_job phase_name = sample_contract ''AuthorizationJob''
     [(''jobId'', JStr sample_identity), (''phase'', JStr phase_name), (''acceptedAt'', JStr ''2026-01-01T00:00:00Z''),
      (''compatibilityVersion'', JStr ''static-job-v1''),
      (''request'', store_request), (''requestDigest'', store_request_digest), (''artifact'', JNull),
      (''executionValidated'', JBool False),
      (''expectedSource'', obj [(''expectsTenantAbsent'', JBool True), (''lifecycle'', JNull), (''manifestDigest'', JNull),
         (''deploymentDigest'', JNull), (''archiveRecordDigest'', JNull), (''platformStateDigest'', JNull)])]"

definition store_namespace :: json where
  "store_namespace = sample_contract ''PlatformNamespace'' [(''tenantOriginSuffix'', JStr ''lowerduckpond.com'')]"

text \<open>What is durable in the job, and what a retry has to repeat of it.\<close>

definition store_durable :: json where
  "store_durable = without [''phase'', ''executionValidated''] (store_job ''pending'')"
definition store_retry :: json where
  "store_retry = without [''jobId'', ''acceptedAt''] store_durable"

definition store_env :: contract_env where
  "store_env = \<lparr>env_codec = table_codec [(store_request, [91]), (store_job ''pending'', [92]), (store_job ''claimed'', [93]),
     (store_namespace, [94]), (store_durable, [95]), (store_retry, [96])], iter_errors = (\<lambda>_ _. [])\<rparr>"

lemma store_documents_distinct:
  "store_job ''pending'' \<noteq> store_request" "store_job ''claimed'' \<noteq> store_request" "store_namespace \<noteq> store_request"
  "store_job ''claimed'' \<noteq> store_job ''pending''" "store_namespace \<noteq> store_job phase_name"
  by (simp_all add: store_job_def store_request_def store_namespace_def sample_contract_def obj_inject)

lemma store_bytes:
  "canonical_bytes store_env store_request = Inr [91, 10]"
  "canonical_bytes store_env (store_job ''pending'') = Inr [92, 10]"
  "canonical_bytes store_env (store_job ''claimed'') = Inr [93, 10]"
  "canonical_bytes store_env store_namespace = Inr [94, 10]"
  by (simp_all add: canonical_bytes_def canonical_json_bytes_def store_env_def table_codec_def store_documents_distinct
      MAX_CANONICAL_BYTES_def)

lemma store_codec: "codec_ok (env_codec store_env)"
  unfolding store_env_def contract_env.simps by (rule table_codec_ok) (simp add: plain_table_def)

lemma store_request_binding: "document_binding store_env store_request REQUEST_DIGEST_FORMAT = Inr store_request_digest"
  using store_bytes(1) contract_formats
  by (simp add: document_binding_def canonical_bytes_def digest_bytes_def mk_Digest_def MAX_U32_def store_request_digest_def)

lemma store_job_valid:
  assumes "phase_name = ''pending'' \<or> phase_name = ''claimed''"
  shows "validate_job store_env (store_job phase_name) = Inr ()"
proof -
  have parts: "getitem (store_job phase_name) ''request'' = Inr store_request"
      "getitem (store_job phase_name) ''requestDigest'' = Inr store_request_digest"
      "getitem (store_job phase_name) ''artifact'' = Inr JNull"
      "getitem (store_job phase_name) ''compatibilityVersion'' = lit ''static-job-v1''"
      "\<not> dict_has (store_job phase_name) ''sourceAuthority''" "\<not> dict_has (store_job phase_name) ''exportDelivery''"
      "dict_get (store_job phase_name) ''dispatchImportManifest'' = none_lit"
      "getitem (store_job phase_name) ''expectedSource'' = Inr (obj [(''expectsTenantAbsent'', JBool True), (''lifecycle'', JNull),
         (''manifestDigest'', JNull), (''deploymentDigest'', JNull), (''archiveRecordDigest'', JNull),
         (''platformStateDigest'', JNull)])"
    by (simp_all add: store_job_def sample_contract_def)
  have request: "validate_request store_request = Inr ()"
    by (simp add: validate_request_def store_request_def thenE_def)
  have more: "getitem store_request ''operation'' = lit ''create''" "dict_get store_request ''artifact'' = none_lit"
    by (simp_all add: store_request_def)
  show ?thesis
    by (simp add: validate_job_def parts request more store_request_binding thenE_def refuse_if_def neqE_def
        validate_job_delivery_def validate_job_source_authority_def andE_def)
qed

lemma store_identity: "is_uuid7 sample_identity" "validate_uuid7 (JStr sample_identity) = Inr sample_identity"
  by (simp_all add: is_uuid7_def)

section \<open>The repository\<close>

definition store_stat :: stat_result where
  "store_stat = \<lparr>st_mode = S_IFREG OR 384, st_ino = 7, st_dev = 1, st_nlink = 1, st_uid = 0, st_gid = 0, st_size = 2,
     st_blocks = 8, st_mtime_ns = 1, st_ctime_ns = 1\<rparr>"

definition store_policy :: state_policy where
  "store_policy = \<lparr>expected_owner = 0, expected_directory_mode = 448, expected_record_mode = 384, process_uid = 0,
     fresh_stat = (\<lambda>n. store_stat\<lparr>st_ino := 100 + int n\<rparr>)\<rparr>"

definition store_directory :: inode where
  "store_directory = Directory (store_stat\<lparr>st_mode := S_IFDIR OR 448\<rparr>)"

definition store_file :: string where "store_file = sample_identity @ ''.json''"
definition job_slot :: "string list" where "job_slot = [''authorization'', ''jobs'', store_file]"
definition correlation_slot :: "string list" where "correlation_slot = [''authorization'', ''correlations'', store_file]"

definition store_directories :: "string list list" where
  "store_directories = [[], [''authorization''], [''authorization'', ''correlations''], [''authorization'', ''jobs''],
     [''authorization'', ''results''], [''intents''], [''locks''], [''platform''], [''tenants'']]"

definition store_nodes :: "(string list \<times> inode) list" where
  "store_nodes = map (\<lambda>c. (c, store_directory)) store_directories
     @ [(job_slot, Entry [92, 10] store_stat), (correlation_slot, Entry [92, 10] store_stat)]"

definition store_root :: state_root where
  "store_root = \<lparr>root_nodes = fmap_of_list store_nodes, root_created = 0\<rparr>"

definition store_transaction :: state_transaction where
  "store_transaction = \<lparr>tx_env = store_env, tx_policy = store_policy,
     tx_host = \<lparr>host_statvfs = \<lparr>f_bsize = 4096, f_frsize = 4096, f_blocks = 100000000, f_bavail = 90000000,
        f_files = 10000000, f_favail = 9000000\<rparr>, host_device = 1, host_now = 0\<rparr>,
     tx_mode = EXCLUSIVE, tx_active = True, tx_locks = (\<lparr>directory_fd = 3, token = 0, active_count = 1\<rparr>, [])\<rparr>"

lemma store_transaction_simps [simp]:
  "tx_env store_transaction = store_env" "tx_policy store_transaction = store_policy"
  "require_exclusive store_transaction = Inr ()" "require_active store_transaction = Inr ()"
  by (simp_all add: store_transaction_def require_exclusive_def require_active_def thenE_def)

lemma store_policy_ok: "policy_ok store_policy"
  by (simp add: policy_ok_def store_policy_def)

lemma store_transaction_ok: "transaction_ok store_transaction"
  by (simp add: transaction_ok_def store_codec store_policy_ok)

lemma store_lookup:
  "fmlookup (root_nodes store_root) c =
     (if c \<in> set store_directories then Some store_directory
      else if c \<in> {job_slot, correlation_slot} then Some (Entry [92, 10] store_stat) else None)"
  by (auto simp: store_root_def store_nodes_def store_directories_def fmlookup_of_list job_slot_def correlation_slot_def)

lemma store_modes:
  "S_IFMT (S_IFDIR OR 448) = S_IFDIR" "S_IMODE (S_IFDIR OR 448) = 448"
  "S_IFMT (S_IFREG OR 384) = S_IFREG" "S_IMODE (S_IFREG OR 384) = 384"
  using mode_bits[of 448] mode_bits[of 384] by simp_all

lemma store_tree: "tree_ok store_root"
  unfolding tree_ok_def
proof (intro conjI allI impI)
  fix c n assume "fmlookup (root_nodes store_root) c = Some n" "c \<noteq> []"
  then have "c \<in> set store_directories \<or> c \<in> {job_slot, correlation_slot}" by (simp add: store_lookup split: if_splits)
  then have "butlast c \<in> set store_directories"
    unfolding store_directories_def job_slot_def correlation_slot_def by (elim disjE; simp; elim disjE; simp)
  then show "\<exists>st. fmlookup (root_nodes store_root) (butlast c) = Some (Directory st)"
    by (simp add: store_lookup store_directory_def)
next
  fix c st assume "fmlookup (root_nodes store_root) c = Some (Directory st)"
  then have "Directory st = store_directory" by (simp add: store_lookup split: if_splits)
  then show "S_IFMT (st_mode st) = S_IFDIR" using store_modes by (simp add: store_directory_def)
next
  fix c data st assume "fmlookup (root_nodes store_root) c = Some (Entry data st)"
  then have "st = store_stat" by (simp add: store_lookup store_directory_def split: if_splits)
  then show "S_IFMT (st_mode st) \<noteq> S_IFDIR" using store_modes by (simp add: store_stat_def S_IFREG_def S_IFDIR_def)
qed

lemma store_directory_valid:
  "validate_state_directory store_policy (store_stat\<lparr>st_mode := S_IFDIR OR 448\<rparr>) = Inr ()"
  by (simp add: validate_state_directory_def store_modes store_policy_def store_stat_def)

lemma store_parents:
  "open_parent store_policy store_root job_slot = Inr ()"
  "open_parent store_policy store_root correlation_slot = Inr ()"
  "open_parent store_policy store_root [''platform'', ''namespace.json''] = Inr ()"
  "open_parent store_policy store_root RECOVERY_CURSOR_COMPONENTS = Inr ()"
proof -
  have store: "store_file \<noteq> []" "store_file \<noteq> ''.''" "store_file \<noteq> ''..''" "CHR ''/'' \<notin> set store_file"
      "CHR 0x00 \<notin> set store_file"
    by (simp_all add: store_file_def sample_identity_def)
  note look = store_lookup store_directories_def store_directory_def store_directory_valid
  have opened: "open_directory store_policy store_root c = Inr c"
    if "c \<in> {[''authorization'', ''jobs''], [''authorization'', ''correlations''], [''platform''], [''locks'']}" for c
    using that by (auto simp: open_directory_def validate_components_def thenE_def open_component_def look)
  show "open_parent store_policy store_root job_slot = Inr ()"
    "open_parent store_policy store_root correlation_slot = Inr ()"
    "open_parent store_policy store_root [''platform'', ''namespace.json''] = Inr ()"
    "open_parent store_policy store_root RECOVERY_CURSOR_COMPONENTS = Inr ()"
    using store by (simp_all add: open_parent_def validate_components_def thenE_def opened job_slot_def correlation_slot_def
        RECOVERY_CURSOR_COMPONENTS_def)
qed

lemma store_stat_valid:
  "validate_regular_state_file store_policy store_stat = Inr ()" "S_IFMT (st_mode store_stat) \<noteq> S_IFLNK" "st_size store_stat = 2"
proof -
  show "validate_regular_state_file store_policy store_stat = Inr ()"
    using store_modes by (simp add: validate_regular_state_file_def store_policy_def store_stat_def)
  have "S_IFMT (st_mode store_stat) = S_IFREG" using store_modes by (simp add: store_stat_def)
  then show "S_IFMT (st_mode store_stat) \<noteq> S_IFLNK" by (simp add: S_IFREG_def S_IFLNK_def)
qed (simp add: store_stat_def)

lemma store_slots:
  "fmlookup (root_nodes store_root) job_slot = Some (Entry [92, 10] store_stat)"
  "fmlookup (root_nodes store_root) correlation_slot = Some (Entry [92, 10] store_stat)"
  by (simp_all add: store_lookup store_directories_def job_slot_def correlation_slot_def)

lemma store_reads:
  "read_regular store_policy store_root job_slot MAX_CANONICAL_BYTES = Inr [92, 10]"
  "read_regular store_policy store_root correlation_slot MAX_CANONICAL_BYTES = Inr [92, 10]"
  by (simp_all add: read_regular_def open_regular_def store_parents store_slots thenE_def store_stat_valid read_bounded_def
      MAX_CANONICAL_BYTES_def)

section \<open>Typed records\<close>

definition job_path :: StateRecordPath where
  "job_path = StateRecordPath.make AUTHORIZATION_JOB_PATH None None (Some sample_identity)"
definition correlation_path :: StateRecordPath where
  "correlation_path = StateRecordPath.make AUTHORIZATION_CORRELATION_PATH None None (Some sample_identity)"

lemma store_paths:
  "path_ok job_path" "path_components job_path = Inr job_slot" "path_name job_path = AUTHORIZATION_JOB_PATH"
  "path_ok correlation_path" "path_components correlation_path = Inr correlation_slot"
  "path_ok platform_namespace_path" "path_components platform_namespace_path = Inr [''platform'', ''namespace.json'']"
  by (simp_all add: path_ok_def path_components_def job_path_def correlation_path_def platform_namespace_path_def
      StateRecordPath.defs global_components_def require_record_id_def job_slot_def correlation_slot_def store_file_def store_identity)

lemma store_identity_fields:
  "list_all (\<lambda>f. validate_identity_field (store_job phase_name) f = Inr ()) IDENTITY_FIELDS"
  "list_all (\<lambda>f. validate_identity_field store_namespace f = Inr ()) IDENTITY_FIELDS"
  by (simp_all add: IDENTITY_FIELDS_def validate_identity_field_def store_job_def store_namespace_def sample_contract_def
      store_identity thenE_def)

lemma store_valid:
  assumes "phase_name = ''pending'' \<or> phase_name = ''claimed''"
  shows "validate_contract store_env (store_job phase_name) (Some AUTHORIZATION_JOB) = Inr AUTHORIZATION_JOB"
    and "validate_contract store_env store_namespace (Some PLATFORM_NAMESPACE) = Inr PLATFORM_NAMESPACE"
proof -
  have errors: "iter_errors store_env k d = []" for k d by (simp add: store_env_def)
  have canonical: "\<exists>raw. canonical_json_bytes (dumps (env_codec store_env)) (store_job phase_name) MAX_CANONICAL_BYTES = Inr raw"
      "\<exists>raw. canonical_json_bytes (dumps (env_codec store_env)) store_namespace MAX_CANONICAL_BYTES = Inr raw"
    using store_bytes assms unfolding canonical_bytes_def by blast+
  have kinds: "dict_get (store_job phase_name) ''apiVersion'' = lit API_VERSION"
      "dict_get (store_job phase_name) ''kind'' = lit (kind_value AUTHORIZATION_JOB)"
      "dict_get store_namespace ''apiVersion'' = lit API_VERSION"
      "dict_get store_namespace ''kind'' = lit (kind_value PLATFORM_NAMESPACE)"
    by (simp_all add: store_job_def store_namespace_def sample_contract_def)
  have semantic: "semantic_validation store_env vc (store_job phase_name) AUTHORIZATION_JOB = Inr ()"
      "semantic_validation store_env vc store_namespace PLATFORM_NAMESPACE = Inr ()" for vc
    using store_identity_fields store_job_valid[OF assms]
    by (auto simp: semantic_validation_iff semantic_validator_def list_all_iff validate_namespace_def store_namespace_def
        sample_contract_def)
  show "validate_contract store_env (store_job phase_name) (Some AUTHORIZATION_JOB) = Inr AUTHORIZATION_JOB"
    "validate_contract store_env store_namespace (Some PLATFORM_NAMESPACE) = Inr PLATFORM_NAMESPACE"
    using canonical by (auto simp: validate_contract_iff validated_contract_iff errors kinds semantic)
qed

lemma store_well_typed:
  assumes "phase_name = ''pending'' \<or> phase_name = ''claimed''"
  shows "well_typed store_env job_path (store_job phase_name)" "well_typed store_env correlation_path (store_job phase_name)"
    and "well_typed store_env platform_namespace_path store_namespace"
  using store_valid[OF assms]
  by (simp_all add: well_typed_def job_path_def correlation_path_def platform_namespace_path_def StateRecordPath.defs
      validate_binding_def validate_authorization_binding_def refuse_record_def neqE_def anyE.simps is_intent_def
      store_job_def sample_contract_def store_request_def)

lemma store_encodings:
  "encode_record store_env job_path (store_job ''claimed'') = Inr [93, 10]"
  "encode_new store_env platform_namespace_path store_namespace = Inr [94, 10]"
proof -
  have dicts: "is_dict (store_job ''claimed'')" "is_dict store_namespace"
    by (simp_all add: store_job_def store_namespace_def sample_contract_def)
  show "encode_record store_env job_path (store_job ''claimed'') = Inr [93, 10]"
    using dicts store_bytes(3) store_well_typed(1) by (simp add: encode_record_iff)
  have "encode_record store_env platform_namespace_path store_namespace = Inr [94, 10]"
    using dicts store_bytes(4) store_well_typed(3)[of "''pending''"] by (simp add: encode_record_iff)
  then show "encode_new store_env platform_namespace_path store_namespace = Inr [94, 10]"
    by (simp add: encode_new_def thenE_def validate_new_result_shape_def validate_new_archive_retirement_shape_def
        refuse_record_def andE_def platform_namespace_path_def StateRecordPath.defs)
qed

lemma store_decoded: "decode_json_object (env_codec store_env) [92, 10] MAX_CANONICAL_BYTES = Inr (store_job ''pending'')"
proof (rule decode_canonical[OF store_codec])
  show "canonical_json_bytes (dumps (env_codec store_env)) (store_job ''pending'') MAX_CANONICAL_BYTES = Inr [92, 10]"
    using store_bytes(2) by (simp add: canonical_bytes_def)
qed (simp_all add: store_job_def sample_contract_def MAX_CANONICAL_BYTES_def)

lemma store_records:
  "slots store_transaction store_root job_slot = Some (store_job ''pending'')"
  "slots store_transaction store_root correlation_slot = Some (store_job ''pending'')"
  using store_reads store_decoded
  by (simp_all add: records_def stored_def record_slot_def job_slot_def correlation_slot_def store_file_def store_identity)

lemma store_typed: "records_typed store_env (slots store_transaction store_root)"
  unfolding records_typed_def
proof (intro allI impI)
  fix c d assume d: "slots store_transaction store_root c = Some d"
  have "c \<in> {job_slot, correlation_slot}"
  proof (rule ccontr)
    assume "c \<notin> {job_slot, correlation_slot}"
    then have "stored store_env store_policy store_root c = None"
      using store_modes by (intro stored_None) (auto simp: store_lookup store_directory_def S_IFREG_def S_IFDIR_def split: if_splits)
    then show False using d by (auto simp: records_def split: if_splits)
  qed
  then show "\<exists>p. path_ok p \<and> path_components p = Inr c \<and> well_typed store_env p d"
    using d store_records store_paths store_well_typed[of "''pending''"] by auto
qed

definition pending_record :: StoredContract where
  "pending_record = \<lparr>stored_document = store_job ''pending'', stored_revision = revision AUTHORIZATION_JOB [92, 10]\<rparr>"

lemma store_job_read: "read_path store_transaction job_path store_root = Inr pending_record"
  using store_reads(1) store_decoded store_well_typed(1)[of "''pending''"] store_bytes(2) store_paths(2,3)
  by (auto simp: read_path_def read_locked_iff pending_record_def)

definition swapped_root :: state_root where
  "swapped_root = publish store_policy store_root job_slot [93, 10]"

lemma store_swap:
  "\<exists>r. compare_and_swap store_transaction job_path (stored_revision pending_record) (store_job ''claimed'') store_root
     = (Inr r, swapped_root)"
proof -
  have "decode_json_object (env_codec store_env) [93, 10] MAX_CANONICAL_BYTES = Inr (store_job ''claimed'')"
    using encoded_decodes(1)[OF store_codec store_encodings(1)] .
  then have "decode_contract store_env [93, 10] (Some AUTHORIZATION_JOB) MAX_CANONICAL_BYTES = Inr (store_job ''claimed'')"
    using store_valid(1)[of "''claimed''"] by (simp add: decode_contract_def thenE_def)
  moreover have "validate_authorization_phase_replacement (store_job ''pending'') (store_job ''claimed'') = Inr ()"
    by (auto simp: validate_authorization_phase_replacement_def pop_def store_job_def sample_contract_def obj_def
        fmlookup_of_list intro!: fmap_ext)
  ultimately have check: "check_replacement store_transaction AUTHORIZATION_JOB_PATH (store_job ''pending'') [93, 10] = Inr ()"
    by (simp add: check_replacement_def thenE_def andE_def)
  have "durable_replace store_policy job_slot [93, 10] store_root = (Inr (), swapped_root)"
    using store_parents(1) store_slots(1) by (simp add: durable_replace_iff swapped_root_def)
  moreover have "\<exists>r. read_path store_transaction job_path swapped_root = Inr r"
    using read_written[OF store_transaction_ok store_paths(1,2), of "store_job ''claimed''" "[93, 10]" store_root]
      store_encodings(1) store_parents(1) by (simp add: swapped_root_def)
  ultimately show ?thesis
    using check store_job_read store_paths store_encodings(1)
    by (auto simp: compare_and_swap_def compare_and_swap_bytes_def replace_record_def exclusive_def thenT_def bindT_def
        liftT_def readT_def check_revision_def pending_record_def allows_replacement_def)
qed

section \<open>The properties at work\<close>


theorem compare_and_swap_no_lost_update_witness:
  "slots store_transaction swapped_root = (slots store_transaction store_root)(job_slot \<mapsto> store_job ''claimed'')"
proof -
  obtain r where "compare_and_swap store_transaction job_path (stored_revision pending_record) (store_job ''claimed'')
      store_root = (Inr r, swapped_root)" using store_swap by blast
  from compare_and_swap_no_lost_update[OF store_transaction_ok store_paths(1,2) store_job_read this]
  show ?thesis by blast
qed

definition claim_job :: repository_operation where
  "claim_job = Compare_And_Swap job_path (stored_revision pending_record) (store_job ''claimed'')"

lemma claim_job_performed: "perform store_transaction claim_job store_root = swapped_root" "operation_ok claim_job"
  using store_swap store_paths(1) by (auto simp: claim_job_def)

definition claim_history :: "(state_transaction \<times> repository_operation) list" where
  "claim_history = [(store_transaction, Measure_Inventory), (store_transaction, claim_job),
     (store_transaction, Select_Batch [JStr sample_identity] 1)]"

lemma claim_history_ok: "history_ok store_transaction claim_history"
  using claim_job_performed(2) by (simp add: history_ok_def claim_history_def shares_repository_def)

theorem repository_refines_store_witness:
  "tree_ok swapped_root \<and>
   (store_step store_env)\<^sup>*\<^sup>* (slots store_transaction store_root) (slots store_transaction swapped_root)"
  using repository_refines_store[OF store_transaction_ok claim_job_performed(2) store_tree]
  by (simp add: claim_job_performed(1))

theorem authorization_evidence_permanent_witness:
  "slots store_transaction (run_history claim_history store_root) correlation_slot = Some (store_job ''pending'')"
  using authorization_evidence_permanent[OF store_transaction_ok claim_history_ok store_tree] store_records(2)
  by (simp add: correlation_slot_def)


theorem repository_records_typed_witness:
  "records_typed store_env (slots store_transaction (run_history claim_history store_root))"
  using repository_records_typed[OF store_transaction_ok claim_history_ok store_tree] store_typed by simp

theorem recovery_rotation_fair_witness:
  "\<exists>batches root'. recovery_rounds store_transaction [JStr sample_identity, JStr sample_tenant] 1 2 store_root
      = (Inr batches, root') \<and> {sample_identity, sample_tenant} \<subseteq> set (concat batches)"
proof -
  have "fmlookup (root_nodes store_root) RECOVERY_CURSOR_COMPONENTS = None"
    by (simp add: store_lookup store_directories_def job_slot_def correlation_slot_def RECOVERY_CURSOR_COMPONENTS_def)
  then have ready: "cursor_ready (tx_policy store_transaction) store_root"
    by (simp add: cursor_ready_def store_parents(4) read_recovery_cursor_def read_regular_def open_regular_def thenE_def)
  have ids: "traverseE validate_uuid7 [JStr sample_identity, JStr sample_tenant] = Inr [sample_identity, sample_tenant]"
    by simp
  show ?thesis
    using recovery_rotation_fair[OF _ _ ready ids, of 1 2] store_policy_ok
    by (simp add: sample_identity_def sample_tenant_def)
qed

end
