(* ===== verification/Commit_Steps.thy ===== *)
theory Commit_Steps
  imports State_Namespace
begin

text \<open>
  What the terminal commits of \<^verbatim>\<open>static_host_agent/create_commit.py\<close> and \<^verbatim>\<open>route_commit.py\<close> have in
  common. Each of the two modules defines these functions for itself, with its own error class and
  wording: here they take a \<open>commit_module\<close>, and the modules instantiate them. The transaction is
  the protocol class of the modules, a record of operations over a state. A failure hook is a
  function that raises or does nothing at each boundary.
\<close>

section \<open>The transaction protocol\<close>

record 's commit_transaction =
  do_read :: "StateRecordPath \<Rightarrow> ('s, StoredContract) tx"
  do_create_immutable :: "StateRecordPath \<Rightarrow> json \<Rightarrow> ('s, StoredContract) tx"
  do_compare_and_swap :: "StateRecordPath \<Rightarrow> StateRevision \<Rightarrow> json \<Rightarrow> ('s, StoredContract) tx"
  do_inspect_audit :: "('s, AuditState) tx"
  do_append_audit :: "json \<Rightarrow> ('s, AuditAppend) tx"
  do_measure_inventory :: "('s, StateInventory) tx"
  do_measure_intent_records :: "('s, IntentRecordInventory) tx"
  do_read_intent :: "json \<Rightarrow> ('s, StateRecordPath \<times> StoredContract) tx"
  do_remove_reconciled_intent :: "StateRecordPath \<Rightarrow> RemovalToken \<Rightarrow> ('s, unit) tx"
  do_allocation_upper_bound :: "int \<Rightarrow> ('s, int) tx"
  do_namespace_allocation_upper_bound :: "int \<Rightarrow> ('s, int) tx"
  do_admit_inventory :: "StateInventoryReservation \<Rightarrow> ('s, StateInventoryProjection) tx"
  do_measure_filesystem_capacity :: "('s, FilesystemCapacity) tx"

text \<open>The error class of a module and its wording.\<close>

record commit_module =
  commit_exn :: "string \<Rightarrow> exn"
  commit_name :: string
  commit_subject :: string

definition commit_error :: "commit_module \<Rightarrow> string \<Rightarrow> 'a py" where
  "commit_error M msg = Inl (commit_exn M msg)"

definition notify :: "('b \<Rightarrow> unit py) \<Rightarrow> 'b \<Rightarrow> ('s, unit) tx" where
  "notify hook boundary = liftT (hook boundary)"

text \<open>\<^verbatim>\<open>a != b != c\<close> is \<^verbatim>\<open>a != b and b != c\<close>.\<close>

fun chained_neqE :: "json py list \<Rightarrow> bool py" where
  "chained_neqE (a # b # vs) = andE (neqE a b) (chained_neqE (b # vs))"
| "chained_neqE vs = Inr True"

section \<open>The job and the intent\<close>

definition SAME_JOB_EXCEPT :: "string list" where
  "SAME_JOB_EXCEPT = [''phase'', ''dispatchAuditBoundary'', ''dispatchArchiveDeploymentIds'',
     ''dispatchArtifactReleaseTreeDigest'', ''dispatchSourceReleaseTreeDigest'', ''dispatchDeploymentIds'',
     ''dispatchTenantIds'', ''dispatchTenantRecordHistories'']"

definition phase_dispatched :: "json \<Rightarrow> bool py" where
  "phase_dispatched job = bindE (getitem job ''phase'') (\<lambda>v. in_strs v [''claimed'', ''completed''])"

definition require_same_job ::
    "commit_module \<Rightarrow> ('s, 'z) commit_transaction_scheme \<Rightarrow> StoredContract \<Rightarrow> ('s, StoredContract) tx" where
  "require_same_job M T expected =
     bindT (liftT (bindE (getitem (stored_document expected) ''jobId'') authorization_job_path)) (\<lambda>p.
     bindT (do_read T p) (\<lambda>current.
     liftT (bindE (anyE
         [Inr (without SAME_JOB_EXCEPT (stored_document expected) \<noteq> without SAME_JOB_EXCEPT (stored_document current)),
          testE Not (phase_dispatched (stored_document current))]) (\<lambda>changed.
       if changed then commit_error M (''authorization job changed before '' @ commit_name M @ '' finalization'')
       else Inr current))))"

record ExactIntent =
  exact_path :: StateRecordPath
  exact_token :: RemovalToken

definition require_exact_intent ::
    "commit_module \<Rightarrow> ('s, 'z) commit_transaction_scheme \<Rightarrow> string \<Rightarrow> json \<Rightarrow> ('s, ExactIntent) tx" where
  "require_exact_intent M T intent_id intent =
     bindT (do_measure_intent_records T) (\<lambda>inventory.
     if map identity_intent_id (intent_records inventory) \<noteq> [intent_id]
     then liftT (commit_error M (commit_name M @ '' finalization requires its sole exact intent''))
     else
     bindT (do_read_intent T (JStr intent_id)) (\<lambda>(p, r).
     bindT (liftT (transaction_intent_path (JStr intent_id))) (\<lambda>expected.
     if p \<noteq> expected \<or> stored_document r \<noteq> intent
     then liftT (commit_error M (commit_name M @ '' intent changed before terminal mutation''))
     else
     liftT (bindE (IntentRemovalToken (stored_revision r) (identity_generation (hd (intent_records inventory)))) (\<lambda>removal.
       Inr \<lparr>exact_path = p, exact_token = removal\<rparr>)))))"

section \<open>The audit entry\<close>

definition audit_needs_append :: "commit_module \<Rightarrow> contract_env \<Rightarrow> AuditState \<Rightarrow> json \<Rightarrow> bool py" where
  "audit_needs_append M env audit d =
     bindE (getitem d ''sequence'') (\<lambda>sequence.
     case sequence of
       JInt n \<Rightarrow>
         bindE (digest_dict (audit_entry_digest env d)) (\<lambda>expected_digest.
         bindE (andE (Inr (audit_entry_count audit = n))
                     (eqE (getitem d ''previousEntryDigest'') (Inr (audit_terminal_digest audit)))) (\<lambda>extends.
         if extends then Inr True
         else if audit_entry_count audit = n + 1 \<and> audit_terminal_digest audit = expected_digest then Inr False
         else commit_error M (commit_name M @ '' audit no longer extends the exact chain'')))
     | _ \<Rightarrow> commit_error M (commit_name M @ '' audit sequence is malformed''))"

definition ensure_audit ::
    "commit_module \<Rightarrow> contract_env \<Rightarrow> ('s, 'z) commit_transaction_scheme \<Rightarrow> json \<Rightarrow> ('s, unit) tx" where
  "ensure_audit M env T d =
     bindT (do_inspect_audit T) (\<lambda>audit.
     bindT (liftT (audit_needs_append M env audit d)) (\<lambda>missing.
     if missing then thenT (do_append_audit T d) (liftT (Inr ())) else liftT (Inr ())))"

section \<open>The result and the completed job\<close>

definition ensure_result ::
    "commit_module \<Rightarrow> ('s, 'z) commit_transaction_scheme \<Rightarrow> StoredContract \<Rightarrow> json \<Rightarrow> bool \<Rightarrow> ('s, unit) tx" where
  "ensure_result M T job result result_missing =
     bindT (liftT (bindE (getitem (stored_document job) ''jobId'') authorization_result_path)) (\<lambda>p.
     if result_missing then thenT (do_create_immutable T p result) (liftT (Inr ()))
     else
     bindT (do_read T p) (\<lambda>current.
     if stored_document current \<noteq> result
     then liftT (Inl (StateConflictError (''existing '' @ commit_name M @ '' result disagrees'')))
     else liftT (Inr ())))"

definition ensure_completed_job :: "('s, 'z) commit_transaction_scheme \<Rightarrow> StoredContract \<Rightarrow> ('s, unit) tx" where
  "ensure_completed_job T job =
     bindT (liftT (getitem (stored_document job) ''phase'')) (\<lambda>phase.
     if phase = JStr ''completed'' then liftT (Inr ())
     else
     bindT (liftT (setitem (stored_document job) ''phase'' (JStr ''completed''))) (\<lambda>completed.
     bindT (liftT (bindE (getitem completed ''jobId'') authorization_job_path)) (\<lambda>p.
     thenT (do_compare_and_swap T p (stored_revision job) completed) (liftT (Inr ())))))"

text \<open>Whether the result is still to be written; one that is there must be the planned one.\<close>

definition result_is_missing ::
    "commit_module \<Rightarrow> ('s, 'z) commit_transaction_scheme \<Rightarrow> StateRecordPath \<Rightarrow> json \<Rightarrow> ('s, bool) tx" where
  "result_is_missing M T p result = (\<lambda>s.
     case do_read T p s of
       (Inl FileNotFoundError, s') \<Rightarrow> (Inr True, s')
     | (Inl e, s') \<Rightarrow> (Inl e, s')
     | (Inr existing, s') \<Rightarrow>
         (if stored_document existing \<noteq> result
          then Inl (StateConflictError (''existing '' @ commit_name M @ '' result disagrees'')) else Inr False, s'))"

text \<open>One of the two states of a tenant, replaced where it is still the source.\<close>

definition replace_state ::
    "('s, 'z) commit_transaction_scheme \<Rightarrow> bool \<Rightarrow> StateRecordPath py \<Rightarrow> StoredContract \<Rightarrow> json \<Rightarrow> ('s, unit) tx" where
  "replace_state T write p current d =
     (if write
      then bindT (liftT p) (\<lambda>path. thenT (do_compare_and_swap T path (stored_revision current) d) (liftT (Inr ())))
      else liftT (Inr ()))"

section \<open>A replay after the intent is gone\<close>

fun any_record_differs :: "('s, 'z) commit_transaction_scheme \<Rightarrow> (StateRecordPath \<times> json) list \<Rightarrow> ('s, bool) tx" where
  "any_record_differs T [] = liftT (Inr False)"
| "any_record_differs T ((p, d) # expected) =
     bindT (do_read T p) (\<lambda>current.
     if stored_document current \<noteq> d then liftT (Inr True) else any_record_differs T expected)"

definition catch_missing :: "exn \<Rightarrow> ('s, 'a) tx \<Rightarrow> ('s, 'a) tx" where
  "catch_missing e m = (\<lambda>s. case m s of (Inl FileNotFoundError, s') \<Rightarrow> (Inl e, s') | outcome \<Rightarrow> outcome)"

text \<open>The desired state, the observed state and the result of a plan, with their paths.\<close>

definition terminal_records :: "json \<Rightarrow> ('p) TransitionPlan_scheme \<Rightarrow> (StateRecordPath \<times> json) list py" where
  "terminal_records job_id plan =
     bindE (tenant_desired_path (JStr (plan_tenant_id plan))) (\<lambda>desired.
     bindE (tenant_observed_path (JStr (plan_tenant_id plan))) (\<lambda>observed.
     bindE (authorization_result_path job_id) (\<lambda>result.
     Inr [(desired, plan_manifest plan), (observed, plan_observed_state plan), (result, plan_result plan)])))"

definition terminal_without_intent ::
    "commit_module \<Rightarrow> contract_env \<Rightarrow> ('s, 'z) commit_transaction_scheme \<Rightarrow> StoredContract
       \<Rightarrow> ('p) TransitionPlan_scheme \<Rightarrow> ('s, json option) tx" where
  "terminal_without_intent M env T job plan =
     bindT (do_measure_intent_records T) (\<lambda>inventory.
     if intent_records inventory \<noteq> [] then liftT (Inr None)
     else
     bindT (liftT (getitem (stored_document job) ''phase'')) (\<lambda>phase.
     if phase \<noteq> JStr ''completed''
     then liftT (commit_error M (''nonterminal '' @ commit_subject M @ '' lost its durable intent''))
     else
     bindT (liftT (bindE (getitem (stored_document job) ''jobId'') (\<lambda>job_id. terminal_records job_id plan))) (\<lambda>expected.
     bindT (catch_missing (commit_exn M (''terminal '' @ commit_name M @ '' state is incomplete''))
              (any_record_differs T expected)) (\<lambda>differs.
     if differs then liftT (commit_error M (''terminal '' @ commit_name M @ '' state disagrees with its plan''))
     else
     bindT (do_inspect_audit T) (\<lambda>audit.
     bindT (liftT (audit_needs_append M env audit (plan_audit_entry plan))) (\<lambda>missing.
     liftT (if missing then commit_error M (''terminal '' @ commit_name M @ '' audit entry is absent'')
            else Inr (Some (plan_result plan)))))))))"

section \<open>Capacity\<close>

definition record_allocation :: "contract_env \<Rightarrow> ('s, 'z) commit_transaction_scheme \<Rightarrow> json \<Rightarrow> ('s, int) tx" where
  "record_allocation env T d =
     bindT (liftT (canonical_bytes env d)) (\<lambda>canonical. do_allocation_upper_bound T (int (length canonical)))"

definition admit_commit_capacity ::
    "('s, 'z) commit_transaction_scheme \<Rightarrow> int \<Rightarrow> nat \<Rightarrow> HostCapacityLimits \<Rightarrow> ('s, unit) tx" where
  "admit_commit_capacity T allocated entries_written limits =
     bindT (do_namespace_allocation_upper_bound T (int entries_written)) (\<lambda>names.
     bindT (liftT (mapE capacity_error (CapacityReservation_post_init
        \<lparr>reserved_bytes = allocated + names, reserved_inodes = int entries_written\<rparr>))) (\<lambda>reservation.
     bindT (do_measure_filesystem_capacity T) (\<lambda>filesystem.
     thenT (liftT (mapE capacity_error
        (admit_release_capacity \<lparr>usage_allocations = []\<rparr> reservation filesystem limits))) (liftT (Inr ())))))"

end
