(* ===== verification/Create_Commit.thy ===== *)
theory Create_Commit
  imports Commit_Steps
begin

text \<open>
  Model of \<^verbatim>\<open>static_host_agent/create_commit.py\<close>: the terminal commitment of one create, which can be
  repeated after a crash at any of its boundaries. \<^verbatim>\<open>_CreateDocuments\<close> has the members of the plan, so
  the frozen documents are the plan itself.
\<close>

datatype CreateCommitBoundary = STATE_SYNC | AUDIT_SYNC | RESULT_SYNC | JOB_SYNC | INTENT_REMOVED

record 's create_transaction = "'s commit_transaction" +
  do_ensure_create_tenant_state :: "json \<Rightarrow> json \<Rightarrow> json \<Rightarrow> ('s, unit) tx"
  do_measure_create_tenant_namespace_growth :: "json \<Rightarrow> ('s, nat) tx"

definition CREATE_TENANT_DIRECTORY_COUNT :: nat where "CREATE_TENANT_DIRECTORY_COUNT = 3"

definition create_module :: commit_module where
  "create_module = \<lparr>commit_exn = CreateCommitError, commit_name = ''create'', commit_subject = ''create''\<rparr>"

section \<open>Validating the documents\<close>

definition create_documents_disagree ::
    "json \<Rightarrow> TransitionPlan \<Rightarrow> json \<Rightarrow> json \<Rightarrow> json \<Rightarrow> json \<Rightarrow> json \<Rightarrow> json \<Rightarrow> json py \<Rightarrow> bool py" where
  "create_documents_disagree job plan request provenance metadata spec recovery desired_digest expected_result_digest =
     (let observed = plan_observed_state plan; intent = plan_intent plan; result = plan_result plan;
          entry = plan_audit_entry plan in
      anyE
       [testE Not (phase_dispatched job),
        neqE (getitem request ''operation'') (lit ''create''),
        neqE (getitem metadata ''slug'') (getitem request ''slug''),
        neqE (Inr spec) (bindE (getitem request ''quotas'') (\<lambda>quotas.
          Inr (obj [(''runtime'', JStr ''static''), (''desiredState'', JStr ''undeployed''), (''quotas'', quotas)]))),
        neqE (getitem observed ''desiredManifestDigest'') (Inr desired_digest),
        neqE (getitem observed ''observedState'') (lit ''undeployed''),
        neqE (getitem observed ''activeDeploymentId'') none_lit,
        neqE (getitem observed ''runtimeGenerationId'') none_lit,
        neqE (getitem intent ''operation'') (lit ''create''),
        neqE (getitem intent ''phase'') (lit ''prepared''),
        neqE (dict_get intent ''sourceManifest'') none_lit,
        neqE (getitem intent ''sourceManifestDigest'') none_lit,
        neqE (getitem intent ''candidateManifestDigest'') (Inr desired_digest),
        neqE (getitem recovery ''sourceObservedState'') none_lit,
        neqE (getitem recovery ''sourceRouteSet'') (lit ''absent''),
        neqE (getitem recovery ''candidateObservedState'') (Inr observed),
        neqE (getitem recovery ''candidateRouteSet'') (lit ''absent''),
        eqE (getitem recovery ''sourceRuntimeGenerationId'') (getitem recovery ''candidateRuntimeGenerationId''),
        neqE (Inr provenance) (bindE (getitem job ''jobId'') (\<lambda>job_id.
          Inr (obj [(''kind'', JStr ''authorization-job''), (''jobId'', job_id)]))),
        neqE (lit (plan_intent_id plan)) (getitem intent ''intentId''),
        chained_neqE [lit (plan_tenant_id plan), getitem metadata ''id'', getitem observed ''tenantId'',
          getitem intent ''tenantId'', getitem result ''tenantId'', getitem entry ''tenantId''],
        chained_neqE [getitem result ''correlationId'', getitem request ''correlationId'',
          getitem intent ''correlationId'', getitem entry ''correlationId''],
        neqE (getitem result ''manifest'') (Inr (plan_manifest plan)),
        neqE (getitem result ''operation'') (lit ''create''),
        neqE (getitem result ''status'') (lit ''succeeded''),
        neqE (getitem entry ''operatorPrincipal'') (getitem job ''operatorPrincipal''),
        neqE (getitem entry ''operation'') (lit ''create''),
        neqE (getitem entry ''resultStatus'') (lit ''succeeded''),
        neqE (getitem entry ''timestamp'') (getitem intent ''createdAt''),
        neqE (getitem entry ''timestamp'') (getitem observed ''reconciledAt''),
        neqE (getitem entry ''resultDigest'') expected_result_digest])"

definition create_freeze_and_validate :: "contract_env \<Rightarrow> StoredContract \<Rightarrow> TransitionPlan \<Rightarrow> TransitionPlan py" where
  "create_freeze_and_validate env job plan =
     thenE (validate_contract env (plan_manifest plan) (Some SITE))
     (thenE (validate_contract env (plan_observed_state plan) (Some TENANT_OBSERVED_STATE))
     (thenE (validate_contract env (plan_intent plan) (Some TRANSACTION_INTENT))
     (thenE (validate_contract env (plan_result plan) (Some OPERATION_RESULT))
     (thenE (validate_contract env (plan_audit_entry plan) (Some AUDIT_ENTRY))
     (let d = stored_document job in
      bindE (getitem d ''request'') (\<lambda>request.
      bindE (getitem (plan_result plan) ''provenance'') (\<lambda>provenance.
      bindE (getitem (plan_manifest plan) ''metadata'') (\<lambda>metadata.
      bindE (getitem (plan_manifest plan) ''spec'') (\<lambda>spec.
      bindE (getitem (plan_intent plan) ''lifecycleRecovery'') (\<lambda>recovery.
      if \<not> list_all is_dict [request, provenance, metadata, spec, recovery]
      then Inl (CreateCommitError ''create terminal binding is malformed'')
      else
      bindE (digest_dict (manifest_digest env (plan_manifest plan))) (\<lambda>desired_digest.
      bindE (create_documents_disagree d plan request provenance metadata spec recovery desired_digest
               (digest_dict (result_digest env (plan_result plan)))) (\<lambda>disagree.
      if disagree then Inl (CreateCommitError ''create terminal documents disagree'') else Inr plan))))))))))))"

definition validate_create_transition :: "contract_env \<Rightarrow> StoredContract \<Rightarrow> TransitionPlan \<Rightarrow> unit py" where
  "validate_create_transition env job plan = thenE (create_freeze_and_validate env job plan) (Inr ())"

section \<open>Admission\<close>

text \<open>Which records are still to be written.\<close>

fun missing_records :: "('s, 'z) commit_transaction_scheme \<Rightarrow> (StateRecordPath \<times> json) list
    \<Rightarrow> ('s, (StateRecordPath \<times> json) list) tx" where
  "missing_records T [] = liftT (Inr [])"
| "missing_records T ((p, d) # expected) = (\<lambda>s.
     case do_read T p s of
       (Inl FileNotFoundError, s') \<Rightarrow> bindT (missing_records T expected) (\<lambda>missing. liftT (Inr ((p, d) # missing))) s'
     | (Inl e, s') \<Rightarrow> (Inl e, s')
     | (Inr current, s') \<Rightarrow>
         if stored_document current \<noteq> d then (Inl (StateConflictError ''existing create terminal state disagrees''), s')
         else missing_records T expected s')"

text \<open>The allocations of the missing records, by their paths.\<close>

definition missing_allocations ::
    "contract_env \<Rightarrow> ('s, 'z) commit_transaction_scheme \<Rightarrow> (StateRecordPath \<times> json) list
       \<Rightarrow> ('s, (StateRecordPath \<times> int) list) tx" where
  "missing_allocations env T missing =
     foldT (\<lambda>found (p, d). bindT (record_allocation env T d) (\<lambda>allocation. liftT (Inr (found @ [(p, allocation)])))) [] missing"

text \<open>The inventory and the capacity that the missing state needs; whether the result is missing.\<close>

definition create_admit_growth ::
    "contract_env \<Rightarrow> 's create_transaction \<Rightarrow> json \<Rightarrow> TransitionPlan \<Rightarrow> HostCapacityLimits
       \<Rightarrow> (StateRecordPath \<times> json) list \<Rightarrow> StateRecordPath \<Rightarrow> ('s, bool) tx" where
  "create_admit_growth env T job plan limits missing result_path =
     (let result_missing = list_ex (\<lambda>(p, _). p = result_path) missing in
     bindT (do_inspect_audit T) (\<lambda>audit.
     bindT (liftT (audit_needs_append create_module env audit (plan_audit_entry plan))) (\<lambda>audit_missing.
     bindT (liftT (eqE (getitem job ''phase'') (lit ''claimed''))) (\<lambda>job_transition.
     bindT (do_measure_inventory T) (\<lambda>inventory.
     let tenant_missing = plan_tenant_id plan \<notin> set (tenant_ids inventory) in
     bindT (do_measure_create_tenant_namespace_growth T (JStr (plan_tenant_id plan))) (\<lambda>directory_inodes.
     if tenant_missing \<noteq> (directory_inodes = CREATE_TENANT_DIRECTORY_COUNT)
     then liftT (Inl (CreateCommitError ''create tenant inventory and namespace shape disagree''))
     else
     bindT (missing_allocations env T missing) (\<lambda>allocations.
     bindT (if audit_missing then do_allocation_upper_bound T (maximum_segment_bytes DEFAULT_AUDIT_LIMITS)
            else liftT (Inr 0)) (\<lambda>audit_allocation.
     bindT (if job_transition
            then bindT (liftT (setitem job ''phase'' (JStr ''completed''))) (record_allocation env T)
            else liftT (Inr 0)) (\<lambda>job_allocation.
     let entries_written = length missing + directory_inodes + of_bool audit_missing + of_bool job_transition in
     if entries_written = 0 then liftT (Inr result_missing)
     else
     thenT (bindT (liftT (StateInventoryReservation_post_init
              \<lparr>reserved_tenants = of_bool tenant_missing, reserved_authorization_records = of_bool result_missing,
               reserved_authorization_bytes = (case map_of allocations result_path of None \<Rightarrow> 0 | Some n \<Rightarrow> n)\<rparr>))
            (do_admit_inventory T))
     (thenT (admit_commit_capacity T (sum_list (map snd allocations) + audit_allocation + job_allocation) entries_written limits)
     (liftT (Inr result_missing))))))))))))"

definition create_admit_missing_state ::
    "contract_env \<Rightarrow> 's create_transaction \<Rightarrow> StoredContract \<Rightarrow> TransitionPlan \<Rightarrow> HostCapacityLimits \<Rightarrow> ('s, bool) tx" where
  "create_admit_missing_state env T job plan limits =
     bindT (liftT (bindE (getitem (plan_result plan) ''provenance'') (\<lambda>provenance.
       bindE (getitem provenance ''jobId'') (\<lambda>job_id. terminal_records job_id plan)))) (\<lambda>records.
     bindT (missing_records T records) (\<lambda>missing.
     create_admit_growth env T (stored_document job) plan limits missing (fst (last records))))"

definition admit_create_transition ::
    "contract_env \<Rightarrow> 's create_transaction \<Rightarrow> StoredContract \<Rightarrow> TransitionPlan \<Rightarrow> HostCapacityLimits \<Rightarrow> ('s, unit) tx" where
  "admit_create_transition env T job plan limits =
     bindT (liftT (create_freeze_and_validate env job plan)) (\<lambda>documents.
     bindT (require_same_job create_module T job) (\<lambda>current_job.
     thenT (require_exact_intent create_module T (plan_intent_id documents) (plan_intent documents))
     (thenT (create_admit_missing_state env T current_job documents limits) (liftT (Inr ())))))"

section \<open>Finalization\<close>

record CommitOutcome =
  outcome_result :: json
  outcome_created :: bool

text \<open>From the exact intent to its removal.\<close>

definition create_publish ::
    "contract_env \<Rightarrow> 's create_transaction \<Rightarrow> StoredContract \<Rightarrow> TransitionPlan \<Rightarrow> HostCapacityLimits
       \<Rightarrow> (CreateCommitBoundary \<Rightarrow> unit py) \<Rightarrow> ('s, CommitOutcome) tx" where
  "create_publish env T current_job documents limits hook =
     bindT (require_exact_intent create_module T (plan_intent_id documents) (plan_intent documents)) (\<lambda>intent_removal.
     bindT (create_admit_missing_state env T current_job documents limits) (\<lambda>result_missing.
     thenT (do_ensure_create_tenant_state T (JStr (plan_tenant_id documents)) (plan_manifest documents)
              (plan_observed_state documents))
     (thenT (notify hook STATE_SYNC)
     (thenT (ensure_audit create_module env T (plan_audit_entry documents))
     (thenT (notify hook AUDIT_SYNC)
     (thenT (ensure_result create_module T current_job (plan_result documents) result_missing)
     (thenT (notify hook RESULT_SYNC)
     (thenT (ensure_completed_job T current_job)
     (thenT (notify hook JOB_SYNC)
     (thenT (do_remove_reconciled_intent T (exact_path intent_removal) (exact_token intent_removal))
     (thenT (notify hook INTENT_REMOVED)
     (liftT (Inr \<lparr>outcome_result = plan_result documents, outcome_created = result_missing\<rparr>)))))))))))))"

definition finalize_create_transition_outcome ::
    "contract_env \<Rightarrow> 's create_transaction \<Rightarrow> StoredContract \<Rightarrow> TransitionPlan \<Rightarrow> HostCapacityLimits
       \<Rightarrow> (CreateCommitBoundary \<Rightarrow> unit py) \<Rightarrow> ('s, CommitOutcome) tx" where
  "finalize_create_transition_outcome env T job plan limits hook =
     bindT (liftT (create_freeze_and_validate env job plan)) (\<lambda>documents.
     bindT (require_same_job create_module T job) (\<lambda>current_job.
     bindT (terminal_without_intent create_module env T current_job documents) (\<lambda>terminal.
     case terminal of
       Some result \<Rightarrow> liftT (Inr \<lparr>outcome_result = result, outcome_created = False\<rparr>)
     | None \<Rightarrow> create_publish env T current_job documents limits hook)))"

definition finalize_create_transition ::
    "contract_env \<Rightarrow> 's create_transaction \<Rightarrow> StoredContract \<Rightarrow> TransitionPlan \<Rightarrow> HostCapacityLimits
       \<Rightarrow> (CreateCommitBoundary \<Rightarrow> unit py) \<Rightarrow> ('s, json) tx" where
  "finalize_create_transition env T job plan limits hook =
     bindT (finalize_create_transition_outcome env T job plan limits hook) (\<lambda>outcome. liftT (Inr (outcome_result outcome)))"

end
