(* ===== verification/Commit_Laws.thy ===== *)
theory Commit_Laws
  imports Repository_Properties Create_Commit
begin

text \<open>
  The promises of the transaction a commit runs in, as an interface on the records and the audit log
  that a state holds, and what the steps of a commit do to them, proved from these promises alone.
\<close>

lemma dict_get_getitem: "dict_get d k = Inr v \<Longrightarrow> v \<noteq> JNull \<Longrightarrow> getitem d k = Inr v"
  by (cases d) (auto split: option.splits)

section \<open>Outcomes\<close>

text \<open>What holds after a computation, by whether it returned or raised.\<close>

definition outcome :: "('s, 'a) tx \<Rightarrow> ('a \<Rightarrow> 's \<Rightarrow> bool) \<Rightarrow> (exn \<Rightarrow> 's \<Rightarrow> bool) \<Rightarrow> 's \<Rightarrow> bool" where
  "outcome m Q E s = (case m s of (Inl e, t) \<Rightarrow> E e t | (Inr x, t) \<Rightarrow> Q x t)"

lemma outcome_bind:
  "outcome m Q' E s \<Longrightarrow> (\<And>x t. Q' x t \<Longrightarrow> outcome (f x) Q E t) \<Longrightarrow> outcome (bindT m f) Q E s"
  unfolding outcome_def bindT_def by (cases "m s"; cases "fst (m s)") auto

lemma bind_lift [simp]: "bindT (liftT (Inr x)) f = f x" "bindT (liftT (Inl e)) f = liftT (Inl e)"
  by (simp_all add: bindT_def liftT_def fun_eq_iff)

lemma bind_nested: "bindT (bindT m f) g = bindT m (\<lambda>x. bindT (f x) g)"
  by (simp add: bindT_def fun_eq_iff split: prod.splits sum.splits)

lemma outcome_then: "outcome m Q' E s \<Longrightarrow> (\<And>x t. Q' x t \<Longrightarrow> outcome n Q E t) \<Longrightarrow> outcome (thenT m n) Q E s"
  unfolding thenT_def by (rule outcome_bind)

lemma outcome_lift: "(\<And>x. m = Inr x \<Longrightarrow> Q x s) \<Longrightarrow> (\<And>e. m = Inl e \<Longrightarrow> E e s) \<Longrightarrow> outcome (liftT m) Q E s"
  by (simp add: outcome_def liftT_def split: sum.splits)

lemma outcome_bind_lift:
  "(\<And>x. m = Inr x \<Longrightarrow> outcome (f x) Q E s) \<Longrightarrow> (\<And>e. m = Inl e \<Longrightarrow> E e s) \<Longrightarrow> outcome (bindT (liftT m) f) Q E s"
  by (simp add: outcome_def bindT_def liftT_def split: sum.splits)

lemma outcome_conseq:
  "outcome m Q' E' s \<Longrightarrow> (\<And>x t. Q' x t \<Longrightarrow> Q x t) \<Longrightarrow> (\<And>e t. E' e t \<Longrightarrow> E e t) \<Longrightarrow> outcome m Q E s"
  by (auto simp: outcome_def split: prod.splits sum.splits)

lemma outcome_if:
  "(b \<Longrightarrow> outcome m Q E s) \<Longrightarrow> (\<not> b \<Longrightarrow> outcome n Q E s) \<Longrightarrow> outcome (if b then m else n) Q E s"
  by simp

lemma outcome_conj:
  "outcome m Q E s \<Longrightarrow> outcome m Q' E' s \<Longrightarrow> outcome m (\<lambda>x t. Q x t \<and> Q' x t) (\<lambda>e t. E e t \<and> E' e t) s"
  by (auto simp: outcome_def split: prod.splits sum.splits)

lemma outcome_exact: "outcome m (\<lambda>x t. m s = (Inr x, t)) (\<lambda>e t. m s = (Inl e, t)) s"
  by (simp add: outcome_def split: prod.splits sum.splits)

lemma outcome_catch:
  "outcome m Q (\<lambda>_. F) s \<Longrightarrow> outcome (catch_missing e m) Q (\<lambda>_. F) s"
  by (auto simp: outcome_def catch_missing_def split: prod.splits sum.splits exn.splits)

section \<open>The stages of a commit\<close>

text \<open>The records a commit is about: those of the tenant and the job of a plan, and the intent.\<close>

definition desired_slot :: "'p TransitionPlan_scheme \<Rightarrow> string list" where
  "desired_slot plan = [''tenants'', plan_tenant_id plan, ''desired.json'']"
definition observed_slot :: "'p TransitionPlan_scheme \<Rightarrow> string list" where
  "observed_slot plan = [''tenants'', plan_tenant_id plan, ''observed.json'']"
definition intent_slot :: "'p TransitionPlan_scheme \<Rightarrow> string list" where
  "intent_slot plan = [''intents'', plan_intent_id plan @ ''.json'']"

definition job_identity :: "json \<Rightarrow> string" where
  "job_identity job = (case getitem job ''jobId'' of Inr (JStr i) \<Rightarrow> i | _ \<Rightarrow> [])"
definition result_slot :: "json \<Rightarrow> string list" where
  "result_slot job = [''authorization'', ''results'', job_identity job @ ''.json'']"
definition commit_job_slot :: "json \<Rightarrow> string list" where
  "commit_job_slot job = [''authorization'', ''jobs'', job_identity job @ ''.json'']"

lemmas commit_slots = desired_slot_def observed_slot_def intent_slot_def result_slot_def commit_job_slot_def

fun completed_job :: "json \<Rightarrow> json" where
  "completed_job (JObj m) = JObj (fmupd ''phase'' (JStr ''completed'') m)"
| "completed_job d = d"

lemma completed_job_set: "setitem d ''phase'' (JStr ''completed'') = Inr d' \<Longrightarrow> d' = completed_job d"
  by (cases d) auto

lemma completed_job_done: "getitem d ''phase'' = lit ''completed'' \<Longrightarrow> completed_job d = d"
  by (cases d) (auto intro!: fmap_ext split: option.splits)

lemma completed_job_twice [simp]: "completed_job (completed_job d) = completed_job d"
  by (cases d) (auto intro!: fmap_ext)

text \<open>
  The records after the first stages of a commit: the desired state, the observed state and the
  result are published, the job is completed, the intent is removed.
\<close>

definition at_stage :: "nat \<Rightarrow> nat \<Rightarrow> string list \<Rightarrow> json option \<Rightarrow> record_store \<Rightarrow> record_store" where
  "at_stage n k c v D = (if n \<le> k then D(c := v) else D)"

definition commit_stage :: "'p TransitionPlan_scheme \<Rightarrow> json \<Rightarrow> nat \<Rightarrow> record_store \<Rightarrow> record_store" where
  "commit_stage plan job k D =
     at_stage 5 k (intent_slot plan) None
     (at_stage 4 k (commit_job_slot job) (map_option completed_job (D (commit_job_slot job)))
     (at_stage 3 k (result_slot job) (Some (plan_result plan))
     (at_stage 2 k (observed_slot plan) (Some (plan_observed_state plan))
     (at_stage 1 k (desired_slot plan) (Some (plan_manifest plan)) D))))"

lemma commit_slots_apart [simp]:
  "intent_slot plan \<noteq> commit_job_slot job" "intent_slot plan \<noteq> result_slot job" "intent_slot plan \<noteq> observed_slot plan" "intent_slot plan \<noteq> desired_slot plan"
  "commit_job_slot job \<noteq> intent_slot plan" "commit_job_slot job \<noteq> result_slot job" "commit_job_slot job \<noteq> observed_slot plan" "commit_job_slot job \<noteq> desired_slot plan"
  "result_slot job \<noteq> intent_slot plan" "result_slot job \<noteq> commit_job_slot job" "result_slot job \<noteq> observed_slot plan" "result_slot job \<noteq> desired_slot plan"
  "observed_slot plan \<noteq> intent_slot plan" "observed_slot plan \<noteq> commit_job_slot job" "observed_slot plan \<noteq> result_slot job" "observed_slot plan \<noteq> desired_slot plan"
  "desired_slot plan \<noteq> intent_slot plan" "desired_slot plan \<noteq> commit_job_slot job" "desired_slot plan \<noteq> result_slot job" "desired_slot plan \<noteq> observed_slot plan"
  by (simp_all add: commit_slots)

lemma commit_stage_apply:
  "commit_stage plan job k D x =
     (if 5 \<le> k \<and> x = intent_slot plan then None
      else if 4 \<le> k \<and> x = commit_job_slot job then map_option completed_job (D x)
      else if 3 \<le> k \<and> x = result_slot job then Some (plan_result plan)
      else if 2 \<le> k \<and> x = observed_slot plan then Some (plan_observed_state plan)
      else if 1 \<le> k \<and> x = desired_slot plan then Some (plan_manifest plan)
      else D x)"
  by (simp add: commit_stage_def at_stage_def)

lemma commit_stage_compose:
  "commit_stage plan job k (commit_stage plan job j D) = commit_stage plan job (max j k) D"
proof
  fix x
  consider "x = intent_slot plan" | "x = commit_job_slot job" | "x = result_slot job" | "x = observed_slot plan"
    | "x = desired_slot plan" | "x \<notin> set [intent_slot plan, commit_job_slot job, result_slot job, observed_slot plan, desired_slot plan]"
    by auto
  then show "commit_stage plan job k (commit_stage plan job j D) x = commit_stage plan job (max j k) D x"
    by cases (simp_all add: commit_stage_apply[where k = k] commit_stage_apply[where k = j] commit_stage_apply[where k = "max j k"]
        le_max_iff_disj option.map_comp o_def)
qed

lemma commit_stage_0 [simp]: "commit_stage plan job 0 D = D"
  by (simp add: commit_stage_def at_stage_def)

lemma commit_stage_steps:
  "commit_stage plan job (Suc 0) D = D(desired_slot plan := Some (plan_manifest plan))"
  "commit_stage plan job 2 D = (commit_stage plan job (Suc 0) D)(observed_slot plan := Some (plan_observed_state plan))"
  "commit_stage plan job 3 D = (commit_stage plan job 2 D)(result_slot job := Some (plan_result plan))"
  "commit_stage plan job 4 D = (commit_stage plan job 3 D)(commit_job_slot job := map_option completed_job (D (commit_job_slot job)))"
  "commit_stage plan job 5 D = (commit_stage plan job 4 D)(intent_slot plan := None)"
  by (simp_all add: commit_stage_def at_stage_def)

text \<open>A stage is reached by nothing where the records are there already.\<close>

lemma commit_stage_present:
  "D (desired_slot plan) = Some (plan_manifest plan) \<Longrightarrow> commit_stage plan job (Suc 0) D = D"
  "D (observed_slot plan) = Some (plan_observed_state plan) \<Longrightarrow> commit_stage plan job 2 D = commit_stage plan job (Suc 0) D"
  "D (result_slot job) = Some (plan_result plan) \<Longrightarrow> commit_stage plan job 3 D = commit_stage plan job 2 D"
  "D (commit_job_slot job) = Some d \<Longrightarrow> getitem d ''phase'' = lit ''completed'' \<Longrightarrow>
     commit_stage plan job 4 D = commit_stage plan job 3 D"
  "D (intent_slot plan) = None \<Longrightarrow> commit_stage plan job 5 D = commit_stage plan job 4 D"
  by (auto simp: commit_stage_def at_stage_def fun_eq_iff commit_slots completed_job_done)

text \<open>The log ends with an entry.\<close>

definition recorded :: "contract_env \<Rightarrow> json \<Rightarrow> AuditState py \<Rightarrow> bool" where
  "recorded env d L \<longleftrightarrow>
     (\<exists>a. L = Inr a \<and> digest_dict (audit_entry_digest env d) = Inr (audit_terminal_digest a))"

text \<open>What a commit leaves where it raises: a stage, and no result before the entry is in the log.\<close>

definition commit_interrupted ::
    "contract_env \<Rightarrow> 'p TransitionPlan_scheme \<Rightarrow> json \<Rightarrow> record_store \<Rightarrow> record_store \<Rightarrow> AuditState py \<Rightarrow> bool" where
  "commit_interrupted env plan job D D' L \<longleftrightarrow>
     (\<exists>k \<le> 5. D' = commit_stage plan job k D \<and> (k \<le> 2 \<or> recorded env (plan_audit_entry plan) L))"

lemma commit_interruptedI:
  "D' = D \<Longrightarrow> commit_interrupted env plan job D D' L"
  "D' = commit_stage plan job (Suc 0) D \<Longrightarrow> commit_interrupted env plan job D D' L"
  "D' = commit_stage plan job 2 D \<Longrightarrow> commit_interrupted env plan job D D' L"
  "D' = commit_stage plan job 3 D \<Longrightarrow> recorded env (plan_audit_entry plan) L \<Longrightarrow> commit_interrupted env plan job D D' L"
  "D' = commit_stage plan job 4 D \<Longrightarrow> recorded env (plan_audit_entry plan) L \<Longrightarrow> commit_interrupted env plan job D D' L"
  "D' = commit_stage plan job 5 D \<Longrightarrow> recorded env (plan_audit_entry plan) L \<Longrightarrow> commit_interrupted env plan job D D' L"
  unfolding commit_interrupted_def
  by (rule exI[of _ 0] exI[of _ "Suc 0"] exI[of _ 2] exI[of _ 3] exI[of _ 4] exI[of _ 5]; simp)+

lemma commit_paths:
  "tenant_desired_path (JStr (plan_tenant_id plan)) = Inr p \<Longrightarrow> path_components p = Inr (desired_slot plan)"
  "tenant_observed_path (JStr (plan_tenant_id plan)) = Inr p \<Longrightarrow> path_components p = Inr (observed_slot plan)"
  "transaction_intent_path (JStr (plan_intent_id plan)) = Inr p \<Longrightarrow> path_components p = Inr (intent_slot plan)"
  "getitem job ''jobId'' = Inr v \<Longrightarrow> authorization_result_path v = Inr p \<Longrightarrow> path_components p = Inr (result_slot job)"
  "getitem job ''jobId'' = Inr v \<Longrightarrow> authorization_job_path v = Inr p \<Longrightarrow> path_components p = Inr (commit_job_slot job)"
  by (auto simp: path_constructor_defs path_components_def global_components_def tenant_components_def require_record_id_def
      bindE_Inr_iff uuid7_iff commit_slots job_identity_def)

lemma getitem_without: "k \<notin> set ks \<Longrightarrow> getitem (without ks d) k = getitem d k"
  by (cases d) auto

lemma same_job_identity:
  assumes "without SAME_JOB_EXCEPT d = without SAME_JOB_EXCEPT d'"
  shows "job_identity d = job_identity d'"
proof -
  have "getitem d ''jobId'' = getitem d' ''jobId''"
    using getitem_without[of "''jobId''" SAME_JOB_EXCEPT] assms by (simp add: SAME_JOB_EXCEPT_def) metis
  then show ?thesis by (simp add: job_identity_def)
qed

lemma same_slots:
  "job_identity d = job_identity d' \<Longrightarrow> result_slot d = result_slot d' \<and> commit_job_slot d = commit_job_slot d'"
  by (simp add: commit_slots)

lemma audit_present:
  assumes "audit_needs_append M env a d = Inr False"
  shows "recorded env d (Inr a)"
proof -
  obtain v where v: "getitem d ''sequence'' = Inr v" using assms by (auto simp: audit_needs_append_def bindE_Inr_iff)
  then show ?thesis using assms
    by (cases v) (auto simp: audit_needs_append_def recorded_def bindE_Inr_iff commit_error_def split: if_split_asm)
qed

section \<open>The interface\<close>

lemma if_leaves: "(b \<Longrightarrow> leaves R m) \<Longrightarrow> (\<not> b \<Longrightarrow> leaves R n) \<Longrightarrow> leaves R (if b then m else n)"
  by simp

text \<open>The paths of the records a commit leaves behind.\<close>

definition lasting :: "StateRecordPath \<Rightarrow> bool" where
  "lasting p \<longleftrightarrow> path_ok p \<and> \<not> is_intent (path_name p)"

lemma lasting_paths:
  "tenant_desired_path v = Inr p \<Longrightarrow> lasting p" "tenant_observed_path v = Inr p \<Longrightarrow> lasting p"
  "authorization_job_path v = Inr p \<Longrightarrow> lasting p" "authorization_result_path v = Inr p \<Longrightarrow> lasting p"
  using constructed_path_ok constructed_path_name by (auto simp: lasting_def is_intent_def)

text \<open>Two states with the same records and the same log.\<close>

definition same_view :: "('s \<Rightarrow> record_store) \<Rightarrow> ('s \<Rightarrow> AuditState py) \<Rightarrow> ('s \<Rightarrow> bool) \<Rightarrow> 's \<Rightarrow> 's \<Rightarrow> bool" where
  "same_view docs log sound s t \<longleftrightarrow> (sound s \<longrightarrow> sound t \<and> docs t = docs s \<and> log t = log s)"

lemma same_view_order: "reflp (same_view docs log sound)" "transp (same_view docs log sound)"
  by (auto simp: same_view_def intro!: reflpI transpI)

lemmas same_view_intros = leaves_lift[OF same_view_order(1)] leaves_read[OF same_view_order(1)]
  leaves_bind[OF same_view_order(2)] leaves_then[OF same_view_order(2)] leaves_fold[OF same_view_order]

text \<open>A computation that sets one record, or raises with or without having set it.\<close>

definition sets_record ::
    "('s \<Rightarrow> record_store) \<Rightarrow> ('s \<Rightarrow> AuditState py) \<Rightarrow> ('s \<Rightarrow> bool) \<Rightarrow> string list \<Rightarrow> json option \<Rightarrow> ('s, 'a) tx \<Rightarrow> 's \<Rightarrow> bool" where
  "sets_record docs log sound c v m s \<longleftrightarrow>
     outcome m (\<lambda>_ t. sound t \<and> log t = log s \<and> docs t = (docs s)(c := v))
       (\<lambda>_ t. sound t \<and> log t = log s \<and> (docs t = docs s \<or> docs t = (docs s)(c := v))) s"

locale commit_store =
  fixes env :: contract_env
    and T :: "('s, 'z) commit_transaction_scheme"
    and docs :: "'s \<Rightarrow> record_store" and log :: "'s \<Rightarrow> AuditState py" and sound :: "'s \<Rightarrow> bool"
  assumes observe:
      "leaves (same_view docs log sound) (do_read T p)"
      "leaves (same_view docs log sound) (do_inspect_audit T)"
      "leaves (same_view docs log sound) (do_measure_inventory T)"
      "leaves (same_view docs log sound) (do_measure_intent_records T)"
      "leaves (same_view docs log sound) (do_read_intent T i)"
      "leaves (same_view docs log sound) (do_allocation_upper_bound T n)"
      "leaves (same_view docs log sound) (do_namespace_allocation_upper_bound T n)"
      "leaves (same_view docs log sound) (do_admit_inventory T reservation)"
      "leaves (same_view docs log sound) (do_measure_filesystem_capacity T)"
    and read_finds: "sound s \<Longrightarrow> lasting p \<Longrightarrow> path_components p = Inr c \<Longrightarrow>
      outcome (do_read T p) (\<lambda>r t. docs s c = Some (stored_document r)) (\<lambda>e t. e = FileNotFoundError \<longrightarrow> docs s c = None) s"
    and inspect_reads: "sound s \<Longrightarrow> outcome (do_inspect_audit T) (\<lambda>a t. log s = Inr a) (\<lambda>e t. True) s"
    and no_intents: "sound s \<Longrightarrow>
      outcome (do_measure_intent_records T)
        (\<lambda>inventory t. intent_records inventory = [] \<longrightarrow> docs s [''intents'', x @ ''.json''] = None) (\<lambda>e t. True) s"
    and creates: "sound s \<Longrightarrow> path_ok p \<Longrightarrow> path_components p = Inr c \<Longrightarrow>
      sets_record docs log sound c (Some d) (do_create_immutable T p d) s"
    and swaps: "sound s \<Longrightarrow> path_ok p \<Longrightarrow> path_components p = Inr c \<Longrightarrow>
      sets_record docs log sound c (Some d) (do_compare_and_swap T p r d) s"
    and removes: "sound s \<Longrightarrow> path_ok p \<Longrightarrow> path_components p = Inr c \<Longrightarrow>
      sets_record docs log sound c None (do_remove_reconciled_intent T p removal) s"
    and appends: "sound s \<Longrightarrow>
      outcome (do_append_audit T d)
        (\<lambda>r t. sound t \<and> docs t = docs s \<and> log t = Inr (appended_state r) \<and>
           digest_dict (audit_entry_digest env d) = Inr (audit_terminal_digest (appended_state r)))
        (\<lambda>e t. sound t \<and> docs t = docs s) s"
begin

lemma observing:
  assumes "leaves (same_view docs log sound) m" "sound s"
  shows "outcome m (\<lambda>x t. sound t \<and> docs t = docs s \<and> log t = log s) (\<lambda>e t. sound t \<and> docs t = docs s \<and> log t = log s) s"
proof -
  have "same_view docs log sound s (snd (m s))" using assms(1) by (simp add: leaves_def)
  then show ?thesis using assms(2) by (auto simp: outcome_def same_view_def split: prod.splits sum.splits)
qed

lemma observing_bind:
  assumes "leaves (same_view docs log sound) m" "sound s"
    and "\<And>x t. sound t \<Longrightarrow> docs t = docs s \<Longrightarrow> log t = log s \<Longrightarrow> outcome (f x) Q E t"
    and "\<And>e t. sound t \<Longrightarrow> docs t = docs s \<Longrightarrow> log t = log s \<Longrightarrow> E e t"
  shows "outcome (bindT m f) Q E s"
  by (rule outcome_bind[OF outcome_conseq[OF observing[OF assms(1,2)]]]) (use assms(3,4) in auto)

lemma observing_with:
  assumes "leaves (same_view docs log sound) m" "sound s" "outcome m K (\<lambda>_ _. True) s"
    and "\<And>x t. sound t \<Longrightarrow> docs t = docs s \<Longrightarrow> log t = log s \<Longrightarrow> K x t \<Longrightarrow> outcome (f x) Q E t"
    and "\<And>e t. sound t \<Longrightarrow> docs t = docs s \<Longrightarrow> log t = log s \<Longrightarrow> E e t"
  shows "outcome (bindT m f) Q E s"
  by (rule outcome_bind[OF outcome_conseq[OF outcome_conj[OF observing[OF assms(1,2)] assms(3)]]]) (use assms(4,5) in auto)

lemma observe_capacity:
  "leaves (same_view docs log sound) (record_allocation env T d)"
  "leaves (same_view docs log sound) (admit_commit_capacity T n k limits)"
  unfolding record_allocation_def admit_commit_capacity_def by (intro same_view_intros observe)+

text \<open>The steps that only look.\<close>

lemma require_same_job_finds:
  assumes "sound s"
  shows "outcome (require_same_job M T job)
    (\<lambda>current t. sound t \<and> docs t = docs s \<and> log t = log s \<and>
       docs s (commit_job_slot (stored_document job)) = Some (stored_document current) \<and>
       job_identity (stored_document current) = job_identity (stored_document job))
    (\<lambda>e t. sound t \<and> docs t = docs s \<and> log t = log s) s"
  unfolding require_same_job_def
proof (rule outcome_bind_lift)
  fix p assume "bindE (getitem (stored_document job) ''jobId'') authorization_job_path = Inr p"
  then obtain v where v: "getitem (stored_document job) ''jobId'' = Inr v" "authorization_job_path v = Inr p"
    by (auto simp: bindE_Inr_iff)
  show "outcome (bindT (do_read T p) (\<lambda>current. liftT (bindE (anyE
         [Inr (without SAME_JOB_EXCEPT (stored_document job) \<noteq> without SAME_JOB_EXCEPT (stored_document current)),
          testE Not (phase_dispatched (stored_document current))]) (\<lambda>changed.
       if changed then commit_error M (''authorization job changed before '' @ commit_name M @ '' finalization'')
       else Inr current))))
    (\<lambda>current t. sound t \<and> docs t = docs s \<and> log t = log s \<and>
       docs s (commit_job_slot (stored_document job)) = Some (stored_document current) \<and>
       job_identity (stored_document current) = job_identity (stored_document job))
    (\<lambda>e t. sound t \<and> docs t = docs s \<and> log t = log s) s"
    by (rule outcome_bind[OF outcome_conseq[OF outcome_conj[OF observing[OF observe(1) assms]
            read_finds[OF assms lasting_paths(3)[OF v(2)] commit_paths(5)[OF v]]]]], assumption, blast)
      (auto intro!: outcome_lift same_job_identity[symmetric] simp: bindE_Inr_iff commit_error_def check_simps split: if_splits)
qed (use assms in simp)

lemma require_exact_intent_finds:
  assumes "sound s"
  shows "outcome (require_exact_intent M T i d)
    (\<lambda>x t. sound t \<and> docs t = docs s \<and> log t = log s \<and> transaction_intent_path (JStr i) = Inr (exact_path x))
    (\<lambda>e t. sound t \<and> docs t = docs s \<and> log t = log s) s"
  unfolding require_exact_intent_def commit_error_def
  by (intro observing_bind[OF observe(4) assms] outcome_if outcome_lift observing_bind[OF observe(5)])
    (auto intro!: outcome_bind_lift outcome_if outcome_lift simp: bindE_Inr_iff split: prod.splits)

lemma records_present:
  assumes "sound s" "\<And>p d. (p, d) \<in> set expected \<Longrightarrow> lasting p"
  shows "outcome (any_record_differs T expected)
    (\<lambda>differs t. sound t \<and> docs t = docs s \<and> log t = log s \<and>
       (\<not> differs \<longrightarrow> (\<forall>(p, d) \<in> set expected. \<forall>c. path_components p = Inr c \<longrightarrow> docs s c = Some d)))
    (\<lambda>e t. sound t \<and> docs t = docs s \<and> log t = log s) s"
  using assms
proof (induction expected arbitrary: s)
  case Nil
  then show ?case by (simp add: outcome_def liftT_def)
next
  case (Cons x expected)
  obtain p d where x: "x = (p, d)" by fastforce
  obtain c where c: "path_components p = Inr c" using path_components_slot[of p] Cons.prems(2)[of p d] x by (auto simp: lasting_def)
  have ok: "lasting p" using Cons.prems(2)[of p d] x by simp
  show ?case
    unfolding x any_record_differs.simps
  proof (rule outcome_bind[OF outcome_conseq[OF outcome_conj[OF observing[OF observe(1) Cons.prems(1)]
        read_finds[OF Cons.prems(1) ok c]]]], assumption, blast)
    fix r t
    assume r: "(sound t \<and> docs t = docs s \<and> log t = log s) \<and> docs s c = Some (stored_document r)"
    then have "outcome (any_record_differs T expected)
      (\<lambda>differs u. sound u \<and> docs u = docs t \<and> log u = log t \<and>
         (\<not> differs \<longrightarrow> (\<forall>(p, d) \<in> set expected. \<forall>c. path_components p = Inr c \<longrightarrow> docs t c = Some d)))
      (\<lambda>e u. sound u \<and> docs u = docs t \<and> log u = log t) t"
      using Cons.IH[of t] Cons.prems(2) by fastforce
    with r c show "outcome (if stored_document r \<noteq> d then liftT (Inr True) else any_record_differs T expected)
      (\<lambda>differs t. sound t \<and> docs t = docs s \<and> log t = log s \<and>
         (\<not> differs \<longrightarrow> (\<forall>(p, d) \<in> set ((p, d) # expected). \<forall>c. path_components p = Inr c \<longrightarrow> docs s c = Some d)))
      (\<lambda>e t. sound t \<and> docs t = docs s \<and> log t = log s) t"
      by (auto simp: liftT_def outcome_def split: prod.splits sum.splits)
  qed
qed

lemma terminal_finds:
  assumes "sound s" "docs s (commit_job_slot job) = Some (stored_document cur)"
    and "job_identity (stored_document cur) = job_identity job"
  shows "outcome (terminal_without_intent M env T cur plan)
    (\<lambda>r t. sound t \<and> docs t = docs s \<and> log t = log s \<and>
       (r \<noteq> None \<longrightarrow> r = Some (plan_result plan) \<and> docs s (result_slot job) \<noteq> None \<and>
          docs s = commit_stage plan job 5 (docs s) \<and> recorded env (plan_audit_entry plan) (log s)))
    (\<lambda>e t. sound t \<and> docs t = docs s \<and> log t = log s) s" (is "outcome _ ?Q ?E s")
  unfolding terminal_without_intent_def commit_error_def
proof (rule observing_with[OF observe(4) assms(1) no_intents[OF assms(1), of "plan_intent_id plan"]],
    rule outcome_if, use assms(1) in \<open>simp add: outcome_def liftT_def\<close>,
    rule outcome_bind_lift, rule outcome_if, simp add: outcome_def liftT_def, rule outcome_bind_lift)
  fix inventory t phase expected
  assume t: "sound t" "docs t = docs s" "log t = log s"
    and none: "intent_records inventory = [] \<longrightarrow> docs s [''intents'', plan_intent_id plan @ ''.json''] = None"
      "\<not> intent_records inventory \<noteq> []"
    and phase: "getitem (stored_document cur) ''phase'' = Inr phase" "\<not> phase \<noteq> JStr ''completed''"
    and expected: "bindE (getitem (stored_document cur) ''jobId'') (\<lambda>job_id. terminal_records job_id plan) = Inr expected"
  obtain v p1 p2 p3 where v: "getitem (stored_document cur) ''jobId'' = Inr v"
      "tenant_desired_path (JStr (plan_tenant_id plan)) = Inr p1" "tenant_observed_path (JStr (plan_tenant_id plan)) = Inr p2"
      "authorization_result_path v = Inr p3"
      "expected = [(p1, plan_manifest plan), (p2, plan_observed_state plan), (p3, plan_result plan)]"
    using expected by (auto simp: bindE_Inr_iff terminal_records_def)
  note ok = lasting_paths(1)[OF v(2)] lasting_paths(2)[OF v(3)] lasting_paths(4)[OF v(4)]
  note paths = commit_paths(1)[OF v(2)] commit_paths(2)[OF v(3)] commit_paths(4)[OF v(1,4)]
  have slot: "result_slot (stored_document cur) = result_slot job" using same_slots[OF assms(3)] by simp
  have expected_ok: "lasting p" if "(p, d) \<in> set expected" for p d using that ok unfolding v(5) by auto
  show "outcome (bindT (catch_missing (commit_exn M (''terminal '' @ commit_name M @ '' state is incomplete''))
              (any_record_differs T expected)) (\<lambda>differs.
       if differs then liftT (Inl (commit_exn M (''terminal '' @ commit_name M @ '' state disagrees with its plan'')))
       else bindT (do_inspect_audit T) (\<lambda>audit.
         bindT (liftT (audit_needs_append M env audit (plan_audit_entry plan))) (\<lambda>missing.
         liftT (if missing then Inl (commit_exn M (''terminal '' @ commit_name M @ '' audit entry is absent''))
                else Inr (Some (plan_result plan))))))) ?Q ?E t"
  proof (rule outcome_bind[OF outcome_conseq[OF outcome_catch[OF records_present[OF t(1) expected_ok]]]], assumption)
    fix differs u
    assume u: "sound u \<and> docs u = docs t \<and> log u = log t \<and>
      (\<not> differs \<longrightarrow> (\<forall>(p, d) \<in> set expected. \<forall>c. path_components p = Inr c \<longrightarrow> docs t c = Some d))"
    have present: "docs s = commit_stage plan job 5 (docs s) \<and> docs s (result_slot job) \<noteq> None" if "\<not> differs"
    proof -
      have d: "docs s (desired_slot plan) = Some (plan_manifest plan)"
        "docs s (observed_slot plan) = Some (plan_observed_state plan)" "docs s (result_slot job) = Some (plan_result plan)"
        using u that paths slot unfolding v(5) t(2) by auto
      then show ?thesis
        using commit_stage_present[where D = "docs s" and plan = plan and job = job] assms(2) none phase
        by (auto simp: intent_slot_def)
    qed
    show "outcome (if differs then liftT (Inl (commit_exn M (''terminal '' @ commit_name M @ '' state disagrees with its plan'')))
       else bindT (do_inspect_audit T) (\<lambda>audit.
         bindT (liftT (audit_needs_append M env audit (plan_audit_entry plan))) (\<lambda>missing.
         liftT (if missing then Inl (commit_exn M (''terminal '' @ commit_name M @ '' audit entry is absent''))
                else Inr (Some (plan_result plan)))))) ?Q ?E u"
      using u t present
      by (intro outcome_if observing_with[OF observe(2) _ inspect_reads] outcome_bind_lift)
        (auto intro!: outcome_lift split: if_split_asm, metis audit_present)
  qed (use t in auto)
qed (use assms(1) in auto)

lemma result_missing_found:
  assumes "sound s" "lasting p" "path_components p = Inr c"
  shows "outcome (result_is_missing M T p d)
    (\<lambda>missing t. sound t \<and> docs t = docs s \<and> log t = log s \<and> (missing \<longleftrightarrow> docs s c = None))
    (\<lambda>e t. sound t \<and> docs t = docs s \<and> log t = log s) s"
  using observing[OF observe(1)[of p] assms(1)] read_finds[OF assms]
  by (auto simp: outcome_def result_is_missing_def split: prod.splits sum.splits exn.splits)

text \<open>The steps that write.\<close>

lemma sets_recordI:
  "sets_record docs log sound c v m s \<Longrightarrow>
    (\<And>x t. sound t \<Longrightarrow> log t = log s \<Longrightarrow> docs t = (docs s)(c := v) \<Longrightarrow> outcome (f x) Q E t) \<Longrightarrow>
    (\<And>e t. sound t \<Longrightarrow> log t = log s \<Longrightarrow> docs t = docs s \<or> docs t = (docs s)(c := v) \<Longrightarrow> E e t) \<Longrightarrow>
    outcome (bindT m f) Q E s"
  unfolding sets_record_def by (rule outcome_bind) (auto intro: outcome_conseq)

lemma sets_record_present:
  assumes "docs s c = v" "outcome m (\<lambda>x t. sound t \<and> docs t = docs s \<and> log t = log s) (\<lambda>e t. sound t \<and> docs t = docs s \<and> log t = log s) s"
  shows "sets_record docs log sound c v m s"
  using assms(2) unfolding sets_record_def by (rule outcome_conseq) (auto simp: assms(1)[symmetric])

lemma replace_state_sets:
  assumes "sound s" "p = Inr q" "path_ok q" "path_components q = Inr c" "write \<or> docs s c = Some d"
  shows "sets_record docs log sound c (Some d) (replace_state T write p cur d) s"
proof (cases "write")
  case True
  have "sets_record docs log sound c (Some d) (bindT (do_compare_and_swap T q (stored_revision cur) d) (\<lambda>_. liftT (Inr ()))) s"
    unfolding sets_record_def[where m = "bindT _ _"]
    by (rule sets_recordI[OF swaps[OF assms(1,3,4)]]) (auto simp: outcome_def liftT_def)
  then show ?thesis using True assms(2) by (simp add: replace_state_def thenT_def)
next
  case False
  then show ?thesis using assms(1,5) by (intro sets_record_present) (auto simp: replace_state_def intro!: outcome_lift)
qed

lemma ensure_audit_records:
  assumes "sound s"
  shows "outcome (ensure_audit M env T d) (\<lambda>_ t. sound t \<and> docs t = docs s \<and> recorded env d (log t))
    (\<lambda>e t. sound t \<and> docs t = docs s) s"
  unfolding ensure_audit_def thenT_def
proof (rule observing_with[OF observe(2) assms inspect_reads[OF assms]], rule outcome_bind_lift, rule outcome_if)
  fix a t missing
  assume t: "sound t" "docs t = docs s" "log t = log s" "log s = Inr a"
  show "outcome (bindT (do_append_audit T d) (\<lambda>_. liftT (Inr ()))) (\<lambda>_ t. sound t \<and> docs t = docs s \<and> recorded env d (log t))
      (\<lambda>e t. sound t \<and> docs t = docs s) t"
    by (rule outcome_bind[OF outcome_conseq[OF appends[OF t(1), of d]]])
      (use t in \<open>auto intro!: outcome_lift simp: recorded_def\<close>)
  assume "audit_needs_append M env a d = Inr missing" "\<not> missing"
  then show "outcome (liftT (Inr ())) (\<lambda>_ t. sound t \<and> docs t = docs s \<and> recorded env d (log t))
      (\<lambda>e t. sound t \<and> docs t = docs s) t"
    using t audit_present by (intro outcome_lift) auto
qed auto

lemma ensure_result_sets:
  assumes "sound s"
  shows "sets_record docs log sound (result_slot (stored_document job)) (Some result) (ensure_result M T job result missing) s"
proof (cases "bindE (getitem (stored_document job) ''jobId'') authorization_result_path")
  case (Inl e)
  then show ?thesis using assms by (simp add: ensure_result_def) (simp add: sets_record_def outcome_def liftT_def)
next
  case (Inr p)
  then obtain v where v: "getitem (stored_document job) ''jobId'' = Inr v" "authorization_result_path v = Inr p"
    by (auto simp: bindE_Inr_iff)
  note path = constructed_path_ok(8)[OF v(2)] commit_paths(4)[OF v]
  show ?thesis
  proof (cases missing)
    case True
    have "sets_record docs log sound (result_slot (stored_document job)) (Some result)
        (bindT (do_create_immutable T p result) (\<lambda>_. liftT (Inr ()))) s"
      unfolding sets_record_def[where m = "bindT _ _"]
      by (rule sets_recordI[OF creates[OF assms path]]) (auto simp: outcome_def liftT_def)
    then show ?thesis using True Inr by (simp add: ensure_result_def thenT_def)
  next
    case False
    have "outcome (do_read T p) (\<lambda>r t. (sound t \<and> docs t = docs s \<and> log t = log s) \<and> docs s (result_slot (stored_document job)) = Some (stored_document r))
        (\<lambda>e t. sound t \<and> docs t = docs s \<and> log t = log s) s"
      by (rule outcome_conseq[OF outcome_conj[OF observing[OF observe(1) assms] read_finds[OF assms lasting_paths(4)[OF v(2)] path(2)]]]) auto
    then show ?thesis
      using False Inr
      by (simp add: ensure_result_def)
        (auto simp: bindT_def liftT_def sets_record_def outcome_def fun_upd_idem split: prod.splits sum.splits)
  qed
qed

lemma ensure_completed_job_sets:
  assumes "sound s" "docs s (commit_job_slot (stored_document job)) = Some (stored_document job)"
  shows "sets_record docs log sound (commit_job_slot (stored_document job)) (Some (completed_job (stored_document job)))
    (ensure_completed_job T job) s"
proof -
  let ?d = "stored_document job"
  have swap: "sets_record docs log sound (commit_job_slot ?d) (Some (completed_job ?d))
      (bindT (do_compare_and_swap T p (stored_revision job) completed) (\<lambda>_. liftT (Inr ()))) s"
    if completed: "setitem ?d ''phase'' (JStr ''completed'') = Inr completed"
      and p: "bindE (getitem completed ''jobId'') authorization_job_path = Inr p" for p completed
  proof -
    obtain v where v: "getitem ?d ''jobId'' = Inr v" "authorization_job_path v = Inr p"
      using p getitem_setitem[OF completed] by (auto simp: bindE_Inr_iff)
    show ?thesis
      unfolding sets_record_def[where m = "bindT _ _"] completed_job_set[OF completed, symmetric]
      by (rule sets_recordI[OF swaps[OF assms(1) constructed_path_ok(7)[OF v(2)] commit_paths(5)[OF v]]])
        (auto simp: outcome_def liftT_def)
  qed
  have finished: "(docs s)(commit_job_slot ?d := Some (completed_job ?d)) = docs s" if "getitem ?d ''phase'' = lit ''completed''"
    using completed_job_done[OF that] assms(2) by (simp add: fun_upd_idem)
  show ?thesis
  proof (cases "getitem ?d ''phase''")
    case (Inl e)
    then show ?thesis using assms by (simp add: ensure_completed_job_def) (simp add: sets_record_def outcome_def liftT_def)
  next
    case phase: (Inr v)
    show ?thesis
    proof (cases "v = JStr ''completed''")
      case True
      then show ?thesis using phase assms finished
        by (simp add: ensure_completed_job_def) (simp add: sets_record_def outcome_def liftT_def)
    next
      case False
      show ?thesis
        using phase False swap assms(1)
        by (cases "setitem ?d ''phase'' (JStr ''completed'')";
            cases "bindE (getitem (projr (setitem ?d ''phase'' (JStr ''completed''))) ''jobId'') authorization_job_path")
          (simp_all add: ensure_completed_job_def thenT_def, simp_all add: sets_record_def outcome_def liftT_def)
    qed
  qed
qed

text \<open>The end of a commit, once the state is published: the entry, the result, the job, the intent.\<close>

lemma notify_outcome:
  "(\<And>e. E e s) \<Longrightarrow> outcome n Q E s \<Longrightarrow> outcome (thenT (notify hook b) n) Q E s"
  unfolding notify_def thenT_def by (rule outcome_bind_lift)

lemma commit_tail:
  assumes "sound s" "docs s = commit_stage plan job 2 D" "D (commit_job_slot job) = Some (stored_document cur)"
    and "job_identity (stored_document cur) = job_identity job"
    and "transaction_intent_path (JStr (plan_intent_id plan)) = Inr p"
  shows "outcome
     (thenT (ensure_audit M env T (plan_audit_entry plan)) (thenT (notify hook b1)
     (thenT (ensure_result M T cur (plan_result plan) missing) (thenT (notify hook b2)
     (thenT (ensure_completed_job T cur) (thenT (notify hook b3)
     (thenT (do_remove_reconciled_intent T p removal) (thenT (notify hook b4) (liftT (Inr x))))))))))
    (\<lambda>y t. y = x \<and> sound t \<and> docs t = commit_stage plan job 5 D \<and> recorded env (plan_audit_entry plan) (log t))
    (\<lambda>e t. sound t \<and> commit_interrupted env plan job D (docs t) (log t)) s" (is "outcome _ ?Q ?E s")
proof (rule outcome_then[OF outcome_conseq[OF ensure_audit_records[OF assms(1)]]], assumption)
  note slots = same_slots[OF assms(4)]
  fix u assume audited: "sound u \<and> docs u = docs s \<and> recorded env (plan_audit_entry plan) (log u)"
  have stage2: "docs u = commit_stage plan job 2 D" using audited assms(2) by simp
  show "outcome (thenT (notify hook b1)
     (thenT (ensure_result M T cur (plan_result plan) missing) (thenT (notify hook b2)
     (thenT (ensure_completed_job T cur) (thenT (notify hook b3)
     (thenT (do_remove_reconciled_intent T p removal) (thenT (notify hook b4) (liftT (Inr x))))))))) ?Q ?E u"
  proof (rule notify_outcome, use audited stage2 in \<open>simp add: commit_interruptedI(3)\<close>, unfold thenT_def,
      rule sets_recordI[OF ensure_result_sets], use audited in simp)
    fix v assume v: "sound v" "log v = log u" "docs v = (docs u)(result_slot (stored_document cur) := Some (plan_result plan))"
    have stage3: "docs v = commit_stage plan job 3 D" using v(3) slots unfolding stage2 by (simp add: commit_stage_steps(3))
    have job: "docs v (commit_job_slot (stored_document cur)) = Some (stored_document cur)"
      using slots assms(3) unfolding stage3 by (simp add: commit_stage_apply)
    have recorded: "recorded env (plan_audit_entry plan) (log v)" using v(2) audited by simp
    show "outcome (bindT (notify hook b2) (\<lambda>_. bindT (ensure_completed_job T cur) (\<lambda>_. bindT (notify hook b3) (\<lambda>_.
        bindT (do_remove_reconciled_intent T p removal) (\<lambda>_. bindT (notify hook b4) (\<lambda>_. liftT (Inr x))))))) ?Q ?E v"
      unfolding thenT_def[symmetric]
    proof (rule notify_outcome, use v(1) stage3 recorded in \<open>simp add: commit_interruptedI(4)\<close>, unfold thenT_def,
        rule sets_recordI[OF ensure_completed_job_sets[OF v(1) job]])
      fix w assume w: "sound w" "log w = log v"
        "docs w = (docs v)(commit_job_slot (stored_document cur) := Some (completed_job (stored_document cur)))"
      have stage4: "docs w = commit_stage plan job 4 D"
        using w(3) slots assms(3) unfolding stage3 by (simp add: commit_stage_steps(4))
      show "outcome (bindT (notify hook b3) (\<lambda>_. bindT (do_remove_reconciled_intent T p removal) (\<lambda>_.
          bindT (notify hook b4) (\<lambda>_. liftT (Inr x))))) ?Q ?E w"
        unfolding thenT_def[symmetric]
      proof (rule notify_outcome, use w stage4 recorded in \<open>simp add: commit_interruptedI(5)\<close>, unfold thenT_def,
          rule sets_recordI[OF removes[OF w(1) constructed_path_ok(12)[OF assms(5)] commit_paths(3)[OF assms(5)]]])
        fix z assume z: "sound z" "log z = log w" "docs z = (docs w)(intent_slot plan := None)"
        then have "docs z = commit_stage plan job 5 D" unfolding stage4 by (simp add: commit_stage_steps(5))
        then show "outcome (bindT (notify hook b4) (\<lambda>_. liftT (Inr x))) ?Q ?E z"
          unfolding thenT_def[symmetric] using z w recorded
          by (intro notify_outcome outcome_lift) (simp_all add: commit_interruptedI(6))
      next
        fix e z assume z: "sound z" "log z = log w" "docs z = docs w \<or> docs z = (docs w)(intent_slot plan := None)"
        then have "docs z = commit_stage plan job 4 D \<or> docs z = commit_stage plan job 5 D"
          unfolding stage4 by (simp add: commit_stage_steps(5))
        then show "?E e z" using z(1,2) w(2) recorded by (auto intro: commit_interruptedI(5,6))
      qed
    next
      fix e w assume w: "sound w" "log w = log v" "docs w = docs v \<or>
        docs w = (docs v)(commit_job_slot (stored_document cur) := Some (completed_job (stored_document cur)))"
      then show "?E e w" using recorded slots assms(3) commit_stage_steps(4)[of plan job D] unfolding stage3
        by (auto intro: commit_interruptedI)
    qed
  next
    fix e v assume v: "sound v" "log v = log u"
      "docs v = docs u \<or> docs v = (docs u)(result_slot (stored_document cur) := Some (plan_result plan))"
    then show "?E e v" using audited slots commit_stage_steps(3)[of plan job D] unfolding stage2
      by (auto intro: commit_interruptedI)
  qed
qed (use assms(2) in \<open>simp add: commit_interruptedI(3)\<close>)

end

section \<open>Creates\<close>

lemma create_frozen:
  assumes "create_freeze_and_validate env job plan = Inr documents"
  obtains provenance where "documents = plan" "getitem (plan_result plan) ''provenance'' = Inr provenance"
    "getitem provenance ''jobId'' = getitem (stored_document job) ''jobId''"
  using assms unfolding create_freeze_and_validate_def create_documents_disagree_def Let_def
  by (auto simp: thenE_Inr bindE_Inr_iff check_simps split: if_split_asm)

text \<open>Both states of the tenant are set where they are absent, in this order, or the call raises in between.\<close>

locale create_store = commit_store env T docs log sound
  for env :: contract_env and T :: "'s create_transaction"
    and docs :: "'s \<Rightarrow> record_store" and log :: "'s \<Rightarrow> AuditState py" and sound :: "'s \<Rightarrow> bool" +
  assumes observe_growth: "leaves (same_view docs log sound) (do_measure_create_tenant_namespace_growth T tenant)"
    and ensures: "sound s \<Longrightarrow> tenant_desired_path (JStr tid) = Inr p \<Longrightarrow>
      c = [''tenants'', tid, ''desired.json''] \<Longrightarrow> c' = [''tenants'', tid, ''observed.json''] \<Longrightarrow>
      docs s c \<in> {None, Some d} \<Longrightarrow> docs s c' \<in> {None, Some d'} \<Longrightarrow>
      outcome (do_ensure_create_tenant_state T (JStr tid) d d')
        (\<lambda>_ t. sound t \<and> log t = log s \<and> docs t = (docs s)(c := Some d, c' := Some d'))
        (\<lambda>_ t. sound t \<and> log t = log s \<and>
           docs t \<in> {docs s, (docs s)(c := Some d), (docs s)(c := Some d, c' := Some d')}) s"
begin

lemma missing_found:
  assumes "sound s" "\<And>p d. (p, d) \<in> set expected \<Longrightarrow> lasting p"
  shows "outcome (missing_records T expected)
    (\<lambda>missing t. sound t \<and> docs t = docs s \<and> log t = log s \<and>
       missing = filter (\<lambda>(p, d). docs s (projr (path_components p)) = None) expected \<and>
       (\<forall>(p, d) \<in> set expected. docs s (projr (path_components p)) \<in> {None, Some d}))
    (\<lambda>e t. sound t \<and> docs t = docs s \<and> log t = log s) s"
  using assms
proof (induction expected arbitrary: s)
  case Nil
  then show ?case by (simp add: outcome_def liftT_def)
next
  case (Cons x expected)
  obtain p d where x: "x = (p, d)" by fastforce
  obtain c where c: "path_components p = Inr c" using path_components_slot[of p] Cons.prems(2)[of p d] x by (auto simp: lasting_def)
  have ok: "lasting p" using Cons.prems(2)[of p d] x by simp
  obtain r t where r: "do_read T p s = (r, t)" by fastforce
  have t: "sound t" "docs t = docs s" "log t = log s" "r = Inl FileNotFoundError \<Longrightarrow> docs s c = None"
    "\<And>y. r = Inr y \<Longrightarrow> docs s c = Some (stored_document y)"
    using observing[OF observe(1)[of p] Cons.prems(1)] read_finds[OF Cons.prems(1) ok c] r
    by (auto simp: outcome_def split: sum.splits)
  have IH: "outcome (missing_records T expected)
      (\<lambda>missing u. sound u \<and> docs u = docs s \<and> log u = log s \<and>
         missing = filter (\<lambda>(p, d). docs s (projr (path_components p)) = None) expected \<and>
         (\<forall>(p, d) \<in> set expected. docs s (projr (path_components p)) \<in> {None, Some d}))
      (\<lambda>e u. sound u \<and> docs u = docs s \<and> log u = log s) t"
    unfolding t(2,3)[symmetric] by (rule Cons.IH[OF t(1)]) (use Cons.prems(2) in auto)
  show ?case
  proof (cases "r = Inl FileNotFoundError")
    case True
    have "outcome (bindT (missing_records T expected) (\<lambda>missing. liftT (Inr ((p, d) # missing))))
      (\<lambda>missing t. sound t \<and> docs t = docs s \<and> log t = log s \<and>
         missing = filter (\<lambda>(p, d). docs s (projr (path_components p)) = None) (x # expected) \<and>
         (\<forall>(p, d) \<in> set (x # expected). docs s (projr (path_components p)) \<in> {None, Some d}))
      (\<lambda>e t. sound t \<and> docs t = docs s \<and> log t = log s) t"
      by (rule outcome_bind[OF outcome_conseq[OF IH]], assumption) (use t(4)[OF True] in \<open>auto intro!: outcome_lift simp: x c\<close>)
    then show ?thesis using True r by (simp add: x outcome_def)
  next
    case False
    show ?thesis
    proof (cases r)
      case (Inl e)
      then show ?thesis using False r t by (auto simp: x outcome_def split: exn.splits)
    next
      case (Inr y)
      then show ?thesis using r t(1-3) t(5)[OF Inr] IH by (auto simp: x c outcome_def split: prod.splits sum.splits)
    qed
  qed
qed

lemma observe_admission: "leaves (same_view docs log sound) (create_admit_growth env T job plan limits missing p)"
  unfolding create_admit_growth_def missing_allocations_def Let_def
  by (intro same_view_intros observe_capacity observe observe_growth if_leaves) (auto intro!: same_view_intros observe_capacity split: prod.splits)

lemma admission_value:
  "create_admit_growth env T job plan limits missing p s = (Inr x, t) \<Longrightarrow> x = list_ex (\<lambda>(q, _). q = p) missing"
  unfolding create_admit_growth_def Let_def by (auto simp: tx_simps split: if_split_asm)

lemma create_admission_finds:
  assumes "sound s" "getitem (plan_result plan) ''provenance'' = Inr provenance"
    and "getitem provenance ''jobId'' = getitem job ''jobId''"
  shows "outcome (create_admit_missing_state env T cur plan limits)
    (\<lambda>missing t. sound t \<and> docs t = docs s \<and> log t = log s \<and>
       (missing \<longleftrightarrow> docs s (result_slot job) = None) \<and> (\<exists>p. tenant_desired_path (JStr (plan_tenant_id plan)) = Inr p) \<and>
       docs s (desired_slot plan) \<in> {None, Some (plan_manifest plan)} \<and>
       docs s (observed_slot plan) \<in> {None, Some (plan_observed_state plan)})
    (\<lambda>e t. sound t \<and> docs t = docs s \<and> log t = log s) s" (is "outcome _ ?Q ?E s")
  unfolding create_admit_missing_state_def
proof (rule outcome_bind_lift)
  fix expected
  assume "bindE (getitem (plan_result plan) ''provenance'') (\<lambda>provenance.
    bindE (getitem provenance ''jobId'') (\<lambda>job_id. terminal_records job_id plan)) = Inr expected"
  then obtain v p1 p2 p3 where v: "getitem job ''jobId'' = Inr v"
      "tenant_desired_path (JStr (plan_tenant_id plan)) = Inr p1" "tenant_observed_path (JStr (plan_tenant_id plan)) = Inr p2"
      "authorization_result_path v = Inr p3"
      "expected = [(p1, plan_manifest plan), (p2, plan_observed_state plan), (p3, plan_result plan)]"
    using assms(2,3) by (auto simp: bindE_Inr_iff terminal_records_def)
  note ok = lasting_paths(1)[OF v(2)] lasting_paths(2)[OF v(3)] lasting_paths(4)[OF v(4)]
  note paths = commit_paths(1)[OF v(2)] commit_paths(2)[OF v(3)] commit_paths(4)[OF v(1,4)]
  have differ: "p3 \<noteq> p1" "p3 \<noteq> p2"
    using constructed_path_name(1)[OF v(2)] constructed_path_name(2)[OF v(3)] constructed_path_name(6)[OF v(4)] by auto
  have expected_ok: "lasting p" if "(p, d) \<in> set expected" for p d using that ok unfolding v(5) by auto
  have wanted: "list_ex (\<lambda>(p, _). p = p3) (filter (\<lambda>(p, d). docs s (projr (path_components p)) = None) expected)
      \<longleftrightarrow> docs s (result_slot job) = None"
    using differ paths by (auto simp: v(5))
  show "outcome (bindT (missing_records T expected) (\<lambda>missing.
      create_admit_growth env T (stored_document cur) plan limits missing (fst (last expected)))) ?Q ?E s"
  proof (rule outcome_bind[OF outcome_conseq[OF missing_found[OF assms(1) expected_ok]]], assumption)
    fix missing t
    assume m: "sound t \<and> docs t = docs s \<and> log t = log s \<and>
      missing = filter (\<lambda>(p, d). docs s (projr (path_components p)) = None) expected \<and>
      (\<forall>(p, d) \<in> set expected. docs s (projr (path_components p)) \<in> {None, Some d})"
    then have t: "sound t" by blast
    have states: "docs s (desired_slot plan) \<in> {None, Some (plan_manifest plan)} \<and>
        docs s (observed_slot plan) \<in> {None, Some (plan_observed_state plan)}"
      using m paths unfolding v(5) by simp
    show "outcome (create_admit_growth env T (stored_document cur) plan limits missing (fst (last expected))) ?Q ?E t"
      by (rule outcome_conseq[OF outcome_conj[OF observing[OF observe_admission t] outcome_exact]])
        (use m states wanted v(2) admission_value in \<open>auto simp: v(5) dest!: admission_value\<close>)
  qed auto
qed (use assms in auto)

lemma create_publish_outcome:
  assumes "sound s" "docs s (commit_job_slot job) = Some (stored_document cur)"
    and "job_identity (stored_document cur) = job_identity job"
    and "getitem (plan_result plan) ''provenance'' = Inr provenance" "getitem provenance ''jobId'' = getitem job ''jobId''"
  shows "outcome (create_publish env T cur plan limits hook)
    (\<lambda>x t. sound t \<and> docs t = commit_stage plan job 5 (docs s) \<and> recorded env (plan_audit_entry plan) (log t) \<and>
       outcome_result x = plan_result plan \<and> (outcome_created x \<longleftrightarrow> docs s (result_slot job) = None))
    (\<lambda>e t. sound t \<and> commit_interrupted env plan job (docs s) (docs t) (log t)) s" (is "outcome _ ?Q ?E s")
  unfolding create_publish_def
proof (rule outcome_bind[OF outcome_conseq[OF require_exact_intent_finds[OF assms(1)]]], assumption)
  fix exact t
  assume t: "sound t \<and> docs t = docs s \<and> log t = log s \<and> transaction_intent_path (JStr (plan_intent_id plan)) = Inr (exact_path exact)"
  then have sound: "sound t" by simp
  show "outcome (bindT (create_admit_missing_state env T cur plan limits) (\<lambda>result_missing.
     thenT (do_ensure_create_tenant_state T (JStr (plan_tenant_id plan)) (plan_manifest plan) (plan_observed_state plan))
     (thenT (notify hook STATE_SYNC)
     (thenT (ensure_audit create_module env T (plan_audit_entry plan)) (thenT (notify hook AUDIT_SYNC)
     (thenT (ensure_result create_module T cur (plan_result plan) result_missing) (thenT (notify hook RESULT_SYNC)
     (thenT (ensure_completed_job T cur) (thenT (notify hook JOB_SYNC)
     (thenT (do_remove_reconciled_intent T (exact_path exact) (exact_token exact)) (thenT (notify hook INTENT_REMOVED)
     (liftT (Inr \<lparr>outcome_result = plan_result plan, outcome_created = result_missing\<rparr>))))))))))))) ?Q ?E t"
  proof (rule outcome_bind[OF outcome_conseq[OF create_admission_finds[OF sound assms(4,5)]]], assumption)
    fix missing u
    assume u: "sound u \<and> docs u = docs t \<and> log u = log t \<and> (missing \<longleftrightarrow> docs t (result_slot job) = None) \<and>
      (\<exists>p. tenant_desired_path (JStr (plan_tenant_id plan)) = Inr p) \<and>
      docs t (desired_slot plan) \<in> {None, Some (plan_manifest plan)} \<and>
      docs t (observed_slot plan) \<in> {None, Some (plan_observed_state plan)}"
    then obtain p where p: "sound u" "tenant_desired_path (JStr (plan_tenant_id plan)) = Inr p"
      "docs u (desired_slot plan) \<in> {None, Some (plan_manifest plan)}"
      "docs u (observed_slot plan) \<in> {None, Some (plan_observed_state plan)}" by auto
    have same: "docs u = docs s" using t u by simp
    show "outcome (thenT (do_ensure_create_tenant_state T (JStr (plan_tenant_id plan)) (plan_manifest plan) (plan_observed_state plan))
     (thenT (notify hook STATE_SYNC)
     (thenT (ensure_audit create_module env T (plan_audit_entry plan)) (thenT (notify hook AUDIT_SYNC)
     (thenT (ensure_result create_module T cur (plan_result plan) missing) (thenT (notify hook RESULT_SYNC)
     (thenT (ensure_completed_job T cur) (thenT (notify hook JOB_SYNC)
     (thenT (do_remove_reconciled_intent T (exact_path exact) (exact_token exact)) (thenT (notify hook INTENT_REMOVED)
     (liftT (Inr \<lparr>outcome_result = plan_result plan, outcome_created = missing\<rparr>)))))))))))) ?Q ?E u"
    proof (rule outcome_then[OF outcome_conseq[OF ensures[OF p(1,2) desired_slot_def observed_slot_def p(3,4)]]], assumption)
      fix v
      assume v: "sound v \<and> log v = log u \<and> docs v =
        (docs u)(desired_slot plan := Some (plan_manifest plan), observed_slot plan := Some (plan_observed_state plan))"
      then have stage2: "sound v" "docs v = commit_stage plan job 2 (docs s)" by (simp_all add: commit_stage_steps same)
      show "outcome (thenT (notify hook STATE_SYNC)
         (thenT (ensure_audit create_module env T (plan_audit_entry plan)) (thenT (notify hook AUDIT_SYNC)
         (thenT (ensure_result create_module T cur (plan_result plan) missing) (thenT (notify hook RESULT_SYNC)
         (thenT (ensure_completed_job T cur) (thenT (notify hook JOB_SYNC)
         (thenT (do_remove_reconciled_intent T (exact_path exact) (exact_token exact)) (thenT (notify hook INTENT_REMOVED)
         (liftT (Inr \<lparr>outcome_result = plan_result plan, outcome_created = missing\<rparr>))))))))))) ?Q ?E v"
        by (rule notify_outcome, use stage2 in \<open>simp add: commit_interruptedI(3)\<close>,
            rule outcome_conseq[OF commit_tail[OF stage2 assms(2,3)]]) (use t u in auto)
    next
      fix e v
      assume "sound v \<and> log v = log u \<and> docs v \<in> {docs u, (docs u)(desired_slot plan := Some (plan_manifest plan)),
        (docs u)(desired_slot plan := Some (plan_manifest plan), observed_slot plan := Some (plan_observed_state plan))}"
      then show "?E e v"
        using commit_interruptedI(1-3)[where D = "docs s" and D' = "docs v" and plan = plan and job = job] by (auto simp: same commit_stage_steps)
    qed
  qed (use t in \<open>simp add: commit_interruptedI(1)\<close>)
qed (simp add: commit_interruptedI(1))

lemma create_commit_outcome:
  assumes "sound s"
  shows "outcome (finalize_create_transition_outcome env T job plan limits hook)
    (\<lambda>x t. sound t \<and> docs t = commit_stage plan (stored_document job) 5 (docs s) \<and>
       recorded env (plan_audit_entry plan) (log t) \<and> outcome_result x = plan_result plan \<and>
       (outcome_created x \<longleftrightarrow> docs s (result_slot (stored_document job)) = None))
    (\<lambda>e t. sound t \<and> commit_interrupted env plan (stored_document job) (docs s) (docs t) (log t)) s"
    (is "outcome _ ?Q ?E s")
  unfolding finalize_create_transition_outcome_def
proof (rule outcome_bind_lift)
  let ?job = "stored_document job"
  fix documents assume frozen: "create_freeze_and_validate env job plan = Inr documents"
  then obtain provenance where f: "documents = plan" "getitem (plan_result plan) ''provenance'' = Inr provenance"
      "getitem provenance ''jobId'' = getitem ?job ''jobId''"
    by (rule create_frozen)
  let ?rest = "\<lambda>cur terminal. case terminal of
       Some result \<Rightarrow> liftT (Inr \<lparr>outcome_result = result, outcome_created = False\<rparr>)
     | None \<Rightarrow> create_publish env T cur plan limits hook"
  show "outcome (bindT (require_same_job create_module T job) (\<lambda>cur.
     bindT (terminal_without_intent create_module env T cur documents) (\<lambda>terminal. case terminal of
       Some result \<Rightarrow> liftT (Inr \<lparr>outcome_result = result, outcome_created = False\<rparr>)
     | None \<Rightarrow> create_publish env T cur documents limits hook))) ?Q ?E s"
    unfolding f(1)
  proof (rule outcome_bind[OF outcome_conseq[OF require_same_job_finds[OF assms]]], assumption)
    fix cur :: StoredContract and t
    assume t: "sound t \<and> docs t = docs s \<and> log t = log s \<and> docs s (commit_job_slot ?job) = Some (stored_document cur) \<and>
      job_identity (stored_document cur) = job_identity ?job"
    then have cur: "sound t" "docs t (commit_job_slot ?job) = Some (stored_document cur)"
      "job_identity (stored_document cur) = job_identity ?job" by simp_all
    show "outcome (bindT (terminal_without_intent create_module env T cur plan) (?rest cur)) ?Q ?E t"
    proof (rule outcome_bind[OF outcome_conseq[OF terminal_finds[OF cur]]], assumption)
      fix terminal u
      assume u: "sound u \<and> docs u = docs t \<and> log u = log t \<and>
        (terminal \<noteq> None \<longrightarrow> terminal = Some (plan_result plan) \<and> docs t (result_slot ?job) \<noteq> None \<and>
          docs t = commit_stage plan ?job 5 (docs t) \<and> recorded env (plan_audit_entry plan) (log t))"
      then have pub: "sound u" "docs u (commit_job_slot ?job) = Some (stored_document cur)" using cur(2) by simp_all
      show "outcome (?rest cur terminal) ?Q ?E u"
      proof (cases terminal)
        case None
        then show ?thesis using create_publish_outcome[OF pub cur(3) f(2,3)] t u by simp
      next
        case (Some result)
        then show ?thesis using t u by (auto intro!: outcome_lift)
      qed
    qed (use t in \<open>auto intro: commit_interruptedI(1)\<close>)
  qed (auto intro: commit_interruptedI(1))
qed (use assms in \<open>simp add: commit_interruptedI(1)\<close>)

end

end
