(* ===== verification/Repository_Commit.thy ===== *)
theory Repository_Commit
  imports Commit_Laws Audit_Append
begin

text \<open>
  The transaction of \<^verbatim>\<open>static_host_agent/repository.py\<close> as the one a commit runs in: its operations on
  the tree of records, and those on the audit log, which live in a directory beside the records. What a
  scan of that directory yields is part of the state; the append replaces it by what it has published.
  The second half shows that these operations keep the promises the commits are proved against.
\<close>

section \<open>The state of a transaction\<close>

record commit_state =
  commit_root :: state_root
  commit_audit :: "Segments py"

definition on_root :: "'a repo \<Rightarrow> ('z commit_state_scheme, 'a) tx" where
  "on_root m = (\<lambda>s. case m (commit_root s) of (r, root) \<Rightarrow> (r, s\<lparr>commit_root := root\<rparr>))"

definition repo_inspect_audit :: "state_transaction \<Rightarrow> ('z commit_state_scheme, AuditState) tx" where
  "repo_inspect_audit t =
     readT (\<lambda>s. thenE (require_exclusive t)
       (bindE (commit_audit s) (validate_chain (tx_env t) DEFAULT_AUDIT_LIMITS)))"

definition repo_admit_audit_append :: "state_transaction \<Rightarrow> json \<Rightarrow> ('z commit_state_scheme, AuditState) tx" where
  "repo_admit_audit_append t d =
     readT (\<lambda>s. thenE (require_exclusive t) (thenE (canonical_candidate (tx_env t) d)
       (bindE (commit_audit s) (\<lambda>segments. admit_audit_append (tx_env t) (tx_host t) DEFAULT_AUDIT_LIMITS False segments d))))"

text \<open>What the file system allocates to the segment that an append writes is an argument.\<close>

definition repo_append_audit :: "state_transaction \<Rightarrow> (Segments \<Rightarrow> int) \<Rightarrow> json \<Rightarrow> ('z commit_state_scheme, AuditAppend) tx" where
  "repo_append_audit t allocated d = (\<lambda>s.
     case thenE (require_exclusive t) (thenE (canonical_candidate (tx_env t) d) (commit_audit s)) of
       Inl e \<Rightarrow> (Inl e, s)
     | Inr segments \<Rightarrow>
         let (r, resulting) = append_audit (tx_env t) (tx_host t) DEFAULT_AUDIT_LIMITS False (allocated segments) segments d in
         (r, s\<lparr>commit_audit := Inr resulting\<rparr>))"

definition repository_commit :: "state_transaction \<Rightarrow> (Segments \<Rightarrow> int) \<Rightarrow> 'z commit_state_scheme create_transaction" where
  "repository_commit t allocated =
     \<lparr>do_read = (\<lambda>p. on_root (transaction_read t p)),
      do_create_immutable = (\<lambda>p d. on_root (create_immutable t p d)),
      do_compare_and_swap = (\<lambda>p r d. on_root (compare_and_swap t p r d)),
      do_inspect_audit = repo_inspect_audit t,
      do_append_audit = repo_append_audit t allocated,
      do_measure_inventory = on_root (repo_measure_inventory t),
      do_measure_intent_records = on_root (repo_measure_intent_records t),
      do_read_intent = (\<lambda>i. on_root (repo_read_intent t i)),
      do_remove_reconciled_intent = (\<lambda>p removal. on_root (remove_reconciled_intent t p removal)),
      do_allocation_upper_bound = (\<lambda>n. liftT (repo_allocation_upper_bound t n)),
      do_namespace_allocation_upper_bound = (\<lambda>n. liftT (repo_namespace_allocation_upper_bound t n)),
      do_admit_inventory = (\<lambda>reservation. on_root (admit_inventory t reservation)),
      do_measure_filesystem_capacity = liftT (measure_filesystem_capacity t),
      do_ensure_create_tenant_state = (\<lambda>tenant d observed. on_root (ensure_create_tenant_state t tenant d observed)),
      do_measure_create_tenant_namespace_growth = (\<lambda>tenant. on_root (measure_create_tenant_namespace_growth t tenant))\<rparr>"

lemma scandir_lists: "fmlookup (root_nodes root) (c @ [x]) = Some n \<Longrightarrow> x \<in> set (scandir root c)"
proof -
  assume "fmlookup (root_nodes root) (c @ [x]) = Some n"
  then have "c @ [x] |\<in>| ffilter (\<lambda>p. p \<noteq> [] \<and> butlast p = c) (fmdom (root_nodes root))" by (auto intro: fmdomI)
  from fimageI[OF this, of last] show "x \<in> set (scandir root c)" by (simp add: scandir_def)
qed

section \<open>What a commit sees of it\<close>

definition commit_records :: "state_transaction \<Rightarrow> 'z commit_state_scheme \<Rightarrow> record_store" where
  "commit_records t s = slots t (commit_root s)"

definition commit_log :: "state_transaction \<Rightarrow> 'z commit_state_scheme \<Rightarrow> AuditState py" where
  "commit_log t s = bindE (commit_audit s) (validate_chain (tx_env t) DEFAULT_AUDIT_LIMITS)"

text \<open>The invariant of the repository: a tree of inodes, and in it records of their types.\<close>

definition commit_sound :: "state_transaction \<Rightarrow> 'z commit_state_scheme \<Rightarrow> bool" where
  "commit_sound t s \<longleftrightarrow> transaction_ok t \<and> tree_ok (commit_root s) \<and> records_typed (tx_env t) (commit_records t s)"

abbreviation same_commit :: "state_transaction \<Rightarrow> 'z commit_state_scheme \<Rightarrow> 'z commit_state_scheme \<Rightarrow> bool" where
  "same_commit t \<equiv> same_view (commit_records t) (commit_log t) (commit_sound t)"

lemma commit_state_simps [simp]:
  "commit_records t (s\<lparr>commit_root := root\<rparr>) = slots t root" "commit_log t (s\<lparr>commit_root := root\<rparr>) = commit_log t s"
  "commit_records t (s\<lparr>commit_audit := a\<rparr>) = commit_records t s"
  "commit_sound t (s\<lparr>commit_audit := a\<rparr>) = commit_sound t s"
  by (simp_all add: commit_records_def commit_log_def commit_sound_def)

lemma on_root_leaves:
  assumes "leaves (same_records (tx_env t) (tx_policy t)) m"
  shows "leaves (same_commit t) (on_root m)"
  unfolding leaves_def
proof
  fix s :: "'z commit_state_scheme"
  have "same_records (tx_env t) (tx_policy t) (commit_root s) (snd (m (commit_root s)))"
    using assms by (simp add: leaves_def)
  then show "same_commit t s (snd (on_root m s))"
    by (auto simp: same_view_def on_root_def same_records_def commit_sound_def commit_records_def split: prod.splits)
qed

lemma step_typed: "store_step env s s' \<Longrightarrow> records_typed env s \<Longrightarrow> records_typed env s'"
  by (cases rule: store_step.cases) (auto simp: records_typed_def split: if_split_asm)

lemma steps_typed: "(store_step env)\<^sup>*\<^sup>* s s' \<Longrightarrow> records_typed env s \<Longrightarrow> records_typed env s'"
  by (induction rule: rtranclp_induct) (auto intro: step_typed)

text \<open>What an operation on the records that implements the store says to a commit.\<close>

lemma on_root_outcome:
  assumes "commit_sound t s" "implements t (commit_root s) (snd (m (commit_root s)))"
    and "outcome m (\<lambda>x root. Q x (s\<lparr>commit_root := root\<rparr>)) (\<lambda>e root. E e (s\<lparr>commit_root := root\<rparr>)) (commit_root s)"
  shows "outcome (on_root m) (\<lambda>x u. commit_sound t u \<and> commit_log t u = commit_log t s \<and> Q x u)
    (\<lambda>e u. commit_sound t u \<and> commit_log t u = commit_log t s \<and> E e u) s"
proof -
  have "commit_sound t (s\<lparr>commit_root := snd (m (commit_root s))\<rparr>)"
    using assms(1,2) steps_typed by (auto simp: commit_sound_def refines_def commit_records_def)
  then show ?thesis using assms(3) by (auto simp: outcome_def on_root_def split: prod.splits sum.splits)
qed

section \<open>Reading\<close>

text \<open>Checks of a document that never say that a file is absent.\<close>

definition no_file :: "'a py \<Rightarrow> bool" where
  "no_file m \<longleftrightarrow> m \<noteq> Inl FileNotFoundError"

lemma no_file_bind: "no_file m \<Longrightarrow> (\<And>x. no_file (f x)) \<Longrightarrow> no_file (bindE m f)"
  by (cases m) (auto simp: no_file_def)

lemma no_file_then: "no_file m \<Longrightarrow> no_file n \<Longrightarrow> no_file (thenE m n)"
  unfolding thenE_def by (rule no_file_bind)

lemma no_file_get: "no_file (dict_get d k)"
  by (cases d) (simp_all add: no_file_def)

lemma no_file_checks:
  "no_file (Inr x)" "no_file a \<Longrightarrow> no_file b \<Longrightarrow> no_file (neqE a b)" "list_all no_file cs \<Longrightarrow> no_file (anyE cs)"
  "no_file c \<Longrightarrow> no_file (refuse_record c msg)" "no_file (Inl (StateRecordError msg))" "no_file (Inl (RuntimeError msg))"
proof -
  show "list_all no_file cs \<Longrightarrow> no_file (anyE cs)"
    by (induction cs rule: anyE.induct) (auto simp: no_file_def bindE_def anyE.simps split: sum.splits)
  show "no_file a \<Longrightarrow> no_file b \<Longrightarrow> no_file (neqE a b)" by (auto simp: neqE_def no_file_def bindE_def split: sum.splits)
  show "no_file c \<Longrightarrow> no_file (refuse_record c msg)" by (auto simp: refuse_record_def no_file_def bindE_def split: sum.splits)
qed (simp_all add: no_file_def)

lemma no_file_binding: "no_file (validate_binding p d)"
proof -
  have "no_file (validate_authorization_binding name i d)" "no_file (validate_result_binding name i d)" for name i
    unfolding validate_authorization_binding_def validate_result_binding_def
    by (auto intro!: no_file_bind no_file_checks no_file_get)
  then show ?thesis
    unfolding validate_binding_def Let_def by (auto intro!: no_file_bind no_file_checks no_file_get)
qed

lemma lasting_kind:
  assumes "lasting p" "path_ok p'" "path_components p = Inr c" "path_components p' = Inr c"
  shows "contract_kind (path_name p') = contract_kind (path_name p)"
  using assms
  by (cases "path_name p"; cases "path_name p'") (auto simp: lasting_def path_components_def global_components_def
      require_record_id_def tenant_components_def deployment_components_def is_intent_def bindE_Inr_iff split: option.splits)

text \<open>In a repository whose records have their types, a reading says that the file is absent only where it is.\<close>

lemma read_path_absent:
  assumes "records_typed (tx_env t) (slots t root)" "lasting p" "path_components p = Inr c"
    and "read_path t p root = Inl FileNotFoundError"
  shows "slots t root c = None"
proof (rule ccontr)
  assume "slots t root c \<noteq> None"
  then obtain d where d: "slots t root c = Some d" by blast
  then obtain p' raw where p': "path_ok p'" "path_components p' = Inr c" "well_typed (tx_env t) p' d"
      and raw: "read_regular (tx_policy t) root c MAX_CANONICAL_BYTES = Inr raw"
        "decode_json_object (env_codec (tx_env t)) raw MAX_CANONICAL_BYTES = Inr d"
    using assms(1) by (auto simp: records_typed_def records_def stored_def split: if_splits sum.splits) metis
  have "validate_contract (tx_env t) d (Some (contract_kind (path_name p))) = Inr (contract_kind (path_name p))"
    using p'(3) lasting_kind[OF assms(2) p'(1) assms(3) p'(2)] by (simp add: well_typed_def)
  moreover from this obtain canonical where "canonical_bytes (tx_env t) d = Inr canonical"
    by (auto simp: validate_contract_iff validated_contract_iff canonical_bytes_def)
  ultimately have "read_path t p root =
      (if raw \<noteq> canonical then Inl (StateRecordError ''state record is not its exact canonical representation'')
       else thenE (validate_binding p d)
         (Inr \<lparr>stored_document = d, stored_revision = revision (contract_kind (path_name p)) canonical\<rparr>))"
    using assms(3) raw by (simp add: read_path_def read_locked_def decode_contract_def thenE_def)
  then show False using assms(4) no_file_binding[of p d]
    by (cases "validate_binding p d") (auto simp: no_file_def thenE_def split: if_splits)
qed

lemma repository_reads:
  assumes "commit_sound t s" "lasting p" "path_components p = Inr c"
  shows "outcome (on_root (transaction_read t p)) (\<lambda>r u. commit_records t s c = Some (stored_document r))
    (\<lambda>e u. e = FileNotFoundError \<longrightarrow> commit_records t s c = None) s"
proof (cases "require_active t")
  case (Inl e)
  then show ?thesis
    by (auto simp: outcome_def on_root_def transaction_read_def thenT_def bindT_def liftT_def require_active_def split: if_splits)
next
  case (Inr u)
  show ?thesis
  proof (cases "read_path t p (commit_root s)")
    case (Inl e)
    then show ?thesis using Inr read_path_absent[OF _ assms(2,3), of t "commit_root s"] assms(1)
      by (auto simp: outcome_def on_root_def transaction_read_def thenT_def bindT_def liftT_def readT_def commit_sound_def
          commit_records_def)
  next
    case (Inr r)
    then show ?thesis using \<open>require_active t = Inr u\<close> read_path_slots(1)[OF Inr _ assms(3)] assms(2)
      by (simp add: outcome_def on_root_def transaction_read_def thenT_def bindT_def liftT_def readT_def commit_records_def
          lasting_def)
  qed
qed

lemma repository_inspects:
  "outcome (repo_inspect_audit t) (\<lambda>a u. commit_log t s = Inr a) (\<lambda>e u. True) s"
  by (auto simp: outcome_def repo_inspect_audit_def readT_def commit_log_def thenE_Inr split: sum.splits prod.splits)

lemma inspect_leaves: "leaves (same_commit t) (repo_inspect_audit t)" "leaves (same_commit t) (repo_admit_audit_append t d)"
  unfolding repo_inspect_audit_def repo_admit_audit_append_def by (intro same_view_intros)+

text \<open>No intent is found: the slot of any intent is empty.\<close>

lemma no_names: "stable_directory_entries policy root c n = Inr [] \<Longrightarrow> scandir root c = []"
  by (auto simp: stable_directory_entries_def bounded_names_def thenE_Inr bindE_Inr_iff traverseE_Inr_iff split: if_splits)

lemma repository_no_intents:
  assumes "commit_sound t s"
  shows "outcome (on_root (repo_measure_intent_records t))
    (\<lambda>inventory u. intent_records inventory = [] \<longrightarrow> commit_records t s [''intents'', x @ ''.json''] = None) (\<lambda>e u. True) s"
proof -
  have "slots t (commit_root s) [''intents'', x @ ''.json''] = None"
    if run: "repo_measure_intent_records t (commit_root s) = (Inr inventory, root)" and none: "intent_records inventory = []"
    for inventory root
  proof -
    have same: "slots t root = slots t (commit_root s)"
      using quiet_repo_measures(3)[where t = t and env = "tx_env t"] run assms
      unfolding leaves_def same_records_def commit_sound_def by (metis snd_conv)
    obtain directory listed where d: "open_descendant (tx_policy t) (commit_root s) [''intents''] = Inr directory"
        "stable_directory_entries (tx_policy t) root directory (nat (maximum_intent_records DEFAULT_INTENT_INVENTORY_LIMITS)) = Inr listed"
        "length listed = length (intent_records inventory)"
      using run unfolding repo_measure_intent_records_def measure_intent_records_def
      by (auto simp: tx_simps bindE_Inr_iff traverseE_Inr_iff IntentRecordInventory_post_init_def thenE_Inr
          dest!: list_all2_lengthD split: if_splits)
    have "directory = [''intents'']"
      using d(1) by (auto simp: open_descendant_def dest: open_directory_found split: if_splits)
    then have "scandir root [''intents''] = []" using d(2,3) none no_names by simp
    then have "fmlookup (root_nodes root) [''intents'', x @ ''.json''] = None"
      using scandir_Nil[of root "[''intents'']"] by simp
    then have "slots t root [''intents'', x @ ''.json''] = None"
      by (simp add: records_def free_holds_nothing)
    then show ?thesis by (simp add: same)
  qed
  then show ?thesis by (auto simp: outcome_def on_root_def commit_records_def split: prod.splits sum.splits)
qed

section \<open>Writing\<close>

text \<open>A write that implements the store, and sets its record where it returns.\<close>

lemma on_root_sets:
  assumes "commit_sound t s" "\<And>root. implements t root (snd (m root))"
    and "\<And>x root. m (commit_root s) = (Inr x, root) \<Longrightarrow> slots t root = (slots t (commit_root s))(c := v)"
    and "\<And>e root. m (commit_root s) = (Inl e, root) \<Longrightarrow>
      slots t root = slots t (commit_root s) \<or> slots t root = (slots t (commit_root s))(c := v)"
  shows "sets_record (commit_records t) (commit_log t) (commit_sound t) c v (on_root m) s"
proof -
  have "outcome m (\<lambda>x root. commit_records t (s\<lparr>commit_root := root\<rparr>) = (commit_records t s)(c := v))
      (\<lambda>e root. commit_records t (s\<lparr>commit_root := root\<rparr>) = commit_records t s \<or>
        commit_records t (s\<lparr>commit_root := root\<rparr>) = (commit_records t s)(c := v)) (commit_root s)"
    using assms(3,4) by (auto simp: outcome_def commit_records_def split: prod.splits sum.splits)
  from on_root_outcome[OF assms(1,2) this] show ?thesis unfolding sets_record_def by (rule outcome_conseq) auto
qed

text \<open>What a durable write leaves where it raises, alone or before the reading back.\<close>

lemma exclusive_error: "exclusive t m root = (Inl e, root') \<Longrightarrow> root' = root \<or> m root = (Inl e, root')"
  by (auto simp: exclusive_def thenT_def bindT_def liftT_def split: sum.splits)

lemma create_bytes_error:
  assumes "transaction_ok t" "path_ok p" "path_components p = Inr c" "encode_record (tx_env t) p d = Inr raw"
    and "create_immutable_bytes t p raw root = (Inl e, root')"
  shows "slots t root' = slots t root"
proof -
  have "root' = root \<or> (\<exists>u. durable_create_immutable (tx_policy t) c raw root = (Inr u, root') \<and> read_path t p root' = Inl e)"
    using exclusive_error[OF assms(5)[unfolded create_immutable_bytes_def]] assms(3)
    by (auto simp: thenT_def bindT_def liftT_def readT_def split: prod.splits sum.splits dest: durable_error)
  then show ?thesis using read_written[OF assms(1-4), of root] by (auto simp: durable_create_iff)
qed

lemma create_bytes_done:
  assumes "transaction_ok t" "path_ok p" "path_components p = Inr c" "encode_record (tx_env t) p d = Inr raw"
    and "create_immutable_bytes t p raw root = (Inr r, root')"
  shows "slots t root' = (slots t root)(c \<mapsto> d)"
proof -
  have "record_slot c" using assms(2,3) by (auto elim: path_components_slot)
  then show ?thesis
    using assms(1,3,5) records_publish[OF _ _ assms(4)]
    by (auto simp: create_immutable_bytes_def tx_simps transaction_ok_def)
qed

lemma create_done:
  assumes "transaction_ok t" "path_ok p" "path_components p = Inr c" "create_immutable t p d root = (Inr r, root')"
  shows "slots t root' = (slots t root)(c \<mapsto> d)"
  using assms(4) create_bytes_done[OF assms(1-3) encode_new_record] by (auto simp: create_immutable_def tx_simps)

lemma create_error:
  assumes "transaction_ok t" "path_ok p" "path_components p = Inr c" "create_immutable t p d root = (Inl e, root')"
  shows "slots t root' = slots t root"
proof -
  have "root' = root \<or> (\<exists>raw. encode_new (tx_env t) p d = Inr raw \<and> create_immutable_bytes t p raw root = (Inl e, root'))"
    using exclusive_error[OF assms(4)[unfolded create_immutable_def]] by (auto simp: bindT_def liftT_def split: sum.splits)
  then show ?thesis using create_bytes_error[OF assms(1-3) encode_new_record] by blast
qed

lemma swap_error:
  assumes "transaction_ok t" "path_ok p" "path_components p = Inr c" "compare_and_swap t p rvn d root = (Inl e, root')"
  shows "slots t root' = slots t root"
proof -
  have "root' = root \<or> (\<exists>raw. encode_record (tx_env t) p d = Inr raw \<and> compare_and_swap_bytes t p rvn raw root = (Inl e, root'))"
    using exclusive_error[OF assms(4)[unfolded compare_and_swap_def]] by (auto simp: bindT_def liftT_def split: sum.splits)
  then show ?thesis
  proof (elim disjE exE conjE)
    fix raw assume raw: "encode_record (tx_env t) p d = Inr raw" and run: "compare_and_swap_bytes t p rvn raw root = (Inl e, root')"
    have "root' = root \<or> (\<exists>u. durable_replace (tx_policy t) c raw root = (Inr u, root') \<and> read_path t p root' = Inl e)"
      using exclusive_error[OF run[unfolded compare_and_swap_bytes_def]] assms(3)
      by (auto simp: thenT_def bindT_def liftT_def readT_def replace_record_def split: prod.splits sum.splits if_splits dest: durable_error)
    then show ?thesis using read_written[OF assms(1-3) raw, of root] by (auto simp: durable_replace_iff)
  qed simp
qed

lemma repository_writes:
  assumes "commit_sound t s" "path_ok p" "path_components p = Inr c"
  shows "sets_record (commit_records t) (commit_log t) (commit_sound t) c (Some d) (on_root (create_immutable t p d)) s"
    and "sets_record (commit_records t) (commit_log t) (commit_sound t) c (Some d) (on_root (compare_and_swap t p rvn d)) s"
proof -
  have t: "transaction_ok t" using assms(1) by (simp add: commit_sound_def)
  show "sets_record (commit_records t) (commit_log t) (commit_sound t) c (Some d) (on_root (create_immutable t p d)) s"
    by (rule on_root_sets[OF assms(1) create_immutable_implements[OF t assms(2)]])
      (simp_all add: create_done[OF t assms(2,3)] create_error[OF t assms(2,3)])
  show "sets_record (commit_records t) (commit_log t) (commit_sound t) c (Some d) (on_root (compare_and_swap t p rvn d)) s"
    by (rule on_root_sets[OF assms(1) compare_and_swap_implements[OF t assms(2)]])
      (auto elim: compare_and_swap_success[OF t assms(2,3)] simp: swap_error[OF t assms(2,3)])
qed

lemma repository_removes:
  assumes "commit_sound t s" "path_ok p" "path_components p = Inr c"
  shows "sets_record (commit_records t) (commit_log t) (commit_sound t) c None (on_root (remove_reconciled_intent t p removal)) s"
proof (rule on_root_sets[OF assms(1) remove_intent_implements[OF assms(2)]])
  have slot: "record_slot c" using assms(2,3) by (auto elim: path_components_slot)
  have tree: "tree_ok (commit_root s)" using assms(1) by (simp add: commit_sound_def)
  have quiet: "slots t root = slots t (commit_root s)" if "repo_measure_intent_records t (commit_root s) = (r, root)" for r root
    using quiet_repo_measures(3)[where t = t and env = "tx_env t"] that tree
    unfolding leaves_def same_records_def by (metis snd_conv)
  show "slots t root = (slots t (commit_root s))(c := None)"
    if "remove_reconciled_intent t p removal (commit_root s) = (Inr u, root)" for u root
    using that assms(3) quiet records_unlink[OF _ slot] unfolding remove_reconciled_intent_def
    by (auto simp: tx_simps split: if_splits)
  show "slots t root = slots t (commit_root s) \<or> slots t root = (slots t (commit_root s))(c := None)"
    if "remove_reconciled_intent t p removal (commit_root s) = (Inl e, root)" for e root
    using exclusive_error[OF that[unfolded remove_reconciled_intent_def]] assms(3) quiet
    by (auto simp: bindT_def liftT_def readT_def split: sum.splits if_splits prod.splits dest: durable_error)
qed

lemma repository_appends:
  assumes "commit_sound t s"
  shows "outcome (repo_append_audit t allocated d)
    (\<lambda>r u. commit_sound t u \<and> commit_records t u = commit_records t s \<and> commit_log t u = Inr (appended_state r) \<and>
       digest_dict (audit_entry_digest (tx_env t) d) = Inr (audit_terminal_digest (appended_state r)))
    (\<lambda>e u. commit_sound t u \<and> commit_records t u = commit_records t s) s"
  using assms
  by (auto simp: outcome_def repo_append_audit_def append_audit_def Let_def commit_log_def bindE_Inr_iff thenE_Inr
      split: sum.splits prod.splits if_splits)

section \<open>The states of a new tenant\<close>

lemma quiet_outcome:
  assumes "leaves (same_records (tx_env t) (tx_policy t)) m" "tree_ok root" "slots t root = D"
  shows "outcome m (\<lambda>_ u. tree_ok u \<and> slots t u = D) (\<lambda>_ u. tree_ok u \<and> slots t u = D) root"
proof -
  have "same_records (tx_env t) (tx_policy t) root (snd (m root))" using assms(1) by (simp add: leaves_def)
  then show ?thesis using assms(2,3) by (auto simp: outcome_def same_records_def split: prod.splits sum.splits)
qed

text \<open>\<^verbatim>\<open>_ensure_immutable_exact\<close> sets a record that is absent, and keeps one that is there.\<close>

lemma ensure_exact_outcome:
  assumes "transaction_ok t" "path_ok p" "path_components p = Inr c"
    and "tree_ok root" "slots t root = D" "D c \<in> {None, Some d}"
  shows "outcome (ensure_immutable_exact t p d) (\<lambda>_ u. tree_ok u \<and> slots t u = D(c \<mapsto> d)) (\<lambda>_ u. tree_ok u \<and> slots t u = D) root"
proof -
  have tree: "tree_ok (snd (ensure_immutable_exact t p d root))"
    using ensure_immutable_exact_implements[OF assms(1,2), where root = root and d = d] assms(4) by (simp add: refines_def)
  have present: "D(c \<mapsto> d) = D" if "read_path t p root = Inr r" for r
    using read_path_slots(1)[OF that assms(2,3)] assms(5,6) by (auto simp: fun_upd_idem)
  show ?thesis
  proof (cases "encode_new (tx_env t) p d")
    case (Inl e)
    then show ?thesis using assms(4,5) by (simp add: outcome_def ensure_immutable_exact_def)  (simp add: liftT_def)
  next
    case (Inr raw)
    note encoded = encode_new_record[OF Inr]
    show ?thesis
      using Inr tree present assms(4,5) create_bytes_done[OF assms(1-3) encoded, where root = root]
        create_bytes_error[OF assms(1-3) encoded, where root = root]
      by (auto simp: outcome_def ensure_immutable_exact_def split: sum.splits exn.splits prod.splits if_splits)
  qed
qed

lemma exclusive_outcome: "(\<And>e. E e root) \<Longrightarrow> outcome m Q E root \<Longrightarrow> outcome (exclusive t m) Q E root"
  unfolding exclusive_def thenT_def by (rule outcome_bind_lift)

lemma repository_ensures:
  assumes "commit_sound t s" "tenant_desired_path (JStr tid) = Inr p"
    and c: "c = [''tenants'', tid, ''desired.json'']" "c' = [''tenants'', tid, ''observed.json'']"
    and "commit_records t s c \<in> {None, Some d}" "commit_records t s c' \<in> {None, Some d'}"
  shows "outcome (on_root (ensure_create_tenant_state t (JStr tid) d d'))
    (\<lambda>_ u. commit_sound t u \<and> commit_log t u = commit_log t s \<and> commit_records t u = (commit_records t s)(c := Some d, c' := Some d'))
    (\<lambda>_ u. commit_sound t u \<and> commit_log t u = commit_log t s \<and> commit_records t u \<in>
       {commit_records t s, (commit_records t s)(c := Some d), (commit_records t s)(c := Some d, c' := Some d')}) s"
proof -
  have t: "transaction_ok t" and tree: "tree_ok (commit_root s)" using assms(1) by (simp_all add: commit_sound_def)
  define D where "D = slots t (commit_root s)"
  have D: "D c \<in> {None, Some d}" "(D(c \<mapsto> d)) c' \<in> {None, Some d'}"
    using assms(5,6) c by (auto simp: D_def commit_records_def)
  let ?Q = "\<lambda>_ u. slots t u = D(c \<mapsto> d, c' \<mapsto> d')" and ?E = "\<lambda>_ u. slots t u \<in> {D, D(c \<mapsto> d), D(c \<mapsto> d, c' \<mapsto> d')}"
  have quiet: "outcome (bindT m f) ?Q ?E u"
    if "leaves (same_records (tx_env t) (tx_policy t)) m" "tree_ok u" "slots t u = D"
      and "\<And>x v. tree_ok v \<Longrightarrow> slots t v = D \<Longrightarrow> outcome (f x) ?Q ?E v" for m :: "'b repo" and f :: "'b \<Rightarrow> 'c repo" and u
    by (rule outcome_bind[OF outcome_conseq[OF quiet_outcome[OF that(1-3)]]]) (use that(4) in auto)
  have written: "outcome (bindT (liftT (tenant_observed_path (JStr tid))) (\<lambda>observed_path.
      thenT (ensure_immutable_exact t observed_path d') (liftT (Inr ())))) ?Q ?E u"
    if "tree_ok u" "slots t u = D(c \<mapsto> d)" for u
  proof (rule outcome_bind_lift)
    fix q assume q: "tenant_observed_path (JStr tid) = Inr q"
    have slot: "path_components q = Inr c'"
      using q by (auto simp: c path_constructor_defs path_components_def tenant_components_def bindE_Inr_iff uuid7_iff)
    show "outcome (thenT (ensure_immutable_exact t q d') (liftT (Inr ()))) ?Q ?E u"
      by (rule outcome_then[OF outcome_conseq[OF ensure_exact_outcome[OF t constructed_path_ok(4)[OF q] slot that D(2)]]],
          assumption) (use that(2) in \<open>auto intro!: outcome_lift\<close>)
  qed (use that in auto)
  have slot: "path_components p = Inr c"
    using assms(2) by (auto simp: c path_constructor_defs path_components_def tenant_components_def bindE_Inr_iff uuid7_iff)
  have both: "outcome (ensure_create_tenant_state t (JStr tid) d d') ?Q ?E (commit_root s)"
    unfolding ensure_create_tenant_state_def thenT_def
  proof (rule exclusive_outcome, simp add: D_def, rule outcome_bind_lift, rule quiet[OF quiet_require_create_intent tree D_def[symmetric]],
      rule outcome_bind_lift, rule quiet[OF ensure_namespace_same[OF t]], assumption+,
      rule quiet[OF quiet_empty_namespace], assumption+, rule outcome_bind_lift)
    fix i intent u1 x1 u2 y1 u3 z1 q
    assume i: "validate_uuid7 (JStr tid) = Inr i" and u3: "tree_ok u3" "slots t u3 = D" and q: "tenant_desired_path (JStr i) = Inr q"
    have iq: "i = tid" "q = p" using i q assms(2) by (auto simp: uuid7_iff)
    show "outcome (bindT (ensure_immutable_exact t q d) (\<lambda>_. bindT (liftT (tenant_observed_path (JStr i))) (\<lambda>observed_path.
        bindT (ensure_immutable_exact t observed_path d') (\<lambda>_. liftT (Inr ()))))) ?Q ?E u3"
      unfolding iq thenT_def[symmetric]
      by (rule outcome_then[OF outcome_conseq[OF ensure_exact_outcome[OF t constructed_path_ok(3)[OF assms(2)] slot u3 D(1)]]],
          assumption) (use written in auto)
  qed (auto simp: D_def)
  have "outcome (on_root (ensure_create_tenant_state t (JStr tid) d d'))
    (\<lambda>_ u. commit_sound t u \<and> commit_log t u = commit_log t s \<and> commit_records t u = D(c \<mapsto> d, c' \<mapsto> d'))
    (\<lambda>_ u. commit_sound t u \<and> commit_log t u = commit_log t s \<and>
       commit_records t u \<in> {D, D(c \<mapsto> d), D(c \<mapsto> d, c' \<mapsto> d')}) s"
    by (rule on_root_outcome[OF assms(1)], rule ensure_state_implements[OF t], rule outcome_conseq[OF both]) simp_all
  then show ?thesis by (simp add: D_def commit_records_def)
qed

section \<open>The repository keeps its promises\<close>

lemma on_root_observes:
  "leaves (same_commit t) (on_root (transaction_read t p))" "leaves (same_commit t) (on_root (repo_measure_inventory t))"
  "leaves (same_commit t) (on_root (repo_measure_intent_records t))" "leaves (same_commit t) (on_root (repo_read_intent t i))"
  "leaves (same_commit t) (on_root (admit_inventory t reservation))"
  "leaves (same_commit t) (on_root (measure_create_tenant_namespace_growth t tenant))"
  unfolding repo_read_intent_def
  by (intro on_root_leaves quiet_transaction_read quiet_repo_measures quiet_growth quiet_exclusive quiet_intros)+

interpretation repo_commit: create_store "tx_env t" "repository_commit t allocated" "commit_records t" "commit_log t" "commit_sound t"
  for t allocated
  by unfold_locales
    (rule repository_ensures[THEN outcome_conseq] |
     simp add: repository_commit_def on_root_observes inspect_leaves same_view_intros repository_reads repository_inspects
      repository_no_intents repository_writes repository_removes repository_appends)+

end
