(* ===== verification/Commit_Properties.thy ===== *)
theory Commit_Properties
  imports Repository_Commit Plan_Coherence
begin

text \<open>
  What the terminal commit of a create guarantees on the state repository: one run either completes or
  can be repeated, and any number of interrupted runs ends where one run would have ended. What the
  planner plans is accepted, and one thing that should be refused is not.
\<close>

section \<open>One commit\<close>


section \<open>Interrupted and repeated commits\<close>

text \<open>The attempts of a worker and of the recoveries after it, each with the boundary at which it fails, if any.\<close>

fun commit_attempts ::
    "state_transaction \<Rightarrow> (Segments \<Rightarrow> int) \<Rightarrow> StoredContract \<Rightarrow> TransitionPlan \<Rightarrow> HostCapacityLimits
       \<Rightarrow> (CreateCommitBoundary \<Rightarrow> unit py) list \<Rightarrow> commit_state \<Rightarrow> CommitOutcome py list \<times> commit_state" where
  "commit_attempts t allocated job plan limits [] s = ([], s)"
| "commit_attempts t allocated job plan limits (hook # hooks) s =
     (case finalize_create_transition_outcome (tx_env t) (repository_commit t allocated) job plan limits hook s of (r, u) \<Rightarrow>
      case commit_attempts t allocated job plan limits hooks u of (rs, v) \<Rightarrow> (r # rs, v))"

definition created_by :: "CommitOutcome py \<Rightarrow> bool" where
  "created_by r = (case r of Inr x \<Rightarrow> outcome_created x | Inl e \<Rightarrow> False)"

lemma attempt_step:
  assumes "commit_sound t s"
    and "finalize_create_transition_outcome (tx_env t) (repository_commit t allocated) job plan limits hook s = (r, u)"
  obtains j where "commit_sound t u" "j \<le> 5" "commit_records t u = commit_stage plan (stored_document job) j (commit_records t s)"
    "\<And>x. r = Inr x \<Longrightarrow> j = 5 \<and> outcome_result x = plan_result plan"
    "created_by r \<Longrightarrow> commit_records t s (result_slot (stored_document job)) = None \<and> j = 5"
  using repo_commit.create_commit_outcome[OF assms(1), of allocated job plan limits hook] assms(2)
  by (cases r) (auto simp: outcome_def commit_interrupted_def created_by_def)


section \<open>From the planner to the commit\<close>

text \<open>The documents of a create plan.\<close>

abbreviation create_observed :: "string \<Rightarrow> json \<Rightarrow> string \<Rightarrow> json" where
  "create_observed tid digest ts \<equiv> observed_document tid digest UNDEPLOYED JNull JNull ts"

abbreviation create_recovery :: "string \<Rightarrow> json \<Rightarrow> string \<Rightarrow> json" where
  "create_recovery src observed cand \<equiv> recovery_document JNull src (JStr ''absent'') observed cand (JStr ''absent'')"

abbreviation create_intent :: "string \<Rightarrow> string \<Rightarrow> json \<Rightarrow> string \<Rightarrow> string \<Rightarrow> json \<Rightarrow> json \<Rightarrow> string \<Rightarrow> json" where
  "create_intent iid tid correlation src cand m digest ts \<equiv>
     intent_document iid tid correlation CREATE JNull (create_recovery src (create_observed tid digest ts) cand)
       JNull JNull m digest ts"

abbreviation create_metadata :: "string \<Rightarrow> string \<Rightarrow> string \<Rightarrow> json" where
  "create_metadata tid slug_name origin \<equiv> obj [(''id'', JStr tid), (''slug'', JStr slug_name), (''canonicalOrigin'', JStr origin)]"

abbreviation create_spec :: "json \<Rightarrow> json" where
  "create_spec quotas \<equiv> obj [(''runtime'', JStr ''static''), (''desiredState'', JStr ''undeployed''), (''quotas'', quotas)]"

abbreviation create_manifest :: "string \<Rightarrow> string \<Rightarrow> string \<Rightarrow> json \<Rightarrow> json" where
  "create_manifest tid slug_name origin quotas \<equiv>
     obj [(''apiVersion'', JStr ''hosting.lowerduckpond.net/v1alpha1''), (''kind'', JStr ''Site''),
          (''metadata'', create_metadata tid slug_name origin), (''spec'', create_spec quotas)]"

abbreviation create_result :: "json \<Rightarrow> json \<Rightarrow> string \<Rightarrow> string \<Rightarrow> json \<Rightarrow> json" where
  "create_result job_id correlation tid origin m \<equiv> obj (result_members job_id correlation CREATE tid (JStr origin) m)"

lemma create_request_made:
  assumes "mk_ValidatedCreateRequest s storage ents = Inr r"
  shows "s = JStr (slug r) \<and> storage = JInt (storage_mib r) \<and> ents = JInt (entries r)"
  using assms by (cases storage; cases ents) (auto simp: mk_ValidatedCreateRequest_def bindE_Inr_iff slug_iff split: if_splits)

lemma create_request_members:
  assumes "materialize_create_request env request = Inr r"
  shows "getitem request ''operation'' = lit ''create''" "getitem request ''slug'' = lit (slug r)" "is_dict request"
    "getitem request ''quotas'' = Inr (obj [(''storageMiB'', a), (''entries'', b)]) \<Longrightarrow>
      a = JInt (storage_mib r) \<and> b = JInt (entries r)"
  using assms by (auto simp: materialize_create_request_def plan_unfold split: if_splits dest: getitem_is_dict dest!: create_request_made)

lemma audit_entry_valid:
  assumes "successful_audit_entry env job op tid result audit ts = Inr entry"
  shows "validate_contract env entry (Some AUDIT_ENTRY) = Inr AUDIT_ENTRY"
  using assms by (auto simp: successful_audit_entry_def plan_unfold dest: validate_contract_kind)

lemma audit_entry_items:
  assumes "successful_audit_entry env job op tid result audit ts = Inr entry" "getitem job ''request'' = Inr request"
  shows "getitem entry ''tenantId'' = lit tid" "getitem entry ''correlationId'' = getitem request ''correlationId''"
    "getitem entry ''operatorPrincipal'' = getitem job ''operatorPrincipal''" "getitem entry ''operation'' = lit (operation_value op)"
    "getitem entry ''resultStatus'' = lit ''succeeded''" "getitem entry ''timestamp'' = lit ts"
    "getitem entry ''resultDigest'' = digest_dict (result_digest env result)"
    "is_ok (getitem job ''operatorPrincipal'')" "is_ok (digest_dict (result_digest env result))"
  using assms by (auto simp: successful_audit_entry_def plan_unfold is_ok_iff)

lemma planned_create:
  assumes "plan_create_transition env job namespace ctx = Inr plan" "getitem job ''request'' = Inr request"
    and "getitem request ''quotas'' = Inr (obj [(''storageMiB'', a), (''entries'', b)])"
  obtains tid iid digest ts src cand slug_name origin correlation job_id where
    "plan_tenant_id plan = tid" "plan_intent_id plan = iid"
    "plan_manifest plan = create_manifest tid slug_name origin (obj [(''storageMiB'', a), (''entries'', b)])"
    "plan_observed_state plan = create_observed tid digest ts"
    "plan_intent plan = create_intent iid tid correlation src cand (plan_manifest plan) digest ts"
    "plan_result plan = create_result job_id correlation tid origin (plan_manifest plan)"
    "getitem request ''operation'' = lit ''create''" "getitem request ''slug'' = lit slug_name" "is_dict request"
    "getitem request ''correlationId'' = Inr correlation" "getitem job ''jobId'' = Inr job_id" "getitem job ''phase'' = lit ''claimed''"
    "digest_dict (manifest_digest env (plan_manifest plan)) = Inr digest" "src \<noteq> cand"
    "validate_contract env (plan_observed_state plan) (Some TENANT_OBSERVED_STATE) = Inr TENANT_OBSERVED_STATE"
    "validate_contract env (plan_intent plan) (Some TRANSACTION_INTENT) = Inr TRANSACTION_INTENT"
    "validate_contract env (plan_result plan) (Some OPERATION_RESULT) = Inr OPERATION_RESULT"
    "successful_audit_entry env job CREATE tid (plan_result plan) (ctx_audit_state ctx) ts = Inr (plan_audit_entry plan)"
proof -
  obtain r ns src cand ts created digest iid correlation job_id entry k1 k2 k3 where p:
    "getitem job ''phase'' = lit ''claimed''" "materialize_create_request env request = Inr r"
    "src \<noteq> cand" "construct_create_manifest r ns (ctx_readings ctx 0) = Inr created"
    "digest_dict (manifest_digest env (manifest created)) = Inr digest"
    "getitem request ''correlationId'' = Inr correlation" "getitem job ''jobId'' = Inr job_id"
    and valid: "validate_contract env (create_observed (tenant_id created) digest ts) (Some TENANT_OBSERVED_STATE) = Inr k1"
    "validate_contract env (create_intent iid (tenant_id created) correlation src cand (manifest created) digest ts)
       (Some TRANSACTION_INTENT) = Inr k2"
    "validate_contract env (create_result job_id correlation (tenant_id created) (canonical_origin created) (manifest created))
       (Some OPERATION_RESULT) = Inr k3"
    and entry: "successful_audit_entry env job CREATE (tenant_id created)
      (create_result job_id correlation (tenant_id created) (canonical_origin created) (manifest created)) (ctx_audit_state ctx) ts = Inr entry"
    and plan: "plan = \<lparr>plan_tenant_id = tenant_id created, plan_intent_id = iid, plan_manifest = manifest created,
       plan_observed_state = create_observed (tenant_id created) digest ts,
       plan_intent = create_intent iid (tenant_id created) correlation src cand (manifest created) digest ts,
       plan_result = create_result job_id correlation (tenant_id created) (canonical_origin created) (manifest created),
       plan_audit_entry = entry\<rparr>"
    using assms(1) unfolding plan_create_transition_def assms(2) plan_unfold check_simps if_Inl_Inr_iff by blast
  note members = create_request_members[OF p(2)]
  have made: "manifest created = create_manifest (tenant_id created) (slug r) (canonical_origin created)
      (obj [(''storageMiB'', a), (''entries'', b)])"
    using p(4) members(4)[OF assms(3)] by (auto simp: construct_create_manifest_def plan_unfold)
  show thesis
    by (rule that[where tid = "tenant_id created" and iid = iid and digest = digest and ts = ts and src = src and cand = cand and
        slug_name = "slug r" and origin = "canonical_origin created" and correlation = correlation and job_id = job_id])
      (use made p members valid entry plan validate_contract_kind in auto)
qed

text \<open>The members of these documents.\<close>

lemma created_result:
  assumes "d = create_result job_id correlation tid origin m"
  shows "getitem d ''provenance'' = Inr (obj [(''kind'', JStr ''authorization-job''), (''jobId'', job_id)])"
    "getitem d ''operation'' = lit ''create''" "getitem d ''status'' = lit ''succeeded''" "getitem d ''tenantId'' = lit tid"
    "getitem d ''correlationId'' = Inr correlation" "getitem d ''manifest'' = Inr m"
  by (simp_all add: assms result_members_def)

lemma created_observed:
  assumes "d = create_observed tid digest ts"
  shows "getitem d ''desiredManifestDigest'' = Inr digest" "getitem d ''observedState'' = lit ''undeployed''"
    "getitem d ''activeDeploymentId'' = none_lit" "getitem d ''runtimeGenerationId'' = none_lit"
    "getitem d ''tenantId'' = lit tid" "getitem d ''reconciledAt'' = lit ts"
  by (simp_all add: assms observed_document_def)

lemma created_intent:
  assumes "d = create_intent iid tid correlation src cand m digest ts"
  shows "getitem d ''lifecycleRecovery'' = Inr (create_recovery src (create_observed tid digest ts) cand)"
    "getitem d ''operation'' = lit ''create''" "getitem d ''phase'' = lit ''prepared''" "dict_get d ''sourceManifest'' = none_lit"
    "getitem d ''sourceManifestDigest'' = none_lit" "getitem d ''candidateManifestDigest'' = Inr digest"
    "getitem d ''intentId'' = lit iid" "getitem d ''tenantId'' = lit tid" "getitem d ''correlationId'' = Inr correlation"
    "getitem d ''createdAt'' = lit ts"
  by (simp_all add: assms intent_document_def)

lemma created_recovery:
  assumes "d = create_recovery src observed cand"
  shows "getitem d ''sourceObservedState'' = none_lit" "getitem d ''sourceRouteSet'' = lit ''absent''"
    "getitem d ''candidateObservedState'' = Inr observed" "getitem d ''candidateRouteSet'' = lit ''absent''"
    "getitem d ''sourceRuntimeGenerationId'' = lit src" "getitem d ''candidateRuntimeGenerationId'' = lit cand" "is_dict d"
  by (simp_all add: assms recovery_document_def)

lemma created_manifest:
  assumes "d = create_manifest tid slug_name origin quotas"
  shows "getitem d ''spec'' = Inr (create_spec quotas)" "getitem d ''metadata'' = Inr (create_metadata tid slug_name origin)"
  by (simp_all add: assms)

lemma planned_create_freezes:
  assumes "plan_create_transition env (stored_document job) namespace ctx = Inr plan"
    and "getitem (stored_document job) ''request'' = Inr request"
    and "getitem request ''quotas'' = Inr (obj [(''storageMiB'', a), (''entries'', b)])"
  shows "create_freeze_and_validate env job plan = Inr plan"
  using assms(1)
proof (rule planned_create[OF _ assms(2,3)])
  let ?d = "stored_document job"
  fix tid iid digest ts src cand slug_name origin correlation job_id
  assume ids: "plan_tenant_id plan = tid" "plan_intent_id plan = iid"
    and manifest: "plan_manifest plan = create_manifest tid slug_name origin (obj [(''storageMiB'', a), (''entries'', b)])"
    and observed: "plan_observed_state plan = create_observed tid digest ts"
    and intent: "plan_intent plan = create_intent iid tid correlation src cand (plan_manifest plan) digest ts"
    and result: "plan_result plan = create_result job_id correlation tid origin (plan_manifest plan)"
    and request: "getitem request ''operation'' = lit ''create''" "getitem request ''slug'' = lit slug_name" "is_dict request"
      "getitem request ''correlationId'' = Inr correlation"
    and job: "getitem ?d ''jobId'' = Inr job_id" "getitem ?d ''phase'' = lit ''claimed''"
    and digest: "digest_dict (manifest_digest env (plan_manifest plan)) = Inr digest" "src \<noteq> cand"
    and valid: "validate_contract env (plan_observed_state plan) (Some TENANT_OBSERVED_STATE) = Inr TENANT_OBSERVED_STATE"
      "validate_contract env (plan_intent plan) (Some TRANSACTION_INTENT) = Inr TRANSACTION_INTENT"
      "validate_contract env (plan_result plan) (Some OPERATION_RESULT) = Inr OPERATION_RESULT"
    and entry: "successful_audit_entry env ?d CREATE tid (plan_result plan) (ctx_audit_state ctx) ts = Inr (plan_audit_entry plan)"
  note items = created_result[OF result] created_observed[OF observed] created_manifest[OF manifest] created_intent[OF intent]
    created_recovery[OF refl] audit_entry_items(1-7)[OF entry assms(2)]
  have agree: "create_documents_disagree ?d plan request (obj [(''kind'', JStr ''authorization-job''), (''jobId'', job_id)])
      (create_metadata tid slug_name origin) (create_spec (obj [(''storageMiB'', a), (''entries'', b)]))
      (create_recovery src (create_observed tid digest ts) cand) digest (digest_dict (result_digest env (plan_result plan))) = Inr False"
    using digest(2) audit_entry_items(8,9)[OF entry assms(2)]
    by (auto simp: create_documents_disagree_def Let_def phase_dispatched_def ids request assms(3) job items is_ok_iff
        observed[symmetric] anyE.simps neqE_def eqE_def andE_def testE_def)
  show ?thesis
    using manifest_digest_binding[OF digest(1)]
    by (simp add: create_freeze_and_validate_def thenE_def Let_def valid audit_entry_valid[OF entry] assms(2) items request(3)
        digest(1) agree)
qed

text \<open>C23. What the planner plans, the commit accepts: the documents of every create plan pass all that is compared
  before they are published, when the quotas of the request have the two members that its schema
  allows.\<close>

theorem planned_create_accepted:
  assumes "plan_create_transition env (stored_document job) namespace ctx = Inr plan"
    and "getitem (stored_document job) ''request'' = Inr request"
    and "getitem request ''quotas'' = Inr (obj [(''storageMiB'', a), (''entries'', b)])"
  shows "validate_create_transition env job plan = Inr ()"
  using planned_create_freezes[OF assms] by (simp add: validate_create_transition_def thenE_def)

text \<open>C24. What the commit does not check: the tenant identities and the correlations of the documents are compared
  with a chained \<^verbatim>\<open>!=\<close>, which holds only where every neighbouring pair differs. In an accepted plan the
  identity of the plan is that of the manifest, so that no later identity is compared at all: an audit
  entry that names any other tenant is accepted as well.\<close>

theorem create_commit_entry_unbound:
  assumes "create_freeze_and_validate env job plan = Inr plan"
    and "getitem (plan_manifest plan) ''metadata'' = Inr metadata" "getitem metadata ''id'' = lit (plan_tenant_id plan)"
    and "setitem (plan_audit_entry plan) ''tenantId'' other = Inr entry"
    and "validate_contract env entry (Some AUDIT_ENTRY) = Inr AUDIT_ENTRY"
  shows "create_freeze_and_validate env job (plan\<lparr>plan_audit_entry := entry\<rparr>) = Inr (plan\<lparr>plan_audit_entry := entry\<rparr>)"
proof -
  have same: "getitem entry k = getitem (plan_audit_entry plan) k" if "k \<noteq> ''tenantId''" for k
    using getitem_setitem[OF assms(4)] that by simp
  have chain: "chained_neqE (lit (plan_tenant_id plan) # getitem metadata ''id'' # vs) = Inr False" for vs
    by (simp add: assms(3) neqE_def andE_def)
  have agree: "create_documents_disagree d (plan\<lparr>plan_audit_entry := entry\<rparr>) request provenance metadata spec recovery digest r =
      create_documents_disagree d plan request provenance metadata spec recovery digest r" for d request provenance spec recovery digest r
    by (simp add: create_documents_disagree_def Let_def same chain del: chained_neqE.simps)
  obtain k1 k2 k3 k4 request provenance spec recovery digest disagree where accepted:
    "validate_contract env (plan_manifest plan) (Some SITE) = Inr k1"
    "validate_contract env (plan_observed_state plan) (Some TENANT_OBSERVED_STATE) = Inr k2"
    "validate_contract env (plan_intent plan) (Some TRANSACTION_INTENT) = Inr k3"
    "validate_contract env (plan_result plan) (Some OPERATION_RESULT) = Inr k4"
    "getitem (stored_document job) ''request'' = Inr request" "getitem (plan_result plan) ''provenance'' = Inr provenance"
    "getitem (plan_manifest plan) ''spec'' = Inr spec" "getitem (plan_intent plan) ''lifecycleRecovery'' = Inr recovery"
    "list_all is_dict [request, provenance, metadata, spec, recovery]"
    "digest_dict (manifest_digest env (plan_manifest plan)) = Inr digest"
    "create_documents_disagree (stored_document job) plan request provenance metadata spec recovery digest
       (digest_dict (result_digest env (plan_result plan))) = Inr disagree" "\<not> disagree"
    using assms(1) unfolding create_freeze_and_validate_def Let_def thenE_Inr bindE_Inr_iff if_Inl_Inr_iff assms(2) sum.inject not_not
    by blast
  then show ?thesis
    using assms(2,5) by (simp add: create_freeze_and_validate_def thenE_def Let_def agree)
qed

end
