(* ===== verification/Route_Commit.thy ===== *)
theory Route_Commit
  imports Commit_Steps
begin

text \<open>
  Model of \<^verbatim>\<open>static_host_agent/route_commit.py\<close>: the terminal commit of a transition that only changes
  routes (suspend, resume, rename, reconcile). It replaces the two states of the tenant in turn, from
  the source its intent records, and then ends as every commit does.
\<close>

datatype RouteCommitBoundary = DESIRED_STATE_SYNC | OBSERVED_STATE_SYNC
  | ROUTE_AUDIT_SYNC | ROUTE_RESULT_SYNC | ROUTE_JOB_SYNC | ROUTE_INTENT_REMOVED

record 's route_transaction = "'s commit_transaction" +
  do_admit_audit_append :: "json \<Rightarrow> ('s, AuditState) tx"

definition route_module :: commit_module where
  "route_module = \<lparr>commit_exn = RouteCommitError, commit_name = ''route'', commit_subject = ''route transition''\<rparr>"

record RouteDocuments = TransitionPlan +
  route_source_manifest :: json
  route_source_observed_state :: json

definition route_documents :: "TransitionPlan \<Rightarrow> json \<Rightarrow> json \<Rightarrow> RouteDocuments" where
  "route_documents plan source observed = TransitionPlan.extend plan (RouteDocuments.fields source observed)"

section \<open>Validating the documents\<close>

definition route_operation :: "json \<Rightarrow> Operation py" where
  "route_operation v =
     bindE (mapE (\<lambda>_. RouteCommitError ''route operation is malformed'') (Operation_of v)) (\<lambda>operation.
     if operation \<notin> {SUSPEND, RESUME, RENAME, RECONCILE}
     then Inl (RouteCommitError ''route finalization received another operation'')
     else Inr operation)"

definition route_expected_candidate :: "json \<Rightarrow> json \<Rightarrow> Operation \<Rightarrow> LifecycleState \<Rightarrow> json py" where
  "route_expected_candidate source request operation target_state =
     (if operation = RENAME
      then bindE (dict_get request ''slug'') (setitem2 source ''metadata'' ''slug'')
      else setitem2 source ''spec'' ''desiredState'' (JStr (state_value target_state)))"

text \<open>The comparisons, in the order of the code; the digests and the candidate are computed before.\<close>

definition route_source_disagrees ::
    "json \<Rightarrow> RouteDocuments \<Rightarrow> json \<Rightarrow> json \<Rightarrow> Operation \<Rightarrow> LifecycleState \<Rightarrow> LifecycleState \<Rightarrow> json \<Rightarrow> json \<Rightarrow> json \<Rightarrow> bool py list" where
  "route_source_disagrees job documents expected_source recovery operation source_state target_state
     wanted_candidate source_digest candidate_digest =
     (let intent = plan_intent documents; source_observed = route_source_observed_state documents in
       [testE Not (phase_dispatched job),
        neqE (dict_get job ''compatibilityVersion'') (lit ''static-job-v2''),
        neqE (dict_get intent ''compatibilityVersion'') (lit ''static-intent-v2''),
        neqE (getitem intent ''operation'') (lit (operation_value operation)),
        neqE (getitem intent ''phase'') (lit ''prepared''),
        neqE (dict_get intent ''archiveRecovery'') none_lit,
        neqE (dict_get intent ''sourceManifest'') (Inr (route_source_manifest documents)),
        neqE (dict_get intent ''candidateManifest'') (Inr (plan_manifest documents)),
        neqE (getitem intent ''sourceManifestDigest'') (Inr source_digest),
        neqE (getitem intent ''candidateManifestDigest'') (Inr candidate_digest),
        Inr (plan_manifest documents \<noteq> wanted_candidate),
        neqE (dict_get expected_source ''expectsTenantAbsent'') (Inr (JBool False)),
        neqE (dict_get expected_source ''lifecycle'') (lit (state_value source_state)),
        neqE (dict_get expected_source ''manifestDigest'') (Inr source_digest),
        neqE (dict_get recovery ''sourceObservedState'') (Inr source_observed),
        neqE (dict_get recovery ''candidateObservedState'') (Inr (plan_observed_state documents)),
        neqE (dict_get job ''dispatchSourceObservedState'') (dict_get recovery ''sourceObservedState''),
        neqE (dict_get job ''dispatchSourceRuntimeGenerationId'') (dict_get recovery ''sourceRuntimeGenerationId''),
        neqE (dict_get job ''dispatchSourceRouteSet'') (dict_get recovery ''sourceRouteSet''),
        andE (Inr (operation \<noteq> RECONCILE)) (neqE (dict_get recovery ''sourceRouteSet'') (Inr (state_routes source_state))),
        neqE (dict_get recovery ''candidateRouteSet'') (Inr (state_routes target_state)),
        eqE (dict_get recovery ''sourceRuntimeGenerationId'') (dict_get recovery ''candidateRuntimeGenerationId''),
        andE (Inr (operation \<noteq> RECONCILE))
          (anyE [neqE (dict_get source_observed ''desiredManifestDigest'') (Inr source_digest),
                 neqE (dict_get source_observed ''observedState'') (lit (state_value source_state))])])"

definition route_outcome_disagrees ::
    "contract_env \<Rightarrow> json \<Rightarrow> RouteDocuments \<Rightarrow> json \<Rightarrow> json \<Rightarrow> json \<Rightarrow> json \<Rightarrow> Operation \<Rightarrow> LifecycleState \<Rightarrow> json \<Rightarrow> bool py list" where
  "route_outcome_disagrees env job documents request provenance recovery source_metadata operation target_state candidate_digest =
     (let intent = plan_intent documents; observed = plan_observed_state documents; result = plan_result documents;
          entry = plan_audit_entry documents; op = lit (operation_value operation) in
       [neqE (dict_get observed ''desiredManifestDigest'') (Inr candidate_digest),
        neqE (dict_get observed ''observedState'') (lit (state_value target_state)),
        neqE (dict_get observed ''runtimeGenerationId'')
          (if target_state = ACTIVE then dict_get recovery ''candidateRuntimeGenerationId'' else none_lit),
        neqE (Inr provenance) (bindE (getitem job ''jobId'') (\<lambda>job_id.
          Inr (obj [(''kind'', JStr ''authorization-job''), (''jobId'', job_id)]))),
        neqE (lit (plan_intent_id documents)) (getitem intent ''intentId''),
        chained_neqE [lit (plan_tenant_id documents), getitem source_metadata ''id'',
          getitem (route_source_observed_state documents) ''tenantId'', getitem observed ''tenantId'',
          getitem intent ''tenantId'', getitem result ''tenantId'', getitem entry ''tenantId''],
        neqE (dict_get request ''tenantId'') (lit (plan_tenant_id documents)),
        chained_neqE [getitem result ''correlationId'', dict_get request ''correlationId'',
          getitem intent ''correlationId'', getitem entry ''correlationId''],
        neqE (dict_get result ''manifest'') (Inr (plan_manifest documents)),
        neqE (getitem result ''canonicalOrigin'') (getitem source_metadata ''canonicalOrigin''),
        neqE (getitem result ''operation'') op,
        neqE (getitem result ''status'') (lit ''succeeded''),
        neqE (getitem entry ''operatorPrincipal'') (getitem job ''operatorPrincipal''),
        neqE (getitem entry ''operation'') op,
        neqE (getitem entry ''resultStatus'') (lit ''succeeded''),
        neqE (getitem entry ''timestamp'') (getitem intent ''createdAt''),
        neqE (getitem entry ''timestamp'') (getitem observed ''reconciledAt''),
        neqE (getitem entry ''resultDigest'') (digest_dict (result_digest env result))])"

definition route_validate_relationships :: "contract_env \<Rightarrow> json \<Rightarrow> RouteDocuments \<Rightarrow> unit py" where
  "route_validate_relationships env job documents =
     bindE (getitem job ''request'') (\<lambda>request.
     bindE (getitem job ''expectedSource'') (\<lambda>expected_source.
     bindE (getitem (plan_result documents) ''provenance'') (\<lambda>provenance.
     bindE (getitem (plan_intent documents) ''lifecycleRecovery'') (\<lambda>recovery.
     bindE (getitem (route_source_manifest documents) ''metadata'') (\<lambda>source_metadata.
     bindE (getitem (route_source_manifest documents) ''spec'') (\<lambda>source_spec.
     if \<not> list_all is_dict [request, expected_source, provenance, recovery, source_metadata, source_spec]
     then Inl (RouteCommitError ''route terminal binding is malformed'')
     else
     bindE (bindE (dict_get request ''operation'') route_operation) (\<lambda>operation.
     bindE (bindE (getitem source_spec ''desiredState'') LifecycleState_of) (\<lambda>source_state.
     case LIFECYCLE_MATRIX (operation, source_state) of
       None \<Rightarrow> Inl (RouteCommitError ''route operation is not valid for its source lifecycle'')
     | Some target_state \<Rightarrow>
     bindE (route_expected_candidate (route_source_manifest documents) request operation target_state) (\<lambda>wanted_candidate.
     bindE (digest_dict (manifest_digest env (route_source_manifest documents))) (\<lambda>source_digest.
     bindE (digest_dict (manifest_digest env (plan_manifest documents))) (\<lambda>candidate_digest.
     bindE (anyE (route_source_disagrees job documents expected_source recovery operation source_state target_state
                    wanted_candidate source_digest candidate_digest
                  @ route_outcome_disagrees env job documents request provenance recovery source_metadata operation
                      target_state candidate_digest)) (\<lambda>disagree.
     if disagree then Inl (RouteCommitError ''route terminal documents disagree'') else Inr ()))))))))))))"

definition route_freeze_and_validate :: "contract_env \<Rightarrow> StoredContract \<Rightarrow> TransitionPlan \<Rightarrow> RouteDocuments py" where
  "route_freeze_and_validate env job plan =
     bindE (dict_get (plan_intent plan) ''sourceManifest'') (\<lambda>source_manifest.
     bindE (dict_get (plan_intent plan) ''lifecycleRecovery'') (\<lambda>recovery.
     if \<not> is_dict source_manifest \<or> \<not> is_dict recovery then Inl (RouteCommitError ''route recovery authority is malformed'')
     else
     bindE (dict_get recovery ''sourceObservedState'') (\<lambda>source_observed.
     if \<not> is_dict source_observed then Inl (RouteCommitError ''route source observed-state authority is malformed'')
     else
     let documents = route_documents plan source_manifest source_observed in
     thenE (validate_contract env source_manifest (Some SITE))
     (thenE (validate_contract env (plan_manifest plan) (Some SITE))
     (thenE (validate_contract env source_observed (Some TENANT_OBSERVED_STATE))
     (thenE (validate_contract env (plan_observed_state plan) (Some TENANT_OBSERVED_STATE))
     (thenE (validate_contract env (plan_intent plan) (Some TRANSACTION_INTENT))
     (thenE (validate_contract env (plan_result plan) (Some OPERATION_RESULT))
     (thenE (validate_contract env (plan_audit_entry plan) (Some AUDIT_ENTRY))
     (thenE (route_validate_relationships env (stored_document job) documents) (Inr documents)))))))))))"

definition validate_route_transition :: "contract_env \<Rightarrow> StoredContract \<Rightarrow> TransitionPlan \<Rightarrow> unit py" where
  "validate_route_transition env job plan = thenE (route_freeze_and_validate env job plan) (Inr ())"

section \<open>The common steps\<close>

definition route_require_same_job :: "('s, 'z) commit_transaction_scheme \<Rightarrow> StoredContract \<Rightarrow> ('s, StoredContract) tx" where
  "route_require_same_job = require_same_job route_module"

definition route_require_exact_intent :: "('s, 'z) commit_transaction_scheme \<Rightarrow> RouteDocuments \<Rightarrow> ('s, ExactIntent) tx" where
  "route_require_exact_intent T documents =
     require_exact_intent route_module T (plan_intent_id documents) (plan_intent documents)"

definition terminal_route_without_intent ::
    "contract_env \<Rightarrow> ('s, 'z) commit_transaction_scheme \<Rightarrow> StoredContract \<Rightarrow> RouteDocuments \<Rightarrow> ('s, json option) tx" where
  "terminal_route_without_intent = terminal_without_intent route_module"

definition route_audit_needs_append :: "contract_env \<Rightarrow> AuditState \<Rightarrow> json \<Rightarrow> bool py" where
  "route_audit_needs_append = audit_needs_append route_module"

definition route_ensure_audit :: "contract_env \<Rightarrow> ('s, 'z) commit_transaction_scheme \<Rightarrow> json \<Rightarrow> ('s, unit) tx" where
  "route_ensure_audit = ensure_audit route_module"

definition route_ensure_result ::
    "('s, 'z) commit_transaction_scheme \<Rightarrow> StoredContract \<Rightarrow> json \<Rightarrow> bool \<Rightarrow> ('s, unit) tx" where
  "route_ensure_result = ensure_result route_module"

definition route_ensure_completed_job :: "('s, 'z) commit_transaction_scheme \<Rightarrow> StoredContract \<Rightarrow> ('s, unit) tx" where
  "route_ensure_completed_job = ensure_completed_job"

section \<open>Admission\<close>

record RouteProgress =
  progress_desired :: StoredContract
  progress_observed :: StoredContract
  write_desired :: bool
  write_observed :: bool
  progress_result_missing :: bool

definition route_result_missing ::
    "('s, 'z) commit_transaction_scheme \<Rightarrow> StateRecordPath \<Rightarrow> json \<Rightarrow> ('s, bool) tx" where
  "route_result_missing = result_is_missing route_module"

text \<open>What the writes need: the record of a missing result, the records that are replaced, an audit segment.\<close>

definition route_admit_writes ::
    "contract_env \<Rightarrow> ('s, 'z) commit_transaction_scheme \<Rightarrow> json \<Rightarrow> bool \<Rightarrow> json list \<Rightarrow> bool \<Rightarrow> HostCapacityLimits \<Rightarrow> ('s, unit) tx" where
  "route_admit_writes env T result result_missing writes audit_missing limits =
     (let entries_written = length writes + of_bool audit_missing in
      if entries_written = 0 then liftT (Inr ())
      else
      thenT (if result_missing
             then bindT (record_allocation env T result) (\<lambda>allocation.
               thenT (bindT (liftT (StateInventoryReservation_post_init
                  \<lparr>reserved_tenants = 0, reserved_authorization_records = 1, reserved_authorization_bytes = allocation\<rparr>))
                  (do_admit_inventory T)) (liftT (Inr ())))
             else liftT (Inr ()))
      (bindT (foldT (\<lambda>total d. bindT (record_allocation env T d) (\<lambda>allocation. liftT (Inr (total + allocation)))) 0 writes) (\<lambda>records.
       bindT (if audit_missing then do_allocation_upper_bound T (maximum_segment_bytes DEFAULT_AUDIT_LIMITS)
              else liftT (Inr 0)) (\<lambda>segment.
       admit_commit_capacity T (records + segment) entries_written limits))))"

text \<open>What is to be written of the two states is known: the result, the audit entry, the job, and the room for all of it.\<close>

definition route_admit_room ::
    "contract_env \<Rightarrow> 's route_transaction \<Rightarrow> StoredContract \<Rightarrow> RouteDocuments \<Rightarrow> HostCapacityLimits
       \<Rightarrow> (bool \<Rightarrow> RouteProgress) \<Rightarrow> ('s, RouteProgress) tx" where
  "route_admit_room env T job documents limits progress_of =
     bindT (liftT (bindE (getitem (stored_document job) ''jobId'') authorization_result_path)) (\<lambda>result_path.
     bindT (route_result_missing T result_path (plan_result documents)) (\<lambda>result_missing.
     bindT (do_inspect_audit T) (\<lambda>audit.
     bindT (liftT (route_audit_needs_append env audit (plan_audit_entry documents))) (\<lambda>audit_missing.
     thenT (if audit_missing then thenT (do_admit_audit_append T (plan_audit_entry documents)) (liftT (Inr ())) else liftT (Inr ()))
     (bindT (liftT (eqE (getitem (stored_document job) ''phase'') (lit ''claimed''))) (\<lambda>job_transition.
      bindT (liftT (if job_transition
                    then bindE (setitem (stored_document job) ''phase'' (JStr ''completed'')) (\<lambda>completed. Inr [completed])
                    else Inr [])) (\<lambda>completed.
      let progress = progress_of result_missing;
          writes = (if write_desired progress then [plan_manifest documents] else [])
            @ (if write_observed progress then [plan_observed_state documents] else [])
            @ (if result_missing then [plan_result documents] else []) @ completed in
      thenT (route_admit_writes env T (plan_result documents) result_missing writes audit_missing limits)
      (liftT (Inr progress)))))))))"

definition route_admit_states ::
    "contract_env \<Rightarrow> 's route_transaction \<Rightarrow> StoredContract \<Rightarrow> RouteDocuments \<Rightarrow> HostCapacityLimits
       \<Rightarrow> StoredContract \<Rightarrow> StoredContract \<Rightarrow> ('s, RouteProgress) tx" where
  "route_admit_states env T job documents limits desired observed =
     (let d = stored_document desired; b = stored_document observed; source = route_source_manifest documents;
          source_observed = route_source_observed_state documents in
     if d \<notin> {source, plan_manifest documents}
     then liftT (Inl (StateConflictError ''route desired state is outside recovery authority''))
     else if b \<notin> {source_observed, plan_observed_state documents}
     then liftT (Inl (StateConflictError ''route observed state is outside recovery authority''))
     else if b = plan_observed_state documents \<and> d \<noteq> plan_manifest documents
     then liftT (Inl (RouteCommitError ''route observed state advanced before desired state''))
     else route_admit_room env T job documents limits (\<lambda>result_missing.
       \<lparr>progress_desired = desired, progress_observed = observed,
        write_desired = (d = source \<and> d \<noteq> plan_manifest documents), write_observed = (b = source_observed),
        progress_result_missing = result_missing\<rparr>))"

definition route_admit_transition ::
    "contract_env \<Rightarrow> 's route_transaction \<Rightarrow> StoredContract \<Rightarrow> RouteDocuments \<Rightarrow> HostCapacityLimits \<Rightarrow> ('s, RouteProgress) tx" where
  "route_admit_transition env T job documents limits =
     bindT (bindT (liftT (tenant_desired_path (JStr (plan_tenant_id documents)))) (do_read T)) (\<lambda>desired.
     bindT (bindT (liftT (tenant_observed_path (JStr (plan_tenant_id documents)))) (do_read T))
       (route_admit_states env T job documents limits desired))"

definition admit_route_transition ::
    "contract_env \<Rightarrow> 's route_transaction \<Rightarrow> StoredContract \<Rightarrow> TransitionPlan \<Rightarrow> HostCapacityLimits \<Rightarrow> ('s, unit) tx" where
  "admit_route_transition env T job plan limits =
     bindT (liftT (route_freeze_and_validate env job plan)) (\<lambda>documents.
     bindT (route_require_same_job T job) (\<lambda>current_job.
     thenT (route_require_exact_intent T documents)
     (thenT (route_admit_transition env T current_job documents limits) (liftT (Inr ())))))"

section \<open>Finalization\<close>

record RouteCommitOutcome =
  route_result :: json
  route_created :: bool

definition route_publish ::
    "contract_env \<Rightarrow> 's route_transaction \<Rightarrow> StoredContract \<Rightarrow> RouteDocuments \<Rightarrow> HostCapacityLimits
       \<Rightarrow> (RouteCommitBoundary \<Rightarrow> unit py) \<Rightarrow> ('s, RouteCommitOutcome) tx" where
  "route_publish env T current_job documents limits hook =
     bindT (route_require_exact_intent T documents) (\<lambda>intent_removal.
     bindT (route_admit_transition env T current_job documents limits) (\<lambda>progress.
     thenT (replace_state T (write_desired progress) (tenant_desired_path (JStr (plan_tenant_id documents)))
              (progress_desired progress) (plan_manifest documents))
     (thenT (notify hook DESIRED_STATE_SYNC)
     (thenT (replace_state T (write_observed progress) (tenant_observed_path (JStr (plan_tenant_id documents)))
              (progress_observed progress) (plan_observed_state documents))
     (thenT (notify hook OBSERVED_STATE_SYNC)
     (thenT (route_ensure_audit env T (plan_audit_entry documents))
     (thenT (notify hook ROUTE_AUDIT_SYNC)
     (thenT (route_ensure_result T current_job (plan_result documents) (progress_result_missing progress))
     (thenT (notify hook ROUTE_RESULT_SYNC)
     (thenT (route_ensure_completed_job T current_job)
     (thenT (notify hook ROUTE_JOB_SYNC)
     (thenT (do_remove_reconciled_intent T (exact_path intent_removal) (exact_token intent_removal))
     (thenT (notify hook ROUTE_INTENT_REMOVED)
     (liftT (Inr \<lparr>route_result = plan_result documents, route_created = progress_result_missing progress\<rparr>)))))))))))))))"

definition finalize_route_transition_outcome ::
    "contract_env \<Rightarrow> 's route_transaction \<Rightarrow> StoredContract \<Rightarrow> TransitionPlan \<Rightarrow> HostCapacityLimits
       \<Rightarrow> (RouteCommitBoundary \<Rightarrow> unit py) \<Rightarrow> ('s, RouteCommitOutcome) tx" where
  "finalize_route_transition_outcome env T job plan limits hook =
     bindT (liftT (route_freeze_and_validate env job plan)) (\<lambda>documents.
     bindT (route_require_same_job T job) (\<lambda>current_job.
     bindT (terminal_route_without_intent env T current_job documents) (\<lambda>terminal.
     case terminal of
       Some result \<Rightarrow> liftT (Inr \<lparr>route_result = result, route_created = False\<rparr>)
     | None \<Rightarrow> route_publish env T current_job documents limits hook)))"

definition finalize_route_transition ::
    "contract_env \<Rightarrow> 's route_transaction \<Rightarrow> StoredContract \<Rightarrow> TransitionPlan \<Rightarrow> HostCapacityLimits
       \<Rightarrow> (RouteCommitBoundary \<Rightarrow> unit py) \<Rightarrow> ('s, json) tx" where
  "finalize_route_transition env T job plan limits hook =
     bindT (finalize_route_transition_outcome env T job plan limits hook) (\<lambda>outcome. liftT (Inr (route_result outcome)))"

end
