(* ===== verification/Route_Laws.thy ===== *)
theory Route_Laws
  imports Repository_Commit Route_Commit
begin

text \<open>
  What the commit of a route transition does to the records and the log, proved from the promises of
  the transaction it runs in.
\<close>

section \<open>The documents\<close>

lemma route_documents_simps [simp]:
  "plan_tenant_id (route_documents plan source observed) = plan_tenant_id plan"
  "plan_intent_id (route_documents plan source observed) = plan_intent_id plan"
  "plan_manifest (route_documents plan source observed) = plan_manifest plan"
  "plan_observed_state (route_documents plan source observed) = plan_observed_state plan"
  "plan_intent (route_documents plan source observed) = plan_intent plan"
  "plan_result (route_documents plan source observed) = plan_result plan"
  "plan_audit_entry (route_documents plan source observed) = plan_audit_entry plan"
  "route_source_manifest (route_documents plan source observed) = source"
  "route_source_observed_state (route_documents plan source observed) = observed"
  by (simp_all add: route_documents_def TransitionPlan.defs RouteDocuments.defs)

lemma route_frozen:
  assumes "route_freeze_and_validate env job plan = Inr documents"
  obtains source observed where "documents = route_documents plan source observed"
  using assms by (auto simp: route_freeze_and_validate_def bindE_Inr_iff thenE_Inr Let_def split: if_split_asm)

text \<open>The stages of the commit are those of the plan.\<close>

lemma route_stages [simp]:
  "desired_slot (route_documents plan source observed) = desired_slot plan"
  "observed_slot (route_documents plan source observed) = observed_slot plan"
  "commit_stage (route_documents plan source observed) = commit_stage plan"
  "commit_interrupted env (route_documents plan source observed) = commit_interrupted env plan"
  by (simp_all add: commit_slots commit_stage_def commit_interrupted_def fun_eq_iff)

section \<open>The commit\<close>

locale route_store = commit_store env T docs log sound
  for env :: contract_env and T :: "'s route_transaction"
    and docs :: "'s \<Rightarrow> record_store" and log :: "'s \<Rightarrow> AuditState py" and sound :: "'s \<Rightarrow> bool" +
  assumes observe_append: "leaves (same_view docs log sound) (do_admit_audit_append T d)"
begin

lemma observe_writes: "leaves (same_view docs log sound) (route_admit_writes env T result missing writes audit_missing limits)"
  unfolding route_admit_writes_def Let_def
  by (intro same_view_intros observe_capacity observe if_leaves)

lemma route_room_found:
  assumes "sound s" "job_identity (stored_document cur) = job_identity job"
  shows "outcome (route_admit_room env T cur documents limits f)
    (\<lambda>x t. sound t \<and> docs t = docs s \<and> log t = log s \<and> x = f (docs s (result_slot job) = None))
    (\<lambda>e t. sound t \<and> docs t = docs s \<and> log t = log s) s" (is "outcome _ ?Q ?E s")
  unfolding route_admit_room_def route_result_missing_def
proof (rule outcome_bind_lift)
  fix p
  assume "bindE (getitem (stored_document cur) ''jobId'') authorization_result_path = Inr p"
  then obtain v where v: "getitem (stored_document cur) ''jobId'' = Inr v" "authorization_result_path v = Inr p"
    by (auto simp: bindE_Inr_iff)
  have path: "path_components p = Inr (result_slot job)"
    using commit_paths(4)[OF v] same_slots[OF assms(2)] by simp
  define room where "room = (\<lambda>result_missing. bindT (do_inspect_audit T) (\<lambda>audit.
     bindT (liftT (route_audit_needs_append env audit (plan_audit_entry documents))) (\<lambda>audit_missing.
     thenT (if audit_missing then thenT (do_admit_audit_append T (plan_audit_entry documents)) (liftT (Inr ())) else liftT (Inr ()))
     (bindT (liftT (eqE (getitem (stored_document cur) ''phase'') (lit ''claimed''))) (\<lambda>job_transition.
      bindT (liftT (if job_transition
                    then bindE (setitem (stored_document cur) ''phase'' (JStr ''completed'')) (\<lambda>completed. Inr [completed])
                    else Inr [])) (\<lambda>completed.
      let progress = f result_missing;
          writes = (if write_desired progress then [plan_manifest documents] else [])
            @ (if write_observed progress then [plan_observed_state documents] else [])
            @ (if result_missing then [plan_result documents] else []) @ completed in
      thenT (route_admit_writes env T (plan_result documents) result_missing writes audit_missing limits)
      (liftT (Inr progress))))))))"
  have quiet: "leaves (same_view docs log sound) (room missing)" for missing
    unfolding room_def Let_def by (intro same_view_intros observe observe_append observe_writes if_leaves)
  have chosen: "x = f missing" if "room missing t = (Inr x, u)" for x missing t u
    using that unfolding room_def Let_def by (auto simp: tx_simps)
  show "outcome (bindT (result_is_missing route_module T p (plan_result documents)) room) ?Q ?E s"
  proof (rule outcome_bind[OF outcome_conseq[OF result_missing_found[OF assms(1) lasting_paths(4)[OF v(2)] path]]], assumption)
    fix missing t
    assume t: "sound t \<and> docs t = docs s \<and> log t = log s \<and> (missing \<longleftrightarrow> docs s (result_slot job) = None)"
    then have "sound t" by simp
    from outcome_conj[OF observing[OF quiet this] outcome_exact] show "outcome (room missing) ?Q ?E t"
      by (rule outcome_conseq) (use t in \<open>auto dest: chosen\<close>)
  qed simp
qed (use assms(1) in simp)

lemma route_states_found:
  assumes "sound s" "job_identity (stored_document cur) = job_identity job"
    and "docs s (desired_slot documents) = Some (stored_document desired)"
    and "docs s (observed_slot documents) = Some (stored_document observed)"
  shows "outcome (route_admit_states env T cur documents limits desired observed)
    (\<lambda>x t. sound t \<and> docs t = docs s \<and> log t = log s \<and>
       (write_desired x \<or> docs s (desired_slot documents) = Some (plan_manifest documents)) \<and>
       (write_observed x \<or> docs s (observed_slot documents) = Some (plan_observed_state documents)) \<and>
       (progress_result_missing x \<longleftrightarrow> docs s (result_slot job) = None))
    (\<lambda>e t. sound t \<and> docs t = docs s \<and> log t = log s) s"
  unfolding route_admit_states_def Let_def
  by (intro outcome_if outcome_conseq[OF route_room_found[OF assms(1,2)]])
    (use assms in \<open>auto intro!: outcome_lift\<close>)

lemma route_admission_finds:
  assumes "sound s" "job_identity (stored_document cur) = job_identity job"
  shows "outcome (route_admit_transition env T cur documents limits)
    (\<lambda>x t. sound t \<and> docs t = docs s \<and> log t = log s \<and>
       (\<exists>p. tenant_desired_path (JStr (plan_tenant_id documents)) = Inr p) \<and>
       (\<exists>p. tenant_observed_path (JStr (plan_tenant_id documents)) = Inr p) \<and>
       (write_desired x \<or> docs s (desired_slot documents) = Some (plan_manifest documents)) \<and>
       (write_observed x \<or> docs s (observed_slot documents) = Some (plan_observed_state documents)) \<and>
       (progress_result_missing x \<longleftrightarrow> docs s (result_slot job) = None))
    (\<lambda>e t. sound t \<and> docs t = docs s \<and> log t = log s) s" (is "outcome _ ?Q ?E s")
  unfolding route_admit_transition_def bind_nested
proof (rule outcome_bind_lift)
  fix p assume p: "tenant_desired_path (JStr (plan_tenant_id documents)) = Inr p"
  have found: "outcome (do_read T p) (\<lambda>r _. docs s (desired_slot documents) = Some (stored_document r)) (\<lambda>_ _. True) s"
    by (rule outcome_conseq[OF read_finds[OF assms(1) lasting_paths(1)[OF p] commit_paths(1)[OF p]]]) simp_all
  show "outcome (bindT (do_read T p) (\<lambda>desired.
      bindT (liftT (tenant_observed_path (JStr (plan_tenant_id documents)))) (\<lambda>p. bindT (do_read T p)
        (route_admit_states env T cur documents limits desired)))) ?Q ?E s"
  proof (rule observing_with[OF observe(1) assms(1) found], rule outcome_bind_lift)
    fix desired :: StoredContract and t q
    assume t: "sound t" "docs t = docs s" "log t = log s" "docs s (desired_slot documents) = Some (stored_document desired)"
      and q: "tenant_observed_path (JStr (plan_tenant_id documents)) = Inr q"
    have found: "outcome (do_read T q) (\<lambda>r _. docs t (observed_slot documents) = Some (stored_document r)) (\<lambda>_ _. True) t"
      by (rule outcome_conseq[OF read_finds[OF t(1) lasting_paths(2)[OF q] commit_paths(2)[OF q]]]) simp_all
    show "outcome (bindT (do_read T q) (route_admit_states env T cur documents limits desired)) ?Q ?E t"
    proof (rule observing_with[OF observe(1) t(1) found])
      fix observed :: StoredContract and u
      assume u: "sound u" "docs u = docs t" "log u = log t" "docs t (observed_slot documents) = Some (stored_document observed)"
      then have states: "docs u (desired_slot documents) = Some (stored_document desired)"
          "docs u (observed_slot documents) = Some (stored_document observed)" using t by simp_all
      show "outcome (route_admit_states env T cur documents limits desired observed) ?Q ?E u"
        by (rule outcome_conseq[OF route_states_found[OF u(1) assms(2) states]]) (use t u p q in auto)
    qed (use t in simp)
  qed simp_all
qed (use assms(1) in simp)

lemma route_publish_outcome:
  assumes "sound s" "docs s (commit_job_slot job) = Some (stored_document cur)"
    and "job_identity (stored_document cur) = job_identity job"
  shows "outcome (route_publish env T cur documents limits hook)
    (\<lambda>x t. sound t \<and> docs t = commit_stage documents job 5 (docs s) \<and> recorded env (plan_audit_entry documents) (log t) \<and>
       route_result x = plan_result documents \<and> (route_created x \<longleftrightarrow> docs s (result_slot job) = None))
    (\<lambda>e t. sound t \<and> commit_interrupted env documents job (docs s) (docs t) (log t)) s" (is "outcome _ ?Q ?E s")
proof -
  define tail where "tail removal progress =
     thenT (route_ensure_audit env T (plan_audit_entry documents)) (thenT (notify hook ROUTE_AUDIT_SYNC)
     (thenT (route_ensure_result T cur (plan_result documents) (progress_result_missing progress)) (thenT (notify hook ROUTE_RESULT_SYNC)
     (thenT (route_ensure_completed_job T cur) (thenT (notify hook ROUTE_JOB_SYNC)
     (thenT (do_remove_reconciled_intent T (exact_path removal) (exact_token removal)) (thenT (notify hook ROUTE_INTENT_REMOVED)
     (liftT (Inr \<lparr>route_result = plan_result documents, route_created = progress_result_missing progress\<rparr>)))))))))"
    for removal :: ExactIntent and progress :: RouteProgress
  have tail: "outcome (tail removal progress) ?Q ?E t"
    if "sound t" "docs t = commit_stage documents job 2 (docs s)" "transaction_intent_path (JStr (plan_intent_id documents)) = Inr (exact_path removal)"
      and "progress_result_missing progress \<longleftrightarrow> docs s (result_slot job) = None" for removal :: ExactIntent and progress :: RouteProgress and t
    unfolding tail_def route_ensure_audit_def route_ensure_result_def route_ensure_completed_job_def
    by (rule outcome_conseq[OF commit_tail[OF that(1,2) assms(2,3) that(3)]]) (use that(4) in auto)
  show ?thesis
    unfolding route_publish_def route_require_exact_intent_def tail_def[symmetric]
  proof (rule outcome_bind[OF outcome_conseq[OF require_exact_intent_finds[OF assms(1)]]], assumption)
    fix removal :: ExactIntent and t
    assume t: "sound t \<and> docs t = docs s \<and> log t = log s \<and>
      transaction_intent_path (JStr (plan_intent_id documents)) = Inr (exact_path removal)"
    then have sound: "sound t" by simp
    let ?states = "\<lambda>progress. thenT (replace_state T (write_desired progress) (tenant_desired_path (JStr (plan_tenant_id documents)))
              (progress_desired progress) (plan_manifest documents))
     (thenT (notify hook DESIRED_STATE_SYNC)
     (thenT (replace_state T (write_observed progress) (tenant_observed_path (JStr (plan_tenant_id documents)))
              (progress_observed progress) (plan_observed_state documents))
     (thenT (notify hook OBSERVED_STATE_SYNC) (tail removal progress))))"
    show "outcome (bindT (route_admit_transition env T cur documents limits) ?states) ?Q ?E t"
    proof (rule outcome_bind[OF outcome_conseq[OF route_admission_finds[OF sound assms(3)]]], assumption)
      fix x :: RouteProgress and u
      assume u: "sound u \<and> docs u = docs t \<and> log u = log t \<and>
       (\<exists>p. tenant_desired_path (JStr (plan_tenant_id documents)) = Inr p) \<and>
       (\<exists>p. tenant_observed_path (JStr (plan_tenant_id documents)) = Inr p) \<and>
       (write_desired x \<or> docs t (desired_slot documents) = Some (plan_manifest documents)) \<and>
       (write_observed x \<or> docs t (observed_slot documents) = Some (plan_observed_state documents)) \<and>
       (progress_result_missing x \<longleftrightarrow> docs t (result_slot job) = None)"
      then obtain p q where p: "tenant_desired_path (JStr (plan_tenant_id documents)) = Inr p"
        and q: "tenant_observed_path (JStr (plan_tenant_id documents)) = Inr q" by blast
      have same: "sound u" "docs u = docs s" using t u by simp_all
      have missing: "progress_result_missing x \<longleftrightarrow> docs s (result_slot job) = None" using t u by simp
      have desired: "sets_record docs log sound (desired_slot documents) (Some (plan_manifest documents))
          (replace_state T (write_desired x) (Inr p) cur' (plan_manifest documents)) u" for cur'
        by (rule replace_state_sets[OF same(1) refl constructed_path_ok(3)[OF p] commit_paths(1)[OF p]]) (use t u in auto)
      show "outcome (?states x) ?Q ?E u"
        unfolding p q thenT_def
      proof (rule sets_recordI[OF desired])
        fix v assume v: "sound v" "docs v = (docs u)(desired_slot documents := Some (plan_manifest documents))"
        then have stage1: "docs v = commit_stage documents job (Suc 0) (docs s)" by (simp add: commit_stage_steps(1) same)
        have observed: "sets_record docs log sound (observed_slot documents) (Some (plan_observed_state documents))
            (replace_state T (write_observed x) (Inr q) cur' (plan_observed_state documents)) v" for cur'
          by (rule replace_state_sets[OF v(1) refl constructed_path_ok(4)[OF q] commit_paths(2)[OF q]])
            (use t u v in auto)
        show "outcome (bindT (notify hook DESIRED_STATE_SYNC) (\<lambda>_. bindT (replace_state T (write_observed x) (Inr q)
            (progress_observed x) (plan_observed_state documents)) (\<lambda>_. bindT (notify hook OBSERVED_STATE_SYNC) (\<lambda>_. tail removal x)))) ?Q ?E v"
          unfolding thenT_def[symmetric]
        proof (rule notify_outcome, use v(1) stage1 in \<open>simp add: commit_interruptedI(2)\<close>, unfold thenT_def, rule sets_recordI[OF observed])
          fix w assume w: "sound w" "docs w = (docs v)(observed_slot documents := Some (plan_observed_state documents))"
          then have stage2: "docs w = commit_stage documents job 2 (docs s)" by (simp add: commit_stage_steps(2) stage1)
          show "outcome (bindT (notify hook OBSERVED_STATE_SYNC) (\<lambda>_. tail removal x)) ?Q ?E w"
            unfolding thenT_def[symmetric]
            by (rule notify_outcome, use w(1) stage2 in \<open>simp add: commit_interruptedI(3)\<close>, rule tail[OF w(1) stage2 _ missing]) (use t in simp)
        next
          fix e w
          assume "sound w" "docs w = docs v \<or> docs w = (docs v)(observed_slot documents := Some (plan_observed_state documents))"
          then show "?E e w" using stage1 by (auto intro: commit_interruptedI(2,3) simp: commit_stage_steps(2))
        qed
      next
        fix e v
        assume "sound v" "docs v = docs u \<or> docs v = (docs u)(desired_slot documents := Some (plan_manifest documents))"
        then show "?E e v" using same by (auto intro: commit_interruptedI(1,2) simp: commit_stage_steps(1))
      qed
    qed (use t in \<open>auto intro: commit_interruptedI(1)\<close>)
  qed (auto intro: commit_interruptedI(1))
qed

lemma route_commit_outcome:
  assumes "sound s"
  shows "outcome (finalize_route_transition_outcome env T job plan limits hook)
    (\<lambda>x t. sound t \<and> docs t = commit_stage plan (stored_document job) 5 (docs s) \<and>
       recorded env (plan_audit_entry plan) (log t) \<and> route_result x = plan_result plan \<and>
       (route_created x \<longleftrightarrow> docs s (result_slot (stored_document job)) = None))
    (\<lambda>e t. sound t \<and> commit_interrupted env plan (stored_document job) (docs s) (docs t) (log t)) s"
    (is "outcome _ ?Q ?E s")
  unfolding finalize_route_transition_outcome_def route_require_same_job_def terminal_route_without_intent_def
proof (rule outcome_bind_lift)
  let ?job = "stored_document job"
  fix documents :: RouteDocuments assume "route_freeze_and_validate env job plan = Inr documents"
  then obtain source observed where documents: "documents = route_documents plan source observed" by (rule route_frozen)
  let ?rest = "\<lambda>cur terminal. case terminal of
       Some result \<Rightarrow> liftT (Inr \<lparr>route_result = result, route_created = False\<rparr>)
     | None \<Rightarrow> route_publish env T cur documents limits hook"
  show "outcome (bindT (require_same_job route_module T job) (\<lambda>cur.
     bindT (terminal_without_intent route_module env T cur documents) (?rest cur))) ?Q ?E s"
  proof (rule outcome_bind[OF outcome_conseq[OF require_same_job_finds[OF assms]]], assumption)
    fix cur :: StoredContract and t
    assume t: "sound t \<and> docs t = docs s \<and> log t = log s \<and> docs s (commit_job_slot ?job) = Some (stored_document cur) \<and>
      job_identity (stored_document cur) = job_identity ?job"
    then have cur: "sound t" "docs t (commit_job_slot ?job) = Some (stored_document cur)"
      "job_identity (stored_document cur) = job_identity ?job" by simp_all
    show "outcome (bindT (terminal_without_intent route_module env T cur documents) (?rest cur)) ?Q ?E t"
    proof (rule outcome_bind[OF outcome_conseq[OF terminal_finds[OF cur]]], assumption)
      fix terminal u
      assume u: "sound u \<and> docs u = docs t \<and> log u = log t \<and>
        (terminal \<noteq> None \<longrightarrow> terminal = Some (plan_result documents) \<and> docs t (result_slot ?job) \<noteq> None \<and>
          docs t = commit_stage documents ?job 5 (docs t) \<and> recorded env (plan_audit_entry documents) (log t))"
      then have pub: "sound u" "docs u (commit_job_slot ?job) = Some (stored_document cur)" using cur(2) by simp_all
      show "outcome (?rest cur terminal) ?Q ?E u"
      proof (cases terminal)
        case None
        then show ?thesis using route_publish_outcome[OF pub cur(3), of documents limits hook] t u by (simp add: documents)
      next
        case (Some result)
        then show ?thesis using t u by (auto intro!: outcome_lift simp: documents)
      qed
    qed (use t in \<open>auto intro: commit_interruptedI(1)\<close>)
  qed (auto intro: commit_interruptedI(1))
qed (use assms in \<open>simp add: commit_interruptedI(1)\<close>)

end

section \<open>The state repository\<close>

text \<open>The protocol of the module has the admission of an audit entry, and not the operations for a new tenant.\<close>

definition repository_route :: "state_transaction \<Rightarrow> (Segments \<Rightarrow> int) \<Rightarrow> 'z commit_state_scheme route_transaction" where
  "repository_route t allocated =
     commit_transaction.extend (commit_transaction.truncate (repository_commit t allocated)) (route_transaction.fields (repo_admit_audit_append t))"

lemma repository_route_simps [simp]:
  "do_read (repository_route t allocated) = do_read (repository_commit t allocated)"
  "do_create_immutable (repository_route t allocated) = do_create_immutable (repository_commit t allocated)"
  "do_compare_and_swap (repository_route t allocated) = do_compare_and_swap (repository_commit t allocated)"
  "do_inspect_audit (repository_route t allocated) = do_inspect_audit (repository_commit t allocated)"
  "do_append_audit (repository_route t allocated) = do_append_audit (repository_commit t allocated)"
  "do_measure_inventory (repository_route t allocated) = do_measure_inventory (repository_commit t allocated)"
  "do_measure_intent_records (repository_route t allocated) = do_measure_intent_records (repository_commit t allocated)"
  "do_read_intent (repository_route t allocated) = do_read_intent (repository_commit t allocated)"
  "do_remove_reconciled_intent (repository_route t allocated) = do_remove_reconciled_intent (repository_commit t allocated)"
  "do_allocation_upper_bound (repository_route t allocated) = do_allocation_upper_bound (repository_commit t allocated)"
  "do_namespace_allocation_upper_bound (repository_route t allocated) = do_namespace_allocation_upper_bound (repository_commit t allocated)"
  "do_admit_inventory (repository_route t allocated) = do_admit_inventory (repository_commit t allocated)"
  "do_measure_filesystem_capacity (repository_route t allocated) = do_measure_filesystem_capacity (repository_commit t allocated)"
  "do_admit_audit_append (repository_route t allocated) = repo_admit_audit_append t"
  by (simp_all add: repository_route_def commit_transaction.defs route_transaction.defs)

interpretation repo_route: route_store "tx_env t" "repository_route t allocated" "commit_records t" "commit_log t" "commit_sound t"
  for t allocated
  by unfold_locales
    (simp_all add: repo_commit.observe repo_commit.read_finds repo_commit.inspect_reads repo_commit.no_intents repo_commit.creates
      repo_commit.swaps repo_commit.removes repo_commit.appends inspect_leaves)


end
