(* ===== verification/Deployment_Commit.thy ===== *)
theory Deployment_Commit
  imports Commit_Steps
begin

text \<open>
  Model of \<^verbatim>\<open>static_host_agent/deployment_commit.py\<close>: the terminal commit of a deploy, an import or a
  rollback. It publishes the selected deployment and the two states of the tenant, retires the
  deployments beyond the last three, and then ends as every commit does. The release store is a record
  of the two operations the module calls.
\<close>

datatype DeploymentCommitBoundary = RETIRED_RELEASE_REMOVED | RETIRED_DEPLOYMENT_REMOVED | DEPLOYMENT_SYNC
  | DEPLOYMENT_DESIRED_SYNC | DEPLOYMENT_OBSERVED_SYNC | DEPLOYMENT_AUDIT_SYNC | DEPLOYMENT_RESULT_SYNC
  | DEPLOYMENT_JOB_SYNC | DEPLOYMENT_INTENT_REMOVED

record 's deployment_transaction = "'s commit_transaction" +
  do_admit_deployment_audit :: "json \<Rightarrow> ('s, AuditState) tx"
  do_deployment_removal_token :: "StoredContract \<Rightarrow> ('s, RemovalToken) tx"
  do_remove_exact_deployment :: "StoredContract \<Rightarrow> RemovalToken \<Rightarrow> ('s, unit) tx"
  do_tenant_deployment_ids :: "json \<Rightarrow> ('s, string list) tx"
  do_tenant_deployment_transition_ids :: "json \<Rightarrow> json \<Rightarrow> ('s, string list) tx"

record 's release_store =
  do_measure_release :: "json \<Rightarrow> json \<Rightarrow> ('s, ReleaseTreeMeasurement) tx"
  do_remove_release :: "json \<Rightarrow> json \<Rightarrow> json \<Rightarrow> ('s, unit) tx"

definition deployment_module :: commit_module where
  "deployment_module = \<lparr>commit_exn = DeploymentCommitError, commit_name = ''deployment'',
     commit_subject = ''deployment transition''\<rparr>"

definition MAXIMUM_RETAINED_DEPLOYMENTS :: nat where "MAXIMUM_RETAINED_DEPLOYMENTS = 3"

record DeploymentDocuments = DeploymentTransitionPlan +
  doc_source_manifest :: json
  doc_source_observed_state :: json
  doc_history :: "string list"
  doc_source_deployment_digest :: json
  doc_source_release_tree_digest :: json

definition deployment_documents :: "DeploymentTransitionPlan \<Rightarrow> json \<Rightarrow> json \<Rightarrow> string list \<Rightarrow> json \<Rightarrow> json \<Rightarrow> DeploymentDocuments" where
  "deployment_documents plan source observed history deployment_digest release_digest =
     DeploymentTransitionPlan.extend plan (DeploymentDocuments.fields source observed history deployment_digest release_digest)"

definition deployment_target :: "'p DeploymentTransitionPlan_scheme \<Rightarrow> string py" where
  "deployment_target documents = bindE (getitem (plan_deployment documents) ''id'') as_str"

section \<open>The retained history\<close>

definition transition_history :: "DeploymentDocuments \<Rightarrow> string list py" where
  "transition_history documents =
     (if plan_creates_deployment documents
      then bindE (deployment_target documents) (\<lambda>target. Inr (sort (remdups (doc_history documents @ [target]))))
      else Inr (sort (remdups (doc_history documents))))"

text \<open>The last identities up to the target: \<^verbatim>\<open>history[max(0, i - 2) : i + 1]\<close> for its first index \<open>i\<close>.\<close>

definition terminal_history :: "DeploymentDocuments \<Rightarrow> string list py" where
  "terminal_history documents =
     bindE (transition_history documents) (\<lambda>history.
     bindE (deployment_target documents) (\<lambda>target.
     if target \<notin> set history
     then Inl (DeploymentCommitError ''selected deployment is absent from transition history'')
     else
     let target_index = length (takeWhile (\<lambda>i. i \<noteq> target) history) in
     Inr (drop (target_index - (MAXIMUM_RETAINED_DEPLOYMENTS - 1)) (take (target_index + 1) history))))"

definition history_is_replayable :: "string list \<Rightarrow> string list \<Rightarrow> string list \<Rightarrow> string list \<Rightarrow> bool \<Rightarrow> bool" where
  "history_is_replayable current original transition terminal creates_deployment =
     (if current = original then True
      else if creates_deployment \<and> last transition \<notin> set current then False
      else set terminal \<subseteq> set current \<and> set current \<subseteq> set transition)"

section \<open>Validating the documents\<close>

definition deployment_operation :: "json \<Rightarrow> Operation py" where
  "deployment_operation v =
     bindE (mapE (\<lambda>_. DeploymentCommitError ''deployment operation is malformed'') (Operation_of v)) (\<lambda>operation.
     if operation \<notin> {DEPLOY, IMPORT, ROLLBACK}
     then Inl (DeploymentCommitError ''deployment finalization received another operation'')
     else Inr operation)"

text \<open>A chain of \<^verbatim>\<open>and\<close>.\<close>

fun everyE :: "bool py list \<Rightarrow> bool py" where
  "everyE [] = Inr True"
| "everyE (c # cs) = andE c (everyE cs)"

definition import_provenance_matches :: "contract_env \<Rightarrow> json \<Rightarrow> DeploymentDocuments \<Rightarrow> Operation \<Rightarrow> bool py" where
  "import_provenance_matches env job documents operation =
     (if operation = IMPORT
      then bindE (dict_get job ''dispatchImportManifest'') (\<lambda>imported.
        andE (Inr (is_dict imported))
          (eqE (dict_get (plan_deployment documents) ''importProvenance'')
            (bindE (digest_dict (manifest_digest env imported)) (\<lambda>digest.
              Inr (obj [(''manifest'', imported), (''manifestDigest'', digest)])))))
      else eqE (dict_get (plan_deployment documents) ''importProvenance'') none_lit)"

definition deploy_binding_valid :: "json \<Rightarrow> DeploymentDocuments \<Rightarrow> json \<Rightarrow> Operation \<Rightarrow> string \<Rightarrow> bool \<Rightarrow> bool py" where
  "deploy_binding_valid job documents request operation target provenance_matches =
     (let deployment = plan_deployment documents; history = doc_history documents in
      bindE (dict_get request ''artifact'') (\<lambda>artifact.
      everyE
       [Inr (operation \<in> {DEPLOY, IMPORT}), Inr (plan_creates_deployment documents), Inr provenance_matches,
        Inr (is_dict artifact), eqE (dict_get job ''artifact'') (Inr artifact),
        eqE (dict_get deployment ''archiveSha256'') (dict_get artifact ''sha256''),
        eqE (dict_get deployment ''releaseTreeDigest'') (dict_get job ''dispatchArtifactReleaseTreeDigest''),
        eqE (dict_get deployment ''correlationId'') (dict_get request ''correlationId''),
        Inr (target \<notin> set history), Inr (history = [] \<or> last history < target)]))"

definition rollback_binding_valid :: "json \<Rightarrow> DeploymentDocuments \<Rightarrow> json \<Rightarrow> Operation \<Rightarrow> string \<Rightarrow> json \<Rightarrow> bool py" where
  "rollback_binding_valid job documents request operation target source_deployment_id =
     everyE
      [Inr (operation = ROLLBACK), Inr (\<not> plan_creates_deployment documents),
       eqE (dict_get request ''artifact'') none_lit, eqE (dict_get job ''artifact'') none_lit,
       eqE (dict_get job ''dispatchArtifactReleaseTreeDigest'') none_lit,
       eqE (dict_get request ''deploymentId'') (lit target),
       Inr (target \<in> set (doc_history documents)), Inr (JStr target \<noteq> source_deployment_id)]"

definition deployment_source_disagrees ::
    "json \<Rightarrow> DeploymentDocuments \<Rightarrow> json \<Rightarrow> json \<Rightarrow> Operation \<Rightarrow> LifecycleState \<Rightarrow> LifecycleState \<Rightarrow> json \<Rightarrow> json \<Rightarrow> json \<Rightarrow> json
       \<Rightarrow> bool py list" where
  "deployment_source_disagrees job documents expected_source recovery operation source_state target_state
     wanted_candidate source_digest candidate_digest source_deployment_id =
     (let intent = plan_intent documents; source_observed = doc_source_observed_state documents; history = doc_history documents in
       [testE Not (bindE (dict_get job ''phase'') (\<lambda>v. in_strs v [''claimed'', ''completed''])),
        neqE (dict_get job ''compatibilityVersion'') (lit ''static-job-v2''),
        neqE (dict_get intent ''compatibilityVersion'') (lit ''static-intent-v2''),
        neqE (dict_get intent ''operation'') (lit (operation_value operation)),
        neqE (dict_get intent ''phase'') (lit ''prepared''),
        neqE (dict_get intent ''archiveRecovery'') none_lit,
        neqE (dict_get intent ''sourceManifest'') (Inr (doc_source_manifest documents)),
        neqE (dict_get intent ''candidateManifest'') (Inr (plan_manifest documents)),
        neqE (dict_get intent ''sourceManifestDigest'') (Inr source_digest),
        neqE (dict_get intent ''candidateManifestDigest'') (Inr candidate_digest),
        Inr (plan_manifest documents \<noteq> wanted_candidate),
        Inr (history \<noteq> sort (remdups history)),
        Inr (length history > MAXIMUM_RETAINED_DEPLOYMENTS),
        neqE (dict_get job ''dispatchArchiveDeploymentIds'') (Inr (JArr [])),
        neqE (dict_get expected_source ''expectsTenantAbsent'') (Inr (JBool False)),
        neqE (dict_get expected_source ''lifecycle'') (lit (state_value source_state)),
        neqE (dict_get expected_source ''manifestDigest'') (Inr source_digest),
        neqE (dict_get expected_source ''archiveRecordDigest'') none_lit,
        neqE (Inr (doc_source_deployment_digest documents)) (dict_get expected_source ''deploymentDigest''),
        neqE (Inr (doc_source_release_tree_digest documents)) (dict_get job ''dispatchSourceReleaseTreeDigest''),
        andE (Inr (source_state = UNDEPLOYED))
          (anyE [Inr (history \<noteq> []), Inr (source_deployment_id \<noteq> JNull),
                 neqE (dict_get expected_source ''deploymentDigest'') none_lit]),
        andE (Inr (source_state \<noteq> UNDEPLOYED))
          (anyE [Inr (history = []), Inr (source_deployment_id \<notin> JStr ` set history),
                 eqE (dict_get expected_source ''deploymentDigest'') none_lit]),
        neqE (dict_get recovery ''sourceObservedState'') (Inr source_observed),
        neqE (dict_get recovery ''candidateObservedState'') (Inr (plan_observed_state documents)),
        neqE (dict_get job ''dispatchSourceObservedState'') (Inr source_observed),
        neqE (dict_get job ''dispatchSourceRuntimeGenerationId'') (dict_get recovery ''sourceRuntimeGenerationId''),
        neqE (dict_get job ''dispatchSourceRouteSet'') (dict_get recovery ''sourceRouteSet''),
        neqE (dict_get recovery ''sourceRouteSet'') (Inr (state_routes source_state)),
        neqE (dict_get recovery ''candidateRouteSet'') (Inr (state_routes target_state)),
        eqE (dict_get recovery ''sourceRuntimeGenerationId'') (dict_get recovery ''candidateRuntimeGenerationId''),
        neqE (dict_get source_observed ''desiredManifestDigest'') (Inr source_digest),
        neqE (dict_get source_observed ''observedState'') (lit (state_value source_state)),
        neqE (dict_get source_observed ''activeDeploymentId'') (Inr source_deployment_id)])"

definition deployment_outcome_disagrees ::
    "contract_env \<Rightarrow> json \<Rightarrow> DeploymentDocuments \<Rightarrow> json \<Rightarrow> json \<Rightarrow> json \<Rightarrow> json \<Rightarrow> Operation \<Rightarrow> LifecycleState \<Rightarrow> json \<Rightarrow> string \<Rightarrow> bool
       \<Rightarrow> bool py list" where
  "deployment_outcome_disagrees env job documents request provenance recovery source_metadata operation target_state
     candidate_digest target binding_valid =
     (let intent = plan_intent documents; observed = plan_observed_state documents; result = plan_result documents;
          entry = plan_audit_entry documents; op = lit (operation_value operation) in
       [neqE (dict_get observed ''desiredManifestDigest'') (Inr candidate_digest),
        neqE (dict_get observed ''observedState'') (lit (state_value target_state)),
        neqE (dict_get observed ''activeDeploymentId'') (lit target),
        neqE (dict_get observed ''runtimeGenerationId'')
          (if target_state = ACTIVE then dict_get recovery ''candidateRuntimeGenerationId'' else none_lit),
        Inr (\<not> binding_valid),
        neqE (dict_get (plan_deployment documents) ''tenantId'') (lit (plan_tenant_id documents)),
        neqE (Inr provenance) (bindE (dict_get job ''jobId'') (\<lambda>job_id.
          Inr (obj [(''kind'', JStr ''authorization-job''), (''jobId'', job_id)]))),
        neqE (lit (plan_intent_id documents)) (dict_get intent ''intentId''),
        chained_neqE [lit (plan_tenant_id documents), dict_get source_metadata ''id'',
          dict_get (doc_source_observed_state documents) ''tenantId'', dict_get observed ''tenantId'',
          dict_get intent ''tenantId'', dict_get result ''tenantId'', dict_get entry ''tenantId''],
        neqE (dict_get request ''tenantId'') (lit (plan_tenant_id documents)),
        chained_neqE [dict_get result ''correlationId'', dict_get request ''correlationId'',
          dict_get intent ''correlationId'', dict_get entry ''correlationId''],
        neqE (dict_get result ''manifest'') (Inr (plan_manifest documents)),
        neqE (dict_get result ''canonicalOrigin'') (dict_get source_metadata ''canonicalOrigin''),
        neqE (dict_get result ''operation'') op,
        neqE (dict_get result ''status'') (lit ''succeeded''),
        neqE (dict_get entry ''operatorPrincipal'') (dict_get job ''operatorPrincipal''),
        neqE (dict_get entry ''operation'') op,
        neqE (dict_get entry ''resultStatus'') (lit ''succeeded''),
        neqE (dict_get entry ''timestamp'') (dict_get intent ''createdAt''),
        neqE (dict_get entry ''timestamp'') (dict_get observed ''reconciledAt''),
        neqE (dict_get entry ''resultDigest'') (digest_dict (result_digest env result))])"

text \<open>The identity of the deployment that the source has selected, \<^verbatim>\<open>None\<close> where there is none.\<close>

definition selected_deployment_id :: "json \<Rightarrow> json py" where
  "selected_deployment_id source_spec =
     bindE (dict_get source_spec ''desiredDeployment'') (\<lambda>selected.
     if is_dict selected then dict_get selected ''id'' else none_lit)"

definition deployment_validate_relationships :: "contract_env \<Rightarrow> json \<Rightarrow> DeploymentDocuments \<Rightarrow> unit py" where
  "deployment_validate_relationships env job documents =
     bindE (dict_get job ''request'') (\<lambda>request.
     bindE (dict_get job ''expectedSource'') (\<lambda>expected_source.
     bindE (dict_get (plan_intent documents) ''lifecycleRecovery'') (\<lambda>recovery.
     bindE (dict_get (doc_source_manifest documents) ''metadata'') (\<lambda>source_metadata.
     bindE (dict_get (doc_source_manifest documents) ''spec'') (\<lambda>source_spec.
     bindE (dict_get (plan_result documents) ''provenance'') (\<lambda>provenance.
     if \<not> list_all is_dict [request, expected_source, recovery, source_metadata, source_spec, provenance]
     then Inl (DeploymentCommitError ''deployment terminal binding is malformed'')
     else
     bindE (bindE (dict_get request ''operation'') deployment_operation) (\<lambda>operation.
     bindE (bindE (getitem source_spec ''desiredState'') LifecycleState_of) (\<lambda>source_state.
     case LIFECYCLE_MATRIX (operation, source_state) of
       None \<Rightarrow> Inl (DeploymentCommitError ''deployment operation is invalid for its source lifecycle'')
     | Some target_state \<Rightarrow>
     bindE (deployment_candidate (doc_source_manifest documents) (plan_deployment documents) target_state) (\<lambda>wanted_candidate.
     bindE (digest_dict (manifest_digest env (doc_source_manifest documents))) (\<lambda>source_digest.
     bindE (digest_dict (manifest_digest env (plan_manifest documents))) (\<lambda>candidate_digest.
     bindE (selected_deployment_id source_spec) (\<lambda>source_deployment_id.
     bindE (deployment_target documents) (\<lambda>target.
     bindE (import_provenance_matches env job documents operation) (\<lambda>provenance_matches.
     bindE (deploy_binding_valid job documents request operation target provenance_matches) (\<lambda>deploy_valid.
     bindE (rollback_binding_valid job documents request operation target source_deployment_id) (\<lambda>rollback_valid.
     bindE (anyE (deployment_source_disagrees job documents expected_source recovery operation source_state target_state
                    wanted_candidate source_digest candidate_digest source_deployment_id
                  @ deployment_outcome_disagrees env job documents request provenance recovery source_metadata operation
                      target_state candidate_digest target (deploy_valid \<or> rollback_valid))) (\<lambda>disagree.
     if disagree then Inl (DeploymentCommitError ''deployment terminal documents disagree'') else Inr ())))))))))))))))))"

text \<open>The recovery authority of a plan and its job: the source, its observed state and the retained history.\<close>

definition deployment_authority :: "json \<Rightarrow> DeploymentTransitionPlan \<Rightarrow> DeploymentDocuments py" where
  "deployment_authority job plan =
     bindE (dict_get (plan_intent plan) ''sourceManifest'') (\<lambda>source_manifest.
     bindE (dict_get (plan_intent plan) ''lifecycleRecovery'') (\<lambda>recovery.
     bindE (if is_dict recovery then dict_get recovery ''sourceObservedState'' else none_lit) (\<lambda>source_observed.
     bindE (dict_get job ''dispatchDeploymentIds'') (\<lambda>history.
     bindE (dict_get job ''expectedSource'') (\<lambda>expected_source.
     bindE (if is_dict expected_source then dict_get expected_source ''deploymentDigest'' else none_lit) (\<lambda>deployment_digest.
     bindE (dict_get job ''dispatchSourceReleaseTreeDigest'') (\<lambda>release_digest.
     if \<not> is_dict source_manifest \<or> \<not> is_dict recovery \<or> \<not> is_dict source_observed
        \<or> (case history of JArr values \<Rightarrow> list_ex (\<lambda>v. \<not> is_str v) values | _ \<Rightarrow> True)
        \<or> (deployment_digest \<noteq> JNull \<and> \<not> is_dict deployment_digest)
        \<or> (release_digest \<noteq> JNull \<and> \<not> is_dict release_digest)
     then Inl (DeploymentCommitError ''deployment recovery authority is malformed'')
     else
     bindE (as_list history) (\<lambda>values.
     bindE (traverseE validate_uuid7 values) (\<lambda>ids.
     Inr (deployment_documents plan source_manifest source_observed ids deployment_digest release_digest))))))))))"

definition deployment_freeze_and_validate :: "contract_env \<Rightarrow> StoredContract \<Rightarrow> DeploymentTransitionPlan \<Rightarrow> DeploymentDocuments py" where
  "deployment_freeze_and_validate env job plan =
     bindE (deployment_authority (stored_document job) plan) (\<lambda>documents.
     thenE (validate_contract env (doc_source_manifest documents) (Some SITE))
     (thenE (validate_contract env (plan_manifest documents) (Some SITE))
     (thenE (validate_contract env (doc_source_observed_state documents) (Some TENANT_OBSERVED_STATE))
     (thenE (validate_contract env (plan_observed_state documents) (Some TENANT_OBSERVED_STATE))
     (thenE (validate_contract env (plan_deployment documents) (Some DEPLOYMENT_RECORD))
     (thenE (validate_contract env (plan_intent documents) (Some TRANSACTION_INTENT))
     (thenE (validate_contract env (plan_result documents) (Some OPERATION_RESULT))
     (thenE (validate_contract env (plan_audit_entry documents) (Some AUDIT_ENTRY))
     (thenE (deployment_validate_relationships env (stored_document job) documents) (Inr documents))))))))))"

definition validate_deployment_transition :: "contract_env \<Rightarrow> StoredContract \<Rightarrow> DeploymentTransitionPlan \<Rightarrow> unit py" where
  "validate_deployment_transition env job plan = thenE (deployment_freeze_and_validate env job plan) (Inr ())"

section \<open>The common steps\<close>

text \<open>Only the phase of the job may have changed.\<close>

definition deployment_require_same_job :: "('s, 'z) commit_transaction_scheme \<Rightarrow> StoredContract \<Rightarrow> ('s, StoredContract) tx" where
  "deployment_require_same_job T expected =
     bindT (liftT (bindE (getitem (stored_document expected) ''jobId'') authorization_job_path)) (\<lambda>p.
     bindT (do_read T p) (\<lambda>current.
     liftT (bindE (pop (stored_document expected) ''phase'') (\<lambda>first.
            bindE (pop (stored_document current) ''phase'') (\<lambda>second.
            bindE (anyE [Inr (first \<noteq> second), testE Not (phase_dispatched (stored_document current))]) (\<lambda>changed.
            if changed then Inl (DeploymentCommitError ''authorization job changed before deployment finalization'')
            else Inr current))))))"

definition deployment_require_exact_intent :: "('s, 'z) commit_transaction_scheme \<Rightarrow> DeploymentDocuments \<Rightarrow> ('s, ExactIntent) tx" where
  "deployment_require_exact_intent T documents =
     require_exact_intent deployment_module T (plan_intent_id documents) (plan_intent documents)"

definition deployment_audit_needs_append :: "contract_env \<Rightarrow> AuditState \<Rightarrow> json \<Rightarrow> bool py" where
  "deployment_audit_needs_append = audit_needs_append deployment_module"

definition deployment_ensure_audit :: "contract_env \<Rightarrow> ('s, 'z) commit_transaction_scheme \<Rightarrow> json \<Rightarrow> ('s, unit) tx" where
  "deployment_ensure_audit = ensure_audit deployment_module"

definition deployment_ensure_result ::
    "('s, 'z) commit_transaction_scheme \<Rightarrow> StoredContract \<Rightarrow> json \<Rightarrow> bool \<Rightarrow> ('s, unit) tx" where
  "deployment_ensure_result = ensure_result deployment_module"

definition deployment_ensure_completed_job :: "('s, 'z) commit_transaction_scheme \<Rightarrow> StoredContract \<Rightarrow> ('s, unit) tx" where
  "deployment_ensure_completed_job = ensure_completed_job"

definition read_deployment :: "('s, 'z) commit_transaction_scheme \<Rightarrow> json \<Rightarrow> json \<Rightarrow> ('s, StoredContract) tx" where
  "read_deployment T tenant deployment = bindT (liftT (tenant_deployment_path tenant deployment)) (do_read T)"

definition require_selected_release :: "'s release_store \<Rightarrow> DeploymentDocuments \<Rightarrow> ('s, unit) tx" where
  "require_selected_release R documents =
     bindT (liftT (getitem (plan_deployment documents) ''id'')) (\<lambda>deployment.
     bindT (do_measure_release R (JStr (plan_tenant_id documents)) deployment) (\<lambda>measured.
     bindT (liftT (getitem (plan_deployment documents) ''releaseTreeDigest'')) (\<lambda>digest.
     liftT (if Digest_to_dict (tree_digest measured) \<noteq> digest
            then Inl (StateConflictError ''selected release disagrees with deployment authority'') else Inr ()))))"

section \<open>A replay after the intent is gone\<close>

definition deployment_terminal_records :: "json \<Rightarrow> DeploymentDocuments \<Rightarrow> (StateRecordPath \<times> json) list py" where
  "deployment_terminal_records job documents =
     (let tenant = JStr (plan_tenant_id documents) in
      bindE (tenant_desired_path tenant) (\<lambda>desired.
      bindE (tenant_observed_path tenant) (\<lambda>observed.
      bindE (bindE (getitem (plan_deployment documents) ''id'') (tenant_deployment_path tenant)) (\<lambda>deployment.
      bindE (bindE (getitem job ''jobId'') authorization_result_path) (\<lambda>result.
      Inr [(desired, plan_manifest documents), (observed, plan_observed_state documents),
           (deployment, plan_deployment documents), (result, plan_result documents)])))))"

definition terminal_deployment_without_intent ::
    "contract_env \<Rightarrow> 's deployment_transaction \<Rightarrow> 's release_store \<Rightarrow> StoredContract \<Rightarrow> DeploymentDocuments \<Rightarrow> ('s, json option) tx" where
  "terminal_deployment_without_intent env T R job documents =
     bindT (do_measure_intent_records T) (\<lambda>inventory.
     if intent_records inventory \<noteq> [] then liftT (Inr None)
     else
     bindT (liftT (getitem (stored_document job) ''phase'')) (\<lambda>phase.
     if phase \<noteq> JStr ''completed''
     then liftT (Inl (DeploymentCommitError ''nonterminal deployment transition lost its durable intent''))
     else
     bindT (liftT (deployment_terminal_records (stored_document job) documents)) (\<lambda>expected.
     bindT (catch_missing (DeploymentCommitError ''terminal deployment state is incomplete'') (any_record_differs T expected)) (\<lambda>differs.
     if differs then liftT (Inl (DeploymentCommitError ''terminal deployment state disagrees with its plan''))
     else
     bindT (do_tenant_deployment_ids T (JStr (plan_tenant_id documents))) (\<lambda>ids.
     bindT (liftT (terminal_history documents)) (\<lambda>terminal.
     if ids \<noteq> terminal then liftT (Inl (DeploymentCommitError ''terminal deployment retention disagrees with its plan''))
     else
     thenT (require_selected_release R documents)
     (bindT (do_inspect_audit T) (\<lambda>audit.
      bindT (liftT (deployment_audit_needs_append env audit (plan_audit_entry documents))) (\<lambda>missing.
      liftT (if missing then Inl (DeploymentCommitError ''terminal deployment audit entry is absent'')
             else Inr (Some (plan_result documents))))))))))))"

section \<open>Admission\<close>

record DeploymentProgress =
  state_desired :: StoredContract
  state_observed :: StoredContract
  retired_deployments :: "StoredContract list"
  write_deployment :: bool
  write_desired_state :: bool
  write_observed_state :: bool
  deployment_result_missing :: bool

definition require_exact_deployment :: "('s, 'z) commit_transaction_scheme \<Rightarrow> json \<Rightarrow> ('s, unit) tx" where
  "require_exact_deployment T expected =
     bindT (liftT (getitem expected ''tenantId'')) (\<lambda>tenant.
     bindT (liftT (getitem expected ''id'')) (\<lambda>i.
     bindT (read_deployment T tenant i) (\<lambda>current.
     liftT (if stored_document current \<noteq> expected
            then Inl (StateConflictError ''deployment record disagrees with transition authority'') else Inr ()))))"

definition source_deployment_changed :: "contract_env \<Rightarrow> DeploymentDocuments \<Rightarrow> json \<Rightarrow> bool py" where
  "source_deployment_changed env documents source =
     bindE (getitem (plan_intent documents) ''sourceManifest'') (\<lambda>expected_source.
     bindE (getitem expected_source ''spec'') (\<lambda>expected_spec.
     bindE (getitem expected_spec ''desiredDeployment'') (\<lambda>selected.
     anyE [neqE (dict_get source ''archiveSha256'') (dict_get selected ''archiveSha256''),
           neqE (dict_get source ''releaseTreeDigest'') (Inr (doc_source_release_tree_digest documents)),
           neqE (digest_dict (deployment_record_digest env source)) (Inr (doc_source_deployment_digest documents))])))"

definition require_source_deployment ::
    "contract_env \<Rightarrow> ('s, 'z) commit_transaction_scheme \<Rightarrow> DeploymentDocuments \<Rightarrow> string list \<Rightarrow> bool \<Rightarrow> ('s, unit) tx" where
  "require_source_deployment env T documents current_history transition_committed =
     bindT (liftT (bindE (getitem (doc_source_manifest documents) ''spec'') (\<lambda>spec. dict_get spec ''desiredDeployment''))) (\<lambda>expected.
     if expected = JNull then liftT (Inr ())
     else if \<not> is_dict expected then liftT (Inl (StateConflictError ''selected source deployment is absent''))
     else
     bindT (liftT (dict_get (plan_intent documents) ''sourceManifestDigest'')) (\<lambda>source_digest.
     bindT (liftT (getitem (plan_intent documents) ''sourceManifest'')) (\<lambda>expected_source.
     bindT (liftT (neqE (Inr source_digest) (digest_dict (manifest_digest env expected_source)))) (\<lambda>drifted.
     if drifted then liftT (Inl (DeploymentCommitError ''source manifest digest drifted''))
     else
     bindT (liftT (dict_get expected ''id'')) (\<lambda>source_id.
     if source_id \<notin> JStr ` set current_history
     then bindT (liftT (terminal_history documents)) (\<lambda>terminal.
       if source_id \<notin> JStr ` set terminal \<and> transition_committed then liftT (Inr ())
       else liftT (Inl (StateConflictError ''selected source deployment is absent'')))
     else
     bindT (read_deployment T (JStr (plan_tenant_id documents)) source_id) (\<lambda>source.
     bindT (liftT (source_deployment_changed env documents (stored_document source))) (\<lambda>changed.
     liftT (if changed then Inl (StateConflictError ''selected source deployment changed after dispatch'') else Inr ()))))))))"

text \<open>The history on disk: whether the deployment is still to be written, and which are to be retired.\<close>

definition deployment_admit_history ::
    "contract_env \<Rightarrow> 's deployment_transaction \<Rightarrow> DeploymentDocuments \<Rightarrow> bool \<Rightarrow> ('s, bool \<times> StoredContract list) tx" where
  "deployment_admit_history env T documents transition_committed =
     bindT (liftT (getitem (plan_deployment documents) ''id'')) (\<lambda>candidate.
     bindT (do_tenant_deployment_transition_ids T (JStr (plan_tenant_id documents)) candidate) (\<lambda>current.
     bindT (liftT (transition_history documents)) (\<lambda>transition.
     bindT (liftT (terminal_history documents)) (\<lambda>terminal.
     if \<not> history_is_replayable current (doc_history documents) transition terminal (plan_creates_deployment documents)
     then liftT (Inl (StateConflictError ''deployment history is outside recovery authority''))
     else
     bindT (liftT (deployment_target documents)) (\<lambda>target.
     let missing = plan_creates_deployment documents \<and> target \<notin> set current in
     thenT (if missing then liftT (Inr ()) else require_exact_deployment T (plan_deployment documents))
     (bindT (foldT (\<lambda>found i. bindT (read_deployment T (JStr (plan_tenant_id documents)) (JStr i)) (\<lambda>r. liftT (Inr (found @ [r]))))
               [] (filter (\<lambda>i. i \<notin> set terminal) current)) (\<lambda>retired.
      thenT (require_source_deployment env T documents current transition_committed)
      (liftT (Inr (missing, retired))))))))))"

text \<open>The inventory for a missing result, and the capacity for all that is written.\<close>

definition deployment_admit_writes ::
    "contract_env \<Rightarrow> ('s, 'z) commit_transaction_scheme \<Rightarrow> json \<Rightarrow> bool \<Rightarrow> json list \<Rightarrow> bool \<Rightarrow> HostCapacityLimits \<Rightarrow> ('s, unit) tx" where
  "deployment_admit_writes env T result result_missing writes audit_missing limits =
     thenT (if result_missing
            then bindT (record_allocation env T result) (\<lambda>allocation.
              thenT (bindT (liftT (StateInventoryReservation_post_init
                 \<lparr>reserved_tenants = 0, reserved_authorization_records = 1, reserved_authorization_bytes = allocation\<rparr>))
                 (do_admit_inventory T)) (liftT (Inr ())))
            else liftT (Inr ()))
     (let entries_written = length writes + of_bool audit_missing in
      if entries_written = 0 then liftT (Inr ())
      else
      bindT (foldT (\<lambda>total d. bindT (record_allocation env T d) (\<lambda>allocation. liftT (Inr (total + allocation)))) 0 writes) (\<lambda>records.
      bindT (if audit_missing then do_allocation_upper_bound T (maximum_segment_bytes DEFAULT_AUDIT_LIMITS)
             else liftT (Inr 0)) (\<lambda>segment.
      admit_commit_capacity T (records + segment) entries_written limits)))"

text \<open>What is to be written of the history and the states is known: the result, the entry, the job, and the room.\<close>

definition deployment_admit_room ::
    "contract_env \<Rightarrow> 's deployment_transaction \<Rightarrow> StoredContract \<Rightarrow> DeploymentDocuments \<Rightarrow> HostCapacityLimits
       \<Rightarrow> (bool \<Rightarrow> DeploymentProgress) \<Rightarrow> ('s, DeploymentProgress) tx" where
  "deployment_admit_room env T job documents limits progress_of =
     bindT (liftT (bindE (getitem (stored_document job) ''jobId'') authorization_result_path)) (\<lambda>result_path.
     bindT (result_is_missing deployment_module T result_path (plan_result documents)) (\<lambda>result_missing.
     bindT (do_inspect_audit T) (\<lambda>audit.
     bindT (liftT (deployment_audit_needs_append env audit (plan_audit_entry documents))) (\<lambda>audit_missing.
     thenT (if audit_missing then thenT (do_admit_deployment_audit T (plan_audit_entry documents)) (liftT (Inr ())) else liftT (Inr ()))
     (bindT (liftT (eqE (getitem (stored_document job) ''phase'') (lit ''claimed''))) (\<lambda>job_transition.
      bindT (liftT (if job_transition
                    then bindE (setitem (stored_document job) ''phase'' (JStr ''completed'')) (\<lambda>completed. Inr [completed])
                    else Inr [])) (\<lambda>completed.
      let progress = progress_of result_missing;
          writes = (if write_deployment progress then [plan_deployment documents] else [])
            @ (if write_desired_state progress then [plan_manifest documents] else [])
            @ (if write_observed_state progress then [plan_observed_state documents] else [])
            @ (if result_missing then [plan_result documents] else []) @ completed in
      thenT (deployment_admit_writes env T (plan_result documents) result_missing writes audit_missing limits)
      (liftT (Inr progress)))))))))"

definition deployment_admit_states ::
    "contract_env \<Rightarrow> 's deployment_transaction \<Rightarrow> StoredContract \<Rightarrow> DeploymentDocuments \<Rightarrow> HostCapacityLimits
       \<Rightarrow> StoredContract \<Rightarrow> StoredContract \<Rightarrow> ('s, DeploymentProgress) tx" where
  "deployment_admit_states env T job documents limits desired observed =
     (let d = stored_document desired; b = stored_document observed; source = doc_source_manifest documents;
          source_observed = doc_source_observed_state documents;
          replace_desired = (d = source \<and> d \<noteq> plan_manifest documents); replace_observed = (b = source_observed) in
     if d \<notin> {source, plan_manifest documents}
     then liftT (Inl (StateConflictError ''deployment desired state is outside recovery authority''))
     else if b \<notin> {source_observed, plan_observed_state documents}
     then liftT (Inl (StateConflictError ''deployment observed state is outside recovery authority''))
     else if b = plan_observed_state documents \<and> d \<noteq> plan_manifest documents
     then liftT (Inl (DeploymentCommitError ''deployment observed state advanced before desired state''))
     else
     bindT (deployment_admit_history env T documents (\<not> replace_desired \<and> \<not> replace_observed)) (\<lambda>(missing, retired).
     deployment_admit_room env T job documents limits (\<lambda>result_missing.
       \<lparr>state_desired = desired, state_observed = observed, retired_deployments = retired, write_deployment = missing,
        write_desired_state = replace_desired, write_observed_state = replace_observed,
        deployment_result_missing = result_missing\<rparr>)))"

definition deployment_admit_transition ::
    "contract_env \<Rightarrow> 's deployment_transaction \<Rightarrow> StoredContract \<Rightarrow> DeploymentDocuments \<Rightarrow> HostCapacityLimits
       \<Rightarrow> ('s, DeploymentProgress) tx" where
  "deployment_admit_transition env T job documents limits =
     bindT (bindT (liftT (tenant_desired_path (JStr (plan_tenant_id documents)))) (do_read T)) (\<lambda>desired.
     bindT (bindT (liftT (tenant_observed_path (JStr (plan_tenant_id documents)))) (do_read T))
       (deployment_admit_states env T job documents limits desired))"

definition admit_deployment_transition ::
    "contract_env \<Rightarrow> 's deployment_transaction \<Rightarrow> StoredContract \<Rightarrow> DeploymentTransitionPlan \<Rightarrow> HostCapacityLimits \<Rightarrow> ('s, unit) tx" where
  "admit_deployment_transition env T job plan limits =
     bindT (liftT (deployment_freeze_and_validate env job plan)) (\<lambda>documents.
     bindT (deployment_require_same_job T job) (\<lambda>current_job.
     thenT (deployment_require_exact_intent T documents)
     (thenT (deployment_admit_transition env T current_job documents limits) (liftT (Inr ())))))"

section \<open>Finalization\<close>

record DeploymentCommitOutcome =
  deployment_result :: json
  deployment_created :: bool

text \<open>The releases of the retired deployments are removed, each after the token for its record is taken.\<close>

definition remove_retired_releases ::
    "'s deployment_transaction \<Rightarrow> 's release_store \<Rightarrow> DeploymentDocuments \<Rightarrow> (DeploymentCommitBoundary \<Rightarrow> unit py)
       \<Rightarrow> StoredContract list \<Rightarrow> ('s, (StoredContract \<times> RemovalToken) list) tx" where
  "remove_retired_releases T R documents hook =
     foldT (\<lambda>authorities r.
       bindT (do_deployment_removal_token T r) (\<lambda>token.
       bindT (liftT (getitem (stored_document r) ''id'')) (\<lambda>i.
       bindT (liftT (getitem (stored_document r) ''releaseTreeDigest'')) (\<lambda>digest.
       thenT (do_remove_release R (JStr (plan_tenant_id documents)) i digest)
       (thenT (notify hook RETIRED_RELEASE_REMOVED)
       (liftT (Inr (authorities @ [(r, token)])))))))) []"

definition remove_retired_deployments ::
    "'s deployment_transaction \<Rightarrow> (DeploymentCommitBoundary \<Rightarrow> unit py) \<Rightarrow> (StoredContract \<times> RemovalToken) list \<Rightarrow> ('s, unit) tx" where
  "remove_retired_deployments T hook =
     foldT (\<lambda>_ (r, token). thenT (do_remove_exact_deployment T r token) (notify hook RETIRED_DEPLOYMENT_REMOVED)) ()"

definition publish_deployment :: "'s deployment_transaction \<Rightarrow> DeploymentDocuments \<Rightarrow> bool \<Rightarrow> ('s, unit) tx" where
  "publish_deployment T documents missing =
     (if missing
      then bindT (liftT (bindE (getitem (plan_deployment documents) ''id'')
              (tenant_deployment_path (JStr (plan_tenant_id documents))))) (\<lambda>p.
           thenT (do_create_immutable T p (plan_deployment documents)) (liftT (Inr ())))
      else liftT (Inr ()))"

definition deployment_publish ::
    "contract_env \<Rightarrow> 's deployment_transaction \<Rightarrow> 's release_store \<Rightarrow> StoredContract \<Rightarrow> DeploymentDocuments \<Rightarrow> HostCapacityLimits
       \<Rightarrow> (DeploymentCommitBoundary \<Rightarrow> unit py) \<Rightarrow> ('s, DeploymentCommitOutcome) tx" where
  "deployment_publish env T R current_job documents limits hook =
     bindT (deployment_require_exact_intent T documents) (\<lambda>intent_removal.
     bindT (deployment_admit_transition env T current_job documents limits) (\<lambda>progress.
     thenT (require_selected_release R documents)
     (thenT (publish_deployment T documents (write_deployment progress))
     (thenT (notify hook DEPLOYMENT_SYNC)
     (thenT (replace_state T (write_desired_state progress) (tenant_desired_path (JStr (plan_tenant_id documents)))
              (state_desired progress) (plan_manifest documents))
     (thenT (notify hook DEPLOYMENT_DESIRED_SYNC)
     (thenT (replace_state T (write_observed_state progress) (tenant_observed_path (JStr (plan_tenant_id documents)))
              (state_observed progress) (plan_observed_state documents))
     (thenT (notify hook DEPLOYMENT_OBSERVED_SYNC)
     (bindT (remove_retired_releases T R documents hook (retired_deployments progress)) (\<lambda>authorities.
      thenT (remove_retired_deployments T hook authorities)
     (thenT (deployment_ensure_audit env T (plan_audit_entry documents))
     (thenT (notify hook DEPLOYMENT_AUDIT_SYNC)
     (thenT (deployment_ensure_result T current_job (plan_result documents) (deployment_result_missing progress))
     (thenT (notify hook DEPLOYMENT_RESULT_SYNC)
     (thenT (deployment_ensure_completed_job T current_job)
     (thenT (notify hook DEPLOYMENT_JOB_SYNC)
     (thenT (do_remove_reconciled_intent T (exact_path intent_removal) (exact_token intent_removal))
     (thenT (notify hook DEPLOYMENT_INTENT_REMOVED)
     (liftT (Inr \<lparr>deployment_result = plan_result documents,
                  deployment_created = deployment_result_missing progress\<rparr>))))))))))))))))))))"

definition finalize_deployment_transition_outcome ::
    "contract_env \<Rightarrow> 's deployment_transaction \<Rightarrow> 's release_store \<Rightarrow> StoredContract \<Rightarrow> DeploymentTransitionPlan \<Rightarrow> HostCapacityLimits
       \<Rightarrow> (DeploymentCommitBoundary \<Rightarrow> unit py) \<Rightarrow> ('s, DeploymentCommitOutcome) tx" where
  "finalize_deployment_transition_outcome env T R job plan limits hook =
     bindT (liftT (deployment_freeze_and_validate env job plan)) (\<lambda>documents.
     bindT (deployment_require_same_job T job) (\<lambda>current_job.
     bindT (terminal_deployment_without_intent env T R current_job documents) (\<lambda>terminal.
     case terminal of
       Some result \<Rightarrow> liftT (Inr \<lparr>deployment_result = result, deployment_created = False\<rparr>)
     | None \<Rightarrow> deployment_publish env T R current_job documents limits hook)))"

definition finalize_deployment_transition ::
    "contract_env \<Rightarrow> 's deployment_transaction \<Rightarrow> 's release_store \<Rightarrow> StoredContract \<Rightarrow> DeploymentTransitionPlan \<Rightarrow> HostCapacityLimits
       \<Rightarrow> (DeploymentCommitBoundary \<Rightarrow> unit py) \<Rightarrow> ('s, json) tx" where
  "finalize_deployment_transition env T R job plan limits hook =
     bindT (finalize_deployment_transition_outcome env T R job plan limits hook) (\<lambda>outcome. liftT (Inr (deployment_result outcome)))"

end
