(* ===== verification/Deployment_Laws.thy ===== *)
theory Deployment_Laws
  imports Repository_Commit Deployment_Commit
begin

text \<open>
  What the commit of a deployment does to the records and the log, and which deployments it leaves,
  proved from the promises of the transaction and the release store it runs with.
\<close>

section \<open>The documents and the retained history\<close>

lemma deployment_documents_simps [simp]:
  "plan_tenant_id (deployment_documents plan source observed ids d r) = plan_tenant_id plan"
  "plan_intent_id (deployment_documents plan source observed ids d r) = plan_intent_id plan"
  "plan_manifest (deployment_documents plan source observed ids d r) = plan_manifest plan"
  "plan_observed_state (deployment_documents plan source observed ids d r) = plan_observed_state plan"
  "plan_intent (deployment_documents plan source observed ids d r) = plan_intent plan"
  "plan_result (deployment_documents plan source observed ids d r) = plan_result plan"
  "plan_audit_entry (deployment_documents plan source observed ids d r) = plan_audit_entry plan"
  "plan_deployment (deployment_documents plan source observed ids d r) = plan_deployment plan"
  "plan_creates_deployment (deployment_documents plan source observed ids d r) = plan_creates_deployment plan"
  "doc_history (deployment_documents plan source observed ids d r) = ids"
  by (simp_all add: deployment_documents_def DeploymentTransitionPlan.defs DeploymentDocuments.defs)

lemma deployment_document_stages [simp]:
  "deployment_target (deployment_documents plan source observed ids d r) = deployment_target plan"
  "desired_slot (deployment_documents plan source observed ids d r) = desired_slot plan"
  "observed_slot (deployment_documents plan source observed ids d r) = observed_slot plan"
  "commit_stage (deployment_documents plan source observed ids d r) = commit_stage plan"
  by (simp_all add: deployment_target_def commit_slots commit_stage_def fun_eq_iff)

lemma deployment_frozen:
  assumes "deployment_freeze_and_validate env job plan = Inr documents"
  obtains source observed ids d r target where "documents = deployment_documents plan source observed ids d r"
    "deployment_target plan = Inr target" "dict_get (plan_deployment plan) ''tenantId'' = lit (plan_tenant_id plan)"
proof -
  have authority: "deployment_authority (stored_document job) plan = Inr documents"
    and related: "deployment_validate_relationships env (stored_document job) documents = Inr ()"
    using assms by (auto simp: deployment_freeze_and_validate_def bindE_Inr_iff thenE_Inr)
  from authority obtain source observed ids d r where docs: "documents = deployment_documents plan source observed ids d r"
    unfolding deployment_authority_def bindE_Inr_iff if_Inl_Inr_iff sum.inject by blast
  from related have "deployment_target plan \<noteq> Inl e" for e
    unfolding deployment_validate_relationships_def docs by (auto simp: bindE_Inr_iff split: if_split_asm option.split_asm)
  then obtain target where target: "deployment_target plan = Inr target" by (cases "deployment_target plan") auto
  from related have "dict_get (plan_deployment plan) ''tenantId'' = lit (plan_tenant_id plan)"
    unfolding deployment_validate_relationships_def docs deployment_outcome_disagrees_def Let_def
    by (auto simp: bindE_Inr_iff check_simps split: if_split_asm option.split_asm)
  with docs target show thesis by (rule that)
qed

text \<open>The identities a commit leaves: at most three, the target among them.\<close>

lemma terminal_history_target:
  assumes "terminal_history documents = Inr terminal" "deployment_target documents = Inr target"
  shows "target \<in> set terminal" "length terminal \<le> MAXIMUM_RETAINED_DEPLOYMENTS" "last terminal = target"
proof -
  obtain history where h: "target \<in> set history"
    "terminal = drop (length (takeWhile (\<lambda>i. i \<noteq> target) history) - 2) (take (length (takeWhile (\<lambda>i. i \<noteq> target) history) + 1) history)"
    using assms by (auto simp: terminal_history_def bindE_Inr_iff Let_def MAXIMUM_RETAINED_DEPLOYMENTS_def split: if_split_asm)
  let ?k = "length (takeWhile (\<lambda>i. i \<noteq> target) history)"
  obtain ys zs where split: "history = ys @ target # zs" "target \<notin> set ys" using split_list_first[OF h(1)] by blast
  then have "takeWhile (\<lambda>i. i \<noteq> target) history = ys" by (subst split(1), subst takeWhile_append2) auto
  then have k: "?k < length history" "history ! ?k = target" using split(1) by simp_all
  show "length terminal \<le> MAXIMUM_RETAINED_DEPLOYMENTS" using k(1) by (simp add: h(2) MAXIMUM_RETAINED_DEPLOYMENTS_def)
  have "terminal \<noteq> []" "last terminal = history ! ?k" using k(1) by (simp_all add: h(2) last_drop last_conv_nth)
  then show "last terminal = target" "target \<in> set terminal" using k(2) last_in_set[of terminal] by auto
qed

section \<open>The stages of a deployment\<close>

definition deployment_slot :: "string \<Rightarrow> string \<Rightarrow> string list" where
  "deployment_slot tid i = [''tenants'', tid, ''deployments'', i @ ''.json'']"

lemma deployment_slot_apart [simp]:
  "deployment_slot tid i \<noteq> desired_slot plan" "deployment_slot tid i \<noteq> observed_slot plan" "deployment_slot tid i \<noteq> intent_slot plan"
  "deployment_slot tid i \<noteq> result_slot job" "deployment_slot tid i \<noteq> commit_job_slot job"
  "desired_slot plan \<noteq> deployment_slot tid i" "observed_slot plan \<noteq> deployment_slot tid i" "intent_slot plan \<noteq> deployment_slot tid i"
  "result_slot job \<noteq> deployment_slot tid i" "commit_job_slot job \<noteq> deployment_slot tid i"
  "deployment_slot tid i = deployment_slot tid' j \<longleftrightarrow> tid = tid' \<and> i = j"
  by (auto simp: commit_slots deployment_slot_def)

text \<open>The selected deployment is there, and those of some identities are gone.\<close>

definition with_deployment :: "'p DeploymentTransitionPlan_scheme \<Rightarrow> record_store \<Rightarrow> record_store" where
  "with_deployment plan D =
     (case deployment_target plan of
        Inr i \<Rightarrow> D(deployment_slot (plan_tenant_id plan) i := Some (plan_deployment plan)) | Inl e \<Rightarrow> D)"

definition retire :: "string \<Rightarrow> string list \<Rightarrow> record_store \<Rightarrow> record_store" where
  "retire tid gone D = (\<lambda>c. if c \<in> deployment_slot tid ` set gone then None else D c)"

lemma retire_simps [simp]: "retire tid [] D = D" "retire tid gone D (deployment_slot tid i) = (if i \<in> set gone then None else D (deployment_slot tid i))"
  by (auto simp: retire_def)

lemma retire_step: "(commit_stage plan job 2 (retire tid gone D))(deployment_slot tid i := None) = commit_stage plan job 2 (retire tid (gone @ [i]) D)"
  by (auto simp: fun_eq_iff commit_stage_apply retire_def)

definition retained_history :: "contract_env \<Rightarrow> StoredContract \<Rightarrow> DeploymentTransitionPlan \<Rightarrow> string list py" where
  "retained_history env job plan = bindE (deployment_freeze_and_validate env job plan) terminal_history"

text \<open>
  What a deployment commit leaves where it raises: the states only after the deployment, no record
  retired before both states, nothing recorded before the retirement, and no retained record retired.
\<close>

definition deployment_interrupted ::
    "contract_env \<Rightarrow> DeploymentTransitionPlan \<Rightarrow> StoredContract \<Rightarrow> record_store \<Rightarrow> record_store \<Rightarrow> AuditState py \<Rightarrow> bool" where
  "deployment_interrupted env plan job D D' L \<longleftrightarrow>
     (\<exists>k gone D1. k \<le> 5 \<and> D1 \<in> {D, with_deployment plan D} \<and>
        D' = commit_stage plan (stored_document job) k (retire (plan_tenant_id plan) gone D1) \<and>
        (0 < k \<longrightarrow> D1 = with_deployment plan D) \<and> (gone \<noteq> [] \<longrightarrow> 2 \<le> k) \<and>
        (\<forall>terminal. retained_history env job plan = Inr terminal \<longrightarrow> set gone \<inter> set terminal = {}) \<and>
        (k \<le> 2 \<or> recorded env (plan_audit_entry plan) L))"

lemma deployment_interruptedI:
  "D' = D \<Longrightarrow> deployment_interrupted env plan job D D' L"
  "D1 \<in> {D, with_deployment plan D} \<Longrightarrow> D' = D1 \<Longrightarrow> deployment_interrupted env plan job D D' L"
  "k \<le> 2 \<Longrightarrow> D' = commit_stage plan (stored_document job) k (with_deployment plan D) \<Longrightarrow> deployment_interrupted env plan job D D' L"
  "retained_history env job plan = Inr terminal \<Longrightarrow> set gone \<inter> set terminal = {} \<Longrightarrow>
    D' = commit_stage plan (stored_document job) 2 (retire (plan_tenant_id plan) gone (with_deployment plan D)) \<Longrightarrow>
    deployment_interrupted env plan job D D' L"
  subgoal unfolding deployment_interrupted_def by (intro exI[of _ 0] exI[of _ "[]"] exI[of _ D]) simp
  subgoal unfolding deployment_interrupted_def by (intro exI[of _ 0] exI[of _ "[]"] exI[of _ D1]) simp
  subgoal unfolding deployment_interrupted_def by (intro exI[of _ k] exI[of _ "[]"] exI[of _ "with_deployment plan D"]) simp
  subgoal unfolding deployment_interrupted_def by (intro exI[of _ 2] exI[of _ gone] exI[of _ "with_deployment plan D"]) simp
  done


text \<open>Interrupted in its last steps, or done: only the retained deployments are left.\<close>

lemma deployment_interrupted_tail:
  assumes "retained_history env job plan = Inr terminal" "set gone \<inter> set terminal = {}"
    and "commit_interrupted env plan (stored_document job)
      (commit_stage plan (stored_document job) 2 (retire (plan_tenant_id plan) gone (with_deployment plan D))) D' L"
  shows "deployment_interrupted env plan job D D' L"
proof -
  obtain k where "k \<le> 5" "k \<le> 2 \<or> recorded env (plan_audit_entry plan) L"
    "D' = commit_stage plan (stored_document job) (max 2 k) (retire (plan_tenant_id plan) gone (with_deployment plan D))"
    using assms(3) by (auto simp: commit_interrupted_def commit_stage_compose)
  then show ?thesis
    unfolding deployment_interrupted_def
    by (intro exI[of _ "max 2 k"] exI[of _ gone] exI[of _ "with_deployment plan D"]) (use assms(1,2) in auto)
qed

definition deployment_committed ::
    "contract_env \<Rightarrow> DeploymentTransitionPlan \<Rightarrow> StoredContract \<Rightarrow> record_store \<Rightarrow> record_store \<Rightarrow> bool" where
  "deployment_committed env plan job D D' \<longleftrightarrow>
     (\<exists>terminal gone. retained_history env job plan = Inr terminal \<and>
        D' = commit_stage plan (stored_document job) 5 (retire (plan_tenant_id plan) gone (with_deployment plan D)) \<and>
        set gone \<inter> set terminal = {} \<and>
        (\<forall>x. D' (deployment_slot (plan_tenant_id plan) x) \<noteq> None \<longrightarrow> x \<in> set terminal))"

lemma deployment_committedI:
  assumes "retained_history env job plan = Inr terminal"
    and "D' = commit_stage plan (stored_document job) 5 (retire (plan_tenant_id plan) gone (with_deployment plan D))"
    and "set gone \<inter> set terminal = {}" "\<And>i. D' (deployment_slot (plan_tenant_id plan) i) \<noteq> None \<Longrightarrow> i \<in> set terminal"
  shows "deployment_committed env plan job D D'"
  unfolding deployment_committed_def using assms by blast

section \<open>What the admission finds\<close>

text \<open>Of the history: what a missing record, the records to retire and the retained ones are.\<close>

definition history_plan :: "DeploymentDocuments \<Rightarrow> string \<Rightarrow> record_store \<Rightarrow> bool \<Rightarrow> StoredContract list \<Rightarrow> bool" where
  "history_plan documents target D missing retired \<longleftrightarrow>
     (let tid = plan_tenant_id documents in
      \<exists>terminal current. terminal_history documents = Inr terminal \<and>
        (\<forall>x. D (deployment_slot tid x) \<noteq> None \<longrightarrow> x \<in> set current) \<and>
        (missing \<or> D (deployment_slot tid target) = Some (plan_deployment documents)) \<and>
        list_all2 (\<lambda>i r. getitem (stored_document r) ''tenantId'' = lit tid \<and> getitem (stored_document r) ''id'' = lit i)
          (filter (\<lambda>i. i \<notin> set terminal) current) retired)"

text \<open>What the admission has found, for the writes that follow.\<close>

definition admitted :: "DeploymentDocuments \<Rightarrow> string \<Rightarrow> json \<Rightarrow> record_store \<Rightarrow> DeploymentProgress \<Rightarrow> bool" where
  "admitted documents target job D x \<longleftrightarrow>
     history_plan documents target D (write_deployment x) (retired_deployments x) \<and>
     (write_desired_state x \<or> D (desired_slot documents) = Some (plan_manifest documents)) \<and>
     (write_observed_state x \<or> D (observed_slot documents) = Some (plan_observed_state documents)) \<and>
     (deployment_result_missing x \<longleftrightarrow> D (result_slot job) = None)"

section \<open>The promises of the transaction and the release store\<close>

locale deployment_store = commit_store env T docs log sound
  for env :: contract_env and T :: "'s deployment_transaction"
    and docs :: "'s \<Rightarrow> record_store" and log :: "'s \<Rightarrow> AuditState py" and sound :: "'s \<Rightarrow> bool" +
  fixes R :: "'s release_store"
  assumes observe_deployments:
      "leaves (same_view docs log sound) (do_admit_deployment_audit T d)"
      "leaves (same_view docs log sound) (do_deployment_removal_token T r)"
      "leaves (same_view docs log sound) (do_tenant_deployment_ids T tenant)"
      "leaves (same_view docs log sound) (do_tenant_deployment_transition_ids T tenant i)"
      "leaves (same_view docs log sound) (do_measure_release R tenant i)"
      "leaves (same_view docs log sound) (do_remove_release R tenant i digest)"
    and lists_all: "sound s \<Longrightarrow>
      outcome (do_tenant_deployment_ids T (JStr tid)) (\<lambda>ids _. \<forall>x. docs s (deployment_slot tid x) \<noteq> None \<longrightarrow> x \<in> set ids) (\<lambda>_ _. True) s"
    and lists_transition: "sound s \<Longrightarrow>
      outcome (do_tenant_deployment_transition_ids T (JStr tid) i)
        (\<lambda>ids _. \<forall>x. docs s (deployment_slot tid x) \<noteq> None \<longrightarrow> x \<in> set ids) (\<lambda>_ _. True) s"
    and reads_bound: "sound s \<Longrightarrow> tenant_deployment_path tenant i = Inr p \<Longrightarrow>
      outcome (do_read T p) (\<lambda>r _. getitem (stored_document r) ''tenantId'' = Inr tenant \<and> getitem (stored_document r) ''id'' = Inr i)
        (\<lambda>_ _. True) s"
    and removes_exact: "sound s \<Longrightarrow> getitem (stored_document r) ''tenantId'' = lit tid \<Longrightarrow> getitem (stored_document r) ''id'' = lit x \<Longrightarrow>
      sets_record docs log sound (deployment_slot tid x) None (do_remove_exact_deployment T r removal) s"
begin

lemma deployment_same_job_finds:
  assumes "sound s"
  shows "outcome (deployment_require_same_job T job)
    (\<lambda>current t. sound t \<and> docs t = docs s \<and> log t = log s \<and>
       docs s (commit_job_slot (stored_document job)) = Some (stored_document current) \<and>
       job_identity (stored_document current) = job_identity (stored_document job))
    (\<lambda>e t. sound t \<and> docs t = docs s \<and> log t = log s) s"
  unfolding deployment_require_same_job_def
proof (rule outcome_bind_lift)
  fix p assume "bindE (getitem (stored_document job) ''jobId'') authorization_job_path = Inr p"
  then obtain v where v: "getitem (stored_document job) ''jobId'' = Inr v" "authorization_job_path v = Inr p"
    by (auto simp: bindE_Inr_iff)
  have same: "job_identity d = job_identity d'" if "without [''phase''] d' = without [''phase''] d" for d d'
    using getitem_without[of "''jobId''" "[''phase'']" d] getitem_without[of "''jobId''" "[''phase'']" d'] that
    by (simp add: job_identity_def)
  show "outcome (bindT (do_read T p) (\<lambda>current.
     liftT (bindE (pop (stored_document job) ''phase'') (\<lambda>first.
            bindE (pop (stored_document current) ''phase'') (\<lambda>second.
            bindE (anyE [Inr (first \<noteq> second), testE Not (phase_dispatched (stored_document current))]) (\<lambda>changed.
            if changed then Inl (DeploymentCommitError ''authorization job changed before deployment finalization'')
            else Inr current))))))
    (\<lambda>current t. sound t \<and> docs t = docs s \<and> log t = log s \<and>
       docs s (commit_job_slot (stored_document job)) = Some (stored_document current) \<and>
       job_identity (stored_document current) = job_identity (stored_document job))
    (\<lambda>e t. sound t \<and> docs t = docs s \<and> log t = log s) s"
    by (rule outcome_bind[OF outcome_conseq[OF outcome_conj[OF observing[OF observe(1) assms]
            read_finds[OF assms lasting_paths(3)[OF v(2)] commit_paths(5)[OF v]]]]], assumption, blast)
      (auto intro!: outcome_lift same simp: pop_def bindE_Inr_iff check_simps split: if_splits)
qed (use assms in simp)

lemma read_deployment_finds:
  assumes "sound s"
  shows "outcome (read_deployment T (JStr tid) i)
    (\<lambda>r t. sound t \<and> docs t = docs s \<and> log t = log s \<and>
       getitem (stored_document r) ''tenantId'' = lit tid \<and> getitem (stored_document r) ''id'' = Inr i \<and>
       (\<forall>x. i = JStr x \<longrightarrow> docs s (deployment_slot tid x) = Some (stored_document r)))
    (\<lambda>e t. sound t \<and> docs t = docs s \<and> log t = log s) s"
  unfolding read_deployment_def
proof (rule outcome_bind_lift)
  fix p assume p: "tenant_deployment_path (JStr tid) i = Inr p"
  then obtain x where x: "i = JStr x" "path_components p = Inr (deployment_slot tid x)"
    by (auto simp: path_constructor_defs path_components_def tenant_components_def deployment_components_def require_record_id_def
        bindE_Inr_iff uuid7_iff deployment_slot_def)
  have ok: "lasting p" using constructed_path_ok(5)[OF p] constructed_path_name(3)[OF p] by (simp add: lasting_def is_intent_def)
  show "outcome (do_read T p)
    (\<lambda>r t. sound t \<and> docs t = docs s \<and> log t = log s \<and>
       getitem (stored_document r) ''tenantId'' = lit tid \<and> getitem (stored_document r) ''id'' = Inr i \<and>
       (\<forall>x. i = JStr x \<longrightarrow> docs s (deployment_slot tid x) = Some (stored_document r)))
    (\<lambda>e t. sound t \<and> docs t = docs s \<and> log t = log s) s"
    by (rule outcome_conseq[OF outcome_conj[OF observing[OF observe(1) assms]
            outcome_conj[OF read_finds[OF assms ok x(2)] reads_bound[OF assms p]]]]) (auto simp: x(1))
qed (use assms in simp)

lemma read_deployment_quiet: "leaves (same_view docs log sound) (read_deployment T tenant i)"
  unfolding read_deployment_def by (intro same_view_intros observe)

text \<open>The deployments that are to be retired, each read.\<close>

lemma read_all_finds:
  assumes "sound s"
  shows "outcome (foldT (\<lambda>found i. bindT (read_deployment T (JStr tid) (JStr i)) (\<lambda>r. liftT (Inr (found @ [r])))) found ids)
    (\<lambda>rs t. sound t \<and> docs t = docs s \<and> log t = log s \<and> (\<exists>new. rs = found @ new \<and>
       list_all2 (\<lambda>i r. getitem (stored_document r) ''tenantId'' = lit tid \<and> getitem (stored_document r) ''id'' = lit i) ids new))
    (\<lambda>e t. sound t \<and> docs t = docs s \<and> log t = log s) s"
  using assms
proof (induction ids arbitrary: found s)
  case Nil
  then show ?case by (simp add: outcome_def liftT_def)
next
  case (Cons i ids)
  show ?case
    unfolding foldT.simps bind_nested
  proof (rule outcome_bind[OF outcome_conseq[OF read_deployment_finds[OF Cons.prems]]], assumption)
    fix r :: StoredContract and t
    assume r: "sound t \<and> docs t = docs s \<and> log t = log s \<and>
       getitem (stored_document r) ''tenantId'' = lit tid \<and> getitem (stored_document r) ''id'' = lit i \<and>
       (\<forall>x. JStr i = JStr x \<longrightarrow> docs s (deployment_slot tid x) = Some (stored_document r))"
    then have "sound t" by simp
    from Cons.IH[OF this, of "found @ [r]"]
    show "outcome (bindT (liftT (Inr (found @ [r]))) (\<lambda>found. foldT (\<lambda>found i. bindT (read_deployment T (JStr tid) (JStr i)) (\<lambda>r. liftT (Inr (found @ [r])))) found ids))
      (\<lambda>rs t. sound t \<and> docs t = docs s \<and> log t = log s \<and> (\<exists>new. rs = found @ new \<and>
         list_all2 (\<lambda>i r. getitem (stored_document r) ''tenantId'' = lit tid \<and> getitem (stored_document r) ''id'' = lit i) (i # ids) new))
      (\<lambda>e t. sound t \<and> docs t = docs s \<and> log t = log s) t"
      unfolding bind_lift by (rule outcome_conseq) (use r in \<open>auto simp: list_all2_Cons1\<close>)
  qed simp
qed

lemma exact_deployment_finds:
  assumes "sound s" "getitem d ''tenantId'' = lit tid" "getitem d ''id'' = lit i"
  shows "outcome (require_exact_deployment T d)
    (\<lambda>_ t. sound t \<and> docs t = docs s \<and> log t = log s \<and> docs s (deployment_slot tid i) = Some d)
    (\<lambda>e t. sound t \<and> docs t = docs s \<and> log t = log s) s"
  unfolding require_exact_deployment_def assms(2,3) bind_lift
  by (rule outcome_bind[OF outcome_conseq[OF read_deployment_finds[OF assms(1)]]], assumption) (auto intro!: outcome_lift split: if_split_asm)

lemma source_deployment_quiet: "leaves (same_view docs log sound) (require_source_deployment env T documents current committed)"
  unfolding require_source_deployment_def by (intro same_view_intros read_deployment_quiet if_leaves)

lemma admit_history_finds:
  assumes "sound s" "deployment_target documents = Inr target"
    and "getitem (plan_deployment documents) ''tenantId'' = lit (plan_tenant_id documents)"
  shows "outcome (deployment_admit_history env T documents committed)
    (\<lambda>(missing, retired) t. sound t \<and> docs t = docs s \<and> log t = log s \<and> history_plan documents target (docs s) missing retired)
    (\<lambda>e t. sound t \<and> docs t = docs s \<and> log t = log s) s" (is "outcome _ ?Q ?E s")
proof -
  let ?tid = "plan_tenant_id documents"
  have id: "getitem (plan_deployment documents) ''id'' = lit target"
    using assms(2) by (auto simp: deployment_target_def bindE_Inr_iff elim: as_str.elims)
  show ?thesis
    unfolding deployment_admit_history_def id assms(2) bind_lift
  proof (rule observing_with[OF observe_deployments(4) assms(1) lists_transition[OF assms(1)]], rule outcome_bind_lift,
      rule outcome_bind_lift, rule outcome_if)
    fix current t transition terminal
    assume t: "sound t" "docs t = docs s" "log t = log s" and all: "\<forall>x. docs s (deployment_slot ?tid x) \<noteq> None \<longrightarrow> x \<in> set current"
      and terminal: "terminal_history documents = Inr terminal"
    let ?missing = "plan_creates_deployment documents \<and> target \<notin> set current"
    let ?rest = "bindT (foldT (\<lambda>found i. bindT (read_deployment T (JStr ?tid) (JStr i)) (\<lambda>r. liftT (Inr (found @ [r]))))
               [] (filter (\<lambda>i. i \<notin> set terminal) current)) (\<lambda>retired.
      thenT (require_source_deployment env T documents current committed) (liftT (Inr (?missing, retired))))"
    have exact: "outcome (if ?missing then liftT (Inr ()) else require_exact_deployment T (plan_deployment documents))
      (\<lambda>_ u. sound u \<and> docs u = docs t \<and> log u = log t \<and> (?missing \<or> docs t (deployment_slot ?tid target) = Some (plan_deployment documents)))
      (\<lambda>e u. sound u \<and> docs u = docs t \<and> log u = log t) t"
      using exact_deployment_finds[OF t(1) assms(3) id] t(1)
      by (cases ?missing) (auto intro!: outcome_lift elim!: outcome_conseq simp del: de_Morgan_conj)
    show "outcome (let missing = ?missing in thenT (if missing then liftT (Inr ()) else require_exact_deployment T (plan_deployment documents))
      (bindT (foldT (\<lambda>found i. bindT (read_deployment T (JStr ?tid) (JStr i)) (\<lambda>r. liftT (Inr (found @ [r]))))
               [] (filter (\<lambda>i. i \<notin> set terminal) current)) (\<lambda>retired.
      thenT (require_source_deployment env T documents current committed) (liftT (Inr (missing, retired)))))) ?Q ?E t"
      unfolding Let_def
    proof (rule outcome_then[OF outcome_conseq[OF exact]], assumption)
      fix u assume u: "sound u \<and> docs u = docs t \<and> log u = log t \<and> (?missing \<or> docs t (deployment_slot ?tid target) = Some (plan_deployment documents))"
      then have sound: "sound u" by simp
      show "outcome ?rest ?Q ?E u"
      proof (rule outcome_bind[OF outcome_conseq[OF read_all_finds[OF sound]]], assumption)
        fix retired :: "StoredContract list" and v
        assume v: "sound v \<and> docs v = docs u \<and> log v = log u \<and> (\<exists>new. retired = [] @ new \<and>
           list_all2 (\<lambda>i r. getitem (stored_document r) ''tenantId'' = lit ?tid \<and> getitem (stored_document r) ''id'' = lit i)
             (filter (\<lambda>i. i \<notin> set terminal) current) new)"
        then have "sound v" by simp
        moreover have "history_plan documents target (docs s) ?missing retired"
          unfolding history_plan_def Let_def using all terminal u v t by (intro exI[of _ terminal] exI[of _ current]) auto
        ultimately show "outcome (thenT (require_source_deployment env T documents current committed)
            (liftT (Inr (?missing, retired)))) ?Q ?E v"
          unfolding thenT_def by (rule_tac observing_bind[OF source_deployment_quiet]) (use t u v in \<open>auto intro!: outcome_lift\<close>)
      qed (use t u in auto)
    qed (use t in auto)
  qed (use assms(1) in \<open>auto intro!: outcome_lift\<close>)
qed

text \<open>The admission of all that is to be written.\<close>

lemma observe_deployment_writes:
  "leaves (same_view docs log sound) (deployment_admit_writes env T result missing writes audit_missing limits)"
  unfolding deployment_admit_writes_def Let_def by (intro same_view_intros observe_capacity observe if_leaves)

lemma deployment_room_found:
  assumes "sound s" "job_identity (stored_document cur) = job_identity job"
  shows "outcome (deployment_admit_room env T cur documents limits f)
    (\<lambda>x t. sound t \<and> docs t = docs s \<and> log t = log s \<and> x = f (docs s (result_slot job) = None))
    (\<lambda>e t. sound t \<and> docs t = docs s \<and> log t = log s) s" (is "outcome _ ?Q ?E s")
  unfolding deployment_admit_room_def
proof (rule outcome_bind_lift)
  fix p
  assume "bindE (getitem (stored_document cur) ''jobId'') authorization_result_path = Inr p"
  then obtain v where v: "getitem (stored_document cur) ''jobId'' = Inr v" "authorization_result_path v = Inr p"
    by (auto simp: bindE_Inr_iff)
  have path: "path_components p = Inr (result_slot job)"
    using commit_paths(4)[OF v] same_slots[OF assms(2)] by simp
  define room where "room = (\<lambda>result_missing. bindT (do_inspect_audit T) (\<lambda>audit.
     bindT (liftT (deployment_audit_needs_append env audit (plan_audit_entry documents))) (\<lambda>audit_missing.
     thenT (if audit_missing then thenT (do_admit_deployment_audit T (plan_audit_entry documents)) (liftT (Inr ())) else liftT (Inr ()))
     (bindT (liftT (eqE (getitem (stored_document cur) ''phase'') (lit ''claimed''))) (\<lambda>job_transition.
      bindT (liftT (if job_transition
                    then bindE (setitem (stored_document cur) ''phase'' (JStr ''completed'')) (\<lambda>completed. Inr [completed])
                    else Inr [])) (\<lambda>completed.
      let progress = f result_missing;
          writes = (if write_deployment progress then [plan_deployment documents] else [])
            @ (if write_desired_state progress then [plan_manifest documents] else [])
            @ (if write_observed_state progress then [plan_observed_state documents] else [])
            @ (if result_missing then [plan_result documents] else []) @ completed in
      thenT (deployment_admit_writes env T (plan_result documents) result_missing writes audit_missing limits)
      (liftT (Inr progress))))))))"
  have quiet: "leaves (same_view docs log sound) (room missing)" for missing
    unfolding room_def Let_def by (intro same_view_intros observe observe_deployments observe_deployment_writes if_leaves)
  have chosen: "x = f missing" if "room missing t = (Inr x, u)" for x missing t u
    using that unfolding room_def Let_def by (auto simp: tx_simps)
  show "outcome (bindT (result_is_missing deployment_module T p (plan_result documents)) room) ?Q ?E s"
  proof (rule outcome_bind[OF outcome_conseq[OF result_missing_found[OF assms(1) lasting_paths(4)[OF v(2)] path]]], assumption)
    fix missing t
    assume t: "sound t \<and> docs t = docs s \<and> log t = log s \<and> (missing \<longleftrightarrow> docs s (result_slot job) = None)"
    then have "sound t" by simp
    from outcome_conj[OF observing[OF quiet this] outcome_exact] show "outcome (room missing) ?Q ?E t"
      by (rule outcome_conseq) (use t in \<open>auto dest: chosen\<close>)
  qed simp
qed (use assms(1) in simp)

lemma deployment_states_found:
  assumes "sound s" "job_identity (stored_document cur) = job_identity job" "deployment_target documents = Inr target"
    and "getitem (plan_deployment documents) ''tenantId'' = lit (plan_tenant_id documents)"
    and "docs s (desired_slot documents) = Some (stored_document desired)"
    and "docs s (observed_slot documents) = Some (stored_document observed)"
  shows "outcome (deployment_admit_states env T cur documents limits desired observed)
    (\<lambda>x t. sound t \<and> docs t = docs s \<and> log t = log s \<and> admitted documents target job (docs s) x)
    (\<lambda>e t. sound t \<and> docs t = docs s \<and> log t = log s) s"
  unfolding deployment_admit_states_def Let_def
proof (intro outcome_if)
  assume states: "\<not> stored_document desired \<notin> {doc_source_manifest documents, plan_manifest documents}"
    "\<not> stored_document observed \<notin> {doc_source_observed_state documents, plan_observed_state documents}"
  show "outcome (bindT (deployment_admit_history env T documents
        (\<not> (stored_document desired = doc_source_manifest documents \<and> stored_document desired \<noteq> plan_manifest documents) \<and>
         stored_document observed \<noteq> doc_source_observed_state documents)) (\<lambda>(missing, retired).
      deployment_admit_room env T cur documents limits (\<lambda>result_missing.
       \<lparr>state_desired = desired, state_observed = observed, retired_deployments = retired, write_deployment = missing,
        write_desired_state = (stored_document desired = doc_source_manifest documents \<and> stored_document desired \<noteq> plan_manifest documents),
        write_observed_state = (stored_document observed = doc_source_observed_state documents),
        deployment_result_missing = result_missing\<rparr>)))
    (\<lambda>x t. sound t \<and> docs t = docs s \<and> log t = log s \<and> admitted documents target job (docs s) x)
    (\<lambda>e t. sound t \<and> docs t = docs s \<and> log t = log s) s"
  proof (rule outcome_bind[OF outcome_conseq[OF admit_history_finds[OF assms(1,3,4)]]], assumption, assumption, clarify)
    fix missing retired t
    assume t: "sound t" "docs t = docs s" "log t = log s" and h: "history_plan documents target (docs s) missing retired"
    show "outcome (deployment_admit_room env T cur documents limits (\<lambda>result_missing.
       \<lparr>state_desired = desired, state_observed = observed, retired_deployments = retired, write_deployment = missing,
        write_desired_state = (stored_document desired = doc_source_manifest documents \<and> stored_document desired \<noteq> plan_manifest documents),
        write_observed_state = (stored_document observed = doc_source_observed_state documents),
        deployment_result_missing = result_missing\<rparr>))
      (\<lambda>x t. sound t \<and> docs t = docs s \<and> log t = log s \<and> admitted documents target job (docs s) x)
      (\<lambda>e t. sound t \<and> docs t = docs s \<and> log t = log s) t"
      by (rule outcome_conseq[OF deployment_room_found[OF t(1) assms(2)]])
        (use t h states assms(5,6) in \<open>auto simp: admitted_def\<close>)
  qed
qed (use assms(1) in \<open>auto intro!: outcome_lift\<close>)

lemma deployment_admission_finds:
  assumes "sound s" "job_identity (stored_document cur) = job_identity job" "deployment_target documents = Inr target"
    and "getitem (plan_deployment documents) ''tenantId'' = lit (plan_tenant_id documents)"
  shows "outcome (deployment_admit_transition env T cur documents limits)
    (\<lambda>x t. sound t \<and> docs t = docs s \<and> log t = log s \<and> admitted documents target job (docs s) x \<and>
       (\<exists>p. tenant_desired_path (JStr (plan_tenant_id documents)) = Inr p) \<and>
       (\<exists>p. tenant_observed_path (JStr (plan_tenant_id documents)) = Inr p))
    (\<lambda>e t. sound t \<and> docs t = docs s \<and> log t = log s) s" (is "outcome _ ?Q ?E s")
  unfolding deployment_admit_transition_def bind_nested
proof (rule outcome_bind_lift)
  fix p assume p: "tenant_desired_path (JStr (plan_tenant_id documents)) = Inr p"
  have found: "outcome (do_read T p) (\<lambda>r _. docs s (desired_slot documents) = Some (stored_document r)) (\<lambda>_ _. True) s"
    by (rule outcome_conseq[OF read_finds[OF assms(1) lasting_paths(1)[OF p] commit_paths(1)[OF p]]]) simp_all
  show "outcome (bindT (do_read T p) (\<lambda>desired.
      bindT (liftT (tenant_observed_path (JStr (plan_tenant_id documents)))) (\<lambda>p. bindT (do_read T p)
        (deployment_admit_states env T cur documents limits desired)))) ?Q ?E s"
  proof (rule observing_with[OF observe(1) assms(1) found], rule outcome_bind_lift)
    fix desired :: StoredContract and t q
    assume t: "sound t" "docs t = docs s" "log t = log s" "docs s (desired_slot documents) = Some (stored_document desired)"
      and q: "tenant_observed_path (JStr (plan_tenant_id documents)) = Inr q"
    have found: "outcome (do_read T q) (\<lambda>r _. docs t (observed_slot documents) = Some (stored_document r)) (\<lambda>_ _. True) t"
      by (rule outcome_conseq[OF read_finds[OF t(1) lasting_paths(2)[OF q] commit_paths(2)[OF q]]]) simp_all
    show "outcome (bindT (do_read T q) (deployment_admit_states env T cur documents limits desired)) ?Q ?E t"
    proof (rule observing_with[OF observe(1) t(1) found])
      fix observed :: StoredContract and u
      assume u: "sound u" "docs u = docs t" "log u = log t" "docs t (observed_slot documents) = Some (stored_document observed)"
      then have states: "docs u (desired_slot documents) = Some (stored_document desired)"
          "docs u (observed_slot documents) = Some (stored_document observed)" using t by simp_all
      show "outcome (deployment_admit_states env T cur documents limits desired observed) ?Q ?E u"
        by (rule outcome_conseq[OF deployment_states_found[OF u(1) assms(2,3,4) states]]) (use t u p q in auto)
    qed (use t in simp)
  qed simp_all
qed (use assms(1) in simp)

text \<open>The retirement: the releases first, which the records do not show, then the records one after another.\<close>

lemma releases_fold:
  assumes "foldT (\<lambda>authorities r.
       bindT (do_deployment_removal_token T r) (\<lambda>removal.
       bindT (liftT (getitem (stored_document r) ''id'')) (\<lambda>i.
       bindT (liftT (getitem (stored_document r) ''releaseTreeDigest'')) (\<lambda>digest.
       thenT (do_remove_release R tenant i digest)
       (thenT (notify hook RETIRED_RELEASE_REMOVED) (liftT (Inr (authorities @ [(r, removal)])))))))) found rs s = (Inr xs, t)"
  shows "map fst xs = map fst found @ rs"
  using assms
proof (induction rs arbitrary: found s)
  case (Cons r rs)
  from Cons.prems show ?case by (auto simp: tx_simps dest!: Cons.IH)
qed (simp add: tx_simps)

lemma releases_removed:
  assumes "sound s"
  shows "outcome (remove_retired_releases T R documents hook rs)
    (\<lambda>xs t. sound t \<and> docs t = docs s \<and> log t = log s \<and> map fst xs = rs)
    (\<lambda>e t. sound t \<and> docs t = docs s \<and> log t = log s) s"
proof -
  have quiet: "leaves (same_view docs log sound) (remove_retired_releases T R documents hook rs)"
    unfolding remove_retired_releases_def notify_def by (intro same_view_intros observe_deployments)
  have chosen: "map fst xs = rs" if "remove_retired_releases T R documents hook rs s = (Inr xs, t)" for xs t
    using releases_fold[OF that[unfolded remove_retired_releases_def]] by simp
  from outcome_conj[OF observing[OF quiet assms] outcome_exact] show ?thesis
    by (rule outcome_conseq) (auto dest: chosen)
qed

lemma deployments_retired:
  assumes "sound s" "docs s = commit_stage plan job 2 (retire tid gone D)"
    and "list_all2 (\<lambda>i r. getitem (stored_document r) ''tenantId'' = lit tid \<and> getitem (stored_document r) ''id'' = lit i) ids (map fst xs)"
  shows "outcome (remove_retired_deployments T hook xs)
    (\<lambda>_ t. sound t \<and> log t = log s \<and> docs t = commit_stage plan job 2 (retire tid (gone @ ids) D))
    (\<lambda>_ t. sound t \<and> log t = log s \<and> (\<exists>k. docs t = commit_stage plan job 2 (retire tid (gone @ take k ids) D))) s"
  using assms
proof (induction xs arbitrary: s gone ids)
  case Nil
  then show ?case by (simp add: remove_retired_deployments_def outcome_def liftT_def)
next
  case (Cons x xs)
  obtain r removal where x: "x = (r, removal)" by fastforce
  from Cons.prems(3) obtain i js where i: "ids = i # js"
    "getitem (stored_document r) ''tenantId'' = lit tid" "getitem (stored_document r) ''id'' = lit i"
    "list_all2 (\<lambda>i r. getitem (stored_document r) ''tenantId'' = lit tid \<and> getitem (stored_document r) ''id'' = lit i) js (map fst xs)"
    by (auto simp: x list_all2_Cons2)
  let ?Q = "\<lambda>_ t. sound t \<and> log t = log s \<and> docs t = commit_stage plan job 2 (retire tid (gone @ ids) D)"
  let ?E = "\<lambda>_ t. sound t \<and> log t = log s \<and> (\<exists>k. docs t = commit_stage plan job 2 (retire tid (gone @ take k ids) D))"
  have none: "?E e t" if "sound t" "log t = log s" "docs t = docs s" for e t
    using that Cons.prems(2) by (auto intro!: exI[of _ 0])
  have one: "?E e t" if "sound t" "log t = log s" "docs t = commit_stage plan job 2 (retire tid (gone @ [i]) D)" for e t
    using that by (auto intro!: exI[of _ 1] simp: i(1))
  show ?case
    unfolding remove_retired_deployments_def foldT.simps x prod.case
    unfolding thenT_def bind_nested
  proof (rule sets_recordI[OF removes_exact[OF Cons.prems(1) i(2,3)]])
    fix t assume t: "sound t" "log t = log s" "docs t = (docs s)(deployment_slot tid i := None)"
    have stage: "docs t = commit_stage plan job 2 (retire tid (gone @ [i]) D)" using t(3) by (simp add: Cons.prems(2) retire_step)
    from Cons.IH[OF t(1) stage i(4)]
    have "outcome (remove_retired_deployments T hook xs) ?Q ?E t"
    proof (rule outcome_conseq)
      show "?E e v" if "sound v \<and> log v = log t \<and> (\<exists>k. docs v = commit_stage plan job 2 (retire tid ((gone @ [i]) @ take k js) D))" for e v
        using that t(2) by (auto simp: i(1) intro: exI[of _ "Suc _"])
    qed (use t(2) in \<open>simp add: i(1)\<close>)
    then have rest: "outcome (foldT (\<lambda>_ (r, removal). bindT (do_remove_exact_deployment T r removal) (\<lambda>_. notify hook RETIRED_DEPLOYMENT_REMOVED))
        u xs) ?Q ?E t" for u :: unit
      by (simp add: remove_retired_deployments_def thenT_def)
    show "outcome (bindT (notify hook RETIRED_DEPLOYMENT_REMOVED)
        (\<lambda>u. foldT (\<lambda>_ (r, removal). bindT (do_remove_exact_deployment T r removal) (\<lambda>_. notify hook RETIRED_DEPLOYMENT_REMOVED)) u xs)) ?Q ?E t"
      unfolding notify_def by (rule outcome_bind_lift[OF rest[unfolded notify_def] one[OF t(1,2) stage]])
  next
    fix e t assume t: "sound t" "log t = log s" "docs t = docs s \<or> docs t = (docs s)(deployment_slot tid i := None)"
    from t(3) show "?E e t"
    proof
      assume "docs t = docs s" then show ?thesis by (rule none[OF t(1,2)])
    next
      assume "docs t = (docs s)(deployment_slot tid i := None)"
      then show ?thesis by (intro one[OF t(1,2)]) (simp add: Cons.prems(2) retire_step)
    qed
  qed
qed

lemma publish_deployment_sets:
  assumes "sound s" "deployment_target documents = Inr target"
    and "missing \<or> docs s (deployment_slot (plan_tenant_id documents) target) = Some (plan_deployment documents)"
  shows "sets_record docs log sound (deployment_slot (plan_tenant_id documents) target) (Some (plan_deployment documents))
    (publish_deployment T documents missing) s"
proof -
  let ?c = "deployment_slot (plan_tenant_id documents) target"
  have id: "getitem (plan_deployment documents) ''id'' = lit target"
    using assms(2) by (auto simp: deployment_target_def bindE_Inr_iff elim: as_str.elims)
  show ?thesis
  proof (cases missing)
    case False
    then show ?thesis using assms(1,3) by (intro sets_record_present) (auto simp: publish_deployment_def intro!: outcome_lift)
  next
    case True
    show ?thesis
    proof (cases "tenant_deployment_path (JStr (plan_tenant_id documents)) (JStr target)")
      case (Inl e)
      then show ?thesis using True assms(1) id by (simp add: publish_deployment_def) (simp add: sets_record_def outcome_def liftT_def)
    next
      case (Inr p)
      then have path: "path_components p = Inr ?c"
        by (auto simp: path_constructor_defs path_components_def tenant_components_def deployment_components_def require_record_id_def
            bindE_Inr_iff uuid7_iff deployment_slot_def)
      have "sets_record docs log sound ?c (Some (plan_deployment documents))
          (bindT (do_create_immutable T p (plan_deployment documents)) (\<lambda>_. liftT (Inr ()))) s"
        unfolding sets_record_def[where m = "bindT _ _"]
        by (rule sets_recordI[OF creates[OF assms(1) constructed_path_ok(5)[OF Inr] path]]) (auto simp: outcome_def liftT_def)
      then show ?thesis using True Inr id by (simp add: publish_deployment_def thenT_def)
    qed
  qed
qed

text \<open>From both states published to the end.\<close>

lemma deployment_finish:
  assumes "sound s" "docs s = commit_stage plan (stored_document job) 2 (with_deployment plan D)"
    and "D (commit_job_slot (stored_document job)) = Some (stored_document cur)"
    and "job_identity (stored_document cur) = job_identity (stored_document job)"
    and "transaction_intent_path (JStr (plan_intent_id plan)) = Inr p"
    and "retained_history env job plan = Inr terminal"
    and "\<forall>x. with_deployment plan D (deployment_slot (plan_tenant_id plan) x) \<noteq> None \<longrightarrow> x \<in> set current \<or> x \<in> set terminal"
    and "list_all2 (\<lambda>i r. getitem (stored_document r) ''tenantId'' = lit (plan_tenant_id plan) \<and> getitem (stored_document r) ''id'' = lit i)
      (filter (\<lambda>i. i \<notin> set terminal) current) retired"
  shows "outcome (bindT (remove_retired_releases T R documents hook retired) (\<lambda>authorities.
      thenT (remove_retired_deployments T hook authorities)
     (thenT (ensure_audit M env T (plan_audit_entry plan)) (thenT (notify hook b1)
     (thenT (ensure_result M T cur (plan_result plan) missing) (thenT (notify hook b2)
     (thenT (ensure_completed_job T cur) (thenT (notify hook b3)
     (thenT (do_remove_reconciled_intent T p removal) (thenT (notify hook b4) (liftT (Inr x))))))))))))
    (\<lambda>y t. y = x \<and> sound t \<and> deployment_committed env plan job D (docs t) \<and> recorded env (plan_audit_entry plan) (log t))
    (\<lambda>e t. sound t \<and> deployment_interrupted env plan job D (docs t) (log t)) s" (is "outcome _ ?Q ?E s")
proof (rule outcome_bind[OF outcome_conseq[OF releases_removed[OF assms(1)]]], assumption)
  let ?d = "stored_document job" and ?tid = "plan_tenant_id plan" and ?gone = "filter (\<lambda>i. i \<notin> set terminal) current"
  fix authorities :: "(StoredContract \<times> RemovalToken) list" and t
  assume t: "sound t \<and> docs t = docs s \<and> log t = log s \<and> map fst authorities = retired"
  then have start: "sound t" "docs t = commit_stage plan ?d 2 (retire ?tid [] (with_deployment plan D))" by (simp_all add: assms(2))
  have bound: "list_all2 (\<lambda>i r. getitem (stored_document r) ''tenantId'' = lit ?tid \<and> getitem (stored_document r) ''id'' = lit i)
      ?gone (map fst authorities)" using t assms(8) by simp
  have apart: "set (take k ?gone) \<inter> set terminal = {}" for k by (auto dest: in_set_takeD)
  show "outcome (thenT (remove_retired_deployments T hook authorities)
     (thenT (ensure_audit M env T (plan_audit_entry plan)) (thenT (notify hook b1)
     (thenT (ensure_result M T cur (plan_result plan) missing) (thenT (notify hook b2)
     (thenT (ensure_completed_job T cur) (thenT (notify hook b3)
     (thenT (do_remove_reconciled_intent T p removal) (thenT (notify hook b4) (liftT (Inr x))))))))))) ?Q ?E t"
  proof (rule outcome_then[OF outcome_conseq[OF deployments_retired[OF start bound]]], assumption)
    fix u assume u: "sound u \<and> log u = log t \<and> docs u = commit_stage plan ?d 2 (retire ?tid ([] @ ?gone) (with_deployment plan D))"
    let ?D = "commit_stage plan ?d 2 (retire ?tid ?gone (with_deployment plan D))"
    have stage: "sound u" "docs u = commit_stage plan ?d 2 ?D" using u by (simp_all add: commit_stage_compose)
    have job: "?D (commit_job_slot ?d) = Some (stored_document cur)"
      using assms(3) by (auto simp: commit_stage_apply retire_def with_deployment_def split: sum.split)
    show "outcome (thenT (ensure_audit M env T (plan_audit_entry plan)) (thenT (notify hook b1)
     (thenT (ensure_result M T cur (plan_result plan) missing) (thenT (notify hook b2)
     (thenT (ensure_completed_job T cur) (thenT (notify hook b3)
     (thenT (do_remove_reconciled_intent T p removal) (thenT (notify hook b4) (liftT (Inr x)))))))))) ?Q ?E u"
    proof (rule outcome_conseq[OF commit_tail[OF stage job assms(4,5)]])
      fix y v
      assume v: "y = x \<and> sound v \<and> docs v = commit_stage plan ?d 5 ?D \<and> recorded env (plan_audit_entry plan) (log v)"
      then have final: "docs v = commit_stage plan ?d 5 (retire ?tid ?gone (with_deployment plan D))" by (simp add: commit_stage_compose)
      have "i \<in> set terminal" if "docs v (deployment_slot ?tid i) \<noteq> None" for i
        using that assms(7) unfolding final by (auto simp: commit_stage_apply split: if_split_asm)
      from deployment_committedI[OF assms(6) final _ this] show "?Q y v" using v by fastforce
    next
      fix e v assume "sound v \<and> commit_interrupted env plan ?d ?D (docs v) (log v)"
      then show "?E e v" using deployment_interrupted_tail[OF assms(6) apart[of "length ?gone"]] by simp
    qed
  next
    fix e u
    assume u: "sound u \<and> log u = log t \<and> (\<exists>k. docs u = commit_stage plan ?d 2 (retire ?tid ([] @ take k ?gone) (with_deployment plan D)))"
    from u obtain k where "docs u = commit_stage plan ?d 2 (retire ?tid ([] @ take k ?gone) (with_deployment plan D))" by blast
    from deployment_interruptedI(4)[OF assms(6) apart this[unfolded append_Nil]] show "?E e u" using u by blast
  qed
qed (use assms(2) in \<open>auto intro: deployment_interruptedI(3)[of 2]\<close>)

text \<open>The deployment and the two states, each set by a step of its own, before whatever follows them.\<close>

lemma deployment_states:
  assumes "sound s" "docs s = D" "deployment_target plan = Inr target"
    and first: "sets_record docs log sound (deployment_slot (plan_tenant_id plan) target) (Some (plan_deployment plan)) m1 s"
    and second: "\<And>t. sound t \<Longrightarrow> docs t = with_deployment plan D \<Longrightarrow>
      sets_record docs log sound (desired_slot plan) (Some (plan_manifest plan)) m2 t"
    and third: "\<And>t. sound t \<Longrightarrow> docs t = commit_stage plan (stored_document job) 1 (with_deployment plan D) \<Longrightarrow>
      sets_record docs log sound (observed_slot plan) (Some (plan_observed_state plan)) m3 t"
    and last: "\<And>t. sound t \<Longrightarrow> docs t = commit_stage plan (stored_document job) 2 (with_deployment plan D) \<Longrightarrow> outcome n Q E t"
    and E: "\<And>e t. sound t \<Longrightarrow> deployment_interrupted env plan job D (docs t) (log t) \<Longrightarrow> E e t"
  shows "outcome (thenT m1 (thenT (notify hook b1) (thenT m2 (thenT (notify hook b2) (thenT m3 (thenT (notify hook b3) n)))))) Q E s"
  unfolding thenT_def
proof (rule sets_recordI[OF first])
  let ?W = "with_deployment plan D" and ?d = "stored_document job"
  have published: "?W = D(deployment_slot (plan_tenant_id plan) target := Some (plan_deployment plan))"
    by (simp add: with_deployment_def assms(3))
  {
    fix t assume t: "sound t" "docs t = (docs s)(deployment_slot (plan_tenant_id plan) target := Some (plan_deployment plan))"
    then have stage0: "docs t = ?W" by (simp add: published assms(2))
    have E0: "E e u" if "sound u" "docs u = ?W" for e u
      using E[OF that(1) deployment_interruptedI(2)[OF _ that(2)]] by simp
    show "outcome (bindT (notify hook b1) (\<lambda>_. bindT m2 (\<lambda>_. bindT (notify hook b2) (\<lambda>_. bindT m3 (\<lambda>_. bindT (notify hook b3) (\<lambda>_. n)))))) Q E t"
      unfolding thenT_def[symmetric]
    proof (rule notify_outcome, rule E0[OF t(1) stage0], unfold thenT_def, rule sets_recordI[OF second[OF t(1) stage0]])
      fix u assume u: "sound u" "docs u = (docs t)(desired_slot plan := Some (plan_manifest plan))"
      then have stage1: "docs u = commit_stage plan ?d 1 ?W" by (simp add: stage0 commit_stage_steps(1))
      have E1: "E e v" if "sound v" "docs v = commit_stage plan ?d 1 ?W" for e v
        using E[OF that(1) deployment_interruptedI(3)[OF _ that(2)]] by simp
      show "outcome (bindT (notify hook b2) (\<lambda>_. bindT m3 (\<lambda>_. bindT (notify hook b3) (\<lambda>_. n)))) Q E u"
        unfolding thenT_def[symmetric]
      proof (rule notify_outcome, rule E1[OF u(1) stage1], unfold thenT_def, rule sets_recordI[OF third[OF u(1) stage1]])
        fix v assume v: "sound v" "docs v = (docs u)(observed_slot plan := Some (plan_observed_state plan))"
        then have stage2: "docs v = commit_stage plan ?d 2 ?W" by (simp add: stage1 commit_stage_steps(2))
        have E2: "E e v" for e using E[OF v(1) deployment_interruptedI(3)[OF _ stage2]] by simp
        show "outcome (bindT (notify hook b3) (\<lambda>_. n)) Q E v"
          unfolding thenT_def[symmetric] by (rule notify_outcome, rule E2, rule last[OF v(1) stage2])
      next
        fix e v assume v: "sound v" "docs v = docs u \<or> docs v = (docs u)(observed_slot plan := Some (plan_observed_state plan))"
        from v(2) show "E e v"
        proof
          assume "docs v = docs u" with stage1 show ?thesis by (intro E1[OF v(1)]) simp
        next
          assume "docs v = (docs u)(observed_slot plan := Some (plan_observed_state plan))"
          then have "docs v = commit_stage plan ?d 2 ?W" by (simp add: stage1 commit_stage_steps(2))
          from E[OF v(1) deployment_interruptedI(3)[OF _ this]] show ?thesis by simp
        qed
      qed
    next
      fix e u assume u: "sound u" "docs u = docs t \<or> docs u = (docs t)(desired_slot plan := Some (plan_manifest plan))"
      from u(2) show "E e u"
      proof
        assume "docs u = docs t" with stage0 show ?thesis by (intro E0[OF u(1)]) simp
      next
        assume "docs u = (docs t)(desired_slot plan := Some (plan_manifest plan))"
        then have "docs u = commit_stage plan ?d 1 ?W" by (simp add: stage0 commit_stage_steps(1))
        from E[OF u(1) deployment_interruptedI(3)[OF _ this]] show ?thesis by simp
      qed
    qed
  }
  fix e t assume t: "sound t" "docs t = docs s \<or> docs t = (docs s)(deployment_slot (plan_tenant_id plan) target := Some (plan_deployment plan))"
  then have "docs t \<in> {D, ?W}" by (auto simp: assms(2) published)
  from E[OF t(1) deployment_interruptedI(2)[OF this refl]] show "E e t" .
qed

text \<open>The deployment and the two states, from the sole exact intent on.\<close>

lemma deployment_publish_outcome:
  assumes "sound s" "docs s (commit_job_slot (stored_document job)) = Some (stored_document cur)"
    and "job_identity (stored_document cur) = job_identity (stored_document job)"
    and documents: "documents = deployment_documents plan source observed ids d r" and target: "deployment_target plan = Inr target"
    and tenant: "getitem (plan_deployment plan) ''tenantId'' = lit (plan_tenant_id plan)"
    and retained: "retained_history env job plan = terminal_history documents"
  shows "outcome (deployment_publish env T R cur documents limits hook)
    (\<lambda>x t. sound t \<and> deployment_committed env plan job (docs s) (docs t) \<and> recorded env (plan_audit_entry plan) (log t) \<and>
       deployment_result x = plan_result plan \<and> (deployment_created x \<longleftrightarrow> docs s (result_slot (stored_document job)) = None))
    (\<lambda>e t. sound t \<and> deployment_interrupted env plan job (docs s) (docs t) (log t)) s" (is "outcome _ ?Q ?E s")
proof -
  let ?d = "stored_document job" and ?D = "docs s" and ?tid = "plan_tenant_id plan"
  have fields: "deployment_target documents = Inr target" "plan_tenant_id documents = ?tid" "plan_manifest documents = plan_manifest plan"
    "plan_observed_state documents = plan_observed_state plan" "plan_intent_id documents = plan_intent_id plan"
    "plan_audit_entry documents = plan_audit_entry plan" "plan_result documents = plan_result plan"
    "plan_deployment documents = plan_deployment plan" "getitem (plan_deployment documents) ''tenantId'' = lit (plan_tenant_id documents)"
    "desired_slot documents = desired_slot plan" "observed_slot documents = observed_slot plan"
    using target tenant by (simp_all add: documents)
  have published: "with_deployment plan ?D = ?D(deployment_slot ?tid target := Some (plan_deployment plan))"
    by (simp add: with_deployment_def target)
  define finish where "finish removal x = bindT (remove_retired_releases T R documents hook (retired_deployments x)) (\<lambda>authorities.
      thenT (remove_retired_deployments T hook authorities)
     (thenT (ensure_audit deployment_module env T (plan_audit_entry plan)) (thenT (notify hook DEPLOYMENT_AUDIT_SYNC)
     (thenT (ensure_result deployment_module T cur (plan_result plan) (deployment_result_missing x)) (thenT (notify hook DEPLOYMENT_RESULT_SYNC)
     (thenT (ensure_completed_job T cur) (thenT (notify hook DEPLOYMENT_JOB_SYNC)
     (thenT (do_remove_reconciled_intent T (exact_path removal) (exact_token removal)) (thenT (notify hook DEPLOYMENT_INTENT_REMOVED)
     (liftT (Inr \<lparr>deployment_result = plan_result plan, deployment_created = deployment_result_missing x\<rparr>)))))))))))"
    for removal :: ExactIntent and x :: DeploymentProgress
  have finish: "outcome (finish removal x) ?Q ?E w"
    if "sound w" "docs w = commit_stage plan ?d 2 (with_deployment plan ?D)" "admitted documents target ?d ?D x"
      and "transaction_intent_path (JStr (plan_intent_id plan)) = Inr (exact_path removal)" for w removal x
  proof -
    from that(3) have plan: "history_plan documents target ?D (write_deployment x) (retired_deployments x)"
      and missing: "deployment_result_missing x \<longleftrightarrow> ?D (result_slot ?d) = None" by (simp_all add: admitted_def)
    from plan[unfolded history_plan_def Let_def fields(2)] obtain terminal current where h: "terminal_history documents = Inr terminal"
        "\<forall>i. ?D (deployment_slot ?tid i) \<noteq> None \<longrightarrow> i \<in> set current"
        "list_all2 (\<lambda>i r. getitem (stored_document r) ''tenantId'' = lit ?tid \<and> getitem (stored_document r) ''id'' = lit i)
          (filter (\<lambda>i. i \<notin> set terminal) current) (retired_deployments x)"
      by (elim exE conjE) (rule that; assumption)
    have "target \<in> set terminal" by (rule terminal_history_target(1)[OF h(1) fields(1)])
    then have present: "\<forall>i. with_deployment plan ?D (deployment_slot ?tid i) \<noteq> None \<longrightarrow> i \<in> set current \<or> i \<in> set terminal"
      using h(2) by (auto simp: published)
    show ?thesis
      unfolding finish_def
      by (rule outcome_conseq[OF deployment_finish[OF that(1,2) assms(2,3) that(4) retained[unfolded h(1)] present h(3)]])
        (auto simp: missing)
  qed
  show ?thesis
    unfolding deployment_publish_def deployment_require_exact_intent_def deployment_ensure_audit_def deployment_ensure_result_def
      deployment_ensure_completed_job_def fields finish_def[symmetric]
  proof (rule outcome_bind[OF outcome_conseq[OF require_exact_intent_finds[OF assms(1)]]], assumption)
    fix removal :: ExactIntent and t
    assume t: "sound t \<and> docs t = ?D \<and> log t = log s \<and> transaction_intent_path (JStr (plan_intent_id plan)) = Inr (exact_path removal)"
    then have sound: "sound t" by simp
    let ?states = "\<lambda>x. thenT (require_selected_release R documents) (thenT (publish_deployment T documents (write_deployment x))
     (thenT (notify hook DEPLOYMENT_SYNC)
     (thenT (replace_state T (write_desired_state x) (tenant_desired_path (JStr ?tid)) (state_desired x) (plan_manifest plan))
     (thenT (notify hook DEPLOYMENT_DESIRED_SYNC)
     (thenT (replace_state T (write_observed_state x) (tenant_observed_path (JStr ?tid)) (state_observed x) (plan_observed_state plan))
     (thenT (notify hook DEPLOYMENT_OBSERVED_SYNC) (finish removal x)))))))"
    show "outcome (bindT (deployment_admit_transition env T cur documents limits) ?states) ?Q ?E t"
    proof (rule outcome_bind[OF outcome_conseq[OF deployment_admission_finds[OF sound assms(3) fields(1,9)]]], assumption)
      fix x :: DeploymentProgress and u
      assume u: "sound u \<and> docs u = docs t \<and> log u = log t \<and> admitted documents target ?d (docs t) x \<and>
       (\<exists>p. tenant_desired_path (JStr (plan_tenant_id documents)) = Inr p) \<and>
       (\<exists>p. tenant_observed_path (JStr (plan_tenant_id documents)) = Inr p)"
      then have su: "sound u" "docs u = ?D" and ok: "admitted documents target ?d ?D x" using t by simp_all
      from u obtain p q where p: "tenant_desired_path (JStr ?tid) = Inr p" and q: "tenant_observed_path (JStr ?tid) = Inr q"
        by (auto simp: fields)
      have selected: "leaves (same_view docs log sound) (require_selected_release R documents)"
        unfolding require_selected_release_def by (intro same_view_intros observe_deployments)
      show "outcome (?states x) ?Q ?E u"
        unfolding p q
      proof (rule outcome_then[OF outcome_conseq[OF observing[OF selected su(1)]]], assumption)
        fix v assume v: "sound v \<and> docs v = docs u \<and> log v = log u"
        then have sv: "sound v" "docs v = ?D" using su by simp_all
        have first: "sets_record docs log sound (deployment_slot ?tid target) (Some (plan_deployment plan))
            (publish_deployment T documents (write_deployment x)) v"
          using publish_deployment_sets[OF sv(1) fields(1), of "write_deployment x"] ok
          by (simp add: fields sv(2) admitted_def history_plan_def Let_def) blast
        show "outcome (thenT (publish_deployment T documents (write_deployment x)) (thenT (notify hook DEPLOYMENT_SYNC)
          (thenT (replace_state T (write_desired_state x) (Inr p) (state_desired x) (plan_manifest plan))
          (thenT (notify hook DEPLOYMENT_DESIRED_SYNC)
          (thenT (replace_state T (write_observed_state x) (Inr q) (state_observed x) (plan_observed_state plan))
          (thenT (notify hook DEPLOYMENT_OBSERVED_SYNC) (finish removal x))))))) ?Q ?E v"
        proof (rule deployment_states[OF sv target first])
          fix w assume w: "sound w" "docs w = with_deployment plan ?D"
          show "sets_record docs log sound (desired_slot plan) (Some (plan_manifest plan))
              (replace_state T (write_desired_state x) (Inr p) (state_desired x) (plan_manifest plan)) w"
            by (rule replace_state_sets[OF w(1) refl constructed_path_ok(3)[OF p] commit_paths(1)[OF p]])
              (use ok w(2) in \<open>auto simp: admitted_def fields published\<close>)
        next
          fix w assume w: "sound w" "docs w = commit_stage plan ?d 1 (with_deployment plan ?D)"
          show "sets_record docs log sound (observed_slot plan) (Some (plan_observed_state plan))
              (replace_state T (write_observed_state x) (Inr q) (state_observed x) (plan_observed_state plan)) w"
            by (rule replace_state_sets[OF w(1) refl constructed_path_ok(4)[OF q] commit_paths(2)[OF q]])
              (use ok w(2) in \<open>auto simp: admitted_def fields published commit_stage_apply\<close>)
        qed (use finish[OF _ _ ok] t in auto)
      qed (use su in \<open>auto intro: deployment_interruptedI(1)\<close>)
    qed (use t in \<open>auto intro: deployment_interruptedI(1)\<close>)
  qed (auto intro: deployment_interruptedI(1))
qed

text \<open>A replay after the intent is gone.\<close>

lemma deployment_present:
  assumes "D (desired_slot plan) = Some (plan_manifest plan)" "D (observed_slot plan) = Some (plan_observed_state plan)"
    and "D (deployment_slot (plan_tenant_id plan) target) = Some (plan_deployment plan)" "deployment_target plan = Inr target"
    and "D (result_slot (stored_document job)) = Some (plan_result plan)" "D (intent_slot plan) = None"
    and "D (commit_job_slot (stored_document job)) = Some d" "getitem d ''phase'' = lit ''completed''"
    and "retained_history env job plan = Inr terminal" "\<forall>x. D (deployment_slot (plan_tenant_id plan) x) \<noteq> None \<longrightarrow> x \<in> set terminal"
  shows "deployment_committed env plan job D D"
proof (rule deployment_committedI[OF assms(9)])
  have "with_deployment plan D = D" using assms(3,4) by (simp add: with_deployment_def fun_upd_idem)
  then show "D = commit_stage plan (stored_document job) 5 (retire (plan_tenant_id plan) [] (with_deployment plan D))"
    using commit_stage_present[where D = D and plan = plan and job = "stored_document job"] assms(1,2,5-8) by simp
qed (use assms(10) in auto)

lemma deployment_terminal_finds:
  assumes "sound s" "docs s (commit_job_slot (stored_document job)) = Some (stored_document cur)"
    and "job_identity (stored_document cur) = job_identity (stored_document job)"
    and documents: "documents = deployment_documents plan source observed ids d r" and target: "deployment_target plan = Inr target"
    and retained: "retained_history env job plan = terminal_history documents"
  shows "outcome (terminal_deployment_without_intent env T R cur documents)
    (\<lambda>x t. sound t \<and> docs t = docs s \<and> log t = log s \<and>
       (x \<noteq> None \<longrightarrow> x = Some (plan_result plan) \<and> docs s (result_slot (stored_document job)) \<noteq> None \<and>
          deployment_committed env plan job (docs s) (docs s) \<and> recorded env (plan_audit_entry plan) (log s)))
    (\<lambda>e t. sound t \<and> docs t = docs s \<and> log t = log s) s" (is "outcome _ ?Q ?E s")
  unfolding terminal_deployment_without_intent_def
proof (rule observing_with[OF observe(4) assms(1) no_intents[OF assms(1), of "plan_intent_id plan"]],
    rule outcome_if, use assms(1) in \<open>simp add: outcome_def liftT_def\<close>,
    rule outcome_bind_lift, rule outcome_if, simp add: outcome_def liftT_def, rule outcome_bind_lift)
  let ?D = "docs s" and ?tid = "plan_tenant_id plan"
  fix inventory t phase expected
  assume t: "sound t" "docs t = ?D" "log t = log s"
    and none: "intent_records inventory = [] \<longrightarrow> ?D [''intents'', plan_intent_id plan @ ''.json''] = None" "\<not> intent_records inventory \<noteq> []"
    and phase: "getitem (stored_document cur) ''phase'' = Inr phase" "\<not> phase \<noteq> JStr ''completed''"
    and expected: "deployment_terminal_records (stored_document cur) documents = Inr expected"
  have id: "getitem (plan_deployment plan) ''id'' = lit target"
    using target by (auto simp: deployment_target_def bindE_Inr_iff elim: as_str.elims)
  obtain v p1 p2 p3 p4 where v: "getitem (stored_document cur) ''jobId'' = Inr v"
      "tenant_desired_path (JStr ?tid) = Inr p1" "tenant_observed_path (JStr ?tid) = Inr p2"
      "tenant_deployment_path (JStr ?tid) (JStr target) = Inr p3" "authorization_result_path v = Inr p4"
      "expected = [(p1, plan_manifest plan), (p2, plan_observed_state plan), (p3, plan_deployment plan), (p4, plan_result plan)]"
    using expected by (auto simp: bindE_Inr_iff deployment_terminal_records_def Let_def documents id)
  have slot: "path_components p3 = Inr (deployment_slot ?tid target)" "lasting p3"
    using v(4) constructed_path_ok(5)[OF v(4)] constructed_path_name(3)[OF v(4)]
    by (auto simp: path_constructor_defs path_components_def tenant_components_def deployment_components_def require_record_id_def
        bindE_Inr_iff uuid7_iff deployment_slot_def lasting_def is_intent_def)
  note ok = lasting_paths(1)[OF v(2)] lasting_paths(2)[OF v(3)] slot(2) lasting_paths(4)[OF v(5)]
  note paths = commit_paths(1)[OF v(2)] commit_paths(2)[OF v(3)] slot(1) commit_paths(4)[OF v(1,5)]
  have same: "result_slot (stored_document cur) = result_slot (stored_document job)" using same_slots[OF assms(3)] by simp
  have expected_ok: "lasting p" if "(p, d) \<in> set expected" for p d using that ok unfolding v(6) by auto
  define rest where "rest = (\<lambda>differs. if differs then liftT (Inl (DeploymentCommitError ''terminal deployment state disagrees with its plan''))
     else
     bindT (do_tenant_deployment_ids T (JStr (plan_tenant_id documents))) (\<lambda>ids.
     bindT (liftT (terminal_history documents)) (\<lambda>terminal.
     if ids \<noteq> terminal then liftT (Inl (DeploymentCommitError ''terminal deployment retention disagrees with its plan''))
     else
     thenT (require_selected_release R documents)
     (bindT (do_inspect_audit T) (\<lambda>audit.
      bindT (liftT (deployment_audit_needs_append env audit (plan_audit_entry documents))) (\<lambda>missing.
      liftT (if missing then Inl (DeploymentCommitError ''terminal deployment audit entry is absent'')
             else Inr (Some (plan_result documents)))))))))"
  show "outcome (bindT (catch_missing (DeploymentCommitError ''terminal deployment state is incomplete'')
      (any_record_differs T expected)) rest) ?Q ?E t"
  proof (rule outcome_bind[OF outcome_conseq[OF outcome_catch[OF records_present[OF t(1) expected_ok]]]], assumption)
    fix differs u
    assume u: "sound u \<and> docs u = docs t \<and> log u = log t \<and>
      (\<not> differs \<longrightarrow> (\<forall>(p, d) \<in> set expected. \<forall>c. path_components p = Inr c \<longrightarrow> docs t c = Some d))"
    then have su: "sound u" "docs u = ?D" "log u = log s" using t by simp_all
    show "outcome (rest differs) ?Q ?E u"
    proof (cases differs)
      case True
      then show ?thesis using su by (auto simp: rest_def intro!: outcome_lift)
    next
      case False
      have found: "?D (desired_slot plan) = Some (plan_manifest plan)" "?D (observed_slot plan) = Some (plan_observed_state plan)"
        "?D (deployment_slot ?tid target) = Some (plan_deployment plan)" "?D (result_slot (stored_document job)) = Some (plan_result plan)"
        using u False paths same unfolding v(6) t(2) by auto
      have intent: "?D (intent_slot plan) = None" using none by (simp add: intent_slot_def)
      have committed: "deployment_committed env plan job ?D ?D"
        if "terminal_history documents = Inr terminal" "\<forall>x. ?D (deployment_slot ?tid x) \<noteq> None \<longrightarrow> x \<in> set terminal" for terminal
        using deployment_present[OF found(1,2,3) target found(4) intent assms(2) _ _ that(2)] phase retained that(1) by simp
      have selected: "leaves (same_view docs log sound) (require_selected_release R documents)"
        unfolding require_selected_release_def by (intro same_view_intros observe_deployments)
      show ?thesis
        unfolding rest_def if_not_P[OF False]
      proof (rule observing_with[OF observe_deployments(3) su(1) lists_all[OF su(1)]], rule outcome_bind_lift, rule outcome_if)
        fix listed w terminal
        assume w: "sound w" "docs w = docs u" "log w = log u"
          and listed: "\<forall>x. docs u (deployment_slot (plan_tenant_id documents) x) \<noteq> None \<longrightarrow> x \<in> set listed"
          and terminal: "terminal_history documents = Inr terminal" "\<not> listed \<noteq> terminal"
        have final: "deployment_committed env plan job ?D ?D"
          using listed terminal(2) by (intro committed[OF terminal(1)]) (simp add: su(2) documents)
        show "outcome (thenT (require_selected_release R documents) (bindT (do_inspect_audit T) (\<lambda>audit.
            bindT (liftT (deployment_audit_needs_append env audit (plan_audit_entry documents))) (\<lambda>missing.
            liftT (if missing then Inl (DeploymentCommitError ''terminal deployment audit entry is absent'')
                   else Inr (Some (plan_result documents))))))) ?Q ?E w"
          unfolding thenT_def
        proof (rule observing_bind[OF selected w(1)], rule observing_with[OF observe(2) _ inspect_reads], assumption, assumption,
            rule outcome_bind_lift)
          fix w1 audit w2 missing
          assume w1: "sound w1" "docs w1 = docs w" "log w1 = log w" and w2: "sound w2" "docs w2 = docs w1" "log w2 = log w1" "log w1 = Inr audit"
            and missing: "deployment_audit_needs_append env audit (plan_audit_entry documents) = Inr missing"
          show "outcome (liftT (if missing then Inl (DeploymentCommitError ''terminal deployment audit entry is absent'')
                   else Inr (Some (plan_result documents)))) ?Q ?E w2"
            using w1 w2 w su final found(4) missing audit_present[of deployment_module env audit "plan_audit_entry plan"]
            by (auto intro!: outcome_lift simp: documents deployment_audit_needs_append_def split: if_split_asm)
        qed (use w su in auto)
      qed (use su in \<open>auto intro!: outcome_lift\<close>)
    qed
  qed (use t in auto)
qed (use assms(1) in auto)

lemma deployment_commit_outcome:
  assumes "sound s"
  shows "outcome (finalize_deployment_transition_outcome env T R job plan limits hook)
    (\<lambda>x t. sound t \<and> deployment_committed env plan job (docs s) (docs t) \<and> recorded env (plan_audit_entry plan) (log t) \<and>
       deployment_result x = plan_result plan \<and> (deployment_created x \<longleftrightarrow> docs s (result_slot (stored_document job)) = None))
    (\<lambda>e t. sound t \<and> deployment_interrupted env plan job (docs s) (docs t) (log t)) s"
    (is "outcome _ ?Q ?E s")
  unfolding finalize_deployment_transition_outcome_def
proof (rule outcome_bind_lift)
  let ?job = "stored_document job"
  fix documents :: DeploymentDocuments assume frozen: "deployment_freeze_and_validate env job plan = Inr documents"
  then obtain source observed ids d r target where documents: "documents = deployment_documents plan source observed ids d r"
      "deployment_target plan = Inr target" and tenant: "dict_get (plan_deployment plan) ''tenantId'' = lit (plan_tenant_id plan)"
    by (rule deployment_frozen)
  have tenant: "getitem (plan_deployment plan) ''tenantId'' = lit (plan_tenant_id plan)" using tenant by (rule dict_get_getitem) simp
  have retained: "retained_history env job plan = terminal_history documents" by (simp add: retained_history_def frozen)
  let ?rest = "\<lambda>cur terminal. case terminal of
       Some result \<Rightarrow> liftT (Inr \<lparr>deployment_result = result, deployment_created = False\<rparr>)
     | None \<Rightarrow> deployment_publish env T R cur documents limits hook"
  show "outcome (bindT (deployment_require_same_job T job) (\<lambda>cur.
     bindT (terminal_deployment_without_intent env T R cur documents) (?rest cur))) ?Q ?E s"
  proof (rule outcome_bind[OF outcome_conseq[OF deployment_same_job_finds[OF assms]]], assumption)
    fix cur :: StoredContract and t
    assume t: "sound t \<and> docs t = docs s \<and> log t = log s \<and> docs s (commit_job_slot ?job) = Some (stored_document cur) \<and>
      job_identity (stored_document cur) = job_identity ?job"
    then have cur: "sound t" "docs t (commit_job_slot ?job) = Some (stored_document cur)"
      "job_identity (stored_document cur) = job_identity ?job" by simp_all
    show "outcome (bindT (terminal_deployment_without_intent env T R cur documents) (?rest cur)) ?Q ?E t"
    proof (rule outcome_bind[OF outcome_conseq[OF deployment_terminal_finds[OF cur documents retained]]], assumption)
      fix terminal u
      assume u: "sound u \<and> docs u = docs t \<and> log u = log t \<and>
        (terminal \<noteq> None \<longrightarrow> terminal = Some (plan_result plan) \<and> docs t (result_slot ?job) \<noteq> None \<and>
          deployment_committed env plan job (docs t) (docs t) \<and> recorded env (plan_audit_entry plan) (log t))"
      then have pub: "sound u" "docs u (commit_job_slot ?job) = Some (stored_document cur)" using cur(2) by simp_all
      show "outcome (?rest cur terminal) ?Q ?E u"
      proof (cases terminal)
        case None
        then show ?thesis
          using deployment_publish_outcome[OF pub cur(3) documents tenant retained, of limits hook] t u by simp
      next
        case (Some result)
        then show ?thesis using t u by (auto intro!: outcome_lift)
      qed
    qed (use t in \<open>auto intro: deployment_interruptedI(1)\<close>)
  qed (auto intro: deployment_interruptedI(1))
qed (use assms in \<open>simp add: deployment_interruptedI(1)\<close>)

end

end
