(* ===== verification/Deployment_Repository.thy ===== *)
theory Deployment_Repository
  imports Deployment_Laws
begin

text \<open>
  The transaction of the state repository as the one a deployment is committed in, with the release
  store beside it. The store has a state of its own, which no record and no log entry depends on: its
  two operations are arguments. The promises are discharged, and the property of the commit follows.
\<close>

section \<open>The transaction and the release store\<close>

record 'r deployment_state = commit_state +
  release_state :: 'r

definition on_releases :: "('r, 'a) tx \<Rightarrow> ('r deployment_state, 'a) tx" where
  "on_releases m = (\<lambda>s. case m (release_state s) of (x, releases) \<Rightarrow> (x, s\<lparr>release_state := releases\<rparr>))"

definition deployment_releases :: "'r release_store \<Rightarrow> 'r deployment_state release_store" where
  "deployment_releases R =
     \<lparr>do_measure_release = (\<lambda>tenant i. on_releases (do_measure_release R tenant i)),
      do_remove_release = (\<lambda>tenant i digest. on_releases (do_remove_release R tenant i digest))\<rparr>"

definition repository_deployment :: "state_transaction \<Rightarrow> (Segments \<Rightarrow> int) \<Rightarrow> 'z commit_state_scheme deployment_transaction" where
  "repository_deployment t allocated =
     commit_transaction.extend (commit_transaction.truncate (repository_commit t allocated))
       (deployment_transaction.fields (repo_admit_audit_append t)
          (\<lambda>r. on_root (deployment_removal_token t r)) (\<lambda>r removal. on_root (remove_exact_deployment t r removal))
          (\<lambda>tenant. on_root (tenant_deployment_ids t tenant))
          (\<lambda>tenant candidate. on_root (tenant_deployment_transition_ids t tenant candidate)))"

lemma repository_deployment_simps [simp]:
  "do_read (repository_deployment t allocated) = do_read (repository_commit t allocated)"
  "do_create_immutable (repository_deployment t allocated) = do_create_immutable (repository_commit t allocated)"
  "do_compare_and_swap (repository_deployment t allocated) = do_compare_and_swap (repository_commit t allocated)"
  "do_inspect_audit (repository_deployment t allocated) = do_inspect_audit (repository_commit t allocated)"
  "do_append_audit (repository_deployment t allocated) = do_append_audit (repository_commit t allocated)"
  "do_measure_inventory (repository_deployment t allocated) = do_measure_inventory (repository_commit t allocated)"
  "do_measure_intent_records (repository_deployment t allocated) = do_measure_intent_records (repository_commit t allocated)"
  "do_read_intent (repository_deployment t allocated) = do_read_intent (repository_commit t allocated)"
  "do_remove_reconciled_intent (repository_deployment t allocated) = do_remove_reconciled_intent (repository_commit t allocated)"
  "do_allocation_upper_bound (repository_deployment t allocated) = do_allocation_upper_bound (repository_commit t allocated)"
  "do_namespace_allocation_upper_bound (repository_deployment t allocated) = do_namespace_allocation_upper_bound (repository_commit t allocated)"
  "do_admit_inventory (repository_deployment t allocated) = do_admit_inventory (repository_commit t allocated)"
  "do_measure_filesystem_capacity (repository_deployment t allocated) = do_measure_filesystem_capacity (repository_commit t allocated)"
  "do_admit_deployment_audit (repository_deployment t allocated) = repo_admit_audit_append t"
  "do_deployment_removal_token (repository_deployment t allocated) = (\<lambda>r. on_root (deployment_removal_token t r))"
  "do_remove_exact_deployment (repository_deployment t allocated) = (\<lambda>r removal. on_root (remove_exact_deployment t r removal))"
  "do_tenant_deployment_ids (repository_deployment t allocated) = (\<lambda>tenant. on_root (tenant_deployment_ids t tenant))"
  "do_tenant_deployment_transition_ids (repository_deployment t allocated) =
     (\<lambda>tenant candidate. on_root (tenant_deployment_transition_ids t tenant candidate))"
  by (simp_all add: repository_deployment_def commit_transaction.defs deployment_transaction.defs)

section \<open>The promises\<close>

lemma on_releases_leaves: "leaves (same_commit t) (on_releases m)"
  by (auto simp: leaves_def same_view_def on_releases_def commit_sound_def commit_records_def commit_log_def split: prod.splits)

lemma deployment_reads_leave:
  "leaves (same_commit t) (on_root (deployment_removal_token t r))"
  "leaves (same_commit t) (on_root (tenant_deployment_ids t tenant))"
  "leaves (same_commit t) (on_root (tenant_deployment_transition_ids t tenant candidate))"
  unfolding deployment_removal_token_def tenant_deployment_ids_def tenant_deployment_transition_ids_def bounded_tenant_deployment_ids_def
  by (intro on_root_leaves quiet_exclusive quiet_intros quiet_bound_record_ids)+

text \<open>The bounded listing names every deployment of which there is a record.\<close>

lemma bounded_ids_complete:
  assumes "bounded_tenant_deployment_ids t (JStr tid) n root = (Inr ids, root')" "tree_ok root"
    and "slots t root (deployment_slot tid x) \<noteq> None"
  shows "x \<in> set ids"
proof -
  obtain opened u root1 where run: "open_descendant (tx_policy t) root [''tenants'', tid, ''deployments''] = Inr opened"
      "remove_abandoned_publication_temporaries (tx_policy t) opened (n + 1) root = (Inr u, root1)"
      "list_all2 (\<lambda>name i. (if \<not> json_name name then Inl (StateRecordError (''tenant '' @ ''deployment'' @ '' history has an invalid record name''))
           else bindE (validate_uuid7 (JStr (json_stem name))) (\<lambda>identifier.
             thenE (read_at t (tenant_deployment_path (JStr tid) (JStr identifier)) root1) (Inr identifier))) = Inr i)
        (scandir root1 opened) ids"
    using assms(1) unfolding bounded_tenant_deployment_ids_def bound_record_ids_def exclusive_def
    by (auto simp: tx_simps Let_def traverseE_Inr_iff uuid7_iff split: if_split_asm)
  have opened: "opened = [''tenants'', tid, ''deployments'']"
    using run(1) by (auto simp: open_descendant_def dest: open_directory_found split: if_splits)
  have "same_records (tx_env t) (tx_policy t) root root1"
    using leaves_at[OF quiet_remove_temporaries, of "tx_env t" "tx_policy t" root opened "n + 1"] run(2) by simp
  then have "slots t root1 (deployment_slot tid x) \<noteq> None" using assms(2,3) by (simp add: same_records_def)
  then have "fmlookup (root_nodes root1) (opened @ [x @ ''.json'']) \<noteq> None"
    using free_holds_nothing[of root1 "deployment_slot tid x" "tx_env t" "tx_policy t"]
    by (cases "fmlookup (root_nodes root1) (deployment_slot tid x)") (simp_all add: records_def opened deployment_slot_def split: if_split_asm)
  then obtain k where "k < length (scandir root1 opened)" "scandir root1 opened ! k = x @ ''.json''"
    using scandir_lists by (fastforce simp: in_set_conv_nth)
  with run(3) show ?thesis
    by (auto simp: list_all2_conv_all_nth bindE_Inr_iff thenE_Inr uuid7_iff in_set_conv_nth dest!: spec[of _ k])
qed

lemma repository_lists:
  assumes "commit_sound t s"
  shows "outcome (on_root (tenant_deployment_ids t (JStr tid)))
      (\<lambda>ids _. \<forall>x. commit_records t s (deployment_slot tid x) \<noteq> None \<longrightarrow> x \<in> set ids) (\<lambda>_ _. True) s"
    "outcome (on_root (tenant_deployment_transition_ids t (JStr tid) i))
      (\<lambda>ids _. \<forall>x. commit_records t s (deployment_slot tid x) \<noteq> None \<longrightarrow> x \<in> set ids) (\<lambda>_ _. True) s"
  using assms bounded_ids_complete[of t tid _ "commit_root s"]
  by (auto simp: outcome_def on_root_def commit_records_def commit_sound_def tenant_deployment_ids_def
      tenant_deployment_transition_ids_def tx_simps split: prod.splits sum.splits if_split_asm)

lemma deployment_path_binding:
  assumes "tenant_deployment_path tenant i = Inr p" "well_typed env p d"
  shows "getitem d ''tenantId'' = Inr tenant" "getitem d ''id'' = Inr i"
  using assms by (auto simp: well_typed_def validate_binding_def Let_def path_constructor_defs bindE_Inr_iff uuid7_iff check_simps
      intro!: dict_get_getitem)

lemma repository_reads_bound:
  assumes "tenant_deployment_path tenant i = Inr p"
  shows "outcome (on_root (transaction_read t p))
    (\<lambda>r _. getitem (stored_document r) ''tenantId'' = Inr tenant \<and> getitem (stored_document r) ''id'' = Inr i) (\<lambda>_ _. True) s"
proof -
  obtain c where c: "path_components p = Inr c" using path_components_slot[OF constructed_path_ok(5)[OF assms]] by blast
  have "getitem (stored_document r) ''tenantId'' = Inr tenant \<and> getitem (stored_document r) ''id'' = Inr i"
    if "read_path t p root = Inr r" for r root
    using deployment_path_binding[OF assms read_path_slots(2)[OF that constructed_path_ok(5)[OF assms] c]] by simp
  then show ?thesis by (auto simp: outcome_def on_root_def transaction_read_iff split: prod.splits sum.splits)
qed

text \<open>The exact removal of a deployment sets its slot, which its document names.\<close>

lemma removal_slot:
  assumes "deployment_removal_authority t r = Inr (p, candidate)" "path_components p = Inr c"
    and "getitem (stored_document r) ''tenantId'' = lit tid" "getitem (stored_document r) ''id'' = lit x"
  shows "c = deployment_slot tid x"
  using assms by (auto simp: deployment_removal_authority_def Let_def bindE_Inr_iff path_constructor_defs path_components_def
      tenant_components_def deployment_components_def require_record_id_def uuid7_iff deployment_slot_def split: sum.splits exn.splits)

lemma repository_removes_exact:
  assumes "commit_sound t s" "getitem (stored_document r) ''tenantId'' = lit tid" "getitem (stored_document r) ''id'' = lit x"
  shows "sets_record (commit_records t) (commit_log t) (commit_sound t) (deployment_slot tid x) None
    (on_root (remove_exact_deployment t r removal)) s"
proof (rule on_root_sets[OF assms(1) remove_deployment_implements])
  define authorize where "authorize root = bindE (deployment_removal_authority t r) (\<lambda>(p, candidate).
        bindE (read_path t p root) (\<lambda>current.
        bindE (path_components p) (\<lambda>components.
        bindE (regular_metadata_generation (tx_policy t) root components) (\<lambda>generation.
        if token_revision removal \<noteq> stored_revision r \<or> stored_revision current \<noteq> stored_revision r
           \<or> stored_revision current \<noteq> revision (contract_kind (path_name p)) candidate
           \<or> generation \<noteq> token_generation removal
        then Inl (StateConflictError ''deployment changed before exact removal'')
        else Inr components))))" for root
  have remove: "remove_exact_deployment t r removal = exclusive t (bindT (readT authorize) (\<lambda>c. durable_remove (tx_policy t) c False))"
    by (simp add: remove_exact_deployment_def authorize_def[abs_def])
  have found: "c = deployment_slot tid x \<and> record_slot c" if run: "authorize root = Inr c" for root c
  proof -
    from run obtain p candidate where p: "deployment_removal_authority t r = Inr (p, candidate)" "path_components p = Inr c"
      by (auto simp: authorize_def bindE_Inr_iff split: if_split_asm)
    then obtain v w where "tenant_deployment_path v w = Inr p"
      by (auto simp: deployment_removal_authority_def Let_def bindE_Inr_iff split: sum.splits exn.splits)
    from path_components_slot[OF constructed_path_ok(5)[OF this]] p(2) removal_slot[OF p assms(2,3)] show ?thesis by auto
  qed
  show "slots t root = (slots t (commit_root s))(deployment_slot tid x := None)"
    if "remove_exact_deployment t r removal (commit_root s) = (Inr u, root)" for u root
    using that found records_unlink unfolding remove by (auto simp: tx_simps exclusive_def)
  show "slots t root = slots t (commit_root s) \<or> slots t root = (slots t (commit_root s))(deployment_slot tid x := None)"
    if "remove_exact_deployment t r removal (commit_root s) = (Inl e, root)" for e root
    using exclusive_error[OF that[unfolded remove]]
    by (auto simp: bindT_def readT_def split: sum.splits prod.splits dest: durable_error)
qed

lemma repository_do_reads:
  assumes "tenant_deployment_path tenant i = Inr p"
  shows "outcome (do_read (repository_commit t allocated) p)
    (\<lambda>r _. getitem (stored_document r) ''tenantId'' = Inr tenant \<and> getitem (stored_document r) ''id'' = Inr i) (\<lambda>_ _. True) s"
  using repository_reads_bound[OF assms] by (simp add: repository_commit_def)

interpretation repo_deployment: deployment_store "tx_env t" "repository_deployment t allocated" "commit_records t" "commit_log t"
    "commit_sound t" "deployment_releases R"
  for t allocated R
  by unfold_locales
    (simp_all del: not_None_eq add: repo_commit.observe repo_commit.read_finds repo_commit.inspect_reads repo_commit.no_intents repo_commit.creates
      repo_commit.swaps repo_commit.removes repo_commit.appends inspect_leaves deployment_reads_leave deployment_releases_def
      on_releases_leaves repository_lists repository_removes_exact repository_do_reads)

section \<open>The commit of a deployment\<close>


end
