(* ===== verification/Commit_Samples.thy ===== *)
theory Commit_Samples
  imports Commit_Properties Route_Laws Deployment_Repository Repository_Samples
begin

text \<open>
  A create planned from a claimed job, and the sample repository under a commit: what the properties of
  the create commit say of them.
\<close>

section \<open>A planned create\<close>

definition duck_quotas :: json where
  "duck_quotas = obj [(''storageMiB'', JInt 10), (''entries'', JInt 100)]"

definition duck_job :: json where
  "duck_job = sample_contract ''AuthorizationJob''
     [(''compatibilityVersion'', JStr ''static-job-v2''), (''phase'', JStr ''claimed''), (''jobId'', JStr sample_identity),
      (''operatorPrincipal'', JStr ''op''), (''request'', sample_create_request),
      (''requestDigest'', sample_binding REQUEST_DIGEST_FORMAT), (''artifact'', JNull), (''sourceAuthority'', JNull),
      (''expectedSource'', obj [(''expectsTenantAbsent'', JBool True), (''lifecycle'', JNull), (''manifestDigest'', JNull),
         (''deploymentDigest'', JNull), (''archiveRecordDigest'', JNull),
         (''platformStateDigest'', sample_binding PLATFORM_STATE_DIGEST_FORMAT)])]"

definition duck_context :: plan_context where
  "duck_context = sample_context\<lparr>ctx_readings := (\<lambda>n. (int n, replicate 10 0))\<rparr>"

definition duck_intent_id :: string where
  "duck_intent_id = uuid_str (uuid7_value 1 (be_nat (replicate 10 0) mod 2 ^ 74))"

text \<open>The tenant takes the first reading of the context, the intent the second.\<close>

abbreviation (input) duck_tenant :: string where "duck_tenant \<equiv> sample_intent_id"

lemma duck_identities:
  "generate_uuid7 (ctx_readings duck_context 0) = Inr duck_tenant" "generate_uuid7 (ctx_readings duck_context 1) = Inr duck_intent_id"
  "validate_uuid7 (JStr duck_intent_id) = Inr duck_intent_id" "duck_intent_id \<noteq> duck_tenant"
proof -
  show g: "generate_uuid7 (ctx_readings duck_context 1) = Inr duck_intent_id"
    by (simp add: generate_uuid7_iff duck_intent_id_def duck_context_def)
  show "generate_uuid7 (ctx_readings duck_context 0) = Inr duck_tenant"
    using sample_intent_id(1) by (simp add: duck_context_def)
  show "validate_uuid7 (JStr duck_intent_id) = Inr duck_intent_id"
    using generated_matches[OF g] by (simp add: uuid7_iff)
  have "uuid_int duck_intent_id div 2 ^ 80 = 1" "uuid_int duck_tenant div 2 ^ 80 = 0"
    using generated_timestamp[OF g[unfolded duck_context_def, simplified]] generated_timestamp[OF sample_intent_id(1)] by simp_all
  then show "duck_intent_id \<noteq> duck_tenant" by auto
qed

definition duck_origin :: string where "duck_origin = derived_origin duck_tenant TENANT_ORIGIN_SUFFIX"

definition duck_site :: json where
  "duck_site = create_manifest duck_tenant ''duck'' duck_origin duck_quotas"

lemma duck_job_ok: "validate_job sample_env duck_job = Inr ()"
  by (simp add: duck_job_def sample_create_request_def sample_contract_def validate_job_def validate_request_def
      validate_job_delivery_def validate_job_source_authority_def sample_evaluation)

lemma duck_inputs_valid:
  "validate_contract sample_env duck_job (Some AUTHORIZATION_JOB) = Inr AUTHORIZATION_JOB"
  "validate_contract sample_env sample_create_request (Some OPERATION_REQUEST) = Inr OPERATION_REQUEST"
  unfolding sample_validates semantic_validator_def ContractKind.case duck_job_ok
  by (simp_all add: duck_job_def sample_create_request_def sample_contract_def IDENTITY_FIELDS_def sample_identities_ok
      validate_request_def thenE_def)

lemma duck_site_valid: "validate_site duck_site = Inr ()"
  unfolding validate_site_iff site_of_def duck_site_def duck_origin_def using sample_intent_id(2) by (auto simp: uuid7_iff)

lemma duck_created:
  "materialize_create_request sample_env sample_create_request = Inr \<lparr>slug = ''duck'', storage_mib = 10, entries = 100\<rparr>"
  "\<exists>ns. materialize_platform_namespace sample_env sample_namespace = Inr ns \<and>
    construct_create_manifest \<lparr>slug = ''duck'', storage_mib = 10, entries = 100\<rparr> ns (ctx_readings duck_context 0)
      = Inr \<lparr>tenant_id = duck_tenant, canonical_origin = duck_origin, manifest = duck_site\<rparr>"
proof -
  have "reject_create_authority_fields sample_create_request = Inr ()"
    by (simp add: sample_create_request_def sample_contract_def reject_create_authority_fields_def)
  then show "materialize_create_request sample_env sample_create_request = Inr \<lparr>slug = ''duck'', storage_mib = 10, entries = 100\<rparr>"
    using duck_inputs_valid(2)
    by (simp add: materialize_create_request_def thenE_def mk_ValidatedCreateRequest_def sample_create_request_def sample_contract_def
        MINIMUM_QUOTA_def MAXIMUM_STORAGE_MIB_def Identifiers.MAXIMUM_ENTRIES_def)
  have ns: "materialize_platform_namespace sample_env sample_namespace = Inr \<lparr>tenant_origin_suffix = TENANT_ORIGIN_SUFFIX\<rparr>"
    using sample_inputs_valid(2)
    by (simp add: materialize_platform_namespace_def thenE_def sample_namespace_def sample_contract_def
        mk_ValidatedPlatformNamespace_def TENANT_ORIGIN_SUFFIX_def)
  have "canonical_origin_for duck_tenant TENANT_ORIGIN_SUFFIX = Inr duck_origin"
    using sample_intent_id(2) by (simp add: canonical_origin_for_pinned duck_origin_def uuid7_iff)
  then show "\<exists>ns. materialize_platform_namespace sample_env sample_namespace = Inr ns \<and>
    construct_create_manifest \<lparr>slug = ''duck'', storage_mib = 10, entries = 100\<rparr> ns (ctx_readings duck_context 0)
      = Inr \<lparr>tenant_id = duck_tenant, canonical_origin = duck_origin, manifest = duck_site\<rparr>"
    unfolding ns
    by (simp add: construct_create_manifest_def pinned_suffix_valid duck_identities(1) duck_site_def duck_quotas_def)
qed

definition duck_observed :: "string \<Rightarrow> json" where
  "duck_observed ts = create_observed duck_tenant (sample_binding MANIFEST_DIGEST_FORMAT) ts"

definition duck_intent :: "string \<Rightarrow> json" where
  "duck_intent ts = create_intent duck_intent_id duck_tenant (JStr sample_identity) sample_tenant sample_identity duck_site
     (sample_binding MANIFEST_DIGEST_FORMAT) ts"

definition duck_result :: json where
  "duck_result = create_result (JStr sample_identity) (JStr sample_identity) duck_tenant duck_origin duck_site"

lemma duck_identity_fields:
  "validate_identity_field (obj kvs) field = Inr ()"
  if "case map_of kvs field of None \<Rightarrow> True | Some v \<Rightarrow>
    v \<in> {JNull, JStr sample_tenant, JStr sample_identity, JStr duck_tenant, JStr duck_intent_id}"
  using that sample_intent_id(2) duck_identities(3)
  by (auto simp: validate_identity_field_def thenE_def split: option.splits)

lemma duck_enums: "LifecycleState_of (JStr ''undeployed'') = Inr UNDEPLOYED" "Operation_of (JStr ''create'') = Inr CREATE"
  by (simp_all add: LifecycleState_of_iff Operation_of_iff)

lemma duck_recovery: "validate_lifecycle_recovery (duck_intent ts) True = Inr ()"
  by (simp add: validate_lifecycle_recovery_def validate_lifecycle_source_recovery_def
      validate_lifecycle_candidate_recovery_def validate_observed_recovery_binding_def expected_routes_def
      validate_observed_manifest_binding_def validate_manifest_transition_binding_def duck_intent_def
      intent_document_def recovery_document_def observed_document_def duck_site_def LIFECYCLE_MATRIX_def MATRIX_def sample_evaluation
      duck_enums)
    (simp add: sample_tenant_def sample_identity_def)

lemma duck_transaction: "validate_transaction_intent sample_env (duck_intent ts) = Inr ()"
proof -
  let ?d = "duck_intent ts"
  have fields: "dict_get ?d ''compatibilityVersion'' = lit ''static-intent-v2''" "getitem ?d ''operation'' = lit ''create''"
    by (simp_all add: duck_intent_def intent_document_def)
  have "validate_restart_fence ?d = Inr ()"
    by (simp add: validate_restart_fence_def duck_intent_def intent_document_def sample_evaluation)
  moreover have "validated_transaction_source sample_env ?d (JStr ''create'') = none_lit"
    "validated_transaction_candidate sample_env ?d (JStr ''create'') = Inr duck_site"
    by (simp_all add: validated_transaction_source_def validated_transaction_candidate_def duck_intent_def
        intent_document_def sample_evaluation duck_site_valid) (simp_all add: duck_site_def)
  moreover have "validate_transaction_manifest_transform (JStr ''create'') JNull duck_site = Inr ()"
    by (simp add: validate_transaction_manifest_transform_def duck_site_def duck_quotas_def sample_evaluation)
  ultimately show ?thesis
    by (simp add: validate_transaction_intent_def fields Let_def
        validate_nonarchive_transaction_intent_def duck_recovery thenE_def refuse_if_def andE_def)
qed

lemma duck_outputs_valid:
  "validate_contract sample_env duck_site (Some SITE) = Inr SITE"
  "validate_contract sample_env (duck_observed ts) (Some TENANT_OBSERVED_STATE) = Inr TENANT_OBSERVED_STATE"
  "validate_contract sample_env (duck_intent ts) (Some TRANSACTION_INTENT) = Inr TRANSACTION_INTENT"
  "validate_contract sample_env duck_result (Some OPERATION_RESULT) = Inr OPERATION_RESULT"
proof -
  show "validate_contract sample_env duck_site (Some SITE) = Inr SITE"
    unfolding sample_validates semantic_validator_def ContractKind.case duck_site_valid
    by (simp add: duck_site_def IDENTITY_FIELDS_def duck_identity_fields API_VERSION_def)
  show "validate_contract sample_env (duck_observed ts) (Some TENANT_OBSERVED_STATE) = Inr TENANT_OBSERVED_STATE"
    unfolding sample_validates semantic_validator_def ContractKind.case duck_observed_def observed_document_def
    by (simp add: IDENTITY_FIELDS_def duck_identity_fields)
  show "validate_contract sample_env (duck_intent ts) (Some TRANSACTION_INTENT) = Inr TRANSACTION_INTENT"
    unfolding sample_validates semantic_validator_def ContractKind.case duck_transaction
    by (simp add: duck_intent_def intent_document_def IDENTITY_FIELDS_def duck_identity_fields)
  have origin: "validate_canonical_origin (JStr duck_tenant) (JStr duck_origin) = Inr duck_origin"
    using sample_intent_id(2) by (simp add: validate_canonical_origin_iff duck_origin_def uuid7_iff)
  have "validate_result sample_env duck_result = Inr ()"
    using duck_site_valid origin
    by (simp add: validate_result_def duck_result_def result_members_def sample_evaluation Let_def) (simp add: duck_site_def)
  then show "validate_contract sample_env duck_result (Some OPERATION_RESULT) = Inr OPERATION_RESULT"
    unfolding sample_validates semantic_validator_def ContractKind.case
    by (simp add: IDENTITY_FIELDS_def duck_identity_fields duck_result_def result_members_def)
qed

lemma duck_digests:
  "digest_dict (manifest_digest sample_env duck_site) = Inr (sample_binding MANIFEST_DIGEST_FORMAT)"
  "digest_dict (result_digest sample_env duck_result) = Inr (sample_binding RESULT_DIGEST_FORMAT)"
  unfolding manifest_digest_def result_digest_def
  by (rule sample_contract_digest[OF duck_outputs_valid(1)] sample_contract_digest[OF duck_outputs_valid(4)];
      simp add: duck_site_def duck_result_def)+

text \<open>The audit entry of the create, for a tenant.\<close>

definition duck_entry :: "string \<Rightarrow> string \<Rightarrow> json" where
  "duck_entry ts tenant = obj
     [(''apiVersion'', JStr API_VERSION), (''kind'', JStr ''AuditEntry''), (''sequence'', JInt 7), (''previousEntryDigest'', JNull),
      (''timestamp'', JStr ts), (''operatorPrincipal'', JStr ''op''), (''operation'', JStr ''create''), (''tenantId'', JStr tenant),
      (''correlationId'', JStr sample_identity), (''resultDigest'', sample_binding RESULT_DIGEST_FORMAT),
      (''resultStatus'', JStr ''succeeded'')]"

lemma duck_entry_valid:
  assumes "tenant \<in> {duck_tenant, sample_tenant}"
  shows "validate_contract sample_env (duck_entry ts tenant) (Some AUDIT_ENTRY) = Inr AUDIT_ENTRY"
  using assms unfolding sample_validates semantic_validator_def ContractKind.case
  by (auto simp: duck_entry_def IDENTITY_FIELDS_def duck_identity_fields validate_audit_entry_def)

lemma duck_audit:
  "successful_audit_entry sample_env duck_job CREATE duck_tenant duck_result (ctx_audit_state duck_context) ts
     = Inr (duck_entry ts duck_tenant)"
  using duck_entry_valid[of duck_tenant ts]
  by (simp add: successful_audit_entry_def duck_job_def sample_create_request_def sample_contract_def duck_digests thenE_def Let_def
      duck_context_def sample_context_def) (simp add: duck_entry_def)

definition duck_plan :: "string \<Rightarrow> string \<Rightarrow> TransitionPlan" where
  "duck_plan ts tenant = \<lparr>plan_tenant_id = duck_tenant, plan_intent_id = duck_intent_id, plan_manifest = duck_site,
     plan_observed_state = duck_observed ts, plan_intent = duck_intent ts, plan_result = duck_result,
     plan_audit_entry = duck_entry ts tenant\<rparr>"

lemma duck_planned:
  assumes "canonical_timestamp (ctx_now sample_context) = Inr ts"
  shows "plan_create_transition sample_env duck_job sample_namespace duck_context = Inr (duck_plan ts duck_tenant)"
proof -
  obtain ns where ns: "materialize_platform_namespace sample_env sample_namespace = Inr ns"
    "construct_create_manifest \<lparr>slug = ''duck'', storage_mib = 10, entries = 100\<rparr> ns (ctx_readings duck_context 0)
      = Inr \<lparr>tenant_id = duck_tenant, canonical_origin = duck_origin, manifest = duck_site\<rparr>"
    using duck_created(2) by blast
  have job: "getitem duck_job ''phase'' = lit ''claimed''" "getitem duck_job ''request'' = Inr sample_create_request"
    "getitem duck_job ''jobId'' = lit sample_identity" "getitem sample_create_request ''correlationId'' = lit sample_identity"
    "getitem duck_job ''expectedSource'' = Inr (obj
       [(''expectsTenantAbsent'', JBool True), (''lifecycle'', JNull), (''manifestDigest'', JNull),
         (''deploymentDigest'', JNull), (''archiveRecordDigest'', JNull),
         (''platformStateDigest'', sample_binding PLATFORM_STATE_DIGEST_FORMAT)])"
    by (simp_all add: duck_job_def sample_create_request_def sample_contract_def)
  have ids: "validate_uuid7 (source_runtime_generation_id duck_context) = Inr sample_tenant"
    "validate_uuid7 (candidate_runtime_generation_id duck_context) = Inr sample_identity" "sample_tenant \<noteq> sample_identity"
    "canonical_timestamp (ctx_now duck_context) = Inr ts"
    using assms by (simp_all add: duck_context_def sample_context_def) (simp add: sample_tenant_def sample_identity_def)
  note docs = duck_outputs_valid[unfolded duck_observed_def duck_intent_def duck_result_def] duck_audit[unfolded duck_result_def]
  show ?thesis
    unfolding plan_create_transition_def
    by (simp add: duck_inputs_valid(1) job duck_created(1) ns sample_digests(3) ids duck_identities duck_identities(2)[simplified] duck_digests(1) docs
        refuse_plan_def thenE_def Let_def neqE_def duck_plan_def duck_observed_def duck_intent_def duck_result_def)
qed

section \<open>The properties at work\<close>

definition duck_stored :: StoredContract where
  "duck_stored = \<lparr>stored_document = duck_job, stored_revision = revision AUTHORIZATION_JOB [123, 125, 10]\<rparr>"

lemma duck_request:
  "getitem (stored_document duck_stored) ''request'' = Inr sample_create_request"
  "getitem sample_create_request ''quotas'' = Inr (obj [(''storageMiB'', JInt 10), (''entries'', JInt 100)])"
  by (simp_all add: duck_stored_def duck_job_def sample_create_request_def sample_contract_def)

theorem planned_create_accepted_witness:
  "\<exists>ts. validate_create_transition sample_env duck_stored (duck_plan ts duck_tenant) = Inr ()"
proof -
  obtain ts where ts: "canonical_timestamp (ctx_now sample_context) = Inr ts" using sample_timestamp by blast
  have "plan_create_transition sample_env (stored_document duck_stored) sample_namespace duck_context = Inr (duck_plan ts duck_tenant)"
    using duck_planned[OF ts] by (simp add: duck_stored_def)
  from planned_create_accepted[OF this duck_request] show ?thesis by blast
qed

theorem create_commit_entry_unbound_witness:
  "\<exists>ts. create_freeze_and_validate sample_env duck_stored (duck_plan ts sample_tenant) = Inr (duck_plan ts sample_tenant)"
proof -
  obtain ts where ts: "canonical_timestamp (ctx_now sample_context) = Inr ts" using sample_timestamp by blast
  have "plan_create_transition sample_env (stored_document duck_stored) sample_namespace duck_context = Inr (duck_plan ts duck_tenant)"
    using duck_planned[OF ts] by (simp add: duck_stored_def)
  then have accepted: "create_freeze_and_validate sample_env duck_stored (duck_plan ts duck_tenant) = Inr (duck_plan ts duck_tenant)"
    using duck_request by (rule planned_create_freezes)
  have other: "setitem (plan_audit_entry (duck_plan ts duck_tenant)) ''tenantId'' (JStr sample_tenant) = Inr (duck_entry ts sample_tenant)"
    by (auto simp: duck_plan_def duck_entry_def setitem_obj obj_def fmlookup_of_list intro!: fmap_ext)
  have "duck_plan ts duck_tenant\<lparr>plan_audit_entry := duck_entry ts sample_tenant\<rparr> = duck_plan ts sample_tenant"
    by (simp add: duck_plan_def)
  then show ?thesis
    using create_commit_entry_unbound[OF accepted _ _ other duck_entry_valid[of sample_tenant ts]]
    by (auto simp: duck_plan_def duck_site_def)
qed

text \<open>The sample repository, with the sample log beside it.\<close>

definition store_commit :: commit_state where
  "store_commit = \<lparr>commit_root = store_root, commit_audit = Inr append_segments\<rparr>"

lemma store_commit_sound: "commit_sound store_transaction store_commit"
  using store_transaction_ok store_tree store_typed by (simp add: commit_sound_def store_commit_def commit_records_def)

definition failing_at :: "CreateCommitBoundary \<Rightarrow> CreateCommitBoundary \<Rightarrow> unit py" where
  "failing_at b boundary = (if boundary = b then Inl (RuntimeError ''fault'') else Inr ())"




text \<open>The sample repository with a release store of which every release is already gone.\<close>

definition empty_releases :: "unit release_store" where
  "empty_releases = \<lparr>do_measure_release = (\<lambda>_ _. liftT (Inl FileNotFoundError)), do_remove_release = (\<lambda>_ _ _. liftT (Inr ()))\<rparr>"

definition store_deployment :: "unit deployment_state" where
  "store_deployment = commit_state.extend store_commit (deployment_state.fields ())"

lemma store_deployment_sound: "commit_sound store_transaction store_deployment"
  using store_commit_sound
  by (simp add: store_deployment_def commit_state.defs deployment_state.defs commit_sound_def commit_records_def)

definition duck_deployment :: "string \<Rightarrow> DeploymentTransitionPlan" where
  "duck_deployment ts = TransitionPlan.extend (duck_plan ts duck_tenant) (DeploymentTransitionPlan.fields (obj []) True)"


end
