(* ===== verification/Rate_Limit.thy ===== *)
theory Rate_Limit
  imports Json "HOL-Library.Multiset"
begin

text \<open>
  The admission of new correlations in time, \<^verbatim>\<open>_admit_rate\<close> of
  \<^verbatim>\<open>static_host_agent/correlations.py\<close>: sixty in a rolling hour, and a bucket of five tokens that
  gains one token a minute. A time is a number of microseconds since the first day of year 1, in UTC.
  The bucket is replayed over the whole history, and refuses exactly where some window of time holds
  more admissions than five and one for each of its minutes.
\<close>

section \<open>The limits\<close>

definition RATE_WINDOW :: int where "RATE_WINDOW = 3600 * 1000000"
definition MAXIMUM_PER_WINDOW :: nat where "MAXIMUM_PER_WINDOW = 60"
definition BURST_CAPACITY :: int where "BURST_CAPACITY = 5"
definition TOKEN_INTERVAL_MICROSECONDS :: int where "TOKEN_INTERVAL_MICROSECONDS = 60 * 1000000"
definition TOKEN_CAPACITY_MICROSECONDS :: int where
  "TOKEN_CAPACITY_MICROSECONDS = BURST_CAPACITY * TOKEN_INTERVAL_MICROSECONDS"

text \<open>One admission: the credit and the time of the previous one.\<close>

definition token_step :: "int \<times> int \<Rightarrow> int \<Rightarrow> (int \<times> int) py" where
  "token_step bucket timestamp =
     (let credit = min TOKEN_CAPACITY_MICROSECONDS (fst bucket + (timestamp - snd bucket)) in
      if credit < TOKEN_INTERVAL_MICROSECONDS
      then Inl (CorrelationRateLimitError ''correlation burst limit is exhausted'')
      else Inr (credit - TOKEN_INTERVAL_MICROSECONDS, timestamp))"

definition admit_rate :: "int list \<Rightarrow> int \<Rightarrow> unit py" where
  "admit_rate history candidate =
     (let ordered = sort history; window_start = candidate - RATE_WINDOW in
      if ordered \<noteq> [] \<and> candidate < last ordered
      then Inl (CorrelationRateLimitError ''wall-clock rollback closes new correlation admission'')
      else if window_start < 0 then Inl (OverflowError ''date value out of range'')
      else if length (filter (\<lambda>timestamp. window_start < timestamp) ordered) \<ge> MAXIMUM_PER_WINDOW
      then Inl (CorrelationRateLimitError ''rolling-hour correlation limit is exhausted'')
      else bindE (foldE token_step (TOKEN_CAPACITY_MICROSECONDS, if ordered = [] then candidate else hd ordered)
                    (ordered @ [candidate])) (\<lambda>_. Inr ()))"

section \<open>The bucket as a bound on windows\<close>

lemmas rate_constants = RATE_WINDOW_def MAXIMUM_PER_WINDOW_def BURST_CAPACITY_def TOKEN_INTERVAL_MICROSECONDS_def
  TOKEN_CAPACITY_MICROSECONDS_def

text \<open>The times from one position to another leave room for a token each.\<close>

definition spaced :: "int list \<Rightarrow> bool" where
  "spaced ts \<longleftrightarrow> (\<forall>n < length ts. \<forall>m \<le> n.
     (int (n - m) + 1) * TOKEN_INTERVAL_MICROSECONDS \<le> TOKEN_CAPACITY_MICROSECONDS + ts ! n - ts ! m)"

lemma spaced_Cons:
  "spaced (t # ts) \<longleftrightarrow> spaced ts \<and>
     (\<forall>n < length ts. (int n + 2) * TOKEN_INTERVAL_MICROSECONDS \<le> TOKEN_CAPACITY_MICROSECONDS + ts ! n - t)"
  (is "_ \<longleftrightarrow> _ \<and> ?from_first")
proof
  assume *: "spaced (t # ts)"
  have "(int (n - m) + 1) * TOKEN_INTERVAL_MICROSECONDS \<le> TOKEN_CAPACITY_MICROSECONDS + ts ! n - ts ! m"
    if "n < length ts" "m \<le> n" for n m
    using *[unfolded spaced_def, rule_format, of "Suc n" "Suc m"] that by simp
  moreover have ?from_first
  proof (intro allI impI)
    fix n assume "n < length ts"
    then show "(int n + 2) * TOKEN_INTERVAL_MICROSECONDS \<le> TOKEN_CAPACITY_MICROSECONDS + ts ! n - t"
      using *[unfolded spaced_def, rule_format, of "Suc n" 0] by (simp add: algebra_simps)
  qed
  ultimately show "spaced ts \<and> ?from_first" by (simp add: spaced_def)
next
  assume *: "spaced ts \<and> ?from_first"
  show "spaced (t # ts)"
    unfolding spaced_def
  proof (intro allI impI)
    fix n m assume "n < length (t # ts)" "m \<le> n"
    then show "(int (n - m) + 1) * TOKEN_INTERVAL_MICROSECONDS \<le> TOKEN_CAPACITY_MICROSECONDS + (t # ts) ! n - (t # ts) ! m"
      using * by (cases n; cases m) (auto simp: spaced_def rate_constants algebra_simps)
  qed
qed

lemma token_run:
  "is_ok (foldE token_step (credit, previous) ts) \<longleftrightarrow>
     spaced ts \<and> (\<forall>n < length ts. (int n + 1) * TOKEN_INTERVAL_MICROSECONDS \<le> credit + ts ! n - previous)"
proof (induction ts arbitrary: credit previous)
  case Nil
  then show ?case by (simp add: spaced_def is_ok_def)
next
  case (Cons t ts)
  show ?case
  proof (cases "TOKEN_INTERVAL_MICROSECONDS \<le> credit + t - previous")
    case False
    then have "\<not> is_ok (foldE token_step (credit, previous) (t # ts))"
      by (simp add: token_step_def rate_constants is_ok_def min_def)
    moreover have "\<not> (int 0 + 1) * TOKEN_INTERVAL_MICROSECONDS \<le> credit + (t # ts) ! 0 - previous" using False by simp
    ultimately show ?thesis by (metis length_greater_0_conv list.distinct(1))
  next
    case True
    define left where "left = min TOKEN_CAPACITY_MICROSECONDS (credit + (t - previous)) - TOKEN_INTERVAL_MICROSECONDS"
    have "is_ok (foldE token_step (credit, previous) (t # ts)) \<longleftrightarrow> is_ok (foldE token_step (left, t) ts)"
      using True by (simp add: token_step_def left_def rate_constants min_def)
    also have "\<dots> \<longleftrightarrow> spaced ts \<and> (\<forall>n < length ts. (int n + 1) * TOKEN_INTERVAL_MICROSECONDS \<le> left + ts ! n - t)"
      by (rule Cons.IH)
    also have "\<dots> \<longleftrightarrow> spaced (t # ts) \<and>
        (\<forall>n < length ts. (int n + 2) * TOKEN_INTERVAL_MICROSECONDS \<le> credit + ts ! n - previous)"
      unfolding spaced_Cons left_def by (auto simp: algebra_simps min_def split: if_splits)
    also have "\<dots> \<longleftrightarrow> spaced (t # ts) \<and>
        (\<forall>n < length (t # ts). (int n + 1) * TOKEN_INTERVAL_MICROSECONDS \<le> credit + (t # ts) ! n - previous)"
      using True by (auto simp: nth_Cons algebra_simps split: nat.splits)
    finally show ?thesis .
  qed
qed

text \<open>A full bucket that starts with the first time is bounded by the spacing alone.\<close>

lemma token_run_full: "is_ok (foldE token_step (TOKEN_CAPACITY_MICROSECONDS, ts ! 0) ts) \<longleftrightarrow> spaced ts"
proof -
  have "(int n + 1) * TOKEN_INTERVAL_MICROSECONDS \<le> TOKEN_CAPACITY_MICROSECONDS + ts ! n - ts ! 0"
    if "spaced ts" "n < length ts" for n
    using that(1)[unfolded spaced_def, rule_format, of n 0] that(2) by simp
  then show ?thesis by (auto simp: token_run)
qed

definition in_window :: "int \<Rightarrow> int \<Rightarrow> int list \<Rightarrow> nat" where
  "in_window lo hi ts = length (filter (\<lambda>t. lo \<le> t \<and> t \<le> hi) ts)"

lemma in_window_sort [simp]: "in_window lo hi (sort ts) = in_window lo hi ts"
  by (simp add: in_window_def filter_sort)

text \<open>Spacing is a bound on what any window holds.\<close>

lemma spaced_windows:
  assumes "sorted ts"
  shows "spaced ts \<longleftrightarrow>
    (\<forall>lo hi. lo \<le> hi \<longrightarrow> int (in_window lo hi ts) \<le> BURST_CAPACITY + (hi - lo) div TOKEN_INTERVAL_MICROSECONDS)"
    (is "_ \<longleftrightarrow> (\<forall>lo hi. lo \<le> hi \<longrightarrow> ?bounded lo hi)")
proof
  assume spaced: "spaced ts"
  show "\<forall>lo hi. lo \<le> hi \<longrightarrow> ?bounded lo hi"
  proof (intro allI impI)
    fix lo hi :: int assume le: "lo \<le> hi"
    define S where "S = {i. i < length ts \<and> lo \<le> ts ! i \<and> ts ! i \<le> hi}"
    have card: "in_window lo hi ts = card S" by (simp add: in_window_def S_def length_filter_conv_card)
    show "?bounded lo hi"
    proof (cases "S = {}")
      case True
      then show ?thesis using le by (simp add: card rate_constants)
    next
      case False
      have fin: "finite S" by (simp add: S_def)
      define m n where "m = Min S" and "n = Max S"
      have mn: "m \<in> S" "n \<in> S" "m \<le> n" using False fin by (simp_all add: m_def n_def)
      have "S \<subseteq> {m..n}" using fin by (auto simp: m_def n_def)
      then have "card S \<le> n - m + 1" using card_mono[of "{m..n}" S] mn(3) by simp
      moreover have "(int (n - m) + 1) * TOKEN_INTERVAL_MICROSECONDS \<le> TOKEN_CAPACITY_MICROSECONDS + ts ! n - ts ! m"
        using spaced mn by (simp add: spaced_def S_def)
      moreover have "ts ! n - ts ! m \<le> hi - lo" using mn(1,2) by (simp add: S_def)
      ultimately show ?thesis by (simp add: card rate_constants)
    qed
  qed
next
  assume bounded: "\<forall>lo hi. lo \<le> hi \<longrightarrow> ?bounded lo hi"
  show "spaced ts"
    unfolding spaced_def
  proof (intro allI impI)
    fix n m assume nm: "n < length ts" "m \<le> n"
    have "{m..n} \<subseteq> {i. i < length ts \<and> ts ! m \<le> ts ! i \<and> ts ! i \<le> ts ! n}"
      using nm assms by (auto intro: sorted_nth_mono)
    from card_mono[OF _ this] have "Suc n - m \<le> in_window (ts ! m) (ts ! n) ts"
      by (simp add: in_window_def length_filter_conv_card)
    moreover have "?bounded (ts ! m) (ts ! n)" using bounded nm assms sorted_nth_mono[of ts m n] by simp
    ultimately show "(int (n - m) + 1) * TOKEN_INTERVAL_MICROSECONDS \<le> TOKEN_CAPACITY_MICROSECONDS + ts ! n - ts ! m"
      using nm by (simp add: rate_constants)
  qed
qed

section \<open>What is admitted\<close>

lemma sort_empty [simp]: "sort ts = [] \<longleftrightarrow> ts = []"
  by (metis length_0_conv length_sort)

lemma times_le_last: "sorted xs \<Longrightarrow> x \<in> set xs \<Longrightarrow> x \<le> last xs"
  for x :: int
  by (induction xs rule: rev_induct) (auto simp: sorted_append)

lemma sort_snoc: "(\<And>t. t \<in> set ts \<Longrightarrow> t \<le> c) \<Longrightarrow> sort ts @ [c] = sort (c # ts)"
  for c :: int
  by (rule properties_for_sort[symmetric]) (auto simp: sorted_append)

lemma rate_admission_iff:
  "admit_rate history candidate = Inr () \<longleftrightarrow>
     RATE_WINDOW \<le> candidate \<and> (\<forall>t \<in> set history. t \<le> candidate) \<and>
     length (filter (\<lambda>t. candidate - RATE_WINDOW < t) history) < 60 \<and>
     (\<forall>lo hi. lo \<le> hi \<longrightarrow> int (in_window lo hi (candidate # history)) \<le> 5 + (hi - lo) div 60000000)"
proof -
  have latest: "(sort history \<noteq> [] \<and> candidate < last (sort history)) \<longleftrightarrow> \<not> (\<forall>t \<in> set history. t \<le> candidate)"
  proof (cases "history = []")
    case False
    then have "last (sort history) \<in> set history" using last_in_set[of "sort history"] by simp
    moreover have latest: "\<forall>t \<in> set history. t \<le> last (sort history)"
      using times_le_last[of "sort history"] by simp
    ultimately show ?thesis using False by (auto simp: not_le dest: bspec[OF latest])
  qed simp
  have run: "is_ok (foldE token_step (TOKEN_CAPACITY_MICROSECONDS, if sort history = [] then candidate else hd (sort history))
      (sort history @ [candidate])) \<longleftrightarrow> spaced (sort history @ [candidate])"
  proof -
    have "(if sort history = [] then candidate else hd (sort history)) = (sort history @ [candidate]) ! 0"
      by (simp add: hd_conv_nth nth_append)
    then show ?thesis by (simp add: token_run_full)
  qed
  have windows: "spaced (sort history @ [candidate]) \<longleftrightarrow>
      (\<forall>lo hi. lo \<le> hi \<longrightarrow> int (in_window lo hi (candidate # history)) \<le> 5 + (hi - lo) div 60000000)"
    if "\<forall>t \<in> set history. t \<le> candidate"
    using spaced_windows[of "sort (candidate # history)"] that sort_snoc[of history candidate]
    by (simp add: rate_constants del: sort_key_simps)
  have bind: "bindE m (\<lambda>_. Inr ()) = Inr () \<longleftrightarrow> is_ok m" for m :: "(int \<times> int) py"
    by (cases m) (simp_all add: is_ok_def)
  show ?thesis
    using latest run windows
    by (simp add: admit_rate_def Let_def bind MAXIMUM_PER_WINDOW_def filter_sort)
qed

text \<open>C16. Rate admission refuses nothing it need not. A new correlation is admitted exactly when its time is
  not before that of any earlier one, fewer than sixty of them lie in the hour before it, and, with it,
  no window of time holds more than five admissions and one for each of its full minutes. (The code replays a token
  bucket over the sorted history; an hour must precede the time in the calendar.)\<close>

theorem rate_admission_exact:
  "admit_rate history candidate = Inr () \<longleftrightarrow>
     RATE_WINDOW \<le> candidate \<and> (\<forall>t \<in> set history. t \<le> candidate) \<and>
     length (filter (\<lambda>t. candidate - RATE_WINDOW < t) history) < 60 \<and>
     (\<forall>lo hi. lo \<le> hi \<longrightarrow> int (in_window lo hi (candidate # history)) \<le> 5 + (hi - lo) div 60000000)"
  by (rule rate_admission_iff)

text \<open>Four admissions at one instant leave a token, five do not, and a minute later there is one again.\<close>

theorem rate_admission_exact_witness:
  "admit_rate (replicate 4 RATE_WINDOW) RATE_WINDOW = Inr () \<and> admit_rate (replicate 5 RATE_WINDOW) RATE_WINDOW \<noteq> Inr () \<and>
   admit_rate (replicate 5 RATE_WINDOW) (RATE_WINDOW + 60000000) = Inr ()"
proof -
  let ?T = RATE_WINDOW
  have "\<not> admit_rate (replicate 5 ?T) ?T = Inr ()"
    unfolding rate_admission_exact
    by (auto simp: in_window_def intro!: exI[of _ ?T])
  then show ?thesis by (simp add: admit_rate_def Let_def token_step_def rate_constants eval_nat_numeral)
qed

end
