(* ===== verification/Correlations.thy ===== *)
theory Correlations
  imports Rate_Limit Repository_Commit
begin

text \<open>
  The module \<^verbatim>\<open>static_host_agent/correlations.py\<close>: each authorized request has a correlation record
  and a job record that begin as copies of one document. Exact retries are answered from them, a new
  correlation is admitted under the limits of rate and capacity, and a pair of which an interruption
  left one record is repaired from that record. A method of \<^verbatim>\<open>CorrelationAdmission\<close> runs inside one
  exclusive transaction of the repository, which the caller of these definitions supplies.
\<close>

section \<open>The transaction\<close>

record 's correlation_transaction = "'s commit_transaction" +
  do_measure_authorization_records :: "('s, AuthorizationRecordInventory) tx"
  do_inspect_audit_correlation :: "json \<Rightarrow> ('s, AuditCorrelationSnapshot) tx"

record CorrelationResolution =
  resolved_job :: StoredContract
  resolution_created :: bool
  resolution_repaired :: nat

record CorrelationReconciliation =
  reconciled_jobs :: "StoredContract list"
  reconciliation_repaired :: nat
  deferred_jobs :: "StoredContract list"

definition lifecycle_reservation_owners :: "('s, 'z) commit_transaction_scheme \<Rightarrow> ('s, string list) tx" where
  "lifecycle_reservation_owners T =
     bindT (do_measure_intent_records T) (\<lambda>inventory.
     foldT (\<lambda>owners identity.
       bindT (do_read_intent T (JStr (identity_intent_id identity))) (\<lambda>(p, r).
       bindT (liftT (bindE (getitem (stored_document r) ''correlationId'') validate_uuid7)) (\<lambda>owner.
       liftT (Inr (owners @ [owner])))))
       [] (intent_records inventory))"

section \<open>The time of acceptance\<close>

text \<open>
  \<^verbatim>\<open>datetime.fromisoformat\<close> on the shapes of RFC 3339, which are those the schema admits, and without
  an offset: a date, any separator, a time to the second, a fraction cut at the microsecond, an offset
  in hours and minutes. Its other shapes (week dates, the basic format, a time to the minute) occur in
  no validated record and are refused here as malformed.
\<close>

definition digits_value :: "string \<Rightarrow> nat option" where
  "digits_value s = (if s \<noteq> [] \<and> list_all is_digit s then Some (dec_nat s) else None)"

definition fraction_microseconds :: "string \<Rightarrow> nat" where
  "fraction_microseconds digits = dec_nat (take 6 (digits @ ''000000''))"

definition split_fraction :: "string \<Rightarrow> (nat \<times> string) option" where
  "split_fraction s =
     (if s \<noteq> [] \<and> (hd s = CHR ''.'' \<or> hd s = CHR '','')
      then (let digits = takeWhile is_digit (tl s) in
            if digits = [] then None else Some (fraction_microseconds digits, dropWhile is_digit (tl s)))
      else Some (0, s))"

text \<open>The offset in microseconds, or none for a time without a zone.\<close>

definition parse_offset :: "string \<Rightarrow> int option option" where
  "parse_offset s =
     (if s = [] then Some None
      else if length s = 6 \<and> (hd s = CHR ''+'' \<or> hd s = CHR ''-'') \<and> s ! 3 = CHR '':''
      then (case (digits_value (slice 1 3 s), digits_value (slice 4 6 s)) of
              (Some h, Some mi) \<Rightarrow>
                if h < 24 \<and> mi < 60
                then Some (Some ((if hd s = CHR ''-'' then - 1 else 1) * (int h * 3600 + int mi * 60) * 1000000))
                else None
            | _ \<Rightarrow> None)
      else None)"

definition iso_microseconds :: "nat \<times> nat \<times> nat \<times> nat \<times> nat \<times> nat \<Rightarrow> int" where
  "iso_microseconds t = (epoch_seconds t + 719162 * 86400) * 1000000"

definition fromisoformat :: "string \<Rightarrow> py_datetime option" where
  "fromisoformat s =
     (if length s < 19 \<or> s ! 4 \<noteq> CHR ''-'' \<or> s ! 7 \<noteq> CHR ''-'' \<or> s ! 13 \<noteq> CHR '':'' \<or> s ! 16 \<noteq> CHR '':'' then None
      else case (digits_value (slice 0 4 s), numeral_field 1 12 (slice 5 7 s), numeral_field 1 31 (slice 8 10 s),
                 numeral_field 0 23 (slice 11 13 s), numeral_field 0 59 (slice 14 16 s), numeral_field 0 59 (slice 17 19 s)) of
        (Some y, Some m, Some d, Some h, Some mi, Some sec) \<Rightarrow>
          if y = 0 \<or> month_days y m < d then None
          else (case split_fraction (drop 19 s) of
            None \<Rightarrow> None
          | Some (microseconds, rest) \<Rightarrow>
              (let t = iso_microseconds (y, m, d, h, mi, sec) + int microseconds in
               case parse_offset rest of
                 None \<Rightarrow> None
               | Some None \<Rightarrow> Some \<lparr>utc_microseconds = t, tz_aware = False\<rparr>
               | Some (Some offset) \<Rightarrow> Some \<lparr>utc_microseconds = t - offset, tz_aware = True\<rparr>))
      | _ \<Rightarrow> None)"

text \<open>\<^verbatim>\<open>astimezone(UTC)\<close> of an aware time, as its microseconds.\<close>

definition as_utc :: "py_datetime \<Rightarrow> int py" where
  "as_utc v =
     (if utc_microseconds v < 0 \<or> utc_microseconds v \<ge> 3652059 * 86400000000
      then Inl (OverflowError ''date value out of range'') else Inr (utc_microseconds v))"

definition replace_z :: "string \<Rightarrow> string" where
  "replace_z s = concat (map (\<lambda>c. if c = CHR ''Z'' then ''+00:00'' else [c]) s)"

definition accepted_at :: "json \<Rightarrow> int py" where
  "accepted_at d =
     bindE (getitem d ''acceptedAt'') (\<lambda>v.
     case v of
       JStr s \<Rightarrow>
         (case fromisoformat (replace_z s) of
            None \<Rightarrow> Inl (CorrelationError ''authorization acceptance time is invalid'')
          | Some timestamp \<Rightarrow>
              if \<not> tz_aware timestamp then Inl (CorrelationError ''authorization acceptance time has no timezone'')
              else as_utc timestamp)
     | _ \<Rightarrow> Inl (CorrelationError ''authorization acceptance time is not a string''))"

section \<open>Identities and bindings of a document\<close>

definition job_id_of :: "json \<Rightarrow> string py" where
  "job_id_of d = bindE (getitem d ''jobId'') validate_uuid7"

definition correlation_id_of :: "json \<Rightarrow> string py" where
  "correlation_id_of d =
     bindE (getitem d ''request'') (\<lambda>request.
     if \<not> is_dict request then Inl (CorrelationError ''authorization request is not an object'')
     else bindE (getitem request ''correlationId'') validate_uuid7)"

text \<open>What a job gains while it is executed.\<close>

definition EXECUTION_FIELDS :: "string list" where
  "EXECUTION_FIELDS = [''executionValidated'', ''exportDelivery'', ''dispatchAuditBoundary'', ''dispatchArchiveDeploymentIds'',
     ''dispatchArtifactReleaseTreeDigest'', ''dispatchImportManifest'', ''dispatchSourceObservedState'',
     ''dispatchSourceReleaseTreeDigest'', ''dispatchDeploymentIds'', ''dispatchSourceRouteSet'',
     ''dispatchSourceRuntimeGenerationId'', ''dispatchTenantIds'', ''dispatchTenantRecordHistories'']"

definition retry_binding :: "contract_env \<Rightarrow> json \<Rightarrow> bytes py" where
  "retry_binding env d =
     bindE (pop d ''jobId'') (\<lambda>d1.
     bindE (pop d1 ''acceptedAt'') (\<lambda>d2.
     bindE (pop d2 ''phase'') (\<lambda>d3.
     canonical_bytes env (without EXECUTION_FIELDS d3))))"

definition durable_binding :: "contract_env \<Rightarrow> json \<Rightarrow> bytes py" where
  "durable_binding env d =
     bindE (pop d ''phase'') (\<lambda>d1. canonical_bytes env (without EXECUTION_FIELDS d1))"

definition caller_retry_binding :: "contract_env \<Rightarrow> json \<Rightarrow> bytes py" where
  "caller_retry_binding env d =
     bindE (getitem d ''operatorPrincipal'') (\<lambda>principal.
     bindE (getitem d ''request'') (\<lambda>request.
     bindE (getitem d ''requestDigest'') (\<lambda>digest.
     bindE (getitem d ''artifact'') (\<lambda>artifact.
     canonical_bytes env (obj [(''operatorPrincipal'', principal), (''request'', request), (''requestDigest'', digest),
       (''artifact'', artifact)])))))"

definition validate_candidate :: "contract_env \<Rightarrow> json \<Rightarrow> py_datetime \<Rightarrow> (string \<times> string \<times> int \<times> bytes) py" where
  "validate_candidate env candidate now =
     (if \<not> is_dict candidate then Inl TypeError
      else
      thenE (validate_contract env candidate (Some AUTHORIZATION_JOB))
      (bindE (getitem candidate ''phase'') (\<lambda>phase.
      if phase \<noteq> JStr ''pending'' then Inl (CorrelationError ''new correlation admission requires a pending job'')
      else
      bindE (getitem candidate ''request'') (\<lambda>request.
      if \<not> is_dict request then Inl (CorrelationError ''authorization job request is not an object'')
      else
      bindE (bindE (getitem request ''correlationId'') validate_uuid7) (\<lambda>correlation_id.
      bindE (job_id_of candidate) (\<lambda>job_id.
      bindE (accepted_at candidate) (\<lambda>accepted.
      if \<not> tz_aware now then Inl (CorrelationError ''correlation admission clock must be timezone-aware'')
      else
      bindE (as_utc now) (\<lambda>clock.
      if clock \<noteq> accepted then Inl (CorrelationError ''job acceptance timestamp does not match the admission clock'')
      else
      thenE (bindE (authorization_correlation_path (JStr correlation_id)) (\<lambda>p. validate_binding p candidate))
      (thenE (bindE (authorization_job_path (JStr job_id)) (\<lambda>p. validate_binding p candidate))
      (bindE (canonical_bytes env candidate) (\<lambda>canonical.
       Inr (correlation_id, job_id, accepted, canonical))))))))))))"

section \<open>Repairing the pairs\<close>

text \<open>A dictionary is an association list in the order of insertion.\<close>

definition read_documents ::
    "('s, 'z) commit_transaction_scheme \<Rightarrow> (json \<Rightarrow> StateRecordPath py) \<Rightarrow> string list \<Rightarrow> ('s, (string \<times> json) list) tx" where
  "read_documents T path_of ids =
     foldT (\<lambda>found i.
       bindT (liftT (path_of (JStr i))) (\<lambda>p.
       bindT (do_read T p) (\<lambda>r. liftT (Inr (found @ [(i, stored_document r)])))))
       [] ids"

definition index_jobs :: "(string \<times> json) list \<Rightarrow> (string \<times> json) list py" where
  "index_jobs jobs =
     foldE (\<lambda>found (_, job).
       bindE (correlation_id_of job) (\<lambda>correlation_id.
       if map_of found correlation_id \<noteq> None
       then Inl (CorrelationError ''multiple jobs claim one correlation identity'')
       else Inr (found @ [(correlation_id, job)])))
       [] jobs"

definition index_correlations :: "(string \<times> json) list \<Rightarrow> (string \<times> string) list py" where
  "index_correlations correlations =
     foldE (\<lambda>found (correlation_id, correlation).
       bindE (job_id_of correlation) (\<lambda>job_id.
       let (established, found') = setdefault found job_id correlation_id in
       if established \<noteq> correlation_id
       then Inl (CorrelationError ''multiple correlations claim one job identity'')
       else Inr found'))
       [] correlations"

type_synonym repairs = "(StateRecordPath \<times> json) list"

definition job_repairs ::
    "contract_env \<Rightarrow> (string \<times> json) list \<Rightarrow> (string \<times> json) list \<Rightarrow> (string \<times> json) list \<Rightarrow> repairs py" where
  "job_repairs env jobs jobs_by_correlation correlations =
     foldE (\<lambda>repairs (correlation_id, correlation).
       bindE (job_id_of correlation) (\<lambda>job_id.
       bindE (case map_of jobs_by_correlation correlation_id of
                None \<Rightarrow> Inr False
              | Some claimed \<Rightarrow> testE (\<lambda>i. i \<noteq> job_id) (job_id_of claimed)) (\<lambda>disagree.
       if disagree then Inl (CorrelationError ''correlation and job indexes disagree'')
       else
       case map_of jobs job_id of
         None \<Rightarrow> bindE (authorization_job_path (JStr job_id)) (\<lambda>p. Inr (repairs @ [(p, correlation)]))
       | Some current \<Rightarrow>
           bindE (durable_binding env current) (\<lambda>current_binding.
           bindE (durable_binding env correlation) (\<lambda>binding.
           if current_binding \<noteq> binding then Inl (CorrelationError ''correlation and job bindings disagree'')
           else Inr repairs)))))
       [] correlations"

definition correlation_repairs ::
    "(string \<times> json) list \<Rightarrow> (string \<times> json) list \<Rightarrow> repairs \<Rightarrow> ((string \<times> json) list \<times> repairs) py" where
  "correlation_repairs jobs_by_correlation correlations repairs =
     foldE (\<lambda>(known, found) (correlation_id, job).
       if map_of known correlation_id \<noteq> None then Inr (known, found)
       else bindE (authorization_correlation_path (JStr correlation_id)) (\<lambda>p.
         Inr (known @ [(correlation_id, job)], found @ [(p, job)])))
       (correlations, repairs) jobs_by_correlation"

definition plan_repairs ::
    "contract_env \<Rightarrow> (string \<times> json) list \<Rightarrow> (string \<times> json) list \<Rightarrow> ((string \<times> json) list \<times> repairs) py" where
  "plan_repairs env correlations jobs =
     bindE (index_jobs jobs) (\<lambda>jobs_by_correlation.
     thenE (index_correlations correlations)
     (bindE (job_repairs env jobs jobs_by_correlation correlations) (\<lambda>repairs.
      correlation_repairs jobs_by_correlation correlations repairs)))"

definition admit_writes ::
    "('s, 'z) commit_transaction_scheme \<Rightarrow> StateInventoryReservation \<Rightarrow> HostCapacityLimits \<Rightarrow> ('s, unit) tx" where
  "admit_writes T reservation limits =
     thenT (do_admit_inventory T reservation)
     (admit_commit_capacity T (reserved_authorization_bytes reservation) (nat (reserved_authorization_records reservation)) limits)"

definition publish_repairs :: "('s, 'z) commit_transaction_scheme \<Rightarrow> repairs \<Rightarrow> ('s, unit) tx" where
  "publish_repairs T = foldT (\<lambda>_ (p, d). thenT (do_create_immutable T p d) (liftT (Inr ()))) ()"

text \<open>Repairs wait for the owner of a lifecycle intent, whose reserve they would spend.\<close>

definition publish_plan ::
    "contract_env \<Rightarrow> ('s, 'z) commit_transaction_scheme \<Rightarrow> HostCapacityLimits \<Rightarrow> (string \<times> json) list \<Rightarrow> repairs
       \<Rightarrow> ('s, nat) tx" where
  "publish_plan env T limits correlations repairs =
     (if repairs = [] then liftT (Inr 0)
      else
      bindT (lifecycle_reservation_owners T) (\<lambda>owners.
      if owners \<noteq> [] then liftT (Inr 0)
      else
      bindT (foldT (\<lambda>total (_, d). bindT (record_allocation env T d) (\<lambda>allocation. liftT (Inr (total + allocation)))) 0 repairs)
        (\<lambda>reserved.
      thenT (admit_writes T \<lparr>reserved_tenants = 0, reserved_authorization_records = int (length repairs),
                             reserved_authorization_bytes = reserved\<rparr> limits)
      (thenT (publish_repairs T repairs) (liftT (Inr (length repairs)))))))"

definition reconcile_pairs ::
    "contract_env \<Rightarrow> ('s, 'z) commit_transaction_scheme \<Rightarrow> HostCapacityLimits \<Rightarrow> AuthorizationRecordInventory
       \<Rightarrow> ('s, (string \<times> json) list \<times> nat) tx" where
  "reconcile_pairs env T limits inventory =
     bindT (read_documents T authorization_correlation_path (correlation_ids inventory)) (\<lambda>recorded_correlations.
     bindT (read_documents T authorization_job_path (job_ids inventory)) (\<lambda>jobs.
     bindT (liftT (plan_repairs env recorded_correlations jobs)) (\<lambda>(correlations, repairs).
     bindT (publish_plan env T limits correlations repairs) (\<lambda>n. liftT (Inr (correlations, n))))))"

section \<open>Retries\<close>

definition read_retry_job :: "('s, 'z) commit_transaction_scheme \<Rightarrow> string \<Rightarrow> ('s, StoredContract) tx" where
  "read_retry_job T job_id =
     bindT (liftT (authorization_job_path (JStr job_id))) (\<lambda>p.
     catch_missing (StateBusy ''export.lock is busy'') (do_read T p))"

definition established_resolution ::
    "('s, 'z) commit_transaction_scheme \<Rightarrow> json \<Rightarrow> nat \<Rightarrow> ('s, CorrelationResolution) tx" where
  "established_resolution T established repaired =
     bindT (liftT (job_id_of established)) (\<lambda>job_id.
     bindT (read_retry_job T job_id) (\<lambda>job.
     liftT (Inr \<lparr>resolved_job = job, resolution_created = False, resolution_repaired = repaired\<rparr>)))"

definition find_retry ::
    "contract_env \<Rightarrow> ('s, 'z) correlation_transaction_scheme \<Rightarrow> HostCapacityLimits \<Rightarrow> json \<Rightarrow> json
       \<Rightarrow> ('s, CorrelationResolution option) tx" where
  "find_retry env T limits correlation_id binding =
     bindT (liftT (validate_uuid7 correlation_id)) (\<lambda>canonical_id.
     bindT (do_measure_authorization_records T) (\<lambda>inventory.
     bindT (reconcile_pairs env T limits inventory) (\<lambda>(correlations, repaired).
     case map_of correlations canonical_id of
       None \<Rightarrow> liftT (Inr None)
     | Some established \<Rightarrow>
         bindT (liftT (caller_retry_binding env established)) (\<lambda>known.
         bindT (liftT (canonical_bytes env binding)) (\<lambda>given.
         if known \<noteq> given
         then liftT (Inl (CorrelationConflictError ''correlation ID is already bound to another authorized request''))
         else bindT (established_resolution T established repaired) (\<lambda>r. liftT (Inr (Some r))))))))"

section \<open>Admission\<close>

text \<open>Whether a record can be read; an error other than its absence is raised.\<close>

definition record_exists :: "('s, 'z) commit_transaction_scheme \<Rightarrow> StateRecordPath \<Rightarrow> ('s, bool) tx" where
  "record_exists T p = (\<lambda>s.
     case do_read T p s of
       (Inl FileNotFoundError, s') \<Rightarrow> (Inr False, s')
     | (Inl e, s') \<Rightarrow> (Inl e, s')
     | (Inr _, s') \<Rightarrow> (Inr True, s'))"

definition refuse_collisions ::
    "('s, 'z) correlation_transaction_scheme \<Rightarrow> AuthorizationRecordInventory \<Rightarrow> (string \<times> json) list
       \<Rightarrow> string \<Rightarrow> string \<Rightarrow> ('s, unit) tx" where
  "refuse_collisions T inventory correlations correlation_id job_id =
     bindT (liftT (traverseE (\<lambda>(_, d). job_id_of d) correlations)) (\<lambda>established_job_ids.
     if correlation_id \<in> set (result_ids inventory) \<or> job_id \<in> set (result_ids inventory)
     then liftT (Inl (CorrelationConflictError ''new authorization collides with permanent result identity''))
     else
     bindT (liftT (emergency_deletion_intent_path (JStr correlation_id))) (\<lambda>p.
     bindT (record_exists T p) (\<lambda>emergency.
     if emergency
     then liftT (Inl (CorrelationConflictError ''correlation belongs to emergency administrator authority''))
     else
     bindT (do_inspect_audit_correlation T (JStr correlation_id)) (\<lambda>audit.
     if snapshot_entry audit \<noteq> JNull
     then liftT (Inl (CorrelationConflictError ''correlation belongs to permanent audit authority''))
     else if job_id \<in> set established_job_ids
     then liftT (Inl (CorrelationConflictError ''new correlation selected an established job identity''))
     else liftT (Inr ())))))"

definition publish_pair ::
    "('s, 'z) commit_transaction_scheme \<Rightarrow> json \<Rightarrow> string \<Rightarrow> string \<Rightarrow> nat \<Rightarrow> ('s, CorrelationResolution) tx" where
  "publish_pair T candidate correlation_id job_id repaired =
     bindT (liftT (authorization_correlation_path (JStr correlation_id))) (\<lambda>p.
     bindT (do_create_immutable T p candidate) (\<lambda>correlation.
     bindT (liftT (authorization_job_path (JStr job_id))) (\<lambda>q.
     bindT (do_create_immutable T q candidate) (\<lambda>job.
     if stored_document correlation \<noteq> stored_document job
     then liftT (Inl (CorrelationError ''durable correlation and job copies diverged''))
     else liftT (Inr \<lparr>resolved_job = job, resolution_created = True, resolution_repaired = repaired\<rparr>)))))"

definition admit_correlation ::
    "('s, 'z) correlation_transaction_scheme \<Rightarrow> HostCapacityLimits \<Rightarrow> AuthorizationRecordInventory
       \<Rightarrow> (string \<times> json) list \<Rightarrow> nat \<Rightarrow> json \<Rightarrow> string \<times> string \<times> int \<times> bytes \<Rightarrow> ('s, CorrelationResolution) tx" where
  "admit_correlation T limits inventory correlations repaired candidate selected =
     (case selected of (correlation_id, job_id, accepted, canonical) \<Rightarrow>
     bindT (lifecycle_reservation_owners T) (\<lambda>owners.
     if owners \<noteq> [] then liftT (Inl (StateBusy ''export.lock is busy''))
     else
     thenT (refuse_collisions T inventory correlations correlation_id job_id)
     (bindT (liftT (traverseE (\<lambda>(_, d). accepted_at d) correlations)) (\<lambda>history.
      thenT (liftT (admit_rate history accepted))
      (bindT (do_allocation_upper_bound T (int (length canonical))) (\<lambda>allocation.
       thenT (admit_writes T \<lparr>reserved_tenants = 0, reserved_authorization_records = 2,
                              reserved_authorization_bytes = 2 * allocation\<rparr> limits)
       (publish_pair T candidate correlation_id job_id repaired)))))))"

definition resolve ::
    "contract_env \<Rightarrow> ('s, 'z) correlation_transaction_scheme \<Rightarrow> HostCapacityLimits \<Rightarrow> json \<Rightarrow> py_datetime
       \<Rightarrow> ('s, CorrelationResolution) tx" where
  "resolve env T limits candidate now =
     bindT (liftT (validate_candidate env candidate now)) (\<lambda>(correlation_id, job_id, accepted, canonical).
     bindT (do_measure_authorization_records T) (\<lambda>inventory.
     bindT (reconcile_pairs env T limits inventory) (\<lambda>(correlations, repaired).
     case map_of correlations correlation_id of
       Some established \<Rightarrow>
         bindT (liftT (retry_binding env established)) (\<lambda>known.
         bindT (liftT (retry_binding env candidate)) (\<lambda>given.
         if known \<noteq> given
         then liftT (Inl (CorrelationConflictError ''correlation ID is already bound to another authorized request''))
         else established_resolution T established repaired))
     | None \<Rightarrow> admit_correlation T limits inventory correlations repaired candidate
                 (correlation_id, job_id, accepted, canonical))))"

section \<open>Reconciliation at startup\<close>

text \<open>The job of a correlation, or the correlation where the job is not there.\<close>

definition snapshot_pair ::
    "('s, 'z) commit_transaction_scheme \<Rightarrow> string \<times> json \<Rightarrow> ('s, StoredContract + StoredContract) tx" where
  "snapshot_pair T pair =
     bindT (liftT (bindE (job_id_of (snd pair)) (\<lambda>job_id. authorization_job_path (JStr job_id)))) (\<lambda>p. \<lambda>s.
     case do_read T p s of
       (Inr job, s') \<Rightarrow> (Inr (Inr job), s')
     | (Inl FileNotFoundError, s') \<Rightarrow>
         bindT (liftT (authorization_correlation_path (JStr (fst pair)))) (\<lambda>q.
         bindT (do_read T q) (\<lambda>r. liftT (Inr (Inl r)))) s'
     | (Inl e, s') \<Rightarrow> (Inl e, s'))"

definition reconcile_transaction ::
    "contract_env \<Rightarrow> ('s, 'z) correlation_transaction_scheme \<Rightarrow> HostCapacityLimits \<Rightarrow> ('s, CorrelationReconciliation) tx" where
  "reconcile_transaction env T limits =
     bindT (do_measure_authorization_records T) (\<lambda>inventory.
     bindT (reconcile_pairs env T limits inventory) (\<lambda>(correlations, repaired).
     bindT (foldT (\<lambda>(jobs, deferred) pair.
         bindT (snapshot_pair T pair) (\<lambda>found.
         liftT (Inr (case found of Inr job \<Rightarrow> (jobs @ [job], deferred) | Inl r \<Rightarrow> (jobs, deferred @ [r])))))
         ([], []) (sort_key fst correlations)) (\<lambda>(jobs, deferred).
     liftT (Inr \<lparr>reconciled_jobs = jobs, reconciliation_repaired = repaired, deferred_jobs = deferred\<rparr>))))"

end
