(* ===== verification/Correlation_Pairs.thy ===== *)
theory Correlation_Pairs
  imports Correlations
begin

text \<open>
  What the repair of the pairs plans: which records it publishes, and what must hold of the records
  it finds. A record of a correlation and the record of its job name each other; where one of the two
  is missing, the other is its content.
\<close>

section \<open>Folds that only append\<close>

lemma collect_fold:
  assumes "\<And>acc x out. f acc x = Inr out \<Longrightarrow> \<exists>new. out = acc @ new \<and> R x new"
    and "foldE f acc xs = Inr out"
  shows "\<exists>news. out = acc @ concat news \<and> list_all2 R xs news"
  using assms(2)
proof (induction xs arbitrary: acc)
  case Nil
  then show ?case by (auto intro!: exI[of _ "[]"])
next
  case (Cons x xs)
  then obtain mid where mid: "f acc x = Inr mid" "foldE f mid xs = Inr out" by (auto simp: bindE_Inr_iff)
  obtain new where new: "mid = acc @ new" "R x new" using assms(1)[OF mid(1)] by blast
  obtain news where "out = mid @ concat news" "list_all2 R xs news" using Cons.IH[OF mid(2)] by blast
  then show ?case using new by (auto intro!: exI[of _ "new # news"])
qed

lemma list_all2_set1: "list_all2 R xs ys \<Longrightarrow> x \<in> set xs \<Longrightarrow> \<exists>y \<in> set ys. R x y"
  by (induction rule: list_all2_induct) auto

lemma list_all2_set2: "list_all2 R xs ys \<Longrightarrow> y \<in> set ys \<Longrightarrow> \<exists>x \<in> set xs. R x y"
  by (induction rule: list_all2_induct) auto

section \<open>The indexes\<close>

lemma index_jobs_run:
  assumes "foldE (\<lambda>found (_, job).
       bindE (correlation_id_of job) (\<lambda>correlation_id.
       if map_of found correlation_id \<noteq> None
       then Inl (CorrelationError ''multiple jobs claim one correlation identity'')
       else Inr (found @ [(correlation_id, job)]))) acc jobs = Inr index"
    and "distinct (map fst acc)"
  shows "distinct (map fst index) \<and> (\<exists>new. index = acc @ new \<and> list_all2 (\<lambda>x y. snd y = snd x \<and> correlation_id_of (snd x) = Inr (fst y)) jobs new)"
  using assms
proof (induction jobs arbitrary: acc)
  case Nil
  then show ?case by simp
next
  case (Cons x jobs)
  obtain j job where x: "x = (j, job)" by fastforce
  from Cons.prems(1) obtain c where c: "correlation_id_of job = Inr c" "map_of acc c = None"
    and run: "foldE (\<lambda>found (_, job).
       bindE (correlation_id_of job) (\<lambda>correlation_id.
       if map_of found correlation_id \<noteq> None
       then Inl (CorrelationError ''multiple jobs claim one correlation identity'')
       else Inr (found @ [(correlation_id, job)]))) (acc @ [(c, job)]) jobs = Inr index"
    by (auto simp: x bindE_Inr_iff split: if_split_asm)
  have "distinct (map fst (acc @ [(c, job)]))"
    using Cons.prems(2) c(2) by (auto simp: map_of_eq_None_iff)
  from Cons.IH[OF run this] obtain new where "distinct (map fst index)" "index = acc @ (c, job) # new"
    "list_all2 (\<lambda>x y. snd y = snd x \<and> correlation_id_of (snd x) = Inr (fst y)) jobs new" by auto
  then show ?case using c(1) x by (auto intro!: exI[of _ "(c, job) # new"])
qed

lemma index_jobs_of:
  assumes "index_jobs jobs = Inr index"
  shows "distinct (map fst index)"
    and "(i, d) \<in> set index \<longleftrightarrow> (\<exists>j. (j, d) \<in> set jobs \<and> correlation_id_of d = Inr i)"
    and "(j, d) \<in> set jobs \<Longrightarrow> \<exists>i. correlation_id_of d = Inr i \<and> map_of index i = Some d"
proof -
  from index_jobs_run[OF assms[unfolded index_jobs_def]]
  have dist: "distinct (map fst index)"
    and all: "list_all2 (\<lambda>x y. snd y = snd x \<and> correlation_id_of (snd x) = Inr (fst y)) jobs index" by auto
  show "distinct (map fst index)" by (rule dist)
  show "(i, d) \<in> set index \<longleftrightarrow> (\<exists>j. (j, d) \<in> set jobs \<and> correlation_id_of d = Inr i)"
    using list_all2_set1[OF all] list_all2_set2[OF all] by fastforce
  show "\<exists>i. correlation_id_of d = Inr i \<and> map_of index i = Some d" if "(j, d) \<in> set jobs"
    using list_all2_set1[OF all that] dist by (auto intro: map_of_is_SomeI)
qed

section \<open>The repairs\<close>

lemma job_repairs_of:
  assumes "job_repairs env jobs index correlations = Inr repairs"
  shows "\<And>p d. (p, d) \<in> set repairs \<Longrightarrow>
      \<exists>i j. (i, d) \<in> set correlations \<and> job_id_of d = Inr j \<and> authorization_job_path (JStr j) = Inr p \<and> map_of jobs j = None"
    and "\<And>i d. (i, d) \<in> set correlations \<Longrightarrow>
      \<exists>j. job_id_of d = Inr j \<and> (\<forall>e. map_of index i = Some e \<longrightarrow> job_id_of e = Inr j) \<and>
        (case map_of jobs j of
           None \<Rightarrow> \<exists>p. authorization_job_path (JStr j) = Inr p \<and> (p, d) \<in> set repairs
         | Some e \<Rightarrow> \<exists>b. durable_binding env e = Inr b \<and> durable_binding env d = Inr b)"
proof -
  define R where "R x new \<longleftrightarrow> (\<exists>j. job_id_of (snd x) = Inr j \<and>
      (\<forall>e. map_of index (fst x) = Some e \<longrightarrow> job_id_of e = Inr j) \<and>
      (case map_of jobs j of
         None \<Rightarrow> \<exists>p. authorization_job_path (JStr j) = Inr p \<and> new = [(p, snd x)]
       | Some e \<Rightarrow> new = [] \<and> (\<exists>b. durable_binding env e = Inr b \<and> durable_binding env (snd x) = Inr b)))"
    for x :: "string \<times> json" and new :: "(StateRecordPath \<times> json) list"
  obtain news where news: "repairs = concat news" "list_all2 R correlations news"
    using collect_fold[where R = R, OF _ assms[unfolded job_repairs_def]]
    by (fastforce simp: R_def bindE_Inr_iff testE_def split: if_split_asm option.splits)
  show "\<exists>i j. (i, d) \<in> set correlations \<and> job_id_of d = Inr j \<and> authorization_job_path (JStr j) = Inr p \<and> map_of jobs j = None"
    if "(p, d) \<in> set repairs" for p d
    using that list_all2_set2[OF news(2)] unfolding news(1) R_def by (fastforce split: option.splits)
  show "\<exists>j. job_id_of d = Inr j \<and> (\<forall>e. map_of index i = Some e \<longrightarrow> job_id_of e = Inr j) \<and>
        (case map_of jobs j of
           None \<Rightarrow> \<exists>p. authorization_job_path (JStr j) = Inr p \<and> (p, d) \<in> set repairs
         | Some e \<Rightarrow> \<exists>b. durable_binding env e = Inr b \<and> durable_binding env d = Inr b)"
    if "(i, d) \<in> set correlations" for i d
  proof -
    obtain new where "new \<in> set news" "R (i, d) new" using list_all2_set1[OF news(2) \<open>(i, d) \<in> set correlations\<close>] by blast
    then obtain j where j: "job_id_of d = Inr j" "\<forall>e. map_of index i = Some e \<longrightarrow> job_id_of e = Inr j"
      "case map_of jobs j of None \<Rightarrow> \<exists>p. authorization_job_path (JStr j) = Inr p \<and> new = [(p, d)]
       | Some e \<Rightarrow> new = [] \<and> (\<exists>b. durable_binding env e = Inr b \<and> durable_binding env d = Inr b)"
      unfolding R_def fst_conv snd_conv by blast
    moreover from j(3) \<open>new \<in> set news\<close> have "case map_of jobs j of
           None \<Rightarrow> \<exists>p. authorization_job_path (JStr j) = Inr p \<and> (p, d) \<in> set repairs
         | Some e \<Rightarrow> \<exists>b. durable_binding env e = Inr b \<and> durable_binding env d = Inr b"
      unfolding news(1) by (auto split: option.splits intro!: bexI[of _ new])
    ultimately show ?thesis by blast
  qed
qed

lemma correlation_repairs_of:
  assumes "correlation_repairs index correlations repairs = Inr (known, all)" "distinct (map fst index)"
  shows "known = correlations @ filter (\<lambda>x. map_of correlations (fst x) = None) index"
    and "\<exists>new. all = repairs @ new \<and>
      list_all2 (\<lambda>x y. snd y = snd x \<and> authorization_correlation_path (JStr (fst x)) = Inr (fst y))
        (filter (\<lambda>x. map_of correlations (fst x) = None) index) new"
proof -
  have "known = correlations @ filter (\<lambda>x. map_of correlations (fst x) = None) index \<and> (\<exists>new. all = repairs @ new \<and>
      list_all2 (\<lambda>x y. snd y = snd x \<and> authorization_correlation_path (JStr (fst x)) = Inr (fst y))
        (filter (\<lambda>x. map_of correlations (fst x) = None) index) new)"
    using assms unfolding correlation_repairs_def
  proof (induction index arbitrary: correlations repairs)
    case Nil
    then show ?case by simp
  next
    case (Cons x index)
    obtain i job where x: "x = (i, job)" by fastforce
    show ?case
    proof (cases "map_of correlations i")
      case (Some d)
      then show ?thesis using Cons.prems Cons.IH[of correlations repairs] by (simp add: x)
    next
      case None
      with Cons.prems(1) obtain p where p: "authorization_correlation_path (JStr i) = Inr p"
        and run: "foldE (\<lambda>(known, found) (correlation_id, job).
            if map_of known correlation_id \<noteq> None then Inr (known, found)
            else bindE (authorization_correlation_path (JStr correlation_id)) (\<lambda>p.
              Inr (known @ [(correlation_id, job)], found @ [(p, job)])))
            (correlations @ [(i, job)], repairs @ [(p, job)]) index = Inr (known, all)"
        by (auto simp: x bindE_Inr_iff)
      have same: "filter (\<lambda>x. map_of (correlations @ [(i, job)]) (fst x) = None) index
          = filter (\<lambda>x. map_of correlations (fst x) = None) index"
        using Cons.prems(2) by (intro filter_cong) (auto simp: x map_add_def split: option.splits)
      obtain new where "known = (correlations @ [(i, job)]) @ filter (\<lambda>x. map_of correlations (fst x) = None) index"
        "all = (repairs @ [(p, job)]) @ new"
        "list_all2 (\<lambda>x y. snd y = snd x \<and> authorization_correlation_path (JStr (fst x)) = Inr (fst y))
          (filter (\<lambda>x. map_of correlations (fst x) = None) index) new"
        using Cons.IH[OF run] Cons.prems(2) unfolding same by auto
      then show ?thesis using None p by (auto simp: x intro!: exI[of _ "(p, job) # new"])
    qed
  qed
  then show "known = correlations @ filter (\<lambda>x. map_of correlations (fst x) = None) index"
    "\<exists>new. all = repairs @ new \<and>
      list_all2 (\<lambda>x y. snd y = snd x \<and> authorization_correlation_path (JStr (fst x)) = Inr (fst y))
        (filter (\<lambda>x. map_of correlations (fst x) = None) index) new"
    by blast+
qed

text \<open>What a plan of repairs says of the correlations and the jobs it was made from.\<close>

lemma plan_repairs_of:
  assumes plan: "plan_repairs env correlations jobs = Inr (known, repairs)"
    and dist: "distinct (map fst correlations)" "distinct (map fst jobs)"
    and named: "\<And>i d. (i, d) \<in> set correlations \<Longrightarrow> correlation_id_of d = Inr i"
  shows "distinct (map fst known)"
    and "\<And>i d. map_of known i = Some d \<longleftrightarrow>
      map_of correlations i = Some d \<or> map_of correlations i = None \<and> (\<exists>j. (j, d) \<in> set jobs \<and> correlation_id_of d = Inr i)"
    and "\<And>p d. (p, d) \<in> set repairs \<Longrightarrow>
      (\<exists>i j. (i, d) \<in> set correlations \<and> job_id_of d = Inr j \<and> authorization_job_path (JStr j) = Inr p \<and> map_of jobs j = None) \<or>
      (\<exists>i j. (j, d) \<in> set jobs \<and> correlation_id_of d = Inr i \<and> authorization_correlation_path (JStr i) = Inr p \<and> map_of correlations i = None)"
    and "\<And>i d. (i, d) \<in> set correlations \<Longrightarrow> \<exists>j. job_id_of d = Inr j \<and>
      (case map_of jobs j of
         None \<Rightarrow> \<exists>p. authorization_job_path (JStr j) = Inr p \<and> (p, d) \<in> set repairs
       | Some e \<Rightarrow> \<exists>b. durable_binding env e = Inr b \<and> durable_binding env d = Inr b)"
    and "\<And>j e. (j, e) \<in> set jobs \<Longrightarrow> \<exists>i. correlation_id_of e = Inr i \<and>
      (case map_of correlations i of
         None \<Rightarrow> \<exists>p. authorization_correlation_path (JStr i) = Inr p \<and> (p, e) \<in> set repairs
       | Some d \<Rightarrow> job_id_of d = job_id_of e)"
proof -
  from plan obtain index first where index: "index_jobs jobs = Inr index"
    and first: "job_repairs env jobs index correlations = Inr first"
    and second: "correlation_repairs index correlations first = Inr (known, repairs)"
    by (auto simp: plan_repairs_def bindE_Inr_iff thenE_Inr)
  note index_of = index_jobs_of[OF index] and first_of = job_repairs_of[OF first]
  note known = correlation_repairs_of(1)[OF second index_of(1)]
  obtain new where new: "repairs = first @ new"
    "list_all2 (\<lambda>x y. snd y = snd x \<and> authorization_correlation_path (JStr (fst x)) = Inr (fst y))
        (filter (\<lambda>x. map_of correlations (fst x) = None) index) new"
    using correlation_repairs_of(2)[OF second index_of(1)] by blast
  show dist_known: "distinct (map fst known)"
    using dist(1) index_of(1) unfolding known
    by (auto simp: distinct_map map_of_eq_None_iff image_iff intro: inj_on_subset)
  show "map_of known i = Some d \<longleftrightarrow>
      map_of correlations i = Some d \<or> map_of correlations i = None \<and> (\<exists>j. (j, d) \<in> set jobs \<and> correlation_id_of d = Inr i)" for i d
  proof -
    have "map_of known i = Some d \<longleftrightarrow> (i, d) \<in> set known" using dist_known by simp
    also have "\<dots> \<longleftrightarrow> (i, d) \<in> set correlations \<or> map_of correlations i = None \<and> (i, d) \<in> set index" by (auto simp: known)
    finally show ?thesis using dist(1) index_of(2) by simp
  qed
  show "(\<exists>i j. (i, d) \<in> set correlations \<and> job_id_of d = Inr j \<and> authorization_job_path (JStr j) = Inr p \<and> map_of jobs j = None) \<or>
      (\<exists>i j. (j, d) \<in> set jobs \<and> correlation_id_of d = Inr i \<and> authorization_correlation_path (JStr i) = Inr p \<and> map_of correlations i = None)"
    if "(p, d) \<in> set repairs" for p d
    using that first_of(1)[of p d] list_all2_set2[OF new(2), of "(p, d)"] index_of(2) unfolding new(1) by fastforce
  show "\<exists>j. job_id_of d = Inr j \<and>
      (case map_of jobs j of
         None \<Rightarrow> \<exists>p. authorization_job_path (JStr j) = Inr p \<and> (p, d) \<in> set repairs
       | Some e \<Rightarrow> \<exists>b. durable_binding env e = Inr b \<and> durable_binding env d = Inr b)"
    if "(i, d) \<in> set correlations" for i d
    using first_of(2)[OF that] unfolding new(1) by (fastforce split: option.splits)
  show "\<exists>i. correlation_id_of e = Inr i \<and>
      (case map_of correlations i of
         None \<Rightarrow> \<exists>p. authorization_correlation_path (JStr i) = Inr p \<and> (p, e) \<in> set repairs
       | Some d \<Rightarrow> job_id_of d = job_id_of e)"
    if "(j, e) \<in> set jobs" for j e
  proof -
    obtain i where i: "correlation_id_of e = Inr i" "map_of index i = Some e" using index_of(3)[OF \<open>(j, e) \<in> set jobs\<close>] by blast
    show ?thesis
    proof (cases "map_of correlations i")
      case None
      then have "(i, e) \<in> set (filter (\<lambda>x. map_of correlations (fst x) = None) index)" using i(2) by (simp add: map_of_SomeD)
      from list_all2_set1[OF new(2) this] show ?thesis using i(1) None unfolding new(1) by fastforce
    next
      case (Some d)
      then show ?thesis using i first_of(2)[OF map_of_SomeD[OF Some]] by auto
    qed
  qed
qed

end
