(* ===== verification/Correlation_Laws.thy ===== *)
theory Correlation_Laws
  imports Correlation_Pairs
begin

text \<open>
  What a transaction promises to the admission of correlations, and what the admission, the retries
  and the repair of pairs do to the records, proved from these promises: nothing is overwritten, what
  is published is a copy of a record or the new pair, and an interruption leaves what a later repair
  completes.
\<close>

section \<open>The records of a pair\<close>

definition correlation_record :: "string \<Rightarrow> string list" where
  "correlation_record i = [''authorization'', ''correlations'', i @ ''.json'']"
definition job_record :: "string \<Rightarrow> string list" where
  "job_record j = [''authorization'', ''jobs'', j @ ''.json'']"

lemma pair_records_apart [simp]:
  "correlation_record i \<noteq> job_record j" "job_record j \<noteq> correlation_record i"
  "correlation_record i = correlation_record i' \<longleftrightarrow> i = i'" "job_record j = job_record j' \<longleftrightarrow> j = j'"
  by (simp_all add: correlation_record_def job_record_def)

lemma pair_paths:
  "authorization_correlation_path (JStr i) = Inr p \<Longrightarrow> lasting p \<and> path_ok p \<and> path_components p = Inr (correlation_record i)"
  "authorization_job_path (JStr j) = Inr p \<Longrightarrow> lasting p \<and> path_ok p \<and> path_components p = Inr (job_record j)"
  using constructed_path_ok(7,10)
  by (auto simp: lasting_def is_intent_def path_constructor_defs path_components_def global_components_def require_record_id_def
      bindE_Inr_iff uuid7_iff correlation_record_def job_record_def)

lemma pair_bindings:
  "authorization_correlation_path (JStr i) = Inr p \<Longrightarrow> validate_binding p d = Inr () \<Longrightarrow> correlation_id_of d = Inr i"
  "authorization_job_path (JStr j) = Inr p \<Longrightarrow> validate_binding p d = Inr () \<Longrightarrow> job_id_of d = Inr j"
proof -
  show "correlation_id_of d = Inr i" if p: "authorization_correlation_path (JStr i) = Inr p" and b: "validate_binding p d = Inr ()"
  proof -
    obtain request where r: "dict_get d ''request'' = Inr request" "is_dict request" "dict_get request ''correlationId'' = lit i"
      using p b by (auto simp: validate_binding_def validate_authorization_binding_def Let_def path_constructor_defs bindE_Inr_iff
          uuid7_iff check_simps is_intent_def)
    have "getitem d ''request'' = Inr request" using r(1,2) by (cases request) (auto intro: dict_get_getitem)
    moreover have "getitem request ''correlationId'' = lit i" by (rule dict_get_getitem[OF r(3)]) simp
    ultimately show ?thesis using r(2) p
      by (auto simp: correlation_id_of_def path_constructor_defs bindE_Inr_iff uuid7_iff)
  qed
  show "job_id_of d = Inr j" if p: "authorization_job_path (JStr j) = Inr p" and b: "validate_binding p d = Inr ()"
  proof -
    have "dict_get d ''jobId'' = lit j"
      using p b by (auto simp: validate_binding_def validate_authorization_binding_def Let_def path_constructor_defs bindE_Inr_iff
          uuid7_iff check_simps is_intent_def)
    from dict_get_getitem[OF this] p show ?thesis by (auto simp: job_id_of_def path_constructor_defs bindE_Inr_iff uuid7_iff)
  qed
qed

text \<open>The document of a correlation: its record, or its job where the record is missing.\<close>

definition established :: "record_store \<Rightarrow> string \<Rightarrow> json \<Rightarrow> bool" where
  "established D i d \<longleftrightarrow> D (correlation_record i) = Some d \<or>
     D (correlation_record i) = None \<and> (\<exists>j. D (job_record j) = Some d \<and> correlation_id_of d = Inr i)"

text \<open>A record that a repair may publish: a copy of the other record of its pair.\<close>

definition copy_of :: "record_store \<Rightarrow> string list \<Rightarrow> json \<Rightarrow> bool" where
  "copy_of D c d \<longleftrightarrow>
     (\<exists>i j. D (correlation_record i) = Some d \<and> job_id_of d = Inr j \<and> c = job_record j) \<or>
     (\<exists>i j. D (job_record j) = Some d \<and> correlation_id_of d = Inr i \<and> c = correlation_record i)"

definition repaired_from :: "record_store \<Rightarrow> record_store \<Rightarrow> bool" where
  "repaired_from D D' \<longleftrightarrow> (\<forall>c. D' c = D c \<or> D c = None \<and> (\<exists>d. D' c = Some d \<and> copy_of D c d))"

lemma repaired_refl [simp]: "repaired_from D D"
  by (simp add: repaired_from_def)

lemma repaired_keeps: "repaired_from D D' \<Longrightarrow> D c = Some d \<Longrightarrow> D' c = Some d"
  unfolding repaired_from_def by (metis option.distinct(1))

text \<open>Every correlation has its job and every job its correlation, and they agree on what is durable.\<close>

definition paired :: "contract_env \<Rightarrow> record_store \<Rightarrow> bool" where
  "paired env D \<longleftrightarrow>
     (\<forall>i d. D (correlation_record i) = Some d \<longrightarrow> correlation_id_of d = Inr i \<and>
        (\<exists>j e. job_id_of d = Inr j \<and> D (job_record j) = Some e \<and>
           (e = d \<or> (\<exists>b. durable_binding env e = Inr b \<and> durable_binding env d = Inr b)))) \<and>
     (\<forall>j e. D (job_record j) = Some e \<longrightarrow> job_id_of e = Inr j \<and>
        (\<exists>i d. correlation_id_of e = Inr i \<and> D (correlation_record i) = Some d \<and> job_id_of d = Inr j))"

section \<open>What a repair leaves\<close>

text \<open>Records are published where there was none.\<close>

definition publishes :: "record_store \<Rightarrow> record_store \<Rightarrow> repairs \<Rightarrow> bool" where
  "publishes D D' repairs \<longleftrightarrow>
     (\<forall>c. D' c = D c \<or> D c = None \<and> (\<exists>p d. (p, d) \<in> set repairs \<and> path_components p = Inr c \<and> D' c = Some d))"

lemma publishes_refl [simp]: "publishes D D repairs"
  by (simp add: publishes_def)

lemma publishes_one: "D c = None \<Longrightarrow> path_components p = Inr c \<Longrightarrow> publishes D (D(c \<mapsto> d)) ((p, d) # repairs)"
  by (auto simp: publishes_def)

lemma publishes_step:
  assumes "D c = None" "path_components p = Inr c" "publishes (D(c \<mapsto> d)) D' repairs"
  shows "publishes D D' ((p, d) # repairs)"
  unfolding publishes_def
proof
  fix x
  show "D' x = D x \<or> D x = None \<and> (\<exists>q e. (q, e) \<in> set ((p, d) # repairs) \<and> path_components q = Inr x \<and> D' x = Some e)"
    using assms(3)[unfolded publishes_def, rule_format, of x] assms(1,2) by (cases "x = c") auto
qed

lemma publishes_keeps: "publishes D D' repairs \<Longrightarrow> D c = Some d \<Longrightarrow> D' c = Some d"
  unfolding publishes_def by (metis option.distinct(1))

text \<open>The correlations and the jobs that were read are those of the store.\<close>

definition read_from :: "record_store \<Rightarrow> (string \<times> json) list \<Rightarrow> (string \<times> json) list \<Rightarrow> bool" where
  "read_from D correlations jobs \<longleftrightarrow>
     distinct (map fst correlations) \<and> distinct (map fst jobs) \<and>
     (\<forall>i. map_of correlations i = D (correlation_record i)) \<and> (\<forall>j. map_of jobs j = D (job_record j)) \<and>
     (\<forall>i d. D (correlation_record i) = Some d \<longrightarrow> correlation_id_of d = Inr i) \<and>
     (\<forall>j e. D (job_record j) = Some e \<longrightarrow> job_id_of e = Inr j)"

lemma map_of_reads:
  assumes "distinct (map fst xs)" "\<And>i d. (i, d) \<in> set xs \<Longrightarrow> D (f i) = Some d" "D (f i) \<noteq> None \<Longrightarrow> i \<in> set (map fst xs)"
  shows "map_of xs i = D (f i)"
proof (cases "i \<in> set (map fst xs)")
  case True
  then obtain d where "(i, d) \<in> set xs" by auto
  then show ?thesis using assms(1,2) by simp
next
  case False
  then show ?thesis using assms(3) by (metis map_of_eq_None_iff set_map)
qed

text \<open>The plan of the repairs, said of the store.\<close>

lemma planned_from:
  assumes "read_from D correlations jobs" "plan_repairs env correlations jobs = Inr (known, repairs)"
  shows "distinct (map fst known)"
    and "map_of known i = Some d \<longleftrightarrow> established D i d"
    and "(p, d) \<in> set repairs \<Longrightarrow>
      (\<exists>i j. D (correlation_record i) = Some d \<and> job_id_of d = Inr j \<and> authorization_job_path (JStr j) = Inr p \<and> D (job_record j) = None) \<or>
      (\<exists>i j. D (job_record j) = Some d \<and> correlation_id_of d = Inr i \<and> authorization_correlation_path (JStr i) = Inr p \<and>
         D (correlation_record i) = None)"
    and "D (correlation_record i) = Some d \<Longrightarrow> \<exists>j. job_id_of d = Inr j \<and>
      (case D (job_record j) of
         None \<Rightarrow> \<exists>p. authorization_job_path (JStr j) = Inr p \<and> (p, d) \<in> set repairs
       | Some e \<Rightarrow> \<exists>b. durable_binding env e = Inr b \<and> durable_binding env d = Inr b)"
    and "D (job_record j) = Some e \<Longrightarrow> \<exists>i. correlation_id_of e = Inr i \<and>
      (case D (correlation_record i) of
         None \<Rightarrow> \<exists>p. authorization_correlation_path (JStr i) = Inr p \<and> (p, e) \<in> set repairs
       | Some d \<Rightarrow> job_id_of d = job_id_of e)"
proof -
  have dist: "distinct (map fst correlations)" "distinct (map fst jobs)"
    and maps: "map_of correlations = (\<lambda>i. D (correlation_record i))" "map_of jobs = (\<lambda>j. D (job_record j))"
    using assms(1) by (auto simp: read_from_def)
  have members: "(i, d) \<in> set correlations \<longleftrightarrow> D (correlation_record i) = Some d" "(j, e) \<in> set jobs \<longleftrightarrow> D (job_record j) = Some e"
    for i d j e
    using map_of_eq_Some_iff[OF dist(1), of i d] map_of_eq_Some_iff[OF dist(2), of j e] by (simp_all add: maps)
  have named: "(i, d) \<in> set correlations \<Longrightarrow> correlation_id_of d = Inr i" for i d
    using assms(1) by (simp add: read_from_def members)
  note all = plan_repairs_of[OF assms(2) dist named, unfolded maps members]
  show "distinct (map fst known)" by (rule all(1))
  show "map_of known i = Some d \<longleftrightarrow> established D i d" by (simp add: all(2) established_def)
  show "(p, d) \<in> set repairs \<Longrightarrow>
      (\<exists>i j. D (correlation_record i) = Some d \<and> job_id_of d = Inr j \<and> authorization_job_path (JStr j) = Inr p \<and> D (job_record j) = None) \<or>
      (\<exists>i j. D (job_record j) = Some d \<and> correlation_id_of d = Inr i \<and> authorization_correlation_path (JStr i) = Inr p \<and>
         D (correlation_record i) = None)" by (rule all(3))
  show "D (correlation_record i) = Some d \<Longrightarrow> \<exists>j. job_id_of d = Inr j \<and>
      (case D (job_record j) of
         None \<Rightarrow> \<exists>p. authorization_job_path (JStr j) = Inr p \<and> (p, d) \<in> set repairs
       | Some e \<Rightarrow> \<exists>b. durable_binding env e = Inr b \<and> durable_binding env d = Inr b)" by (rule all(4))
  show "D (job_record j) = Some e \<Longrightarrow> \<exists>i. correlation_id_of e = Inr i \<and>
      (case D (correlation_record i) of
         None \<Rightarrow> \<exists>p. authorization_correlation_path (JStr i) = Inr p \<and> (p, e) \<in> set repairs
       | Some d \<Rightarrow> job_id_of d = job_id_of e)" by (rule all(5))
qed

lemma repairs_ok:
  assumes "read_from D correlations jobs" "plan_repairs env correlations jobs = Inr (known, repairs)" "(p, d) \<in> set repairs"
  shows "path_ok p" "\<exists>c. path_components p = Inr c \<and> copy_of D c d"
  using planned_from(3)[OF assms] by (auto dest: pair_paths simp: copy_of_def)

lemma publishes_repaired:
  assumes "read_from D correlations jobs" "plan_repairs env correlations jobs = Inr (known, repairs)" "publishes D D' repairs"
  shows "repaired_from D D'"
  unfolding repaired_from_def
proof
  fix c
  show "D' c = D c \<or> D c = None \<and> (\<exists>d. D' c = Some d \<and> copy_of D c d)"
    using assms(3)[unfolded publishes_def, rule_format, of c] repairs_ok(2)[OF assms(1,2)] by fastforce
qed

text \<open>The job of a known correlation agrees with it, unless it is still missing.\<close>

definition job_agrees :: "contract_env \<Rightarrow> record_store \<Rightarrow> json \<Rightarrow> string \<Rightarrow> bool" where
  "job_agrees env D d j \<longleftrightarrow> job_id_of d = Inr j \<and>
     (\<forall>e. D (job_record j) = Some e \<longrightarrow> e = d \<or> (\<exists>b. durable_binding env e = Inr b \<and> durable_binding env d = Inr b))"

lemma established_agrees:
  assumes "read_from D correlations jobs" "plan_repairs env correlations jobs = Inr (known, repairs)" "established D i d"
  shows "correlation_id_of d = Inr i" "\<exists>j. job_agrees env D d j"
proof -
  have named: "D (correlation_record i) = Some d \<Longrightarrow> correlation_id_of d = Inr i" "D (job_record j) = Some e \<Longrightarrow> job_id_of e = Inr j"
    for i d j e using assms(1) by (simp_all add: read_from_def)
  show "correlation_id_of d = Inr i" using assms(3) named(1) by (auto simp: established_def)
  show "\<exists>j. job_agrees env D d j"
  proof (cases "D (correlation_record i) = Some d")
    case True
    then show ?thesis using planned_from(4)[OF assms(1,2) True] by (fastforce simp: job_agrees_def split: option.splits)
  next
    case False
    then obtain j where "D (job_record j) = Some d" using assms(3) by (auto simp: established_def)
    then show ?thesis using named(2) by (auto simp: job_agrees_def)
  qed
qed

lemma paired_after:
  assumes reads: "read_from D correlations jobs" and plan: "plan_repairs env correlations jobs = Inr (known, repairs)"
    and publishes: "publishes D D' repairs"
    and filled: "\<And>p d c. (p, d) \<in> set repairs \<Longrightarrow> path_components p = Inr c \<Longrightarrow> D' c = Some d"
  shows "D' (correlation_record i) = map_of known i"
    and "established D i d \<Longrightarrow> \<exists>j. job_agrees env D' d j"
    and "paired env D'"
proof -
  note plan_of = planned_from[OF reads plan]
  have keeps: "D c = Some x \<Longrightarrow> D' c = Some x" for c x by (rule publishes_keeps[OF publishes])
  have named: "D (correlation_record i) = Some d \<Longrightarrow> correlation_id_of d = Inr i" "D (job_record j) = Some e \<Longrightarrow> job_id_of e = Inr j"
    for i d j e using reads by (simp_all add: read_from_def)
  have job_done: "D' (job_record j) = Some x" if "authorization_job_path (JStr j) = Inr p" "(p, x) \<in> set repairs" for j p x
    using filled[OF that(2)] pair_paths(2)[OF that(1)] by simp
  have correlation_done: "D' (correlation_record i) = Some x" if "authorization_correlation_path (JStr i) = Inr p" "(p, x) \<in> set repairs"
    for i p x using filled[OF that(2)] pair_paths(1)[OF that(1)] by simp
  have from_repairs: "(\<exists>p. (p, x) \<in> set repairs \<and> path_components p = Inr c)" if "D c = None" "D' c = Some x" for c x
    using publishes[unfolded publishes_def, rule_format, of c] that by auto
  have correlation: "D' (correlation_record i) = Some x \<longleftrightarrow> established D i x" for i x
  proof (cases "D (correlation_record i)")
    case (Some y)
    then show ?thesis using keeps[OF Some] by (auto simp: established_def)
  next
    case None
    show ?thesis
    proof
      assume x: "D' (correlation_record i) = Some x"
      obtain p where p: "(p, x) \<in> set repairs" "path_components p = Inr (correlation_record i)" using from_repairs[OF None x] by blast
      then obtain i' j where "D (job_record j) = Some x" "correlation_id_of x = Inr i'" "authorization_correlation_path (JStr i') = Inr p"
        using plan_of(3)[OF p(1)] pair_paths(2) by fastforce
      then show "established D i x" using None p(2) pair_paths(1)[of i' p] by (auto simp: established_def)
    next
      assume "established D i x"
      then obtain j where j: "D (job_record j) = Some x" "correlation_id_of x = Inr i" using None by (auto simp: established_def)
      then show "D' (correlation_record i) = Some x" using plan_of(5)[OF j(1)] None correlation_done by auto
    qed
  qed
  show "D' (correlation_record i) = map_of known i" for i
    using correlation[of i] plan_of(2)[of i] by (metis option.collapse option.distinct(1))
  have agrees: "\<exists>j e. job_id_of d = Inr j \<and> D' (job_record j) = Some e \<and>
      (e = d \<or> (\<exists>b. durable_binding env e = Inr b \<and> durable_binding env d = Inr b))" if est: "established D i d" for i d
  proof (cases "D (correlation_record i) = Some d")
    case True
    obtain j where j: "job_id_of d = Inr j"
      "case D (job_record j) of
         None \<Rightarrow> \<exists>p. authorization_job_path (JStr j) = Inr p \<and> (p, d) \<in> set repairs
       | Some e \<Rightarrow> \<exists>b. durable_binding env e = Inr b \<and> durable_binding env d = Inr b"
      using plan_of(4)[OF True] by blast
    then show ?thesis by (cases "D (job_record j)") (auto dest: job_done keeps)
  next
    case False
    then obtain j where "D (job_record j) = Some d" using est by (auto simp: established_def)
    then show ?thesis using named(2) keeps by blast
  qed
  show "\<exists>j. job_agrees env D' d j" if "established D i d" using agrees[OF that] by (auto simp: job_agrees_def)
  have "job_id_of e = Inr j \<and> (\<exists>i d. correlation_id_of e = Inr i \<and> D' (correlation_record i) = Some d \<and> job_id_of d = Inr j)"
    if e: "D' (job_record j) = Some e" for j e
  proof (cases "D (job_record j)")
    case (Some x)
    then have job: "D (job_record j) = Some e" "job_id_of e = Inr j" using keeps[OF Some] e named(2) by auto
    obtain i where i: "correlation_id_of e = Inr i"
      "case D (correlation_record i) of
         None \<Rightarrow> \<exists>p. authorization_correlation_path (JStr i) = Inr p \<and> (p, e) \<in> set repairs
       | Some d \<Rightarrow> job_id_of d = job_id_of e" using plan_of(5)[OF job(1)] by blast
    then show ?thesis using job(2) by (cases "D (correlation_record i)") (auto dest: correlation_done keeps)
  next
    case None
    obtain p where p: "(p, e) \<in> set repairs" "path_components p = Inr (job_record j)" using from_repairs[OF None e] by blast
    then obtain i j' where "D (correlation_record i) = Some e" "job_id_of e = Inr j'" "authorization_job_path (JStr j') = Inr p"
      using plan_of(3)[OF p(1)] pair_paths(1) by fastforce
    then show ?thesis using p(2) pair_paths(2)[of j' p] named(1) keeps by fastforce
  qed
  moreover have "correlation_id_of d = Inr i" if "established D i d" for i d using that named(1) by (auto simp: established_def)
  ultimately show "paired env D'" using agrees by (simp add: paired_def correlation)
qed

text \<open>A lifecycle intent is there.\<close>

definition has_intent :: "record_store \<Rightarrow> bool" where
  "has_intent D \<longleftrightarrow> (\<exists>x. D [''intents'', x @ ''.json''] \<noteq> None)"

text \<open>
  What a repair that returned tells: the known correlations are those established before it, each
  agrees with its job; and either every pair is complete, or a lifecycle intent deferred the repair.
\<close>

definition reconciled :: "contract_env \<Rightarrow> record_store \<Rightarrow> record_store \<Rightarrow> (string \<times> json) list \<Rightarrow> bool" where
  "reconciled env D D' known \<longleftrightarrow>
     repaired_from D D' \<and> distinct (map fst known) \<and> (\<forall>i d. map_of known i = Some d \<longleftrightarrow> established D i d) \<and>
     (\<forall>i d. established D i d \<longrightarrow> correlation_id_of d = Inr i \<and> (\<exists>j. job_agrees env D' d j)) \<and>
     (paired env D' \<and> (\<forall>i. D' (correlation_record i) = map_of known i) \<or> D' = D \<and> has_intent D)"

lemma outcome_all:
  "(\<And>x. outcome m (Q x) (E x) s) \<Longrightarrow> outcome m (\<lambda>a t. \<forall>x. Q x a t) (\<lambda>e t. \<forall>x. E x e t) s"
  by (auto simp: outcome_def split: prod.splits sum.splits)

section \<open>What is admitted\<close>

text \<open>The correlations accepted in a window of time.\<close>

definition correlations_between :: "record_store \<Rightarrow> int \<Rightarrow> int \<Rightarrow> string set" where
  "correlations_between D lo hi =
     {i. \<exists>d a. D (correlation_record i) = Some d \<and> accepted_at d = Inr a \<and> lo \<le> a \<and> a \<le> hi}"

text \<open>
  The limits of the rate on the correlations of a store, the last of which was accepted at a time: every
  window of time holds at most five, and one for each of its full minutes, and the last hour at most sixty.
\<close>

definition rate_kept :: "record_store \<Rightarrow> int \<Rightarrow> bool" where
  "rate_kept D a \<longleftrightarrow>
     (\<forall>i d. D (correlation_record i) = Some d \<longrightarrow> (\<exists>b \<le> a. accepted_at d = Inr b)) \<and>
     (\<forall>lo hi. lo \<le> hi \<longrightarrow> int (card (correlations_between D lo hi)) \<le> 5 + (hi - lo) div 60000000) \<and>
     card (correlations_between D (a - RATE_WINDOW + 1) a) \<le> 60"

lemma rate_kept_admitted:
  assumes known: "\<And>i. D (correlation_record i) = map_of known i" "distinct (map fst known)"
    and history: "traverseE (\<lambda>(_, d). accepted_at d) known = Inr history"
    and rate: "admit_rate history a = Inr ()" and new: "accepted_at d = Inr a"
    and D': "\<And>i. D' (correlation_record i) = (if i = c then Some d else D (correlation_record i))"
  shows "rate_kept D' a"
proof -
  let ?xs = "(c, a) # zip (map fst known) history"
  have all: "list_all2 (\<lambda>x b. accepted_at (snd x) = Inr b) known history"
    using history by (auto simp: traverseE_Inr_iff case_prod_beta')
  have length: "length history = length known" using list_all2_lengthD[OF all] by simp
  note rates = rate[unfolded rate_admission_iff]
  have accepted: "(i, b) \<in> set ?xs" if "D' (correlation_record i) = Some x" "accepted_at x = Inr b" for i x b
  proof (cases "i = c")
    case True
    then show ?thesis using that D' new by simp
  next
    case False
    then have "map_of known i = Some x" using that(1) D' known(1) by simp
    then obtain n where n: "n < length known" "known ! n = (i, x)" by (metis map_of_SomeD in_set_conv_nth)
    then have "history ! n = b" using list_all2_nthD[OF all n(1)] that(2) by simp
    then show ?thesis using n length by (force simp: set_zip)
  qed
  have card: "card (correlations_between D' lo hi) \<le> in_window lo hi (a # history)" for lo hi
  proof -
    have "correlations_between D' lo hi \<subseteq> fst ` set (filter (\<lambda>x. lo \<le> snd x \<and> snd x \<le> hi) ?xs)"
      using accepted by (fastforce simp: correlations_between_def image_iff)
    then have "card (correlations_between D' lo hi) \<le> card (fst ` set (filter (\<lambda>x. lo \<le> snd x \<and> snd x \<le> hi) ?xs))"
      by (intro card_mono) simp_all
    also have "\<dots> \<le> card (set (filter (\<lambda>x. lo \<le> snd x \<and> snd x \<le> hi) ?xs))" by (rule card_image_le) simp
    also have "\<dots> \<le> length (filter (\<lambda>x. lo \<le> snd x \<and> snd x \<le> hi) ?xs)" by (rule card_length)
    also have "\<dots> = length (filter (\<lambda>b. lo \<le> b \<and> b \<le> hi) (map snd ?xs))" by (simp add: filter_map o_def)
    also have "map snd ?xs = a # history" using length by simp
    finally show ?thesis by (simp add: in_window_def)
  qed
  have "\<exists>b \<le> a. accepted_at x = Inr b" if x: "D' (correlation_record i) = Some x" for i x
  proof (cases "i = c")
    case True
    then show ?thesis using x D' new by auto
  next
    case False
    then have "map_of known i = Some x" using x D' known(1) by simp
    then obtain n where n: "n < length known" "known ! n = (i, x)" by (metis map_of_SomeD in_set_conv_nth)
    then have "accepted_at x = Inr (history ! n)" using list_all2_nthD[OF all n(1)] by simp
    moreover have "history ! n \<le> a" using rates n(1) length by auto
    ultimately show ?thesis by blast
  qed
  moreover have "int (card (correlations_between D' lo hi)) \<le> 5 + (hi - lo) div 60000000" if "lo \<le> hi" for lo hi
    using card[of lo hi] rates that by fastforce
  moreover have "card (correlations_between D' (a - RATE_WINDOW + 1) a) \<le> 60"
  proof -
    have "filter (\<lambda>t. a - RATE_WINDOW + 1 \<le> t \<and> t \<le> a) history = filter (\<lambda>t. a - RATE_WINDOW < t) history"
      using rates by (intro filter_cong) auto
    then have "in_window (a - RATE_WINDOW + 1) a (a # history) \<le> Suc (length (filter (\<lambda>t. a - RATE_WINDOW < t) history))"
      by (simp add: in_window_def)
    then show ?thesis using card[of "a - RATE_WINDOW + 1" a] rates by linarith
  qed
  ultimately show ?thesis by (simp add: rate_kept_def)
qed

lemma candidate_of:
  assumes "validate_candidate env candidate now = Inr (c, j, a, canonical)"
  shows "job_id_of candidate = Inr j" "correlation_id_of candidate = Inr c" "accepted_at candidate = Inr a"
  using assms by (auto simp: validate_candidate_def correlation_id_of_def thenE_Inr bindE_Inr_iff split: if_split_asm)

text \<open>
  What an admission publishes, after the repair: the pair of the candidate, where there was neither of
  its records, in a store whose pairs are complete.
\<close>

definition pair_admitted :: "contract_env \<Rightarrow> record_store \<Rightarrow> record_store \<Rightarrow> json \<Rightarrow> string \<Rightarrow> string \<Rightarrow> bool" where
  "pair_admitted env D D' candidate c j \<longleftrightarrow>
     (\<nexists>d. established D c d) \<and>
     (\<exists>D1. repaired_from D D1 \<and> paired env D1 \<and> D1 (correlation_record c) = None \<and> D1 (job_record j) = None \<and>
        D' = D1(correlation_record c \<mapsto> candidate, job_record j \<mapsto> candidate))"

text \<open>The answer to a retry: the job of the correlation, whose binding is that of the request.\<close>

definition answered :: "contract_env \<Rightarrow> record_store \<Rightarrow> record_store \<Rightarrow> json \<Rightarrow> string \<Rightarrow> json \<Rightarrow> bool" where
  "answered env D D' candidate c job \<longleftrightarrow> repaired_from D D' \<and>
     (\<exists>d b j. established D c d \<and> retry_binding env d = Inr b \<and> retry_binding env candidate = Inr b \<and>
        job_agrees env D' d j \<and> D' (job_record j) = Some job)"

text \<open>What is there where the resolution raised: repairs, and no more of the new pair than was published.\<close>

definition resolution_interrupted :: "record_store \<Rightarrow> record_store \<Rightarrow> json \<Rightarrow> string \<Rightarrow> string \<Rightarrow> bool" where
  "resolution_interrupted D D' candidate c j \<longleftrightarrow>
     (\<exists>D1. repaired_from D D1 \<and>
        (D' = D1 \<or> (\<nexists>d. established D c d) \<and> D1 (correlation_record c) = None \<and>
           (D' = D1(correlation_record c \<mapsto> candidate) \<or>
            D1 (job_record j) = None \<and> D' = D1(correlation_record c \<mapsto> candidate, job_record j \<mapsto> candidate))))"

lemma resolution_interrupted_repaired: "repaired_from D D' \<Longrightarrow> resolution_interrupted D D' candidate c j"
  by (auto simp: resolution_interrupted_def)

section \<open>The promises\<close>

locale correlation_store = commit_store env T docs log sound
  for env :: contract_env and T :: "'s correlation_transaction"
    and docs :: "'s \<Rightarrow> record_store" and log :: "'s \<Rightarrow> AuditState py" and sound :: "'s \<Rightarrow> bool" +
  assumes observe_authorization:
      "leaves (same_view docs log sound) (do_measure_authorization_records T)"
      "leaves (same_view docs log sound) (do_inspect_audit_correlation T v)"
    and lists: "sound s \<Longrightarrow>
      outcome (do_measure_authorization_records T)
        (\<lambda>inventory _. distinct (correlation_ids inventory) \<and> distinct (job_ids inventory) \<and>
           (\<forall>i. docs s (correlation_record i) \<noteq> None \<longrightarrow> i \<in> set (correlation_ids inventory)) \<and>
           (\<forall>j. docs s (job_record j) \<noteq> None \<longrightarrow> j \<in> set (job_ids inventory))) (\<lambda>_ _. True) s"
    and reads_bound: "outcome (do_read T p) (\<lambda>r _. validate_binding p (stored_document r) = Inr ()) (\<lambda>_ _. True) s"
    and creates_new: "sound s \<Longrightarrow> path_ok p \<Longrightarrow> path_components p = Inr c \<Longrightarrow>
      outcome (do_create_immutable T p d) (\<lambda>r _. docs s c = None \<and> stored_document r = d)
        (\<lambda>_ t. docs t = docs s \<or> docs s c = None) s"
    and intent_found: "sound s \<Longrightarrow>
      outcome (do_read_intent T (JStr i)) (\<lambda>_ _. docs s [''intents'', i @ ''.json''] \<noteq> None) (\<lambda>_ _. True) s"
begin

text \<open>Two states with the same records and the same log, both sound.\<close>

definition alike :: "'s \<Rightarrow> 's \<Rightarrow> bool" where
  "alike s t \<longleftrightarrow> sound t \<and> docs t = docs s \<and> log t = log s"

lemma alike_refl: "sound s \<Longrightarrow> alike s s" and alike_trans: "alike s t \<Longrightarrow> alike t u \<Longrightarrow> alike s u"
  and alike_sound: "alike s t \<Longrightarrow> sound t" and alike_docs: "alike s t \<Longrightarrow> docs t = docs s" and alike_log: "alike s t \<Longrightarrow> log t = log s"
  by (simp_all add: alike_def)

lemma looks:
  assumes "leaves (same_view docs log sound) m" "sound s" "outcome m K (\<lambda>_ _. True) s"
  shows "outcome m (\<lambda>x t. alike s t \<and> K x t) (\<lambda>e t. alike s t) s"
  using outcome_conj[OF observing[OF assms(1,2)] assms(3)] by (rule outcome_conseq) (auto simp: alike_def)

lemma looks_only:
  assumes "leaves (same_view docs log sound) m" "sound s"
  shows "outcome m (\<lambda>_ t. alike s t) (\<lambda>_ t. alike s t) s"
  using observing[OF assms] by (rule outcome_conseq) (auto simp: alike_def)

text \<open>A step that only looks, seen from where the looking began.\<close>

lemma look_bind:
  assumes "outcome m (\<lambda>x t. alike u t \<and> K x t) (\<lambda>_ t. alike u t) u" "alike s u"
    and "\<And>x t. alike s t \<Longrightarrow> K x t \<Longrightarrow> outcome (f x) Q E t" "\<And>e t. alike s t \<Longrightarrow> E e t"
  shows "outcome (bindT m f) Q E u"
  by (rule outcome_bind[OF outcome_conseq[OF assms(1)]]) (use assms(2-4) alike_trans in blast)+

lemma look_only_bind:
  assumes "leaves (same_view docs log sound) m" "alike s u"
    and "\<And>x t. alike s t \<Longrightarrow> outcome (f x) Q E t" "\<And>e t. alike s t \<Longrightarrow> E e t"
  shows "outcome (bindT m f) Q E u"
  by (rule outcome_bind[OF outcome_conseq[OF looks_only[OF assms(1) alike_sound[OF assms(2)]]]])
    (use assms(2-4) alike_trans in blast)+

lemma reads_record:
  assumes "sound s" "lasting p" "path_components p = Inr c"
  shows "outcome (do_read T p)
    (\<lambda>r t. alike s t \<and> docs s c = Some (stored_document r) \<and> validate_binding p (stored_document r) = Inr ())
    (\<lambda>e t. alike s t \<and> (e = FileNotFoundError \<longrightarrow> docs s c = None)) s"
  using outcome_conj[OF outcome_conj[OF observing[OF observe(1) assms(1)] read_finds[OF assms]] reads_bound]
  by (rule outcome_conseq) (auto simp: alike_def)

section \<open>What is there\<close>

lemma documents_read:
  assumes "sound s" "\<And>i p. path_of (JStr i) = Inr p \<Longrightarrow> lasting p \<and> path_components p = Inr (record_of i)"
  shows "outcome (read_documents T path_of ids)
    (\<lambda>found t. alike s t \<and> map fst found = ids \<and>
       (\<forall>(i, d) \<in> set found. docs s (record_of i) = Some d \<and> (\<exists>p. path_of (JStr i) = Inr p \<and> validate_binding p d = Inr ())))
    (\<lambda>_ t. alike s t) s"
proof -
  let ?step = "\<lambda>found i. bindT (liftT (path_of (JStr i))) (\<lambda>p. bindT (do_read T p) (\<lambda>r. liftT (Inr (found @ [(i, stored_document r)]))))"
  have "outcome (foldT ?step acc ids)
    (\<lambda>found t. alike s t \<and> (\<exists>new. found = acc @ new \<and> map fst new = ids \<and>
       (\<forall>(i, d) \<in> set new. docs s (record_of i) = Some d \<and> (\<exists>p. path_of (JStr i) = Inr p \<and> validate_binding p d = Inr ()))))
    (\<lambda>_ t. alike s t) u" if "alike s u" for acc u
    using that
  proof (induction ids arbitrary: acc u)
    case Nil
    then show ?case by (simp add: outcome_def liftT_def)
  next
    case (Cons i ids)
    show ?case
      unfolding foldT.simps bind_nested
    proof (rule outcome_bind_lift)
      fix p assume p: "path_of (JStr i) = Inr p"
      show "outcome (bindT (do_read T p) (\<lambda>r. bindT (liftT (Inr (acc @ [(i, stored_document r)]))) (\<lambda>b. foldT ?step b ids)))
        (\<lambda>found t. alike s t \<and> (\<exists>new. found = acc @ new \<and> map fst new = i # ids \<and>
          (\<forall>(i, d) \<in> set new. docs s (record_of i) = Some d \<and> (\<exists>p. path_of (JStr i) = Inr p \<and> validate_binding p d = Inr ()))))
        (\<lambda>_ t. alike s t) u"
      proof (rule outcome_bind[OF outcome_conseq[OF reads_record[OF alike_sound[OF Cons.prems] conjunct1[OF assms(2)[OF p]]
              conjunct2[OF assms(2)[OF p]]]]], assumption)
        fix r t assume r: "alike u t \<and> docs u (record_of i) = Some (stored_document r) \<and> validate_binding p (stored_document r) = Inr ()"
        have t: "alike s t" using alike_trans[OF Cons.prems] r by blast
        show "outcome (bindT (liftT (Inr (acc @ [(i, stored_document r)]))) (\<lambda>b. foldT ?step b ids))
          (\<lambda>found t. alike s t \<and> (\<exists>new. found = acc @ new \<and> map fst new = i # ids \<and>
            (\<forall>(i, d) \<in> set new. docs s (record_of i) = Some d \<and> (\<exists>p. path_of (JStr i) = Inr p \<and> validate_binding p d = Inr ()))))
          (\<lambda>_ t. alike s t) t"
          unfolding bind_lift
        proof (rule outcome_conseq[OF Cons.IH[OF t]], elim conjE exE, intro conjI, assumption)
          fix found v new
          assume "found = (acc @ [(i, stored_document r)]) @ new" "map fst new = ids"
            "\<forall>(i, d) \<in> set new. docs s (record_of i) = Some d \<and> (\<exists>p. path_of (JStr i) = Inr p \<and> validate_binding p d = Inr ())"
          then show "\<exists>new. found = acc @ new \<and> map fst new = i # ids \<and>
            (\<forall>(i, d) \<in> set new. docs s (record_of i) = Some d \<and> (\<exists>p. path_of (JStr i) = Inr p \<and> validate_binding p d = Inr ()))"
            using r p alike_docs[OF Cons.prems] by (intro exI[of _ "(i, stored_document r) # new"]) auto
        qed
      qed (use alike_trans[OF Cons.prems] in auto)
    qed (use Cons.prems in simp)
  qed
  from this[OF alike_refl[OF assms(1)], of "[]"] show ?thesis unfolding read_documents_def by simp
qed

section \<open>The owners of the reserve\<close>

lemma owners_found:
  assumes "sound s"
  shows "outcome (lifecycle_reservation_owners T)
    (\<lambda>owners t. alike s t \<and> (owners = [] \<longleftrightarrow> \<not> has_intent (docs s))) (\<lambda>_ t. alike s t) s"
proof -
  let ?step = "\<lambda>owners (identity :: IntentRecordIdentity). bindT (do_read_intent T (JStr (identity_intent_id identity))) (\<lambda>(p, r).
       bindT (liftT (bindE (getitem (stored_document r) ''correlationId'') validate_uuid7)) (\<lambda>owner.
       liftT (Inr (owners @ [owner]))))"
  have step: "outcome (?step acc identity) (\<lambda>out t. alike s t \<and> out \<noteq> [] \<and> has_intent (docs s)) (\<lambda>_ t. alike s t) u"
    if u: "alike s u" for acc identity u
    by (rule outcome_bind[OF outcome_conseq[OF looks[OF observe(5) alike_sound[OF u] intent_found[OF alike_sound[OF u]]]]],
        assumption, use alike_trans[OF u] in blast)
      (auto intro!: outcome_bind_lift outcome_lift simp: has_intent_def alike_docs[OF u] dest: alike_trans[OF u] split: prod.splits)
  have run: "outcome (foldT ?step acc records)
      (\<lambda>owners t. alike s t \<and> (if records = [] then owners = acc else owners \<noteq> [] \<and> has_intent (docs s))) (\<lambda>_ t. alike s t) u"
    if "alike s u" for acc records u
    using that
  proof (induction records arbitrary: acc u)
    case Nil
    then show ?case by (simp add: outcome_def liftT_def)
  next
    case (Cons x records)
    show ?case
      unfolding foldT.simps
    proof (rule outcome_bind[OF step[OF Cons.prems]])
      fix out :: "string list" and t assume "alike s t \<and> out \<noteq> [] \<and> has_intent (docs s)"
      then show "outcome (foldT ?step out records)
        (\<lambda>owners t. alike s t \<and> (if x # records = [] then owners = acc else owners \<noteq> [] \<and> has_intent (docs s))) (\<lambda>_ t. alike s t) t"
        by (intro outcome_conseq[OF Cons.IH]) (auto split: if_splits)
    qed
  qed
  have all: "outcome (do_measure_intent_records T)
      (\<lambda>inventory _. \<forall>x. intent_records inventory = [] \<longrightarrow> docs s [''intents'', x @ ''.json''] = None) (\<lambda>_ _. True) s"
    using outcome_all[OF no_intents[OF assms]] by (rule outcome_conseq) auto
  show ?thesis
    unfolding lifecycle_reservation_owners_def
  proof (rule outcome_bind[OF looks[OF observe(4) assms all]])
    fix inventory t
    assume "alike s t \<and> (\<forall>x. intent_records inventory = [] \<longrightarrow> docs s [''intents'', x @ ''.json''] = None)"
    then show "outcome (foldT ?step [] (intent_records inventory))
      (\<lambda>owners t. alike s t \<and> (owners = [] \<longleftrightarrow> \<not> has_intent (docs s))) (\<lambda>_ t. alike s t) t"
      by (intro outcome_conseq[OF run]) (auto simp: has_intent_def split: if_splits)
  qed
qed

section \<open>Repairs\<close>

lemma creates_one:
  assumes "sound s" "path_ok p" "path_components p = Inr c"
  shows "outcome (do_create_immutable T p d)
    (\<lambda>r t. sound t \<and> log t = log s \<and> docs s c = None \<and> docs t = (docs s)(c \<mapsto> d) \<and> stored_document r = d)
    (\<lambda>_ t. sound t \<and> log t = log s \<and> (docs t = docs s \<or> docs s c = None \<and> docs t = (docs s)(c \<mapsto> d))) s"
  using outcome_conj[OF creates[OF assms, unfolded sets_record_def] creates_new[OF assms]]
  by (rule outcome_conseq) auto

lemma repairs_published:
  assumes "sound s" "\<And>p d. (p, d) \<in> set repairs \<Longrightarrow> path_ok p"
  shows "outcome (publish_repairs T repairs)
    (\<lambda>_ t. sound t \<and> log t = log s \<and> publishes (docs s) (docs t) repairs \<and>
       (\<forall>(p, d) \<in> set repairs. \<forall>c. path_components p = Inr c \<longrightarrow> docs t c = Some d))
    (\<lambda>_ t. sound t \<and> log t = log s \<and> publishes (docs s) (docs t) repairs) s"
  using assms
proof (induction repairs arbitrary: s)
  case Nil
  then show ?case by (simp add: publish_repairs_def outcome_def liftT_def)
next
  case (Cons x repairs)
  obtain p d where x: "x = (p, d)" by fastforce
  have ok: "path_ok p" using Cons.prems(2)[of p d] x by simp
  obtain c where c: "path_components p = Inr c" using path_components_slot[OF ok] by blast
  have split: "publish_repairs T (x # repairs) = bindT (do_create_immutable T p d) (\<lambda>_. publish_repairs T repairs)"
    by (simp add: publish_repairs_def x thenT_def bind_nested)
  show ?case
    unfolding split
  proof (rule outcome_bind[OF outcome_conseq[OF creates_one[OF Cons.prems(1) ok c]]], assumption)
    fix r t
    assume t: "sound t \<and> log t = log s \<and> docs s c = None \<and> docs t = (docs s)(c \<mapsto> d) \<and> stored_document r = d"
    have step: "publishes (docs s) D' (x # repairs)" if "publishes (docs t) D' repairs" for D'
      using publishes_step[of "docs s" c p d D' repairs] t c that x by simp
    show "outcome (publish_repairs T repairs)
      (\<lambda>_ t. sound t \<and> log t = log s \<and> publishes (docs s) (docs t) (x # repairs) \<and>
         (\<forall>(p, d) \<in> set (x # repairs). \<forall>c. path_components p = Inr c \<longrightarrow> docs t c = Some d))
      (\<lambda>_ t. sound t \<and> log t = log s \<and> publishes (docs s) (docs t) (x # repairs)) t"
    proof (rule outcome_conseq[OF Cons.IH[of t]])
      show "sound t" using t by simp
      show "path_ok q" if "(q, e) \<in> set repairs" for q e using Cons.prems(2)[of q e] that by simp
      fix v u
      assume u: "sound u \<and> log u = log t \<and> publishes (docs t) (docs u) repairs \<and>
         (\<forall>(p, d) \<in> set repairs. \<forall>c. path_components p = Inr c \<longrightarrow> docs u c = Some d)"
      then have "docs u c = Some d" using t publishes_keeps[of "docs t" "docs u" repairs c d] by simp
      then show "sound u \<and> log u = log s \<and> publishes (docs s) (docs u) (x # repairs) \<and>
         (\<forall>(p, d) \<in> set (x # repairs). \<forall>c. path_components p = Inr c \<longrightarrow> docs u c = Some d)"
        using u t c step x by auto
    next
      fix e u
      assume u: "sound u \<and> log u = log t \<and> publishes (docs t) (docs u) repairs"
      then have "publishes (docs s) (docs u) (x # repairs)" by (intro step) simp
      then show "sound u \<and> log u = log s \<and> publishes (docs s) (docs u) (x # repairs)" using u t by simp
    qed
  next
    fix e t
    assume "sound t \<and> log t = log s \<and> (docs t = docs s \<or> docs s c = None \<and> docs t = (docs s)(c \<mapsto> d))"
    then show "sound t \<and> log t = log s \<and> publishes (docs s) (docs t) (x # repairs)"
      using publishes_one[of "docs s" c p d repairs] c x by auto
  qed
qed

lemma observe_pair_admission:
  "leaves (same_view docs log sound) (admit_writes T reservation limits)"
  "leaves (same_view docs log sound)
     (foldT (\<lambda>total (q, d). bindT (record_allocation env T d) (\<lambda>allocation. liftT (Inr (total + allocation)))) n repairs)"
  unfolding admit_writes_def by (auto intro!: same_view_intros observe observe_capacity split: prod.splits)

lemma publish_plan_outcome:
  assumes reads: "read_from (docs s) cs js" and plan: "plan_repairs env cs js = Inr (known, repairs)" and "alike s u"
  shows "outcome (publish_plan env T limits known repairs)
    (\<lambda>n t. sound t \<and> log t = log s \<and> reconciled env (docs s) (docs t) known)
    (\<lambda>_ t. sound t \<and> log t = log s \<and> repaired_from (docs s) (docs t)) u" (is "outcome _ ?Q ?E u")
proof -
  have E: "?E e t" if "alike s t" for e t using that by (simp add: alike_def)
  have unchanged: "outcome (liftT (Inr n)) ?Q ?E v" if "alike s v" "repairs = [] \<or> has_intent (docs s)" for n :: nat and v
  proof -
    have "paired env (docs s) \<and> (\<forall>i. docs s (correlation_record i) = map_of known i)" if "repairs = []"
      using paired_after[OF reads plan publishes_refl] that by simp
    then show ?thesis using that planned_from(1,2)[OF reads plan] established_agrees[OF reads plan]
      by (auto simp: outcome_def liftT_def reconciled_def alike_def)
  qed
  have filled: "outcome (thenT (publish_repairs T repairs) (liftT (Inr n))) ?Q ?E v" if v: "alike s v" for n :: nat and v
  proof (rule outcome_then[OF outcome_conseq[OF repairs_published[OF alike_sound[OF v] repairs_ok(1)[OF reads plan]]]], assumption, assumption)
    fix z z'
    assume z: "sound z' \<and> log z' = log v \<and> publishes (docs v) (docs z') repairs \<and>
      (\<forall>(p, d) \<in> set repairs. \<forall>c. path_components p = Inr c \<longrightarrow> docs z' c = Some d)"
    have publishes: "publishes (docs s) (docs z') repairs" using z alike_docs[OF v] by simp
    have there: "docs z' c = Some d" if "(p, d) \<in> set repairs" "path_components p = Inr c" for p d c using z that by auto
    note after = paired_after[OF reads plan publishes there]
    have "reconciled env (docs s) (docs z') known"
      unfolding reconciled_def
      using publishes_repaired[OF reads plan publishes] planned_from(1,2)[OF reads plan] established_agrees(1)[OF reads plan]
        after(1,3) after(2) by simp
    then show "outcome (liftT (Inr n)) ?Q ?E z'"
      using z alike_log[OF v] by (simp add: outcome_def liftT_def)
  qed (use v publishes_repaired[OF reads plan] alike_docs[OF v] alike_log[OF v] in auto)
  show ?thesis
    unfolding publish_plan_def
  proof (rule outcome_if)
    show "outcome (liftT (Inr 0)) ?Q ?E u" if "repairs = []"
      by (rule unchanged[OF assms(3)]) (simp add: that)
    show "outcome (bindT (lifecycle_reservation_owners T) (\<lambda>owners.
       if owners \<noteq> [] then liftT (Inr 0)
       else
       bindT (foldT (\<lambda>total (_, d). bindT (record_allocation env T d) (\<lambda>allocation. liftT (Inr (total + allocation)))) 0 repairs)
         (\<lambda>reserved.
       thenT (admit_writes T \<lparr>reserved_tenants = 0, reserved_authorization_records = int (length repairs),
                              reserved_authorization_bytes = reserved\<rparr> limits)
       (thenT (publish_repairs T repairs) (liftT (Inr (length repairs))))))) ?Q ?E u"
    proof (rule look_bind[OF owners_found[OF alike_sound[OF assms(3)]] assms(3)], rule outcome_if)
      fix owners v assume v: "alike s v" "owners = [] \<longleftrightarrow> \<not> has_intent (docs u)"
      show "outcome (liftT (Inr 0)) ?Q ?E v" if "owners \<noteq> []"
        using unchanged[OF v(1)] v(2) that alike_docs[OF assms(3)] by simp
      show "outcome (bindT (foldT (\<lambda>total (_, d). bindT (record_allocation env T d) (\<lambda>allocation. liftT (Inr (total + allocation)))) 0 repairs)
         (\<lambda>reserved.
       thenT (admit_writes T \<lparr>reserved_tenants = 0, reserved_authorization_records = int (length repairs),
                              reserved_authorization_bytes = reserved\<rparr> limits)
       (thenT (publish_repairs T repairs) (liftT (Inr (length repairs)))))) ?Q ?E v"
        by (rule look_only_bind[OF observe_pair_admission(2) v(1)], subst thenT_def, rule look_only_bind[OF observe_pair_admission(1)])
          (use filled E in blast)+
    qed (rule E)
  qed
qed

lemma reconcile_outcome:
  assumes "sound s" "distinct (correlation_ids inventory)" "distinct (job_ids inventory)"
    and "\<And>i. docs s (correlation_record i) \<noteq> None \<Longrightarrow> i \<in> set (correlation_ids inventory)"
    and "\<And>j. docs s (job_record j) \<noteq> None \<Longrightarrow> j \<in> set (job_ids inventory)"
  shows "outcome (reconcile_pairs env T limits inventory)
    (\<lambda>(known, n) t. sound t \<and> log t = log s \<and> reconciled env (docs s) (docs t) known)
    (\<lambda>_ t. sound t \<and> log t = log s \<and> repaired_from (docs s) (docs t)) s" (is "outcome _ ?Q ?E s")
proof -
  have E: "?E e t" if "alike s t" for e t using that by (simp add: alike_def)
  define read where "read path_of record_of found \<longleftrightarrow> (\<forall>(i, d) \<in> set found. docs s (record_of i) = Some d \<and>
      (\<exists>p. path_of (JStr i) = Inr p \<and> validate_binding p d = Inr ()))"
    for path_of :: "json \<Rightarrow> StateRecordPath py" and record_of :: "string \<Rightarrow> string list" and found
  have reads: "read_from (docs s) cs js"
    if cs: "map fst cs = correlation_ids inventory" "read authorization_correlation_path correlation_record cs"
      and js: "map fst js = job_ids inventory" "read authorization_job_path job_record js" for cs js
    unfolding read_from_def
  proof (intro conjI allI impI)
    show c: "distinct (map fst cs)" and j: "distinct (map fst js)" using cs(1) js(1) assms(2,3) by simp_all
    show ci: "map_of cs i = docs s (correlation_record i)" for i
      by (rule map_of_reads[OF c]) (use cs assms(4)[of i] in \<open>auto simp: read_def\<close>)
    show ji: "map_of js i = docs s (job_record i)" for i
      by (rule map_of_reads[OF j]) (use js assms(5)[of i] in \<open>auto simp: read_def\<close>)
    show "correlation_id_of d = Inr i" if "docs s (correlation_record i) = Some d" for i d
      using cs(2) map_of_SomeD[of cs i d] that pair_bindings(1) by (fastforce simp: ci read_def)
    show "job_id_of e = Inr i" if "docs s (job_record i) = Some e" for i e
      using js(2) map_of_SomeD[of js i e] that pair_bindings(2) by (fastforce simp: ji read_def)
  qed
  have documents: "outcome (read_documents T path_of ids)
      (\<lambda>found t. alike u t \<and> (map fst found = ids \<and> read path_of record_of found)) (\<lambda>_ t. alike u t) u"
    if "alike s u" "\<And>i p. path_of (JStr i) = Inr p \<Longrightarrow> lasting p \<and> path_components p = Inr (record_of i)" for u path_of record_of ids
    by (rule outcome_conseq[OF documents_read[OF alike_sound[OF that(1)], of path_of record_of]])
      (use that alike_docs[OF that(1)] in \<open>auto simp: read_def\<close>)
  show ?thesis
    unfolding reconcile_pairs_def
  proof (rule look_bind[OF documents[OF alike_refl[OF assms(1)], of _ correlation_record] alike_refl[OF assms(1)]])
    fix cs t assume t: "alike s t" and cs: "map fst cs = correlation_ids inventory \<and> read authorization_correlation_path correlation_record cs"
    show "outcome (bindT (read_documents T authorization_job_path (job_ids inventory)) (\<lambda>jobs.
        bindT (liftT (plan_repairs env cs jobs)) (\<lambda>(correlations, repairs).
        bindT (publish_plan env T limits correlations repairs) (\<lambda>n. liftT (Inr (correlations, n)))))) ?Q ?E t"
    proof (rule look_bind[OF documents[OF t, of _ job_record] t])
      fix js u assume u: "alike s u" and js: "map fst js = job_ids inventory \<and> read authorization_job_path job_record js"
      show "outcome (bindT (liftT (plan_repairs env cs js)) (\<lambda>(correlations, repairs).
        bindT (publish_plan env T limits correlations repairs) (\<lambda>n. liftT (Inr (correlations, n))))) ?Q ?E u"
      proof (rule outcome_bind_lift)
        fix x assume x: "plan_repairs env cs js = Inr x"
        obtain known repairs where k: "x = (known, repairs)" by fastforce
        show "outcome (case x of (correlations, repairs) \<Rightarrow>
            bindT (publish_plan env T limits correlations repairs) (\<lambda>n. liftT (Inr (correlations, n)))) ?Q ?E u"
          unfolding k prod.case
          by (rule outcome_bind[OF publish_plan_outcome[OF reads x[unfolded k] u]])
            (use cs js in \<open>auto simp: outcome_def liftT_def\<close>)
      qed (use u E in blast)
    qed (use pair_paths(2) E in blast)+
  qed (use pair_paths(1) E in blast)+
qed

text \<open>Every operation begins with the inventory and the repair.\<close>

lemma inventory_bind:
  assumes "sound s"
    and "\<And>inventory known n u. sound u \<Longrightarrow> log u = log s \<Longrightarrow> reconciled env (docs s) (docs u) known \<Longrightarrow>
      outcome (f inventory (known, n)) Q E u"
    and "\<And>e u. sound u \<Longrightarrow> log u = log s \<Longrightarrow> repaired_from (docs s) (docs u) \<Longrightarrow> E e u"
  shows "outcome (bindT (do_measure_authorization_records T) (\<lambda>inventory. bindT (reconcile_pairs env T limits inventory) (f inventory))) Q E s"
proof (rule look_bind[OF looks[OF observe_authorization(1) assms(1) lists[OF assms(1)]] alike_refl[OF assms(1)]])
  fix inventory :: AuthorizationRecordInventory and t
  assume t: "alike s t" and found: "distinct (correlation_ids inventory) \<and> distinct (job_ids inventory) \<and>
         (\<forall>i. docs s (correlation_record i) \<noteq> None \<longrightarrow> i \<in> set (correlation_ids inventory)) \<and>
         (\<forall>j. docs s (job_record j) \<noteq> None \<longrightarrow> j \<in> set (job_ids inventory))"
  have "outcome (reconcile_pairs env T limits inventory)
      (\<lambda>(known, n) u. sound u \<and> log u = log s \<and> reconciled env (docs s) (docs u) known) E t"
    by (rule outcome_conseq[OF reconcile_outcome[OF alike_sound[OF t], of inventory limits]])
      (use found alike_docs[OF t] alike_log[OF t] assms(3) in auto)
  then show "outcome (bindT (reconcile_pairs env T limits inventory) (f inventory)) Q E t"
    by (rule outcome_bind) (use assms(2) in auto)
qed (use assms(3) in \<open>simp add: alike_def\<close>)

section \<open>Retries and admissions\<close>

lemma retry_read:
  assumes "sound s" "job_agrees env (docs s) d j"
  shows "outcome (established_resolution T d n)
    (\<lambda>r t. alike s t \<and> \<not> resolution_created r \<and> docs s (job_record j) = Some (stored_document (resolved_job r)))
    (\<lambda>_ t. alike s t) s"
  unfolding established_resolution_def read_retry_job_def bind_nested
proof (rule outcome_bind_lift, rule outcome_bind_lift)
  fix j' p assume j': "job_id_of d = Inr j'" and p: "authorization_job_path (JStr j') = Inr p"
  have "j' = j" using j' assms(2) by (simp add: job_agrees_def)
  note path = pair_paths(2)[OF p[unfolded this]]
  show "outcome (bindT (catch_missing (StateBusy ''export.lock is busy'') (do_read T p)) (\<lambda>job.
      liftT (Inr \<lparr>resolved_job = job, resolution_created = False, resolution_repaired = n\<rparr>)))
    (\<lambda>r t. alike s t \<and> \<not> resolution_created r \<and> docs s (job_record j) = Some (stored_document (resolved_job r)))
    (\<lambda>_ t. alike s t) s"
    by (rule outcome_bind[OF outcome_catch[OF outcome_conseq[OF reads_record[OF assms(1) conjunct1[OF path]
            conjunct2[OF conjunct2[OF path]]]]]], assumption, blast)
      (simp add: outcome_def liftT_def)
qed (use alike_refl[OF assms(1)] in simp_all)

lemma exists_looks:
  assumes "sound s" shows "outcome (record_exists T p) (\<lambda>_ t. alike s t) (\<lambda>_ t. alike s t) s"
  using looks_only[OF observe(1) assms, of p]
  by (auto simp: outcome_def record_exists_def split: prod.splits sum.splits exn.splits)

lemma collisions_look:
  assumes "sound s"
  shows "outcome (refuse_collisions T inventory known c j) (\<lambda>_ t. alike s t) (\<lambda>_ t. alike s t) s"
  unfolding refuse_collisions_def
  by (intro outcome_bind_lift outcome_if outcome_lift
      look_bind[where K = "\<lambda>_ _. True", OF outcome_conseq[OF exists_looks[OF assms]]]
      look_only_bind[OF observe_authorization(2)])
    (use alike_refl[OF assms] in auto)

lemma pair_published:
  assumes "sound s"
  shows "outcome (publish_pair T candidate c j n)
    (\<lambda>r t. sound t \<and> log t = log s \<and> docs s (correlation_record c) = None \<and> docs s (job_record j) = None \<and>
       docs t = (docs s)(correlation_record c \<mapsto> candidate, job_record j \<mapsto> candidate) \<and>
       resolution_created r \<and> stored_document (resolved_job r) = candidate)
    (\<lambda>_ t. sound t \<and> log t = log s \<and> (docs t = docs s \<or> docs s (correlation_record c) = None \<and>
       (docs t = (docs s)(correlation_record c \<mapsto> candidate) \<or>
        docs s (job_record j) = None \<and> docs t = (docs s)(correlation_record c \<mapsto> candidate, job_record j \<mapsto> candidate)))) s"
    (is "outcome _ ?Q ?E s")
  unfolding publish_pair_def
proof (rule outcome_bind_lift)
  fix p assume "authorization_correlation_path (JStr c) = Inr p"
  note p = pair_paths(1)[OF this]
  show "outcome (bindT (do_create_immutable T p candidate) (\<lambda>correlation.
     bindT (liftT (authorization_job_path (JStr j))) (\<lambda>q.
     bindT (do_create_immutable T q candidate) (\<lambda>job.
     if stored_document correlation \<noteq> stored_document job
     then liftT (Inl (CorrelationError ''durable correlation and job copies diverged''))
     else liftT (Inr \<lparr>resolved_job = job, resolution_created = True, resolution_repaired = n\<rparr>))))) ?Q ?E s"
  proof (rule outcome_bind[OF outcome_conseq[OF creates_one[OF assms, of p]]], use p in blast, use p in blast, assumption, blast,
      rule outcome_bind_lift)
    fix r t q
    assume t: "sound t \<and> log t = log s \<and> docs s (correlation_record c) = None \<and> docs t = (docs s)(correlation_record c \<mapsto> candidate) \<and>
        stored_document r = candidate"
      and "authorization_job_path (JStr j) = Inr q"
    note q = pair_paths(2)[OF this(2)]
    have st: "sound t" using t by blast
    show "outcome (bindT (do_create_immutable T q candidate) (\<lambda>job.
       if stored_document r \<noteq> stored_document job
       then liftT (Inl (CorrelationError ''durable correlation and job copies diverged''))
       else liftT (Inr \<lparr>resolved_job = job, resolution_created = True, resolution_repaired = n\<rparr>))) ?Q ?E t"
      by (rule outcome_bind[OF outcome_conseq[OF creates_one[OF st, of q]]], use q in blast, use q in blast, assumption)
        (use t in \<open>auto intro!: outcome_if outcome_lift\<close>)
  qed (use assms in auto)
qed (use assms in simp)

lemma admission_outcome:
  assumes "sound s" "reconciled env D (docs s) known" "map_of known c = None"
    and "accepted_at candidate = Inr a"
  shows "outcome (admit_correlation T limits inventory known n candidate (c, j, a, canonical))
    (\<lambda>r t. sound t \<and> log t = log s \<and> resolution_created r \<and> stored_document (resolved_job r) = candidate \<and>
       pair_admitted env D (docs t) candidate c j \<and> rate_kept (docs t) a)
    (\<lambda>_ t. sound t \<and> log t = log s \<and> resolution_interrupted D (docs t) candidate c j) s" (is "outcome _ ?Q ?E s")
proof -
  have repaired: "repaired_from D (docs s)" and fresh: "\<nexists>d. established D c d"
    using assms(2,3) by (auto simp: reconciled_def)
  have E: "?E e t" if "alike s t" for e t
    using that repaired by (simp add: alike_def resolution_interrupted_repaired)
  show ?thesis
    unfolding admit_correlation_def prod.case thenT_def
  proof (rule look_bind[OF owners_found[OF assms(1)] alike_refl[OF assms(1)]], rule outcome_if, use E in \<open>simp add: outcome_def liftT_def\<close>,
      rule look_bind[where K = "\<lambda>_ _. True", OF outcome_conseq[OF collisions_look[OF alike_sound]]], assumption, simp, simp, assumption,
      rule outcome_bind_lift, rule outcome_bind_lift, rule look_only_bind[OF observe(6)], assumption,
      rule look_only_bind[OF observe_pair_admission(1)], assumption)
    fix owners t1 u1 t2 history v1 allocation t3 u2 t4
    assume owners: "owners = [] \<longleftrightarrow> \<not> has_intent (docs s)" "\<not> owners \<noteq> []"
      and history: "traverseE (\<lambda>(_, d). accepted_at d) known = Inr history" and rate: "admit_rate history a = Inr v1"
      and t4: "alike s t4"
    have complete: "paired env (docs s)" "\<And>i. docs s (correlation_record i) = map_of known i"
      using assms(2) owners by (auto simp: reconciled_def)
    have kept: "rate_kept D' a" if "D' = (docs s)(correlation_record c \<mapsto> candidate, job_record j \<mapsto> candidate)" for D'
      using rate_kept_admitted[of "docs s" known history a candidate D' c] complete(2) assms(2,4) history rate that
      by (simp add: reconciled_def)
    show "outcome (publish_pair T candidate c j n) ?Q ?E t4"
      by (rule outcome_conseq[OF pair_published[OF alike_sound[OF t4]]])
        (use alike_docs[OF t4] alike_log[OF t4] repaired fresh complete(1) kept in
          \<open>auto simp: pair_admitted_def resolution_interrupted_def\<close>)
  qed (use E in auto)
qed

lemma resolve_outcome:
  assumes "sound s" "validate_candidate env candidate now = Inr (c, j, a, canonical)"
  shows "outcome (resolve env T limits candidate now)
    (\<lambda>r t. sound t \<and> log t = log s \<and>
       (if resolution_created r
        then pair_admitted env (docs s) (docs t) candidate c j \<and> stored_document (resolved_job r) = candidate \<and> rate_kept (docs t) a
        else answered env (docs s) (docs t) candidate c (stored_document (resolved_job r))))
    (\<lambda>_ t. sound t \<and> log t = log s \<and> resolution_interrupted (docs s) (docs t) candidate c j) s" (is "outcome _ ?Q ?E s")
proof -
  show ?thesis
    unfolding resolve_def assms(2) bind_lift prod.case
  proof (rule inventory_bind[OF assms(1)])
      fix inventory :: AuthorizationRecordInventory and known :: "(string \<times> json) list" and n :: nat and u
      assume u: "sound u" "log u = log s" "reconciled env (docs s) (docs u) known"
      have repaired: "repaired_from (docs s) (docs u)" using u(3) by (simp add: reconciled_def)
      have Eu: "?E e v" if "alike u v" for e v using that u repaired by (simp add: alike_def resolution_interrupted_repaired)
      show "outcome (case (known, n) of (correlations, repaired) \<Rightarrow>
         (case map_of correlations c of
           Some d \<Rightarrow>
             bindT (liftT (retry_binding env d)) (\<lambda>known.
             bindT (liftT (retry_binding env candidate)) (\<lambda>given.
             if known \<noteq> given
             then liftT (Inl (CorrelationConflictError ''correlation ID is already bound to another authorized request''))
             else established_resolution T d repaired))
         | None \<Rightarrow> admit_correlation T limits inventory correlations repaired candidate (c, j, a, canonical))) ?Q ?E u"
      proof (cases "map_of known c")
        case None
        show ?thesis
          using admission_outcome[OF u(1,3) None candidate_of(3)[OF assms(2)], of limits inventory n j canonical] u(2)
          by (simp add: None) (erule outcome_conseq; auto)
      next
        case (Some d)
        then have d: "established (docs s) c d" using u(3) by (simp add: reconciled_def)
        then obtain j' where agrees: "job_agrees env (docs u) d j'" using u(3) unfolding reconciled_def by blast
        show ?thesis
          unfolding prod.case Some option.case
        proof (rule outcome_bind_lift, rule outcome_bind_lift, rule outcome_if)
          fix b b' assume b: "retry_binding env d = Inr b" "retry_binding env candidate = Inr b'" "\<not> b \<noteq> b'"
          show "outcome (established_resolution T d n) ?Q ?E u"
          proof (rule outcome_conseq[OF retry_read[OF u(1) agrees]])
            fix r :: CorrelationResolution and v
            assume v: "alike u v \<and> \<not> resolution_created r \<and> docs u (job_record j') = Some (stored_document (resolved_job r))"
            have "answered env (docs s) (docs u) candidate c (stored_document (resolved_job r))"
              unfolding answered_def using repaired d b agrees v by blast
            then show "?Q r v" using v u(2) by (simp add: alike_def)
          qed (use Eu in blast)
        qed (use Eu[OF alike_refl[OF u(1)]] in \<open>auto simp: outcome_def liftT_def\<close>)
      qed
  qed (auto intro: resolution_interrupted_repaired)
qed

section \<open>The answer to a caller, and startup\<close>

lemma find_retry_outcome:
  assumes "sound s"
  shows "outcome (find_retry env T limits (JStr c) binding)
    (\<lambda>found t. sound t \<and> log t = log s \<and> repaired_from (docs s) (docs t) \<and>
       (case found of
          None \<Rightarrow> \<nexists>d. established (docs s) c d
        | Some r \<Rightarrow> \<not> resolution_created r \<and> (\<exists>d b j. established (docs s) c d \<and> caller_retry_binding env d = Inr b \<and>
            canonical_bytes env binding = Inr b \<and> job_agrees env (docs t) d j \<and>
            docs t (job_record j) = Some (stored_document (resolved_job r)))))
    (\<lambda>_ t. sound t \<and> log t = log s \<and> repaired_from (docs s) (docs t)) s" (is "outcome _ ?Q ?E s")
  unfolding find_retry_def
proof (rule outcome_bind_lift)
  fix i assume "validate_uuid7 (JStr c) = Inr i"
  then have i: "i = c" by (simp add: uuid7_iff)
  show "outcome (bindT (do_measure_authorization_records T) (\<lambda>inventory.
     bindT (reconcile_pairs env T limits inventory) (\<lambda>(correlations, repaired).
     case map_of correlations i of
       None \<Rightarrow> liftT (Inr None)
     | Some d \<Rightarrow>
         bindT (liftT (caller_retry_binding env d)) (\<lambda>known.
         bindT (liftT (canonical_bytes env binding)) (\<lambda>given.
         if known \<noteq> given
         then liftT (Inl (CorrelationConflictError ''correlation ID is already bound to another authorized request''))
         else bindT (established_resolution T d repaired) (\<lambda>r. liftT (Inr (Some r)))))))) ?Q ?E s"
  proof (rule inventory_bind[OF assms(1)])
    fix known :: "(string \<times> json) list" and n :: nat and u
    assume u: "sound u" "log u = log s" "reconciled env (docs s) (docs u) known"
    then have repaired: "repaired_from (docs s) (docs u)" by (simp add: reconciled_def)
    have E: "?E e v" if "alike u v" for e v using that u repaired by (simp add: alike_def)
    show "outcome (case (known, n) of (correlations, repaired) \<Rightarrow>
       (case map_of correlations i of
         None \<Rightarrow> liftT (Inr None)
       | Some d \<Rightarrow>
           bindT (liftT (caller_retry_binding env d)) (\<lambda>known.
           bindT (liftT (canonical_bytes env binding)) (\<lambda>given.
           if known \<noteq> given
           then liftT (Inl (CorrelationConflictError ''correlation ID is already bound to another authorized request''))
           else bindT (established_resolution T d repaired) (\<lambda>r. liftT (Inr (Some r))))))) ?Q ?E u"
    proof (cases "map_of known c")
      case None
      then have "\<nexists>d. established (docs s) c d" using u(3) by (auto simp: reconciled_def)
      then show ?thesis using u repaired by (simp add: i None outcome_def liftT_def)
    next
      case (Some d)
      then have d: "established (docs s) c d" using u(3) by (simp add: reconciled_def)
      then obtain j where agrees: "job_agrees env (docs u) d j" using u(3) unfolding reconciled_def by blast
      show ?thesis
        unfolding prod.case i Some option.case
      proof (rule outcome_bind_lift, rule outcome_bind_lift, rule outcome_if)
        fix b b' assume b: "caller_retry_binding env d = Inr b" "canonical_bytes env binding = Inr b'" "\<not> b \<noteq> b'"
        show "outcome (bindT (established_resolution T d n) (\<lambda>r. liftT (Inr (Some r)))) ?Q ?E u"
        proof (rule outcome_bind[OF outcome_conseq[OF retry_read[OF u(1) agrees]]], assumption)
          fix r :: CorrelationResolution and v
          assume v: "alike u v \<and> \<not> resolution_created r \<and> docs u (job_record j) = Some (stored_document (resolved_job r))"
          have "\<exists>d b j. established (docs s) c d \<and> caller_retry_binding env d = Inr b \<and> canonical_bytes env binding = Inr b \<and>
              job_agrees env (docs u) d j \<and> docs u (job_record j) = Some (stored_document (resolved_job r))"
            using d b agrees v by blast
          then show "outcome (liftT (Inr (Some r))) ?Q ?E v"
            using v u(2) repaired by (simp add: outcome_def liftT_def alike_def)
        qed (use E in blast)
      qed (use E[OF alike_refl[OF u(1)]] in \<open>auto simp: outcome_def liftT_def\<close>)
    qed
  qed (use assms(1) in simp)
qed (use assms in simp)

text \<open>What the snapshot of the pairs reads.\<close>

lemma snapshot_read:
  assumes "sound s"
  shows "outcome (snapshot_pair T (i, d))
    (\<lambda>found t. alike s t \<and> (\<exists>j. job_id_of d = Inr j \<and>
       (case found of
          Inr r \<Rightarrow> docs s (job_record j) = Some (stored_document r)
        | Inl r \<Rightarrow> docs s (job_record j) = None \<and> docs s (correlation_record i) = Some (stored_document r))))
    (\<lambda>_ t. alike s t) s" (is "outcome _ ?Q ?E s")
  unfolding snapshot_pair_def
proof (rule outcome_bind_lift)
  fix p assume "bindE (job_id_of (snd (i, d))) (\<lambda>job_id. authorization_job_path (JStr job_id)) = Inr p"
  then obtain j where j: "job_id_of d = Inr j" "authorization_job_path (JStr j) = Inr p" by (auto simp: bindE_Inr_iff)
  note path = pair_paths(2)[OF j(2)]
  have other: "outcome (bindT (liftT (authorization_correlation_path (JStr i))) (\<lambda>q.
         bindT (do_read T q) (\<lambda>r. liftT (Inr (Inl r :: StoredContract + StoredContract))))) ?Q ?E t"
    if t: "alike s t" and missing: "docs s (job_record j) = None" for t
  proof (rule outcome_bind_lift)
    fix q assume "authorization_correlation_path (JStr i) = Inr q"
    note q = pair_paths(1)[OF this]
    show "outcome (bindT (do_read T q) (\<lambda>r. liftT (Inr (Inl r)))) ?Q ?E t"
      by (rule outcome_bind[OF outcome_conseq[OF reads_record[OF alike_sound[OF t] conjunct1[OF q] conjunct2[OF conjunct2[OF q]]]]],
          assumption)
        (use j missing alike_docs[OF t] in \<open>auto simp: outcome_def liftT_def intro: alike_trans[OF t]\<close>)
  qed (use t in simp)
  show "outcome (\<lambda>s. case do_read T p s of
       (Inr job, s') \<Rightarrow> (Inr (Inr job), s')
     | (Inl FileNotFoundError, s') \<Rightarrow>
         bindT (liftT (authorization_correlation_path (JStr (fst (i, d))))) (\<lambda>q.
         bindT (do_read T q) (\<lambda>r. liftT (Inr (Inl r)))) s'
     | (Inl e, s') \<Rightarrow> (Inl e, s')) ?Q ?E s"
  proof (cases "do_read T p s")
    case (Pair result t)
    have read: "outcome (do_read T p)
      (\<lambda>r t. alike s t \<and> docs s (job_record j) = Some (stored_document r) \<and> validate_binding p (stored_document r) = Inr ())
      (\<lambda>e t. alike s t \<and> (e = FileNotFoundError \<longrightarrow> docs s (job_record j) = None)) s"
      using reads_record[OF assms conjunct1[OF path] conjunct2[OF conjunct2[OF path]]] .
    show ?thesis
    proof (cases result)
      case (Inr r)
      then show ?thesis using read j by (simp add: outcome_def Pair)
    next
      case (Inl e)
      then have t: "alike s t" "e = FileNotFoundError \<longrightarrow> docs s (job_record j) = None" using read by (simp_all add: outcome_def Pair)
      show ?thesis using other[OF t(1)] t by (cases e) (simp_all add: outcome_def Pair Inl)
    qed
  qed
qed (use alike_refl[OF assms] in simp)

lemma reconcile_transaction_outcome:
  assumes "sound s"
  shows "outcome (reconcile_transaction env T limits)
    (\<lambda>r t. sound t \<and> log t = log s \<and> repaired_from (docs s) (docs t) \<and>
       stored_document ` set (reconciled_jobs r) =
         {e. \<exists>i d j. established (docs s) i d \<and> job_id_of d = Inr j \<and> docs t (job_record j) = Some e} \<and>
       (\<forall>x \<in> set (deferred_jobs r). \<exists>i. docs t (correlation_record i) = Some (stored_document x)) \<and>
       (has_intent (docs s) \<or> paired env (docs t) \<and> deferred_jobs r = [] \<and>
          stored_document ` set (reconciled_jobs r) = {e. \<exists>j. docs t (job_record j) = Some e}))
    (\<lambda>_ t. sound t \<and> log t = log s \<and> repaired_from (docs s) (docs t)) s" (is "outcome _ ?Q ?E s")
  unfolding reconcile_transaction_def
proof (rule inventory_bind[OF assms])
  fix known :: "(string \<times> json) list" and n :: nat and u
  assume u: "sound u" "log u = log s" "reconciled env (docs s) (docs u) known"
  then have repaired: "repaired_from (docs s) (docs u)" by (simp add: reconciled_def)
  let ?step = "\<lambda>(jobs, deferred) pair. bindT (snapshot_pair T pair) (\<lambda>found.
      liftT (Inr (case found of Inr job \<Rightarrow> (jobs @ [job], deferred) | Inl r \<Rightarrow> (jobs, deferred @ [r]))))"
  define J where "J xs = {e. \<exists>x \<in> set xs. \<exists>j. job_id_of (snd x) = Inr j \<and> docs u (job_record j) = Some e}" for xs :: "(string \<times> json) list"
  define missing where "missing xs y \<longleftrightarrow> (\<exists>x \<in> set xs. \<exists>j. job_id_of (snd x) = Inr j \<and> docs u (job_record j) = None \<and>
      docs u (correlation_record (fst x)) = Some y)" for xs :: "(string \<times> json) list" and y
  have run: "outcome (foldT ?step acc xs)
      (\<lambda>out t. alike u t \<and> stored_document ` set (fst out) = stored_document ` set (fst acc) \<union> J xs \<and>
         (\<forall>r \<in> set (snd out). r \<in> set (snd acc) \<or> missing xs (stored_document r))) (\<lambda>_ t. alike u t) v" if "alike u v" for acc xs v
    using that
  proof (induction xs arbitrary: acc v)
    case Nil
    then show ?case by (simp add: outcome_def liftT_def J_def)
  next
    case (Cons x xs)
    obtain i d where x: "x = (i, d)" by fastforce
    obtain js ds where acc: "acc = (js, ds)" by fastforce
    show ?case
      unfolding foldT.simps x acc prod.case bind_nested
    proof (rule look_bind[OF snapshot_read[OF alike_sound[OF Cons.prems]] Cons.prems])
      fix found :: "StoredContract + StoredContract" and t
      assume t: "alike u t" and "\<exists>j. job_id_of d = Inr j \<and> (case found of
          Inr r \<Rightarrow> docs v (job_record j) = Some (stored_document r)
        | Inl r \<Rightarrow> docs v (job_record j) = None \<and> docs v (correlation_record i) = Some (stored_document r))"
      then obtain j where j: "job_id_of d = Inr j" "case found of
          Inr r \<Rightarrow> docs u (job_record j) = Some (stored_document r)
        | Inl r \<Rightarrow> docs u (job_record j) = None \<and> docs u (correlation_record i) = Some (stored_document r)"
        unfolding alike_docs[OF Cons.prems] by blast
      have cons: "J ((i, d) # xs) = (case docs u (job_record j) of Some e \<Rightarrow> {e} | None \<Rightarrow> {}) \<union> J xs"
        "missing ((i, d) # xs) y \<longleftrightarrow> docs u (job_record j) = None \<and> docs u (correlation_record i) = Some y \<or> missing xs y" for y
        using j(1) by (auto simp: J_def missing_def split: option.splits)
      show "outcome (bindT (liftT (Inr (case found of Inr job \<Rightarrow> (js @ [job], ds) | Inl r \<Rightarrow> (js, ds @ [r])))) (\<lambda>b. foldT ?step b xs))
        (\<lambda>out t. alike u t \<and> stored_document ` set (fst out) = stored_document ` set (fst (js, ds)) \<union> J ((i, d) # xs) \<and>
           (\<forall>r \<in> set (snd out). r \<in> set (snd (js, ds)) \<or> missing ((i, d) # xs) (stored_document r))) (\<lambda>_ t. alike u t) t"
        unfolding bind_lift
        by (rule outcome_conseq[OF Cons.IH[OF t]]) (use j(2) in \<open>auto simp: cons split: sum.splits\<close>)
    qed
  qed
  have listed: "set known = {(i, d). established (docs s) i d}"
    using u(3) map_of_eq_Some_iff[of known] by (auto simp: reconciled_def)
  show "outcome (case (known, n) of (correlations, repaired) \<Rightarrow>
     bindT (foldT ?step ([], []) (sort_key fst correlations)) (\<lambda>(jobs, deferred).
     liftT (Inr \<lparr>reconciled_jobs = jobs, reconciliation_repaired = repaired, deferred_jobs = deferred\<rparr>))) ?Q ?E u"
    unfolding prod.case
  proof (rule outcome_bind[OF outcome_conseq[OF run[OF alike_refl[OF u(1)]]]], assumption)
    fix out :: "StoredContract list \<times> StoredContract list" and t
    assume out: "alike u t \<and> stored_document ` set (fst out) = stored_document ` set (fst ([] :: StoredContract list, [] :: StoredContract list)) \<union> J (sort_key fst known) \<and>
         (\<forall>r \<in> set (snd out). r \<in> set (snd ([] :: StoredContract list, [])) \<or> missing (sort_key fst known) (stored_document r))"
    have J: "J (sort_key fst known) = {e. \<exists>i d j. established (docs s) i d \<and> job_id_of d = Inr j \<and> docs u (job_record j) = Some e}"
      by (auto simp: J_def listed)
    have complete: "snd out = [] \<and> J (sort_key fst known) = {e. \<exists>j. docs u (job_record j) = Some e}" if no: "\<not> has_intent (docs s)"
    proof -
      have p: "paired env (docs u)" "\<And>i. docs u (correlation_record i) = map_of known i" using u(3) no by (auto simp: reconciled_def)
      have e: "established (docs s) i d \<longleftrightarrow> docs u (correlation_record i) = Some d" for i d using p(2) u(3) by (simp add: reconciled_def)
      have "\<not> missing (sort_key fst known) y" for y
        using p(1) by (force simp: missing_def listed e paired_def)
      moreover have "J (sort_key fst known) = {e. \<exists>j. docs u (job_record j) = Some e}"
        unfolding J e using p(1) by (fastforce simp: paired_def)
      ultimately show ?thesis using out by (cases "snd out") auto
    qed
    show "outcome (case out of (jobs, deferred) \<Rightarrow>
       liftT (Inr \<lparr>reconciled_jobs = jobs, reconciliation_repaired = n, deferred_jobs = deferred\<rparr>)) ?Q ?E t"
      using out u repaired complete by (cases out) (auto simp: outcome_def liftT_def alike_def J missing_def reconciled_def)
  qed (use u repaired in \<open>simp add: alike_def\<close>)
qed simp

end

end
