(* ===== verification/Correlation_Repository.thy ===== *)
theory Correlation_Repository
  imports Correlation_Laws
begin

text \<open>
  The transaction of the state repository as the one that admits correlations: the inventory names
  every record there is, creations are exclusive, and an intent that was read is there. The properties
  of admission, retries and repair follow on the repository's own records.
\<close>

section \<open>The transaction\<close>

definition repo_inspect_audit_correlation :: "state_transaction \<Rightarrow> json \<Rightarrow> ('z commit_state_scheme, AuditCorrelationSnapshot) tx" where
  "repo_inspect_audit_correlation t correlation =
     readT (\<lambda>s. thenE (require_exclusive t) (thenE (validate_uuid7 correlation)
       (bindE (commit_audit s) (\<lambda>segments. inspect_audit_correlation (tx_env t) DEFAULT_AUDIT_LIMITS segments correlation))))"

definition repository_correlation ::
    "state_transaction \<Rightarrow> (Segments \<Rightarrow> int) \<Rightarrow> 'z commit_state_scheme correlation_transaction" where
  "repository_correlation t allocated =
     commit_transaction.extend (commit_transaction.truncate (repository_commit t allocated))
       (correlation_transaction.fields (on_root (repo_measure_authorization_records t)) (repo_inspect_audit_correlation t))"

lemma repository_correlation_simps [simp]:
  "do_read (repository_correlation t allocated) = do_read (repository_commit t allocated)"
  "do_create_immutable (repository_correlation t allocated) = do_create_immutable (repository_commit t allocated)"
  "do_compare_and_swap (repository_correlation t allocated) = do_compare_and_swap (repository_commit t allocated)"
  "do_inspect_audit (repository_correlation t allocated) = do_inspect_audit (repository_commit t allocated)"
  "do_append_audit (repository_correlation t allocated) = do_append_audit (repository_commit t allocated)"
  "do_measure_inventory (repository_correlation t allocated) = do_measure_inventory (repository_commit t allocated)"
  "do_measure_intent_records (repository_correlation t allocated) = do_measure_intent_records (repository_commit t allocated)"
  "do_read_intent (repository_correlation t allocated) = do_read_intent (repository_commit t allocated)"
  "do_remove_reconciled_intent (repository_correlation t allocated) = do_remove_reconciled_intent (repository_commit t allocated)"
  "do_allocation_upper_bound (repository_correlation t allocated) = do_allocation_upper_bound (repository_commit t allocated)"
  "do_namespace_allocation_upper_bound (repository_correlation t allocated) = do_namespace_allocation_upper_bound (repository_commit t allocated)"
  "do_admit_inventory (repository_correlation t allocated) = do_admit_inventory (repository_commit t allocated)"
  "do_measure_filesystem_capacity (repository_correlation t allocated) = do_measure_filesystem_capacity (repository_commit t allocated)"
  "do_measure_authorization_records (repository_correlation t allocated) = on_root (repo_measure_authorization_records t)"
  "do_inspect_audit_correlation (repository_correlation t allocated) = repo_inspect_audit_correlation t"
  by (simp_all add: repository_correlation_def commit_transaction.defs correlation_transaction.defs)

section \<open>The promises\<close>

lemma correlation_observes:
  "leaves (same_commit t) (on_root (repo_measure_authorization_records t))"
  "leaves (same_commit t) (repo_inspect_audit_correlation t v)"
  unfolding repo_inspect_audit_correlation_def by (intro on_root_leaves quiet_repo_measures same_view_intros)+

text \<open>The measuring of a directory names every record in it.\<close>

lemma json_identifier: "identifier_from_name (i @ ''.json'') ''.json'' = Inr x \<Longrightarrow> x = i"
  by (auto simp: identifier_from_name_def Let_def bindE_Inr_iff split: if_splits)

lemma directory_measured:
  assumes "measure_record_directory policy components m n root = (Inr (ids, bytes_used), root')" "tree_ok root"
  shows "same_records env policy root root'" "records env policy root (components @ [i @ ''.json'']) \<noteq> None \<Longrightarrow> i \<in> set ids"
proof -
  obtain opened k root1 listed where run: "open_descendant policy root components = Inr opened"
      "remove_abandoned_publication_temporaries policy opened m root = (Inr k, root1)"
      "stable_directory_entries policy root1 opened n = Inr listed" "root' = root1"
      "traverseE (\<lambda>(name, _). identifier_from_name name ''.json'') listed = Inr ids"
    using assms(1) unfolding measure_record_directory_def
    by (auto simp: tx_simps bindE_Inr_iff thenE_Inr)
  have opened: "opened = components"
    using run(1) by (auto simp: open_descendant_def dest: open_directory_found split: if_splits)
  show same: "same_records env policy root root'"
    using leaves_at[OF quiet_remove_temporaries, of env policy root opened m] run(2,4) by simp
  assume "records env policy root (components @ [i @ ''.json'']) \<noteq> None"
  then have "records env policy root1 (components @ [i @ ''.json'']) \<noteq> None" using same assms(2) run(4) by (simp add: same_records_def)
  then have "fmlookup (root_nodes root1) (components @ [i @ ''.json'']) \<noteq> None"
    using free_holds_nothing[of root1 "components @ [i @ ''.json'']" env policy] by (metis records_def)
  then have "i @ ''.json'' \<in> set (scandir root1 components)" using scandir_lists by fastforce
  moreover have "list_all2 (\<lambda>name x. name = fst x) (scandir root1 components) listed"
    using run(3) unfolding opened stable_directory_entries_def bounded_names_def
    by (auto simp: thenE_Inr bindE_Inr_iff traverseE_Inr_iff elim!: list.rel_mono_strong split: if_split_asm)
  then have "scandir root1 components = map fst listed" by (induction rule: list_all2_induct) simp_all
  ultimately obtain k where "k < length listed" "fst (listed ! k) = i @ ''.json''" by (auto simp: in_set_conv_nth)
  with run(5) show "i \<in> set ids"
    by (auto simp: traverseE_Inr_iff list_all2_conv_all_nth in_set_conv_nth case_prod_beta' dest!: spec[of _ k] json_identifier)
qed

lemma sorted_unique_distinct: "require_sorted_unique xs msg = Inr u \<Longrightarrow> distinct xs"
  by (auto simp: require_sorted_unique_def split: if_split_asm) (metis distinct_remdups distinct_sort)

lemma repository_lists_pairs:
  assumes "commit_sound t s"
  shows "outcome (on_root (repo_measure_authorization_records t))
    (\<lambda>inventory _. distinct (correlation_ids inventory) \<and> distinct (job_ids inventory) \<and>
       (\<forall>i. commit_records t s (correlation_record i) \<noteq> None \<longrightarrow> i \<in> set (correlation_ids inventory)) \<and>
       (\<forall>j. commit_records t s (job_record j) \<noteq> None \<longrightarrow> j \<in> set (job_ids inventory))) (\<lambda>_ _. True) s"
proof -
  have "distinct (correlation_ids inventory) \<and> distinct (job_ids inventory) \<and>
       (\<forall>i. slots t root (correlation_record i) \<noteq> None \<longrightarrow> i \<in> set (correlation_ids inventory)) \<and>
       (\<forall>j. slots t root (job_record j) \<noteq> None \<longrightarrow> j \<in> set (job_ids inventory))"
    if run: "repo_measure_authorization_records t root = (Inr inventory, root')" and ok: "tree_ok root" for root root' inventory
  proof -
    obtain c1 c2 c3 n1 n2 n3 m1 m2 m3 root1 root2 z1 z2 z3 where
        c: "measure_record_directory (tx_policy t) [''authorization'', ''correlations''] m1 n1 root = (Inr (c1, z1), root1)"
        "measure_record_directory (tx_policy t) [''authorization'', ''jobs''] m2 n2 root1 = (Inr (c2, z2), root2)"
        "measure_record_directory (tx_policy t) [''authorization'', ''results''] m3 n3 root2 = (Inr (c3, z3), root')"
      and post: "AuthorizationRecordInventory_post_init
        \<lparr>job_ids = c2, result_ids = c3, correlation_ids = c1, authorization_bytes = z1 + z2 + z3\<rparr> = Inr inventory"
      using run unfolding repo_measure_authorization_records_def measure_authorization_records_def AUTHORIZATION_DIRECTORIES_def
      by (auto simp: tx_simps exclusive_def)
    have inventory: "inventory = \<lparr>job_ids = c2, result_ids = c3, correlation_ids = c1, authorization_bytes = z1 + z2 + z3\<rparr>"
        "distinct c1" "distinct c2"
      using post by (auto simp: AuthorizationRecordInventory_post_init_def thenE_Inr bindE_Inr_iff split: if_split_asm
          dest: sorted_unique_distinct)
    have "same_records (tx_env t) (tx_policy t) root root1" by (rule directory_measured(1)[OF c(1) ok])
    then have root1: "slots t root1 = slots t root" "tree_ok root1" using ok by (simp_all add: same_records_def)
    show ?thesis
      using inventory directory_measured(2)[OF c(1) ok, of "tx_env t"] directory_measured(2)[OF c(2) root1(2), of "tx_env t"] root1(1)
      by (simp add: correlation_record_def job_record_def)
  qed
  then show ?thesis using assms
    by (auto simp: outcome_def on_root_def commit_records_def commit_sound_def split: prod.splits sum.splits)
qed

lemma repository_binds: "outcome (on_root (transaction_read t p)) (\<lambda>r _. validate_binding p (stored_document r) = Inr ()) (\<lambda>_ _. True) s"
  by (auto simp: outcome_def on_root_def transaction_read_iff read_path_def read_locked_iff well_typed_def split: prod.splits sum.splits)

lemma repository_creates_new:
  assumes "commit_sound t s" "path_ok p" "path_components p = Inr c"
  shows "outcome (on_root (create_immutable t p d)) (\<lambda>r _. commit_records t s c = None \<and> stored_document r = d)
    (\<lambda>_ u. commit_records t u = commit_records t s \<or> commit_records t s c = None) s"
proof -
  have t: "transaction_ok t" using assms(1) by (simp add: commit_sound_def)
  have "slots t root c = None \<and> stored_document r = d" if run: "create_immutable t p d root = (Inr r, root')" for root r root'
  proof -
    have read: "fmlookup (root_nodes root) c = None" "read_path t p root' = Inr r"
      using run assms(3) by (auto simp: create_immutable_def create_immutable_bytes_def tx_simps exclusive_def)
    have "slots t root c = None" using free_holds_nothing[OF read(1)] by (simp add: records_def)
    moreover have "Some (stored_document r) = Some d"
      using read_path_slots(1)[OF read(2) assms(2,3)] create_done[OF t assms(2,3) run] by (metis fun_upd_same)
    ultimately show ?thesis by simp
  qed
  then show ?thesis using create_error[OF t assms(2,3)]
    by (auto simp: outcome_def on_root_def commit_records_def split: prod.splits sum.splits)
qed

lemma repository_intent_found:
  "outcome (on_root (repo_read_intent t (JStr i))) (\<lambda>_ _. commit_records t s [''intents'', i @ ''.json''] \<noteq> None) (\<lambda>_ _. True) s"
proof -
  have "slots t root [''intents'', i @ ''.json''] \<noteq> None"
    if run: "read_intent_locked (tx_env t) (tx_policy t) root (JStr i) = Inr r" for root r
  proof -
    obtain raw d where d: "fullmatch UUID7_PATTERN i" "read_regular (tx_policy t) root [''intents'', i @ ''.json''] MAX_CANONICAL_BYTES = Inr raw"
        "decode_json_object (env_codec (tx_env t)) raw MAX_CANONICAL_BYTES = Inr d"
      using run by (auto simp: read_intent_locked_def decode_contract_def bindE_Inr_iff thenE_Inr uuid7_iff)
    then have "record_slot [''intents'', i @ ''.json'']" by (auto simp: record_slot_def uuid7_file_def is_uuid7_def)
    then show ?thesis using d by (simp add: records_def stored_def)
  qed
  then show ?thesis
    by (auto simp: outcome_def on_root_def commit_records_def repo_read_intent_def exclusive_def tx_simps split: prod.splits sum.splits)
qed

interpretation repo_correlation: correlation_store "tx_env t" "repository_correlation t allocated" "commit_records t" "commit_log t"
    "commit_sound t"
  for t allocated
  by unfold_locales
    (simp_all del: not_None_eq add: repo_commit.observe repo_commit.read_finds repo_commit.inspect_reads repo_commit.no_intents
      repo_commit.creates repo_commit.swaps repo_commit.removes repo_commit.appends correlation_observes,
      simp_all del: not_None_eq add: repository_commit_def repository_lists_pairs repository_binds repository_creates_new repository_intent_found)

section \<open>The properties\<close>

text \<open>Complete pairs leave nothing to repair, and the pair of an admission is complete.\<close>

lemma paired_repaired: "paired env D \<Longrightarrow> repaired_from D D' \<Longrightarrow> D' = D"
  by (rule ext) (fastforce simp: paired_def repaired_from_def copy_of_def)

lemma admitted_paired:
  assumes "pair_admitted env D D' candidate c j" "correlation_id_of candidate = Inr c" "job_id_of candidate = Inr j"
  shows "paired env D'"
proof -
  obtain D1 where D1: "paired env D1" "D1 (correlation_record c) = None" "D1 (job_record j) = None"
      "D' = D1(correlation_record c \<mapsto> candidate, job_record j \<mapsto> candidate)" using assms(1) by (auto simp: pair_admitted_def)
  show ?thesis
    unfolding paired_def
  proof (intro conjI allI impI)
    fix i d assume d: "D' (correlation_record i) = Some d"
    show "correlation_id_of d = Inr i" using d D1 assms(2) by (auto simp: paired_def split: if_split_asm)
    show "\<exists>j e. job_id_of d = Inr j \<and> D' (job_record j) = Some e \<and>
        (e = d \<or> (\<exists>b. durable_binding env e = Inr b \<and> durable_binding env d = Inr b))"
    proof (cases "i = c")
      case True
      then show ?thesis using d D1(4) assms(3) by simp
    next
      case False
      then have "D1 (correlation_record i) = Some d" using d D1(4) by simp
      then obtain j' e where "job_id_of d = Inr j'" "D1 (job_record j') = Some e"
          "e = d \<or> (\<exists>b. durable_binding env e = Inr b \<and> durable_binding env d = Inr b)"
        using D1(1) unfolding paired_def by blast
      then show ?thesis using D1(3,4) by (intro exI[of _ j'] exI[of _ e]) auto
    qed
  next
    fix i e assume e: "D' (job_record i) = Some e"
    show "job_id_of e = Inr i" using e D1 assms(3) by (auto simp: paired_def split: if_split_asm)
    show "\<exists>i' d. correlation_id_of e = Inr i' \<and> D' (correlation_record i') = Some d \<and> job_id_of d = Inr i"
    proof (cases "i = j")
      case True
      then show ?thesis using e D1(4) assms(2,3) by simp
    next
      case False
      then have "D1 (job_record i) = Some e" using e D1(4) by simp
      then obtain i' d where "correlation_id_of e = Inr i'" "D1 (correlation_record i') = Some d" "job_id_of d = Inr i"
        using D1(1) unfolding paired_def by blast
      then show ?thesis using D1(2,4) by (intro exI[of _ i'] exI[of _ d]) auto
    qed
  qed
qed

text \<open>C6. A request is resolved once. Where the resolution of a candidate returns a new job, neither the correlation nor
  the job was there; the two records are published with the candidate as their content, every pair of
  the store is complete, and the accepted times of all its correlations keep the limits of the rate.
  Where it returns an established job, the retry has the binding of that correlation. Where it raises,
  what is there are the records of before, repairs, and no more than a first part of the new pair. No
  record is ever replaced, and the audit log is untouched.\<close>

theorem correlation_resolved:
  assumes "commit_sound t s" "validate_candidate (tx_env t) candidate now = Inr (c, j, a, canonical)"
    and "resolve (tx_env t) (repository_correlation t allocated) limits candidate now s = (r, s')"
  shows "commit_sound t s' \<and> commit_log t s' = commit_log t s \<and>
    (case r of
       Inr x \<Rightarrow>
         (if resolution_created x
          then pair_admitted (tx_env t) (commit_records t s) (commit_records t s') candidate c j \<and>
            stored_document (resolved_job x) = candidate \<and> paired (tx_env t) (commit_records t s') \<and>
            rate_kept (commit_records t s') a
          else answered (tx_env t) (commit_records t s) (commit_records t s') candidate c (stored_document (resolved_job x)))
     | Inl e \<Rightarrow> resolution_interrupted (commit_records t s) (commit_records t s') candidate c j)"
  using repo_correlation.resolve_outcome[OF assms(1,2), of allocated limits] assms(3) candidate_of[OF assms(2)]
  by (auto simp: outcome_def admitted_paired split: sum.splits if_split_asm)



text \<open>A caller that asks for a retry is answered from the same records.\<close>

theorem find_retry_exact:
  assumes "commit_sound t s"
    and "find_retry (tx_env t) (repository_correlation t allocated) limits (JStr c) binding s = (Inr found, s')"
  shows "repaired_from (commit_records t s) (commit_records t s') \<and>
    (case found of
       None \<Rightarrow> \<nexists>d. established (commit_records t s) c d
     | Some x \<Rightarrow> \<not> resolution_created x \<and> (\<exists>d b i. established (commit_records t s) c d \<and>
         caller_retry_binding (tx_env t) d = Inr b \<and> canonical_bytes (tx_env t) binding = Inr b \<and>
         job_agrees (tx_env t) (commit_records t s') d i \<and>
         commit_records t s' (job_record i) = Some (stored_document (resolved_job x))))"
  using repo_correlation.find_retry_outcome[OF assms(1), of allocated limits c binding] assms(2)
  by (simp add: outcome_def)

end
