(* ===== verification/Correlation_Samples.thy ===== *)
theory Correlation_Samples
  imports Correlation_Repository Commit_Samples
begin

text \<open>
  The properties of admission, applied to the sample repository: its one job and its correlation are a
  complete pair, and the request of the job comes again.
\<close>

section \<open>The documents of the pair\<close>

lemma store_stripped:
  "getitem (store_job ''pending'') ''phase'' = lit ''pending''" "getitem (store_job ''pending'') ''jobId'' = lit sample_identity"
  "getitem (store_job ''pending'') ''acceptedAt'' = lit ''2026-01-01T00:00:00Z''"
  "getitem (store_job ''pending'') ''request'' = Inr store_request"
  "is_dict (store_job phase_name)" "is_dict store_request" "getitem store_request ''correlationId'' = lit sample_identity"
  by (simp_all add: store_job_def store_request_def sample_contract_def)

lemma store_durable_apart:
  "store_durable \<noteq> store_request" "store_durable \<noteq> store_job phase_name" "store_durable \<noteq> store_namespace"
  "store_retry \<noteq> store_request" "store_retry \<noteq> store_job phase_name" "store_retry \<noteq> store_namespace" "store_retry \<noteq> store_durable"
proof -
  have has: "dict_has store_durable ''jobId''" "\<not> dict_has store_durable ''phase''" "dict_has store_durable ''requestDigest''"
      "\<not> dict_has store_retry ''jobId''" "\<not> dict_has store_retry ''phase''" "dict_has store_retry ''requestDigest''"
      "\<not> dict_has store_request ''requestDigest''" "\<not> dict_has store_namespace ''requestDigest''" "dict_has (store_job p) ''phase''" for p
    by (simp_all add: store_retry_def store_durable_def store_job_def store_request_def store_namespace_def sample_contract_def obj_def)
  then show "store_durable \<noteq> store_request" "store_durable \<noteq> store_job phase_name" "store_durable \<noteq> store_namespace"
    "store_retry \<noteq> store_request" "store_retry \<noteq> store_job phase_name" "store_retry \<noteq> store_namespace" "store_retry \<noteq> store_durable"
    by metis+
qed

definition store_fields :: "string list" where
  "store_fields = [''apiVersion'', ''kind'', ''jobId'', ''phase'', ''acceptedAt'', ''compatibilityVersion'', ''request'', ''requestDigest'',
     ''artifact'', ''executionValidated'', ''expectedSource'']"

lemma without_same:
  assumes "list_all (\<lambda>k. (k \<in> set ks) = (k \<in> set ls)) store_fields"
  shows "without ks (store_job ''pending'') = without ls (store_job ''pending'')"
proof -
  obtain m where m: "store_job ''pending'' = JObj m" "fset (fmdom m) = set store_fields"
    by (simp add: store_job_def sample_contract_def obj_def fset_of_list.rep_eq store_fields_def)
  have "fmdrop_set (set ks) m = fmdrop_set (set ls) m"
  proof (rule fmap_ext)
    fix k
    show "fmlookup (fmdrop_set (set ks) m) k = fmlookup (fmdrop_set (set ls) m) k"
      using assms m(2) fmdomI[of m k] by (cases "fmlookup m k") (auto simp: list_all_iff)
  qed
  then show ?thesis by (simp add: m(1))
qed

lemma store_bindings:
  "durable_binding store_env (store_job ''pending'') = Inr [95, 10]" "retry_binding store_env (store_job ''pending'') = Inr [96, 10]"
proof -
  have bytes: "canonical_bytes store_env store_durable = Inr [95, 10]" "canonical_bytes store_env store_retry = Inr [96, 10]"
    by (simp_all add: canonical_bytes_def canonical_json_bytes_def store_env_def table_codec_def store_durable_apart MAX_CANONICAL_BYTES_def)
  have fields: "list_all (\<lambda>k. (k \<in> set (EXECUTION_FIELDS @ [''phase''])) = (k \<in> set [''phase'', ''executionValidated''])) store_fields"
    "list_all (\<lambda>k. (k \<in> set (EXECUTION_FIELDS @ [''phase''] @ [''acceptedAt''] @ [''jobId''])) =
       (k \<in> set ([''jobId'', ''acceptedAt''] @ [''phase'', ''executionValidated'']))) store_fields"
    by (simp_all add: EXECUTION_FIELDS_def store_fields_def)
  have "without EXECUTION_FIELDS (without [''phase''] (store_job ''pending'')) = store_durable"
    "without EXECUTION_FIELDS (without [''phase''] (without [''acceptedAt''] (without [''jobId''] (store_job ''pending'')))) = store_retry"
    using fields[THEN without_same] by (simp_all only: store_retry_def store_durable_def without_without append_assoc)
  moreover have "pop (store_job ''pending'') ''phase'' = Inr (without [''phase''] (store_job ''pending''))"
    "pop (store_job ''pending'') ''jobId'' = Inr (without [''jobId''] (store_job ''pending''))"
    "pop (without [''jobId''] (store_job ''pending'')) ''acceptedAt'' = Inr (without [''acceptedAt''] (without [''jobId''] (store_job ''pending'')))"
    "pop (without [''acceptedAt''] (without [''jobId''] (store_job ''pending''))) ''phase'' =
       Inr (without [''phase''] (without [''acceptedAt''] (without [''jobId''] (store_job ''pending''))))"
    by (simp_all add: pop_def store_job_def sample_contract_def obj_def fmlookup_of_list)
  ultimately show "durable_binding store_env (store_job ''pending'') = Inr [95, 10]"
    "retry_binding store_env (store_job ''pending'') = Inr [96, 10]"
    using bytes by (simp_all add: durable_binding_def retry_binding_def)
qed

definition store_clock :: py_datetime where
  "store_clock = \<lparr>utc_microseconds = 63902822400000000, tz_aware = True\<rparr>"

lemma store_accepted: "accepted_at (store_job ''pending'') = Inr (utc_microseconds store_clock)"
proof -
  have "(case fromisoformat (replace_z ''2026-01-01T00:00:00Z'') of None \<Rightarrow> Inl (CorrelationError ''x'')
      | Some timestamp \<Rightarrow> if \<not> tz_aware timestamp then Inl (CorrelationError ''y'') else as_utc timestamp)
      = Inr (utc_microseconds store_clock)" by code_simp
  then show ?thesis by (auto simp: accepted_at_def store_stripped split: option.splits if_split_asm)
qed

lemma store_candidate:
  "validate_candidate store_env (store_job ''pending'') store_clock =
     Inr (sample_identity, sample_identity, utc_microseconds store_clock, [92, 10])"
proof -
  have ids: "authorization_correlation_path (JStr sample_identity) = Inr correlation_path"
      "authorization_job_path (JStr sample_identity) = Inr job_path"
    by (simp_all add: path_constructor_defs store_identity correlation_path_def job_path_def)
  have bound: "validate_binding correlation_path (store_job ''pending'') = Inr ()" "validate_binding job_path (store_job ''pending'') = Inr ()"
    using store_well_typed[of "''pending''"] by (simp_all add: well_typed_def)
  show ?thesis
    using store_valid(1)[of "''pending''"] store_bytes(2) store_accepted ids bound
    by (simp add: validate_candidate_def store_stripped job_id_of_def store_identity thenE_def store_clock_def as_utc_def)
qed

lemma store_paired: "paired store_env (commit_records store_transaction store_commit)"
proof -
  have one: "commit_records store_transaction store_commit c = (if c \<in> {job_slot, correlation_slot} then Some (store_job ''pending'') else None)" for c
  proof (cases "c \<in> {job_slot, correlation_slot}")
    case True
    then show ?thesis using store_records by (auto simp: commit_records_def store_commit_def)
  next
    case False
    then have "stored store_env store_policy store_root c = None"
      using store_modes by (intro stored_None) (auto simp: store_lookup store_directory_def S_IFREG_def S_IFDIR_def split: if_splits)
    then show ?thesis using False by (auto simp: records_def commit_records_def store_commit_def)
  qed
  have slots: "correlation_record i \<in> {job_slot, correlation_slot} \<longleftrightarrow> i = sample_identity"
      "job_record i \<in> {job_slot, correlation_slot} \<longleftrightarrow> i = sample_identity" for i
    by (auto simp: correlation_record_def job_record_def job_slot_def correlation_slot_def store_file_def)
  show ?thesis unfolding paired_def one slots
    by (simp add: job_id_of_def correlation_id_of_def store_stripped store_identity)
qed

section \<open>The directories of the pair\<close>

lemma scandir_of_list:
  assumes "root_nodes root = fmap_of_list nodes"
  shows "scandir root d = sort (remdups (map last (filter (\<lambda>p. p \<noteq> [] \<and> butlast p = d) (map fst nodes))))"
proof -
  have "fset (fimage last (ffilter (\<lambda>p. p \<noteq> [] \<and> butlast p = d) (fmdom (root_nodes root)))) =
      set (map last (filter (\<lambda>p. p \<noteq> [] \<and> butlast p = d) (map fst nodes)))"
    by (auto simp: assms fset_of_list.rep_eq)
  then show ?thesis unfolding scandir_def sorted_list_of_fset.rep_eq by (simp only: sorted_list_of_set_sort_remdups)
qed

lemma store_scans:
  "scandir store_root [''authorization''] = AUTHORIZATION_DIRECTORIES"
  "scandir store_root [''authorization'', ''correlations''] = [store_file]"
  "scandir store_root [''authorization'', ''jobs''] = [store_file]"
  "scandir store_root [''authorization'', ''results''] = []"
proof -
  have nodes: "root_nodes store_root = fmap_of_list store_nodes" by (simp add: store_root_def)
  have paths: "map fst store_nodes = store_directories @ [job_slot, correlation_slot]" by (simp add: store_nodes_def o_def)
  have below: "map last (filter (\<lambda>p. p \<noteq> [] \<and> butlast p = [''authorization'']) (store_directories @ [job_slot, correlation_slot])) =
        AUTHORIZATION_DIRECTORIES"
    "map last (filter (\<lambda>p. p \<noteq> [] \<and> butlast p = [''authorization'', ''correlations'']) (store_directories @ [job_slot, correlation_slot])) =
        [store_file]"
    "map last (filter (\<lambda>p. p \<noteq> [] \<and> butlast p = [''authorization'', ''jobs'']) (store_directories @ [job_slot, correlation_slot])) =
        [store_file]"
    "map last (filter (\<lambda>p. p \<noteq> [] \<and> butlast p = [''authorization'', ''results'']) (store_directories @ [job_slot, correlation_slot])) =
        []"
    by (simp_all add: store_directories_def job_slot_def correlation_slot_def AUTHORIZATION_DIRECTORIES_def)
  have "sort (remdups AUTHORIZATION_DIRECTORIES) = AUTHORIZATION_DIRECTORIES" by code_simp
  then show "scandir store_root [''authorization''] = AUTHORIZATION_DIRECTORIES"
    "scandir store_root [''authorization'', ''correlations''] = [store_file]"
    "scandir store_root [''authorization'', ''jobs''] = [store_file]" "scandir store_root [''authorization'', ''results''] = []"
    by (simp_all only: scandir_of_list[OF nodes] paths below) simp_all
qed

lemma store_opened:
  assumes "c \<in> {[''authorization''], [''authorization'', ''correlations''], [''authorization'', ''jobs''], [''authorization'', ''results'']}"
  shows "open_descendant store_policy store_root c = Inr c" "stat_of store_root c = Inr (store_stat\<lparr>st_mode := S_IFDIR OR 448\<rparr>)"
  using assms
  by (auto simp: open_descendant_def open_directory_def validate_components_def thenE_def open_component_def store_lookup
      store_directories_def store_directory_def store_directory_valid stat_of_def)

lemma store_file_stat:
  "stat_of store_root job_slot = Inr store_stat" "stat_of store_root correlation_slot = Inr store_stat"
  by (simp_all add: stat_of_def store_slots)

lemma store_root_kept: "store_root\<lparr>root_nodes := fmdrop_set {} (root_nodes store_root)\<rparr> = store_root"
  by (simp add: store_root_def)

lemma store_file_named: "identifier_from_name store_file ''.json'' = Inr sample_identity" "take 11 store_file \<noteq> TEMP_NAME_PREFIX"
proof -
  show "identifier_from_name store_file ''.json'' = Inr sample_identity"
    using store_identity(2) by (simp add: identifier_from_name_def store_file_def Let_def)
  show "take 11 store_file \<noteq> TEMP_NAME_PREFIX" by (simp add: store_file_def sample_identity_def TEMP_NAME_PREFIX_def)
qed

lemma store_record_bounded: "validate_bounded_record store_policy (store_file, store_stat) = Inr ()"
  using store_modes
  by (simp add: validate_bounded_record_def store_file_named thenE_def store_stat_def validate_regular_metadata_def store_policy_def
      MAX_CANONICAL_BYTES_def)

lemma store_directories_measured:
  assumes "n > 0" "k > 0"
  shows "measure_record_directory store_policy [''authorization'', ''correlations''] k n store_root = (Inr ([sample_identity], 4096), store_root)"
    and "measure_record_directory store_policy [''authorization'', ''jobs''] k n store_root = (Inr ([sample_identity], 4096), store_root)"
    and "measure_record_directory store_policy [''authorization'', ''results''] k n store_root = (Inr ([], 0), store_root)"
proof -
  note run = measure_record_directory_def remove_abandoned_publication_temporaries_def publication_temporaries_def
    stable_directory_entries_def bounded_names_def tx_simps store_opened store_scans store_file_named store_root_kept store_record_bounded
    store_directory_valid entries_allocation_def BLOCK_BYTES_def thenE_def Let_def traverseE.simps
    store_file_stat[unfolded job_slot_def correlation_slot_def]
  have "st_blocks store_stat = 8" by (simp add: store_stat_def)
  then show "measure_record_directory store_policy [''authorization'', ''correlations''] k n store_root = (Inr ([sample_identity], 4096), store_root)"
    "measure_record_directory store_policy [''authorization'', ''jobs''] k n store_root = (Inr ([sample_identity], 4096), store_root)"
    "measure_record_directory store_policy [''authorization'', ''results''] k n store_root = (Inr ([], 0), store_root)"
    using assms by (simp_all add: run)
qed

definition store_inventory :: AuthorizationRecordInventory where
  "store_inventory = \<lparr>job_ids = [sample_identity], result_ids = [], correlation_ids = [sample_identity], authorization_bytes = 8192\<rparr>"

lemma store_measured: "repo_measure_authorization_records store_transaction store_root = (Inr store_inventory, store_root)"
proof -
  have "open_descendant store_policy store_root [''authorization''] = Inr [''authorization'']" by (rule store_opened) simp
  moreover have "stable_directory_entries store_policy store_root [''authorization''] (length AUTHORIZATION_DIRECTORIES) =
      Inr (map (\<lambda>name. (name, store_stat\<lparr>st_mode := S_IFDIR OR 448\<rparr>)) AUTHORIZATION_DIRECTORIES)"
    by (simp add: stable_directory_entries_def bounded_names_def store_scans store_opened store_directory_valid thenE_def
        AUTHORIZATION_DIRECTORIES_def)
  moreover have "AuthorizationRecordInventory_post_init store_inventory = Inr store_inventory"
    using store_identity(2)
    by (simp add: AuthorizationRecordInventory_post_init_def store_inventory_def require_sorted_unique_def require_canonical_ids_def
        thenE_def anyE.simps testE_def catch_contract_def)
  ultimately show ?thesis
    by (simp add: repo_measure_authorization_records_def exclusive_def measure_authorization_records_def tx_simps
        AUTHORIZATION_DIRECTORIES_def store_directories_measured DEFAULT_STATE_INVENTORY_LIMITS_def MAXIMUM_AUTHORIZATION_RECORDS_def
        store_inventory_def)
qed

lemma store_runs:
  "resolve store_env (repository_correlation store_transaction allocated) limits (store_job ''pending'') store_clock store_commit =
     (Inr \<lparr>resolved_job = pending_record, resolution_created = False, resolution_repaired = 0\<rparr>, store_commit)" (is ?resolved)
  "reconcile_transaction store_env (repository_correlation store_transaction allocated) limits store_commit =
     (Inr \<lparr>reconciled_jobs = [pending_record], reconciliation_repaired = 0, deferred_jobs = []\<rparr>, store_commit)" (is ?reconciled)
proof -
  have paths: "authorization_correlation_path (JStr sample_identity) = Inr correlation_path"
      "authorization_job_path (JStr sample_identity) = Inr job_path"
    by (simp_all add: path_constructor_defs store_identity correlation_path_def job_path_def)
  have correlation: "read_path store_transaction correlation_path store_root = Inr pending_record"
    using store_reads(2) store_decoded store_well_typed(2)[of "''pending''"] store_bytes(2) store_paths(5)
    by (auto simp: read_path_def read_locked_iff pending_record_def correlation_path_def StateRecordPath.defs)
  have reads: "transaction_read store_transaction correlation_path store_root = (Inr pending_record, store_root)"
      "transaction_read store_transaction job_path store_root = (Inr pending_record, store_root)"
    using correlation store_job_read by (simp_all add: transaction_read_iff)
  have ids: "job_id_of (store_job ''pending'') = Inr sample_identity" "correlation_id_of (store_job ''pending'') = Inr sample_identity"
    by (simp_all add: job_id_of_def correlation_id_of_def store_stripped store_identity)
  have plan: "plan_repairs store_env [(sample_identity, store_job ''pending'')] [(sample_identity, store_job ''pending'')] =
      Inr ([(sample_identity, store_job ''pending'')], [])"
    by (simp add: plan_repairs_def index_jobs_def index_correlations_def job_repairs_def correlation_repairs_def ids store_bindings
        thenE_def testE_def setdefault_def)
  let ?T = "repository_correlation store_transaction allocated"
  have kept: "store_commit\<lparr>commit_root := store_root\<rparr> = store_commit" "commit_root store_commit = store_root"
    by (simp_all add: store_commit_def)
  have do_reads: "do_read (repository_commit store_transaction allocated) correlation_path store_commit = (Inr pending_record, store_commit)"
      "do_read (repository_commit store_transaction allocated) job_path store_commit = (Inr pending_record, store_commit)"
    by (simp_all add: repository_commit_def on_root_def kept reads)
  have measured: "on_root (repo_measure_authorization_records store_transaction) store_commit = (Inr store_inventory, store_commit)"
    by (simp add: on_root_def kept store_measured)
  have pending: "stored_document pending_record = store_job ''pending''" by (simp add: pending_record_def)
  have documents: "read_documents ?T authorization_correlation_path [sample_identity] store_commit =
        (Inr [(sample_identity, store_job ''pending'')], store_commit)"
      "read_documents ?T authorization_job_path [sample_identity] store_commit =
        (Inr [(sample_identity, store_job ''pending'')], store_commit)"
    by (simp_all add: read_documents_def bindT_def liftT_def paths do_reads pending)
  have reconciled: "reconcile_pairs store_env ?T limits store_inventory store_commit =
      (Inr ([(sample_identity, store_job ''pending'')], 0), store_commit)"
    by (simp add: reconcile_pairs_def bindT_def liftT_def store_inventory_def documents plan publish_plan_def)
  have job: "read_retry_job ?T sample_identity store_commit = (Inr pending_record, store_commit)"
    by (simp add: read_retry_job_def bindT_def liftT_def paths catch_missing_def do_reads)
  show ?reconciled
    by (simp add: reconcile_transaction_def bindT_def liftT_def measured reconciled snapshot_pair_def ids paths do_reads)
  show ?resolved
    by (simp add: resolve_def bindT_def liftT_def store_candidate measured reconciled store_bindings established_resolution_def ids job)
qed

section \<open>The properties\<close>

lemma store_answer:
  "resolve (tx_env store_transaction) (repository_correlation store_transaction (\<lambda>_. 4096)) DEFAULT_HOST_CAPACITY_LIMITS
     (store_job ''pending'') store_clock store_commit =
     (Inr \<lparr>resolved_job = pending_record, resolution_created = False, resolution_repaired = 0\<rparr>, store_commit)"
  "validate_candidate (tx_env store_transaction) (store_job ''pending'') store_clock =
     Inr (sample_identity, sample_identity, utc_microseconds store_clock, [92, 10])"
  "paired (tx_env store_transaction) (commit_records store_transaction store_commit)"
  by (simp_all add: store_runs store_candidate store_paired)

theorem correlation_resolved_witness:
  "resolve store_env (repository_correlation store_transaction (\<lambda>_. 4096)) DEFAULT_HOST_CAPACITY_LIMITS (store_job ''pending'')
     store_clock store_commit = (Inr \<lparr>resolved_job = pending_record, resolution_created = False, resolution_repaired = 0\<rparr>, store_commit) \<and>
   answered store_env (commit_records store_transaction store_commit) (commit_records store_transaction store_commit)
     (store_job ''pending'') sample_identity (store_job ''pending'')"
  using correlation_resolved[OF store_commit_sound store_answer(2,1)] by (simp add: pending_record_def store_runs)



end
