(* ===== verification/Spec2Isabelle.thy ===== *)
theory Spec2Isabelle
  imports Domain Lifecycle Operator_Protocol Canonical Capacity Locks Caddy_Startup Zip_Extraction Plan_Coherence Audit_Append Repository_Samples Commit_Samples Correlation_Samples
begin

text \<open>
  Verification of the static publication platform of lowerduckpond.net.

  The platform publishes static sites of tenants. An operator sends a framed request
  (\<^verbatim>\<open>static-contracts/operator_protocol.py\<close>); the host agent validates it against the contract schemas
  (\<^verbatim>\<open>static-contracts/schema.py\<close>), plans one transition of the lifecycle matrix
  (\<^verbatim>\<open>static-host-agent/lifecycle_plan.py\<close>), inspects uploaded archives
  (\<^verbatim>\<open>static-host-agent/zip_structure.py\<close>), admits the capacity it needs (\<^verbatim>\<open>capacity.py\<close>), starts Caddy under
  a fenced intent (\<^verbatim>\<open>caddy_startup.py\<close>) and records the outcome in a hash-chained audit log
  (\<^verbatim>\<open>audit.py\<close>, \<^verbatim>\<open>audit_archive_formats.py\<close>), all under an ordered set of host locks (\<^verbatim>\<open>locks.py\<close>).

  \<^bold>\<open>Theories.\<close>
  \<^item> Prelude: the error monad, bytes and fixed-width integers, regular-expression classes, Python list and
    string operations, and the locale of canonical codecs. Json: exceptions and documents. Sha256: the hash.
  \<^item> Identifiers (\<^verbatim>\<open>identifiers.py\<close>, \<^verbatim>\<open>values.py\<close>): validators of UUIDv7, slugs, origins; the locale
    \<^verbatim>\<open>hostname_scheme\<close> and its interpretation show that public hostnames of tenants never collide.
    Domain (\<^verbatim>\<open>static-domain\<close>): identity generation and the manifest of a created tenant.
  \<^item> Lifecycle (\<^verbatim>\<open>lifecycle.py\<close>): the two transition tables entry by entry, reachability and phases.
  \<^item> Operator_Protocol, Utf8: frame headers and acknowledgements as canonical codecs.
  \<^item> Digest, Canonical (\<^verbatim>\<open>_digest.py\<close>, \<^verbatim>\<open>canonical.py\<close>): framed digests, strict decoding.
  \<^item> Schema_Base, Schema_Jobs, Schema_Intents, Schema (\<^verbatim>\<open>schema.py\<close>, \<^verbatim>\<open>digest.py\<close>): every semantic validator
    and the validation, decoding and projection entry points.
  \<^item> Lifecycle_Plan, Plan_Coherence (\<^verbatim>\<open>lifecycle_plan.py\<close>): the planners; whatever they return is a set of
    accepted contracts that agree with each other and is a transition of the lifecycle matrix.
  \<^item> Audit_Formats, Audit_Witness (\<^verbatim>\<open>audit_archive_formats.py\<close>): archived segments, their lookup witnesses and
    the proof cache as explicit state. Audit_Chain (\<^verbatim>\<open>audit.py\<close>, \<^verbatim>\<open>audit_archive_admission.py\<close>): reading,
    validating, admitting, appending. Audit_Log, Audit_Append: the chain as an inductive relation, tamper
    evidence, and what an append leaves.
  \<^item> Capacity, Locks, Caddy_Startup: admission arithmetic; lock order, possession and absence of deadlock;
    the startup protocol as a store with bounded, fenced attempts.
  \<^item> Zip_Entries, Zip_Paths, Zip_Structure, Zip_Extraction (\<^verbatim>\<open>zip_structure.py\<close>): parsing of the central
    directory, path rules, the tiling of local regions, order and capacity of the extraction.
  \<^item> Durable (\<^verbatim>\<open>durable.py\<close>): the state directory as a tree of inodes, and its reads, publications and scans.
    State_Inventory (\<^verbatim>\<open>state_inventory.py\<close>): the bounded inventories. State_Records, State_Repository,
    State_Namespace (\<^verbatim>\<open>repository.py\<close>): record paths, bindings, revisions and every operation of the
    transaction on the records. Recovery_Fairness: the durable rotation of the recovery batches.
  \<^item> Record_Store, Repository_Steps, Repository_Refinement, Repository_Properties: the tree of files read as an
    abstract store of records; its permitted steps as an inductive relation; every operation of the
    transaction, also one that raises, implements a sequence of them; what every history of operations
    therefore keeps. Repository_Samples: a small repository the properties are applied to.
  \<^item> Commit_Steps, Create_Commit (\<^verbatim>\<open>create_commit.py\<close>): the terminal commit of a create, over a record of the
    operations of its transaction protocol; the failure hook is a function that may raise at each boundary.
    Commit_Laws: the promises of such a transaction as the locales \<^verbatim>\<open>commit_store\<close> and \<^verbatim>\<open>create_store\<close>, the
    stages of a commit, and what the commit leaves whether it returns or raises. Repository_Commit: the
    transaction of the repository with the audit log beside its tree, and the interpretation of the locales on
    it. Commit_Properties, Commit_Samples: one commit, repeated commits after failures, plans and commits
    together, and a sample plan.
  \<^item> Route_Commit (\<^verbatim>\<open>route_commit.py\<close>), Route_Laws: the terminal commit of a transition that only changes
    routes, on the same common steps and promises, and the interpretation on the repository.
  \<^item> Deployment_Commit (\<^verbatim>\<open>deployment_commit.py\<close>), Deployment_Laws, Deployment_Repository: the terminal commit of a
    deploy, an import or a rollback, with the retirement of the deployments beyond the last three. The release
    store is a record of the two operations it calls, over a state of its own. The promises are the locale
    \<^verbatim>\<open>deployment_store\<close>, interpreted on the repository with any release store beside it.
  \<^item> Rate_Limit, Correlations (\<^verbatim>\<open>correlations.py\<close>): the admission of authorized requests. The rate limit is a
    token bucket replayed over the history, shown equal to a bound on every window of time. Retries, admission
    and the repair of interrupted pairs run over the transaction protocol of the commits with two more operations.
    Correlation_Pairs: the repairs that the plan of a reconciliation makes. Correlation_Laws: the promises of the
    transaction as the locale \<^verbatim>\<open>correlation_store\<close>, and what admission, retries and startup leave, whether they
    return or raise. Correlation_Repository: the interpretation on the repository and the properties.
    Correlation_Samples: a retry and a startup on the sample repository.
  \<^bold>\<open>Conventions.\<close> A function that may raise returns \<^verbatim>\<open>exn + 'a\<close>, every raise and early return a branch;
  Python integers are \<^verbatim>\<open>int\<close> or \<^verbatim>\<open>nat\<close>, bytes are \<^verbatim>\<open>8 word\<close> lists; a document is a \<^verbatim>\<open>json\<close> value
  compared structurally, \<^verbatim>\<open>None\<close> is \<^verbatim>\<open>JNull\<close>. Guards on the static type of an argument (\<^verbatim>\<open>type(x) is not int\<close>
  where the model's type already says so) are dropped; copies are the values themselves. Clock, entropy,
  \<^verbatim>\<open>stat\<close>, \<^verbatim>\<open>fstatvfs\<close> and \<^verbatim>\<open>flock\<close> outcomes are arguments.

  \<^bold>\<open>Parameters and hypotheses.\<close> \<^verbatim>\<open>rfc8785.dumps\<close> and the JSON scanner are the fields of a codec;
  \<^verbatim>\<open>codec_ok\<close> says that scanning what was dumped gives the value back, \<^verbatim>\<open>archive_laws\<close> adds that a dumped
  object has no line break and that the entry schema requires its members. The JSON Schema engine is
  the unconstrained function \<^verbatim>\<open>iter_errors\<close>; Unicode normalization and case folding are the record
  \<^verbatim>\<open>unicode\<close>. Collision resistance is never assumed: a statement that needs it has the collision as a
  disjunct.

  \<^bold>\<open>Bounds and fuel.\<close> No definition uses fuel; loops are structural recursions over the bytes or records
  the code iterates over, and the bounds of the code (frame sizes, segment sizes, three startup attempts,
  three retained deployments) are the code's constants.

  \<^bold>\<open>Not modelled.\<close> The file-system, process, network and service modules of the host agent (host restore,
  backup, exports, Caddy configuration generation and runtime, remote archives, entry points), the
  schema files and the JSON Schema engine, the YAML client, the qualification tools and scripts, and the
  infrastructure code: they are I/O around the data and decisions modelled here, or third-party
  evaluators. The inflating of ZIP members and the lending of lock descriptors to other processes are
  left out of components that are otherwise modelled.
\<close>

end
